(* ===== verification/Prelude.thy ===== *)
theory Prelude
  imports Main "HOL-Library.Word" "HOL-Library.Sublist"
begin

text \<open>
  Shared vocabulary of the development: the machine integers and times of the Go sources, errors
  as values, the chain of early returns that every validator of the code base is written as, and
  the parts of Go's \<^verbatim>\<open>strings\<close> and \<^verbatim>\<open>regexp\<close> packages that the modelled code calls.

  A Go function that returns only an \<^verbatim>\<open>error\<close> is a function into \<open>'e option\<close>: \<open>None\<close> is the
  \<^verbatim>\<open>nil\<close> error. One that returns a value and an error is a function into \<open>'e + 'a\<close>.
  A Go string is a sequence of bytes, so it is a \<open>string\<close> (a list of 8-bit characters).
\<close>

section \<open>Types of the Go language\<close>

type_synonym int64 = "64 word"
type_synonym int32 = "32 word"
type_synonym uint16 = "16 word"

text \<open>Byte slices and strings are both lists of bytes.\<close>

type_synonym bytes = string

text \<open>
  A \<^verbatim>\<open>time.Time\<close> is the number of nanoseconds since Go's zero time (\<^verbatim>\<open>IsZero\<close> compares with it).
\<close>

type_synonym Time = int

definition time_IsZero :: "Time \<Rightarrow> bool" where
  "time_IsZero t \<longleftrightarrow> t = 0"

definition time_Second :: int where "time_Second = 1000000000"
definition time_Minute :: int where "time_Minute = 60 * time_Second"

text \<open>A conversion of \<^verbatim>\<open>len(xs)\<close> to a 32-bit integer wraps around.\<close>

definition int32_of_len :: "'a list \<Rightarrow> int32" where
  "int32_of_len xs = word_of_nat (length xs)"

text \<open>Indexing a \<^verbatim>\<open>map[string]string\<close> with an absent key gives the empty string.\<close>

definition mget :: "(string \<rightharpoonup> string) \<Rightarrow> string \<Rightarrow> string" where
  "mget m k = (case m k of None \<Rightarrow> [] | Some v \<Rightarrow> v)"

text \<open>Signed readings that do not wrap.\<close>

lemma sint_add_one:
  fixes g :: int64
  assumes "sint g < 2 ^ 63 - 1"
  shows "sint (g + 1) = sint g + 1"
proof -
  have "- (2 ^ 63) \<le> sint g" using sint_ge [of g] by simp
  then show ?thesis using assms by (simp add: sint_word_ariths signed_take_bit_int_eq_self)
qed

lemma sint_int32_of_len:
  assumes "length xs < 2 ^ 31"
  shows "sint (int32_of_len xs) = int (length xs)"
  using assms by (simp add: int32_of_len_def signed_of_nat signed_take_bit_int_eq_self)

section \<open>Collections of facts\<close>

named_theorems guard_simps \<open>when a chain of early returns reaches its end\<close>
named_theorems phase_simps \<open>unfolding the phase predicates\<close>
named_theorems admission_simps \<open>unfolding admission rules\<close>

section \<open>Early returns\<close>

text \<open>\<^verbatim>\<open>if c { return e }\<close>, and the sequence of such statements followed by \<^verbatim>\<open>return nil\<close>.\<close>

definition guard :: "bool \<Rightarrow> 'e \<Rightarrow> 'e option" where
  "guard c e = (if c then Some e else None)"

fun first_error :: "'e option list \<Rightarrow> 'e option" where
  "first_error [] = None"
| "first_error (Some e # xs) = Some e"
| "first_error (None # xs) = first_error xs"

text \<open>\<^verbatim>\<open>for _, x := range xs { if err := f(x); err != nil { return err } }\<close>\<close>

fun first_error_in :: "('a \<Rightarrow> 'e option) \<Rightarrow> 'a list \<Rightarrow> 'e option" where
  "first_error_in f [] = None"
| "first_error_in f (x # xs) = (case f x of Some e \<Rightarrow> Some e | None \<Rightarrow> first_error_in f xs)"

lemma guard_None [simp, guard_simps]: "guard c e = None \<longleftrightarrow> \<not> c"
  by (simp add: guard_def)

lemma guard_Some [simp]: "guard c e = Some e' \<longleftrightarrow> c \<and> e' = e"
  by (auto simp: guard_def)

lemma guard_True [simp]: "guard True e = Some e"
  and guard_False [simp]: "guard False e = None"
  by (simp_all add: guard_def)

lemma first_error_Nil [guard_simps]: "first_error [] = None"
  by simp

lemma first_error_Cons [guard_simps]:
  "first_error (x # xs) = None \<longleftrightarrow> x = None \<and> first_error xs = None"
  by (cases x) simp_all

lemma first_error_None_iff: "first_error xs = None \<longleftrightarrow> set xs \<subseteq> {None}"
  by (induction xs) (auto simp: first_error_Cons)

lemma first_error_mem: "first_error xs = Some e \<Longrightarrow> Some e \<in> set xs"
  by (induction xs rule: first_error.induct) auto

lemma first_error_in_None [guard_simps]:
  "first_error_in f xs = None \<longleftrightarrow> (\<forall>x\<in>set xs. f x = None)"
  by (induction xs) (auto split: option.splits)

text \<open>A loop whose body looks at the elements before the current one.\<close>

fun errors_along :: "('a list \<Rightarrow> 'a \<Rightarrow> 'e option) \<Rightarrow> 'a list \<Rightarrow> 'a list \<Rightarrow> 'e option" where
  "errors_along f before [] = None"
| "errors_along f before (x # xs) =
     (case f before x of Some e \<Rightarrow> Some e | None \<Rightarrow> errors_along f (before @ [x]) xs)"

lemma errors_along_None:
  "errors_along f before xs = None \<longleftrightarrow> (\<forall>i < length xs. f (before @ take i xs) (xs ! i) = None)"
proof (induction xs arbitrary: before)
  case Nil
  then show ?case by simp
next
  case (Cons x xs)
  show ?case
  proof (cases "f before x")
    case None
    have "(\<forall>i < length xs. f ((before @ [x]) @ take i xs) (xs ! i) = None) \<longleftrightarrow>
          (\<forall>i < length (x # xs). f (before @ take i (x # xs)) ((x # xs) ! i) = None)"
      using None by (auto simp: less_Suc_eq_0_disj)
    with None Cons [of "before @ [x]"] show ?thesis by simp
  next
    case (Some e)
    then show ?thesis by auto
  qed
qed

lemma distinct_map_nth: "(\<And>i j. i < j \<Longrightarrow> j < length xs \<Longrightarrow> g (xs ! i) \<noteq> g (xs ! j)) \<Longrightarrow> distinct (map g xs)"
  by (simp add: distinct_conv_nth) (metis linorder_neqE_nat)

lemma errors_along_each: "errors_along f before xs = None \<Longrightarrow> x \<in> set xs \<Longrightarrow> \<exists>b. f b x = None"
  by (auto simp: errors_along_None in_set_conv_nth)

text \<open>A loop that refuses a value seen before accepts distinct values only.\<close>

lemma errors_along_distinct:
  assumes "errors_along f before xs = None" "\<And>b x. f b x = None \<Longrightarrow> g x \<notin> g ` set b"
  shows "distinct (map g xs)"
proof (rule distinct_map_nth)
  fix i j
  assume ij: "i < j" "j < length xs"
  then have "f (before @ take j xs) (xs ! j) = None" using assms(1) by (simp add: errors_along_None)
  then have "g (xs ! j) \<notin> g ` set (before @ take j xs)" by (rule assms(2))
  moreover have "xs ! i \<in> set (take j xs)" using ij by (auto simp: in_set_conv_nth intro: exI [of _ i])
  ultimately show "g (xs ! i) \<noteq> g (xs ! j)" by (metis UnCI image_eqI set_append)
qed

section \<open>Go's strings package\<close>

text \<open>\<^verbatim>\<open>strings.HasPrefix\<close>, \<^verbatim>\<open>strings.HasSuffix\<close>, \<^verbatim>\<open>strings.Contains\<close>.\<close>

definition HasPrefix :: "string \<Rightarrow> string \<Rightarrow> bool" where
  "HasPrefix s p \<longleftrightarrow> take (length p) s = p"

definition HasSuffix :: "string \<Rightarrow> string \<Rightarrow> bool" where
  "HasSuffix s p \<longleftrightarrow> HasPrefix (rev s) (rev p)"

fun Contains :: "string \<Rightarrow> string \<Rightarrow> bool" where
  "Contains [] p = (p = [])"
| "Contains (c # s) p = (HasPrefix (c # s) p \<or> Contains s p)"

lemma Contains_char: "Contains s [c] \<longleftrightarrow> c \<in> set s"
  by (induction s) (auto simp: HasPrefix_def)

definition ContainsAny :: "string \<Rightarrow> string \<Rightarrow> bool" where
  "ContainsAny s chars \<longleftrightarrow> list_ex (\<lambda>c. c \<in> set chars) s"

definition TrimPrefix :: "string \<Rightarrow> string \<Rightarrow> string" where
  "TrimPrefix s p = (if HasPrefix s p then drop (length p) s else s)"

text \<open>\<^verbatim>\<open>strings.Split(s, sep)\<close> and \<^verbatim>\<open>strings.Cut(s, sep)\<close> for a separator of one byte.\<close>

fun Split :: "string \<Rightarrow> char \<Rightarrow> string list" where
  "Split [] sep = [[]]"
| "Split (c # s) sep =
     (if c = sep then [] # Split s sep
      else (case Split s sep of [] \<Rightarrow> [[c]] | p # ps \<Rightarrow> (c # p) # ps))"

fun Cut :: "string \<Rightarrow> char \<Rightarrow> string \<times> string \<times> bool" where
  "Cut [] sep = ([], [], False)"
| "Cut (c # s) sep =
     (if c = sep then ([], s, True)
      else (case Cut s sep of (a, b, found) \<Rightarrow> (c # a, b, found)))"

text \<open>The UTF-8 encodings of the characters \<^verbatim>\<open>unicode.IsSpace\<close> accepts.\<close>

definition space_encodings :: "string list" where
  "space_encodings =
     [[CHR 0x09], [CHR 0x0A], [CHR 0x0B], [CHR 0x0C], [CHR 0x0D], [CHR 0x20],
      [CHR 0xC2, CHR 0x85], [CHR 0xC2, CHR 0xA0], [CHR 0xE1, CHR 0x9A, CHR 0x80],
      [CHR 0xE2, CHR 0x80, CHR 0x80], [CHR 0xE2, CHR 0x80, CHR 0x81],
      [CHR 0xE2, CHR 0x80, CHR 0x82], [CHR 0xE2, CHR 0x80, CHR 0x83],
      [CHR 0xE2, CHR 0x80, CHR 0x84], [CHR 0xE2, CHR 0x80, CHR 0x85],
      [CHR 0xE2, CHR 0x80, CHR 0x86], [CHR 0xE2, CHR 0x80, CHR 0x87],
      [CHR 0xE2, CHR 0x80, CHR 0x88], [CHR 0xE2, CHR 0x80, CHR 0x89],
      [CHR 0xE2, CHR 0x80, CHR 0x8A], [CHR 0xE2, CHR 0x80, CHR 0xA8],
      [CHR 0xE2, CHR 0x80, CHR 0xA9], [CHR 0xE2, CHR 0x80, CHR 0xAF],
      [CHR 0xE2, CHR 0x81, CHR 0x9F], [CHR 0xE3, CHR 0x80, CHR 0x80]]"

text \<open>
  \<open>trim_front encs n s\<close> removes at most \<open>n\<close> leading members of \<open>encs\<close>; every removal shortens
  the string, so \<open>length s\<close> rounds are enough.
\<close>

fun trim_front :: "string list \<Rightarrow> nat \<Rightarrow> string \<Rightarrow> string" where
  "trim_front encs 0 s = s"
| "trim_front encs (Suc n) s =
     (case find (HasPrefix s) encs of
        None \<Rightarrow> s
      | Some e \<Rightarrow> trim_front encs n (drop (length e) s))"

definition TrimSpace :: "string \<Rightarrow> string" where
  "TrimSpace s =
     (let front = trim_front space_encodings (length s) s
      in rev (trim_front (map rev space_encodings) (length front) (rev front)))"

lemma TrimSpace_Nil [simp]: "TrimSpace [] = []"
  by (simp add: TrimSpace_def)

lemma HasPrefix_iff: "HasPrefix s p \<longleftrightarrow> (\<exists>t. s = p @ t)"
  by (metis HasPrefix_def append_eq_conv_conj append_take_drop_id)

lemma HasPrefix_append [simp]: "HasPrefix (p @ t) p"
  by (simp add: HasPrefix_def)

lemma HasPrefix_Nil [simp]: "HasPrefix s []"
  by (simp add: HasPrefix_def)

lemma HasPrefix_length: "HasPrefix s p \<Longrightarrow> length p \<le> length s"
  by (auto simp: HasPrefix_iff)

lemma TrimPrefix_append [simp]: "TrimPrefix (p @ t) p = t"
  by (simp add: TrimPrefix_def)

lemma Split_not_Nil [simp]: "Split s sep \<noteq> []"
  by (cases s) (auto split: list.splits)

lemma Split_no_sep: "sep \<notin> set s \<Longrightarrow> Split s sep = [s]"
  by (induction s) auto

lemma Split_append_sep: "sep \<notin> set a \<Longrightarrow> Split (a @ sep # b) sep = a # Split b sep"
  by (induction a) auto

lemma Cut_no_sep: "sep \<notin> set s \<Longrightarrow> Cut s sep = (s, [], False)"
  by (induction s) auto

lemma Cut_append_sep: "sep \<notin> set a \<Longrightarrow> Cut (a @ sep # b) sep = (a, b, True)"
  by (induction a) auto

text \<open>A name without the separator can be read back from a string it is joined with.\<close>

lemma append_sep_eq:
  fixes a :: string
  assumes "sep \<notin> set a" "sep \<notin> set a'" "a @ sep # b = a' @ sep # b'"
  shows "a = a' \<and> b = b'"
proof -
  have "Cut (a @ sep # b) sep = Cut (a' @ sep # b') sep"
    using assms(3) by simp
  then show ?thesis using assms(1,2) by (simp add: Cut_append_sep)
qed

section \<open>Character classes of the regular expressions\<close>

definition is_lower :: "char \<Rightarrow> bool" where
  "is_lower c \<longleftrightarrow> 97 \<le> (of_char c :: nat) \<and> (of_char c :: nat) \<le> 122"

definition is_upper :: "char \<Rightarrow> bool" where
  "is_upper c \<longleftrightarrow> 65 \<le> (of_char c :: nat) \<and> (of_char c :: nat) \<le> 90"

definition is_digit :: "char \<Rightarrow> bool" where
  "is_digit c \<longleftrightarrow> 48 \<le> (of_char c :: nat) \<and> (of_char c :: nat) \<le> 57"

definition is_lower_hex :: "char \<Rightarrow> bool" where
  "is_lower_hex c \<longleftrightarrow> is_digit c \<or> (97 \<le> (of_char c :: nat) \<and> (of_char c :: nat) \<le> 102)"

abbreviation is_alnum :: "char \<Rightarrow> bool" where
  "is_alnum c \<equiv> is_lower c \<or> is_digit c"

text \<open>
  \<^verbatim>\<open>^[a-z0-9](?:[-a-z0-9]{0,61}[a-z0-9])?$\<close>, the lowercase DNS label; its variant that starts with a
  letter; and the other shapes that occur in several packages.
\<close>

definition dns_label :: "string \<Rightarrow> bool" where
  "dns_label s \<longleftrightarrow> s \<noteq> [] \<and> length s \<le> 63 \<and> is_alnum (hd s) \<and> is_alnum (last s) \<and>
     list_all (\<lambda>c. is_alnum c \<or> c = CHR ''-'') s"

definition dns_name_label :: "string \<Rightarrow> bool" where
  "dns_name_label s \<longleftrightarrow> dns_label s \<and> is_lower (hd s)"

text \<open>\<^verbatim>\<open>^sha256:[0-9a-f]{64}$\<close>\<close>

definition sha256_pattern :: "string \<Rightarrow> bool" where
  "sha256_pattern s \<longleftrightarrow> HasPrefix s ''sha256:'' \<and> length s = 71 \<and> list_all is_lower_hex (drop 7 s)"

lemmas char_class_defs = is_lower_def is_upper_def is_digit_def is_lower_hex_def

lemma dns_labelD:
  assumes "dns_label s"
  shows "s \<noteq> []" "length s \<le> 63" "\<forall>c\<in>set s. is_alnum c \<or> c = CHR ''-''"
  using assms by (auto simp: dns_label_def list_all_iff)

lemma dns_label_no_slash: "dns_label s \<Longrightarrow> CHR ''/'' \<notin> set s"
  by (fastforce dest: dns_labelD(3) simp: char_class_defs)

lemma sha256_pattern_append: 
  "length h = 64 \<Longrightarrow> list_all is_lower_hex h \<Longrightarrow> sha256_pattern (''sha256:'' @ h)"
  by (simp add: sha256_pattern_def HasPrefix_def)

end
