(* ===== verification/ApiTypes.thy ===== *)
theory ApiTypes
  imports Prelude
begin

text \<open>
  The custom resources of \<^verbatim>\<open>api/v1alpha1\<close>: \<^verbatim>\<open>GameServer\<close>, \<^verbatim>\<open>GameBackup\<close>, \<^verbatim>\<open>GameRestore\<close>,
  \<^verbatim>\<open>GameDestroy\<close> and \<^verbatim>\<open>ArcadeOperation\<close>, one record per Go struct and one datatype per string
  enumeration. An enumeration type of Go is a string, so each datatype has a constructor for the
  strings outside the declared constants, and one for the empty string where the code tests for it.
  An embedded struct is a field, a pointer to a struct is an option. \<^verbatim>\<open>resource.Quantity\<close> is
  represented by its serialized string: the modelled code only passes it on.

  Field names carry a prefix of their record, since Isabelle's selectors are global.
\<close>

type_synonym Quantity = string
type_synonym UID = string

section \<open>Kubernetes metadata\<close>

text \<open>The fields of \<^verbatim>\<open>metav1.Condition\<close>, \<^verbatim>\<open>metav1.OwnerReference\<close> and \<^verbatim>\<open>metav1.ObjectMeta\<close> in use.\<close>

datatype ConditionStatus = ConditionTrue | ConditionFalse | ConditionUnknown

record Condition =
  cond_Type :: string
  cond_Status :: ConditionStatus
  cond_ObservedGeneration :: int64
  cond_LastTransitionTime :: Time
  cond_Reason :: string
  cond_Message :: string

record OwnerReference =
  owner_APIVersion :: string
  owner_Kind :: string
  owner_Name :: string
  owner_UID :: UID
  owner_Controller :: "bool option"
  owner_BlockOwnerDeletion :: "bool option"

record ObjectMeta =
  meta_Name :: string
  meta_Namespace :: string
  meta_UID :: UID
  meta_ResourceVersion :: string
  meta_Generation :: int64
  meta_DeletionTimestamp :: "Time option"
  meta_Labels :: "string \<rightharpoonup> string"
  meta_Annotations :: "string \<rightharpoonup> string"
  meta_OwnerReferences :: "OwnerReference list"
  meta_Finalizers :: "string list"

section \<open>gameserver\_types.go\<close>

datatype DesiredState = DesiredStateRunning | DesiredStateStopped | DesiredStateOther string

datatype GameServerPhase =
    PhasePending | PhaseStarting | PhaseReady | PhaseStopping | PhaseStopped | PhaseFailed
  | PhaseOther string

text \<open>Exact references are declared in operation\_types.go and used by every resource.\<close>

record ExactLocalReference =
  ref_Namespace :: "string option"
  ref_Name :: string
  ref_UID :: string

record ExactGameServerReference =
  gref_Local :: ExactLocalReference
  gref_Generation :: int64
  gref_DesiredState :: DesiredState

record ExactSecretReference =
  sref_Local :: ExactLocalReference
  sref_ResourceVersion :: string

record RetainedDataClaimReference =
  rclaim_Path :: string
  rclaim_ClaimRef :: ExactLocalReference

record RetainedDataReference =
  rdata_Identity :: string
  rdata_Claims :: "RetainedDataClaimReference list"

record ComputeSpec =
  comp_CPURequest :: Quantity
  comp_CPULimit :: Quantity
  comp_MemoryRequest :: Quantity
  comp_MemoryLimit :: Quantity

record StorageSpec =
  stor_Size :: Quantity
  stor_StorageClassName :: "string option"
  stor_Reattach :: "RetainedDataReference option"

record GameServerSpec =
  gss_Game :: string
  gss_ImageDigest :: string
  gss_DesiredState :: DesiredState
  gss_Compute :: ComputeSpec
  gss_Storage :: StorageSpec
  gss_Settings :: bytes

record ObservedEndpoint =
  oe_Name :: string
  oe_Protocol :: string
  oe_Address :: string
  oe_Port :: int32

record GameServerStatus =
  gst_ObservedGeneration :: int64
  gst_ActiveData :: "RetainedDataReference option"
  gst_ObservedData :: "RetainedDataReference option"
  gst_Phase :: GameServerPhase
  gst_Conditions :: "Condition list"
  gst_Endpoints :: "ObservedEndpoint list"

record GameServer =
  gs_Meta :: ObjectMeta
  gs_Spec :: GameServerSpec
  gs_Status :: GameServerStatus

section \<open>operation\_types.go\<close>

datatype DataOperationPhase =
    DataPhaseEmpty | DataPhasePending | DataPhaseBlocked | DataPhasePreparing | DataPhaseRunning
  | DataPhaseVerifying | DataPhaseActivating | DataPhaseRollingBack | DataPhaseCancelling
  | DataPhaseCancelled | DataPhaseSucceeded | DataPhaseFailed | DataPhaseOther string

definition ReasonInvalidReference :: string where "ReasonInvalidReference = ''InvalidReference''"
definition ReasonIdentityMismatch :: string where "ReasonIdentityMismatch = ''IdentityMismatch''"
definition ReasonSecretUnavailable :: string where "ReasonSecretUnavailable = ''SecretUnavailable''"
definition ReasonColdStopPending :: string where "ReasonColdStopPending = ''ColdStopPending''"
definition ReasonStorageUnavailable :: string where
  "ReasonStorageUnavailable = ''StorageUnavailable''"
definition ReasonOperationConflict :: string where "ReasonOperationConflict = ''OperationConflict''"
definition ReasonWorkerRetrying :: string where "ReasonWorkerRetrying = ''WorkerRetrying''"
definition ReasonWorkerFailed :: string where "ReasonWorkerFailed = ''WorkerFailed''"
definition ReasonVerificationFailed :: string where
  "ReasonVerificationFailed = ''VerificationFailed''"
definition ConditionOperationComplete :: string where "ConditionOperationComplete = ''Complete''"

datatype RestartPolicy = RestartLeaveStopped | RestartRestorePreviousState | RestartOther string

datatype ArtifactRetentionPolicy = ArtifactRetentionRetain | ArtifactRetentionOther string

datatype VerificationResult =
  VerificationPending | VerificationVerified | VerificationFailed | VerificationOther string

record ColdDataFence =
  fence_GameServer :: ExactGameServerReference
  fence_EstablishedAt :: Time

record RuntimeDisposition =
  rt_GameServer :: ExactGameServerReference
  rt_Phase :: GameServerPhase
  rt_CompletedAt :: Time

text \<open>\<^verbatim>\<open>InlineCredentials\<close> has no fields: a pointer to it is present or absent.\<close>

record DataOperationRequest =
  req_InlineCredentials :: "unit option"
  req_RepositorySecretRef :: ExactSecretReference
  req_RestartPolicy :: RestartPolicy
  req_CancelRequested :: bool

record GameBackupSpec =
  bspec_Request :: DataOperationRequest
  bspec_Source :: ExactGameServerReference
  bspec_SourceData :: "RetainedDataReference option"
  bspec_RetentionPolicy :: ArtifactRetentionPolicy

record GameRestoreSpec =
  rspec_Request :: DataOperationRequest
  rspec_BackupRef :: ExactLocalReference
  rspec_Target :: ExactGameServerReference
  rspec_TargetData :: "RetainedDataReference option"

record DataPathIdentity =
  dp_Name :: string
  dp_MountPath :: string
  dp_ClaimRef :: ExactLocalReference

record DataSourceSnapshot =
  src_GameServer :: ExactGameServerReference
  src_Game :: string
  src_ImageDigest :: string
  src_SettingsDigest :: string
  src_Paths :: "DataPathIdentity list"

record ArtifactVerification =
  ver_Result :: VerificationResult
  ver_VerifiedAt :: "Time option"

record ArtifactProvenance =
  prov_BackupRef :: ExactLocalReference
  prov_RepositorySecretRef :: ExactSecretReference

record CandidateDataVerification =
  cver_Result :: VerificationResult
  cver_ManifestDigest :: string
  cver_PathCount :: int32
  cver_VerifiedAt :: Time

record BackupArtifact =
  art_Provenance :: ArtifactProvenance
  art_ID :: string
  art_FormatVersion :: string
  art_ManifestDigest :: string
  art_SizeBytes :: int64
  art_PathCount :: int32
  art_CreatedAt :: Time
  art_Verification :: ArtifactVerification

record DataOperationStatus =
  st_ObservedGeneration :: int64
  st_Phase :: DataOperationPhase
  st_Attempts :: int32
  st_StartedAt :: "Time option"
  st_CompletedAt :: "Time option"
  st_Conditions :: "Condition list"
  st_Source :: "DataSourceSnapshot option"
  st_Fence :: "ColdDataFence option"
  st_Artifact :: "BackupArtifact option"
  st_Runtime :: "RuntimeDisposition option"

record RestoreRuntimeJournal =
  jr_PreviousRecoveryGeneration :: int64
  jr_CandidateStartGeneration :: int64
  jr_RollbackStopGeneration :: int64
  jr_RollbackRestartGeneration :: int64

record GameRestoreStatus =
  rst_Data :: DataOperationStatus
  rst_PopulateAttempts :: int32
  rst_PopulateRetryPending :: bool
  rst_PopulateJobUID :: string
  rst_PreviousDataIdentity :: string
  rst_PreflightVerifiedAt :: "Time option"
  rst_RuntimeJournal :: "RestoreRuntimeJournal option"
  rst_ActivationStartedAt :: "Time option"
  rst_CandidateVerification :: "CandidateDataVerification option"
  rst_CandidateData :: "DataPathIdentity list"
  rst_ActiveData :: "DataPathIdentity list"
  rst_PreviousData :: "DataPathIdentity list"

text \<open>\<^verbatim>\<open>GameBackupStatus\<close> only embeds \<^verbatim>\<open>DataOperationStatus\<close>.\<close>

type_synonym GameBackupStatus = DataOperationStatus

record GameBackup =
  gb_Meta :: ObjectMeta
  gb_Spec :: GameBackupSpec
  gb_Status :: GameBackupStatus

record GameRestore =
  gr_Meta :: ObjectMeta
  gr_Spec :: GameRestoreSpec
  gr_Status :: GameRestoreStatus

section \<open>destroy\_types.go\<close>

datatype GameDestroyMode =
  DestroyModeVerifiedBackup | DestroyModeUnsafeNoBackup | DestroyModeOther string

datatype GameDestroyPhase =
    DestroyPhaseEmpty | DestroyPhasePending | DestroyPhasePreview | DestroyPhaseVerifying
  | DestroyPhaseDeleting | DestroyPhaseSucceeded | DestroyPhaseFailed | DestroyPhaseCancelled
  | DestroyPhaseOther string

record GameDestroyTarget =
  dt_GameServer :: ExactLocalReference
  dt_Game :: string
  dt_Data :: RetainedDataReference

record GameDestroySpec =
  ds_Target :: GameDestroyTarget
  ds_Mode :: GameDestroyMode
  ds_BackupRef :: "ExactLocalReference option"
  ds_RepositorySecretRef :: "ExactSecretReference option"
  ds_UnsafeReason :: string
  ds_ConfirmationChallenge :: string
  ds_CancelRequested :: bool

record GameDestroyPreview =
  pv_Challenge :: string
  pv_ExpiresAt :: Time
  pv_RestoreGuidance :: string

record GameDestroyVerification =
  dv_BackupRef :: ExactLocalReference
  dv_RepositorySecretRef :: ExactSecretReference
  dv_ArtifactID :: string
  dv_ManifestDigest :: string
  dv_PathCount :: int32
  dv_VerifiedAt :: Time
  dv_ColdAt :: Time

record GameDestroyClaimDeletion =
  cd_Path :: string
  cd_ClaimRef :: ExactLocalReference
  cd_RequestedAt :: Time
  cd_ObservedDeletedAt :: "Time option"

record GameDestroyStatus =
  dst_ObservedGeneration :: int64
  dst_Phase :: GameDestroyPhase
  dst_StartedAt :: "Time option"
  dst_CompletedAt :: "Time option"
  dst_Conditions :: "Condition list"
  dst_Preview :: "GameDestroyPreview option"
  dst_Verification :: "GameDestroyVerification option"
  dst_DeletionJournal :: "GameDestroyClaimDeletion list"

record GameDestroy =
  gd_Meta :: ObjectMeta
  gd_Spec :: GameDestroySpec
  gd_Status :: GameDestroyStatus

section \<open>arcadeoperation\_types.go\<close>

datatype ArcadeOperationAction =
    OperationServerCreate | OperationServerConfigure | OperationServerStart | OperationServerStop
  | OperationServerRestart | OperationServerUpdate | OperationWorldBackup | OperationWorldRestore
  | OperationServerDecommission | OperationWorldDestroyPreview | OperationWorldDestroyConfirm
  | OperationWorldDestroyCancel | OperationOther string

datatype ArcadeOperationPhase =
    OperationPhaseEmpty | OperationPhaseAccepted | OperationPhasePlanning | OperationPhaseRunning
  | OperationPhaseAwaitingConfirmation | OperationPhaseVerifying | OperationPhaseDeleting
  | OperationPhaseSucceeded | OperationPhaseFailed | OperationPhaseCancelled
  | OperationPhaseOther string

record OperationAdmission =
  adm_PrincipalID :: string
  adm_CredentialID :: string
  adm_RequestID :: string
  adm_AdmittedAt :: Time
  adm_CredentialExpiresAt :: Time

record OperationImageResolution =
  ires_Repository :: string
  ires_Tag :: string
  ires_Digest :: string
  ires_ResolvedAt :: Time
  ires_ResolverVersion :: string

record OperationImageInput =
  img_Digest :: string
  img_Version :: string
  img_Resolution :: OperationImageResolution

record OperationRetainedWorldSelector =
  sel_DecommissionOperationRef :: ExactLocalReference
  sel_SnapshotDigest :: string

record OperationServerIntent =
  int_Game :: string
  int_ImageDigest :: string
  int_DesiredState :: DesiredState
  int_Compute :: ComputeSpec
  int_Storage :: StorageSpec
  int_SettingsJSON :: string

record OperationCreateInput =
  cin_Game :: string
  cin_DesiredState :: DesiredState
  cin_Compute :: ComputeSpec
  cin_Storage :: StorageSpec
  cin_SettingsJSON :: string
  cin_RetainedWorld :: "OperationRetainedWorldSelector option"

record OperationConfigureInput =
  cfg_Compute :: "ComputeSpec option"
  cfg_Storage :: "StorageSpec option"
  cfg_SettingsJSON :: "string option"

record OperationBackupInput =
  bin_RepositorySecretName :: string
  bin_RestartPolicy :: RestartPolicy

record OperationRestoreInput =
  rin_BackupRef :: ExactLocalReference
  rin_RestartPolicy :: RestartPolicy

record OperationDestroyInput =
  din_BackupRef :: ExactLocalReference
  din_RetainedWorld :: "OperationRetainedWorldSelector option"

record OperationDestroyCommand =
  dcmd_ParentOperationRef :: ExactLocalReference
  dcmd_DestroyRef :: ExactLocalReference
  dcmd_Challenge :: string

record OperationRequest =
  oreq_Precondition :: string
  oreq_ServerName :: string
  oreq_Target :: "ExactGameServerReference option"
  oreq_Create :: "OperationCreateInput option"
  oreq_Configure :: "OperationConfigureInput option"
  oreq_Image :: "OperationImageInput option"
  oreq_Backup :: "OperationBackupInput option"
  oreq_Restore :: "OperationRestoreInput option"
  oreq_Destroy :: "OperationDestroyInput option"
  oreq_DestroyCommand :: "OperationDestroyCommand option"

record ArcadeOperationSpec =
  aos_Version :: string
  aos_Action :: ArcadeOperationAction
  aos_Admission :: OperationAdmission
  aos_KeyDigest :: string
  aos_RequestDigest :: string
  aos_Request :: OperationRequest

record OperationPlan =
  opl_Server :: "ExactGameServerReference option"
  opl_ServerIntent :: "OperationServerIntent option"
  opl_Data :: "RetainedDataReference option"
  opl_RepositorySecretRef :: "ExactSecretReference option"
  opl_BackupRef :: "ExactLocalReference option"
  opl_DestroyRef :: "ExactLocalReference option"

record OperationChildReference =
  och_Kind :: string
  och_Local :: ExactLocalReference
  och_Generation :: int64

record OperationServerTransition =
  otr_Step :: string
  otr_FromGeneration :: int64
  otr_ToGeneration :: int64
  otr_DesiredState :: DesiredState
  otr_SpecDigest :: string
  otr_RequestedAt :: Time

record OperationRetainedWorld =
  orw_Target :: GameDestroyTarget
  orw_SnapshotDigest :: string

record OperationFailure =
  ofl_Code :: string
  ofl_Retryable :: bool
  ofl_Message :: string
  ofl_SuggestedAction :: string

record ArcadeOperationStatus =
  aost_ObservedGeneration :: int64
  aost_Phase :: ArcadeOperationPhase
  aost_StartedAt :: "Time option"
  aost_CompletedAt :: "Time option"
  aost_Plan :: "OperationPlan option"
  aost_Child :: "OperationChildReference option"
  aost_Transitions :: "OperationServerTransition list"
  aost_RetainedWorld :: "OperationRetainedWorld option"
  aost_DestroyPreview :: "GameDestroyPreview option"
  aost_Failure :: "OperationFailure option"
  aost_Conditions :: "Condition list"

record ArcadeOperation =
  ao_Meta :: ObjectMeta
  ao_Spec :: ArcadeOperationSpec
  ao_Status :: ArcadeOperationStatus

end
