(* ===== verification/KubeTypes.thy ===== *)
theory KubeTypes
  imports ApiTypes
begin

text \<open>
  The Kubernetes objects that the controllers read and write, with the fields the code uses. A map of
  labels or annotations is a partial function; \<open>mget\<close> reads a missing key as the empty string, as Go
  does. \<^verbatim>\<open>equality.Semantic.DeepEqual\<close> is equality of these records: it identifies nil and empty
  lists and maps, which have one representation here.
\<close>

section \<open>Leases and storage\<close>

record Lease =
  lease_Meta :: ObjectMeta
  lease_HolderIdentity :: "string option"
  lease_AcquireTime :: "Time option"

datatype ClaimPhase = ClaimBound | ClaimPending | ClaimLost | ClaimOther string

record PersistentVolumeClaim =
  pvc_Meta :: ObjectMeta
  pvc_VolumeName :: string
  pvc_Phase :: ClaimPhase

record ObjectReference =
  objref_Namespace :: string
  objref_Name :: string
  objref_UID :: UID

record PersistentVolume =
  vol_Meta :: ObjectMeta
  vol_ClaimRef :: "ObjectReference option"

record VolumeAttachment =
  va_PersistentVolumeName :: "string option"
  va_Attached :: bool

section \<open>Authority\<close>

record ConfigMap =
  cm_Meta :: ObjectMeta
  cm_Data :: "string \<rightharpoonup> string"
  cm_Immutable :: "bool option"

record ServiceAccount =
  sa_Meta :: ObjectMeta
  sa_AutomountServiceAccountToken :: "bool option"

record PolicyRule =
  rule_APIGroups :: "string list"
  rule_Resources :: "string list"
  rule_ResourceNames :: "string list"
  rule_Verbs :: "string list"

record Role =
  role_Meta :: ObjectMeta
  role_Rules :: "PolicyRule list"

record Subject =
  subj_Kind :: string
  subj_Name :: string
  subj_Namespace :: string

record RoleRef =
  rr_APIGroup :: string
  rr_Kind :: string
  rr_Name :: string

record RoleBinding =
  rb_Meta :: ObjectMeta
  rb_Subjects :: "Subject list"
  rb_RoleRef :: RoleRef

section \<open>Pods and Jobs\<close>

text \<open>The volume sources and projections that the worker Pods use, and any other source by its name.\<close>

datatype VolumeProjection =
    TokenProjection (tp_Path: string) (tp_ExpirationSeconds: int64)
  | ConfigMapProjection (cp_Name: string) (cp_Items: "(string \<times> string) list")

datatype VolumeSource =
    ConfigMapVolume string int32
  | EmptyDirVolume string "Quantity option"
  | ProjectedVolume int32 "VolumeProjection list"
  | ClaimVolume string bool
  | OtherVolume string

record Volume =
  volume_Name :: string
  volume_Source :: VolumeSource

record VolumeMount =
  vm_Name :: string
  vm_MountPath :: string
  vm_ReadOnly :: bool

text \<open>An environment variable: its literal value, and the field path and API version of a field reference.\<close>

record EnvVar =
  env_Name :: string
  env_Value :: string
  env_FieldRef :: "(string \<times> string) option"

record ContainerSecurity =
  sec_AllowPrivilegeEscalation :: "bool option"
  sec_ReadOnlyRootFilesystem :: "bool option"
  sec_CapabilitiesDrop :: "string list"

record Container =
  ctr_Name :: string
  ctr_Image :: string
  ctr_ImagePullPolicy :: string
  ctr_Command :: "string list"
  ctr_Env :: "EnvVar list"
  ctr_Requests :: "(string \<times> Quantity) list"
  ctr_Limits :: "(string \<times> Quantity) list"
  ctr_Security :: ContainerSecurity
  ctr_VolumeMounts :: "VolumeMount list"
  ctr_TerminationMessagePath :: string
  ctr_TerminationMessagePolicy :: string

record Toleration =
  tol_Key :: string
  tol_Operator :: string
  tol_Value :: string
  tol_Effect :: string
  tol_Seconds :: "int64 option"

record PodSecurity =
  psec_RunAsNonRoot :: "bool option"
  psec_RunAsUser :: "int64 option"
  psec_RunAsGroup :: "int64 option"
  psec_SupplementalGroups :: "int64 list"
  psec_FSGroup :: "int64 option"
  psec_FSGroupChangePolicy :: "string option"
  psec_SeccompProfile :: "string option"

record PodSpec =
  ps_Hostname :: string
  ps_ServiceAccountName :: string
  ps_DeprecatedServiceAccount :: string
  ps_AutomountServiceAccountToken :: "bool option"
  ps_RestartPolicy :: string
  ps_DNSPolicy :: string
  ps_TerminationGracePeriodSeconds :: "int64 option"
  ps_SchedulerName :: string
  ps_EnableServiceLinks :: "bool option"
  ps_Priority :: "int32 option"
  ps_PreemptionPolicy :: "string option"
  ps_Tolerations :: "Toleration list"
  ps_NodeName :: string
  ps_SchedulingGates :: "string list"
  ps_Security :: PodSecurity
  ps_InitContainers :: "Container list"
  ps_Containers :: "Container list"
  ps_Volumes :: "Volume list"

record ContainerTermination =
  term_ExitCode :: int32
  term_Message :: bytes

record ContainerStatus =
  cs_Name :: string
  cs_Terminated :: "ContainerTermination option"

record Pod =
  pod_Meta :: ObjectMeta
  pod_Spec :: PodSpec
  pod_Phase :: string
  pod_InitContainerStatuses :: "ContainerStatus list"
  pod_ContainerStatuses :: "ContainerStatus list"

text \<open>A label selector: the labels to match and the number of match expressions.\<close>

record LabelSelector =
  sel_MatchLabels :: "(string \<times> string) list"
  sel_MatchExpressions :: "string list"

record JobSpec =
  js_BackoffLimit :: "int32 option"
  js_ActiveDeadlineSeconds :: "int64 option"
  js_Parallelism :: "int32 option"
  js_Completions :: "int32 option"
  js_Suspend :: "bool option"
  js_ManualSelector :: "bool option"
  js_Selector :: "LabelSelector option"
  js_CompletionMode :: "string option"
  js_PodReplacementPolicy :: "string option"
  js_TemplateLabels :: "string \<rightharpoonup> string"
  js_TemplateAnnotations :: "string \<rightharpoonup> string"
  js_TemplateSpec :: PodSpec

record JobCondition =
  jc_Type :: string
  jc_Status :: ConditionStatus

record Job =
  job_Meta :: ObjectMeta
  job_Spec :: JobSpec
  job_Conditions :: "JobCondition list"

end
