(* ===== verification/GoLib.thy ===== *)
theory GoLib
  imports Prelude "HOL-Library.Char_ord" "HOL-Library.List_Lexorder"
begin

text \<open>
  The functions of Go's standard library that the modelled packages call, beyond the string
  primitives of the prelude: \<^verbatim>\<open>path.Clean\<close>, \<^verbatim>\<open>filepath.Join/Dir/Rel/IsAbs\<close> (on a system whose separator is
  the slash), \<^verbatim>\<open>utf8.Valid\<close>, decimal formatting and \<^verbatim>\<open>strconv.ParseUint\<close>, \<^verbatim>\<open>net.SplitHostPort\<close>, and the
  quoting of strings by \<^verbatim>\<open>encoding/json\<close>. Strings are ordered byte-wise (\<open>List_Lexorder\<close> over
  \<open>Char_ord\<close>), as \<^verbatim>\<open>strings.Compare\<close> orders them.
\<close>

section \<open>Decimal numbers\<close>

definition digit_char :: "nat \<Rightarrow> char" where
  "digit_char d = char_of (48 + d)"

fun digits_rev :: "nat \<Rightarrow> string" where
  "digits_rev n = digit_char (n mod 10) # (if n < 10 then [] else digits_rev (n div 10))"

declare digits_rev.simps [simp del]

text \<open>\<^verbatim>\<open>fmt.Sprintf("%d", n)\<close> for a number that is not negative.\<close>

definition nat_decimal :: "nat \<Rightarrow> string" where
  "nat_decimal n = rev (digits_rev n)"

fun digits_value :: "nat \<Rightarrow> string \<Rightarrow> nat" where
  "digits_value acc [] = acc"
| "digits_value acc (c # s) = digits_value (10 * acc + (of_char c - 48)) s"

text \<open>\<^verbatim>\<open>strconv.ParseUint(s, 10, bits)\<close>\<close>

definition ParseUint :: "string \<Rightarrow> nat \<Rightarrow> nat option" where
  "ParseUint s bits =
     (if s \<noteq> [] \<and> list_all is_digit s \<and> digits_value 0 s < 2 ^ bits then Some (digits_value 0 s)
      else None)"

lemma of_char_digit_char [simp]: "d < 10 \<Longrightarrow> (of_char (digit_char d) :: nat) = 48 + d"
  by (simp add: digit_char_def)

lemma is_digit_digit_char: "d < 10 \<Longrightarrow> is_digit (digit_char d)"
  by (simp add: is_digit_def)

lemma digits_rev_digits: "list_all is_digit (digits_rev n)"
proof (induction n rule: digits_rev.induct)
  case (1 n)
  then show ?case by (subst digits_rev.simps) (simp add: is_digit_digit_char)
qed

lemma digits_value_append: "digits_value acc (s @ t) = digits_value (digits_value acc s) t"
  by (induction s arbitrary: acc) simp_all

lemma digits_value_rev: "digits_value 0 (rev (digits_rev n)) = n"
proof (induction n rule: digits_rev.induct)
  case (1 n)
  show ?case
  proof (cases "n < 10")
    case True
    then show ?thesis by (subst digits_rev.simps) simp
  next
    case False
    with 1 have "digits_value 0 (rev (digits_rev (n div 10))) = n div 10" by simp
    with False show ?thesis
      by (subst digits_rev.simps) (simp add: digits_value_append)
  qed
qed

lemma nat_decimal_value [simp]: "digits_value 0 (nat_decimal n) = n"
  by (simp add: nat_decimal_def digits_value_rev)

lemma nat_decimal_digits: "list_all is_digit (nat_decimal n)"
  by (simp add: nat_decimal_def digits_rev_digits)

lemma nat_decimal_inj: "nat_decimal m = nat_decimal n \<Longrightarrow> m = n"
  by (metis nat_decimal_value)

lemma nat_decimal_no_colon: "CHR '':'' \<notin> set (nat_decimal n)"
  using nat_decimal_digits [of n] by (auto simp: list_all_iff is_digit_def)

lemma nat_decimal_not_Nil [simp]: "nat_decimal n \<noteq> []"
  by (simp add: nat_decimal_def digits_rev.simps [of n])

lemma ParseUint_decimal: "n < 2 ^ bits \<Longrightarrow> ParseUint (nat_decimal n) bits = Some n"
  by (simp add: ParseUint_def nat_decimal_digits)

section \<open>Slash-separated paths\<close>

text \<open>\<open>clean_parts rooted out parts\<close> processes path elements; \<open>out\<close> is the result so far, reversed.\<close>

fun clean_parts :: "bool \<Rightarrow> string list \<Rightarrow> string list \<Rightarrow> string list" where
  "clean_parts rooted out [] = rev out"
| "clean_parts rooted out (p # ps) =
     (if p = [] \<or> p = ''.'' then clean_parts rooted out ps
      else if p = ''..'' then
        (case out of
           [] \<Rightarrow> clean_parts rooted (if rooted then [] else [p]) ps
         | q # qs \<Rightarrow> clean_parts rooted (if q = ''..'' then p # out else qs) ps)
      else clean_parts rooted (p # out) ps)"

fun join_slash :: "string list \<Rightarrow> string" where
  "join_slash [] = []"
| "join_slash [p] = p"
| "join_slash (p # q # ps) = p @ CHR ''/'' # join_slash (q # ps)"

definition IsAbs :: "string \<Rightarrow> bool" where
  "IsAbs p \<longleftrightarrow> HasPrefix p ''/''"

definition path_elements :: "string \<Rightarrow> string list" where
  "path_elements p = clean_parts (IsAbs p) [] (Split p (CHR ''/''))"

definition path_Clean :: "string \<Rightarrow> string" where
  "path_Clean p =
     (let es = path_elements p
      in if IsAbs p then CHR ''/'' # join_slash es
         else if es = [] then ''.'' else join_slash es)"

definition path_Join :: "string \<Rightarrow> string \<Rightarrow> string" where
  "path_Join a b =
     (if a = [] \<and> b = [] then []
      else if a = [] then path_Clean b
      else if b = [] then path_Clean a
      else path_Clean (a @ CHR ''/'' # b))"

text \<open>\<^verbatim>\<open>filepath.Dir\<close>: everything up to the last slash, cleaned.\<close>

definition path_Dir :: "string \<Rightarrow> string" where
  "path_Dir p = path_Clean (rev (dropWhile (\<lambda>c. c \<noteq> CHR ''/'') (rev p)))"

fun strip_common :: "string list \<Rightarrow> string list \<Rightarrow> string list \<times> string list" where
  "strip_common (a # as) (b # bs) = (if a = b then strip_common as bs else (a # as, b # bs))"
| "strip_common as bs = (as, bs)"

text \<open>\<^verbatim>\<open>filepath.Rel(base, target)\<close>\<close>

definition path_Rel :: "string \<Rightarrow> string \<Rightarrow> string option" where
  "path_Rel base targ =
     (if path_Clean base = path_Clean targ then Some ''.''
      else if IsAbs base \<noteq> IsAbs targ then None
      else (case strip_common (path_elements base) (path_elements targ) of (bs, ts) \<Rightarrow>
              if bs \<noteq> [] \<and> hd bs = ''..'' then None
              else Some (join_slash (replicate (length bs) ''..'' @ ts))))"

lemma HasPrefix_slash [simp]: "HasPrefix p ''/'' \<longleftrightarrow> p \<noteq> [] \<and> hd p = CHR ''/''"
  by (cases p) (auto simp: HasPrefix_def)

section \<open>UTF-8\<close>

text \<open>
  \<open>utf8_size s\<close> is the number of bytes of the first character of \<open>s\<close>, or 0 when \<open>s\<close> does not start
  with a well-formed encoding (no overlong form, no surrogate, at most \<^verbatim>\<open>U+10FFFF\<close>).
\<close>

definition utf8_tail :: "char \<Rightarrow> bool" where
  "utf8_tail c \<longleftrightarrow> 128 \<le> (of_char c :: nat) \<and> (of_char c :: nat) \<le> 191"

fun utf8_size :: "string \<Rightarrow> nat" where
  "utf8_size [] = 0"
| "utf8_size (a # s) =
     (let x = (of_char a :: nat) in
      if x < 128 then 1
      else if 194 \<le> x \<and> x \<le> 223 then
        (case s of b # _ \<Rightarrow> (if utf8_tail b then 2 else 0) | _ \<Rightarrow> 0)
      else if 224 \<le> x \<and> x \<le> 239 then
        (case s of b # c # _ \<Rightarrow>
           (let y = (of_char b :: nat) in
            if (if x = 224 then 160 else 128) \<le> y \<and> y \<le> (if x = 237 then 159 else 191) \<and> utf8_tail c
            then 3 else 0)
         | _ \<Rightarrow> 0)
      else if 240 \<le> x \<and> x \<le> 244 then
        (case s of b # c # d # _ \<Rightarrow>
           (let y = (of_char b :: nat) in
            if (if x = 240 then 144 else 128) \<le> y \<and> y \<le> (if x = 244 then 143 else 191)
               \<and> utf8_tail c \<and> utf8_tail d
            then 4 else 0)
         | _ \<Rightarrow> 0)
      else 0)"

declare utf8_size.simps [simp del]

function utf8_Valid :: "string \<Rightarrow> bool" where
  "utf8_Valid s =
     (if s = [] then True
      else if utf8_size s = 0 then False
      else utf8_Valid (drop (utf8_size s) s))"
  by pat_completeness auto
termination by (relation "measure length") auto

declare utf8_Valid.simps [simp del]

text \<open>The encoding of \<^verbatim>\<open>utf8.RuneError\<close>, the replacement character \<^verbatim>\<open>U+FFFD\<close>.\<close>

definition RuneError :: string where
  "RuneError = [CHR 0xEF, CHR 0xBF, CHR 0xBD]"

section \<open>Host and port\<close>

text \<open>\<^verbatim>\<open>net.SplitHostPort\<close>; \<open>None\<close> is its error.\<close>

definition after_last_colon :: "string \<Rightarrow> string" where
  "after_last_colon s = rev (takeWhile (\<lambda>c. c \<noteq> CHR '':'') (rev s))"

definition before_last_colon :: "string \<Rightarrow> string" where
  "before_last_colon s = take (length s - length (after_last_colon s) - 1) s"

definition SplitHostPort :: "string \<Rightarrow> (string \<times> string) option" where
  "SplitHostPort s =
     (if CHR '':'' \<notin> set s then None
      else let host = before_last_colon s; port = after_last_colon s in
        if hd s = CHR ''['' then
          (if host \<noteq> [] \<and> last host = CHR '']'' \<and> CHR '']'' \<notin> set (butlast host)
              \<and> CHR ''['' \<notin> set (tl s) \<and> CHR '']'' \<notin> set port
           then Some (butlast (tl host), port) else None)
        else if CHR '':'' \<in> set host \<or> CHR ''['' \<in> set s \<or> CHR '']'' \<in> set s then None
        else Some (host, port))"

section \<open>JSON values\<close>

text \<open>
  What \<^verbatim>\<open>json.Unmarshal\<close> builds in an \<^verbatim>\<open>any\<close>: \<^verbatim>\<open>nil\<close>, booleans, numbers (kept as their literal),
  strings, slices, and maps from strings (as association lists with distinct keys).
\<close>

datatype json =
    JNull
  | JBool bool
  | JNumber string
  | JString string
  | JArray "json list"
  | JObject "(string \<times> json) list"

text \<open>Quoting of a string by \<^verbatim>\<open>json.Marshal\<close>, which also escapes the HTML characters.\<close>

definition lower_hex_digit :: "nat \<Rightarrow> char" where
  "lower_hex_digit d = (if d < 10 then char_of (48 + d) else char_of (87 + d))"

definition json_escape_byte :: "char \<Rightarrow> string" where
  "json_escape_byte c =
     (let x = (of_char c :: nat) in
      if x = 34 \<or> x = 92 then [CHR 0x5C, c]
      else if x = 8 then [CHR 0x5C, CHR ''b'']
      else if x = 12 then [CHR 0x5C, CHR ''f'']
      else if x = 10 then [CHR 0x5C, CHR ''n'']
      else if x = 13 then [CHR 0x5C, CHR ''r'']
      else if x = 9 then [CHR 0x5C, CHR ''t'']
      else if x < 32 \<or> x = 60 \<or> x = 62 \<or> x = 38 then
        [CHR 0x5C, CHR ''u'', CHR ''0'', CHR ''0'', lower_hex_digit (x div 16), lower_hex_digit (x mod 16)]
      else [c])"

function json_escape :: "string \<Rightarrow> string" where
  "json_escape s =
     (if s = [] then []
      else let n = utf8_size s in
        if n = 0 then [CHR 0x5C] @ ''ufffd'' @ json_escape (drop 1 s)
        else if n = 1 then json_escape_byte (hd s) @ json_escape (drop 1 s)
        else if take n s = [CHR 0xE2, CHR 0x80, CHR 0xA8] then [CHR 0x5C] @ ''u2028'' @ json_escape (drop n s)
        else if take n s = [CHR 0xE2, CHR 0x80, CHR 0xA9] then [CHR 0x5C] @ ''u2029'' @ json_escape (drop n s)
        else take n s @ json_escape (drop n s))"
  by pat_completeness auto
termination by (relation "measure length") auto

declare json_escape.simps [simp del]

definition json_quote :: "string \<Rightarrow> string" where
  "json_quote s = [CHR 0x22] @ json_escape s @ [CHR 0x22]"

section \<open>Base64\<close>

text \<open>\<^verbatim>\<open>base64.RawURLEncoding.EncodeToString\<close>: the URL alphabet, without padding.\<close>

definition base64_url_alphabet :: string where
  "base64_url_alphabet = ''ABCDEFGHIJKLMNOPQRSTUVWXYZabcdefghijklmnopqrstuvwxyz0123456789-_''"

definition base64_char :: "nat \<Rightarrow> char" where
  "base64_char n = base64_url_alphabet ! (n mod 64)"

fun RawURLEncode :: "bytes \<Rightarrow> string" where
  "RawURLEncode [] = []"
| "RawURLEncode [a] = (let x = of_char a :: nat in [base64_char (x div 4), base64_char (x * 16)])"
| "RawURLEncode [a, b] = (let x = of_char a * 256 + of_char b :: nat in
     [base64_char (x div 1024), base64_char (x div 16), base64_char (x * 4)])"
| "RawURLEncode (a # b # c # rest) = (let x = of_char a * 65536 + of_char b * 256 + of_char c :: nat in
     [base64_char (x div 262144), base64_char (x div 4096), base64_char (x div 64), base64_char x] @ RawURLEncode rest)"

end
