(* ===== verification/Sha256.thy ===== *)
theory Sha256
  imports Prelude
begin

text \<open>
  Go's \<^verbatim>\<open>crypto/sha256\<close>, \<^verbatim>\<open>encoding/hex\<close> and \<^verbatim>\<open>encoding/base32\<close> as the identity code of the
  program uses them: SHA-256 of a byte string as FIPS 180-4 defines it, its hexadecimal spelling,
  and the unpadded lowercase base-32 spelling. The lemmas give the lengths and alphabets of the
  spellings and that each of them can be read back.
\<close>

unbundle bit_operations_syntax

section \<open>SHA-256\<close>

definition sha_Ch :: "int32 \<Rightarrow> int32 \<Rightarrow> int32 \<Rightarrow> int32" where
  "sha_Ch x y z = (x AND y) XOR (NOT x AND z)"

definition sha_Maj :: "int32 \<Rightarrow> int32 \<Rightarrow> int32 \<Rightarrow> int32" where
  "sha_Maj x y z = (x AND y) XOR (x AND z) XOR (y AND z)"

definition sha_rotr :: "nat \<Rightarrow> int32 \<Rightarrow> int32" where
  "sha_rotr n x = drop_bit n x OR push_bit (32 - n) x"

definition sha_Sigma0 :: "int32 \<Rightarrow> int32" where
  "sha_Sigma0 x = sha_rotr 2 x XOR sha_rotr 13 x XOR sha_rotr 22 x"

definition sha_Sigma1 :: "int32 \<Rightarrow> int32" where
  "sha_Sigma1 x = sha_rotr 6 x XOR sha_rotr 11 x XOR sha_rotr 25 x"

definition sha_sigma0 :: "int32 \<Rightarrow> int32" where
  "sha_sigma0 x = sha_rotr 7 x XOR sha_rotr 18 x XOR drop_bit 3 x"

definition sha_sigma1 :: "int32 \<Rightarrow> int32" where
  "sha_sigma1 x = sha_rotr 17 x XOR sha_rotr 19 x XOR drop_bit 10 x"

text \<open>The round constants and the initial state, in decimal.\<close>

definition sha_K :: "int32 list" where
  "sha_K =
    [1116352408, 1899447441, 3049323471, 3921009573, 961987163, 1508970993, 2453635748,
     2870763221, 3624381080, 310598401, 607225278, 1426881987, 1925078388, 2162078206,
     2614888103, 3248222580, 3835390401, 4022224774, 264347078, 604807628, 770255983,
     1249150122, 1555081692, 1996064986, 2554220882, 2821834349, 2952996808, 3210313671,
     3336571891, 3584528711, 113926993, 338241895, 666307205, 773529912, 1294757372,
     1396182291, 1695183700, 1986661051, 2177026350, 2456956037, 2730485921, 2820302411,
     3259730800, 3345764771, 3516065817, 3600352804, 4094571909, 275423344, 430227734,
     506948616, 659060556, 883997877, 958139571, 1322822218, 1537002063, 1747873779,
     1955562222, 2024104815, 2227730452, 2361852424, 2428436474, 2756734187, 3204031479,
     3329325298]"

type_synonym sha_state = "int32 \<times> int32 \<times> int32 \<times> int32 \<times> int32 \<times> int32 \<times> int32 \<times> int32"

definition sha_init :: sha_state where
  "sha_init = (1779033703, 3144134277, 1013904242, 2773480762,
               1359893119, 2600822924, 528734635, 1541459225)"

fun sha_round :: "sha_state \<Rightarrow> int32 \<Rightarrow> int32 \<Rightarrow> sha_state" where
  "sha_round (a, b, c, d, e, f, g, h) k w =
     (let t1 = h + sha_Sigma1 e + sha_Ch e f g + k + w;
          t2 = sha_Sigma0 a + sha_Maj a b c
      in (t1 + t2, a, b, c, d + t1, e, f, g))"

fun sha_rounds :: "sha_state \<Rightarrow> int32 list \<Rightarrow> int32 list \<Rightarrow> sha_state" where
  "sha_rounds s (k # ks) (w # ws) = sha_rounds (sha_round s k w) ks ws"
| "sha_rounds s _ _ = s"

fun sha_add :: "sha_state \<Rightarrow> sha_state \<Rightarrow> sha_state" where
  "sha_add (a, b, c, d, e, f, g, h) (a', b', c', d', e', f', g', h') =
     (a + a', b + b', c + c', d + d', e + e', f + f', g + g', h + h')"

text \<open>
  The message schedule keeps the last sixteen words, the newest first, and the schedule so far
  reversed.
\<close>

fun sha_expand :: "nat \<Rightarrow> int32 list \<Rightarrow> int32 list" where
  "sha_expand 0 ws = ws"
| "sha_expand (Suc n) ws =
     sha_expand n ((sha_sigma1 (ws ! 1) + ws ! 6 + sha_sigma0 (ws ! 14) + ws ! 15) # ws)"

fun sha_words :: "bytes \<Rightarrow> int32 list" where
  "sha_words (a # b # c # d # xs) =
     word_of_nat (((of_char a * 256 + of_char b) * 256 + of_char c) * 256 + of_char d) # sha_words xs"
| "sha_words _ = []"

definition sha_block :: "sha_state \<Rightarrow> bytes \<Rightarrow> sha_state" where
  "sha_block s block = sha_add s (sha_rounds s sha_K (rev (sha_expand 48 (rev (sha_words block)))))"

fun sha_blocks :: "nat \<Rightarrow> sha_state \<Rightarrow> bytes \<Rightarrow> sha_state" where
  "sha_blocks 0 s m = s"
| "sha_blocks (Suc n) s m = sha_blocks n (sha_block s (take 64 m)) (drop 64 m)"

fun big_endian :: "nat \<Rightarrow> nat \<Rightarrow> bytes" where
  "big_endian 0 n = []"
| "big_endian (Suc k) n = big_endian k (n div 256) @ [char_of (n mod 256)]"

definition sha_pad :: "bytes \<Rightarrow> bytes" where
  "sha_pad m = m @ CHR 0x80 # replicate ((119 - length m mod 64) mod 64) (CHR 0x00)
     @ big_endian 8 (8 * length m)"

fun sha_output :: "sha_state \<Rightarrow> bytes" where
  "sha_output (a, b, c, d, e, f, g, h) =
     concat (map (\<lambda>w. big_endian 4 (unat w)) [a, b, c, d, e, f, g, h])"

definition sha256 :: "bytes \<Rightarrow> bytes" where
  "sha256 m = (let p = sha_pad m in sha_output (sha_blocks (length p div 64) sha_init p))"

lemma length_big_endian [simp]: "length (big_endian k n) = k"
  by (induction k arbitrary: n) auto

lemma length_sha_output [simp]: "length (sha_output s) = 32"
  by (induction s rule: sha_output.induct) simp

lemma length_sha256 [simp]: "length (sha256 m) = 32"
  by (simp add: sha256_def Let_def)

section \<open>Hexadecimal\<close>

definition hex_digit :: "nat \<Rightarrow> char" where
  "hex_digit n = char_of (if n < 10 then 48 + n else 87 + n)"

definition hex_byte :: "char \<Rightarrow> string" where
  "hex_byte c = [hex_digit (of_char c div 16), hex_digit (of_char c mod 16)]"

definition hex :: "bytes \<Rightarrow> string" where
  "hex m = concat (map hex_byte m)"

definition is_hex :: "char \<Rightarrow> bool" where
  "is_hex c \<longleftrightarrow> is_lower_hex c \<or> (65 \<le> (of_char c :: nat) \<and> (of_char c :: nat) \<le> 70)"

definition hex_value :: "char \<Rightarrow> nat" where
  "hex_value c = (if is_digit c then of_char c - 48 else if is_lower_hex c then of_char c - 87 else of_char c - 55)"

text \<open>\<^verbatim>\<open>hex.DecodeString\<close>, which accepts letters of both cases.\<close>

fun unhex :: "string \<Rightarrow> bytes option" where
  "unhex [] = Some []"
| "unhex [c] = None"
| "unhex (a # b # xs) =
     (if is_hex a \<and> is_hex b
      then map_option ((#) (char_of (hex_value a * 16 + hex_value b))) (unhex xs) else None)"

lemma of_char_less_256 [simp]: "(of_char c :: nat) < 256"
  by (cases c) (simp only: of_char_def, rule horner_sum_of_bool_2_less [THEN less_le_trans], simp)

lemma of_char_div_16 [simp]: "(of_char c :: nat) div 16 < 16"
  using of_char_less_256 [of c] by linarith

lemma hex_digit_lower_hex: "n < 16 \<Longrightarrow> is_lower_hex (hex_digit n)"
  by (auto simp: hex_digit_def char_class_defs)

lemma hex_value_digit: "n < 16 \<Longrightarrow> hex_value (hex_digit n) = n"
  by (auto simp: hex_digit_def hex_value_def char_class_defs)

lemma length_hex [simp]: "length (hex m) = 2 * length m"
  by (induction m) (auto simp: hex_def hex_byte_def)

lemma hex_alphabet: "list_all is_lower_hex (hex m)"
  by (induction m)
    (auto simp: hex_def hex_byte_def intro!: hex_digit_lower_hex)

lemma unhex_hex [simp]: "unhex (hex m) = Some m"
  by (induction m)
    (auto simp: hex_def hex_byte_def is_hex_def hex_digit_lower_hex hex_value_digit div_mult_mod_eq)

lemma hex_inject [simp]: "hex a = hex b \<longleftrightarrow> a = b"
  by (metis option.inject unhex_hex)

lemma hex_no_special: "c \<in> set (hex m) \<Longrightarrow> is_lower_hex c"
  using hex_alphabet [of m] by (simp add: list_all_iff)

lemma lower_hex_alnum: "is_lower_hex c \<Longrightarrow> is_alnum c"
  by (auto simp: char_class_defs)

text \<open>\<^verbatim>\<open>"sha256:" + hex.EncodeToString(sum[:])\<close>, the API's spelling of a digest.\<close>

definition sha256_string :: "bytes \<Rightarrow> string" where
  "sha256_string m = ''sha256:'' @ hex (sha256 m)"

lemma sha256_string_pattern [simp]: "sha256_pattern (sha256_string m)"
  unfolding sha256_string_def by (rule sha256_pattern_append) (simp_all add: hex_alphabet)

text \<open>
  Two inputs collide when they differ and their digests agree on the first \<open>n\<close> bytes. Facts about
  identities derived from digests have this as their only other alternative.
\<close>

definition sha256_collision :: "nat \<Rightarrow> bytes \<Rightarrow> bytes \<Rightarrow> bool" where
  "sha256_collision n a b \<longleftrightarrow> a \<noteq> b \<and> take n (sha256 a) = take n (sha256 b)"

lemma hex_take_sha256_eq:
  "hex (take n (sha256 a)) = hex (take n (sha256 b)) \<Longrightarrow> a = b \<or> sha256_collision n a b"
  by (auto simp: sha256_collision_def)

lemma sha256_string_eq: "sha256_string a = sha256_string b \<Longrightarrow> a = b \<or> sha256_collision 32 a b"
  by (simp add: sha256_string_def sha256_collision_def)

lemma dns_label_prefix_hex:
  assumes "p \<noteq> []" "is_alnum (hd p)" "list_all (\<lambda>c. is_alnum c \<or> c = CHR ''-'') p"
    and "m \<noteq> []" "length p + 2 * length m \<le> 63"
  shows "dns_label (p @ hex m)"
proof -
  have "hex m \<noteq> []" using assms(4) length_hex [of m] by fastforce
  moreover have "is_alnum (last (hex m))"
    using calculation hex_no_special [OF last_in_set] lower_hex_alnum by blast
  ultimately show ?thesis
    using assms hex_alphabet [of m]
    by (auto simp: dns_label_def list_all_iff dest: lower_hex_alnum)
qed

end
