(* ===== verification/Interfaces.thy ===== *)
theory Interfaces
  imports Sha256
begin

text \<open>
  The contracts that several components of the program share, as locales.
  \<^item> \<open>phase_machine\<close>: a durable operation moves through phases; a final phase is never left and
    progress is bounded. Backup, restore and destroy are interpreted as such machines.
  \<^item> \<open>digest_identity\<close>: a name is a prefix followed by the hexadecimal digits of a truncated
    SHA-256 over an unambiguous encoding of a key. Artifacts, restore candidates, receipts and
    leases take their names this way.
\<close>

section \<open>Phase machines\<close>

text \<open>
  \<open>step p q\<close> is an accepted change of phase, \<open>final\<close> the terminal phases, and \<open>rank\<close> a measure of
  progress below \<open>bound\<close> that every step increases, except a step back of \<open>setback\<close>, which loses
  at most one unit.
\<close>

inductive step_run :: "('p \<Rightarrow> 'p \<Rightarrow> bool) \<Rightarrow> 'p \<Rightarrow> ('p \<times> 'p) list \<Rightarrow> 'p \<Rightarrow> bool" for step where
  run_start: "step_run step p [] p"
| run_step: "step_run step p h q \<Longrightarrow> step q r \<Longrightarrow> step_run step p ((q, r) # h) r"

inductive_cases step_run_NilE: "step_run step p [] q"
inductive_cases step_run_ConsE: "step_run step p ((a, b) # h) q"

locale phase_machine =
  fixes step :: "'p \<Rightarrow> 'p \<Rightarrow> bool"
    and final :: "'p \<Rightarrow> bool"
    and setback :: "'p \<times> 'p \<Rightarrow> bool"
    and rank :: "'p \<Rightarrow> nat"
    and bound :: nat
  assumes final_stuck: "final p \<Longrightarrow> \<not> step p q"
    and step_rank: "step p q \<Longrightarrow> \<not> setback (p, q) \<Longrightarrow> rank p < rank q"
    and setback_rank: "step p q \<Longrightarrow> setback (p, q) \<Longrightarrow> rank p \<le> Suc (rank q)"
    and rank_bound: "rank p \<le> bound"
begin

lemma final_stable:
  assumes "step_run step p h q" "final p"
  shows "h = [] \<and> q = p"
  using assms by (induction rule: step_run.induct) (auto simp: final_stuck)

lemma length_run_rank:
  "step_run step p h q \<Longrightarrow> length h + rank p \<le> rank q + 2 * length (filter setback h)"
proof (induction rule: step_run.induct)
  case (run_start p)
  then show ?case by simp
next
  case (run_step p h q r)
  show ?case
  proof (cases "setback (q, r)")
    case True
    with run_step setback_rank [of q r] show ?thesis by simp
  next
    case False
    with run_step step_rank [of q r] show ?thesis by simp
  qed
qed

lemma length_run_bound:
  "step_run step p h q \<Longrightarrow> length h \<le> bound + 2 * length (filter setback h)"
  using length_run_rank rank_bound [of q] by fastforce

text \<open>Without setbacks a phase is never entered twice.\<close>

lemma run_forward:
  assumes "step_run step p h q" "filter setback h = []" "h \<noteq> []"
  shows "p \<noteq> q"
proof -
  have "length h + rank p \<le> rank q"
    using length_run_rank [OF assms(1)] assms(2) by simp
  with assms(3) show ?thesis by auto
qed

end

text \<open>The final phase of a run that starts elsewhere was entered by its newest step.\<close>

lemma step_run_last:
  assumes "step_run step p h q" "p \<noteq> q"
  shows "\<exists>o'. (o', q) \<in> set h \<and> step o' q"
  using assms by (cases rule: step_run.cases) auto

lemma step_run_steps: "step_run step p h q \<Longrightarrow> (a, b) \<in> set h \<Longrightarrow> step a b"
  by (induction rule: step_run.induct) auto

text \<open>
  If every step into a phase of \<open>P\<close> from outside comes from \<open>Q\<close>, a run that reaches \<open>P\<close> from
  outside passed a step from \<open>Q\<close> into \<open>P\<close>.
\<close>

lemma step_run_enters:
  assumes "step_run step p h q" "P q" "\<not> P p"
  shows "\<exists>a b. (a, b) \<in> set h \<and> step a b \<and> \<not> P a \<and> P b"
  using assms
proof (induction rule: step_run.induct)
  case (run_start p)
  then show ?case by simp
next
  case (run_step p h q r)
  show ?case
  proof (cases "P q")
    case True
    with run_step show ?thesis by auto
  next
    case False
    with run_step show ?thesis by auto
  qed
qed

lemma step_run_prefix:
  assumes "step_run step p h q" "(a, b) \<in> set h"
  shows "\<exists>h'. step_run step p h' a \<and> set h' \<subseteq> set h"
  using assms
proof (induction rule: step_run.induct)
  case (run_start p)
  then show ?case by simp
next
  case (run_step p h q r)
  then show ?case by (auto 4 3)
qed

lemma step_run_suffix:
  assumes "step_run step p h q" "(a, b) \<in> set h"
  shows "\<exists>h'. step_run step b h' q \<and> set h' \<subseteq> set h"
  using assms
proof (induction rule: step_run.induct)
  case (run_start p)
  then show ?case by simp
next
  case (run_step p h q r)
  show ?case
  proof (cases "(a, b) = (q, r)")
    case True
    then show ?thesis by (auto intro: step_run.run_start)
  next
    case False
    with run_step obtain h' where "step_run step b h' q" "set h' \<subseteq> set h" by auto
    then have "step_run step b ((q, r) # h') r" "set ((q, r) # h') \<subseteq> set ((q, r) # h)"
      using run_step(2) by (auto intro: step_run.run_step)
    then show ?thesis by blast
  qed
qed

section \<open>Names derived from digests\<close>

locale digest_identity =
  fixes encode :: "'k \<Rightarrow> bytes"
    and valid :: "'k \<Rightarrow> bool"
    and pre :: string
    and width :: nat
    and ident :: "'k \<Rightarrow> string"
  assumes encode_inj: "valid k \<Longrightarrow> valid k' \<Longrightarrow> encode k = encode k' \<Longrightarrow> k = k'"
    and ident_eq: "valid k \<Longrightarrow> ident k = pre @ hex (take width (sha256 (encode k)))"
    and width_pos: "0 < width" and width_le: "width \<le> 32"
begin

lemma ident_length: "valid k \<Longrightarrow> length (ident k) = length pre + 2 * width"
  using width_le by (simp add: ident_eq)

lemma ident_inj:
  assumes "valid k" "valid k'" "ident k = ident k'"
  shows "k = k' \<or> sha256_collision width (encode k) (encode k')"
proof -
  have "encode k = encode k' \<or> sha256_collision width (encode k) (encode k')"
    using assms by (simp add: ident_eq sha256_collision_def)
  then show ?thesis using encode_inj [OF assms(1,2)] by blast
qed

lemma ident_dns_label:
  assumes "valid k" "pre \<noteq> []" "is_alnum (hd pre)" "list_all (\<lambda>c. is_alnum c \<or> c = CHR ''-'') pre"
    and "length pre + 2 * width \<le> 63"
  shows "dns_label (ident k)"
proof -
  have "take width (sha256 (encode k)) \<noteq> []"
    using width_pos length_sha256 [of "encode k"] by (auto simp: take_eq_Nil simp del: length_sha256)
  then show ?thesis
    using assms width_le by (simp add: ident_eq dns_label_prefix_hex)
qed

end

end
