(* ===== verification/GameDefinition.thy ===== *)
theory GameDefinition
  imports GoLib Interfaces ApiTypes
begin

text \<open>
  The package \<^verbatim>\<open>internal/platform/game\<close>: the contract between the platform and a game adapter
  (definition.go), its validation (validate.go), the rendering of settings (settings.go) and the
  version policy (version.go).

  Four library functions are parameters, collected in the record \<open>GameLibrary\<close>: \<^verbatim>\<open>net.ParseIP\<close> (as the test
  that its result is not nil), \<^verbatim>\<open>regexp.Compile\<close> (its result a matcher), \<^verbatim>\<open>json.Unmarshal\<close> into \<^verbatim>\<open>any\<close>, and
  Kubernetes' \<^verbatim>\<open>validation.IsDNS1123Label\<close> (as the test that it reports no problem).
\<close>

record GameLibrary =
  lib_ParseIP :: "string \<Rightarrow> bool"
  lib_Compile :: "string \<Rightarrow> (string \<Rightarrow> bool) option"
  lib_Unmarshal :: "bytes \<Rightarrow> json option"
  lib_IsDNS1123Label :: "string \<Rightarrow> bool"

section \<open>definition.go\<close>

datatype Protocol = ProtocolTCP | ProtocolUDP | ProtocolOther string

datatype EndpointScope = ScopePlayer | ScopeAdmin | ScopeInternal | ScopeOther string

record Endpoint =
  ep_Name :: string
  ep_Protocol :: Protocol
  ep_ContainerPort :: uint16
  ep_Scope :: EndpointScope

datatype ReadinessMode = ReadinessNone | ReadinessTCP | ReadinessPrivateExec | ReadinessOther string

record PersistentPath =
  pp_Name :: string
  pp_MountPath :: string

record ConfigurationTarget =
  ct_Name :: string
  ct_MountPath :: string

text \<open>The map a renderer returns is an association list with distinct keys.\<close>

type_synonym SettingsRenderer = "bytes \<Rightarrow> string + (string \<times> bytes) list"

record ConfigurationFile =
  cf_Name :: string
  cf_MountPath :: string
  cf_Contents :: bytes

record RuntimeIdentity =
  rid_UserID :: int64
  rid_GroupID :: int64
  rid_FSGroup :: int64

record Capabilities =
  cap_ColdBackup :: bool
  cap_Restore :: bool
  cap_GracefulShutdown :: bool

record VersionPolicy =
  vp_Pattern :: string
  vp_TagPrefix :: string

record Definition =
  def_ID :: string
  def_DisplayName :: string
  def_ImageRepository :: string
  def_VersionPolicy :: "VersionPolicy option"
  def_Endpoints :: "Endpoint list"
  def_PersistentPaths :: "PersistentPath list"
  def_ReadinessEndpoint :: string
  def_ReadinessMode :: ReadinessMode
  def_SettingsSchema :: bytes
  def_ConfigurationTargets :: "ConfigurationTarget list"
  def_RenderSettings :: "SettingsRenderer option"
  def_RuntimeIdentity :: RuntimeIdentity
  def_Capabilities :: Capabilities

text \<open>
  \<^verbatim>\<open>Clone\<close> copies the slices, so that the copy shares no memory with the original. Values of the
  model are never shared: the copy is equal field by field.
\<close>

definition Clone :: "Definition \<Rightarrow> Definition" where
  "Clone d = d\<lparr>
     def_VersionPolicy := map_option (\<lambda>p. \<lparr> vp_Pattern = vp_Pattern p, vp_TagPrefix = vp_TagPrefix p \<rparr>) (def_VersionPolicy d),
     def_Endpoints := [] @ def_Endpoints d,
     def_PersistentPaths := [] @ def_PersistentPaths d,
     def_ConfigurationTargets := [] @ def_ConfigurationTargets d,
     def_SettingsSchema := [] @ def_SettingsSchema d \<rparr>"

section \<open>validate.go: patterns\<close>

text \<open>\<^verbatim>\<open>idPattern\<close> and \<^verbatim>\<open>hostLabel\<close> are \<open>dns_label\<close>; \<^verbatim>\<open>digestPattern\<close> is \<open>sha256_pattern\<close>.\<close>

definition namePattern :: "string \<Rightarrow> bool" where
  "namePattern s = dns_name_label s"

text \<open>
  A component of \<^verbatim>\<open>repositoryNamePattern\<close>: runs of \<^verbatim>\<open>[a-z0-9]+\<close> separated by a dot, one or two
  underscores, or dashes. \<open>repository_rest run s\<close> reads \<open>s\<close> after the separator characters \<open>run\<close>.
\<close>

definition repository_separator :: "string \<Rightarrow> bool" where
  "repository_separator run \<longleftrightarrow>
     run = ''.'' \<or> run = ''_'' \<or> run = ''__'' \<or> (run \<noteq> [] \<and> list_all (\<lambda>c. c = CHR ''-'') run)"

fun repository_rest :: "string \<Rightarrow> string \<Rightarrow> bool" where
  "repository_rest run [] = (run = [])"
| "repository_rest run (c # s) =
     (if is_alnum c then (run = [] \<or> repository_separator run) \<and> repository_rest [] s
      else repository_rest (c # run) s)"

definition repositoryNamePattern :: "string \<Rightarrow> bool" where
  "repositoryNamePattern s \<longleftrightarrow>
     list_all (\<lambda>part. part \<noteq> [] \<and> is_alnum (hd part) \<and> repository_rest [] part) (Split s (CHR ''/''))"

definition token_char :: "char \<Rightarrow> bool" where
  "token_char c \<longleftrightarrow> is_lower c \<or> is_upper c \<or> is_digit c"

definition versionTokenPattern :: "string \<Rightarrow> bool" where
  "versionTokenPattern s \<longleftrightarrow> s \<noteq> [] \<and> token_char (hd s) \<and>
     list_all (\<lambda>c. token_char c \<or> c \<in> set ''._-'') s"

definition tagPattern :: "string \<Rightarrow> bool" where
  "tagPattern s \<longleftrightarrow> s \<noteq> [] \<and> length s \<le> 128 \<and> (token_char (hd s) \<or> hd s = CHR ''_'') \<and>
     list_all (\<lambda>c. token_char c \<or> c \<in> set ''._-'') s"

definition platformMountRoot :: string where "platformMountRoot = ''/arcadectl''"
definition maxVersionLength :: nat where "maxVersionLength = 64"
definition maxVersionPattern :: nat where "maxVersionPattern = 256"
definition maxTagPrefix :: nat where "maxTagPrefix = 64"

section \<open>Errors\<close>

datatype (plugins only: code) game_error =
    ErrGameID | ErrDisplayName | ErrBackupNeedsPaths | ErrRestoreNeedsBackup | ErrRenderer
  | ErrUserID | ErrGroupID | ErrFSGroup
  | ErrRepositoryMissing | ErrRepositoryDigest | ErrRepositoryForm | ErrRepositoryName
  | ErrRepositoryPort | ErrRepositoryHost
  | ErrPatternForm | ErrPatternAnchored | ErrPatternEmpty | ErrTagPrefix
  | ErrNoEndpoint | ErrEndpointName string | ErrEndpointDuplicate string
  | ErrEndpointProtocol string Protocol | ErrEndpointPort string | ErrEndpointScope string EndpointScope
  | ErrNoPlayerEndpoint | ErrReadinessMode | ErrReadinessUnknown string | ErrReadinessProtocol string
  | ErrReadinessNotPlayer string | ErrReadinessPlayer string | ErrReadinessUnset string
  | ErrReadinessUnsupported ReadinessMode
  | ErrPathName string | ErrPathDuplicate string | ErrPathMount string | ErrPathReserved string
  | ErrPathOverlap string string
  | ErrSchemaSize | ErrSchemaMissing | ErrSchemaJSON | ErrSchemaNotObject | ErrSchemaType
  | ErrSchemaKeyword string
  | ErrDigestForm
  | ErrNoTarget | ErrTargetName string | ErrTargetDuplicate string | ErrTargetMount string
  | ErrTargetOverlap string string | ErrTargetPersistent string string | ErrTargetNotNested string
  | ErrRendererRequired | ErrRender string | ErrRenderedCount | ErrRenderedOmitted string
  | ErrRenderedEmpty string | ErrRenderedText string | ErrRenderedSize
  | ErrVersionRepository | ErrVersionUnsupported | ErrVersionToken | ErrVersionPolicy | ErrVersionTag

section \<open>validate.go: functions\<close>

definition maxLinuxID :: int where "maxLinuxID = 2 ^ 31 - 2"

definition validateRuntimeIdentity :: "RuntimeIdentity \<Rightarrow> game_error option" where
  "validateRuntimeIdentity i = first_error
     [guard (sint (rid_UserID i) \<le> 0 \<or> sint (rid_UserID i) > maxLinuxID) ErrUserID,
      guard (sint (rid_GroupID i) \<le> 0 \<or> sint (rid_GroupID i) > maxLinuxID) ErrGroupID,
      guard (sint (rid_FSGroup i) \<le> 0 \<or> sint (rid_FSGroup i) > maxLinuxID) ErrFSGroup]"

text \<open>The host and port test of \<^verbatim>\<open>validateRepository\<close>.\<close>

definition repositoryHost :: "string \<Rightarrow> string option" where
  "repositoryHost hostPort =
     (if Contains hostPort '':'' then
        (case SplitHostPort hostPort of
           None \<Rightarrow> None
         | Some (host, port) \<Rightarrow>
             if host = [] then None
             else (case ParseUint port 16 of
                     None \<Rightarrow> None
                   | Some value \<Rightarrow> if value = 0 then None else Some host))
      else Some hostPort)"

definition validateRepository :: "GameLibrary \<Rightarrow> string \<Rightarrow> game_error option" where
  "validateRepository lib repository =
     (case Cut repository (CHR ''/'') of (hostPort, name, found) \<Rightarrow> first_error
        [guard (repository = [] \<or> TrimSpace repository \<noteq> repository) ErrRepositoryMissing,
         guard (Contains repository ''@'') ErrRepositoryDigest,
         guard (length repository > 255
                \<or> ContainsAny repository ([CHR 0x09, CHR 0x0D, CHR 0x0A] @ ''@?#'' @ [CHR 0x5C])
                \<or> Contains repository ''://'') ErrRepositoryForm,
         guard (\<not> found \<or> hostPort = [] \<or> \<not> repositoryNamePattern name) ErrRepositoryName,
         (case repositoryHost hostPort of
            None \<Rightarrow> Some ErrRepositoryPort
          | Some host \<Rightarrow>
              if \<not> lib_ParseIP lib host
              then first_error_in (\<lambda>label. guard (\<not> dns_label label) ErrRepositoryHost) (Split host (CHR ''.''))
              else None)])"

definition compileVersionPattern :: "GameLibrary \<Rightarrow> string \<Rightarrow> (string \<Rightarrow> bool) option" where
  "compileVersionPattern lib pattern =
     (if length pattern < 2 \<or> length pattern > maxVersionPattern \<or> \<not> HasPrefix pattern ''^'' \<or> \<not> HasSuffix pattern ''$''
      then None
      else lib_Compile lib (''^(?:'' @ take (length pattern - 2) (drop 1 pattern) @ '')$''))"

definition validateVersionPolicy :: "GameLibrary \<Rightarrow> VersionPolicy option \<Rightarrow> game_error option" where
  "validateVersionPolicy lib policy =
     (case policy of
        None \<Rightarrow> None
      | Some p \<Rightarrow>
          (case compileVersionPattern lib (vp_Pattern p) of
             None \<Rightarrow> Some ErrPatternAnchored
           | Some compiled \<Rightarrow> first_error
               [guard (compiled []) ErrPatternEmpty,
                guard (length (vp_TagPrefix p) > maxTagPrefix
                       \<or> vp_TagPrefix p \<noteq> [] \<and> \<not> tagPattern (vp_TagPrefix p)) ErrTagPrefix]))"

text \<open>The body of the endpoint loop, with the names of the endpoints before it.\<close>

definition endpointError :: "string list \<Rightarrow> Endpoint \<Rightarrow> game_error option" where
  "endpointError names e = first_error
     [guard (\<not> namePattern (ep_Name e)) (ErrEndpointName (ep_Name e)),
      guard (ep_Name e \<in> set names) (ErrEndpointDuplicate (ep_Name e)),
      guard (ep_Protocol e \<noteq> ProtocolTCP \<and> ep_Protocol e \<noteq> ProtocolUDP)
        (ErrEndpointProtocol (ep_Name e) (ep_Protocol e)),
      guard (ep_ContainerPort e = 0) (ErrEndpointPort (ep_Name e)),
      guard (ep_Scope e \<notin> {ScopePlayer, ScopeAdmin, ScopeInternal}) (ErrEndpointScope (ep_Name e) (ep_Scope e))]"

fun endpointsError :: "string list \<Rightarrow> Endpoint list \<Rightarrow> game_error option" where
  "endpointsError names [] = None"
| "endpointsError names (e # es) =
     (case endpointError names e of
        Some err \<Rightarrow> Some err
      | None \<Rightarrow> endpointsError (ep_Name e # names) es)"

definition readinessError :: "Endpoint \<Rightarrow> string \<Rightarrow> ReadinessMode \<Rightarrow> game_error option" where
  "readinessError e readiness mode = first_error
     [guard (ep_Protocol e \<noteq> ProtocolTCP) (ErrReadinessProtocol readiness),
      (case mode of
         ReadinessTCP \<Rightarrow> guard (ep_Scope e \<noteq> ScopePlayer) (ErrReadinessNotPlayer readiness)
       | ReadinessPrivateExec \<Rightarrow> guard (ep_Scope e = ScopePlayer) (ErrReadinessPlayer readiness)
       | ReadinessNone \<Rightarrow> Some (ErrReadinessUnset readiness)
       | ReadinessOther m \<Rightarrow> Some (ErrReadinessUnsupported (ReadinessOther m)))]"

definition validateEndpoints :: "Endpoint list \<Rightarrow> string \<Rightarrow> ReadinessMode \<Rightarrow> game_error option" where
  "validateEndpoints endpoints readiness mode = first_error
     [guard (endpoints = []) ErrNoEndpoint,
      endpointsError [] endpoints,
      guard (\<not> list_ex (\<lambda>e. ep_Scope e = ScopePlayer) endpoints) ErrNoPlayerEndpoint,
      (if readiness = [] then guard (mode \<noteq> ReadinessNone) ErrReadinessMode
       else (case find (\<lambda>e. ep_Name e = readiness) endpoints of
               None \<Rightarrow> Some (ErrReadinessUnknown readiness)
             | Some e \<Rightarrow> readinessError e readiness mode))]"

definition pathsOverlap :: "string \<Rightarrow> string \<Rightarrow> bool" where
  "pathsOverlap left right \<longleftrightarrow>
     left = right \<or> HasPrefix left (right @ ''/'') \<or> HasPrefix right (left @ ''/'')"

definition cleanMount :: "string \<Rightarrow> bool" where
  "cleanMount p \<longleftrightarrow> HasPrefix p ''/'' \<and> path_Clean p = p \<and> p \<noteq> ''/''"

text \<open>The body of the loop over persistent paths, with the paths before it (oldest first).\<close>

definition persistentPathError :: "PersistentPath list \<Rightarrow> PersistentPath \<Rightarrow> game_error option" where
  "persistentPathError before p = first_error
     [guard (\<not> namePattern (pp_Name p)) (ErrPathName (pp_Name p)),
      guard (pp_Name p \<in> set (map pp_Name before)) (ErrPathDuplicate (pp_Name p)),
      guard (\<not> cleanMount (pp_MountPath p)) (ErrPathMount (pp_Name p)),
      guard (pathsOverlap platformMountRoot (pp_MountPath p)) (ErrPathReserved (pp_Name p)),
      first_error_in (\<lambda>mount. guard (pathsOverlap mount (pp_MountPath p)) (ErrPathOverlap (pp_MountPath p) mount))
        (map pp_MountPath before)]"

definition validatePersistentPaths :: "PersistentPath list \<Rightarrow> game_error option" where
  "validatePersistentPaths paths = errors_along persistentPathError [] paths"

fun rejectSchemaReferences :: "json \<Rightarrow> game_error option" where
  "rejectSchemaReferences (JObject kvs) =
     first_error (map (\<lambda>(key, child). first_error
       [guard (key \<in> {''$ref'', ''$dynamicRef'', ''$id'', ''$schema''}) (ErrSchemaKeyword key),
        rejectSchemaReferences child]) kvs)"
| "rejectSchemaReferences (JArray vs) = first_error (map rejectSchemaReferences vs)"
| "rejectSchemaReferences _ = None"

definition validateSettingsSchema :: "GameLibrary \<Rightarrow> bytes \<Rightarrow> game_error option" where
  "validateSettingsSchema lib schema = first_error
     [guard (length schema > 64 * 1024) ErrSchemaSize,
      guard (length schema = 0) ErrSchemaMissing,
      (case lib_Unmarshal lib schema of
         None \<Rightarrow> Some ErrSchemaJSON
       | Some document \<Rightarrow>
           (case document of
              JObject kvs \<Rightarrow> first_error
                [guard (map_of kvs ''type'' \<noteq> Some (JString ''object'')) ErrSchemaType,
                 rejectSchemaReferences document]
            | _ \<Rightarrow> Some ErrSchemaNotObject))]"

section \<open>settings.go\<close>

definition MaxRenderedSettingsBytes :: nat where "MaxRenderedSettingsBytes = 64 * 1024"

definition TrimSuffix :: "string \<Rightarrow> string \<Rightarrow> string" where
  "TrimSuffix s p = (if HasSuffix s p then take (length s - length p) s else s)"

definition nestedBelowPersistentPath :: "string \<Rightarrow> PersistentPath list \<Rightarrow> bool" where
  "nestedBelowPersistentPath mount paths \<longleftrightarrow>
     list_ex (\<lambda>p. HasPrefix mount (TrimSuffix (pp_MountPath p) ''/'' @ ''/'')) paths"

definition configurationTargetError ::
  "GameLibrary \<Rightarrow> PersistentPath list \<Rightarrow> ConfigurationTarget list \<Rightarrow> ConfigurationTarget \<Rightarrow> game_error option" where
  "configurationTargetError lib persistentPaths before t = first_error
     [guard (\<not> lib_IsDNS1123Label lib (ct_Name t)) (ErrTargetName (ct_Name t)),
      guard (ct_Name t \<in> set (map ct_Name before)) (ErrTargetDuplicate (ct_Name t)),
      guard (\<not> cleanMount (ct_MountPath t)) (ErrTargetMount (ct_Name t)),
      first_error_in (\<lambda>mount. guard (pathsOverlap mount (ct_MountPath t)) (ErrTargetOverlap (ct_MountPath t) mount))
        (map ct_MountPath before),
      first_error_in (\<lambda>p. guard (ct_MountPath t = pp_MountPath p) (ErrTargetPersistent (ct_MountPath t) (pp_MountPath p)))
        persistentPaths,
      guard (\<not> nestedBelowPersistentPath (ct_MountPath t) persistentPaths) (ErrTargetNotNested (ct_MountPath t))]"

definition validateConfigurationTargets ::
  "GameLibrary \<Rightarrow> ConfigurationTarget list \<Rightarrow> PersistentPath list \<Rightarrow> game_error option" where
  "validateConfigurationTargets lib targets persistentPaths = first_error
     [guard (targets = []) ErrNoTarget,
      errors_along (configurationTargetError lib persistentPaths) [] targets]"

definition Validate :: "GameLibrary \<Rightarrow> Definition \<Rightarrow> game_error option" where
  "Validate lib d = first_error
     [guard (\<not> dns_label (def_ID d)) ErrGameID,
      guard (TrimSpace (def_DisplayName d) = []) ErrDisplayName,
      validateRepository lib (def_ImageRepository d),
      validateVersionPolicy lib (def_VersionPolicy d),
      validateEndpoints (def_Endpoints d) (def_ReadinessEndpoint d) (def_ReadinessMode d),
      validatePersistentPaths (def_PersistentPaths d),
      validateRuntimeIdentity (def_RuntimeIdentity d),
      guard ((cap_ColdBackup (def_Capabilities d) \<or> cap_Restore (def_Capabilities d)) \<and> def_PersistentPaths d = [])
        ErrBackupNeedsPaths,
      guard (cap_Restore (def_Capabilities d) \<and> \<not> cap_ColdBackup (def_Capabilities d)) ErrRestoreNeedsBackup,
      validateSettingsSchema lib (def_SettingsSchema d),
      validateConfigurationTargets lib (def_ConfigurationTargets d) (def_PersistentPaths d),
      guard (Option.is_none (def_RenderSettings d)) ErrRenderer]"

definition ResolvedImage :: "GameLibrary \<Rightarrow> string \<Rightarrow> string \<Rightarrow> game_error + string" where
  "ResolvedImage lib repository digest =
     (case validateRepository lib repository of
        Some e \<Rightarrow> Inl e
      | None \<Rightarrow> if \<not> sha256_pattern digest then Inl ErrDigestForm else Inr (repository @ ''@'' @ digest))"

text \<open>The loop of \<^verbatim>\<open>pairRenderedFiles\<close>; \<open>used\<close> is \<^verbatim>\<open>totalBytes\<close> so far.\<close>

fun pairFiles :: "(string \<times> bytes) list \<Rightarrow> nat \<Rightarrow> ConfigurationTarget list \<Rightarrow> game_error + ConfigurationFile list" where
  "pairFiles rendered used [] = Inr []"
| "pairFiles rendered used (t # ts) =
     (case map_of rendered (ct_Name t) of
        None \<Rightarrow> Inl (ErrRenderedOmitted (ct_Name t))
      | Some contents \<Rightarrow>
          if contents = [] then Inl (ErrRenderedEmpty (ct_Name t))
          else if \<not> utf8_Valid contents \<or> CHR 0x00 \<in> set contents then Inl (ErrRenderedText (ct_Name t))
          else if used + length contents > MaxRenderedSettingsBytes then Inl ErrRenderedSize
          else (case pairFiles rendered (used + length contents) ts of
                  Inl e \<Rightarrow> Inl e
                | Inr files \<Rightarrow>
                    Inr (\<lparr> cf_Name = ct_Name t, cf_MountPath = ct_MountPath t, cf_Contents = contents \<rparr> # files)))"

definition pairRenderedFiles ::
  "ConfigurationTarget list \<Rightarrow> (string \<times> bytes) list \<Rightarrow> game_error + ConfigurationFile list" where
  "pairRenderedFiles targets rendered =
     (if length rendered \<noteq> length targets then Inl ErrRenderedCount else pairFiles rendered 0 targets)"

definition RenderSettingsFiles :: "Definition \<Rightarrow> bytes \<Rightarrow> game_error + ConfigurationFile list" where
  "RenderSettingsFiles d settings =
     (case def_RenderSettings d of
        None \<Rightarrow> Inl ErrRendererRequired
      | Some render \<Rightarrow>
          (case render settings of
             Inl e \<Rightarrow> Inl (ErrRender e)
           | Inr rendered \<Rightarrow>
               (case pairRenderedFiles (def_ConfigurationTargets d) rendered of
                  Inl e \<Rightarrow> Inl e
                | Inr files \<Rightarrow> Inr (sort_key cf_Name files))))"

text \<open>The bytes written to the hash for one file: \<^verbatim>\<open>%d:%s:%d:%s:%d:\<close> and the contents.\<close>

definition fileEncoding :: "ConfigurationFile \<Rightarrow> bytes" where
  "fileEncoding f =
     nat_decimal (length (cf_Name f)) @ '':'' @ cf_Name f @ '':'' @
     nat_decimal (length (cf_MountPath f)) @ '':'' @ cf_MountPath f @ '':'' @
     nat_decimal (length (cf_Contents f)) @ '':'' @ cf_Contents f"

definition SettingsDigest :: "Definition \<Rightarrow> bytes \<Rightarrow> game_error + string" where
  "SettingsDigest d settings =
     (case RenderSettingsFiles d settings of
        Inl e \<Rightarrow> Inl e
      | Inr files \<Rightarrow> Inr (''sha256:'' @ hex (sha256 (concat (map fileEncoding files)))))"

section \<open>version.go\<close>

definition ResolveVersionTag :: "GameLibrary \<Rightarrow> Definition \<Rightarrow> string \<Rightarrow> game_error + string" where
  "ResolveVersionTag lib d version =
     (if validateRepository lib (def_ImageRepository d) \<noteq> None then Inl ErrVersionRepository
      else if validateVersionPolicy lib (def_VersionPolicy d) \<noteq> None then Inl ErrVersionUnsupported
      else (case def_VersionPolicy d of
              None \<Rightarrow> Inl ErrVersionUnsupported
            | Some policy \<Rightarrow>
                if length version = 0 \<or> length version > maxVersionLength \<or> \<not> versionTokenPattern version
                then Inl ErrVersionToken
                else (case compileVersionPattern lib (vp_Pattern policy) of
                        None \<Rightarrow> Inl ErrVersionPolicy
                      | Some compiled \<Rightarrow>
                          if \<not> compiled version then Inl ErrVersionPolicy
                          else let tag = vp_TagPrefix policy @ version in
                            if \<not> tagPattern tag then Inl ErrVersionTag else Inr tag)))"

end
