(* ===== verification/ServerTypes.thy ===== *)
theory ServerTypes
  imports KubeTypes GameDefinition
begin

text \<open>
  The Kubernetes objects of a running game server, with the fields that the planner and the GameServer controller
  read or write: claims with their storage, configuration, Deployments with their Pod templates, Services with
  their published addresses, and the Pods and ReplicaSets that may still hold a world. Fields that only the API
  server fills in are part of the record of an observed object and empty in a planned one.

  Parameters of the model are the functions of Kubernetes' libraries that the code calls, the JSON-schema library,
  \<^verbatim>\<open>netip\<close> addresses, and the text of the materializer script, which is passed on unread.
\<close>

record ServerLibrary = GameLibrary +
  sl_IsDNS1123Subdomain :: "string \<Rightarrow> bool"
  sl_Sign :: "Quantity \<Rightarrow> int"
  sl_Cmp :: "Quantity \<Rightarrow> Quantity \<Rightarrow> int"
  sl_SchemaAccepts :: "bytes \<Rightarrow> bytes \<Rightarrow> bool"
  sl_GlobalUnicast :: "string \<Rightarrow> string option"
  sl_materializeScript :: string

text \<open>Indexing a \<^verbatim>\<open>ResourceList\<close> with an absent key gives the zero quantity.\<close>

definition quantity_at :: "(string \<rightharpoonup> Quantity) \<Rightarrow> string \<Rightarrow> Quantity" where
  "quantity_at m k = (case m k of None \<Rightarrow> ''0'' | Some q \<Rightarrow> q)"

definition ResourceStorage :: string where "ResourceStorage = ''storage''"
definition ResourceCPU :: string where "ResourceCPU = ''cpu''"
definition ResourceMemory :: string where "ResourceMemory = ''memory''"

section \<open>Claims and configuration\<close>

record ServerClaim = PersistentVolumeClaim +
  scl_StorageClassName :: "string option"
  scl_AccessModes :: "string list"
  scl_Requests :: "string \<rightharpoonup> Quantity"
  scl_Capacity :: "string \<rightharpoonup> Quantity"

record ServerConfigMap = ConfigMap +
  scm_BinaryData :: "string \<rightharpoonup> bytes"

section \<open>Pods\<close>

datatype WorkloadVolumeSource = WorkloadClaim string bool | WorkloadConfigMap string | WorkloadOther string

record WorkloadVolume =
  wv_Name :: string
  wv_Source :: WorkloadVolumeSource

record ContainerPort =
  cport_Name :: string
  cport_ContainerPort :: int32
  cport_Protocol :: string

datatype Probe = TCPSocketProbe string | ExecProbe "string list"

record WorkloadContainer =
  wc_Name :: string
  wc_Image :: string
  wc_ImagePullPolicy :: string
  wc_Command :: "string list"
  wc_Args :: "string list"
  wc_Ports :: "ContainerPort list"
  wc_VolumeMounts :: "VolumeMount list"
  wc_VolumeDevices :: "string list"
  wc_Requests :: "string \<rightharpoonup> Quantity"
  wc_Limits :: "string \<rightharpoonup> Quantity"
  wc_Security :: ContainerSecurity
  wc_ReadinessProbe :: "Probe option"

record WorkloadSecurity =
  ws_RunAsNonRoot :: "bool option"
  ws_RunAsUser :: "int64 option"
  ws_RunAsGroup :: "int64 option"
  ws_FSGroup :: "int64 option"
  ws_FSGroupChangePolicy :: "string option"
  ws_SeccompProfile :: "string option"

record WorkloadPodSpec =
  wps_AutomountServiceAccountToken :: "bool option"
  wps_Security :: WorkloadSecurity
  wps_InitContainers :: "WorkloadContainer list"
  wps_Containers :: "WorkloadContainer list"
  wps_EphemeralContainers :: "WorkloadContainer list"
  wps_Volumes :: "WorkloadVolume list"

record RuntimePod =
  rpod_Meta :: ObjectMeta
  rpod_Spec :: WorkloadPodSpec

record ReplicaSet =
  rset_TemplateLabels :: "string \<rightharpoonup> string"
  rset_TemplateSpec :: WorkloadPodSpec

section \<open>Deployments and Services\<close>

record DeploymentCondition =
  dc_Type :: string
  dc_Status :: ConditionStatus
  dc_Reason :: string

record Deployment =
  dep_Meta :: ObjectMeta
  dep_Replicas :: "int32 option"
  dep_Strategy :: string
  dep_Selector :: "string \<rightharpoonup> string"
  dep_TemplateLabels :: "string \<rightharpoonup> string"
  dep_TemplateAnnotations :: "string \<rightharpoonup> string"
  dep_TemplateSpec :: WorkloadPodSpec
  dep_ObservedGeneration :: int64
  dep_StatusReplicas :: int32
  dep_UpdatedReplicas :: int32
  dep_ReadyReplicas :: int32
  dep_AvailableReplicas :: int32
  dep_UnavailableReplicas :: int32
  dep_Conditions :: "DeploymentCondition list"

record IntOrString =
  ios_Type :: int64
  ios_IntVal :: int32
  ios_StrVal :: string

definition IntOrString_FromString :: "string \<Rightarrow> IntOrString" where
  "IntOrString_FromString s = \<lparr> ios_Type = 1, ios_IntVal = 0, ios_StrVal = s \<rparr>"

record ServicePort =
  sport_Name :: string
  sport_Protocol :: string
  sport_Port :: int32
  sport_TargetPort :: IntOrString

record PortStatus =
  pstat_Port :: int32
  pstat_Protocol :: string
  pstat_Error :: "string option"

record LoadBalancerIngress =
  ing_IP :: string
  ing_Hostname :: string
  ing_Ports :: "PortStatus list"

record Service =
  svc_Meta :: ObjectMeta
  svc_Type :: string
  svc_Selector :: "string \<rightharpoonup> string"
  svc_Ports :: "ServicePort list"
  svc_Ingress :: "LoadBalancerIngress list"

text \<open>The answer to a list request, which may be incomplete.\<close>

record 'a Listing =
  ls_Items :: "'a list"
  ls_Continue :: string
  ls_RemainingItemCount :: "int64 option"

definition listing_incomplete :: "'a Listing \<Rightarrow> bool" where
  "listing_incomplete l \<longleftrightarrow> ls_Continue l \<noteq> [] \<or> (case ls_RemainingItemCount l of None \<Rightarrow> False | Some n \<Rightarrow> n \<noteq> 0)"

end
