(* ===== verification/DataOperation.thy ===== *)
theory DataOperation
  imports Sha256 ApiTypes
begin

text \<open>
  \<^verbatim>\<open>internal/platform/data/operation.go\<close>: the pure safety rules of durable backup and restore.
  First the identities derived from an operation's UID, then the phase machine
  (\<open>ValidateTransition\<close> with \<open>allowed\<close>, \<open>terminal\<close>, \<open>validPhase\<close>), then the validators that span a
  request and its observed status (\<open>ValidateBackupStatus\<close>, \<open>ValidateRestoreStatus\<close>).
  The lemmas show what an accepted transition or an accepted status guarantees.
\<close>

section \<open>Errors\<close>

datatype OperationKind = BackupOperation | RestoreOperation | OperationKindOther string

datatype (plugins only: code) data_error =
    PathNameRequired
  | OperationUIDRequired
  | UnsupportedOperationKind OperationKind
  | UnsupportedPhaseTransition DataOperationPhase DataOperationPhase
  | RestoreOnlyPhase DataOperationPhase DataOperationPhase
  | SucceedBeforeVerification
  | ActivateBeforeVerification
  | TerminalTransition DataOperationPhase DataOperationPhase
  | RollbackBeforeVerification
  | InvalidTransition OperationKind DataOperationPhase DataOperationPhase
  | OperationRequired
  | SourceSnapshotMismatch
  | ArtifactIDMismatch
  | ArtifactProvenanceMismatch
  | PopulateAttemptsInvalid
  | PopulateJobWithoutAttempt
  | PreflightWithoutArtifact
  | ActivationWithoutHistory
  | ActivationWithoutSource
  | ActivationWithoutVerification
  | CandidateNotDeterministic string
  | RollbackDataIncomplete
  | ActiveNotRollback string
  | ActiveNotCandidate string
  | UnsupportedPhase DataOperationPhase
  | ObservedGenerationStale
  | CancelBlocksProgress
  | ActionableConditionRequired DataOperationPhase
  | FenceMismatch
  | FenceRequired
  | PathCountMismatch
  | SucceededWithoutArtifact
  | SucceededWithoutCompletion
  | RuntimeDispositionRequired
  | RuntimeDispositionMismatch
  | JournalWithoutFence
  | JournalGenerationInvalid
  | RecoveryConflictsWithActivation
  | CandidateStartInvalid
  | RollbackStopInvalid
  | RollbackRestartInvalid
  | DataIncomplete string
  | DataPathIncompatible string string
  | DataPathsAlias string string string
  | CandidateAliasesPrevious string string

section \<open>Identities derived from the operation UID\<close>

definition restoreLabel :: "UID \<Rightarrow> string \<Rightarrow> data_error + string" where
  "restoreLabel operationUID discriminator =
     (if operationUID = [] then Inl OperationUIDRequired
      else Inr (''restore-'' @ hex (take 24
             (sha256 (''arcadectl/restore/'' @ operationUID @ ''/'' @ discriminator)))))"

definition deterministicID :: "string \<Rightarrow> UID \<Rightarrow> string \<Rightarrow> data_error + string" where
  "deterministicID kind operationUID discriminator =
     (if operationUID = [] then Inl OperationUIDRequired
      else Inr (kind @ ''-'' @ hex
             (sha256 (''arcadectl/'' @ kind @ ''/'' @ operationUID @ ''/'' @ discriminator))))"

definition ArtifactID :: "UID \<Rightarrow> data_error + string" where
  "ArtifactID operationUID = deterministicID ''backup'' operationUID []"

definition RestoreCandidateID :: "UID \<Rightarrow> string \<Rightarrow> data_error + string" where
  "RestoreCandidateID operationUID pathName =
     (if pathName = [] then Inl PathNameRequired
      else restoreLabel operationUID (''claim/'' @ pathName))"

definition RestoreDataIdentity :: "UID \<Rightarrow> data_error + string" where
  "RestoreDataIdentity operationUID = restoreLabel operationUID ''data''"

section \<open>The phase machine\<close>

definition restoreOnlyPhase :: "DataOperationPhase \<Rightarrow> bool" where
  "restoreOnlyPhase phase \<longleftrightarrow> phase = DataPhaseActivating \<or> phase = DataPhaseRollingBack"

fun validPhase :: "DataOperationPhase \<Rightarrow> bool \<Rightarrow> bool" where
  "validPhase DataPhaseEmpty allowEmpty = allowEmpty"
| "validPhase (DataPhaseOther s) allowEmpty = False"
| "validPhase _ allowEmpty = True"

definition terminal :: "DataOperationPhase \<Rightarrow> bool" where
  "terminal phase \<longleftrightarrow>
     phase = DataPhaseCancelled \<or> phase = DataPhaseSucceeded \<or> phase = DataPhaseFailed"

definition allowed :: "OperationKind \<Rightarrow> DataOperationPhase \<Rightarrow> DataOperationPhase \<Rightarrow> bool" where
  "allowed kind current nxt =
     (if current = DataPhaseEmpty \<and> nxt = DataPhaseCancelling then True
      else if nxt = DataPhaseFailed then
        current \<noteq> DataPhaseEmpty \<and> \<not> (kind = RestoreOperation \<and> current = DataPhaseActivating)
      else if nxt = DataPhaseCancelling then
        current \<noteq> DataPhaseEmpty \<and> current \<noteq> DataPhaseRollingBack \<and>
          \<not> (kind = RestoreOperation \<and> current = DataPhaseActivating)
      else if current = DataPhaseCancelling then nxt = DataPhaseCancelled
      else if current = DataPhaseBlocked then nxt = DataPhasePreparing
      else (case current of
          DataPhaseEmpty \<Rightarrow> nxt = DataPhasePending
        | DataPhasePending \<Rightarrow> nxt = DataPhasePreparing \<or> nxt = DataPhaseBlocked
        | DataPhasePreparing \<Rightarrow> nxt = DataPhaseRunning \<or> nxt = DataPhaseBlocked \<or>
            (kind = BackupOperation \<and> nxt = DataPhaseVerifying)
        | DataPhaseRunning \<Rightarrow> nxt = DataPhaseVerifying
        | DataPhaseVerifying \<Rightarrow>
            (if kind = BackupOperation then nxt = DataPhaseSucceeded
             else nxt = DataPhaseActivating)
        | DataPhaseActivating \<Rightarrow> kind = RestoreOperation \<and>
            (nxt = DataPhaseSucceeded \<or> nxt = DataPhaseRollingBack)
        | DataPhaseRollingBack \<Rightarrow> False
        | _ \<Rightarrow> False))"

definition ValidateTransition ::
    "OperationKind \<Rightarrow> DataOperationPhase \<Rightarrow> DataOperationPhase \<Rightarrow> bool \<Rightarrow> data_error option" where
  "ValidateTransition kind current nxt verified =
     (if kind \<noteq> BackupOperation \<and> kind \<noteq> RestoreOperation then
        Some (UnsupportedOperationKind kind)
      else if \<not> validPhase current True \<or> \<not> validPhase nxt False then
        Some (UnsupportedPhaseTransition current nxt)
      else if kind = BackupOperation \<and> (restoreOnlyPhase current \<or> restoreOnlyPhase nxt) then
        Some (RestoreOnlyPhase current nxt)
      else if nxt = DataPhaseSucceeded \<and> \<not> verified then Some SucceedBeforeVerification
      else if kind = RestoreOperation \<and> nxt = DataPhaseActivating \<and> \<not> verified then
        Some ActivateBeforeVerification
      else if current = nxt then None
      else if terminal current then Some (TerminalTransition current nxt)
      else if kind = RestoreOperation \<and> current = DataPhaseRollingBack \<and>
              (nxt = DataPhaseFailed \<or> nxt = DataPhaseCancelled) then
        (if \<not> verified then Some RollbackBeforeVerification else None)
      else if \<not> allowed kind current nxt then Some (InvalidTransition kind current nxt)
      else None)"

section \<open>Identity comparisons\<close>

definition sameGameServer :: "ExactGameServerReference \<Rightarrow> ExactGameServerReference \<Rightarrow> bool" where
  "sameGameServer left right \<longleftrightarrow>
     ref_Name (gref_Local left) = ref_Name (gref_Local right) \<and>
     ref_UID (gref_Local left) = ref_UID (gref_Local right) \<and>
     gref_Generation left = gref_Generation right \<and>
     gref_DesiredState left = gref_DesiredState right"

definition sameLocal :: "ExactLocalReference \<Rightarrow> ExactLocalReference \<Rightarrow> bool" where
  "sameLocal left right \<longleftrightarrow> ref_Namespace left = None \<and> ref_Namespace right = None \<and>
     ref_Name left = ref_Name right \<and> ref_UID left = ref_UID right"

definition sameSecret :: "ExactSecretReference \<Rightarrow> ExactSecretReference \<Rightarrow> bool" where
  "sameSecret left right \<longleftrightarrow> sameLocal (sref_Local left) (sref_Local right) \<and>
     sref_ResourceVersion left = sref_ResourceVersion right"

section \<open>Path sets\<close>

fun pathByName :: "DataPathIdentity list \<Rightarrow> string \<Rightarrow> DataPathIdentity option" where
  "pathByName [] name = None"
| "pathByName (path # paths) name = (if dp_Name path = name then Some path else pathByName paths name)"

definition claimsAlias :: "DataPathIdentity \<Rightarrow> DataPathIdentity \<Rightarrow> bool" where
  "claimsAlias path other \<longleftrightarrow>
     ref_Name (dp_ClaimRef path) = ref_Name (dp_ClaimRef other) \<or>
     ref_UID (dp_ClaimRef path) = ref_UID (dp_ClaimRef other)"

fun aliasError :: "string \<Rightarrow> DataPathIdentity list \<Rightarrow> data_error option" where
  "aliasError label [] = None"
| "aliasError label (path # rest) =
     first_error
       [first_error_in (\<lambda>other. guard (claimsAlias path other)
          (DataPathsAlias label (dp_Name path) (dp_Name other))) rest,
        aliasError label rest]"

definition sourcePathError ::
    "DataPathIdentity list \<Rightarrow> string \<Rightarrow> DataPathIdentity \<Rightarrow> data_error option" where
  "sourcePathError observed label sourcePath =
     (case pathByName observed (dp_Name sourcePath) of
        None \<Rightarrow> Some (DataPathIncompatible label (dp_Name sourcePath))
      | Some path \<Rightarrow> guard (dp_MountPath path \<noteq> dp_MountPath sourcePath \<or>
            ref_Name (dp_ClaimRef path) = [] \<or> ref_UID (dp_ClaimRef path) = [])
          (DataPathIncompatible label (dp_Name sourcePath)))"

definition completePathSet ::
    "DataPathIdentity list \<Rightarrow> DataPathIdentity list \<Rightarrow> string \<Rightarrow> data_error option" where
  "completePathSet source observed label =
     first_error
       [guard (length source = 0 \<or> length observed \<noteq> length source) (DataIncomplete label),
        first_error_in (sourcePathError observed label) source,
        aliasError label observed]"

definition distinctClaims ::
    "DataPathIdentity list \<Rightarrow> DataPathIdentity list \<Rightarrow> data_error option" where
  "distinctClaims candidate previous =
     first_error_in (\<lambda>candidatePath. first_error_in (\<lambda>previousPath.
         guard (claimsAlias candidatePath previousPath)
           (CandidateAliasesPrevious (dp_Name candidatePath) (dp_Name previousPath))) previous)
       candidate"

section \<open>Status validators\<close>

definition hasActionableCondition :: "Condition list \<Rightarrow> int64 \<Rightarrow> bool" where
  "hasActionableCondition conditions generation =
     list_ex (\<lambda>c. cond_ObservedGeneration c = generation \<and> cond_Status c \<noteq> ConditionTrue \<and>
         TrimSpace (cond_Message c) \<noteq> [] \<and>
         cond_Reason c \<in> set [ReasonInvalidReference, ReasonIdentityMismatch,
           ReasonSecretUnavailable, ReasonStorageUnavailable, ReasonColdStopPending,
           ReasonOperationConflict, ReasonWorkerRetrying, ReasonWorkerFailed,
           ReasonVerificationFailed])
       conditions"

definition verifiedArtifact :: "BackupArtifact option \<Rightarrow> bool" where
  "verifiedArtifact artifact = (case artifact of
       None \<Rightarrow> False
     | Some a \<Rightarrow> ver_Result (art_Verification a) = VerificationVerified \<and>
         ver_VerifiedAt (art_Verification a) \<noteq> None)"

definition validateRuntimeDisposition ::
    "RestartPolicy \<Rightarrow> ExactGameServerReference \<Rightarrow> ColdDataFence \<Rightarrow> RuntimeDisposition option
      \<Rightarrow> data_error option" where
  "validateRuntimeDisposition policy subject fence disposition =
     (case disposition of
        None \<Rightarrow> Some RuntimeDispositionRequired
      | Some d \<Rightarrow>
          (let restores = (policy = RestartRestorePreviousState);
               wantState = (if restores then gref_DesiredState subject else DesiredStateStopped);
               restarts = (restores \<and> wantState = DesiredStateRunning);
               wantPhase = (if restarts then PhaseReady else PhaseStopped);
               wantGeneration = (if restarts then gref_Generation (fence_GameServer fence) + 1
                 else gref_Generation (fence_GameServer fence));
               observed = rt_GameServer d
           in guard (ref_Name (gref_Local observed) \<noteq> ref_Name (gref_Local subject) \<or>
                ref_UID (gref_Local observed) \<noteq> ref_UID (gref_Local subject) \<or>
                gref_DesiredState observed \<noteq> wantState \<or>
                gref_Generation observed \<noteq> wantGeneration \<or> rt_Phase d \<noteq> wantPhase)
              RuntimeDispositionMismatch))"

definition fenceGeneration :: "ExactGameServerReference \<Rightarrow> int64" where
  "fenceGeneration subject =
     (if gref_DesiredState subject = DesiredStateRunning then gref_Generation subject + 1
      else gref_Generation subject)"

definition fenceError :: "ExactGameServerReference \<Rightarrow> ColdDataFence option \<Rightarrow> data_error option" where
  "fenceError subject fence = (case fence of
       None \<Rightarrow> None
     | Some f \<Rightarrow> (let fenced = fence_GameServer f in
         guard (ref_Name (gref_Local fenced) \<noteq> ref_Name (gref_Local subject) \<or>
             ref_UID (gref_Local fenced) \<noteq> ref_UID (gref_Local subject) \<or>
             gref_DesiredState fenced \<noteq> DesiredStateStopped \<or>
             gref_Generation fenced \<noteq> fenceGeneration subject)
           FenceMismatch))"

definition validateCommonStatus ::
    "OperationKind \<Rightarrow> DataOperationRequest \<Rightarrow> ExactGameServerReference \<Rightarrow> DataOperationStatus
      \<Rightarrow> int64 \<Rightarrow> data_error option" where
  "validateCommonStatus kind request subject status operationGeneration =
     (let phase = st_Phase status in
      first_error
       [guard (\<not> validPhase phase False) (UnsupportedPhase phase),
        guard (kind = BackupOperation \<and> restoreOnlyPhase phase) (RestoreOnlyPhase phase phase),
        guard (st_ObservedGeneration status \<noteq> operationGeneration \<or> sint operationGeneration < 1)
          ObservedGenerationStale,
        guard (req_CancelRequested request \<and> phase \<noteq> DataPhaseCancelling \<and>
            phase \<noteq> DataPhaseCancelled \<and> phase \<noteq> DataPhaseFailed \<and>
            \<not> (kind = RestoreOperation \<and> phase = DataPhaseRollingBack))
          CancelBlocksProgress,
        guard ((phase = DataPhaseBlocked \<or> phase = DataPhaseFailed) \<and>
            \<not> hasActionableCondition (st_Conditions status) (st_ObservedGeneration status))
          (ActionableConditionRequired phase),
        fenceError subject (st_Fence status),
        guard ((phase = DataPhaseRunning \<or> phase = DataPhaseVerifying \<or>
            phase = DataPhaseActivating \<or> phase = DataPhaseRollingBack \<or>
            phase = DataPhaseSucceeded) \<and> st_Fence status = None)
          FenceRequired,
        (case (st_Source status, st_Artifact status) of
           (Some source, Some artifact) \<Rightarrow>
             guard (art_PathCount artifact \<noteq> int32_of_len (src_Paths source)) PathCountMismatch
         | _ \<Rightarrow> None),
        (if phase = DataPhaseSucceeded then
           first_error
             [guard (st_Source status = None \<or> \<not> verifiedArtifact (st_Artifact status))
                SucceededWithoutArtifact,
              guard (st_CompletedAt status = None) SucceededWithoutCompletion]
         else None),
        (case st_Fence status of
           Some fence \<Rightarrow> if kind = BackupOperation \<and> terminal phase
             then validateRuntimeDisposition (req_RestartPolicy request) subject fence
                    (st_Runtime status)
             else None
         | None \<Rightarrow> None)])"

definition ValidateBackupStatus :: "GameBackup option \<Rightarrow> data_error option" where
  "ValidateBackupStatus operation = (case operation of
       None \<Rightarrow> Some OperationRequired
     | Some op \<Rightarrow>
         (let status = gb_Status op; spec = gb_Spec op; secret = req_RepositorySecretRef (bspec_Request spec) in
          first_error
           [validateCommonStatus BackupOperation (bspec_Request spec) (bspec_Source spec) status
              (meta_Generation (gb_Meta op)),
            (case st_Source status of
               Some source \<Rightarrow>
                 guard (\<not> sameGameServer (src_GameServer source) (bspec_Source spec)) SourceSnapshotMismatch
             | None \<Rightarrow> None),
            (case st_Artifact status of
               Some artifact \<Rightarrow>
                 first_error
                   [guard (ArtifactID (meta_UID (gb_Meta op)) \<noteq> Inr (art_ID artifact)) ArtifactIDMismatch,
                    guard (ref_Name (prov_BackupRef (art_Provenance artifact)) \<noteq> meta_Name (gb_Meta op) \<or>
                        ref_UID (prov_BackupRef (art_Provenance artifact)) \<noteq> meta_UID (gb_Meta op) \<or>
                        \<not> sameSecret (prov_RepositorySecretRef (art_Provenance artifact)) secret)
                      ArtifactProvenanceMismatch]
             | None \<Rightarrow> None)]))"

definition runtimeJournalError ::
    "RestoreRuntimeJournal \<Rightarrow> ColdDataFence option \<Rightarrow> Time option \<Rightarrow> data_error option" where
  "runtimeJournalError journal statusFence activationStartedAt = (case statusFence of
       None \<Rightarrow> Some JournalWithoutFence
     | Some f \<Rightarrow>
         (let fence = gref_Generation (fence_GameServer f);
              recovery = jr_PreviousRecoveryGeneration journal;
              start = jr_CandidateStartGeneration journal;
              stop = jr_RollbackStopGeneration journal;
              restart = jr_RollbackRestartGeneration journal
          in first_error
           [guard (sint recovery < 0 \<or> sint start < 0 \<or> sint stop < 0 \<or> sint restart < 0)
              JournalGenerationInvalid,
            guard (recovery \<noteq> 0 \<and> (recovery \<noteq> fence + 1 \<or> start \<noteq> 0 \<or> stop \<noteq> 0 \<or>
                restart \<noteq> 0 \<or> activationStartedAt \<noteq> None))
              RecoveryConflictsWithActivation,
            guard (start \<noteq> 0 \<and> (start \<noteq> fence + 1 \<or> activationStartedAt = None))
              CandidateStartInvalid,
            guard (stop \<noteq> 0 \<and> (start = 0 \<or> stop \<noteq> fence + 2)) RollbackStopInvalid,
            guard (restart \<noteq> 0 \<and> (activationStartedAt = None \<or>
                restart \<noteq> (if stop \<noteq> 0 then fence + 3 else fence + 1)))
              RollbackRestartInvalid]))"

definition wantRuntimeGeneration :: "GameRestoreStatus \<Rightarrow> int64" where
  "wantRuntimeGeneration status = (case rst_RuntimeJournal status of
       None \<Rightarrow> 0
     | Some journal \<Rightarrow>
         (let phase = st_Phase (rst_Data status);
              activated = (rst_ActivationStartedAt status \<noteq> None);
              undone = (phase = DataPhaseFailed \<or> phase = DataPhaseCancelled)
          in if phase = DataPhaseSucceeded \<and> activated then jr_CandidateStartGeneration journal
             else if activated \<and> undone then jr_RollbackRestartGeneration journal
             else if \<not> activated \<and> undone then jr_PreviousRecoveryGeneration journal
             else 0))"

definition validateRestoreRuntimeStatus :: "GameRestore \<Rightarrow> data_error option" where
  "validateRestoreRuntimeStatus op =
     (let status = gr_Status op; data = rst_Data status; spec = gr_Spec op;
          policy = req_RestartPolicy (rspec_Request spec); target = rspec_Target spec in
      first_error
       [(case rst_RuntimeJournal status of
           None \<Rightarrow> None
         | Some journal \<Rightarrow>
             runtimeJournalError journal (st_Fence data) (rst_ActivationStartedAt status)),
        (case st_Fence data of
           None \<Rightarrow> None
         | Some fence \<Rightarrow>
             if \<not> terminal (st_Phase data) then None
             else if policy \<noteq> RestartRestorePreviousState \<or>
                     gref_DesiredState target \<noteq> DesiredStateRunning then
               validateRuntimeDisposition policy target fence (st_Runtime data)
             else (case st_Runtime data of
                 None \<Rightarrow> Some RuntimeDispositionRequired
               | Some runtime \<Rightarrow>
                   (let want = wantRuntimeGeneration status; observed = rt_GameServer runtime in
                    guard (want = 0 \<or> gref_Generation observed \<noteq> want \<or>
                        ref_Name (gref_Local observed) \<noteq> ref_Name (gref_Local target) \<or>
                        ref_UID (gref_Local observed) \<noteq> ref_UID (gref_Local target) \<or>
                        gref_DesiredState observed \<noteq> DesiredStateRunning \<or>
                        rt_Phase runtime \<noteq> PhaseReady)
                      RuntimeDispositionMismatch)))])"

definition sameClaim :: "DataPathIdentity \<Rightarrow> DataPathIdentity \<Rightarrow> bool" where
  "sameClaim a b \<longleftrightarrow> ref_Name (dp_ClaimRef a) = ref_Name (dp_ClaimRef b) \<and>
     ref_UID (dp_ClaimRef a) = ref_UID (dp_ClaimRef b)"

definition rollbackError ::
    "DataSourceSnapshot \<Rightarrow> GameRestoreStatus \<Rightarrow> data_error option" where
  "rollbackError source status =
     (case completePathSet (src_Paths source) (rst_ActiveData status) ''active'' of
        Some _ \<Rightarrow> Some RollbackDataIncomplete
      | None \<Rightarrow> first_error_in (\<lambda>previous.
          (case pathByName (rst_ActiveData status) (dp_Name previous) of
             None \<Rightarrow> Some (ActiveNotRollback (dp_Name previous))
           | Some active \<Rightarrow> guard (dp_MountPath active \<noteq> dp_MountPath previous \<or>
               \<not> sameClaim active previous) (ActiveNotRollback (dp_Name previous))))
          (rst_PreviousData status))"

definition switchedError ::
    "DataSourceSnapshot \<Rightarrow> GameRestoreStatus \<Rightarrow> data_error option" where
  "switchedError source status =
     first_error
       [completePathSet (src_Paths source) (rst_ActiveData status) ''active'',
        first_error_in (\<lambda>candidate.
          (case pathByName (rst_ActiveData status) (dp_Name candidate) of
             None \<Rightarrow> Some (ActiveNotCandidate (dp_Name candidate))
           | Some active \<Rightarrow> guard (\<not> sameClaim active candidate)
               (ActiveNotCandidate (dp_Name candidate))))
          (rst_CandidateData status)]"

definition activationError :: "GameRestore \<Rightarrow> DataSourceSnapshot \<Rightarrow> data_error option" where
  "activationError op source =
     (let status = gr_Status op; data = rst_Data status; paths = src_Paths source in
      first_error
       [completePathSet paths (rst_CandidateData status) ''candidate'',
        (case (rst_CandidateVerification status, st_Artifact data) of
           (Some cv, Some artifact) \<Rightarrow>
             guard (cver_Result cv \<noteq> VerificationVerified \<or>
                 cver_ManifestDigest cv \<noteq> art_ManifestDigest artifact \<or>
                 cver_PathCount cv \<noteq> int32_of_len paths)
               ActivationWithoutVerification
         | _ \<Rightarrow> Some ActivationWithoutVerification),
        completePathSet paths (rst_PreviousData status) ''previous'',
        distinctClaims (rst_CandidateData status) (rst_PreviousData status),
        first_error_in (\<lambda>candidate. guard
            (RestoreCandidateID (meta_UID (gr_Meta op)) (dp_Name candidate) \<noteq>
               Inr (ref_Name (dp_ClaimRef candidate)))
            (CandidateNotDeterministic (dp_Name candidate))) (rst_CandidateData status),
        (if st_Phase data = DataPhaseFailed \<or> st_Phase data = DataPhaseCancelled
         then rollbackError source status
         else if st_Phase data \<noteq> DataPhaseSucceeded then None
         else switchedError source status)])"

definition activationPhase :: "DataOperationPhase \<Rightarrow> bool" where
  "activationPhase phase \<longleftrightarrow> phase = DataPhaseActivating \<or> phase = DataPhaseRollingBack \<or>
     phase = DataPhaseSucceeded"

definition ValidateRestoreStatus :: "GameRestore option \<Rightarrow> data_error option" where
  "ValidateRestoreStatus operation = (case operation of
       None \<Rightarrow> Some OperationRequired
     | Some op \<Rightarrow>
         (let status = gr_Status op; data = rst_Data status; spec = gr_Spec op;
              phase = st_Phase data; secret = req_RepositorySecretRef (rspec_Request spec) in
          first_error
           [guard (sint (rst_PopulateAttempts status) < 0 \<or> sint (rst_PopulateAttempts status) > 3 \<or>
                (rst_PopulateRetryPending status \<and>
                  (rst_PopulateAttempts status = 0 \<or> phase \<noteq> DataPhaseRunning)))
              PopulateAttemptsInvalid,
            guard (rst_PopulateJobUID status \<noteq> [] \<and> rst_PopulateAttempts status = 0)
              PopulateJobWithoutAttempt,
            validateCommonStatus RestoreOperation (rspec_Request spec) (rspec_Target spec) data
              (meta_Generation (gr_Meta op)),
            validateRestoreRuntimeStatus op,
            guard (rst_PreflightVerifiedAt status \<noteq> None \<and>
                (st_Source data = None \<or> \<not> verifiedArtifact (st_Artifact data)))
              PreflightWithoutArtifact,
            (case st_Artifact data of
               Some artifact \<Rightarrow>
                 guard (ArtifactID (ref_UID (rspec_BackupRef spec)) \<noteq> Inr (art_ID artifact) \<or>
                     \<not> sameLocal (prov_BackupRef (art_Provenance artifact)) (rspec_BackupRef spec) \<or>
                     \<not> sameSecret (prov_RepositorySecretRef (art_Provenance artifact)) secret)
                   ArtifactProvenanceMismatch
             | None \<Rightarrow> None),
            guard (activationPhase phase \<and> rst_ActivationStartedAt status = None)
              ActivationWithoutHistory,
            (if \<not> activationPhase phase \<and> rst_ActivationStartedAt status = None then None
             else (case st_Source data of
                 None \<Rightarrow> Some ActivationWithoutSource
               | Some source \<Rightarrow> activationError op source))]))"

end
