(* ===== verification/BackupManifest.thy ===== *)
theory BackupManifest
  imports GoLib DataOperation
begin

text \<open>
  \<^verbatim>\<open>internal/platform/data/backup_manifest.go\<close> and \<^verbatim>\<open>repository.go\<close>: the contract between the
  controllers and the backup worker, the canonical manifest of a cold backup with the walk over the
  mounted files that builds it, and the validation of repository credentials.

  The file system is a parameter: what \<^verbatim>\<open>os.Lstat\<close> finds at a path, a tree of entries. The listing of
  a directory is in the order \<^verbatim>\<open>ReadDir\<close> returns, and \<open>None\<close> stands for a listing that cannot be
  read. \<open>NoInfo\<close> is an entry whose metadata is unavailable, with the type its listing gave.
\<close>

text \<open>An error is its message, without the operands that the code formats into it.\<close>

type_synonym error = string

section \<open>Types\<close>

definition BackupFormatVersion :: string where "BackupFormatVersion = ''arcadectl.backup/v2''"
definition WorkerInputVersion :: string where "WorkerInputVersion = ''arcadectl.backup-worker/v1''"

record BackupWorkerInput =
  bwi_Version :: string
  bwi_ArtifactID :: string
  bwi_OperationRef :: ExactLocalReference
  bwi_WorkerLeaseName :: string
  bwi_RepositorySecretRef :: ExactSecretReference
  bwi_Source :: DataSourceSnapshot

record BackupFileChecksum =
  bfc_Path :: string
  bfc_Size :: int64
  bfc_SHA256 :: string

text \<open>The two slices of a path are options: \<open>None\<close> is the nil slice, which a reader distinguishes.\<close>

record BackupManifestPath =
  bmp_Name :: string
  bmp_MountPath :: string
  bmp_ClaimName :: string
  bmp_ClaimUID :: string
  bmp_Directories :: "string list option"
  bmp_Files :: "BackupFileChecksum list option"

record BackupManifest =
  bm_FormatVersion :: string
  bm_ArtifactID :: string
  bm_ServerUID :: string
  bm_Game :: string
  bm_ImageDigest :: string
  bm_SettingsDigest :: string
  bm_Paths :: "BackupManifestPath list"

record BackupWorkerResult =
  bwr_Version :: string
  bwr_ArtifactID :: string
  bwr_ManifestDigest :: string
  bwr_SizeBytes :: int64
  bwr_PathCount :: int32
  bwr_CreatedAt :: Time
  bwr_VerifiedAt :: Time

section \<open>Validation of the worker input\<close>

text \<open>One round of the loop over the source paths, given the paths before it.\<close>

definition workerPathError :: "DataPathIdentity list \<Rightarrow> DataPathIdentity \<Rightarrow> error option" where
  "workerPathError before p = first_error
     [guard (dp_Name p = [] \<or> Contains (dp_Name p) ''/'' \<or> dp_MountPath p = [] \<or>
             ref_Name (dp_ClaimRef p) = [] \<or> ref_UID (dp_ClaimRef p) = [] \<or> ref_Namespace (dp_ClaimRef p) \<noteq> None)
        ''backup worker path identity is incomplete'',
      guard (dp_Name p \<in> set (map dp_Name before)) ''backup worker path names must be unique'',
      guard (ref_Name (dp_ClaimRef p) \<in> set (map (\<lambda>q. ref_Name (dp_ClaimRef q)) before))
        ''backup worker claim names must be unique'',
      guard (ref_UID (dp_ClaimRef p) \<in> set (map (\<lambda>q. ref_UID (dp_ClaimRef q)) before))
        ''backup worker claim UIDs must be unique'']"

definition ValidateBackupWorkerInput :: "BackupWorkerInput \<Rightarrow> error option" where
  "ValidateBackupWorkerInput input = (let opref = bwi_OperationRef input; sec = bwi_RepositorySecretRef input; src = bwi_Source input in first_error
     [guard (bwi_Version input \<noteq> WorkerInputVersion) ''unsupported backup worker input version'',
      guard (bwi_ArtifactID input = [] \<or> ref_Name opref = [] \<or> ref_UID opref = [] \<or> ref_Namespace opref \<noteq> None \<or>
             bwi_WorkerLeaseName input = [] \<or> length (bwi_WorkerLeaseName input) > 253 \<or> Contains (bwi_WorkerLeaseName input) ''/'' \<or>
             ref_Name (sref_Local sec) = [] \<or> ref_UID (sref_Local sec) = [] \<or>
             sref_ResourceVersion sec = [] \<or> ref_Namespace (sref_Local sec) \<noteq> None \<or>
             ref_UID (gref_Local (src_GameServer src)) = [] \<or> src_Game src = [] \<or>
             src_ImageDigest src = [] \<or> src_SettingsDigest src = [] \<or> src_Paths src = [])
        ''backup worker input is incomplete'',
      errors_along workerPathError [] (src_Paths src)])"

definition ManifestDigest :: "bytes \<Rightarrow> string" where
  "ManifestDigest contents = ''sha256:'' @ hex (sha256 contents)"

section \<open>Walking the mounted files\<close>

datatype file_content = CannotOpen | CannotRead | Content bytes

datatype fs_entry =
    Regular int64 file_content
  | Directory "(string \<times> fs_entry) list option"
  | Irregular
  | NoInfo bool

definition hashFile :: "file_content \<Rightarrow> error + string" where
  "hashFile content =
     (case content of
        CannotOpen \<Rightarrow> Inl ''persistent file cannot be opened''
      | CannotRead \<Rightarrow> Inl ''persistent file cannot be read completely''
      | Content bs \<Rightarrow> Inr (''sha256:'' @ hex (sha256 bs)))"

text \<open>The name of a visited entry relative to the root, or the error for an unsafe one.\<close>

definition relativeName :: "string \<Rightarrow> string \<Rightarrow> error + string" where
  "relativeName root name =
     (case path_Rel root name of
        None \<Rightarrow> Inl ''persistent path contains an unsafe entry''
      | Some relative \<Rightarrow>
          if relative = ''.'' \<or> IsAbs relative \<or> HasPrefix relative ''../'' \<or> \<not> utf8_Valid relative \<or> Contains relative RuneError
          then Inl ''persistent path contains an unsafe entry'' else Inr relative)"

text \<open>
  \<^verbatim>\<open>filepath.WalkDir\<close> with the callback of \<^verbatim>\<open>hashPath\<close>: \<open>walkEntry root name entry\<close> visits the entry called
  \<open>name\<close> and, below a directory, its children; the result lists files and directories in the order
  they are appended. A directory is visited before it is listed, and visited again with the error
  when it cannot be listed.
\<close>

type_synonym walked = "BackupFileChecksum list \<times> string list"

fun walkEntry :: "string \<Rightarrow> string \<Rightarrow> fs_entry \<Rightarrow> error + walked"
  and walkChildren :: "string \<Rightarrow> string \<Rightarrow> (string \<times> fs_entry) list \<Rightarrow> error + walked" where
  "walkEntry root name (Directory None) =
     (if name = root then Inl ''persistent path cannot be read completely''
      else (case relativeName root name of
              Inl e \<Rightarrow> Inl e
            | Inr relative \<Rightarrow> Inl ''persistent path cannot be read completely''))"
| "walkEntry root name (Directory (Some children)) =
     (if name = root then walkChildren root name children
      else (case relativeName root name of
              Inl e \<Rightarrow> Inl e
            | Inr relative \<Rightarrow>
                (case walkChildren root name children of
                   Inl e \<Rightarrow> Inl e
                 | Inr (files, directories) \<Rightarrow> Inr (files, relative # directories))))"
| "walkEntry root name (Regular sz content) =
     (case relativeName root name of
        Inl e \<Rightarrow> Inl e
      | Inr relative \<Rightarrow>
          (case hashFile content of
             Inl e \<Rightarrow> Inl e
           | Inr checksum \<Rightarrow> Inr ([\<lparr> bfc_Path = relative, bfc_Size = sz, bfc_SHA256 = checksum \<rparr>], [])))"
| "walkEntry root name Irregular =
     (case relativeName root name of
        Inl e \<Rightarrow> Inl e
      | Inr relative \<Rightarrow> Inl ''persistent path contains an unsupported non-regular entry'')"
| "walkEntry root name (NoInfo isRegular) =
     (case relativeName root name of
        Inl e \<Rightarrow> Inl e
      | Inr relative \<Rightarrow> Inl ''persistent path metadata is unavailable'')"
| "walkChildren root name [] = Inr ([], [])"
| "walkChildren root name ((child, entry) # rest) =
     (case walkEntry root (path_Join name child) entry of
        Inl e \<Rightarrow> Inl e
      | Inr (files, directories) \<Rightarrow>
          (case walkChildren root name rest of
             Inl e \<Rightarrow> Inl e
           | Inr (files', directories') \<Rightarrow> Inr (files @ files', directories @ directories')))"

definition hashPath :: "(string \<Rightarrow> fs_entry option) \<Rightarrow> string \<Rightarrow> error + walked" where
  "hashPath fs root =
     (case fs root of
        None \<Rightarrow> Inl ''persistent path is unavailable''
      | Some (Directory children) \<Rightarrow>
          (case walkEntry root root (Directory children) of
             Inl e \<Rightarrow> Inl e
           | Inr (files, directories) \<Rightarrow> Inr (sort_key bfc_Path files, sort directories))
      | Some _ \<Rightarrow> Inl ''persistent path is not a directory'')"

section \<open>The canonical manifest\<close>

text \<open>\<^verbatim>\<open>json.Marshal(manifest)\<close>: compact, with the fields in declaration order.\<close>

fun join_comma :: "string list \<Rightarrow> string" where
  "join_comma [] = []"
| "join_comma [p] = p"
| "join_comma (p # q # ps) = p @ CHR '','' # join_comma (q # ps)"

definition json_field :: "string \<Rightarrow> string \<Rightarrow> string" where
  "json_field name value = [CHR 0x22] @ name @ [CHR 0x22] @ '':'' @ value"

definition json_object :: "string list \<Rightarrow> string" where
  "json_object fds = ''{'' @ join_comma fds @ ''}''"

definition json_array :: "string list option \<Rightarrow> string" where
  "json_array items = (case items of None \<Rightarrow> ''null'' | Some xs \<Rightarrow> ''['' @ join_comma xs @ '']'')"

definition json_int64 :: "int64 \<Rightarrow> string" where
  "json_int64 w = (if sint w < 0 then ''-'' else []) @ nat_decimal (nat \<bar>sint w\<bar>)"

definition marshalChecksum :: "BackupFileChecksum \<Rightarrow> string" where
  "marshalChecksum f = json_object
     [json_field ''path'' (json_quote (bfc_Path f)), json_field ''size'' (json_int64 (bfc_Size f)),
      json_field ''sha256'' (json_quote (bfc_SHA256 f))]"

definition marshalPath :: "BackupManifestPath \<Rightarrow> string" where
  "marshalPath p = json_object
     [json_field ''name'' (json_quote (bmp_Name p)), json_field ''mountPath'' (json_quote (bmp_MountPath p)),
      json_field ''claimName'' (json_quote (bmp_ClaimName p)), json_field ''claimUID'' (json_quote (bmp_ClaimUID p)),
      json_field ''directories'' (json_array (map_option (map json_quote) (bmp_Directories p))),
      json_field ''files'' (json_array (map_option (map marshalChecksum) (bmp_Files p)))]"

definition marshalManifest :: "BackupManifest \<Rightarrow> bytes" where
  "marshalManifest m = json_object
     [json_field ''formatVersion'' (json_quote (bm_FormatVersion m)), json_field ''artifactID'' (json_quote (bm_ArtifactID m)),
      json_field ''serverUID'' (json_quote (bm_ServerUID m)), json_field ''game'' (json_quote (bm_Game m)),
      json_field ''imageDigest'' (json_quote (bm_ImageDigest m)), json_field ''settingsDigest'' (json_quote (bm_SettingsDigest m)),
      json_field ''paths'' (json_array (Some (map marshalPath (bm_Paths m))))]"

fun manifestPaths :: "(string \<Rightarrow> fs_entry option) \<Rightarrow> string \<Rightarrow> DataPathIdentity list \<Rightarrow> error + BackupManifestPath list" where
  "manifestPaths fs sourceRoot [] = Inr []"
| "manifestPaths fs sourceRoot (p # ps) =
     (case hashPath fs (path_Join sourceRoot (dp_Name p)) of
        Inl e \<Rightarrow> Inl (''hash persistent path: '' @ e)
      | Inr (files, directories) \<Rightarrow>
          (case manifestPaths fs sourceRoot ps of
             Inl e \<Rightarrow> Inl e
           | Inr rest \<Rightarrow> Inr (\<lparr> bmp_Name = dp_Name p, bmp_MountPath = dp_MountPath p,
                 bmp_ClaimName = ref_Name (dp_ClaimRef p), bmp_ClaimUID = ref_UID (dp_ClaimRef p),
                 bmp_Directories = Some directories, bmp_Files = Some files \<rparr> # rest)))"

definition BuildBackupManifest ::
  "(string \<Rightarrow> fs_entry option) \<Rightarrow> BackupWorkerInput \<Rightarrow> string \<Rightarrow> error + BackupManifest \<times> bytes" where
  "BuildBackupManifest fs input sourceRoot =
     (case ValidateBackupWorkerInput input of
        Some e \<Rightarrow> Inl e
      | None \<Rightarrow>
          if path_Clean sourceRoot \<noteq> sourceRoot \<or> \<not> IsAbs sourceRoot
          then Inl ''source root must be a clean absolute path''
          else (case manifestPaths fs sourceRoot (src_Paths (bwi_Source input)) of
                  Inl e \<Rightarrow> Inl e
                | Inr paths \<Rightarrow>
                    let src = bwi_Source input;
                        manifest = \<lparr> bm_FormatVersion = BackupFormatVersion, bm_ArtifactID = bwi_ArtifactID input,
                          bm_ServerUID = ref_UID (gref_Local (src_GameServer src)), bm_Game = src_Game src,
                          bm_ImageDigest = src_ImageDigest src, bm_SettingsDigest = src_SettingsDigest src,
                          bm_Paths = sort_key bmp_Name paths \<rparr>
                    in Inr (manifest, marshalManifest manifest @ [CHR 0x0A])))"

section \<open>repository.go\<close>

definition RepositoryKeyRepository :: string where "RepositoryKeyRepository = ''repository''"
definition RepositoryKeyPassword :: string where "RepositoryKeyPassword = ''password''"
definition RepositoryKeyAccessKeyID :: string where "RepositoryKeyAccessKeyID = ''awsAccessKeyID''"
definition RepositoryKeySecretAccessKey :: string where "RepositoryKeySecretAccessKey = ''awsSecretAccessKey''"
definition RepositoryKeySessionToken :: string where "RepositoryKeySessionToken = ''awsSessionToken''"
definition RepositoryKeyCACertificate :: string where "RepositoryKeyCACertificate = ''ca.crt''"

definition repositorySecretLimits :: "(string \<times> nat) list" where
  "repositorySecretLimits =
     [(RepositoryKeyRepository, 2048), (RepositoryKeyPassword, 4096), (RepositoryKeyAccessKeyID, 1024),
      (RepositoryKeySecretAccessKey, 4096), (RepositoryKeySessionToken, 8192), (RepositoryKeyCACertificate, 2 ^ 20)]"

text \<open>
  \<^verbatim>\<open>url.Parse\<close> is a parameter: it yields host, whether user information is present, raw query, fragment,
  path and escaped path.
\<close>

record URL =
  url_Host :: string
  url_User :: bool
  url_RawQuery :: string
  url_Fragment :: string
  url_Path :: string
  url_EscapedPath :: string

definition trim_slashes :: "string \<Rightarrow> string" where
  "trim_slashes s = rev (dropWhile (\<lambda>c. c = CHR ''/'') (rev (dropWhile (\<lambda>c. c = CHR ''/'') s)))"

definition validS3Repository :: "(string \<Rightarrow> URL option) \<Rightarrow> string \<Rightarrow> bool" where
  "validS3Repository parse repository \<longleftrightarrow>
     (HasPrefix repository ''s3:http://'' \<or> HasPrefix repository ''s3:https://'') \<and>
     (case parse (TrimPrefix repository ''s3:'') of
        None \<Rightarrow> False
      | Some u \<Rightarrow> url_Host u \<noteq> [] \<and> \<not> url_User u \<and> url_RawQuery u = [] \<and> url_Fragment u = [] \<and>
          hd (Split (trim_slashes (url_EscapedPath u)) (CHR ''/'')) \<noteq> [] \<and> url_Path u = url_EscapedPath u)"

text \<open>The secret data is an association list with distinct keys, in the order the loop visits it.\<close>

definition secretKeyError :: "string \<times> bytes \<Rightarrow> error option" where
  "secretKeyError kv = (case kv of (key, value) \<Rightarrow>
     (case map_of repositorySecretLimits key of
        None \<Rightarrow> Some ''repository Secret contains an unsupported key''
      | Some limit \<Rightarrow> first_error
          [guard (value = [] \<or> length value > limit \<or> CHR 0x00 \<in> set value) ''repository Secret key is invalid'',
           guard (key \<noteq> RepositoryKeyCACertificate \<and> ContainsAny value [CHR 0x0D, CHR 0x0A]) ''repository Secret key is invalid'']))"

definition ValidateRepositorySecretData :: "(string \<Rightarrow> URL option) \<Rightarrow> (string \<times> bytes) list \<Rightarrow> error option" where
  "ValidateRepositorySecretData parse data = first_error
     [first_error_in secretKeyError data,
      first_error_in (\<lambda>key. guard (mget (map_of data) key = []) ''repository Secret is incomplete'')
        [RepositoryKeyRepository, RepositoryKeyPassword, RepositoryKeyAccessKeyID, RepositoryKeySecretAccessKey],
      guard (\<not> validS3Repository parse (mget (map_of data) RepositoryKeyRepository))
        ''repository must be a bounded S3-compatible URL'']"

end
