(* ===== verification/Effects.thy ===== *)
theory Effects
  imports Prelude "HOL-Library.State_Monad"
begin

text \<open>
  Programs that call the outside world (the Kubernetes API, the file system, a repository command)
  are functions in the state monad. Every call takes the next number of a counter, and the world, a
  parameter of the program, answers the \<open>n\<close>-th call from its \<open>n\<close>-th snapshot: between two calls the
  world may change in any way. \<open>wp m Q s\<close> says that running \<open>m\<close> from \<open>s\<close> ends in a result and a state
  that satisfy \<open>Q\<close>; its rules turn a program into the case analysis of its branches.
\<close>

definition wp :: "('s, 'a) state \<Rightarrow> ('a \<Rightarrow> 's \<Rightarrow> bool) \<Rightarrow> 's \<Rightarrow> bool" where
  "wp m Q s = (case run_state m s of (x, s') \<Rightarrow> Q x s')"

named_theorems wp_simps \<open>weakest preconditions of program constructs\<close>

lemma wp_return [wp_simps]: "wp (State_Monad.return x) Q s = Q x s"
  by (simp add: wp_def State_Monad.return_def)

lemma wp_bind [wp_simps]: "wp (State_Monad.bind m f) Q s = wp m (\<lambda>x. wp (f x) Q) s"
  by (simp add: wp_def State_Monad.bind_def split: prod.splits)

lemma wp_get [wp_simps]: "wp State_Monad.get Q s = Q s s"
  by (simp add: wp_def State_Monad.get_def)

lemma wp_set [wp_simps]: "wp (State_Monad.set t) Q s = Q () t"
  by (simp add: wp_def State_Monad.set_def)

lemma wp_if [wp_simps]: "wp (if b then m else m') Q s = (if b then wp m Q s else wp m' Q s)"
  by simp

lemma wp_let [wp_simps]: "wp (Let x f) Q s = (let y = x in wp (f y) Q s)"
  by simp

lemma wp_case_sum [wp_simps]:
  "wp (case r of Inl e \<Rightarrow> f e | Inr v \<Rightarrow> g v) Q s = (case r of Inl e \<Rightarrow> wp (f e) Q s | Inr v \<Rightarrow> wp (g v) Q s)"
  by (simp split: sum.splits)

lemma wp_case_option [wp_simps]:
  "wp (case r of None \<Rightarrow> m | Some v \<Rightarrow> g v) Q s = (case r of None \<Rightarrow> wp m Q s | Some v \<Rightarrow> wp (g v) Q s)"
  by (simp split: option.splits)

lemma wp_case_prod [wp_simps]: "wp (case p of (a, b) \<Rightarrow> f a b) Q s = (case p of (a, b) \<Rightarrow> wp (f a b) Q s)"
  by (simp split: prod.splits)

lemma wp_case_list [wp_simps]:
  "wp (case xs of [] \<Rightarrow> m | y # ys \<Rightarrow> f y ys) Q s = (case xs of [] \<Rightarrow> wp m Q s | y # ys \<Rightarrow> wp (f y ys) Q s)"
  by (simp split: list.splits)

lemma wp_mono: "wp m Q s \<Longrightarrow> (\<And>x t. Q x t \<Longrightarrow> Q' x t) \<Longrightarrow> wp m Q' s"
  by (auto simp: wp_def split: prod.splits)

lemma wp_conj: "wp m Q s \<Longrightarrow> wp m Q' s \<Longrightarrow> wp m (\<lambda>x t. Q x t \<and> Q' x t) s"
  by (simp add: wp_def split: prod.splits)

lemma wp_run: "run_state m s = (x, t) \<Longrightarrow> wp m Q s \<Longrightarrow> Q x t"
  by (simp add: wp_def)

lemma wp_iff_run: "wp m Q s \<longleftrightarrow> (\<forall>x t. run_state m s = (x, t) \<longrightarrow> Q x t)"
  by (simp add: wp_def split: prod.splits)

lemma wp_trivial: "(\<And>x t. Q x t) \<Longrightarrow> wp m Q s"
  by (simp add: wp_def split: prod.splits)

section \<open>Calls and early returns\<close>

text \<open>\<^verbatim>\<open>x, err := m(); if err != nil { return err }\<close> and the same for a call that only returns an error.\<close>

definition attempt :: "('s, 'e + 'a) state \<Rightarrow> ('a \<Rightarrow> ('s, 'e + 'b) state) \<Rightarrow> ('s, 'e + 'b) state" where
  "attempt m f = do { r \<leftarrow> m; case r of Inl e \<Rightarrow> State_Monad.return (Inl e) | Inr v \<Rightarrow> f v }"

definition check :: "('s, 'e option) state \<Rightarrow> ('s, 'e option) state \<Rightarrow> ('s, 'e option) state" where
  "check m k = do { r \<leftarrow> m; case r of Some e \<Rightarrow> State_Monad.return (Some e) | None \<Rightarrow> k }"

text \<open>A loop whose body returns an error stops at the first one.\<close>

fun each :: "('a \<Rightarrow> ('s, 'e option) state) \<Rightarrow> 'a list \<Rightarrow> ('s, 'e option) state" where
  "each f [] = State_Monad.return None"
| "each f (x # xs) = check (f x) (each f xs)"

lemma wp_attempt [wp_simps]:
  "wp (attempt m f) Q s = wp m (\<lambda>r. case r of Inl e \<Rightarrow> Q (Inl e) | Inr v \<Rightarrow> wp (f v) Q) s"
  unfolding attempt_def wp_simps by (rule arg_cong [where f = "\<lambda>q. wp m q s"]) (auto simp: fun_eq_iff wp_simps split: sum.splits)

lemma wp_check [wp_simps]:
  "wp (check m k) Q s = wp m (\<lambda>r. case r of Some e \<Rightarrow> Q (Some e) | None \<Rightarrow> wp k Q) s"
  unfolding check_def wp_simps by (rule arg_cong [where f = "\<lambda>q. wp m q s"]) (auto simp: fun_eq_iff wp_simps split: option.splits)

text \<open>
  What a loop without error establishes: each element's body ran from some state in which the
  invariant \<open>I\<close> holds and ended without error.
\<close>

lemma wp_each:
  assumes "I s"
    and body: "\<And>x t. x \<in> set xs \<Longrightarrow> I t \<Longrightarrow> wp (f x) (\<lambda>r u. I u \<and> (r = None \<longrightarrow> P x)) t"
  shows "wp (each f xs) (\<lambda>r t. I t \<and> (r = None \<longrightarrow> (\<forall>x\<in>set xs. P x))) s"
  using assms
proof (induction xs arbitrary: s)
  case Nil
  then show ?case by (simp add: wp_simps)
next
  case (Cons x xs)
  have tail: "wp (each f xs) (\<lambda>r t. I t \<and> (r = None \<longrightarrow> (\<forall>x\<in>set xs. P x))) t" if "I t" for t
    using Cons that by simp
  have "wp (f x) (\<lambda>r u. I u \<and> (r = None \<longrightarrow> P x)) s" using Cons by simp
  then show ?case
    unfolding each.simps wp_check
    by (rule wp_mono) (auto split: option.splits intro: wp_mono [OF tail])
qed

end
