(* ===== verification/RestoreWorker.thy ===== *)
theory RestoreWorker
  imports BackupManifest Effects
begin

text \<open>
  The package \<^verbatim>\<open>internal/restoreworker\<close> and the writer of \<^verbatim>\<open>internal/workerio\<close>: validation of the
  controller's input (worker.go), the manifest and the repository inventory (inventory.go), the full
  verification of a backup in \<^verbatim>\<open>Run\<close>, and the population of candidate claims (populate.go).

  Parameters, collected in \<open>WorkerEnv\<close>: Kubernetes' name validation, the strict JSON decoders into the
  package's structs, \<^verbatim>\<open>url.Parse\<close>, and the outside world. The world answers the \<open>n\<close>-th call from its
  \<open>n\<close>-th snapshot.
\<close>

section \<open>Types\<close>

definition InputVersion :: string where "InputVersion = ''arcadectl.restore-worker/v1''"
definition ResultVersion :: string where "ResultVersion = ''arcadectl.restore-result/v1''"
definition DefaultSourceRoot :: string where "DefaultSourceRoot = ''/arcadectl/source''"
definition DefaultManifestPath :: string where "DefaultManifestPath = ''/arcadectl/work/manifest.json''"
definition DefaultInputPath :: string where "DefaultInputPath = ''/arcadectl/input/input.json''"
definition DefaultCredentialsPath :: string where "DefaultCredentialsPath = ''/arcadectl/credentials''"
definition DefaultCandidateRoot :: string where "DefaultCandidateRoot = ''/arcadectl/candidate''"
definition DefaultWorkPath :: string where "DefaultWorkPath = ''/arcadectl/work''"
definition maxInputBytes :: nat where "maxInputBytes = 2 ^ 20"
definition maxControlBytes :: nat where "maxControlBytes = 2 ^ 20"
definition maxManifestBytes :: nat where "maxManifestBytes = 8 * 2 ^ 20"
definition maxInventoryBytes :: nat where "maxInventoryBytes = 32 * 2 ^ 20"

datatype Stage = StagePreflight | StagePopulate | StageOther string

record PathContract =
  pc_Name :: string
  pc_MountPath :: string

record Input =
  in_Version :: string
  in_Stage :: Stage
  in_OperationRef :: ExactLocalReference
  in_BackupRef :: ExactLocalReference
  in_Target :: ExactGameServerReference
  in_WorkerLeaseName :: string
  in_RepositorySecretRef :: ExactSecretReference
  in_Artifact :: BackupArtifact
  in_Source :: DataSourceSnapshot
  in_TargetGame :: string
  in_TargetImageDigest :: string
  in_TargetSettingsDigest :: string
  in_TargetPaths :: "PathContract list"
  in_PreviousDataIdentity :: string
  in_PreviousData :: "DataPathIdentity list"
  in_CandidatePaths :: "DataPathIdentity list"

record Result =
  res_Version :: string
  res_Stage :: Stage
  res_ArtifactID :: string
  res_ManifestDigest :: string
  res_PathCount :: int32
  res_VerifiedAt :: Time

datatype FailureKind =
  FailureInput | FailureCredentials | FailureRepository | FailureVerification | FailureCandidate

record snapshot =
  snap_ID :: string
  snap_Tags :: "string list"

record resticInventoryRecord =
  inv_StructType :: string
  inv_ID :: string
  inv_Path :: string
  inv_Type :: string
  inv_Size :: int64

datatype lstat = LstatMissing | LstatError | LstatDirectory | LstatRegular nat | LstatSpecial

datatype mkdir = MkdirDone | MkdirExists | MkdirError

record WorkerEnv =
  we_IsDNS1123Label :: "string \<Rightarrow> bool"
  we_IsDNS1123Subdomain :: "string \<Rightarrow> bool"
  we_decodeInput :: "bytes \<Rightarrow> Input option"
  we_decodeSnapshots :: "bytes \<Rightarrow> snapshot list option"
  we_decodeManifest :: "bytes \<Rightarrow> BackupManifest option"
  we_decodeInventory :: "bytes \<Rightarrow> resticInventoryRecord list \<times> bool"
  we_parseURL :: "string \<Rightarrow> URL option"
  we_ReadFile :: "nat \<Rightarrow> string \<Rightarrow> bytes option"
  we_ReadDir :: "nat \<Rightarrow> string \<Rightarrow> (string \<times> bool) list option"
  we_MkdirAll :: "nat \<Rightarrow> string \<Rightarrow> bool"
  we_Command :: "nat \<Rightarrow> string list \<Rightarrow> string list \<Rightarrow> bytes list \<times> bool"
  we_Lstat :: "nat \<Rightarrow> string \<Rightarrow> lstat"
  we_Tree :: "nat \<Rightarrow> string \<Rightarrow> fs_entry option"
  we_Mkdir :: "nat \<Rightarrow> string \<Rightarrow> mkdir"
  we_OpenFile :: "nat \<Rightarrow> string \<Rightarrow> bool"
  we_Write :: "nat \<Rightarrow> string \<Rightarrow> bytes \<Rightarrow> bytes \<Rightarrow> bool"
  we_Sync :: "nat \<Rightarrow> string \<Rightarrow> bool"
  we_Close :: "nat \<Rightarrow> string \<Rightarrow> bool"
  we_Now :: "nat \<Rightarrow> Time"

section \<open>Input validation\<close>

definition safePathName :: "WorkerEnv \<Rightarrow> string \<Rightarrow> bool" where
  "safePathName we name = we_IsDNS1123Label we name"

definition safeMountPath :: "string \<Rightarrow> bool" where
  "safeMountPath name \<longleftrightarrow> IsAbs name \<and> path_Clean name = name \<and> name \<noteq> ''/''"

text \<open>The first condition of \<^verbatim>\<open>ValidateInput\<close>.\<close>

definition contractInvalid :: "Input \<Rightarrow> bool" where
  "contractInvalid i \<longleftrightarrow>
     in_Version i \<noteq> InputVersion \<or> (in_Stage i \<noteq> StagePreflight \<and> in_Stage i \<noteq> StagePopulate) \<or>
     ref_Name (in_OperationRef i) = [] \<or> ref_UID (in_OperationRef i) = [] \<or> ref_Namespace (in_OperationRef i) \<noteq> None \<or>
     ref_Name (in_BackupRef i) = [] \<or> ref_UID (in_BackupRef i) = [] \<or> ref_Namespace (in_BackupRef i) \<noteq> None \<or>
     ref_Name (gref_Local (in_Target i)) = [] \<or> ref_UID (gref_Local (in_Target i)) = [] \<or>
     ref_Namespace (gref_Local (in_Target i)) \<noteq> None \<or> sint (gref_Generation (in_Target i)) < 1 \<or>
     (gref_DesiredState (in_Target i) \<noteq> DesiredStateStopped \<and> gref_DesiredState (in_Target i) \<noteq> DesiredStateRunning) \<or>
     in_WorkerLeaseName i = [] \<or> length (in_WorkerLeaseName i) > 253 \<or> Contains (in_WorkerLeaseName i) ''/'' \<or>
     ref_Name (sref_Local (in_RepositorySecretRef i)) = [] \<or> ref_UID (sref_Local (in_RepositorySecretRef i)) = [] \<or>
     sref_ResourceVersion (in_RepositorySecretRef i) = [] \<or> ref_Namespace (sref_Local (in_RepositorySecretRef i)) \<noteq> None \<or>
     art_FormatVersion (in_Artifact i) \<noteq> BackupFormatVersion \<or>
     ver_Result (art_Verification (in_Artifact i)) \<noteq> VerificationVerified \<or>
     \<not> sameLocal (prov_BackupRef (art_Provenance (in_Artifact i))) (in_BackupRef i) \<or>
     \<not> sameSecret (prov_RepositorySecretRef (art_Provenance (in_Artifact i))) (in_RepositorySecretRef i) \<or>
     sint (art_PathCount (in_Artifact i)) < 1 \<or> \<not> HasPrefix (art_ManifestDigest (in_Artifact i)) ''sha256:'' \<or>
     length (art_ManifestDigest (in_Artifact i)) \<noteq> 71 \<or>
     ref_UID (gref_Local (src_GameServer (in_Source i))) = [] \<or> in_TargetGame i = [] \<or> in_TargetImageDigest i = [] \<or>
     in_TargetSettingsDigest i = [] \<or> in_TargetPaths i = [] \<or> length (in_TargetPaths i) \<noteq> length (src_Paths (in_Source i))"

definition artifactIncompatible :: "Input \<Rightarrow> bool" where
  "artifactIncompatible i \<longleftrightarrow>
     ArtifactID (ref_UID (in_BackupRef i)) \<noteq> Inr (art_ID (in_Artifact i)) \<or>
     art_PathCount (in_Artifact i) \<noteq> int32_of_len (src_Paths (in_Source i)) \<or>
     in_TargetGame i \<noteq> src_Game (in_Source i) \<or> in_TargetImageDigest i \<noteq> src_ImageDigest (in_Source i) \<or>
     in_TargetSettingsDigest i \<noteq> src_SettingsDigest (in_Source i)"

text \<open>The backup worker's input, rebuilt from the restore input.\<close>

definition backupInput :: "Input \<Rightarrow> BackupWorkerInput" where
  "backupInput i = \<lparr>
     bwi_Version = WorkerInputVersion, bwi_ArtifactID = art_ID (in_Artifact i), bwi_OperationRef = in_BackupRef i,
     bwi_WorkerLeaseName = in_WorkerLeaseName i, bwi_RepositorySecretRef = in_RepositorySecretRef i, bwi_Source = in_Source i \<rparr>"

text \<open>The map from path names to mount paths that \<^verbatim>\<open>ValidateInput\<close> collects from the target paths.\<close>

definition mountOf :: "PathContract list \<Rightarrow> string \<Rightarrow> string" where
  "mountOf ps = mget (map_of (map (\<lambda>p. (pc_Name p, pc_MountPath p)) ps))"

definition targetPathError :: "WorkerEnv \<Rightarrow> PathContract list \<Rightarrow> PathContract \<Rightarrow> error option" where
  "targetPathError we before p = guard (\<not> safePathName we (pc_Name p) \<or> \<not> safeMountPath (pc_MountPath p) \<or> mountOf before (pc_Name p) \<noteq> [])
     ''target paths are invalid''"

definition sourcePathDiffers :: "WorkerEnv \<Rightarrow> PathContract list \<Rightarrow> DataPathIdentity \<Rightarrow> error option" where
  "sourcePathDiffers we ps p = guard (\<not> safePathName we (dp_Name p) \<or> \<not> safeMountPath (dp_MountPath p) \<or> mountOf ps (dp_Name p) \<noteq> dp_MountPath p)
     ''source and target paths differ''"

definition previousPathError :: "WorkerEnv \<Rightarrow> PathContract list \<Rightarrow> DataPathIdentity list \<Rightarrow> DataPathIdentity \<Rightarrow> error option" where
  "previousPathError we ps before p = first_error
     [guard (\<not> safePathName we (dp_Name p) \<or> mountOf ps (dp_Name p) \<noteq> dp_MountPath p \<or>
             ref_Name (dp_ClaimRef p) = [] \<or> ref_UID (dp_ClaimRef p) = [] \<or> ref_Namespace (dp_ClaimRef p) \<noteq> None)
        ''previous data identity is invalid'',
      guard (dp_Name p \<in> set (map dp_Name before)) ''previous data paths overlap'',
      guard (ref_Name (dp_ClaimRef p) \<in> set (map (\<lambda>q. ref_Name (dp_ClaimRef q)) before)) ''previous claim names overlap'',
      guard (ref_UID (dp_ClaimRef p) \<in> set (map (\<lambda>q. ref_UID (dp_ClaimRef q)) before)) ''previous claim UIDs overlap'']"

definition candidatePathError :: "Input \<Rightarrow> DataPathIdentity list \<Rightarrow> DataPathIdentity \<Rightarrow> error option" where
  "candidatePathError i before c = first_error
     [guard (RestoreCandidateID (ref_UID (in_OperationRef i)) (dp_Name c) \<noteq> Inr (ref_Name (dp_ClaimRef c)) \<or>
             ref_UID (dp_ClaimRef c) = [] \<or> ref_Namespace (dp_ClaimRef c) \<noteq> None \<or>
             mountOf (in_TargetPaths i) (dp_Name c) \<noteq> dp_MountPath c)
        ''candidate identity is invalid'',
      guard (dp_Name c \<in> set (map dp_Name before)) ''candidate paths overlap'',
      guard (ref_Name (dp_ClaimRef c) \<in> set (map (\<lambda>q. ref_Name (dp_ClaimRef q)) before)) ''candidate names overlap'',
      guard (ref_UID (dp_ClaimRef c) \<in> set (map (\<lambda>q. ref_UID (dp_ClaimRef q)) before)) ''candidate UIDs overlap'']"

definition candidateAliases :: "Input \<Rightarrow> string \<Rightarrow> string \<Rightarrow> DataPathIdentity \<Rightarrow> error option" where
  "candidateAliases i nameError uidError p = first_error
     [guard (ref_Name (dp_ClaimRef p) \<in> set (map (\<lambda>c. ref_Name (dp_ClaimRef c)) (in_CandidatePaths i))) nameError,
      guard (ref_UID (dp_ClaimRef p) \<in> set (map (\<lambda>c. ref_UID (dp_ClaimRef c)) (in_CandidatePaths i))) uidError]"

definition ValidateInput :: "WorkerEnv \<Rightarrow> Input \<Rightarrow> error option" where
  "ValidateInput we i = first_error
     [guard (contractInvalid i) ''restore input contract is invalid'',
      guard (artifactIncompatible i) ''restore artifact or adapter is incompatible'',
      guard (ValidateBackupWorkerInput (backupInput i) \<noteq> None) ''source identity is invalid'',
      guard (\<not> we_IsDNS1123Subdomain we (in_WorkerLeaseName i)) ''worker lease identity is invalid'',
      errors_along (targetPathError we) [] (in_TargetPaths i),
      first_error_in (sourcePathDiffers we (in_TargetPaths i)) (src_Paths (in_Source i)),
      (if in_Stage i = StagePreflight
       then guard (in_CandidatePaths i \<noteq> [] \<or> in_PreviousData i \<noteq> [] \<or> in_PreviousDataIdentity i \<noteq> [])
              ''preflight cannot receive target claim identities''
       else first_error
         [guard (\<not> we_IsDNS1123Label we (in_PreviousDataIdentity i) \<or>
                 length (in_PreviousData i) \<noteq> length (src_Paths (in_Source i)) \<or>
                 length (in_CandidatePaths i) \<noteq> length (src_Paths (in_Source i)))
            ''previous or candidate paths are incomplete'',
          errors_along (previousPathError we (in_TargetPaths i)) [] (in_PreviousData i),
          errors_along (candidatePathError i) [] (in_CandidatePaths i),
          first_error_in (candidateAliases i ''candidate aliases source claim'' ''candidate aliases source UID'') (src_Paths (in_Source i)),
          first_error_in (candidateAliases i ''candidate aliases previous claim'' ''candidate aliases previous UID'') (in_PreviousData i)])]"

section \<open>The manifest\<close>

definition parseManifest :: "WorkerEnv \<Rightarrow> bytes \<Rightarrow> error + BackupManifest" where
  "parseManifest we contents =
     (case we_decodeManifest we contents of
        None \<Rightarrow> Inl ''manifest invalid''
      | Some m \<Rightarrow> if contents \<noteq> marshalManifest m @ [CHR 0x0A] then Inl ''manifest noncanonical'' else Inr m)"

definition safeRelative :: "string \<Rightarrow> bool" where
  "safeRelative name \<longleftrightarrow> name \<noteq> [] \<and> name \<noteq> ''.'' \<and> name \<noteq> ''..'' \<and> \<not> IsAbs name \<and> path_Clean name = name \<and>
     \<not> HasPrefix name ''../'' \<and> CHR 0x00 \<notin> set name \<and> utf8_Valid name \<and> \<not> Contains name RuneError"

definition validDigest :: "string \<Rightarrow> bool" where
  "validDigest v \<longleftrightarrow> length v = 71 \<and> HasPrefix v ''sha256:'' \<and> unhex (TrimPrefix v ''sha256:'') \<noteq> None"

text \<open>
  \<open>missing_parent dirs n name\<close> climbs from \<open>name\<close> with \<^verbatim>\<open>filepath.Dir\<close> until it reaches the dot, and
  reports whether a directory on the way is not in \<open>dirs\<close>. A relative path has at most as many
  parents as bytes, so \<open>n = length name\<close> rounds suffice.
\<close>

fun missing_parent :: "string list \<Rightarrow> nat \<Rightarrow> string \<Rightarrow> bool" where
  "missing_parent dirs 0 name = False"
| "missing_parent dirs (Suc n) name =
     (let parent = path_Dir name in
      if parent = ''.'' then False
      else if parent \<notin> set dirs then True
      else missing_parent dirs n parent)"

text \<open>Strictly increasing, as the loops test with \<^verbatim>\<open>lastDir\<close> and \<^verbatim>\<open>lastFile\<close>, which start empty.\<close>

definition manifestDirError :: "string list \<Rightarrow> string \<Rightarrow> error option" where
  "manifestDirError before dir = guard (\<not> safeRelative dir \<or> dir \<le> (if before = [] then [] else last before)) ''manifest directories are unsafe''"

definition manifestFileError :: "string list \<Rightarrow> BackupFileChecksum list \<Rightarrow> BackupFileChecksum \<Rightarrow> error option" where
  "manifestFileError dirs before f = first_error
     [guard (\<not> safeRelative (bfc_Path f) \<or> bfc_Path f \<le> (if before = [] then [] else bfc_Path (last before)) \<or>
             sint (bfc_Size f) < 0 \<or> \<not> validDigest (bfc_SHA256 f)) ''manifest files are unsafe'',
      guard (bfc_Path f \<in> set dirs) ''manifest file aliases directory'',
      guard (missing_parent dirs (length (bfc_Path f)) (bfc_Path f)) ''manifest file parent missing'']"

definition manifestPathError :: "DataPathIdentity list \<Rightarrow> BackupManifestPath list \<Rightarrow> BackupManifestPath \<Rightarrow> error option" where
  "manifestPathError sourcePaths before p =
     (case map_of (rev (map (\<lambda>s. (dp_Name s, s)) sourcePaths)) (bmp_Name p) of
        None \<Rightarrow> Some ''manifest path identity differs''
      | Some src \<Rightarrow>
          if bmp_Name p \<le> (if before = [] then [] else bmp_Name (last before)) \<or> bmp_MountPath p \<noteq> dp_MountPath src \<or>
             bmp_ClaimName p \<noteq> ref_Name (dp_ClaimRef src) \<or> bmp_ClaimUID p \<noteq> ref_UID (dp_ClaimRef src) \<or>
             bmp_Directories p = None \<or> bmp_Files p = None
          then Some ''manifest path identity differs''
          else let dirs = the (bmp_Directories p); files = the (bmp_Files p) in first_error
            [errors_along manifestDirError [] dirs,
             errors_along (manifestFileError dirs) [] files,
             first_error_in (\<lambda>dir. guard (missing_parent dirs (length dir) dir) ''manifest directory parent missing'') dirs])"

definition validateManifest :: "Input \<Rightarrow> BackupManifest \<Rightarrow> error option" where
  "validateManifest i m = first_error
     [guard (bm_FormatVersion m \<noteq> BackupFormatVersion \<or> bm_ArtifactID m \<noteq> art_ID (in_Artifact i) \<or>
             bm_ServerUID m \<noteq> ref_UID (gref_Local (src_GameServer (in_Source i))) \<or> bm_Game m \<noteq> src_Game (in_Source i) \<or>
             bm_ImageDigest m \<noteq> src_ImageDigest (in_Source i) \<or> bm_SettingsDigest m \<noteq> src_SettingsDigest (in_Source i) \<or>
             length (bm_Paths m) \<noteq> length (src_Paths (in_Source i)))
        ''manifest provenance differs'',
      errors_along (manifestPathError (src_Paths (in_Source i))) [] (bm_Paths m)]"

section \<open>Commands\<close>

text \<open>A step of the worker: the state counts the calls made to the world.\<close>

type_synonym 'a worker = "(nat, 'a) state"

definition tick :: "nat worker" where
  "tick = do { n \<leftarrow> State_Monad.get; _ \<leftarrow> State_Monad.set (Suc n); State_Monad.return n }"

text \<open>
  \<^verbatim>\<open>workerio.DrainingWriter\<close>: once the destination refused a write, later writes are only drained. A
  destination is a function that accepts a chunk or fails.
\<close>

record 'w DrainingWriter =
  dw_destination :: 'w
  dw_failed :: bool

definition DrainingWriter_Write :: "('w \<Rightarrow> bytes \<Rightarrow> 'w option) \<Rightarrow> bytes \<Rightarrow> 'w DrainingWriter \<Rightarrow> 'w DrainingWriter" where
  "DrainingWriter_Write write contents dw =
     (if dw_failed dw then dw
      else (case write (dw_destination dw) contents of
              None \<Rightarrow> dw\<lparr> dw_failed := True \<rparr>
            | Some d \<Rightarrow> dw\<lparr> dw_destination := d \<rparr>))"

text \<open>
  \<^verbatim>\<open>commandRunner.run\<close>: the environment is passed as sorted \<^verbatim>\<open>key=value\<close> strings; the result is what the
  destination holds, or an error when the command or a write failed.
\<close>

type_synonym environment = "(string \<times> string) list"

definition run_command :: "WorkerEnv \<Rightarrow> environment \<Rightarrow> ('w \<Rightarrow> bytes \<Rightarrow> 'w option) \<Rightarrow> 'w \<Rightarrow> string list \<Rightarrow> (error + 'w) worker" where
  "run_command we environment write w args = do {
     n \<leftarrow> tick;
     let env = map (\<lambda>(k, v). k @ ''='' @ v) (sort_key fst environment);
         (chunks, ok) = we_Command we n env args;
         dw = fold (DrainingWriter_Write write) chunks \<lparr> dw_destination = w, dw_failed = False \<rparr>
     in State_Monad.return (if \<not> ok \<or> dw_failed dw then Inl ''repository command failed'' else Inr (dw_destination dw)) }"

definition limitedWriter_Write :: "nat \<Rightarrow> bytes \<Rightarrow> bytes \<Rightarrow> bytes option" where
  "limitedWriter_Write maximum acc contents =
     (if length acc + length contents > maximum then None else Some (acc @ contents))"

definition limitedStream :: "WorkerEnv \<Rightarrow> environment \<Rightarrow> nat \<Rightarrow> string list \<Rightarrow> (error + bytes) worker" where
  "limitedStream we environment maximum args = run_command we environment (limitedWriter_Write maximum) [] args"

definition Control :: "WorkerEnv \<Rightarrow> environment \<Rightarrow> string list \<Rightarrow> (error + bytes) worker" where
  "Control we environment args = run_command we environment (limitedWriter_Write maxControlBytes) [] args"

text \<open>
  \<^verbatim>\<open>countingWriter\<close>: the bytes counted so far and what the wrapped writer received. The wrapped writer
  accepts a chunk or not, given what it received before; a hash accepts every chunk.
\<close>

record countingWriter =
  cw_bytes :: int64
  cw_written :: bytes

definition countingWriter_Write :: "(bytes \<Rightarrow> bytes \<Rightarrow> bool) \<Rightarrow> int64 \<Rightarrow> countingWriter \<Rightarrow> bytes \<Rightarrow> countingWriter option" where
  "countingWriter_Write accepts maximum w contents =
     (if sint (word_of_nat (length contents) :: int64) > sint (maximum - cw_bytes w) then None
      else if \<not> accepts (cw_written w) contents then None
      else Some \<lparr> cw_bytes = cw_bytes w + word_of_nat (length contents), cw_written = cw_written w @ contents \<rparr>)"

definition dumpArgs :: "string \<Rightarrow> string \<Rightarrow> BackupFileChecksum \<Rightarrow> string list" where
  "dumpArgs snapshotID pathName file =
     [''dump'', ''--no-cache'', snapshotID, path_Join (path_Join DefaultSourceRoot pathName) (bfc_Path file)]"

definition hashWriter :: "bytes \<Rightarrow> bytes \<Rightarrow> bool" where
  "hashWriter before contents = True"

definition streamFile ::
  "WorkerEnv \<Rightarrow> environment \<Rightarrow> (bytes \<Rightarrow> bytes \<Rightarrow> bool) \<Rightarrow> string \<Rightarrow> string \<Rightarrow> BackupFileChecksum \<Rightarrow> (error + countingWriter) worker" where
  "streamFile we environment accepts snapshotID pathName file =
     run_command we environment (countingWriter_Write accepts (bfc_Size file)) \<lparr> cw_bytes = 0, cw_written = [] \<rparr>
       (dumpArgs snapshotID pathName file)"

definition fileMatches :: "BackupFileChecksum \<Rightarrow> countingWriter \<Rightarrow> bool" where
  "fileMatches file count \<longleftrightarrow>
     cw_bytes count = bfc_Size file \<and> ''sha256:'' @ hex (sha256 (cw_written count)) = bfc_SHA256 file"

definition verifyRepositoryFile :: "WorkerEnv \<Rightarrow> environment \<Rightarrow> string \<Rightarrow> string \<Rightarrow> BackupFileChecksum \<Rightarrow> error option worker" where
  "verifyRepositoryFile we environment snapshotID pathName file = do {
     r \<leftarrow> streamFile we environment hashWriter snapshotID pathName file;
     case r of
       Inl e \<Rightarrow> State_Monad.return (Some e)
     | Inr count \<Rightarrow> State_Monad.return (guard (\<not> fileMatches file count) ''stored file differs'') }"

section \<open>The inventory\<close>

record inventoryNode =
  node_kind :: string
  node_size :: int64
  node_required :: bool

text \<open>\<^verbatim>\<open>expected\<close> is a map from path names; an association list with the newest entry first models it.\<close>

type_synonym expected = "(string \<times> inventoryNode) list"

text \<open>The ancestors of a clean absolute path: at most as many as it has bytes.\<close>

fun addParents :: "nat \<Rightarrow> string \<Rightarrow> expected \<Rightarrow> error + expected" where
  "addParents 0 name expected = Inr expected"
| "addParents (Suc n) name expected =
     (let parent = path_Dir name in
      if parent = name then Inr expected
      else (case map_of expected parent of
              Some prior \<Rightarrow>
                if node_kind prior \<noteq> ''dir'' then Inl ''expected ancestor is not a directory''
                else if parent = ''/'' then Inr expected else addParents n parent expected
            | None \<Rightarrow>
                let expected' = (parent, \<lparr> node_kind = ''dir'', node_size = 0, node_required = False \<rparr>) # expected in
                if parent = ''/'' then Inr expected' else addParents n parent expected'))"

definition addExpected :: "string \<Rightarrow> string \<Rightarrow> int64 \<Rightarrow> bool \<Rightarrow> expected \<Rightarrow> error + expected" where
  "addExpected name kind sz required expected =
     (if \<not> IsAbs name \<or> path_Clean name \<noteq> name then Inl ''expected repository path invalid''
      else (case map_of expected name of
              Some prior \<Rightarrow>
                if node_kind prior \<noteq> kind \<or> (node_kind prior = ''file'' \<and> node_size prior \<noteq> sz) \<or> (node_required prior \<and> required)
                then Inl ''expected repository paths overlap''
                else addParents (length name) name
                  ((name, \<lparr> node_kind = kind, node_size = sz, node_required = required \<or> node_required prior \<rparr>) # expected)
            | None \<Rightarrow> addParents (length name) name
                ((name, \<lparr> node_kind = kind, node_size = sz, node_required = required \<rparr>) # expected)))"

text \<open>The calls of \<^verbatim>\<open>add\<close>, in order: each path root, its directories, its files, and the manifest.\<close>

definition inventoryRequests :: "BackupManifest \<Rightarrow> int64 \<Rightarrow> (string \<times> string \<times> int64) list" where
  "inventoryRequests m manifestSize =
     concat (map (\<lambda>p. let root = path_Join DefaultSourceRoot (bmp_Name p) in
        (root, ''dir'', 0)
        # map (\<lambda>d. (path_Join root d, ''dir'', 0)) (case bmp_Directories p of None \<Rightarrow> [] | Some ds \<Rightarrow> ds)
        @ map (\<lambda>f. (path_Join root (bfc_Path f), ''file'', bfc_Size f)) (case bmp_Files p of None \<Rightarrow> [] | Some fs \<Rightarrow> fs))
       (bm_Paths m))
     @ [(DefaultManifestPath, ''file'', manifestSize)]"

fun addAll :: "(string \<times> string \<times> int64) list \<Rightarrow> expected \<Rightarrow> error + expected" where
  "addAll [] expected = Inr expected"
| "addAll ((name, kind, sz) # rest) expected =
     (case addExpected name kind sz True expected of
        Inl e \<Rightarrow> Inl e
      | Inr expected' \<Rightarrow> addAll rest expected')"

text \<open>The loop over the decoded records; \<open>seen\<close> are the names met so far.\<close>

fun scanRecords :: "string \<Rightarrow> expected \<Rightarrow> bool \<Rightarrow> string list \<Rightarrow> resticInventoryRecord list \<Rightarrow> error + bool \<times> string list" where
  "scanRecords snapshotID expected seenSnapshot seen [] = Inr (seenSnapshot, seen)"
| "scanRecords snapshotID expected seenSnapshot seen (r # rs) =
     (if inv_StructType r = ''snapshot'' then
        (if seenSnapshot \<or> seen \<noteq> [] \<or> inv_ID r \<noteq> snapshotID then Inl ''repository snapshot identity differs''
         else scanRecords snapshotID expected True seen rs)
      else if inv_StructType r = ''node'' then
        (if \<not> seenSnapshot \<or> \<not> IsAbs (inv_Path r) \<or> path_Clean (inv_Path r) \<noteq> inv_Path r \<or>
            \<not> utf8_Valid (inv_Path r) \<or> Contains (inv_Path r) RuneError
         then Inl ''repository path unsafe''
         else (case map_of expected (inv_Path r) of
                 None \<Rightarrow> Inl ''repository inventory differs''
               | Some want \<Rightarrow>
                   if node_kind want \<noteq> inv_Type r \<or> (node_kind want = ''file'' \<and> node_size want \<noteq> inv_Size r)
                   then Inl ''repository inventory differs''
                   else if inv_Path r \<in> set seen then Inl ''repository inventory duplicates path''
                   else scanRecords snapshotID expected seenSnapshot (inv_Path r # seen) rs))
      else Inl ''repository inventory record unsupported'')"

definition incomplete :: "expected \<Rightarrow> string list \<Rightarrow> bool" where
  "incomplete expected seen \<longleftrightarrow>
     list_ex (\<lambda>(name, _). (case map_of expected name of None \<Rightarrow> False | Some node \<Rightarrow> node_required node) \<and> name \<notin> set seen) expected"

definition verifyInventory :: "WorkerEnv \<Rightarrow> environment \<Rightarrow> string \<Rightarrow> BackupManifest \<Rightarrow> int64 \<Rightarrow> error option worker" where
  "verifyInventory we environment snapshotID m manifestSize =
     (case addAll (inventoryRequests m manifestSize) [] of
        Inl e \<Rightarrow> State_Monad.return (Some e)
      | Inr expected \<Rightarrow> do {
          r \<leftarrow> limitedStream we environment maxInventoryBytes [''ls'', ''--json'', ''--no-cache'', snapshotID];
          case r of
            Inl e \<Rightarrow> State_Monad.return (Some e)
          | Inr contents \<Rightarrow>
              (case we_decodeInventory we contents of (records, ended) \<Rightarrow>
                (case scanRecords snapshotID expected False [] records of
                   Inl e \<Rightarrow> State_Monad.return (Some e)
                 | Inr (seenSnapshot, seen) \<Rightarrow>
                     State_Monad.return (first_error
                       [guard (\<not> ended) ''repository inventory invalid'',
                        guard (\<not> seenSnapshot) ''repository snapshot identity missing'',
                        guard (incomplete expected seen) ''repository inventory incomplete'']))) })"

section \<open>Reading the mounted input and credentials\<close>

record Config =
  cfgw_InputPath :: string
  cfgw_CredentialsPath :: string
  cfgw_CandidateRoot :: string
  cfgw_WorkPath :: string

text \<open>The injectable runner, its path and the clock of \<^verbatim>\<open>Config\<close> are part of the world.\<close>

definition defaults :: "Config \<Rightarrow> Config" where
  "defaults c = \<lparr>
     cfgw_InputPath = (if cfgw_InputPath c = [] then DefaultInputPath else cfgw_InputPath c),
     cfgw_CredentialsPath = (if cfgw_CredentialsPath c = [] then DefaultCredentialsPath else cfgw_CredentialsPath c),
     cfgw_CandidateRoot = (if cfgw_CandidateRoot c = [] then DefaultCandidateRoot else cfgw_CandidateRoot c),
     cfgw_WorkPath = (if cfgw_WorkPath c = [] then DefaultWorkPath else cfgw_WorkPath c) \<rparr>"

definition below :: "string \<Rightarrow> string \<Rightarrow> bool" where
  "below left right \<longleftrightarrow>
     (case path_Rel left right of None \<Rightarrow> False | Some relative \<Rightarrow> relative \<noteq> ''..'' \<and> \<not> HasPrefix relative ''../'')"

definition workPathsOverlap :: "string \<Rightarrow> string \<Rightarrow> bool" where
  "workPathsOverlap left right \<longleftrightarrow> below left right \<or> below right left"

definition readInput :: "WorkerEnv \<Rightarrow> string \<Rightarrow> (error + Input) worker" where
  "readInput we name = do {
     n \<leftarrow> tick;
     case we_ReadFile we n name of
       None \<Rightarrow> State_Monad.return (Inl ''input unavailable'')
     | Some contents \<Rightarrow>
         if contents = [] \<or> length contents > maxInputBytes then State_Monad.return (Inl ''input unavailable'')
         else (case we_decodeInput we contents of
                 None \<Rightarrow> State_Monad.return (Inl ''input invalid'')
               | Some i \<Rightarrow> State_Monad.return (if ValidateInput we i \<noteq> None then Inl ''input invalid'' else Inr i)) }"

fun readSecretFiles :: "WorkerEnv \<Rightarrow> string \<Rightarrow> (string \<times> bool) list \<Rightarrow> (error + (string \<times> bytes) list) worker" where
  "readSecretFiles we directory [] = State_Monad.return (Inr [])"
| "readSecretFiles we directory ((name, regular) # rest) =
     (if name = [] \<or> HasPrefix name ''..'' \<or> \<not> regular then State_Monad.return (Inl ''credentials invalid'')
      else do {
        n \<leftarrow> tick;
        case we_ReadFile we n (path_Join directory name) of
          None \<Rightarrow> State_Monad.return (Inl ''credentials unavailable'')
        | Some v \<Rightarrow> attempt (readSecretFiles we directory rest) (\<lambda>data. State_Monad.return (Inr ((name, v) # data))) })"

definition credentialEnvironment :: "string \<Rightarrow> string \<Rightarrow> (string \<times> bytes) list \<Rightarrow> environment" where
  "credentialEnvironment directory workPath data =
     [(''RESTIC_REPOSITORY'', mget (map_of data) RepositoryKeyRepository),
      (''RESTIC_PASSWORD'', mget (map_of data) RepositoryKeyPassword),
      (''AWS_ACCESS_KEY_ID'', mget (map_of data) RepositoryKeyAccessKeyID),
      (''AWS_SECRET_ACCESS_KEY'', mget (map_of data) RepositoryKeySecretAccessKey),
      (''HOME'', workPath), (''RESTIC_CACHE_DIR'', path_Join workPath ''cache''), (''TMPDIR'', path_Join workPath ''tmp'')]
     @ (if mget (map_of data) RepositoryKeySessionToken \<noteq> []
        then [(''AWS_SESSION_TOKEN'', mget (map_of data) RepositoryKeySessionToken)] else [])
     @ (if mget (map_of data) RepositoryKeyCACertificate \<noteq> []
        then [(''RESTIC_CACERT'', path_Join directory RepositoryKeyCACertificate)] else [])"

definition readCredentials :: "WorkerEnv \<Rightarrow> string \<Rightarrow> string \<Rightarrow> (error + environment) worker" where
  "readCredentials we directory workPath = do {
     n \<leftarrow> tick;
     case we_ReadDir we n directory of
       None \<Rightarrow> State_Monad.return (Inl ''credentials unavailable'')
     | Some entries \<Rightarrow> attempt (readSecretFiles we directory entries) (\<lambda>data.
         if ValidateRepositorySecretData (we_parseURL we) data \<noteq> None then State_Monad.return (Inl ''credentials invalid'')
         else do {
           n \<leftarrow> tick;
           State_Monad.return (if we_MkdirAll we n (path_Join workPath ''tmp'')
             then Inr (credentialEnvironment directory workPath data) else Inl ''private work path unavailable'') }) }"

section \<open>populate.go\<close>

text \<open>
  Errors of \<^verbatim>\<open>populate\<close> are plain, or carry a failure kind of their own.
\<close>

datatype populate_error = PlainError string | FailureError FailureKind

definition requireDirectory :: "WorkerEnv \<Rightarrow> string \<Rightarrow> populate_error option worker" where
  "requireDirectory we name = do {
     n \<leftarrow> tick;
     State_Monad.return (guard (we_Lstat we n name \<noteq> LstatDirectory) (PlainError ''candidate mount is unavailable or unsafe'')) }"

definition syncDirectory :: "WorkerEnv \<Rightarrow> string \<Rightarrow> populate_error option worker" where
  "syncDirectory we name = do {
     n \<leftarrow> tick;
     if \<not> we_OpenFile we n name then State_Monad.return (Some (PlainError ''candidate directory cannot be opened for sync''))
     else do {
       m \<leftarrow> tick;
       k \<leftarrow> tick;
       State_Monad.return (guard (\<not> we_Sync we m name \<or> \<not> we_Close we k name) (PlainError ''candidate directory cannot be persisted'')) } }"

text \<open>The callback of \<^verbatim>\<open>scanCandidate\<close>: each entry below the root must be declared, with its kind.\<close>

definition scanVisit :: "BackupManifestPath \<Rightarrow> string \<Rightarrow> string \<Rightarrow> bool \<Rightarrow> bool \<Rightarrow> error option" where
  "scanVisit m root name isDir isRegular =
     (if name = root then None
      else (case path_Rel root name of
              None \<Rightarrow> Some ''candidate path is unsafe''
            | Some relative \<Rightarrow>
                if \<not> safeRelative relative then Some ''candidate path is unsafe''
                else if relative \<in> set (map bfc_Path (case bmp_Files m of None \<Rightarrow> [] | Some fs \<Rightarrow> fs))
                then guard (\<not> isRegular) ''candidate contains an unexpected entry''
                else if relative \<in> set (case bmp_Directories m of None \<Rightarrow> [] | Some ds \<Rightarrow> ds)
                then guard (\<not> isDir) ''candidate contains an unexpected entry''
                else Some ''candidate contains an unexpected entry''))"

fun scanEntry :: "BackupManifestPath \<Rightarrow> string \<Rightarrow> string \<Rightarrow> fs_entry \<Rightarrow> error option"
  and scanChildren :: "BackupManifestPath \<Rightarrow> string \<Rightarrow> string \<Rightarrow> (string \<times> fs_entry) list \<Rightarrow> error option" where
  "scanEntry m root name (Directory None) =
     (case scanVisit m root name True False of Some e \<Rightarrow> Some e | None \<Rightarrow> Some ''candidate cannot be inspected'')"
| "scanEntry m root name (Directory (Some children)) =
     (case scanVisit m root name True False of Some e \<Rightarrow> Some e | None \<Rightarrow> scanChildren m root name children)"
| "scanEntry m root name (Regular sz content) = scanVisit m root name False True"
| "scanEntry m root name Irregular = scanVisit m root name False False"
| "scanEntry m root name (NoInfo isRegular) = scanVisit m root name False isRegular"
| "scanChildren m root name [] = None"
| "scanChildren m root name ((child, entry) # rest) =
     (case scanEntry m root (path_Join name child) entry of Some e \<Rightarrow> Some e | None \<Rightarrow> scanChildren m root name rest)"

definition scanCandidate :: "WorkerEnv \<Rightarrow> string \<Rightarrow> BackupManifestPath \<Rightarrow> populate_error option worker" where
  "scanCandidate we root m = do {
     n \<leftarrow> tick;
     State_Monad.return (case we_Tree we n root of
         None \<Rightarrow> Some (PlainError ''candidate cannot be inspected'')
       | Some entry \<Rightarrow> map_option PlainError (scanEntry m root root entry)) }"

definition writeCandidateFile ::
  "WorkerEnv \<Rightarrow> environment \<Rightarrow> string \<Rightarrow> string \<Rightarrow> BackupFileChecksum \<Rightarrow> string \<Rightarrow> populate_error option worker" where
  "writeCandidateFile we environment snapshotID pathName file name = check (requireDirectory we (path_Dir name)) (do {
     n \<leftarrow> tick;
     let before = (case we_Lstat we n name of
         LstatMissing \<Rightarrow> None
       | LstatError \<Rightarrow> Some ''candidate file cannot be inspected''
       | LstatRegular links \<Rightarrow> guard (links \<noteq> 1) ''candidate file has multiple links''
       | _ \<Rightarrow> Some ''candidate file is unsafe'')
     in case before of
          Some e \<Rightarrow> State_Monad.return (Some (PlainError e))
        | None \<Rightarrow> do {
            m \<leftarrow> tick;
            if \<not> we_OpenFile we m name then State_Monad.return (Some (PlainError ''candidate file cannot be opened''))
            else do {
              r \<leftarrow> streamFile we environment (we_Write we m name) snapshotID pathName file;
              j \<leftarrow> tick;
              k \<leftarrow> tick;
              State_Monad.return (case r of
                  Inl e \<Rightarrow> Some (FailureError FailureRepository)
                | Inr count \<Rightarrow> first_error
                    [guard (\<not> we_Sync we j name \<or> \<not> we_Close we k name) (PlainError ''candidate file cannot be persisted''),
                     guard (\<not> fileMatches file count) (FailureError FailureVerification)]) } } })"

definition makeDirectory :: "WorkerEnv \<Rightarrow> string \<Rightarrow> populate_error option worker" where
  "makeDirectory we name = do {
     n \<leftarrow> tick;
     if we_Mkdir we n name = MkdirError then State_Monad.return (Some (PlainError ''candidate directory cannot be created''))
     else requireDirectory we name }"

definition populatePath :: "WorkerEnv \<Rightarrow> environment \<Rightarrow> string \<Rightarrow> string \<Rightarrow> BackupManifestPath \<Rightarrow> populate_error option worker" where
  "populatePath we environment snapshotID candidateRoot p =
     (let root = path_Join candidateRoot (bmp_Name p);
          dirs = (case bmp_Directories p of None \<Rightarrow> [] | Some ds \<Rightarrow> ds);
          files = (case bmp_Files p of None \<Rightarrow> [] | Some fs \<Rightarrow> fs) in
      check (each (\<lambda>d. makeDirectory we (path_Join root d)) dirs)
     (check (each (\<lambda>f. writeCandidateFile we environment snapshotID (bmp_Name p) f (path_Join root (bfc_Path f))) files)
     (check (each (\<lambda>d. syncDirectory we (path_Join root d)) (rev dirs))
            (syncDirectory we root))))"

definition populate ::
  "WorkerEnv \<Rightarrow> string \<Rightarrow> Input \<Rightarrow> BackupManifest \<Rightarrow> bytes \<Rightarrow> string \<Rightarrow> environment \<Rightarrow> populate_error option worker" where
  "populate we candidateRoot i m original snapshotID environment =
     (if \<not> IsAbs candidateRoot \<or> path_Clean candidateRoot \<noteq> candidateRoot
      then State_Monad.return (Some (PlainError ''candidate root invalid''))
      else
        check (requireDirectory we candidateRoot)
       (check (each (\<lambda>p. let root = path_Join candidateRoot (bmp_Name p) in
                 check (requireDirectory we root) (scanCandidate we root p)) (bm_Paths m))
       (check (each (populatePath we environment snapshotID candidateRoot) (bm_Paths m)) (do {
          n \<leftarrow> tick;
          State_Monad.return (case BuildBackupManifest (we_Tree we n) (backupInput i) candidateRoot of
              Inl e \<Rightarrow> Some (PlainError ''candidate content differs from verified manifest'')
            | Inr (_, after) \<Rightarrow> guard (after \<noteq> original) (PlainError ''candidate content differs from verified manifest'')) }))))"

section \<open>Run\<close>

text \<open>\<^verbatim>\<open>^[0-9a-f]{64}$\<close>\<close>

definition snapshotIDPattern :: "string \<Rightarrow> bool" where
  "snapshotIDPattern s \<longleftrightarrow> length s = 64 \<and> list_all is_lower_hex s"

text \<open>The one snapshot that carries the artifact's tags.\<close>

definition selectSnapshot :: "WorkerEnv \<Rightarrow> Input \<Rightarrow> bytes \<Rightarrow> string option" where
  "selectSnapshot we i output =
     (case we_decodeSnapshots we output of
        Some [s] \<Rightarrow>
          if snapshotIDPattern (snap_ID s) \<and> ''arcadectl-artifact='' @ art_ID (in_Artifact i) \<in> set (snap_Tags s) \<and>
             ''arcadectl-manifest='' @ TrimPrefix (art_ManifestDigest (in_Artifact i)) ''sha256:'' \<in> set (snap_Tags s)
          then Some (snap_ID s) else None
      | _ \<Rightarrow> None)"

text \<open>An error of a step becomes the failure of its stage.\<close>

definition failing :: "(error + 'a) worker \<Rightarrow> 'k \<Rightarrow> ('a \<Rightarrow> ('k + 'b) worker) \<Rightarrow> ('k + 'b) worker" where
  "failing m kind f = do { r \<leftarrow> m; case r of Inl e \<Rightarrow> State_Monad.return (Inl kind) | Inr v \<Rightarrow> f v }"

definition rejecting :: "error option worker \<Rightarrow> 'k \<Rightarrow> ('k + 'b) worker \<Rightarrow> ('k + 'b) worker" where
  "rejecting m kind k = do { r \<leftarrow> m; case r of Some e \<Rightarrow> State_Monad.return (Inl kind) | None \<Rightarrow> k }"

definition verifyFiles :: "WorkerEnv \<Rightarrow> environment \<Rightarrow> string \<Rightarrow> BackupManifest \<Rightarrow> error option worker" where
  "verifyFiles we environment snapshotID m =
     each (\<lambda>p. each (\<lambda>f. verifyRepositoryFile we environment snapshotID (bmp_Name p) f)
                    (case bmp_Files p of None \<Rightarrow> [] | Some fs \<Rightarrow> fs)) (bm_Paths m)"

definition finish :: "WorkerEnv \<Rightarrow> Input \<Rightarrow> BackupManifest \<Rightarrow> (FailureKind + Result) worker" where
  "finish we i m = do {
     n \<leftarrow> tick;
     State_Monad.return (Inr \<lparr> res_Version = ResultVersion, res_Stage = in_Stage i, res_ArtifactID = art_ID (in_Artifact i),
       res_ManifestDigest = art_ManifestDigest (in_Artifact i), res_PathCount = int32_of_len (bm_Paths m),
       res_VerifiedAt = we_Now we n \<rparr>) }"

text \<open>The end of \<^verbatim>\<open>Run\<close>: the populate stage, then the result.\<close>

definition runStage :: "WorkerEnv \<Rightarrow> Config \<Rightarrow> Input \<Rightarrow> environment \<Rightarrow> string \<Rightarrow> bytes \<Rightarrow> BackupManifest \<Rightarrow> (FailureKind + Result) worker" where
  "runStage we config i environment snapshotID manifestBytes m =
     (if in_Stage i = StagePopulate then do {
        r \<leftarrow> populate we (cfgw_CandidateRoot config) i m manifestBytes snapshotID environment;
        case r of
          None \<Rightarrow> finish we i m
        | Some err \<Rightarrow> State_Monad.return (Inl (case err of FailureError kind \<Rightarrow> kind | PlainError e \<Rightarrow> FailureCandidate)) }
      else finish we i m)"

text \<open>The middle of \<^verbatim>\<open>Run\<close>: the manifest, the inventory, the repository check and every file.\<close>

definition runSnapshot :: "WorkerEnv \<Rightarrow> Config \<Rightarrow> Input \<Rightarrow> environment \<Rightarrow> string \<Rightarrow> (FailureKind + Result) worker" where
  "runSnapshot we config i environment snapshotID =
     failing (limitedStream we environment maxManifestBytes [''dump'', ''--no-cache'', snapshotID, DefaultManifestPath])
       FailureVerification (\<lambda>manifestBytes.
         if ManifestDigest manifestBytes \<noteq> art_ManifestDigest (in_Artifact i) then State_Monad.return (Inl FailureVerification)
         else (case parseManifest we manifestBytes of
             Inl e \<Rightarrow> State_Monad.return (Inl FailureVerification)
           | Inr m \<Rightarrow>
               if validateManifest i m \<noteq> None then State_Monad.return (Inl FailureVerification)
               else
                 rejecting (verifyInventory we environment snapshotID m (word_of_nat (length manifestBytes))) FailureVerification (
                 failing (Control we environment [''check'', ''--no-cache'', ''--read-data-subset=100%'']) FailureVerification (\<lambda>_.
                 rejecting (verifyFiles we environment snapshotID m) FailureVerification (
                 runStage we config i environment snapshotID manifestBytes m)))))"

definition Run :: "WorkerEnv \<Rightarrow> Config \<Rightarrow> (FailureKind + Result) worker" where
  "Run we config0 = (let config = defaults config0 in
     if \<not> IsAbs (cfgw_WorkPath config) \<or> path_Clean (cfgw_WorkPath config) \<noteq> cfgw_WorkPath config \<or>
        \<not> IsAbs (cfgw_CandidateRoot config) \<or> path_Clean (cfgw_CandidateRoot config) \<noteq> cfgw_CandidateRoot config \<or>
        workPathsOverlap (cfgw_WorkPath config) (cfgw_CandidateRoot config)
     then State_Monad.return (Inl FailureInput)
     else
       failing (readInput we (cfgw_InputPath config)) FailureInput (\<lambda>i.
       failing (readCredentials we (cfgw_CredentialsPath config) (cfgw_WorkPath config)) FailureCredentials (\<lambda>environment.
       failing (Control we environment [''snapshots'', ''--json'', ''--no-cache'', ''--tag'', ''arcadectl-artifact='' @ art_ID (in_Artifact i)])
         FailureRepository (\<lambda>output.
           if length output > maxControlBytes then State_Monad.return (Inl FailureVerification)
           else (case selectSnapshot we i output of
               None \<Rightarrow> State_Monad.return (Inl FailureVerification)
             | Some snapshotID \<Rightarrow> runSnapshot we config i environment snapshotID)))))"

text \<open>The exit code of the worker process.\<close>

definition ExitCode :: "FailureKind option \<Rightarrow> nat" where
  "ExitCode failure =
     (case failure of
        None \<Rightarrow> 20
      | Some FailureInput \<Rightarrow> 10
      | Some FailureCredentials \<Rightarrow> 11
      | Some FailureVerification \<Rightarrow> 30
      | Some FailureCandidate \<Rightarrow> 31
      | Some FailureRepository \<Rightarrow> 20)"

section \<open>The termination messages\<close>

definition FailureKind_string :: "FailureKind \<Rightarrow> string" where
  "FailureKind_string kind =
     (case kind of
        FailureInput \<Rightarrow> ''InputInvalid''
      | FailureCredentials \<Rightarrow> ''CredentialsInvalid''
      | FailureRepository \<Rightarrow> ''RepositoryUnavailable''
      | FailureVerification \<Rightarrow> ''VerificationFailed''
      | FailureCandidate \<Rightarrow> ''CandidateUnsafe'')"

definition FailureMessage :: "FailureKind option \<Rightarrow> bytes" where
  "FailureMessage failure = (let kind = (case failure of None \<Rightarrow> FailureRepository | Some kind \<Rightarrow> kind) in
     json_object [json_field ''version'' (json_quote ResultVersion), json_field ''failure'' (json_quote (FailureKind_string kind))] @ [CHR 0x0A])"

definition Stage_string :: "Stage \<Rightarrow> string" where
  "Stage_string stage = (case stage of StagePreflight \<Rightarrow> ''Preflight'' | StagePopulate \<Rightarrow> ''Populate'' | StageOther s \<Rightarrow> s)"

text \<open>The encoding of a time, \<^verbatim>\<open>Time.MarshalJSON\<close>, is a parameter; it fails for years it cannot write.\<close>

definition SuccessMessage :: "(Time \<Rightarrow> string option) \<Rightarrow> Result \<Rightarrow> error + bytes" where
  "SuccessMessage marshalTime result =
     (case marshalTime (res_VerifiedAt result) of
        None \<Rightarrow> Inl ''restore result encoding failed''
      | Some t \<Rightarrow>
          let contents = json_object
            [json_field ''version'' (json_quote (res_Version result)), json_field ''stage'' (json_quote (Stage_string (res_Stage result))),
             json_field ''artifactID'' (json_quote (res_ArtifactID result)), json_field ''manifestDigest'' (json_quote (res_ManifestDigest result)),
             json_field ''pathCount'' (json_int64 (scast (res_PathCount result))), json_field ''verifiedAt'' t]
          in if length contents > 4094 then Inl ''restore result encoding failed'' else Inr (contents @ [CHR 0x0A]))"

end
