(* ===== verification/KubeDestroy.thy ===== *)
theory KubeDestroy
  imports KubeTypes RestoreWorker GameDefinition
begin

text \<open>
  \<^verbatim>\<open>internal/platform/kube/destroy.go\<close>: the names, labels and resources of the worker that verifies a
  repository before a world is destroyed, and the Lease that fences the world. The encoding of the
  worker's input, \<^verbatim>\<open>json.Marshal\<close>, is a parameter.
\<close>

section \<open>Names, labels and annotations\<close>

definition LabelManagedBy :: string where "LabelManagedBy = ''app.kubernetes.io/managed-by''"
definition LabelName :: string where "LabelName = ''app.kubernetes.io/name''"
definition LabelInstance :: string where "LabelInstance = ''app.kubernetes.io/instance''"
definition LabelGame :: string where "LabelGame = ''arcade.gobha.me/game''"
definition LabelDataPolicy :: string where "LabelDataPolicy = ''arcade.gobha.me/data-policy''"
definition LabelDataPath :: string where "LabelDataPath = ''arcade.gobha.me/data-path''"
definition LabelDataIdentity :: string where "LabelDataIdentity = ''arcade.gobha.me/data-identity''"
definition AnnotationColdBackupUID :: string where "AnnotationColdBackupUID = ''arcade.gobha.me/cold-backup-uid''"
definition ManagerName :: string where "ManagerName = ''arcadectl''"
definition LabelDataOperation :: string where "LabelDataOperation = ''arcade.gobha.me/data-operation''"
definition AnnotationArtifactID :: string where "AnnotationArtifactID = ''arcade.gobha.me/artifact-id''"
definition LabelDestroyUID :: string where "LabelDestroyUID = ''arcade.gobha.me/destroy-uid''"
definition LabelDestroyStage :: string where "LabelDestroyStage = ''arcade.gobha.me/destroy-stage''"
definition AnnotationDestroyName :: string where "AnnotationDestroyName = ''arcade.gobha.me/destroy-name''"
definition AnnotationDestroyPodAuthorized :: string where "AnnotationDestroyPodAuthorized = ''arcade.gobha.me/destroy-pod-authorized''"
definition DestroyFinalizer :: string where "DestroyFinalizer = ''arcade.gobha.me/destroy-protection''"
definition DestroySchedulingGate :: string where "DestroySchedulingGate = ''arcade.gobha.me/destroy-authorized''"
definition destroyInputKey :: string where "destroyInputKey = ''input.json''"

lemmas kube_names = LabelManagedBy_def LabelName_def LabelInstance_def LabelGame_def LabelDataPolicy_def LabelDataPath_def
  LabelDataIdentity_def AnnotationColdBackupUID_def ManagerName_def LabelDataOperation_def AnnotationArtifactID_def LabelDestroyUID_def
  LabelDestroyStage_def AnnotationDestroyName_def AnnotationDestroyPodAuthorized_def DestroyFinalizer_def DestroySchedulingGate_def

definition DataOperationLeaseName :: "string \<Rightarrow> string" where
  "DataOperationLeaseName dataIdentity = ''data-operation-'' @ hex (take 16 (sha256 (''arcadectl/data-operation/'' @ dataIdentity)))"

definition DestroyResourceName :: "UID \<Rightarrow> string" where
  "DestroyResourceName uid =
     (if uid = [] then [] else ''destroy-'' @ hex (take 16 (sha256 (''arcadectl/destroy-job/'' @ uid))) @ ''-preflight'')"

definition DestroyWorkerLeaseName :: "UID \<Rightarrow> string" where
  "DestroyWorkerLeaseName uid =
     (if uid = [] then [] else ''destroy-worker-'' @ hex (take 16 (sha256 (''arcadectl/destroy-worker/'' @ uid))))"

text \<open>\<^verbatim>\<open>^[a-z0-9][a-z0-9._:/-]*@sha256:[0-9a-f]{64}$\<close>: no at-sign can occur before the last one.\<close>

definition pinnedWorkerImagePattern :: "string \<Rightarrow> bool" where
  "pinnedWorkerImagePattern img \<longleftrightarrow>
     (let repository = takeWhile (\<lambda>c. c \<noteq> CHR ''@'') img; rest = dropWhile (\<lambda>c. c \<noteq> CHR ''@'') img in
      repository \<noteq> [] \<and> is_alnum (hd repository) \<and> list_all (\<lambda>c. is_alnum c \<or> c \<in> set ''._:/-'') repository \<and>
      rest \<noteq> [] \<and> sha256_pattern (tl rest))"

section \<open>The worker's resources\<close>

record DestroyResources =
  dr_Input :: ConfigMap
  dr_ServiceAccount :: ServiceAccount
  dr_Role :: Role
  dr_RoleBinding :: RoleBinding
  dr_Job :: Job

text \<open>A fresh object: name and namespace, with the fields of the metadata that the server sets still zero.\<close>

definition freshMeta :: "string \<Rightarrow> string \<Rightarrow> (string \<rightharpoonup> string) \<Rightarrow> (string \<rightharpoonup> string) \<Rightarrow> OwnerReference list \<Rightarrow> ObjectMeta" where
  "freshMeta name namespace labels annotations owners = \<lparr>
     meta_Name = name, meta_Namespace = namespace, meta_UID = [], meta_ResourceVersion = [], meta_Generation = 0,
     meta_DeletionTimestamp = None, meta_Labels = labels, meta_Annotations = annotations, meta_OwnerReferences = owners, meta_Finalizers = [] \<rparr>"

definition destroyOwner :: "GameDestroy \<Rightarrow> OwnerReference" where
  "destroyOwner d = \<lparr>
     owner_APIVersion = ''arcade.gobha.me/v1alpha1'', owner_Kind = ''GameDestroy'', owner_Name = meta_Name (gd_Meta d),
     owner_UID = meta_UID (gd_Meta d), owner_Controller = Some True, owner_BlockOwnerDeletion = Some True \<rparr>"

definition destroyRef :: "GameDestroy \<Rightarrow> ExactLocalReference" where
  "destroyRef d = \<lparr> ref_Namespace = None, ref_Name = meta_Name (gd_Meta d), ref_UID = meta_UID (gd_Meta d) \<rparr>"

abbreviation targetOf :: "GameDestroy \<Rightarrow> GameDestroyTarget" where
  "targetOf d \<equiv> ds_Target (gd_Spec d)"

abbreviation claimsOf :: "GameDestroy \<Rightarrow> RetainedDataClaimReference list" where
  "claimsOf d \<equiv> rdata_Claims (dt_Data (ds_Target (gd_Spec d)))"

definition destroyLabels :: "GameDestroy \<Rightarrow> (string \<rightharpoonup> string)" where
  "destroyLabels d = map_of
     [(LabelManagedBy, ManagerName), (LabelName, ''destroy-worker''), (LabelDestroyUID, meta_UID (gd_Meta d)),
      (LabelDestroyStage, ''Preflight''), (LabelDataOperation, ''destroy''),
      (LabelDataIdentity, rdata_Identity (dt_Data (targetOf d))), (LabelInstance, ref_Name (dt_GameServer (targetOf d)))]"

definition destroyAnnotations :: "GameDestroy \<Rightarrow> Input \<Rightarrow> (string \<rightharpoonup> string)" where
  "destroyAnnotations d i = map_of [(AnnotationArtifactID, art_ID (in_Artifact i)), (AnnotationDestroyName, meta_Name (gd_Meta d))]"

text \<open>Equality of Go structs: a reference with a namespace holds a pointer, which is equal to no other.\<close>

definition sameServerReference :: "ExactGameServerReference \<Rightarrow> ExactGameServerReference \<Rightarrow> bool" where
  "sameServerReference a b \<longleftrightarrow> sameLocal (gref_Local a) (gref_Local b) \<and> gref_Generation a = gref_Generation b \<and>
     gref_DesiredState a = gref_DesiredState b"

text \<open>The identity checks before the loop over the claims.\<close>

definition destroyIdentityError :: "WorkerEnv \<Rightarrow> GameDestroy \<Rightarrow> Input \<Rightarrow> string \<Rightarrow> RuntimeIdentity \<Rightarrow> error option" where
  "destroyIdentityError we d i workerImage identity = first_error
     [guard (meta_Name (gd_Meta d) = [] \<or> meta_Namespace (gd_Meta d) = [] \<or> meta_UID (gd_Meta d) = [] \<or>
             \<not> we_IsDNS1123Label we (meta_Namespace (gd_Meta d)) \<or> ds_Mode (gd_Spec d) \<noteq> DestroyModeVerifiedBackup \<or>
             ds_BackupRef (gd_Spec d) = None \<or> ds_RepositorySecretRef (gd_Spec d) = None)
        ''exact verified GameDestroy identity is required'',
      guard (\<not> pinnedWorkerImagePattern workerImage) ''destroy worker image must be pinned by sha256 digest'',
      guard (sint (rid_UserID identity) \<le> 0 \<or> sint (rid_GroupID identity) \<le> 0 \<or> sint (rid_FSGroup identity) \<le> 0)
        ''destroy worker identity must be non-root'',
      guard (ValidateInput we i \<noteq> None \<or> in_Stage i \<noteq> StagePreflight \<or> \<not> sameLocal (in_OperationRef i) (destroyRef d) \<or>
             \<not> sameLocal (in_BackupRef i) (the (ds_BackupRef (gd_Spec d))) \<or>
             \<not> sameSecret (in_RepositorySecretRef i) (the (ds_RepositorySecretRef (gd_Spec d))) \<or>
             in_WorkerLeaseName i \<noteq> DestroyWorkerLeaseName (meta_UID (gd_Meta d)) \<or>
             \<not> sameServerReference (in_Target i) (src_GameServer (in_Source i)) \<or>
             \<not> sameLocal (gref_Local (in_Target i)) (dt_GameServer (targetOf d)) \<or> in_TargetGame i \<noteq> dt_Game (targetOf d) \<or>
             \<not> we_IsDNS1123Label we (rdata_Identity (dt_Data (targetOf d))) \<or> length (in_TargetPaths i) \<noteq> length (claimsOf d))
        ''destroy worker input does not match the exact preflight operation'']"

definition destroyClaimError :: "RetainedDataClaimReference list \<Rightarrow> RetainedDataClaimReference \<Rightarrow> error option" where
  "destroyClaimError before c = first_error
     [guard (rclaim_Path c = [] \<or> ref_Name (rclaim_ClaimRef c) = [] \<or> ref_UID (rclaim_ClaimRef c) = [] \<or> ref_Namespace (rclaim_ClaimRef c) \<noteq> None)
        ''destroy target claim is incomplete'',
      guard (rclaim_Path c \<in> set (map rclaim_Path before)) ''destroy target paths overlap'',
      guard (ref_Name (rclaim_ClaimRef c) \<in> set (map (\<lambda>b. ref_Name (rclaim_ClaimRef b)) before)) ''destroy target claim names overlap'',
      guard (ref_UID (rclaim_ClaimRef c) \<in> set (map (\<lambda>b. ref_UID (rclaim_ClaimRef b)) before)) ''destroy target claim UIDs overlap'']"

definition destroyRules :: "GameDestroy \<Rightarrow> Input \<Rightarrow> PolicyRule list" where
  "destroyRules d i =
     [\<lparr> rule_APIGroups = [''arcade.gobha.me''], rule_Resources = [''gamedestroys''], rule_ResourceNames = [meta_Name (gd_Meta d)], rule_Verbs = [''get''] \<rparr>,
      \<lparr> rule_APIGroups = [''arcade.gobha.me''], rule_Resources = [''gamebackups''], rule_ResourceNames = [ref_Name (in_BackupRef i)], rule_Verbs = [''get''] \<rparr>,
      \<lparr> rule_APIGroups = [[]], rule_Resources = [''pods''], rule_ResourceNames = [], rule_Verbs = [''get''] \<rparr>,
      \<lparr> rule_APIGroups = [[]], rule_Resources = [''secrets''],
        rule_ResourceNames = [ref_Name (sref_Local (in_RepositorySecretRef i))], rule_Verbs = [''get''] \<rparr>,
      \<lparr> rule_APIGroups = [''coordination.k8s.io''], rule_Resources = [''leases''],
        rule_ResourceNames = [in_WorkerLeaseName i], rule_Verbs = [''get'', ''update''] \<rparr>,
      \<lparr> rule_APIGroups = [''coordination.k8s.io''], rule_Resources = [''leases''],
        rule_ResourceNames = [DataOperationLeaseName (rdata_Identity (dt_Data (targetOf d)))], rule_Verbs = [''get''] \<rparr>]"

definition destroyVolumes :: "string \<Rightarrow> Volume list" where
  "destroyVolumes inputName =
     [\<lparr> volume_Name = ''input'', volume_Source = ConfigMapVolume inputName 292 \<rparr>,
      \<lparr> volume_Name = ''credentials'', volume_Source = EmptyDirVolume ''Memory'' (Some ''2Mi'') \<rparr>,
      \<lparr> volume_Name = ''work'', volume_Source = EmptyDirVolume [] (Some ''512Mi'') \<rparr>,
      \<lparr> volume_Name = ''authority'', volume_Source = ProjectedVolume 292
          [TokenProjection ''token'' 600, ConfigMapProjection ''kube-root-ca.crt'' [(''ca.crt'', ''ca.crt'')]] \<rparr>]"

definition restrictedContainer :: ContainerSecurity where
  "restrictedContainer = \<lparr> sec_AllowPrivilegeEscalation = Some False, sec_ReadOnlyRootFilesystem = Some True, sec_CapabilitiesDrop = [''ALL''] \<rparr>"

definition fieldEnv :: "string \<Rightarrow> string \<Rightarrow> EnvVar" where
  "fieldEnv name path = \<lparr> env_Name = name, env_Value = [], env_FieldRef = Some (path, []) \<rparr>"

definition destroyAuthorizer :: "string \<Rightarrow> Container" where
  "destroyAuthorizer workerImage = \<lparr>
     ctr_Name = ''destroy-authorizer'', ctr_Image = workerImage, ctr_ImagePullPolicy = ''IfNotPresent'',
     ctr_Command = [''/arcadectl-destroy-authorizer''],
     ctr_Env = [fieldEnv ''POD_NAMESPACE'' ''metadata.namespace'', fieldEnv ''POD_NAME'' ''metadata.name'', fieldEnv ''POD_UID'' ''metadata.uid''],
     ctr_Requests = [(''cpu'', ''25m''), (''memory'', ''32Mi''), (''ephemeral-storage'', ''8Mi'')],
     ctr_Limits = [(''cpu'', ''100m''), (''memory'', ''64Mi''), (''ephemeral-storage'', ''16Mi'')],
     ctr_Security = restrictedContainer,
     ctr_VolumeMounts =
       [\<lparr> vm_Name = ''input'', vm_MountPath = ''/arcadectl/input'', vm_ReadOnly = True \<rparr>,
        \<lparr> vm_Name = ''credentials'', vm_MountPath = ''/arcadectl/authorized-credentials'', vm_ReadOnly = False \<rparr>,
        \<lparr> vm_Name = ''authority'', vm_MountPath = ''/var/run/secrets/kubernetes.io/serviceaccount'', vm_ReadOnly = True \<rparr>],
     ctr_TerminationMessagePath = [], ctr_TerminationMessagePolicy = [] \<rparr>"

definition DefaultTerminationPath :: string where "DefaultTerminationPath = ''/arcadectl/work/termination.json''"

definition destroyWorker :: "string \<Rightarrow> Container" where
  "destroyWorker workerImage = \<lparr>
     ctr_Name = ''destroy-worker'', ctr_Image = workerImage, ctr_ImagePullPolicy = ''IfNotPresent'',
     ctr_Command = [''/arcadectl-destroy-worker''], ctr_Env = [],
     ctr_Requests = [(''cpu'', ''100m''), (''memory'', ''128Mi''), (''ephemeral-storage'', ''64Mi'')],
     ctr_Limits = [(''cpu'', ''500m''), (''memory'', ''512Mi''), (''ephemeral-storage'', ''768Mi'')],
     ctr_Security = restrictedContainer,
     ctr_VolumeMounts =
       [\<lparr> vm_Name = ''input'', vm_MountPath = ''/arcadectl/input'', vm_ReadOnly = True \<rparr>,
        \<lparr> vm_Name = ''credentials'', vm_MountPath = ''/arcadectl/credentials'', vm_ReadOnly = True \<rparr>,
        \<lparr> vm_Name = ''work'', vm_MountPath = ''/arcadectl/work'', vm_ReadOnly = False \<rparr>],
     ctr_TerminationMessagePath = DefaultTerminationPath, ctr_TerminationMessagePolicy = ''File'' \<rparr>"

definition destroyPodSpec :: "string \<Rightarrow> string \<Rightarrow> RuntimeIdentity \<Rightarrow> PodSpec" where
  "destroyPodSpec name workerImage identity = \<lparr>
     ps_Hostname = name, ps_ServiceAccountName = name @ ''-authority'', ps_DeprecatedServiceAccount = [],
     ps_AutomountServiceAccountToken = Some False, ps_RestartPolicy = ''Never'', ps_DNSPolicy = [], ps_TerminationGracePeriodSeconds = None,
     ps_SchedulerName = [], ps_EnableServiceLinks = None, ps_Priority = None, ps_PreemptionPolicy = None, ps_Tolerations = [], ps_NodeName = [],
     ps_SchedulingGates = [DestroySchedulingGate],
     ps_Security = \<lparr> psec_RunAsNonRoot = Some True, psec_RunAsUser = Some (rid_UserID identity), psec_RunAsGroup = Some (rid_GroupID identity),
       psec_SupplementalGroups = [rid_FSGroup identity], psec_FSGroup = None, psec_FSGroupChangePolicy = None, psec_SeccompProfile = Some ''RuntimeDefault'' \<rparr>,
     ps_InitContainers = [destroyAuthorizer workerImage], ps_Containers = [destroyWorker workerImage],
     ps_Volumes = destroyVolumes (name @ ''-input'') \<rparr>"

definition destroyJob :: "GameDestroy \<Rightarrow> Input \<Rightarrow> string \<Rightarrow> RuntimeIdentity \<Rightarrow> Job" where
  "destroyJob d i workerImage identity = (let name = DestroyResourceName (meta_UID (gd_Meta d)) in \<lparr>
     job_Meta = freshMeta name (meta_Namespace (gd_Meta d)) (destroyLabels d) (destroyAnnotations d i) [destroyOwner d],
     job_Spec = \<lparr> js_BackoffLimit = Some 0, js_ActiveDeadlineSeconds = Some 3600, js_Parallelism = Some 1, js_Completions = Some 1,
       js_Suspend = Some True, js_ManualSelector = None, js_Selector = None, js_CompletionMode = None, js_PodReplacementPolicy = None,
       js_TemplateLabels = destroyLabels d, js_TemplateAnnotations = destroyAnnotations d i,
       js_TemplateSpec = destroyPodSpec name workerImage identity \<rparr>,
     job_Conditions = [] \<rparr>)"

definition destroyResources :: "GameDestroy \<Rightarrow> Input \<Rightarrow> bytes \<Rightarrow> string \<Rightarrow> RuntimeIdentity \<Rightarrow> DestroyResources" where
  "destroyResources d i contents workerImage identity =
     (let name = DestroyResourceName (meta_UID (gd_Meta d)); authorityName = name @ ''-authority''; namespace = meta_Namespace (gd_Meta d);
          authority = freshMeta authorityName namespace (destroyLabels d) Map.empty [destroyOwner d] in \<lparr>
     dr_Input = \<lparr> cm_Meta = freshMeta (name @ ''-input'') namespace (destroyLabels d) Map.empty [destroyOwner d],
       cm_Data = [destroyInputKey \<mapsto> contents], cm_Immutable = Some True \<rparr>,
     dr_ServiceAccount = \<lparr> sa_Meta = authority, sa_AutomountServiceAccountToken = Some False \<rparr>,
     dr_Role = \<lparr> role_Meta = authority, role_Rules = destroyRules d i \<rparr>,
     dr_RoleBinding = \<lparr> rb_Meta = authority,
       rb_Subjects = [\<lparr> subj_Kind = ''ServiceAccount'', subj_Name = authorityName, subj_Namespace = namespace \<rparr>],
       rb_RoleRef = \<lparr> rr_APIGroup = ''rbac.authorization.k8s.io'', rr_Kind = ''Role'', rr_Name = authorityName \<rparr> \<rparr>,
     dr_Job = destroyJob d i workerImage identity \<rparr>)"

definition BuildDestroyResources ::
  "WorkerEnv \<Rightarrow> (Input \<Rightarrow> bytes option) \<Rightarrow> GameDestroy \<Rightarrow> Input \<Rightarrow> string \<Rightarrow> RuntimeIdentity \<Rightarrow> error + DestroyResources" where
  "BuildDestroyResources we marshalInput d i workerImage identity =
     (case first_error
        [destroyIdentityError we d i workerImage identity,
         errors_along destroyClaimError [] (claimsOf d),
         first_error_in (\<lambda>p. guard (pc_Name p \<notin> set (map rclaim_Path (claimsOf d)))
           ''destroy target paths differ from verified backup'') (in_TargetPaths i)] of
        Some e \<Rightarrow> Inl e
      | None \<Rightarrow>
          let sorted = i\<lparr> in_TargetPaths := sort_key pc_Name (in_TargetPaths i) \<rparr> in
          case marshalInput sorted of
            None \<Rightarrow> Inl ''encode destroy worker input''
          | Some contents \<Rightarrow> Inr (destroyResources d sorted (contents @ [CHR 0x0A]) workerImage identity))"

section \<open>The data-operation Lease\<close>

definition DestroyOperationLeaseMatches :: "Lease \<Rightarrow> ExactLocalReference \<Rightarrow> string \<Rightarrow> string \<Rightarrow> bool" where
  "DestroyOperationLeaseMatches lease operation serverName dataIdentity \<longleftrightarrow>
     \<not> (ref_Name operation = [] \<or> ref_UID operation = [] \<or> ref_Namespace operation \<noteq> None \<or> serverName = [] \<or> dataIdentity = [] \<or>
        meta_OwnerReferences (lease_Meta lease) \<noteq> [] \<or> lease_HolderIdentity lease \<noteq> Some (ref_UID operation) \<or>
        meta_Name (lease_Meta lease) \<noteq> DataOperationLeaseName dataIdentity \<or>
        mget (meta_Labels (lease_Meta lease)) LabelManagedBy \<noteq> ManagerName \<or>
        mget (meta_Labels (lease_Meta lease)) LabelDestroyUID \<noteq> ref_UID operation \<or>
        mget (meta_Labels (lease_Meta lease)) LabelInstance \<noteq> serverName \<or>
        mget (meta_Labels (lease_Meta lease)) LabelDataIdentity \<noteq> dataIdentity \<or>
        mget (meta_Annotations (lease_Meta lease)) AnnotationDestroyName \<noteq> ref_Name operation)"

end
