(* ===== verification/ServerPlan.thy ===== *)
theory ServerPlan
  imports ServerTypes KubeDestroy
begin

text \<open>
  \<^verbatim>\<open>internal/platform/kube/plan.go\<close>: from the intent of a GameServer and its adapter to the claims, the configuration,
  the Deployment and the Service that should exist. Labels and lease names are shared with theory \<open>KubeDestroy\<close>.
  The wrapped cause of an error is internal to the planner; the model keeps the public category.
\<close>

section \<open>The plan\<close>

definition AnnotationConfigurationHash :: string where "AnnotationConfigurationHash = ''arcade.gobha.me/configuration-sha256''"
definition maxSettingsLen :: nat where "maxSettingsLen = 64 * 1024"
definition configurationVolumeName :: string where "configurationVolumeName = ''arcadectl-configuration''"
definition configurationSourcePath :: string where "configurationSourcePath = ''/arcadectl/configuration''"
definition privateReadinessPath :: string where "privateReadinessPath = ''/arcadectl/readiness''"
definition configurationMaterializer :: string where
  "configurationMaterializer = ''busybox@sha256:9db7b59979c38555a39def84a31fb98b5296952f9e3afd4f6f11f05b07adfab0''"

record DataClaimPlan =
  dcp_Desired :: ServerClaim
  dcp_RequiredUID :: UID
  dcp_ExternallySelected :: bool

record Plan =
  plan_DataClaims :: "DataClaimPlan list"
  plan_DataIdentity :: string
  plan_Reattach :: bool
  plan_Configuration :: "ServerConfigMap option"
  plan_Workload :: "Deployment option"
  plan_PlayerService :: "Service option"

datatype ValidationCategory =
    ValidationIdentity | ValidationGame | ValidationImage | ValidationDesiredState | ValidationCompute
  | ValidationStorage | ValidationSettings

text \<open>An error of the planner: a \<^verbatim>\<open>ValidationError\<close>, or an error that carries no category.\<close>

datatype PlanError = ValidationError ValidationCategory | UncategorizedError

section \<open>Validation\<close>

definition dataClaimName :: "'z ServerLibrary_scheme \<Rightarrow> string \<Rightarrow> string \<Rightarrow> string \<Rightarrow> string option" where
  "dataClaimName lib serverName gameID pathName =
     (let name = serverName @ ''-'' @ gameID @ ''-'' @ pathName in if sl_IsDNS1123Subdomain lib name then Some name else None)"

definition validateCompute :: "'z ServerLibrary_scheme \<Rightarrow> ComputeSpec \<Rightarrow> bool" where
  "validateCompute lib c \<longleftrightarrow>
     0 < sl_Sign lib (comp_CPURequest c) \<and> 0 < sl_Sign lib (comp_CPULimit c) \<and>
     0 < sl_Sign lib (comp_MemoryRequest c) \<and> 0 < sl_Sign lib (comp_MemoryLimit c) \<and>
     \<not> 0 < sl_Cmp lib (comp_CPURequest c) (comp_CPULimit c) \<and> \<not> 0 < sl_Cmp lib (comp_MemoryRequest c) (comp_MemoryLimit c)"

definition validateSettings :: "'z ServerLibrary_scheme \<Rightarrow> bytes \<Rightarrow> bytes \<Rightarrow> bool" where
  "validateSettings lib schema settings \<longleftrightarrow>
     settings \<noteq> [] \<and> length settings \<le> maxSettingsLen \<and> sl_SchemaAccepts lib schema settings"

definition plan_library :: "'z ServerLibrary_scheme \<Rightarrow> GameLibrary" where
  "plan_library lib = \<lparr> lib_ParseIP = lib_ParseIP lib, lib_Compile = lib_Compile lib, lib_Unmarshal = lib_Unmarshal lib,
     lib_IsDNS1123Label = lib_IsDNS1123Label lib \<rparr>"

definition validateIntent :: "'z ServerLibrary_scheme \<Rightarrow> GameServer \<Rightarrow> Definition \<Rightarrow> PlanError option" where
  "validateIntent lib server d = first_error
     [guard (\<not> lib_IsDNS1123Label lib (meta_Name (gs_Meta server))) (ValidationError ValidationIdentity),
      guard (\<not> lib_IsDNS1123Label lib (meta_Namespace (gs_Meta server))) (ValidationError ValidationIdentity),
      guard (meta_UID (gs_Meta server) = []) (ValidationError ValidationIdentity),
      guard (Validate (plan_library lib) d \<noteq> None) (ValidationError ValidationGame),
      guard (gss_Game (gs_Spec server) \<noteq> def_ID d) (ValidationError ValidationGame),
      guard (isl (ResolvedImage (plan_library lib) (def_ImageRepository d) (gss_ImageDigest (gs_Spec server))))
        (ValidationError ValidationImage),
      guard (gss_DesiredState (gs_Spec server) \<noteq> DesiredStateRunning \<and> gss_DesiredState (gs_Spec server) \<noteq> DesiredStateStopped)
        (ValidationError ValidationDesiredState),
      guard (\<not> validateCompute lib (gss_Compute (gs_Spec server))) (ValidationError ValidationCompute),
      guard (\<not> 0 < sl_Sign lib (stor_Size (gss_Storage (gs_Spec server)))) (ValidationError ValidationStorage),
      guard (case stor_StorageClassName (gss_Storage (gs_Spec server)) of
          None \<Rightarrow> False | Some c \<Rightarrow> c \<noteq> [] \<and> \<not> sl_IsDNS1123Subdomain lib c) (ValidationError ValidationStorage),
      guard (\<not> validateSettings lib (def_SettingsSchema d) (gss_Settings (gs_Spec server))) (ValidationError ValidationSettings),
      first_error_in (\<lambda>p. first_error
        [guard (pp_Name p = configurationVolumeName) (ValidationError ValidationGame),
         guard (dataClaimName lib (meta_Name (gs_Meta server)) (def_ID d) (pp_Name p) = None) (ValidationError ValidationIdentity)])
        (def_PersistentPaths d)]"

section \<open>Data selection\<close>

definition DataIdentity :: "UID \<Rightarrow> string option" where
  "DataIdentity uid = (if uid = [] then None else Some (''data-'' @ hex (take 24 (sha256 (''arcadectl/data/'' @ uid)))))"

text \<open>Active data first, then the reference of the spec, then what this controller has observed before.\<close>

definition selectedData :: "GameServer \<Rightarrow> RetainedDataReference option" where
  "selectedData server = (case gst_ActiveData (gs_Status server) of
       Some s \<Rightarrow> Some s
     | None \<Rightarrow> (case stor_Reattach (gss_Storage (gs_Spec server)) of
           Some s \<Rightarrow> Some s
         | None \<Rightarrow> gst_ObservedData (gs_Status server)))"

text \<open>The body of the loop over the selected claims, with the claims before it.\<close>

definition selectedClaimError :: "Definition \<Rightarrow> RetainedDataClaimReference list \<Rightarrow> RetainedDataClaimReference \<Rightarrow> PlanError option" where
  "selectedClaimError d earlier c = guard
     (rclaim_Path c \<notin> set (map pp_Name (def_PersistentPaths d)) \<or>
      rclaim_Path c \<in> set (map rclaim_Path earlier) \<or>
      ref_Namespace (rclaim_ClaimRef c) \<noteq> None \<or> ref_Name (rclaim_ClaimRef c) = [] \<or> ref_UID (rclaim_ClaimRef c) = [] \<or>
      ref_Name (rclaim_ClaimRef c) \<in> set (map (\<lambda>e. ref_Name (rclaim_ClaimRef e)) earlier) \<or>
      ref_UID (rclaim_ClaimRef c) \<in> set (map (\<lambda>e. ref_UID (rclaim_ClaimRef e)) earlier))
     (ValidationError ValidationStorage)"

definition retainedDataSelection ::
  "'z ServerLibrary_scheme \<Rightarrow> GameServer \<Rightarrow> Definition \<Rightarrow> PlanError + (string \<times> (string \<rightharpoonup> ExactLocalReference))" where
  "retainedDataSelection lib server d = (case selectedData server of
       None \<Rightarrow> (case DataIdentity (meta_UID (gs_Meta server)) of
           None \<Rightarrow> Inl UncategorizedError
         | Some identity \<Rightarrow> Inr (identity, Map.empty))
     | Some selection \<Rightarrow>
         (case first_error
            [guard (rdata_Identity selection = []) (ValidationError ValidationStorage),
             guard (\<not> lib_IsDNS1123Label lib (rdata_Identity selection)) (ValidationError ValidationStorage),
             guard (length (rdata_Claims selection) \<noteq> length (def_PersistentPaths d)) (ValidationError ValidationStorage),
             errors_along (selectedClaimError d) [] (rdata_Claims selection)] of
            Some e \<Rightarrow> Inl e
          | None \<Rightarrow> Inr (rdata_Identity selection, map_of (map (\<lambda>c. (rclaim_Path c, rclaim_ClaimRef c)) (rdata_Claims selection)))))"

section \<open>Objects\<close>

definition workloadLabels :: "GameServer \<Rightarrow> (string \<rightharpoonup> string)" where
  "workloadLabels server = [LabelManagedBy \<mapsto> ManagerName, LabelName \<mapsto> ''game-server'',
     LabelInstance \<mapsto> meta_Name (gs_Meta server), LabelGame \<mapsto> gss_Game (gs_Spec server)]"

definition buildDataClaim :: "GameServer \<Rightarrow> Definition \<Rightarrow> string \<Rightarrow> string \<Rightarrow> string \<Rightarrow> ServerClaim" where
  "buildDataClaim server d pathName name dataIdentity = \<lparr>
     pvc_Meta = freshMeta name (meta_Namespace (gs_Meta server))
       [LabelManagedBy \<mapsto> ManagerName, LabelName \<mapsto> ''game-data'', LabelInstance \<mapsto> meta_Name (gs_Meta server), LabelGame \<mapsto> def_ID d,
        LabelDataPolicy \<mapsto> ''retain'', LabelDataPath \<mapsto> pathName, LabelDataIdentity \<mapsto> dataIdentity] Map.empty [],
     pvc_VolumeName = [], pvc_Phase = ClaimOther [],
     scl_StorageClassName = stor_StorageClassName (gss_Storage (gs_Spec server)), scl_AccessModes = [''ReadWriteOnce''],
     scl_Requests = [ResourceStorage \<mapsto> stor_Size (gss_Storage (gs_Spec server))], scl_Capacity = Map.empty \<rparr>"

definition GroupVersion :: string where "GroupVersion = ''arcade.gobha.me/v1alpha1''"

definition controllerReference :: "GameServer \<Rightarrow> OwnerReference" where
  "controllerReference server = \<lparr> owner_APIVersion = GroupVersion, owner_Kind = ''GameServer'', owner_Name = meta_Name (gs_Meta server),
     owner_UID = meta_UID (gs_Meta server), owner_Controller = Some True, owner_BlockOwnerDeletion = None \<rparr>"

definition buildConfiguration :: "GameServer \<Rightarrow> (string \<rightharpoonup> string) \<Rightarrow> ConfigurationFile list \<Rightarrow> ServerConfigMap" where
  "buildConfiguration server labels files = \<lparr>
     cm_Meta = freshMeta (meta_Name (gs_Meta server) @ ''-configuration'') (meta_Namespace (gs_Meta server))
       (labels(LabelName \<mapsto> ''game-configuration'')) Map.empty [controllerReference server],
     cm_Data = Map.empty, cm_Immutable = None,
     scm_BinaryData = foldl (\<lambda>data f. data(cf_Name f \<mapsto> cf_Contents f)) Map.empty files \<rparr>"

definition protocolName :: "Protocol \<Rightarrow> string" where
  "protocolName p = (case p of ProtocolTCP \<Rightarrow> ''TCP'' | ProtocolUDP \<Rightarrow> ''UDP'' | ProtocolOther s \<Rightarrow> s)"

fun persistentRootForTarget :: "PersistentPath list \<Rightarrow> string \<Rightarrow> string" where
  "persistentRootForTarget [] target = []"
| "persistentRootForTarget (p # ps) target =
     (if HasPrefix target (pp_MountPath p @ ''/'') then pp_MountPath p else persistentRootForTarget ps target)"

definition configurationHash :: "ConfigurationFile list \<Rightarrow> string" where
  "configurationHash files = hex (sha256 (concat (map fileEncoding files)))"

definition playerEndpoints :: "Definition \<Rightarrow> Endpoint list" where
  "playerEndpoints d = filter (\<lambda>e. ep_Scope e = ScopePlayer) (def_Endpoints d)"

definition persistentMounts :: "Definition \<Rightarrow> VolumeMount list" where
  "persistentMounts d = map (\<lambda>p. \<lparr> vm_Name = pp_Name p, vm_MountPath = pp_MountPath p, vm_ReadOnly = False \<rparr>) (def_PersistentPaths d)"

definition workloadVolumes :: "Definition \<Rightarrow> (string \<Rightarrow> string) \<Rightarrow> string \<Rightarrow> WorkloadVolume list" where
  "workloadVolumes d claimName configurationName =
     map (\<lambda>p. \<lparr> wv_Name = pp_Name p, wv_Source = WorkloadClaim (claimName (pp_Name p)) False \<rparr>) (def_PersistentPaths d) @
     [\<lparr> wv_Name = configurationVolumeName, wv_Source = WorkloadConfigMap configurationName \<rparr>]"

definition gameContainer :: "GameServer \<Rightarrow> Definition \<Rightarrow> string \<Rightarrow> WorkloadContainer" where
  "gameContainer server d resolved = \<lparr>
     wc_Name = ''game'', wc_Image = resolved, wc_ImagePullPolicy = ''IfNotPresent'', wc_Command = [], wc_Args = [],
     wc_Ports = map (\<lambda>e. \<lparr> cport_Name = ep_Name e, cport_ContainerPort = ucast (ep_ContainerPort e), cport_Protocol = protocolName (ep_Protocol e) \<rparr>)
       (playerEndpoints d),
     wc_VolumeMounts = persistentMounts d, wc_VolumeDevices = [],
     wc_Requests = [ResourceCPU \<mapsto> comp_CPURequest (gss_Compute (gs_Spec server)), ResourceMemory \<mapsto> comp_MemoryRequest (gss_Compute (gs_Spec server))],
     wc_Limits = [ResourceCPU \<mapsto> comp_CPULimit (gss_Compute (gs_Spec server)), ResourceMemory \<mapsto> comp_MemoryLimit (gss_Compute (gs_Spec server))],
     wc_Security = \<lparr> sec_AllowPrivilegeEscalation = Some False, sec_ReadOnlyRootFilesystem = None, sec_CapabilitiesDrop = [''ALL''] \<rparr>,
     wc_ReadinessProbe =
       (if def_ReadinessEndpoint d \<noteq> [] then
          (case def_ReadinessMode d of
             ReadinessTCP \<Rightarrow> Some (TCPSocketProbe (def_ReadinessEndpoint d))
           | ReadinessPrivateExec \<Rightarrow> Some (ExecProbe [privateReadinessPath])
           | _ \<Rightarrow> None)
        else None) \<rparr>"

definition materializerContainer :: "'z ServerLibrary_scheme \<Rightarrow> Definition \<Rightarrow> ConfigurationFile list \<Rightarrow> WorkloadContainer" where
  "materializerContainer lib d files = \<lparr>
     wc_Name = ''configuration-materializer'', wc_Image = configurationMaterializer, wc_ImagePullPolicy = ''IfNotPresent'',
     wc_Command = [''/bin/sh'', ''-ec''],
     wc_Args = [sl_materializeScript lib, ''arcadectl-configuration-materializer''] @
       concat (map (\<lambda>f. [persistentRootForTarget (def_PersistentPaths d) (cf_MountPath f),
         configurationSourcePath @ ''/'' @ cf_Name f, cf_MountPath f]) files),
     wc_Ports = [],
     wc_VolumeMounts = persistentMounts d @ [\<lparr> vm_Name = configurationVolumeName, vm_MountPath = configurationSourcePath, vm_ReadOnly = True \<rparr>],
     wc_VolumeDevices = [], wc_Requests = Map.empty, wc_Limits = Map.empty,
     wc_Security = \<lparr> sec_AllowPrivilegeEscalation = Some False, sec_ReadOnlyRootFilesystem = Some True, sec_CapabilitiesDrop = [''ALL''] \<rparr>,
     wc_ReadinessProbe = None \<rparr>"

definition buildWorkload :: "'z ServerLibrary_scheme \<Rightarrow> GameServer \<Rightarrow> Definition \<Rightarrow> (string \<rightharpoonup> string) \<Rightarrow> string \<Rightarrow> ConfigurationFile list \<Rightarrow> string \<Rightarrow> (string \<Rightarrow> string) \<Rightarrow> Deployment" where
  "buildWorkload lib server d labels resolved files configurationName claimName = \<lparr>
     dep_Meta = freshMeta (meta_Name (gs_Meta server)) (meta_Namespace (gs_Meta server)) labels Map.empty [controllerReference server],
     dep_Replicas = Some 1, dep_Strategy = ''Recreate'', dep_Selector = labels, dep_TemplateLabels = labels,
     dep_TemplateAnnotations = [AnnotationConfigurationHash \<mapsto> configurationHash files],
     dep_TemplateSpec = \<lparr>
       wps_AutomountServiceAccountToken = Some False,
       wps_Security = \<lparr> ws_RunAsNonRoot = Some True, ws_RunAsUser = Some (rid_UserID (def_RuntimeIdentity d)),
         ws_RunAsGroup = Some (rid_GroupID (def_RuntimeIdentity d)), ws_FSGroup = Some (rid_FSGroup (def_RuntimeIdentity d)),
         ws_FSGroupChangePolicy = Some ''OnRootMismatch'', ws_SeccompProfile = Some ''RuntimeDefault'' \<rparr>,
       wps_InitContainers = [materializerContainer lib d files], wps_Containers = [gameContainer server d resolved],
       wps_EphemeralContainers = [], wps_Volumes = workloadVolumes d claimName configurationName \<rparr>,
     dep_ObservedGeneration = 0, dep_StatusReplicas = 0, dep_UpdatedReplicas = 0, dep_ReadyReplicas = 0, dep_AvailableReplicas = 0,
     dep_UnavailableReplicas = 0, dep_Conditions = [] \<rparr>"

definition buildPlayerService :: "GameServer \<Rightarrow> Definition \<Rightarrow> (string \<rightharpoonup> string) \<Rightarrow> Service" where
  "buildPlayerService server d labels = \<lparr>
     svc_Meta = freshMeta (meta_Name (gs_Meta server)) (meta_Namespace (gs_Meta server)) labels Map.empty [controllerReference server],
     svc_Type = ''LoadBalancer'', svc_Selector = labels,
     svc_Ports = map (\<lambda>e. \<lparr> sport_Name = ep_Name e, sport_Protocol = protocolName (ep_Protocol e), sport_Port = ucast (ep_ContainerPort e),
       sport_TargetPort = IntOrString_FromString (ep_Name e) \<rparr>) (playerEndpoints d),
     svc_Ingress = [] \<rparr>"

section \<open>Build\<close>

definition externallySelected :: "GameServer \<Rightarrow> bool" where
  "externallySelected server = (case stor_Reattach (gss_Storage (gs_Spec server)) of
       None \<Rightarrow> False
     | Some reattach \<Rightarrow> (case gst_ActiveData (gs_Status server) of None \<Rightarrow> True | Some active \<Rightarrow> rdata_Identity active = rdata_Identity reattach))"

text \<open>The loop over the persistent paths.\<close>

fun planClaims ::
  "'z ServerLibrary_scheme \<Rightarrow> GameServer \<Rightarrow> Definition \<Rightarrow> string \<Rightarrow> (string \<rightharpoonup> ExactLocalReference) \<Rightarrow> PersistentPath list \<Rightarrow> PlanError + DataClaimPlan list" where
  "planClaims lib server d dataIdentity references [] = Inr []"
| "planClaims lib server d dataIdentity references (p # ps) =
     (case (case references (pp_Name p) of
              Some reference \<Rightarrow> Some (ref_Name reference, ref_UID reference)
            | None \<Rightarrow> map_option (\<lambda>name. (name, [])) (dataClaimName lib (meta_Name (gs_Meta server)) (def_ID d) (pp_Name p))) of
        None \<Rightarrow> Inl UncategorizedError
      | Some (name, uid) \<Rightarrow>
          (case planClaims lib server d dataIdentity references ps of
             Inl e \<Rightarrow> Inl e
           | Inr claims \<Rightarrow> Inr (\<lparr> dcp_Desired = buildDataClaim server d (pp_Name p) name dataIdentity, dcp_RequiredUID = uid,
               dcp_ExternallySelected = externallySelected server \<rparr> # claims)))"

text \<open>The map \<^verbatim>\<open>claimNames\<close>, filled along the paths; a missing key reads as the empty string.\<close>

definition claimNames :: "PersistentPath list \<Rightarrow> DataClaimPlan list \<Rightarrow> (string \<rightharpoonup> string)" where
  "claimNames paths claims = foldl (\<lambda>m (p, c). m(pp_Name p \<mapsto> meta_Name (pvc_Meta (dcp_Desired c)))) Map.empty (zip paths claims)"

definition Build :: "'z ServerLibrary_scheme \<Rightarrow> GameServer \<Rightarrow> Definition \<Rightarrow> PlanError + Plan" where
  "Build lib server d = (case validateIntent lib server d of
       Some e \<Rightarrow> Inl e
     | None \<Rightarrow> (case retainedDataSelection lib server d of
         Inl e \<Rightarrow> Inl e
       | Inr (dataIdentity, references) \<Rightarrow> (case planClaims lib server d dataIdentity references (def_PersistentPaths d) of
           Inl e \<Rightarrow> Inl e
         | Inr claims \<Rightarrow> (case RenderSettingsFiles d (gss_Settings (gs_Spec server)) of
             Inl _ \<Rightarrow> Inl (ValidationError ValidationSettings)
           | Inr files \<Rightarrow>
               (let plan = \<lparr> plan_DataClaims = claims, plan_DataIdentity = dataIdentity, 
                      plan_Reattach = (gst_ActiveData (gs_Status server) \<noteq> None \<or> stor_Reattach (gss_Storage (gs_Spec server)) \<noteq> None \<or> gst_ObservedData (gs_Status server) \<noteq> None),
                      plan_Configuration = None, plan_Workload = None, plan_PlayerService = None \<rparr> in
                if gss_DesiredState (gs_Spec server) = DesiredStateStopped then Inr plan
                else (let configuration = buildConfiguration server (workloadLabels server) files in
                  case ResolvedImage (plan_library lib) (def_ImageRepository d) (gss_ImageDigest (gs_Spec server)) of
                    Inl _ \<Rightarrow> Inl (ValidationError ValidationImage)
                  | Inr resolved \<Rightarrow> Inr (plan\<lparr> plan_Configuration := Some configuration,
                      plan_Workload := Some (buildWorkload lib server d (workloadLabels server) resolved files (meta_Name (cm_Meta configuration))
                        (mget (claimNames (def_PersistentPaths d) claims))),
                      plan_PlayerService := Some (buildPlayerService server d (workloadLabels server)) \<rparr>)))))))"

end
