(* ===== verification/Sessions.thy ===== *)
theory Sessions
  imports Effects
begin

text \<open>
  Runs against an API server. The \<open>n\<close>-th call of a run is answered from the server's \<open>n\<close>-th snapshot. A run counts
  its calls and keeps a log of the requests it sent to change the cluster, each with the number of its call. The
  type of requests is a parameter: every controller has its own.
\<close>

section \<open>Runs\<close>

record 'q session_of =
  ses_calls :: nat
  ses_log :: "(nat \<times> 'q) list"

text \<open>A call that only reads.\<close>

definition ask :: "(nat \<Rightarrow> 'a) \<Rightarrow> ('q session_of, 'a) state" where
  "ask f = do {
     s \<leftarrow> State_Monad.get;
     _ \<leftarrow> State_Monad.set (s\<lparr> ses_calls := Suc (ses_calls s) \<rparr>);
     State_Monad.return (f (ses_calls s)) }"

text \<open>A call that asks the cluster to change.\<close>

definition send_to :: "(nat \<Rightarrow> 'r) \<Rightarrow> 'q \<Rightarrow> ('q session_of, 'r) state" where
  "send_to respond q = do {
     s \<leftarrow> State_Monad.get;
     _ \<leftarrow> State_Monad.set (s\<lparr> ses_calls := Suc (ses_calls s), ses_log := ses_log s @ [(ses_calls s, q)] \<rparr>);
     State_Monad.return (respond (ses_calls s)) }"

lemma wp_ask [wp_simps]: "wp (ask f) Q s = Q (f (ses_calls s)) (s\<lparr> ses_calls := Suc (ses_calls s) \<rparr>)"
  by (simp add: ask_def wp_simps)

lemma wp_send_to [wp_simps]:
  "wp (send_to f q) Q s = Q (f (ses_calls s)) (s\<lparr> ses_calls := Suc (ses_calls s), ses_log := ses_log s @ [(ses_calls s, q)] \<rparr>)"
  by (simp add: send_to_def wp_simps)

section \<open>What a run added\<close>

text \<open>
  \<open>extends P s t\<close>: the run from \<open>s\<close> to \<open>t\<close> only sent requests that satisfy \<open>P\<close>, with call numbers in
  between.
\<close>

definition extends :: "(nat \<Rightarrow> 'q \<Rightarrow> bool) \<Rightarrow> 'q session_of \<Rightarrow> 'q session_of \<Rightarrow> bool" where
  "extends P s t \<longleftrightarrow> ses_calls s \<le> ses_calls t \<and>
     (\<exists>l. ses_log t = ses_log s @ l \<and> (\<forall>(n, q)\<in>set l. ses_calls s \<le> n \<and> n < ses_calls t \<and> P n q))"

lemma extends_refl [simp, intro]: "extends P s s"
  by (simp add: extends_def)

lemma extends_trans: "extends P s t \<Longrightarrow> extends P t u \<Longrightarrow> extends P s u"
  unfolding extends_def by fastforce

lemma extends_mono: "extends P s t \<Longrightarrow> (\<And>n q. ses_calls s \<le> n \<Longrightarrow> P n q \<Longrightarrow> P' n q) \<Longrightarrow> extends P' s t"
  unfolding extends_def by fastforce

lemma extends_ask: "extends P s (s\<lparr> ses_calls := Suc (ses_calls s) \<rparr>)"
  by (simp add: extends_def)

lemma extends_more_calls [simp]: "extends P s (s\<lparr> ses_calls := n \<rparr>) \<longleftrightarrow> ses_calls s \<le> n"
  by (simp add: extends_def)

lemma extends_send: "P (ses_calls s) q \<Longrightarrow>
    extends P s (s\<lparr> ses_calls := Suc (ses_calls s), ses_log := ses_log s @ [(ses_calls s, q)] \<rparr>)"
  by (simp add: extends_def)

lemma extends_calls: "extends P s t \<Longrightarrow> ses_calls s \<le> ses_calls t"
  by (simp add: extends_def)

lemma extends_log: "extends P s t \<Longrightarrow> ses_log s = [] \<Longrightarrow> (n, q) \<in> set (ses_log t) \<Longrightarrow> P n q"
  unfolding extends_def by auto

text \<open>A program that only reads leaves the log.\<close>

abbreviation reads :: "'q session_of \<Rightarrow> 'q session_of \<Rightarrow> bool" where
  "reads \<equiv> extends (\<lambda>_ _. False)"

lemma reads_extends: "reads s t \<Longrightarrow> extends P s t"
  by (erule extends_mono) simp

lemma reads_log: "reads s t \<Longrightarrow> ses_log t = ses_log s"
proof -
  assume "reads s t"
  then obtain l where "ses_log t = ses_log s @ l" "\<forall>(n, q)\<in>set l. False" unfolding extends_def by blast
  then show ?thesis by (cases l) auto
qed

section \<open>Observations in a window of calls\<close>

definition seen :: "nat \<Rightarrow> nat \<Rightarrow> (nat \<Rightarrow> bool) \<Rightarrow> bool" where
  "seen m n P \<longleftrightarrow> (\<exists>k. m \<le> k \<and> k < n \<and> P k)"

lemma seenI: "m \<le> k \<Longrightarrow> k < n \<Longrightarrow> P k \<Longrightarrow> seen m n P"
  unfolding seen_def by blast

lemma seen_ex: "seen m n (\<lambda>k. P k x) \<Longrightarrow> seen m n (\<lambda>k. \<exists>x. P k x)"
  unfolding seen_def by blast

lemma seen_mono: "seen m n P \<Longrightarrow> m' \<le> m \<Longrightarrow> n \<le> n' \<Longrightarrow> (\<And>k. P k \<Longrightarrow> P' k) \<Longrightarrow> seen m' n' P'"
  unfolding seen_def by (meson le_trans less_le_trans)

lemma seen_Suc [simp]: "seen m (Suc n) P \<longleftrightarrow> m \<le> n \<and> P n \<or> seen m n P"
  unfolding seen_def using less_Suc_eq by auto

lemma seen_empty [simp]: "\<not> seen m m P"
  by (simp add: seen_def)

lemma seen_wider: "seen m n P \<Longrightarrow> m' \<le> m \<Longrightarrow> n \<le> n' \<Longrightarrow> seen m' n' P"
  by (rule seen_mono)

text \<open>
  A program that only reads, and what it has observed when it succeeds: a predicate on the window of its
  calls that also holds for every wider window.
\<close>

definition wide :: "(nat \<Rightarrow> nat \<Rightarrow> bool) \<Rightarrow> bool" where
  "wide A \<longleftrightarrow> (\<forall>a b a' b'. A a b \<longrightarrow> a' \<le> a \<longrightarrow> b \<le> b' \<longrightarrow> A a' b')"

definition observes :: "('q session_of, 'e + 'a) state \<Rightarrow> ('a \<Rightarrow> nat \<Rightarrow> nat \<Rightarrow> bool) \<Rightarrow> bool" where
  "observes m A \<longleftrightarrow> (\<forall>s. wp m (\<lambda>x t. reads s t \<and> (\<forall>v. x = Inr v \<longrightarrow> A v (ses_calls s) (ses_calls t))) s)"

definition observes_none :: "('q session_of, 'e option) state \<Rightarrow> (nat \<Rightarrow> nat \<Rightarrow> bool) \<Rightarrow> bool" where
  "observes_none m A \<longleftrightarrow> (\<forall>s. wp m (\<lambda>x t. reads s t \<and> (x = None \<longrightarrow> A (ses_calls s) (ses_calls t))) s)"

named_theorems wide_simps \<open>predicates that hold in every wider window\<close>

lemma wideD: "wide A \<Longrightarrow> A a b \<Longrightarrow> a' \<le> a \<Longrightarrow> b \<le> b' \<Longrightarrow> A a' b'"
  unfolding wide_def by blast

lemma wide_seen [wide_simps]: "wide (\<lambda>a b. seen a b P)"
  unfolding wide_def by (blast intro: seen_wider)

lemma wide_const [wide_simps]: "wide (\<lambda>a b. P)"
  by (simp add: wide_def)

lemma wide_conj [wide_simps]: "wide A \<Longrightarrow> wide B \<Longrightarrow> wide (\<lambda>a b. A a b \<and> B a b)"
  unfolding wide_def by blast

lemma wide_option [wide_simps]: "wide A \<Longrightarrow> (\<And>y. wide (B y)) \<Longrightarrow> wide (\<lambda>a b. case x of None \<Rightarrow> A a b | Some y \<Rightarrow> B y a b)"
  by (cases x) simp_all

lemma wide_ball [wide_simps]: "(\<And>x. wide (A x)) \<Longrightarrow> wide (\<lambda>a b. \<forall>x\<in>X. A x a b)"
  unfolding wide_def by blast

lemma wide_ex [wide_simps]: "(\<And>x. wide (A x)) \<Longrightarrow> wide (\<lambda>a b. \<exists>x. A x a b)"
  unfolding wide_def by blast

lemma wide_disj [wide_simps]: "wide A \<Longrightarrow> wide B \<Longrightarrow> wide (\<lambda>a b. A a b \<or> B a b)"
  unfolding wide_def by blast

lemma wide_if [wide_simps]: "wide A \<Longrightarrow> wide B \<Longrightarrow> wide (\<lambda>a b. if c then A a b else B a b)"
  by (cases c) simp_all

lemma wide_all2 [wide_simps]: "(\<And>x y. wide (A x y)) \<Longrightarrow> wide (\<lambda>a b. list_all2 (\<lambda>x y. A x y a b) xs ys)"
  unfolding wide_def by (intro allI impI, erule list_all2_mono) blast

lemma observesD: "observes m A \<Longrightarrow> wp m (\<lambda>x t. reads s t \<and> (\<forall>v. x = Inr v \<longrightarrow> A v (ses_calls s) (ses_calls t))) s"
  unfolding observes_def by blast

lemma observes_noneD: "observes_none m A \<Longrightarrow> wp m (\<lambda>x t. reads s t \<and> (x = None \<longrightarrow> A (ses_calls s) (ses_calls t))) s"
  unfolding observes_none_def by blast

lemma observes_weaken: "observes m A \<Longrightarrow> (\<And>v a b. A v a b \<Longrightarrow> A' v a b) \<Longrightarrow> observes m A'"
  unfolding observes_def by (rule allI, rule wp_mono, erule spec) blast

lemma observes_Inl: "observes (State_Monad.return (Inl e)) A"
  by (simp add: observes_def wp_simps)

lemma observes_return: "observes (State_Monad.return (Inr v)) (\<lambda>w a b. w = v)"
  by (simp add: observes_def wp_simps)

lemma observes_return_eq: "observes (State_Monad.return x) (\<lambda>w a b. x = Inr w)"
  by (simp add: observes_def wp_simps)

lemma observes_attempt:
  assumes "observes m A" "\<And>v. observes (f v) (B v)" "\<And>v. wide (A v)" "\<And>v w. wide (B v w)"
  shows "observes (attempt m f) (\<lambda>w a b. \<exists>v. A v a b \<and> B v w a b)"
  unfolding observes_def wp_attempt
proof
  fix s
  show "wp m (\<lambda>x. case x of Inl e \<Rightarrow> \<lambda>t. reads s t \<and> (\<forall>w. Inl e = Inr w \<longrightarrow> (\<exists>v. A v (ses_calls s) (ses_calls t) \<and> B v w (ses_calls s) (ses_calls t)))
      | Inr v \<Rightarrow> wp (f v) (\<lambda>x t. reads s t \<and> (\<forall>w. x = Inr w \<longrightarrow> (\<exists>v. A v (ses_calls s) (ses_calls t) \<and> B v w (ses_calls s) (ses_calls t))))) s"
  proof (rule wp_mono [OF observesD [OF assms(1)]], clarsimp split: sum.split)
    fix t v
    assume t: "reads s t" "A v (ses_calls s) (ses_calls t)"
    show "wp (f v) (\<lambda>x t. reads s t \<and> (\<forall>w. x = Inr w \<longrightarrow> (\<exists>v. A v (ses_calls s) (ses_calls t) \<and> B v w (ses_calls s) (ses_calls t)))) t"
    proof (rule wp_mono [OF observesD [OF assms(2)]], intro conjI allI impI exI)
      fix x u w
      assume u: "reads t u \<and> (\<forall>w. x = Inr w \<longrightarrow> B v w (ses_calls t) (ses_calls u))"
      then show "reads s u" using extends_trans [OF t(1)] by blast
      have le: "ses_calls s \<le> ses_calls t" "ses_calls t \<le> ses_calls u" using t(1) u extends_calls by blast+
      show "A v (ses_calls s) (ses_calls u)" using wideD [OF assms(3) t(2)] le by blast
      assume "x = Inr w"
      then show "B v w (ses_calls s) (ses_calls u)" using wideD [OF assms(4)] u le by blast
    qed
  qed
qed

end
