(* ===== verification/KubeClient.thy ===== *)
theory KubeClient
  imports KubeTypes Sessions BackupManifest
begin

text \<open>
  The Kubernetes API as the controllers see it. A \<open>Cluster\<close> answers the \<open>n\<close>-th call of a run from its
  \<open>n\<close>-th snapshot, so that anything may change between two calls; it also holds the clock and the random
  source. The datatype of requests lists what the destroy controller may send.
\<close>

section \<open>Requests and the cluster\<close>

datatype ApiError = NotFound | ApiFailure string

datatype Kind = KindJob | KindRoleBinding | KindRole | KindServiceAccount | KindConfigMap | KindLease | KindClaim | KindPod

datatype Request =
    UpdateDestroy GameDestroy
  | StatusDestroy GameDestroy
  | CreateLease Lease
  | UpdateLease Lease
  | CreateConfigMap ConfigMap
  | CreateServiceAccount ServiceAccount
  | CreateRole Role
  | CreateRoleBinding RoleBinding
  | CreateJob Job
  | UpdateJob Job
  | UpdatePod Pod
  | Delete (del_kind: Kind) (del_namespace: string) (del_name: string) (del_uid: UID) (del_version: "string option")

record Cluster =
  cl_GameDestroy :: "nat \<Rightarrow> string \<Rightarrow> string \<Rightarrow> ApiError + GameDestroy"
  cl_GameBackup :: "nat \<Rightarrow> string \<Rightarrow> string \<Rightarrow> ApiError + GameBackup"
  cl_GameServer :: "nat \<Rightarrow> string \<Rightarrow> string \<Rightarrow> ApiError + GameServer"
  cl_GameServers :: "nat \<Rightarrow> string \<Rightarrow> ApiError + GameServer list"
  cl_SecretMeta :: "nat \<Rightarrow> string \<Rightarrow> string \<Rightarrow> ApiError + ObjectMeta"
  cl_Claim :: "nat \<Rightarrow> string \<Rightarrow> string \<Rightarrow> ApiError + PersistentVolumeClaim"
  cl_Volume :: "nat \<Rightarrow> string \<Rightarrow> ApiError + PersistentVolume"
  cl_Pods :: "nat \<Rightarrow> string \<Rightarrow> ApiError + Pod list"
  cl_Attachments :: "nat \<Rightarrow> ApiError + VolumeAttachment list"
  cl_Lease :: "nat \<Rightarrow> string \<Rightarrow> string \<Rightarrow> ApiError + Lease"
  cl_ConfigMap :: "nat \<Rightarrow> string \<Rightarrow> string \<Rightarrow> ApiError + ConfigMap"
  cl_ServiceAccount :: "nat \<Rightarrow> string \<Rightarrow> string \<Rightarrow> ApiError + ServiceAccount"
  cl_Role :: "nat \<Rightarrow> string \<Rightarrow> string \<Rightarrow> ApiError + Role"
  cl_RoleBinding :: "nat \<Rightarrow> string \<Rightarrow> string \<Rightarrow> ApiError + RoleBinding"
  cl_Job :: "nat \<Rightarrow> string \<Rightarrow> string \<Rightarrow> ApiError + Job"
  cl_Respond :: "nat \<Rightarrow> Request \<Rightarrow> ApiError option"
  cl_Now :: "nat \<Rightarrow> Time"
  cl_Random :: "nat \<Rightarrow> bytes option"

definition api_message :: "ApiError \<Rightarrow> error" where
  "api_message e = (case e of NotFound \<Rightarrow> ''not found'' | ApiFailure m \<Rightarrow> m)"

section \<open>Runs\<close>

type_synonym session = "Request session_of"
type_synonym 'a program = "(session, 'a) state"

definition send :: "'z Cluster_scheme \<Rightarrow> Request \<Rightarrow> ApiError option program" where
  "send c q = send_to (\<lambda>n. cl_Respond c n q) q"

lemma wp_send [wp_simps]:
  "wp (send c q) Q s = Q (cl_Respond c (ses_calls s) q) (s\<lparr> ses_calls := Suc (ses_calls s), ses_log := ses_log s @ [(ses_calls s, q)] \<rparr>)"
  by (simp add: send_def wp_simps)

text \<open>The result of a reconciliation: \<^verbatim>\<open>ctrl.Result\<close> and the error.\<close>

record Reconciled =
  rec_Requeue :: bool
  rec_RequeueAfter :: Time
  rec_Error :: "error option"

definition second :: Time where "second = 1000000000"
definition minute :: Time where "minute = 60 * second"

definition finished :: "error option \<Rightarrow> Reconciled" where
  "finished err = \<lparr> rec_Requeue = False, rec_RequeueAfter = 0, rec_Error = err \<rparr>"

definition requeue :: "error option \<Rightarrow> Reconciled" where
  "requeue err = \<lparr> rec_Requeue = True, rec_RequeueAfter = 0, rec_Error = err \<rparr>"

definition requeue_after :: "Time \<Rightarrow> error option \<Rightarrow> Reconciled" where
  "requeue_after t err = \<lparr> rec_Requeue = False, rec_RequeueAfter = t, rec_Error = err \<rparr>"

end
