(* ===== verification/WorkerPods.thy ===== *)
theory WorkerPods
  imports KubeTypes
begin

text \<open>
  The helpers of \<^verbatim>\<open>internal/controller/gamebackup_controller.go\<close> that every data controller uses to
  compare a worker Job and its Pod with what was planned: ownership, conditions, and equality up to the
  defaults that the API server fills in.
\<close>

section \<open>Ownership and conditions\<close>

definition controlledBy :: "OwnerReference list \<Rightarrow> string \<Rightarrow> string \<Rightarrow> UID \<Rightarrow> bool" where
  "controlledBy references kind name uid \<longleftrightarrow>
     list_ex (\<lambda>r. owner_Controller r = Some True \<and> owner_Kind r = kind \<and> owner_Name r = name \<and> owner_UID r = uid) references"

definition jobComplete :: "Job \<Rightarrow> bool" where
  "jobComplete job \<longleftrightarrow> list_ex (\<lambda>c. jc_Type c = ''Complete'' \<and> jc_Status c = ConditionTrue) (job_Conditions job)"

definition jobFailed :: "Job \<Rightarrow> bool" where
  "jobFailed job \<longleftrightarrow> list_ex (\<lambda>c. jc_Type c = ''Failed'' \<and> jc_Status c = ConditionTrue) (job_Conditions job)"

datatype backupPodState = backupPodPending | backupPodAuthorized | backupPodOverlap | backupPodChanged

text \<open>\<^verbatim>\<open>delete(m, key)\<close>\<close>

definition map_delete :: "string \<Rightarrow> (string \<rightharpoonup> string) \<Rightarrow> (string \<rightharpoonup> string)" where
  "map_delete key m = m(key := None)"

definition workerPodAnnotationsMatch :: "(string \<rightharpoonup> string) \<Rightarrow> (string \<rightharpoonup> string) \<Rightarrow> string \<Rightarrow> bool" where
  "workerPodAnnotationsMatch actual template authorizationKey \<longleftrightarrow>
     (let annotations =
        (if mget actual authorizationKey \<noteq> []
         then fold map_delete [''cni.projectcalico.org/containerID'', ''cni.projectcalico.org/podIP'',
                ''cni.projectcalico.org/podIPs'', ''k8s.v1.cni.cncf.io/network-status''] actual
         else actual)
      in map_delete authorizationKey annotations = template)"

section \<open>Defaults of the API server\<close>

text \<open>A pointer that holds the default value becomes nil.\<close>

definition clear_default :: "'a \<Rightarrow> 'a option \<Rightarrow> 'a option" where
  "clear_default v field = (if field = Some v then None else field)"

definition clear_string :: "string \<Rightarrow> string \<Rightarrow> string" where
  "clear_string v field = (if field = v then [] else field)"

definition isDefaultNoExecuteToleration :: "Toleration \<Rightarrow> bool" where
  "isDefaultNoExecuteToleration t \<longleftrightarrow>
     tol_Operator t = ''Exists'' \<and> tol_Effect t = ''NoExecute'' \<and> tol_Seconds t = Some 300 \<and> tol_Value t = [] \<and>
     (tol_Key t = ''node.kubernetes.io/not-ready'' \<or> tol_Key t = ''node.kubernetes.io/unreachable'')"

definition normalizeBackupContainerDefaults :: "Container \<Rightarrow> Container" where
  "normalizeBackupContainerDefaults c = c\<lparr>
     ctr_TerminationMessagePath := clear_string ''/dev/termination-log'' (ctr_TerminationMessagePath c),
     ctr_TerminationMessagePolicy := clear_string ''File'' (ctr_TerminationMessagePolicy c),
     ctr_Env := map (\<lambda>e. e\<lparr> env_FieldRef := map_option (\<lambda>(path, version). (path, clear_string ''v1'' version)) (env_FieldRef e) \<rparr>) (ctr_Env c) \<rparr>"

text \<open>The defaults that both the Job template and the Pod share.\<close>

definition normalizeSharedDefaults :: "PodSpec \<Rightarrow> PodSpec" where
  "normalizeSharedDefaults p = p\<lparr>
     ps_DeprecatedServiceAccount := clear_string (ps_ServiceAccountName p) (ps_DeprecatedServiceAccount p),
     ps_DNSPolicy := clear_string ''ClusterFirst'' (ps_DNSPolicy p),
     ps_TerminationGracePeriodSeconds := clear_default 30 (ps_TerminationGracePeriodSeconds p),
     ps_SchedulerName := clear_string ''default-scheduler'' (ps_SchedulerName p),
     ps_InitContainers := map normalizeBackupContainerDefaults (ps_InitContainers p),
     ps_Containers := map normalizeBackupContainerDefaults (ps_Containers p) \<rparr>"

definition normalizeBackupPodDefaults :: "PodSpec \<Rightarrow> PodSpec" where
  "normalizeBackupPodDefaults p = (normalizeSharedDefaults p)\<lparr>
     ps_EnableServiceLinks := clear_default True (ps_EnableServiceLinks p),
     ps_Priority := clear_default 0 (ps_Priority p),
     ps_PreemptionPolicy := clear_default ''PreemptLowerPriority'' (ps_PreemptionPolicy p),
     ps_Tolerations := filter (\<lambda>t. \<not> isDefaultNoExecuteToleration t) (ps_Tolerations p) \<rparr>"

text \<open>The labels that the Job controller adds to the template with the generated selector.\<close>

definition generatedLabels :: "Job \<Rightarrow> (string \<times> string) list" where
  "generatedLabels job =
     [(''batch.kubernetes.io/job-name'', meta_Name (job_Meta job)), (''batch.kubernetes.io/controller-uid'', meta_UID (job_Meta job)),
      (''job-name'', meta_Name (job_Meta job)), (''controller-uid'', meta_UID (job_Meta job))]"

definition normalizeSelector :: "Job \<Rightarrow> JobSpec option" where
  "normalizeSelector job = (let spec = job_Spec job in
     case js_Selector spec of
       None \<Rightarrow> Some spec
     | Some selector \<Rightarrow>
         if meta_UID (job_Meta job) = [] \<or> sel_MatchExpressions selector \<noteq> [] \<or>
            sel_MatchLabels selector \<noteq> [(''batch.kubernetes.io/controller-uid'', meta_UID (job_Meta job))] \<or>
            list_ex (\<lambda>(label, value). mget (js_TemplateLabels spec) label \<noteq> value) (generatedLabels job)
         then None
         else Some (spec\<lparr> js_Selector := None,
           js_TemplateLabels := fold (\<lambda>(label, _). map_delete label) (generatedLabels job) (js_TemplateLabels spec) \<rparr>))"

definition normalizedBackupJobSpec :: "Job \<Rightarrow> JobSpec option" where
  "normalizedBackupJobSpec job =
     (if js_ManualSelector (job_Spec job) = Some True then None
      else (case normalizeSelector job of
              None \<Rightarrow> None
            | Some spec \<Rightarrow> Some (spec\<lparr>
                js_ManualSelector := None,
                js_CompletionMode := clear_default ''NonIndexed'' (js_CompletionMode spec),
                js_Suspend := clear_default False (js_Suspend spec),
                js_PodReplacementPolicy := clear_default ''TerminatingOrFailed'' (js_PodReplacementPolicy spec),
                js_TemplateSpec := normalizeSharedDefaults (js_TemplateSpec spec) \<rparr>)))"

definition backupJobSpecMatches :: "Job \<Rightarrow> Job \<Rightarrow> bool" where
  "backupJobSpecMatches desired existing \<longleftrightarrow>
     job_Spec desired = job_Spec existing \<or>
     (case (normalizedBackupJobSpec desired, normalizedBackupJobSpec existing) of
        (Some a, Some b) \<Rightarrow> a = b
      | _ \<Rightarrow> False)"

end
