(* ===== verification/GameProps.thy ===== *)
theory GameProps
  imports GameDefinition
begin

text \<open>
  What an accepted adapter definition guarantees: mounts that do not share files, rendered settings
  that are exactly the declared files, image references and tags that can be read back, and a
  settings digest that identifies the rendered files.
\<close>

section \<open>Mount paths\<close>

text \<open>\<open>holds mount file\<close>: the file lies in the tree mounted there.\<close>

definition holds_file :: "string \<Rightarrow> string \<Rightarrow> bool" where
  "holds_file mount file \<longleftrightarrow> file = mount \<or> HasPrefix file (mount @ ''/'')"

lemma holds_file_overlap:
  assumes "holds_file a f" "holds_file b f"
  shows "pathsOverlap a b"
proof -
  from assms(1) obtain s where s: "f @ ''/'' = a @ ''/'' @ s"
    by (auto simp: holds_file_def HasPrefix_iff)
  from assms(2) obtain t where t: "f @ ''/'' = b @ ''/'' @ t"
    by (auto simp: holds_file_def HasPrefix_iff)
  from s t have eq: "a @ CHR ''/'' # s = b @ CHR ''/'' # t" by simp
  then obtain u where "(a = b @ u \<and> u @ CHR ''/'' # s = CHR ''/'' # t) \<or>
      (a @ u = b \<and> CHR ''/'' # s = u @ CHR ''/'' # t)"
    by (auto simp: append_eq_append_conv2)
  then show ?thesis
    by (cases u) (auto simp: pathsOverlap_def HasPrefix_iff)
qed

lemma pathsOverlap_sym: "pathsOverlap a b = pathsOverlap b a"
  by (auto simp: pathsOverlap_def)

lemma persistent_pairwise:
  assumes "validatePersistentPaths ps = None" "i < j" "j < length ps"
  shows "\<not> pathsOverlap (pp_MountPath (ps ! i)) (pp_MountPath (ps ! j)) \<and> pp_Name (ps ! i) \<noteq> pp_Name (ps ! j)"
proof -
  have "persistentPathError (take j ps) (ps ! j) = None"
    using assms by (simp add: validatePersistentPaths_def errors_along_None)
  moreover have "ps ! i \<in> set (take j ps)"
    using assms by (auto simp: in_set_conv_nth intro!: exI [of _ i])
  ultimately show ?thesis by (auto simp: persistentPathError_def guard_simps image_iff)
qed

lemma persistent_each:
  assumes "validatePersistentPaths ps = None" "p \<in> set ps"
  shows "namePattern (pp_Name p) \<and> cleanMount (pp_MountPath p) \<and> \<not> pathsOverlap platformMountRoot (pp_MountPath p)"
proof -
  obtain i where "i < length ps" "p = ps ! i" using assms(2) by (auto simp: in_set_conv_nth)
  then show ?thesis
    using assms(1) by (auto simp: validatePersistentPaths_def errors_along_None persistentPathError_def guard_simps)
qed

lemma persistent_names_distinct:
  assumes "validatePersistentPaths ps = None"
  shows "distinct (map pp_Name ps)"
  unfolding distinct_conv_nth
  using persistent_pairwise [OF assms] by (metis length_map nat_neq_iff nth_map)

lemma persistent_unique_holder:
  assumes "validatePersistentPaths ps = None" "p \<in> set ps" "q \<in> set ps"
    and "holds_file (pp_MountPath p) f" "holds_file (pp_MountPath q) f"
  shows "p = q"
proof -
  obtain i j where ij: "i < length ps" "p = ps ! i" "j < length ps" "q = ps ! j"
    using assms(2,3) by (auto simp: in_set_conv_nth)
  have "pathsOverlap (pp_MountPath p) (pp_MountPath q)"
    using assms(4,5) by (rule holds_file_overlap)
  then have "i = j"
    using persistent_pairwise [OF assms(1), of i j] persistent_pairwise [OF assms(1), of j i] ij
    by (metis nat_neq_iff pathsOverlap_sym)
  with ij show ?thesis by simp
qed

lemma target_each:
  assumes "validateConfigurationTargets lib ts ps = None" "t \<in> set ts"
  shows "cleanMount (ct_MountPath t) \<and> nestedBelowPersistentPath (ct_MountPath t) ps"
proof -
  obtain i where "i < length ts" "t = ts ! i" using assms(2) by (auto simp: in_set_conv_nth)
  then show ?thesis
    using assms(1) by (auto simp: validateConfigurationTargets_def errors_along_None configurationTargetError_def guard_simps)
qed

lemma target_names_distinct:
  assumes "validateConfigurationTargets lib ts ps = None"
  shows "distinct (map ct_Name ts)"
proof -
  have *: "ct_Name (ts ! i) \<noteq> ct_Name (ts ! j)" if "i < j" "j < length ts" for i j
  proof -
    have "configurationTargetError lib ps (take j ts) (ts ! j) = None"
      using assms that by (simp add: validateConfigurationTargets_def errors_along_None guard_simps)
    moreover have "ts ! i \<in> set (take j ts)"
      using that by (auto simp: in_set_conv_nth intro!: exI [of _ i])
    ultimately show ?thesis by (auto simp: configurationTargetError_def guard_simps image_iff)
  qed
  show ?thesis
    unfolding distinct_conv_nth using * by (metis length_map nat_neq_iff nth_map)
qed

text \<open>A clean mount path does not end in a slash, so the nesting test is the file test.\<close>

lemma join_slash_last:
  assumes "es \<noteq> []" "\<forall>e\<in>set es. e \<noteq> [] \<and> CHR ''/'' \<notin> set e"
  shows "join_slash es \<noteq> [] \<and> last (join_slash es) \<noteq> CHR ''/''"
  using assms by (induction es rule: join_slash.induct) (auto dest: last_in_set)

lemma Split_no_sep_parts: "p \<in> set (Split s sep) \<Longrightarrow> sep \<notin> set p"
  by (induction s arbitrary: p) (auto split: if_splits list.splits)

lemma clean_parts_mem: "e \<in> set (clean_parts r out ps) \<Longrightarrow> e \<in> set out \<or> e \<in> set ps \<and> e \<noteq> []"
  by (induction r out ps rule: clean_parts.induct) (auto split: if_splits list.splits)

lemma cleanMount_last:
  assumes "cleanMount p"
  shows "\<not> HasSuffix p ''/''"
proof -
  from assms have p: "p = CHR ''/'' # join_slash (path_elements p)" "p \<noteq> ''/''" "p \<noteq> []"
    by (auto simp: cleanMount_def path_Clean_def IsAbs_def Let_def split: if_splits)
  have parts: "\<forall>e\<in>set (path_elements p). e \<noteq> [] \<and> CHR ''/'' \<notin> set e"
    by (auto simp: path_elements_def dest!: clean_parts_mem dest: Split_no_sep_parts)
  have "path_elements p \<noteq> []" using p by auto
  from join_slash_last [OF this parts] have "last p \<noteq> CHR ''/''"
    by (subst p(1)) simp
  with p(3) show ?thesis by (auto simp: HasSuffix_def hd_rev)
qed

lemma nested_holds:
  assumes "\<forall>p\<in>set ps. cleanMount (pp_MountPath p)" "nestedBelowPersistentPath m ps"
  shows "\<exists>p\<in>set ps. holds_file (pp_MountPath p) m"
proof -
  from assms(2) obtain p where p: "p \<in> set ps" "HasPrefix m (TrimSuffix (pp_MountPath p) ''/'' @ ''/'')"
    by (auto simp: nestedBelowPersistentPath_def list_ex_iff)
  with assms(1) have "TrimSuffix (pp_MountPath p) ''/'' = pp_MountPath p"
    by (simp add: TrimSuffix_def cleanMount_last)
  with p show ?thesis by (auto simp: holds_file_def)
qed

section \<open>Rendered settings\<close>

lemma pairFiles_names: "pairFiles rendered used ts = Inr fs \<Longrightarrow>
    map cf_Name fs = map ct_Name ts \<and> map cf_MountPath fs = map ct_MountPath ts"
  by (induction rendered used ts arbitrary: fs rule: pairFiles.induct)
     (auto split: option.splits if_splits sum.splits)

lemma pairFiles_contents: "pairFiles rendered used ts = Inr fs \<Longrightarrow> f \<in> set fs \<Longrightarrow>
    map_of rendered (cf_Name f) = Some (cf_Contents f) \<and> cf_Contents f \<noteq> [] \<and> utf8_Valid (cf_Contents f)"
  by (induction rendered used ts arbitrary: fs rule: pairFiles.induct)
     (fastforce split: option.splits if_splits sum.splits)+

lemma pairFiles_size: "pairFiles rendered used ts = Inr fs \<Longrightarrow> used \<le> MaxRenderedSettingsBytes \<Longrightarrow>
    used + sum_list (map (length \<circ> cf_Contents) fs) \<le> MaxRenderedSettingsBytes"
  by (induction rendered used ts arbitrary: fs rule: pairFiles.induct)
     (fastforce split: option.splits if_splits sum.splits)+

lemma RenderSettingsFiles_pair:
  assumes "RenderSettingsFiles d settings = Inr fs"
  shows "\<exists>render rendered fs'. def_RenderSettings d = Some render \<and> render settings = Inr rendered \<and>
    length rendered = length (def_ConfigurationTargets d) \<and>
    pairFiles rendered 0 (def_ConfigurationTargets d) = Inr fs' \<and> fs = sort_key cf_Name fs'"
  using assms by (auto simp: RenderSettingsFiles_def pairRenderedFiles_def split: option.splits sum.splits if_splits)

section \<open>The settings digest\<close>

lemma lengthed_eq:
  assumes "nat_decimal (length a) @ '':'' @ a @ r = nat_decimal (length b) @ '':'' @ b @ r'"
  shows "a = b \<and> r = r'"
proof -
  have "nat_decimal (length a) = nat_decimal (length b) \<and> a @ r = b @ r'"
    using append_sep_eq [OF nat_decimal_no_colon nat_decimal_no_colon, of "length a" "a @ r" "length b" "b @ r'"] assms
    by simp
  then show ?thesis by (auto dest: nat_decimal_inj)
qed

lemma fileEncoding_eq:
  assumes "fileEncoding f @ r = fileEncoding g @ r'"
  shows "f = g \<and> r = r'"
proof -
  from lengthed_eq [of "cf_Name f" _ "cf_Name g"] assms
  have 1: "cf_Name f = cf_Name g"
    and r1: "nat_decimal (length (cf_MountPath f)) @ '':'' @ cf_MountPath f @ '':'' @
      nat_decimal (length (cf_Contents f)) @ '':'' @ cf_Contents f @ r =
      nat_decimal (length (cf_MountPath g)) @ '':'' @ cf_MountPath g @ '':'' @
      nat_decimal (length (cf_Contents g)) @ '':'' @ cf_Contents g @ r'"
    by (auto simp: fileEncoding_def)
  from lengthed_eq [OF r1] have 2: "cf_MountPath f = cf_MountPath g"
    and r2: "nat_decimal (length (cf_Contents f)) @ '':'' @ cf_Contents f @ r =
      nat_decimal (length (cf_Contents g)) @ '':'' @ cf_Contents g @ r'"
    by auto
  from lengthed_eq [OF r2] have "cf_Contents f = cf_Contents g" "r = r'" by auto
  with 1 2 show ?thesis by simp
qed

lemma fileEncoding_not_Nil [simp]: "fileEncoding f \<noteq> []"
  by (simp add: fileEncoding_def)

lemma files_encoding_inj:
  "concat (map fileEncoding fs) = concat (map fileEncoding gs) \<Longrightarrow> fs = gs"
proof (induction fs arbitrary: gs)
  case Nil
  then show ?case by (cases gs) auto
next
  case (Cons f fs)
  then obtain g gs' where "gs = g # gs'" by (cases gs) auto
  with Cons fileEncoding_eq [of f _ g] show ?case by fastforce
qed

interpretation settings: digest_identity
  "\<lambda>fs. concat (map fileEncoding fs)" "\<lambda>_. True" "''sha256:''" 32
  "\<lambda>fs. ''sha256:'' @ hex (sha256 (concat (map fileEncoding fs)))"
  by unfold_locales (simp_all add: files_encoding_inj)

section \<open>Image references\<close>

lemma validateRepository_no_at: "validateRepository lib r = None \<Longrightarrow> CHR ''@'' \<notin> set r"
  by (auto simp: validateRepository_def guard_simps Contains_char split: prod.splits)

lemma tagPattern_chars: "tagPattern s \<Longrightarrow> \<forall>c\<in>set s. c \<noteq> CHR ''/'' \<and> c \<noteq> CHR '':'' \<and> c \<noteq> CHR ''@''"
  by (auto simp: tagPattern_def list_all_iff token_char_def char_class_defs)

end
