(* ===== verification/Catalog.thy ===== *)
theory Catalog
  imports GameProps
begin

text \<open>
  The curated adapters \<^verbatim>\<open>internal/games/factorio\<close> and \<^verbatim>\<open>internal/games/synthetic\<close>, and the registry
  \<^verbatim>\<open>internal/catalog\<close> that controllers read definitions from. The registry's contract is the locale
  \<open>definition_catalog\<close>; it is interpreted on \<open>New\<close> and \<open>Get\<close>.

  Decoding a settings document into a Go struct (\<^verbatim>\<open>json.Decoder\<close> with unknown fields disallowed) is a
  parameter: it returns an error, or the struct together with what a second decoding step finds.
\<close>

datatype decoder_rest = RestEOF | RestValue | RestError string

section \<open>factorio/definition.go\<close>

record settings =
  fs_Name :: string
  fs_Description :: string
  fs_MaxPlayers :: int64
  fs_Visibility :: string

record serverVisibility =
  sv_Public :: bool
  sv_LAN :: bool

record serverSettings =
  ss_Name :: string
  ss_Description :: string
  ss_MaxPlayers :: int64
  ss_Visibility :: serverVisibility

type_synonym 'a decoder = "bytes \<Rightarrow> string + 'a \<times> decoder_rest"

definition requireJSONEOF :: "decoder_rest \<Rightarrow> string option" where
  "requireJSONEOF rest =
     (case rest of
        RestEOF \<Rightarrow> None
      | RestValue \<Rightarrow> Some ''Factorio settings must contain one JSON value''
      | RestError e \<Rightarrow> Some (''decode trailing Factorio settings: '' @ e))"

text \<open>\<^verbatim>\<open>json.MarshalIndent(serverSettings{...}, "", "  ")\<close>\<close>

definition json_int :: "int64 \<Rightarrow> string" where
  "json_int w = (if sint w < 0 then ''-'' else []) @ nat_decimal (nat \<bar>sint w\<bar>)"

definition json_bool :: "bool \<Rightarrow> string" where
  "json_bool b = (if b then ''true'' else ''false'')"

definition newline :: string where "newline = [CHR 0x0A]"

definition json_key :: "string \<Rightarrow> string" where
  "json_key k = [CHR 0x22] @ k @ [CHR 0x22] @ '': ''"

definition marshalServerSettings :: "serverSettings \<Rightarrow> bytes" where
  "marshalServerSettings s =
     ''{'' @ newline @
     ''  '' @ json_key ''name'' @ json_quote (ss_Name s) @ '','' @ newline @
     ''  '' @ json_key ''description'' @ json_quote (ss_Description s) @ '','' @ newline @
     ''  '' @ json_key ''max_players'' @ json_int (ss_MaxPlayers s) @ '','' @ newline @
     ''  '' @ json_key ''visibility'' @ ''{'' @ newline @
     ''    '' @ json_key ''public'' @ json_bool (sv_Public (ss_Visibility s)) @ '','' @ newline @
     ''    '' @ json_key ''lan'' @ json_bool (sv_LAN (ss_Visibility s)) @ newline @
     ''  }'' @ newline @
     ''}''"

definition renderSettings :: "settings decoder \<Rightarrow> SettingsRenderer" where
  "renderSettings decode raw =
     (case decode raw of
        Inl e \<Rightarrow> Inl (''decode Factorio settings: '' @ e)
      | Inr (input, rest) \<Rightarrow>
          (case requireJSONEOF rest of
             Some e \<Rightarrow> Inl e
           | None \<Rightarrow>
               if fs_Name input = [] then Inl ''Factorio server name is required''
               else if fs_Visibility input \<noteq> ''private'' \<and> fs_Visibility input \<noteq> ''lan'' then
                 (if fs_Visibility input = ''public''
                  then Inl ''public Factorio visibility requires the future secret-reference contract''
                  else Inl (''unsupported Factorio visibility '' @ fs_Visibility input))
               else
                 Inr [(''server-settings'',
                   marshalServerSettings
                     \<lparr> ss_Name = fs_Name input, ss_Description = fs_Description input,
                       ss_MaxPlayers = fs_MaxPlayers input,
                       ss_Visibility = \<lparr> sv_Public = False, sv_LAN = (fs_Visibility input = ''lan'') \<rparr> \<rparr>
                   @ newline)]))"

definition versionPattern :: string where
  "versionPattern = ''^[0-9]{1,6}'' @ [CHR 0x5C] @ ''.[0-9]{1,6}'' @ [CHR 0x5C] @ ''.[0-9]{1,6}$''"

definition factorioSchema :: bytes where
  \<open>factorioSchema =
     ''{'' @ newline @
     ''  "type": "object",'' @ newline @
     ''  "additionalProperties": false,'' @ newline @
     ''  "properties": {'' @ newline @
     ''    "name": {"type": "string", "minLength": 1, "maxLength": 80},'' @ newline @
     ''    "description": {"type": "string", "maxLength": 200},'' @ newline @
     ''    "maxPlayers": {"type": "integer", "minimum": 1, "maximum": 65535},'' @ newline @
     ''    "visibility": {"type": "string", "enum": ["private", "lan"]}'' @ newline @
     ''  },'' @ newline @
     ''  "required": ["name", "visibility"]'' @ newline @
     ''}''\<close>

definition factorio_Definition :: "settings decoder \<Rightarrow> Definition" where
  "factorio_Definition decode = \<lparr>
     def_ID = ''factorio'',
     def_DisplayName = ''Factorio'',
     def_ImageRepository = ''ghcr.io/gobha-me/arcadectl-factorio'',
     def_VersionPolicy = Some \<lparr> vp_Pattern = versionPattern, vp_TagPrefix = [] \<rparr>,
     def_Endpoints =
       [\<lparr> ep_Name = ''game'', ep_Protocol = ProtocolUDP, ep_ContainerPort = 34197, ep_Scope = ScopePlayer \<rparr>,
        \<lparr> ep_Name = ''rcon'', ep_Protocol = ProtocolTCP, ep_ContainerPort = 27015, ep_Scope = ScopeAdmin \<rparr>],
     def_PersistentPaths = [\<lparr> pp_Name = ''world'', pp_MountPath = ''/factorio'' \<rparr>],
     def_ReadinessEndpoint = ''rcon'',
     def_ReadinessMode = ReadinessPrivateExec,
     def_SettingsSchema = factorioSchema,
     def_ConfigurationTargets =
       [\<lparr> ct_Name = ''server-settings'', ct_MountPath = ''/factorio/config/server-settings.json'' \<rparr>],
     def_RenderSettings = Some (renderSettings decode),
     def_RuntimeIdentity = \<lparr> rid_UserID = 845, rid_GroupID = 845, rid_FSGroup = 845 \<rparr>,
     def_Capabilities = \<lparr> cap_ColdBackup = True, cap_Restore = True, cap_GracefulShutdown = True \<rparr> \<rparr>"

section \<open>synthetic/definition.go\<close>

record syntheticSettings =
  syn_Seed :: string
  syn_MOTD :: string

definition renderSynthetic :: "syntheticSettings decoder \<Rightarrow> SettingsRenderer" where
  "renderSynthetic decode raw =
     (case decode raw of
        Inl e \<Rightarrow> Inl (''decode synthetic settings: '' @ e)
      | Inr (s, rest) \<Rightarrow>
          (case rest of
             RestValue \<Rightarrow> Inl ''synthetic settings must contain one JSON value''
           | RestError e \<Rightarrow> Inl (''decode trailing synthetic settings: '' @ e)
           | RestEOF \<Rightarrow>
               if syn_Seed s = [] \<or> length (syn_Seed s) > 64
               then Inl ''synthetic seed must contain between 1 and 64 characters''
               else if \<not> list_all (\<lambda>c. is_lower c \<or> is_digit c \<or> c = CHR ''-'') (syn_Seed s)
               then Inl ''synthetic seed contains an unsupported character''
               else if syn_MOTD s = [] \<or> length (syn_MOTD s) > 128 \<or> ContainsAny (syn_MOTD s) [CHR 0x0D, CHR 0x0A]
               then Inl ''synthetic MOTD must be a single line between 1 and 128 characters''
               else Inr [(''echo-config'', ''listen=0.0.0.0:8080'' @ newline),
                         (''motd'', syn_MOTD s @ newline),
                         (''seed'', syn_Seed s @ newline)]))"

definition syntheticSchema :: bytes where
  \<open>syntheticSchema =
     ''{'' @ newline @
     ''  "type": "object",'' @ newline @
     ''  "additionalProperties": false,'' @ newline @
     ''  "properties": {'' @ newline @
     ''    "seed": {"type": "string", "minLength": 1, "maxLength": 64, "pattern": "^[a-z0-9-]+$"},'' @ newline @
     ''    "motd": {"type": "string", "minLength": 1, "maxLength": 128}'' @ newline @
     ''  }'' @ newline @
     ''}''\<close>

definition synthetic_Definition :: "syntheticSettings decoder \<Rightarrow> Definition" where
  "synthetic_Definition decode = \<lparr>
     def_ID = ''conformance-echo'',
     def_DisplayName = ''Conformance Echo Server'',
     def_ImageRepository = ''ghcr.io/gobha-me/arcadectl-conformance-server'',
     def_VersionPolicy = Some \<lparr> vp_Pattern = versionPattern, vp_TagPrefix = [] \<rparr>,
     def_Endpoints =
       [\<lparr> ep_Name = ''players'', ep_Protocol = ProtocolTCP, ep_ContainerPort = 8080, ep_Scope = ScopePlayer \<rparr>],
     def_PersistentPaths = [\<lparr> pp_Name = ''state'', pp_MountPath = ''/srv/world'' \<rparr>],
     def_ReadinessEndpoint = ''players'',
     def_ReadinessMode = ReadinessTCP,
     def_SettingsSchema = syntheticSchema,
     def_ConfigurationTargets =
       [\<lparr> ct_Name = ''echo-config'', ct_MountPath = ''/srv/world/config/echo.conf'' \<rparr>,
        \<lparr> ct_Name = ''motd'', ct_MountPath = ''/srv/world/config/motd.txt'' \<rparr>,
        \<lparr> ct_Name = ''seed'', ct_MountPath = ''/srv/world/config/seed.txt'' \<rparr>],
     def_RenderSettings = Some (renderSynthetic decode),
     def_RuntimeIdentity = \<lparr> rid_UserID = 65532, rid_GroupID = 65532, rid_FSGroup = 65532 \<rparr>,
     def_Capabilities = \<lparr> cap_ColdBackup = True, cap_Restore = True, cap_GracefulShutdown = False \<rparr> \<rparr>"

section \<open>catalog.go\<close>

text \<open>The map of definitions is an association list with distinct keys.\<close>

record Catalog =
  cat_definitions :: "(string \<times> Definition) list"

datatype catalog_error = ErrValidateGame string game_error | ErrGameDuplicate string | ErrGameNotInstalled

fun New_loop :: "GameLibrary \<Rightarrow> (string \<times> Definition) list \<Rightarrow> Definition list \<Rightarrow> catalog_error + Catalog" where
  "New_loop lib m [] = Inr \<lparr> cat_definitions = m \<rparr>"
| "New_loop lib m (d # ds) =
     (case Validate lib d of
        Some e \<Rightarrow> Inl (ErrValidateGame (def_ID d) e)
      | None \<Rightarrow>
          (case map_of m (def_ID d) of
             Some _ \<Rightarrow> Inl (ErrGameDuplicate (def_ID d))
           | None \<Rightarrow> New_loop lib ((def_ID d, Clone d) # m) ds))"

definition New :: "GameLibrary \<Rightarrow> Definition list \<Rightarrow> catalog_error + Catalog" where
  "New lib definitions = New_loop lib [] definitions"

definition Builtins :: "GameLibrary \<Rightarrow> settings decoder \<Rightarrow> catalog_error + Catalog" where
  "Builtins lib decode = New lib [factorio_Definition decode]"

definition Get :: "Catalog \<Rightarrow> string \<Rightarrow> catalog_error + Definition" where
  "Get c gid =
     (case map_of (cat_definitions c) gid of
        None \<Rightarrow> Inl ErrGameNotInstalled
      | Some d \<Rightarrow> Inr (Clone d))"

definition List :: "Catalog \<Rightarrow> Definition list" where
  "List c = map (\<lambda>gid. Clone (the (map_of (cat_definitions c) gid))) (sort (map fst (cat_definitions c)))"

section \<open>The contract of a catalog\<close>

text \<open>
  What a controller relies on: \<^verbatim>\<open>Get\<close> returns only validated definitions, under their own identifier.
\<close>

locale definition_catalog =
  fixes lib :: GameLibrary
    and get :: "string \<Rightarrow> 'e + Definition"
  assumes get_valid: "get gid = Inr d \<Longrightarrow> Validate lib d = None"
    and get_id: "get gid = Inr d \<Longrightarrow> def_ID d = gid"
begin

lemma get_paths: "get gid = Inr d \<Longrightarrow> validatePersistentPaths (def_PersistentPaths d) = None"
  by (drule get_valid) (simp add: Validate_def guard_simps)

lemma get_paths_distinct: "get gid = Inr d \<Longrightarrow> distinct (map pp_Name (def_PersistentPaths d))"
  by (rule persistent_names_distinct) (rule get_paths)

lemma get_mounts_set: "get gid = Inr d \<Longrightarrow> p \<in> set (def_PersistentPaths d) \<Longrightarrow> pp_MountPath p \<noteq> []"
  using persistent_each [OF get_paths] by (auto simp: cleanMount_def)

lemma get_restorable:
  "get gid = Inr d \<Longrightarrow> cap_Restore (def_Capabilities d) \<Longrightarrow> cap_ColdBackup (def_Capabilities d) \<and> def_PersistentPaths d \<noteq> []"
  by (drule get_valid) (auto simp: Validate_def guard_simps)

end

lemma Clone_id [simp]: "Clone d = d"
proof -
  have "(\<lambda>p :: VersionPolicy. \<lparr> vp_Pattern = vp_Pattern p, vp_TagPrefix = vp_TagPrefix p \<rparr>) = id"
    by (rule ext) simp
  then show ?thesis by (simp add: Clone_def option.map_id)
qed

lemma New_loop_inv:
  assumes "New_loop lib m ds = Inr c" "distinct (map fst m)"
    and "\<forall>(k, d) \<in> set m. def_ID d = k \<and> Validate lib d = None"
  shows "distinct (map fst (cat_definitions c)) \<and> (\<forall>(k, d) \<in> set (cat_definitions c). def_ID d = k \<and> Validate lib d = None)
    \<and> set (cat_definitions c) = set m \<union> (\<lambda>d. (def_ID d, d)) ` set ds"
  using assms
proof (induction lib m ds rule: New_loop.induct)
  case (1 lib m)
  then show ?case by auto
next
  case (2 lib m d ds)
  then have *: "Validate lib d = None" "map_of m (def_ID d) = None" "New_loop lib ((def_ID d, d) # m) ds = Inr c"
    by (auto split: option.splits)
  then have "def_ID d \<notin> set (map fst m)" by (simp add: map_of_eq_None_iff)
  then have "distinct (map fst (cat_definitions c)) \<and> (\<forall>(k, d) \<in> set (cat_definitions c). def_ID d = k \<and> Validate lib d = None)
    \<and> set (cat_definitions c) = set ((def_ID d, d) # m) \<union> (\<lambda>d. (def_ID d, d)) ` set ds"
    using 2 * by auto
  then show ?case by auto
qed

lemma New_inv:
  assumes "New lib ds = Inr c"
  shows "distinct (map fst (cat_definitions c))"
    and "(k, d) \<in> set (cat_definitions c) \<Longrightarrow> def_ID d = k \<and> Validate lib d = None"
    and "set (cat_definitions c) = (\<lambda>d. (def_ID d, d)) ` set ds"
  using New_loop_inv [of lib "[]" ds c] assms by (auto simp: New_def)

lemma Get_New:
  assumes "New lib ds = Inr c"
  shows "Get c gid = Inr d \<longleftrightarrow> d \<in> set ds \<and> def_ID d = gid"
proof -
  have "Get c gid = Inr d \<longleftrightarrow> map_of (cat_definitions c) gid = Some d"
    by (simp add: Get_def split: option.split)
  also have "\<dots> \<longleftrightarrow> (gid, d) \<in> set (cat_definitions c)"
    by (rule map_of_eq_Some_iff) (rule New_inv(1) [OF assms])
  also have "\<dots> \<longleftrightarrow> d \<in> set ds \<and> def_ID d = gid"
    by (auto simp: New_inv(3) [OF assms])
  finally show ?thesis .
qed

text \<open>Reading from the catalog that \<open>New\<close> builds.\<close>

definition catalogGet :: "GameLibrary \<Rightarrow> Definition list \<Rightarrow> string \<Rightarrow> catalog_error + Definition" where
  "catalogGet lib ds gid = (case New lib ds of Inl e \<Rightarrow> Inl e | Inr c \<Rightarrow> Get c gid)"

interpretation catalog: definition_catalog lib "catalogGet lib ds" for lib ds
proof unfold_locales
  fix gid d
  assume "catalogGet lib ds gid = Inr d"
  then obtain c where "New lib ds = Inr c" "Get c gid = Inr d"
    by (auto simp: catalogGet_def split: sum.splits)
  then have "(gid, d) \<in> set (cat_definitions c)"
    using New_inv(3) Get_New by fastforce
  then show "Validate lib d = None" "def_ID d = gid"
    using New_inv(2) [OF \<open>New lib ds = Inr c\<close>] by auto
qed

end
