(* ===== verification/GameDestroyController.thy ===== *)
theory GameDestroyController
  imports KubeClient KubeDestroy WorkerPods Catalog
begin

text \<open>
  \<^verbatim>\<open>internal/controller/gamedestroy_controller.go\<close> and \<^verbatim>\<open>data_selection.go\<close>: the reconciler that previews,
  confirms, verifies and carries out the destruction of one retained world. Each method is a program
  over the cluster.

  Parameters besides the cluster: the catalog, Kubernetes' name validation and JSON decoders (in
  \<open>WorkerEnv\<close>), \<^verbatim>\<open>meta.SetStatusCondition\<close>, the encoder of the worker input and the decoder of its result.
\<close>

section \<open>The reconciler\<close>

record GameDestroyReconciler = Cluster +
  gdr_Catalog :: "string \<Rightarrow> catalog_error + Definition"
  gdr_WorkerImage :: string
  gdr_Worker :: WorkerEnv
  gdr_SetStatusCondition :: "Condition list \<Rightarrow> Condition \<Rightarrow> Condition list"
  gdr_marshalInput :: "Input \<Rightarrow> bytes option"
  gdr_decodeResult :: "bytes \<Rightarrow> Result option"

definition destroyRequeue :: Time where "destroyRequeue = second"
definition destroyJobAuthorizedAnnotation :: string where
  "destroyJobAuthorizedAnnotation = ''arcade.gobha.me/destroy-job-authorized''"

text \<open>The input is the zero value when no backup is involved.\<close>

record destroySubject =
  dsub_backup :: "GameBackup option"
  dsub_definition :: Definition
  dsub_input :: Input

definition zeroRef :: ExactLocalReference where
  "zeroRef = \<lparr> ref_Namespace = None, ref_Name = [], ref_UID = [] \<rparr>"

definition zeroServerRef :: ExactGameServerReference where
  "zeroServerRef = \<lparr> gref_Local = zeroRef, gref_Generation = 0, gref_DesiredState = DesiredStateOther [] \<rparr>"

definition zeroSecretRef :: ExactSecretReference where
  "zeroSecretRef = \<lparr> sref_Local = zeroRef, sref_ResourceVersion = [] \<rparr>"

definition zeroInput :: Input where
  "zeroInput = \<lparr>
     in_Version = [], in_Stage = StageOther [], in_OperationRef = zeroRef, in_BackupRef = zeroRef, in_Target = zeroServerRef,
     in_WorkerLeaseName = [], in_RepositorySecretRef = zeroSecretRef,
     in_Artifact = \<lparr> art_Provenance = \<lparr> prov_BackupRef = zeroRef, prov_RepositorySecretRef = zeroSecretRef \<rparr>, art_ID = [],
       art_FormatVersion = [], art_ManifestDigest = [], art_SizeBytes = 0, art_PathCount = 0, art_CreatedAt = 0,
       art_Verification = \<lparr> ver_Result = VerificationOther [], ver_VerifiedAt = None \<rparr> \<rparr>,
     in_Source = \<lparr> src_GameServer = zeroServerRef, src_Game = [], src_ImageDigest = [], src_SettingsDigest = [], src_Paths = [] \<rparr>,
     in_TargetGame = [], in_TargetImageDigest = [], in_TargetSettingsDigest = [], in_TargetPaths = [], in_PreviousDataIdentity = [],
     in_PreviousData = [], in_CandidatePaths = [] \<rparr>"

definition now :: "GameDestroyReconciler \<Rightarrow> Time program" where
  "now r = ask (cl_Now r)"

abbreviation nameOf :: "GameDestroy \<Rightarrow> string" where "nameOf d \<equiv> meta_Name (gd_Meta d)"
abbreviation namespaceOf :: "GameDestroy \<Rightarrow> string" where "namespaceOf d \<equiv> meta_Namespace (gd_Meta d)"
abbreviation uidOf :: "GameDestroy \<Rightarrow> UID" where "uidOf d \<equiv> meta_UID (gd_Meta d)"
abbreviation phaseOf :: "GameDestroy \<Rightarrow> GameDestroyPhase" where "phaseOf d \<equiv> dst_Phase (gd_Status d)"
abbreviation journalOf :: "GameDestroy \<Rightarrow> GameDestroyClaimDeletion list" where "journalOf d \<equiv> dst_DeletionJournal (gd_Status d)"
abbreviation modeOf :: "GameDestroy \<Rightarrow> GameDestroyMode" where "modeOf d \<equiv> ds_Mode (gd_Spec d)"
abbreviation terminating :: "ObjectMeta \<Rightarrow> bool" where "terminating m \<equiv> meta_DeletionTimestamp m \<noteq> None"

section \<open>data\_selection.go\<close>

text \<open>The first loop: the map \<^verbatim>\<open>paths\<close> of the left side, newest entry first; \<open>None\<close> when a claim is refused.\<close>

fun selectionPaths :: "RetainedDataClaimReference list \<Rightarrow> (string \<times> ExactLocalReference) list \<Rightarrow> (string \<times> ExactLocalReference) list option" where
  "selectionPaths [] paths = Some paths"
| "selectionPaths (c # cs) paths =
     (if rclaim_Path c = [] \<or> ref_Name (rclaim_ClaimRef c) = [] \<or> ref_UID (rclaim_ClaimRef c) = [] \<or> ref_Namespace (rclaim_ClaimRef c) \<noteq> None then None
      else if map_of paths (rclaim_Path c) \<noteq> None then None
      else selectionPaths cs ((rclaim_Path c, rclaim_ClaimRef c) # paths))"

text \<open>The second loop: every claim of the right side takes its path out of the map.\<close>

fun takePaths :: "RetainedDataClaimReference list \<Rightarrow> (string \<times> ExactLocalReference) list \<Rightarrow> (string \<times> ExactLocalReference) list option" where
  "takePaths [] paths = Some paths"
| "takePaths (c # cs) paths =
     (case map_of paths (rclaim_Path c) of
        None \<Rightarrow> None
      | Some wanted \<Rightarrow>
          if ref_Namespace (rclaim_ClaimRef c) \<noteq> None \<or> ref_Name (rclaim_ClaimRef c) \<noteq> ref_Name wanted \<or> ref_UID (rclaim_ClaimRef c) \<noteq> ref_UID wanted then None
          else takePaths cs (filter (\<lambda>e. fst e \<noteq> rclaim_Path c) paths))"

definition sameDataSelection :: "RetainedDataReference option \<Rightarrow> RetainedDataReference option \<Rightarrow> bool" where
  "sameDataSelection left right \<longleftrightarrow>
     (case (left, right) of
        (Some l, Some r) \<Rightarrow>
          \<not> (rdata_Identity l = [] \<or> rdata_Identity l \<noteq> rdata_Identity r \<or> rdata_Claims l = [] \<or> length (rdata_Claims l) \<noteq> length (rdata_Claims r)) \<and>
          (case selectionPaths (rdata_Claims l) [] of
             None \<Rightarrow> False
           | Some paths \<Rightarrow> (case takePaths (rdata_Claims r) paths of None \<Rightarrow> False | Some rest \<Rightarrow> rest = []))
      | _ \<Rightarrow> False)"

section \<open>Status\<close>

definition destroyTerminal :: "GameDestroyPhase \<Rightarrow> bool" where
  "destroyTerminal phase \<longleftrightarrow> phase = DestroyPhaseSucceeded \<or> phase = DestroyPhaseFailed \<or> phase = DestroyPhaseCancelled"

definition completeCondition :: "GameDestroy \<Rightarrow> ConditionStatus \<Rightarrow> string \<Rightarrow> string \<Rightarrow> Time \<Rightarrow> Condition" where
  "completeCondition d state reason message t = \<lparr>
     cond_Type = ConditionOperationComplete, cond_Status = state, cond_ObservedGeneration = meta_Generation (gd_Meta d),
     cond_LastTransitionTime = t, cond_Reason = reason, cond_Message = message \<rparr>"

definition update_status :: "GameDestroyReconciler \<Rightarrow> GameDestroy \<Rightarrow> (GameDestroyStatus \<Rightarrow> GameDestroyStatus) \<Rightarrow> error option program" where
  "update_status r d f = do {
     e \<leftarrow> send r (StatusDestroy (d\<lparr> gd_Status := f (gd_Status d) \<rparr>));
     State_Monad.return (map_option api_message e) }"

definition status :: "GameDestroyReconciler \<Rightarrow> GameDestroy \<Rightarrow> GameDestroyPhase \<Rightarrow> string \<Rightarrow> string \<Rightarrow> error option program" where
  "status r d phase reason message = do {
     started \<leftarrow> (case dst_StartedAt (gd_Status d) of None \<Rightarrow> now r | Some t \<Rightarrow> State_Monad.return t);
     completed \<leftarrow> (if destroyTerminal phase then do { t \<leftarrow> now r; State_Monad.return (Some t) }
                   else State_Monad.return (dst_CompletedAt (gd_Status d)));
     t \<leftarrow> now r;
     let conditions = gdr_SetStatusCondition r (dst_Conditions (gd_Status d)) (completeCondition d ConditionUnknown reason message t);
     conditions \<leftarrow> (if destroyTerminal phase then do {
         t \<leftarrow> now r;
         State_Monad.return (gdr_SetStatusCondition r conditions
           (completeCondition d (if phase = DestroyPhaseSucceeded then ConditionTrue else ConditionFalse) reason message t)) }
       else State_Monad.return conditions);
     update_status r d (\<lambda>st. st\<lparr> dst_Phase := phase, dst_ObservedGeneration := meta_Generation (gd_Meta d),
       dst_StartedAt := Some started, dst_CompletedAt := completed, dst_Conditions := conditions \<rparr>) }"

definition hold :: "GameDestroyReconciler \<Rightarrow> GameDestroy \<Rightarrow> string \<Rightarrow> string \<Rightarrow> Reconciled program" where
  "hold r d reason message = do {
     t \<leftarrow> now r;
     e \<leftarrow> update_status r d (\<lambda>st. st\<lparr> dst_Conditions := gdr_SetStatusCondition r (dst_Conditions st)
       (completeCondition d ConditionUnknown reason message t) \<rparr>);
     State_Monad.return (case e of Some err \<Rightarrow> finished (Some err) | None \<Rightarrow> requeue_after destroyRequeue None) }"

definition fail :: "GameDestroyReconciler \<Rightarrow> GameDestroy \<Rightarrow> string \<Rightarrow> string \<Rightarrow> Reconciled program" where
  "fail r d reason message =
     (if journalOf d \<noteq> [] then hold r d reason message
      else do { e \<leftarrow> status r d DestroyPhaseFailed reason message; State_Monad.return (finished e) })"

text \<open>\<^verbatim>\<open>return ctrl.Result{}, r.status(...)\<close>\<close>

definition finish_status :: "GameDestroyReconciler \<Rightarrow> GameDestroy \<Rightarrow> GameDestroyPhase \<Rightarrow> string \<Rightarrow> string \<Rightarrow> Reconciled program" where
  "finish_status r d phase reason message = do { e \<leftarrow> status r d phase reason message; State_Monad.return (finished e) }"

section \<open>resolve\<close>

text \<open>The identity of the target, and the adapter that must certify it.\<close>

definition targetIncomplete :: "GameDestroy \<Rightarrow> bool" where
  "targetIncomplete d \<longleftrightarrow> (let t = targetOf d in
     ref_Namespace (dt_GameServer t) \<noteq> None \<or> ref_Name (dt_GameServer t) = [] \<or> ref_UID (dt_GameServer t) = [] \<or>
     rdata_Identity (dt_Data t) = [] \<or> claimsOf d = [] \<or> length (claimsOf d) > 16)"

definition uncertified :: "Definition \<Rightarrow> GameDestroy \<Rightarrow> bool" where
  "uncertified definition d \<longleftrightarrow>
     \<not> cap_ColdBackup (def_Capabilities definition) \<or> \<not> cap_Restore (def_Capabilities definition) \<or>
     length (def_PersistentPaths definition) \<noteq> length (claimsOf d)"

definition adapterPath :: "Definition \<Rightarrow> string \<Rightarrow> string" where
  "adapterPath definition = mget (map_of (rev (map (\<lambda>p. (pp_Name p, pp_MountPath p)) (def_PersistentPaths definition))))"

definition targetClaimError :: "Definition \<Rightarrow> RetainedDataClaimReference list \<Rightarrow> RetainedDataClaimReference \<Rightarrow> error option" where
  "targetClaimError definition before c = first_error
     [guard (adapterPath definition (rclaim_Path c) = [] \<or> ref_Namespace (rclaim_ClaimRef c) \<noteq> None \<or>
             ref_Name (rclaim_ClaimRef c) = [] \<or> ref_UID (rclaim_ClaimRef c) = [])
        ''target claim path or exact UID is invalid'',
      guard (ref_Name (rclaim_ClaimRef c) \<in> set (map (\<lambda>b. ref_Name (rclaim_ClaimRef b)) before)) ''target claim names overlap'',
      guard (ref_UID (rclaim_ClaimRef c) \<in> set (map (\<lambda>b. ref_UID (rclaim_ClaimRef b)) before)) ''target claim UIDs overlap'']"

text \<open>The backup that must prove the world stayed cold.\<close>

definition backupUnavailable :: "GameDestroy \<Rightarrow> GameBackup \<Rightarrow> bool" where
  "backupUnavailable d b \<longleftrightarrow>
     meta_UID (gb_Meta b) \<noteq> ref_UID (the (ds_BackupRef (gd_Spec d))) \<or> terminating (gb_Meta b) \<or>
     st_Phase (gb_Status b) \<noteq> DataPhaseSucceeded \<or> st_ObservedGeneration (gb_Status b) \<noteq> meta_Generation (gb_Meta b) \<or>
     st_Source (gb_Status b) = None \<or> st_Artifact (gb_Status b) = None \<or> st_Runtime (gb_Status b) = None \<or> st_Fence (gb_Status b) = None"

definition backupUnproven :: "GameDestroy \<Rightarrow> GameBackup \<Rightarrow> bool" where
  "backupUnproven d b \<longleftrightarrow>
     (let t = targetOf d; source = the (st_Source (gb_Status b)); artifact = the (st_Artifact (gb_Status b)); runtime = the (st_Runtime (gb_Status b)) in
      req_RestartPolicy (bspec_Request (gb_Spec b)) \<noteq> RestartLeaveStopped \<or> rt_Phase runtime \<noteq> PhaseStopped \<or>
      gref_DesiredState (rt_GameServer runtime) \<noteq> DesiredStateStopped \<or> \<not> sameLocal (gref_Local (src_GameServer source)) (dt_GameServer t) \<or>
      src_Game source \<noteq> dt_Game t \<or> ver_Result (art_Verification artifact) \<noteq> VerificationVerified \<or>
      ver_VerifiedAt (art_Verification artifact) = None \<or>
      \<not> sameLocal (prov_BackupRef (art_Provenance artifact)) (the (ds_BackupRef (gd_Spec d))) \<or>
      \<not> sameSecret (prov_RepositorySecretRef (art_Provenance artifact)) (the (ds_RepositorySecretRef (gd_Spec d))) \<or>
      length (src_Paths source) \<noteq> length (claimsOf d) \<or> art_PathCount artifact \<noteq> int32_of_len (claimsOf d))"

definition backupPathError :: "Definition \<Rightarrow> GameDestroy \<Rightarrow> DataPathIdentity \<Rightarrow> error option" where
  "backupPathError definition d p = first_error
     [guard (adapterPath definition (dp_Name p) \<noteq> dp_MountPath p) ''backup adapter topology changed'',
      guard (\<not> list_ex (\<lambda>c. rclaim_Path c = dp_Name p \<and> sameLocal (rclaim_ClaimRef c) (dp_ClaimRef p)) (claimsOf d))
        ''backup data identities do not match exact destroy target'']"

definition resolveBackup :: "GameDestroyReconciler \<Rightarrow> GameDestroy \<Rightarrow> Definition \<Rightarrow> (error + GameBackup option) program" where
  "resolveBackup r d definition =
     (if modeOf d = DestroyModeVerifiedBackup then
        (case (ds_BackupRef (gd_Spec d), ds_RepositorySecretRef (gd_Spec d)) of
           (Some backupRef, Some secretRef) \<Rightarrow>
             if ref_Namespace backupRef \<noteq> None \<or> ref_Namespace (sref_Local secretRef) \<noteq> None
             then State_Monad.return (Inl ''exact backup and repository references are required'')
             else do {
               got \<leftarrow> ask (\<lambda>n. cl_GameBackup r n (namespaceOf d) (ref_Name backupRef));
               case got of
                 Inl e \<Rightarrow> State_Monad.return (Inl ''exact succeeded backup and stopped runtime evidence are unavailable'')
               | Inr b \<Rightarrow>
                   (case first_error
                      [guard (backupUnavailable d b) ''exact succeeded backup and stopped runtime evidence are unavailable'',
                       guard (backupUnproven d b) ''backup does not prove the exact original world stayed cold'',
                       first_error_in (backupPathError definition d) (src_Paths (the (st_Source (gb_Status b))))] of
                      Some e \<Rightarrow> State_Monad.return (Inl e)
                    | None \<Rightarrow> do {
                        secret \<leftarrow> ask (\<lambda>n. cl_SecretMeta r n (namespaceOf d) (ref_Name (sref_Local secretRef)));
                        State_Monad.return (case secret of
                            Inl e \<Rightarrow> Inl ''exact repository Secret revision is unavailable''
                          | Inr m \<Rightarrow>
                              if meta_UID m \<noteq> ref_UID (sref_Local secretRef) \<or> meta_ResourceVersion m \<noteq> sref_ResourceVersion secretRef \<or> terminating m
                              then Inl ''exact repository Secret revision is unavailable'' else Inr (Some b)) }) }
         | _ \<Rightarrow> State_Monad.return (Inl ''exact backup and repository references are required''))
      else State_Monad.return
        (if modeOf d \<noteq> DestroyModeUnsafeNoBackup \<or> length (ds_UnsafeReason (gd_Spec d)) < 8
         then Inl ''destroy mode is invalid'' else Inr None))"

text \<open>The server itself: absent with a backup as evidence, or stopped on exactly this data.\<close>

definition serverNotStopped :: "GameDestroy \<Rightarrow> GameServer \<Rightarrow> bool" where
  "serverNotStopped d server \<longleftrightarrow>
     (let t = targetOf d; st = gs_Status server;
          selected = (if gst_ActiveData st = None then gst_ObservedData st else gst_ActiveData st) in
      meta_UID (gs_Meta server) \<noteq> ref_UID (dt_GameServer t) \<or> terminating (gs_Meta server) \<or> gss_Game (gs_Spec server) \<noteq> dt_Game t \<or>
      gss_DesiredState (gs_Spec server) \<noteq> DesiredStateStopped \<or> gst_Phase st \<noteq> PhaseStopped \<or>
      gst_ObservedGeneration st \<noteq> meta_Generation (gs_Meta server) \<or>
      \<not> sameDataSelection (gst_ObservedData st) (Some (dt_Data t)) \<or> \<not> sameDataSelection selected (Some (dt_Data t)))"

definition serverChanged :: "GameBackup option \<Rightarrow> GameServer \<Rightarrow> bool" where
  "serverChanged backup server \<longleftrightarrow>
     (case backup of
        None \<Rightarrow> False
      | Some b \<Rightarrow> meta_Generation (gs_Meta server) \<noteq> gref_Generation (rt_GameServer (the (st_Runtime (gb_Status b)))) \<or>
          gss_ImageDigest (gs_Spec server) \<noteq> src_ImageDigest (the (st_Source (gb_Status b))))"

definition resolveServer :: "GameDestroyReconciler \<Rightarrow> GameDestroy \<Rightarrow> GameBackup option \<Rightarrow> error option program" where
  "resolveServer r d backup = do {
     got \<leftarrow> ask (\<lambda>n. cl_GameServer r n (namespaceOf d) (ref_Name (dt_GameServer (targetOf d))));
     State_Monad.return (case got of
         Inl NotFound \<Rightarrow> guard (backup = None) ''unsafe destroy of a removed GameServer lacks durable original UID evidence''
       | Inl (ApiFailure _) \<Rightarrow> Some ''inspect exact GameServer failed''
       | Inr server \<Rightarrow> first_error
           [guard (serverNotStopped d server) ''exact GameServer generation is not stopped on the requested data'',
            guard (serverChanged backup server) ''GameServer changed since its leave-stopped backup'']) }"

text \<open>No other server may select the target world.\<close>

definition selectsTarget :: "GameDestroy \<Rightarrow> GameServer \<Rightarrow> bool" where
  "selectsTarget d other \<longleftrightarrow>
     \<not> (meta_Name (gs_Meta other) = ref_Name (dt_GameServer (targetOf d)) \<and> meta_UID (gs_Meta other) = ref_UID (dt_GameServer (targetOf d))) \<and>
     (sameDataSelection (gst_ActiveData (gs_Status other)) (Some (dt_Data (targetOf d))) \<or>
      sameDataSelection (gst_ObservedData (gs_Status other)) (Some (dt_Data (targetOf d))) \<or>
      sameDataSelection (stor_Reattach (gss_Storage (gs_Spec other))) (Some (dt_Data (targetOf d))))"

definition resolveSelectors :: "GameDestroyReconciler \<Rightarrow> GameDestroy \<Rightarrow> error option program" where
  "resolveSelectors r d = do {
     got \<leftarrow> ask (\<lambda>n. cl_GameServers r n (namespaceOf d));
     State_Monad.return (case got of
         Inl e \<Rightarrow> Some ''inspect GameServer data selectors failed''
       | Inr servers \<Rightarrow> guard (list_ex (selectsTarget d) servers) ''another GameServer selects the target world'') }"

text \<open>One claim of the target: its labels, its binding, and its deletion if the journal announced it.\<close>

definition journaled :: "GameDestroy \<Rightarrow> RetainedDataClaimReference \<Rightarrow> bool" where
  "journaled d c \<longleftrightarrow>
     (case map_of (rev (map (\<lambda>e. (cd_Path e, e)) (journalOf d))) (rclaim_Path c) of
        None \<Rightarrow> False
      | Some entry \<Rightarrow> sameLocal (cd_ClaimRef entry) (rclaim_ClaimRef c))"

definition claimChanged :: "GameDestroy \<Rightarrow> RetainedDataClaimReference \<Rightarrow> PersistentVolumeClaim \<Rightarrow> bool" where
  "claimChanged d c claim \<longleftrightarrow>
     (let labels = meta_Labels (pvc_Meta claim); t = targetOf d in
      meta_UID (pvc_Meta claim) \<noteq> ref_UID (rclaim_ClaimRef c) \<or> meta_OwnerReferences (pvc_Meta claim) \<noteq> [] \<or>
      mget labels LabelManagedBy \<noteq> ManagerName \<or> mget labels LabelName \<noteq> ''game-data'' \<or> mget labels LabelDataPolicy \<noteq> ''retain'' \<or>
      mget labels LabelInstance \<noteq> ref_Name (dt_GameServer t) \<or> mget labels LabelGame \<noteq> dt_Game t \<or>
      mget labels LabelDataIdentity \<noteq> rdata_Identity (dt_Data t) \<or> mget labels LabelDataPath \<noteq> rclaim_Path c \<or> pvc_VolumeName claim = [])"

definition claimError :: "GameDestroy \<Rightarrow> bool \<Rightarrow> GameBackup option \<Rightarrow> RetainedDataClaimReference \<Rightarrow> PersistentVolumeClaim \<Rightarrow> error option" where
  "claimError d permitJournalAbsence backup c claim = first_error
     [guard (claimChanged d c claim) ''exact target PVC identity or binding changed'',
      guard (case backup of None \<Rightarrow> False | Some b \<Rightarrow> mget (meta_Annotations (pvc_Meta claim)) AnnotationColdBackupUID \<noteq> meta_UID (gb_Meta b))
        ''exact PVC cold-backup continuity marker is absent or changed'',
      guard (terminating (pvc_Meta claim) \<and> (\<not> permitJournalAbsence \<or> \<not> journaled d c))
        ''target PVC is already terminating without this destroy journal'']"

definition volumeBound :: "PersistentVolumeClaim \<Rightarrow> PersistentVolume \<Rightarrow> bool" where
  "volumeBound claim pv \<longleftrightarrow>
     vol_ClaimRef pv = Some \<lparr> objref_Namespace = meta_Namespace (pvc_Meta claim), objref_Name = meta_Name (pvc_Meta claim),
       objref_UID = meta_UID (pvc_Meta claim) \<rparr>"

text \<open>The names of the volumes that the claim is bound to: none for a claim already deleted.\<close>

definition resolveClaim ::
  "GameDestroyReconciler \<Rightarrow> GameDestroy \<Rightarrow> bool \<Rightarrow> GameBackup option \<Rightarrow> RetainedDataClaimReference \<Rightarrow> (error + string list) program" where
  "resolveClaim r d permitJournalAbsence backup c = do {
     got \<leftarrow> ask (\<lambda>n. cl_Claim r n (namespaceOf d) (ref_Name (rclaim_ClaimRef c)));
     case got of
       Inl e \<Rightarrow> State_Monad.return (if e = NotFound \<and> permitJournalAbsence \<and> journaled d c then Inr [] else Inl ''exact target PVC is unavailable'')
     | Inr claim \<Rightarrow>
         (case claimError d permitJournalAbsence backup c claim of
            Some e \<Rightarrow> State_Monad.return (Inl e)
          | None \<Rightarrow>
              if permitJournalAbsence \<and> journaled d c \<and> terminating (pvc_Meta claim) then State_Monad.return (Inr [pvc_VolumeName claim])
              else if pvc_Phase claim \<noteq> ClaimBound then State_Monad.return (Inl ''target PVC is no longer bound'')
              else do {
                pv \<leftarrow> ask (\<lambda>n. cl_Volume r n (pvc_VolumeName claim));
                State_Monad.return (case pv of
                    Inl e \<Rightarrow> Inl ''target PVC/PV binding is not exact''
                  | Inr v \<Rightarrow> if volumeBound claim v then Inr [pvc_VolumeName claim] else Inl ''target PVC/PV binding is not exact'') }) }"

fun resolveClaims ::
  "GameDestroyReconciler \<Rightarrow> GameDestroy \<Rightarrow> bool \<Rightarrow> GameBackup option \<Rightarrow> RetainedDataClaimReference list \<Rightarrow> (error + string list) program" where
  "resolveClaims r d permit backup [] = State_Monad.return (Inr [])"
| "resolveClaims r d permit backup (c # cs) =
     attempt (resolveClaim r d permit backup c) (\<lambda>names.
     attempt (resolveClaims r d permit backup cs) (\<lambda>rest. State_Monad.return (Inr (names @ rest))))"

definition mountsTarget :: "GameDestroy \<Rightarrow> Pod \<Rightarrow> bool" where
  "mountsTarget d pod \<longleftrightarrow> list_ex (\<lambda>v. case volume_Source v of
     ClaimVolume name _ \<Rightarrow> name \<in> set (map (\<lambda>c. ref_Name (rclaim_ClaimRef c)) (claimsOf d)) | _ \<Rightarrow> False) (ps_Volumes (pod_Spec pod))"

definition attachedTo :: "string list \<Rightarrow> VolumeAttachment \<Rightarrow> bool" where
  "attachedTo names a \<longleftrightarrow> (case va_PersistentVolumeName a of None \<Rightarrow> False | Some n \<Rightarrow> n \<in> set names \<and> va_Attached a)"

definition resolveUsers :: "GameDestroyReconciler \<Rightarrow> GameDestroy \<Rightarrow> string list \<Rightarrow> error option program" where
  "resolveUsers r d volumeNames = do {
     pods \<leftarrow> ask (\<lambda>n. cl_Pods r n (namespaceOf d));
     case pods of
       Inl e \<Rightarrow> State_Monad.return (Some ''inspect PVC mount users failed'')
     | Inr ps \<Rightarrow>
         if list_ex (mountsTarget d) ps then State_Monad.return (Some ''target PVC remains mounted by a Pod'')
         else do {
           attachments \<leftarrow> ask (cl_Attachments r);
           State_Monad.return (case attachments of
               Inl e \<Rightarrow> Some ''inspect target volume attachments failed''
             | Inr as \<Rightarrow> guard (list_ex (attachedTo volumeNames) as) ''target volume remains attached'') } }"

definition preflightInput :: "GameDestroy \<Rightarrow> GameBackup \<Rightarrow> Input" where
  "preflightInput d b =
     (let source = the (st_Source (gb_Status b)) in zeroInput\<lparr>
       in_Version := InputVersion, in_Stage := StagePreflight, in_OperationRef := destroyRef d, in_BackupRef := the (ds_BackupRef (gd_Spec d)),
       in_Target := src_GameServer source, in_WorkerLeaseName := DestroyWorkerLeaseName (uidOf d),
       in_RepositorySecretRef := the (ds_RepositorySecretRef (gd_Spec d)), in_Artifact := the (st_Artifact (gb_Status b)), in_Source := source,
       in_TargetGame := src_Game source, in_TargetImageDigest := src_ImageDigest source, in_TargetSettingsDigest := src_SettingsDigest source,
       in_TargetPaths := map (\<lambda>p. \<lparr> pc_Name = dp_Name p, pc_MountPath = dp_MountPath p \<rparr>) (src_Paths source) \<rparr>)"

definition resolveSubject :: "GameDestroyReconciler \<Rightarrow> GameDestroy \<Rightarrow> Definition \<Rightarrow> GameBackup option \<Rightarrow> error + destroySubject" where
  "resolveSubject r d definition backup =
     (case backup of
        None \<Rightarrow> Inr \<lparr> dsub_backup = None, dsub_definition = definition, dsub_input = zeroInput \<rparr>
      | Some b \<Rightarrow>
          if ValidateInput (gdr_Worker r) (preflightInput d b) \<noteq> None then Inl ''repository preflight input is invalid''
          else Inr \<lparr> dsub_backup = Some b, dsub_definition = definition, dsub_input = preflightInput d b \<rparr>)"

text \<open>A step that only returns an error, inside a computation with a result.\<close>

definition ensure :: "('s, 'e option) state \<Rightarrow> ('s, 'e + 'a) state \<Rightarrow> ('s, 'e + 'a) state" where
  "ensure m k = do { e \<leftarrow> m; case e of Some err \<Rightarrow> State_Monad.return (Inl err) | None \<Rightarrow> k }"

definition resolve :: "GameDestroyReconciler \<Rightarrow> GameDestroy \<Rightarrow> bool \<Rightarrow> (error + destroySubject) program" where
  "resolve r d permitJournalAbsence =
     (if targetIncomplete d then State_Monad.return (Inl ''exact local world identity is incomplete'')
      else (case gdr_Catalog r (dt_Game (targetOf d)) of
          Inl e \<Rightarrow> State_Monad.return (Inl ''target does not match a certified persistent game adapter'')
        | Inr definition \<Rightarrow>
            if uncertified definition d then State_Monad.return (Inl ''target does not match a certified persistent game adapter'')
            else (case errors_along (targetClaimError definition) [] (claimsOf d) of
                Some e \<Rightarrow> State_Monad.return (Inl e)
              | None \<Rightarrow>
                  attempt (resolveBackup r d definition) (\<lambda>backup.
                  ensure (resolveServer r d backup) (
                  ensure (resolveSelectors r d) (
                  attempt (resolveClaims r d permitJournalAbsence backup (claimsOf d)) (\<lambda>volumeNames.
                  ensure (resolveUsers r d volumeNames) (
                  State_Monad.return (resolveSubject r d definition backup)))))))))"

section \<open>preview and confirm\<close>

definition verifiedGuidance :: string where
  "verifiedGuidance = ''This deletes the exact retained world claims. Restore from the pinned GameBackup and repository Secret into fresh claims before destroying; PV reclaim policy may retain bytes after PVC deletion.''"

definition unsafeGuidance :: string where
  "unsafeGuidance = ''UNSAFE: this request has no verified backup. Restore requires an independently verified backup into fresh claims; destruction can permanently lose this world. Review the administrator identity and unsafe reason before confirming; PV reclaim policy may retain bytes.''"

definition preview :: "GameDestroyReconciler \<Rightarrow> GameDestroy \<Rightarrow> Reconciled program" where
  "preview r d = do {
     resolved \<leftarrow> resolve r d False;
     case resolved of
       Inl e \<Rightarrow> fail r d ''PreflightRejected'' e
     | Inr _ \<Rightarrow> do {
         random \<leftarrow> ask (cl_Random r);
         case random of
           None \<Rightarrow> State_Monad.return (finished (Some ''generate destroy confirmation failed''))
         | Some challenge \<Rightarrow> do {
             t \<leftarrow> now r;
             e \<leftarrow> update_status r d (\<lambda>st. st\<lparr> dst_Phase := DestroyPhasePreview, dst_ObservedGeneration := meta_Generation (gd_Meta d),
               dst_Preview := Some \<lparr> pv_Challenge = RawURLEncode challenge, pv_ExpiresAt = t + 20 * minute,
                 pv_RestoreGuidance = (if modeOf d = DestroyModeUnsafeNoBackup then unsafeGuidance else verifiedGuidance) \<rparr> \<rparr>);
             State_Monad.return (finished e) } } }"

text \<open>The clock is read only when the challenge matches.\<close>

definition confirmed :: "GameDestroyReconciler \<Rightarrow> GameDestroy \<Rightarrow> bool program" where
  "confirmed r d =
     (case dst_Preview (gd_Status d) of
        None \<Rightarrow> State_Monad.return False
      | Some p \<Rightarrow>
          if ds_ConfirmationChallenge (gd_Spec d) = [] \<or> ds_ConfirmationChallenge (gd_Spec d) \<noteq> pv_Challenge p
          then State_Monad.return False
          else do { t \<leftarrow> now r; State_Monad.return (t < pv_ExpiresAt p) })"

section \<open>Leases\<close>

definition dataLeaseName :: "GameDestroy \<Rightarrow> string" where
  "dataLeaseName d = DataOperationLeaseName (rdata_Identity (dt_Data (targetOf d)))"

definition getDataLease :: "GameDestroyReconciler \<Rightarrow> GameDestroy \<Rightarrow> (ApiError + Lease) program" where
  "getDataLease r d = ask (\<lambda>n. cl_Lease r n (namespaceOf d) (dataLeaseName d))"

definition dataLeaseMatches :: "GameDestroy \<Rightarrow> Lease \<Rightarrow> bool" where
  "dataLeaseMatches d lease = DestroyOperationLeaseMatches lease (destroyRef d) (ref_Name (dt_GameServer (targetOf d))) (rdata_Identity (dt_Data (targetOf d)))"

definition leaseLabels :: "GameDestroy \<Rightarrow> (string \<rightharpoonup> string)" where
  "leaseLabels d = map_of [(LabelManagedBy, ManagerName), (LabelInstance, ref_Name (dt_GameServer (targetOf d))),
     (LabelDataIdentity, rdata_Identity (dt_Data (targetOf d))), (LabelDestroyUID, uidOf d)]"

definition acquireDataLease :: "GameDestroyReconciler \<Rightarrow> GameDestroy \<Rightarrow> error option program" where
  "acquireDataLease r d = do {
     got \<leftarrow> getDataLease r d;
     case got of
       Inl NotFound \<Rightarrow> do {
         t \<leftarrow> now r;
         e \<leftarrow> send r (CreateLease \<lparr>
           lease_Meta = freshMeta (dataLeaseName d) (namespaceOf d) (leaseLabels d) [AnnotationDestroyName \<mapsto> nameOf d] [],
           lease_HolderIdentity = Some (uidOf d), lease_AcquireTime = Some t \<rparr>);
         State_Monad.return (map_option api_message e) }
     | Inl (ApiFailure m) \<Rightarrow> State_Monad.return (Some m)
     | Inr lease \<Rightarrow> State_Monad.return (guard (\<not> dataLeaseMatches d lease) ''retained world operation lease belongs to another operation'') }"

definition requireDataLease :: "GameDestroyReconciler \<Rightarrow> GameDestroy \<Rightarrow> error option program" where
  "requireDataLease r d = do {
     got \<leftarrow> getDataLease r d;
     State_Monad.return (case got of
         Inl e \<Rightarrow> Some ''exact destroy data lease is not held''
       | Inr lease \<Rightarrow> guard (\<not> dataLeaseMatches d lease) ''exact destroy data lease is not held'') }"

definition foreignLease :: "GameDestroy \<Rightarrow> Lease \<Rightarrow> bool" where
  "foreignLease d lease \<longleftrightarrow> lease_HolderIdentity lease \<noteq> Some (uidOf d) \<and> mget (meta_Labels (lease_Meta lease)) LabelDestroyUID \<noteq> uidOf d \<and>
     mget (meta_Annotations (lease_Meta lease)) AnnotationDestroyName \<noteq> nameOf d"

text \<open>A delete names the object and the UID it was read with.\<close>

definition delete_object :: "GameDestroyReconciler \<Rightarrow> Kind \<Rightarrow> ObjectMeta \<Rightarrow> ApiError option program" where
  "delete_object r kind m = send r (Delete kind (meta_Namespace m) (meta_Name m) (meta_UID m) None)"

definition releaseDataLease :: "GameDestroyReconciler \<Rightarrow> GameDestroy \<Rightarrow> error option program" where
  "releaseDataLease r d = do {
     got \<leftarrow> getDataLease r d;
     case got of
       Inl NotFound \<Rightarrow> State_Monad.return None
     | Inl (ApiFailure m) \<Rightarrow> State_Monad.return (Some m)
     | Inr lease \<Rightarrow>
         if \<not> dataLeaseMatches d lease
         then State_Monad.return (if foreignLease d lease then None else Some ''refuse to release foreign data lease'')
         else do { e \<leftarrow> delete_object r KindLease (lease_Meta lease); State_Monad.return (map_option api_message e) } }"

definition getWorkerLease :: "GameDestroyReconciler \<Rightarrow> GameDestroy \<Rightarrow> (ApiError + Lease) program" where
  "getWorkerLease r d = ask (\<lambda>n. cl_Lease r n (namespaceOf d) (DestroyWorkerLeaseName (uidOf d)))"

definition workerLeaseHeld :: "GameDestroy \<Rightarrow> Lease \<Rightarrow> bool" where
  "workerLeaseHeld d lease \<longleftrightarrow> controlledBy (meta_OwnerReferences (lease_Meta lease)) ''GameDestroy'' (nameOf d) (uidOf d) \<and>
     lease_HolderIdentity lease = Some (uidOf d)"

definition workerLease :: "GameDestroyReconciler \<Rightarrow> GameDestroy \<Rightarrow> error option program" where
  "workerLease r d = do {
     got \<leftarrow> getWorkerLease r d;
     case got of
       Inl NotFound \<Rightarrow> do {
         e \<leftarrow> send r (CreateLease \<lparr>
           lease_Meta = freshMeta (DestroyWorkerLeaseName (uidOf d)) (namespaceOf d) (leaseLabels d) [AnnotationDestroyName \<mapsto> nameOf d] [destroyOwner d],
           lease_HolderIdentity = Some (uidOf d), lease_AcquireTime = None \<rparr>);
         State_Monad.return (map_option api_message e) }
     | Inl (ApiFailure m) \<Rightarrow> State_Monad.return (Some m)
     | Inr lease \<Rightarrow> State_Monad.return (guard
         (length (meta_OwnerReferences (lease_Meta lease)) \<noteq> 1 \<or> \<not> workerLeaseHeld d lease \<or>
          mget (meta_Labels (lease_Meta lease)) LabelDestroyUID \<noteq> uidOf d \<or>
          mget (meta_Labels (lease_Meta lease)) LabelDataIdentity \<noteq> rdata_Identity (dt_Data (targetOf d)) \<or>
          mget (meta_Annotations (lease_Meta lease)) AnnotationDestroyName \<noteq> nameOf d)
         ''destroy worker lease changed owner'') }"

definition confirm :: "GameDestroyReconciler \<Rightarrow> GameDestroy \<Rightarrow> Reconciled program" where
  "confirm r d =
     (if ds_ConfirmationChallenge (gd_Spec d) = [] then State_Monad.return (requeue_after (15 * second) None)
      else do {
        ok \<leftarrow> confirmed r d;
        if \<not> ok then fail r d ''ConfirmationExpired'' ''confirmation is stale or does not match the exact preview; create a new request''
        else do {
          resolved \<leftarrow> resolve r d False;
          case resolved of
            Inl e \<Rightarrow> fail r d ''PreflightRejected'' e
          | Inr _ \<Rightarrow> do {
              leased \<leftarrow> acquireDataLease r d;
              case leased of
                Some e \<Rightarrow> fail r d ''OperationConflict'' ''another data operation owns this world; no claims were deleted''
              | None \<Rightarrow> finish_status r d (if modeOf d = DestroyModeUnsafeNoBackup then DestroyPhaseDeleting else DestroyPhaseVerifying)
                  ''Confirmed'' ''exact target confirmed; retained world is fenced cold'' } } })"

section \<open>The verification worker\<close>

definition destroyJobArmed :: "GameDestroyReconciler \<Rightarrow> GameDestroy \<Rightarrow> Job \<Rightarrow> (error + bool) program" where
  "destroyJobArmed r d job = do {
     got \<leftarrow> getWorkerLease r d;
     State_Monad.return (case got of
         Inl e \<Rightarrow> Inl (api_message e)
       | Inr lease \<Rightarrow>
           if \<not> workerLeaseHeld d lease then Inl ''destroy worker lease changed owner''
           else let authorized = mget (meta_Annotations (lease_Meta lease)) destroyJobAuthorizedAnnotation in
             if authorized \<noteq> [] \<and> authorized \<noteq> meta_UID (job_Meta job) then Inl ''destroy worker lease pins a different Job UID''
             else Inr (authorized = meta_UID (job_Meta job))) }"

text \<open>Writing to the nil map of an object without annotations panics; the manager turns it into an error.\<close>

definition nilMapError :: error where
  "nilMapError = ''assignment to entry in nil map''"

definition armDestroyJob :: "GameDestroyReconciler \<Rightarrow> GameDestroy \<Rightarrow> Job \<Rightarrow> error option program" where
  "armDestroyJob r d job = do {
     got \<leftarrow> getWorkerLease r d;
     case got of
       Inl e \<Rightarrow> State_Monad.return (Some (api_message e))
     | Inr lease \<Rightarrow>
         if \<not> workerLeaseHeld d lease \<or> mget (meta_Annotations (lease_Meta lease)) destroyJobAuthorizedAnnotation \<noteq> []
         then State_Monad.return (Some ''destroy worker lease cannot arm this Job'')
         else if meta_Annotations (lease_Meta lease) = Map.empty then State_Monad.return (Some nilMapError)
         else do {
           e \<leftarrow> send r (UpdateLease (lease\<lparr> lease_Meta := (lease_Meta lease)\<lparr> meta_Annotations :=
             (meta_Annotations (lease_Meta lease))(destroyJobAuthorizedAnnotation \<mapsto> meta_UID (job_Meta job)) \<rparr> \<rparr>));
           State_Monad.return (map_option api_message e) } }"

text \<open>
  One round of the loop of \<^verbatim>\<open>ensureWorkerResources\<close>: \<open>None\<close> goes on to the next object, otherwise the
  flag and the error that the method returns.
\<close>

definition ensureObject ::
  "GameDestroyReconciler \<Rightarrow> (nat \<Rightarrow> ApiError + 'o) \<Rightarrow> ('o \<Rightarrow> ObjectMeta) \<Rightarrow> 'o \<Rightarrow> ('o \<Rightarrow> error option) \<Rightarrow> Request \<Rightarrow> (bool \<times> error option) option program" where
  "ensureObject r get metaOf desired changed create = do {
     got \<leftarrow> ask get;
     case got of
       Inl NotFound \<Rightarrow> do { e \<leftarrow> send r create; State_Monad.return (Some (True, map_option api_message e)) }
     | Inl (ApiFailure m) \<Rightarrow> State_Monad.return (Some (False, Some m))
     | Inr existing \<Rightarrow> State_Monad.return (map_option (\<lambda>e. (False, Some e)) (first_error
         [guard (meta_OwnerReferences (metaOf existing) \<noteq> meta_OwnerReferences (metaOf desired) \<or>
                 meta_Labels (metaOf existing) \<noteq> meta_Labels (metaOf desired) \<or>
                 meta_Annotations (metaOf existing) \<noteq> meta_Annotations (metaOf desired))
            ''destroy worker authority collides with a changed object'',
          changed existing])) }"

definition ensureJob :: "GameDestroyReconciler \<Rightarrow> GameDestroy \<Rightarrow> Job \<Rightarrow> (bool \<times> error option) program" where
  "ensureJob r d desired = do {
     got \<leftarrow> ask (\<lambda>n. cl_Job r n (meta_Namespace (job_Meta desired)) (meta_Name (job_Meta desired)));
     case got of
       Inl NotFound \<Rightarrow> do { e \<leftarrow> send r (CreateJob desired); State_Monad.return (True, map_option api_message e) }
     | Inl (ApiFailure m) \<Rightarrow> State_Monad.return (False, Some m)
     | Inr job \<Rightarrow>
         let expected = (if js_Suspend (job_Spec job) = Some False then desired\<lparr> job_Spec := (job_Spec desired)\<lparr> js_Suspend := Some False \<rparr> \<rparr> else desired)
         in State_Monad.return (False, guard
              (meta_OwnerReferences (job_Meta job) \<noteq> meta_OwnerReferences (job_Meta desired) \<or>
               meta_Labels (job_Meta job) \<noteq> meta_Labels (job_Meta desired) \<or>
               meta_Annotations (job_Meta job) \<noteq> meta_Annotations (job_Meta desired) \<or> \<not> backupJobSpecMatches expected job)
              ''destroy preflight Job changed'') }"

fun ensureAll :: "(bool \<times> error option) option program list \<Rightarrow> (bool \<times> error option) program \<Rightarrow> (bool \<times> error option) program" where
  "ensureAll [] final = final"
| "ensureAll (p # ps) final = do { x \<leftarrow> p; case x of Some y \<Rightarrow> State_Monad.return y | None \<Rightarrow> ensureAll ps final }"

definition ensureWorkerResources :: "GameDestroyReconciler \<Rightarrow> GameDestroy \<Rightarrow> DestroyResources \<Rightarrow> (bool \<times> error option) program" where
  "ensureWorkerResources r d res = (let name = (\<lambda>m. meta_Name m); ns = (\<lambda>m. meta_Namespace m) in ensureAll
     [ensureObject r (\<lambda>n. cl_ConfigMap r n (ns (cm_Meta (dr_Input res))) (name (cm_Meta (dr_Input res)))) cm_Meta (dr_Input res)
        (\<lambda>a. guard (cm_Data a \<noteq> cm_Data (dr_Input res) \<or> cm_Immutable a \<noteq> Some True) ''destroy input ConfigMap changed'')
        (CreateConfigMap (dr_Input res)),
      ensureObject r (\<lambda>n. cl_ServiceAccount r n (ns (sa_Meta (dr_ServiceAccount res))) (name (sa_Meta (dr_ServiceAccount res)))) sa_Meta (dr_ServiceAccount res)
        (\<lambda>a. guard (sa_AutomountServiceAccountToken a \<noteq> Some False) ''destroy worker ServiceAccount changed'')
        (CreateServiceAccount (dr_ServiceAccount res)),
      ensureObject r (\<lambda>n. cl_Role r n (ns (role_Meta (dr_Role res))) (name (role_Meta (dr_Role res)))) role_Meta (dr_Role res)
        (\<lambda>a. guard (role_Rules a \<noteq> role_Rules (dr_Role res)) ''destroy worker Role changed'')
        (CreateRole (dr_Role res)),
      ensureObject r (\<lambda>n. cl_RoleBinding r n (ns (rb_Meta (dr_RoleBinding res))) (name (rb_Meta (dr_RoleBinding res)))) rb_Meta (dr_RoleBinding res)
        (\<lambda>a. guard (rb_Subjects a \<noteq> rb_Subjects (dr_RoleBinding res) \<or> rb_RoleRef a \<noteq> rb_RoleRef (dr_RoleBinding res)) ''destroy worker RoleBinding changed'')
        (CreateRoleBinding (dr_RoleBinding res))]
     (ensureJob r d (dr_Job res)))"

definition workerPods :: "GameDestroyReconciler \<Rightarrow> GameDestroy \<Rightarrow> (ApiError + Pod list) program" where
  "workerPods r d = do {
     got \<leftarrow> ask (\<lambda>n. cl_Pods r n (namespaceOf d));
     State_Monad.return (case got of Inl e \<Rightarrow> Inl e
       | Inr ps \<Rightarrow> Inr (filter (\<lambda>p. meta_Labels (pod_Meta p) LabelDestroyUID = Some (uidOf d)) ps)) }"

definition podUngated :: "Pod \<Rightarrow> bool" where
  "podUngated pod \<longleftrightarrow>
     mget (meta_Annotations (pod_Meta pod)) AnnotationDestroyPodAuthorized \<noteq> [] \<or> ps_NodeName (pod_Spec pod) \<noteq> [] \<or>
     (pod_Phase pod \<noteq> [] \<and> pod_Phase pod \<noteq> ''Pending'') \<or> pod_InitContainerStatuses pod \<noteq> [] \<or> pod_ContainerStatuses pod \<noteq> [] \<or>
     ps_SchedulingGates (pod_Spec pod) \<noteq> [DestroySchedulingGate]"

text \<open>The state of the one worker Pod, with the Pod once it is authorized, or the error of the call.\<close>

definition authorizeWorkerPod :: "GameDestroyReconciler \<Rightarrow> GameDestroy \<Rightarrow> Job \<Rightarrow> (error + backupPodState \<times> Pod option) program" where
  "authorizeWorkerPod r d job = do {
     got \<leftarrow> workerPods r d;
     case got of
       Inl e \<Rightarrow> State_Monad.return (Inl (api_message e))
     | Inr [] \<Rightarrow> State_Monad.return (Inr (backupPodPending, None))
     | Inr (pod # others) \<Rightarrow>
         if others \<noteq> [] then State_Monad.return (Inr (backupPodOverlap, None))
         else if meta_UID (pod_Meta pod) = [] \<or> meta_UID (job_Meta job) = [] \<or>
           \<not> controlledBy (meta_OwnerReferences (pod_Meta pod)) ''Job'' (meta_Name (job_Meta job)) (meta_UID (job_Meta job)) \<or>
           meta_Labels (pod_Meta pod) \<noteq> js_TemplateLabels (job_Spec job) \<or>
           \<not> workerPodAnnotationsMatch (meta_Annotations (pod_Meta pod)) (js_TemplateAnnotations (job_Spec job)) AnnotationDestroyPodAuthorized
         then State_Monad.return (Inr (backupPodChanged, None))
         else if mget (meta_Annotations (pod_Meta pod)) AnnotationDestroyPodAuthorized = meta_UID (pod_Meta pod) \<and> ps_SchedulingGates (pod_Spec pod) = []
         then State_Monad.return (Inr (backupPodAuthorized, Some pod))
         else if podUngated pod then State_Monad.return (Inr (backupPodChanged, None))
         else if normalizeBackupPodDefaults (js_TemplateSpec (job_Spec job)) \<noteq> normalizeBackupPodDefaults (pod_Spec pod)
         then State_Monad.return (Inr (backupPodChanged, None))
         else if meta_Annotations (pod_Meta pod) = Map.empty then State_Monad.return (Inl nilMapError)
         else do {
           e \<leftarrow> send r (UpdatePod (pod\<lparr>
             pod_Meta := (pod_Meta pod)\<lparr> meta_Annotations := (meta_Annotations (pod_Meta pod))(AnnotationDestroyPodAuthorized \<mapsto> meta_UID (pod_Meta pod)) \<rparr>,
             pod_Spec := (pod_Spec pod)\<lparr> ps_SchedulingGates := [] \<rparr> \<rparr>));
           State_Monad.return (case e of Some err \<Rightarrow> Inl (api_message err) | None \<Rightarrow> Inr (backupPodPending, None)) } }"

fun firstResult :: "(bytes \<Rightarrow> Result option) \<Rightarrow> ContainerStatus list \<Rightarrow> Result option" where
  "firstResult decode [] = None"
| "firstResult decode (c # cs) =
     (case cs_Terminated c of
        None \<Rightarrow> firstResult decode cs
      | Some t \<Rightarrow>
          if cs_Name c \<noteq> ''destroy-worker'' \<or> term_ExitCode t \<noteq> 0 then firstResult decode cs
          else (case decode (term_Message t) of None \<Rightarrow> firstResult decode cs | Some result \<Rightarrow> Some result))"

definition destroyWorkerResult :: "(bytes \<Rightarrow> Result option) \<Rightarrow> Pod option \<Rightarrow> error + Result" where
  "destroyWorkerResult decode pod =
     (case pod of
        None \<Rightarrow> Inl ''no result Pod''
      | Some p \<Rightarrow> (case firstResult decode (pod_ContainerStatuses p) of None \<Rightarrow> Inl ''no valid destroy result'' | Some result \<Rightarrow> Inr result))"

section \<open>Cleaning up the worker\<close>

text \<open>One round of the loop over the authority objects: \<open>None\<close> goes on.\<close>

definition cleanupObject :: "GameDestroyReconciler \<Rightarrow> GameDestroy \<Rightarrow> Kind \<Rightarrow> (nat \<Rightarrow> ApiError + ObjectMeta) \<Rightarrow> (error + bool) option program" where
  "cleanupObject r d kind get = do {
     got \<leftarrow> ask get;
     case got of
       Inl NotFound \<Rightarrow> State_Monad.return None
     | Inl (ApiFailure m) \<Rightarrow> State_Monad.return (Some (Inl m))
     | Inr m \<Rightarrow>
         if \<not> controlledBy (meta_OwnerReferences m) ''GameDestroy'' (nameOf d) (uidOf d)
         then State_Monad.return (Some (Inl ''refuse to delete foreign destroy authority''))
         else do {
           e \<leftarrow> delete_object r kind m;
           State_Monad.return (Some (case e of Some (ApiFailure msg) \<Rightarrow> Inl msg | _ \<Rightarrow> Inr True)) } }"

fun cleanupAll :: "(error + bool) option program list \<Rightarrow> (error + bool) program" where
  "cleanupAll [] = State_Monad.return (Inr False)"
| "cleanupAll (p # ps) = do { x \<leftarrow> p; case x of Some y \<Rightarrow> State_Monad.return y | None \<Rightarrow> cleanupAll ps }"

definition metaResult :: "('o \<Rightarrow> ObjectMeta) \<Rightarrow> ApiError + 'o \<Rightarrow> ApiError + ObjectMeta" where
  "metaResult metaOf got = (case got of Inl e \<Rightarrow> Inl e | Inr x \<Rightarrow> Inr (metaOf x))"

definition cleanupAuthority :: "GameDestroyReconciler \<Rightarrow> GameDestroy \<Rightarrow> (error + bool) program" where
  "cleanupAuthority r d =
     (let ns = namespaceOf d; authority = DestroyResourceName (uidOf d) @ ''-authority'' in cleanupAll
       [cleanupObject r d KindRoleBinding (\<lambda>n. metaResult rb_Meta (cl_RoleBinding r n ns authority)),
        cleanupObject r d KindRole (\<lambda>n. metaResult role_Meta (cl_Role r n ns authority)),
        cleanupObject r d KindServiceAccount (\<lambda>n. metaResult sa_Meta (cl_ServiceAccount r n ns authority)),
        cleanupObject r d KindConfigMap (\<lambda>n. metaResult cm_Meta (cl_ConfigMap r n ns (DestroyResourceName (uidOf d) @ ''-input''))),
        cleanupObject r d KindLease (\<lambda>n. metaResult lease_Meta (cl_Lease r n ns (DestroyWorkerLeaseName (uidOf d))))])"

text \<open>Whether something is still pending, or the error. An error of the delete of the Job is returned with pending.\<close>

definition cleanupWorker :: "GameDestroyReconciler \<Rightarrow> GameDestroy \<Rightarrow> (error + bool) program" where
  "cleanupWorker r d = do {
     got \<leftarrow> ask (\<lambda>n. cl_Job r n (namespaceOf d) (DestroyResourceName (uidOf d)));
     case got of
       Inr job \<Rightarrow>
         if \<not> controlledBy (meta_OwnerReferences (job_Meta job)) ''GameDestroy'' (nameOf d) (uidOf d)
         then State_Monad.return (Inl ''refuse to delete foreign destroy Job'')
         else do {
           e \<leftarrow> send r (Delete KindJob (meta_Namespace (job_Meta job)) (meta_Name (job_Meta job)) (meta_UID (job_Meta job))
             (Some (meta_ResourceVersion (job_Meta job))));
           State_Monad.return (case e of Some err \<Rightarrow> Inl (api_message err) | None \<Rightarrow> Inr True) }
     | Inl (ApiFailure m) \<Rightarrow> State_Monad.return (Inl m)
     | Inl NotFound \<Rightarrow> do {
         pods \<leftarrow> workerPods r d;
         case pods of
           Inl e \<Rightarrow> State_Monad.return (Inl (api_message e))
         | Inr [] \<Rightarrow> cleanupAuthority r d
         | Inr (_ # _) \<Rightarrow> State_Monad.return (Inr True) } }"

text \<open>\<^verbatim>\<open>pending, err := r.cleanupWorker(...); if err != nil || pending { return ctrl.Result{RequeueAfter: destroyRequeue}, err }\<close>\<close>

definition after_cleanup :: "GameDestroyReconciler \<Rightarrow> GameDestroy \<Rightarrow> Reconciled program \<Rightarrow> Reconciled program" where
  "after_cleanup r d k = do {
     pending \<leftarrow> cleanupWorker r d;
     case pending of
       Inl e \<Rightarrow> State_Monad.return (requeue_after destroyRequeue (Some e))
     | Inr p \<Rightarrow> if p then State_Monad.return (requeue_after destroyRequeue None) else k }"

section \<open>verify\<close>

definition resultMismatch :: "GameDestroy \<Rightarrow> Input \<Rightarrow> Result \<Rightarrow> bool" where
  "resultMismatch d i result \<longleftrightarrow>
     res_Version result \<noteq> ResultVersion \<or> res_Stage result \<noteq> StagePreflight \<or> res_ArtifactID result \<noteq> art_ID (in_Artifact i) \<or>
     res_ManifestDigest result \<noteq> art_ManifestDigest (in_Artifact i) \<or> res_PathCount result \<noteq> int32_of_len (claimsOf d) \<or>
     time_IsZero (res_VerifiedAt result)"

text \<open>The repository was verified: the world must still be cold before deletion begins.\<close>

definition verifyDone :: "GameDestroyReconciler \<Rightarrow> GameDestroy \<Rightarrow> Reconciled program" where
  "verifyDone r d = do {
     leased \<leftarrow> requireDataLease r d;
     case leased of
       Some e \<Rightarrow> fail r d ''OperationConflict'' e
     | None \<Rightarrow> do {
         resolved \<leftarrow> resolve r d False;
         case resolved of
           Inl e \<Rightarrow> fail r d ''ColdContinuityLost'' e
         | Inr _ \<Rightarrow> after_cleanup r d (finish_status r d DestroyPhaseDeleting ''RepositoryVerified''
             ''exact repository artifact reverified while the world remained cold'') } }"

text \<open>The worker finished: its result must match the backup.\<close>

definition verifyResult :: "GameDestroyReconciler \<Rightarrow> GameDestroy \<Rightarrow> Input \<Rightarrow> Pod option \<Rightarrow> Reconciled program" where
  "verifyResult r d i pod =
     (case destroyWorkerResult (gdr_decodeResult r) pod of
        Inl e \<Rightarrow> fail r d ''WorkerResultInvalid'' ''repository verification result is unavailable or invalid''
      | Inr result \<Rightarrow> do {
          late \<leftarrow> (if resultMismatch d i result then State_Monad.return True
                   else do { t \<leftarrow> now r; State_Monad.return (res_VerifiedAt result > t + minute) });
          if late then fail r d ''WorkerResultInvalid'' ''repository verification did not match exact backup''
          else do {
            t \<leftarrow> now r;
            e \<leftarrow> update_status r d (\<lambda>st. st\<lparr> dst_Verification := Some \<lparr>
              dv_BackupRef = the (ds_BackupRef (gd_Spec d)), dv_RepositorySecretRef = the (ds_RepositorySecretRef (gd_Spec d)),
              dv_ArtifactID = res_ArtifactID result, dv_ManifestDigest = res_ManifestDigest result, dv_PathCount = res_PathCount result,
              dv_VerifiedAt = res_VerifiedAt result, dv_ColdAt = t \<rparr> \<rparr>);
            State_Monad.return (finished e) } })"

text \<open>The armed Job: unsuspend it, authorize its one Pod, read its result.\<close>

definition verifyArmed :: "GameDestroyReconciler \<Rightarrow> GameDestroy \<Rightarrow> Input \<Rightarrow> Job \<Rightarrow> Reconciled program" where
  "verifyArmed r d i job =
     (if jobFailed job then fail r d ''RepositoryVerificationFailed'' ''repository preflight worker failed; no claim was deleted''
      else if js_Suspend (job_Spec job) \<noteq> Some False then do {
        e \<leftarrow> send r (UpdateJob (job\<lparr> job_Spec := (job_Spec job)\<lparr> js_Suspend := Some False \<rparr> \<rparr>));
        State_Monad.return (requeue (map_option api_message e)) }
      else do {
        authorized \<leftarrow> authorizeWorkerPod r d job;
        case authorized of
          Inl e \<Rightarrow> State_Monad.return (finished (Some e))
        | Inr (state, pod) \<Rightarrow>
            if state = backupPodChanged \<or> state = backupPodOverlap
            then fail r d ''WorkerIdentityChanged'' ''preflight Pod did not match exact gated worker''
            else if state \<noteq> backupPodAuthorized \<or> \<not> jobComplete job then State_Monad.return (requeue_after destroyRequeue None)
            else verifyResult r d i pod })"

definition verifyJob :: "GameDestroyReconciler \<Rightarrow> GameDestroy \<Rightarrow> Input \<Rightarrow> Job \<Rightarrow> Reconciled program" where
  "verifyJob r d i desired = do {
     got \<leftarrow> ask (\<lambda>n. cl_Job r n (meta_Namespace (job_Meta desired)) (meta_Name (job_Meta desired)));
     case got of
       Inl e \<Rightarrow> State_Monad.return (finished (Some (api_message e)))
     | Inr job \<Rightarrow>
         if meta_UID (job_Meta job) = [] then State_Monad.return (requeue_after destroyRequeue None)
         else do {
           armed \<leftarrow> destroyJobArmed r d job;
           case armed of
             Inl e \<Rightarrow> State_Monad.return (finished (Some e))
           | Inr True \<Rightarrow> verifyArmed r d i job
           | Inr False \<Rightarrow>
               if js_Suspend (job_Spec job) \<noteq> Some True
               then fail r d ''WorkerActivatedEarly'' ''preflight Job became active before exact authorization''
               else do {
                 e \<leftarrow> armDestroyJob r d job;
                 State_Monad.return (case e of Some err \<Rightarrow> finished (Some err) | None \<Rightarrow> requeue None) } } }"

definition verifyWorker :: "GameDestroyReconciler \<Rightarrow> GameDestroy \<Rightarrow> destroySubject \<Rightarrow> Reconciled program" where
  "verifyWorker r d s = do {
     leased \<leftarrow> workerLease r d;
     case leased of
       Some e \<Rightarrow> State_Monad.return (finished (Some e))
     | None \<Rightarrow>
         (case BuildDestroyResources (gdr_Worker r) (gdr_marshalInput r) d (dsub_input s) (gdr_WorkerImage r)
                 (def_RuntimeIdentity (dsub_definition s)) of
            Inl e \<Rightarrow> fail r d ''WorkerInvalid'' ''bounded repository worker configuration is invalid''
          | Inr resources \<Rightarrow> do {
              (changed, err) \<leftarrow> ensureWorkerResources r d resources;
              case err of
                Some e \<Rightarrow> State_Monad.return (finished (Some e))
              | None \<Rightarrow> if changed then State_Monad.return (requeue None) else verifyJob r d (dsub_input s) (dr_Job resources) }) }"

definition verify :: "GameDestroyReconciler \<Rightarrow> GameDestroy \<Rightarrow> Reconciled program" where
  "verify r d =
     (if dst_Verification (gd_Status d) \<noteq> None then verifyDone r d
      else do {
        ok \<leftarrow> confirmed r d;
        if \<not> ok then fail r d ''ConfirmationExpired'' ''confirmation expired before repository verification completed''
        else do {
          leased \<leftarrow> requireDataLease r d;
          case leased of
            Some e \<Rightarrow> fail r d ''OperationConflict'' e
          | None \<Rightarrow> do {
              resolved \<leftarrow> resolve r d False;
              case resolved of
                Inl e \<Rightarrow> fail r d ''PreflightRejected'' e
              | Inr s \<Rightarrow> verifyWorker r d s } } })"

section \<open>deleteClaims\<close>

definition journalEntry :: "GameDestroy \<Rightarrow> string \<Rightarrow> GameDestroyClaimDeletion option" where
  "journalEntry d path = find (\<lambda>e. cd_Path e = path) (journalOf d)"

definition markDeleted :: "string \<Rightarrow> Time \<Rightarrow> GameDestroyClaimDeletion list \<Rightarrow> GameDestroyClaimDeletion list" where
  "markDeleted path t journal = map (\<lambda>e. if cd_Path e = path then e\<lparr> cd_ObservedDeletedAt := Some t \<rparr> else e) journal"

text \<open>The last gate before the delete request: the lease and the whole resolution again.\<close>

definition deleteClaim :: "GameDestroyReconciler \<Rightarrow> GameDestroy \<Rightarrow> PersistentVolumeClaim \<Rightarrow> Reconciled program" where
  "deleteClaim r d claim = do {
     leased \<leftarrow> requireDataLease r d;
     case leased of
       Some e \<Rightarrow> hold r d ''OperationConflict'' e
     | None \<Rightarrow> do {
         resolved \<leftarrow> resolve r d True;
         case resolved of
           Inl e \<Rightarrow> hold r d ''IdentityMismatch'' e
         | Inr _ \<Rightarrow> do {
             e \<leftarrow> delete_object r KindClaim (pvc_Meta claim);
             State_Monad.return (case e of
                 Some (ApiFailure m) \<Rightarrow> finished (Some (''delete exact journaled PVC failed: '' @ m))
               | _ \<Rightarrow> requeue_after destroyRequeue None) } } }"

text \<open>The loop over the target claims: \<open>None\<close> when every claim was observed deleted.\<close>

fun deleteLoop :: "GameDestroyReconciler \<Rightarrow> GameDestroy \<Rightarrow> RetainedDataClaimReference list \<Rightarrow> Reconciled option program" where
  "deleteLoop r d [] = State_Monad.return None"
| "deleteLoop r d (c # cs) =
     (case journalEntry d (rclaim_Path c) of
        None \<Rightarrow> do {
          t \<leftarrow> now r;
          e \<leftarrow> update_status r d (\<lambda>st. st\<lparr> dst_DeletionJournal := dst_DeletionJournal st @
            [\<lparr> cd_Path = rclaim_Path c, cd_ClaimRef = rclaim_ClaimRef c, cd_RequestedAt = t, cd_ObservedDeletedAt = None \<rparr>] \<rparr>);
          State_Monad.return (Some (requeue e)) }
      | Some entry \<Rightarrow>
          if \<not> sameLocal (cd_ClaimRef entry) (rclaim_ClaimRef c)
          then do { x \<leftarrow> hold r d ''JournalMismatch'' ''deletion journal does not match exact target''; State_Monad.return (Some x) }
          else do {
            got \<leftarrow> ask (\<lambda>n. cl_Claim r n (namespaceOf d) (ref_Name (rclaim_ClaimRef c)));
            case got of
              Inl NotFound \<Rightarrow>
                (if cd_ObservedDeletedAt entry = None then do {
                   t \<leftarrow> now r;
                   e \<leftarrow> update_status r d (\<lambda>st. st\<lparr> dst_DeletionJournal := markDeleted (rclaim_Path c) t (dst_DeletionJournal st) \<rparr>);
                   State_Monad.return (Some (requeue e)) }
                 else deleteLoop r d cs)
            | Inl (ApiFailure m) \<Rightarrow> State_Monad.return (Some (finished (Some m)))
            | Inr claim \<Rightarrow>
                if meta_UID (pvc_Meta claim) \<noteq> ref_UID (rclaim_ClaimRef c) \<or> cd_ObservedDeletedAt entry \<noteq> None
                then do { x \<leftarrow> hold r d ''NameReused'' ''target PVC name was reused or deletion evidence contradicted''; State_Monad.return (Some x) }
                else if terminating (pvc_Meta claim) then State_Monad.return (Some (requeue_after destroyRequeue None))
                else do { x \<leftarrow> deleteClaim r d claim; State_Monad.return (Some x) } })"

definition deleteTargets :: "GameDestroyReconciler \<Rightarrow> GameDestroy \<Rightarrow> Reconciled program" where
  "deleteTargets r d = do {
     leased \<leftarrow> requireDataLease r d;
     case leased of
       Some e \<Rightarrow> hold r d ''OperationConflict'' e
     | None \<Rightarrow> do {
         resolved \<leftarrow> resolve r d True;
         case resolved of
           Inl e \<Rightarrow> hold r d ''IdentityMismatch'' e
         | Inr _ \<Rightarrow> do {
             x \<leftarrow> deleteLoop r d (claimsOf d);
             case x of
               Some result \<Rightarrow> State_Monad.return result
             | None \<Rightarrow> do {
                 resolved \<leftarrow> resolve r d True;
                 case resolved of
                   Inl e \<Rightarrow> hold r d ''FinalAbsenceFailed'' e
                 | Inr _ \<Rightarrow> finish_status r d DestroyPhaseSucceeded ''Destroyed''
                     ''all exact target PVC names were observed absent; backing PV reclaim policy may retain bytes'' } } } }"

definition deleteClaims :: "GameDestroyReconciler \<Rightarrow> GameDestroy \<Rightarrow> Reconciled program" where
  "deleteClaims r d = do {
     ok \<leftarrow> (if journalOf d = [] then confirmed r d else State_Monad.return True);
     if \<not> ok then fail r d ''ConfirmationExpired'' ''confirmation expired before PVC deletion began; no claim was deleted''
     else if modeOf d = DestroyModeVerifiedBackup \<and> dst_Verification (gd_Status d) = None
     then fail r d ''VerificationMissing'' ''repository verification is missing''
     else if modeOf d = DestroyModeVerifiedBackup then after_cleanup r d (deleteTargets r d)
     else deleteTargets r d }"

section \<open>Reconcile\<close>

definition removeFinalizer :: "GameDestroyReconciler \<Rightarrow> GameDestroy \<Rightarrow> Reconciled program" where
  "removeFinalizer r d = do {
     e \<leftarrow> send r (UpdateDestroy (d\<lparr> gd_Meta := (gd_Meta d)\<lparr> meta_Finalizers := filter (\<lambda>v. v \<noteq> DestroyFinalizer) (meta_Finalizers (gd_Meta d)) \<rparr> \<rparr>));
     State_Monad.return (finished (map_option api_message e)) }"

definition after_release :: "GameDestroyReconciler \<Rightarrow> GameDestroy \<Rightarrow> Reconciled program \<Rightarrow> Reconciled program" where
  "after_release r d k = after_cleanup r d (do {
     e \<leftarrow> releaseDataLease r d;
     case e of Some err \<Rightarrow> State_Monad.return (finished (Some err)) | None \<Rightarrow> k })"

definition finalize :: "GameDestroyReconciler \<Rightarrow> GameDestroy \<Rightarrow> Reconciled program" where
  "finalize r d = after_release r d (removeFinalizer r d)"

definition addFinalizer :: "GameDestroyReconciler \<Rightarrow> GameDestroy \<Rightarrow> Reconciled program" where
  "addFinalizer r d = do {
     e \<leftarrow> send r (UpdateDestroy (d\<lparr> gd_Meta := (gd_Meta d)\<lparr> meta_Finalizers := meta_Finalizers (gd_Meta d) @ [DestroyFinalizer] \<rparr> \<rparr>));
     State_Monad.return (requeue (map_option api_message e)) }"

definition reconcilePhase :: "GameDestroyReconciler \<Rightarrow> GameDestroy \<Rightarrow> Reconciled program" where
  "reconcilePhase r d =
     (case phaseOf d of
        DestroyPhaseEmpty \<Rightarrow> finish_status r d DestroyPhasePending ''Accepted'' ''exact destroy request accepted; no data has been deleted''
      | DestroyPhasePending \<Rightarrow> preview r d
      | DestroyPhasePreview \<Rightarrow> confirm r d
      | DestroyPhaseVerifying \<Rightarrow> verify r d
      | DestroyPhaseDeleting \<Rightarrow> deleteClaims r d
      | _ \<Rightarrow> State_Monad.return (finished (Some ''unsupported GameDestroy phase'')))"

definition reconcileDestroy :: "GameDestroyReconciler \<Rightarrow> GameDestroy \<Rightarrow> Reconciled program" where
  "reconcileDestroy r d =
     (if DestroyFinalizer \<notin> set (meta_Finalizers (gd_Meta d)) \<and> \<not> terminating (gd_Meta d) then addFinalizer r d
      else if terminating (gd_Meta d) \<and> journalOf d = [] then finalize r d
      else if destroyTerminal (phaseOf d) then
        after_release r d (if terminating (gd_Meta d) then removeFinalizer r d else State_Monad.return (finished None))
      else if ds_CancelRequested (gd_Spec d) \<and> journalOf d = [] then
        after_release r d (finish_status r d DestroyPhaseCancelled ''Cancelled'' ''destroy cancelled before any PVC deletion'')
      else reconcilePhase r d)"

definition Reconcile :: "GameDestroyReconciler \<Rightarrow> string \<Rightarrow> string \<Rightarrow> Reconciled program" where
  "Reconcile r namespace name = do {
     got \<leftarrow> ask (\<lambda>n. cl_GameDestroy r n namespace name);
     case got of
       Inl NotFound \<Rightarrow> State_Monad.return (finished None)
     | Inl (ApiFailure m) \<Rightarrow> State_Monad.return (finished (Some m))
     | Inr d \<Rightarrow> reconcileDestroy r d }"

end
