(* ===== verification/JsonQuote.thy ===== *)
theory JsonQuote
  imports GoLib
begin

text \<open>
  Quoting is unambiguous: a quoted string can be read back from the text it starts, when the string
  is valid UTF-8. So canonical JSON documents are equal only for equal data.
\<close>

section \<open>Sizes of characters\<close>

lemma utf8_size_le: "utf8_size s \<le> length s"
  by (cases s) (auto simp: utf8_size.simps Let_def split: list.splits)

lemma utf8_size_le_4: "utf8_size s \<le> 4"
  by (cases s) (auto simp: utf8_size.simps Let_def split: list.splits)

lemma utf8_size_take:
  assumes "utf8_size s \<noteq> 0"
  shows "utf8_size (take (utf8_size s) s @ r) = utf8_size s"
proof (cases s)
  case Nil
  with assms show ?thesis by (simp add: utf8_size.simps)
next
  case (Cons a s')
  with assms show ?thesis
    by (cases s'; cases "tl s'"; cases "tl (tl s')") (auto simp: utf8_size.simps Let_def split: if_splits)
qed

lemma utf8_size_1: "utf8_size s = 1 \<longleftrightarrow> s \<noteq> [] \<and> (of_char (hd s) :: nat) < 128"
  by (cases s) (auto simp: utf8_size.simps Let_def split: list.splits)

lemma utf8_size_many: "utf8_size s \<ge> 2 \<Longrightarrow> s \<noteq> [] \<and> (of_char (hd s) :: nat) \<ge> 194"
  by (cases s) (auto simp: utf8_size.simps Let_def split: list.splits if_splits)

lemma utf8_Valid_step:
  assumes "utf8_Valid s" "s \<noteq> []"
  shows "utf8_size s \<noteq> 0" "utf8_Valid (drop (utf8_size s) s)"
  using assms by (subst (asm) utf8_Valid.simps; simp split: if_splits)+

section \<open>Escaped bytes\<close>

lemma lower_hex_digit_inj: "m < 16 \<Longrightarrow> n < 16 \<Longrightarrow> lower_hex_digit m = lower_hex_digit n \<Longrightarrow> m = n"
  by (auto simp: lower_hex_digit_def split: if_splits dest!: arg_cong [where f = "of_char :: char \<Rightarrow> nat"])

definition escape_special :: "char \<Rightarrow> bool" where
  "escape_special c \<longleftrightarrow> json_escape_byte c \<noteq> [c]"

lemma escape_special_head: "escape_special c \<Longrightarrow> \<exists>r. json_escape_byte c = CHR 0x5C # r"
  by (auto simp: escape_special_def json_escape_byte_def Let_def split: if_splits)

lemma escape_plain: "\<not> escape_special c \<Longrightarrow> json_escape_byte c = [c] \<and> c \<noteq> CHR 0x22 \<and> c \<noteq> CHR 0x5C"
  by (auto simp: escape_special_def json_escape_byte_def Let_def split: if_splits)

lemma of_char_values:
  "(of_char c :: nat) = 34 \<longleftrightarrow> c = CHR 0x22" "(of_char c :: nat) = 92 \<longleftrightarrow> c = CHR 0x5C"
  "(of_char c :: nat) = 8 \<longleftrightarrow> c = CHR 0x08" "(of_char c :: nat) = 12 \<longleftrightarrow> c = CHR 0x0C"
  "(of_char c :: nat) = 10 \<longleftrightarrow> c = CHR 0x0A" "(of_char c :: nat) = 13 \<longleftrightarrow> c = CHR 0x0D"
  "(of_char c :: nat) = 9 \<longleftrightarrow> c = CHR 0x09"
  using of_char_eq_iff [where 'a = nat, of c "CHR 0x22"] of_char_eq_iff [where 'a = nat, of c "CHR 0x5C"]
    of_char_eq_iff [where 'a = nat, of c "CHR 0x08"] of_char_eq_iff [where 'a = nat, of c "CHR 0x0C"]
    of_char_eq_iff [where 'a = nat, of c "CHR 0x0A"] of_char_eq_iff [where 'a = nat, of c "CHR 0x0D"]
    of_char_eq_iff [where 'a = nat, of c "CHR 0x09"]
  by simp_all

text \<open>The byte that follows the backslash of a two-byte escape.\<close>

definition escape_letter :: "char \<Rightarrow> char" where
  "escape_letter c =
     (if c = CHR 0x08 then CHR ''b'' else if c = CHR 0x0C then CHR ''f'' else if c = CHR 0x0A then CHR ''n''
      else if c = CHR 0x0D then CHR ''r'' else if c = CHR 0x09 then CHR ''t'' else c)"

lemma escape_byte_cases:
  assumes "escape_special c"
  obtains (pair) "json_escape_byte c = [CHR 0x5C, escape_letter c]" "c \<in> set [CHR 0x22, CHR 0x5C, CHR 0x08, CHR 0x0C, CHR 0x0A, CHR 0x0D, CHR 0x09]"
  | (unicode) "json_escape_byte c = [CHR 0x5C, CHR ''u'', CHR ''0'', CHR ''0'',
        lower_hex_digit (of_char c div 16), lower_hex_digit (of_char c mod 16)]"
  using assms by (auto simp: escape_special_def json_escape_byte_def Let_def of_char_values escape_letter_def split: if_splits)

lemma escape_byte_inj:
  assumes "json_escape_byte a @ x = json_escape_byte b @ y"
  shows "a = b \<and> x = y"
proof (cases "escape_special a \<longleftrightarrow> escape_special b")
  case False
  then show ?thesis
    using assms escape_special_head [of a] escape_special_head [of b] escape_plain [of a] escape_plain [of b] by auto
next
  case True
  show ?thesis
  proof (cases "escape_special a")
    case plain: False
    with True show ?thesis using assms escape_plain [of a] escape_plain [of b] by auto
  next
    case special: True
    with True have "escape_special b" by simp
    from special show ?thesis
    proof (cases a rule: escape_byte_cases)
      case a: pair
      from \<open>escape_special b\<close> show ?thesis
      proof (cases b rule: escape_byte_cases)
        case b: pair
        then show ?thesis using assms a by (auto simp: escape_letter_def)
      next
        case unicode
        then show ?thesis using assms a by (auto simp: escape_letter_def)
      qed
    next
      case a: unicode
      from \<open>escape_special b\<close> show ?thesis
      proof (cases b rule: escape_byte_cases)
        case pair
        then show ?thesis using assms a by (auto simp: escape_letter_def)
      next
        case b: unicode
        have lt: "(of_char c :: nat) div 16 < 16" for c :: char
          by (rule less_mult_imp_div_less) (simp add: nat_of_char_less_256 [simplified])
        from assms a b have "(of_char a :: nat) div 16 = of_char b div 16" "(of_char a :: nat) mod 16 = of_char b mod 16" "x = y"
          by (auto dest!: lower_hex_digit_inj [OF lt lt] lower_hex_digit_inj [OF mod_less_divisor mod_less_divisor, rotated -1])
        then have "(of_char a :: nat) = of_char b" by (metis div_mult_mod_eq)
        with \<open>x = y\<close> show ?thesis by simp
      qed
    qed
  qed
qed

section \<open>Tokens\<close>

text \<open>What one character of the input becomes, and what follows it.\<close>

definition tok :: "string \<Rightarrow> string" where
  "tok s = (let n = utf8_size s in
     if n = 0 then [CHR 0x5C] @ ''ufffd''
     else if n = 1 then json_escape_byte (hd s)
     else if take n s = [CHR 0xE2, CHR 0x80, CHR 0xA8] then [CHR 0x5C] @ ''u2028''
     else if take n s = [CHR 0xE2, CHR 0x80, CHR 0xA9] then [CHR 0x5C] @ ''u2029''
     else take n s)"

lemma json_escape_tok: "s \<noteq> [] \<Longrightarrow> json_escape s = tok s @ json_escape (drop (max 1 (utf8_size s)) s)"
  by (subst json_escape.simps) (simp add: tok_def Let_def max_def)

lemma tok_one: "utf8_size s = 1 \<Longrightarrow> tok s = json_escape_byte (hd s)"
  by (simp add: tok_def)

lemma tok_many:
  assumes "utf8_size s \<ge> 2"
  obtains (raw) "tok s = take (utf8_size s) s" "tok s \<noteq> []" "(of_char (hd (tok s)) :: nat) \<ge> 194"
  | (sep1) "tok s = [CHR 0x5C] @ ''u2028''" "take (utf8_size s) s = [CHR 0xE2, CHR 0x80, CHR 0xA8]"
  | (sep2) "tok s = [CHR 0x5C] @ ''u2029''" "take (utf8_size s) s = [CHR 0xE2, CHR 0x80, CHR 0xA9]"
proof (cases "tok s = take (utf8_size s) s")
  case True
  have "s \<noteq> []" "(of_char (hd s) :: nat) \<ge> 194" using utf8_size_many [OF assms] by auto
  with True assms raw show thesis by (cases s) auto
next
  case False
  with assms sep1 sep2 show thesis by (auto simp: tok_def Let_def split: if_splits)
qed

lemma escape_byte_unicode_0:
  assumes "json_escape_byte c @ x = CHR 0x5C # CHR ''u'' # d # y"
  shows "d = CHR ''0''"
proof -
  have "escape_special c" using assms escape_plain [of c] by fastforce
  then show ?thesis
    by (cases c rule: escape_byte_cases) (use assms in \<open>auto simp: escape_letter_def\<close>)
qed

text \<open>Two tokens that start the same text stand for the same character, if one is a character.\<close>

lemma tok_inj:
  assumes "s \<noteq> []" "t \<noteq> []" "utf8_size s \<noteq> 0" "tok s @ x = tok t @ y"
  shows "utf8_size t \<noteq> 0 \<and> take (utf8_size s) s = take (utf8_size t) t \<and> x = y"
proof -
  have one: "take 1 u = [hd u]" if "u \<noteq> []" for u :: string using that by (cases u) auto
  have byte_head: "(of_char (hd (json_escape_byte c @ z)) :: nat) < 194" if "(of_char c :: nat) < 128" for c z
    using that escape_special_head [of c] escape_plain [of c] by (cases "escape_special c") auto
  have head: "hd (tok s @ x) = hd (tok t @ y)" using assms(4) by simp
  consider (11) "utf8_size s = 1" "utf8_size t = 1" | (10) "utf8_size s = 1" "utf8_size t = 0"
    | (12) "utf8_size s = 1" "utf8_size t \<ge> 2" | (20) "utf8_size s \<ge> 2" "utf8_size t = 0"
    | (21) "utf8_size s \<ge> 2" "utf8_size t = 1" | (22) "utf8_size s \<ge> 2" "utf8_size t \<ge> 2"
    using assms(3) by linarith
  then show ?thesis
  proof cases
    case 11
    then have "hd s = hd t \<and> x = y" using assms(4) escape_byte_inj by (simp add: tok_def)
    with 11 one assms(1,2) show ?thesis by simp
  next
    case 10
    then have "json_escape_byte (hd s) @ x = CHR 0x5C # CHR ''u'' # CHR ''f'' # ''ffd'' @ y"
      using assms(4) by (simp add: tok_def)
    from escape_byte_unicode_0 [OF this] show ?thesis by simp
  next
    case 12
    then have small: "(of_char (hd (tok s @ x)) :: nat) < 194"
      using byte_head [of "hd s" x] utf8_size_1 [THEN iffD1, OF 12(1)] by (simp add: tok_one)
    from 12(2) show ?thesis
    proof (cases rule: tok_many)
      case raw
      with small head show ?thesis by simp
    qed (use 12 assms(4) escape_byte_unicode_0 in \<open>fastforce simp: tok_one [of s]\<close>)+
  next
    case 20
    then have t: "tok t = [CHR 0x5C] @ ''ufffd''" by (simp add: tok_def)
    from 20(1) show ?thesis
    proof (cases rule: tok_many)
      case raw
      with head t show ?thesis by (simp add: hd_append)
    qed (use assms(4) t in auto)
  next
    case 21
    then have small: "(of_char (hd (tok t @ y)) :: nat) < 194"
      using byte_head [of "hd t" y] utf8_size_1 [THEN iffD1, OF 21(2)] by (simp add: tok_one)
    from 21(1) show ?thesis
    proof (cases rule: tok_many)
      case raw
      with small head show ?thesis by simp
    qed (use 21 assms(4) [symmetric] escape_byte_unicode_0 in \<open>fastforce simp: tok_one [of t]\<close>)+
  next
    case 22
    from 22(1) show ?thesis
    proof (cases rule: tok_many)
      case s: raw
      from 22(2) show ?thesis
      proof (cases rule: tok_many)
        case t: raw
        have "utf8_size (tok s @ x) = utf8_size s" "utf8_size (tok t @ y) = utf8_size t"
          using s t 22 utf8_size_take by auto
        with assms(4) s t show ?thesis using utf8_size_le [of s] utf8_size_le [of t] 22 by auto
      qed (use s head in auto)
    next
      case s: sep1
      from 22(2) show ?thesis
      proof (cases rule: tok_many)
        case raw
        have "hd (tok t) = CHR 0x5C" using head raw(2) unfolding s(1) by simp
        then have "(of_char (hd (tok t)) :: nat) = 92" by simp
        with raw(3) show ?thesis by linarith
      qed (use s 22(2) assms(4) in auto)
    next
      case s: sep2
      from 22(2) show ?thesis
      proof (cases rule: tok_many)
        case raw
        have "hd (tok t) = CHR 0x5C" using head raw(2) unfolding s(1) by simp
        then have "(of_char (hd (tok t)) :: nat) = 92" by simp
        with raw(3) show ?thesis by linarith
      qed (use s 22(2) assms(4) in auto)
    qed
  qed
qed

lemma tok_head: "s \<noteq> [] \<Longrightarrow> tok s \<noteq> [] \<and> hd (tok s) \<noteq> CHR 0x22"
proof -
  assume s: "s \<noteq> []"
  consider "utf8_size s = 0" | "utf8_size s = 1" | "utf8_size s \<ge> 2" by linarith
  then show ?thesis
  proof cases
    case 2
    then show ?thesis
      using escape_special_head [of "hd s"] escape_plain [of "hd s"] by (cases "escape_special (hd s)") (auto simp: tok_def)
  next
    case 3
    then show ?thesis by (cases rule: tok_many) auto
  qed (simp add: tok_def)
qed

section \<open>Strings\<close>

lemma json_escape_inj:
  "utf8_Valid s \<Longrightarrow> json_escape s @ CHR 0x22 # r = json_escape t @ CHR 0x22 # r' \<Longrightarrow> s = t \<and> r = r'"
proof (induction "length s" arbitrary: s t rule: less_induct)
  case less
  show ?case
  proof (cases "s = []")
    case True
    show ?thesis
    proof (cases "t = []")
      case False
      then show ?thesis
        using less.prems(2) True tok_head [OF False] by (cases "tok t") (auto simp: json_escape_tok json_escape.simps [of "[]"])
    qed (use less.prems(2) True in \<open>simp add: json_escape.simps [of "[]"]\<close>)
  next
    case s: False
    show ?thesis
    proof (cases "t = []")
      case True
      then show ?thesis
        using less.prems(2) tok_head [OF s] by (cases "tok s") (auto simp: json_escape_tok [OF s] json_escape.simps [of "[]"])
    next
      case t: False
      note valid = utf8_Valid_step [OF less.prems(1) s]
      have "utf8_size t \<noteq> 0 \<and> take (utf8_size s) s = take (utf8_size t) t \<and>
          json_escape (drop (max 1 (utf8_size s)) s) @ CHR 0x22 # r = json_escape (drop (max 1 (utf8_size t)) t) @ CHR 0x22 # r'"
        using less.prems(2) by (intro tok_inj [OF s t valid(1)]) (simp add: json_escape_tok [OF s] json_escape_tok [OF t])
      then have eq: "take (utf8_size s) s = take (utf8_size t) t" "utf8_size t \<noteq> 0"
          "json_escape (drop (utf8_size s) s) @ CHR 0x22 # r = json_escape (drop (utf8_size t) t) @ CHR 0x22 # r'"
        using valid(1) by (auto simp: max_def)
      have "length (drop (utf8_size s) s) < length s" using s valid(1) by simp
      from less.hyps [OF this valid(2) eq(3)] eq(1) show ?thesis by (metis append_take_drop_id)
    qed
  qed
qed

lemma json_quote_inj: "utf8_Valid s \<Longrightarrow> json_quote s @ r = json_quote t @ r' \<Longrightarrow> s = t \<and> r = r'"
  using json_escape_inj [of s r t r'] by (simp add: json_quote_def)

end
