(* ===== verification/JsonDecoder.thy ===== *)
theory JsonDecoder
  imports JsonQuote
begin

text \<open>
  The token stream of \<^verbatim>\<open>encoding/json\<close>: \<^verbatim>\<open>json.Decoder\<close> with \<^verbatim>\<open>UseNumber\<close>, its methods \<^verbatim>\<open>Token\<close> and \<^verbatim>\<open>More\<close>, and
  \<^verbatim>\<open>json.Marshal\<close> of the values that it builds. A decoder is the rest of its input with the position in
  the enclosing arrays and objects. Numbers are kept as their literals.
\<close>

section \<open>Strings\<close>

definition json_space :: "char \<Rightarrow> bool" where
  "json_space c \<longleftrightarrow> c \<in> set [CHR '' '', CHR 0x09, CHR 0x0D, CHR 0x0A]"

definition hex_value :: "char \<Rightarrow> nat option" where
  "hex_value c = (let x = of_char c :: nat in
     if is_digit c then Some (x - 48)
     else if 97 \<le> x \<and> x \<le> 102 then Some (x - 87)
     else if 65 \<le> x \<and> x \<le> 70 then Some (x - 55)
     else None)"

text \<open>\<^verbatim>\<open>utf8.EncodeRune\<close>; surrogates and values beyond \<^verbatim>\<open>U+10FFFF\<close> become the replacement character.\<close>

definition EncodeRune :: "nat \<Rightarrow> string" where
  "EncodeRune r =
     (if r < 128 then [char_of r]
      else if r < 2048 then [char_of (192 + r div 64), char_of (128 + r mod 64)]
      else if 55296 \<le> r \<and> r < 57344 \<or> 1114112 \<le> r then RuneError
      else if r < 65536 then [char_of (224 + r div 4096), char_of (128 + r div 64 mod 64), char_of (128 + r mod 64)]
      else [char_of (240 + r div 262144), char_of (128 + r div 4096 mod 64), char_of (128 + r div 64 mod 64), char_of (128 + r mod 64)])"

text \<open>\<^verbatim>\<open>getu4\<close>, on the text behind the backslash and the letter u.\<close>

definition getu4 :: "string \<Rightarrow> nat option" where
  "getu4 s = (case s of
       p # q # u # v # _ \<Rightarrow> (case (hex_value p, hex_value q, hex_value u, hex_value v) of
           (Some a, Some b, Some c, Some d) \<Rightarrow> Some (a * 4096 + b * 256 + c * 16 + d)
         | _ \<Rightarrow> None)
     | _ \<Rightarrow> None)"

definition surrogate :: "nat \<Rightarrow> bool" where
  "surrogate r \<longleftrightarrow> 55296 \<le> r \<and> r < 57344"

text \<open>\<^verbatim>\<open>utf16.DecodeRune\<close> of a high and a low surrogate; \<open>None\<close> is the replacement character.\<close>

definition DecodePair :: "nat \<Rightarrow> nat \<Rightarrow> nat option" where
  "DecodePair high low =
     (if 55296 \<le> high \<and> high < 56320 \<and> 56320 \<le> low \<and> low < 57344
      then Some ((high - 55296) * 1024 + (low - 56320) + 65536) else None)"

text \<open>The bytes that an escape stands for, and what follows it; the argument starts behind the backslash.\<close>

definition read_unicode :: "string \<Rightarrow> (string \<times> string) option" where
  "read_unicode s = (case getu4 s of
       None \<Rightarrow> None
     | Some r \<Rightarrow>
         if surrogate r then
           (case (if HasPrefix (drop 4 s) [CHR 0x5C, CHR ''u''] then getu4 (drop 6 s) else None) of
              None \<Rightarrow> Some (RuneError, drop 4 s)
            | Some low \<Rightarrow> (case DecodePair r low of
                  None \<Rightarrow> Some (RuneError, drop 4 s)
                | Some x \<Rightarrow> Some (EncodeRune x, drop 10 s)))
         else Some (EncodeRune r, drop 4 s))"

definition read_escape :: "string \<Rightarrow> (string \<times> string) option" where
  "read_escape s = (case s of
       [] \<Rightarrow> None
     | c # r \<Rightarrow>
         if c \<in> set [CHR 0x22, CHR 0x5C, CHR ''/''] then Some ([c], r)
         else if c = CHR ''b'' then Some ([CHR 0x08], r)
         else if c = CHR ''f'' then Some ([CHR 0x0C], r)
         else if c = CHR ''n'' then Some ([CHR 0x0A], r)
         else if c = CHR ''r'' then Some ([CHR 0x0D], r)
         else if c = CHR ''t'' then Some ([CHR 0x09], r)
         else if c = CHR ''u'' then read_unicode r
         else None)"

lemma read_unicode_shorter: "read_unicode s = Some (b, r) \<Longrightarrow> length r \<le> length s"
  by (auto simp: read_unicode_def split: option.splits if_splits)

lemma read_escape_shorter: "read_escape s = Some (b, r) \<Longrightarrow> length r \<le> length s"
  by (auto simp: read_escape_def dest: read_unicode_shorter split: list.splits if_splits)

definition prepend :: "string \<Rightarrow> (string \<times> string) option \<Rightarrow> (string \<times> string) option" where
  "prepend b x = map_option (\<lambda>(s, r). (b @ s, r)) x"

text \<open>The text of a string literal behind its opening quote.\<close>

function read_string :: "string \<Rightarrow> (string \<times> string) option" where
  "read_string s = (case s of
       [] \<Rightarrow> None
     | c # r \<Rightarrow>
         if c = CHR 0x22 then Some ([], r)
         else if c = CHR 0x5C then (case read_escape r of None \<Rightarrow> None | Some (b, r') \<Rightarrow> prepend b (read_string r'))
         else if (of_char c :: nat) < 32 then None
         else if utf8_size s = 0 then prepend RuneError (read_string r)
         else prepend (take (utf8_size s) s) (read_string (drop (utf8_size s) s)))"
  by pat_completeness auto
termination
  by (relation "measure length") (auto dest: read_escape_shorter)

declare read_string.simps [simp del]

section \<open>Numbers and literals\<close>

definition read_digits :: "string \<Rightarrow> (string \<times> string) option" where
  "read_digits s = (let d = takeWhile is_digit s in if d = [] then None else Some (d, dropWhile is_digit s))"

definition read_whole :: "string \<Rightarrow> (string \<times> string) option" where
  "read_whole s = (case s of
       CHR ''0'' # r \<Rightarrow> Some (''0'', r)
     | _ \<Rightarrow> read_digits s)"

definition read_fraction :: "string \<Rightarrow> (string \<times> string) option" where
  "read_fraction s = (case s of
       CHR ''.'' # r \<Rightarrow> prepend ''.'' (read_digits r)
     | _ \<Rightarrow> Some ([], s))"

definition read_exponent :: "string \<Rightarrow> (string \<times> string) option" where
  "read_exponent s = (case s of
       [] \<Rightarrow> Some ([], s)
     | c # r \<Rightarrow>
         if c = CHR ''e'' \<or> c = CHR ''E'' then
           (case r of
              [] \<Rightarrow> None
            | x # r' \<Rightarrow> if x = CHR ''+'' \<or> x = CHR ''-'' then prepend [c, x] (read_digits r') else prepend [c] (read_digits r))
         else Some ([], s))"

text \<open>The longest number literal at the start of a text.\<close>

definition read_number :: "string \<Rightarrow> (string \<times> string) option" where
  "read_number s =
     (let (sign, r) = (if HasPrefix s ''-'' then (''-'', drop 1 s) else ([], s)) in
      prepend sign (case read_whole r of None \<Rightarrow> None | Some (w, r1) \<Rightarrow>
        (case read_fraction r1 of None \<Rightarrow> None | Some (f, r2) \<Rightarrow>
          (case read_exponent r2 of None \<Rightarrow> None | Some (e, r3) \<Rightarrow> Some (w @ f @ e, r3)))))"

text \<open>\<^verbatim>\<open>isValidNumber\<close>\<close>

definition json_number :: "string \<Rightarrow> bool" where
  "json_number s \<longleftrightarrow> read_number s = Some (s, [])"

section \<open>The token stream\<close>

datatype tokenState =
    tokenTopValue
  | tokenArrayStart
  | tokenArrayValue
  | tokenArrayComma
  | tokenObjectStart
  | tokenObjectKey
  | tokenObjectColon
  | tokenObjectValue
  | tokenObjectComma

datatype token = Delim char | TokenString string | TokenNumber string | TokenBool bool | TokenNull

datatype tokenError = EOF | SyntaxError

record Decoder =
  dec_input :: string
  dec_state :: tokenState
  dec_stack :: "tokenState list"

definition NewDecoder :: "bytes \<Rightarrow> Decoder" where
  "NewDecoder input = \<lparr> dec_input = input, dec_state = tokenTopValue, dec_stack = [] \<rparr>"

definition tokenValueAllowed :: "tokenState \<Rightarrow> bool" where
  "tokenValueAllowed s \<longleftrightarrow> s \<in> set [tokenTopValue, tokenArrayStart, tokenArrayValue, tokenObjectValue]"

definition tokenValueEnd :: "tokenState \<Rightarrow> tokenState" where
  "tokenValueEnd s = (case s of
       tokenArrayStart \<Rightarrow> tokenArrayComma
     | tokenArrayValue \<Rightarrow> tokenArrayComma
     | tokenObjectValue \<Rightarrow> tokenObjectComma
     | _ \<Rightarrow> s)"

text \<open>\<^verbatim>\<open>Decode\<close> of a value that is not an array or object.\<close>

definition read_scalar :: "string \<Rightarrow> (token \<times> string) option" where
  "read_scalar s =
     (if s \<noteq> [] \<and> hd s = CHR 0x22 then map_option (\<lambda>(b, r). (TokenString b, r)) (read_string (tl s))
      else if HasPrefix s ''true'' then Some (TokenBool True, drop 4 s)
      else if HasPrefix s ''false'' then Some (TokenBool False, drop 5 s)
      else if HasPrefix s ''null'' then Some (TokenNull, drop 4 s)
      else map_option (\<lambda>(n, r). (TokenNumber n, r)) (read_number s))"

definition openDelim :: "Decoder \<Rightarrow> char \<Rightarrow> string \<Rightarrow> tokenState \<Rightarrow> tokenError + token \<times> Decoder" where
  "openDelim d c r start =
     (if tokenValueAllowed (dec_state d)
      then Inr (Delim c, \<lparr> dec_input = r, dec_state = start, dec_stack = dec_state d # dec_stack d \<rparr>)
      else Inl SyntaxError)"

definition closeDelim :: "Decoder \<Rightarrow> char \<Rightarrow> string \<Rightarrow> tokenState list \<Rightarrow> tokenError + token \<times> Decoder" where
  "closeDelim d c r opened =
     (if dec_state d \<in> set opened
      then (case dec_stack d of
          [] \<Rightarrow> Inl SyntaxError
        | outer # stack \<Rightarrow> Inr (Delim c, \<lparr> dec_input = r, dec_state = tokenValueEnd outer, dec_stack = stack \<rparr>))
      else Inl SyntaxError)"

definition readKey :: "Decoder \<Rightarrow> string \<Rightarrow> tokenError + token \<times> Decoder" where
  "readKey d r = (case read_string r of
       None \<Rightarrow> Inl SyntaxError
     | Some (b, r') \<Rightarrow> Inr (TokenString b, d\<lparr> dec_input := r', dec_state := tokenObjectColon \<rparr>))"

definition readValue :: "Decoder \<Rightarrow> string \<Rightarrow> tokenError + token \<times> Decoder" where
  "readValue d s =
     (if tokenValueAllowed (dec_state d)
      then (case read_scalar s of
          None \<Rightarrow> Inl SyntaxError
        | Some (t, r) \<Rightarrow> Inr (t, d\<lparr> dec_input := r, dec_state := tokenValueEnd (dec_state d) \<rparr>))
      else Inl SyntaxError)"

lemma dropWhile_shorter: "dropWhile P s = c # r \<Longrightarrow> length r < length s"
  using length_dropWhile_le [of P s] by simp

function Token :: "Decoder \<Rightarrow> tokenError + token \<times> Decoder" where
  "Token d = (case dropWhile json_space (dec_input d) of
       [] \<Rightarrow> Inl EOF
     | c # r \<Rightarrow>
         if c = CHR ''['' then openDelim d c r tokenArrayStart
         else if c = CHR '']'' then closeDelim d c r [tokenArrayStart, tokenArrayComma]
         else if c = CHR ''{'' then openDelim d c r tokenObjectStart
         else if c = CHR ''}'' then closeDelim d c r [tokenObjectStart, tokenObjectComma]
         else if c = CHR '':'' then
           (if dec_state d = tokenObjectColon then Token (d\<lparr> dec_input := r, dec_state := tokenObjectValue \<rparr>) else Inl SyntaxError)
         else if c = CHR '','' then
           (if dec_state d = tokenArrayComma then Token (d\<lparr> dec_input := r, dec_state := tokenArrayValue \<rparr>)
            else if dec_state d = tokenObjectComma then Token (d\<lparr> dec_input := r, dec_state := tokenObjectKey \<rparr>)
            else Inl SyntaxError)
         else if c = CHR 0x22 \<and> (dec_state d = tokenObjectStart \<or> dec_state d = tokenObjectKey) then readKey d r
         else readValue d (c # r))"
  by pat_completeness auto
termination
  by (relation "measure (\<lambda>d. length (dec_input d))") (auto dest: dropWhile_shorter)

declare Token.simps [simp del]

definition More :: "Decoder \<Rightarrow> bool" where
  "More d = (case dropWhile json_space (dec_input d) of [] \<Rightarrow> False | c # _ \<Rightarrow> c \<noteq> CHR '']'' \<and> c \<noteq> CHR ''}'')"

section \<open>Encoding\<close>

fun comma_separated :: "string list \<Rightarrow> string" where
  "comma_separated [] = []"
| "comma_separated [x] = x"
| "comma_separated (x # y # xs) = x @ '','' @ comma_separated (y # xs)"

text \<open>\<^verbatim>\<open>json.Marshal\<close> sorts the keys of a map.\<close>

definition field_text :: "string \<times> string \<Rightarrow> string" where
  "field_text f = json_quote (fst f) @ '':'' @ snd f"

fun encode :: "json \<Rightarrow> string" where
  "encode JNull = ''null''"
| "encode (JBool b) = (if b then ''true'' else ''false'')"
| "encode (JNumber n) = n"
| "encode (JString s) = json_quote s"
| "encode (JArray xs) = ''['' @ comma_separated (map encode xs) @ '']''"
| "encode (JObject fs) = ''{'' @ comma_separated (map field_text (sort_key fst (map (\<lambda>(k, v). (k, encode v)) fs))) @ ''}''"

text \<open>Encoding a number fails unless it is a number literal.\<close>

fun numbers_valid :: "json \<Rightarrow> bool" where
  "numbers_valid (JNumber n) = json_number n"
| "numbers_valid (JArray xs) = list_all numbers_valid xs"
| "numbers_valid (JObject fs) = list_all (\<lambda>(k, v). numbers_valid v) fs"
| "numbers_valid _ = True"

definition json_Marshal :: "json \<Rightarrow> bytes option" where
  "json_Marshal v = (if numbers_valid v then Some (encode v) else None)"

end
