(* ===== verification/CanonicalJson.thy ===== *)
theory CanonicalJson
  imports JsonDecoder "HOL-Library.Monad_Syntax"
begin

text \<open>
  \<^verbatim>\<open>internal/canonicaljson/json.go\<close>: bounded, exact canonical JSON. The budget that the code shares by a
  pointer is passed along; \<open>None\<close> stands for \<^verbatim>\<open>ErrInvalid\<close>, the only error of the package.
\<close>

section \<open>Standard library\<close>

text \<open>
  \<^verbatim>\<open>strings.ToLower\<close> on the text of a number literal, which is ASCII; \<^verbatim>\<open>strconv.Atoi\<close> with an optional sign
  and the range of a 64-bit integer; \<^verbatim>\<open>strconv.Itoa\<close>; \<^verbatim>\<open>strings.TrimLeft\<close> and \<^verbatim>\<open>strings.TrimRight\<close> of zeros.
\<close>

definition ToLower :: "string \<Rightarrow> string" where
  "ToLower s = map (\<lambda>c. if is_upper c then char_of ((of_char c :: nat) + 32) else c) s"

definition Atoi :: "string \<Rightarrow> int option" where
  "Atoi s =
     (let (sign, digits) = (if HasPrefix s ''-'' then (-1, drop 1 s) else if HasPrefix s ''+'' then (1, drop 1 s) else (1, s));
          n = sign * int (digits_value 0 digits) in
      if digits \<noteq> [] \<and> list_all is_digit digits \<and> - (2 ^ 63) \<le> n \<and> n < 2 ^ 63 then Some n else None)"

definition Itoa :: "int \<Rightarrow> string" where
  "Itoa n = (if n < 0 then ''-'' else []) @ nat_decimal (nat \<bar>n\<bar>)"

definition TrimLeftZeros :: "string \<Rightarrow> string" where
  "TrimLeftZeros s = dropWhile (\<lambda>c. c = CHR ''0'') s"

definition TrimRightZeros :: "string \<Rightarrow> string" where
  "TrimRightZeros s = rev (dropWhile (\<lambda>c. c = CHR ''0'') (rev s))"

section \<open>Numbers\<close>

definition exponentOf :: "string \<Rightarrow> bool \<Rightarrow> int option" where
  "exponentOf exponentText hasExponent =
     (if \<not> hasExponent then Some 0
      else (case Atoi exponentText of
          None \<Rightarrow> None
        | Some parsed \<Rightarrow> if parsed < -4096 \<or> 4096 < parsed then None else Some parsed))"

definition canonicalNumber :: "string \<Rightarrow> string option" where
  "canonicalNumber number =
     (if 128 < length number then None
      else
        let negative = HasPrefix number ''-'';
            unsigned = (if negative then drop 1 number else number);
            (mantissa, exponentText, hasExponent) = Cut (ToLower unsigned) (CHR ''e'') in
        (case exponentOf exponentText hasExponent of
           None \<Rightarrow> None
         | Some parsed \<Rightarrow>
             let (whole, fraction, _) = Cut mantissa (CHR ''.'');
                 coefficient = TrimLeftZeros (whole @ fraction) in
             if coefficient = [] then Some ''0''
             else
               let trimmed = TrimRightZeros coefficient;
                   exponent = parsed - int (length fraction) + int (length coefficient - length trimmed);
                   signed = (if negative then ''-'' else []) @ trimmed in
               Some (if 0 < exponent then signed @ replicate (nat exponent) (CHR ''0'')
                     else if exponent < 0 then signed @ ''e'' @ Itoa exponent
                     else signed)))"

section \<open>Values\<close>

definition MaxBytes :: nat where "MaxBytes = 65536"

definition MaxEvidenceBytes :: nat where "MaxEvidenceBytes = 32 * 1024 * 1024"

definition spend :: "nat \<Rightarrow> nat \<Rightarrow> nat option" where
  "spend budget n = (if budget < n then None else Some (budget - n))"

definition spendString :: "nat \<Rightarrow> string \<Rightarrow> nat option" where
  "spendString budget value = spend budget (length (json_quote value))"

definition spendKey :: "nat \<Rightarrow> string \<Rightarrow> (string \<times> json) list \<Rightarrow> nat option" where
  "spendKey budget name object = do {
     b \<leftarrow> spendString budget name;
     b \<leftarrow> spend b 1;
     if object \<noteq> [] then spend b 1 else Some b }"

text \<open>A scalar token and its price.\<close>

definition decodeScalar :: "token \<Rightarrow> nat \<Rightarrow> (json \<times> nat) option" where
  "decodeScalar token budget = (case token of
       TokenNumber value \<Rightarrow> do { number \<leftarrow> canonicalNumber value; b \<leftarrow> spend budget (length number); Some (JNumber number, b) }
     | TokenString value \<Rightarrow> do { b \<leftarrow> spendString budget value; Some (JString value, b) }
     | TokenBool value \<Rightarrow> do { b \<leftarrow> spend budget (if value then 4 else 5); Some (JBool value, b) }
     | TokenNull \<Rightarrow> do { b \<leftarrow> spend budget 4; Some (JNull, b) }
     | Delim _ \<Rightarrow> None)"

definition closes :: "Decoder \<Rightarrow> char \<Rightarrow> Decoder option" where
  "closes d c = (case Token d of
       Inr (t, d') \<Rightarrow> if t = Delim c then Some d' else None
     | Inl _ \<Rightarrow> None)"

text \<open>The depth grows with every nested value and is bounded; the loops count their rounds down.\<close>

definition depth_left :: "nat \<Rightarrow> nat" where
  "depth_left depth = (if depth \<le> 32 then 2 * (33 - depth) else 0)"

lemma depth_left_Suc: "depth_left (Suc depth) < max (Suc 0) (depth_left depth - Suc 0)"
  unfolding depth_left_def by auto

lemma depth_left_loop: "\<not> 32 < depth \<Longrightarrow> Suc 0 < depth_left depth \<and> depth_left depth - Suc 0 < depth_left depth"
  unfolding depth_left_def by auto

text \<open>
  The loops over the members of an object and of an array have a bound on their rounds, which
  \<open>decodeValue\<close> sets to the length of the rest of the input: every round reads at least one byte of it.
\<close>

function decodeValue :: "Decoder \<Rightarrow> nat \<Rightarrow> nat \<Rightarrow> (json \<times> Decoder \<times> nat) option"
  and decodeMembers :: "nat \<Rightarrow> (string \<times> json) list \<Rightarrow> Decoder \<Rightarrow> nat \<Rightarrow> nat \<Rightarrow> ((string \<times> json) list \<times> Decoder \<times> nat) option"
  and decodeElements :: "nat \<Rightarrow> json list \<Rightarrow> Decoder \<Rightarrow> nat \<Rightarrow> nat \<Rightarrow> (json list \<times> Decoder \<times> nat) option" where
  "decodeValue decoder depth budget =
     (if 32 < depth then None
      else (case Token decoder of
          Inl _ \<Rightarrow> None
        | Inr (token, d) \<Rightarrow>
            if token = Delim (CHR ''{'') then do {
              b \<leftarrow> spend budget 2;
              (object, d, b) \<leftarrow> decodeMembers (length (dec_input d)) [] d depth b;
              d \<leftarrow> closes d (CHR ''}'');
              Some (JObject object, d, b) }
            else if token = Delim (CHR ''['') then do {
              b \<leftarrow> spend budget 2;
              (array, d, b) \<leftarrow> decodeElements (length (dec_input d)) [] d depth b;
              d \<leftarrow> closes d (CHR '']'');
              Some (JArray array, d, b) }
            else do { (value, b) \<leftarrow> decodeScalar token budget; Some (value, d, b) }))"
| "decodeMembers rounds object decoder depth budget =
     (if \<not> More decoder then Some (object, decoder, budget)
      else (case rounds of
          0 \<Rightarrow> None
        | Suc n \<Rightarrow> (case Token decoder of
              Inr (TokenString name, d) \<Rightarrow>
                if name \<in> fst ` set object then None
                else do {
                  b \<leftarrow> spendKey budget name object;
                  (child, d, b) \<leftarrow> decodeValue d (Suc depth) b;
                  decodeMembers n (object @ [(name, child)]) d depth b }
            | _ \<Rightarrow> None)))"
| "decodeElements rounds array decoder depth budget =
     (if \<not> More decoder then Some (array, decoder, budget)
      else (case rounds of
          0 \<Rightarrow> None
        | Suc n \<Rightarrow> do {
            b \<leftarrow> (if array \<noteq> [] then spend budget 1 else Some budget);
            (child, d, b) \<leftarrow> decodeValue decoder (Suc depth) b;
            decodeElements n (array @ [child]) d depth b }))"
  by pat_completeness auto

termination
  by (relation "measures [\<lambda>x. case x of Inl (_, depth, _) \<Rightarrow> depth_left depth | Inr (Inl (_, _, _, depth, _)) \<Rightarrow> max 1 (depth_left depth - 1)
      | Inr (Inr (_, _, _, depth, _)) \<Rightarrow> max 1 (depth_left depth - 1),
      \<lambda>x. case x of Inl _ \<Rightarrow> 0 | Inr (Inl (rounds, _)) \<Rightarrow> rounds | Inr (Inr (rounds, _)) \<Rightarrow> rounds]")
     (simp_all add: depth_left_Suc depth_left_loop del: max_Suc_Suc)

declare decodeValue.simps [simp del] decodeMembers.simps [simp del] decodeElements.simps [simp del]

definition canonicalBounded :: "bytes \<Rightarrow> nat \<Rightarrow> bytes option" where
  "canonicalBounded input limit =
     (if input = [] \<or> limit < length input \<or> \<not> utf8_Valid input then None
      else (case decodeValue (NewDecoder input) 0 limit of
          None \<Rightarrow> None
        | Some (value, d, _) \<Rightarrow>
            if Token d \<noteq> Inl EOF then None
            else (case json_Marshal value of
                None \<Rightarrow> None
              | Some output \<Rightarrow> if limit < length output then None else Some output)))"

definition CanonicalJSON :: "bytes \<Rightarrow> bytes option" where
  "CanonicalJSON input = canonicalBounded input MaxBytes"

definition CanonicalEvidenceJSON :: "bytes \<Rightarrow> bytes option" where
  "CanonicalEvidenceJSON input = canonicalBounded input MaxEvidenceBytes"

end
