(* ===== verification/Receipts.thy ===== *)
theory Receipts
  imports CanonicalJson Sha256
begin

text \<open>
  Receipts of operations: \<^verbatim>\<open>internal/receiptid/identity.go\<close>, which names a receipt after its idempotency key. The
  package has one error value, \<^verbatim>\<open>ErrInvalid\<close>, so that a failure is \<open>None\<close>.
\<close>

section \<open>receiptid/identity.go\<close>

definition receiptid_namespacePattern :: "string \<Rightarrow> bool" where
  "receiptid_namespacePattern s \<longleftrightarrow> dns_label s"

definition word_char :: "char \<Rightarrow> bool" where
  "word_char c \<longleftrightarrow> is_upper c \<or> is_lower c \<or> is_digit c \<or> c \<in> set ''_.-''"

definition principalPattern :: "string \<Rightarrow> bool" where
  "principalPattern s \<longleftrightarrow> s \<noteq> [] \<and> length s \<le> 128 \<and> list_all word_char s"

definition keyPattern :: "string \<Rightarrow> bool" where
  "keyPattern s \<longleftrightarrow> s \<noteq> [] \<and> length s \<le> 128 \<and> list_all (\<lambda>c. word_char c \<or> c = CHR '':'') s"

definition receiptid_KeyDigest :: "string \<Rightarrow> string \<Rightarrow> string \<Rightarrow> string option" where
  "receiptid_KeyDigest namespace principalID key =
     (if \<not> receiptid_namespacePattern namespace \<or> \<not> principalPattern principalID \<or> \<not> keyPattern key then None
      else Some (''sha256:'' @ hex (sha256 (''arcadectl/idempotency/v1'' @ CHR 0x00 # namespace @ CHR 0x00 # principalID @ CHR 0x00 # key))))"

text \<open>
  \<^verbatim>\<open>base32.StdEncoding\<close> without padding: the bits of the bytes, most significant first, in groups of five, the last
  group filled up with zeros.
\<close>

definition base32_alphabet :: string where
  "base32_alphabet = ''ABCDEFGHIJKLMNOPQRSTUVWXYZ234567''"

definition byte_bits :: "char \<Rightarrow> bool list" where
  "byte_bits c = map (\<lambda>i. bit (of_char c :: nat) (7 - i)) [0..<8]"

definition bits_value :: "bool list \<Rightarrow> nat" where
  "bits_value bs = foldl (\<lambda>n b. 2 * n + (if b then 1 else 0)) 0 bs"

fun base32_groups :: "bool list \<Rightarrow> string" where
  "base32_groups [] = []"
| "base32_groups (b # bs) =
     base32_alphabet ! bits_value (take 5 (b # bs) @ replicate (5 - length (b # bs)) False) # base32_groups (drop 4 bs)"

definition base32_EncodeToString :: "bytes \<Rightarrow> string" where
  "base32_EncodeToString bs = base32_groups (concat (map byte_bits bs))"

definition receiptid_NameForKeyDigest :: "string \<Rightarrow> string option" where
  "receiptid_NameForKeyDigest digest =
     (if \<not> sha256_pattern digest then None
      else (case unhex (TrimPrefix digest ''sha256:'') of
          None \<Rightarrow> None
        | Some decoded \<Rightarrow> Some (''ao-'' @ ToLower (base32_EncodeToString decoded))))"

definition receiptid_ReceiptName :: "string \<Rightarrow> string \<Rightarrow> string \<Rightarrow> string option" where
  "receiptid_ReceiptName namespace principalID key =
     (case receiptid_KeyDigest namespace principalID key of
        None \<Rightarrow> None
      | Some digest \<Rightarrow> receiptid_NameForKeyDigest digest)"

end
