(* ===== verification/ManifestCodec.thy ===== *)
theory ManifestCodec
  imports BackupManifest JsonQuote
begin

text \<open>
  The canonical encoding of a manifest is injective: a manifest whose strings are valid UTF-8 is the
  only one with its bytes. \<open>reads f P\<close> says that a value that satisfies \<open>P\<close> can be read back from a text
  that starts with its encoding and continues with a comma or a closing bracket.
\<close>

definition stop :: "string \<Rightarrow> bool" where
  "stop r \<longleftrightarrow> r \<noteq> [] \<and> (hd r = CHR '','' \<or> hd r = CHR ''}'' \<or> hd r = CHR '']'')"

definition reads :: "('a \<Rightarrow> string) \<Rightarrow> ('a \<Rightarrow> bool) \<Rightarrow> bool" where
  "reads f P \<longleftrightarrow> (\<forall>x y r r'. P x \<longrightarrow> stop r \<longrightarrow> stop r' \<longrightarrow> f x @ r = f y @ r' \<longrightarrow> x = y \<and> r = r')"

lemma stop_simps [simp]:
  "stop (CHR '','' # r)" "stop (CHR ''}'' # r)" "stop (CHR '']'' # r)" "\<not> stop []"
  by (simp_all add: stop_def)

lemma readsD: "reads f P \<Longrightarrow> P x \<Longrightarrow> stop r \<Longrightarrow> stop r' \<Longrightarrow> f x @ r = f y @ r' \<Longrightarrow> x = y \<and> r = r'"
  by (simp add: reads_def)

lemma reads_quote: "reads json_quote utf8_Valid"
  using json_quote_inj by (auto simp: reads_def)

lemma reads_int64: "reads json_int64 (\<lambda>_. True)"
  unfolding reads_def
proof (intro allI impI)
  fix x y :: int64 and r r' :: string
  assume *: "stop r" "stop r'" "json_int64 x @ r = json_int64 y @ r'"
  have not_digit: "\<not> is_digit (hd r)" if "stop r" for r using that by (auto simp: stop_def is_digit_def)
  have take: "takeWhile is_digit (nat_decimal n @ r) = nat_decimal n" if "stop r" for n r
    using nat_decimal_digits [of n] that not_digit [OF that]
    by (cases r) (auto simp: takeWhile_append2 list_all_iff)
  have sign: "nat_decimal n @ r \<noteq> CHR ''-'' # q" for n r q
    using nat_decimal_digits [of n] nat_decimal_not_Nil [of n] by (cases "nat_decimal n") (auto simp: is_digit_def)
  have same: "(sint x < 0) = (sint y < 0)"
    using *(3) sign [of "nat \<bar>sint x\<bar>" r] sign [of "nat \<bar>sint y\<bar>" r', symmetric] by (auto simp: json_int64_def split: if_splits)
  then have eq: "nat_decimal (nat \<bar>sint x\<bar>) @ r = nat_decimal (nat \<bar>sint y\<bar>) @ r'"
    using *(3) by (auto simp: json_int64_def split: if_splits)
  then have "nat_decimal (nat \<bar>sint x\<bar>) = nat_decimal (nat \<bar>sint y\<bar>)" using take *(1,2) by metis
  then have "nat \<bar>sint x\<bar> = nat \<bar>sint y\<bar>" by (rule nat_decimal_inj)
  with same have "sint x = sint y" by linarith
  with eq show "x = y \<and> r = r'" by (simp add: signed_word_eqI)
qed

lemma join_comma_Cons: "join_comma (p # ps) = p @ (if ps = [] then [] else CHR '','' # join_comma ps)"
  by (cases ps) simp_all

text \<open>Objects: fields with the same names and delimited values can be told apart.\<close>

definition delimits :: "string \<Rightarrow> string \<Rightarrow> bool" where
  "delimits v w \<longleftrightarrow> (\<forall>r r'. stop r \<longrightarrow> stop r' \<longrightarrow> v @ r = w @ r' \<longrightarrow> v = w \<and> r = r')"

lemma reads_delimits: "reads f P \<Longrightarrow> P x \<Longrightarrow> delimits (f x) (f y)"
  by (auto simp: delimits_def dest: readsD)

lemma reads_eq: "reads f P \<Longrightarrow> P x \<Longrightarrow> f x = f y \<Longrightarrow> x = y"
  using readsD [of f P x "'',''" "'',''" y] by simp

lemma fields_read:
  assumes "list_all2 delimits vs ws" "length ns = length vs"
    and "join_comma (map2 json_field ns vs) @ CHR ''}'' # r = join_comma (map2 json_field ns ws) @ CHR ''}'' # r'"
  shows "vs = ws \<and> r = r'"
  using assms
proof (induction vs ws arbitrary: ns rule: list_all2_induct)
  case Nil
  then show ?case by simp
next
  case (Cons v vs w ws)
  then obtain n ns' where ns: "ns = n # ns'" by (cases ns) auto
  let ?rest = "\<lambda>us q. (if us = [] then [] else CHR '','' # join_comma (map2 json_field ns' us)) @ CHR ''}'' # q"
  have len: "length ns' = length vs" "length vs = length ws" using Cons ns list_all2_lengthD by auto
  then have nil: "zip ns' vs = [] \<longleftrightarrow> vs = []" "zip ns' ws = [] \<longleftrightarrow> ws = []" by (cases ns'; cases vs; cases ws; simp)+
  have "v @ ?rest vs r = w @ ?rest ws r'"
    using Cons.prems(2) nil by (auto simp: ns join_comma_Cons json_field_def split: if_splits)
  moreover have "stop (?rest vs r)" "stop (?rest ws r')" by simp_all
  ultimately have "v = w \<and> ?rest vs r = ?rest ws r'" using Cons.hyps(1) unfolding delimits_def by blast
  then show ?case using Cons.IH [of ns'] len by (auto split: if_splits)
qed

lemma object_read:
  assumes "list_all2 delimits vs ws" "length ns = length vs"
    and "json_object (map2 json_field ns vs) @ r = json_object (map2 json_field ns ws) @ r'"
  shows "vs = ws \<and> r = r'"
  using fields_read [OF assms(1,2), of r r'] assms(3) by (simp add: json_object_def)

text \<open>Arrays: no item is empty or starts with a closing bracket.\<close>

lemma reads_items:
  assumes f: "reads f P" and start: "\<And>x. f x \<noteq> [] \<and> hd (f x) \<noteq> CHR '']''"
  shows "list_all P xs \<Longrightarrow> join_comma (map f xs) @ CHR '']'' # r = join_comma (map f ys) @ CHR '']'' # r' \<Longrightarrow> xs = ys \<and> r = r'"
proof (induction xs arbitrary: ys)
  case Nil
  then show ?case
  proof (cases ys)
    case (Cons y ys')
    with Nil start [of y] show ?thesis by (cases "f y") (auto simp: join_comma_Cons)
  qed simp
next
  case (Cons x xs)
  then obtain y ys' where ys: "ys = y # ys'" 
    using start [of x] by (cases ys) (auto simp: join_comma_Cons append_eq_Cons_conv)
  let ?rest = "\<lambda>zs q. (if zs = [] then [] else CHR '','' # join_comma (map f zs)) @ CHR '']'' # q"
  have "f x @ ?rest xs r = f y @ ?rest ys' r'" using Cons.prems(2) by (simp add: ys join_comma_Cons)
  then have "x = y \<and> ?rest xs r = ?rest ys' r'"
    using Cons.prems(1) by (intro readsD [OF f]) auto
  then show ?case using Cons.IH [of ys'] Cons.prems(1) by (auto simp: ys split: if_splits)
qed

lemma reads_array:
  assumes "reads f P" "\<And>x. f x \<noteq> [] \<and> hd (f x) \<noteq> CHR '']''"
  shows "reads (\<lambda>xs. json_array (map_option (map f) xs)) (\<lambda>xs. \<exists>ys. xs = Some ys \<and> list_all P ys)"
  unfolding reads_def json_array_def
  by (auto split: option.splits dest!: reads_items [OF assms])

lemma reads_checksum: "reads marshalChecksum (\<lambda>f. utf8_Valid (bfc_Path f) \<and> utf8_Valid (bfc_SHA256 f))"
  unfolding reads_def
proof (intro allI impI)
  fix x y r r'
  assume valid: "utf8_Valid (bfc_Path x) \<and> utf8_Valid (bfc_SHA256 x)" and eq: "marshalChecksum x @ r = marshalChecksum y @ r'"
  let ?v = "\<lambda>x. [json_quote (bfc_Path x), json_int64 (bfc_Size x), json_quote (bfc_SHA256 x)]"
  have "?v x = ?v y \<and> r = r'"
    using valid eq
    by (intro object_read [where ns = "[''path'', ''size'', ''sha256'']"])
       (auto simp: marshalChecksum_def reads_delimits [OF reads_quote] reads_delimits [OF reads_int64])
  then show "x = y \<and> r = r'"
    using valid reads_eq [OF reads_quote] reads_eq [OF reads_int64] by (cases x; cases y) auto
qed

definition path_utf8 :: "BackupManifestPath \<Rightarrow> bool" where
  "path_utf8 p \<longleftrightarrow> utf8_Valid (bmp_Name p) \<and> utf8_Valid (bmp_MountPath p) \<and> utf8_Valid (bmp_ClaimName p) \<and> utf8_Valid (bmp_ClaimUID p) \<and>
     (\<exists>ds. bmp_Directories p = Some ds \<and> list_all utf8_Valid ds) \<and>
     (\<exists>fs. bmp_Files p = Some fs \<and> list_all (\<lambda>f. utf8_Valid (bfc_Path f) \<and> utf8_Valid (bfc_SHA256 f)) fs)"

lemma checksum_head: "marshalChecksum f \<noteq> [] \<and> hd (marshalChecksum f) \<noteq> CHR '']''"
  by (simp add: marshalChecksum_def json_object_def)

lemma path_head: "marshalPath p \<noteq> [] \<and> hd (marshalPath p) \<noteq> CHR '']''"
  by (simp add: marshalPath_def json_object_def)

lemma quote_head: "json_quote s \<noteq> [] \<and> hd (json_quote s) \<noteq> CHR '']''"
  by (simp add: json_quote_def)

lemmas reads_dirs = reads_array [OF reads_quote quote_head]
lemmas reads_files = reads_array [OF reads_checksum checksum_head]

lemma reads_path: "reads marshalPath path_utf8"
  unfolding reads_def
proof (intro allI impI)
  fix x y r r'
  assume valid: "path_utf8 x" and eq: "marshalPath x @ r = marshalPath y @ r'"
  let ?v = "\<lambda>x. [json_quote (bmp_Name x), json_quote (bmp_MountPath x), json_quote (bmp_ClaimName x), json_quote (bmp_ClaimUID x),
    json_array (map_option (map json_quote) (bmp_Directories x)), json_array (map_option (map marshalChecksum) (bmp_Files x))]"
  have "?v x = ?v y \<and> r = r'"
    using valid eq unfolding path_utf8_def
    by (intro object_read [where ns = "[''name'', ''mountPath'', ''claimName'', ''claimUID'', ''directories'', ''files'']"])
       (auto simp: marshalPath_def intro!: reads_delimits [OF reads_quote] reads_delimits [OF reads_dirs] reads_delimits [OF reads_files])
  moreover from this have "bmp_Directories x = bmp_Directories y"
    using valid by (intro reads_eq [OF reads_dirs]) (auto simp: path_utf8_def)
  moreover from calculation have "bmp_Files x = bmp_Files y"
    using valid by (intro reads_eq [OF reads_files]) (auto simp: path_utf8_def)
  ultimately show "x = y \<and> r = r'"
    using valid reads_eq [OF reads_quote] by (cases x; cases y) (auto simp: path_utf8_def)
qed

definition manifest_utf8 :: "BackupManifest \<Rightarrow> bool" where
  "manifest_utf8 m \<longleftrightarrow> utf8_Valid (bm_FormatVersion m) \<and> utf8_Valid (bm_ArtifactID m) \<and> utf8_Valid (bm_ServerUID m) \<and>
     utf8_Valid (bm_Game m) \<and> utf8_Valid (bm_ImageDigest m) \<and> utf8_Valid (bm_SettingsDigest m) \<and> list_all path_utf8 (bm_Paths m)"

lemmas reads_paths = reads_array [OF reads_path path_head]

theorem marshalManifest_inj:
  assumes "manifest_utf8 m" "marshalManifest m = marshalManifest m'"
  shows "m = m'"
proof -
  let ?v = "\<lambda>m. [json_quote (bm_FormatVersion m), json_quote (bm_ArtifactID m), json_quote (bm_ServerUID m), json_quote (bm_Game m),
    json_quote (bm_ImageDigest m), json_quote (bm_SettingsDigest m), json_array (Some (map marshalPath (bm_Paths m)))]"
  have paths: "delimits (json_array (Some (map marshalPath (bm_Paths m)))) (json_array (Some (map marshalPath (bm_Paths m'))))"
    using reads_delimits [OF reads_paths, of "Some (bm_Paths m)" "Some (bm_Paths m')"] assms(1) by (simp add: manifest_utf8_def)
  have "?v m = ?v m' \<and> ([] :: string) = []"
    using assms paths unfolding manifest_utf8_def
    by (intro object_read [where ns = "[''formatVersion'', ''artifactID'', ''serverUID'', ''game'', ''imageDigest'', ''settingsDigest'', ''paths'']"])
       (auto simp: marshalManifest_def intro!: reads_delimits [OF reads_quote])
  moreover from this have "Some (bm_Paths m) = Some (bm_Paths m')"
    using assms(1) by (intro reads_eq [OF reads_paths]) (auto simp: manifest_utf8_def)
  ultimately show ?thesis
    using assms(1) reads_eq [OF reads_quote] by (cases m; cases m') (auto simp: manifest_utf8_def)
qed

end
