(* ===== verification/Operations.thy ===== *)
theory Operations
  imports Receipts ManifestCodec
begin

text \<open>
  \<^verbatim>\<open>internal/operations/contract.go\<close>: the rules that the HTTP boundary and the translator of receipts share. The
  package has one error value, \<^verbatim>\<open>ErrInvalid\<close>: a function that returns a value returns \<open>None\<close> with it. Kubernetes
  name validation and the encoding of requests and server intents, whose quantities and times have encoders outside
  the repository, are the parameters \<open>OperationsEnv\<close>.
\<close>

datatype OperationsError = ErrInvalid

record OperationsEnv =
  ov_IsDNS1123Label :: "string \<Rightarrow> bool"
  ov_IsDNS1123Subdomain :: "string \<Rightarrow> bool"
  ov_MarshalRequest :: "ArcadeOperationAction \<Rightarrow> OperationRequest \<Rightarrow> bytes option"
  ov_MarshalIntent :: "OperationServerIntent \<Rightarrow> bytes option"

definition digestPattern :: "string \<Rightarrow> bool" where
  "digestPattern s \<longleftrightarrow> sha256_pattern s"

definition identityPattern :: "string \<Rightarrow> bool" where
  "identityPattern s \<longleftrightarrow> s \<noteq> [] \<and> length s \<le> 128 \<and> list_all word_char s"

definition hashBytes :: "bytes \<Rightarrow> string" where
  "hashBytes b = ''sha256:'' @ hex (sha256 b)"

definition operations_CanonicalJSON :: "bytes \<Rightarrow> bytes option" where
  "operations_CanonicalJSON input = CanonicalJSON input"

definition KeyDigest :: "string \<Rightarrow> string \<Rightarrow> string \<Rightarrow> string option" where
  "KeyDigest namespace principalID key = receiptid_KeyDigest namespace principalID key"

definition NameForKeyDigest :: "string \<Rightarrow> string option" where
  "NameForKeyDigest digest = receiptid_NameForKeyDigest digest"

definition ReceiptName :: "string \<Rightarrow> string \<Rightarrow> string \<Rightarrow> string option" where
  "ReceiptName namespace principalID key =
     (case KeyDigest namespace principalID key of
        None \<Rightarrow> None
      | Some digest \<Rightarrow> NameForKeyDigest digest)"

definition emptyResolution :: OperationImageResolution where
  "emptyResolution = \<lparr> ires_Repository = [], ires_Tag = [], ires_Digest = [], ires_ResolvedAt = 0, ires_ResolverVersion = [] \<rparr>"

definition unresolvedRequest :: "OperationRequest \<Rightarrow> OperationRequest" where
  "unresolvedRequest r = r\<lparr>
     oreq_Target := None,
     oreq_Image := map_option (\<lambda>i. i\<lparr> img_Resolution := emptyResolution \<rparr>) (oreq_Image r),
     oreq_DestroyCommand := map_option (\<lambda>c. c\<lparr> dcmd_ParentOperationRef := (dcmd_ParentOperationRef c)\<lparr> ref_UID := [] \<rparr> \<rparr>) (oreq_DestroyCommand r) \<rparr>"

definition RequestDigest :: "OperationsEnv \<Rightarrow> ArcadeOperationAction \<Rightarrow> OperationRequest \<Rightarrow> string option" where
  "RequestDigest env action request = map_option hashBytes (ov_MarshalRequest env action (unresolvedRequest request))"

definition childPrefix :: "string \<Rightarrow> string" where
  "childPrefix kind =
     (if kind = ''GameServer'' then ''server'' else if kind = ''GameBackup'' then ''backup''
      else if kind = ''GameRestore'' then ''restore'' else if kind = ''GameDestroy'' then ''destroy'' else [])"

definition ChildName :: "string \<Rightarrow> string \<Rightarrow> string" where
  "ChildName receiptUID kind =
     (if childPrefix kind = [] \<or> receiptUID = [] then []
      else childPrefix kind @ ''-'' @ hex (take 20 (sha256 (''arcadectl/child/v1'' @ CHR 0x00 # receiptUID @ CHR 0x00 # kind))))"

definition ServerIntent :: "GameServerSpec \<Rightarrow> OperationServerIntent option" where
  "ServerIntent spec = (case operations_CanonicalJSON (gss_Settings spec) of
       None \<Rightarrow> None
     | Some settings \<Rightarrow> Some \<lparr> int_Game = gss_Game spec, int_ImageDigest = gss_ImageDigest spec, int_DesiredState = gss_DesiredState spec,
         int_Compute = gss_Compute spec, int_Storage = gss_Storage spec, int_SettingsJSON = settings \<rparr>)"

definition ServerSpec :: "OperationServerIntent \<Rightarrow> GameServerSpec option" where
  "ServerSpec intent = (case operations_CanonicalJSON (int_SettingsJSON intent) of
       None \<Rightarrow> None
     | Some settings \<Rightarrow> Some \<lparr> gss_Game = int_Game intent, gss_ImageDigest = int_ImageDigest intent, gss_DesiredState = int_DesiredState intent,
         gss_Compute = int_Compute intent, gss_Storage = int_Storage intent, gss_Settings = settings \<rparr>)"

text \<open>\<^verbatim>\<open>sort.Slice\<close> by path. The paths of a set of claims are distinct, so that the order is determined.\<close>

definition sortClaims :: "RetainedDataReference \<Rightarrow> RetainedDataReference" where
  "sortClaims d = d\<lparr> rdata_Claims := sort_key rclaim_Path (rdata_Claims d) \<rparr>"

definition SpecDigest :: "OperationsEnv \<Rightarrow> GameServerSpec \<Rightarrow> string option" where
  "SpecDigest env spec = (case ServerIntent spec of
       None \<Rightarrow> None
     | Some intent \<Rightarrow> map_option hashBytes (ov_MarshalIntent env
         (intent\<lparr> int_Storage := (int_Storage intent)\<lparr> stor_Reattach := map_option sortClaims (stor_Reattach (int_Storage intent)) \<rparr> \<rparr>)))"

definition validReference :: "OperationsEnv \<Rightarrow> ExactLocalReference \<Rightarrow> bool" where
  "validReference env r \<longleftrightarrow> ref_Namespace r = None \<and> ov_IsDNS1123Subdomain env (ref_Name r) \<and> identityPattern (ref_UID r)"

definition retainedClaimInvalid :: "OperationsEnv \<Rightarrow> RetainedDataClaimReference list \<Rightarrow> RetainedDataClaimReference \<Rightarrow> unit option" where
  "retainedClaimInvalid env earlier c = guard
     (\<not> ov_IsDNS1123Label env (rclaim_Path c) \<or> \<not> validReference env (rclaim_ClaimRef c) \<or>
      rclaim_Path c \<in> set (map rclaim_Path earlier) \<or>
      ref_Name (rclaim_ClaimRef c) \<in> set (map (\<lambda>b. ref_Name (rclaim_ClaimRef b)) earlier) \<or>
      ref_UID (rclaim_ClaimRef c) \<in> set (map (\<lambda>b. ref_UID (rclaim_ClaimRef b)) earlier)) ()"

text \<open>The encoding of a destroy target by \<^verbatim>\<open>json.Marshal\<close>.\<close>

definition marshalReference :: "ExactLocalReference \<Rightarrow> string" where
  "marshalReference r = json_object
     ((case ref_Namespace r of None \<Rightarrow> [] | Some n \<Rightarrow> [json_field ''namespace'' (json_quote n)]) @
      [json_field ''name'' (json_quote (ref_Name r)), json_field ''uid'' (json_quote (ref_UID r))])"

definition marshalClaim :: "RetainedDataClaimReference \<Rightarrow> string" where
  "marshalClaim c = json_object
     [json_field ''path'' (json_quote (rclaim_Path c)), json_field ''claimRef'' (marshalReference (rclaim_ClaimRef c))]"

definition marshalTarget :: "GameDestroyTarget \<Rightarrow> string" where
  "marshalTarget t = json_object
     [json_field ''gameServer'' (marshalReference (dt_GameServer t)), json_field ''game'' (json_quote (dt_Game t)),
      json_field ''data'' (json_object
        [json_field ''identity'' (json_quote (rdata_Identity (dt_Data t))),
         json_field ''claims'' (json_array (Some (map marshalClaim (rdata_Claims (dt_Data t)))))])]"

definition RetainedSnapshotDigest :: "OperationsEnv \<Rightarrow> GameDestroyTarget \<Rightarrow> string option" where
  "RetainedSnapshotDigest env t =
     (if \<not> validReference env (dt_GameServer t) \<or> dt_Game t = [] \<or> rdata_Claims (dt_Data t) = [] \<or>
         16 < length (rdata_Claims (dt_Data t)) \<or> \<not> ov_IsDNS1123Label env (rdata_Identity (dt_Data t)) then None
      else if errors_along (retainedClaimInvalid env) [] (rdata_Claims (dt_Data t)) \<noteq> None then None
      else Some (hashBytes (marshalTarget (t\<lparr> dt_Data := sortClaims (dt_Data t) \<rparr>))))"

text \<open>
  A precondition is the text \<^verbatim>\<open>absent\<close>, or in quotes \<^verbatim>\<open>server:uid:generation\<close>, \<^verbatim>\<open>operation:uid:generation\<close> or
  \<^verbatim>\<open>retained:uid:digest\<close>.
\<close>

record Precondition =
  pre_Kind :: string
  pre_UID :: string
  pre_SnapshotDigest :: string
  pre_Generation :: int64

definition ParsePrecondition :: "string \<Rightarrow> Precondition option" where
  "ParsePrecondition v =
     (if v = ''absent'' then Some \<lparr> pre_Kind = ''absent'', pre_UID = [], pre_SnapshotDigest = [], pre_Generation = 0 \<rparr>
      else if length v < 3 \<or> 512 < length v \<or> hd v \<noteq> CHR 0x22 \<or> last v \<noteq> CHR 0x22 then None
      else (let parts = Split (butlast (drop 1 v)) CHR '':'' in
        if length parts = 3 \<and> (parts ! 0 = ''server'' \<or> parts ! 0 = ''operation'') \<and> identityPattern (parts ! 1) then
          (case Atoi (parts ! 2) of
             None \<Rightarrow> None
           | Some generation \<Rightarrow>
               if generation < 1 \<or> Itoa generation \<noteq> parts ! 2 then None
               else Some \<lparr> pre_Kind = parts ! 0, pre_UID = parts ! 1, pre_SnapshotDigest = [], pre_Generation = word_of_int generation \<rparr>)
        else if length parts = 4 \<and> parts ! 0 = ''retained'' \<and> identityPattern (parts ! 1) \<and>
                digestPattern (parts ! 2 @ '':'' @ parts ! 3) then
          Some \<lparr> pre_Kind = parts ! 0, pre_UID = parts ! 1, pre_SnapshotDigest = parts ! 2 @ '':'' @ parts ! 3, pre_Generation = 0 \<rparr>
        else None))"

definition validRestart :: "RestartPolicy \<Rightarrow> bool" where
  "validRestart p \<longleftrightarrow> p = RestartLeaveStopped \<or> p = RestartRestorePreviousState"

definition validRetainedSelector :: "OperationsEnv \<Rightarrow> OperationRetainedWorldSelector \<Rightarrow> bool" where
  "validRetainedSelector env s \<longleftrightarrow> validReference env (sel_DecommissionOperationRef s) \<and> digestPattern (sel_SnapshotDigest s)"

definition payloadCount :: "OperationRequest \<Rightarrow> nat" where
  "payloadCount r = length (filter id
     [oreq_Create r \<noteq> None, oreq_Configure r \<noteq> None, oreq_Backup r \<noteq> None, oreq_Restore r \<noteq> None,
      oreq_Destroy r \<noteq> None, oreq_DestroyCommand r \<noteq> None])"

text \<open>
  The parts of \<^verbatim>\<open>ValidateRequest\<close> in order: the live target, the image, the switch on the action. A part is true
  when the code returns \<^verbatim>\<open>ErrInvalid\<close>.
\<close>

definition targetInvalid :: "OperationsEnv \<Rightarrow> Precondition \<Rightarrow> OperationRequest \<Rightarrow> bool" where
  "targetInvalid env p r = (case oreq_Target r of
       None \<Rightarrow> False
     | Some t \<Rightarrow> pre_Kind p \<noteq> ''server'' \<or> \<not> validReference env (gref_Local t) \<or> ref_Name (gref_Local t) \<noteq> oreq_ServerName r \<or>
         ref_UID (gref_Local t) \<noteq> pre_UID p \<or> gref_Generation t \<noteq> pre_Generation p \<or>
         gref_DesiredState t \<noteq> DesiredStateRunning \<and> gref_DesiredState t \<noteq> DesiredStateStopped)"

definition imageInvalid :: "OperationImageInput \<Rightarrow> bool" where
  "imageInvalid i \<longleftrightarrow> (let res = img_Resolution i in
     (img_Digest i = []) = (img_Version i = []) \<or> \<not> digestPattern (ires_Digest res) \<or> ires_Repository res = [] \<or>
     256 < length (ires_Repository res) \<or> time_IsZero (ires_ResolvedAt res) \<or>
     img_Digest i \<noteq> [] \<and> (\<not> digestPattern (img_Digest i) \<or> img_Digest i \<noteq> ires_Digest res \<or>
       ires_ResolverVersion res \<noteq> ''digest-v1'' \<or> ires_Tag res \<noteq> []) \<or>
     img_Version i \<noteq> [] \<and> (64 < length (img_Version i) \<or> ires_ResolverVersion res \<noteq> ''registry-v1'' \<or> ires_Tag res = []))"

definition createInvalid :: "OperationsEnv \<Rightarrow> OperationCreateInput \<Rightarrow> bool" where
  "createInvalid env c \<longleftrightarrow>
     cin_Game c = [] \<or> \<not> ov_IsDNS1123Label env (cin_Game c) \<or>
     cin_DesiredState c \<noteq> DesiredStateRunning \<and> cin_DesiredState c \<noteq> DesiredStateStopped \<or>
     operations_CanonicalJSON (cin_SettingsJSON c) = None \<or>
     (case cin_RetainedWorld c of None \<Rightarrow> False | Some s \<Rightarrow> \<not> validRetainedSelector env s)"

definition configureInvalid :: "OperationConfigureInput \<Rightarrow> bool" where
  "configureInvalid c \<longleftrightarrow>
     cfg_Compute c = None \<and> cfg_Storage c = None \<and> cfg_SettingsJSON c = None \<or>
     (case cfg_SettingsJSON c of None \<Rightarrow> False | Some s \<Rightarrow> operations_CanonicalJSON s = None)"

definition challengePattern :: "string \<Rightarrow> bool" where
  "challengePattern s \<longleftrightarrow> s \<noteq> [] \<and> list_all (\<lambda>c. is_upper c \<or> is_lower c \<or> is_digit c \<or> c = CHR ''_'' \<or> c = CHR ''-'') s"

definition commandInvalid :: "OperationsEnv \<Rightarrow> ArcadeOperationAction \<Rightarrow> Precondition \<Rightarrow> OperationRequest \<Rightarrow> bool" where
  "commandInvalid env action p r = (payloadCount r \<noteq> 1 \<or> (case oreq_DestroyCommand r of
       None \<Rightarrow> True
     | Some c \<Rightarrow> oreq_Target r \<noteq> None \<or> oreq_ServerName r \<noteq> [] \<or> pre_Kind p \<noteq> ''operation'' \<or>
         \<not> validReference env (dcmd_ParentOperationRef c) \<or> ref_UID (dcmd_ParentOperationRef c) \<noteq> pre_UID p \<or>
         \<not> validReference env (dcmd_DestroyRef c) \<or>
         (if action = OperationWorldDestroyConfirm
          then length (dcmd_Challenge c) < 16 \<or> 128 < length (dcmd_Challenge c) \<or> \<not> challengePattern (dcmd_Challenge c)
          else dcmd_Challenge c \<noteq> [])))"

definition previewInvalid :: "OperationsEnv \<Rightarrow> Precondition \<Rightarrow> OperationRequest \<Rightarrow> bool" where
  "previewInvalid env p r = (payloadCount r \<noteq> 1 \<or> (case oreq_Destroy r of
       None \<Rightarrow> True
     | Some d \<Rightarrow> \<not> validReference env (din_BackupRef d) \<or>
         (case din_RetainedWorld d of
            None \<Rightarrow> oreq_Target r = None
          | Some s \<Rightarrow> oreq_Target r \<noteq> None \<or> oreq_ServerName r \<noteq> [] \<or> \<not> validRetainedSelector env s \<or>
              pre_Kind p \<noteq> ''retained'' \<or> ref_UID (sel_DecommissionOperationRef s) \<noteq> pre_UID p \<or>
              sel_SnapshotDigest s \<noteq> pre_SnapshotDigest p)))"

definition actionInvalid :: "OperationsEnv \<Rightarrow> ArcadeOperationAction \<Rightarrow> Precondition \<Rightarrow> OperationRequest \<Rightarrow> bool" where
  "actionInvalid env action p r = (case action of
       OperationServerCreate \<Rightarrow> payloadCount r \<noteq> 1 \<or> oreq_Create r = None \<or> oreq_Image r = None \<or> oreq_Target r \<noteq> None \<or>
         oreq_ServerName r = [] \<or> pre_Kind p \<noteq> ''absent'' \<or> createInvalid env (the (oreq_Create r))
     | OperationServerConfigure \<Rightarrow> payloadCount r \<noteq> 1 \<or> oreq_Configure r = None \<or> oreq_Target r = None \<or>
         configureInvalid (the (oreq_Configure r))
     | OperationServerStart \<Rightarrow> payloadCount r \<noteq> 0 \<or> oreq_Target r = None
     | OperationServerStop \<Rightarrow> payloadCount r \<noteq> 0 \<or> oreq_Target r = None
     | OperationServerRestart \<Rightarrow> payloadCount r \<noteq> 0 \<or> oreq_Target r = None
     | OperationServerDecommission \<Rightarrow> payloadCount r \<noteq> 0 \<or> oreq_Target r = None
     | OperationServerUpdate \<Rightarrow> payloadCount r \<noteq> 0 \<or> oreq_Target r = None \<or> oreq_Image r = None
     | OperationWorldBackup \<Rightarrow> payloadCount r \<noteq> 1 \<or> oreq_Target r = None \<or> (case oreq_Backup r of
           None \<Rightarrow> True
         | Some b \<Rightarrow> \<not> ov_IsDNS1123Subdomain env (bin_RepositorySecretName b) \<or> \<not> validRestart (bin_RestartPolicy b))
     | OperationWorldRestore \<Rightarrow> payloadCount r \<noteq> 1 \<or> oreq_Target r = None \<or> (case oreq_Restore r of
           None \<Rightarrow> True
         | Some b \<Rightarrow> \<not> validReference env (rin_BackupRef b) \<or> \<not> validRestart (rin_RestartPolicy b))
     | OperationWorldDestroyPreview \<Rightarrow> previewInvalid env p r
     | OperationWorldDestroyConfirm \<Rightarrow> commandInvalid env action p r
     | OperationWorldDestroyCancel \<Rightarrow> commandInvalid env action p r
     | OperationOther s \<Rightarrow> True)"

definition ValidateRequest :: "OperationsEnv \<Rightarrow> ArcadeOperationAction \<Rightarrow> OperationRequest \<Rightarrow> OperationsError option" where
  "ValidateRequest env action r = (case ParsePrecondition (oreq_Precondition r) of
       None \<Rightarrow> Some ErrInvalid
     | Some p \<Rightarrow> first_error
         [guard (targetInvalid env p r) ErrInvalid,
          guard (oreq_ServerName r \<noteq> [] \<and> \<not> ov_IsDNS1123Label env (oreq_ServerName r)) ErrInvalid,
          guard (case oreq_Create r of None \<Rightarrow> False | Some c \<Rightarrow> stor_Reattach (cin_Storage c) \<noteq> None) ErrInvalid,
          guard (case oreq_Configure r of None \<Rightarrow> False | Some c \<Rightarrow>
              (case cfg_Storage c of None \<Rightarrow> False | Some s \<Rightarrow> stor_Reattach s \<noteq> None)) ErrInvalid,
          guard (case oreq_Image r of None \<Rightarrow> False | Some i \<Rightarrow> imageInvalid i) ErrInvalid,
          guard (oreq_Image r \<noteq> None \<and> action \<noteq> OperationServerCreate \<and> action \<noteq> OperationServerUpdate) ErrInvalid,
          guard (actionInvalid env action p r) ErrInvalid])"

end
