(* ===== verification/GameServerRuntime.thy ===== *)
theory GameServerRuntime
  imports ServerPlan KubeClient GameDestroyController Operations "HOL-Library.Product_Lexorder"
begin

text \<open>
  What the GameServer controller is made of: the conditions and status writes of \<^verbatim>\<open>status.go\<close>, the proof that no
  writer of a world is left (\<^verbatim>\<open>gameserver\_runtime\_drain.go\<close>), the invalidation of cold-backup markers
  (\<^verbatim>\<open>cold\_backup\_marker.go\<close>) and the receipt that may run a server under its own fence
  (\<^verbatim>\<open>arcadeoperation\_server.go\<close>).

  The controller reads through two clients: the cached \<^verbatim>\<open>client.Client\<close> and, where it is configured, an
  \<^verbatim>\<open>APIReader\<close> that bypasses the cache. Each is a \<open>ServerView\<close>; they need not agree.
\<close>

section \<open>The cluster\<close>

record ServerView =
  vw_GameServer :: "nat \<Rightarrow> string \<Rightarrow> string \<Rightarrow> ApiError + GameServer"
  vw_Operation :: "nat \<Rightarrow> string \<Rightarrow> string \<Rightarrow> ApiError + ArcadeOperation"
  vw_Lease :: "nat \<Rightarrow> string \<Rightarrow> string \<Rightarrow> ApiError + Lease"
  vw_Claim :: "nat \<Rightarrow> string \<Rightarrow> string \<Rightarrow> ApiError + ServerClaim"
  vw_Claims :: "nat \<Rightarrow> string \<Rightarrow> (string \<times> string) list \<Rightarrow> ApiError + ServerClaim Listing"
  vw_ConfigMap :: "nat \<Rightarrow> string \<Rightarrow> string \<Rightarrow> ApiError + ServerConfigMap"
  vw_Deployment :: "nat \<Rightarrow> string \<Rightarrow> string \<Rightarrow> ApiError + Deployment"
  vw_Service :: "nat \<Rightarrow> string \<Rightarrow> string \<Rightarrow> ApiError + Service"
  vw_ReplicaSets :: "nat \<Rightarrow> string \<Rightarrow> ApiError + ReplicaSet Listing"
  vw_Pods :: "nat \<Rightarrow> string \<Rightarrow> ApiError + RuntimePod Listing"

datatype RuntimeKind = RuntimeDeployment | RuntimeConfigMap | RuntimeService

text \<open>
  What the controller may ask for. A delete carries its preconditions and whether it waits for dependents; an
  apply carries the whole desired object; a patch of a claim carries the claim as read and as wanted.
\<close>

datatype ServerRequest =
    StatusServer GameServer
  | CreateClaim ServerClaim
  | UpdateClaim ServerClaim
  | PatchClaim ServerClaim ServerClaim
  | CreateServerConfigMap ServerConfigMap
  | UpdateServerConfigMap ServerConfigMap
  | CreateDeployment Deployment
  | ApplyDeployment Deployment
  | CreateService Service
  | ApplyService Service
  | DeleteRuntime (dr_kind: RuntimeKind) (dr_namespace: string) (dr_name: string) (dr_uid: UID) (dr_version: string) (dr_foreground: bool)

type_synonym 'a server_program = "(ServerRequest session_of, 'a) state"

record GameServerReconciler =
  gsr_Client :: ServerView
  gsr_APIReader :: "ServerView option"
  gsr_Catalog :: "(string \<Rightarrow> catalog_error + Definition) option"
  gsr_Now :: "nat \<Rightarrow> Time"
  gsr_Library :: ServerLibrary
  gsr_Operations :: OperationsEnv
  gsr_Respond :: "nat \<Rightarrow> ServerRequest \<Rightarrow> ApiError option"
  gsr_RespondDeployment :: "nat \<Rightarrow> Deployment \<Rightarrow> ApiError + Deployment"
  gsr_RespondService :: "nat \<Rightarrow> Service \<Rightarrow> ApiError + Service"

definition runtimeReader :: "GameServerReconciler \<Rightarrow> ServerView" where
  "runtimeReader r = (case gsr_APIReader r of Some reader \<Rightarrow> reader | None \<Rightarrow> gsr_Client r)"

definition request :: "GameServerReconciler \<Rightarrow> ServerRequest \<Rightarrow> ApiError option server_program" where
  "request r q = send_to (\<lambda>n. gsr_Respond r n q) q"

text \<open>The text of a \<^verbatim>\<open>types.NamespacedName\<close>.\<close>

definition key_text :: "ObjectMeta \<Rightarrow> string" where
  "key_text m = meta_Namespace m @ ''/'' @ meta_Name m"

abbreviation serverName :: "GameServer \<Rightarrow> string" where "serverName s \<equiv> meta_Name (gs_Meta s)"
abbreviation serverNamespace :: "GameServer \<Rightarrow> string" where "serverNamespace s \<equiv> meta_Namespace (gs_Meta s)"
abbreviation serverUID :: "GameServer \<Rightarrow> UID" where "serverUID s \<equiv> meta_UID (gs_Meta s)"

section \<open>status.go\<close>

definition conditionOrder :: "string list" where
  "conditionOrder = [''SpecValid'', ''StorageReady'', ''ConfigurationReady'', ''WorkloadReady'', ''NetworkReady'', ''Ready'']"

text \<open>The fields of a condition that the stages of a reconciliation set.\<close>

record Progress =
  pg_Status :: ConditionStatus
  pg_Reason :: string
  pg_Message :: string

type_synonym conditionProgress = "string \<rightharpoonup> Progress"

definition newConditionProgress :: conditionProgress where
  "newConditionProgress = Map.empty"

definition progress_set :: "string \<Rightarrow> ConditionStatus \<Rightarrow> string \<Rightarrow> string \<Rightarrow> conditionProgress \<Rightarrow> conditionProgress" where
  "progress_set conditionType state reason message progress =
     progress(conditionType \<mapsto> \<lparr> pg_Status = state, pg_Reason = reason, pg_Message = message \<rparr>)"

definition fillBlocked :: "string \<Rightarrow> conditionProgress \<Rightarrow> conditionProgress" where
  "fillBlocked reason progress = fold (\<lambda>conditionType p.
     if p conditionType \<noteq> None \<or> conditionType = ''Ready'' then p
     else progress_set conditionType ConditionUnknown ''Blocked''
       (conditionType @ '' was not evaluated because an earlier lifecycle stage is blocked by '' @ reason) p) conditionOrder progress"

record reconcileFailure =
  rf_conditionType :: string
  rf_reason :: string
  rf_message :: string
  rf_retry :: bool

definition newReconcileFailure :: "string \<Rightarrow> string \<Rightarrow> string \<Rightarrow> bool \<Rightarrow> reconcileFailure" where
  "newReconcileFailure conditionType reason message retry =
     \<lparr> rf_conditionType = conditionType, rf_reason = reason, rf_message = message, rf_retry = retry \<rparr>"

definition FindStatusCondition :: "Condition list \<Rightarrow> string \<Rightarrow> Condition option" where
  "FindStatusCondition conditions conditionType = find (\<lambda>c. cond_Type c = conditionType) conditions"

definition canonicalCondition :: "GameServer \<Rightarrow> conditionProgress \<Rightarrow> Time \<Rightarrow> string \<Rightarrow> Condition" where
  "canonicalCondition server progress t conditionType =
     (let p = (case progress conditionType of
                 Some p \<Rightarrow> p
               | None \<Rightarrow> \<lparr> pg_Status = ConditionUnknown, pg_Reason = ''Blocked'', pg_Message = conditionType @ '' was not evaluated'' \<rparr>) in
      \<lparr> cond_Type = conditionType, cond_Status = pg_Status p, cond_ObservedGeneration = meta_Generation (gs_Meta server),
        cond_LastTransitionTime = (case FindStatusCondition (gst_Conditions (gs_Status server)) conditionType of
            Some previous \<Rightarrow> if cond_Status previous = pg_Status p then cond_LastTransitionTime previous else t
          | None \<Rightarrow> t),
        cond_Reason = pg_Reason p, cond_Message = pg_Message p \<rparr>)"

definition canonicalConditions :: "GameServer \<Rightarrow> conditionProgress \<Rightarrow> Time \<Rightarrow> Condition list" where
  "canonicalConditions server progress t = map (canonicalCondition server progress t) conditionOrder"

definition canonicalEndpoints :: "ObservedEndpoint list \<Rightarrow> ObservedEndpoint list" where
  "canonicalEndpoints source = sort_key (\<lambda>e. (oe_Name e, oe_Protocol e, oe_Address e, sint (oe_Port e))) source"

text \<open>The clock is read after the other fields are set, in \<^verbatim>\<open>canonicalConditions\<close>.\<close>

definition updatedStatus :: "GameServer \<Rightarrow> GameServerPhase \<Rightarrow> conditionProgress \<Rightarrow> ObservedEndpoint list \<Rightarrow> RetainedDataReference option \<Rightarrow> Time \<Rightarrow> GameServerStatus" where
  "updatedStatus server phase progress endpoints data t =
     (let observed = (case data of Some d \<Rightarrow> Some d | None \<Rightarrow> gst_ObservedData (gs_Status server)) in
      (gs_Status server)\<lparr>
        gst_ObservedGeneration := meta_Generation (gs_Meta server), gst_Phase := phase, gst_Endpoints := canonicalEndpoints endpoints,
        gst_ObservedData := (if gst_ActiveData (gs_Status server) \<noteq> None \<and> \<not> sameDataSelection observed (gst_ActiveData (gs_Status server)) then None else observed),
        gst_Conditions := canonicalConditions server progress t \<rparr>)"

definition updateStatusWithData ::
  "GameServerReconciler \<Rightarrow> GameServer \<Rightarrow> GameServerPhase \<Rightarrow> conditionProgress \<Rightarrow> ObservedEndpoint list \<Rightarrow> RetainedDataReference option \<Rightarrow> error option server_program" where
  "updateStatusWithData r server phase progress endpoints data = do {
     t \<leftarrow> ask (gsr_Now r);
     let status = updatedStatus server phase progress endpoints data t;
     if gs_Status server = status then State_Monad.return None
     else do {
       e \<leftarrow> request r (StatusServer (server\<lparr> gs_Status := status \<rparr>));
       State_Monad.return (map_option (\<lambda>_. ''update GameServer status failed; inspect Kubernetes API availability'') e) } }"

definition updateStatus :: "GameServerReconciler \<Rightarrow> GameServer \<Rightarrow> GameServerPhase \<Rightarrow> conditionProgress \<Rightarrow> ObservedEndpoint list \<Rightarrow> error option server_program" where
  "updateStatus r server phase progress endpoints = updateStatusWithData r server phase progress endpoints None"

definition readyReason :: "string \<Rightarrow> string" where
  "readyReason reason =
     (if reason \<in> {''InvalidSpec'', ''ControllerMisconfigured'', ''ResourceCollision'', ''RetainedDataReferenceRequired'', ''RetainedDataMissing'', ''RetainedDataConflict''}
      then reason else ''ReconcileFailed'')"

definition failureProgress :: "reconcileFailure \<Rightarrow> conditionProgress \<Rightarrow> conditionProgress" where
  "failureProgress failure progress = progress_set ''Ready'' ConditionFalse (readyReason (rf_reason failure))
     ''the game server is not ready; follow the failed condition's safe operator action''
     (fillBlocked (rf_reason failure)
       (progress_set (rf_conditionType failure) ConditionFalse (rf_reason failure) (rf_message failure) progress))"

definition reportFailure :: "GameServerReconciler \<Rightarrow> GameServer \<Rightarrow> conditionProgress \<Rightarrow> reconcileFailure \<Rightarrow> error option server_program" where
  "reportFailure r server progress failure = do {
     statusErr \<leftarrow> updateStatus r server PhaseFailed (failureProgress failure progress) [];
     State_Monad.return
       (if \<not> rf_retry failure then statusErr
        else (case statusErr of
            Some e \<Rightarrow> Some (rf_message failure @ [CHR 0x0A] @ e)
          | None \<Rightarrow> Some (rf_message failure))) }"

section \<open>gameserver\_runtime\_drain.go\<close>

definition runtimeDrainFailure :: reconcileFailure where
  "runtimeDrainFailure = newReconcileFailure ''WorkloadReady'' ''WorkloadOperationFailed''
     ''runtime drain cannot be verified; inspect namespace API availability before starting or reporting stopped'' True"

text \<open>\<^verbatim>\<open>metav1.GetControllerOf\<close>: the first owner reference that is a controller.\<close>

definition GetControllerOf :: "ObjectMeta \<Rightarrow> OwnerReference option" where
  "GetControllerOf m = find (\<lambda>o'. owner_Controller o' = Some True) (meta_OwnerReferences m)"

definition requireControlledBy :: "ObjectMeta \<Rightarrow> OwnerReference \<Rightarrow> error option" where
  "requireControlledBy m wanted = (case GetControllerOf m of
       None \<Rightarrow> Some ''existing resource has no controller owner''
     | Some reference \<Rightarrow> guard
         (owner_APIVersion reference \<noteq> owner_APIVersion wanted \<or> owner_Kind reference \<noteq> owner_Kind wanted \<or>
          owner_Name reference \<noteq> owner_Name wanted \<or> owner_UID reference \<noteq> owner_UID wanted)
         ''existing resource is controlled by a different owner'')"

definition readonly_in :: "string \<Rightarrow> WorkloadContainer \<Rightarrow> bool" where
  "readonly_in volume c \<longleftrightarrow>
     list_all (\<lambda>device. device \<noteq> volume) (wc_VolumeDevices c) \<and>
     list_all (\<lambda>mount. \<not> (vm_Name mount = volume \<and> \<not> vm_ReadOnly mount)) (wc_VolumeMounts c)"

definition runtimeVolumeReadOnly :: "WorkloadPodSpec \<Rightarrow> string \<Rightarrow> bool \<Rightarrow> bool" where
  "runtimeVolumeReadOnly spec volume readOnly \<longleftrightarrow> readOnly \<and>
     list_all (readonly_in volume) (wps_Containers spec) \<and> list_all (readonly_in volume) (wps_InitContainers spec) \<and>
     list_all (readonly_in volume) (wps_EphemeralContainers spec)"

definition runtimePodBlocksDrain :: "(string \<rightharpoonup> string) \<Rightarrow> WorkloadPodSpec \<Rightarrow> string \<Rightarrow> string list \<Rightarrow> bool" where
  "runtimePodBlocksDrain labels spec name claims \<longleftrightarrow>
     mget labels LabelManagedBy = ManagerName \<and> mget labels LabelName = ''game-server'' \<and> mget labels LabelInstance = name \<or>
     list_ex (\<lambda>volume. case wv_Source volume of
         WorkloadClaim claim readOnly \<Rightarrow> claim \<in> set claims \<and> \<not> runtimeVolumeReadOnly spec (wv_Name volume) readOnly
       | _ \<Rightarrow> False) (wps_Volumes spec)"

definition selections :: "GameServer \<Rightarrow> RetainedDataReference list" where
  "selections server = concat (map (\<lambda>s. case s of None \<Rightarrow> [] | Some selection \<Rightarrow> [selection])
     [gst_ActiveData (gs_Status server), gst_ObservedData (gs_Status server), stor_Reattach (gss_Storage (gs_Spec server))])"

definition drainIdentities :: "GameServer \<Rightarrow> string list" where
  "drainIdentities server =
     (case DataIdentity (serverUID server) of None \<Rightarrow> [] | Some identity \<Rightarrow> [identity]) @ map rdata_Identity (selections server)"

definition drainClaims :: "GameServer \<Rightarrow> WorkloadVolume list \<Rightarrow> ServerClaim list \<Rightarrow> string list" where
  "drainClaims server volumes retained =
     concat (map (\<lambda>s. map (\<lambda>c. ref_Name (rclaim_ClaimRef c)) (rdata_Claims s)) (selections server)) @
     concat (map (\<lambda>v. case wv_Source v of WorkloadClaim claim _ \<Rightarrow> [claim] | _ \<Rightarrow> []) volumes) @
     map (\<lambda>c. meta_Name (pvc_Meta c)) (filter (\<lambda>c.
       mget (meta_Labels (pvc_Meta c)) LabelDataIdentity \<noteq> [] \<and>
       mget (meta_Labels (pvc_Meta c)) LabelDataIdentity \<in> set (drainIdentities server)) retained)"

definition runtimePodsRemain :: "GameServerReconciler \<Rightarrow> GameServer \<Rightarrow> WorkloadVolume list \<Rightarrow> (error + bool) server_program" where
  "runtimePodsRemain r server volumes = do {
     listed \<leftarrow> ask (\<lambda>n. vw_Claims (runtimeReader r) n (serverNamespace server)
       [(LabelManagedBy, ManagerName), (LabelInstance, serverName server), (LabelDataPolicy, ''retain'')]);
     case listed of
       Inl e \<Rightarrow> State_Monad.return (Inl (''observe original retained claims while draining: '' @ api_message e))
     | Inr retained \<Rightarrow>
         let claims = drainClaims server volumes (ls_Items retained) in
         if listing_incomplete retained then State_Monad.return (Inl ''retained claim drain observation was incomplete'')
         else do {
           listedSets \<leftarrow> ask (\<lambda>n. vw_ReplicaSets (runtimeReader r) n (serverNamespace server));
           case listedSets of
             Inl e \<Rightarrow> State_Monad.return (Inl (''observe namespace ReplicaSets while draining: '' @ api_message e))
           | Inr sets \<Rightarrow>
               if listing_incomplete sets then State_Monad.return (Inl ''ReplicaSet drain observation was incomplete'')
               else if list_ex (\<lambda>s. runtimePodBlocksDrain (rset_TemplateLabels s) (rset_TemplateSpec s) (serverName server) claims) (ls_Items sets)
               then State_Monad.return (Inr True)
               else do {
                 listedPods \<leftarrow> ask (\<lambda>n. vw_Pods (runtimeReader r) n (serverNamespace server));
                 State_Monad.return (case listedPods of
                   Inl e \<Rightarrow> Inl (''observe namespace Pods while draining: '' @ api_message e)
                 | Inr pods \<Rightarrow>
                     if listing_incomplete pods then Inl ''Pod drain observation was incomplete''
                     else Inr (list_ex (\<lambda>p. runtimePodBlocksDrain (meta_Labels (rpod_Meta p)) (rpod_Spec p) (serverName server) claims) (ls_Items pods))) } } }"

definition runtimeReplacementDraining :: "GameServerReconciler \<Rightarrow> GameServer \<Rightarrow> Deployment \<Rightarrow> (error + bool) server_program" where
  "runtimeReplacementDraining r server desired = do {
     got \<leftarrow> ask (\<lambda>n. vw_Deployment (runtimeReader r) n (meta_Namespace (dep_Meta desired)) (meta_Name (dep_Meta desired)));
     case got of
       Inl NotFound \<Rightarrow> runtimePodsRemain r server (wps_Volumes (dep_TemplateSpec desired))
     | Inl (ApiFailure m) \<Rightarrow> State_Monad.return (Inl (''observe original game Deployment: '' @ m))
     | Inr existing \<Rightarrow> State_Monad.return
         (case requireControlledBy (dep_Meta existing) (hd (meta_OwnerReferences (dep_Meta desired))) of
            Some e \<Rightarrow> Inl e
          | None \<Rightarrow> Inr (terminating (dep_Meta existing))) }"

end
