(* ===== verification/ServerFence.thy ===== *)
theory ServerFence
  imports GameServerRuntime
begin

text \<open>
  The fence between a running server and the operations on its world: the leases of \<^verbatim>\<open>kube/backup.go\<close> and
  \<^verbatim>\<open>kube/restore.go\<close>, the receipt that may run a server under its own lease (\<^verbatim>\<open>receiptRuntimeAllowed\<close> and what it
  uses of the operation translator), and \<^verbatim>\<open>dataOperationLocked\<close> of the GameServer controller.
\<close>

section \<open>Leases\<close>

definition LabelBackupUID :: string where "LabelBackupUID = ''arcade.gobha.me/backup-uid''"
definition AnnotationBackupName :: string where "AnnotationBackupName = ''arcade.gobha.me/backup-name''"
definition AnnotationRuntimeSettlementState :: string where "AnnotationRuntimeSettlementState = ''arcade.gobha.me/runtime-settlement-state''"
definition AnnotationRuntimeSettlementGeneration :: string where
  "AnnotationRuntimeSettlementGeneration = ''arcade.gobha.me/runtime-settlement-generation''"
definition LabelRestoreUID :: string where "LabelRestoreUID = ''arcade.gobha.me/restore-uid''"
definition AnnotationRestoreName :: string where "AnnotationRestoreName = ''arcade.gobha.me/restore-name''"
definition AnnotationRestoreSettlementData :: string where
  "AnnotationRestoreSettlementData = ''arcade.gobha.me/restore-settlement-data-identity''"
definition operationReceiptUIDLabel :: string where "operationReceiptUIDLabel = ''arcade.gobha.me/operation-uid''"
definition operationReceiptNameAnnotation :: string where "operationReceiptNameAnnotation = ''arcade.gobha.me/operation-name''"
definition operationStepAnnotation :: string where "operationStepAnnotation = ''arcade.gobha.me/operation-step''"
definition operationSpecDigestAnnotation :: string where "operationSpecDigestAnnotation = ''arcade.gobha.me/operation-spec-digest''"
definition operationFinalizer :: string where "operationFinalizer = ''arcade.gobha.me/operation-fence''"

abbreviation lease_label :: "Lease \<Rightarrow> string \<Rightarrow> string" where "lease_label l k \<equiv> mget (meta_Labels (lease_Meta l)) k"
abbreviation lease_annotation :: "Lease \<Rightarrow> string \<Rightarrow> string" where "lease_annotation l k \<equiv> mget (meta_Annotations (lease_Meta l)) k"

definition BackupOperationLeaseMatches :: "Lease \<Rightarrow> ExactLocalReference \<Rightarrow> string \<Rightarrow> bool" where
  "BackupOperationLeaseMatches lease operation server \<longleftrightarrow>
     \<not> (ref_Name operation = [] \<or> ref_UID operation = [] \<or> server = [] \<or> meta_OwnerReferences (lease_Meta lease) \<noteq> [] \<or>
        lease_HolderIdentity lease \<noteq> Some (ref_UID operation) \<or> lease_label lease LabelManagedBy \<noteq> ManagerName \<or>
        lease_label lease LabelBackupUID \<noteq> ref_UID operation \<or> lease_label lease LabelInstance \<noteq> server \<or>
        lease_annotation lease AnnotationBackupName \<noteq> ref_Name operation) \<and>
     lease_label lease LabelDataIdentity \<noteq> [] \<and>
     meta_Name (lease_Meta lease) = DataOperationLeaseName (lease_label lease LabelDataIdentity)"

definition RestoreOperationLeaseMatches :: "Lease \<Rightarrow> ExactLocalReference \<Rightarrow> string \<Rightarrow> string \<Rightarrow> bool" where
  "RestoreOperationLeaseMatches lease operation server dataIdentity \<longleftrightarrow>
     \<not> (ref_Name operation = [] \<or> ref_UID operation = [] \<or> ref_Namespace operation \<noteq> None \<or> server = [] \<or> dataIdentity = [] \<or>
        meta_OwnerReferences (lease_Meta lease) \<noteq> [] \<or> lease_HolderIdentity lease \<noteq> Some (ref_UID operation) \<or>
        lease_label lease LabelManagedBy \<noteq> ManagerName \<or> lease_label lease LabelRestoreUID \<noteq> ref_UID operation \<or>
        lease_label lease LabelInstance \<noteq> server \<or> lease_label lease LabelDataIdentity \<noteq> dataIdentity \<or>
        lease_annotation lease AnnotationRestoreName \<noteq> ref_Name operation) \<and>
     meta_Name (lease_Meta lease) = DataOperationLeaseName dataIdentity"

section \<open>Receipts\<close>

definition operationLeaseMatches :: "Lease \<Rightarrow> ArcadeOperation \<Rightarrow> string \<Rightarrow> string \<Rightarrow> bool" where
  "operationLeaseMatches lease o' server identity \<longleftrightarrow>
     identity \<noteq> [] \<and> meta_Name (lease_Meta lease) = DataOperationLeaseName identity \<and>
     meta_Namespace (lease_Meta lease) = meta_Namespace (ao_Meta o') \<and> meta_OwnerReferences (lease_Meta lease) = [] \<and>
     lease_HolderIdentity lease = Some (meta_UID (ao_Meta o')) \<and> lease_label lease LabelManagedBy = ManagerName \<and>
     lease_label lease LabelInstance = server \<and> lease_label lease LabelDataIdentity = identity \<and>
     lease_label lease operationReceiptUIDLabel = meta_UID (ao_Meta o') \<and>
     lease_annotation lease operationReceiptNameAnnotation = meta_Name (ao_Meta o')"

definition operationTerminal :: "ArcadeOperationPhase \<Rightarrow> bool" where
  "operationTerminal phase \<longleftrightarrow> phase = OperationPhaseSucceeded \<or> phase = OperationPhaseFailed \<or> phase = OperationPhaseCancelled"

definition operationServerAction :: "ArcadeOperationAction \<Rightarrow> bool" where
  "operationServerAction action \<longleftrightarrow> action \<in>
     {OperationServerCreate, OperationServerConfigure, OperationServerStart, OperationServerStop, OperationServerRestart,
      OperationServerUpdate, OperationServerDecommission}"

definition containsOperationFinalizer :: "ArcadeOperation \<Rightarrow> bool" where
  "containsOperationFinalizer o' \<longleftrightarrow> list_ex (\<lambda>f. f = operationFinalizer) (meta_Finalizers (ao_Meta o'))"

definition operationTransition :: "ArcadeOperation \<Rightarrow> string \<Rightarrow> OperationServerTransition option" where
  "operationTransition o' step = find (\<lambda>t. otr_Step t = step) (aost_Transitions (ao_Status o'))"

definition operationSpecsEqual :: "OperationsEnv \<Rightarrow> GameServerSpec \<Rightarrow> GameServerSpec \<Rightarrow> bool" where
  "operationSpecsEqual env left right = (case SpecDigest env left of
       None \<Rightarrow> False
     | Some a \<Rightarrow> (case SpecDigest env right of None \<Rightarrow> False | Some b \<Rightarrow> a = b))"

abbreviation server_label :: "GameServer \<Rightarrow> string \<Rightarrow> string" where "server_label s k \<equiv> mget (meta_Labels (gs_Meta s)) k"
abbreviation server_annotation :: "GameServer \<Rightarrow> string \<Rightarrow> string" where "server_annotation s k \<equiv> mget (meta_Annotations (gs_Meta s)) k"

definition operationTransitionApplied :: "OperationsEnv \<Rightarrow> ArcadeOperation \<Rightarrow> GameServer \<Rightarrow> OperationServerTransition \<Rightarrow> GameServerSpec \<Rightarrow> bool" where
  "operationTransitionApplied env o' server t intent = (case SpecDigest env (gs_Spec server) of
       None \<Rightarrow> False
     | Some digest \<Rightarrow>
         meta_Generation (gs_Meta server) = otr_ToGeneration t \<and> gss_DesiredState (gs_Spec server) = otr_DesiredState t \<and>
         digest = otr_SpecDigest t \<and> operationSpecsEqual env (gs_Spec server) intent \<and>
         server_label server operationReceiptUIDLabel = meta_UID (ao_Meta o') \<and>
         server_annotation server operationReceiptNameAnnotation = meta_Name (ao_Meta o') \<and>
         server_annotation server operationStepAnnotation = otr_Step t \<and>
         server_annotation server operationSpecDigestAnnotation = otr_SpecDigest t)"

definition createAllowed :: "OperationsEnv \<Rightarrow> ArcadeOperation \<Rightarrow> GameServer \<Rightarrow> OperationPlan \<Rightarrow> string \<Rightarrow> GameServerSpec \<Rightarrow> bool" where
  "createAllowed env o' server plan identity intent = (case aost_Child (ao_Status o') of
       None \<Rightarrow> False
     | Some child \<Rightarrow>
         \<not> (och_Kind child \<noteq> ''GameServer'' \<or> ref_UID (och_Local child) \<noteq> serverUID server \<or> ref_Name (och_Local child) \<noteq> serverName server \<or>
            och_Generation child \<noteq> meta_Generation (gs_Meta server)) \<and>
         (case DataIdentity (serverUID server) of
            None \<Rightarrow> False
          | Some own \<Rightarrow>
              (let expected = (case opl_Data plan of None \<Rightarrow> own | Some d \<Rightarrow> rdata_Identity d) in
               case SpecDigest env intent of
                 None \<Rightarrow> False
               | Some digest \<Rightarrow> identity = expected \<and> meta_Generation (gs_Meta server) = 1 \<and>
                   server_label server operationReceiptUIDLabel = meta_UID (ao_Meta o') \<and>
                   server_annotation server operationReceiptNameAnnotation = meta_Name (ao_Meta o') \<and>
                   server_annotation server operationStepAnnotation = ''Create'' \<and>
                   server_annotation server operationSpecDigestAnnotation = digest \<and> operationSpecsEqual env (gs_Spec server) intent)))"

definition transitionAllowed :: "OperationsEnv \<Rightarrow> ArcadeOperation \<Rightarrow> GameServer \<Rightarrow> OperationPlan \<Rightarrow> string \<Rightarrow> GameServerSpec \<Rightarrow> bool" where
  "transitionAllowed env o' server plan identity intent = (case (opl_Server plan, opl_Data plan) of
       (Some planned, Some data) \<Rightarrow>
         \<not> (ref_UID (gref_Local planned) \<noteq> serverUID server \<or> ref_Name (gref_Local planned) \<noteq> serverName server \<or> rdata_Identity data \<noteq> identity) \<and>
         (case operationTransition o' (server_annotation server operationStepAnnotation) of
            None \<Rightarrow> False
          | Some t \<Rightarrow> operationTransitionApplied env o' server t (intent\<lparr> gss_DesiredState := otr_DesiredState t \<rparr>))
     | _ \<Rightarrow> False)"

definition receiptAllows :: "OperationsEnv \<Rightarrow> ArcadeOperation \<Rightarrow> GameServer \<Rightarrow> Lease \<Rightarrow> bool" where
  "receiptAllows env o' server lease =
     (if meta_UID (ao_Meta o') \<noteq> lease_label lease operationReceiptUIDLabel \<or>
         terminating (ao_Meta o') \<and> aost_Phase (ao_Status o') \<noteq> OperationPhaseSucceeded \<or>
         operationTerminal (aost_Phase (ao_Status o')) \<and> aost_Phase (ao_Status o') \<noteq> OperationPhaseSucceeded \<or>
         \<not> operationServerAction (aos_Action (ao_Spec o')) then False
      else (case aost_Plan (ao_Status o') of
          None \<Rightarrow> False
        | Some plan \<Rightarrow> (case opl_ServerIntent plan of
            None \<Rightarrow> False
          | Some frozen \<Rightarrow>
              if \<not> containsOperationFinalizer o' then False
              else (case ServerSpec frozen of
                  None \<Rightarrow> False
                | Some intent \<Rightarrow>
                    (let identity = lease_label lease LabelDataIdentity in
                     if \<not> operationLeaseMatches lease o' (serverName server) identity then False
                     else if aos_Action (ao_Spec o') = OperationServerCreate then createAllowed env o' server plan identity intent
                     else transitionAllowed env o' server plan identity intent)))))"

definition receiptRuntimeAllowed :: "GameServerReconciler \<Rightarrow> ServerView \<Rightarrow> GameServer \<Rightarrow> Lease \<Rightarrow> bool server_program" where
  "receiptRuntimeAllowed r reader server lease = do {
     got \<leftarrow> ask (\<lambda>n. vw_Operation reader n (serverNamespace server) (lease_annotation lease operationReceiptNameAnnotation));
     State_Monad.return (case got of Inl _ \<Rightarrow> False | Inr o' \<Rightarrow> receiptAllows (gsr_Operations r) o' server lease) }"

section \<open>The lock\<close>

definition desiredStateName :: "DesiredState \<Rightarrow> string" where
  "desiredStateName s = (case s of DesiredStateRunning \<Rightarrow> ''Running'' | DesiredStateStopped \<Rightarrow> ''Stopped'' | DesiredStateOther t \<Rightarrow> t)"

definition FormatInt :: "int64 \<Rightarrow> string" where
  "FormatInt n = Itoa (sint n)"

text \<open>The lease is no receipt's: whether the backup or restore that holds it has settled this generation of the server.\<close>

definition settlementAllows :: "GameServer \<Rightarrow> string \<Rightarrow> Lease \<Rightarrow> string \<Rightarrow> bool" where
  "settlementAllows server dataIdentity lease holder =
     (if lease_label lease LabelRestoreUID \<noteq> [] then
        RestoreOperationLeaseMatches lease \<lparr> ref_Namespace = None, ref_Name = lease_annotation lease AnnotationRestoreName, ref_UID = holder \<rparr>
          (serverName server) dataIdentity \<and>
        lease_annotation lease AnnotationRestoreSettlementData = dataIdentity \<and>
        lease_annotation lease AnnotationRuntimeSettlementState = desiredStateName (gss_DesiredState (gs_Spec server)) \<and>
        lease_annotation lease AnnotationRuntimeSettlementGeneration = FormatInt (meta_Generation (gs_Meta server))
      else
        gss_DesiredState (gs_Spec server) = DesiredStateRunning \<and>
        BackupOperationLeaseMatches lease \<lparr> ref_Namespace = None, ref_Name = lease_annotation lease AnnotationBackupName, ref_UID = holder \<rparr>
          (serverName server) \<and>
        lease_label lease LabelInstance = serverName server \<and> lease_label lease LabelBackupUID = holder \<and>
        lease_annotation lease AnnotationRuntimeSettlementState = ''Running'' \<and>
        lease_annotation lease AnnotationRuntimeSettlementGeneration = FormatInt (meta_Generation (gs_Meta server)))"

definition lockFailure :: reconcileFailure where
  "lockFailure = newReconcileFailure ''WorkloadReady'' ''WorkloadOperationFailed''
     ''the retained-data operation fence could not be inspected; inspect Kubernetes API availability'' True"

definition dataOperationLocked :: "GameServerReconciler \<Rightarrow> GameServer \<Rightarrow> string \<Rightarrow> (reconcileFailure + bool) server_program" where
  "dataOperationLocked r server dataIdentity = do {
     got \<leftarrow> ask (\<lambda>n. vw_Lease (runtimeReader r) n (serverNamespace server) (DataOperationLeaseName dataIdentity));
     case got of
       Inl NotFound \<Rightarrow> State_Monad.return (Inr False)
     | Inl (ApiFailure _) \<Rightarrow> State_Monad.return (Inl lockFailure)
     | Inr lease \<Rightarrow> (case lease_HolderIdentity lease of
           None \<Rightarrow> State_Monad.return (Inr True)
         | Some holder \<Rightarrow>
             if lease_label lease LabelManagedBy \<noteq> ManagerName \<or> lease_label lease LabelDataIdentity \<noteq> dataIdentity \<or> holder = []
             then State_Monad.return (Inr True)
             else if lease_label lease operationReceiptUIDLabel \<noteq> [] then do {
               allowed \<leftarrow> receiptRuntimeAllowed r (runtimeReader r) server lease;
               State_Monad.return (Inr (\<not> allowed)) }
             else State_Monad.return (Inr (\<not> settlementAllows server dataIdentity lease holder))) }"

end
