(* ===== verification/ServerStorage.thy ===== *)
theory ServerStorage
  imports GameServerRuntime
begin

text \<open>
  The retained claims of a GameServer in \<^verbatim>\<open>gameserver\_controller.go\<close>: what a claim must be to be used
  (\<^verbatim>\<open>validateExistingDataClaim\<close>), the preflight over the whole selection, creation and expansion, the observation
  that status reports, and \<^verbatim>\<open>clearColdBackupMarkers\<close> of \<^verbatim>\<open>cold\_backup\_marker.go\<close>. No operation deletes a claim.
\<close>

section \<open>Validation\<close>

abbreviation claim_label :: "'z PersistentVolumeClaim_scheme \<Rightarrow> string \<Rightarrow> string" where
  "claim_label c k \<equiv> mget (meta_Labels (pvc_Meta c)) k"
abbreviation claim_name :: "'z PersistentVolumeClaim_scheme \<Rightarrow> string" where "claim_name c \<equiv> meta_Name (pvc_Meta c)"
abbreviation claim_uid :: "'z PersistentVolumeClaim_scheme \<Rightarrow> UID" where "claim_uid c \<equiv> meta_UID (pvc_Meta c)"

definition storageClassCompatible :: "string option \<Rightarrow> string option \<Rightarrow> bool \<Rightarrow> bool" where
  "storageClassCompatible existing desired exact = (case desired of
       None \<Rightarrow> \<not> exact \<or> existing = None
     | Some wanted \<Rightarrow> existing = Some wanted)"

definition storageRequest :: "ServerClaim \<Rightarrow> Quantity" where
  "storageRequest c = quantity_at (scl_Requests c) ResourceStorage"

definition labelMismatch :: "string \<Rightarrow> error" where
  "labelMismatch label = ''identity label '' @ [CHR 0x22] @ label @ [CHR 0x22] @ '' does not match''"

definition validateExistingDataClaimBase :: "ServerLibrary \<Rightarrow> ServerClaim \<Rightarrow> DataClaimPlan \<Rightarrow> error option" where
  "validateExistingDataClaimBase lib existing claim = (let desired = dcp_Desired claim in first_error
     [guard (terminating (pvc_Meta existing)) ''retained claim is terminating'',
      guard (meta_OwnerReferences (pvc_Meta existing) \<noteq> []) ''retained claims must not have owner references'',
      first_error_in (\<lambda>label. guard (claim_label existing label \<noteq> claim_label desired label) (labelMismatch label))
        [LabelManagedBy, LabelName, LabelInstance, LabelGame, LabelDataPolicy, LabelDataPath],
      guard (\<not> storageClassCompatible (scl_StorageClassName existing) (scl_StorageClassName desired) (dcp_ExternallySelected claim))
        ''storage class does not match'',
      guard (scl_AccessModes existing \<noteq> scl_AccessModes desired) ''access modes do not match'',
      guard (dcp_ExternallySelected claim \<and> sl_Cmp lib (storageRequest existing) (storageRequest desired) < 0)
        ''referenced claim is smaller than requested''])"

definition validateExistingDataClaim :: "ServerLibrary \<Rightarrow> ServerClaim \<Rightarrow> DataClaimPlan \<Rightarrow> error option" where
  "validateExistingDataClaim lib existing claim = first_error
     [guard (dcp_RequiredUID claim \<noteq> [] \<and> claim_uid existing \<noteq> dcp_RequiredUID claim) ''claim UID does not match exact reference'',
      validateExistingDataClaimBase lib existing claim,
      guard (claim_label existing LabelDataIdentity \<noteq> claim_label (dcp_Desired claim) LabelDataIdentity)
        (labelMismatch LabelDataIdentity)]"

section \<open>Preflight\<close>

definition retainedDataFailure :: "string \<Rightarrow> string \<Rightarrow> reconcileFailure" where
  "retainedDataFailure reason message = newReconcileFailure ''StorageReady'' reason message True"

definition collisionFailure :: "string \<Rightarrow> string \<Rightarrow> string \<Rightarrow> string \<Rightarrow> reconcileFailure" where
  "collisionFailure conditionType kind key action = newReconcileFailure conditionType ''ResourceCollision''
     (kind @ '' '' @ key @ '' conflicts with this GameServer; '' @ action) True"

definition desired_key :: "DataClaimPlan \<Rightarrow> string" where
  "desired_key claim = key_text (pvc_Meta (dcp_Desired claim))"

abbreviation desired_meta :: "DataClaimPlan \<Rightarrow> ObjectMeta" where "desired_meta claim \<equiv> pvc_Meta (dcp_Desired claim)"

text \<open>A claim under the planned name that carries another data identity, where no exact claim was selected.\<close>

definition foreignIdentity :: "ServerClaim \<Rightarrow> DataClaimPlan \<Rightarrow> bool" where
  "foreignIdentity existing claim \<longleftrightarrow>
     dcp_RequiredUID claim = [] \<and> claim_label existing LabelDataIdentity \<noteq> claim_label (dcp_Desired claim) LabelDataIdentity"

definition preflightClaim :: "ServerLibrary \<Rightarrow> DataClaimPlan \<Rightarrow> ApiError + ServerClaim \<Rightarrow> reconcileFailure option" where
  "preflightClaim lib claim got = (case got of
       Inl NotFound \<Rightarrow> guard (dcp_RequiredUID claim \<noteq> []) (retainedDataFailure ''RetainedDataMissing''
         ''a referenced retained data claim is absent; restore it or select an existing exact claim before retrying'')
     | Inl (ApiFailure _) \<Rightarrow> Some (newReconcileFailure ''StorageReady'' ''StorageOperationFailed''
         (''PersistentVolumeClaim '' @ desired_key claim @ '' could not be inspected; inspect storage events and API availability'') True)
     | Inr existing \<Rightarrow>
         if foreignIdentity existing claim then
           (if validateExistingDataClaimBase lib existing claim \<noteq> None then
              Some (collisionFailure ''StorageReady'' ''PersistentVolumeClaim'' (desired_key claim)
                ''Arcadectl will not adopt or modify it; inspect ownership and identity before retrying'')
            else if claim_label existing LabelDataIdentity = [] then
              Some (retainedDataFailure ''RetainedDataConflict''
                ''a development-era claim has no durable data identity; do not upgrade in place or relabel it automatically'')
            else Some (retainedDataFailure ''RetainedDataReferenceRequired''
                ''retained data already uses the generated claim name; inspect it and provide an exact reattach reference''))
         else if validateExistingDataClaim lib existing claim \<noteq> None then
           Some (retainedDataFailure ''RetainedDataConflict''
             ''a retained data claim conflicts with the complete selected data set; inspect identity, UID, path, class, access mode, and ownership'')
         else None)"

fun preflightClaims :: "GameServerReconciler \<Rightarrow> DataClaimPlan list \<Rightarrow> reconcileFailure option server_program" where
  "preflightClaims r [] = State_Monad.return None"
| "preflightClaims r (claim # claims) = do {
     got \<leftarrow> ask (\<lambda>n. vw_Claim (runtimeReader r) n (meta_Namespace (desired_meta claim)) (meta_Name (desired_meta claim)));
     case preflightClaim (gsr_Library r) claim got of
       Some failure \<Rightarrow> State_Monad.return (Some failure)
     | None \<Rightarrow> preflightClaims r claims }"

definition plannedClaims :: "DataClaimPlan list \<Rightarrow> (string \<rightharpoonup> DataClaimPlan)" where
  "plannedClaims claims = foldl (\<lambda>m c. m(meta_Name (desired_meta c) \<mapsto> c)) Map.empty claims"

definition unplannedClaim :: "DataClaimPlan list \<Rightarrow> ServerClaim \<Rightarrow> bool" where
  "unplannedClaim claims actual = (case plannedClaims claims (claim_name actual) of
       None \<Rightarrow> True
     | Some planned \<Rightarrow> dcp_RequiredUID planned \<noteq> [] \<and> claim_uid actual \<noteq> dcp_RequiredUID planned)"

definition identityFailure :: "Plan \<Rightarrow> ServerClaim list \<Rightarrow> reconcileFailure option" where
  "identityFailure plan items = first_error
     [guard (list_ex (unplannedClaim (plan_DataClaims plan)) items) (retainedDataFailure ''RetainedDataConflict''
        ''the selected retained data identity is ambiguous; resolve extra or duplicate claims before retrying''),
      guard (plan_Reattach plan \<and> length items \<noteq> length (plan_DataClaims plan)) (retainedDataFailure ''RetainedDataConflict''
        ''the selected retained data identity is incomplete or ambiguous; verify every adapter path and exact claim reference'')]"

definition preflightStorage :: "GameServerReconciler \<Rightarrow> GameServer \<Rightarrow> Plan \<Rightarrow> reconcileFailure option server_program" where
  "preflightStorage r server plan = check (preflightClaims r (plan_DataClaims plan)) (do {
     listed \<leftarrow> ask (\<lambda>n. vw_Claims (runtimeReader r) n (serverNamespace server) [(LabelDataIdentity, plan_DataIdentity plan)]);
     State_Monad.return (case listed of
         Inl _ \<Rightarrow> Some (newReconcileFailure ''StorageReady'' ''StorageOperationFailed''
           ''retained data identity could not be inspected; inspect cluster API availability'' True)
       | Inr identityClaims \<Rightarrow> identityFailure plan (ls_Items identityClaims)) })"

section \<open>Creation and expansion\<close>

text \<open>The sentinel errors that \<^verbatim>\<open>Reconcile\<close> tells apart, and any other error.\<close>

datatype dataClaimError =
    errRetainedDataReferenceRequired | errRetainedDataMissing | errRetainedDataConflict | errDataClaimCollision | errDataClaimOperation

definition expandedClaim :: "ServerClaim \<Rightarrow> Quantity \<Rightarrow> ServerClaim" where
  "expandedClaim existing desiredSize = existing\<lparr> scl_Requests := (scl_Requests existing)(ResourceStorage \<mapsto> desiredSize) \<rparr>"

definition reconcileDataClaim :: "GameServerReconciler \<Rightarrow> DataClaimPlan \<Rightarrow> dataClaimError option server_program" where
  "reconcileDataClaim r claim = (let desired = dcp_Desired claim in do {
     got \<leftarrow> ask (\<lambda>n. vw_Claim (gsr_Client r) n (meta_Namespace (pvc_Meta desired)) (meta_Name (pvc_Meta desired)));
     case got of
       Inl NotFound \<Rightarrow>
         if dcp_RequiredUID claim \<noteq> [] then State_Monad.return (Some errRetainedDataMissing)
         else do {
           e \<leftarrow> request r (CreateClaim desired);
           State_Monad.return (map_option (\<lambda>_. errDataClaimOperation) e) }
     | Inl (ApiFailure _) \<Rightarrow> State_Monad.return (Some errDataClaimOperation)
     | Inr existing \<Rightarrow>
         if foreignIdentity existing claim then State_Monad.return (Some
           (if validateExistingDataClaimBase (gsr_Library r) existing claim \<noteq> None then errDataClaimCollision
            else if claim_label existing LabelDataIdentity = [] then errRetainedDataConflict
            else errRetainedDataReferenceRequired))
         else if validateExistingDataClaim (gsr_Library r) existing claim \<noteq> None then State_Monad.return (Some errRetainedDataConflict)
         else if 0 \<le> sl_Cmp (gsr_Library r) (storageRequest existing) (storageRequest desired) then State_Monad.return None
         else if dcp_ExternallySelected claim then State_Monad.return (Some errRetainedDataConflict)
         else do {
           e \<leftarrow> request r (UpdateClaim (expandedClaim existing (storageRequest desired)));
           State_Monad.return (map_option (\<lambda>_. errDataClaimOperation) e) } })"

definition dataClaimFailure :: "DataClaimPlan \<Rightarrow> dataClaimError \<Rightarrow> reconcileFailure" where
  "dataClaimFailure claim err = (case err of
       errRetainedDataMissing \<Rightarrow> newReconcileFailure ''StorageReady'' ''RetainedDataMissing''
         ''a referenced retained data claim disappeared; restore the exact claim before retrying'' True
     | errRetainedDataConflict \<Rightarrow> newReconcileFailure ''StorageReady'' ''RetainedDataConflict''
         ''retained data changed after preflight; no workload will mount it until its exact identity is restored'' True
     | errRetainedDataReferenceRequired \<Rightarrow> newReconcileFailure ''StorageReady'' ''RetainedDataReferenceRequired''
         ''retained data appeared under the generated claim name; inspect it and provide an exact reattach reference'' True
     | errDataClaimCollision \<Rightarrow> newReconcileFailure ''StorageReady'' ''ResourceCollision''
         (''PersistentVolumeClaim '' @ desired_key claim @ '' is not a valid Arcadectl retained claim; Arcadectl will not adopt or modify it'') True
     | errDataClaimOperation \<Rightarrow> newReconcileFailure ''StorageReady'' ''StorageOperationFailed''
         (''PersistentVolumeClaim '' @ desired_key claim @ '' could not be reconciled; inspect storage events and the storage provisioner'') True)"

fun reconcileDataClaims :: "GameServerReconciler \<Rightarrow> DataClaimPlan list \<Rightarrow> reconcileFailure option server_program" where
  "reconcileDataClaims r [] = State_Monad.return None"
| "reconcileDataClaims r (claim # claims) = do {
     e \<leftarrow> reconcileDataClaim r claim;
     case e of
       Some err \<Rightarrow> State_Monad.return (Some (dataClaimFailure claim err))
     | None \<Rightarrow> reconcileDataClaims r claims }"

section \<open>Observation\<close>

record storageObservation =
  so_ready :: bool
  so_status :: ConditionStatus
  so_reason :: string
  so_message :: string
  so_data :: "RetainedDataReference option"

definition waitingStorage :: "string \<Rightarrow> string \<Rightarrow> storageObservation" where
  "waitingStorage reason message = \<lparr> so_ready = False, so_status = ConditionFalse, so_reason = reason, so_message = message, so_data = None \<rparr>"

text \<open>The body of the loop after the claim was read: a failure, an observation that ends the loop, or the entry of the selection.\<close>

definition observeClaim :: "ServerLibrary \<Rightarrow> DataClaimPlan \<Rightarrow> ServerClaim \<Rightarrow> reconcileFailure + (storageObservation + RetainedDataClaimReference)" where
  "observeClaim lib claim actual =
     (if validateExistingDataClaim lib actual claim \<noteq> None then
        Inl (retainedDataFailure ''RetainedDataConflict''
          ''retained data changed after preflight; no workload will mount it until its exact identity is restored'')
      else if pvc_Phase actual = ClaimLost then
        Inl (newReconcileFailure ''StorageReady'' ''StorageOperationFailed''
          (''PersistentVolumeClaim '' @ desired_key claim @ '' is lost; inspect its PersistentVolume and storage recovery procedure'') False)
      else if pvc_Phase actual \<noteq> ClaimBound then
        Inr (Inl (waitingStorage ''ClaimsProvisioning''
          (''PersistentVolumeClaim '' @ desired_key claim @ '' is waiting to bind; inspect storage class and provisioner events'')))
      else if claim_uid actual = [] then
        Inl (retainedDataFailure ''RetainedDataConflict''
          ''a bound retained claim has no Kubernetes UID; no exact data identity can be reported'')
      else if pvc_VolumeName actual = [] then
        Inl (retainedDataFailure ''RetainedDataConflict''
          ''a bound retained claim has no backing PersistentVolume; inspect its exact storage identity'')
      else if sl_Cmp lib (quantity_at (scl_Capacity actual) ResourceStorage) (storageRequest (dcp_Desired claim)) < 0 then
        Inr (Inl (waitingStorage ''ClaimExpansionPending''
          (''PersistentVolumeClaim '' @ desired_key claim @ '' is waiting for requested capacity; inspect storage expansion events'')))
      else Inr (Inr \<lparr> rclaim_Path = claim_label (dcp_Desired claim) LabelDataPath,
        rclaim_ClaimRef = \<lparr> ref_Namespace = None, ref_Name = claim_name actual, ref_UID = claim_uid actual \<rparr> \<rparr>))"

fun observeClaims :: "GameServerReconciler \<Rightarrow> DataClaimPlan list \<Rightarrow> RetainedDataReference \<Rightarrow> (reconcileFailure + storageObservation) server_program" where
  "observeClaims r [] selection = State_Monad.return (Inr \<lparr> so_ready = True, so_status = ConditionTrue, so_reason = ''ClaimsReady'',
     so_message = ''all retained data claims are bound at their requested capacity'', so_data = Some selection \<rparr>)"
| "observeClaims r (claim # claims) selection = do {
     got \<leftarrow> ask (\<lambda>n. vw_Claim (runtimeReader r) n (meta_Namespace (desired_meta claim)) (meta_Name (desired_meta claim)));
     case got of
       Inl _ \<Rightarrow> State_Monad.return (Inl (newReconcileFailure ''StorageReady'' ''StorageOperationFailed''
         (''PersistentVolumeClaim '' @ desired_key claim @ '' could not be observed; inspect storage events and API availability'') True))
     | Inr actual \<Rightarrow> (case observeClaim (gsr_Library r) claim actual of
           Inl failure \<Rightarrow> State_Monad.return (Inl failure)
         | Inr (Inl waiting) \<Rightarrow> State_Monad.return (Inr waiting)
         | Inr (Inr entry) \<Rightarrow> observeClaims r claims
             \<lparr> rdata_Identity = (if rdata_Identity selection = [] then claim_label (dcp_Desired claim) LabelDataIdentity else rdata_Identity selection),
               rdata_Claims = rdata_Claims selection @ [entry] \<rparr>) }"

definition observeStorage :: "GameServerReconciler \<Rightarrow> DataClaimPlan list \<Rightarrow> (reconcileFailure + storageObservation) server_program" where
  "observeStorage r claims = observeClaims r claims \<lparr> rdata_Identity = [], rdata_Claims = [] \<rparr>"

section \<open>Cold-backup markers\<close>

definition claim_marker :: "ServerClaim \<Rightarrow> string" where
  "claim_marker c = mget (meta_Annotations (pvc_Meta c)) AnnotationColdBackupUID"

definition unmarkedClaim :: "ServerClaim \<Rightarrow> ServerClaim" where
  "unmarkedClaim c = c\<lparr> pvc_Meta := (pvc_Meta c)\<lparr> meta_Annotations := (meta_Annotations (pvc_Meta c))(AnnotationColdBackupUID := None) \<rparr> \<rparr>"

definition clearColdBackupMarker :: "GameServerReconciler \<Rightarrow> GameServer \<Rightarrow> DataClaimPlan \<Rightarrow> error option server_program" where
  "clearColdBackupMarker r server planned = do {
     got \<leftarrow> ask (\<lambda>n. vw_Claim (runtimeReader r) n (serverNamespace server) (meta_Name (desired_meta planned)));
     case got of
       Inl e \<Rightarrow> State_Monad.return (if e = NotFound \<and> dcp_RequiredUID planned = [] then None else Some ''selected world claim is unavailable'')
     | Inr claim \<Rightarrow>
         if claim_marker claim = [] then State_Monad.return None
         else if claim_uid claim = [] \<or> terminating (pvc_Meta claim) \<or> validateExistingDataClaim (gsr_Library r) claim planned \<noteq> None
         then State_Monad.return (Some ''selected world claim changed before runtime activation'')
         else do {
           e \<leftarrow> request r (PatchClaim claim (unmarkedClaim claim));
           State_Monad.return (map_option (\<lambda>_. ''invalidate prior cold backup marker failed; runtime remains blocked'') e) } }"

definition clearColdBackupMarkers :: "GameServerReconciler \<Rightarrow> GameServer \<Rightarrow> DataClaimPlan list \<Rightarrow> error option server_program" where
  "clearColdBackupMarkers r server claims =
     (if claims = [] then State_Monad.return (Some ''selected world identity is unavailable'')
      else each (clearColdBackupMarker r server) claims)"

end
