(* ===== verification/TranslatorPlan.thy ===== *)
theory TranslatorPlan
  imports ServerFence ServerStorage
begin

text \<open>
  The operation translator, \<^verbatim>\<open>arcadeoperation\_controller.go\<close>: what it reads and may ask for, the status of a receipt, and
  the plan that freezes what an admitted operation will do. \<^verbatim>\<open>arcadeoperation\_server.go\<close> and
  \<^verbatim>\<open>arcadeoperation\_data.go\<close>, which carry a plan out, and \<^verbatim>\<open>Reconcile\<close> are in the theories that follow.

  A nil pointer that the code dereferences is the error \<open>operationPanic\<close>: the model keeps the panics that a wrong
  request could cause, and the theorems show that none is reached. A parameter is the encoding of a patch by
  \<^verbatim>\<open>json.Marshal\<close>, which goes through the encoders of quantities outside the repository.
\<close>

section \<open>The cluster\<close>

record OperationView = ServerView +
  vw_Backup :: "nat \<Rightarrow> string \<Rightarrow> string \<Rightarrow> ApiError + GameBackup"
  vw_Restore :: "nat \<Rightarrow> string \<Rightarrow> string \<Rightarrow> ApiError + GameRestore"
  vw_Destroy :: "nat \<Rightarrow> string \<Rightarrow> string \<Rightarrow> ApiError + GameDestroy"
  vw_Secret :: "nat \<Rightarrow> string \<Rightarrow> string \<Rightarrow> ApiError + ObjectMeta"

datatype PatchValue = PatchText string | PatchMap "string \<rightharpoonup> string" | PatchSpec GameServerSpec | PatchBool bool

record operationJSONPatch =
  ojp_Op :: string
  ojp_Path :: string
  ojp_Value :: PatchValue

text \<open>
  A patch carries the object as read, the operations and their encoding; a deletion its preconditions.
\<close>

datatype OperationMessage =
    StatusOperation ArcadeOperation
  | UpdateOperation ArcadeOperation
  | CreateFence Lease
  | DeleteFence (df_namespace: string) (df_name: string) (df_uid: UID) (df_version: string)
  | CreateServer GameServer
  | PatchServer GameServer "operationJSONPatch list" bytes
  | DeleteServer (ds_namespace: string) (ds_name: string) (ds_uid: UID) (ds_version: string)
  | CreateBackup GameBackup
  | CreateRestore GameRestore
  | CreateDestroy GameDestroy
  | PatchDestroy GameDestroy "operationJSONPatch list" bytes

type_synonym 'a operation_program = "(OperationMessage session_of, 'a) state"

text \<open>A successful \<^verbatim>\<open>Patch\<close> replaces the object in memory by the answer, so that the answer for a server is one.\<close>

record ArcadeOperationReconciler =
  aor_Client :: OperationView
  aor_APIReader :: "OperationView option"
  aor_Catalog :: "(string \<Rightarrow> catalog_error + Definition) option"
  aor_Now :: "nat \<Rightarrow> Time"
  aor_Library :: ServerLibrary
  aor_Operations :: OperationsEnv
  aor_MarshalPatch :: "operationJSONPatch list \<Rightarrow> bytes option"
  aor_Respond :: "nat \<Rightarrow> OperationMessage \<Rightarrow> ApiError option"
  aor_RespondServer :: "nat \<Rightarrow> GameServer \<Rightarrow> operationJSONPatch list \<Rightarrow> ApiError + GameServer"

datatype operationError =
    operationIssue string
  | operationApi ApiError
  | operationText string
  | operationPanic

definition operation_reader :: "ArcadeOperationReconciler \<Rightarrow> OperationView" where
  "operation_reader r = (case aor_APIReader r of Some reader \<Rightarrow> reader | None \<Rightarrow> aor_Client r)"

definition operation_send :: "ArcadeOperationReconciler \<Rightarrow> OperationMessage \<Rightarrow> ApiError option operation_program" where
  "operation_send r q = send_to (\<lambda>n. aor_Respond r n q) q"

text \<open>\<^verbatim>\<open>operationReference\<close>: only an authoritative \<^verbatim>\<open>NotFound\<close> is evidence; every other failure is retried.\<close>

definition operationReference :: "(nat \<Rightarrow> ApiError + 'a) \<Rightarrow> string \<Rightarrow> (operationError + 'a) operation_program" where
  "operationReference get missingCode = do {
     got \<leftarrow> ask get;
     State_Monad.return (case got of
         Inl NotFound \<Rightarrow> Inl (operationIssue missingCode)
       | Inl (ApiFailure t) \<Rightarrow> Inl (operationApi (ApiFailure t))
       | Inr v \<Rightarrow> Inr v) }"

abbreviation operationUID :: "ArcadeOperation \<Rightarrow> UID" where "operationUID o' \<equiv> meta_UID (ao_Meta o')"
abbreviation operationName :: "ArcadeOperation \<Rightarrow> string" where "operationName o' \<equiv> meta_Name (ao_Meta o')"
abbreviation operationNamespace :: "ArcadeOperation \<Rightarrow> string" where "operationNamespace o' \<equiv> meta_Namespace (ao_Meta o')"
abbreviation actionOf :: "ArcadeOperation \<Rightarrow> ArcadeOperationAction" where "actionOf o' \<equiv> aos_Action (ao_Spec o')"
abbreviation requestOf :: "ArcadeOperation \<Rightarrow> OperationRequest" where "requestOf o' \<equiv> aos_Request (ao_Spec o')"

section \<open>The status of a receipt\<close>

definition operation_now :: "ArcadeOperationReconciler \<Rightarrow> Time operation_program" where
  "operation_now r = ask (aor_Now r)"

definition operationStatus ::
  "ArcadeOperationReconciler \<Rightarrow> ArcadeOperation \<Rightarrow> ArcadeOperationPhase \<Rightarrow> (ArcadeOperationStatus \<Rightarrow> ArcadeOperationStatus) \<Rightarrow> operationError option operation_program" where
  "operationStatus r o' phase modify = do {
     started \<leftarrow> (case aost_StartedAt (ao_Status o') of Some t \<Rightarrow> State_Monad.return t | None \<Rightarrow> operation_now r);
     let status = modify ((ao_Status o')\<lparr> aost_ObservedGeneration := meta_Generation (ao_Meta o'), aost_Phase := phase, aost_StartedAt := Some started \<rparr>);
     status \<leftarrow> (if operationTerminal phase then do {
         t \<leftarrow> operation_now r;
         State_Monad.return (status\<lparr> aost_CompletedAt := Some t, aost_Failure := (if phase \<noteq> OperationPhaseFailed then None else aost_Failure status) \<rparr>) }
       else State_Monad.return status);
     e \<leftarrow> operation_send r (StatusOperation (o'\<lparr> ao_Status := status \<rparr>));
     State_Monad.return (map_option (\<lambda>_. operationText ''persist operation journal failed'') e) }"

definition operationFailure :: "string \<Rightarrow> OperationFailure" where
  "operationFailure code =
     (let message =
        (if code = ''invalid_request'' \<or> code = ''receipt_invalid'' then ''The receipt does not satisfy the supported lifecycle request contract.''
         else if code = ''target_changed'' \<or> code = ''child_changed'' then ''The exact target or operation child changed; no replacement was adopted.''
         else if code = ''operation_conflict'' then ''Another exact operation owns the retained-world fence.''
         else if code = ''invalid_reference'' then ''Exact retained-world or verified-backup evidence is unavailable.''
         else if code = ''secret_unavailable'' then ''The named immutable repository Secret metadata is unavailable.''
         else if code = ''validation_failed'' \<or> code = ''unsupported'' then ''The server intent does not satisfy its installed adapter contract.''
         else if code = ''api_unavailable'' then ''The recorded server intent has not reached its requested observed runtime state.''
         else if code = ''verification_failed'' then ''The native operation refused repository or data verification.''
         else if code = ''worker_failed'' then ''The native operation failed; the translator did not alter world data.''
         else if code = ''too_late'' then ''Cancellation or confirmation is no longer applicable to this destroy.''
         else if code = ''confirmation_expired'' then ''The exact destroy preview challenge has expired.''
         else ''The operation could not safely finish.'');
          action =
        (if code = ''operation_conflict'' then ''Wait for the existing data operation to settle, then submit a new receipt.''
         else if code = ''invalid_reference'' then ''Reattach the exact retained world and create a fresh leave-stopped verified backup before destruction.''
         else if code = ''secret_unavailable'' then ''Create a valid immutable repository Secret and submit a new receipt.''
         else if code = ''api_unavailable'' then ''Inspect server readiness and Kubernetes availability; the applied intent may still converge and waiting does not cancel it.''
         else if code = ''confirmation_expired'' then ''Cancel the old preview and request a new preview before confirming.''
         else ''Inspect the receipt and current exact target, then submit a new idempotency key after correction.'') in
      \<lparr> ofl_Code = code, ofl_Retryable = False, ofl_Message = message, ofl_SuggestedAction = action \<rparr>)"

definition operationProgressGuidance :: "ArcadeOperationReconciler \<Rightarrow> ArcadeOperation \<Rightarrow> string \<Rightarrow> operationError option operation_program" where
  "operationProgressGuidance r o' code =
     (let failure = (operationFailure code)\<lparr> ofl_Retryable := True,
        ofl_SuggestedAction := ''Continue observing this receipt and inspect its exact server or native operation; admitted work remains active and waiting does not cancel it.'' \<rparr> in
      if (case aost_Failure (ao_Status o') of None \<Rightarrow> False | Some f \<Rightarrow> ofl_Code f = ofl_Code failure \<and> ofl_Retryable f) then State_Monad.return None
      else operationStatus r o' (aost_Phase (ao_Status o')) (\<lambda>s. s\<lparr> aost_Failure := Some failure \<rparr>))"

definition operationRetry :: "error option \<Rightarrow> Reconciled" where
  "operationRetry err = requeue_after second err"

text \<open>
  The text of an error. A panic is no error value.
\<close>

definition errorText :: "operationError option \<Rightarrow> error option" where
  "errorText e = (case e of
       None \<Rightarrow> None
     | Some (operationIssue code) \<Rightarrow> Some (''operation could not proceed: '' @ code)
     | Some (operationApi a) \<Rightarrow> Some (api_message a)
     | Some (operationText t) \<Rightarrow> Some t
     | Some operationPanic \<Rightarrow> None)"

definition failOperation :: "ArcadeOperationReconciler \<Rightarrow> ArcadeOperation \<Rightarrow> string \<Rightarrow> Reconciled operation_program" where
  "failOperation r o' code = do {
     e \<leftarrow> operationStatus r o' OperationPhaseFailed (\<lambda>s. s\<lparr> aost_Failure := Some (operationFailure code) \<rparr>);
     State_Monad.return (operationRetry (errorText e)) }"

text \<open>A panic unwinds through \<^verbatim>\<open>Reconcile\<close>, which then has no result.\<close>

definition operationResultError :: "ArcadeOperationReconciler \<Rightarrow> ArcadeOperation \<Rightarrow> operationError \<Rightarrow> Reconciled option operation_program" where
  "operationResultError r o' err = (case err of
       operationIssue code \<Rightarrow> do { x \<leftarrow> failOperation r o' code; State_Monad.return (Some x) }
     | operationPanic \<Rightarrow> State_Monad.return None
     | _ \<Rightarrow> State_Monad.return (Some (operationRetry (Some ''operation reconciliation is awaiting Kubernetes API availability''))))"

section \<open>The evidence behind a plan\<close>

definition validateOperationImage :: "ArcadeOperationReconciler \<Rightarrow> string \<Rightarrow> OperationImageInput option \<Rightarrow> operationError option" where
  "validateOperationImage r gameID image' = (case (aor_Catalog r, image') of
       (Some catalog, Some i) \<Rightarrow> (case catalog gameID of
           Inl _ \<Rightarrow> Some (operationIssue ''unsupported'')
         | Inr d \<Rightarrow> first_error
             [guard (ires_Repository (img_Resolution i) \<noteq> def_ImageRepository d) (operationIssue ''validation_failed''),
              guard (if img_Version i \<noteq> [] then
                  (case ResolveVersionTag (plan_library (aor_Library r)) d (img_Version i) of
                     Inl _ \<Rightarrow> True
                   | Inr tag \<Rightarrow> tag \<noteq> ires_Tag (img_Resolution i) \<or> ires_ResolverVersion (img_Resolution i) \<noteq> ''registry-v1'')
                else ires_Tag (img_Resolution i) \<noteq> [] \<or> ires_ResolverVersion (img_Resolution i) \<noteq> ''digest-v1'' \<or>
                  img_Digest i \<noteq> ires_Digest (img_Resolution i)) (operationIssue ''validation_failed'')])
     | _ \<Rightarrow> Some (operationIssue ''unsupported''))"

datatype intentError = IntentUnsupported | IntentUnknownGame catalog_error | IntentUnplannable PlanError

definition validateOperationIntent :: "ArcadeOperationReconciler \<Rightarrow> GameServer \<Rightarrow> intentError option" where
  "validateOperationIntent r server = (case aor_Catalog r of
       None \<Rightarrow> Some IntentUnsupported
     | Some catalog \<Rightarrow> (case catalog (gss_Game (gs_Spec server)) of
         Inl e \<Rightarrow> Some (IntentUnknownGame e)
       | Inr d \<Rightarrow> (case Build (aor_Library r) server d of Inl e \<Rightarrow> Some (IntentUnplannable e) | Inr _ \<Rightarrow> None)))"

definition operationExactServer :: "GameServer \<Rightarrow> ExactGameServerReference option \<Rightarrow> bool" where
  "operationExactServer server reference = (case reference of
       None \<Rightarrow> False
     | Some g \<Rightarrow> ref_Namespace (gref_Local g) = None \<and> \<not> terminating (gs_Meta server) \<and> serverUID server = ref_UID (gref_Local g) \<and>
         serverName server = ref_Name (gref_Local g) \<and> meta_Generation (gs_Meta server) = gref_Generation g \<and>
         gss_DesiredState (gs_Spec server) = gref_DesiredState g)"

definition serverClaimReference :: "ArcadeOperationReconciler \<Rightarrow> DataClaimPlan \<Rightarrow> ServerClaim \<Rightarrow> operationError + RetainedDataClaimReference" where
  "serverClaimReference r claim pvc =
     (if meta_UID (pvc_Meta pvc) = [] \<or> validateExistingDataClaim (aor_Library r) pvc claim \<noteq> None \<or> pvc_Phase pvc \<noteq> ClaimBound \<or> pvc_VolumeName pvc = []
      then Inl (operationIssue ''invalid_reference'')
      else Inr \<lparr> rclaim_Path = mget (meta_Labels (pvc_Meta (dcp_Desired claim))) LabelDataPath,
        rclaim_ClaimRef = \<lparr> ref_Namespace = None, ref_Name = meta_Name (pvc_Meta pvc), ref_UID = meta_UID (pvc_Meta pvc) \<rparr> \<rparr>)"

fun serverClaims :: "ArcadeOperationReconciler \<Rightarrow> DataClaimPlan list \<Rightarrow> RetainedDataReference \<Rightarrow> (operationError + RetainedDataReference) operation_program" where
  "serverClaims r [] data = State_Monad.return (Inr data)"
| "serverClaims r (claim # rest) data =
     attempt (operationReference (\<lambda>n. vw_Claim (operation_reader r) n (meta_Namespace (pvc_Meta (dcp_Desired claim))) (meta_Name (pvc_Meta (dcp_Desired claim)))) ''invalid_reference'')
       (\<lambda>pvc. case serverClaimReference r claim pvc of
            Inl e \<Rightarrow> State_Monad.return (Inl e)
          | Inr ref \<Rightarrow> serverClaims r rest (data\<lparr> rdata_Claims := rdata_Claims data @ [ref] \<rparr>))"

definition operationServerData :: "ArcadeOperationReconciler \<Rightarrow> GameServer \<Rightarrow> (operationError + RetainedDataReference) operation_program" where
  "operationServerData r server = (case aor_Catalog r of
       None \<Rightarrow> State_Monad.return (Inl (operationIssue ''unsupported''))
     | Some catalog \<Rightarrow> (case catalog (gss_Game (gs_Spec server)) of
         Inl _ \<Rightarrow> State_Monad.return (Inl (operationIssue ''unsupported''))
       | Inr d \<Rightarrow> (case Build (aor_Library r) server d of
           Inl _ \<Rightarrow> State_Monad.return (Inl (operationIssue ''validation_failed''))
         | Inr plan \<Rightarrow> attempt (serverClaims r (plan_DataClaims plan) \<lparr> rdata_Identity = plan_DataIdentity plan, rdata_Claims = [] \<rparr>)
             (\<lambda>data. State_Monad.return
                (if gst_ActiveData (gs_Status server) \<noteq> None \<and>
                    (\<not> sameDataSelection (Some data) (gst_ActiveData (gs_Status server)) \<or> \<not> sameDataSelection (Some data) (gst_ObservedData (gs_Status server)))
                 then Inl (operationIssue ''target_changed'') else Inr data)))))"

definition operationRuntimeObserved :: "GameServer \<Rightarrow> DesiredState \<Rightarrow> RetainedDataReference option \<Rightarrow> bool" where
  "operationRuntimeObserved server desired data \<longleftrightarrow>
     \<not> (gst_ObservedGeneration (gs_Status server) \<noteq> meta_Generation (gs_Meta server) \<or> gss_DesiredState (gs_Spec server) \<noteq> desired \<or>
        \<not> sameDataSelection data (gst_ObservedData (gs_Status server))) \<and>
     (if desired = DesiredStateStopped then gst_Phase (gs_Status server) = PhaseStopped
      else gst_Phase (gs_Status server) = PhaseReady \<and>
        (case FindStatusCondition (gst_Conditions (gs_Status server)) ''Ready'' of
           None \<Rightarrow> False
         | Some ready \<Rightarrow> cond_Status ready = ConditionTrue \<and> cond_ObservedGeneration ready = meta_Generation (gs_Meta server)))"

definition retainedOperationWorld :: "ArcadeOperationReconciler \<Rightarrow> string \<Rightarrow> OperationRetainedWorldSelector \<Rightarrow> (operationError + OperationRetainedWorld) operation_program" where
  "retainedOperationWorld r namespace selector =
     (if ref_Namespace (sel_DecommissionOperationRef selector) \<noteq> None then State_Monad.return (Inl (operationIssue ''invalid_reference''))
      else attempt (operationReference (\<lambda>n. vw_Operation (operation_reader r) n namespace (ref_Name (sel_DecommissionOperationRef selector))) ''invalid_reference'')
        (\<lambda>prior. State_Monad.return (case aost_RetainedWorld (ao_Status prior) of
             None \<Rightarrow> Inl (operationIssue ''invalid_reference'')
           | Some world \<Rightarrow>
               if operationUID prior \<noteq> ref_UID (sel_DecommissionOperationRef selector) \<or> actionOf prior \<noteq> OperationServerDecommission \<or>
                  aost_Phase (ao_Status prior) \<noteq> OperationPhaseSucceeded then Inl (operationIssue ''invalid_reference'')
               else (case RetainedSnapshotDigest (aor_Operations r) (orw_Target world) of
                   None \<Rightarrow> Inl (operationIssue ''invalid_reference'')
                 | Some digest \<Rightarrow>
                     if digest \<noteq> sel_SnapshotDigest selector \<or> digest \<noteq> orw_SnapshotDigest world then Inl (operationIssue ''invalid_reference'')
                     else Inr world))))"

section \<open>Plans\<close>

text \<open>\<^verbatim>\<open>planOperationBackup\<close>: the backup that a restore or a destruction rests on.\<close>

definition backupUnverified :: "GameBackup \<Rightarrow> ExactLocalReference \<Rightarrow> bool" where
  "backupUnverified backup ref = (case (st_Artifact (gb_Status backup), st_Source (gb_Status backup)) of
       (Some artifact, Some source) \<Rightarrow>
         meta_UID (gb_Meta backup) \<noteq> ref_UID ref \<or> terminating (gb_Meta backup) \<or>
         st_ObservedGeneration (gb_Status backup) \<noteq> meta_Generation (gb_Meta backup) \<or> st_Phase (gb_Status backup) \<noteq> DataPhaseSucceeded \<or>
         ver_Result (art_Verification artifact) \<noteq> VerificationVerified \<or>
         (case ver_VerifiedAt (art_Verification artifact) of None \<Rightarrow> True | Some t \<Rightarrow> time_IsZero t) \<or>
         art_PathCount artifact \<noteq> of_nat (length (src_Paths source)) \<or>
         prov_BackupRef (art_Provenance artifact) \<noteq> ref \<or>
         prov_RepositorySecretRef (art_Provenance artifact) \<noteq> req_RepositorySecretRef (bspec_Request (gb_Spec backup))
     | _ \<Rightarrow> True)"

text \<open>A destruction asks for a backup of the very world, taken cold and left stopped.\<close>

definition backupNotCold :: "GameBackup \<Rightarrow> DataSourceSnapshot \<Rightarrow> OperationPlan \<Rightarrow> bool" where
  "backupNotCold backup source plan = (case (st_Runtime (gb_Status backup), opl_Server plan, opl_Data plan) of
       (Some runtime, Some server, Some data) \<Rightarrow>
         req_RestartPolicy (bspec_Request (gb_Spec backup)) \<noteq> RestartLeaveStopped \<or> rt_Phase runtime \<noteq> PhaseStopped \<or>
         gref_DesiredState (rt_GameServer runtime) \<noteq> DesiredStateStopped \<or>
         ref_UID (gref_Local (bspec_Source (gb_Spec backup))) \<noteq> ref_UID (gref_Local server) \<or>
         ref_Name (gref_Local (bspec_Source (gb_Spec backup))) \<noteq> ref_Name (gref_Local server) \<or>
         \<not> sameDataSelection (Some \<lparr> rdata_Identity = rdata_Identity data,
               rdata_Claims = map (\<lambda>p. \<lparr> rclaim_Path = dp_Name p, rclaim_ClaimRef = dp_ClaimRef p \<rparr>) (src_Paths source) \<rparr>) (Some data)
     | _ \<Rightarrow> True)"

definition coldClaim :: "ArcadeOperationReconciler \<Rightarrow> string \<Rightarrow> string \<Rightarrow> UID \<Rightarrow> RetainedDataClaimReference \<Rightarrow> operationError option operation_program" where
  "coldClaim r namespace identity backupUID claim = do {
     got \<leftarrow> operationReference (\<lambda>n. vw_Claim (operation_reader r) n namespace (ref_Name (rclaim_ClaimRef claim))) ''invalid_reference'';
     State_Monad.return (case got of
         Inl e \<Rightarrow> Some e
       | Inr pvc \<Rightarrow> guard (meta_UID (pvc_Meta pvc) \<noteq> ref_UID (rclaim_ClaimRef claim) \<or> terminating (pvc_Meta pvc) \<or>
             mget (meta_Labels (pvc_Meta pvc)) LabelDataIdentity \<noteq> identity \<or> mget (meta_Labels (pvc_Meta pvc)) LabelDataPath \<noteq> rclaim_Path claim \<or>
             mget (meta_Annotations (pvc_Meta pvc)) AnnotationColdBackupUID \<noteq> backupUID) (operationIssue ''invalid_reference'')) }"

definition backedPlan :: "OperationPlan \<Rightarrow> ExactLocalReference \<Rightarrow> GameBackup \<Rightarrow> OperationPlan" where
  "backedPlan plan ref backup = plan\<lparr> opl_BackupRef := Some ref,
     opl_RepositorySecretRef := map_option (\<lambda>a. prov_RepositorySecretRef (art_Provenance a)) (st_Artifact (gb_Status backup)) \<rparr>"

definition planOperationBackup :: "ArcadeOperationReconciler \<Rightarrow> ArcadeOperation \<Rightarrow> OperationPlan \<Rightarrow> ExactLocalReference \<Rightarrow> (operationError + OperationPlan) operation_program" where
  "planOperationBackup r o' plan ref =
     (if ref_Namespace ref \<noteq> None then State_Monad.return (Inl (operationIssue ''invalid_reference''))
      else attempt (operationReference (\<lambda>n. vw_Backup (operation_reader r) n (operationNamespace o') (ref_Name ref)) ''invalid_reference'') (\<lambda>backup.
        if backupUnverified backup ref then State_Monad.return (Inl (operationIssue ''invalid_reference''))
        else if actionOf o' \<noteq> OperationWorldDestroyPreview then State_Monad.return (Inr (backedPlan plan ref backup))
        else (case (st_Source (gb_Status backup), opl_Data plan) of
            (Some source, Some data) \<Rightarrow>
              if backupNotCold backup source plan then State_Monad.return (Inl (operationIssue ''invalid_reference''))
              else do {
                e \<leftarrow> each (coldClaim r (operationNamespace o') (rdata_Identity data) (ref_UID ref)) (rdata_Claims data);
                State_Monad.return (case e of Some err \<Rightarrow> Inl err | None \<Rightarrow> Inr (backedPlan plan ref backup)) }
          | _ \<Rightarrow> State_Monad.return (Inl (operationIssue ''invalid_reference'')))))"

text \<open>
  \<^verbatim>\<open>operationDestroyCommandObjects\<close> and \<^verbatim>\<open>planDestroyCommand\<close>: a command acts on the destruction that its parent receipt
  previewed.
\<close>

definition commandParentChanged :: "ArcadeOperation \<Rightarrow> OperationDestroyCommand \<Rightarrow> Precondition \<Rightarrow> bool" where
  "commandParentChanged parent command precondition = (case (aost_Plan (ao_Status parent), aost_Child (ao_Status parent)) of
       (Some plan, Some child) \<Rightarrow>
         operationUID parent \<noteq> ref_UID (dcmd_ParentOperationRef command) \<or> meta_Generation (ao_Meta parent) \<noteq> pre_Generation precondition \<or>
         actionOf parent \<noteq> OperationWorldDestroyPreview \<or> och_Kind child \<noteq> ''GameDestroy'' \<or>
         ref_Name (och_Local child) \<noteq> ref_Name (dcmd_DestroyRef command) \<or> ref_UID (och_Local child) \<noteq> ref_UID (dcmd_DestroyRef command)
     | _ \<Rightarrow> True)"

definition commandDestroyChanged :: "ArcadeOperation \<Rightarrow> OperationDestroyCommand \<Rightarrow> GameDestroy \<Rightarrow> bool" where
  "commandDestroyChanged parent command destroy = (case (aost_Plan (ao_Status parent), aost_RetainedWorld (ao_Status parent)) of
       (Some plan, Some world) \<Rightarrow>
         meta_UID (gd_Meta destroy) \<noteq> ref_UID (dcmd_DestroyRef command) \<or> terminating (gd_Meta destroy) \<or>
         mget (meta_Labels (gd_Meta destroy)) operationReceiptUIDLabel \<noteq> operationUID parent \<or>
         mget (meta_Annotations (gd_Meta destroy)) operationReceiptNameAnnotation \<noteq> operationName parent \<or>
         ds_Mode (gd_Spec destroy) \<noteq> DestroyModeVerifiedBackup \<or> ds_Target (gd_Spec destroy) \<noteq> orw_Target world \<or>
         ds_BackupRef (gd_Spec destroy) \<noteq> opl_BackupRef plan \<or> ds_RepositorySecretRef (gd_Spec destroy) \<noteq> opl_RepositorySecretRef plan
     | _ \<Rightarrow> True)"

definition operationDestroyCommandObjects :: "ArcadeOperationReconciler \<Rightarrow> ArcadeOperation \<Rightarrow> (operationError + ArcadeOperation \<times> GameDestroy) operation_program" where
  "operationDestroyCommandObjects r o' = (case ParsePrecondition (oreq_Precondition (requestOf o')) of
       None \<Rightarrow> State_Monad.return (Inl (operationIssue ''invalid_request''))
     | Some precondition \<Rightarrow>
         if pre_Kind precondition \<noteq> ''operation'' then State_Monad.return (Inl (operationIssue ''invalid_request''))
         else (case oreq_DestroyCommand (requestOf o') of
             None \<Rightarrow> State_Monad.return (Inl (operationIssue ''invalid_reference''))
           | Some command \<Rightarrow>
               if ref_Namespace (dcmd_ParentOperationRef command) \<noteq> None \<or> ref_Namespace (dcmd_DestroyRef command) \<noteq> None
               then State_Monad.return (Inl (operationIssue ''invalid_reference''))
               else attempt (operationReference (\<lambda>n. vw_Operation (operation_reader r) n (operationNamespace o') (ref_Name (dcmd_ParentOperationRef command))) ''invalid_reference'') (\<lambda>parent.
                 if commandParentChanged parent command precondition then State_Monad.return (Inl (operationIssue ''invalid_reference''))
                 else attempt (operationReference (\<lambda>n. vw_Destroy (operation_reader r) n (operationNamespace o') (ref_Name (dcmd_DestroyRef command))) ''invalid_reference'') (\<lambda>destroy.
                   if commandDestroyChanged parent command destroy then State_Monad.return (Inl (operationIssue ''child_changed''))
                   else State_Monad.return (Inr (parent, destroy))))))"

definition planDestroyCommand :: "ArcadeOperationReconciler \<Rightarrow> ArcadeOperation \<Rightarrow> (operationError + OperationPlan \<times> OperationRetainedWorld option) operation_program" where
  "planDestroyCommand r o' = attempt (operationDestroyCommandObjects r o') (\<lambda>(parent, destroy).
     State_Monad.return (case (aost_Plan (ao_Status parent), oreq_DestroyCommand (requestOf o')) of
         (Some plan, Some command) \<Rightarrow>
           if ds_Mode (gd_Spec destroy) \<noteq> DestroyModeVerifiedBackup then Inl (operationIssue ''invalid_reference'')
           else Inr (plan\<lparr> opl_DestroyRef := Some (dcmd_DestroyRef command) \<rparr>, None)
       | _ \<Rightarrow> Inl operationPanic))"

definition emptyPlan :: OperationPlan where
  "emptyPlan = \<lparr> opl_Server = None, opl_ServerIntent = None, opl_Data = None, opl_RepositorySecretRef = None, opl_BackupRef = None, opl_DestroyRef = None \<rparr>"

definition emptyServerStatus :: GameServerStatus where
  "emptyServerStatus = \<lparr> gst_ObservedGeneration = 0, gst_ActiveData = None, gst_ObservedData = None, gst_Phase = PhaseOther [], gst_Conditions = [], gst_Endpoints = [] \<rparr>"

text \<open>Validating an intent and freezing it, for a creation and for a change.\<close>

definition freezeIntent :: "ArcadeOperationReconciler \<Rightarrow> GameServer \<Rightarrow> OperationPlan \<Rightarrow> operationError + OperationPlan" where
  "freezeIntent r server plan =
     (if validateOperationIntent r server \<noteq> None then Inl (operationIssue ''validation_failed'')
      else (case ServerIntent (gs_Spec server) of
          None \<Rightarrow> Inl (operationIssue ''validation_failed'')
        | Some frozen \<Rightarrow> Inr (plan\<lparr> opl_ServerIntent := Some frozen \<rparr>)))"

definition planCreate :: "ArcadeOperationReconciler \<Rightarrow> ArcadeOperation \<Rightarrow> (operationError + OperationPlan \<times> OperationRetainedWorld option) operation_program" where
  "planCreate r o' = (case (oreq_Create (requestOf o'), oreq_Image (requestOf o')) of
       (Some create, image') \<Rightarrow>
         if stor_Reattach (cin_Storage create) \<noteq> None then State_Monad.return (Inl (operationIssue ''invalid_request''))
         else (case image' of
             None \<Rightarrow> State_Monad.return (Inl operationPanic)
           | Some i \<Rightarrow>
               (let intent = \<lparr> gss_Game = cin_Game create, gss_ImageDigest = ires_Digest (img_Resolution i), gss_DesiredState = cin_DesiredState create,
                      gss_Compute = cin_Compute create, gss_Storage = cin_Storage create, gss_Settings = cin_SettingsJSON create \<rparr>;
                    finish = (\<lambda>intent plan. State_Monad.return (map_sum id (\<lambda>p. (p, None)) (freezeIntent r
                      \<lparr> gs_Meta = (freshMeta (oreq_ServerName (requestOf o')) (operationNamespace o') Map.empty Map.empty [])\<lparr> meta_UID := operationUID o' \<rparr>,
                        gs_Spec = intent, gs_Status = emptyServerStatus \<rparr> plan))) in
                case validateOperationImage r (gss_Game intent) image' of
                  Some e \<Rightarrow> State_Monad.return (Inl e)
                | None \<Rightarrow> (case cin_RetainedWorld create of
                    None \<Rightarrow> finish intent emptyPlan
                  | Some selector \<Rightarrow> attempt (retainedOperationWorld r (operationNamespace o') selector) (\<lambda>world.
                      if dt_Game (orw_Target world) \<noteq> gss_Game intent then State_Monad.return (Inl (operationIssue ''invalid_reference''))
                      else finish (intent\<lparr> gss_Storage := (gss_Storage intent)\<lparr> stor_Reattach := Some (dt_Data (orw_Target world)) \<rparr> \<rparr>)
                        (emptyPlan\<lparr> opl_Data := Some (dt_Data (orw_Target world)) \<rparr>)))))
     | _ \<Rightarrow> State_Monad.return (Inl operationPanic))"

definition planRetainedDestroy ::
  "ArcadeOperationReconciler \<Rightarrow> ArcadeOperation \<Rightarrow> ExactLocalReference \<Rightarrow> OperationRetainedWorldSelector \<Rightarrow> (operationError + OperationPlan \<times> OperationRetainedWorld option) operation_program" where
  "planRetainedDestroy r o' backupRef selector = attempt (retainedOperationWorld r (operationNamespace o') selector) (\<lambda>world.
     attempt (planOperationBackup r o' (emptyPlan\<lparr> opl_Data := Some (dt_Data (orw_Target world)),
         opl_Server := Some \<lparr> gref_Local = dt_GameServer (orw_Target world), gref_Generation = 1, gref_DesiredState = DesiredStateStopped \<rparr> \<rparr>) backupRef)
       (\<lambda>plan. State_Monad.return (Inr (plan, Some world))))"

text \<open>The intent of an action on a live server: the switch of \<^verbatim>\<open>planOperation\<close>.\<close>

definition configuredIntent :: "OperationConfigureInput \<Rightarrow> GameServerSpec \<Rightarrow> operationError + GameServerSpec" where
  "configuredIntent input intent =
     (let intent = (case cfg_Compute input of None \<Rightarrow> intent | Some c \<Rightarrow> intent\<lparr> gss_Compute := c \<rparr>) in
      case cfg_Storage input of
        None \<Rightarrow> Inr (case cfg_SettingsJSON input of None \<Rightarrow> intent | Some s \<Rightarrow> intent\<lparr> gss_Settings := s \<rparr>)
      | Some storage \<Rightarrow>
          if stor_Reattach storage \<noteq> None then Inl (operationIssue ''invalid_request'')
          else (let intent = intent\<lparr> gss_Storage := storage\<lparr> stor_Reattach := stor_Reattach (gss_Storage intent) \<rparr> \<rparr> in
            Inr (case cfg_SettingsJSON input of None \<Rightarrow> intent | Some s \<Rightarrow> intent\<lparr> gss_Settings := s \<rparr>)))"

definition plannedIntent :: "ArcadeOperationReconciler \<Rightarrow> ArcadeOperation \<Rightarrow> GameServer \<Rightarrow> RetainedDataReference \<Rightarrow> operationError + GameServerSpec" where
  "plannedIntent r o' server data = (case actionOf o' of
       OperationServerStart \<Rightarrow> Inr ((gs_Spec server)\<lparr> gss_DesiredState := DesiredStateRunning \<rparr>)
     | OperationServerStop \<Rightarrow> Inr ((gs_Spec server)\<lparr> gss_DesiredState := DesiredStateStopped \<rparr>)
     | OperationServerDecommission \<Rightarrow> Inr ((gs_Spec server)\<lparr> gss_DesiredState := DesiredStateStopped \<rparr>)
     | OperationServerRestart \<Rightarrow>
         if gss_DesiredState (gs_Spec server) \<noteq> DesiredStateRunning \<or> \<not> operationRuntimeObserved server DesiredStateRunning (Some data)
         then Inl (operationIssue ''target_changed'') else Inr (gs_Spec server)
     | OperationServerConfigure \<Rightarrow> (case oreq_Configure (requestOf o') of
           None \<Rightarrow> Inl operationPanic
         | Some input \<Rightarrow> configuredIntent input (gs_Spec server))
     | OperationServerUpdate \<Rightarrow> (case validateOperationImage r (gss_Game (gs_Spec server)) (oreq_Image (requestOf o')) of
           Some e \<Rightarrow> Inl e
         | None \<Rightarrow> (case oreq_Image (requestOf o') of
             None \<Rightarrow> Inl operationPanic
           | Some i \<Rightarrow> Inr ((gs_Spec server)\<lparr> gss_ImageDigest := ires_Digest (img_Resolution i) \<rparr>)))
     | _ \<Rightarrow> Inr (gs_Spec server))"

definition plannedServer :: "ArcadeOperationReconciler \<Rightarrow> ArcadeOperation \<Rightarrow> GameServer \<Rightarrow> RetainedDataReference \<Rightarrow> OperationPlan \<Rightarrow> operationError + OperationPlan" where
  "plannedServer r o' server data plan = (case plannedIntent r o' server data of
       Inl e \<Rightarrow> Inl e
     | Inr intent \<Rightarrow>
         if operationServerAction (actionOf o') then freezeIntent r (server\<lparr> gs_Spec := intent \<rparr>) plan else Inr plan)"

definition plannedWorld :: "ArcadeOperationReconciler \<Rightarrow> ArcadeOperation \<Rightarrow> GameServer \<Rightarrow> RetainedDataReference \<Rightarrow> operationError + OperationRetainedWorld option" where
  "plannedWorld r o' server data =
     (if actionOf o' = OperationServerDecommission \<or> actionOf o' = OperationWorldDestroyPreview then
        (let target = \<lparr> dt_GameServer = \<lparr> ref_Namespace = None, ref_Name = serverName server, ref_UID = serverUID server \<rparr>,
               dt_Game = gss_Game (gs_Spec server), dt_Data = data \<rparr> in
         case RetainedSnapshotDigest (aor_Operations r) target of
           None \<Rightarrow> Inl (operationIssue ''invalid_reference'')
         | Some digest \<Rightarrow> Inr (Some \<lparr> orw_Target = target, orw_SnapshotDigest = digest \<rparr>))
      else Inr None)"

definition planSecret :: "ArcadeOperationReconciler \<Rightarrow> ArcadeOperation \<Rightarrow> OperationPlan \<Rightarrow> OperationBackupInput \<Rightarrow> (operationError + OperationPlan) operation_program" where
  "planSecret r o' plan input =
     attempt (operationReference (\<lambda>n. vw_Secret (operation_reader r) n (operationNamespace o') (bin_RepositorySecretName input)) ''secret_unavailable'') (\<lambda>secret.
       State_Monad.return (if meta_UID secret = [] \<or> meta_ResourceVersion secret = [] \<or> terminating secret then Inl (operationIssue ''secret_unavailable'')
         else Inr (plan\<lparr> opl_RepositorySecretRef := Some \<lparr> sref_Local = \<lparr> ref_Namespace = None, ref_Name = meta_Name secret, ref_UID = meta_UID secret \<rparr>,
           sref_ResourceVersion = meta_ResourceVersion secret \<rparr> \<rparr>)))"

text \<open>The last switch: what a data operation needs besides its world.\<close>

definition planEvidence :: "ArcadeOperationReconciler \<Rightarrow> ArcadeOperation \<Rightarrow> OperationPlan \<Rightarrow> (operationError + OperationPlan) operation_program" where
  "planEvidence r o' plan = (case actionOf o' of
       OperationWorldBackup \<Rightarrow> (case oreq_Backup (requestOf o') of
           None \<Rightarrow> State_Monad.return (Inl operationPanic)
         | Some input \<Rightarrow> planSecret r o' plan input)
     | OperationWorldRestore \<Rightarrow> (case oreq_Restore (requestOf o') of
           None \<Rightarrow> State_Monad.return (Inl operationPanic)
         | Some input \<Rightarrow> planOperationBackup r o' plan (rin_BackupRef input))
     | OperationWorldDestroyPreview \<Rightarrow> (case oreq_Destroy (requestOf o') of
           None \<Rightarrow> State_Monad.return (Inl operationPanic)
         | Some input \<Rightarrow> planOperationBackup r o' plan (din_BackupRef input))
     | _ \<Rightarrow> State_Monad.return (Inr plan))"

definition planTarget :: "ArcadeOperationReconciler \<Rightarrow> ArcadeOperation \<Rightarrow> (operationError + OperationPlan \<times> OperationRetainedWorld option) operation_program" where
  "planTarget r o' = (case oreq_Target (requestOf o') of
       None \<Rightarrow> State_Monad.return (Inl (operationIssue ''invalid_reference''))
     | Some target \<Rightarrow>
         attempt (operationReference (\<lambda>n. vw_GameServer (operation_reader r) n (operationNamespace o') (ref_Name (gref_Local target))) ''invalid_reference'') (\<lambda>server.
           if \<not> operationExactServer server (Some target) then State_Monad.return (Inl (operationIssue ''target_changed''))
           else attempt (operationServerData r server) (\<lambda>data.
             case plannedServer r o' server data (emptyPlan\<lparr> opl_Server := Some target, opl_Data := Some data \<rparr>) of
               Inl e \<Rightarrow> State_Monad.return (Inl e)
             | Inr plan \<Rightarrow> (case plannedWorld r o' server data of
                 Inl e \<Rightarrow> State_Monad.return (Inl e)
               | Inr world \<Rightarrow> attempt (planEvidence r o' plan) (\<lambda>plan. State_Monad.return (Inr (plan, world)))))))"

definition planOperation :: "ArcadeOperationReconciler \<Rightarrow> ArcadeOperation \<Rightarrow> (operationError + OperationPlan \<times> OperationRetainedWorld option) operation_program" where
  "planOperation r o' =
     (if oreq_DestroyCommand (requestOf o') \<noteq> None then planDestroyCommand r o'
      else if actionOf o' = OperationServerCreate then planCreate r o'
      else if actionOf o' = OperationWorldDestroyPreview then
        (case oreq_Destroy (requestOf o') of
           None \<Rightarrow> State_Monad.return (Inl operationPanic)
         | Some input \<Rightarrow> (case din_RetainedWorld input of
             Some selector \<Rightarrow> planRetainedDestroy r o' (din_BackupRef input) selector
           | None \<Rightarrow> planTarget r o'))
      else planTarget r o')"

end
