(* ===== verification/TranslatorServer.thy ===== *)
theory TranslatorServer
  imports TranslatorPlan
begin

text \<open>
  \<^verbatim>\<open>arcadeoperation\_server.go\<close>: how a receipt changes a server. A step is recorded in the receipt before it is asked
  for, the fence of the world is taken before either, and the request carries the identity and the version of the
  server that the step was decided on.
\<close>

section \<open>Fences\<close>

definition BackupFinalizer :: string where "BackupFinalizer = ''arcade.gobha.me/backup-protection''"
definition RestoreFinalizer :: string where "RestoreFinalizer = ''arcade.gobha.me/restore-protection''"

definition restoreTerminal :: "DataOperationPhase \<Rightarrow> bool" where
  "restoreTerminal phase \<longleftrightarrow> phase = DataPhaseSucceeded \<or> phase = DataPhaseFailed \<or> phase = DataPhaseCancelled"

text \<open>The server and the world whose fence a receipt holds: \<open>None\<close> is the error of \<^verbatim>\<open>DataIdentity\<close>.\<close>

definition operationLeaseCoordinates :: "ArcadeOperation \<Rightarrow> (string \<times> string) option" where
  "operationLeaseCoordinates o' = (case aost_Plan (ao_Status o') of
       None \<Rightarrow> Some ([], [])
     | Some plan \<Rightarrow>
         if \<not> operationServerAction (actionOf o') then Some ([], [])
         else (let name = (case opl_Server plan of None \<Rightarrow> [] | Some s \<Rightarrow> ref_Name (gref_Local s));
                   identity = (case opl_Data plan of None \<Rightarrow> [] | Some d \<Rightarrow> rdata_Identity d) in
           if actionOf o' \<noteq> OperationServerCreate then Some (name, identity)
           else (case aost_Child (ao_Status o') of
               Some child \<Rightarrow>
                 if identity = [] \<and> och_Kind child = ''GameServer''
                 then map_option (\<lambda>own. (oreq_ServerName (requestOf o'), own)) (DataIdentity (ref_UID (och_Local child)))
                 else Some (oreq_ServerName (requestOf o'), identity)
             | None \<Rightarrow> Some (oreq_ServerName (requestOf o'), identity))))"

text \<open>The closure \<^verbatim>\<open>get\<close> of \<^verbatim>\<open>operationFenceCleanupPending\<close>: an owner that is named and found.\<close>

definition fenceOwner :: "(nat \<Rightarrow> string \<Rightarrow> ApiError + 'a) \<Rightarrow> string \<Rightarrow> (operationError + 'a option) operation_program" where
  "fenceOwner get ownerName =
     (if ownerName = [] then State_Monad.return (Inr None)
      else do {
        got \<leftarrow> ask (\<lambda>n. get n ownerName);
        State_Monad.return (case got of
            Inl NotFound \<Rightarrow> Inr None
          | Inl (ApiFailure t) \<Rightarrow> Inl (operationApi (ApiFailure t))
          | Inr v \<Rightarrow> Inr (Some v)) })"

definition receiptCleanupPending :: "Lease \<Rightarrow> string \<Rightarrow> string \<Rightarrow> ArcadeOperation \<Rightarrow> operationError + bool" where
  "receiptCleanupPending lease name identity owner = (case operationLeaseCoordinates owner of
       None \<Rightarrow> Inl (operationText ''game server UID is required for data identity'')
     | Some (ownerName, ownerIdentity) \<Rightarrow> Inr (operationTerminal (aost_Phase (ao_Status owner)) \<and> containsOperationFinalizer owner \<and>
         ownerName = name \<and> ownerIdentity = identity \<and> operationLeaseMatches lease owner name identity))"

definition exactRef :: "ObjectMeta \<Rightarrow> ExactLocalReference" where
  "exactRef m = \<lparr> ref_Namespace = None, ref_Name = meta_Name m, ref_UID = meta_UID m \<rparr>"

definition backupCleanupPending :: "Lease \<Rightarrow> string \<Rightarrow> GameBackup \<Rightarrow> bool" where
  "backupCleanupPending lease name owner \<longleftrightarrow>
     st_ObservedGeneration (gb_Status owner) = meta_Generation (gb_Meta owner) \<and> restoreTerminal (st_Phase (gb_Status owner)) \<and>
     BackupFinalizer \<in> set (meta_Finalizers (gb_Meta owner)) \<and>
     BackupOperationLeaseMatches lease (exactRef (gb_Meta owner)) (ref_Name (gref_Local (bspec_Source (gb_Spec owner)))) \<and>
     ref_Name (gref_Local (bspec_Source (gb_Spec owner))) = name"

definition restoreCleanupPending :: "Lease \<Rightarrow> string \<Rightarrow> string \<Rightarrow> GameRestore \<Rightarrow> operationError + bool" where
  "restoreCleanupPending lease name identity owner = (case RestoreDataIdentity (meta_UID (gr_Meta owner)) of
       Inl _ \<Rightarrow> Inl (operationText ''operation UID is required'')
     | Inr candidate \<Rightarrow> Inr ((identity = candidate \<or> identity = rst_PreviousDataIdentity (gr_Status owner)) \<and>
         st_ObservedGeneration (rst_Data (gr_Status owner)) = meta_Generation (gr_Meta owner) \<and>
         restoreTerminal (st_Phase (rst_Data (gr_Status owner))) \<and> RestoreFinalizer \<in> set (meta_Finalizers (gr_Meta owner)) \<and>
         ref_Name (gref_Local (rspec_Target (gr_Spec owner))) = name \<and>
         RestoreOperationLeaseMatches lease (exactRef (gr_Meta owner)) name identity))"

definition destroyCleanupPending :: "Lease \<Rightarrow> string \<Rightarrow> string \<Rightarrow> GameDestroy \<Rightarrow> bool" where
  "destroyCleanupPending lease name identity owner \<longleftrightarrow>
     dst_ObservedGeneration (gd_Status owner) = meta_Generation (gd_Meta owner) \<and> destroyTerminal (dst_Phase (gd_Status owner)) \<and>
     DestroyFinalizer \<in> set (meta_Finalizers (gd_Meta owner)) \<and> rdata_Identity (dt_Data (ds_Target (gd_Spec owner))) = identity \<and>
     ref_Name (dt_GameServer (ds_Target (gd_Spec owner))) = name \<and> DestroyOperationLeaseMatches lease (exactRef (gd_Meta owner)) name identity"

definition ownerPending :: "(operationError + 'a option) operation_program \<Rightarrow> ('a \<Rightarrow> operationError + bool) \<Rightarrow> (operationError + bool) operation_program" where
  "ownerPending get pending = attempt get (\<lambda>owner. State_Monad.return (case owner of None \<Rightarrow> Inr False | Some v \<Rightarrow> pending v))"

definition operationFenceCleanupPending :: "ArcadeOperationReconciler \<Rightarrow> Lease \<Rightarrow> string \<Rightarrow> string \<Rightarrow> (operationError + bool) operation_program" where
  "operationFenceCleanupPending r lease name identity =
     (let namespace = meta_Namespace (lease_Meta lease); reader = operation_reader r in
      if meta_UID (lease_Meta lease) = [] \<or> namespace = [] \<or> meta_Name (lease_Meta lease) \<noteq> DataOperationLeaseName identity \<or>
         lease_label lease LabelDataIdentity \<noteq> identity then State_Monad.return (Inr False)
      else if lease_label lease operationReceiptUIDLabel \<noteq> [] then
        ownerPending (fenceOwner (\<lambda>n. vw_Operation reader n namespace) (lease_annotation lease operationReceiptNameAnnotation))
          (receiptCleanupPending lease name identity)
      else if lease_label lease LabelBackupUID \<noteq> [] then
        ownerPending (fenceOwner (\<lambda>n. vw_Backup reader n namespace) (lease_annotation lease AnnotationBackupName))
          (\<lambda>owner. Inr (backupCleanupPending lease name owner))
      else if lease_label lease LabelRestoreUID \<noteq> [] then
        ownerPending (fenceOwner (\<lambda>n. vw_Restore reader n namespace) (lease_annotation lease AnnotationRestoreName))
          (restoreCleanupPending lease name identity)
      else if lease_label lease LabelDestroyUID \<noteq> [] then
        ownerPending (fenceOwner (\<lambda>n. vw_Destroy reader n namespace) (lease_annotation lease AnnotationDestroyName))
          (\<lambda>owner. Inr (destroyCleanupPending lease name identity owner))
      else State_Monad.return (Inr False))"

definition operationLease :: "ArcadeOperation \<Rightarrow> string \<Rightarrow> string \<Rightarrow> Time \<Rightarrow> Lease" where
  "operationLease o' name identity t = \<lparr>
     lease_Meta = freshMeta (DataOperationLeaseName identity) (operationNamespace o')
       (map_of [(LabelManagedBy, ManagerName), (LabelInstance, name), (LabelDataIdentity, identity), (operationReceiptUIDLabel, operationUID o')])
       [operationReceiptNameAnnotation \<mapsto> operationName o'] [],
     lease_HolderIdentity = Some (operationUID o'), lease_AcquireTime = Some t \<rparr>"

definition acquireOperationLease :: "ArcadeOperationReconciler \<Rightarrow> ArcadeOperation \<Rightarrow> string \<Rightarrow> string \<Rightarrow> operationError option operation_program" where
  "acquireOperationLease r o' name identity = do {
     got \<leftarrow> ask (\<lambda>n. vw_Lease (operation_reader r) n (operationNamespace o') (DataOperationLeaseName identity));
     case got of
       Inl NotFound \<Rightarrow> do {
         t \<leftarrow> operation_now r;
         e \<leftarrow> operation_send r (CreateFence (operationLease o' name identity t));
         State_Monad.return (map_option operationApi e) }
     | Inl (ApiFailure m) \<Rightarrow> State_Monad.return (Some (operationApi (ApiFailure m)))
     | Inr lease \<Rightarrow>
         if operationLeaseMatches lease o' name identity then State_Monad.return None
         else do {
           pending \<leftarrow> operationFenceCleanupPending r lease name identity;
           State_Monad.return (Some (case pending of
               Inl e \<Rightarrow> e
             | Inr True \<Rightarrow> operationText ''exact terminal operation fence cleanup is pending''
             | Inr False \<Rightarrow> operationIssue ''operation_conflict'')) } }"

definition releaseOperationLease :: "ArcadeOperationReconciler \<Rightarrow> ArcadeOperation \<Rightarrow> operationError option operation_program" where
  "releaseOperationLease r o' = (case operationLeaseCoordinates o' of
       None \<Rightarrow> State_Monad.return (Some (operationText ''game server UID is required for data identity''))
     | Some (name, identity) \<Rightarrow>
         if name = [] \<or> identity = [] then State_Monad.return None
         else do {
           got \<leftarrow> ask (\<lambda>n. vw_Lease (operation_reader r) n (operationNamespace o') (DataOperationLeaseName identity));
           case got of
             Inl NotFound \<Rightarrow> State_Monad.return None
           | Inl (ApiFailure m) \<Rightarrow> State_Monad.return (Some (operationApi (ApiFailure m)))
           | Inr lease \<Rightarrow>
               if \<not> operationLeaseMatches lease o' name identity then
                 State_Monad.return (guard (lease_label lease operationReceiptUIDLabel = operationUID o' \<or> lease_HolderIdentity lease = Some (operationUID o'))
                   (operationText ''operation fence ownership changed''))
               else do {
                 e \<leftarrow> operation_send r (DeleteFence (meta_Namespace (lease_Meta lease)) (meta_Name (lease_Meta lease)) (meta_UID (lease_Meta lease)) (meta_ResourceVersion (lease_Meta lease)));
                 State_Monad.return (case e of None \<Rightarrow> None | Some NotFound \<Rightarrow> None | Some (ApiFailure m) \<Rightarrow> Some (operationApi (ApiFailure m))) } })"

section \<open>Steps\<close>

definition journalOperationTransition ::
  "ArcadeOperationReconciler \<Rightarrow> ArcadeOperation \<Rightarrow> GameServer \<Rightarrow> string \<Rightarrow> GameServerSpec \<Rightarrow> operationError option operation_program" where
  "journalOperationTransition r o' server step intent = (case SpecDigest (aor_Operations r) intent of
       None \<Rightarrow> State_Monad.return (Some (operationIssue ''receipt_invalid''))
     | Some digest \<Rightarrow> do {
         let from' = meta_Generation (gs_Meta server);
         let to = (if operationSpecsEqual (aor_Operations r) (gs_Spec server) intent then from' else from' + 1);
         t \<leftarrow> operation_now r;
         operationStatus r o' OperationPhaseRunning (\<lambda>s. s\<lparr> aost_Transitions := aost_Transitions s @
           [\<lparr> otr_Step = step, otr_FromGeneration = from', otr_ToGeneration = to, otr_DesiredState = gss_DesiredState intent, otr_SpecDigest = digest, otr_RequestedAt = t \<rparr>] \<rparr>) })"

definition testPatch :: "string \<Rightarrow> string \<Rightarrow> operationJSONPatch" where
  "testPatch path v = \<lparr> ojp_Op = ''test'', ojp_Path = path, ojp_Value = PatchText v \<rparr>"

definition addPatch :: "string \<Rightarrow> PatchValue \<Rightarrow> operationJSONPatch" where
  "addPatch path v = \<lparr> ojp_Op = ''add'', ojp_Path = path, ojp_Value = v \<rparr>"

definition exactPatches :: "ObjectMeta \<Rightarrow> operationJSONPatch list \<Rightarrow> operationJSONPatch list" where
  "exactPatches m patches = [testPatch ''/metadata/uid'' (meta_UID m), testPatch ''/metadata/resourceVersion'' (meta_ResourceVersion m)] @ patches"

text \<open>\<^verbatim>\<open>patchOperationObject\<close> for a server, with the server as the API server left it, and for a destruction.\<close>

definition patchOperationServer :: "ArcadeOperationReconciler \<Rightarrow> GameServer \<Rightarrow> operationJSONPatch list \<Rightarrow> (operationError + GameServer) operation_program" where
  "patchOperationServer r server patches =
     (let patches = exactPatches (gs_Meta server) patches in
      case aor_MarshalPatch r patches of
        None \<Rightarrow> State_Monad.return (Inl (operationText ''encode exact operation patch failed''))
      | Some encoded \<Rightarrow> do {
          got \<leftarrow> send_to (\<lambda>n. aor_RespondServer r n server patches) (PatchServer server patches encoded);
          State_Monad.return (map_sum operationApi id got) })"

definition patchOperationDestroy :: "ArcadeOperationReconciler \<Rightarrow> GameDestroy \<Rightarrow> operationJSONPatch list \<Rightarrow> operationError option operation_program" where
  "patchOperationDestroy r destroy patches =
     (let patches = exactPatches (gd_Meta destroy) patches in
      case aor_MarshalPatch r patches of
        None \<Rightarrow> State_Monad.return (Some (operationText ''encode exact operation patch failed''))
      | Some encoded \<Rightarrow> do {
          e \<leftarrow> operation_send r (PatchDestroy destroy patches encoded);
          State_Monad.return (map_option operationApi e) })"

definition transitionPatches :: "ArcadeOperation \<Rightarrow> GameServer \<Rightarrow> OperationServerTransition \<Rightarrow> GameServerSpec \<Rightarrow> operationJSONPatch list" where
  "transitionPatches o' server t intent =
     [addPatch ''/metadata/labels'' (PatchMap ((meta_Labels (gs_Meta server))(operationReceiptUIDLabel \<mapsto> operationUID o'))),
      addPatch ''/metadata/annotations'' (PatchMap ((meta_Annotations (gs_Meta server))
        (operationReceiptNameAnnotation \<mapsto> operationName o', operationStepAnnotation \<mapsto> otr_Step t, operationSpecDigestAnnotation \<mapsto> otr_SpecDigest t))),
      \<lparr> ojp_Op = ''replace'', ojp_Path = ''/spec'', ojp_Value = PatchSpec intent \<rparr>]"

text \<open>After a completed stop, a start can only follow that exact step; every other step starts from the plan.\<close>

definition transitionBlocked :: "ArcadeOperationReconciler \<Rightarrow> ArcadeOperation \<Rightarrow> OperationPlan \<Rightarrow> ExactGameServerReference \<Rightarrow> GameServer \<Rightarrow> OperationServerTransition \<Rightarrow> GameServerSpec \<Rightarrow> bool" where
  "transitionBlocked r o' plan planned server t intent =
     (if otr_Step t = ''Start'' then
        (case operationTransition o' ''Stop'' of
           None \<Rightarrow> True
         | Some stopped \<Rightarrow> \<not> operationTransitionApplied (aor_Operations r) o' server stopped (intent\<lparr> gss_DesiredState := DesiredStateStopped \<rparr>) \<or>
             \<not> operationRuntimeObserved server DesiredStateStopped (opl_Data plan))
      else meta_Generation (gs_Meta server) \<noteq> gref_Generation planned \<or> gss_DesiredState (gs_Spec server) \<noteq> gref_DesiredState planned)"

definition applyOperationTransition ::
  "ArcadeOperationReconciler \<Rightarrow> ArcadeOperation \<Rightarrow> OperationPlan \<Rightarrow> ExactGameServerReference \<Rightarrow> GameServer \<Rightarrow> OperationServerTransition \<Rightarrow> GameServerSpec \<Rightarrow>
    (operationError + GameServer) operation_program" where
  "applyOperationTransition r o' plan planned server t intent =
     (if SpecDigest (aor_Operations r) intent \<noteq> Some (otr_SpecDigest t) \<or> otr_DesiredState t \<noteq> gss_DesiredState intent
      then State_Monad.return (Inl (operationIssue ''receipt_invalid''))
      else if operationTransitionApplied (aor_Operations r) o' server t intent then State_Monad.return (Inr server)
      else if meta_Generation (gs_Meta server) \<noteq> otr_FromGeneration t then State_Monad.return (Inl (operationIssue ''target_changed''))
      else if transitionBlocked r o' plan planned server t intent then State_Monad.return (Inl (operationIssue ''target_changed''))
      else patchOperationServer r server (transitionPatches o' server t intent))"

section \<open>Waiting for a server\<close>

definition operationObservationSlow :: "ArcadeOperationReconciler \<Rightarrow> ArcadeOperation \<Rightarrow> bool operation_program" where
  "operationObservationSlow r o' = (case aost_StartedAt (ao_Status o') of
       None \<Rightarrow> State_Monad.return False
     | Some started \<Rightarrow> do { t \<leftarrow> operation_now r; State_Monad.return (t - started > 15 * minute) })"

definition awaitServer :: "ArcadeOperationReconciler \<Rightarrow> ArcadeOperation \<Rightarrow> GameServer \<Rightarrow> operationError option operation_program" where
  "awaitServer r o' server =
     (if gst_Phase (gs_Status server) = PhaseFailed then operationProgressGuidance r o' ''api_unavailable''
      else do {
        slow \<leftarrow> operationObservationSlow r o';
        if slow then operationProgressGuidance r o' ''api_unavailable'' else State_Monad.return None })"

section \<open>Changing a server\<close>

definition decommissioning :: "ArcadeOperation \<Rightarrow> bool" where
  "decommissioning o' \<longleftrightarrow> actionOf o' = OperationServerDecommission \<and> aost_RetainedWorld (ao_Status o') \<noteq> None \<and> aost_Transitions (ao_Status o') \<noteq> []"

text \<open>The step that is due and the intent that goes with it.\<close>

definition dueStep :: "ArcadeOperation \<Rightarrow> GameServerSpec \<Rightarrow> string \<times> GameServerSpec" where
  "dueStep o' intent =
     (if actionOf o' = OperationServerRestart \<and> operationTransition o' ''Start'' \<noteq> None then (''Start'', intent\<lparr> gss_DesiredState := DesiredStateRunning \<rparr>)
      else if actionOf o' = OperationServerRestart \<or> actionOf o' = OperationServerDecommission then (''Stop'', intent\<lparr> gss_DesiredState := DesiredStateStopped \<rparr>)
      else (''Apply'', intent))"

definition settleTransition ::
  "ArcadeOperationReconciler \<Rightarrow> ArcadeOperation \<Rightarrow> OperationPlan \<Rightarrow> GameServer \<Rightarrow> string \<Rightarrow> OperationServerTransition \<Rightarrow> GameServerSpec \<Rightarrow> operationError option operation_program" where
  "settleTransition r o' plan server step t intent =
     (if \<not> operationTransitionApplied (aor_Operations r) o' server t intent then State_Monad.return None
      else if \<not> operationRuntimeObserved server (gss_DesiredState intent) (opl_Data plan) then awaitServer r o' server
      else if actionOf o' = OperationServerRestart \<and> step = ''Stop'' then
        journalOperationTransition r o' server ''Start'' (intent\<lparr> gss_DesiredState := DesiredStateRunning \<rparr>)
      else if actionOf o' = OperationServerDecommission then
        (if aost_RetainedWorld (ao_Status o') = None then State_Monad.return (Some (operationIssue ''receipt_invalid''))
         else do {
           e \<leftarrow> operation_send r (DeleteServer (serverNamespace server) (serverName server) (serverUID server) (meta_ResourceVersion (gs_Meta server)));
           State_Monad.return (map_option operationApi e) })
      else operationStatus r o' OperationPhaseSucceeded id)"

definition changeServer ::
  "ArcadeOperationReconciler \<Rightarrow> ArcadeOperation \<Rightarrow> OperationPlan \<Rightarrow> ExactGameServerReference \<Rightarrow> OperationServerIntent \<Rightarrow> GameServer \<Rightarrow> operationError option operation_program" where
  "changeServer r o' plan planned frozen server = (case ServerSpec frozen of
       None \<Rightarrow> State_Monad.return (Some (operationIssue ''receipt_invalid''))
     | Some spec \<Rightarrow>
         (case dueStep o' spec of (step, intent) \<Rightarrow>
            (case operationTransition o' step of
               None \<Rightarrow>
                 if \<not> operationExactServer server (Some planned) then State_Monad.return (Some (operationIssue ''target_changed''))
                 else journalOperationTransition r o' server step intent
             | Some t \<Rightarrow> do {
                 applied \<leftarrow> applyOperationTransition r o' plan planned server t intent;
                 case applied of
                   Inl e \<Rightarrow> State_Monad.return (Some e)
                 | Inr server' \<Rightarrow> settleTransition r o' plan server' step t intent })))"

definition reconcileLiveServer ::
  "ArcadeOperationReconciler \<Rightarrow> ArcadeOperation \<Rightarrow> OperationPlan \<Rightarrow> ExactGameServerReference \<Rightarrow> RetainedDataReference \<Rightarrow> OperationServerIntent \<Rightarrow> GameServer \<Rightarrow>
    operationError option operation_program" where
  "reconcileLiveServer r o' plan planned data frozen server = do {
     got \<leftarrow> operationServerData r server;
     case got of
       Inl e \<Rightarrow> State_Monad.return (Some e)
     | Inr current \<Rightarrow>
         if \<not> sameDataSelection (Some current) (Some data) then State_Monad.return (Some (operationIssue ''target_changed''))
         else check (acquireOperationLease r o' (serverName server) (rdata_Identity current)) (changeServer r o' plan planned frozen server) }"

definition reconcilePlannedServer ::
  "ArcadeOperationReconciler \<Rightarrow> ArcadeOperation \<Rightarrow> OperationPlan \<Rightarrow> ExactGameServerReference \<Rightarrow> RetainedDataReference \<Rightarrow> OperationServerIntent \<Rightarrow> operationError option operation_program" where
  "reconcilePlannedServer r o' plan planned data frozen = do {
     got \<leftarrow> ask (\<lambda>n. vw_GameServer (operation_reader r) n (operationNamespace o') (ref_Name (gref_Local planned)));
     case got of
       Inl NotFound \<Rightarrow>
         if decommissioning o' then operationStatus r o' OperationPhaseSucceeded id else State_Monad.return (Some (operationIssue ''target_changed''))
     | Inl (ApiFailure m) \<Rightarrow> State_Monad.return (Some (operationApi (ApiFailure m)))
     | Inr server \<Rightarrow>
         if serverUID server \<noteq> ref_UID (gref_Local planned) then
           (if decommissioning o' then operationStatus r o' OperationPhaseSucceeded id else State_Monad.return (Some (operationIssue ''target_changed'')))
         else if terminating (gs_Meta server) then
           State_Monad.return (guard (\<not> decommissioning o') (operationIssue ''target_changed''))
         else reconcileLiveServer r o' plan planned data frozen server }"

section \<open>Creating a server\<close>

definition createdServer :: "ArcadeOperation \<Rightarrow> GameServerSpec \<Rightarrow> string \<Rightarrow> GameServer" where
  "createdServer o' intent digest = \<lparr>
     gs_Meta = freshMeta (oreq_ServerName (requestOf o')) (operationNamespace o') [operationReceiptUIDLabel \<mapsto> operationUID o']
       (map_of [(operationReceiptNameAnnotation, operationName o'), (operationStepAnnotation, ''Create''), (operationSpecDigestAnnotation, digest)]) [],
     gs_Spec = intent, gs_Status = emptyServerStatus \<rparr>"

definition createdChanged :: "ArcadeOperationReconciler \<Rightarrow> ArcadeOperation \<Rightarrow> GameServerSpec \<Rightarrow> string \<Rightarrow> GameServer \<Rightarrow> bool" where
  "createdChanged r o' intent digest server \<longleftrightarrow>
     serverUID server = [] \<or> meta_OwnerReferences (gs_Meta server) \<noteq> [] \<or> terminating (gs_Meta server) \<or> meta_Generation (gs_Meta server) \<noteq> 1 \<or>
     server_label server operationReceiptUIDLabel \<noteq> operationUID o' \<or> server_annotation server operationReceiptNameAnnotation \<noteq> operationName o' \<or>
     server_annotation server operationStepAnnotation \<noteq> ''Create'' \<or> server_annotation server operationSpecDigestAnnotation \<noteq> digest \<or>
     \<not> operationSpecsEqual (aor_Operations r) (gs_Spec server) intent"

definition serverChild :: "GameServer \<Rightarrow> OperationChildReference" where
  "serverChild server = \<lparr> och_Kind = ''GameServer'', och_Local = exactRef (gs_Meta server), och_Generation = meta_Generation (gs_Meta server) \<rparr>"

definition observeCreated :: "ArcadeOperationReconciler \<Rightarrow> ArcadeOperation \<Rightarrow> OperationPlan \<Rightarrow> GameServerSpec \<Rightarrow> string \<Rightarrow> GameServer \<Rightarrow> operationError option operation_program" where
  "observeCreated r o' plan intent identity server = do {
     got \<leftarrow> operationServerData r server;
     case got of
       Inl e \<Rightarrow> if e = operationIssue ''invalid_reference'' then awaitServer r o' server else State_Monad.return (Some e)
     | Inr data \<Rightarrow>
         if rdata_Identity data \<noteq> identity \<or> opl_Data plan \<noteq> None \<and> \<not> sameDataSelection (Some data) (opl_Data plan)
         then State_Monad.return (Some (operationIssue ''target_changed''))
         else if \<not> operationRuntimeObserved server (gss_DesiredState intent) (Some data) then awaitServer r o' server
         else operationStatus r o' OperationPhaseSucceeded id }"

definition adoptCreated :: "ArcadeOperationReconciler \<Rightarrow> ArcadeOperation \<Rightarrow> OperationPlan \<Rightarrow> GameServerSpec \<Rightarrow> GameServer \<Rightarrow> operationError option operation_program" where
  "adoptCreated r o' plan intent server = (case aost_Child (ao_Status o') of
       None \<Rightarrow> operationStatus r o' OperationPhaseRunning (\<lambda>s. s\<lparr> aost_Child := Some (serverChild server) \<rparr>)
     | Some child \<Rightarrow>
         if och_Kind child \<noteq> ''GameServer'' \<or> ref_Name (och_Local child) \<noteq> serverName server \<or> ref_UID (och_Local child) \<noteq> serverUID server \<or>
            och_Generation child \<noteq> meta_Generation (gs_Meta server) then State_Monad.return (Some (operationIssue ''child_changed''))
         else (case DataIdentity (serverUID server) of
             None \<Rightarrow> State_Monad.return (Some (operationIssue ''receipt_invalid''))
           | Some own \<Rightarrow>
               (let identity = (case opl_Data plan of None \<Rightarrow> own | Some d \<Rightarrow> rdata_Identity d) in
                check (acquireOperationLease r o' (serverName server) identity) (observeCreated r o' plan intent identity server))))"

definition createServer :: "ArcadeOperationReconciler \<Rightarrow> ArcadeOperation \<Rightarrow> OperationPlan \<Rightarrow> GameServerSpec \<Rightarrow> string \<Rightarrow> operationError option operation_program" where
  "createServer r o' plan intent digest =
     (if aost_Child (ao_Status o') \<noteq> None then State_Monad.return (Some (operationIssue ''child_changed''))
      else check (case opl_Data plan of None \<Rightarrow> State_Monad.return None | Some d \<Rightarrow> acquireOperationLease r o' (oreq_ServerName (requestOf o')) (rdata_Identity d))
        (do {
           e \<leftarrow> operation_send r (CreateServer (createdServer o' intent digest));
           State_Monad.return (map_option operationApi e) }))"

definition reconcileOperationCreate :: "ArcadeOperationReconciler \<Rightarrow> ArcadeOperation \<Rightarrow> OperationPlan \<Rightarrow> OperationServerIntent \<Rightarrow> operationError option operation_program" where
  "reconcileOperationCreate r o' plan frozen = (case ServerSpec frozen of
       None \<Rightarrow> State_Monad.return (Some (operationIssue ''receipt_invalid''))
     | Some intent \<Rightarrow> (case SpecDigest (aor_Operations r) intent of
         None \<Rightarrow> State_Monad.return (Some (operationIssue ''receipt_invalid''))
       | Some digest \<Rightarrow> do {
           got \<leftarrow> ask (\<lambda>n. vw_GameServer (operation_reader r) n (operationNamespace o') (oreq_ServerName (requestOf o')));
           case got of
             Inl NotFound \<Rightarrow> createServer r o' plan intent digest
           | Inl (ApiFailure m) \<Rightarrow> State_Monad.return (Some (operationApi (ApiFailure m)))
           | Inr server \<Rightarrow>
               if createdChanged r o' intent digest server then State_Monad.return (Some (operationIssue ''child_changed''))
               else adoptCreated r o' plan intent server }))"

definition reconcileOperationServer :: "ArcadeOperationReconciler \<Rightarrow> ArcadeOperation \<Rightarrow> OperationPlan \<Rightarrow> operationError option operation_program" where
  "reconcileOperationServer r o' plan = (case opl_ServerIntent plan of
       None \<Rightarrow> State_Monad.return (Some (operationIssue ''receipt_invalid''))
     | Some frozen \<Rightarrow>
         if actionOf o' = OperationServerCreate then reconcileOperationCreate r o' plan frozen
         else (case (opl_Server plan, opl_Data plan) of
             (Some planned, Some data) \<Rightarrow> reconcilePlannedServer r o' plan planned data frozen
           | _ \<Rightarrow> State_Monad.return (Some (operationIssue ''receipt_invalid''))))"

end
