(* ===== verification/TranslatorData.thy ===== *)
theory TranslatorData
  imports TranslatorServer
begin

text \<open>
  \<^verbatim>\<open>arcadeoperation\_data.go\<close>: the native operations that carry out a backup, a restore or a destruction, how a receipt
  mirrors them, and the commands that confirm or cancel a destruction; and \<^verbatim>\<open>Reconcile\<close> of the translator.
\<close>

section \<open>Native children\<close>

datatype OperationChild = ChildBackup GameBackup | ChildRestore GameRestore | ChildDestroy GameDestroy

definition childMeta :: "OperationChild \<Rightarrow> ObjectMeta" where
  "childMeta child = (case child of ChildBackup b \<Rightarrow> gb_Meta b | ChildRestore b \<Rightarrow> gr_Meta b | ChildDestroy d \<Rightarrow> gd_Meta d)"

definition operationChildKind :: "OperationChild \<Rightarrow> string" where
  "operationChildKind child = (case child of ChildBackup b \<Rightarrow> ''GameBackup'' | ChildRestore b \<Rightarrow> ''GameRestore'' | ChildDestroy d \<Rightarrow> ''GameDestroy'')"

definition operationChildSpecMatches :: "OperationChild \<Rightarrow> OperationChild \<Rightarrow> bool" where
  "operationChildSpecMatches want got = (case (want, got) of
       (ChildBackup expected, ChildBackup actual) \<Rightarrow> gb_Spec expected = gb_Spec actual
     | (ChildRestore expected, ChildRestore actual) \<Rightarrow> gr_Spec expected = gr_Spec actual
     | (ChildDestroy expected, ChildDestroy actual) \<Rightarrow> gd_Spec expected = (gd_Spec actual)\<lparr> ds_ConfirmationChallenge := [], ds_CancelRequested := False \<rparr>
     | _ \<Rightarrow> False)"

definition emptyDataStatus :: DataOperationStatus where
  "emptyDataStatus = \<lparr> st_ObservedGeneration = 0, st_Phase = DataPhaseEmpty, st_Attempts = 0, st_StartedAt = None, st_CompletedAt = None,
     st_Conditions = [], st_Source = None, st_Fence = None, st_Artifact = None, st_Runtime = None \<rparr>"

definition emptyRestoreStatus :: GameRestoreStatus where
  "emptyRestoreStatus = \<lparr> rst_Data = emptyDataStatus, rst_PopulateAttempts = 0, rst_PopulateRetryPending = False, rst_PopulateJobUID = [],
     rst_PreviousDataIdentity = [], rst_PreflightVerifiedAt = None, rst_RuntimeJournal = None, rst_ActivationStartedAt = None,
     rst_CandidateVerification = None, rst_CandidateData = [], rst_ActiveData = [], rst_PreviousData = [] \<rparr>"

definition emptyDestroyStatus :: GameDestroyStatus where
  "emptyDestroyStatus = \<lparr> dst_ObservedGeneration = 0, dst_Phase = DestroyPhaseEmpty, dst_StartedAt = None, dst_CompletedAt = None,
     dst_Conditions = [], dst_Preview = None, dst_Verification = None, dst_DeletionJournal = [] \<rparr>"

definition childObjectMeta :: "ArcadeOperation \<Rightarrow> string \<Rightarrow> ObjectMeta" where
  "childObjectMeta o' kind = freshMeta (ChildName (operationUID o') kind) (operationNamespace o')
     [operationReceiptUIDLabel \<mapsto> operationUID o'] [operationReceiptNameAnnotation \<mapsto> operationName o'] []"

definition childRequest :: "ExactSecretReference \<Rightarrow> RestartPolicy \<Rightarrow> DataOperationRequest" where
  "childRequest secret policy = \<lparr> req_InlineCredentials = None, req_RepositorySecretRef = secret, req_RestartPolicy = policy, req_CancelRequested = False \<rparr>"

definition operationChild :: "ArcadeOperation \<Rightarrow> OperationPlan \<Rightarrow> ExactGameServerReference \<Rightarrow> RetainedDataReference \<Rightarrow> ExactSecretReference \<Rightarrow> operationError + OperationChild" where
  "operationChild o' plan server data secret = (case actionOf o' of
       OperationWorldBackup \<Rightarrow> (case oreq_Backup (requestOf o') of
           None \<Rightarrow> Inl operationPanic
         | Some input \<Rightarrow> Inr (ChildBackup \<lparr> gb_Meta = childObjectMeta o' ''GameBackup'',
             gb_Spec = \<lparr> bspec_Request = childRequest secret (bin_RestartPolicy input), bspec_Source = server, bspec_SourceData = Some data,
               bspec_RetentionPolicy = ArtifactRetentionRetain \<rparr>, gb_Status = emptyDataStatus \<rparr>))
     | OperationWorldRestore \<Rightarrow> (case opl_BackupRef plan of
           None \<Rightarrow> Inl (operationIssue ''receipt_invalid'')
         | Some backup \<Rightarrow> (case oreq_Restore (requestOf o') of
             None \<Rightarrow> Inl operationPanic
           | Some input \<Rightarrow> Inr (ChildRestore \<lparr> gr_Meta = childObjectMeta o' ''GameRestore'',
               gr_Spec = \<lparr> rspec_Request = childRequest secret (rin_RestartPolicy input), rspec_BackupRef = backup, rspec_Target = server,
                 rspec_TargetData = Some data \<rparr>, gr_Status = emptyRestoreStatus \<rparr>)))
     | OperationWorldDestroyPreview \<Rightarrow> (case (opl_BackupRef plan, aost_RetainedWorld (ao_Status o')) of
           (Some backup, Some world) \<Rightarrow> Inr (ChildDestroy \<lparr> gd_Meta = childObjectMeta o' ''GameDestroy'',
             gd_Spec = \<lparr> ds_Target = orw_Target world, ds_Mode = DestroyModeVerifiedBackup, ds_BackupRef = Some backup, ds_RepositorySecretRef = Some secret,
               ds_UnsafeReason = [], ds_ConfirmationChallenge = [], ds_CancelRequested = False \<rparr>, gd_Status = emptyDestroyStatus \<rparr>)
         | _ \<Rightarrow> Inl (operationIssue ''receipt_invalid''))
     | _ \<Rightarrow> Inl (operationIssue ''invalid_request''))"

definition readChild :: "ArcadeOperationReconciler \<Rightarrow> nat \<Rightarrow> OperationChild \<Rightarrow> ApiError + OperationChild" where
  "readChild r n child = (let namespace = meta_Namespace (childMeta child); name = meta_Name (childMeta child) in
     case child of
       ChildBackup _ \<Rightarrow> map_sum id ChildBackup (vw_Backup (operation_reader r) n namespace name)
     | ChildRestore _ \<Rightarrow> map_sum id ChildRestore (vw_Restore (operation_reader r) n namespace name)
     | ChildDestroy _ \<Rightarrow> map_sum id ChildDestroy (vw_Destroy (operation_reader r) n namespace name))"

definition createChild :: "OperationChild \<Rightarrow> OperationMessage" where
  "createChild child = (case child of ChildBackup b \<Rightarrow> CreateBackup b | ChildRestore b \<Rightarrow> CreateRestore b | ChildDestroy d \<Rightarrow> CreateDestroy d)"

section \<open>Mirroring a native operation\<close>

definition blockedCode :: "Condition list \<Rightarrow> string" where
  "blockedCode conditions = foldl (\<lambda>code c.
     if cond_Reason c = ReasonOperationConflict then ''operation_conflict''
     else if cond_Reason c = ReasonSecretUnavailable then ''secret_unavailable'' else code) ''invalid_reference'' conditions"

definition refusedVerification :: "Condition list \<Rightarrow> bool" where
  "refusedVerification conditions = (case FindStatusCondition conditions ConditionOperationComplete of
       None \<Rightarrow> False
     | Some complete \<Rightarrow> cond_Reason complete = ReasonVerificationFailed)"

definition mirrorDataOperation :: "ArcadeOperationReconciler \<Rightarrow> ArcadeOperation \<Rightarrow> DataOperationStatus \<Rightarrow> int64 \<Rightarrow> operationError option operation_program" where
  "mirrorDataOperation r o' st generation =
     (let mirror = (\<lambda>phase.
            if aost_Phase (ao_Status o') = phase \<and> aost_Failure (ao_Status o') = None then State_Monad.return None
            else operationStatus r o' phase (\<lambda>s. s\<lparr> aost_Failure := None \<rparr>)) in
      if st_ObservedGeneration st \<noteq> generation then
        (if st_ObservedGeneration st = 0 \<and> st_Phase st = DataPhaseEmpty then do {
           slow \<leftarrow> operationObservationSlow r o';
           if \<not> slow then State_Monad.return None else operationProgressGuidance r o' ''api_unavailable'' }
         else operationProgressGuidance r o' ''api_unavailable'')
      else (case st_Phase st of
          DataPhaseBlocked \<Rightarrow> operationProgressGuidance r o' (blockedCode (st_Conditions st))
        | DataPhaseSucceeded \<Rightarrow> mirror OperationPhaseSucceeded
        | DataPhaseCancelled \<Rightarrow> mirror OperationPhaseCancelled
        | DataPhaseFailed \<Rightarrow> State_Monad.return (Some (operationIssue (if refusedVerification (st_Conditions st) then ''verification_failed'' else ''worker_failed'')))
        | DataPhaseVerifying \<Rightarrow> mirror OperationPhaseVerifying
        | _ \<Rightarrow> mirror OperationPhaseRunning))"

definition destroyUnobserved :: "ArcadeOperationReconciler \<Rightarrow> ArcadeOperation \<Rightarrow> GameDestroy \<Rightarrow> operationError option operation_program" where
  "destroyUnobserved r o' destroy =
     (let stale = (if aost_Phase (ao_Status o') = OperationPhaseRunning \<and> aost_DestroyPreview (ao_Status o') = None \<and>
              (case aost_Failure (ao_Status o') of None \<Rightarrow> False | Some f \<Rightarrow> ofl_Code f = ''api_unavailable'' \<and> ofl_Retryable f)
            then State_Monad.return None
            else operationStatus r o' OperationPhaseRunning (\<lambda>s. s\<lparr> aost_DestroyPreview := None,
              aost_Failure := Some ((operationFailure ''api_unavailable'')\<lparr> ofl_Retryable := True \<rparr>) \<rparr>)) in
      if dst_ObservedGeneration (gd_Status destroy) = 0 \<and> dst_Phase (gd_Status destroy) = DestroyPhaseEmpty then do {
        slow \<leftarrow> operationObservationSlow r o';
        if slow then stale
        else if aost_Phase (ao_Status o') = OperationPhaseRunning \<and> aost_DestroyPreview (ao_Status o') = None \<and> aost_Failure (ao_Status o') = None
        then State_Monad.return None
        else operationStatus r o' OperationPhaseRunning (\<lambda>s. s\<lparr> aost_DestroyPreview := None, aost_Failure := None \<rparr>) }
      else stale)"

definition mirrorDestroyOperation :: "ArcadeOperationReconciler \<Rightarrow> ArcadeOperation \<Rightarrow> GameDestroy \<Rightarrow> operationError option operation_program" where
  "mirrorDestroyOperation r o' destroy =
     (let mirror = (\<lambda>phase.
            if aost_Phase (ao_Status o') = phase \<and> aost_Failure (ao_Status o') = None \<and> aost_DestroyPreview (ao_Status o') = dst_Preview (gd_Status destroy)
            then State_Monad.return None
            else operationStatus r o' phase (\<lambda>s. s\<lparr> aost_DestroyPreview := dst_Preview (gd_Status destroy), aost_Failure := None \<rparr>)) in
      if dst_ObservedGeneration (gd_Status destroy) \<noteq> meta_Generation (gd_Meta destroy) then destroyUnobserved r o' destroy
      else (case dst_Phase (gd_Status destroy) of
          DestroyPhasePreview \<Rightarrow> mirror OperationPhaseAwaitingConfirmation
        | DestroyPhaseVerifying \<Rightarrow> mirror OperationPhaseVerifying
        | DestroyPhaseDeleting \<Rightarrow> mirror OperationPhaseDeleting
        | DestroyPhaseSucceeded \<Rightarrow> mirror OperationPhaseSucceeded
        | DestroyPhaseCancelled \<Rightarrow> mirror OperationPhaseCancelled
        | DestroyPhaseFailed \<Rightarrow> State_Monad.return (Some (operationIssue
            (if refusedVerification (dst_Conditions (gd_Status destroy)) then ''verification_failed'' else ''invalid_reference'')))
        | _ \<Rightarrow> mirror OperationPhaseRunning))"

section \<open>Commands to a destruction\<close>

definition operationConfirmAnnotation :: string where "operationConfirmAnnotation = ''arcade.gobha.me/operation-confirm-uid''"
definition operationCancelAnnotation :: string where "operationCancelAnnotation = ''arcade.gobha.me/operation-cancel-uid''"

definition commandPatches :: "GameDestroy \<Rightarrow> string \<Rightarrow> UID \<Rightarrow> string \<Rightarrow> PatchValue \<Rightarrow> operationJSONPatch list" where
  "commandPatches destroy annotation uid path v =
     [addPatch ''/metadata/annotations'' (PatchMap ((meta_Annotations (gd_Meta destroy))(annotation \<mapsto> uid))), addPatch path v]"

definition destroyCancel :: "ArcadeOperationReconciler \<Rightarrow> ArcadeOperation \<Rightarrow> GameDestroy \<Rightarrow> operationError option operation_program" where
  "destroyCancel r o' destroy =
     (let phase = dst_Phase (gd_Status destroy); journal = dst_DeletionJournal (gd_Status destroy) in
      if ds_CancelRequested (gd_Spec destroy) \<and> mget (meta_Annotations (gd_Meta destroy)) operationCancelAnnotation = operationUID o' then
        (if phase = DestroyPhaseCancelled then operationStatus r o' OperationPhaseSucceeded id
         else State_Monad.return (guard (journal \<noteq> [] \<or> destroyTerminal phase) (operationIssue ''too_late'')))
      else if destroyTerminal phase \<or> phase = DestroyPhaseDeleting \<or> journal \<noteq> [] \<or> ds_CancelRequested (gd_Spec destroy) then
        State_Monad.return (Some (operationIssue ''too_late''))
      else patchOperationDestroy r destroy (commandPatches destroy operationCancelAnnotation (operationUID o') ''/spec/cancelRequested'' (PatchBool True)))"

definition destroyConfirm :: "ArcadeOperationReconciler \<Rightarrow> ArcadeOperation \<Rightarrow> OperationDestroyCommand \<Rightarrow> GameDestroy \<Rightarrow> operationError option operation_program" where
  "destroyConfirm r o' command destroy =
     (let phase = dst_Phase (gd_Status destroy) in
      if ds_ConfirmationChallenge (gd_Spec destroy) = dcmd_Challenge command \<and>
         mget (meta_Annotations (gd_Meta destroy)) operationConfirmAnnotation = operationUID o' then
        (if phase = DestroyPhaseFailed \<or> phase = DestroyPhaseCancelled then State_Monad.return (Some (operationIssue ''too_late''))
         else operationStatus r o' OperationPhaseSucceeded id)
      else if ds_CancelRequested (gd_Spec destroy) \<or> destroyTerminal phase \<or> phase \<noteq> DestroyPhasePreview \<or>
              dst_DeletionJournal (gd_Status destroy) \<noteq> [] \<or> ds_ConfirmationChallenge (gd_Spec destroy) \<noteq> [] then
        State_Monad.return (Some (operationIssue ''too_late''))
      else (case dst_Preview (gd_Status destroy) of
          None \<Rightarrow> State_Monad.return (Some (operationIssue ''invalid_request''))
        | Some pv \<Rightarrow>
            if dcmd_Challenge command \<noteq> pv_Challenge pv then State_Monad.return (Some (operationIssue ''invalid_request''))
            else do {
              t \<leftarrow> operation_now r;
              if \<not> t < pv_ExpiresAt pv then State_Monad.return (Some (operationIssue ''confirmation_expired''))
              else patchOperationDestroy r destroy (commandPatches destroy operationConfirmAnnotation (operationUID o') ''/spec/confirmationChallenge'' (PatchText (dcmd_Challenge command))) }))"

definition destroyCommand :: "ArcadeOperationReconciler \<Rightarrow> ArcadeOperation \<Rightarrow> OperationDestroyCommand \<Rightarrow> GameDestroy \<Rightarrow> operationError option operation_program" where
  "destroyCommand r o' command destroy = (case aost_Child (ao_Status o') of
       None \<Rightarrow> operationStatus r o' OperationPhaseRunning (\<lambda>s. s\<lparr> aost_Child :=
         Some \<lparr> och_Kind = ''GameDestroy'', och_Local = dcmd_DestroyRef command, och_Generation = meta_Generation (gd_Meta destroy) \<rparr> \<rparr>)
     | Some child \<Rightarrow>
         if och_Kind child \<noteq> ''GameDestroy'' \<or> ref_UID (och_Local child) \<noteq> meta_UID (gd_Meta destroy) \<or> ref_Name (och_Local child) \<noteq> meta_Name (gd_Meta destroy)
         then State_Monad.return (Some (operationIssue ''child_changed''))
         else if dst_ObservedGeneration (gd_Status destroy) \<noteq> meta_Generation (gd_Meta destroy) then operationProgressGuidance r o' ''api_unavailable''
         else if actionOf o' = OperationWorldDestroyCancel then destroyCancel r o' destroy
         else if actionOf o' \<noteq> OperationWorldDestroyConfirm then State_Monad.return (Some (operationIssue ''invalid_request''))
         else destroyConfirm r o' command destroy)"

definition reconcileDestroyCommand :: "ArcadeOperationReconciler \<Rightarrow> ArcadeOperation \<Rightarrow> OperationPlan \<Rightarrow> OperationDestroyCommand \<Rightarrow> operationError option operation_program" where
  "reconcileDestroyCommand r o' plan command = do {
     got \<leftarrow> operationDestroyCommandObjects r o';
     case got of
       Inl e \<Rightarrow> State_Monad.return (Some e)
     | Inr (parent, destroy) \<Rightarrow>
         if opl_DestroyRef plan \<noteq> Some (dcmd_DestroyRef command) then State_Monad.return (Some (operationIssue ''receipt_invalid''))
         else destroyCommand r o' command destroy }"

section \<open>Data operations\<close>

definition childReference :: "OperationChild \<Rightarrow> OperationChildReference" where
  "childReference actual = \<lparr> och_Kind = operationChildKind actual, och_Local = exactRef (childMeta actual), och_Generation = meta_Generation (childMeta actual) \<rparr>"

definition childChanged :: "ArcadeOperation \<Rightarrow> OperationChild \<Rightarrow> OperationChild \<Rightarrow> bool" where
  "childChanged o' child actual \<longleftrightarrow> (let m = childMeta actual in
     meta_UID m = [] \<or> meta_OwnerReferences m \<noteq> [] \<or> terminating m \<or> mget (meta_Labels m) operationReceiptUIDLabel \<noteq> operationUID o' \<or>
     mget (meta_Annotations m) operationReceiptNameAnnotation \<noteq> operationName o' \<or> \<not> operationChildSpecMatches child actual)"

text \<open>Generations are compared as the signed integers they are.\<close>

definition childReplaced :: "OperationChildReference \<Rightarrow> OperationChild \<Rightarrow> bool" where
  "childReplaced recorded actual \<longleftrightarrow> (let m = childMeta actual; kind = operationChildKind actual in
     och_Kind recorded \<noteq> kind \<or> ref_Name (och_Local recorded) \<noteq> meta_Name m \<or> ref_UID (och_Local recorded) \<noteq> meta_UID m \<or>
     kind \<noteq> ''GameDestroy'' \<and> och_Generation recorded \<noteq> meta_Generation m \<or> sint (meta_Generation m) < sint (och_Generation recorded))"

definition observeChild :: "ArcadeOperationReconciler \<Rightarrow> ArcadeOperation \<Rightarrow> OperationChild \<Rightarrow> OperationChild \<Rightarrow> operationError option operation_program" where
  "observeChild r o' child actual =
     (if childChanged o' child actual then State_Monad.return (Some (operationIssue ''child_changed''))
      else (case aost_Child (ao_Status o') of
          None \<Rightarrow>
            if meta_Generation (childMeta actual) \<noteq> 1 then State_Monad.return (Some (operationIssue ''child_changed''))
            else operationStatus r o' OperationPhaseRunning (\<lambda>s. s\<lparr> aost_Child := Some (childReference actual) \<rparr>)
        | Some recorded \<Rightarrow>
            if childReplaced recorded actual then State_Monad.return (Some (operationIssue ''child_changed''))
            else (case actual of
                ChildBackup b \<Rightarrow> mirrorDataOperation r o' (gb_Status b) (meta_Generation (gb_Meta b))
              | ChildRestore b \<Rightarrow> mirrorDataOperation r o' (rst_Data (gr_Status b)) (meta_Generation (gr_Meta b))
              | ChildDestroy d \<Rightarrow> mirrorDestroyOperation r o' d)))"

definition reconcileChild :: "ArcadeOperationReconciler \<Rightarrow> ArcadeOperation \<Rightarrow> OperationChild \<Rightarrow> operationError option operation_program" where
  "reconcileChild r o' child = do {
     got \<leftarrow> ask (\<lambda>n. readChild r n child);
     case got of
       Inl NotFound \<Rightarrow>
         if aost_Child (ao_Status o') \<noteq> None then State_Monad.return (Some (operationIssue ''child_changed''))
         else do {
           e \<leftarrow> operation_send r (createChild child);
           State_Monad.return (map_option operationApi e) }
     | Inl (ApiFailure m) \<Rightarrow> State_Monad.return (Some (operationApi (ApiFailure m)))
     | Inr actual \<Rightarrow> observeChild r o' child actual }"

definition reconcileOperationData :: "ArcadeOperationReconciler \<Rightarrow> ArcadeOperation \<Rightarrow> OperationPlan \<Rightarrow> operationError option operation_program" where
  "reconcileOperationData r o' plan = (case oreq_DestroyCommand (requestOf o') of
       Some command \<Rightarrow> reconcileDestroyCommand r o' plan command
     | None \<Rightarrow> (case (opl_Server plan, opl_Data plan, opl_RepositorySecretRef plan) of
         (Some server, Some data, Some secret) \<Rightarrow> (case operationChild o' plan server data secret of
             Inl e \<Rightarrow> State_Monad.return (Some e)
           | Inr child \<Rightarrow> reconcileChild r o' child)
       | _ \<Rightarrow> State_Monad.return (Some (operationIssue ''receipt_invalid''))))"

section \<open>Reconcile\<close>

definition removeOperationFinalizer :: "ArcadeOperationReconciler \<Rightarrow> ArcadeOperation \<Rightarrow> error option operation_program" where
  "removeOperationFinalizer r o' =
     (if \<not> containsOperationFinalizer o' then State_Monad.return None
      else do {
        e \<leftarrow> operation_send r (UpdateOperation (o'\<lparr> ao_Meta := (ao_Meta o')\<lparr> meta_Finalizers := filter (\<lambda>f. f \<noteq> operationFinalizer) (meta_Finalizers (ao_Meta o')) \<rparr> \<rparr>));
        State_Monad.return (map_option (\<lambda>_. ''release operation finalizer failed'') e) })"

definition releaseOperation :: "ArcadeOperationReconciler \<Rightarrow> ArcadeOperation \<Rightarrow> Reconciled operation_program" where
  "releaseOperation r o' = do {
     e \<leftarrow> releaseOperationLease r o';
     case e of
       Some _ \<Rightarrow> State_Monad.return (operationRetry (Some ''release exact operation fence failed''))
     | None \<Rightarrow> do { e \<leftarrow> removeOperationFinalizer r o'; State_Monad.return (finished e) } }"

definition protectOperation :: "ArcadeOperationReconciler \<Rightarrow> ArcadeOperation \<Rightarrow> Reconciled operation_program" where
  "protectOperation r o' = do {
     e \<leftarrow> operation_send r (UpdateOperation (o'\<lparr> ao_Meta := (ao_Meta o')\<lparr> meta_Finalizers := meta_Finalizers (ao_Meta o') @ [operationFinalizer] \<rparr> \<rparr>));
     State_Monad.return (operationRetry (map_option (\<lambda>_. ''protect operation fence failed'') e)) }"

definition recordPlan :: "ArcadeOperationReconciler \<Rightarrow> ArcadeOperation \<Rightarrow> Reconciled option operation_program" where
  "recordPlan r o' = do {
     planned \<leftarrow> planOperation r o';
     case planned of
       Inl e \<Rightarrow> operationResultError r o' e
     | Inr (plan, retained) \<Rightarrow> do {
         e \<leftarrow> operationStatus r o' OperationPhasePlanning (\<lambda>s. s\<lparr> aost_Plan := Some plan, aost_RetainedWorld := retained \<rparr>);
         State_Monad.return (Some (operationRetry (errorText e))) } }"

definition reconcileOperation :: "ArcadeOperationReconciler \<Rightarrow> ArcadeOperation \<Rightarrow> Reconciled option operation_program" where
  "reconcileOperation r o' =
     (if terminating (ao_Meta o') \<or> operationTerminal (aost_Phase (ao_Status o')) then do { x \<leftarrow> releaseOperation r o'; State_Monad.return (Some x) }
      else if operationUID o' = [] \<or> aos_Version (ao_Spec o') \<noteq> ''v1'' \<or> ValidateRequest (aor_Operations r) (actionOf o') (requestOf o') \<noteq> None then
        do { x \<leftarrow> failOperation r o' ''invalid_request''; State_Monad.return (Some x) }
      else if aost_Phase (ao_Status o') = OperationPhaseEmpty then
        do { e \<leftarrow> operationStatus r o' OperationPhaseAccepted id; State_Monad.return (Some (operationRetry (errorText e))) }
      else if operationServerAction (actionOf o') \<and> \<not> containsOperationFinalizer o' then do { x \<leftarrow> protectOperation r o'; State_Monad.return (Some x) }
      else (case aost_Plan (ao_Status o') of
          None \<Rightarrow> recordPlan r o'
        | Some plan \<Rightarrow> do {
            err \<leftarrow> (if operationServerAction (actionOf o') then reconcileOperationServer r o' plan else reconcileOperationData r o' plan);
            case err of
              Some e \<Rightarrow> operationResultError r o' e
            | None \<Rightarrow> State_Monad.return (Some (operationRetry None)) }))"

definition ReconcileArcadeOperation :: "ArcadeOperationReconciler \<Rightarrow> string \<Rightarrow> string \<Rightarrow> Reconciled option operation_program" where
  "ReconcileArcadeOperation r namespace name = do {
     got \<leftarrow> ask (\<lambda>n. vw_Operation (operation_reader r) n namespace name);
     case got of
       Inl NotFound \<Rightarrow> State_Monad.return (Some (finished None))
     | Inl (ApiFailure m) \<Rightarrow> State_Monad.return (Some (finished (Some m)))
     | Inr o' \<Rightarrow> reconcileOperation r o' }"

end
