(* ===== verification/Guarded.thy ===== *)
theory Guarded
  imports KubeClient
begin

text \<open>
  Hoare-style reasoning about runs. \<open>guarded P F m G\<close>: from every state whose call counter satisfies \<open>F\<close>, the
  program \<open>m\<close> only sends requests that \<open>P\<close> permits at the moment they are sent, and ends with a result and a counter
  that satisfy \<open>G\<close>. Assertions speak about the counter alone: what a run has observed is a fact about the answers at
  earlier calls, so that it stays true when the run goes on. \<open>since m F\<close> says that \<open>F\<close> is such a fact about a run that
  began at call \<open>m\<close>.
\<close>

definition guarded :: "(nat \<Rightarrow> 'q \<Rightarrow> bool) \<Rightarrow> (nat \<Rightarrow> bool) \<Rightarrow> ('q session_of, 'a) state \<Rightarrow> ('a \<Rightarrow> nat \<Rightarrow> bool) \<Rightarrow> bool" where
  "guarded P F m G \<longleftrightarrow> (\<forall>s. F (ses_calls s) \<longrightarrow> wp m (\<lambda>x t. extends P s t \<and> G x (ses_calls t)) s)"

definition since :: "nat \<Rightarrow> (nat \<Rightarrow> bool) \<Rightarrow> bool" where
  "since m F \<longleftrightarrow> (\<forall>n. F n \<longrightarrow> m \<le> n \<and> F (Suc n))"

named_theorems since_intros \<open>facts that stay true\<close>
named_theorems guarded_intros \<open>rules that follow the structure of a program\<close>

section \<open>Facts that stay true\<close>

lemma since_start [since_intros]: "since m (\<lambda>n. m \<le> n)"
  by (simp add: since_def)

lemma since_conj [since_intros]: "since m F \<Longrightarrow> since m (\<lambda>n. F n \<and> A)"
  by (simp add: since_def)

lemma since_seen [since_intros]: "since m F \<Longrightarrow> since m (\<lambda>n. F n \<and> seen m n Q)"
  by (simp add: since_def)

lemma since_wide [since_intros]: "since m F \<Longrightarrow> wide A \<Longrightarrow> since m (\<lambda>n. F n \<and> A m n)"
  unfolding since_def by (meson le_SucI order_refl wideD)

lemma since_le: "since m F \<Longrightarrow> F n \<Longrightarrow> m \<le> n"
  by (simp add: since_def)

lemma since_Suc: "since m F \<Longrightarrow> F n \<Longrightarrow> F (Suc n)"
  by (simp add: since_def)

lemma since_mono:
  assumes "since m F" "F n" "n \<le> n'"
  shows "F n'"
  using assms(3)
proof (induction rule: inc_induct)
  case base
  show ?case using assms(3)
    by (induction rule: dec_induct) (use assms since_Suc in auto)
qed

section \<open>Rules\<close>

lemma guardedD: "guarded P F m G \<Longrightarrow> F (ses_calls s) \<Longrightarrow> wp m (\<lambda>x t. extends P s t \<and> G x (ses_calls t)) s"
  by (simp add: guarded_def)

lemma guarded_conseq:
  assumes "guarded P F m G" "\<And>n. F' n \<Longrightarrow> F n" "\<And>x n. G x n \<Longrightarrow> G' x n"
  shows "guarded P F' m G'"
  unfolding guarded_def by (intro allI impI, rule wp_mono [OF guardedD [OF assms(1)]]) (use assms in auto)

lemma guarded_pre: "guarded P F m G \<Longrightarrow> (\<And>n. F' n \<Longrightarrow> F n) \<Longrightarrow> guarded P F' m G"
  by (rule guarded_conseq)

lemma guarded_post: "guarded P F m G \<Longrightarrow> (\<And>x n. G x n \<Longrightarrow> G' x n) \<Longrightarrow> guarded P F m G'"
  by (rule guarded_conseq)

lemma guarded_fact: "(\<And>n. F n \<Longrightarrow> A) \<Longrightarrow> (A \<Longrightarrow> guarded P F m G) \<Longrightarrow> guarded P F m G"
  unfolding guarded_def by blast

lemma guarded_permit: "guarded P F m G \<Longrightarrow> (\<And>n q. P n q \<Longrightarrow> P' n q) \<Longrightarrow> guarded P' F m G"
  unfolding guarded_def by (intro allI impI, rule wp_mono, blast) (auto elim: extends_mono)

lemma guarded_start: "guarded P (\<lambda>n. k \<le> n) m G \<Longrightarrow> guarded P (\<lambda>n. k \<le> n) m (\<lambda>x n. k \<le> n \<and> G x n)"
  unfolding guarded_def by (intro allI impI, rule wp_mono, blast) (auto dest: extends_calls)

lemma guarded_return: "(\<And>n. F n \<Longrightarrow> G x n) \<Longrightarrow> guarded P F (State_Monad.return x) G"
  by (simp add: guarded_def wp_simps)

lemma guarded_return_iff [simp]: "guarded P F (State_Monad.return x) G \<longleftrightarrow> (\<forall>n. F n \<longrightarrow> G x n)"
  by (auto simp: guarded_def wp_simps) (metis session_of.select_convs(1))

lemma guarded_ask: "(\<And>n. F n \<Longrightarrow> G (f n) (Suc n)) \<Longrightarrow> guarded P F (ask f) G"
  by (simp add: guarded_def wp_simps)

lemma guarded_send: "(\<And>n. F n \<Longrightarrow> P n q \<and> G (f n) (Suc n)) \<Longrightarrow> guarded P F (send_to f q) G"
  by (simp add: guarded_def wp_simps extends_send)

lemma guarded_bind:
  assumes "guarded P F m G" "\<And>x. guarded P (G x) (f x) H"
  shows "guarded P F (State_Monad.bind m f) H"
  unfolding guarded_def wp_bind
proof (intro allI impI)
  fix s :: "'a session_of"
  assume "F (ses_calls s)"
  then show "wp m (\<lambda>x. wp (f x) (\<lambda>y t. extends P s t \<and> H y (ses_calls t))) s"
  proof (rule wp_mono [OF guardedD [OF assms(1)]])
    fix x t
    assume t: "extends P s t \<and> G x (ses_calls t)"
    show "wp (f x) (\<lambda>y u. extends P s u \<and> H y (ses_calls u)) t"
      by (rule wp_mono [OF guardedD [OF assms(2)]]) (use t extends_trans in blast)+
  qed
qed

text \<open>What a read has seen.\<close>

lemma guarded_read:
  assumes "since m F" "\<And>x. guarded P (\<lambda>n. F n \<and> seen m n (\<lambda>k. f k = x)) (g x) G"
  shows "guarded P F (State_Monad.bind (ask f) g) G"
  by (rule guarded_bind [OF guarded_ask assms(2)]) (use assms(1) in \<open>simp add: since_Suc since_le\<close>)

lemma guarded_ask_then: "since m F \<Longrightarrow> guarded P F (ask f) (\<lambda>x n. F n \<and> seen m n (\<lambda>k. f k = x))"
  by (rule guarded_ask) (simp add: since_Suc since_le)

lemma guarded_send_then:
  assumes "since m F" "\<And>n. F n \<Longrightarrow> P n q" "\<And>x. guarded P (\<lambda>n. F n \<and> seen m n (\<lambda>k. f k = x)) (g x) G"
  shows "guarded P F (State_Monad.bind (send_to f q) g) G"
  by (rule guarded_bind [OF guarded_send assms(3)]) (use assms(1,2) in \<open>simp add: since_Suc since_le\<close>)

lemma guarded_if [guarded_intros]: "(b \<Longrightarrow> guarded P F m G) \<Longrightarrow> (\<not> b \<Longrightarrow> guarded P F m' G) \<Longrightarrow> guarded P F (if b then m else m') G"
  by simp

lemma guarded_let [guarded_intros]: "guarded P F (f x) G \<Longrightarrow> guarded P F (Let x f) G"
  by simp

lemma guarded_sum [guarded_intros]:
  "(\<And>e. x = Inl e \<Longrightarrow> guarded P F (f e) G) \<Longrightarrow> (\<And>v. x = Inr v \<Longrightarrow> guarded P F (g v) G) \<Longrightarrow> guarded P F (case x of Inl e \<Rightarrow> f e | Inr v \<Rightarrow> g v) G"
  by (cases x) simp_all

lemma guarded_option [guarded_intros]:
  "(x = None \<Longrightarrow> guarded P F m G) \<Longrightarrow> (\<And>v. x = Some v \<Longrightarrow> guarded P F (g v) G) \<Longrightarrow> guarded P F (case x of None \<Rightarrow> m | Some v \<Rightarrow> g v) G"
  by (cases x) simp_all

lemma guarded_bool [guarded_intros]:
  "(x \<Longrightarrow> guarded P F m G) \<Longrightarrow> (\<not> x \<Longrightarrow> guarded P F m' G) \<Longrightarrow> guarded P F (case x of True \<Rightarrow> m | False \<Rightarrow> m') G"
  by (cases x) simp_all

lemma guarded_prod [guarded_intros]: "(\<And>a b. x = (a, b) \<Longrightarrow> guarded P F (f a b) G) \<Longrightarrow> guarded P F (case x of (a, b) \<Rightarrow> f a b) G"
  by (cases x) simp

lemma guarded_api [guarded_intros]:
  "(e = NotFound \<Longrightarrow> guarded P F m G) \<Longrightarrow> (\<And>t. e = ApiFailure t \<Longrightarrow> guarded P F (g t) G) \<Longrightarrow>
    guarded P F (case e of NotFound \<Rightarrow> m | ApiFailure t \<Rightarrow> g t) G"
  by (cases e) simp_all

lemma guarded_check:
  assumes "guarded P F m G" "guarded P (G None) k H" "\<And>e n. G (Some e) n \<Longrightarrow> H (Some e) n"
  shows "guarded P F (check m k) H"
  unfolding check_def
proof (rule guarded_bind [OF assms(1)])
  show "guarded P (G x) (case x of None \<Rightarrow> k | Some e \<Rightarrow> State_Monad.return (Some e)) H" for x
    by (cases x) (simp_all add: assms(2,3) guarded_return)
qed

lemma guarded_attempt:
  assumes "guarded P F m G" "\<And>v. guarded P (G (Inr v)) (f v) H" "\<And>e n. G (Inl e) n \<Longrightarrow> H (Inl e) n"
  shows "guarded P F (attempt m f) H"
  unfolding attempt_def
proof (rule guarded_bind [OF assms(1)])
  show "guarded P (G x) (case x of Inl e \<Rightarrow> State_Monad.return (Inl e) | Inr v \<Rightarrow> f v) H" for x
    by (cases x) (simp_all add: assms(2,3) guarded_return)
qed

text \<open>A loop over a list, whose body records a fact about each element.\<close>

lemma guarded_each:
  assumes "since m F" "\<And>x. wide (A x)"
    and body: "\<And>x F'. x \<in> set xs \<Longrightarrow> since m F' \<Longrightarrow> (\<And>n. F' n \<Longrightarrow> F n) \<Longrightarrow> guarded P F' (f x) (\<lambda>r n. F' n \<and> (r = None \<longrightarrow> A x m n))"
  shows "guarded P F (each f xs) (\<lambda>r n. F n \<and> (r = None \<longrightarrow> (\<forall>x\<in>set xs. A x m n)))"
  using assms(1) body
proof (induction xs arbitrary: F)
  case Nil
  then show ?case by simp
next
  case (Cons x xs)
  let ?F = "\<lambda>n. F n \<and> A x m n"
  have tail: "guarded P ?F (each f xs) (\<lambda>r n. ?F n \<and> (r = None \<longrightarrow> (\<forall>x\<in>set xs. A x m n)))"
    by (rule Cons.IH) (use Cons.prems since_wide [OF _ assms(2)] in auto)
  have head: "guarded P F (f x) (\<lambda>r n. F n \<and> (r = None \<longrightarrow> A x m n))" using Cons.prems by simp
  show ?case unfolding each.simps
    by (rule guarded_check [OF head guarded_conseq [OF tail]]) auto
qed

section \<open>Runs from the start\<close>

lemma guarded_run:
  assumes "guarded P F m G" "F 0" "run_state m \<lparr> ses_calls = 0, ses_log = [] \<rparr> = (x, t)"
  shows "G x (ses_calls t) \<and> (\<forall>n q. (n, q) \<in> set (ses_log t) \<longrightarrow> P n q)"
proof -
  have "extends P \<lparr> ses_calls = 0, ses_log = [] \<rparr> t \<and> G x (ses_calls t)"
    using wp_run [OF assms(3) guardedD [OF assms(1)]] assms(2) by simp
  then show ?thesis using extends_log by fastforce
qed

lemma guarded_log:
  assumes "guarded P F m G" "F 0" "run_state m \<lparr> ses_calls = 0, ses_log = [] \<rparr> = (x, t)" "(n, q) \<in> set (ses_log t)"
  shows "P n q"
  using guarded_run [OF assms(1-3)] assms(4) by blast

end
