(* ===== verification/TranslatorSpec.thy ===== *)
theory TranslatorSpec
  imports TranslatorData Guarded
begin

text \<open>
  What the operation translator may ask for. \<open>operation_ok r o' m n q\<close> is the permission of request \<open>q\<close> at call \<open>n\<close> of a
  run for the receipt \<open>o'\<close> that began at call \<open>m\<close>: it speaks about the receipt, about the plan recorded in it and about
  what the run has read since. The theory states the permissions; \<open>TranslatorGates\<close> shows that every request of the
  translator has one.
\<close>

section \<open>What a run has seen\<close>

abbreviation read_server :: "ArcadeOperationReconciler \<Rightarrow> ArcadeOperation \<Rightarrow> string \<Rightarrow> ApiError + GameServer \<Rightarrow> nat \<Rightarrow> bool" where
  "read_server r o' name got k \<equiv> vw_GameServer (operation_reader r) k (operationNamespace o') name = got"

abbreviation read_fence :: "ArcadeOperationReconciler \<Rightarrow> ArcadeOperation \<Rightarrow> string \<Rightarrow> ApiError + Lease \<Rightarrow> nat \<Rightarrow> bool" where
  "read_fence r o' identity got k \<equiv> vw_Lease (operation_reader r) k (operationNamespace o') (DataOperationLeaseName identity) = got"

definition claim_read :: "ArcadeOperationReconciler \<Rightarrow> DataClaimPlan \<Rightarrow> RetainedDataClaimReference \<Rightarrow> nat \<Rightarrow> bool" where
  "claim_read r claim ref k \<longleftrightarrow> (\<exists>pvc. vw_Claim (operation_reader r) k (meta_Namespace (pvc_Meta (dcp_Desired claim))) (meta_Name (pvc_Meta (dcp_Desired claim))) = Inr pvc \<and>
     serverClaimReference r claim pvc = Inr ref)"

text \<open>The claims of the server's own plan, each bound and seen under the name and UID of the reference.\<close>

definition world_read :: "ArcadeOperationReconciler \<Rightarrow> GameServer \<Rightarrow> RetainedDataReference \<Rightarrow> nat \<Rightarrow> nat \<Rightarrow> bool" where
  "world_read r server data m n \<longleftrightarrow> (\<exists>catalog d plan. aor_Catalog r = Some catalog \<and> catalog (gss_Game (gs_Spec server)) = Inr d \<and>
     Build (aor_Library r) server d = Inr plan \<and> rdata_Identity data = plan_DataIdentity plan \<and>
     list_all2 (\<lambda>claim ref. seen m n (claim_read r claim ref)) (plan_DataClaims plan) (rdata_Claims data))"

text \<open>The receipt holds the fence of a world: a lease of its own was seen, or it was absent and then created.\<close>

definition fence_held :: "ArcadeOperationReconciler \<Rightarrow> ArcadeOperation \<Rightarrow> string \<Rightarrow> string \<Rightarrow> nat \<Rightarrow> nat \<Rightarrow> bool" where
  "fence_held r o' name identity m n \<longleftrightarrow>
     seen m n (\<lambda>k. \<exists>lease. read_fence r o' identity (Inr lease) k \<and> operationLeaseMatches lease o' name identity) \<or>
     seen m n (read_fence r o' identity (Inl NotFound)) \<and> seen m n (\<lambda>k. \<exists>t. aor_Respond r k (CreateFence (operationLease o' name identity t)) = None)"

text \<open>The server of a plan as it is known after a step: as read, or as the answer to a patch of what was read.\<close>

definition server_known :: "ArcadeOperationReconciler \<Rightarrow> ArcadeOperation \<Rightarrow> ExactGameServerReference \<Rightarrow> GameServer \<Rightarrow> GameServer \<Rightarrow> nat \<Rightarrow> nat \<Rightarrow> bool" where
  "server_known r o' planned server current m n \<longleftrightarrow>
     seen m n (read_server r o' (ref_Name (gref_Local planned)) (Inr server)) \<and> serverUID server = ref_UID (gref_Local planned) \<and> \<not> terminating (gs_Meta server) \<and>
     (current = server \<or> (\<exists>patches. seen m n (\<lambda>k. aor_RespondServer r k server patches = Inr current)))"

section \<open>Failures\<close>

text \<open>The codes that the resource admits, in the order of its enumeration.\<close>

definition failureCodes :: "string list" where
  "failureCodes = [''invalid_request'', ''target_changed'', ''operation_conflict'', ''invalid_reference'', ''secret_unavailable'', ''unsupported'',
     ''image_unavailable'', ''validation_failed'', ''worker_failed'', ''verification_failed'', ''too_late'', ''confirmation_expired'', ''child_changed'',
     ''api_unavailable'', ''receipt_invalid'']"

definition failureValid :: "OperationFailure \<Rightarrow> bool" where
  "failureValid f \<longleftrightarrow> ofl_Code f \<in> set failureCodes \<and> 1 \<le> length (ofl_Message f) \<and> length (ofl_Message f) \<le> 512 \<and>
     1 \<le> length (ofl_SuggestedAction f) \<and> length (ofl_SuggestedAction f) \<le> 512"

text \<open>An error that a reconciliation can report: no panic, and no issue outside the enumeration.\<close>

definition reportable :: "operationError \<Rightarrow> bool" where
  "reportable e = (case e of operationIssue code \<Rightarrow> code \<in> set failureCodes | operationPanic \<Rightarrow> False | _ \<Rightarrow> True)"

definition calm :: "operationError option \<Rightarrow> bool" where
  "calm x \<longleftrightarrow> (\<forall>e. x = Some e \<longrightarrow> reportable e)"

definition calm_result :: "operationError + 'a \<Rightarrow> bool" where
  "calm_result x \<longleftrightarrow> (\<forall>e. x = Inl e \<longrightarrow> reportable e)"

section \<open>The receipt\<close>

definition released :: "ArcadeOperation \<Rightarrow> bool" where
  "released o' \<longleftrightarrow> terminating (ao_Meta o') \<or> operationTerminal (aost_Phase (ao_Status o'))"

definition working :: "ArcadeOperationReconciler \<Rightarrow> ArcadeOperation \<Rightarrow> bool" where
  "working r o' \<longleftrightarrow> \<not> released o' \<and> operationUID o' \<noteq> [] \<and> aos_Version (ao_Spec o') = ''v1'' \<and>
     ValidateRequest (aor_Operations r) (actionOf o') (requestOf o') = None \<and>
     (operationServerAction (actionOf o') \<longrightarrow> containsOperationFinalizer o')"

text \<open>What a change of a live server rests on, given the server as it was read.\<close>

record Change =
  ch_plan :: OperationPlan
  ch_planned :: ExactGameServerReference
  ch_data :: RetainedDataReference
  ch_spec :: GameServerSpec
  ch_server :: GameServer

definition change_ok :: "ArcadeOperationReconciler \<Rightarrow> ArcadeOperation \<Rightarrow> Change \<Rightarrow> nat \<Rightarrow> nat \<Rightarrow> bool" where
  "change_ok r o' c m n \<longleftrightarrow> working r o' \<and> aost_Plan (ao_Status o') = Some (ch_plan c) \<and> operationServerAction (actionOf o') \<and> actionOf o' \<noteq> OperationServerCreate \<and>
     opl_Server (ch_plan c) = Some (ch_planned c) \<and> opl_Data (ch_plan c) = Some (ch_data c) \<and>
     (\<exists>frozen. opl_ServerIntent (ch_plan c) = Some frozen \<and> ServerSpec frozen = Some (ch_spec c)) \<and>
     server_known r o' (ch_planned c) (ch_server c) (ch_server c) m n \<and>
     (\<exists>current. world_read r (ch_server c) current m n \<and> sameDataSelection (Some current) (Some (ch_data c))) \<and>
     fence_held r o' (serverName (ch_server c)) (rdata_Identity (ch_data c)) m n"

abbreviation ch_step :: "ArcadeOperation \<Rightarrow> Change \<Rightarrow> string" where "ch_step o' c \<equiv> fst (dueStep o' (ch_spec c))"
abbreviation ch_intent :: "ArcadeOperation \<Rightarrow> Change \<Rightarrow> GameServerSpec" where "ch_intent o' c \<equiv> snd (dueStep o' (ch_spec c))"

text \<open>The due step is recorded, the server is at its generation, and the intent is the recorded one.\<close>

definition step_due :: "ArcadeOperationReconciler \<Rightarrow> ArcadeOperation \<Rightarrow> Change \<Rightarrow> OperationServerTransition \<Rightarrow> bool" where
  "step_due r o' c t \<longleftrightarrow> operationTransition o' (ch_step o' c) = Some t \<and> SpecDigest (aor_Operations r) (ch_intent o' c) = Some (otr_SpecDigest t) \<and>
     otr_DesiredState t = gss_DesiredState (ch_intent o' c)"

text \<open>The step took effect and the server was observed in the state it asks for.\<close>

definition step_settled :: "ArcadeOperationReconciler \<Rightarrow> ArcadeOperation \<Rightarrow> Change \<Rightarrow> OperationServerTransition \<Rightarrow> GameServer \<Rightarrow> nat \<Rightarrow> nat \<Rightarrow> bool" where
  "step_settled r o' c t current m n \<longleftrightarrow> change_ok r o' c m n \<and> step_due r o' c t \<and> server_known r o' (ch_planned c) (ch_server c) current m n \<and>
     operationTransitionApplied (aor_Operations r) o' current t (ch_intent o' c) \<and>
     operationRuntimeObserved current (gss_DesiredState (ch_intent o' c)) (Some (ch_data c))"

section \<open>The status of a receipt\<close>

definition transitionSteps :: "string list" where "transitionSteps = [''Apply'', ''Stop'', ''Start'']"
definition childKinds :: "string list" where "childKinds = [''GameServer'', ''GameBackup'', ''GameRestore'', ''GameDestroy'']"

definition transition_ok :: "ArcadeOperationReconciler \<Rightarrow> ArcadeOperation \<Rightarrow> OperationServerTransition \<Rightarrow> nat \<Rightarrow> nat \<Rightarrow> bool" where
  "transition_ok r o' t m n \<longleftrightarrow> operationTransition o' (otr_Step t) = None \<and> otr_Step t \<in> set transitionSteps \<and> (\<exists>c intent current. change_ok r o' c m n \<and>
     server_known r o' (ch_planned c) (ch_server c) current m n \<and> SpecDigest (aor_Operations r) intent = Some (otr_SpecDigest t) \<and> otr_DesiredState t = gss_DesiredState intent \<and>
     otr_FromGeneration t = meta_Generation (gs_Meta current) \<and>
     otr_ToGeneration t = otr_FromGeneration t + (if operationSpecsEqual (aor_Operations r) (gs_Spec current) intent then 0 else 1) \<and>
     (if otr_Step t = ''Start'' then \<exists>stop'. step_settled r o' c stop' current m n \<and> otr_Step stop' = ''Stop'' else
        current = ch_server c \<and> operationExactServer current (Some (ch_planned c))))"

definition created_observed :: "ArcadeOperationReconciler \<Rightarrow> ArcadeOperation \<Rightarrow> nat \<Rightarrow> nat \<Rightarrow> bool" where
  "created_observed r o' m n \<longleftrightarrow> (\<exists>plan frozen intent digest server data child. aost_Plan (ao_Status o') = Some plan \<and> opl_ServerIntent plan = Some frozen \<and>
     ServerSpec frozen = Some intent \<and> SpecDigest (aor_Operations r) intent = Some digest \<and>
     seen m n (read_server r o' (oreq_ServerName (requestOf o')) (Inr server)) \<and> \<not> createdChanged r o' intent digest server \<and>
     aost_Child (ao_Status o') = Some child \<and> ref_UID (och_Local child) = serverUID server \<and> world_read r server data m n \<and>
     (\<forall>d. opl_Data plan = Some d \<longrightarrow> sameDataSelection (Some data) (Some d)) \<and> fence_held r o' (serverName server) (rdata_Identity data) m n \<and>
     operationRuntimeObserved server (gss_DesiredState intent) (Some data))"

definition decommission_observed :: "ArcadeOperationReconciler \<Rightarrow> ArcadeOperation \<Rightarrow> nat \<Rightarrow> nat \<Rightarrow> bool" where
  "decommission_observed r o' m n \<longleftrightarrow> decommissioning o' \<and> (\<exists>plan planned. aost_Plan (ao_Status o') = Some plan \<and> opl_Server plan = Some planned \<and>
     (seen m n (read_server r o' (ref_Name (gref_Local planned)) (Inl NotFound)) \<or>
      (\<exists>server. seen m n (read_server r o' (ref_Name (gref_Local planned)) (Inr server)) \<and> serverUID server \<noteq> ref_UID (gref_Local planned))))"

text \<open>The child of a data operation, as the plan prescribes it and as it was read.\<close>

definition child_planned :: "ArcadeOperation \<Rightarrow> OperationChild \<Rightarrow> bool" where
  "child_planned o' child \<longleftrightarrow> (\<exists>plan server data secret. aost_Plan (ao_Status o') = Some plan \<and> opl_Server plan = Some server \<and> opl_Data plan = Some data \<and>
     opl_RepositorySecretRef plan = Some secret \<and> operationChild o' plan server data secret = Inr child)"

definition child_read :: "ArcadeOperationReconciler \<Rightarrow> ArcadeOperation \<Rightarrow> OperationChild \<Rightarrow> nat \<Rightarrow> nat \<Rightarrow> bool" where
  "child_read r o' actual m n \<longleftrightarrow> (\<exists>child. child_planned o' child \<and> seen m n (\<lambda>k. readChild r k child = Inr actual) \<and> \<not> childChanged o' child actual)"

definition child_succeeded :: "OperationChild \<Rightarrow> bool" where
  "child_succeeded actual = (case actual of
       ChildBackup b \<Rightarrow> st_ObservedGeneration (gb_Status b) = meta_Generation (gb_Meta b) \<and> st_Phase (gb_Status b) = DataPhaseSucceeded
     | ChildRestore b \<Rightarrow> st_ObservedGeneration (rst_Data (gr_Status b)) = meta_Generation (gr_Meta b) \<and> st_Phase (rst_Data (gr_Status b)) = DataPhaseSucceeded
     | ChildDestroy d \<Rightarrow> dst_ObservedGeneration (gd_Status d) = meta_Generation (gd_Meta d) \<and> dst_Phase (gd_Status d) = DestroyPhaseSucceeded)"

definition child_observed :: "ArcadeOperationReconciler \<Rightarrow> ArcadeOperation \<Rightarrow> nat \<Rightarrow> nat \<Rightarrow> bool" where
  "child_observed r o' m n \<longleftrightarrow> (\<exists>actual recorded. child_read r o' actual m n \<and> child_succeeded actual \<and> aost_Child (ao_Status o') = Some recorded \<and> \<not> childReplaced recorded actual)"

text \<open>The destruction that a command acts on, and the receipt that previewed it.\<close>

definition command_read :: "ArcadeOperationReconciler \<Rightarrow> ArcadeOperation \<Rightarrow> OperationDestroyCommand \<Rightarrow> GameDestroy \<Rightarrow> nat \<Rightarrow> nat \<Rightarrow> bool" where
  "command_read r o' command destroy m n \<longleftrightarrow> oreq_DestroyCommand (requestOf o') = Some command \<and>
     (\<exists>plan precondition parent. aost_Plan (ao_Status o') = Some plan \<and> opl_DestroyRef plan = Some (dcmd_DestroyRef command) \<and>
        ParsePrecondition (oreq_Precondition (requestOf o')) = Some precondition \<and> pre_Kind precondition = ''operation'' \<and>
        seen m n (\<lambda>k. vw_Operation (operation_reader r) k (operationNamespace o') (ref_Name (dcmd_ParentOperationRef command)) = Inr parent) \<and>
        \<not> commandParentChanged parent command precondition \<and>
        seen m n (\<lambda>k. vw_Destroy (operation_reader r) k (operationNamespace o') (ref_Name (dcmd_DestroyRef command)) = Inr destroy) \<and>
        \<not> commandDestroyChanged parent command destroy) \<and>
     dst_ObservedGeneration (gd_Status destroy) = meta_Generation (gd_Meta destroy)"

definition command_done :: "ArcadeOperation \<Rightarrow> OperationDestroyCommand \<Rightarrow> GameDestroy \<Rightarrow> bool" where
  "command_done o' command destroy \<longleftrightarrow>
     (if actionOf o' = OperationWorldDestroyCancel then
        ds_CancelRequested (gd_Spec destroy) \<and> mget (meta_Annotations (gd_Meta destroy)) operationCancelAnnotation = operationUID o' \<and>
        dst_Phase (gd_Status destroy) = DestroyPhaseCancelled
      else actionOf o' = OperationWorldDestroyConfirm \<and> ds_ConfirmationChallenge (gd_Spec destroy) = dcmd_Challenge command \<and>
        mget (meta_Annotations (gd_Meta destroy)) operationConfirmAnnotation = operationUID o' \<and>
        dst_Phase (gd_Status destroy) \<noteq> DestroyPhaseFailed \<and> dst_Phase (gd_Status destroy) \<noteq> DestroyPhaseCancelled)"

text \<open>What was observed of an operation that is reported as succeeded.\<close>

definition achieved :: "ArcadeOperationReconciler \<Rightarrow> ArcadeOperation \<Rightarrow> nat \<Rightarrow> nat \<Rightarrow> bool" where
  "achieved r o' m n \<longleftrightarrow>
     (if actionOf o' = OperationServerCreate then created_observed r o' m n
      else if actionOf o' = OperationServerDecommission then decommission_observed r o' m n
      else if operationServerAction (actionOf o') then
        \<exists>c t current. step_settled r o' c t current m n \<and> (actionOf o' = OperationServerRestart \<longrightarrow> otr_Step t = ''Start'')
      else if oreq_DestroyCommand (requestOf o') \<noteq> None then \<exists>command destroy. command_read r o' command destroy m n \<and> command_done o' command destroy
      else child_observed r o' m n)"

definition status_step :: "ArcadeOperationReconciler \<Rightarrow> ArcadeOperation \<Rightarrow> nat \<Rightarrow> nat \<Rightarrow> ArcadeOperationStatus \<Rightarrow> bool" where
  "status_step r o' m n s \<longleftrightarrow>
     (aost_Plan s = aost_Plan (ao_Status o') \<or> aost_Plan (ao_Status o') = None) \<and>
     (aost_RetainedWorld s = aost_RetainedWorld (ao_Status o') \<or> aost_Plan (ao_Status o') = None \<and> aost_Plan s \<noteq> None) \<and>
     (aost_Child s = aost_Child (ao_Status o') \<or> aost_Child (ao_Status o') = None \<and> (\<forall>c. aost_Child s = Some c \<longrightarrow> och_Kind c \<in> set childKinds)) \<and>
     (aost_Transitions s = aost_Transitions (ao_Status o') \<or> (\<exists>t. aost_Transitions s = aost_Transitions (ao_Status o') @ [t] \<and> transition_ok r o' t m n)) \<and>
     aost_ObservedGeneration s = meta_Generation (ao_Meta o') \<and>
     aost_StartedAt s \<noteq> None \<and> (aost_StartedAt (ao_Status o') = None \<or> aost_StartedAt s = aost_StartedAt (ao_Status o')) \<and>
     (operationTerminal (aost_Phase s) \<longrightarrow> aost_CompletedAt s \<noteq> None) \<and>
     (\<forall>f. aost_Failure s = Some f \<longrightarrow> aost_Failure (ao_Status o') = Some f \<or> failureValid f) \<and>
     (aost_Phase s = OperationPhaseFailed \<longrightarrow> aost_Failure s \<noteq> None) \<and>
     (aost_Phase s = OperationPhaseSucceeded \<longrightarrow> aost_Failure s = None \<and> working r o' \<and> achieved r o' m n)"

section \<open>Requests\<close>

definition create_ok :: "ArcadeOperationReconciler \<Rightarrow> ArcadeOperation \<Rightarrow> GameServer \<Rightarrow> nat \<Rightarrow> nat \<Rightarrow> bool" where
  "create_ok r o' server m n \<longleftrightarrow> working r o' \<and> actionOf o' = OperationServerCreate \<and> aost_Child (ao_Status o') = None \<and>
     (\<exists>plan frozen intent digest. aost_Plan (ao_Status o') = Some plan \<and> opl_ServerIntent plan = Some frozen \<and> ServerSpec frozen = Some intent \<and>
        SpecDigest (aor_Operations r) intent = Some digest \<and> server = createdServer o' intent digest \<and>
        seen m n (read_server r o' (oreq_ServerName (requestOf o')) (Inl NotFound)) \<and>
        (\<forall>d. opl_Data plan = Some d \<longrightarrow> fence_held r o' (oreq_ServerName (requestOf o')) (rdata_Identity d) m n))"

definition patch_ok :: "ArcadeOperationReconciler \<Rightarrow> ArcadeOperation \<Rightarrow> GameServer \<Rightarrow> operationJSONPatch list \<Rightarrow> nat \<Rightarrow> nat \<Rightarrow> bool" where
  "patch_ok r o' server patches m n \<longleftrightarrow> (\<exists>c t. change_ok r o' c m n \<and> ch_server c = server \<and> step_due r o' c t \<and>
     meta_Generation (gs_Meta server) = otr_FromGeneration t \<and> \<not> transitionBlocked r o' (ch_plan c) (ch_planned c) server t (ch_intent o' c) \<and>
     patches = exactPatches (gs_Meta server) (transitionPatches o' server t (ch_intent o' c)))"

definition delete_server_ok :: "ArcadeOperationReconciler \<Rightarrow> ArcadeOperation \<Rightarrow> string \<Rightarrow> string \<Rightarrow> UID \<Rightarrow> string \<Rightarrow> nat \<Rightarrow> nat \<Rightarrow> bool" where
  "delete_server_ok r o' namespace name uid version m n \<longleftrightarrow> actionOf o' = OperationServerDecommission \<and> aost_RetainedWorld (ao_Status o') \<noteq> None \<and>
     (\<exists>c t current. step_settled r o' c t current m n \<and> otr_Step t = ''Stop'' \<and> namespace = serverNamespace current \<and> name = serverName current \<and>
        uid = serverUID current \<and> version = meta_ResourceVersion (gs_Meta current))"

definition child_ok :: "ArcadeOperationReconciler \<Rightarrow> ArcadeOperation \<Rightarrow> OperationChild \<Rightarrow> nat \<Rightarrow> nat \<Rightarrow> bool" where
  "child_ok r o' child m n \<longleftrightarrow> working r o' \<and> \<not> operationServerAction (actionOf o') \<and> aost_Child (ao_Status o') = None \<and> child_planned o' child \<and>
     seen m n (\<lambda>k. readChild r k child = Inl NotFound)"

definition cancel_ok :: "ArcadeOperation \<Rightarrow> GameDestroy \<Rightarrow> bool" where
  "cancel_ok o' destroy \<longleftrightarrow> \<not> destroyTerminal (dst_Phase (gd_Status destroy)) \<and> dst_Phase (gd_Status destroy) \<noteq> DestroyPhaseDeleting \<and>
     dst_DeletionJournal (gd_Status destroy) = [] \<and> \<not> ds_CancelRequested (gd_Spec destroy)"

definition confirm_ok :: "ArcadeOperationReconciler \<Rightarrow> OperationDestroyCommand \<Rightarrow> GameDestroy \<Rightarrow> nat \<Rightarrow> nat \<Rightarrow> bool" where
  "confirm_ok r command destroy m n \<longleftrightarrow> \<not> ds_CancelRequested (gd_Spec destroy) \<and> dst_Phase (gd_Status destroy) = DestroyPhasePreview \<and>
     dst_DeletionJournal (gd_Status destroy) = [] \<and> ds_ConfirmationChallenge (gd_Spec destroy) = [] \<and>
     (\<exists>pv. dst_Preview (gd_Status destroy) = Some pv \<and> dcmd_Challenge command = pv_Challenge pv \<and> seen m n (\<lambda>k. aor_Now r k < pv_ExpiresAt pv))"

definition patch_destroy_ok :: "ArcadeOperationReconciler \<Rightarrow> ArcadeOperation \<Rightarrow> GameDestroy \<Rightarrow> operationJSONPatch list \<Rightarrow> nat \<Rightarrow> nat \<Rightarrow> bool" where
  "patch_destroy_ok r o' destroy patches m n \<longleftrightarrow> working r o' \<and> (\<exists>command. command_read r o' command destroy m n \<and>
     (if actionOf o' = OperationWorldDestroyCancel then cancel_ok o' destroy \<and> patches = exactPatches (gd_Meta destroy)
          (commandPatches destroy operationCancelAnnotation (operationUID o') ''/spec/cancelRequested'' (PatchBool True))
      else actionOf o' = OperationWorldDestroyConfirm \<and> confirm_ok r command destroy m n \<and> patches = exactPatches (gd_Meta destroy)
          (commandPatches destroy operationConfirmAnnotation (operationUID o') ''/spec/confirmationChallenge'' (PatchText (dcmd_Challenge command)))))"

text \<open>A fence is given up by the receipt that holds it, and the finalizer only after the fence.\<close>

definition fence_released :: "ArcadeOperationReconciler \<Rightarrow> ArcadeOperation \<Rightarrow> nat \<Rightarrow> nat \<Rightarrow> bool" where
  "fence_released r o' m n \<longleftrightarrow> (case operationLeaseCoordinates o' of
       None \<Rightarrow> False
     | Some (name, identity) \<Rightarrow> name = [] \<or> identity = [] \<or> seen m n (read_fence r o' identity (Inl NotFound)) \<or>
         (\<exists>lease. seen m n (read_fence r o' identity (Inr lease)) \<and>
            (lease_HolderIdentity lease \<noteq> Some (operationUID o') \<and> lease_label lease operationReceiptUIDLabel \<noteq> operationUID o' \<or>
             (\<exists>e\<in>{None, Some NotFound}. seen m n (\<lambda>k. aor_Respond r k
                (DeleteFence (meta_Namespace (lease_Meta lease)) (meta_Name (lease_Meta lease)) (meta_UID (lease_Meta lease)) (meta_ResourceVersion (lease_Meta lease))) = e)))))"

definition delete_fence_ok :: "ArcadeOperationReconciler \<Rightarrow> ArcadeOperation \<Rightarrow> string \<Rightarrow> string \<Rightarrow> UID \<Rightarrow> string \<Rightarrow> nat \<Rightarrow> nat \<Rightarrow> bool" where
  "delete_fence_ok r o' namespace name uid version m n \<longleftrightarrow> released o' \<and> (\<exists>server identity lease. operationLeaseCoordinates o' = Some (server, identity) \<and>
     seen m n (read_fence r o' identity (Inr lease)) \<and> operationLeaseMatches lease o' server identity \<and>
     namespace = meta_Namespace (lease_Meta lease) \<and> name = meta_Name (lease_Meta lease) \<and> uid = meta_UID (lease_Meta lease) \<and> version = meta_ResourceVersion (lease_Meta lease))"

definition update_ok :: "ArcadeOperationReconciler \<Rightarrow> ArcadeOperation \<Rightarrow> ArcadeOperation \<Rightarrow> nat \<Rightarrow> nat \<Rightarrow> bool" where
  "update_ok r o' u m n \<longleftrightarrow> (\<exists>fs. u = o'\<lparr> ao_Meta := (ao_Meta o')\<lparr> meta_Finalizers := fs \<rparr> \<rparr> \<and>
     (if released o' then fs = filter (\<lambda>f. f \<noteq> operationFinalizer) (meta_Finalizers (ao_Meta o')) \<and> fence_released r o' m n
      else fs = meta_Finalizers (ao_Meta o') @ [operationFinalizer]))"

definition operation_ok :: "ArcadeOperationReconciler \<Rightarrow> ArcadeOperation \<Rightarrow> nat \<Rightarrow> nat \<Rightarrow> OperationMessage \<Rightarrow> bool" where
  "operation_ok r o' m n q = (case q of
       StatusOperation s \<Rightarrow> \<not> released o' \<and> ao_Meta s = ao_Meta o' \<and> ao_Spec s = ao_Spec o' \<and> status_step r o' m n (ao_Status s)
     | UpdateOperation u \<Rightarrow> update_ok r o' u m n
     | CreateFence lease \<Rightarrow> working r o' \<and> (\<exists>name identity t. lease = operationLease o' name identity t \<and> seen m n (read_fence r o' identity (Inl NotFound)))
     | DeleteFence namespace name uid version \<Rightarrow> delete_fence_ok r o' namespace name uid version m n
     | CreateServer server \<Rightarrow> create_ok r o' server m n
     | PatchServer server patches encoded \<Rightarrow> patch_ok r o' server patches m n \<and> aor_MarshalPatch r patches = Some encoded
     | DeleteServer namespace name uid version \<Rightarrow> delete_server_ok r o' namespace name uid version m n
     | CreateBackup b \<Rightarrow> child_ok r o' (ChildBackup b) m n
     | CreateRestore b \<Rightarrow> child_ok r o' (ChildRestore b) m n
     | CreateDestroy d \<Rightarrow> child_ok r o' (ChildDestroy d) m n
     | PatchDestroy destroy patches encoded \<Rightarrow> patch_destroy_ok r o' destroy patches m n \<and> aor_MarshalPatch r patches = Some encoded)"

section \<open>Facts that stay true\<close>

lemma wide_world_read [wide_simps]: "wide (world_read r server data)"
  unfolding world_read_def [abs_def] by (intro wide_simps)

lemma wide_fence_held [wide_simps]: "wide (fence_held r o' name identity)"
  unfolding fence_held_def [abs_def] by (intro wide_simps)

lemma wide_server_known [wide_simps]: "wide (server_known r o' planned server current)"
  unfolding server_known_def [abs_def] by (intro wide_simps)

lemma wide_change_ok [wide_simps]: "wide (change_ok r o' c)"
  unfolding change_ok_def [abs_def] by (intro wide_simps)

lemma wide_step_settled [wide_simps]: "wide (step_settled r o' c t current)"
  unfolding step_settled_def [abs_def] by (intro wide_simps)

lemma wide_command_read [wide_simps]: "wide (command_read r o' command destroy)"
  unfolding command_read_def [abs_def] by (intro wide_simps)

lemma wide_child_read [wide_simps]: "wide (child_read r o' actual)"
  unfolding child_read_def [abs_def] by (intro wide_simps)

lemma wide_fence_released [wide_simps]: "wide (fence_released r o')"
  unfolding fence_released_def [abs_def] by (cases "operationLeaseCoordinates o'") (auto intro!: wide_simps split: prod.split)

end
