(* ===== verification/TranslatorGates.thy ===== *)
theory TranslatorGates
  imports TranslatorSpec
begin

text \<open>
  Every request of the operation translator is permitted, and no reconciliation dereferences a nil pointer. An
  assertion after a call says both what the call has established and that its result is no panic.
\<close>

section \<open>Reportable errors\<close>

lemma calm_simps [simp]: "calm None" "calm (Some e) \<longleftrightarrow> reportable e" "calm_result (Inr v)" "calm_result (Inl e) \<longleftrightarrow> reportable e"
  "reportable (operationApi a)" "reportable (operationText t)" "\<not> reportable operationPanic" "calm (map_option operationApi x)" "calm (map_option (\<lambda>_. operationText t) y)"
  by (auto simp: calm_def calm_result_def reportable_def)

lemma reportable_issue [simp]: "reportable (operationIssue code) \<longleftrightarrow> code \<in> set failureCodes"
  by (simp add: reportable_def)

text \<open>The codes that the translator uses.\<close>

lemma known_codes [simp]:
  "''invalid_request'' \<in> set failureCodes" "''target_changed'' \<in> set failureCodes" "''operation_conflict'' \<in> set failureCodes" "''invalid_reference'' \<in> set failureCodes"
  "''secret_unavailable'' \<in> set failureCodes" "''unsupported'' \<in> set failureCodes" "''validation_failed'' \<in> set failureCodes" "''worker_failed'' \<in> set failureCodes"
  "''verification_failed'' \<in> set failureCodes" "''too_late'' \<in> set failureCodes" "''confirmation_expired'' \<in> set failureCodes" "''child_changed'' \<in> set failureCodes"
  "''api_unavailable'' \<in> set failureCodes" "''receipt_invalid'' \<in> set failureCodes"
  unfolding failureCodes_def by simp_all

lemma known_kinds [simp]: "och_Kind (serverChild server) \<in> set childKinds" "och_Kind (childReference actual) \<in> set childKinds" "''GameDestroy'' \<in> set childKinds"
  by (auto simp: serverChild_def childReference_def operationChildKind_def childKinds_def split: OperationChild.split)

lemma calm_guard [simp]: "calm (guard b (operationIssue code)) \<longleftrightarrow> (b \<longrightarrow> code \<in> set failureCodes)" "calm (guard b (operationText t))"
  by (simp_all add: guard_def reportable_issue)

lemma failure_valid:
  assumes "code \<in> set failureCodes"
  shows "failureValid (operationFailure code)" "failureValid ((operationFailure code)\<lparr> ofl_Retryable := b \<rparr>)"
proof -
  show "failureValid (operationFailure code)"
    using assms by (simp add: failureValid_def operationFailure_def Let_def)
  then show "failureValid ((operationFailure code)\<lparr> ofl_Retryable := b \<rparr>)" by (simp add: failureValid_def)
qed

lemma guidance_valid:
  assumes "code \<in> set failureCodes"
  shows "failureValid ((operationFailure code)\<lparr> ofl_Retryable := True,
    ofl_SuggestedAction := ''Continue observing this receipt and inspect its exact server or native operation; admitted work remains active and waiting does not cancel it.'' \<rparr>)"
  using failure_valid(1) [OF assms] by (simp add: failureValid_def)

lemma blocked_code: "blockedCode conditions \<in> set failureCodes"
proof -
  have "foldl (\<lambda>code c. if cond_Reason c = ReasonOperationConflict then ''operation_conflict'' else if cond_Reason c = ReasonSecretUnavailable then ''secret_unavailable'' else code) code conditions \<in> set failureCodes"
    if "code \<in> set failureCodes" for code
    using that by (induction conditions arbitrary: code) auto
  then show ?thesis unfolding blockedCode_def by simp
qed

section \<open>Operations that only read\<close>

lemma reference_gate:
  assumes "since m F"
  shows "guarded P F (operationReference get code) (\<lambda>x n. F n \<and> (code \<in> set failureCodes \<longrightarrow> calm_result x) \<and> (\<forall>v. x = Inr v \<longrightarrow> seen m n (\<lambda>k. get k = Inr v)))"
  unfolding operationReference_def
  by (intro guarded_read [of m] assms) (auto split: sum.splits ApiError.splits)

lemma server_claims_gate:
  assumes "since m F"
  shows "guarded P F (serverClaims r claims data) (\<lambda>x n. F n \<and> calm_result x \<and> (\<forall>d. x = Inr d \<longrightarrow> rdata_Identity d = rdata_Identity data \<and>
    (\<exists>refs. rdata_Claims d = rdata_Claims data @ refs \<and> list_all2 (\<lambda>claim ref. seen m n (claim_read r claim ref)) claims refs)))"
  using assms
proof (induction claims arbitrary: data F)
  case Nil
  then show ?case by simp
next
  case (Cons claim claims)
  let ?get = "\<lambda>n. vw_Claim (operation_reader r) n (meta_Namespace (pvc_Meta (dcp_Desired claim))) (meta_Name (pvc_Meta (dcp_Desired claim)))"
  let ?Q = "\<lambda>xs data x n. \<forall>d. x = Inr d \<longrightarrow> rdata_Identity d = rdata_Identity data \<and>
    (\<exists>refs. rdata_Claims d = rdata_Claims data @ refs \<and> list_all2 (\<lambda>claim ref. seen m n (claim_read r claim ref)) xs refs)"
  show ?case unfolding serverClaims.simps
  proof (rule guarded_attempt [OF reference_gate [OF Cons.prems]], rule guarded_sum, goal_cases)
    case (1 pvc e)
    then show ?case by (auto simp: serverClaimReference_def split: if_splits)
  next
    case (2 pvc ref)
    let ?F = "\<lambda>n. F n \<and> seen m n (\<lambda>k. ?get k = Inr pvc)"
    have "guarded P ?F (serverClaims r claims (data\<lparr> rdata_Claims := rdata_Claims data @ [ref] \<rparr>))
        (\<lambda>x n. ?F n \<and> calm_result x \<and> ?Q claims (data\<lparr> rdata_Claims := rdata_Claims data @ [ref] \<rparr>) x n)"
      by (rule Cons.IH [OF since_seen [OF Cons.prems]])
    then show ?case
    proof (rule guarded_conseq)
      fix x n
      assume n: "?F n \<and> calm_result x \<and> ?Q claims (data\<lparr> rdata_Claims := rdata_Claims data @ [ref] \<rparr>) x n"
      have read: "seen m n (claim_read r claim ref)" using n 2 unfolding claim_read_def [abs_def] by (blast intro: seen_mono)
      have "?Q (claim # claims) data x n"
      proof (intro allI impI)
        fix d
        assume "x = Inr d"
        with n obtain refs where "rdata_Identity d = rdata_Identity data" "rdata_Claims d = (rdata_Claims data @ [ref]) @ refs"
          "list_all2 (\<lambda>claim ref. seen m n (claim_read r claim ref)) claims refs" by auto
        with read show "rdata_Identity d = rdata_Identity data \<and> (\<exists>refs. rdata_Claims d = rdata_Claims data @ refs \<and>
            list_all2 (\<lambda>claim ref. seen m n (claim_read r claim ref)) (claim # claims) refs)"
          by (intro conjI exI [of _ "ref # refs"]) simp_all
      qed
      with n show "F n \<and> calm_result x \<and> ?Q (claim # claims) data x n" by blast
    qed auto
  qed auto
qed

lemma data_gate:
  assumes "since m F"
  shows "guarded P F (operationServerData r server) (\<lambda>x n. F n \<and> calm_result x \<and> (\<forall>data. x = Inr data \<longrightarrow> world_read r server data m n))"
proof -
  have return: "guarded P (\<lambda>n. F n \<and> calm_result (Inr data) \<and> (\<forall>d. Inr data = Inr d \<longrightarrow> rdata_Identity d = identity \<and>
      (\<exists>refs. rdata_Claims d = [] @ refs \<and> list_all2 (\<lambda>claim ref. seen m n (claim_read r claim ref)) claims refs)))
      (State_Monad.return (if b then Inl (operationIssue code) else Inr data))
      (\<lambda>x n. F n \<and> calm_result x \<and> (\<forall>data. x = Inr data \<longrightarrow> world_read r server data m n))"
    if "aor_Catalog r = Some catalog" "catalog (gss_Game (gs_Spec server)) = Inr d" "Build (aor_Library r) server d = Inr plan"
      "plan_DataIdentity plan = identity" "plan_DataClaims plan = claims" "code \<in> set failureCodes"
    for data :: RetainedDataReference and b code catalog d plan identity claims
    using that by (auto simp: world_read_def)
  show ?thesis unfolding operationServerData_def
    by (intro guarded_intros; (simp add: assms; fail)?)
      (rule guarded_attempt [OF server_claims_gate [OF assms]], simp_all only: RetainedDataReference.select_convs, rule return, (assumption | rule refl | rule known_codes)+, auto)
qed

lemma owner_gate:
  assumes "since m F"
  shows "guarded P F (fenceOwner get name) (\<lambda>x n. F n \<and> calm_result x)"
  unfolding fenceOwner_def
  by (intro guarded_intros guarded_read [of m] assms) (auto split: sum.splits ApiError.splits)

lemma pending_gate:
  assumes "since m F" "\<And>v. calm_result (pending v)"
  shows "guarded P F (ownerPending (fenceOwner get name) pending) (\<lambda>x n. F n \<and> calm_result x)"
  unfolding ownerPending_def
  by (rule guarded_attempt [OF owner_gate [OF assms(1)]]) (use assms(2) in \<open>auto split: option.splits\<close>)

lemma cleanup_gate:
  assumes "since m F"
  shows "guarded P F (operationFenceCleanupPending r lease name identity) (\<lambda>x n. F n \<and> calm_result x)"
  unfolding operationFenceCleanupPending_def
  by (intro guarded_intros pending_gate [of m] assms; simp add: receiptCleanupPending_def restoreCleanupPending_def split: option.split sum.split prod.split)

section \<open>Fences\<close>

lemma fence_gate:
  assumes "since m F" "working r o'"
  shows "guarded (operation_ok r o' m) F (acquireOperationLease r o' name identity)
    (\<lambda>x n. F n \<and> calm x \<and> (x = None \<longrightarrow> fence_held r o' name identity m n))"
  unfolding acquireOperationLease_def operation_now_def operation_send_def
proof (intro guarded_intros guarded_read [of m] guarded_send_then [of m] since_intros assms(1), goal_cases)
  case prems: 1
  then show ?case using assms(2) unfolding operation_ok_def OperationMessage.case by auto
next
  case prems: 2
  then show ?case unfolding fence_held_def by (auto intro: seen_ex)
next
  case prems: 5
  show ?case
    by (rule guarded_bind [OF cleanup_gate [OF since_seen [OF assms(1)]]]) (auto split: sum.split bool.split)
qed (auto simp: fence_held_def intro: seen_mono)

lemma release_lease_gate:
  assumes "since m F" "released o'"
  shows "guarded (operation_ok r o' m) F (releaseOperationLease r o') (\<lambda>x n. F n \<and> (x = None \<longrightarrow> fence_released r o' m n))"
  unfolding releaseOperationLease_def operation_send_def
proof (intro guarded_intros guarded_read [of m] guarded_send_then [of m] since_intros assms(1), goal_cases)
  case prems: (6 _ name identity _ lease)
  then show ?case using assms(2) unfolding operation_ok_def OperationMessage.case delete_fence_ok_def by blast
next
  case prems: (7 _ name identity _ lease)
  then show ?case by (auto simp: fence_released_def split: option.splits ApiError.splits)
qed (auto simp: fence_released_def guard_simps)

section \<open>The status of a receipt\<close>

definition written :: "ArcadeOperation \<Rightarrow> ArcadeOperationPhase \<Rightarrow> (ArcadeOperationStatus \<Rightarrow> ArcadeOperationStatus) \<Rightarrow> Time \<Rightarrow> Time \<Rightarrow> ArcadeOperationStatus" where
  "written o' phase modify started completed =
     (let s = modify ((ao_Status o')\<lparr> aost_ObservedGeneration := meta_Generation (ao_Meta o'), aost_Phase := phase, aost_StartedAt := Some started \<rparr>) in
      if operationTerminal phase
      then s\<lparr> aost_CompletedAt := Some completed, aost_Failure := (if phase \<noteq> OperationPhaseFailed then None else aost_Failure s) \<rparr>
      else s)"

lemma write_gate:
  assumes "since m F" "\<not> released o'"
    and step: "\<And>n started completed. F n \<Longrightarrow> aost_StartedAt (ao_Status o') = None \<or> aost_StartedAt (ao_Status o') = Some started \<Longrightarrow>
      status_step r o' m n (written o' phase modify started completed)"
  shows "guarded (operation_ok r o' m) F (operationStatus r o' phase modify) (\<lambda>x n. F n \<and> calm x)"
proof -
  let ?ok = "\<lambda>started. aost_StartedAt (ao_Status o') = None \<or> aost_StartedAt (ao_Status o') = Some started"
  have start: "guarded (operation_ok r o' m) F (case aost_StartedAt (ao_Status o') of Some t \<Rightarrow> State_Monad.return t | None \<Rightarrow> operation_now r) (\<lambda>t n. F n \<and> ?ok t)"
    unfolding operation_now_def by (intro guarded_intros guarded_conseq [OF guarded_ask_then [OF assms(1)]] guarded_return) auto
  have send: "guarded (operation_ok r o' m) (\<lambda>n. F n \<and> (\<exists>started completed. ?ok started \<and> s = written o' phase modify started completed))
      (do { e \<leftarrow> operation_send r (StatusOperation (o'\<lparr> ao_Status := s \<rparr>)); State_Monad.return (map_option (\<lambda>_. operationText ''persist operation journal failed'') e) })
      (\<lambda>x n. F n \<and> calm x)" for s
    unfolding operation_send_def
    by (rule guarded_send_then [OF since_conj [OF assms(1)]])
      (use assms(2) step in \<open>auto simp: operation_ok_def\<close>)
  show ?thesis unfolding operationStatus_def
  proof (rule guarded_bind [OF start], rule guarded_let, rule guarded_bind)
    fix started
    let ?s = "modify ((ao_Status o')\<lparr> aost_ObservedGeneration := meta_Generation (ao_Meta o'), aost_Phase := phase, aost_StartedAt := Some started \<rparr>)"
    show "guarded (operation_ok r o' m) (\<lambda>n. F n \<and> ?ok started)
      (if operationTerminal phase then do {
         t \<leftarrow> operation_now r;
         State_Monad.return (?s\<lparr> aost_CompletedAt := Some t, aost_Failure := (if phase \<noteq> OperationPhaseFailed then None else aost_Failure ?s) \<rparr>) }
       else State_Monad.return ?s)
      (\<lambda>s n. F n \<and> (\<exists>started completed. ?ok started \<and> s = written o' phase modify started completed))"
      unfolding operation_now_def
    proof (intro guarded_intros guarded_read [of m] since_intros assms(1), goal_cases)
      case (1 t)
      then have "?s\<lparr> aost_CompletedAt := Some t, aost_Failure := (if phase \<noteq> OperationPhaseFailed then None else aost_Failure ?s) \<rparr> = written o' phase modify started t"
        by (simp add: written_def Let_def)
      then show ?case unfolding guarded_return_iff by blast
    next
      case 2
      then have "?s = written o' phase modify started 0" by (simp add: written_def)
      then show ?case unfolding guarded_return_iff by blast
    qed
  qed (rule send)
qed

text \<open>Writes that record nothing but progress, a failure, a success or a step.\<close>

lemmas step_simps = status_step_def written_def Let_def operationTerminal_def

lemma progress_gate:
  assumes "since m F" "\<not> released o'" "phase \<noteq> OperationPhaseFailed" "phase \<noteq> OperationPhaseSucceeded"
    and "\<And>s. aost_Plan (f s) = aost_Plan s \<and> aost_RetainedWorld (f s) = aost_RetainedWorld s \<and>
      (aost_Child (f s) = aost_Child s \<or> aost_Child (ao_Status o') = None \<and> (\<forall>c. aost_Child (f s) = Some c \<longrightarrow> och_Kind c \<in> set childKinds)) \<and>
      (\<forall>v. aost_Failure (f s) = Some v \<longrightarrow> aost_Failure s = Some v \<or> failureValid v) \<and> aost_Transitions (f s) = aost_Transitions s \<and>
      aost_ObservedGeneration (f s) = aost_ObservedGeneration s \<and> aost_StartedAt (f s) = aost_StartedAt s \<and> aost_Phase (f s) = aost_Phase s"
  shows "guarded (operation_ok r o' m) F (operationStatus r o' phase f) (\<lambda>x n. F n \<and> calm x)"
proof (rule write_gate [OF assms(1,2)])
  fix n started completed
  assume "F n" "aost_StartedAt (ao_Status o') = None \<or> aost_StartedAt (ao_Status o') = Some started"
  then show "status_step r o' m n (written o' phase f started completed)"
    using assms(3,4) assms(5) [of "(ao_Status o')\<lparr> aost_ObservedGeneration := meta_Generation (ao_Meta o'), aost_Phase := phase, aost_StartedAt := Some started \<rparr>"]
    by (auto simp: step_simps)
qed

lemma guidance_gate:
  assumes "since m F" "\<not> released o'" "code \<in> set failureCodes"
  shows "guarded (operation_ok r o' m) F (operationProgressGuidance r o' code) (\<lambda>x n. F n \<and> calm x)"
  unfolding operationProgressGuidance_def Let_def
  by (intro guarded_if progress_gate assms guarded_return)
    (use assms(2) guidance_valid [OF assms(3)] in \<open>auto simp: released_def operationTerminal_def\<close>)

lemma fail_gate:
  assumes "since m F" "\<not> released o'" "code \<in> set failureCodes"
  shows "guarded (operation_ok r o' m) F (failOperation r o' code) (\<lambda>x n. True)"
  unfolding failOperation_def
  by (rule guarded_bind [OF write_gate [OF assms(1,2)]]) (use failure_valid [OF assms(3)] in \<open>auto simp: step_simps\<close>)

lemma success_gate:
  assumes "since m F" "working r o'" "\<And>n. F n \<Longrightarrow> achieved r o' m n"
  shows "guarded (operation_ok r o' m) F (operationStatus r o' OperationPhaseSucceeded id) (\<lambda>x n. F n \<and> calm x)"
  by (rule write_gate [OF assms(1)]) (use assms(2,3) in \<open>auto simp: working_def step_simps\<close>)

lemma slow_gate:
  assumes "since m F"
  shows "guarded P F (operationObservationSlow r o') (\<lambda>x n. F n)"
  unfolding operationObservationSlow_def operation_now_def
  by (intro guarded_intros guarded_read [of m] assms) auto

lemma await_gate:
  assumes "since m F" "\<not> released o'"
  shows "guarded (operation_ok r o' m) F (awaitServer r o' server) (\<lambda>x n. F n \<and> calm x)"
  unfolding awaitServer_def
  by (intro guarded_if guidance_gate assms guarded_bind [OF slow_gate [OF assms(1)]]) simp_all

section \<open>Changing a server\<close>

lemma transition_step: "operationTransition o' step = Some t \<Longrightarrow> otr_Step t = step"
  unfolding operationTransition_def by (metis (mono_tags, lifting) find_Some_iff)

lemma change_facts:
  assumes "change_ok r o' c m n"
  shows "working r o'" "\<not> released o'" "aost_Plan (ao_Status o') = Some (ch_plan c)" "operationServerAction (actionOf o')" "actionOf o' \<noteq> OperationServerCreate"
    "opl_Server (ch_plan c) = Some (ch_planned c)" "opl_Data (ch_plan c) = Some (ch_data c)"
  using assms by (auto simp: change_ok_def working_def)

lemma journal_gate:
  assumes "since m F" "\<not> released o'"
    and ok: "\<And>n digest t. F n \<Longrightarrow> SpecDigest (aor_Operations r) intent = Some digest \<Longrightarrow> transition_ok r o'
      \<lparr> otr_Step = step, otr_FromGeneration = meta_Generation (gs_Meta server),
        otr_ToGeneration = (if operationSpecsEqual (aor_Operations r) (gs_Spec server) intent then meta_Generation (gs_Meta server) else meta_Generation (gs_Meta server) + 1),
        otr_DesiredState = gss_DesiredState intent, otr_SpecDigest = digest, otr_RequestedAt = t \<rparr> m n"
  shows "guarded (operation_ok r o' m) F (journalOperationTransition r o' server step intent) (\<lambda>x n. F n \<and> calm x)"
  unfolding journalOperationTransition_def operation_now_def Let_def
proof (intro guarded_option guarded_read [OF assms(1)], goal_cases)
  case (2 digest t)
  show ?case
    by (rule guarded_post [OF write_gate [OF since_seen [OF assms(1)] assms(2)]]) (use ok [OF _ 2] in \<open>auto simp: step_simps\<close>)
qed simp

text \<open>The step of a restart or of a decommissioning.\<close>

lemma due_stop:
  assumes "fst (dueStep o' spec) = ''Stop''"
  shows "actionOf o' = OperationServerRestart \<Longrightarrow> operationTransition o' ''Start'' = None" "gss_DesiredState (snd (dueStep o' spec)) = DesiredStateStopped"
    "(snd (dueStep o' spec))\<lparr> gss_DesiredState := DesiredStateRunning \<rparr> = spec\<lparr> gss_DesiredState := DesiredStateRunning \<rparr>"
  using assms by (auto simp: dueStep_def split: if_splits)

lemma due_decommission: "actionOf o' = OperationServerDecommission \<Longrightarrow> fst (dueStep o' spec) = ''Stop''"
  by (simp add: dueStep_def)

lemma due_restart: "actionOf o' = OperationServerRestart \<Longrightarrow> fst (dueStep o' spec) \<noteq> ''Stop'' \<Longrightarrow> fst (dueStep o' spec) = ''Start''"
  by (simp add: dueStep_def split: if_splits)

lemma settled_transition:
  assumes "step_settled r o' c t current m n" "actionOf o' = OperationServerRestart" "ch_step o' c = ''Stop''"
    and "SpecDigest (aor_Operations r) intent = Some digest"
  shows "transition_ok r o' \<lparr> otr_Step = ''Start'', otr_FromGeneration = meta_Generation (gs_Meta current),
      otr_ToGeneration = (if operationSpecsEqual (aor_Operations r) (gs_Spec current) intent then meta_Generation (gs_Meta current) else meta_Generation (gs_Meta current) + 1),
      otr_DesiredState = gss_DesiredState intent, otr_SpecDigest = digest, otr_RequestedAt = time \<rparr> m n"
proof -
  have "otr_Step t = ''Stop''" using assms(1,3) transition_step unfolding step_settled_def step_due_def by metis
  moreover have "change_ok r o' c m n" "server_known r o' (ch_planned c) (ch_server c) current m n" using assms(1) by (simp_all add: step_settled_def)
  ultimately show ?thesis
    unfolding transition_ok_def using due_stop(1) [OF assms(3,2)] assms(1,4)
    by (intro conjI exI [of _ c] exI [of _ intent] exI [of _ current]) (auto simp: transitionSteps_def)
qed

lemma settle_gate:
  assumes "since m F" "\<And>n. F n \<Longrightarrow> change_ok r o' c m n" "step_due r o' c t" "\<And>n. F n \<Longrightarrow> server_known r o' (ch_planned c) (ch_server c) current m n"
  shows "guarded (operation_ok r o' m) F (settleTransition r o' (ch_plan c) current (ch_step o' c) t (ch_intent o' c)) (\<lambda>x n. F n \<and> calm x)"
proof (rule guarded_fact)
  show "\<not> released o' \<and> working r o' \<and> operationServerAction (actionOf o') \<and> actionOf o' \<noteq> OperationServerCreate \<and> opl_Data (ch_plan c) = Some (ch_data c)" if "F n" for n
    using change_facts [OF assms(2) [OF that]] by simp
next
  assume facts: "\<not> released o' \<and> working r o' \<and> operationServerAction (actionOf o') \<and> actionOf o' \<noteq> OperationServerCreate \<and> opl_Data (ch_plan c) = Some (ch_data c)"
  have step: "otr_Step t = ch_step o' c" using assms(3) transition_step unfolding step_due_def by blast
  have settled: "step_settled r o' c t current m n" if "F n" "operationTransitionApplied (aor_Operations r) o' current t (ch_intent o' c)"
      "operationRuntimeObserved current (gss_DesiredState (ch_intent o' c)) (opl_Data (ch_plan c))" for n
    using that assms(2-4) facts by (simp add: step_settled_def)
  show ?thesis unfolding settleTransition_def not_not operation_send_def
  proof (intro guarded_if await_gate [OF assms(1)] journal_gate [OF assms(1)] success_gate [OF assms(1)] guarded_send_then [OF assms(1)], goal_cases)
    case (4 n digest time)
    then show ?case using settled_transition settled by blast
  next
    case (6 n)
    then show ?case using settled step due_decommission unfolding operation_ok_def OperationMessage.case delete_server_ok_def by metis
  next
    case (9 n)
    then have "step_settled r o' c t current m n" using settled by blast
    moreover have "actionOf o' = OperationServerRestart \<longrightarrow> otr_Step t = ''Start''" using 9 step due_restart by metis
    ultimately show ?case using facts 9 unfolding achieved_def by auto
  qed (use facts in auto)
qed

lemma apply_gate:
  assumes "since m F" "\<And>n. F n \<Longrightarrow> change_ok r o' c m n" "operationTransition o' (ch_step o' c) = Some t"
  shows "guarded (operation_ok r o' m) F (applyOperationTransition r o' (ch_plan c) (ch_planned c) (ch_server c) t (ch_intent o' c))
    (\<lambda>x n. F n \<and> calm_result x \<and> (\<forall>current. x = Inr current \<longrightarrow> step_due r o' c t \<and> server_known r o' (ch_planned c) (ch_server c) current m n))"
  unfolding applyOperationTransition_def patchOperationServer_def Let_def
proof (intro guarded_if guarded_option guarded_send_then [OF assms(1)], goal_cases)
  case 2
  then have "step_due r o' c t" using assms(3) by (simp add: step_due_def)
  then show ?case using assms(2) unfolding guarded_return_iff change_ok_def by simp
next
  case prems: (6 encoded n)
  then have "step_due r o' c t" using assms(3) by (simp add: step_due_def)
  with prems assms(2) show ?case unfolding operation_ok_def OperationMessage.case patch_ok_def by auto
next
  case prems: (7 encoded x)
  then have "step_due r o' c t" using assms(3) by (simp add: step_due_def)
  with prems assms(2) show ?case unfolding guarded_return_iff change_ok_def server_known_def by (cases x) auto
qed simp_all

lemma change_gate:
  assumes "since m F"
    and ok: "\<And>n spec. F n \<Longrightarrow> ServerSpec frozen = Some spec \<Longrightarrow>
      change_ok r o' \<lparr> ch_plan = plan, ch_planned = planned, ch_data = data, ch_spec = spec, ch_server = server \<rparr> m n"
  shows "guarded (operation_ok r o' m) F (changeServer r o' plan planned frozen server) (\<lambda>x n. F n \<and> calm x)"
  unfolding changeServer_def
proof (rule guarded_option, simp, rule guarded_prod, rule guarded_option, goal_cases)
  case prems: (1 spec step intent)
  define c where "c = \<lparr> ch_plan = plan, ch_planned = planned, ch_data = data, ch_spec = spec, ch_server = server \<rparr>"
  have ok: "change_ok r o' c m n" if "F n" for n using ok [OF that prems(1)] by (simp add: c_def)
  have c: "ch_step o' c = step" "ch_intent o' c = intent" "ch_server c = server" "ch_planned c = planned" using prems(2) by (simp_all add: c_def)
  show ?case
  proof (rule guarded_fact [where A = "\<not> released o'"])
    show "\<not> released o'" if "F n" for n using change_facts(2) [OF ok [OF that]] .
    have "step \<noteq> ''Start''" "step \<in> set transitionSteps" using prems by (auto simp: dueStep_def transitionSteps_def split: if_splits)
    have "transition_ok r o' \<lparr> otr_Step = step, otr_FromGeneration = meta_Generation (gs_Meta server),
        otr_ToGeneration = (if operationSpecsEqual (aor_Operations r) (gs_Spec server) intent then meta_Generation (gs_Meta server) else meta_Generation (gs_Meta server) + 1),
        otr_DesiredState = gss_DesiredState intent, otr_SpecDigest = digest, otr_RequestedAt = t \<rparr> m n"
      if "F n" "SpecDigest (aor_Operations r) intent = Some digest" "operationExactServer server (Some planned)" for n digest t
      unfolding transition_ok_def
      by (intro conjI exI [of _ c] exI [of _ intent] exI [of _ server])
        (use that ok [OF that(1)] prems c \<open>step \<noteq> ''Start''\<close> \<open>step \<in> set transitionSteps\<close> in \<open>auto simp: change_ok_def\<close>)
    then show "guarded (operation_ok r o' m) F
        (if \<not> operationExactServer server (Some planned) then State_Monad.return (Some (operationIssue ''target_changed'')) else journalOperationTransition r o' server step intent)
        (\<lambda>x n. F n \<and> calm x)" if "\<not> released o'"
      using that by (intro guarded_if journal_gate assms(1)) auto
  qed
next
  case prems: (2 spec step intent t)
  define c where "c = \<lparr> ch_plan = plan, ch_planned = planned, ch_data = data, ch_spec = spec, ch_server = server \<rparr>"
  have ok: "change_ok r o' c m n" if "F n" for n using ok [OF that prems(1)] by (simp add: c_def)
  have c: "ch_step o' c = step" "ch_intent o' c = intent" "ch_server c = server" "ch_planned c = planned" "ch_plan c = plan" using prems(2) by (simp_all add: c_def)
  have applied: "guarded (operation_ok r o' m) F (applyOperationTransition r o' plan planned server t intent)
    (\<lambda>x n. F n \<and> calm_result x \<and> (\<forall>current. x = Inr current \<longrightarrow> step_due r o' c t \<and> server_known r o' planned server current m n))"
    using apply_gate [OF assms(1) ok, of t] prems(3) unfolding c by blast
  show ?case
  proof (rule guarded_bind [OF applied], rule guarded_sum, goal_cases)
    case (2 x current)
    let ?F = "\<lambda>n. (F n \<and> step_due r o' c t) \<and> server_known r o' planned server current m n"
    have since: "since m ?F" by (intro since_wide since_conj assms(1) wide_simps)
    have "guarded (operation_ok r o' m) ?F (settleTransition r o' plan current step t intent) (\<lambda>x n. ?F n \<and> calm x)"
    proof (rule guarded_fact [where A = "step_due r o' c t"])
      show "guarded (operation_ok r o' m) ?F (settleTransition r o' plan current step t intent) (\<lambda>x n. ?F n \<and> calm x)" if "step_due r o' c t"
        using settle_gate [OF since _ that, of current] ok unfolding c by blast
    qed blast
    then show ?case by (rule guarded_conseq) (use 2 in auto)
  qed auto
qed

lemma live_gate:
  assumes "since m F" "working r o'" "aost_Plan (ao_Status o') = Some plan" "operationServerAction (actionOf o')" "actionOf o' \<noteq> OperationServerCreate"
    "opl_Server plan = Some planned" "opl_Data plan = Some data" "opl_ServerIntent plan = Some frozen"
    and known: "\<And>n. F n \<Longrightarrow> server_known r o' planned server server m n"
  shows "guarded (operation_ok r o' m) F (reconcileLiveServer r o' plan planned data frozen server) (\<lambda>x n. calm x)"
  unfolding reconcileLiveServer_def
proof (rule guarded_bind [OF data_gate [OF assms(1)]], intro guarded_sum guarded_if, goal_cases)
  case prems: (3 x current)
  let ?F = "\<lambda>n. F n \<and> world_read r server current m n"
  have since: "since m ?F" by (intro since_wide assms(1) wide_simps)
  let ?G = "\<lambda>n. ?F n \<and> fence_held r o' (serverName server) (rdata_Identity current) m n"
  have sinceG: "since m ?G" by (intro since_wide since wide_simps)
  have identity: "rdata_Identity current = rdata_Identity data" using prems(2) by (simp add: sameDataSelection_def)
  have change: "guarded (operation_ok r o' m) ?G (changeServer r o' plan planned frozen server) (\<lambda>x n. ?G n \<and> calm x)"
    by (rule change_gate [OF sinceG, where data = data])
      (use assms(2-8) known prems(2) identity in \<open>auto simp: change_ok_def\<close>)
  show ?case
    by (rule guarded_pre [OF guarded_check [OF fence_gate [OF since assms(2)] guarded_conseq [OF change]]]) (use prems in auto)
qed auto

lemma planned_server_gate:
  assumes "since m F" "working r o'" "aost_Plan (ao_Status o') = Some plan" "operationServerAction (actionOf o')" "actionOf o' \<noteq> OperationServerCreate"
    "opl_Server plan = Some planned" "opl_Data plan = Some data" "opl_ServerIntent plan = Some frozen"
  shows "guarded (operation_ok r o' m) F (reconcilePlannedServer r o' plan planned data frozen) (\<lambda>x n. calm x)"
proof -
  let ?name = "ref_Name (gref_Local planned)"
  have achieved: "achieved r o' m n" if "decommissioning o'" "seen m n (read_server r o' ?name (Inl NotFound)) \<or>
      (\<exists>server. seen m n (read_server r o' ?name (Inr server)) \<and> serverUID server \<noteq> ref_UID (gref_Local planned))" for n
    using that assms(3,6) by (auto simp: achieved_def decommission_observed_def decommissioning_def)
  note success = guarded_post [OF success_gate [OF since_seen [OF assms(1)] assms(2) achieved], where G' = "\<lambda>x n. calm x"]
  show ?thesis unfolding reconcilePlannedServer_def
  proof (intro guarded_read [OF assms(1)] guarded_sum guarded_api guarded_if, goal_cases)
    case (1 got e)
    then show ?case by (intro success) auto
  next
    case (4 got server)
    then show ?case by (intro success) auto
  next
    case prems: (7 got server)
    show ?case
      by (rule live_gate [OF since_seen [OF assms(1)] assms(2-8)]) (use prems in \<open>auto simp: server_known_def\<close>)
  qed (auto simp: guard_simps)
qed

section \<open>Creating a server\<close>

lemma observe_created_gate:
  assumes "since m F" "working r o'" "actionOf o' = OperationServerCreate" "aost_Plan (ao_Status o') = Some plan" "opl_ServerIntent plan = Some frozen"
    "ServerSpec frozen = Some intent" "SpecDigest (aor_Operations r) intent = Some digest" "\<not> createdChanged r o' intent digest server"
    "aost_Child (ao_Status o') = Some child" "ref_UID (och_Local child) = serverUID server"
    and seen: "\<And>n. F n \<Longrightarrow> seen m n (read_server r o' (oreq_ServerName (requestOf o')) (Inr server))"
    and held: "\<And>n. F n \<Longrightarrow> fence_held r o' (serverName server) identity m n"
  shows "guarded (operation_ok r o' m) F (observeCreated r o' plan intent identity server) (\<lambda>x n. calm x)"
  unfolding observeCreated_def
proof (rule guarded_bind [OF data_gate [OF assms(1)]], intro guarded_sum guarded_if, goal_cases)
  case prems: (1 x e)
  show ?case
    by (rule guarded_conseq [OF await_gate [OF assms(1)]]) (use assms(2) in \<open>auto simp: working_def\<close>)
next
  case prems: (4 x data)
  show ?case
    by (rule guarded_conseq [OF await_gate [OF assms(1)]]) (use assms(2) in \<open>auto simp: working_def\<close>)
next
  case prems: (5 x data)
  let ?F = "\<lambda>n. F n \<and> world_read r server data m n"
  have since: "since m ?F" by (intro since_wide assms(1) wide_simps)
  have "created_observed r o' m n" if "?F n" for n
    unfolding created_observed_def
    by (intro exI [of _ plan] exI [of _ frozen] exI [of _ intent] exI [of _ digest] exI [of _ server] exI [of _ data] exI [of _ child])
      (use assms(4-10) seen [of n] held [of n] that prems in auto)
  then have "achieved r o' m n" if "?F n" for n using that assms(3) by (simp add: achieved_def)
  then show ?case
    by (intro guarded_conseq [OF success_gate [OF since assms(2)]]) (use prems in auto)
qed auto

lemma adopt_gate:
  assumes "since m F" "working r o'" "actionOf o' = OperationServerCreate" "aost_Plan (ao_Status o') = Some plan" "opl_ServerIntent plan = Some frozen"
    "ServerSpec frozen = Some intent" "SpecDigest (aor_Operations r) intent = Some digest" "\<not> createdChanged r o' intent digest server"
    and seen: "\<And>n. F n \<Longrightarrow> seen m n (read_server r o' (oreq_ServerName (requestOf o')) (Inr server))"
  shows "guarded (operation_ok r o' m) F (adoptCreated r o' plan intent server) (\<lambda>x n. calm x)"
  unfolding adoptCreated_def
proof (intro guarded_option guarded_if guarded_let, goal_cases)
  case 1
  then show ?case
    by (intro guarded_post [OF progress_gate [OF assms(1)]]) (use assms(2) in \<open>auto simp: working_def\<close>)
next
  case prems: (4 child own)
  let ?identity = "case opl_Data plan of None \<Rightarrow> own | Some d \<Rightarrow> rdata_Identity d"
  let ?F = "\<lambda>n. F n \<and> fence_held r o' (serverName server) ?identity m n"
  have since: "since m ?F" by (intro since_wide assms(1) wide_simps)
  have observe: "guarded (operation_ok r o' m) ?F (observeCreated r o' plan intent ?identity server) (\<lambda>x n. calm x)"
    by (rule observe_created_gate [OF since assms(2-8), where child = child]) (use prems seen in auto)
  show ?case
    by (rule guarded_check [OF fence_gate [OF assms(1,2)] guarded_pre [OF observe]]) auto
qed simp_all

lemma create_gate:
  assumes "since m F" "working r o'" "actionOf o' = OperationServerCreate" "aost_Plan (ao_Status o') = Some plan" "opl_ServerIntent plan = Some frozen"
    "ServerSpec frozen = Some intent" "SpecDigest (aor_Operations r) intent = Some digest"
    and absent: "\<And>n. F n \<Longrightarrow> seen m n (read_server r o' (oreq_ServerName (requestOf o')) (Inl NotFound))"
  shows "guarded (operation_ok r o' m) F (createServer r o' plan intent digest) (\<lambda>x n. calm x)"
proof -
  let ?A = "\<lambda>m n. \<forall>d. opl_Data plan = Some d \<longrightarrow> fence_held r o' (oreq_ServerName (requestOf o')) (rdata_Identity d) m n"
  have "wide ?A" using wide_fence_held unfolding wide_def by blast
  then have since: "since m (\<lambda>n. F n \<and> ?A m n)" by (intro since_wide assms(1))
  have fence: "guarded (operation_ok r o' m) F
      (case opl_Data plan of None \<Rightarrow> State_Monad.return None | Some d \<Rightarrow> acquireOperationLease r o' (oreq_ServerName (requestOf o')) (rdata_Identity d))
      (\<lambda>x n. F n \<and> calm x \<and> (x = None \<longrightarrow> ?A m n))"
    by (intro guarded_option guarded_post [OF fence_gate [OF assms(1,2)]]) auto
  have "guarded (operation_ok r o' m) (\<lambda>n. F n \<and> ?A m n)
      (do { e \<leftarrow> operation_send r (CreateServer (createdServer o' intent digest)); State_Monad.return (map_option operationApi e) }) (\<lambda>x n. calm x)"
    if "aost_Child (ao_Status o') = None"
    unfolding operation_send_def
  proof (rule guarded_send_then [OF since])
    show "operation_ok r o' m n (CreateServer (createdServer o' intent digest))" if "F n \<and> ?A m n" for n
      unfolding operation_ok_def OperationMessage.case create_ok_def
      using assms(2-7) absent [of n] that \<open>aost_Child (ao_Status o') = None\<close> by auto
  qed auto
  then show ?thesis unfolding createServer_def
    by (intro guarded_if guarded_check [OF fence]) (simp, rule guarded_pre, blast+)
qed

lemma server_operation_gate:
  assumes "since m F" "working r o'" "aost_Plan (ao_Status o') = Some plan" "operationServerAction (actionOf o')"
  shows "guarded (operation_ok r o' m) F (reconcileOperationServer r o' plan) (\<lambda>x n. calm x)"
proof -
  have create: "guarded (operation_ok r o' m) F (reconcileOperationCreate r o' plan frozen) (\<lambda>x n. calm x)"
    if "opl_ServerIntent plan = Some frozen" "actionOf o' = OperationServerCreate" for frozen
    unfolding reconcileOperationCreate_def
    by (intro guarded_option guarded_read [OF assms(1)] guarded_sum guarded_api guarded_if
        create_gate [OF since_seen [OF assms(1)] assms(2) that(2) assms(3) that(1)] adopt_gate [OF since_seen [OF assms(1)] assms(2) that(2) assms(3) that(1)]) auto
  show ?thesis unfolding reconcileOperationServer_def
    by (intro guarded_option guarded_if guarded_prod planned_server_gate create assms) simp_all
qed

section \<open>Data operations\<close>

lemma mirrored_gate:
  assumes "since m F" "working r o'" "phase \<noteq> OperationPhaseFailed" "\<And>n. F n \<Longrightarrow> phase = OperationPhaseSucceeded \<Longrightarrow> achieved r o' m n"
    and "\<And>s. aost_Plan (f s) = aost_Plan s \<and> aost_RetainedWorld (f s) = aost_RetainedWorld s \<and> aost_Child (f s) = aost_Child s \<and> aost_Transitions (f s) = aost_Transitions s \<and>
      aost_ObservedGeneration (f s) = aost_ObservedGeneration s \<and> aost_StartedAt (f s) = aost_StartedAt s \<and> aost_Phase (f s) = aost_Phase s \<and> aost_Failure (f s) = None"
  shows "guarded (operation_ok r o' m) F (if b then State_Monad.return None else operationStatus r o' phase f) (\<lambda>x n. calm x)"
  by (intro guarded_if guarded_post [OF write_gate [OF assms(1)]]) (use assms(2-5) in \<open>auto simp: working_def step_simps\<close>)

lemma calm_guidance_gate:
  assumes "since m F" "working r o'" "code \<in> set failureCodes"
  shows "guarded (operation_ok r o' m) F (operationProgressGuidance r o' code) (\<lambda>x n. calm x)"
  by (rule guarded_post [OF guidance_gate [OF assms(1)]]) (use assms(2,3) in \<open>auto simp: working_def\<close>)

lemma mirror_data_gate:
  assumes "since m F" "working r o'"
    and "\<And>n. F n \<Longrightarrow> st_ObservedGeneration st = generation \<Longrightarrow> st_Phase st = DataPhaseSucceeded \<Longrightarrow> achieved r o' m n"
  shows "guarded (operation_ok r o' m) F (mirrorDataOperation r o' st generation) (\<lambda>x n. calm x)"
proof -
  have mirror: "guarded (operation_ok r o' m) F (if b then State_Monad.return None else operationStatus r o' phase (\<lambda>s. s\<lparr> aost_Failure := None \<rparr>)) (\<lambda>x n. calm x)"
    if "phase \<noteq> OperationPhaseFailed" "phase = OperationPhaseSucceeded \<Longrightarrow> st_ObservedGeneration st = generation \<and> st_Phase st = DataPhaseSucceeded" for b phase
    by (rule mirrored_gate [OF assms(1,2)]) (use that assms(3) in auto)
  show ?thesis unfolding mirrorDataOperation_def Let_def
  proof (intro guarded_if, goal_cases)
    case 1
    show ?case by (rule guarded_bind [OF slow_gate [OF assms(1)]]) (intro guarded_if calm_guidance_gate assms known_codes, simp)
  next
    case 3
    then show ?case by (cases "st_Phase st") (simp_all only: DataOperationPhase.case, (rule mirror calm_guidance_gate assms blocked_code | simp)+)
  qed (rule calm_guidance_gate [OF assms(1,2)], simp)
qed

lemma mirror_destroy_gate:
  assumes "since m F" "working r o'"
    and "\<And>n. F n \<Longrightarrow> dst_ObservedGeneration (gd_Status d) = meta_Generation (gd_Meta d) \<Longrightarrow> dst_Phase (gd_Status d) = DestroyPhaseSucceeded \<Longrightarrow> achieved r o' m n"
  shows "guarded (operation_ok r o' m) F (mirrorDestroyOperation r o' d) (\<lambda>x n. calm x)"
proof -
  have mirror: "guarded (operation_ok r o' m) F (if b then State_Monad.return None
      else operationStatus r o' phase (\<lambda>s. s\<lparr> aost_DestroyPreview := dst_Preview (gd_Status d), aost_Failure := None \<rparr>)) (\<lambda>x n. calm x)"
    if "phase \<noteq> OperationPhaseFailed" "phase = OperationPhaseSucceeded \<Longrightarrow> dst_ObservedGeneration (gd_Status d) = meta_Generation (gd_Meta d) \<and> dst_Phase (gd_Status d) = DestroyPhaseSucceeded" for b phase
    by (rule mirrored_gate [OF assms(1,2)]) (use that assms(3) in auto)
  have progress: "guarded (operation_ok r o' m) F (operationStatus r o' OperationPhaseRunning (\<lambda>s. s\<lparr> aost_DestroyPreview := None, aost_Failure := failure \<rparr>)) (\<lambda>x n. calm x)"
    if "\<And>v. failure = Some v \<Longrightarrow> failureValid v" for failure
    by (rule guarded_post [OF progress_gate [OF assms(1)]]) (use assms(2) that in \<open>auto simp: working_def\<close>)
  show ?thesis unfolding mirrorDestroyOperation_def Let_def
  proof (intro guarded_if, goal_cases)
    case 1
    show ?case unfolding destroyUnobserved_def Let_def
      by (intro guarded_if guarded_bind [OF slow_gate [OF assms(1)]] progress) (auto simp: failure_valid)
  next
    case 2
    then show ?case by (cases "dst_Phase (gd_Status d)") (simp_all only: GameDestroyPhase.case, (rule mirror | simp)+)
  qed
qed

lemma observe_child_gate:
  assumes "since m F" "working r o'" "\<not> operationServerAction (actionOf o')" "oreq_DestroyCommand (requestOf o') = None" "child_planned o' child"
    and seen: "\<And>n. F n \<Longrightarrow> seen m n (\<lambda>k. readChild r k child = Inr actual)"
  shows "guarded (operation_ok r o' m) F (observeChild r o' child actual) (\<lambda>x n. calm x)"
proof -
  have achieved: "achieved r o' m n" if "F n" "\<not> childChanged o' child actual" "aost_Child (ao_Status o') = Some recorded" "\<not> childReplaced recorded actual" "child_succeeded actual" for n recorded
  proof -
    have "child_read r o' actual m n" using assms(5) seen [OF that(1)] that(2) unfolding child_read_def by blast
    then have "child_observed r o' m n" unfolding child_observed_def using that by blast
    moreover have "actionOf o' \<noteq> OperationServerCreate" "actionOf o' \<noteq> OperationServerDecommission" using assms(3) by (auto simp: operationServerAction_def)
    ultimately show ?thesis using assms(3,4) by (simp add: achieved_def)
  qed
  show ?thesis unfolding observeChild_def
  proof (intro guarded_if guarded_option, goal_cases)
    case 3
    then show ?case by (intro guarded_post [OF progress_gate [OF assms(1)]]) (use assms(2) in \<open>auto simp: working_def\<close>)
  next
    case (5 recorded)
    show ?case
    proof (cases actual)
      case (ChildBackup b)
      then show ?thesis using achieved 5 by (auto simp: child_succeeded_def intro!: mirror_data_gate assms)
    next
      case (ChildRestore b)
      then show ?thesis using achieved 5 by (auto simp: child_succeeded_def intro!: mirror_data_gate assms)
    next
      case (ChildDestroy d)
      then show ?thesis using achieved 5 by (auto simp: child_succeeded_def intro!: mirror_destroy_gate assms)
    qed
  qed simp_all
qed

lemma child_gate:
  assumes "since m F" "working r o'" "\<not> operationServerAction (actionOf o')" "oreq_DestroyCommand (requestOf o') = None" "child_planned o' child"
  shows "guarded (operation_ok r o' m) F (reconcileChild r o' child) (\<lambda>x n. calm x)"
  unfolding reconcileChild_def operation_send_def
proof (intro guarded_read [OF assms(1)] guarded_sum guarded_api guarded_if guarded_send_then [OF since_seen [OF assms(1)]], goal_cases)
  case prems: (2 got e n)
  then have "child_ok r o' child m n" using assms(2,3,5) by (simp add: child_ok_def)
  then show ?case by (cases child) (simp_all add: operation_ok_def createChild_def)
next
  case prems: (5 got actual)
  then show ?case by (intro observe_child_gate [OF since_seen [OF assms(1)] assms(2-5)]) auto
qed auto

section \<open>Commands to a destruction\<close>

text \<open>What the objects of a command show, except that the destruction is up to date, which is tested later.\<close>

definition command_objects :: "ArcadeOperationReconciler \<Rightarrow> ArcadeOperation \<Rightarrow> OperationDestroyCommand \<Rightarrow> ArcadeOperation \<Rightarrow> GameDestroy \<Rightarrow> nat \<Rightarrow> nat \<Rightarrow> bool" where
  "command_objects r o' command parent destroy m n \<longleftrightarrow> oreq_DestroyCommand (requestOf o') = Some command \<and>
     (\<exists>precondition. ParsePrecondition (oreq_Precondition (requestOf o')) = Some precondition \<and> pre_Kind precondition = ''operation'' \<and>
        seen m n (\<lambda>k. vw_Operation (operation_reader r) k (operationNamespace o') (ref_Name (dcmd_ParentOperationRef command)) = Inr parent) \<and>
        \<not> commandParentChanged parent command precondition) \<and>
     seen m n (\<lambda>k. vw_Destroy (operation_reader r) k (operationNamespace o') (ref_Name (dcmd_DestroyRef command)) = Inr destroy) \<and>
     \<not> commandDestroyChanged parent command destroy"

lemma wide_command_objects [wide_simps]: "wide (command_objects r o' command parent destroy)"
  unfolding command_objects_def [abs_def] by (intro wide_simps)

lemma command_objects_gate:
  assumes "since m F"
  shows "guarded P F (operationDestroyCommandObjects r o') (\<lambda>x n. F n \<and> calm_result x \<and>
    (\<forall>parent destroy. x = Inr (parent, destroy) \<longrightarrow> (\<exists>command. command_objects r o' command parent destroy m n)))"
  unfolding operationDestroyCommandObjects_def
proof (intro guarded_option guarded_if, goal_cases)
  case prems: (5 precondition command)
  let ?parent = "\<lambda>k. vw_Operation (operation_reader r) k (operationNamespace o') (ref_Name (dcmd_ParentOperationRef command))"
  show ?case
  proof (rule guarded_attempt [OF reference_gate [OF assms]], rule guarded_if, goal_cases)
    case (2 parent)
    have since: "since m (\<lambda>n. F n \<and> seen m n (\<lambda>k. ?parent k = Inr parent))" by (rule since_seen [OF assms])
    have "guarded P (\<lambda>n. F n \<and> seen m n (\<lambda>k. ?parent k = Inr parent))
        (attempt (operationReference (\<lambda>n. vw_Destroy (operation_reader r) n (operationNamespace o') (ref_Name (dcmd_DestroyRef command))) ''invalid_reference'') (\<lambda>destroy.
           if commandDestroyChanged parent command destroy then State_Monad.return (Inl (operationIssue ''child_changed'')) else State_Monad.return (Inr (parent, destroy))))
        (\<lambda>x n. F n \<and> calm_result x \<and> (\<forall>parent destroy. x = Inr (parent, destroy) \<longrightarrow> (\<exists>command. command_objects r o' command parent destroy m n)))"
      by (rule guarded_attempt [OF reference_gate [OF since]], rule guarded_if) (use prems 2 in \<open>auto simp: command_objects_def\<close>)
    then show ?case by (rule guarded_pre) simp
  qed auto
qed simp_all

lemma patch_destroy_gate:
  assumes "since m F" "\<And>n. F n \<Longrightarrow> patch_destroy_ok r o' destroy (exactPatches (gd_Meta destroy) patches) m n"
  shows "guarded (operation_ok r o' m) F (patchOperationDestroy r destroy patches) (\<lambda>x n. calm x)"
  unfolding patchOperationDestroy_def operation_send_def Let_def
  by (intro guarded_option guarded_send_then [OF assms(1)]) (use assms(2) in \<open>auto simp: operation_ok_def\<close>)

text \<open>A command that reports success: the destruction carries this receipt's mark.\<close>

lemma command_achieved:
  assumes "command_read r o' command destroy m n" "command_done o' command destroy"
  shows "achieved r o' m n"
proof -
  have "\<not> operationServerAction (actionOf o')" "actionOf o' \<noteq> OperationServerCreate" "actionOf o' \<noteq> OperationServerDecommission"
    using assms(2) by (auto simp: command_done_def operationServerAction_def split: if_splits)
  then show ?thesis using assms unfolding achieved_def command_read_def by auto
qed

lemma cancel_gate:
  assumes "since m F" "working r o'" "actionOf o' = OperationWorldDestroyCancel" "\<And>n. F n \<Longrightarrow> command_read r o' command destroy m n"
  shows "guarded (operation_ok r o' m) F (destroyCancel r o' destroy) (\<lambda>x n. calm x)"
  unfolding destroyCancel_def Let_def
proof (intro guarded_if patch_destroy_gate [OF assms(1)], goal_cases)
  case 1
  then have "command_done o' command destroy" using assms(3) by (simp add: command_done_def)
  then show ?case by (intro guarded_post [OF success_gate [OF assms(1,2)]]) (use assms(4) command_achieved in blast)+
next
  case (4 n)
  then show ?case using assms(2-4) by (auto simp: patch_destroy_ok_def cancel_ok_def)
qed (simp_all add: guard_simps)

lemma confirm_gate:
  assumes "since m F" "working r o'" "actionOf o' = OperationWorldDestroyConfirm" "\<And>n. F n \<Longrightarrow> command_read r o' command destroy m n"
  shows "guarded (operation_ok r o' m) F (destroyConfirm r o' command destroy) (\<lambda>x n. calm x)"
  unfolding destroyConfirm_def Let_def operation_now_def
proof (intro guarded_if guarded_option guarded_read [OF assms(1)] patch_destroy_gate [OF since_seen [OF assms(1)]], goal_cases)
  case 2
  then have "command_done o' command destroy" using assms(3) by (simp add: command_done_def)
  then show ?case by (intro guarded_post [OF success_gate [OF assms(1,2)]]) (use assms(4) command_achieved in blast)+
next
  case prems: (7 pv t n)
  then have "seen m n (\<lambda>k. aor_Now r k < pv_ExpiresAt pv)" by (auto elim!: seen_mono)
  then have "confirm_ok r command destroy m n" using prems by (auto simp: confirm_ok_def)
  moreover have "command_read r o' command destroy m n" using prems assms(4) by blast
  ultimately show ?case using assms(2,3) unfolding patch_destroy_ok_def by (intro conjI exI [of _ command]) simp_all
qed simp_all

lemma command_gate:
  assumes "since m F" "working r o'" "aost_Plan (ao_Status o') = Some plan" "oreq_DestroyCommand (requestOf o') = Some command"
  shows "guarded (operation_ok r o' m) F (reconcileDestroyCommand r o' plan command) (\<lambda>x n. calm x)"
  unfolding reconcileDestroyCommand_def
proof (rule guarded_bind [OF command_objects_gate [OF assms(1)]], intro guarded_sum guarded_prod guarded_if, goal_cases)
  case prems: (3 x v parent destroy)
  let ?F = "\<lambda>n. F n \<and> command_objects r o' command parent destroy m n"
  have since: "since m ?F" by (intro since_wide assms(1) wide_simps)
  have read: "command_read r o' command destroy m n" if "?F n" "dst_ObservedGeneration (gd_Status destroy) = meta_Generation (gd_Meta destroy)" for n
    using that assms(3,4) prems(3) unfolding command_read_def command_objects_def by blast
  have "guarded (operation_ok r o' m) ?F (destroyCommand r o' command destroy) (\<lambda>x n. calm x)"
    unfolding destroyCommand_def
  proof (intro guarded_option guarded_if calm_guidance_gate [OF since assms(2)] cancel_gate [OF since assms(2)] confirm_gate [OF since assms(2)], goal_cases)
    case 1
    then show ?case by (intro guarded_post [OF progress_gate [OF since]]) (use assms(2) in \<open>auto simp: working_def\<close>)
  qed (use read in simp_all)
  then show ?case by (rule guarded_pre) (use prems assms(4) in \<open>auto simp: command_objects_def\<close>)
qed auto

section \<open>Plans\<close>

text \<open>A request that was validated has the payload of its action, so that no plan dereferences nil.\<close>

lemma valid_action:
  assumes "ValidateRequest env action r = None"
  shows "\<exists>p. \<not> actionInvalid env action p r"
proof (cases "ParsePrecondition (oreq_Precondition r)")
  case (Some p)
  then show ?thesis using assms unfolding ValidateRequest_def by (auto simp: guard_simps)
qed (use assms in \<open>simp add: ValidateRequest_def\<close>)

lemma valid_payload:
  assumes "ValidateRequest env action r = None"
  shows "action = OperationServerCreate \<Longrightarrow> oreq_Create r \<noteq> None \<and> oreq_Image r \<noteq> None"
    "action = OperationServerConfigure \<Longrightarrow> oreq_Configure r \<noteq> None" "action = OperationServerUpdate \<Longrightarrow> oreq_Image r \<noteq> None"
    "action = OperationWorldBackup \<Longrightarrow> oreq_Backup r \<noteq> None" "action = OperationWorldRestore \<Longrightarrow> oreq_Restore r \<noteq> None"
    "action = OperationWorldDestroyPreview \<Longrightarrow> oreq_Destroy r \<noteq> None"
  using valid_action [OF assms] by (auto simp: actionInvalid_def previewInvalid_def split: option.splits)

lemma image_calm: "validateOperationImage r game image' = Some e \<Longrightarrow> reportable e"
  by (auto simp: validateOperationImage_def guard_def split: option.splits sum.splits if_splits)

lemma freeze_calm: "freezeIntent r server plan = Inl e \<Longrightarrow> reportable e"
  by (auto simp: freezeIntent_def split: option.splits if_splits)

lemma retained_world_gate:
  assumes "since m F"
  shows "guarded P F (retainedOperationWorld r namespace selector) (\<lambda>x n. F n \<and> calm_result x)"
  unfolding retainedOperationWorld_def
  by (intro guarded_if guarded_attempt [OF reference_gate [OF assms]]) (auto simp: assms split: option.splits)

lemma cold_claim_gate:
  assumes "since m F"
  shows "guarded P F (coldClaim r namespace identity uid claim) (\<lambda>x n. F n \<and> calm x)"
  unfolding coldClaim_def
  by (rule guarded_bind [OF reference_gate [OF assms]]) (auto simp: guard_def split: sum.splits)

lemma cold_claims_gate:
  assumes "since m F"
  shows "guarded P F (each (coldClaim r namespace identity uid) claims) (\<lambda>x n. F n \<and> calm x)"
proof (induction claims)
  case (Cons claim claims)
  show ?case unfolding each.simps
    by (rule guarded_check [OF cold_claim_gate [OF assms] guarded_pre [OF Cons.IH]]) auto
qed simp

lemma plan_backup_gate:
  assumes "since m F"
  shows "guarded P F (planOperationBackup r o' plan ref) (\<lambda>x n. F n \<and> calm_result x)"
proof -
  have cold: "guarded P F (do { e \<leftarrow> each (coldClaim r namespace identity uid) claims; State_Monad.return (case e of Some err \<Rightarrow> Inl err | None \<Rightarrow> Inr v) })
      (\<lambda>x n. F n \<and> calm_result x)" for namespace identity uid claims and v :: OperationPlan
    by (rule guarded_bind [OF cold_claims_gate [OF assms]]) (auto split: option.split)
  show ?thesis unfolding planOperationBackup_def
    by (intro guarded_if guarded_attempt [OF reference_gate [OF assms]] guarded_prod guarded_option guarded_pre [OF cold]) auto
qed

lemma plan_command_gate:
  assumes "since m F"
  shows "guarded P F (planDestroyCommand r o') (\<lambda>x n. F n \<and> calm_result x)"
  unfolding planDestroyCommand_def
proof (rule guarded_attempt [OF command_objects_gate [OF assms]], rule guarded_prod, goal_cases)
  case (1 v parent destroy)
  show ?case
  proof (intro guarded_return conjI)
    fix n
    assume n: "F n \<and> calm_result (Inr v) \<and> (\<forall>parent destroy. Inr v = Inr (parent, destroy) \<longrightarrow> (\<exists>command. command_objects r o' command parent destroy m n))"
    then show "F n" by simp
    from n 1 obtain command where "oreq_DestroyCommand (requestOf o') = Some command" "\<not> commandDestroyChanged parent command destroy"
      unfolding command_objects_def by blast
    moreover from this(2) obtain plan where "aost_Plan (ao_Status parent) = Some plan"
      by (auto simp: commandDestroyChanged_def split: option.splits)
    ultimately show "calm_result (case (aost_Plan (ao_Status parent), oreq_DestroyCommand (requestOf o')) of
         (Some plan, Some command) \<Rightarrow>
           if ds_Mode (gd_Spec destroy) \<noteq> DestroyModeVerifiedBackup then Inl (operationIssue ''invalid_reference'')
           else Inr (plan\<lparr> opl_DestroyRef := Some (dcmd_DestroyRef command) \<rparr>, None)
       | _ \<Rightarrow> Inl operationPanic)" by (simp add: reportable_issue)
  qed
qed simp

lemma plan_create_gate:
  assumes "since m F" "oreq_Create (requestOf o') = Some create" "oreq_Image (requestOf o') = Some i"
  shows "guarded P F (planCreate r o') (\<lambda>x n. F n \<and> calm_result x)"
proof -
  have freeze: "calm_result (map_sum id f (freezeIntent r server plan))" for f server plan
    using freeze_calm [of r server plan] by (cases "freezeIntent r server plan") auto
  show ?thesis unfolding planCreate_def assms prod.case option.case Let_def
    by (intro guarded_if guarded_option guarded_attempt [OF retained_world_gate [OF assms(1)]])
      (use freeze image_calm in \<open>auto intro!: guarded_return\<close>)
qed

lemma plan_intent_calm:
  assumes "ValidateRequest (aor_Operations r) (actionOf o') (requestOf o') = None"
    and "plannedServer r o' server data plan = Inl e"
  shows "reportable e"
proof -
  have "reportable e" if "configuredIntent input intent = Inl e" for input intent e
    using that by (auto simp: configuredIntent_def Let_def split: option.splits if_splits)
  then have "reportable e" if "plannedIntent r o' server data = Inl e" for e
    using valid_payload(2,3) [OF assms(1)] image_calm that by (cases "actionOf o'") (auto simp: plannedIntent_def split: option.splits if_splits)
  then show ?thesis using freeze_calm assms(2) by (auto simp: plannedServer_def split: sum.splits if_splits)
qed

lemma plan_evidence_gate:
  assumes "since m F" "ValidateRequest (aor_Operations r) (actionOf o') (requestOf o') = None"
  shows "guarded P F (planEvidence r o' plan) (\<lambda>x n. F n \<and> calm_result x)"
proof -
  have secret: "guarded P F (planSecret r o' plan input) (\<lambda>x n. F n \<and> calm_result x)" for input
    unfolding planSecret_def by (rule guarded_attempt [OF reference_gate [OF assms(1)]]) auto
  show ?thesis unfolding planEvidence_def
    by (cases "actionOf o'") (use valid_payload [OF assms(2)] in \<open>auto intro!: secret plan_backup_gate [OF assms(1)]\<close>)
qed

lemma plan_target_gate:
  assumes "since m F" "ValidateRequest (aor_Operations r) (actionOf o') (requestOf o') = None"
  shows "guarded P F (planTarget r o') (\<lambda>x n. F n \<and> calm_result x)"
proof -
  have world: "reportable e" if "plannedWorld r o' server data = Inl e" for server data e
    using that by (auto simp: plannedWorld_def Let_def split: option.splits if_splits)
  have evidence: "guarded P F (attempt (planEvidence r o' plan) (\<lambda>plan. State_Monad.return (Inr (plan, world)))) (\<lambda>x n. F n \<and> calm_result x)"
    for plan and world :: "OperationRetainedWorld option"
    by (rule guarded_attempt [OF plan_evidence_gate [OF assms]]) auto
  have data: "guarded P F (attempt (operationServerData r server) f) (\<lambda>x n. F n \<and> calm_result x)"
    if "\<And>data. guarded P F (f data) (\<lambda>x n. F n \<and> calm_result x)" for server and f :: "RetainedDataReference \<Rightarrow> (operationError + OperationPlan \<times> OperationRetainedWorld option) operation_program"
    by (rule guarded_attempt [OF data_gate [OF assms(1)] guarded_pre [OF that]]) auto
  show ?thesis unfolding planTarget_def
    by (intro guarded_option guarded_attempt [OF reference_gate [OF assms(1)]] guarded_if guarded_pre [OF data] guarded_sum evidence)
      (use plan_intent_calm [OF assms(2)] world in \<open>auto intro!: guarded_return\<close>)
qed

lemma plan_gate:
  assumes "since m F" "ValidateRequest (aor_Operations r) (actionOf o') (requestOf o') = None"
  shows "guarded P F (planOperation r o') (\<lambda>x n. F n \<and> calm_result x)"
proof -
  have retained: "guarded P F (planRetainedDestroy r o' ref selector) (\<lambda>x n. F n \<and> calm_result x)" for ref selector
    unfolding planRetainedDestroy_def
    by (rule guarded_attempt [OF retained_world_gate [OF assms(1)] guarded_pre [OF guarded_attempt [OF plan_backup_gate [OF assms(1)]]]]) auto
  show ?thesis unfolding planOperation_def
    by (intro guarded_if guarded_option plan_command_gate plan_target_gate retained assms)
      (use valid_payload [OF assms(2)] in \<open>auto intro!: plan_create_gate assms\<close>)
qed

section \<open>Reconcile\<close>

lemma data_operation_gate:
  assumes "since m F" "working r o'" "aost_Plan (ao_Status o') = Some plan" "\<not> operationServerAction (actionOf o')"
  shows "guarded (operation_ok r o' m) F (reconcileOperationData r o' plan) (\<lambda>x n. calm x)"
proof -
  have valid: "ValidateRequest (aor_Operations r) (actionOf o') (requestOf o') = None" using assms(2) by (simp add: working_def)
  have calm: "reportable e" if "operationChild o' plan server data secret = Inl e" for server data secret e
    using that valid_payload [OF valid] by (cases "actionOf o'") (auto simp: operationChild_def split: option.splits)
  show ?thesis unfolding reconcileOperationData_def
    by (intro guarded_option guarded_prod guarded_sum command_gate child_gate assms)
      (use calm assms(3) in \<open>auto simp: child_planned_def\<close>)
qed

lemma result_gate:
  assumes "since m F" "\<not> released o'" "reportable e"
  shows "guarded (operation_ok r o' m) F (operationResultError r o' e) (\<lambda>x n. x \<noteq> None)"
  unfolding operationResultError_def
  by (cases e) (use assms in \<open>auto intro!: guarded_bind [OF fail_gate]\<close>)

lemma release_gate:
  assumes "since m F" "released o'"
  shows "guarded (operation_ok r o' m) F (releaseOperation r o') (\<lambda>x n. True)"
  unfolding releaseOperation_def
proof (rule guarded_bind [OF release_lease_gate [OF assms]], rule guarded_option, goal_cases)
  case (1 e)
  let ?F = "\<lambda>n. F n \<and> fence_released r o' m n"
  have "since m ?F" by (intro since_wide assms(1) wide_simps)
  then have "guarded (operation_ok r o' m) ?F (do { e \<leftarrow> removeOperationFinalizer r o'; State_Monad.return (finished e) }) (\<lambda>x n. True)"
    unfolding removeOperationFinalizer_def operation_send_def
    by (intro guarded_bind [where G = "\<lambda>_ _. True"] guarded_if guarded_send_then)
      (use assms(2) in \<open>auto simp: operation_ok_def update_ok_def\<close>)
  then show ?case by (rule guarded_pre) (use 1 in simp)
qed simp

lemma record_gate:
  assumes "since m F" "working r o'" "aost_Plan (ao_Status o') = None"
  shows "guarded (operation_ok r o' m) F (recordPlan r o') (\<lambda>x n. x \<noteq> None)"
  unfolding recordPlan_def
proof (rule guarded_bind [OF plan_gate [OF assms(1)]], goal_cases)
  case 1
  then show ?case using assms(2) by (simp add: working_def)
next
  case (2 planned)
  have released: "\<not> released o'" using assms(2) by (simp add: working_def)
  show ?case
  proof (intro guarded_sum guarded_prod, goal_cases)
    case (1 e)
    then show ?case
      by - (rule guarded_fact [where A = "reportable e"], simp, intro guarded_pre [OF result_gate [OF assms(1) released]], auto)
  next
    case (2 v plan retained)
    show ?case
      by (rule guarded_pre [OF guarded_bind [OF write_gate [OF assms(1) released]]]) (use assms(3) in \<open>auto simp: step_simps\<close>)
  qed
qed

lemma operation_gate: "guarded (operation_ok r o' m) (\<lambda>n. m \<le> n) (reconcileOperation r o') (\<lambda>x n. x \<noteq> None)"
proof (cases "released o'")
  case True
  then show ?thesis unfolding reconcileOperation_def released_def
    by (simp, intro guarded_bind [OF release_gate [OF since_start]]) (auto simp: released_def)
next
  case False
  have fail: "guarded (operation_ok r o' m) (\<lambda>n. m \<le> n) (do { x \<leftarrow> failOperation r o' code; State_Monad.return (Some x) }) (\<lambda>x n. x \<noteq> None)"
    if "code \<in> set failureCodes" for code
    by (rule guarded_bind [OF fail_gate [OF since_start False that]]) simp
  have accept: "guarded (operation_ok r o' m) (\<lambda>n. m \<le> n) (do { e \<leftarrow> operationStatus r o' OperationPhaseAccepted id; State_Monad.return (Some (operationRetry (errorText e))) }) (\<lambda>x n. x \<noteq> None)"
    by (rule guarded_bind [OF progress_gate [OF since_start False]]) auto
  have protect: "guarded (operation_ok r o' m) (\<lambda>n. m \<le> n) (do { x \<leftarrow> protectOperation r o'; State_Monad.return (Some x) }) (\<lambda>x n. x \<noteq> None)"
    unfolding protectOperation_def operation_send_def bind_assoc
    by (rule guarded_send_then [OF since_start]) (use False in \<open>auto simp: operation_ok_def update_ok_def\<close>)
  have carry: "guarded (operation_ok r o' m) (\<lambda>n. m \<le> n) (do {
        err \<leftarrow> (if operationServerAction (actionOf o') then reconcileOperationServer r o' plan else reconcileOperationData r o' plan);
        case err of Some e \<Rightarrow> operationResultError r o' e | None \<Rightarrow> State_Monad.return (Some (operationRetry None)) }) (\<lambda>x n. x \<noteq> None)"
    if "working r o'" "aost_Plan (ao_Status o') = Some plan" for plan
  proof (rule guarded_bind [where G = "\<lambda>x n. m \<le> n \<and> calm x"])
    show "guarded (operation_ok r o' m) (\<lambda>n. m \<le> n)
      (if operationServerAction (actionOf o') then reconcileOperationServer r o' plan else reconcileOperationData r o' plan) (\<lambda>x n. m \<le> n \<and> calm x)"
      using that server_operation_gate data_operation_gate since_start by (intro guarded_if guarded_start) blast+
    show "guarded (operation_ok r o' m) (\<lambda>n. m \<le> n \<and> calm err)
      (case err of Some e \<Rightarrow> operationResultError r o' e | None \<Rightarrow> State_Monad.return (Some (operationRetry None))) (\<lambda>x n. x \<noteq> None)" for err
    proof (rule guarded_option, simp)
      fix e
      assume "err = Some e"
      then show "guarded (operation_ok r o' m) (\<lambda>n. m \<le> n \<and> calm err) (operationResultError r o' e) (\<lambda>x n. x \<noteq> None)"
        by - (rule guarded_fact [where A = "reportable e"], simp, intro guarded_pre [OF result_gate [OF since_start False]], auto)
    qed
  qed
  from False show ?thesis unfolding reconcileOperation_def
    by (intro guarded_if guarded_option fail accept protect record_gate [OF since_start] carry) (auto simp: released_def working_def)
qed

text \<open>Every request of a reconciliation is permitted at the moment it is sent, and the reconciliation returns.\<close>

lemma operation_permitted:
  assumes "run_state (ReconcileArcadeOperation r namespace name) \<lparr> ses_calls = 0, ses_log = [] \<rparr> = (x, t)"
  shows "x \<noteq> None \<and> (\<forall>n q. (n, q) \<in> set (ses_log t) \<longrightarrow> (\<exists>o'. vw_Operation (operation_reader r) 0 namespace name = Inr o' \<and> operation_ok r o' 1 n q))"
proof -
  let ?P = "\<lambda>n q. \<exists>o'. vw_Operation (operation_reader r) 0 namespace name = Inr o' \<and> operation_ok r o' 1 n q"
  have continue: "guarded ?P (\<lambda>n. vw_Operation (operation_reader r) 0 namespace name = Inr o' \<and> 1 \<le> n) (reconcileOperation r o') (\<lambda>x n. x \<noteq> None)" for o'
  proof (cases "vw_Operation (operation_reader r) 0 namespace name = Inr o'")
    case True
    show ?thesis by (rule guarded_pre [OF guarded_permit [OF operation_gate [of r o' 1]]]) (use True in auto)
  qed (simp add: guarded_def)
  have "guarded ?P (\<lambda>n. n = 0) (ReconcileArcadeOperation r namespace name) (\<lambda>x n. x \<noteq> None)"
    unfolding ReconcileArcadeOperation_def
    by (rule guarded_bind [where G = "\<lambda>got n. vw_Operation (operation_reader r) 0 namespace name = got \<and> 1 \<le> n"], rule guarded_ask)
      (auto intro!: guarded_intros continue [simplified])
  from guarded_run [OF this _ assms] show ?thesis by simp
qed

end
