(* ===== verification/GameServerController.thy ===== *)
theory GameServerController
  imports ServerFence ServerStorage
begin

text \<open>
  \<^verbatim>\<open>internal/controller/gameserver\_controller.go\<close>: the reconciler of a GameServer. A stop removes the runtime the
  server controls; otherwise the plan is built, the fence of the world is inspected, storage is checked and
  converged, and only then are the configuration, the Deployment and the Service applied.
\<close>

section \<open>The runtime resources\<close>

definition serverOwner :: "GameServer \<Rightarrow> OwnerReference" where
  "serverOwner server = \<lparr> owner_APIVersion = GroupVersion, owner_Kind = ''GameServer'', owner_Name = serverName server, owner_UID = serverUID server,
     owner_Controller = None, owner_BlockOwnerDeletion = None \<rparr>"

definition runtimeName :: "GameServer \<Rightarrow> RuntimeKind \<Rightarrow> string" where
  "runtimeName server kind = (case kind of RuntimeConfigMap \<Rightarrow> serverName server @ ''-configuration'' | _ \<Rightarrow> serverName server)"

definition kindText :: "RuntimeKind \<Rightarrow> string" where
  "kindText kind = (case kind of RuntimeDeployment \<Rightarrow> ''Deployment'' | RuntimeConfigMap \<Rightarrow> ''ConfigMap'' | RuntimeService \<Rightarrow> ''Service'')"

definition kindCondition :: "RuntimeKind \<Rightarrow> string" where
  "kindCondition kind = (case kind of
     RuntimeDeployment \<Rightarrow> ''WorkloadReady'' | RuntimeConfigMap \<Rightarrow> ''ConfigurationReady'' | RuntimeService \<Rightarrow> ''NetworkReady'')"

definition kindReason :: "RuntimeKind \<Rightarrow> string" where
  "kindReason kind = (case kind of
     RuntimeDeployment \<Rightarrow> ''WorkloadOperationFailed'' | RuntimeConfigMap \<Rightarrow> ''ConfigurationOperationFailed'' | RuntimeService \<Rightarrow> ''NetworkOperationFailed'')"

text \<open>A get of one of the three resources: its metadata and, for a Deployment, the volumes of its template.\<close>

definition runtimeGet :: "ServerView \<Rightarrow> nat \<Rightarrow> GameServer \<Rightarrow> RuntimeKind \<Rightarrow> ApiError + (ObjectMeta \<times> WorkloadVolume list)" where
  "runtimeGet view n server kind = (case kind of
       RuntimeDeployment \<Rightarrow> (case vw_Deployment view n (serverNamespace server) (runtimeName server kind) of
           Inl e \<Rightarrow> Inl e | Inr d \<Rightarrow> Inr (dep_Meta d, wps_Volumes (dep_TemplateSpec d)))
     | RuntimeConfigMap \<Rightarrow> (case vw_ConfigMap view n (serverNamespace server) (runtimeName server kind) of
           Inl e \<Rightarrow> Inl e | Inr c \<Rightarrow> Inr (cm_Meta c, []))
     | RuntimeService \<Rightarrow> (case vw_Service view n (serverNamespace server) (runtimeName server kind) of
           Inl e \<Rightarrow> Inl e | Inr s \<Rightarrow> Inr (svc_Meta s, [])))"

definition runtimeKey :: "GameServer \<Rightarrow> RuntimeKind \<Rightarrow> string" where
  "runtimeKey server kind = serverNamespace server @ ''/'' @ runtimeName server kind"

definition preflightResource :: "GameServerReconciler \<Rightarrow> GameServer \<Rightarrow> RuntimeKind \<Rightarrow> reconcileFailure option server_program" where
  "preflightResource r server kind = do {
     got \<leftarrow> ask (\<lambda>n. runtimeGet (gsr_Client r) n server kind);
     State_Monad.return (case got of
         Inl NotFound \<Rightarrow> None
       | Inl (ApiFailure _) \<Rightarrow> Some (newReconcileFailure (kindCondition kind) (kindReason kind)
           (kindText kind @ '' '' @ runtimeKey server kind @ '' could not be inspected; inspect cluster API availability'') True)
       | Inr (meta, _) \<Rightarrow> (case requireControlledBy meta (serverOwner server) of
           None \<Rightarrow> None
         | Some _ \<Rightarrow> Some (collisionFailure (kindCondition kind) (kindText kind) (runtimeKey server kind)
             ''Arcadectl will not adopt or delete it; inspect ownership and rename the GameServer or deliberately resolve the conflict''))) }"

definition preflightRuntime :: "GameServerReconciler \<Rightarrow> GameServer \<Rightarrow> reconcileFailure option server_program" where
  "preflightRuntime r server = each (preflightResource r server) [RuntimeConfigMap, RuntimeDeployment, RuntimeService]"

text \<open>The body of the loop of \<^verbatim>\<open>deleteControlledRuntime\<close>: \<open>None\<close> when the resource is absent, otherwise the volumes it mounts.\<close>

definition deleteResource :: "GameServerReconciler \<Rightarrow> GameServer \<Rightarrow> RuntimeKind \<Rightarrow> (reconcileFailure + WorkloadVolume list option) server_program" where
  "deleteResource r server kind = do {
     got \<leftarrow> ask (\<lambda>n. runtimeGet (runtimeReader r) n server kind);
     case got of
       Inl NotFound \<Rightarrow> State_Monad.return (Inr None)
     | Inl (ApiFailure _) \<Rightarrow> State_Monad.return (Inl (newReconcileFailure (kindCondition kind) (kindReason kind)
         (kindText kind @ '' '' @ runtimeKey server kind @ '' could not be observed while stopping; inspect cluster API availability'') True))
     | Inr (meta, volumes) \<Rightarrow> (case requireControlledBy meta (serverOwner server) of
           Some _ \<Rightarrow> State_Monad.return (Inl (collisionFailure (kindCondition kind) (kindText kind) (runtimeKey server kind)
             ''Arcadectl will not adopt or delete it; inspect ownership and deliberately resolve the conflict''))
         | None \<Rightarrow> do {
             e \<leftarrow> request r (DeleteRuntime kind (serverNamespace server) (runtimeName server kind) (meta_UID meta) (meta_ResourceVersion meta) (kind = RuntimeDeployment));
             State_Monad.return (case e of
                 Some (ApiFailure _) \<Rightarrow> Inl (newReconcileFailure (kindCondition kind) (kindReason kind)
                   (kindText kind @ '' '' @ runtimeKey server kind @ '' could not be removed while stopping; inspect cluster API events'') True)
               | _ \<Rightarrow> Inr (Some volumes)) }) }"

fun deleteResources :: "GameServerReconciler \<Rightarrow> GameServer \<Rightarrow> RuntimeKind list \<Rightarrow> bool \<times> WorkloadVolume list \<Rightarrow> (reconcileFailure + bool \<times> WorkloadVolume list) server_program" where
  "deleteResources r server [] acc = State_Monad.return (Inr acc)"
| "deleteResources r server (kind # kinds) acc = attempt (deleteResource r server kind)
     (\<lambda>found. deleteResources r server kinds (case found of
         None \<Rightarrow> acc
       | Some volumes \<Rightarrow> (True, if kind = RuntimeDeployment then volumes else snd acc)))"

definition deleteControlledRuntime :: "GameServerReconciler \<Rightarrow> GameServer \<Rightarrow> (reconcileFailure + bool) server_program" where
  "deleteControlledRuntime r server = attempt (deleteResources r server [RuntimeDeployment, RuntimeConfigMap, RuntimeService] (False, []))
     (\<lambda>(stopping, volumes). do {
       remain \<leftarrow> runtimePodsRemain r server volumes;
       State_Monad.return (case remain of Inl _ \<Rightarrow> Inl runtimeDrainFailure | Inr podsRemain \<Rightarrow> Inr (stopping \<or> podsRemain)) })"

section \<open>Configuration, workload and Service\<close>

definition configurationMatches :: "ServerConfigMap \<Rightarrow> ServerConfigMap \<Rightarrow> bool" where
  "configurationMatches existing desired \<longleftrightarrow>
     meta_Labels (cm_Meta existing) = meta_Labels (cm_Meta desired) \<and> meta_Annotations (cm_Meta existing) = meta_Annotations (cm_Meta desired) \<and>
     meta_OwnerReferences (cm_Meta existing) = meta_OwnerReferences (cm_Meta desired) \<and> cm_Data existing = cm_Data desired \<and>
     scm_BinaryData existing = scm_BinaryData desired \<and> cm_Immutable existing = cm_Immutable desired"

definition updatedConfigMap :: "ServerConfigMap \<Rightarrow> ServerConfigMap \<Rightarrow> ServerConfigMap" where
  "updatedConfigMap existing desired = existing\<lparr>
     cm_Meta := (cm_Meta existing)\<lparr> meta_Labels := meta_Labels (cm_Meta desired), meta_Annotations := meta_Annotations (cm_Meta desired),
       meta_OwnerReferences := meta_OwnerReferences (cm_Meta desired) \<rparr>,
     cm_Data := cm_Data desired, scm_BinaryData := scm_BinaryData desired, cm_Immutable := cm_Immutable desired \<rparr>"

definition reconcileConfigMap :: "GameServerReconciler \<Rightarrow> ServerConfigMap \<Rightarrow> error option server_program" where
  "reconcileConfigMap r desired = do {
     got \<leftarrow> ask (\<lambda>n. vw_ConfigMap (gsr_Client r) n (meta_Namespace (cm_Meta desired)) (meta_Name (cm_Meta desired)));
     case got of
       Inl NotFound \<Rightarrow> do {
         e \<leftarrow> request r (CreateServerConfigMap desired);
         State_Monad.return (map_option (\<lambda>x. ''create game configuration '' @ key_text (cm_Meta desired) @ '': '' @ api_message x) e) }
     | Inl (ApiFailure m) \<Rightarrow> State_Monad.return (Some (''get game configuration '' @ key_text (cm_Meta desired) @ '': '' @ m))
     | Inr existing \<Rightarrow> (case requireControlledBy (cm_Meta existing) (hd (meta_OwnerReferences (cm_Meta desired))) of
           Some m \<Rightarrow> State_Monad.return (Some (''refuse game configuration '' @ key_text (cm_Meta desired) @ '': '' @ m))
         | None \<Rightarrow>
             if configurationMatches existing desired then State_Monad.return None
             else do {
               e \<leftarrow> request r (UpdateServerConfigMap (updatedConfigMap existing desired));
               State_Monad.return (map_option (\<lambda>x. ''update game configuration '' @ key_text (cm_Meta desired) @ '': '' @ api_message x) e) }) }"

text \<open>An error of \<^verbatim>\<open>reconcileDeployment\<close>: the sentinel \<^verbatim>\<open>errRuntimeDraining\<close> or any other.\<close>

datatype deploymentError = errRuntimeDraining | DeploymentFailed error

definition appliedDeployment :: "Deployment \<Rightarrow> Deployment \<Rightarrow> Deployment" where
  "appliedDeployment desired existing = desired\<lparr> dep_Meta := (dep_Meta desired)\<lparr>
     meta_UID := meta_UID (dep_Meta existing), meta_ResourceVersion := meta_ResourceVersion (dep_Meta existing) \<rparr> \<rparr>"

definition appliedError :: "Deployment \<Rightarrow> Deployment \<Rightarrow> Deployment \<Rightarrow> Deployment \<Rightarrow> deploymentError option" where
  "appliedError desired existing updated actual = (let key = key_text (dep_Meta desired) in first_error
     [guard (meta_UID (dep_Meta existing) = [] \<or> meta_UID (dep_Meta updated) \<noteq> meta_UID (dep_Meta existing) \<or>
         meta_UID (dep_Meta actual) \<noteq> meta_UID (dep_Meta existing)) (DeploymentFailed (''applied game workload '' @ key @ '' changed identity'')),
      map_option (\<lambda>m. DeploymentFailed (''refuse applied game workload '' @ key @ '': '' @ m))
        (requireControlledBy (dep_Meta actual) (hd (meta_OwnerReferences (dep_Meta desired)))),
      guard (terminating (dep_Meta actual)) errRuntimeDraining,
      guard (sint (meta_Generation (dep_Meta updated)) \<le> 0 \<or> meta_Generation (dep_Meta actual) \<noteq> meta_Generation (dep_Meta updated))
        (DeploymentFailed (''applied game workload '' @ key @ '' changed generation''))])"

definition createWorkload :: "GameServerReconciler \<Rightarrow> GameServer \<Rightarrow> Deployment \<Rightarrow> (deploymentError + Deployment) server_program" where
  "createWorkload r server desired = do {
     remain \<leftarrow> runtimePodsRemain r server (wps_Volumes (dep_TemplateSpec desired));
     case remain of
       Inl m \<Rightarrow> State_Monad.return (Inl (DeploymentFailed m))
     | Inr True \<Rightarrow> State_Monad.return (Inl errRuntimeDraining)
     | Inr False \<Rightarrow> do {
         created \<leftarrow> send_to (\<lambda>n. gsr_RespondDeployment r n desired) (CreateDeployment desired);
         State_Monad.return (case created of
             Inl e \<Rightarrow> Inl (DeploymentFailed (''create game workload '' @ key_text (dep_Meta desired) @ '': '' @ api_message e))
           | Inr d \<Rightarrow> Inr d) } }"

definition applyWorkload :: "GameServerReconciler \<Rightarrow> Deployment \<Rightarrow> Deployment \<Rightarrow> (deploymentError + Deployment) server_program" where
  "applyWorkload r desired existing = do {
     answer \<leftarrow> send_to (\<lambda>n. gsr_RespondDeployment r n (appliedDeployment desired existing)) (ApplyDeployment (appliedDeployment desired existing));
     case answer of
       Inl e \<Rightarrow> State_Monad.return (Inl (DeploymentFailed (''apply game workload '' @ key_text (dep_Meta desired) @ '': '' @ api_message e)))
     | Inr updated \<Rightarrow> do {
         got \<leftarrow> ask (\<lambda>n. vw_Deployment (runtimeReader r) n (meta_Namespace (dep_Meta desired)) (meta_Name (dep_Meta desired)));
         State_Monad.return (case got of
             Inl e \<Rightarrow> Inl (DeploymentFailed (''read applied game workload '' @ key_text (dep_Meta desired) @ '': '' @ api_message e))
           | Inr actual \<Rightarrow> (case appliedError desired existing updated actual of Some e \<Rightarrow> Inl e | None \<Rightarrow> Inr actual)) } }"

definition reconcileDeployment :: "GameServerReconciler \<Rightarrow> GameServer \<Rightarrow> Deployment \<Rightarrow> (deploymentError + Deployment) server_program" where
  "reconcileDeployment r server desired = do {
     got \<leftarrow> ask (\<lambda>n. vw_Deployment (runtimeReader r) n (meta_Namespace (dep_Meta desired)) (meta_Name (dep_Meta desired)));
     case got of
       Inl NotFound \<Rightarrow> createWorkload r server desired
     | Inl (ApiFailure m) \<Rightarrow> State_Monad.return (Inl (DeploymentFailed (''get game workload '' @ key_text (dep_Meta desired) @ '': '' @ m)))
     | Inr existing \<Rightarrow> (case requireControlledBy (dep_Meta existing) (hd (meta_OwnerReferences (dep_Meta desired))) of
           Some m \<Rightarrow> State_Monad.return (Inl (DeploymentFailed (''refuse game workload '' @ key_text (dep_Meta desired) @ '': '' @ m)))
         | None \<Rightarrow>
             if terminating (dep_Meta existing) then State_Monad.return (Inl errRuntimeDraining)
             else applyWorkload r desired existing) }"

definition reconcileService :: "GameServerReconciler \<Rightarrow> Service \<Rightarrow> (error + Service) server_program" where
  "reconcileService r desired = do {
     got \<leftarrow> ask (\<lambda>n. vw_Service (gsr_Client r) n (meta_Namespace (svc_Meta desired)) (meta_Name (svc_Meta desired)));
     case got of
       Inl NotFound \<Rightarrow> do {
         created \<leftarrow> send_to (\<lambda>n. gsr_RespondService r n desired) (CreateService desired);
         State_Monad.return (case created of
             Inl e \<Rightarrow> Inl (''create player service '' @ key_text (svc_Meta desired) @ '': '' @ api_message e) | Inr s \<Rightarrow> Inr s) }
     | Inl (ApiFailure m) \<Rightarrow> State_Monad.return (Inl (''get player service '' @ key_text (svc_Meta desired) @ '': '' @ m))
     | Inr existing \<Rightarrow> (case requireControlledBy (svc_Meta existing) (hd (meta_OwnerReferences (svc_Meta desired))) of
           Some m \<Rightarrow> State_Monad.return (Inl (''refuse player service '' @ key_text (svc_Meta desired) @ '': '' @ m))
         | None \<Rightarrow> do {
             answer \<leftarrow> send_to (\<lambda>n. gsr_RespondService r n desired) (ApplyService desired);
             case answer of
               Inl e \<Rightarrow> State_Monad.return (Inl (''apply player service '' @ key_text (svc_Meta desired) @ '': '' @ api_message e))
             | Inr _ \<Rightarrow> do {
                 actual \<leftarrow> ask (\<lambda>n. vw_Service (gsr_Client r) n (meta_Namespace (svc_Meta desired)) (meta_Name (svc_Meta desired)));
                 State_Monad.return (case actual of
                     Inl e \<Rightarrow> Inl (''read applied player service '' @ key_text (svc_Meta desired) @ '': '' @ api_message e) | Inr s \<Rightarrow> Inr s) } }) }"

section \<open>Readiness\<close>

definition workloadAvailable :: "Deployment \<Rightarrow> bool" where
  "workloadAvailable d \<longleftrightarrow> \<not> terminating (dep_Meta d) \<and> dep_Replicas d = Some 1 \<and>
     sint (meta_Generation (dep_Meta d)) \<le> sint (dep_ObservedGeneration d) \<and> dep_StatusReplicas d = 1 \<and> dep_UpdatedReplicas d = 1 \<and>
     dep_ReadyReplicas d = 1 \<and> dep_AvailableReplicas d = 1 \<and> dep_UnavailableReplicas d = 0"

fun workloadConditionFailure :: "DeploymentCondition list \<Rightarrow> string" where
  "workloadConditionFailure [] = []"
| "workloadConditionFailure (c # cs) =
     (if dc_Type c = ''Progressing'' \<and> dc_Status c = ConditionFalse \<and> dc_Reason c = ''ProgressDeadlineExceeded''
      then ''exceeded its progress deadline; inspect Pod status, workload events, and image availability''
      else if dc_Type c = ''ReplicaFailure'' \<and> dc_Status c = ConditionTrue
      then ''cannot create or run its replica; inspect Pod status, workload events, quotas, and policy''
      else workloadConditionFailure cs)"

definition terminalWorkloadFailure :: "Deployment \<Rightarrow> string" where
  "terminalWorkloadFailure d =
     (if sint (dep_ObservedGeneration d) < sint (meta_Generation (dep_Meta d)) then [] else workloadConditionFailure (dep_Conditions d))"

fun portSupported :: "ServicePort \<Rightarrow> PortStatus list \<Rightarrow> nat \<Rightarrow> bool" where
  "portSupported desired [] matches = (matches = 1)"
| "portSupported desired (observed # rest) matches =
     (if pstat_Port observed \<noteq> sport_Port desired \<or> pstat_Protocol observed \<noteq> sport_Protocol desired then portSupported desired rest matches
      else if pstat_Error observed \<noteq> None then False
      else portSupported desired rest (Suc matches))"

definition ingressSupportsPorts :: "LoadBalancerIngress \<Rightarrow> ServicePort list \<Rightarrow> bool" where
  "ingressSupportsPorts ingress desired \<longleftrightarrow>
     ing_Ports ingress = [] \<or> list_all (\<lambda>port. portSupported port (ing_Ports ingress) 0) desired"

definition ingressIP :: "ServerLibrary \<Rightarrow> LoadBalancerIngress \<Rightarrow> string list" where
  "ingressIP lib ingress = (case sl_GlobalUnicast lib (TrimSpace (ing_IP ingress)) of
       Some address \<Rightarrow> if TrimSpace (ing_IP ingress) = ing_IP ingress then [address] else []
     | None \<Rightarrow> [])"

definition ingressHostname :: "ServerLibrary \<Rightarrow> LoadBalancerIngress \<Rightarrow> string list" where
  "ingressHostname lib ingress = (let hostname = ToLower (TrimSpace (ing_Hostname ingress)) in
     if hostname \<noteq> [] \<and> hostname = ing_Hostname ingress \<and> sl_IsDNS1123Subdomain lib hostname then [hostname] else [])"

definition observedLoadBalancerAddress :: "ServerLibrary \<Rightarrow> LoadBalancerIngress list \<Rightarrow> ServicePort list \<Rightarrow> string" where
  "observedLoadBalancerAddress lib ingresses desired =
     (let usable = filter (\<lambda>i. ingressSupportsPorts i desired) ingresses;
          ips = sort (concat (map (ingressIP lib) usable));
          hostnames = sort (concat (map (ingressHostname lib) usable)) in
      case ips of
        ip # _ \<Rightarrow> ip
      | [] \<Rightarrow> (case hostnames of hostname # _ \<Rightarrow> hostname | [] \<Rightarrow> []))"

definition portAgrees :: "ServicePort \<Rightarrow> ServicePort \<Rightarrow> bool" where
  "portAgrees observed port \<longleftrightarrow> sport_Protocol observed = sport_Protocol port \<and> sport_Port observed = sport_Port port \<and>
     sport_TargetPort observed = sport_TargetPort port"

definition actualPorts :: "ServicePort list \<Rightarrow> (string \<rightharpoonup> ServicePort)" where
  "actualPorts ports = foldl (\<lambda>m p. m(sport_Name p \<mapsto> p)) Map.empty ports"

definition observedEndpoints :: "ServerLibrary \<Rightarrow> Service \<Rightarrow> Service \<Rightarrow> ObservedEndpoint list" where
  "observedEndpoints lib actual desired =
     (if terminating (svc_Meta actual) then []
      else let desiredPorts = sort_key sport_Name (svc_Ports desired);
               address = observedLoadBalancerAddress lib (svc_Ingress actual) desiredPorts in
        if desiredPorts = [] \<or> address = [] then []
        else if list_all (\<lambda>port. case actualPorts (svc_Ports actual) (sport_Name port) of None \<Rightarrow> False | Some observed \<Rightarrow> portAgrees observed port) desiredPorts
        then map (\<lambda>port. \<lparr> oe_Name = sport_Name port, oe_Protocol = sport_Protocol port, oe_Address = address, oe_Port = sport_Port port \<rparr>) desiredPorts
        else [])"

section \<open>Conditions\<close>

definition setRuntimeStopping :: "conditionProgress \<Rightarrow> conditionProgress" where
  "setRuntimeStopping progress =
     progress_set ''Ready'' ConditionFalse ''RuntimeStopping'' ''waiting for disposable runtime resources to terminate; persistent data is retained''
     (progress_set ''NetworkReady'' ConditionFalse ''RuntimeStopping'' ''player networking is being removed; retained data is untouched''
     (progress_set ''WorkloadReady'' ConditionFalse ''RuntimeStopping'' ''the singleton game workload is being removed; retained data is untouched''
     (progress_set ''ConfigurationReady'' ConditionFalse ''RuntimeStopping'' ''the disposable configuration is being removed; retained data is untouched'' progress)))"

definition setRuntimeStopped :: "conditionProgress \<Rightarrow> conditionProgress" where
  "setRuntimeStopped progress =
     progress_set ''NetworkReady'' ConditionFalse ''RuntimeStopped'' ''player networking is absent because the game server is stopped''
     (progress_set ''WorkloadReady'' ConditionFalse ''RuntimeStopped'' ''the game workload is absent because the game server is stopped''
     (progress_set ''ConfigurationReady'' ConditionFalse ''RuntimeStopped'' ''disposable configuration is absent because the game server is stopped'' progress))"

definition terminatingProgress :: conditionProgress where
  "terminatingProgress =
     progress_set ''Ready'' ConditionFalse ''RuntimeStopping'' ''the GameServer is terminating; retained claims are not deleted by Arcadectl''
     (progress_set ''NetworkReady'' ConditionFalse ''RuntimeStopping'' ''the GameServer is terminating and player networking is no longer reported ready''
     (progress_set ''WorkloadReady'' ConditionFalse ''RuntimeStopping'' ''the GameServer is terminating and its workload is no longer reported ready''
     (progress_set ''ConfigurationReady'' ConditionFalse ''RuntimeStopping'' ''the GameServer is terminating and disposable configuration is no longer reported ready''
     (progress_set ''StorageReady'' ConditionUnknown ''Blocked'' ''retained storage is not changed while the GameServer is terminating''
     (progress_set ''SpecValid'' ConditionUnknown ''Blocked'' ''spec validation is not evaluated while the GameServer is terminating'' newConditionProgress)))))"

definition stoppingProgress :: "conditionProgress \<Rightarrow> conditionProgress" where
  "stoppingProgress progress = setRuntimeStopping
     (progress_set ''StorageReady'' ConditionUnknown ''Blocked'' ''retained storage is not changed while disposable runtime resources are stopping''
     (progress_set ''SpecValid'' ConditionUnknown ''Blocked'' ''spec validation is deferred until disposable runtime resources are absent'' progress))"

definition lockedProgress :: "conditionProgress \<Rightarrow> conditionProgress" where
  "lockedProgress progress =
     progress_set ''Ready'' ConditionFalse ''DataOperationActive'' ''the game server remains offline while a data operation owns the retained world''
     (progress_set ''WorkloadReady'' ConditionFalse ''DataOperationActive'' ''the singleton workload is absent while a data operation owns the retained world''
     (progress_set ''StorageReady'' ConditionUnknown ''DataOperationActive'' ''retained data is frozen while an active backup or restore operation owns it'' progress))"

definition validationFailureMessage :: "PlanError \<Rightarrow> string" where
  "validationFailureMessage err = (case err of
       UncategorizedError \<Rightarrow> ''the GameServer plan is invalid; inspect the installed game adapter and controller configuration''
     | ValidationError category \<Rightarrow> (case category of
         ValidationIdentity \<Rightarrow> ''the GameServer identity is invalid; correct its name, namespace, or Kubernetes identity''
       | ValidationGame \<Rightarrow> ''the selected game adapter is invalid or incompatible; choose a supported installed adapter''
       | ValidationImage \<Rightarrow> ''imageDigest is invalid; supply an immutable sha256 image digest''
       | ValidationDesiredState \<Rightarrow> ''desiredState is invalid; choose Running or Stopped''
       | ValidationCompute \<Rightarrow> ''compute is invalid; use positive requests and limits with each request no greater than its limit''
       | ValidationStorage \<Rightarrow> ''storage is invalid; use a positive size and a valid storageClassName''
       | ValidationSettings \<Rightarrow> ''settings are invalid; correct them to match the selected game adapter schema and rendering limits''))"

section \<open>Reconcile\<close>

text \<open>\<^verbatim>\<open>return ctrl.Result{}, r.reportFailure(...)\<close> and the like.\<close>

definition report :: "GameServerReconciler \<Rightarrow> GameServer \<Rightarrow> conditionProgress \<Rightarrow> reconcileFailure \<Rightarrow> Reconciled server_program" where
  "report r server progress failure = do { e \<leftarrow> reportFailure r server progress failure; State_Monad.return (finished e) }"

definition publish :: "GameServerReconciler \<Rightarrow> GameServer \<Rightarrow> GameServerPhase \<Rightarrow> conditionProgress \<Rightarrow> ObservedEndpoint list \<Rightarrow> RetainedDataReference option \<Rightarrow> Reconciled server_program" where
  "publish r server phase progress endpoints data = do {
     e \<leftarrow> updateStatusWithData r server phase progress endpoints data;
     State_Monad.return (finished e) }"

definition publishStopping :: "GameServerReconciler \<Rightarrow> GameServer \<Rightarrow> conditionProgress \<Rightarrow> Reconciled server_program" where
  "publishStopping r server progress = do {
     e \<leftarrow> updateStatus r server PhaseStopping (setRuntimeStopping progress) [];
     State_Monad.return (requeue_after second e) }"

text \<open>The end of \<^verbatim>\<open>Reconcile\<close>: the Service and the summary.\<close>

definition readySummary :: "bool \<Rightarrow> bool \<Rightarrow> bool \<Rightarrow> GameServerPhase \<times> string \<times> string" where
  "readySummary storageReady available networkReady =
     (if \<not> storageReady then (PhasePending, ''StoragePending'', ''waiting for retained storage to become available'')
      else if available \<and> \<not> networkReady then
        (PhaseStarting, ''PlayerEndpointPending'', ''waiting for the player Service to publish a certified reachable endpoint'')
      else (PhaseStarting, ''WorkloadPending'', ''waiting for the current singleton workload and certified player endpoint''))"

definition summarize :: "GameServerReconciler \<Rightarrow> GameServer \<Rightarrow> conditionProgress \<Rightarrow> storageObservation \<Rightarrow> bool \<Rightarrow> ObservedEndpoint list \<Rightarrow> Reconciled server_program" where
  "summarize r server progress storage available endpoints =
     (let networkReady = (endpoints \<noteq> []);
          progress = (if networkReady
            then progress_set ''NetworkReady'' ConditionTrue ''PlayerEndpointReady'' ''the player Service published a certified reachable endpoint'' progress
            else progress_set ''NetworkReady'' ConditionFalse ''PlayerEndpointPending'' ''waiting for the player Service to publish a certified reachable endpoint'' progress) in
      if so_ready storage \<and> available \<and> networkReady then
        publish r server PhaseReady
          (progress_set ''Ready'' ConditionTrue ''Ready'' ''the current game workload and certified player endpoint are ready'' progress) endpoints (so_data storage)
      else (case readySummary (so_ready storage) available networkReady of
          (phase, reason, message) \<Rightarrow> publish r server phase (progress_set ''Ready'' ConditionFalse reason message progress) [] None))"

definition reconcileNetwork :: "GameServerReconciler \<Rightarrow> GameServer \<Rightarrow> Service \<Rightarrow> conditionProgress \<Rightarrow> storageObservation \<Rightarrow> Deployment \<Rightarrow> Reconciled server_program" where
  "reconcileNetwork r server desired progress storage deployment = do {
     let available = workloadAvailable deployment;
     let failure = terminalWorkloadFailure deployment;
     if failure \<noteq> [] then
       report r server progress (newReconcileFailure ''WorkloadReady'' ''WorkloadUnavailable''
         (''Deployment '' @ key_text (dep_Meta deployment) @ '' '' @ failure) False)
     else do {
       let progress = (if available
         then progress_set ''WorkloadReady'' ConditionTrue ''WorkloadAvailable'' ''the current singleton game workload is observed available'' progress
         else progress_set ''WorkloadReady'' ConditionFalse ''WorkloadProgressing'' ''waiting for the current singleton game workload to become available'' progress);
       service \<leftarrow> reconcileService r desired;
       case service of
         Inl _ \<Rightarrow> report r server progress (newReconcileFailure ''NetworkReady'' ''NetworkOperationFailed''
           (''Service '' @ key_text (svc_Meta desired) @ '' could not be reconciled; inspect load-balancer events and provider configuration'') True)
       | Inr actual \<Rightarrow> summarize r server progress storage available (observedEndpoints (gsr_Library r) actual desired) } }"

definition reconcileRuntime :: "GameServerReconciler \<Rightarrow> GameServer \<Rightarrow> ServerConfigMap \<Rightarrow> Deployment \<Rightarrow> Service \<Rightarrow> conditionProgress \<Rightarrow> storageObservation \<Rightarrow> Reconciled server_program" where
  "reconcileRuntime r server configuration workload service progress storage = do {
     configured \<leftarrow> reconcileConfigMap r configuration;
     case configured of
       Some _ \<Rightarrow> report r server progress (newReconcileFailure ''ConfigurationReady'' ''ConfigurationOperationFailed''
         (''ConfigMap '' @ key_text (cm_Meta configuration) @ '' could not be reconciled; inspect its ownership and cluster API events'') True)
     | None \<Rightarrow> do {
         let progress = progress_set ''ConfigurationReady'' ConditionTrue ''ConfigurationReady'' ''the current rendered game configuration is applied'' progress;
         deployed \<leftarrow> reconcileDeployment r server workload;
         case deployed of
           Inl errRuntimeDraining \<Rightarrow> publishStopping r server progress
         | Inl (DeploymentFailed _) \<Rightarrow> report r server progress (newReconcileFailure ''WorkloadReady'' ''WorkloadOperationFailed''
             (''Deployment '' @ key_text (dep_Meta workload) @ '' could not be reconciled; inspect workload events and image availability'') True)
         | Inr deployment \<Rightarrow> reconcileNetwork r server service progress storage deployment } }"

text \<open>From a running server's converged storage to its runtime.\<close>

definition startRuntime :: "GameServerReconciler \<Rightarrow> GameServer \<Rightarrow> DataClaimPlan list \<Rightarrow> ServerConfigMap \<Rightarrow> Deployment \<Rightarrow> Service \<Rightarrow> conditionProgress \<Rightarrow> storageObservation \<Rightarrow> Reconciled server_program" where
  "startRuntime r server claims configuration workload service progress storage = do {
     draining \<leftarrow> runtimeReplacementDraining r server workload;
     case draining of
       Inl _ \<Rightarrow> report r server progress runtimeDrainFailure
     | Inr True \<Rightarrow> publishStopping r server progress
     | Inr False \<Rightarrow> do {
         cleared \<leftarrow> clearColdBackupMarkers r server claims;
         case cleared of
           Some _ \<Rightarrow> report r server progress (retainedDataFailure ''RetainedDataConflict''
             ''prior cold-backup evidence cannot be invalidated before runtime activation; inspect the exact retained claims'')
         | None \<Rightarrow> reconcileRuntime r server configuration workload service progress storage } }"

text \<open>
  The plan of a running server has its three runtime objects; a plan without them, which \<^verbatim>\<open>Build\<close> never returns for
  such a server, would make the code dereference nil.
\<close>

definition reconcileStorage :: "GameServerReconciler \<Rightarrow> GameServer \<Rightarrow> Plan \<Rightarrow> conditionProgress \<Rightarrow> Reconciled server_program" where
  "reconcileStorage r server plan progress = do {
     converged \<leftarrow> reconcileDataClaims r (plan_DataClaims plan);
     case converged of
       Some failure \<Rightarrow> report r server progress failure
     | None \<Rightarrow> do {
         observed \<leftarrow> observeStorage r (plan_DataClaims plan);
         case observed of
           Inl failure \<Rightarrow> report r server progress failure
         | Inr storage \<Rightarrow> do {
             let progress = progress_set ''StorageReady'' (so_status storage) (so_reason storage) (so_message storage) progress;
             if gss_DesiredState (gs_Spec server) = DesiredStateStopped then
               publish r server PhaseStopped
                 (progress_set ''Ready'' ConditionFalse ''RuntimeStopped'' ''the game server is stopped; persistent data is retained'' progress) [] (so_data storage)
             else (case (plan_Configuration plan, plan_Workload plan, plan_PlayerService plan) of
                 (Some configuration, Some workload, Some service) \<Rightarrow>
                   startRuntime r server (plan_DataClaims plan) configuration workload service progress storage
               | _ \<Rightarrow> State_Monad.return (finished (Some ''nil pointer dereference''))) } } }"

definition reconcileUnlocked :: "GameServerReconciler \<Rightarrow> GameServer \<Rightarrow> Plan \<Rightarrow> conditionProgress \<Rightarrow> Reconciled server_program" where
  "reconcileUnlocked r server plan progress = do {
     storageFailure \<leftarrow> preflightStorage r server plan;
     case storageFailure of
       Some failure \<Rightarrow> report r server progress failure
     | None \<Rightarrow> do {
         runtimeFailure \<leftarrow> (if gss_DesiredState (gs_Spec server) = DesiredStateRunning then preflightRuntime r server else State_Monad.return None);
         case runtimeFailure of
           Some failure \<Rightarrow> report r server progress failure
         | None \<Rightarrow> reconcileStorage r server plan progress } }"

definition publishLocked :: "GameServerReconciler \<Rightarrow> GameServer \<Rightarrow> conditionProgress \<Rightarrow> bool \<Rightarrow> Reconciled server_program" where
  "publishLocked r server progress stopping = do {
     let phase = (if gss_DesiredState (gs_Spec server) = DesiredStateStopped \<and> \<not> stopping then PhaseStopped else PhaseStopping);
     e \<leftarrow> updateStatus r server phase (lockedProgress progress) [];
     State_Monad.return (case e of Some err \<Rightarrow> finished (Some err) | None \<Rightarrow> requeue_after second None) }"

definition reconcileLocked :: "GameServerReconciler \<Rightarrow> GameServer \<Rightarrow> conditionProgress \<Rightarrow> Reconciled server_program" where
  "reconcileLocked r server progress =
     (if gss_DesiredState (gs_Spec server) = DesiredStateRunning then do {
        collision \<leftarrow> preflightRuntime r server;
        case collision of
          Some failure \<Rightarrow> report r server progress failure
        | None \<Rightarrow> do {
            removed \<leftarrow> deleteControlledRuntime r server;
            case removed of
              Inl failure \<Rightarrow> report r server progress failure
            | Inr stopping \<Rightarrow> publishLocked r server (setRuntimeStopping progress) stopping } }
      else publishLocked r server (setRuntimeStopped progress) False)"

definition reconcilePlanned :: "GameServerReconciler \<Rightarrow> GameServer \<Rightarrow> Plan \<Rightarrow> conditionProgress \<Rightarrow> Reconciled server_program" where
  "reconcilePlanned r server plan progress = do {
     locked \<leftarrow> dataOperationLocked r server (plan_DataIdentity plan);
     case locked of
       Inl failure \<Rightarrow> report r server progress failure
     | Inr True \<Rightarrow> reconcileLocked r server progress
     | Inr False \<Rightarrow> reconcileUnlocked r server plan progress }"

definition reconcileIntent :: "GameServerReconciler \<Rightarrow> GameServer \<Rightarrow> conditionProgress \<Rightarrow> Reconciled server_program" where
  "reconcileIntent r server progress = (case gsr_Catalog r of
       None \<Rightarrow> report r server progress (newReconcileFailure ''SpecValid'' ''ControllerMisconfigured''
         ''the controller game catalog is unavailable; inspect the controller Deployment configuration'' True)
     | Some get \<Rightarrow> (case get (gss_Game (gs_Spec server)) of
         Inl _ \<Rightarrow> report r server progress (newReconcileFailure ''SpecValid'' ''InvalidSpec''
           ''the GameServer spec selects an unsupported game; choose an installed game adapter'' False)
       | Inr d \<Rightarrow> (case Build (gsr_Library r) server d of
           Inl err \<Rightarrow> report r server progress (newReconcileFailure ''SpecValid'' ''InvalidSpec'' (validationFailureMessage err) False)
         | Inr plan \<Rightarrow> reconcilePlanned r server plan
             (progress_set ''SpecValid'' ConditionTrue ''Valid'' ''the current GameServer generation passed adapter and platform validation'' progress))))"

text \<open>The stop that comes before everything else.\<close>

definition reconcileStop :: "GameServerReconciler \<Rightarrow> GameServer \<Rightarrow> conditionProgress \<Rightarrow> Reconciled server_program" where
  "reconcileStop r server progress = do {
     collision \<leftarrow> preflightRuntime r server;
     case collision of
       Some failure \<Rightarrow> report r server progress failure
     | None \<Rightarrow> do {
         removed \<leftarrow> deleteControlledRuntime r server;
         case removed of
           Inl failure \<Rightarrow> report r server progress failure
         | Inr True \<Rightarrow> do {
             e \<leftarrow> updateStatus r server PhaseStopping (stoppingProgress progress) [];
             State_Monad.return (case e of Some err \<Rightarrow> finished (Some err) | None \<Rightarrow> requeue_after second None) }
         | Inr False \<Rightarrow> reconcileIntent r server (setRuntimeStopped progress) } }"

definition reconcileServer :: "GameServerReconciler \<Rightarrow> GameServer \<Rightarrow> Reconciled server_program" where
  "reconcileServer r server =
     (if terminating (gs_Meta server) then publish r server PhaseStopping terminatingProgress [] None
      else if gss_DesiredState (gs_Spec server) = DesiredStateStopped then reconcileStop r server newConditionProgress
      else reconcileIntent r server newConditionProgress)"

definition ReconcileGameServer :: "GameServerReconciler \<Rightarrow> string \<Rightarrow> string \<Rightarrow> Reconciled server_program" where
  "ReconcileGameServer r namespace name = do {
     got \<leftarrow> ask (\<lambda>n. vw_GameServer (gsr_Client r) n namespace name);
     case got of
       Inl NotFound \<Rightarrow> State_Monad.return (finished None)
     | Inl (ApiFailure m) \<Rightarrow> State_Monad.return (finished (Some m))
     | Inr server \<Rightarrow> reconcileServer r server }"

end
