(* ===== verification/GameServerSpec.thy ===== *)
theory GameServerSpec
  imports GameServerController Guarded
begin

text \<open>
  What a reconciliation of a GameServer must have seen before it may send a request. Every predicate takes the first
  call \<open>m\<close> of the run and the call \<open>n\<close> that is about to be made, and speaks about answers at calls in between.
\<close>

section \<open>Observations\<close>

definition planned :: "GameServerReconciler \<Rightarrow> GameServer \<Rightarrow> Plan \<Rightarrow> bool" where
  "planned r server plan \<longleftrightarrow> (\<exists>get d. gsr_Catalog r = Some get \<and> get (gss_Game (gs_Spec server)) = Inr d \<and> Build (gsr_Library r) server d = Inr plan)"

text \<open>The lease of the world is absent, or allows this very generation of the server to run.\<close>

definition fence_open :: "GameServerReconciler \<Rightarrow> GameServer \<Rightarrow> string \<Rightarrow> nat \<Rightarrow> nat \<Rightarrow> bool" where
  "fence_open r server identity m n \<longleftrightarrow>
     seen m n (\<lambda>k. vw_Lease (runtimeReader r) k (serverNamespace server) (DataOperationLeaseName identity) = Inl NotFound) \<or>
     (\<exists>lease holder. seen m n (\<lambda>k. vw_Lease (runtimeReader r) k (serverNamespace server) (DataOperationLeaseName identity) = Inr lease) \<and>
        lease_HolderIdentity lease = Some holder \<and> holder \<noteq> [] \<and> lease_label lease LabelManagedBy = ManagerName \<and>
        lease_label lease LabelDataIdentity = identity \<and>
        (if lease_label lease operationReceiptUIDLabel \<noteq> []
         then \<exists>o'. seen m n (\<lambda>k. vw_Operation (runtimeReader r) k (serverNamespace server) (lease_annotation lease operationReceiptNameAnnotation) = Inr o') \<and>
                receiptAllows (gsr_Operations r) o' server lease
         else settlementAllows server identity lease holder))"

text \<open>A planned claim is the selected one, or is still absent where none was selected.\<close>

definition claim_usable :: "GameServerReconciler \<Rightarrow> DataClaimPlan \<Rightarrow> nat \<Rightarrow> nat \<Rightarrow> bool" where
  "claim_usable r claim m n \<longleftrightarrow> seen m n (\<lambda>k.
     case vw_Claim (runtimeReader r) k (meta_Namespace (desired_meta claim)) (meta_Name (desired_meta claim)) of
       Inl e \<Rightarrow> e = NotFound \<and> dcp_RequiredUID claim = []
     | Inr c \<Rightarrow> validateExistingDataClaim (gsr_Library r) c claim = None)"

definition identity_unique :: "GameServerReconciler \<Rightarrow> GameServer \<Rightarrow> Plan \<Rightarrow> nat \<Rightarrow> nat \<Rightarrow> bool" where
  "identity_unique r server plan m n \<longleftrightarrow> (\<exists>listed.
     seen m n (\<lambda>k. vw_Claims (runtimeReader r) k (serverNamespace server) [(LabelDataIdentity, plan_DataIdentity plan)] = Inr listed) \<and>
     identityFailure plan (ls_Items listed) = None)"

text \<open>The world is free and is the one that was selected.\<close>

definition world_clear :: "GameServerReconciler \<Rightarrow> GameServer \<Rightarrow> Plan \<Rightarrow> nat \<Rightarrow> nat \<Rightarrow> bool" where
  "world_clear r server plan m n \<longleftrightarrow> planned r server plan \<and> fence_open r server (plan_DataIdentity plan) m n \<and>
     (\<forall>claim\<in>set (plan_DataClaims plan). claim_usable r claim m n) \<and> identity_unique r server plan m n"

text \<open>No Pod and no ReplicaSet may still write to a claim of the server.\<close>

definition drained :: "GameServerReconciler \<Rightarrow> GameServer \<Rightarrow> WorkloadVolume list \<Rightarrow> nat \<Rightarrow> nat \<Rightarrow> bool" where
  "drained r server volumes m n \<longleftrightarrow> (\<exists>retained sets pods.
     seen m n (\<lambda>k. vw_Claims (runtimeReader r) k (serverNamespace server)
       [(LabelManagedBy, ManagerName), (LabelInstance, serverName server), (LabelDataPolicy, ''retain'')] = Inr retained) \<and> \<not> listing_incomplete retained \<and>
     seen m n (\<lambda>k. vw_ReplicaSets (runtimeReader r) k (serverNamespace server) = Inr sets) \<and> \<not> listing_incomplete sets \<and>
     seen m n (\<lambda>k. vw_Pods (runtimeReader r) k (serverNamespace server) = Inr pods) \<and> \<not> listing_incomplete pods \<and>
     (let claims = drainClaims server volumes (ls_Items retained) in
      list_all (\<lambda>s. \<not> runtimePodBlocksDrain (rset_TemplateLabels s) (rset_TemplateSpec s) (serverName server) claims) (ls_Items sets) \<and>
      list_all (\<lambda>p. \<not> runtimePodBlocksDrain (meta_Labels (rpod_Meta p)) (rpod_Spec p) (serverName server) claims) (ls_Items pods)))"

definition runtime_absent :: "GameServerReconciler \<Rightarrow> GameServer \<Rightarrow> nat \<Rightarrow> nat \<Rightarrow> bool" where
  "runtime_absent r server m n \<longleftrightarrow>
     (\<forall>kind\<in>{RuntimeDeployment, RuntimeConfigMap, RuntimeService}. seen m n (\<lambda>k. runtimeGet (runtimeReader r) k server kind = Inl NotFound)) \<and>
     drained r server [] m n"

text \<open>The evidence of an earlier cold backup is gone from a claim.\<close>

definition marker_gone :: "GameServerReconciler \<Rightarrow> GameServer \<Rightarrow> DataClaimPlan \<Rightarrow> nat \<Rightarrow> nat \<Rightarrow> bool" where
  "marker_gone r server claim m n \<longleftrightarrow>
     seen m n (\<lambda>k. case vw_Claim (runtimeReader r) k (serverNamespace server) (meta_Name (desired_meta claim)) of
         Inl e \<Rightarrow> e = NotFound \<and> dcp_RequiredUID claim = [] | Inr c \<Rightarrow> claim_marker c = []) \<or>
     (\<exists>c. seen m n (\<lambda>k. vw_Claim (runtimeReader r) k (serverNamespace server) (meta_Name (desired_meta claim)) = Inr c) \<and>
        validateExistingDataClaim (gsr_Library r) c claim = None \<and> seen m n (\<lambda>k. gsr_Respond r k (PatchClaim c (unmarkedClaim c)) = None))"

text \<open>A claim that is bound at its capacity: what a storage observation reports.\<close>

definition claim_bound :: "GameServerReconciler \<Rightarrow> DataClaimPlan \<Rightarrow> RetainedDataClaimReference \<Rightarrow> nat \<Rightarrow> nat \<Rightarrow> bool" where
  "claim_bound r claim entry m n \<longleftrightarrow> seen m n (\<lambda>k.
     case vw_Claim (runtimeReader r) k (meta_Namespace (desired_meta claim)) (meta_Name (desired_meta claim)) of
       Inl e \<Rightarrow> False
     | Inr c \<Rightarrow> validateExistingDataClaim (gsr_Library r) c claim = None \<and> pvc_Phase c = ClaimBound \<and> claim_uid c \<noteq> [] \<and> pvc_VolumeName c \<noteq> [] \<and>
         0 \<le> sl_Cmp (gsr_Library r) (quantity_at (scl_Capacity c) ResourceStorage) (storageRequest (dcp_Desired claim)) \<and>
         entry = \<lparr> rclaim_Path = claim_label (dcp_Desired claim) LabelDataPath,
           rclaim_ClaimRef = \<lparr> ref_Namespace = None, ref_Name = claim_name c, ref_UID = claim_uid c \<rparr> \<rparr>)"

definition world_bound :: "GameServerReconciler \<Rightarrow> DataClaimPlan list \<Rightarrow> RetainedDataReference \<Rightarrow> nat \<Rightarrow> nat \<Rightarrow> bool" where
  "world_bound r claims data m n \<longleftrightarrow> list_all2 (\<lambda>claim entry. claim_bound r claim entry m n) claims (rdata_Claims data)"

section \<open>What a running server needs\<close>

definition may_run :: "GameServerReconciler \<Rightarrow> GameServer \<Rightarrow> Plan \<Rightarrow> nat \<Rightarrow> nat \<Rightarrow> bool" where
  "may_run r server plan m n \<longleftrightarrow> world_clear r server plan m n \<and> gss_DesiredState (gs_Spec server) \<noteq> DesiredStateStopped \<and>
     plan_DataClaims plan \<noteq> [] \<and> (\<forall>claim\<in>set (plan_DataClaims plan). marker_gone r server claim m n)"

definition deployment_read :: "GameServerReconciler \<Rightarrow> Deployment \<Rightarrow> Deployment \<Rightarrow> nat \<Rightarrow> bool" where
  "deployment_read r workload d k \<longleftrightarrow>
     vw_Deployment (runtimeReader r) k (meta_Namespace (dep_Meta workload)) (meta_Name (dep_Meta workload)) = Inr d"

definition controlled :: "Deployment \<Rightarrow> Deployment \<Rightarrow> bool" where
  "controlled workload d \<longleftrightarrow> requireControlledBy (dep_Meta d) (hd (meta_OwnerReferences (dep_Meta workload))) = None \<and> \<not> terminating (dep_Meta d)"

text \<open>A Deployment that is known to run the planned workload: created just now, or applied and read again.\<close>

definition deployed :: "GameServerReconciler \<Rightarrow> GameServer \<Rightarrow> Deployment \<Rightarrow> Deployment \<Rightarrow> nat \<Rightarrow> nat \<Rightarrow> bool" where
  "deployed r server workload d m n \<longleftrightarrow>
     drained r server (wps_Volumes (dep_TemplateSpec workload)) m n \<and> seen m n (\<lambda>k. gsr_RespondDeployment r k workload = Inr d) \<or>
     (\<exists>existing updated. seen m n (deployment_read r workload existing) \<and> controlled workload existing \<and>
        seen m n (\<lambda>k. gsr_RespondDeployment r k (appliedDeployment workload existing) = Inr updated) \<and>
        seen m n (deployment_read r workload d) \<and> controlled workload d \<and>
        meta_UID (dep_Meta existing) \<noteq> [] \<and> meta_UID (dep_Meta d) = meta_UID (dep_Meta existing) \<and> meta_UID (dep_Meta updated) = meta_UID (dep_Meta existing) \<and>
        0 < sint (meta_Generation (dep_Meta updated)) \<and> meta_Generation (dep_Meta d) = meta_Generation (dep_Meta updated))"

text \<open>The Service as it was answered by its creation, or read after it was applied.\<close>

definition service_seen :: "GameServerReconciler \<Rightarrow> Service \<Rightarrow> Service \<Rightarrow> nat \<Rightarrow> nat \<Rightarrow> bool" where
  "service_seen r service actual m n \<longleftrightarrow> seen m n (\<lambda>k. gsr_RespondService r k service = Inr actual) \<or>
     seen m n (\<lambda>k. vw_Service (gsr_Client r) k (meta_Namespace (svc_Meta service)) (meta_Name (svc_Meta service)) = Inr actual)"

text \<open>A server that is reported ready.\<close>

definition serving :: "GameServerReconciler \<Rightarrow> GameServer \<Rightarrow> ObservedEndpoint list \<Rightarrow> RetainedDataReference option \<Rightarrow> nat \<Rightarrow> nat \<Rightarrow> bool" where
  "serving r server endpoints data m n \<longleftrightarrow> (\<exists>plan workload service d actual selection.
     may_run r server plan m n \<and> plan_Workload plan = Some workload \<and> plan_PlayerService plan = Some service \<and>
     data = Some selection \<and> world_bound r (plan_DataClaims plan) selection m n \<and>
     deployed r server workload d m n \<and> workloadAvailable d \<and> terminalWorkloadFailure d = [] \<and>
     service_seen r service actual m n \<and> endpoints = observedEndpoints (gsr_Library r) actual service \<and> endpoints \<noteq> [])"

section \<open>Permitted requests\<close>

definition ready_reported :: "conditionProgress \<Rightarrow> bool" where
  "ready_reported progress \<longleftrightarrow> (case progress ''Ready'' of None \<Rightarrow> False | Some p \<Rightarrow> pg_Status p = ConditionTrue)"

definition status_ok ::
  "GameServerReconciler \<Rightarrow> GameServer \<Rightarrow> nat \<Rightarrow> nat \<Rightarrow> GameServerPhase \<Rightarrow> conditionProgress \<Rightarrow> ObservedEndpoint list \<Rightarrow> RetainedDataReference option \<Rightarrow> bool" where
  "status_ok r server m n phase progress endpoints data \<longleftrightarrow>
     (ready_reported progress \<longleftrightarrow> phase = PhaseReady) \<and>
     (phase = PhaseReady \<longrightarrow> serving r server endpoints data m n) \<and>
     (phase \<noteq> PhaseReady \<longrightarrow> endpoints = []) \<and>
     (phase = PhaseStopped \<longrightarrow> gss_DesiredState (gs_Spec server) = DesiredStateStopped \<and> runtime_absent r server m n) \<and>
     (data \<noteq> None \<longrightarrow> (\<exists>plan. planned r server plan \<and> world_bound r (plan_DataClaims plan) (the data) m n))"

definition server_ok :: "GameServerReconciler \<Rightarrow> GameServer \<Rightarrow> nat \<Rightarrow> nat \<Rightarrow> ServerRequest \<Rightarrow> bool" where
  "server_ok r server m n q = (case q of
       StatusServer s \<Rightarrow> (\<exists>phase progress endpoints data t. s = server\<lparr> gs_Status := updatedStatus server phase progress endpoints data t \<rparr> \<and>
         status_ok r server m n phase progress endpoints data)
     | CreateClaim c \<Rightarrow> (\<exists>plan claim. world_clear r server plan m n \<and> claim \<in> set (plan_DataClaims plan) \<and> c = dcp_Desired claim \<and> dcp_RequiredUID claim = [])
     | UpdateClaim c \<Rightarrow> (\<exists>plan claim existing. world_clear r server plan m n \<and> claim \<in> set (plan_DataClaims plan) \<and>
         c = expandedClaim existing (storageRequest (dcp_Desired claim)) \<and> validateExistingDataClaim (gsr_Library r) existing claim = None \<and>
         sl_Cmp (gsr_Library r) (storageRequest existing) (storageRequest (dcp_Desired claim)) < 0 \<and> \<not> dcp_ExternallySelected claim)
     | PatchClaim old new \<Rightarrow> (\<exists>plan claim. world_clear r server plan m n \<and> claim \<in> set (plan_DataClaims plan) \<and>
         validateExistingDataClaim (gsr_Library r) old claim = None \<and> new = unmarkedClaim old)
     | CreateServerConfigMap c \<Rightarrow> (\<exists>plan. may_run r server plan m n \<and> plan_Configuration plan = Some c)
     | UpdateServerConfigMap c \<Rightarrow> (\<exists>plan desired existing. may_run r server plan m n \<and> plan_Configuration plan = Some desired \<and> c = updatedConfigMap existing desired)
     | CreateDeployment d \<Rightarrow> (\<exists>plan. may_run r server plan m n \<and> plan_Workload plan = Some d \<and>
         drained r server (wps_Volumes (dep_TemplateSpec d)) m n \<and>
         seen m n (\<lambda>k. vw_Deployment (runtimeReader r) k (meta_Namespace (dep_Meta d)) (meta_Name (dep_Meta d)) = Inl NotFound))
     | ApplyDeployment d \<Rightarrow> (\<exists>plan workload existing. may_run r server plan m n \<and> plan_Workload plan = Some workload \<and>
         d = appliedDeployment workload existing \<and> seen m n (deployment_read r workload existing) \<and> controlled workload existing)
     | CreateService s \<Rightarrow> (\<exists>plan. may_run r server plan m n \<and> plan_PlayerService plan = Some s)
     | ApplyService s \<Rightarrow> (\<exists>plan. may_run r server plan m n \<and> plan_PlayerService plan = Some s)
     | DeleteRuntime kind namespace name uid version foreground \<Rightarrow>
         namespace = serverNamespace server \<and> name = runtimeName server kind \<and> foreground = (kind = RuntimeDeployment) \<and>
         (\<exists>meta volumes. seen m n (\<lambda>k. runtimeGet (runtimeReader r) k server kind = Inr (meta, volumes)) \<and>
            requireControlledBy meta (serverOwner server) = None \<and> uid = meta_UID meta \<and> version = meta_ResourceVersion meta))"

lemmas window_defs = fence_open_def claim_usable_def identity_unique_def world_clear_def drained_def runtime_absent_def marker_gone_def
  claim_bound_def world_bound_def may_run_def deployed_def

section \<open>Observations hold in wider windows\<close>

lemma wide_windows [wide_simps]:
  "wide (fence_open r server identity)" "wide (claim_usable r claim)" "wide (identity_unique r server plan)"
  "wide (drained r server volumes)" "wide (marker_gone r server claim)" "wide (claim_bound r claim entry)"
  unfolding fence_open_def claim_usable_def identity_unique_def drained_def marker_gone_def claim_bound_def Let_def
  by (intro wide_simps)+

lemma wide_worlds [wide_simps]:
  "wide (world_clear r server plan)" "wide (runtime_absent r server)" "wide (world_bound r claims data)" "wide (deployed r server workload d)"
  unfolding world_clear_def runtime_absent_def world_bound_def deployed_def
  by (intro wide_simps)+

lemma wide_may_run [wide_simps]: "wide (may_run r server plan)"
  unfolding may_run_def by (intro wide_simps)

end
