(* ===== verification/GameServerGates.thy ===== *)
theory GameServerGates
  imports GameServerSpec
begin

text \<open>Every operation of the GameServer controller only sends permitted requests, and establishes what it reports.\<close>

section \<open>Operations that only read\<close>

lemma drain_gate:
  assumes "since m F"
  shows "guarded P F (runtimePodsRemain r server volumes) (\<lambda>x n. F n \<and> (x = Inr False \<longrightarrow> drained r server volumes m n))"
  unfolding runtimePodsRemain_def
  by (intro guarded_read [of m] guarded_intros guarded_return since_intros assms)
    (auto simp: drained_def Let_def list_ex_iff list_all_iff split: sum.splits if_splits)

lemma lock_gate:
  assumes "since m F"
  shows "guarded P F (dataOperationLocked r server identity) (\<lambda>x n. F n \<and> (x = Inr False \<longrightarrow> fence_open r server identity m n))"
  unfolding dataOperationLocked_def receiptRuntimeAllowed_def bind_assoc
  by (intro guarded_read [of m] guarded_intros guarded_return since_intros assms)
    (auto simp: fence_open_def split: sum.splits if_splits)

lemma preflight_claims_gate:
  assumes "since m F"
  shows "guarded P F (preflightClaims r claims) (\<lambda>x n. F n \<and> (x = None \<longrightarrow> (\<forall>claim\<in>set claims. claim_usable r claim m n)))"
  using assms
proof (induction claims arbitrary: F)
  case Nil
  then show ?case by simp
next
  case (Cons claim claims)
  show ?case unfolding preflightClaims.simps
  proof (intro guarded_read [of m] Cons.prems guarded_option)
    fix got
    show "guarded P (\<lambda>n. F n \<and> seen m n (\<lambda>k. vw_Claim (runtimeReader r) k (meta_Namespace (desired_meta claim)) (meta_Name (desired_meta claim)) = got))
        (State_Monad.return (Some failure)) (\<lambda>x n. F n \<and> (x = None \<longrightarrow> (\<forall>c\<in>set (claim # claims). claim_usable r c m n)))" for failure
      by simp
    assume none: "preflightClaim (gsr_Library r) claim got = None"
    let ?F = "\<lambda>n. F n \<and> claim_usable r claim m n"
    have "guarded P ?F (preflightClaims r claims) (\<lambda>x n. ?F n \<and> (x = None \<longrightarrow> (\<forall>c\<in>set claims. claim_usable r c m n)))"
      by (intro Cons.IH since_intros Cons.prems wide_simps)
    then show "guarded P (\<lambda>n. F n \<and> seen m n (\<lambda>k. vw_Claim (runtimeReader r) k (meta_Namespace (desired_meta claim)) (meta_Name (desired_meta claim)) = got))
        (preflightClaims r claims) (\<lambda>x n. F n \<and> (x = None \<longrightarrow> (\<forall>c\<in>set (claim # claims). claim_usable r c m n)))"
      by (rule guarded_conseq)
        (use none in \<open>auto simp: claim_usable_def preflightClaim_def elim!: seen_mono split: sum.splits ApiError.splits if_splits\<close>)
  qed
qed

lemma preflight_storage_gate:
  assumes "since m F"
  shows "guarded P F (preflightStorage r server plan)
    (\<lambda>x n. F n \<and> (x = None \<longrightarrow> (\<forall>claim\<in>set (plan_DataClaims plan). claim_usable r claim m n) \<and> identity_unique r server plan m n))"
  unfolding preflightStorage_def
proof (rule guarded_check [OF preflight_claims_gate [OF assms]])
  let ?F = "\<lambda>n. F n \<and> (\<forall>claim\<in>set (plan_DataClaims plan). claim_usable r claim m n)"
  have since: "since m ?F" by (intro since_wide assms wide_simps)
  show "guarded P (\<lambda>n. F n \<and> (None = None \<longrightarrow> (\<forall>claim\<in>set (plan_DataClaims plan). claim_usable r claim m n)))
     (do { listed \<leftarrow> ask (\<lambda>n. vw_Claims (runtimeReader r) n (serverNamespace server) [(LabelDataIdentity, plan_DataIdentity plan)]);
       State_Monad.return (case listed of
         Inl _ \<Rightarrow> Some (newReconcileFailure ''StorageReady'' ''StorageOperationFailed''
           ''retained data identity could not be inspected; inspect cluster API availability'' True)
       | Inr identityClaims \<Rightarrow> identityFailure plan (ls_Items identityClaims)) })
     (\<lambda>x n. F n \<and> (x = None \<longrightarrow> (\<forall>claim\<in>set (plan_DataClaims plan). claim_usable r claim m n) \<and> identity_unique r server plan m n))"
    by (rule guarded_pre [OF guarded_read [OF since]]) (auto simp: identity_unique_def split: sum.splits)
qed simp

lemma preflight_runtime_gate:
  assumes "since m F"
  shows "guarded P F (preflightRuntime r server) (\<lambda>x n. F n)"
proof -
  have body: "guarded P F (preflightResource r server kind) (\<lambda>x n. F n \<and> (x = None \<longrightarrow> True))" if "since m F" for kind F
    unfolding preflightResource_def by (intro guarded_read [of m] that) simp
  show ?thesis unfolding preflightRuntime_def
    by (rule guarded_post [OF guarded_each [OF assms, where A = "\<lambda>_ _ _. True"]]) (use body in \<open>auto simp: wide_simps\<close>)
qed

lemma replacement_gate:
  assumes "since m F"
  shows "guarded P F (runtimeReplacementDraining r server desired) (\<lambda>x n. F n)"
proof -
  have "guarded P (\<lambda>n. F n \<and> seen m n Q) (runtimePodsRemain r server volumes) (\<lambda>x n. F n)" for Q volumes
    by (rule guarded_post [OF drain_gate [OF since_seen [OF assms]]]) simp
  then show ?thesis unfolding runtimeReplacementDraining_def
    by (intro guarded_read [of m] guarded_intros assms) auto
qed

section \<open>Stopping\<close>

lemma delete_resource_gate:
  assumes "since m F"
  shows "guarded (server_ok r server m) F (deleteResource r server kind)
    (\<lambda>x n. F n \<and> (x = Inr None \<longrightarrow> seen m n (\<lambda>k. runtimeGet (runtimeReader r) k server kind = Inl NotFound)))"
  unfolding deleteResource_def request_def
  by (intro guarded_read [of m] guarded_intros guarded_send_then [of m] since_intros assms)
    (auto simp: server_ok_def split: option.splits ApiError.splits)

lemma delete_resources_gate:
  assumes "since m F"
  shows "guarded (server_ok r server m) F (deleteResources r server kinds acc)
    (\<lambda>x n. F n \<and> (\<forall>volumes. x = Inr (False, volumes) \<longrightarrow> acc = (False, volumes) \<and>
       (\<forall>kind\<in>set kinds. seen m n (\<lambda>k. runtimeGet (runtimeReader r) k server kind = Inl NotFound))))"
  using assms
proof (induction kinds arbitrary: acc F)
  case Nil
  then show ?case by simp
next
  case (Cons kind kinds)
  let ?seen = "\<lambda>kind n. seen m n (\<lambda>k. runtimeGet (runtimeReader r) k server kind = Inl NotFound)"
  show ?case unfolding deleteResources.simps
  proof (rule guarded_attempt [OF delete_resource_gate [OF Cons.prems]])
    fix found
    let ?acc = "case found of None \<Rightarrow> acc | Some volumes \<Rightarrow> (True, if kind = RuntimeDeployment then volumes else snd acc)"
    have since: "since m (\<lambda>n. F n \<and> (found = None \<longrightarrow> ?seen kind n))"
      by (cases found) (use Cons.prems since_seen in simp_all)
    show "guarded (server_ok r server m) (\<lambda>n. F n \<and> (Inr found = Inr None \<longrightarrow> ?seen kind n)) (deleteResources r server kinds ?acc)
      (\<lambda>x n. F n \<and> (\<forall>volumes. x = Inr (False, volumes) \<longrightarrow> acc = (False, volumes) \<and> (\<forall>kind\<in>set (kind # kinds). ?seen kind n)))"
      by (rule guarded_conseq [OF Cons.IH [OF since, of ?acc]]) (auto split: option.splits)
  qed simp
qed

lemma delete_runtime_gate:
  assumes "since m F"
  shows "guarded (server_ok r server m) F (deleteControlledRuntime r server) (\<lambda>x n. F n \<and> (x = Inr False \<longrightarrow> runtime_absent r server m n))"
  unfolding deleteControlledRuntime_def
proof (rule guarded_attempt [OF delete_resources_gate [OF assms]], goal_cases)
  case (1 found)
  obtain stopping volumes where found: "found = (stopping, volumes)" by (cases found)
  let ?kinds = "[RuntimeDeployment, RuntimeConfigMap, RuntimeService]"
  let ?A = "\<lambda>m n. \<not> stopping \<longrightarrow> volumes = [] \<and> (\<forall>kind\<in>set ?kinds. seen m n (\<lambda>k. runtimeGet (runtimeReader r) k server kind = Inl NotFound))"
  have since: "since m (\<lambda>n. F n \<and> ?A m n)"
    by (intro since_wide assms) (auto simp: wide_def elim: seen_wider)
  show ?case unfolding found prod.case
    by (rule guarded_pre [OF guarded_bind [OF drain_gate [OF since]]])
      (auto simp: runtime_absent_def split: sum.splits)
qed simp

section \<open>Storage\<close>

lemma reconcile_claim_gate:
  assumes "since m F" "\<And>n. F n \<Longrightarrow> world_clear r server plan m n" "claim \<in> set (plan_DataClaims plan)"
  shows "guarded (server_ok r server m) F (reconcileDataClaim r claim) (\<lambda>x n. F n)"
proof -
  have create: "server_ok r server m n (CreateClaim (dcp_Desired claim))" if "F n" "dcp_RequiredUID claim = []" for n
    using assms(2) [OF that(1)] assms(3) that(2) by (auto simp: server_ok_def)
  have expand: "server_ok r server m n (UpdateClaim (expandedClaim existing (storageRequest (dcp_Desired claim))))"
    if "F n" "validateExistingDataClaim (gsr_Library r) existing claim = None" "\<not> dcp_ExternallySelected claim"
      "\<not> 0 \<le> sl_Cmp (gsr_Library r) (storageRequest existing) (storageRequest (dcp_Desired claim))" for n existing
    using assms(2) [OF that(1)] assms(3) that(2-4) by (auto simp: server_ok_def not_le)
  show ?thesis unfolding reconcileDataClaim_def request_def
    by (intro guarded_read [of m] guarded_intros guarded_send_then [of m] since_intros assms(1)) (auto intro: create expand)
qed

lemma reconcile_claims_gate:
  assumes "since m F" "\<And>n. F n \<Longrightarrow> world_clear r server plan m n" "set claims \<subseteq> set (plan_DataClaims plan)"
  shows "guarded (server_ok r server m) F (reconcileDataClaims r claims) (\<lambda>x n. F n)"
  using assms(3)
proof (induction claims)
  case Nil
  then show ?case by simp
next
  case (Cons claim claims)
  have "guarded (server_ok r server m) F (reconcileDataClaim r claim) (\<lambda>x n. F n)"
    using reconcile_claim_gate [OF assms(1,2)] Cons.prems by simp
  then show ?case unfolding reconcileDataClaims.simps
    by (rule guarded_bind, intro guarded_intros) (use Cons in simp_all)
qed

lemma observe_claim_bound:
  assumes "observeClaim (gsr_Library r) claim actual = Inr (Inr entry)"
    and "seen m n (\<lambda>k. vw_Claim (runtimeReader r) k (meta_Namespace (desired_meta claim)) (meta_Name (desired_meta claim)) = Inr actual)"
  shows "claim_bound r claim entry m n"
  unfolding claim_bound_def
  by (rule seen_mono [OF assms(2)]) (use assms(1) in \<open>auto simp: observeClaim_def split: if_splits\<close>)

lemma observe_claims_gate:
  assumes "since m F"
  shows "guarded P F (observeClaims r claims selection) (\<lambda>x n. F n \<and> (\<forall>storage. x = Inr storage \<longrightarrow>
     (so_ready storage \<longleftrightarrow> so_data storage \<noteq> None) \<and>
     (\<forall>data. so_data storage = Some data \<longrightarrow> (\<exists>entries. rdata_Claims data = rdata_Claims selection @ entries \<and>
        list_all2 (\<lambda>claim entry. claim_bound r claim entry m n) claims entries))))"
  using assms
proof (induction claims arbitrary: selection F)
  case Nil
  then show ?case by simp
next
  case (Cons claim claims)
  have waiting: "\<not> so_ready storage \<and> so_data storage = None" if "observeClaim (gsr_Library r) claim actual = Inr (Inl storage)" for actual storage
    using that by (auto simp: observeClaim_def waitingStorage_def split: if_splits)
  show ?case unfolding observeClaims.simps
  proof (intro guarded_read [of m] guarded_intros Cons.prems, goal_cases)
    case (4 got actual next_entry entry)
    let ?s = "\<lparr> rdata_Identity = (if rdata_Identity selection = [] then claim_label (dcp_Desired claim) LabelDataIdentity else rdata_Identity selection),
      rdata_Claims = rdata_Claims selection @ [entry] \<rparr>"
    have "since m (\<lambda>n. F n \<and> claim_bound r claim entry m n)" by (intro since_wide Cons.prems wide_simps)
    then show ?case
      by (rule guarded_conseq [OF Cons.IH [of _ ?s]]) (use observe_claim_bound [of r claim actual entry m] 4 in \<open>auto simp: list_all2_Cons1\<close>)
  qed (auto dest: waiting)
qed

lemma observe_storage_gate:
  assumes "since m F"
  shows "guarded P F (observeStorage r claims) (\<lambda>x n. F n \<and> (\<forall>storage. x = Inr storage \<longrightarrow>
     (so_ready storage \<longleftrightarrow> so_data storage \<noteq> None) \<and> (\<forall>data. so_data storage = Some data \<longrightarrow> world_bound r claims data m n)))"
  unfolding observeStorage_def by (rule guarded_post [OF observe_claims_gate [OF assms]]) (auto simp: world_bound_def)

lemma marker_gate:
  assumes "since m F" "\<And>n. F n \<Longrightarrow> world_clear r server plan m n" "claim \<in> set (plan_DataClaims plan)"
  shows "guarded (server_ok r server m) F (clearColdBackupMarker r server claim) (\<lambda>x n. F n \<and> (x = None \<longrightarrow> marker_gone r server claim m n))"
proof -
  have patch: "server_ok r server m n (PatchClaim c (unmarkedClaim c))" if "F n" "validateExistingDataClaim (gsr_Library r) c claim = None" for n c
    using assms(2) [OF that(1)] assms(3) that(2) by (auto simp: server_ok_def)
  show ?thesis unfolding clearColdBackupMarker_def request_def
    by (intro guarded_read [of m] guarded_intros guarded_send_then [of m] since_intros assms(1))
      (auto simp: marker_gone_def intro: patch elim: seen_mono)
qed

lemma markers_gate:
  assumes "since m F" "\<And>n. F n \<Longrightarrow> world_clear r server plan m n" "set claims \<subseteq> set (plan_DataClaims plan)"
  shows "guarded (server_ok r server m) F (clearColdBackupMarkers r server claims)
    (\<lambda>x n. F n \<and> (x = None \<longrightarrow> claims \<noteq> [] \<and> (\<forall>claim\<in>set claims. marker_gone r server claim m n)))"
proof (cases "claims = []")
  case True
  then show ?thesis by (simp add: clearColdBackupMarkers_def)
next
  case False
  have "guarded (server_ok r server m) F (each (clearColdBackupMarker r server) claims)
    (\<lambda>x n. F n \<and> (x = None \<longrightarrow> (\<forall>claim\<in>set claims. marker_gone r server claim m n)))"
    by (rule guarded_each [OF assms(1) wide_windows(5)]) (rule marker_gate, use assms(2,3) in auto)
  then show ?thesis using False by (auto simp: clearColdBackupMarkers_def elim: guarded_post)
qed

section \<open>Status\<close>

lemma status_gate:
  assumes "since m F" "\<And>n. F n \<Longrightarrow> status_ok r server m n phase progress endpoints data"
  shows "guarded (server_ok r server m) F (updateStatusWithData r server phase progress endpoints data) (\<lambda>x n. F n)"
proof -
  have written: "server_ok r server m n (StatusServer (server\<lparr> gs_Status := updatedStatus server phase progress endpoints data t \<rparr>))" if "F n" for n t
    using assms(2) [OF that] unfolding server_ok_def ServerRequest.case by blast
  show ?thesis unfolding updateStatusWithData_def request_def
    by (intro guarded_read [of m] guarded_intros guarded_send_then [of m] since_intros assms(1)) (auto intro: written)
qed

lemma ready_reported_set [simp]:
  "ready_reported (progress_set kind state reason message progress) \<longleftrightarrow>
     (if kind = ''Ready'' then state = ConditionTrue else ready_reported progress)"
  by (simp add: ready_reported_def progress_set_def)

lemma ready_reported_stopping [simp]: "\<not> ready_reported (setRuntimeStopping progress)"
  by (simp add: setRuntimeStopping_def)

lemma ready_reported_new [simp]: "\<not> ready_reported newConditionProgress"
  by (simp add: ready_reported_def newConditionProgress_def)

lemma unfinished_ok:
  assumes "phase \<noteq> PhaseReady" "phase \<noteq> PhaseStopped" "\<not> ready_reported progress"
  shows "status_ok r server m n phase progress [] None"
  using assms by (simp add: status_ok_def)

lemma report_gate:
  assumes "since m F"
  shows "guarded (server_ok r server m) F (report r server progress failure) (\<lambda>x n. True)"
proof -
  have "guarded (server_ok r server m) F (updateStatusWithData r server PhaseFailed (failureProgress failure progress) [] None) (\<lambda>x n. F n)"
    by (intro status_gate assms unfinished_ok) (simp_all add: failureProgress_def)
  then show ?thesis unfolding report_def reportFailure_def updateStatus_def bind_assoc by (rule guarded_bind) simp
qed

lemma publish_gate:
  assumes "since m F" "\<And>n. F n \<Longrightarrow> status_ok r server m n phase progress endpoints data"
  shows "guarded (server_ok r server m) F (publish r server phase progress endpoints data) (\<lambda>x n. True)"
  unfolding publish_def by (rule guarded_bind [OF status_gate [OF assms]]) simp_all

lemma publish_unfinished:
  assumes "since m F" "phase \<noteq> PhaseReady" "phase \<noteq> PhaseStopped" "\<not> ready_reported progress"
  shows "guarded (server_ok r server m) F (publish r server phase progress [] None) (\<lambda>x n. True)"
  by (intro publish_gate unfinished_ok assms)

lemma publish_stopping_gate:
  assumes "since m F"
  shows "guarded (server_ok r server m) F (publishStopping r server progress) (\<lambda>x n. True)"
  unfolding publishStopping_def updateStatus_def by (rule guarded_bind [OF status_gate [OF assms unfinished_ok]]) simp_all

section \<open>Runtime\<close>

lemma configuration_gate:
  assumes "since m F" "\<And>n. F n \<Longrightarrow> may_run r server plan m n" "plan_Configuration plan = Some desired"
  shows "guarded (server_ok r server m) F (reconcileConfigMap r desired) (\<lambda>x n. F n)"
proof -
  have ok: "server_ok r server m n (CreateServerConfigMap desired)" "server_ok r server m n (UpdateServerConfigMap (updatedConfigMap existing desired))" if "F n" for n existing
    using assms(2) [OF that] assms(3) by (auto simp: server_ok_def)
  show ?thesis unfolding reconcileConfigMap_def request_def
    by (intro guarded_read [of m] guarded_intros guarded_send_then [of m] since_intros assms(1)) (auto intro: ok)
qed

lemma service_gate:
  assumes "since m F" "\<And>n. F n \<Longrightarrow> may_run r server plan m n" "plan_PlayerService plan = Some desired"
  shows "guarded (server_ok r server m) F (reconcileService r desired)
    (\<lambda>x n. F n \<and> (\<forall>actual. x = Inr actual \<longrightarrow> service_seen r desired actual m n))"
proof -
  have ok: "server_ok r server m n (CreateService desired)" "server_ok r server m n (ApplyService desired)" if "F n" for n
    using assms(2) [OF that] assms(3) by (auto simp: server_ok_def)
  show ?thesis unfolding reconcileService_def
    by (intro guarded_read [of m] guarded_intros guarded_send_then [of m] since_intros assms(1))
      (auto intro: ok simp: service_seen_def split: sum.splits)
qed

lemma create_workload_gate:
  assumes "since m F" "\<And>n. F n \<Longrightarrow> may_run r server plan m n" "plan_Workload plan = Some desired"
    and "\<And>n. F n \<Longrightarrow> seen m n (\<lambda>k. vw_Deployment (runtimeReader r) k (meta_Namespace (dep_Meta desired)) (meta_Name (dep_Meta desired)) = Inl NotFound)"
  shows "guarded (server_ok r server m) F (createWorkload r server desired) (\<lambda>x n. F n \<and> (\<forall>d. x = Inr d \<longrightarrow> deployed r server desired d m n))"
proof -
  let ?v = "wps_Volumes (dep_TemplateSpec desired)"
  have ok: "server_ok r server m n (CreateDeployment desired)" if "F n" "drained r server ?v m n" for n
    using assms(2,4) [OF that(1)] assms(3) that(2) by (auto simp: server_ok_def)
  have create: "guarded (server_ok r server m) (\<lambda>n. F n \<and> drained r server ?v m n)
      (do { created \<leftarrow> send_to (\<lambda>n. gsr_RespondDeployment r n desired) (CreateDeployment desired);
        State_Monad.return (case created of
          Inl e \<Rightarrow> Inl (DeploymentFailed (''create game workload '' @ key_text (dep_Meta desired) @ '': '' @ api_message e)) | Inr d \<Rightarrow> Inr d) })
      (\<lambda>x n. F n \<and> (\<forall>d. x = Inr d \<longrightarrow> deployed r server desired d m n))"
    by (intro guarded_send_then [of m] since_wide assms(1) wide_simps ok) (auto simp: deployed_def split: sum.splits)
  show ?thesis unfolding createWorkload_def
  proof (rule guarded_bind [OF drain_gate [OF assms(1)]], intro guarded_intros)
    fix remain v
    assume "remain = Inr v" "\<not> v"
    then show "guarded (server_ok r server m) (\<lambda>n. F n \<and> (remain = Inr False \<longrightarrow> drained r server ?v m n))
      (do { created \<leftarrow> send_to (\<lambda>n. gsr_RespondDeployment r n desired) (CreateDeployment desired);
        State_Monad.return (case created of
          Inl e \<Rightarrow> Inl (DeploymentFailed (''create game workload '' @ key_text (dep_Meta desired) @ '': '' @ api_message e)) | Inr d \<Rightarrow> Inr d) })
      (\<lambda>x n. F n \<and> (\<forall>d. x = Inr d \<longrightarrow> deployed r server desired d m n))"
      by (intro guarded_pre [OF create]) auto
  qed simp_all
qed

lemma applied_deployed:
  assumes "appliedError desired existing updated actual = None" "seen m n (deployment_read r desired existing)" "controlled desired existing"
    and "seen m n (\<lambda>k. gsr_RespondDeployment r k (appliedDeployment desired existing) = Inr updated)" "seen m n (deployment_read r desired actual)"
  shows "deployed r server desired actual m n"
  using assms by (auto simp: deployed_def appliedError_def Let_def controlled_def guard_simps not_le)

lemma apply_workload_gate:
  assumes "since m F" "\<And>n. F n \<Longrightarrow> may_run r server plan m n" "plan_Workload plan = Some desired"
    and "\<And>n. F n \<Longrightarrow> seen m n (deployment_read r desired existing)" "controlled desired existing"
  shows "guarded (server_ok r server m) F (applyWorkload r desired existing) (\<lambda>x n. F n \<and> (\<forall>d. x = Inr d \<longrightarrow> deployed r server desired d m n))"
proof -
  have ok: "server_ok r server m n (ApplyDeployment (appliedDeployment desired existing))" if "F n" for n
    using assms(2,4) [OF that] assms(3,5) by (auto simp: server_ok_def)
  have dep: "deployed r server desired actual m n"
    if "F n" "appliedError desired existing updated actual = None" "seen m n (\<lambda>k. gsr_RespondDeployment r k (appliedDeployment desired existing) = Inr updated)"
      "seen m n (\<lambda>k. vw_Deployment (runtimeReader r) k (meta_Namespace (dep_Meta desired)) (meta_Name (dep_Meta desired)) = Inr actual)" for n updated actual
    using applied_deployed [OF that(2) assms(4) [OF that(1)] assms(5) that(3), of server] that(4) by (simp add: deployment_read_def [abs_def])
  show ?thesis unfolding applyWorkload_def
    by (intro guarded_read [of m] guarded_intros guarded_send_then [of m] since_intros assms(1))
      (auto intro: ok dep split: sum.splits option.splits)
qed

lemma deployment_gate:
  assumes "since m F" "\<And>n. F n \<Longrightarrow> may_run r server plan m n" "plan_Workload plan = Some desired"
  shows "guarded (server_ok r server m) F (reconcileDeployment r server desired) (\<lambda>x n. F n \<and> (\<forall>d. x = Inr d \<longrightarrow> deployed r server desired d m n))"
  unfolding reconcileDeployment_def
proof (intro guarded_read [of m] guarded_intros assms(1), goal_cases)
  case (1 got e)
  show ?case by (rule guarded_post [OF create_workload_gate [OF since_seen [OF assms(1)] _ assms(3)]]) (use assms(2) 1 in auto)
next
  case (4 got existing)
  show ?case
    by (rule guarded_post [OF apply_workload_gate [OF since_seen [OF assms(1)] _ assms(3)]])
      (use assms(2) 4 in \<open>auto simp: deployment_read_def [abs_def] controlled_def\<close>)
qed simp_all

section \<open>The whole reconciliation\<close>

lemma summarize_gate:
  assumes "since m F" "\<not> ready_reported progress"
    and "\<And>n. so_ready storage \<Longrightarrow> available \<Longrightarrow> endpoints \<noteq> [] \<Longrightarrow> F n \<Longrightarrow> serving r server endpoints (so_data storage) m n \<and>
      (\<exists>plan. planned r server plan \<and> (so_data storage \<noteq> None \<longrightarrow> world_bound r (plan_DataClaims plan) (the (so_data storage)) m n))"
  shows "guarded (server_ok r server m) F (summarize r server progress storage available endpoints) (\<lambda>x n. True)"
proof (cases "so_ready storage \<and> available \<and> endpoints \<noteq> []")
  case True
  then show ?thesis unfolding summarize_def Let_def
    by (simp, intro publish_gate assms(1)) (use assms(3) in \<open>auto simp: status_ok_def\<close>)
next
  case False
  then show ?thesis unfolding summarize_def Let_def
    by (simp add: readySummary_def) (auto intro!: publish_unfinished assms(1))
qed

lemma serving_planned:
  assumes "serving r server endpoints data m n"
  shows "\<exists>plan. planned r server plan \<and> (data \<noteq> None \<longrightarrow> world_bound r (plan_DataClaims plan) (the data) m n)"
  using assms unfolding serving_def may_run_def world_clear_def by auto

lemma network_gate:
  assumes "since m F" "\<And>n. F n \<Longrightarrow> may_run r server plan m n" "plan_Workload plan = Some workload" "plan_PlayerService plan = Some service"
    and "\<not> ready_reported progress" "so_ready storage \<longleftrightarrow> so_data storage \<noteq> None"
    and "\<And>n data. F n \<Longrightarrow> so_data storage = Some data \<Longrightarrow> world_bound r (plan_DataClaims plan) data m n"
    and "\<And>n. F n \<Longrightarrow> deployed r server workload d m n"
  shows "guarded (server_ok r server m) F (reconcileNetwork r server service progress storage d) (\<lambda>x n. True)"
  unfolding reconcileNetwork_def Let_def
proof (intro guarded_if guarded_bind [OF service_gate [OF assms(1,2,4)]] guarded_sum report_gate assms(1) since_conj, goal_cases)
  case (2 service' e)
  then show ?case using assms(1) by (simp add: since_conj)
next
  case (3 service' actual)
  let ?F = "\<lambda>n. F n \<and> service_seen r service actual m n"
  have since: "since m ?F" unfolding service_seen_def by (intro since_wide assms(1) wide_simps)
  have serving: "serving r server (observedEndpoints (gsr_Library r) actual service) (so_data storage) m n"
    if "so_ready storage" "workloadAvailable d" "observedEndpoints (gsr_Library r) actual service \<noteq> []" "?F n" for n
    unfolding serving_def using that 3 assms(2-8) by fastforce
  show ?case
    by (rule guarded_pre [OF summarize_gate [OF since]]) (use assms(5) serving serving_planned [OF serving] 3 in auto)
qed

lemma runtime_gate:
  assumes "since m F" "\<And>n. F n \<Longrightarrow> may_run r server plan m n"
    and plan: "plan_Configuration plan = Some configuration" "plan_Workload plan = Some workload" "plan_PlayerService plan = Some service"
    and "\<not> ready_reported progress" "so_ready storage \<longleftrightarrow> so_data storage \<noteq> None"
    and "\<And>n data. F n \<Longrightarrow> so_data storage = Some data \<Longrightarrow> world_bound r (plan_DataClaims plan) data m n"
  shows "guarded (server_ok r server m) F (reconcileRuntime r server configuration workload service progress storage) (\<lambda>x n. True)"
  unfolding reconcileRuntime_def Let_def
proof (rule guarded_bind [OF configuration_gate [OF assms(1,2) plan(1)]], assumption, rule guarded_option)
  let ?progress = "progress_set ''ConfigurationReady'' ConditionTrue ''ConfigurationReady'' ''the current rendered game configuration is applied'' progress"
  have since: "since m (\<lambda>n. F n \<and> deployed r server workload d m n)" for d
    by (intro since_wide assms(1) wide_simps)
  have network: "guarded (server_ok r server m) (\<lambda>n. F n \<and> (\<forall>d'. x = Inr d' \<longrightarrow> deployed r server workload d' m n))
      (reconcileNetwork r server service ?progress storage d) (\<lambda>x n. True)" if "x = Inr d" for x :: "deploymentError + Deployment" and d
    by (rule guarded_pre [OF network_gate [OF since _ plan(2,3)]]) (use assms that in auto)
  have failing: "since m (\<lambda>n. F n \<and> (\<forall>d. x = Inr d \<longrightarrow> deployed r server workload d m n))" if "x = Inl e" for x and e :: deploymentError
    using assms(1) that by simp
  show "guarded (server_ok r server m) F (State_Monad.bind (reconcileDeployment r server workload)
      (\<lambda>x. case x of Inl errRuntimeDraining \<Rightarrow> publishStopping r server ?progress
        | Inl (DeploymentFailed m') \<Rightarrow> report r server ?progress (newReconcileFailure ''WorkloadReady'' ''WorkloadOperationFailed''
            (''Deployment '' @ key_text (dep_Meta workload) @ '' could not be reconciled; inspect workload events and image availability'') True)
        | Inr deployment \<Rightarrow> reconcileNetwork r server service ?progress storage deployment)) (\<lambda>x n. True)"
  proof (rule guarded_bind [OF deployment_gate [OF assms(1,2) plan(2)]], assumption, rule guarded_sum)
    fix x :: "deploymentError + Deployment" and e
    assume "x = Inl e"
    from failing [OF this]
    show "guarded (server_ok r server m) (\<lambda>n. F n \<and> (\<forall>d. x = Inr d \<longrightarrow> deployed r server workload d m n))
      (case e of errRuntimeDraining \<Rightarrow> publishStopping r server ?progress
        | DeploymentFailed m' \<Rightarrow> report r server ?progress (newReconcileFailure ''WorkloadReady'' ''WorkloadOperationFailed''
            (''Deployment '' @ key_text (dep_Meta workload) @ '' could not be reconciled; inspect workload events and image availability'') True)) (\<lambda>x n. True)"
      by (cases e) (simp_all only: deploymentError.case publish_stopping_gate report_gate)
  qed (rule network)
qed (rule report_gate [OF assms(1)])

lemma start_gate:
  assumes "since m F" "\<And>n. F n \<Longrightarrow> world_clear r server plan m n" "gss_DesiredState (gs_Spec server) \<noteq> DesiredStateStopped"
    and plan: "plan_Configuration plan = Some configuration" "plan_Workload plan = Some workload" "plan_PlayerService plan = Some service"
    and "\<not> ready_reported progress" "so_ready storage \<longleftrightarrow> so_data storage \<noteq> None"
    and "\<And>n data. F n \<Longrightarrow> so_data storage = Some data \<Longrightarrow> world_bound r (plan_DataClaims plan) data m n"
  shows "guarded (server_ok r server m) F (startRuntime r server (plan_DataClaims plan) configuration workload service progress storage) (\<lambda>x n. True)"
  unfolding startRuntime_def
proof (intro guarded_bind [OF replacement_gate [OF assms(1)]] guarded_intros report_gate publish_stopping_gate assms(1)
    guarded_bind [OF markers_gate [OF assms(1,2) order_refl]], goal_cases)
  case (2 draining proceed cleared)
  let ?F = "\<lambda>n. F n \<and> plan_DataClaims plan \<noteq> [] \<and> (\<forall>claim\<in>set (plan_DataClaims plan). marker_gone r server claim m n)"
  have since: "since m ?F" by (intro since_wide assms(1) wide_simps)
  show ?case
    by (rule guarded_pre [OF runtime_gate [OF since _ plan]]) (use assms 2 in \<open>auto simp: may_run_def\<close>)
next
  case (3 draining proceed cleared failure)
  then show ?case using assms(1) by simp
qed simp_all

lemma storage_gate:
  assumes "since m F" "\<And>n. F n \<Longrightarrow> world_clear r server plan m n" "\<not> ready_reported progress"
    and stopped: "\<And>n. gss_DesiredState (gs_Spec server) = DesiredStateStopped \<Longrightarrow> F n \<Longrightarrow> runtime_absent r server m n"
  shows "guarded (server_ok r server m) F (reconcileStorage r server plan progress) (\<lambda>x n. True)"
  unfolding reconcileStorage_def
proof (rule guarded_bind [OF reconcile_claims_gate [OF assms(1,2) order_refl]], assumption, rule guarded_option,
    rule guarded_bind [OF observe_storage_gate [OF assms(1)]], rule guarded_sum, goal_cases)
  case (2 converged observed storage)
  let ?A = "\<lambda>m n. \<forall>data. so_data storage = Some data \<longrightarrow> world_bound r (plan_DataClaims plan) data m n"
  let ?F = "\<lambda>n. (F n \<and> (so_ready storage \<longleftrightarrow> so_data storage \<noteq> None)) \<and> ?A m n"
  have "wide ?A" using wide_worlds(3) unfolding wide_def by blast
  then have since: "since m ?F" by (intro since_wide since_conj assms(1))
  have planned: "planned r server plan" if "?F n" for n using assms(2) [of n] that by (simp add: world_clear_def)
  have "guarded (server_ok r server m) ?F
    (do { let progress = progress_set ''StorageReady'' (so_status storage) (so_reason storage) (so_message storage) progress;
       if gss_DesiredState (gs_Spec server) = DesiredStateStopped then
         publish r server PhaseStopped
           (progress_set ''Ready'' ConditionFalse ''RuntimeStopped'' ''the game server is stopped; persistent data is retained'' progress) [] (so_data storage)
       else (case (plan_Configuration plan, plan_Workload plan, plan_PlayerService plan) of
           (Some configuration, Some workload, Some service) \<Rightarrow>
             startRuntime r server (plan_DataClaims plan) configuration workload service progress storage
         | _ \<Rightarrow> State_Monad.return (finished (Some ''nil pointer dereference''))) }) (\<lambda>x n. True)"
  proof (intro guarded_intros, goal_cases)
    case 1
    have "status_ok r server m n PhaseStopped
        (progress_set ''Ready'' ConditionFalse ''RuntimeStopped'' ''the game server is stopped; persistent data is retained''
          (progress_set ''StorageReady'' (so_status storage) (so_reason storage) (so_message storage) progress)) [] (so_data storage)" if "?F n" for n
      using that stopped [OF 1] planned [OF that] 1 by (auto simp: status_ok_def)
    then show ?case by (rule publish_gate [OF since])
  next
    case prems: 5
    then show ?case
    proof (cases "so_ready storage \<longleftrightarrow> so_data storage \<noteq> None")
      case True
      then show ?thesis by (intro start_gate [OF since]) (use assms(2,3) prems in auto)
    next
      case False
      then show ?thesis unfolding guarded_def by blast
    qed
  qed simp_all
  then show ?case by (rule guarded_pre) (use 2 in auto)
qed (use assms(1) in \<open>auto intro!: report_gate\<close>)

lemma unlocked_gate:
  assumes "since m F" "planned r server plan" "\<And>n. F n \<Longrightarrow> fence_open r server (plan_DataIdentity plan) m n" "\<not> ready_reported progress"
    and stopped: "\<And>n. gss_DesiredState (gs_Spec server) = DesiredStateStopped \<Longrightarrow> F n \<Longrightarrow> runtime_absent r server m n"
  shows "guarded (server_ok r server m) F (reconcileUnlocked r server plan progress) (\<lambda>x n. True)"
  unfolding reconcileUnlocked_def
proof (rule guarded_bind [OF preflight_storage_gate [OF assms(1)]], rule guarded_option, goal_cases)
  case (1 failure)
  let ?F = "\<lambda>n. F n \<and> (\<forall>claim\<in>set (plan_DataClaims plan). claim_usable r claim m n) \<and> identity_unique r server plan m n"
  have since: "since m ?F" by (intro since_wide assms(1) wide_simps)
  have preflight: "guarded (server_ok r server m) ?F
      (if gss_DesiredState (gs_Spec server) = DesiredStateRunning then preflightRuntime r server else State_Monad.return None) (\<lambda>x n. ?F n)"
    by (simp add: preflight_runtime_gate [OF since])
  have storage: "guarded (server_ok r server m) ?F (reconcileStorage r server plan progress) (\<lambda>x n. True)"
    by (rule storage_gate [OF since]) (use assms in \<open>auto simp: world_clear_def\<close>)
  show ?case
    by (rule guarded_pre [OF guarded_bind [OF preflight guarded_option [OF storage report_gate [OF since]]]]) (use 1 in auto)
qed (use assms(1) in \<open>auto intro!: report_gate\<close>)

lemma ready_reported_locked [simp]: "\<not> ready_reported (lockedProgress progress)"
  by (simp add: lockedProgress_def)

lemma ready_reported_stopped [simp]: "ready_reported (setRuntimeStopped progress) \<longleftrightarrow> ready_reported progress"
  by (simp add: setRuntimeStopped_def)

lemma ready_reported_terminating [simp]: "\<not> ready_reported terminatingProgress"
  by (simp add: terminatingProgress_def)

lemma ready_reported_stoppingProgress [simp]: "\<not> ready_reported (stoppingProgress progress)"
  by (simp add: stoppingProgress_def)

lemma publish_locked_gate:
  assumes "since m F"
    and stopped: "\<And>n. gss_DesiredState (gs_Spec server) = DesiredStateStopped \<Longrightarrow> F n \<Longrightarrow> runtime_absent r server m n"
  shows "guarded (server_ok r server m) F (publishLocked r server progress stopping) (\<lambda>x n. True)"
  unfolding publishLocked_def updateStatus_def Let_def
  by (rule guarded_bind [OF status_gate [OF assms(1)]]) (use stopped in \<open>auto simp: status_ok_def split: if_splits\<close>)

lemma locked_gate:
  assumes "since m F"
    and stopped: "\<And>n. gss_DesiredState (gs_Spec server) = DesiredStateStopped \<Longrightarrow> F n \<Longrightarrow> runtime_absent r server m n"
  shows "guarded (server_ok r server m) F (reconcileLocked r server progress) (\<lambda>x n. True)"
proof -
  have "guarded (server_ok r server m) F (deleteControlledRuntime r server) (\<lambda>x n. F n)"
    by (rule guarded_post [OF delete_runtime_gate [OF assms(1)]]) simp
  then show ?thesis unfolding reconcileLocked_def
    by (intro guarded_intros guarded_bind [OF preflight_runtime_gate [OF assms(1)]] report_gate assms publish_locked_gate)
      (rule guarded_bind, assumption, intro guarded_intros report_gate publish_locked_gate assms)
qed

lemma planned_gate:
  assumes "since m F" "planned r server plan" "\<not> ready_reported progress"
    and stopped: "\<And>n. gss_DesiredState (gs_Spec server) = DesiredStateStopped \<Longrightarrow> F n \<Longrightarrow> runtime_absent r server m n"
  shows "guarded (server_ok r server m) F (reconcilePlanned r server plan progress) (\<lambda>x n. True)"
  unfolding reconcilePlanned_def
proof (rule guarded_bind [OF lock_gate [OF assms(1)]], intro guarded_intros, goal_cases)
  case (3 x locked)
  have "since m (\<lambda>n. F n \<and> fence_open r server (plan_DataIdentity plan) m n)" by (intro since_wide assms(1) wide_simps)
  then have "guarded (server_ok r server m) (\<lambda>n. F n \<and> fence_open r server (plan_DataIdentity plan) m n) (reconcileUnlocked r server plan progress) (\<lambda>x n. True)"
    by (rule unlocked_gate) (use assms in auto)
  then show ?case by (rule guarded_pre) (use 3 in auto)
qed (use assms(1) stopped in \<open>auto intro!: report_gate locked_gate\<close>)

lemma intent_gate:
  assumes "since m F" "\<not> ready_reported progress"
    and stopped: "\<And>n. gss_DesiredState (gs_Spec server) = DesiredStateStopped \<Longrightarrow> F n \<Longrightarrow> runtime_absent r server m n"
  shows "guarded (server_ok r server m) F (reconcileIntent r server progress) (\<lambda>x n. True)"
  unfolding reconcileIntent_def
  by (intro guarded_intros report_gate planned_gate assms) (use assms in \<open>auto simp: planned_def\<close>)

lemma stop_gate:
  assumes "since m F" "\<not> ready_reported progress"
  shows "guarded (server_ok r server m) F (reconcileStop r server progress) (\<lambda>x n. True)"
  unfolding reconcileStop_def
proof (intro guarded_bind [OF preflight_runtime_gate [OF assms(1)]] guarded_option report_gate assms(1),
    rule guarded_bind [OF delete_runtime_gate [OF assms(1)]], intro guarded_intros, goal_cases)
  case (2 x removed stopping)
  have "guarded (server_ok r server m) F (updateStatusWithData r server PhaseStopping (stoppingProgress progress) [] None) (\<lambda>x n. F n)"
    by (intro status_gate assms unfinished_ok) simp_all
  then show ?case unfolding updateStatus_def by (rule guarded_pre [OF guarded_bind]) (auto)
next
  case (3 x removed stopping)
  have "since m (\<lambda>n. F n \<and> runtime_absent r server m n)" by (intro since_wide assms(1) wide_simps)
  then have "guarded (server_ok r server m) (\<lambda>n. F n \<and> runtime_absent r server m n) (reconcileIntent r server (setRuntimeStopped progress)) (\<lambda>x n. True)"
    by (rule intent_gate) (use assms in auto)
  then show ?case by (rule guarded_pre) (use 3 in auto)
qed (use assms(1) in \<open>auto intro!: report_gate\<close>)

lemma server_gate: "guarded (server_ok r server m) (\<lambda>n. m \<le> n) (reconcileServer r server) (\<lambda>x n. True)"
  unfolding reconcileServer_def
  by (intro guarded_intros publish_unfinished stop_gate intent_gate since_start) simp_all

text \<open>Every request of a reconciliation is permitted at the moment it is sent.\<close>

lemma reconcile_permitted:
  assumes "run_state (ReconcileGameServer r namespace name) \<lparr> ses_calls = 0, ses_log = [] \<rparr> = (x, t)" "(n, q) \<in> set (ses_log t)"
  shows "\<exists>server. vw_GameServer (gsr_Client r) 0 namespace name = Inr server \<and> server_ok r server 1 n q"
proof (cases "vw_GameServer (gsr_Client r) 0 namespace name")
  case (Inl e)
  have "guarded (\<lambda>n q. False) (\<lambda>n. n = 0) (ReconcileGameServer r namespace name) (\<lambda>x n. True)"
    unfolding ReconcileGameServer_def
    by (rule guarded_bind [where G = "\<lambda>got n. got = Inl e"], rule guarded_ask)
      (simp_all add: Inl, intro guarded_intros, simp_all, simp add: guarded_def)
  then show ?thesis using guarded_log [OF _ _ assms] by auto
next
  case (Inr server)
  let ?P = "server_ok r server 1"
  have continue: "guarded (server_ok r server (Suc 0)) (\<lambda>n. found = server \<and> Suc 0 \<le> n) (reconcileServer r found) (\<lambda>x n. True)" for found
    by (cases "found = server") (use server_gate [of r server "Suc 0"] in \<open>auto simp: guarded_def\<close>)
  have "guarded ?P (\<lambda>n. n = 0) (ReconcileGameServer r namespace name) (\<lambda>x n. True)"
    unfolding ReconcileGameServer_def
    by (rule guarded_bind [where G = "\<lambda>got n. got = Inr server \<and> 1 \<le> n"], rule guarded_ask)
      (auto simp: Inr intro!: guarded_intros continue)
  then show ?thesis using guarded_log [OF _ _ assms] Inr by auto
qed

end
