(* ===== verification/GameDestroyReads.thy ===== *)
theory GameDestroyReads
  imports GameDestroyController
begin

text \<open>
  What the read-only parts of the destroy controller establish; \<open>cold\<close> collects what a successful
  \<^verbatim>\<open>resolve\<close> saw.
\<close>

section \<open>What resolve observes\<close>

definition server_cold :: "GameDestroyReconciler \<Rightarrow> GameDestroy \<Rightarrow> GameBackup option \<Rightarrow> nat \<Rightarrow> bool" where
  "server_cold r d backup k \<longleftrightarrow>
     (case cl_GameServer r k (namespaceOf d) (ref_Name (dt_GameServer (targetOf d))) of
        Inl NotFound \<Rightarrow> backup \<noteq> None
      | Inl (ApiFailure _) \<Rightarrow> False
      | Inr server \<Rightarrow> \<not> serverNotStopped d server \<and> \<not> serverChanged backup server)"

definition unselected :: "GameDestroyReconciler \<Rightarrow> GameDestroy \<Rightarrow> nat \<Rightarrow> bool" where
  "unselected r d k \<longleftrightarrow>
     (case cl_GameServers r k (namespaceOf d) of Inl _ \<Rightarrow> False | Inr servers \<Rightarrow> \<not> list_ex (selectsTarget d) servers)"

definition unmounted :: "GameDestroyReconciler \<Rightarrow> GameDestroy \<Rightarrow> nat \<Rightarrow> bool" where
  "unmounted r d k \<longleftrightarrow> (case cl_Pods r k (namespaceOf d) of Inl _ \<Rightarrow> False | Inr pods \<Rightarrow> \<not> list_ex (mountsTarget d) pods)"

definition detached :: "GameDestroyReconciler \<Rightarrow> string list \<Rightarrow> nat \<Rightarrow> bool" where
  "detached r names k \<longleftrightarrow> (case cl_Attachments r k of Inl _ \<Rightarrow> False | Inr as \<Rightarrow> \<not> list_ex (attachedTo names) as)"

definition backup_proves :: "GameDestroyReconciler \<Rightarrow> GameDestroy \<Rightarrow> Definition \<Rightarrow> GameBackup \<Rightarrow> bool" where
  "backup_proves r d definition b \<longleftrightarrow>
     ds_BackupRef (gd_Spec d) \<noteq> None \<and> ds_RepositorySecretRef (gd_Spec d) \<noteq> None \<and>
     \<not> backupUnavailable d b \<and> \<not> backupUnproven d b \<and>
     (\<forall>p\<in>set (src_Paths (the (st_Source (gb_Status b)))). backupPathError definition d p = None)"

definition exact_claim :: "GameDestroyReconciler \<Rightarrow> GameDestroy \<Rightarrow> bool \<Rightarrow> GameBackup option \<Rightarrow> RetainedDataClaimReference \<Rightarrow> string list \<Rightarrow> nat \<Rightarrow> bool" where
  "exact_claim r d permit backup c names k \<longleftrightarrow>
     (case cl_Claim r k (namespaceOf d) (ref_Name (rclaim_ClaimRef c)) of
        Inl e \<Rightarrow> e = NotFound \<and> permit \<and> journaled d c
      | Inr claim \<Rightarrow> claimError d permit backup c claim = None \<and> pvc_VolumeName claim \<in> set names)"

text \<open>Everything a successful \<^verbatim>\<open>resolve\<close> has seen between calls \<open>m\<close> and \<open>n\<close>.\<close>

definition cold :: "GameDestroyReconciler \<Rightarrow> GameDestroy \<Rightarrow> bool \<Rightarrow> nat \<Rightarrow> nat \<Rightarrow> destroySubject \<Rightarrow> bool" where
  "cold r d permit m n s \<longleftrightarrow>
     (\<exists>names. \<not> targetIncomplete d \<and> gdr_Catalog r (dt_Game (targetOf d)) = Inr (dsub_definition s) \<and> \<not> uncertified (dsub_definition s) d \<and>
        errors_along (targetClaimError (dsub_definition s)) [] (claimsOf d) = None \<and>
        (case dsub_backup s of
           None \<Rightarrow> modeOf d = DestroyModeUnsafeNoBackup
         | Some b \<Rightarrow> modeOf d = DestroyModeVerifiedBackup \<and> backup_proves r d (dsub_definition s) b \<and>
             seen m n (\<lambda>k. cl_GameBackup r k (namespaceOf d) (ref_Name (the (ds_BackupRef (gd_Spec d)))) = Inr b) \<and>
             ValidateInput (gdr_Worker r) (preflightInput d b) = None \<and> dsub_input s = preflightInput d b) \<and>
        seen m n (server_cold r d (dsub_backup s)) \<and> seen m n (unselected r d) \<and>
        (\<forall>c\<in>set (claimsOf d). seen m n (exact_claim r d permit (dsub_backup s) c names)) \<and>
        seen m n (unmounted r d) \<and> seen m n (detached r names))"

lemma cold_wider: "cold r d permit m n s \<Longrightarrow> m' \<le> m \<Longrightarrow> n \<le> n' \<Longrightarrow> cold r d permit m' n' s"
  unfolding cold_def by (elim exE, rule exI) (auto elim: seen_wider split: option.splits)

section \<open>resolve\<close>

lemma wp_ensure [wp_simps]:
  "wp (ensure m k) Q s = wp m (\<lambda>r. case r of Some e \<Rightarrow> Q (Inl e) | None \<Rightarrow> wp k Q) s"
  unfolding ensure_def wp_simps by (rule arg_cong [where f = "\<lambda>q. wp m q s"]) (auto simp: fun_eq_iff wp_simps split: option.splits)

lemma wp_now [wp_simps]: "wp (now r) Q s = Q (cl_Now r (ses_calls s)) (s\<lparr> ses_calls := Suc (ses_calls s) \<rparr>)"
  by (simp add: now_def wp_simps)

lemma observes_ensure:
  assumes "observes_none m A" "observes k B" "wide A" "\<And>w. wide (B w)"
  shows "observes (ensure m k) (\<lambda>w a b. A a b \<and> B w a b)"
  unfolding observes_def wp_ensure
proof
  fix s
  show "wp m (\<lambda>x. case x of None \<Rightarrow> wp k (\<lambda>x t. reads s t \<and> (\<forall>v. x = Inr v \<longrightarrow> A (ses_calls s) (ses_calls t) \<and> B v (ses_calls s) (ses_calls t)))
      | Some e \<Rightarrow> \<lambda>t. reads s t \<and> (\<forall>v. Inl e = Inr v \<longrightarrow> A (ses_calls s) (ses_calls t) \<and> B v (ses_calls s) (ses_calls t))) s"
  proof (rule wp_mono [OF observes_noneD [OF assms(1)]], clarsimp split: option.split)
    fix t
    assume t: "reads s t" "A (ses_calls s) (ses_calls t)"
    show "wp k (\<lambda>x t. reads s t \<and> (\<forall>v. x = Inr v \<longrightarrow> A (ses_calls s) (ses_calls t) \<and> B v (ses_calls s) (ses_calls t))) t"
    proof (rule wp_mono [OF observesD [OF assms(2)]], intro conjI allI impI)
      fix x u w
      assume u: "reads t u \<and> (\<forall>w. x = Inr w \<longrightarrow> B w (ses_calls t) (ses_calls u))"
      then show "reads s u" using extends_trans [OF t(1)] by blast
      have le: "ses_calls s \<le> ses_calls t" "ses_calls t \<le> ses_calls u" using t(1) u extends_calls by blast+
      show "A (ses_calls s) (ses_calls u)" using wideD [OF assms(3) t(2)] le by blast
      assume "x = Inr w"
      then show "B w (ses_calls s) (ses_calls u)" using wideD [OF assms(4)] u le by blast
    qed
  qed
qed

lemma observes_resolveBackup:
  "observes (resolveBackup r d adapter) (\<lambda>backup a b.
     case backup of None \<Rightarrow> modeOf d = DestroyModeUnsafeNoBackup
      | Some bk \<Rightarrow> modeOf d = DestroyModeVerifiedBackup \<and> backup_proves r d adapter bk \<and>
          seen a b (\<lambda>k. cl_GameBackup r k (namespaceOf d) (ref_Name (the (ds_BackupRef (gd_Spec d)))) = Inr bk))"
  unfolding resolveBackup_def observes_def
  by (auto simp: wp_simps guard_simps backup_proves_def split: option.splits sum.splits)

lemma observes_resolveServer: "observes_none (resolveServer r d backup) (\<lambda>a b. seen a b (server_cold r d backup))"
  unfolding resolveServer_def observes_none_def
  by (auto simp: wp_simps guard_simps server_cold_def split: sum.splits ApiError.splits)

lemma observes_resolveSelectors: "observes_none (resolveSelectors r d) (\<lambda>a b. seen a b (unselected r d))"
  unfolding resolveSelectors_def observes_none_def
  by (auto simp: wp_simps guard_simps unselected_def split: sum.splits)

lemma observes_resolveClaim:
  "observes (resolveClaim r d permit backup c) (\<lambda>names a b. seen a b (exact_claim r d permit backup c names))"
  unfolding resolveClaim_def observes_def
  by (auto simp: wp_simps exact_claim_def split: sum.splits option.splits)

lemma exact_claim_mono: "exact_claim r d permit backup c names k \<Longrightarrow> set names \<subseteq> set names' \<Longrightarrow> exact_claim r d permit backup c names' k"
  by (auto simp: exact_claim_def split: sum.splits)

lemma observes_resolveClaims:
  "observes (resolveClaims r d permit backup cs) (\<lambda>names a b. \<forall>c\<in>set cs. seen a b (exact_claim r d permit backup c names))"
proof (induction cs)
  case Nil
  show ?case by (simp add: observes_def wp_simps)
next
  case (Cons c cs)
  have "observes (resolveClaims r d permit backup (c # cs)) (\<lambda>names a b. \<exists>xs. seen a b (exact_claim r d permit backup c xs) \<and>
      (\<exists>ys. (\<forall>c\<in>set cs. seen a b (exact_claim r d permit backup c ys)) \<and> names = xs @ ys))"
    unfolding resolveClaims.simps
    by (intro observes_attempt observes_resolveClaim Cons.IH observes_return) (auto simp: wide_simps)
  then show ?case
  proof (rule observes_weaken, elim exE conjE, intro ballI)
    fix names a b xs ys c'
    assume *: "seen a b (exact_claim r d permit backup c xs)" "\<forall>c\<in>set cs. seen a b (exact_claim r d permit backup c ys)"
      "names = xs @ ys" "c' \<in> set (c # cs)"
    have "\<exists>zs. set zs \<subseteq> set names \<and> seen a b (exact_claim r d permit backup c' zs)" using * by (cases "c' = c") auto
    then show "seen a b (exact_claim r d permit backup c' names)" by (auto elim!: seen_mono intro: exact_claim_mono)
  qed
qed

lemma observes_resolveUsers:
  "observes_none (resolveUsers r d names) (\<lambda>a b. seen a b (unmounted r d) \<and> seen a b (detached r names))"
  unfolding resolveUsers_def observes_none_def
  by (auto simp: wp_simps guard_simps unmounted_def detached_def split: sum.splits)

lemma observes_resolve: "observes (resolve r d permit) (\<lambda>subj a b. cold r d permit a b subj)"
proof -
  have chain: "observes (attempt (resolveBackup r d adapter) (\<lambda>backup.
      ensure (resolveServer r d backup) (ensure (resolveSelectors r d) (
      attempt (resolveClaims r d permit backup (claimsOf d)) (\<lambda>names. ensure (resolveUsers r d names) (
      State_Monad.return (resolveSubject r d adapter backup))))))) (\<lambda>subj a b. cold r d permit a b subj)"
    if ok: "\<not> targetIncomplete d" "gdr_Catalog r (dt_Game (targetOf d)) = Inr adapter" "\<not> uncertified adapter d"
      "errors_along (targetClaimError adapter) [] (claimsOf d) = None" for adapter
  proof (rule observes_weaken)
    show "observes (attempt (resolveBackup r d adapter) (\<lambda>backup.
      ensure (resolveServer r d backup) (ensure (resolveSelectors r d) (
      attempt (resolveClaims r d permit backup (claimsOf d)) (\<lambda>names. ensure (resolveUsers r d names) (
      State_Monad.return (resolveSubject r d adapter backup)))))))
      (\<lambda>subj a b. \<exists>backup. (case backup of None \<Rightarrow> modeOf d = DestroyModeUnsafeNoBackup
          | Some bk \<Rightarrow> modeOf d = DestroyModeVerifiedBackup \<and> backup_proves r d adapter bk \<and>
              seen a b (\<lambda>k. cl_GameBackup r k (namespaceOf d) (ref_Name (the (ds_BackupRef (gd_Spec d)))) = Inr bk)) \<and>
        seen a b (server_cold r d backup) \<and> seen a b (unselected r d) \<and>
        (\<exists>names. (\<forall>c\<in>set (claimsOf d). seen a b (exact_claim r d permit backup c names)) \<and>
           (seen a b (unmounted r d) \<and> seen a b (detached r names)) \<and> resolveSubject r d adapter backup = Inr subj))"
      by (intro observes_attempt observes_ensure observes_resolveBackup observes_resolveServer observes_resolveSelectors
            observes_resolveClaims observes_resolveUsers observes_return_eq)
         (simp_all add: wide_simps)
    fix subj a b
    assume "\<exists>backup. (case backup of None \<Rightarrow> modeOf d = DestroyModeUnsafeNoBackup
          | Some bk \<Rightarrow> modeOf d = DestroyModeVerifiedBackup \<and> backup_proves r d adapter bk \<and>
              seen a b (\<lambda>k. cl_GameBackup r k (namespaceOf d) (ref_Name (the (ds_BackupRef (gd_Spec d)))) = Inr bk)) \<and>
        seen a b (server_cold r d backup) \<and> seen a b (unselected r d) \<and>
        (\<exists>names. (\<forall>c\<in>set (claimsOf d). seen a b (exact_claim r d permit backup c names)) \<and>
           (seen a b (unmounted r d) \<and> seen a b (detached r names)) \<and> resolveSubject r d adapter backup = Inr subj)"
    then show "cold r d permit a b subj"
      using ok by (auto simp: cold_def resolveSubject_def split: option.splits if_splits) blast
  qed
  show ?thesis
    unfolding resolve_def by (auto simp: chain observes_Inl split: sum.split option.split)
qed

section \<open>Leases and the confirmation\<close>

definition lease_held :: "GameDestroyReconciler \<Rightarrow> GameDestroy \<Rightarrow> nat \<Rightarrow> bool" where
  "lease_held r d k \<longleftrightarrow>
     (case cl_Lease r k (namespaceOf d) (dataLeaseName d) of Inl _ \<Rightarrow> False | Inr lease \<Rightarrow> dataLeaseMatches d lease)"

lemma observes_requireDataLease: "observes_none (requireDataLease r d) (\<lambda>a b. seen a b (lease_held r d))"
  unfolding requireDataLease_def getDataLease_def observes_none_def
  by (auto simp: wp_simps lease_held_def split: sum.splits)

text \<open>The user echoed the challenge of the preview, and it had not expired when the clock was read.\<close>

definition echoed :: "GameDestroy \<Rightarrow> bool" where
  "echoed d \<longleftrightarrow> (case dst_Preview (gd_Status d) of None \<Rightarrow> False
     | Some p \<Rightarrow> ds_ConfirmationChallenge (gd_Spec d) \<noteq> [] \<and> ds_ConfirmationChallenge (gd_Spec d) = pv_Challenge p)"

definition confirmed_at :: "GameDestroyReconciler \<Rightarrow> GameDestroy \<Rightarrow> nat \<Rightarrow> bool" where
  "confirmed_at r d k \<longleftrightarrow> echoed d \<and> (\<forall>p. dst_Preview (gd_Status d) = Some p \<longrightarrow> cl_Now r k < pv_ExpiresAt p)"

lemma wp_confirmed:
  "wp (confirmed r d) (\<lambda>x t. reads s t \<and> (x \<longrightarrow> seen (ses_calls s) (ses_calls t) (confirmed_at r d))) s"
  unfolding confirmed_def by (auto simp: wp_simps confirmed_at_def echoed_def split: option.splits)

lemma seen_confirmed_echoed: "seen m n (confirmed_at r d) \<Longrightarrow> echoed d"
  by (auto simp: seen_def confirmed_at_def)

end
