(* ===== verification/PathProps.thy ===== *)
theory PathProps
  imports GoLib
begin

text \<open>
  Clean slash-separated paths as lists of elements: joining, cleaning, climbing to the parent and
  relative names act on the lists.
\<close>

definition plain :: "string \<Rightarrow> bool" where
  "plain e \<longleftrightarrow> e \<noteq> [] \<and> CHR ''/'' \<notin> set e \<and> e \<noteq> ''.'' \<and> e \<noteq> ''..''"

abbreviation plains :: "string list \<Rightarrow> bool" where
  "plains es \<equiv> list_all plain es"

text \<open>The absolute path with the given elements.\<close>

definition abs_path :: "string list \<Rightarrow> string" where
  "abs_path es = CHR ''/'' # join_slash es"

lemma plainD: "plain e \<Longrightarrow> e \<noteq> []" "plain e \<Longrightarrow> CHR ''/'' \<notin> set e" "plain e \<Longrightarrow> hd e \<noteq> CHR ''/''"
  by (auto simp: plain_def) (cases e; auto)

lemma join_slash_Cons: "join_slash (e # es) = e @ (if es = [] then [] else CHR ''/'' # join_slash es)"
  by (cases es) simp_all

lemma Split_join: "es \<noteq> [] \<Longrightarrow> plains es \<Longrightarrow> Split (join_slash es) (CHR ''/'') = es"
  by (induction es) (auto simp: join_slash_Cons Split_no_sep Split_append_sep plain_def)

lemma clean_parts_plain: "plains es \<Longrightarrow> clean_parts r out es = rev out @ es"
  by (induction es arbitrary: out) (auto simp: plain_def)

lemma join_slash_not_abs: "es \<noteq> [] \<Longrightarrow> plains es \<Longrightarrow> \<not> IsAbs (join_slash es) \<and> join_slash es \<noteq> []"
  by (cases es) (auto simp: join_slash_Cons IsAbs_def plain_def hd_append dest: hd_in_set)

lemma path_elements_join [simp]: "es \<noteq> [] \<Longrightarrow> plains es \<Longrightarrow> path_elements (join_slash es) = es"
  by (simp add: path_elements_def Split_join clean_parts_plain)

lemma path_elements_abs [simp]: "plains es \<Longrightarrow> path_elements (abs_path es) = es"
  by (cases "es = []") (simp_all add: path_elements_def abs_path_def Split_join clean_parts_plain)

lemma IsAbs_abs [simp]: "IsAbs (abs_path es)"
  by (simp add: IsAbs_def abs_path_def)

lemma path_Clean_join [simp]: "es \<noteq> [] \<Longrightarrow> plains es \<Longrightarrow> path_Clean (join_slash es) = join_slash es"
  by (simp add: path_Clean_def join_slash_not_abs)

lemma path_Clean_abs [simp]: "plains es \<Longrightarrow> path_Clean (abs_path es) = abs_path es"
  by (simp add: path_Clean_def) (simp add: abs_path_def)

lemma Split_append: "Split (a @ CHR ''/'' # b) (CHR ''/'') = Split a (CHR ''/'') @ Split b (CHR ''/'')"
  by (induction a) (auto split: list.splits)

lemma clean_parts_append: "plains xs \<Longrightarrow> clean_parts r out (xs @ ys) = clean_parts r (rev xs @ out) ys"
  by (induction xs arbitrary: out) (auto simp: plain_def)

lemma path_Join_abs:
  assumes "plains as" "plains bs" "bs \<noteq> []"
  shows "path_Join (abs_path as) (join_slash bs) = abs_path (as @ bs)"
proof -
  let ?p = "abs_path as @ CHR ''/'' # join_slash bs"
  have "Split ?p (CHR ''/'') = Split (abs_path as) (CHR ''/'') @ bs"
    using assms by (simp add: Split_append Split_join)
  moreover have "Split (abs_path as) (CHR ''/'') = [] # (if as = [] then [[]] else as)"
    using assms by (cases "as = []") (simp_all add: abs_path_def Split_join)
  ultimately have "path_elements ?p = as @ bs"
    using assms by (auto simp: path_elements_def clean_parts_append clean_parts_plain)
  moreover have "IsAbs ?p" by (simp add: IsAbs_def abs_path_def)
  ultimately show ?thesis
    using assms join_slash_not_abs [of bs]
    by (simp add: path_Join_def path_Clean_def Let_def) (simp add: abs_path_def)
qed

lemma path_Join_elem: "plains as \<Longrightarrow> plain b \<Longrightarrow> path_Join (abs_path as) b = abs_path (as @ [b])"
  using path_Join_abs [of as "[b]"] by simp

lemma strip_common_prefix: "strip_common as (as @ bs) = ([], bs)"
  by (induction as) (cases bs; auto)+

lemma join_slash_inj: "plains as \<Longrightarrow> plains bs \<Longrightarrow> join_slash as = join_slash bs \<Longrightarrow> as = bs"
  by (metis Split_join join_slash.simps(1) join_slash_not_abs)

lemma abs_path_inj: "plains as \<Longrightarrow> plains bs \<Longrightarrow> abs_path as = abs_path bs \<Longrightarrow> as = bs"
  by (metis path_elements_abs)

lemma path_Rel_abs:
  assumes "plains as" "plains bs" "bs \<noteq> []"
  shows "path_Rel (abs_path as) (abs_path (as @ bs)) = Some (join_slash bs)"
proof -
  have "abs_path as \<noteq> abs_path (as @ bs)" using assms abs_path_inj [of as "as @ bs"] by auto
  then show ?thesis using assms by (simp add: path_Rel_def strip_common_prefix)
qed

lemma join_slash_snoc: "es \<noteq> [] \<Longrightarrow> join_slash (es @ [e]) = join_slash es @ CHR ''/'' # e"
  by (induction es) (auto simp: join_slash_Cons)

lemma dropWhile_last_elem:
  "CHR ''/'' \<notin> set e \<Longrightarrow> rev (dropWhile (\<lambda>c. c \<noteq> CHR ''/'') (rev (p @ CHR ''/'' # e))) = p @ [CHR ''/'']"
proof -
  assume "CHR ''/'' \<notin> set e"
  then have "dropWhile (\<lambda>c. c \<noteq> CHR ''/'') (rev e @ CHR ''/'' # rev p) = CHR ''/'' # rev p"
    by (subst dropWhile_append2) auto
  then show ?thesis by simp
qed

lemma path_Dir_join:
  assumes "plains es" "plain e"
  shows "path_Dir (join_slash (es @ [e])) = (if es = [] then ''.'' else join_slash es)"
proof (cases "es = []")
  case True
  have "dropWhile (\<lambda>c. c \<noteq> CHR ''/'') (rev e) = []" using assms by (auto simp: plain_def)
  then have "path_Dir e = path_Clean []" by (simp only: path_Dir_def rev.simps)
  with True show ?thesis by (simp add: path_Clean_def path_elements_def IsAbs_def)
next
  case False
  have "CHR ''/'' \<notin> set e" using assms by (simp add: plain_def)
  then have dir: "path_Dir (join_slash (es @ [e])) = path_Clean (join_slash es @ [CHR ''/''])"
    unfolding path_Dir_def join_slash_snoc [OF False] by (subst dropWhile_last_elem) simp_all
  have "Split (join_slash es @ CHR ''/'' # []) (CHR ''/'') = es @ [[]]"
    using assms False by (simp add: Split_append Split_join)
  then have "path_elements (join_slash es @ [CHR ''/'']) = es"
    using assms by (simp add: path_elements_def clean_parts_append)
  moreover have "\<not> IsAbs (join_slash es @ [CHR ''/''])"
    using join_slash_not_abs [OF False assms(1)] by (auto simp: IsAbs_def hd_append)
  ultimately show ?thesis using dir False by (simp add: path_Clean_def)
qed

text \<open>A clean absolute path consists of plain elements.\<close>

lemma clean_parts_rooted: "plains out \<Longrightarrow> \<forall>p\<in>set ps. CHR ''/'' \<notin> set p \<Longrightarrow> plains (clean_parts True out ps)"
proof (induction ps arbitrary: out)
  case Nil
  then show ?case by (simp add: list_all_iff)
next
  case (Cons p ps)
  have "plain p" if "p \<noteq> []" "p \<noteq> ''.''" "p \<noteq> ''..''" using that Cons.prems(2) by (simp add: plain_def)
  moreover have "q \<noteq> ''..''" if "out = q # qs" for q qs using that Cons.prems(1) by (simp add: plain_def)
  ultimately show ?case using Cons by (auto split: list.splits)
qed

lemma Split_parts: "p \<in> set (Split s sep) \<Longrightarrow> sep \<notin> set p"
  by (induction s arbitrary: p) (auto split: if_splits list.splits)

lemma clean_abs_path:
  assumes "IsAbs p" "path_Clean p = p"
  shows "\<exists>es. plains es \<and> p = abs_path es"
proof -
  have "plains (path_elements p)"
    using assms(1) by (auto simp: path_elements_def intro!: clean_parts_rooted dest: Split_parts)
  moreover have "p = abs_path (path_elements p)"
    using assms by (simp add: path_Clean_def abs_path_def)
  ultimately show ?thesis by blast
qed

end
