(* ===== verification/BackupProps.thy ===== *)
theory BackupProps
  imports ManifestCodec PathProps
begin

text \<open>
  What the manifest of a cold backup records: exactly the regular files and directories of the
  mounted trees, each file with the digest of its contents.
\<close>

section \<open>Trees\<close>

text \<open>The files and directories of a tree, by the elements of their relative paths.\<close>

type_synonym tree_file = "string list \<times> int64 \<times> bytes"

fun tree_files :: "string list \<Rightarrow> fs_entry \<Rightarrow> tree_file list"
  and forest_files :: "string list \<Rightarrow> (string \<times> fs_entry) list \<Rightarrow> tree_file list" where
  "tree_files es (Regular sz (Content bs)) = [(es, sz, bs)]"
| "tree_files es (Directory (Some children)) = forest_files es children"
| "tree_files es _ = []"
| "forest_files es [] = []"
| "forest_files es ((c, t) # rest) = tree_files (es @ [c]) t @ forest_files es rest"

fun tree_dirs :: "string list \<Rightarrow> fs_entry \<Rightarrow> string list list"
  and forest_dirs :: "string list \<Rightarrow> (string \<times> fs_entry) list \<Rightarrow> string list list" where
  "tree_dirs es (Directory (Some children)) = es # forest_dirs es children"
| "tree_dirs es _ = []"
| "forest_dirs es [] = []"
| "forest_dirs es ((c, t) # rest) = tree_dirs (es @ [c]) t @ forest_dirs es rest"

text \<open>
  What a file system guarantees: the names in a directory are distinct, not empty, not the dot names,
  and hold no slash and no NUL; a size is not negative.
\<close>

fun wf_tree :: "fs_entry \<Rightarrow> bool"
  and wf_forest :: "(string \<times> fs_entry) list \<Rightarrow> bool" where
  "wf_tree (Regular sz content) = (0 \<le> sint sz)"
| "wf_tree (Directory (Some children)) = (distinct (map fst children) \<and> wf_forest children)"
| "wf_tree _ = True"
| "wf_forest [] = True"
| "wf_forest ((c, t) # rest) = (plain c \<and> CHR 0x00 \<notin> set c \<and> wf_tree t \<and> wf_forest rest)"

definition checksum_of :: "tree_file \<Rightarrow> BackupFileChecksum" where
  "checksum_of tf = (case tf of (es, sz, bs) \<Rightarrow>
     \<lparr> bfc_Path = join_slash es, bfc_Size = sz, bfc_SHA256 = ManifestDigest bs \<rparr>)"

lemma checksum_of_simps [simp]:
  "bfc_Path (checksum_of tf) = join_slash (fst tf)" "bfc_Size (checksum_of tf) = fst (snd tf)"
  "bfc_SHA256 (checksum_of tf) = ManifestDigest (snd (snd tf))"
  by (simp_all add: checksum_of_def split: prod.splits)

definition good_name :: "string \<Rightarrow> bool" where
  "good_name s \<longleftrightarrow> utf8_Valid s \<and> \<not> Contains s RuneError"

section \<open>The walk records the tree\<close>

lemma relativeName_abs:
  assumes "plains as" "plains bs" "bs \<noteq> []" "relativeName (abs_path as) (abs_path (as @ bs)) = Inr rel"
  shows "rel = join_slash bs \<and> good_name rel"
  using assms path_Rel_abs [OF assms(1-3)] by (auto simp: relativeName_def good_name_def split: if_splits)

lemma abs_path_append_neq: "plains as \<Longrightarrow> plains bs \<Longrightarrow> bs \<noteq> [] \<Longrightarrow> abs_path (as @ bs) \<noteq> abs_path as"
  using abs_path_inj [of "as @ bs" as] by auto

lemma walk_tree:
  "walkEntry root name t = Inr (files, dirs) \<Longrightarrow> root = abs_path as \<Longrightarrow> name = abs_path (as @ bs) \<Longrightarrow>
     plains as \<Longrightarrow> plains bs \<Longrightarrow> bs \<noteq> [] \<Longrightarrow> wf_tree t \<Longrightarrow>
     files = map checksum_of (tree_files bs t) \<and> dirs = map join_slash (tree_dirs bs t) \<and>
     (\<forall>tf \<in> set (tree_files bs t). good_name (join_slash (fst tf))) \<and> (\<forall>es \<in> set (tree_dirs bs t). good_name (join_slash es))"
  "walkChildren root name ts = Inr (files, dirs) \<Longrightarrow> root = abs_path as \<Longrightarrow> name = abs_path (as @ bs) \<Longrightarrow>
     plains as \<Longrightarrow> plains bs \<Longrightarrow> wf_forest ts \<Longrightarrow>
     files = map checksum_of (forest_files bs ts) \<and> dirs = map join_slash (forest_dirs bs ts) \<and>
     (\<forall>tf \<in> set (forest_files bs ts). good_name (join_slash (fst tf))) \<and> (\<forall>es \<in> set (forest_dirs bs ts). good_name (join_slash es))"
proof (induction root name t and root name ts arbitrary: files dirs bs and files dirs bs rule: walkEntry_walkChildren.induct)
  case (2 root name children)
  then have neq: "name \<noteq> root" using abs_path_append_neq by auto
  with 2 obtain rel fs ds where *: "relativeName root name = Inr rel" "walkChildren root name children = Inr (fs, ds)"
      "files = fs" "dirs = rel # ds"
    by (auto split: sum.splits)
  then show ?case using 2 neq relativeName_abs [of as bs rel] by fastforce
next
  case (3 root name sz content)
  then obtain rel bytes where "relativeName root name = Inr rel" "content = Content bytes"
      "files = [\<lparr> bfc_Path = rel, bfc_Size = sz, bfc_SHA256 = ManifestDigest bytes \<rparr>]" "dirs = []"
    by (auto simp: hashFile_def ManifestDigest_def split: sum.splits file_content.splits)
  then show ?case using 3 relativeName_abs [of as bs rel] by (auto simp: checksum_of_def)
next
  case (7 root name child entry rest)
  then obtain fs ds fs' ds' where *: "walkEntry root (path_Join name child) entry = Inr (fs, ds)"
      "walkChildren root name rest = Inr (fs', ds')" "files = fs @ fs'" "dirs = ds @ ds'"
    by (auto split: sum.splits prod.splits)
  have join: "path_Join name child = abs_path (as @ (bs @ [child]))"
    using 7 path_Join_elem [of "as @ bs" child] by simp
  have 1: "fs = map checksum_of (tree_files (bs @ [child]) entry) \<and> ds = map join_slash (tree_dirs (bs @ [child]) entry) \<and>
     (\<forall>tf \<in> set (tree_files (bs @ [child]) entry). good_name (join_slash (fst tf))) \<and>
     (\<forall>es \<in> set (tree_dirs (bs @ [child]) entry). good_name (join_slash es))"
    using "7.IH"(1) [OF *(1) "7.prems"(2) join] "7.prems" by simp
  have 2: "fs' = map checksum_of (forest_files bs rest) \<and> ds' = map join_slash (forest_dirs bs rest) \<and>
     (\<forall>tf \<in> set (forest_files bs rest). good_name (join_slash (fst tf))) \<and>
     (\<forall>es \<in> set (forest_dirs bs rest). good_name (join_slash es))"
    using "7.IH"(2) [OF *(1) _ *(2) "7.prems"(2,3)] "7.prems" by simp
  show ?case using 1 2 *(3,4) by auto
qed (auto split: sum.splits if_splits)

section \<open>The shape of the tree\<close>

lemma tree_prefix:
  "wf_tree t \<Longrightarrow> plains bs \<Longrightarrow>
     (\<forall>tf \<in> set (tree_files bs t). prefix bs (fst tf) \<and> plains (fst tf) \<and> 0 \<le> sint (fst (snd tf))) \<and>
     (\<forall>es \<in> set (tree_dirs bs t). prefix bs es \<and> plains es)"
  "wf_forest ts \<Longrightarrow> plains bs \<Longrightarrow>
     (\<forall>tf \<in> set (forest_files bs ts). (\<exists>c \<in> set (map fst ts). prefix (bs @ [c]) (fst tf)) \<and> plains (fst tf) \<and> 0 \<le> sint (fst (snd tf))) \<and>
     (\<forall>es \<in> set (forest_dirs bs ts). (\<exists>c \<in> set (map fst ts). prefix (bs @ [c]) es) \<and> plains es)"
proof (induction t and ts arbitrary: bs and bs rule: wf_tree_wf_forest.induct)
  case (1 sz content)
  then show ?case by (cases content) auto
next
  case (2 children)
  then show ?case by (auto dest!: append_prefixD)
next
  case (5 c t rest)
  have "(\<forall>tf \<in> set (tree_files (bs @ [c]) t). prefix (bs @ [c]) (fst tf) \<and> plains (fst tf) \<and> 0 \<le> sint (fst (snd tf))) \<and>
     (\<forall>es \<in> set (tree_dirs (bs @ [c]) t). prefix (bs @ [c]) es \<and> plains es)"
    using "5.IH"(1) [of "bs @ [c]"] "5.prems" by simp
  moreover have "(\<forall>tf \<in> set (forest_files bs rest). (\<exists>c \<in> set (map fst rest). prefix (bs @ [c]) (fst tf)) \<and> plains (fst tf) \<and> 0 \<le> sint (fst (snd tf))) \<and>
     (\<forall>es \<in> set (forest_dirs bs rest). (\<exists>c \<in> set (map fst rest). prefix (bs @ [c]) es) \<and> plains es)"
    using "5.IH"(2) [of bs] "5.prems" by simp
  ultimately show ?case by (simp add: ball_Un)
qed auto

lemma tree_no_NUL:
  "wf_tree t \<Longrightarrow> list_all (\<lambda>e. CHR 0x00 \<notin> set e) bs \<Longrightarrow>
     (\<forall>tf \<in> set (tree_files bs t). list_all (\<lambda>e. CHR 0x00 \<notin> set e) (fst tf)) \<and>
     (\<forall>es \<in> set (tree_dirs bs t). list_all (\<lambda>e. CHR 0x00 \<notin> set e) es)"
  "wf_forest ts \<Longrightarrow> list_all (\<lambda>e. CHR 0x00 \<notin> set e) bs \<Longrightarrow>
     (\<forall>tf \<in> set (forest_files bs ts). list_all (\<lambda>e. CHR 0x00 \<notin> set e) (fst tf)) \<and>
     (\<forall>es \<in> set (forest_dirs bs ts). list_all (\<lambda>e. CHR 0x00 \<notin> set e) es)"
proof (induction t and ts arbitrary: bs and bs rule: wf_tree_wf_forest.induct)
  case (1 sz content)
  then show ?case by (cases content) auto
next
  case (5 c t rest)
  have "(\<forall>tf \<in> set (tree_files (bs @ [c]) t). list_all (\<lambda>e. CHR 0x00 \<notin> set e) (fst tf)) \<and>
     (\<forall>es \<in> set (tree_dirs (bs @ [c]) t). list_all (\<lambda>e. CHR 0x00 \<notin> set e) es)"
    using "5.IH"(1) [of "bs @ [c]"] "5.prems" by simp
  moreover have "(\<forall>tf \<in> set (forest_files bs rest). list_all (\<lambda>e. CHR 0x00 \<notin> set e) (fst tf)) \<and>
     (\<forall>es \<in> set (forest_dirs bs rest). list_all (\<lambda>e. CHR 0x00 \<notin> set e) es)"
    using "5.IH"(2) [of bs] "5.prems" by simp
  ultimately show ?case by (simp add: ball_Un)
qed auto

text \<open>Distinct names give distinct paths, and no path is both a file and a directory.\<close>

lemma prefix_elem_unique: "prefix (bs @ [c]) es \<Longrightarrow> prefix (bs @ [d]) es \<Longrightarrow> c = d"
  by (auto simp: prefix_def)

lemma tree_distinct:
  "wf_tree t \<Longrightarrow> plains bs \<Longrightarrow> distinct (map fst (tree_files bs t) @ tree_dirs bs t)"
  "wf_forest ts \<Longrightarrow> plains bs \<Longrightarrow> distinct (map fst ts) \<Longrightarrow> distinct (map fst (forest_files bs ts) @ forest_dirs bs ts)"
proof (induction t and ts arbitrary: bs and bs rule: wf_tree_wf_forest.induct)
  case (1 sz content)
  then show ?case by (cases content) auto
next
  case (2 children)
  have "bs \<notin> set (map fst (forest_files bs children) @ forest_dirs bs children)"
    using tree_prefix(2) [of children bs] 2 by (fastforce simp: prefix_def)
  with 2 show ?case by auto
next
  case (5 c t rest)
  let ?A = "set (map fst (tree_files (bs @ [c]) t) @ tree_dirs (bs @ [c]) t)"
  let ?B = "set (map fst (forest_files bs rest) @ forest_dirs bs rest)"
  have "\<forall>es\<in>?A. prefix (bs @ [c]) es" using tree_prefix(1) [of t "bs @ [c]"] 5 by auto
  moreover have "\<forall>es\<in>?B. \<exists>d\<in>set (map fst rest). prefix (bs @ [d]) es" using tree_prefix(2) [of rest bs] 5 by auto
  moreover have "c \<notin> set (map fst rest)" using 5 by simp
  ultimately have "es \<notin> ?B" if "es \<in> ?A" for es using that prefix_elem_unique by metis
  then have "?A \<inter> ?B = {}" by blast
  moreover have "distinct (map fst (tree_files (bs @ [c]) t) @ tree_dirs (bs @ [c]) t)" using 5 by simp
  moreover have "distinct (map fst (forest_files bs rest) @ forest_dirs bs rest)" using 5 by simp
  ultimately show ?case by auto
qed auto

text \<open>The parent of every recorded entry is recorded.\<close>

lemma tree_parents:
  "wf_tree t \<Longrightarrow> es @ [e] \<in> fst ` set (tree_files bs t) \<union> set (tree_dirs bs t) \<Longrightarrow> es @ [e] = bs \<or> es \<in> set (tree_dirs bs t)"
  "wf_forest ts \<Longrightarrow> es @ [e] \<in> fst ` set (forest_files bs ts) \<union> set (forest_dirs bs ts) \<Longrightarrow> es = bs \<or> es \<in> set (forest_dirs bs ts)"
proof (induction t and ts arbitrary: bs and bs rule: wf_tree_wf_forest.induct)
  case (1 sz content)
  then show ?case by (cases content) auto
next
  case (5 c t rest)
  from "5.prems"(2) consider "es @ [e] \<in> fst ` set (tree_files (bs @ [c]) t) \<union> set (tree_dirs (bs @ [c]) t)"
    | "es @ [e] \<in> fst ` set (forest_files bs rest) \<union> set (forest_dirs bs rest)"
    by auto
  then show ?case using 5 by cases auto
qed auto

lemma forest_parents_closed:
  assumes "wf_forest ts" "es \<in> fst ` set (forest_files [] ts) \<union> set (forest_dirs [] ts)" "strict_prefix ps es" "ps \<noteq> []"
  shows "ps \<in> set (forest_dirs [] ts)"
  using assms(2,3)
proof (induction es rule: rev_induct)
  case Nil
  then show ?case by simp
next
  case (snoc e es)
  then have "es = [] \<or> es \<in> set (forest_dirs [] ts)" using tree_parents(2) [OF assms(1)] by blast
  moreover have "prefix ps es" using snoc.prems(2) by (auto simp: strict_prefix_def prefix_snoc)
  ultimately show ?case using snoc.IH assms(4) by (cases "ps = es") (auto simp: strict_prefix_def)
qed

section \<open>The manifest records the mounted trees\<close>

definition wf_fs :: "(string \<Rightarrow> fs_entry option) \<Rightarrow> bool" where
  "wf_fs fs \<longleftrightarrow> (\<forall>p t. fs p = Some t \<longrightarrow> wf_tree t)"

lemma walkEntry_root:
  "walkEntry root root (Directory x) = (case x of None \<Rightarrow> Inl ''persistent path cannot be read completely'' | Some ts \<Rightarrow> walkChildren root root ts)"
  by (cases x) simp_all

lemma hashPath_tree:
  assumes "hashPath fs (abs_path as) = Inr (files, dirs)" "plains as" "wf_fs fs"
  shows "\<exists>ts. fs (abs_path as) = Some (Directory (Some ts)) \<and> wf_forest ts \<and> distinct (map fst ts) \<and>
    files = sort_key bfc_Path (map checksum_of (forest_files [] ts)) \<and> dirs = sort (map join_slash (forest_dirs [] ts)) \<and>
    (\<forall>tf \<in> set (forest_files [] ts). good_name (join_slash (fst tf))) \<and> (\<forall>es \<in> set (forest_dirs [] ts). good_name (join_slash es))"
proof -
  obtain ts fs' ds' where ts: "fs (abs_path as) = Some (Directory (Some ts))" "walkChildren (abs_path as) (abs_path as) ts = Inr (fs', ds')"
      "files = sort_key bfc_Path fs'" "dirs = sort ds'"
    using assms(1) by (auto simp: hashPath_def walkEntry_root split: option.splits fs_entry.splits sum.splits)
  have "wf_tree (Directory (Some ts))" using assms(3) ts(1) unfolding wf_fs_def by blast
  then have "wf_forest ts" "distinct (map fst ts)" by simp_all
  moreover have "fs' = map checksum_of (forest_files [] ts) \<and> ds' = map join_slash (forest_dirs [] ts) \<and>
     (\<forall>tf \<in> set (forest_files [] ts). good_name (join_slash (fst tf))) \<and> (\<forall>es \<in> set (forest_dirs [] ts). good_name (join_slash es))"
    by (rule walk_tree(2) [OF ts(2), of as]) (use assms calculation in auto)
  ultimately show ?thesis using ts by auto
qed

text \<open>One entry of the manifest is built from the source path of its name.\<close>

definition entry_of :: "(string \<Rightarrow> fs_entry option) \<Rightarrow> string \<Rightarrow> DataPathIdentity \<Rightarrow> BackupManifestPath \<Rightarrow> bool" where
  "entry_of fs root sp p \<longleftrightarrow> (\<exists>files dirs. hashPath fs (path_Join root (dp_Name sp)) = Inr (files, dirs) \<and>
     p = \<lparr> bmp_Name = dp_Name sp, bmp_MountPath = dp_MountPath sp, bmp_ClaimName = ref_Name (dp_ClaimRef sp),
           bmp_ClaimUID = ref_UID (dp_ClaimRef sp), bmp_Directories = Some dirs, bmp_Files = Some files \<rparr>)"

lemma manifestPaths_entries: "manifestPaths fs root sps = Inr ps \<Longrightarrow> list_all2 (entry_of fs root) sps ps"
  by (induction fs root sps arbitrary: ps rule: manifestPaths.induct) (auto simp: entry_of_def split: sum.splits prod.splits)

lemma BuildBackupManifest_cases:
  assumes "BuildBackupManifest fs input root = Inr (m, contents)"
  shows "ValidateBackupWorkerInput input = None" "path_Clean root = root" "IsAbs root"
    "contents = marshalManifest m @ [CHR 0x0A]"
    "\<exists>ps. list_all2 (entry_of fs root) (src_Paths (bwi_Source input)) ps \<and> bm_Paths m = sort_key bmp_Name ps"
    "bm_FormatVersion m = BackupFormatVersion \<and> bm_ArtifactID m = bwi_ArtifactID input \<and>
     bm_ServerUID m = ref_UID (gref_Local (src_GameServer (bwi_Source input))) \<and> bm_Game m = src_Game (bwi_Source input) \<and>
     bm_ImageDigest m = src_ImageDigest (bwi_Source input) \<and> bm_SettingsDigest m = src_SettingsDigest (bwi_Source input)"
  using assms by (auto simp: BuildBackupManifest_def Let_def split: option.splits if_splits sum.splits dest: manifestPaths_entries)

lemma worker_paths_distinct:
  assumes "ValidateBackupWorkerInput input = None"
  shows "distinct (map dp_Name (src_Paths (bwi_Source input)))" "distinct (map (\<lambda>p. ref_Name (dp_ClaimRef p)) (src_Paths (bwi_Source input)))"
    "\<forall>p\<in>set (src_Paths (bwi_Source input)). dp_Name p \<noteq> [] \<and> CHR ''/'' \<notin> set (dp_Name p)"
proof -
  let ?ps = "src_Paths (bwi_Source input)"
  have along: "errors_along workerPathError [] ?ps = None"
    using assms by (simp add: ValidateBackupWorkerInput_def Let_def guard_simps)
  show "distinct (map dp_Name ?ps)" "distinct (map (\<lambda>p. ref_Name (dp_ClaimRef p)) ?ps)"
    by (rule errors_along_distinct [OF along]; auto simp: workerPathError_def guard_simps)+
  show "\<forall>p\<in>set ?ps. dp_Name p \<noteq> [] \<and> CHR ''/'' \<notin> set (dp_Name p)"
    using errors_along_each [OF along] by (fastforce simp: workerPathError_def guard_simps Contains_char)
qed

text \<open>The strings of the input are valid UTF-8, as the JSON they were decoded from.\<close>

definition input_utf8 :: "BackupWorkerInput \<Rightarrow> bool" where
  "input_utf8 input \<longleftrightarrow> utf8_Valid (bwi_ArtifactID input) \<and> utf8_Valid (ref_UID (gref_Local (src_GameServer (bwi_Source input)))) \<and>
     utf8_Valid (src_Game (bwi_Source input)) \<and> utf8_Valid (src_ImageDigest (bwi_Source input)) \<and>
     utf8_Valid (src_SettingsDigest (bwi_Source input)) \<and>
     list_all (\<lambda>p. plain (dp_Name p) \<and> utf8_Valid (dp_Name p) \<and> utf8_Valid (dp_MountPath p) \<and>
       utf8_Valid (ref_Name (dp_ClaimRef p)) \<and> utf8_Valid (ref_UID (dp_ClaimRef p))) (src_Paths (bwi_Source input))"

lemma utf8_ascii: "list_all (\<lambda>c. (of_char c :: nat) < 128) s \<Longrightarrow> utf8_Valid s"
proof (induction s)
  case Nil
  then show ?case by (simp add: utf8_Valid.simps)
next
  case (Cons c s)
  then have "utf8_size (c # s) = 1" by (simp add: utf8_size.simps)
  with Cons show ?case by (subst utf8_Valid.simps) simp
qed

lemma utf8_digest: "utf8_Valid (ManifestDigest bs)"
proof -
  have "list_all (\<lambda>c. (of_char c :: nat) < 128) (hex m)" for m
    using hex_alphabet [of m] by (auto simp: list_all_iff is_lower_hex_def is_digit_def)
  then show ?thesis by (intro utf8_ascii) (simp add: ManifestDigest_def)
qed

lemma entry_utf8:
  assumes "entry_of fs (abs_path rs) sp p" "plains rs" "wf_fs fs" "plain (dp_Name sp)"
    and "utf8_Valid (dp_Name sp)" "utf8_Valid (dp_MountPath sp)" "utf8_Valid (ref_Name (dp_ClaimRef sp))" "utf8_Valid (ref_UID (dp_ClaimRef sp))"
  shows "path_utf8 p"
proof -
  obtain files dirs where *: "hashPath fs (abs_path (rs @ [dp_Name sp])) = Inr (files, dirs)" "bmp_Directories p = Some dirs" "bmp_Files p = Some files"
    using assms(1,2,4) by (auto simp: entry_of_def path_Join_elem)
  have "plains (rs @ [dp_Name sp])" using assms(2,4) by simp
  from hashPath_tree [OF *(1) this assms(3)] have "list_all utf8_Valid dirs"
      "list_all (\<lambda>f. utf8_Valid (bfc_Path f) \<and> utf8_Valid (bfc_SHA256 f)) files"
    by (auto simp: list_all_iff good_name_def utf8_digest simp del: fst_conv)
  then show ?thesis using * assms by (auto simp: path_utf8_def entry_of_def)
qed

lemma BuildBackupManifest_utf8:
  assumes "BuildBackupManifest fs input root = Inr (m, contents)" "wf_fs fs" "input_utf8 input"
  shows "manifest_utf8 m"
proof -
  obtain rs where rs: "plains rs" "root = abs_path rs"
    using clean_abs_path BuildBackupManifest_cases(2,3) [OF assms(1)] by blast
  obtain ps where ps: "list_all2 (entry_of fs root) (src_Paths (bwi_Source input)) ps" "bm_Paths m = sort_key bmp_Name ps"
    using BuildBackupManifest_cases(5) [OF assms(1)] by blast
  have "path_utf8 p" if p: "p \<in> set ps" for p
  proof -
    obtain sp where "sp \<in> set (src_Paths (bwi_Source input))" "entry_of fs root sp p"
      using p ps(1) by (metis in_set_conv_nth list_all2_conv_all_nth)
    then show ?thesis using entry_utf8 [of fs rs sp p] assms(2,3) rs by (auto simp: input_utf8_def list_all_iff)
  qed
  moreover have "utf8_Valid BackupFormatVersion" by (rule utf8_ascii) (simp add: BackupFormatVersion_def)
  ultimately show ?thesis
    using BuildBackupManifest_cases(6) [OF assms(1)] assms(3) ps(2) by (auto simp: manifest_utf8_def input_utf8_def list_all_iff)
qed

end
