(* ===== verification/DataSelectionProps.thy ===== *)
theory DataSelectionProps
  imports GameDestroyReads BackupProps "HOL-Library.Multiset"
begin

text \<open>
  The comparison of retained worlds, and what the read-only gate of the destroy controller says about the
  target: it is the whole world of its game, claim by claim.
\<close>

section \<open>sameDataSelection\<close>

abbreviation selection_entry :: "RetainedDataClaimReference \<Rightarrow> string \<times> ExactLocalReference" where
  "selection_entry c \<equiv> (rclaim_Path c, rclaim_ClaimRef c)"

definition exact_claim_ref :: "RetainedDataClaimReference \<Rightarrow> bool" where
  "exact_claim_ref c \<longleftrightarrow> rclaim_Path c \<noteq> [] \<and> ref_Name (rclaim_ClaimRef c) \<noteq> [] \<and> ref_UID (rclaim_ClaimRef c) \<noteq> [] \<and>
     ref_Namespace (rclaim_ClaimRef c) = None"

text \<open>A complete selection: identified, not empty, with exact local claims, one per path.\<close>

definition exact_selection :: "RetainedDataReference \<Rightarrow> bool" where
  "exact_selection l \<longleftrightarrow> rdata_Identity l \<noteq> [] \<and> rdata_Claims l \<noteq> [] \<and> list_all exact_claim_ref (rdata_Claims l) \<and>
     distinct (map rclaim_Path (rdata_Claims l))"

lemma selectionPaths_Some:
  "selectionPaths cs ps = Some qs \<longleftrightarrow>
   list_all exact_claim_ref cs \<and> distinct (map rclaim_Path cs) \<and> rclaim_Path ` set cs \<inter> fst ` set ps = {} \<and> qs = rev (map selection_entry cs) @ ps"
proof (induction cs arbitrary: ps)
  case (Cons c cs)
  show ?case
    using Cons.IH by (auto simp: exact_claim_ref_def map_of_eq_None_iff)
qed auto

lemma ref_eqI: "ref_Namespace a = None \<Longrightarrow> ref_Namespace b = None \<Longrightarrow> ref_Name a = ref_Name b \<Longrightarrow> ref_UID a = ref_UID b \<Longrightarrow> a = (b :: ExactLocalReference)"
  by simp

text \<open>Taking the entry of a path out of a map with distinct keys.\<close>

lemma mset_filter_key:
  assumes "distinct (map fst ps)" "map_of ps k = Some v"
  shows "mset ps = add_mset (k, v) (mset (filter (\<lambda>e. fst e \<noteq> k) ps))"
  using assms
proof (induction ps)
  case (Cons p ps)
  show ?case
  proof (cases "fst p = k")
    case True
    then have "k \<notin> fst ` set ps" using Cons.prems(1) by auto
    then have "filter (\<lambda>e. fst e \<noteq> k) ps = ps" by (intro filter_True) force
    then show ?thesis using True Cons.prems(2) by (cases p) simp
  next
    case False
    then show ?thesis using Cons by (cases p) auto
  qed
qed simp

lemma first_entry: "mset (map selection_entry (c # cs)) = mset ps \<Longrightarrow> selection_entry c \<in> set ps"
  by (drule mset_eq_setD) auto

lemma takePaths_iff:
  assumes "distinct (map fst ps)" "\<forall>e\<in>set ps. ref_Namespace (snd e) = None"
  shows "takePaths cs ps = Some [] \<longleftrightarrow> mset (map selection_entry cs) = mset ps"
  using assms
proof (induction cs arbitrary: ps)
  case Nil
  then show ?case by (cases ps) auto
next
  case (Cons c cs)
  show ?case
  proof (cases "map_of ps (rclaim_Path c)")
    case None
    then have "rclaim_Path c \<notin> fst ` set ps" by (simp add: map_of_eq_None_iff)
    then have "selection_entry c \<notin> set ps" by (metis fst_conv image_eqI)
    then show ?thesis using None first_entry [of c cs ps] by auto
  next
    case (Some w)
    let ?ps = "filter (\<lambda>e. fst e \<noteq> rclaim_Path c) ps"
    have ps: "mset ps = add_mset (rclaim_Path c, w) (mset ?ps)" using mset_filter_key [OF Cons.prems(1) Some] .
    have w: "ref_Namespace w = None" using map_of_SomeD [OF Some] Cons.prems(2) by force
    have IH: "takePaths cs ?ps = Some [] \<longleftrightarrow> mset (map selection_entry cs) = mset ?ps"
      using Cons.prems by (intro Cons.IH) (auto simp: distinct_map_filter)
    have here: "(rclaim_Path c, w) \<in> set ps" using map_of_SomeD [OF Some] .
    have unique: "rclaim_ClaimRef c = w" if "mset (map selection_entry (c # cs)) = mset ps"
    proof -
      have "selection_entry c \<in> set ps" using first_entry [OF that] .
      then show ?thesis using eq_key_imp_eq_value [OF Cons.prems(1) _ here] by blast
    qed
    show ?thesis
    proof (cases "rclaim_ClaimRef c = w")
      case True
      then have "mset (map selection_entry (c # cs)) = mset ps \<longleftrightarrow> mset (map selection_entry cs) = mset ?ps"
        by (simp only: ps list.map mset.simps add_mset_add_mset_same_iff)
      then show ?thesis using Some w IH True by simp
    next
      case False
      then have "ref_Namespace (rclaim_ClaimRef c) \<noteq> None \<or> ref_Name (rclaim_ClaimRef c) \<noteq> ref_Name w \<or> ref_UID (rclaim_ClaimRef c) \<noteq> ref_UID w"
        using w ref_eqI by blast
      then show ?thesis using Some unique False by auto
    qed
  qed
qed

lemma mset_selection_entry: "mset (map selection_entry cs) = mset (map selection_entry cs') \<longleftrightarrow> mset cs = mset cs'"
proof
  have inj: "inj selection_entry" by (rule injI) simp
  assume "mset (map selection_entry cs) = mset (map selection_entry cs')"
  then show "mset cs = mset cs'" using injD [OF multiset.inj_map [OF inj]] by simp
qed simp

lemma sameDataSelection_iff:
  "sameDataSelection left right \<longleftrightarrow>
   (\<exists>l r. left = Some l \<and> right = Some r \<and> exact_selection l \<and> rdata_Identity r = rdata_Identity l \<and> mset (rdata_Claims r) = mset (rdata_Claims l))"
proof -
  have "sameDataSelection (Some l) (Some r) \<longleftrightarrow>
      exact_selection l \<and> rdata_Identity r = rdata_Identity l \<and> mset (rdata_Claims r) = mset (rdata_Claims l)" for l r
  proof (cases "selectionPaths (rdata_Claims l) []")
    case None
    then have "\<not> exact_selection l" using selectionPaths_Some [of "rdata_Claims l" "[]"] by (auto simp: exact_selection_def)
    then show ?thesis using None by (auto simp: sameDataSelection_def)
  next
    case (Some ps)
    then have ps: "list_all exact_claim_ref (rdata_Claims l)" "distinct (map rclaim_Path (rdata_Claims l))" "ps = rev (map selection_entry (rdata_Claims l))"
      by (auto simp: selectionPaths_Some)
    have take: "takePaths (rdata_Claims r) ps = Some [] \<longleftrightarrow> mset (rdata_Claims r) = mset (rdata_Claims l)"
    proof (subst takePaths_iff)
      show "distinct (map fst ps)" using ps(2,3) by (simp add: comp_def flip: rev_map)
      show "\<forall>e\<in>set ps. ref_Namespace (snd e) = None" using ps(1,3) by (auto simp: list_all_iff exact_claim_ref_def)
      show "mset (map selection_entry (rdata_Claims r)) = mset ps \<longleftrightarrow> mset (rdata_Claims r) = mset (rdata_Claims l)"
        using mset_selection_entry [of "rdata_Claims r" "rdata_Claims l"] ps(3) by simp
    qed
    have "length (rdata_Claims l) = length (rdata_Claims r)" if "mset (rdata_Claims r) = mset (rdata_Claims l)"
      using that by (metis mset_eq_length)
    then show ?thesis using Some ps take by (auto simp: sameDataSelection_def exact_selection_def split: option.splits)
  qed
  then show ?thesis by (cases left; cases right) (auto simp: sameDataSelection_def)
qed

text \<open>
  C31. Two data selections are the same exactly if both are present, the left one is a complete selection (an
  identity, at least one claim, exact local claim references, one claim per path), the identities agree and the
  lists of claims are permutations of each other: the loops over the two lists decide equality of the two sets of
  claims, independent of their order.
\<close>
theorem sameDataSelection_set_equality:
  "sameDataSelection left right \<longleftrightarrow>
   (\<exists>l r. left = Some l \<and> right = Some r \<and> exact_selection l \<and> rdata_Identity r = rdata_Identity l \<and> mset (rdata_Claims r) = mset (rdata_Claims l))"
  by (rule sameDataSelection_iff)

section \<open>The target of a destroy operation\<close>

lemma adapterPath_declared: "adapterPath adapter p \<noteq> [] \<Longrightarrow> p \<in> pp_Name ` set (def_PersistentPaths adapter)"
proof -
  assume "adapterPath adapter p \<noteq> []"
  then obtain q where "map_of (rev (map (\<lambda>p. (pp_Name p, pp_MountPath p)) (def_PersistentPaths adapter))) p = Some q"
    by (auto simp: adapterPath_def mget_def split: option.splits)
  then show ?thesis by (auto dest!: map_of_SomeD)
qed

lemma target_claims:
  assumes "errors_along (targetClaimError adapter) [] claims = None"
  shows "rclaim_Path ` set claims \<subseteq> pp_Name ` set (def_PersistentPaths adapter)"
    and "distinct (map (\<lambda>c. ref_Name (rclaim_ClaimRef c)) claims)" "distinct (map (\<lambda>c. ref_UID (rclaim_ClaimRef c)) claims)"
proof -
  have "adapterPath adapter (rclaim_Path c) \<noteq> []" if "c \<in> set claims" for c
    using errors_along_each [OF assms that] by (auto simp: targetClaimError_def guard_simps)
  then show "rclaim_Path ` set claims \<subseteq> pp_Name ` set (def_PersistentPaths adapter)" using adapterPath_declared by blast
  show "distinct (map (\<lambda>c. ref_Name (rclaim_ClaimRef c)) claims)"
    using errors_along_distinct [OF assms, of "\<lambda>c. ref_Name (rclaim_ClaimRef c)"] by (simp add: targetClaimError_def guard_simps)
  show "distinct (map (\<lambda>c. ref_UID (rclaim_ClaimRef c)) claims)"
    using errors_along_distinct [OF assms, of "\<lambda>c. ref_UID (rclaim_ClaimRef c)"] by (simp add: targetClaimError_def guard_simps)
qed

text \<open>One claim per path: by the selection of the server, or by the paths of the backup when the server is gone.\<close>

lemma same_length_distinct: "distinct ys \<Longrightarrow> set ys \<subseteq> set xs \<Longrightarrow> length xs \<le> length ys \<Longrightarrow> distinct xs"
  by (rule card_distinct) (metis antisym card_length card_mono distinct_card finite_set order_trans)

lemma backup_paths_distinct: "ValidateInput we (preflightInput d b) = None \<Longrightarrow> distinct (map dp_Name (src_Paths (the (st_Source (gb_Status b)))))"
  using worker_paths_distinct(1) [of "backupInput (preflightInput d b)"]
  by (auto simp: ValidateInput_def guard_simps backupInput_def preflightInput_def Let_def)

lemma cold_paths_distinct:
  assumes "cold r d permit m n subj"
  shows "distinct (map rclaim_Path (claimsOf d))"
proof -
  obtain k where k: "server_cold r d (dsub_backup subj) k" using assms unfolding cold_def seen_def by blast
  show ?thesis
  proof (cases "cl_GameServer r k (namespaceOf d) (ref_Name (dt_GameServer (targetOf d)))")
    case (Inr server)
    then have "sameDataSelection (gst_ObservedData (gs_Status server)) (Some (dt_Data (targetOf d)))"
      using k by (simp add: server_cold_def serverNotStopped_def Let_def)
    then obtain l where l: "exact_selection l" "mset (claimsOf d) = mset (rdata_Claims l)" using sameDataSelection_iff by auto
    then have "mset (map rclaim_Path (claimsOf d)) = mset (map rclaim_Path (rdata_Claims l))" by simp
    then show ?thesis using l(1) unfolding exact_selection_def by (metis mset_eq_imp_distinct_iff)
  next
    case (Inl e)
    then obtain b where b: "dsub_backup subj = Some b" using k by (auto simp: server_cold_def split: ApiError.splits)
    let ?paths = "src_Paths (the (st_Source (gb_Status b)))"
    have ok: "backup_proves r d (dsub_definition subj) b" "ValidateInput (gdr_Worker r) (preflightInput d b) = None"
      using assms b by (auto simp: cold_def)
    have "\<exists>c\<in>set (claimsOf d). dp_Name p = rclaim_Path c" if "p \<in> set ?paths" for p
    proof -
      have "backupPathError (dsub_definition subj) d p = None" using ok(1) that by (simp add: backup_proves_def)
      then show ?thesis by (simp add: backupPathError_def guard_simps list_ex_iff) metis
    qed
    then have "set (map dp_Name ?paths) \<subseteq> set (map rclaim_Path (claimsOf d))" by auto
    moreover have "length (claimsOf d) = length ?paths" using ok(1) by (simp add: backup_proves_def backupUnproven_def Let_def)
    ultimately show ?thesis using same_length_distinct [OF backup_paths_distinct [OF ok(2)], of "map rclaim_Path (claimsOf d)"] by simp
  qed
qed

lemma resolve_cold:
  assumes "run_state (resolve r d permit) s = (Inr subj, t)"
  shows "cold r d permit (ses_calls s) (ses_calls t) subj"
  using wp_run [OF assms observesD [OF observes_resolve]] by blast

text \<open>
  C28. When the gate of the destroy controller accepts a target, its claims are the whole world of the game: with
  a catalog that serves validated definitions, every persistent path of the game is named by exactly one claim,
  no claim names another path, and no two claims share a name or a UID.
\<close>
theorem resolve_whole_world:
  assumes "gdr_Catalog r = catalogGet lib ds" "run_state (resolve r d permit) s = (Inr subj, t)"
  shows "set (map rclaim_Path (claimsOf d)) = set (map pp_Name (def_PersistentPaths (dsub_definition subj))) \<and>
    distinct (map rclaim_Path (claimsOf d)) \<and> distinct (map (\<lambda>c. ref_Name (rclaim_ClaimRef c)) (claimsOf d)) \<and>
    distinct (map (\<lambda>c. ref_UID (rclaim_ClaimRef c)) (claimsOf d))"
proof -
  let ?paths = "def_PersistentPaths (dsub_definition subj)"
  have cold: "cold r d permit (ses_calls s) (ses_calls t) subj" using assms(2) by (rule resolve_cold)
  have parts: "catalogGet lib ds (dt_Game (targetOf d)) = Inr (dsub_definition subj)" "\<not> uncertified (dsub_definition subj) d"
    "errors_along (targetClaimError (dsub_definition subj)) [] (claimsOf d) = None"
    using cold assms(1) by (auto simp: cold_def)
  note claims = target_claims [OF parts(3)] and paths = cold_paths_distinct [OF cold]
  have "card (set (map rclaim_Path (claimsOf d))) = card (set (map pp_Name ?paths))"
    using distinct_card [OF paths] distinct_card [OF catalog.get_paths_distinct [OF parts(1)]] parts(2) by (simp add: uncertified_def)
  then have "set (map rclaim_Path (claimsOf d)) = set (map pp_Name ?paths)"
    using claims(1) by (intro card_subset_eq) auto
  then show ?thesis using claims(2,3) paths by blast
qed

end
