(* ===== verification/ServerPlanProps.thy ===== *)
theory ServerPlanProps
  imports ServerPlan DataSelectionProps
begin

text \<open>
  What the planner promises: the claims of a plan are the selected world, one per persistent path of the adapter,
  and the workload mounts exactly those claims.
\<close>

section \<open>Selection\<close>

lemma map_of_keys:
  assumes "distinct (map f xs)" "x \<in> set xs"
  shows "map_of (map (\<lambda>x. (f x, g x)) xs) (f x) = Some (g x)"
  using assms by (induction xs) (auto simp: rev_image_eqI)

lemma cover_by_length:
  assumes "distinct xs" "set xs \<subseteq> set ys" "length xs = length ys"
  shows "set xs = set ys"
proof (rule card_subset_eq)
  show "card (set xs) = card (set ys)"
    using assms card_mono [OF finite_set assms(2)] card_length [of ys] by (simp add: distinct_card)
qed (use assms in simp_all)

lemma selected_claims:
  assumes "retainedDataSelection lib server d = Inr (identity, references)" "selectedData server = Some selection"
  shows "identity = rdata_Identity selection" "identity \<noteq> []"
    and "set (map rclaim_Path (rdata_Claims selection)) = set (map pp_Name (def_PersistentPaths d))"
    and "distinct (map rclaim_Path (rdata_Claims selection))"
    and "\<And>c. c \<in> set (rdata_Claims selection) \<Longrightarrow> references (rclaim_Path c) = Some (rclaim_ClaimRef c) \<and> ref_Name (rclaim_ClaimRef c) \<noteq> [] \<and> ref_UID (rclaim_ClaimRef c) \<noteq> []"
proof -
  have none: "rdata_Identity selection \<noteq> []" "length (rdata_Claims selection) = length (def_PersistentPaths d)"
    "errors_along (selectedClaimError d) [] (rdata_Claims selection) = None"
    and refs: "identity = rdata_Identity selection" "references = map_of (map (\<lambda>c. (rclaim_Path c, rclaim_ClaimRef c)) (rdata_Claims selection))"
    using assms by (auto simp: retainedDataSelection_def guard_simps split: option.splits)
  have each: "rclaim_Path c \<in> set (map pp_Name (def_PersistentPaths d))" "ref_Name (rclaim_ClaimRef c) \<noteq> []" "ref_UID (rclaim_ClaimRef c) \<noteq> []"
    if "c \<in> set (rdata_Claims selection)" for c
    using errors_along_each [OF none(3) that] by (auto simp: selectedClaimError_def guard_simps)
  show dist: "distinct (map rclaim_Path (rdata_Claims selection))"
    using errors_along_distinct [OF none(3), of rclaim_Path] by (simp add: selectedClaimError_def guard_simps)
  show "set (map rclaim_Path (rdata_Claims selection)) = set (map pp_Name (def_PersistentPaths d))"
    by (rule cover_by_length [OF dist]) (use each none in auto)
  show "identity = rdata_Identity selection" "identity \<noteq> []" using refs none by simp_all
  show "references (rclaim_Path c) = Some (rclaim_ClaimRef c) \<and> ref_Name (rclaim_ClaimRef c) \<noteq> [] \<and> ref_UID (rclaim_ClaimRef c) \<noteq> []"
    if "c \<in> set (rdata_Claims selection)" for c
    using each [OF that] map_of_keys [OF dist that] refs by simp
qed

lemma unselected_claims:
  assumes "retainedDataSelection lib server d = Inr (identity, references)" "selectedData server = None"
  shows "DataIdentity (meta_UID (gs_Meta server)) = Some identity" "references = Map.empty"
  using assms by (auto simp: retainedDataSelection_def split: option.splits)

section \<open>Claims\<close>

text \<open>A planned claim of a path: the referenced claim, or the generated name where no claim is referenced.\<close>

definition claim_planned :: "'z ServerLibrary_scheme \<Rightarrow> GameServer \<Rightarrow> Definition \<Rightarrow> string \<Rightarrow> (string \<rightharpoonup> ExactLocalReference) \<Rightarrow> PersistentPath \<Rightarrow> DataClaimPlan \<Rightarrow> bool" where
  "claim_planned lib server d identity references p claim \<longleftrightarrow>
     (\<exists>name. dcp_Desired claim = buildDataClaim server d (pp_Name p) name identity \<and>
        dcp_ExternallySelected claim = externallySelected server \<and>
        (case references (pp_Name p) of
           Some reference \<Rightarrow> name = ref_Name reference \<and> dcp_RequiredUID claim = ref_UID reference
         | None \<Rightarrow> dataClaimName lib (meta_Name (gs_Meta server)) (def_ID d) (pp_Name p) = Some name \<and> dcp_RequiredUID claim = []))"

lemma planClaims_planned:
  "planClaims lib server d identity references paths = Inr claims \<Longrightarrow> list_all2 (claim_planned lib server d identity references) paths claims"
proof (induction paths arbitrary: claims)
  case Nil
  then show ?case by simp
next
  case (Cons p paths)
  have "\<exists>claim rest. claims = claim # rest \<and> planClaims lib server d identity references paths = Inr rest \<and> claim_planned lib server d identity references p claim"
    using Cons.prems by (auto simp: claim_planned_def split: option.splits sum.splits)
  then show ?case using Cons.IH by auto
qed

lemma Build_claims:
  assumes "Build lib server d = Inr plan"
  obtains references where "retainedDataSelection lib server d = Inr (plan_DataIdentity plan, references)"
    "list_all2 (claim_planned lib server d (plan_DataIdentity plan) references) (def_PersistentPaths d) (plan_DataClaims plan)"
  using assms planClaims_planned [of lib server d]
  by (auto simp: Build_def Let_def split: option.splits sum.splits prod.splits if_splits)

lemma buildDataClaim_fields [simp]:
  "meta_Name (pvc_Meta (buildDataClaim server d path name identity)) = name"
  "meta_Namespace (pvc_Meta (buildDataClaim server d path name identity)) = meta_Namespace (gs_Meta server)"
  "meta_OwnerReferences (pvc_Meta (buildDataClaim server d path name identity)) = []"
  "mget (meta_Labels (pvc_Meta (buildDataClaim server d path name identity))) LabelDataPath = path"
  "mget (meta_Labels (pvc_Meta (buildDataClaim server d path name identity))) LabelDataIdentity = identity"
  "mget (meta_Labels (pvc_Meta (buildDataClaim server d path name identity))) LabelDataPolicy = ''retain''"
  by (simp_all add: buildDataClaim_def freshMeta_def mget_def kube_names)

abbreviation claim_path :: "DataClaimPlan \<Rightarrow> string" where
  "claim_path claim \<equiv> mget (meta_Labels (pvc_Meta (dcp_Desired claim))) LabelDataPath"

lemma planned_paths:
  "list_all2 (claim_planned lib server d identity references) paths claims \<Longrightarrow> map claim_path claims = map pp_Name paths"
  by (induction rule: list_all2_induct) (auto simp: claim_planned_def)

lemma planned_each:
  assumes "list_all2 (claim_planned lib server d identity references) paths claims" "claim \<in> set claims"
  shows "\<exists>p\<in>set paths. claim_planned lib server d identity references p claim"
  using assms by (induction rule: list_all2_induct) auto

lemma planned_fresh:
  assumes "Build lib server d = Inr plan" "selectedData server = None" "claim \<in> set (plan_DataClaims plan)"
  shows "dcp_RequiredUID claim = []"
  by (rule Build_claims [OF assms(1)]) (auto dest!: planned_each [OF _ assms(3)] unselected_claims(2) [OF _ assms(2)] simp: claim_planned_def)

lemma planned_selected:
  assumes "Build lib server d = Inr plan" "selectedData server = Some selection" "claim \<in> set (plan_DataClaims plan)"
  shows "\<exists>c\<in>set (rdata_Claims selection). rclaim_Path c = claim_path claim \<and> ref_Name (rclaim_ClaimRef c) = meta_Name (pvc_Meta (dcp_Desired claim)) \<and>
    ref_UID (rclaim_ClaimRef c) = dcp_RequiredUID claim \<and> dcp_RequiredUID claim \<noteq> []"
proof (rule Build_claims [OF assms(1)])
  fix references
  assume sel: "retainedDataSelection lib server d = Inr (plan_DataIdentity plan, references)"
    and "list_all2 (claim_planned lib server d (plan_DataIdentity plan) references) (def_PersistentPaths d) (plan_DataClaims plan)"
  then obtain p where p: "p \<in> set (def_PersistentPaths d)" "claim_planned lib server d (plan_DataIdentity plan) references p claim"
    using planned_each assms(3) by blast
  then have "pp_Name p \<in> set (map rclaim_Path (rdata_Claims selection))" using selected_claims(3) [OF sel assms(2)] by simp
  then obtain c where c: "c \<in> set (rdata_Claims selection)" "rclaim_Path c = pp_Name p" by auto
  from selected_claims(5) [OF sel assms(2) c(1)] p(2) c show ?thesis by (auto simp: claim_planned_def)
qed

text \<open>The counterpart: every claim of the selection is planned.\<close>

lemma selected_planned:
  assumes "Build lib server d = Inr plan" "selectedData server = Some selection" "c \<in> set (rdata_Claims selection)"
  shows "\<exists>claim\<in>set (plan_DataClaims plan). claim_path claim = rclaim_Path c \<and> meta_Name (pvc_Meta (dcp_Desired claim)) = ref_Name (rclaim_ClaimRef c) \<and>
    dcp_RequiredUID claim = ref_UID (rclaim_ClaimRef c)"
proof (rule Build_claims [OF assms(1)])
  fix references
  assume sel: "retainedDataSelection lib server d = Inr (plan_DataIdentity plan, references)"
    and all: "list_all2 (claim_planned lib server d (plan_DataIdentity plan) references) (def_PersistentPaths d) (plan_DataClaims plan)"
  have "rclaim_Path c \<in> set (map pp_Name (def_PersistentPaths d))" using selected_claims(3) [OF sel assms(2)] assms(3) by auto
  then obtain claim where "claim \<in> set (plan_DataClaims plan)" "claim_path claim = rclaim_Path c"
    using planned_paths [OF all] by (metis (mono_tags, lifting) imageE list.set_map)
  moreover from planned_selected [OF assms(1,2) this(1)] obtain c' where "c' \<in> set (rdata_Claims selection)" "rclaim_Path c' = claim_path claim"
    "ref_Name (rclaim_ClaimRef c') = meta_Name (pvc_Meta (dcp_Desired claim))" "ref_UID (rclaim_ClaimRef c') = dcp_RequiredUID claim" by auto
  moreover have "c' = c" using calculation assms(3) selected_claims(4) [OF sel assms(2)] by (metis distinct_map inj_onD)
  ultimately show ?thesis by metis
qed

section \<open>The workload\<close>

lemma claimNames_planned:
  assumes "length paths = length claims" "distinct (map pp_Name paths)"
  shows "map (\<lambda>p. mget (claimNames paths claims) (pp_Name p)) paths = map (\<lambda>c. meta_Name (pvc_Meta (dcp_Desired c))) claims"
proof -
  have keep: "foldl (\<lambda>m (p, c). m(pp_Name p \<mapsto> meta_Name (pvc_Meta (dcp_Desired c)))) m (zip ps cs) k = m k" if "k \<notin> pp_Name ` set ps" for m ps cs k
    using that by (induction ps arbitrary: m cs) (simp, case_tac cs, auto)
  have "map (\<lambda>p. mget (foldl (\<lambda>m (p, c). m(pp_Name p \<mapsto> meta_Name (pvc_Meta (dcp_Desired c)))) m (zip paths claims)) (pp_Name p)) paths =
      map (\<lambda>c. meta_Name (pvc_Meta (dcp_Desired c))) claims" for m
    using assms by (induction paths claims arbitrary: m rule: list_induct2) (auto simp: keep mget_def)
  then show ?thesis by (simp add: claimNames_def)
qed

lemma workloadVolumes_planned:
  assumes "map claim_path claims = map pp_Name (def_PersistentPaths d)" "distinct (map pp_Name (def_PersistentPaths d))"
  shows "workloadVolumes d (mget (claimNames (def_PersistentPaths d) claims)) configurationName =
    map (\<lambda>claim. \<lparr> wv_Name = claim_path claim, wv_Source = WorkloadClaim (meta_Name (pvc_Meta (dcp_Desired claim))) False \<rparr>) claims @
    [\<lparr> wv_Name = configurationVolumeName, wv_Source = WorkloadConfigMap configurationName \<rparr>]"
proof -
  have "map (\<lambda>(path, name). \<lparr> wv_Name = path, wv_Source = WorkloadClaim name False \<rparr>)
      (zip (map pp_Name (def_PersistentPaths d)) (map (\<lambda>p. mget (claimNames (def_PersistentPaths d) claims) (pp_Name p)) (def_PersistentPaths d))) =
    map (\<lambda>(path, name). \<lparr> wv_Name = path, wv_Source = WorkloadClaim name False \<rparr>)
      (zip (map claim_path claims) (map (\<lambda>c. meta_Name (pvc_Meta (dcp_Desired c))) claims))"
    using claimNames_planned [OF _ assms(2), of claims] assms(1) by (metis length_map)
  then show ?thesis by (simp add: workloadVolumes_def zip_map_map zip_same_conv_map comp_def)
qed

lemma Build_workload:
  assumes "Build lib server d = Inr plan" "plan_Workload plan = Some w"
  obtains resolved files where "w = buildWorkload lib server d (workloadLabels server) resolved files (meta_Name (gs_Meta server) @ ''-configuration'')
      (mget (claimNames (def_PersistentPaths d) (plan_DataClaims plan)))"
    "gss_DesiredState (gs_Spec server) = DesiredStateRunning" "RenderSettingsFiles d (gss_Settings (gs_Spec server)) = Inr files"
    "ResolvedImage (plan_library lib) (def_ImageRepository d) (gss_ImageDigest (gs_Spec server)) = Inr resolved"
proof -
  have "gss_DesiredState (gs_Spec server) \<noteq> DesiredStateStopped \<Longrightarrow> gss_DesiredState (gs_Spec server) = DesiredStateRunning"
    using assms by (auto simp: Build_def validateIntent_def guard_simps split: option.splits)
  then show ?thesis using assms that
    by (auto simp: Build_def Let_def buildConfiguration_def freshMeta_def split: option.splits sum.splits prod.splits if_splits)
qed

lemma Build_paths_distinct:
  assumes "Build lib server d = Inr plan"
  shows "distinct (map pp_Name (def_PersistentPaths d))"
  using assms by (intro persistent_names_distinct) (auto simp: Build_def validateIntent_def guard_simps Validate_def split: option.splits)

end
