(* ===== verification/CatalogProps.thy ===== *)
theory CatalogProps
  imports Catalog "HOL-Library.Multiset"
begin

text \<open>
  The correctness properties of the game contract: mounts, rendered settings, digests, image
  references and tags, and the catalog, with the production adapter as their instance.
\<close>

section \<open>A concrete library and the production adapter\<close>

definition exampleLibrary :: GameLibrary where
  "exampleLibrary = \<lparr>
     lib_ParseIP = (\<lambda>_. False),
     lib_Compile = (\<lambda>_. Some (\<lambda>s. s \<noteq> [] \<and> list_all (\<lambda>c. is_digit c \<or> c = CHR ''.'') s)),
     lib_Unmarshal = (\<lambda>_. Some (JObject [(''type'', JString ''object'')])),
     lib_IsDNS1123Label = dns_label \<rparr>"

definition exampleDecode :: "settings decoder" where
  "exampleDecode raw = Inr (\<lparr> fs_Name = ''Factory'', fs_Description = [], fs_MaxPlayers = 16, fs_Visibility = ''lan'' \<rparr>, RestEOF)"

lemmas string_eval = HasPrefix_def HasSuffix_def Contains_char ContainsAny_def TrimSpace_def space_encodings_def
  dns_label_def dns_name_label_def namePattern_def char_class_defs

text \<open>
  The adapter passes validation for every library that treats its host name, version pattern,
  schema and target name the documented way.
\<close>

lemma factorio_repository:
  "\<not> lib_ParseIP lib ''ghcr.io'' \<Longrightarrow> validateRepository lib ''ghcr.io/gobha-me/arcadectl-factorio'' = None"
  by (simp add: validateRepository_def guard_simps string_eval repositoryNamePattern_def repository_separator_def repositoryHost_def)

lemma factorio_version_policy:
  assumes "lib_Compile lib (''^(?:'' @ take (length versionPattern - 2) (drop 1 versionPattern) @ '')$'') = Some match"
    and "\<not> match []"
  shows "validateVersionPolicy lib (Some \<lparr> vp_Pattern = versionPattern, vp_TagPrefix = [] \<rparr>) = None"
  using assms
  by (simp add: validateVersionPolicy_def compileVersionPattern_def guard_simps maxVersionPattern_def maxTagPrefix_def
      versionPattern_def HasPrefix_def HasSuffix_def)

lemma factorio_schema:
  assumes "lib_Unmarshal lib factorioSchema = Some (JObject kvs)" "map_of kvs ''type'' = Some (JString ''object'')"
    and "rejectSchemaReferences (JObject kvs) = None"
  shows "validateSettingsSchema lib factorioSchema = None"
  using assms by (simp add: validateSettingsSchema_def guard_simps factorioSchema_def newline_def)

lemma factorio_mounts:
  "validatePersistentPaths [\<lparr> pp_Name = ''world'', pp_MountPath = ''/factorio'' \<rparr>] = None"
  "lib_IsDNS1123Label lib ''server-settings'' \<Longrightarrow>
   validateConfigurationTargets lib [\<lparr> ct_Name = ''server-settings'', ct_MountPath = ''/factorio/config/server-settings.json'' \<rparr>]
     [\<lparr> pp_Name = ''world'', pp_MountPath = ''/factorio'' \<rparr>] = None"
  by (simp_all add: validatePersistentPaths_def persistentPathError_def validateConfigurationTargets_def configurationTargetError_def
      guard_simps string_eval cleanMount_def path_Clean_def path_elements_def IsAbs_def pathsOverlap_def platformMountRoot_def
      nestedBelowPersistentPath_def TrimSuffix_def)

lemma factorio_valid:
  assumes "\<not> lib_ParseIP lib ''ghcr.io''"
    and "lib_Compile lib (''^(?:'' @ take (length versionPattern - 2) (drop 1 versionPattern) @ '')$'') = Some match" "\<not> match []"
    and "lib_Unmarshal lib factorioSchema = Some (JObject kvs)" "map_of kvs ''type'' = Some (JString ''object'')"
    and "rejectSchemaReferences (JObject kvs) = None"
    and "lib_IsDNS1123Label lib ''server-settings''"
  shows "Validate lib (factorio_Definition decode) = None"
  using factorio_repository [OF assms(1)] factorio_version_policy [OF assms(2,3)] factorio_schema [OF assms(4-6)]
    factorio_mounts(1) factorio_mounts(2) [OF assms(7)]
  by (simp add: Validate_def factorio_Definition_def guard_simps validateEndpoints_def endpointError_def readinessError_def
      string_eval validateRuntimeIdentity_def maxLinuxID_def)

lemma example_valid: "Validate exampleLibrary (factorio_Definition decode) = None"
  by (rule factorio_valid [where kvs = "[(''type'', JString ''object'')]" and
        match = "\<lambda>s. s \<noteq> [] \<and> list_all (\<lambda>c. is_digit c \<or> c = CHR ''.'') s"])
     (simp_all add: exampleLibrary_def dns_label_def char_class_defs)

lemma example_New: "New exampleLibrary [factorio_Definition decode] = Inr \<lparr> cat_definitions = [(''factorio'', factorio_Definition decode)] \<rparr>"
  using example_valid [of decode] by (simp add: New_def factorio_Definition_def)

lemma digit_char_not_NUL: "d < 10 \<Longrightarrow> CHR 0x00 \<noteq> digit_char d"
proof
  assume "d < 10" "CHR 0x00 = digit_char d"
  then have "(of_char (CHR 0x00) :: nat) = 48 + d" by simp
  then show False by simp
qed

lemma example_render:
  "\<exists>contents. \<forall>raw. RenderSettingsFiles (factorio_Definition exampleDecode) raw =
      Inr [\<lparr> cf_Name = ''server-settings'', cf_MountPath = ''/factorio/config/server-settings.json'', cf_Contents = contents \<rparr>]"
  by (simp add: RenderSettingsFiles_def factorio_Definition_def renderSettings_def exampleDecode_def requireJSONEOF_def
      pairRenderedFiles_def marshalServerSettings_def json_key_def json_quote_def json_escape.simps utf8_size.simps
      json_escape_byte_def json_int_def json_bool_def newline_def utf8_Valid.simps MaxRenderedSettingsBytes_def
      nat_decimal_def digits_rev.simps digit_char_not_NUL)

section \<open>Mounts\<close>

text \<open>
  C27. A definition that passes \<^verbatim>\<open>Validate\<close> has persistent mounts that share no file with each other or
  with the reserved platform root: every file name lies in at most one of them and in none together
  with \<^verbatim>\<open>/arcadectl\<close>; and every configuration target is written into exactly one of them.
\<close>

theorem definition_mounts_disjoint:
  assumes "Validate lib d = None"
  shows "(\<forall>f. \<forall>p\<in>set (def_PersistentPaths d). \<forall>q\<in>set (def_PersistentPaths d).
        holds_file (pp_MountPath p) f \<and> holds_file (pp_MountPath q) f \<longrightarrow> p = q) \<and>
    (\<forall>f. \<forall>p\<in>set (def_PersistentPaths d). holds_file (pp_MountPath p) f \<longrightarrow> \<not> holds_file platformMountRoot f) \<and>
    (\<forall>t\<in>set (def_ConfigurationTargets d).
        \<exists>!p. p \<in> set (def_PersistentPaths d) \<and> holds_file (pp_MountPath p) (ct_MountPath t))"
proof -
  have paths: "validatePersistentPaths (def_PersistentPaths d) = None"
    and targets: "validateConfigurationTargets lib (def_ConfigurationTargets d) (def_PersistentPaths d) = None"
    using assms by (simp_all add: Validate_def guard_simps)
  have "p = q" if "p \<in> set (def_PersistentPaths d)" "q \<in> set (def_PersistentPaths d)"
    "holds_file (pp_MountPath p) f" "holds_file (pp_MountPath q) f" for p q f
    using persistent_unique_holder [OF paths that] .
  moreover have "\<not> holds_file platformMountRoot f" if "p \<in> set (def_PersistentPaths d)" "holds_file (pp_MountPath p) f" for p f
    using persistent_each [OF paths that(1)] holds_file_overlap [OF _ that(2)] by blast
  moreover have "\<exists>p\<in>set (def_PersistentPaths d). holds_file (pp_MountPath p) (ct_MountPath t)"
    if "t \<in> set (def_ConfigurationTargets d)" for t
    using nested_holds persistent_each [OF paths] target_each [OF targets that] by blast
  ultimately show ?thesis by (metis (no_types))
qed

theorem definition_mounts_disjoint_witness:
  "Validate exampleLibrary (factorio_Definition exampleDecode) = None \<and>
   (\<exists>!p. p \<in> set (def_PersistentPaths (factorio_Definition exampleDecode)) \<and>
      holds_file (pp_MountPath p) ''/factorio/config/server-settings.json'')"
  using definition_mounts_disjoint [OF example_valid [of exampleDecode]] example_valid [of exampleDecode]
  by (simp add: factorio_Definition_def)

section \<open>Rendered settings\<close>

lemma map_fst_snd_eq:
  "map f xs = map g ys \<Longrightarrow> map f' xs = map g' ys \<Longrightarrow> map (\<lambda>x. (f x, f' x)) xs = map (\<lambda>y. (g y, g' y)) ys"
  by (induction xs arbitrary: ys) (auto simp: Cons_eq_map_conv)

text \<open>
  When a validated definition renders settings, the result is in strictly increasing order of
  names, holds exactly the declared targets at their declared mount paths, each with the bytes the
  adapter's renderer returned for that name, never empty and always valid UTF-8, and at most 64 KiB
  in total.
\<close>

theorem RenderSettingsFiles_declared:
  assumes "Validate lib d = None" "RenderSettingsFiles d settings = Inr files"
  shows "sorted_wrt (<) (map cf_Name files) \<and>
    {(cf_Name f, cf_MountPath f) | f. f \<in> set files} = {(ct_Name t, ct_MountPath t) | t. t \<in> set (def_ConfigurationTargets d)} \<and>
    (\<exists>render rendered. def_RenderSettings d = Some render \<and> render settings = Inr rendered \<and>
      list_all (\<lambda>f. map_of rendered (cf_Name f) = Some (cf_Contents f) \<and> cf_Contents f \<noteq> [] \<and> utf8_Valid (cf_Contents f)) files) \<and>
    sum_list (map (length \<circ> cf_Contents) files) \<le> 65536"
proof -
  obtain render rendered files' where r: "def_RenderSettings d = Some render" "render settings = Inr rendered"
    "pairFiles rendered 0 (def_ConfigurationTargets d) = Inr files'" "files = sort_key cf_Name files'"
    using RenderSettingsFiles_pair [OF assms(2)] by auto
  have names: "map cf_Name files' = map ct_Name (def_ConfigurationTargets d)"
    "map cf_MountPath files' = map ct_MountPath (def_ConfigurationTargets d)"
    using pairFiles_names [OF r(3)] by auto
  have "distinct (map ct_Name (def_ConfigurationTargets d))"
    using assms(1) by (intro target_names_distinct [of lib _ "def_PersistentPaths d"]) (simp add: Validate_def guard_simps)
  have dist: "distinct (map cf_Name files)"
  proof -
    have "mset (map cf_Name files) = mset (map cf_Name files')" by (simp add: r(4))
    then have "distinct (map cf_Name files) = distinct (map cf_Name files')" by (rule mset_eq_imp_distinct_iff)
    with names(1) \<open>distinct (map ct_Name (def_ConfigurationTargets d))\<close> show ?thesis by simp
  qed
  have "sorted_wrt (<) (map cf_Name files)"
    using dist r(4) by (simp add: strict_sorted_iff)
  moreover have "map (\<lambda>f. (cf_Name f, cf_MountPath f)) files' = map (\<lambda>t. (ct_Name t, ct_MountPath t)) (def_ConfigurationTargets d)"
    using names by (rule map_fst_snd_eq)
  then have "set (map (\<lambda>f. (cf_Name f, cf_MountPath f)) files') = set (map (\<lambda>t. (ct_Name t, ct_MountPath t)) (def_ConfigurationTargets d))"
    by simp
  moreover have "list_all (\<lambda>f. map_of rendered (cf_Name f) = Some (cf_Contents f) \<and> cf_Contents f \<noteq> [] \<and> utf8_Valid (cf_Contents f)) files"
    using pairFiles_contents [OF r(3)] r(4) by (auto simp: list_all_iff)
  moreover have "sum_list (map (length \<circ> cf_Contents) files') \<le> 65536"
    using pairFiles_size [OF r(3)] by (simp add: MaxRenderedSettingsBytes_def)
  moreover have "mset (map (length \<circ> cf_Contents) files) = mset (map (length \<circ> cf_Contents) files')"
    by (simp add: r(4))
  then have "sum_list (map (length \<circ> cf_Contents) files) = sum_list (map (length \<circ> cf_Contents) files')"
    by (metis sum_mset_sum_list)
  ultimately show ?thesis using r by (auto simp: setcompr_eq_image)
qed

theorem RenderSettingsFiles_declared_witness:
  "\<exists>contents. RenderSettingsFiles (factorio_Definition exampleDecode) ''{}'' =
      Inr [\<lparr> cf_Name = ''server-settings'', cf_MountPath = ''/factorio/config/server-settings.json'', cf_Contents = contents \<rparr>]
    \<and> utf8_Valid contents \<and> length contents \<le> 65536"
proof -
  obtain contents where files: "RenderSettingsFiles (factorio_Definition exampleDecode) ''{}'' =
      Inr [\<lparr> cf_Name = ''server-settings'', cf_MountPath = ''/factorio/config/server-settings.json'', cf_Contents = contents \<rparr>]"
    using example_render by blast
  with RenderSettingsFiles_declared [OF example_valid files] show ?thesis by auto
qed

section \<open>The settings digest\<close>

text \<open>
  The settings digest is \<^verbatim>\<open>sha256:\<close> and 64 lowercase hexadecimal digits, and it identifies the
  rendered configuration: two definitions and settings with the same digest render the same files
  (names, mount paths and bytes), or the encodings of the two lists of files are themselves a
  collision of SHA-256.
\<close>

theorem SettingsDigest_identity:
  assumes "SettingsDigest d settings = Inr digest" "SettingsDigest d' settings' = Inr digest"
  shows "sha256_pattern digest \<and>
    (RenderSettingsFiles d settings = RenderSettingsFiles d' settings' \<or>
     (\<exists>fs gs. RenderSettingsFiles d settings = Inr fs \<and> RenderSettingsFiles d' settings' = Inr gs \<and>
        sha256_collision 32 (concat (map fileEncoding fs)) (concat (map fileEncoding gs))))"
proof -
  obtain fs gs where fs: "RenderSettingsFiles d settings = Inr fs" "RenderSettingsFiles d' settings' = Inr gs"
    and dig: "digest = ''sha256:'' @ hex (sha256 (concat (map fileEncoding fs)))"
      "digest = ''sha256:'' @ hex (sha256 (concat (map fileEncoding gs)))"
    using assms by (auto simp: SettingsDigest_def split: sum.splits)
  have "fs = gs \<or> sha256_collision 32 (concat (map fileEncoding fs)) (concat (map fileEncoding gs))"
    using settings.ident_inj [of fs gs] dig by simp
  moreover have "sha256_pattern digest"
    by (simp add: dig(1) sha256_pattern_append hex_alphabet del: append_Cons)
  ultimately show ?thesis using fs by auto
qed

theorem SettingsDigest_identity_witness:
  "\<exists>digest. SettingsDigest (factorio_Definition exampleDecode) ''{}'' = Inr digest \<and>
     SettingsDigest (factorio_Definition exampleDecode) ''{ }'' = Inr digest \<and> sha256_pattern digest"
proof -
  let ?d = "factorio_Definition exampleDecode"
  obtain digest where "SettingsDigest ?d ''{}'' = Inr digest" "SettingsDigest ?d ''{ }'' = Inr digest"
    using example_render by (auto simp: SettingsDigest_def)
  with SettingsDigest_identity [OF this] show ?thesis by blast
qed

section \<open>Versions and images\<close>

text \<open>
  Resolving a version gives the adapter's prefix followed by the version, at most 128 bytes, and
  the version satisfies the adapter's compiled pattern. The tag holds no slash, colon or at sign, so
  it cannot name another repository, tag or digest. Different versions get different tags.
\<close>

theorem ResolveVersionTag_safe:
  assumes "ResolveVersionTag lib d version = Inr tag"
  shows "\<exists>policy match. def_VersionPolicy d = Some policy \<and> tag = vp_TagPrefix policy @ version \<and>
      compileVersionPattern lib (vp_Pattern policy) = Some match \<and> match version \<and> length tag \<le> 128 \<and>
      set tag \<inter> {CHR ''/'', CHR '':'', CHR ''@''} = {} \<and>
      (\<forall>other. ResolveVersionTag lib d other = Inr tag \<longrightarrow> other = version)"
proof -
  obtain policy match where *: "def_VersionPolicy d = Some policy" "compileVersionPattern lib (vp_Pattern policy) = Some match"
    "match version" "tag = vp_TagPrefix policy @ version" "tagPattern tag"
    using assms by (auto simp: ResolveVersionTag_def Let_def split: if_splits option.splits)
  have "other = version" if "ResolveVersionTag lib d other = Inr tag" for other
    using that * by (auto simp: ResolveVersionTag_def Let_def split: if_splits option.splits)
  moreover have "set tag \<inter> {CHR ''/'', CHR '':'', CHR ''@''} = {}" "length tag \<le> 128"
    using tagPattern_chars [OF *(5)] *(5) by (auto simp: tagPattern_def)
  ultimately show ?thesis using * by blast
qed

theorem ResolveVersionTag_safe_witness:
  "ResolveVersionTag exampleLibrary (factorio_Definition exampleDecode) ''2.0.55'' = Inr ''2.0.55'' \<and>
   set ''2.0.55'' \<inter> {CHR ''/'', CHR '':'', CHR ''@''} = {}"
proof -
  have "ResolveVersionTag exampleLibrary (factorio_Definition exampleDecode) ''2.0.55'' = Inr ''2.0.55''"
    using factorio_repository [of exampleLibrary]
    by (simp add: ResolveVersionTag_def factorio_Definition_def validateVersionPolicy_def compileVersionPattern_def guard_simps
        maxVersionPattern_def maxTagPrefix_def maxVersionLength_def versionPattern_def HasPrefix_def HasSuffix_def
        exampleLibrary_def versionTokenPattern_def tagPattern_def token_char_def char_class_defs)
  with ResolveVersionTag_safe [OF this] show ?thesis by blast
qed

text \<open>
  An image reference is the repository, an at sign and the digest, and nothing is lost in it:
  cutting it at its first at sign gives back the repository and the digest, so references are
  equal only for equal repositories and digests.
\<close>

theorem ResolvedImage_roundtrip:
  assumes "ResolvedImage lib repository digest = Inr img"
  shows "Cut img (CHR ''@'') = (repository, digest, True) \<and> sha256_pattern digest \<and>
    (\<forall>r d. ResolvedImage lib r d = Inr img \<longrightarrow> r = repository \<and> d = digest)"
proof -
  have split: "validateRepository lib r = None \<and> sha256_pattern d \<and> img = r @ CHR ''@'' # d"
    if "ResolvedImage lib r d = Inr img" for r d
    using that by (auto simp: ResolvedImage_def split: option.splits if_splits)
  then have cut: "Cut img (CHR ''@'') = (r, d, True)" if "ResolvedImage lib r d = Inr img" for r d
    using that validateRepository_no_at Cut_append_sep by metis
  show ?thesis using cut [OF assms] split [OF assms] cut by fastforce
qed

theorem ResolvedImage_roundtrip_witness:
  "ResolvedImage exampleLibrary ''ghcr.io/gobha-me/arcadectl-factorio'' (''sha256:'' @ replicate 64 (CHR ''a'')) =
     Inr (''ghcr.io/gobha-me/arcadectl-factorio'' @ ''@'' @ ''sha256:'' @ replicate 64 (CHR ''a'')) \<and>
   Cut (''ghcr.io/gobha-me/arcadectl-factorio'' @ ''@'' @ ''sha256:'' @ replicate 64 (CHR ''a'')) (CHR ''@'') =
     (''ghcr.io/gobha-me/arcadectl-factorio'', ''sha256:'' @ replicate 64 (CHR ''a''), True)"
proof -
  have dig: "sha256_pattern (''sha256:'' @ replicate 64 (CHR ''a''))"
    by (rule sha256_pattern_append) (simp_all add: list_all_iff char_class_defs)
  have "validateRepository exampleLibrary ''ghcr.io/gobha-me/arcadectl-factorio'' = None"
    by (rule factorio_repository) (simp add: exampleLibrary_def)
  then have "ResolvedImage exampleLibrary ''ghcr.io/gobha-me/arcadectl-factorio'' g =
     Inr (''ghcr.io/gobha-me/arcadectl-factorio'' @ ''@'' @ g)" if "sha256_pattern g" for g
    using that by (simp add: ResolvedImage_def)
  from this [OF dig] ResolvedImage_roundtrip [OF this [OF dig]] show ?thesis by blast
qed

section \<open>The catalog\<close>

text \<open>
  A catalog that \<^verbatim>\<open>New\<close> accepts serves exactly the definitions it was given, each under its own
  identifier and each valid; no two share an identifier; and \<^verbatim>\<open>List\<close> returns every one of them once,
  in increasing order of identifiers.
\<close>

theorem catalog_contract:
  assumes "New lib ds = Inr c"
  shows "(\<forall>gid d. Get c gid = Inr d \<longleftrightarrow> d \<in> set ds \<and> def_ID d = gid) \<and>
    (\<forall>d\<in>set ds. Validate lib d = None) \<and>
    set (List c) = set ds \<and> sorted_wrt (<) (map def_ID (List c))"
proof -
  note inv = New_inv [OF assms]
  have look: "map_of (cat_definitions c) k = Some d \<longleftrightarrow> (k, d) \<in> set (cat_definitions c)" for k d
    by (rule map_of_eq_Some_iff) (rule inv(1))
  have ids: "def_ID (the (map_of (cat_definitions c) k)) = k" if k: "k \<in> set (map fst (cat_definitions c))" for k
  proof -
    obtain d where "(k, d) \<in> set (cat_definitions c)" using k by auto
    with look [of k d] inv(2) [of k d] show ?thesis by (metis option.sel)
  qed
  have "map def_ID (List c) = sort (map fst (cat_definitions c))"
    unfolding List_def using ids by (auto intro: map_idI)
  then have "sorted_wrt (<) (map def_ID (List c))" using inv(1) by (simp add: strict_sorted_iff)
  moreover have "set (List c) = snd ` set (cat_definitions c)"
    using look by (force simp: List_def image_iff)
  then have "set (List c) = set ds" using inv(3) by (simp add: image_image)
  moreover have "\<forall>d\<in>set ds. Validate lib d = None" using inv(2,3) by blast
  ultimately show ?thesis using Get_New [OF assms] by blast
qed

theorem catalog_contract_witness:
  "Get \<lparr> cat_definitions = [(''factorio'', factorio_Definition exampleDecode)] \<rparr> ''factorio'' = Inr (factorio_Definition exampleDecode) \<and>
   set (List \<lparr> cat_definitions = [(''factorio'', factorio_Definition exampleDecode)] \<rparr>) = {factorio_Definition exampleDecode}"
  using catalog_contract [OF example_New [of exampleDecode]] by (simp add: factorio_Definition_def)

text \<open>
  The production catalog loads and serves the Factorio adapter, for every library that does not
  read the registry host name as an IP address, compiles the version pattern to a matcher that
  refuses the empty string, decodes the embedded schema as an object of type object without
  references, and accepts the configuration target's name as a label.
\<close>

theorem Builtins_serves_factorio:
  assumes "\<not> lib_ParseIP lib ''ghcr.io''"
    and "lib_Compile lib (''^(?:'' @ take (length versionPattern - 2) (drop 1 versionPattern) @ '')$'') = Some match" "\<not> match []"
    and "lib_Unmarshal lib factorioSchema = Some (JObject kvs)" "map_of kvs ''type'' = Some (JString ''object'')"
    and "rejectSchemaReferences (JObject kvs) = None"
    and "lib_IsDNS1123Label lib ''server-settings''"
  shows "\<exists>c. Builtins lib decode = Inr c \<and> Get c ''factorio'' = Inr (factorio_Definition decode) \<and>
    List c = [factorio_Definition decode]"
  using factorio_valid [OF assms, of decode]
  by (simp add: Builtins_def New_def Get_def List_def factorio_Definition_def)

theorem Builtins_serves_factorio_witness:
  "\<exists>c. Builtins exampleLibrary exampleDecode = Inr c \<and> Get c ''factorio'' = Inr (factorio_Definition exampleDecode) \<and>
    List c = [factorio_Definition exampleDecode]"
  by (rule Builtins_serves_factorio [where kvs = "[(''type'', JString ''object'')]" and
        match = "\<lambda>s. s \<noteq> [] \<and> list_all (\<lambda>c. is_digit c \<or> c = CHR ''.'') s"])
     (simp_all add: exampleLibrary_def dns_label_def char_class_defs)

end
