(* ===== verification/GameServerExample.thy ===== *)
theory GameServerExample
  imports GameServerGates ServerPlanProps CatalogProps
begin

text \<open>
  A Factorio server from an empty cluster to players in one reconciliation, and the same server when it is told to
  stop: the instances at which the properties of the planner and of the GameServer controller are applied.
\<close>

section \<open>The server\<close>

definition yLibrary :: ServerLibrary where
  "yLibrary = \<lparr> lib_ParseIP = lib_ParseIP exampleLibrary, lib_Compile = lib_Compile exampleLibrary, lib_Unmarshal = lib_Unmarshal exampleLibrary,
     lib_IsDNS1123Label = dns_label, sl_IsDNS1123Subdomain = (\<lambda>_. True), sl_Sign = (\<lambda>_. 1), sl_Cmp = (\<lambda>_ _. 0), sl_SchemaAccepts = (\<lambda>_ _. True),
     sl_GlobalUnicast = (\<lambda>s. Some s), sl_materializeScript = ''script'' \<rparr>"

definition yDefinition :: Definition where
  "yDefinition = factorio_Definition exampleDecode"

definition yMeta :: ObjectMeta where
  "yMeta = \<lparr> meta_Name = ''factory'', meta_Namespace = ''games'', meta_UID = ''u-server'', meta_ResourceVersion = ''7'', meta_Generation = 1,
     meta_DeletionTimestamp = None, meta_Labels = Map.empty, meta_Annotations = Map.empty, meta_OwnerReferences = [], meta_Finalizers = [] \<rparr>"

definition yServer :: "DesiredState \<Rightarrow> GameServer" where
  "yServer desired = \<lparr> gs_Meta = yMeta,
     gs_Spec = \<lparr> gss_Game = ''factorio'', gss_ImageDigest = ''sha256:'' @ replicate 64 (CHR ''a''), gss_DesiredState = desired,
       gss_Compute = \<lparr> comp_CPURequest = ''1'', comp_CPULimit = ''2'', comp_MemoryRequest = ''1Gi'', comp_MemoryLimit = ''2Gi'' \<rparr>,
       gss_Storage = \<lparr> stor_Size = ''1Gi'', stor_StorageClassName = None, stor_Reattach = None \<rparr>, gss_Settings = ''{}'' \<rparr>,
     gs_Status = \<lparr> gst_ObservedGeneration = 0, gst_ActiveData = None, gst_ObservedData = None, gst_Phase = PhasePending,
       gst_Conditions = [], gst_Endpoints = [] \<rparr> \<rparr>"

lemma y_library [simp]: "plan_library yLibrary = exampleLibrary" "sl_IsDNS1123Subdomain yLibrary name" "sl_Sign yLibrary q = 1" "sl_Cmp yLibrary q q' = 0"
  "sl_SchemaAccepts yLibrary schema raw" "sl_GlobalUnicast yLibrary address = Some address" "lib_IsDNS1123Label yLibrary name = dns_label name"
  by (simp_all add: plan_library_def yLibrary_def exampleLibrary_def)

lemma y_server [simp]: "gs_Meta (yServer desired) = yMeta" "gss_DesiredState (gs_Spec (yServer desired)) = desired" "gss_Game (gs_Spec (yServer desired)) = ''factorio''"
  "gst_ActiveData (gs_Status (yServer desired)) = None" "gst_ObservedData (gs_Status (yServer desired)) = None"
  "stor_Reattach (gss_Storage (gs_Spec (yServer desired))) = None" "gst_Phase (gs_Status (yServer desired)) = PhasePending"
  "gss_Settings (gs_Spec (yServer desired)) = ''{}''" "stor_StorageClassName (gss_Storage (gs_Spec (yServer desired))) = None"
  by (simp_all add: yServer_def)

lemma y_meta [simp]: "meta_Name yMeta = ''factory''" "meta_Namespace yMeta = ''games''" "meta_UID yMeta = ''u-server''" "meta_DeletionTimestamp yMeta = None"
  by (simp_all add: yMeta_def)

lemma y_definition [simp]: "def_PersistentPaths yDefinition = [\<lparr> pp_Name = ''world'', pp_MountPath = ''/factorio'' \<rparr>]" "def_ID yDefinition = ''factorio''"
  "playerEndpoints yDefinition = [\<lparr> ep_Name = ''game'', ep_Protocol = ProtocolUDP, ep_ContainerPort = 34197, ep_Scope = ScopePlayer \<rparr>]"
  by (simp_all add: yDefinition_def factorio_Definition_def playerEndpoints_def)

section \<open>The plan\<close>

definition yIdentity :: string where "yIdentity = the (DataIdentity ''u-server'')"

definition yClaim :: "DesiredState \<Rightarrow> DataClaimPlan" where
  "yClaim desired = \<lparr> dcp_Desired = buildDataClaim (yServer desired) yDefinition ''world'' ''factory-factorio-world'' yIdentity, dcp_RequiredUID = [],
     dcp_ExternallySelected = False \<rparr>"

definition yFiles :: "ConfigurationFile list" where
  "yFiles = projr (RenderSettingsFiles yDefinition ''{}'')"

definition yConfiguration :: ServerConfigMap where
  "yConfiguration = buildConfiguration (yServer DesiredStateRunning) (workloadLabels (yServer DesiredStateRunning)) yFiles"

definition yWorkload :: Deployment where
  "yWorkload = buildWorkload yLibrary (yServer DesiredStateRunning) yDefinition (workloadLabels (yServer DesiredStateRunning))
     (''ghcr.io/gobha-me/arcadectl-factorio@sha256:'' @ replicate 64 (CHR ''a'')) yFiles ''factory-configuration'' (mget [''world'' \<mapsto> ''factory-factorio-world''])"

definition yService :: Service where
  "yService = buildPlayerService (yServer DesiredStateRunning) yDefinition (workloadLabels (yServer DesiredStateRunning))"

definition yPlan :: "DesiredState \<Rightarrow> Plan" where
  "yPlan desired = (let plan = \<lparr> plan_DataClaims = [yClaim desired], plan_DataIdentity = yIdentity, plan_Reattach = False,
       plan_Configuration = None, plan_Workload = None, plan_PlayerService = None \<rparr> in
     if desired = DesiredStateStopped then plan
     else plan\<lparr> plan_Configuration := Some yConfiguration, plan_Workload := Some yWorkload, plan_PlayerService := Some yService \<rparr>)"

lemma y_repository: "validateRepository exampleLibrary ''ghcr.io/gobha-me/arcadectl-factorio'' = None"
  by (rule factorio_repository) (simp add: exampleLibrary_def)

lemma y_digest: "sha256_pattern (gss_ImageDigest (gs_Spec (yServer desired)))"
  unfolding yServer_def GameServer.simps GameServerSpec.simps by (rule sha256_pattern_append) (simp_all add: list_all_iff char_class_defs)

lemma y_image: "ResolvedImage exampleLibrary (def_ImageRepository yDefinition) (gss_ImageDigest (gs_Spec (yServer desired))) =
    Inr (''ghcr.io/gobha-me/arcadectl-factorio@sha256:'' @ replicate 64 (CHR ''a''))"
  using y_repository y_digest [of desired] by (simp add: ResolvedImage_def yDefinition_def factorio_Definition_def) (simp add: yServer_def)

lemma y_files: "RenderSettingsFiles yDefinition ''{}'' = Inr yFiles"
  using example_render by (auto simp: yFiles_def yDefinition_def)

lemma y_intent:
  assumes "desired = DesiredStateRunning \<or> desired = DesiredStateStopped"
  shows "validateIntent yLibrary (yServer desired) yDefinition = None"
proof -
  have "Validate exampleLibrary yDefinition = None" by (simp add: yDefinition_def example_valid)
  moreover have "dns_label ''factory''" "dns_label ''games''" by (simp_all add: string_eval)
  ultimately show ?thesis
    using assms y_image [of desired]
    by (simp add: validateIntent_def guard_simps validateCompute_def validateSettings_def maxSettingsLen_def configurationVolumeName_def dataClaimName_def Let_def)
qed

lemma y_build:
  assumes "desired = DesiredStateRunning \<or> desired = DesiredStateStopped"
  shows "Build yLibrary (yServer desired) yDefinition = Inr (yPlan desired)"
  using assms
  by (auto simp: Build_def y_intent [OF assms] retainedDataSelection_def selectedData_def DataIdentity_def yIdentity_def dataClaimName_def Let_def y_files
      externallySelected_def yPlan_def yClaim_def y_image yConfiguration_def yWorkload_def yService_def buildConfiguration_def freshMeta_def claimNames_def)

section \<open>The cluster\<close>

definition yBound :: ServerClaim where
  "yBound = (dcp_Desired (yClaim DesiredStateRunning))\<lparr>
     pvc_Meta := (pvc_Meta (dcp_Desired (yClaim DesiredStateRunning)))\<lparr> meta_UID := ''u-claim'' \<rparr>, pvc_VolumeName := ''pv-1'', pvc_Phase := ClaimBound \<rparr>"

definition yAvailable :: "Deployment \<Rightarrow> Deployment" where
  "yAvailable d = d\<lparr> dep_Meta := (dep_Meta d)\<lparr> meta_UID := ''u-deployment'', meta_ResourceVersion := ''9'', meta_Generation := 1 \<rparr>, dep_ObservedGeneration := 1,
     dep_StatusReplicas := 1, dep_UpdatedReplicas := 1, dep_ReadyReplicas := 1, dep_AvailableReplicas := 1 \<rparr>"

definition yNothing :: "'a Listing" where
  "yNothing = \<lparr> ls_Items = [], ls_Continue = [], ls_RemainingItemCount = None \<rparr>"

text \<open>The claim is bound after its creation, the ninth call; a lease without a holder and a running Deployment are optional.\<close>

definition yView :: "DesiredState \<Rightarrow> bool \<Rightarrow> bool \<Rightarrow> ServerView" where
  "yView desired locked running = \<lparr>
     vw_GameServer = (\<lambda>_ _ _. Inr (yServer desired)), vw_Operation = (\<lambda>_ _ _. Inl NotFound),
     vw_Lease = (\<lambda>_ _ _. if locked then Inr \<lparr> lease_Meta = yMeta, lease_HolderIdentity = None, lease_AcquireTime = None \<rparr> else Inl NotFound),
     vw_Claim = (\<lambda>n _ _. if n < 9 then Inl NotFound else Inr yBound), vw_Claims = (\<lambda>_ _ _. Inr yNothing), vw_ConfigMap = (\<lambda>_ _ _. Inl NotFound),
     vw_Deployment = (\<lambda>_ _ _. if running then Inr (yAvailable yWorkload) else Inl NotFound), vw_Service = (\<lambda>_ _ _. Inl NotFound),
     vw_ReplicaSets = (\<lambda>_ _. Inr yNothing), vw_Pods = (\<lambda>_ _. Inr yNothing) \<rparr>"

definition yReconciler :: "DesiredState \<Rightarrow> bool \<Rightarrow> bool \<Rightarrow> GameServerReconciler" where
  "yReconciler desired locked running = \<lparr>
     gsr_Client = yView desired locked running, gsr_APIReader = None, gsr_Catalog = Some (\<lambda>_. Inr yDefinition), gsr_Now = (\<lambda>_. 5), gsr_Library = yLibrary,
     gsr_Operations = \<lparr> ov_IsDNS1123Label = dns_label, ov_IsDNS1123Subdomain = dns_label, ov_MarshalRequest = (\<lambda>_ _. None), ov_MarshalIntent = (\<lambda>_. None) \<rparr>,
     gsr_Respond = (\<lambda>_ _. None), gsr_RespondDeployment = (\<lambda>_ d. Inr (yAvailable d)),
     gsr_RespondService = (\<lambda>_ s. Inr (s\<lparr> svc_Ingress := [\<lparr> ing_IP = ''203.0.113.7'', ing_Hostname = [], ing_Ports = [] \<rparr>] \<rparr>)) \<rparr>"

lemma y_view [simp]:
  "vw_GameServer (yView desired l a) n ns name = Inr (yServer desired)"
  "vw_Lease (yView desired l a) n ns name = (if l then Inr \<lparr> lease_Meta = yMeta, lease_HolderIdentity = None, lease_AcquireTime = None \<rparr> else Inl NotFound)"
  "vw_Claim (yView desired l a) n ns name = (if n < 9 then Inl NotFound else Inr yBound)" "vw_Claims (yView desired l a) n ns labels = Inr yNothing"
  "vw_ConfigMap (yView desired l a) n ns name = Inl NotFound" "vw_Service (yView desired l a) n ns name = Inl NotFound"
  "vw_Deployment (yView desired l a) n ns name = (if a then Inr (yAvailable yWorkload) else Inl NotFound)"
  "vw_ReplicaSets (yView desired l a) n ns = Inr yNothing" "vw_Pods (yView desired l a) n ns = Inr yNothing"
  by (simp_all add: yView_def)

lemma y_reconciler [simp]:
  "gsr_Client (yReconciler desired l a) = yView desired l a" "runtimeReader (yReconciler desired l a) = yView desired l a"
  "gsr_Catalog (yReconciler desired l a) = Some (\<lambda>_. Inr yDefinition)" "gsr_Now (yReconciler desired l a) n = 5" "gsr_Library (yReconciler desired l a) = yLibrary"
  "gsr_Respond (yReconciler desired l a) n q = None" "gsr_RespondDeployment (yReconciler desired l a) n d = Inr (yAvailable d)"
  "gsr_RespondService (yReconciler desired l a) n s = Inr (s\<lparr> svc_Ingress := [\<lparr> ing_IP = ''203.0.113.7'', ing_Hostname = [], ing_Ports = [] \<rparr>] \<rparr>)"
  by (simp_all add: yReconciler_def runtimeReader_def)

lemma y_nothing [simp]: "ls_Items yNothing = []" "\<not> listing_incomplete yNothing"
  by (simp_all add: yNothing_def listing_incomplete_def)

section \<open>Stages\<close>

lemma y_drain: "wp (runtimePodsRemain (yReconciler desired l a) (yServer desired) volumes) Q s = Q (Inr False) (s\<lparr> ses_calls := ses_calls s + 3 \<rparr>)"
  by (simp add: runtimePodsRemain_def wp_simps Let_def eval_nat_numeral)

lemma y_preflight: "wp (preflightRuntime (yReconciler desired l False) (yServer desired)) Q s = Q None (s\<lparr> ses_calls := ses_calls s + 3 \<rparr>)"
  by (simp add: preflightRuntime_def preflightResource_def runtimeGet_def wp_simps eval_nat_numeral)

lemma y_claims [simp]: "plan_DataClaims (yPlan desired) = [yClaim desired]" "plan_DataIdentity (yPlan desired) = yIdentity" "\<not> plan_Reattach (yPlan desired)"
  "dcp_RequiredUID (yClaim desired) = []" "\<not> dcp_ExternallySelected (yClaim desired)"
  by (simp_all add: yPlan_def yClaim_def Let_def)

lemma y_storage: "ses_calls s < 9 \<Longrightarrow>
    wp (preflightStorage (yReconciler desired l a) (yServer desired) (yPlan desired)) Q s = Q None (s\<lparr> ses_calls := ses_calls s + 2 \<rparr>)"
  by (simp add: preflightStorage_def preflightClaim_def identityFailure_def wp_simps guard_simps eval_nat_numeral)

lemma y_valid: "validateExistingDataClaim yLibrary yBound (yClaim desired) = None" "claim_marker yBound = []" "pvc_Phase yBound = ClaimBound" "claim_uid yBound = ''u-claim''"
  "pvc_VolumeName yBound = ''pv-1''"
  by (simp_all add: validateExistingDataClaim_def validateExistingDataClaimBase_def guard_simps yBound_def yClaim_def buildDataClaim_def freshMeta_def
      storageClassCompatible_def Let_def claim_marker_def mget_def yServer_def)

lemma y_created: "ses_calls s < 8 \<Longrightarrow>
    wp (reconcileDataClaim (yReconciler desired l a) (yClaim desired)) Q s =
    Q None (s\<lparr> ses_calls := ses_calls s + 2, ses_log := ses_log s @ [(Suc (ses_calls s), CreateClaim (dcp_Desired (yClaim desired)))] \<rparr>)"
  by (simp add: reconcileDataClaim_def request_def wp_simps Let_def eval_nat_numeral)

definition yData :: RetainedDataReference where
  "yData = \<lparr> rdata_Identity = claim_label (dcp_Desired (yClaim DesiredStateRunning)) LabelDataIdentity,
     rdata_Claims = [\<lparr> rclaim_Path = claim_label (dcp_Desired (yClaim DesiredStateRunning)) LabelDataPath,
       rclaim_ClaimRef = \<lparr> ref_Namespace = None, ref_Name = claim_name yBound, ref_UID = ''u-claim'' \<rparr> \<rparr>] \<rparr>"

lemma y_observe: "9 \<le> ses_calls s \<Longrightarrow>
    wp (observeStorage (yReconciler DesiredStateRunning l a) [yClaim DesiredStateRunning]) Q s =
    Q (Inr \<lparr> so_ready = True, so_status = ConditionTrue, so_reason = ''ClaimsReady'',
       so_message = ''all retained data claims are bound at their requested capacity'', so_data = Some yData \<rparr>) (s\<lparr> ses_calls := Suc (ses_calls s) \<rparr>)"
  by (simp add: observeStorage_def observeClaim_def y_valid yData_def wp_simps)

lemma y_markers: "9 \<le> ses_calls s \<Longrightarrow>
    wp (clearColdBackupMarkers (yReconciler desired l a) (yServer desired) [yClaim desired]) Q s = Q None (s\<lparr> ses_calls := Suc (ses_calls s) \<rparr>)"
  by (simp add: clearColdBackupMarkers_def clearColdBackupMarker_def y_valid wp_simps)

lemma y_configured: "wp (reconcileConfigMap (yReconciler desired l a) c) Q s =
    Q None (s\<lparr> ses_calls := ses_calls s + 2, ses_log := ses_log s @ [(Suc (ses_calls s), CreateServerConfigMap c)] \<rparr>)"
  by (simp add: reconcileConfigMap_def request_def wp_simps eval_nat_numeral)

lemma y_deployed: "wp (reconcileDeployment (yReconciler desired l False) (yServer desired) d) Q s =
    Q (Inr (yAvailable d)) (s\<lparr> ses_calls := ses_calls s + 5, ses_log := ses_log s @ [(ses_calls s + 4, CreateDeployment d)] \<rparr>)"
  by (simp add: reconcileDeployment_def createWorkload_def y_drain wp_simps eval_nat_numeral)

lemma y_served: "wp (reconcileService (yReconciler desired l a) v) Q s =
    Q (Inr (v\<lparr> svc_Ingress := [\<lparr> ing_IP = ''203.0.113.7'', ing_Hostname = [], ing_Ports = [] \<rparr>] \<rparr>))
      (s\<lparr> ses_calls := ses_calls s + 2, ses_log := ses_log s @ [(Suc (ses_calls s), CreateService v)] \<rparr>)"
  by (simp add: reconcileService_def wp_simps eval_nat_numeral)

lemma y_endpoints: "observedEndpoints yLibrary (yService\<lparr> svc_Ingress := [\<lparr> ing_IP = ''203.0.113.7'', ing_Hostname = [], ing_Ports = [] \<rparr>] \<rparr>) yService =
    [\<lparr> oe_Name = ''game'', oe_Protocol = ''UDP'', oe_Address = ''203.0.113.7'', oe_Port = 34197 \<rparr>]"
  by (simp add: observedEndpoints_def yService_def buildPlayerService_def freshMeta_def protocolName_def observedLoadBalancerAddress_def ingressSupportsPorts_def
      ingressIP_def ingressHostname_def actualPorts_def portAgrees_def Let_def string_eval)

lemma y_available: "workloadAvailable (yAvailable yWorkload)" "terminalWorkloadFailure (yAvailable yWorkload) = []"
  by (simp_all add: workloadAvailable_def terminalWorkloadFailure_def yAvailable_def yWorkload_def buildWorkload_def freshMeta_def)

section \<open>Runs\<close>

lemma y_published:
  assumes "phase \<noteq> PhasePending"
  shows "wp (updateStatusWithData (yReconciler desired l a) (yServer desired) phase progress endpoints data) Q s =
    Q None (s\<lparr> ses_calls := ses_calls s + 2, ses_log := ses_log s @ [(Suc (ses_calls s),
      StatusServer ((yServer desired)\<lparr> gs_Status := updatedStatus (yServer desired) phase progress endpoints data 5 \<rparr>))] \<rparr>)"
proof -
  have "gst_Phase (updatedStatus (yServer desired) phase progress endpoints data 5) = phase" by (simp add: updatedStatus_def Let_def)
  then have "gs_Status (yServer desired) \<noteq> updatedStatus (yServer desired) phase progress endpoints data 5" using assms by (metis y_server(7))
  then show ?thesis by (simp add: updateStatusWithData_def request_def wp_simps Let_def eval_nat_numeral)
qed

lemma y_ready:
  "wp (ReconcileGameServer (yReconciler DesiredStateRunning False False) ''games'' ''factory'')
     (\<lambda>_ t. \<exists>progress n k. (8, CreateClaim (dcp_Desired (yClaim DesiredStateRunning))) \<in> set (ses_log t) \<and> (n, CreateDeployment yWorkload) \<in> set (ses_log t) \<and>
        (k, StatusServer ((yServer DesiredStateRunning)\<lparr> gs_Status := updatedStatus (yServer DesiredStateRunning) PhaseReady progress
           [\<lparr> oe_Name = ''game'', oe_Protocol = ''UDP'', oe_Address = ''203.0.113.7'', oe_Port = 34197 \<rparr>] (Some yData) 5 \<rparr>)) \<in> set (ses_log t))
     \<lparr> ses_calls = 0, ses_log = [] \<rparr>"
proof -
  have "\<exists>progress'. (yServer d)\<lparr> gs_Status := updatedStatus (yServer d) PhaseReady progress' endpoints (Some yData) 5 \<rparr> =
      (yServer d)\<lparr> gs_Status := updatedStatus (yServer d) PhaseReady progress endpoints (Some yData) 5 \<rparr>" for d progress endpoints
    by blast
  then show ?thesis
    by (simp add: ReconcileGameServer_def reconcileServer_def reconcileIntent_def y_build reconcilePlanned_def dataOperationLocked_def reconcileUnlocked_def
        wp_simps y_storage y_preflight reconcileStorage_def y_created y_observe Let_def)
      (simp add: yPlan_def Let_def startRuntime_def runtimeReplacementDraining_def y_drain y_markers reconcileRuntime_def y_configured y_deployed
        reconcileNetwork_def y_served y_endpoints y_available summarize_def publish_def y_published wp_simps)
qed

text \<open>Told to stop while its Deployment runs, the server has the Deployment deleted under the identity it was seen with.\<close>

lemma y_owned: "requireControlledBy (dep_Meta (yAvailable yWorkload)) (serverOwner (yServer desired)) = None"
  by (simp add: requireControlledBy_def GetControllerOf_def yAvailable_def yWorkload_def buildWorkload_def freshMeta_def controllerReference_def serverOwner_def guard_simps)

lemma y_deleted:
  "wp (ReconcileGameServer (yReconciler DesiredStateStopped False True) ''games'' ''factory'')
     (\<lambda>_ t. \<exists>n. (n, DeleteRuntime RuntimeDeployment ''games'' ''factory'' ''u-deployment'' ''9'' True) \<in> set (ses_log t))
     \<lparr> ses_calls = 0, ses_log = [] \<rparr>"
proof -
  have meta: "meta_UID (dep_Meta (yAvailable yWorkload)) = ''u-deployment''" "meta_ResourceVersion (dep_Meta (yAvailable yWorkload)) = ''9''"
    by (simp_all add: yAvailable_def)
  show ?thesis
    by (simp add: ReconcileGameServer_def reconcileServer_def reconcileStop_def preflightRuntime_def preflightResource_def runtimeGet_def y_owned
        deleteControlledRuntime_def deleteResource_def request_def runtimeName_def meta y_drain y_published updateStatus_def wp_simps)
qed

text \<open>With its runtime gone it is reported stopped, also while a data operation holds the world.\<close>

lemma y_stopped:
  "wp (ReconcileGameServer (yReconciler DesiredStateStopped True False) ''games'' ''factory'')
     (\<lambda>_ t. \<exists>n s. (n, StatusServer s) \<in> set (ses_log t) \<and> gst_Phase (gs_Status s) = PhaseStopped)
     \<lparr> ses_calls = 0, ses_log = [] \<rparr>"
  by (simp add: ReconcileGameServer_def reconcileServer_def reconcileStop_def y_preflight deleteControlledRuntime_def deleteResource_def runtimeGet_def y_drain
      reconcileIntent_def y_build reconcilePlanned_def dataOperationLocked_def reconcileLocked_def publishLocked_def y_published updateStatus_def wp_simps Let_def)
    (simp add: updatedStatus_def Let_def)

end
