(* ===== verification/ReceiptProps.thy ===== *)
theory ReceiptProps
  imports Receipts Interfaces
begin

text \<open>The names of receipts: their shape, and that they identify an idempotency key.\<close>

section \<open>Base 32\<close>

lemma bits_value_snoc: "bits_value (bs @ [b]) = 2 * bits_value bs + (if b then 1 else 0)"
  by (simp add: bits_value_def)

lemma bits_value_bound: "bits_value bs < 2 ^ length bs"
  by (induction bs rule: rev_induct) (simp_all add: bits_value_snoc, simp add: bits_value_def)

lemma bits_value_inj: "length bs = length cs \<Longrightarrow> bits_value bs = bits_value cs \<Longrightarrow> bs = cs"
proof (induction bs arbitrary: cs rule: rev_induct)
  case Nil
  then show ?case by simp
next
  case (snoc b bs)
  then obtain c cs' where cs: "cs = cs' @ [c]" by (cases cs rule: rev_cases) auto
  have eq: "2 * bits_value bs + (if b then 1 else 0) = 2 * bits_value cs' + (if c then 1 else 0)"
    using snoc.prems(2) cs by (simp add: bits_value_snoc)
  have "b = c"
    using arg_cong [OF eq, of even] by (simp split: if_splits)
  with eq have "bits_value bs = bits_value cs'" by (simp split: if_splits)
  with snoc.IH [of cs'] snoc.prems(1) cs \<open>b = c\<close> show ?case by simp
qed

definition lower_alphabet :: string where
  "lower_alphabet = ''abcdefghijklmnopqrstuvwxyz234567''"

lemma lower_alphabet_distinct: "distinct lower_alphabet"
  by (simp add: lower_alphabet_def)

lemma length_base32_alphabet: "length base32_alphabet = 32" "length lower_alphabet = 32"
  by (simp_all add: base32_alphabet_def lower_alphabet_def)

lemma ToLower_alphabet: "ToLower base32_alphabet = lower_alphabet"
  by (simp add: base32_alphabet_def lower_alphabet_def ToLower_def char_class_defs char_of_def bit_simps)

lemma ToLower_Cons: "ToLower (c # s) = (if is_upper c then char_of ((of_char c :: nat) + 32) else c) # ToLower s"
  by (simp add: ToLower_def)

lemma lower_nth: "n < 32 \<Longrightarrow> ToLower (base32_alphabet ! n # s) = lower_alphabet ! n # ToLower s"
  unfolding ToLower_alphabet [symmetric] by (simp add: ToLower_def length_base32_alphabet)

definition group_value :: "bool list \<Rightarrow> nat" where
  "group_value bs = bits_value (take 5 bs @ replicate (5 - length bs) False)"

lemma group_value_bound: "group_value bs < 32"
  using bits_value_bound [of "take 5 bs @ replicate (5 - length bs) False"] by (simp add: group_value_def min_def split: if_splits)

lemma ToLower_groups:
  "ToLower (base32_groups (b # bs)) = lower_alphabet ! group_value (b # bs) # ToLower (base32_groups (drop 4 bs))"
  using lower_nth [OF group_value_bound [of "b # bs"]] by (simp add: group_value_def)

lemma groups_inj: "length bs = length cs \<Longrightarrow> ToLower (base32_groups bs) = ToLower (base32_groups cs) \<Longrightarrow> bs = cs"
proof (induction bs arbitrary: cs rule: base32_groups.induct)
  case 1
  then show ?case by simp
next
  case (2 b bs)
  then obtain c cs' where cs: "cs = c # cs'" and len: "length bs = length cs'" by (cases cs) auto
  have eq: "lower_alphabet ! group_value (b # bs) = lower_alphabet ! group_value (c # cs')"
    "ToLower (base32_groups (drop 4 bs)) = ToLower (base32_groups (drop 4 cs'))"
    using 2(3) unfolding cs ToLower_groups by simp_all
  from eq(1) have "group_value (b # bs) = group_value (c # cs')"
    using group_value_bound nth_eq_iff_index_eq [OF lower_alphabet_distinct] by (simp add: length_base32_alphabet)
  then have "take 5 (b # bs) @ replicate (5 - length (b # bs)) False = take 5 (c # cs') @ replicate (5 - length (c # cs')) False"
    unfolding group_value_def by (rule bits_value_inj [rotated]) (simp add: len)
  then have "take 5 (b # bs) = take 5 (c # cs')" using len by simp
  moreover have "drop 4 bs = drop 4 cs'" using "2.IH" [OF _ eq(2)] len by simp
  then have "drop 5 (b # bs) = drop 5 (c # cs')" by simp
  ultimately show ?case unfolding cs by (metis append_take_drop_id)
qed

lemma length_groups: "length (base32_groups bs) = (length bs + 4) div 5"
  by (induction bs rule: base32_groups.induct) (simp, simp, arith)

lemma groups_lower: "set (ToLower (base32_groups bs)) \<subseteq> set lower_alphabet"
proof (induction bs rule: base32_groups.induct)
  case 1
  then show ?case by (simp add: ToLower_def)
next
  case (2 b bs)
  have "lower_alphabet ! group_value (b # bs) \<in> set lower_alphabet"
    using group_value_bound by (intro nth_mem) (simp add: length_base32_alphabet)
  with 2 show ?case unfolding ToLower_groups by simp
qed

lemma byte_bits_nth: "bit (of_char c :: nat) n \<longleftrightarrow> n < 8 \<and> byte_bits c ! (7 - n)"
proof (cases "n < 8")
  case True
  then have "[0..<8] ! (7 - n) = 7 - n" by (simp add: nth_upt)
  with True show ?thesis by (simp add: byte_bits_def del: upt.simps)
next
  case False
  then have "256 \<le> (2::nat) ^ n" using power_increasing [of 8 n "2::nat"] by simp
  then have "(of_char c :: nat) div 2 ^ n = 0" using of_char_less_256 [of c] by (intro div_less) linarith
  with False show ?thesis by (simp add: bit_iff_odd)
qed

lemma byte_bits_inj: "byte_bits c = byte_bits d \<Longrightarrow> c = d"
  using bit_eq_iff [of "of_char c :: nat" "of_char d"] by (simp add: byte_bits_nth)

lemma length_byte_bits [simp]: "length (byte_bits c) = 8"
  by (simp add: byte_bits_def)

lemma bytes_bits_inj: "concat (map byte_bits a) = concat (map byte_bits b) \<Longrightarrow> length a = length b \<Longrightarrow> a = b"
  by (induction a b rule: list_induct2') (auto dest: byte_bits_inj)

lemma length_bytes_bits: "length (concat (map byte_bits a)) = 8 * length a"
  by (induction a) simp_all

lemma base32_inj:
  "length a = length b \<Longrightarrow> ToLower (base32_EncodeToString a) = ToLower (base32_EncodeToString b) \<Longrightarrow> a = b"
  unfolding base32_EncodeToString_def by (rule bytes_bits_inj [OF groups_inj]) (simp_all only: length_bytes_bits)

section \<open>Receipts\<close>

definition receipt_encoding :: "string \<times> string \<times> string \<Rightarrow> bytes" where
  "receipt_encoding k = (case k of (namespace, principalID, key) \<Rightarrow>
     ''arcadectl/idempotency/v1'' @ CHR 0x00 # namespace @ CHR 0x00 # principalID @ CHR 0x00 # key)"

definition receipt_valid :: "string \<times> string \<times> string \<Rightarrow> bool" where
  "receipt_valid k = (case k of (namespace, principalID, key) \<Rightarrow>
     receiptid_namespacePattern namespace \<and> principalPattern principalID \<and> keyPattern key)"

lemma namespace_no_NUL: "receiptid_namespacePattern n \<Longrightarrow> CHR 0x00 \<notin> set n"
  by (auto simp: receiptid_namespacePattern_def dns_label_def list_all_iff char_class_defs)

lemma principal_no_NUL: "principalPattern p \<Longrightarrow> CHR 0x00 \<notin> set p"
  by (auto simp: principalPattern_def word_char_def list_all_iff char_class_defs)

lemma receipt_encoding_inj:
  assumes "receipt_valid k" "receipt_valid k'" "receipt_encoding k = receipt_encoding k'"
  shows "k = k'"
proof -
  obtain n p q n' p' q' where k: "k = (n, p, q)" "k' = (n', p', q')" by (cases k; cases k') auto
  have eq: "n @ CHR 0x00 # p @ CHR 0x00 # q = n' @ CHR 0x00 # p' @ CHR 0x00 # q'"
    using assms(3) unfolding k receipt_encoding_def prod.case same_append_eq list.inject by blast
  have clean: "CHR 0x00 \<notin> set n" "CHR 0x00 \<notin> set n'" "CHR 0x00 \<notin> set p" "CHR 0x00 \<notin> set p'"
    using assms(1,2) by (auto simp: k receipt_valid_def dest: namespace_no_NUL principal_no_NUL)
  show ?thesis
    using append_sep_eq [OF clean(1,2) eq] append_sep_eq [OF clean(3,4)] unfolding k by blast
qed

lemma KeyDigest_eq:
  "receiptid_KeyDigest n p q = (if receipt_valid (n, p, q) then Some (sha256_string (receipt_encoding (n, p, q))) else None)"
  unfolding receiptid_KeyDigest_def receipt_valid_def receipt_encoding_def sha256_string_def prod.case by argo

definition keyDigestOf :: "string \<times> string \<times> string \<Rightarrow> string" where
  "keyDigestOf k = the (receiptid_KeyDigest (fst k) (fst (snd k)) (snd (snd k)))"

lemma keyDigestOf_eq: "receipt_valid k \<Longrightarrow> keyDigestOf k = sha256_string (receipt_encoding k)"
  unfolding keyDigestOf_def KeyDigest_eq by simp

interpretation key_digest: digest_identity receipt_encoding receipt_valid "''sha256:''" 32 keyDigestOf
proof unfold_locales
  show "receipt_valid k \<Longrightarrow> receipt_valid k' \<Longrightarrow> receipt_encoding k = receipt_encoding k' \<Longrightarrow> k = k'" for k k'
    by (rule receipt_encoding_inj)
  show "receipt_valid k \<Longrightarrow> keyDigestOf k = ''sha256:'' @ hex (take 32 (sha256 (receipt_encoding k)))" for k
    by (simp add: keyDigestOf_eq sha256_string_def)
qed simp_all

definition receipt_label :: "bytes \<Rightarrow> string" where
  "receipt_label m = ''ao-'' @ ToLower (base32_EncodeToString m)"

lemma NameForKeyDigest_string: "receiptid_NameForKeyDigest (sha256_string m) = Some (receipt_label (sha256 m))"
  unfolding receiptid_NameForKeyDigest_def receipt_label_def
  by (simp only: sha256_string_pattern sha256_string_def [symmetric] not_True_eq_False if_False)
    (simp only: sha256_string_def TrimPrefix_append unhex_hex option.case)

lemma length_receipt_label: "length m = 32 \<Longrightarrow> length (receipt_label m) = 55"
  by (simp add: receipt_label_def ToLower_def base32_EncodeToString_def length_groups length_bytes_bits)

lemma lower_alphabet_alnum: "c \<in> set lower_alphabet \<Longrightarrow> is_alnum c"
  by (auto simp: lower_alphabet_def char_class_defs)

lemma receipt_label_dns:
  assumes "length m = 32"
  shows "dns_label (receipt_label m)"
proof -
  let ?t = "ToLower (base32_EncodeToString m)"
  have chars: "c \<in> set ?t \<Longrightarrow> is_alnum c" for c
    using groups_lower lower_alphabet_alnum by (auto simp: base32_EncodeToString_def)
  have len: "length ?t = 52"
    using length_receipt_label [OF assms] by (simp add: receipt_label_def)
  then have "?t \<noteq> []" by auto
  with len have shape: "receipt_label m \<noteq> []" "length (receipt_label m) \<le> 63" "hd (receipt_label m) = CHR ''a''" "last (receipt_label m) = last ?t"
    by (simp_all add: receipt_label_def)
  have "\<forall>c\<in>set (receipt_label m). is_alnum c \<or> c = CHR ''-''"
    using chars by (auto simp: receipt_label_def, simp_all add: char_class_defs)
  moreover have "is_alnum CHR ''a''" by (simp add: char_class_defs)
  ultimately show ?thesis
    unfolding dns_label_def list_all_iff shape(3,4) using shape(1,2) chars [OF last_in_set [OF \<open>?t \<noteq> []\<close>]] by blast
qed

lemma receipt_label_inj: "length m = 32 \<Longrightarrow> length m' = 32 \<Longrightarrow> receipt_label m = receipt_label m' \<Longrightarrow> m = m'"
  unfolding receipt_label_def by (rule base32_inj) simp_all

end
