(* ===== verification/OperationProps.thy ===== *)
theory OperationProps
  imports Operations ReceiptProps
begin

text \<open>
  What an accepted operation request promises: the text of its precondition determines the object it acts on, the
  digest of the request covers everything else, and receipts and their children have names of their own.
\<close>

section \<open>Preconditions\<close>

lemma Split_eq:
  "Split s sep = p # ps \<Longrightarrow> s = p @ concat (map ((#) sep) ps) \<and> sep \<notin> set p \<and> (\<forall>q\<in>set ps. sep \<notin> set q)"
proof (induction s arbitrary: p ps)
  case Nil
  then show ?case by simp
next
  case (Cons c s)
  obtain q qs where split: "Split s sep = q # qs" by (cases "Split s sep") auto
  have "p # ps = (if c = sep then [] # q # qs else (c # q) # qs)" using Cons.prems split by (auto split: if_splits)
  with Cons.IH [OF split] show ?case by (auto split: if_splits)
qed

lemma nat_decimal_length: "n < 10 ^ k \<Longrightarrow> 0 < k \<Longrightarrow> length (nat_decimal n) \<le> k"
proof (induction k arbitrary: n)
  case (Suc k)
  show ?case
  proof (cases "n < 10")
    case True
    then show ?thesis by (simp add: nat_decimal_def digits_rev.simps [of n])
  next
    case False
    then have "0 < k" using Suc.prems(1) by (cases k) auto
    moreover have "n div 10 < 10 ^ k" using Suc.prems(1) by (simp add: less_mult_imp_div_less mult.commute)
    ultimately have "length (nat_decimal (n div 10)) \<le> k" by (rule Suc.IH [rotated])
    with False show ?thesis by (simp add: nat_decimal_def digits_rev.simps [of n])
  qed
qed simp

lemma Itoa_length: "0 \<le> n \<Longrightarrow> n < 2 ^ 63 \<Longrightarrow> length (Itoa n) \<le> 19"
  using nat_decimal_length [of "nat n" 19] by (simp add: Itoa_def)

lemma Atoi_Itoa:
  assumes "0 \<le> n" "n < 2 ^ 63"
  shows "Atoi (Itoa n) = Some n"
proof -
  obtain c s where cs: "nat_decimal (nat n) = c # s" by (cases "nat_decimal (nat n)") auto
  have digits: "list_all is_digit (c # s)" using nat_decimal_digits [of "nat n"] cs by simp
  have val: "digits_value 0 (c # s) = nat n" unfolding cs [symmetric] by simp
  from digits have "c \<noteq> CHR ''-''" "c \<noteq> CHR ''+''" by (auto simp: is_digit_def)
  moreover have "Itoa n = c # s" using assms(1) cs by (simp add: Itoa_def)
  ultimately show ?thesis using assms digits val by (simp add: Atoi_def HasPrefix_def)
qed

lemma Itoa_no_colon: "0 \<le> n \<Longrightarrow> CHR '':'' \<notin> set (Itoa n)"
  using nat_decimal_no_colon [of "nat n"] by (simp add: Itoa_def)

lemma identity_no_colon: "identityPattern u \<Longrightarrow> CHR '':'' \<notin> set u"
  by (auto simp: identityPattern_def word_char_def list_all_iff char_class_defs)

text \<open>The entity tags of the API: the texts that \<^verbatim>\<open>ParsePrecondition\<close> accepts.\<close>

definition precondition_text :: "Precondition \<Rightarrow> string" where
  "precondition_text p = (if pre_Kind p = ''absent'' then ''absent''
     else [CHR 0x22] @ pre_Kind p @ '':'' @ pre_UID p @ '':'' @
       (if pre_Kind p = ''retained'' then pre_SnapshotDigest p else Itoa (sint (pre_Generation p))) @ [CHR 0x22])"

definition precondition_wf :: "Precondition \<Rightarrow> bool" where
  "precondition_wf p \<longleftrightarrow>
     (if pre_Kind p = ''absent'' then pre_UID p = [] \<and> pre_SnapshotDigest p = [] \<and> pre_Generation p = 0
      else if pre_Kind p = ''server'' \<or> pre_Kind p = ''operation''
        then identityPattern (pre_UID p) \<and> pre_SnapshotDigest p = [] \<and> 1 \<le> sint (pre_Generation p)
      else pre_Kind p = ''retained'' \<and> identityPattern (pre_UID p) \<and> digestPattern (pre_SnapshotDigest p) \<and> pre_Generation p = 0)"

lemma Atoi_bounds: "Atoi s = Some n \<Longrightarrow> - (2 ^ 63) \<le> n \<and> n < 2 ^ 63"
  by (auto simp: Atoi_def Let_def split: if_splits)

lemma sint_generation: "1 \<le> n \<Longrightarrow> n < 2 ^ 63 \<Longrightarrow> sint (word_of_int n :: int64) = n"
  by (simp add: sint_sbintrunc' signed_take_bit_int_eq_self)

lemma Split_3: "Split s sep = [a, b, c] \<longleftrightarrow> s = a @ sep # b @ sep # c \<and> sep \<notin> set a \<and> sep \<notin> set b \<and> sep \<notin> set c"
  using Split_eq [of s sep a "[b, c]"] by (auto simp: Split_append_sep Split_no_sep)

lemma Split_4: "Split s sep = [a, b, c, d] \<longleftrightarrow>
    s = a @ sep # b @ sep # c @ sep # d \<and> sep \<notin> set a \<and> sep \<notin> set b \<and> sep \<notin> set c \<and> sep \<notin> set d"
  using Split_eq [of s sep a "[b, c, d]"] by (auto simp: Split_append_sep Split_no_sep)

lemma digest_parts:
  assumes "digestPattern t"
  obtains h where "t = ''sha256'' @ CHR '':'' # h" "CHR '':'' \<notin> set h" "length h = 64"
proof -
  obtain h where t: "t = ''sha256:'' @ h" using assms by (auto simp: digestPattern_def sha256_pattern_def HasPrefix_iff)
  have "list_all is_lower_hex h" "length h = 64" using assms by (auto simp: t digestPattern_def sha256_pattern_def)
  then have "CHR '':'' \<notin> set h" by (auto simp: list_all_iff char_class_defs)
  with t \<open>length h = 64\<close> that show thesis by simp
qed

lemma quoted_text: "length v \<ge> 3 \<Longrightarrow> hd v = q \<Longrightarrow> last v = q \<Longrightarrow> v = q # butlast (drop 1 v) @ [q]"
  by (cases v) (auto split: if_splits)

lemma three_parts: "length ps = 3 \<Longrightarrow> ps = [ps ! 0, ps ! 1, ps ! 2]"
  by (auto simp: numeral_3_eq_3 length_Suc_conv)

lemma four_parts: "length ps = 4 \<Longrightarrow> ps = [ps ! 0, ps ! 1, ps ! 2, ps ! 3]"
  by (auto simp: numeral_eq_Suc length_Suc_conv)

lemma parse_sound:
  assumes "ParsePrecondition v = Some p"
  shows "precondition_wf p \<and> v = precondition_text p"
proof (cases "v = ''absent''")
  case True
  with assms show ?thesis by (auto simp: ParsePrecondition_def precondition_wf_def precondition_text_def)
next
  case False
  define s ps where "s = butlast (drop 1 v)" and "ps = Split s CHR '':''"
  have v: "v = CHR 0x22 # s @ [CHR 0x22]"
    using assms False quoted_text [of v "CHR 0x22"] by (auto simp: ParsePrecondition_def s_def split: if_splits)
  consider (live) n where "length ps = 3" "ps ! 0 = ''server'' \<or> ps ! 0 = ''operation''" "identityPattern (ps ! 1)"
      "Atoi (ps ! 2) = Some n" "1 \<le> n" "Itoa n = ps ! 2"
      "p = \<lparr> pre_Kind = ps ! 0, pre_UID = ps ! 1, pre_SnapshotDigest = [], pre_Generation = word_of_int n \<rparr>"
    | (retained) "length ps = 4" "ps ! 0 = ''retained''" "identityPattern (ps ! 1)" "digestPattern (ps ! 2 @ '':'' @ ps ! 3)"
      "p = \<lparr> pre_Kind = ps ! 0, pre_UID = ps ! 1, pre_SnapshotDigest = ps ! 2 @ '':'' @ ps ! 3, pre_Generation = 0 \<rparr>"
    using assms False unfolding ParsePrecondition_def Let_def s_def [symmetric] ps_def [symmetric]
    by (auto split: if_splits option.splits)
  then show ?thesis
  proof cases
    case live
    have "s = ps ! 0 @ CHR '':'' # ps ! 1 @ CHR '':'' # ps ! 2" using three_parts [OF live(1)] Split_3 ps_def by metis
    moreover have "sint (word_of_int n :: int64) = n" using sint_generation live(5) Atoi_bounds [OF live(4)] by blast
    ultimately show ?thesis using live v by (auto simp: precondition_wf_def precondition_text_def)
  next
    case retained
    have "s = ps ! 0 @ CHR '':'' # ps ! 1 @ CHR '':'' # ps ! 2 @ CHR '':'' # ps ! 3" using four_parts [OF retained(1)] Split_4 ps_def by metis
    then show ?thesis using retained v by (auto simp: precondition_wf_def precondition_text_def)
  qed
qed

lemma parse_quoted:
  assumes "1 \<le> length s" "length s \<le> 510"
  shows "ParsePrecondition (CHR 0x22 # s @ [CHR 0x22]) = (let parts = Split s CHR '':'' in
        if length parts = 3 \<and> (parts ! 0 = ''server'' \<or> parts ! 0 = ''operation'') \<and> identityPattern (parts ! 1) then
          (case Atoi (parts ! 2) of
             None \<Rightarrow> None
           | Some generation \<Rightarrow>
               if generation < 1 \<or> Itoa generation \<noteq> parts ! 2 then None
               else Some \<lparr> pre_Kind = parts ! 0, pre_UID = parts ! 1, pre_SnapshotDigest = [], pre_Generation = word_of_int generation \<rparr>)
        else if length parts = 4 \<and> parts ! 0 = ''retained'' \<and> identityPattern (parts ! 1) \<and>
                digestPattern (parts ! 2 @ '':'' @ parts ! 3) then
          Some \<lparr> pre_Kind = parts ! 0, pre_UID = parts ! 1, pre_SnapshotDigest = parts ! 2 @ '':'' @ parts ! 3, pre_Generation = 0 \<rparr>
        else None)"
  using assms unfolding ParsePrecondition_def by simp

lemma parse_live:
  assumes "k = ''server'' \<or> k = ''operation''" "identityPattern u" "1 \<le> n" "n < 2 ^ 63"
  shows "ParsePrecondition (CHR 0x22 # (k @ CHR '':'' # u @ CHR '':'' # Itoa n) @ [CHR 0x22]) =
    Some \<lparr> pre_Kind = k, pre_UID = u, pre_SnapshotDigest = [], pre_Generation = word_of_int n \<rparr>"
proof -
  let ?s = "k @ CHR '':'' # u @ CHR '':'' # Itoa n"
  have "CHR '':'' \<notin> set k" using assms(1) by auto
  then have split: "Split ?s CHR '':'' = [k, u, Itoa n]"
    unfolding Split_3 using assms(2,3) by (simp add: identity_no_colon Itoa_no_colon)
  have "length k \<le> 9" "length u \<le> 128" "length (Itoa n) \<le> 19"
    using assms Itoa_length [of n] by (auto simp: identityPattern_def)
  then have len: "1 \<le> length ?s" "length ?s \<le> 510" by simp_all
  show ?thesis
    unfolding parse_quoted [OF len] split Let_def using assms Atoi_Itoa [of n] by (auto simp: numeral_2_eq_2)
qed

lemma parse_retained:
  assumes "identityPattern u" "digestPattern d"
  shows "ParsePrecondition (CHR 0x22 # (''retained'' @ CHR '':'' # u @ CHR '':'' # d) @ [CHR 0x22]) =
    Some \<lparr> pre_Kind = ''retained'', pre_UID = u, pre_SnapshotDigest = d, pre_Generation = 0 \<rparr>"
proof -
  obtain h where d: "d = ''sha256'' @ CHR '':'' # h" "CHR '':'' \<notin> set h" "length h = 64" using digest_parts [OF assms(2)] .
  let ?s = "''retained'' @ CHR '':'' # u @ CHR '':'' # d"
  have split: "Split ?s CHR '':'' = [''retained'', u, ''sha256'', h]"
    unfolding Split_4 d(1) using assms(1) d(2) by (simp add: identity_no_colon)
  have "length u \<le> 128" using assms(1) by (simp add: identityPattern_def)
  then have len: "1 \<le> length ?s" "length ?s \<le> 510" using d by simp_all
  show ?thesis
    unfolding parse_quoted [OF len] split Let_def using assms d by (simp add: numeral_eq_Suc)
qed

text \<open>\<^verbatim>\<open>ParsePrecondition\<close> accepts exactly the texts of well-formed preconditions, and inverts them.\<close>

lemma precondition_roundtrip: "ParsePrecondition v = Some p \<longleftrightarrow> precondition_wf p \<and> v = precondition_text p"
proof
  show "ParsePrecondition v = Some p \<Longrightarrow> precondition_wf p \<and> v = precondition_text p" by (rule parse_sound)
next
  assume wf: "precondition_wf p \<and> v = precondition_text p"
  obtain k u d g where p: "p = \<lparr> pre_Kind = k, pre_UID = u, pre_SnapshotDigest = d, pre_Generation = g \<rparr>" by (cases p)
  consider "k = ''absent''" | (live) "k = ''server'' \<or> k = ''operation''" | (retained) "k = ''retained''"
    using wf unfolding p precondition_wf_def Precondition.select_convs if_bool_eq_conj by blast
  then show "ParsePrecondition v = Some p"
  proof cases
    case 1
    with wf show ?thesis by (simp add: p precondition_wf_def precondition_text_def ParsePrecondition_def)
  next
    case live
    then have "identityPattern u" "d = []" "1 \<le> sint g" using wf by (auto simp: p precondition_wf_def split: if_splits)
    moreover have "sint g < 2 ^ 63" using sint_lt [of g] by simp
    ultimately have "ParsePrecondition (CHR 0x22 # (k @ CHR '':'' # u @ CHR '':'' # Itoa (sint g)) @ [CHR 0x22]) = Some p"
      using parse_live [OF live, of u "sint g"] by (simp add: p)
    moreover have "k \<noteq> ''absent''" "k \<noteq> ''retained''" using live by auto
    ultimately show ?thesis using wf by (simp add: p precondition_text_def)
  next
    case retained
    then show ?thesis using wf parse_retained [of u d] by (simp add: p precondition_wf_def precondition_text_def)
  qed
qed

section \<open>Accepted requests\<close>

text \<open>The payload that each action takes, in the order of \<^verbatim>\<open>ValidateRequest\<close>'s list.\<close>

definition payloads_present :: "OperationRequest \<Rightarrow> bool list" where
  "payloads_present r =
     [oreq_Create r \<noteq> None, oreq_Configure r \<noteq> None, oreq_Backup r \<noteq> None, oreq_Restore r \<noteq> None,
      oreq_Destroy r \<noteq> None, oreq_DestroyCommand r \<noteq> None]"

definition payloads_of :: "ArcadeOperationAction \<Rightarrow> bool list" where
  "payloads_of a =
     [a = OperationServerCreate, a = OperationServerConfigure, a = OperationWorldBackup, a = OperationWorldRestore,
      a = OperationWorldDestroyPreview, a = OperationWorldDestroyConfirm \<or> a = OperationWorldDestroyCancel]"

text \<open>What the precondition says of the object that the request acts on.\<close>

definition bound_precondition :: "OperationRequest \<Rightarrow> Precondition \<Rightarrow> bool" where
  "bound_precondition r p = (case (oreq_Target r, oreq_DestroyCommand r, oreq_Destroy r) of
       (Some t, _, _) \<Rightarrow> gref_Local t = \<lparr> ref_Namespace = None, ref_Name = oreq_ServerName r, ref_UID = pre_UID p \<rparr> \<and>
         pre_Kind p = ''server'' \<and> gref_Generation t = pre_Generation p
     | (None, Some c, _) \<Rightarrow> pre_Kind p = ''operation'' \<and> ref_UID (dcmd_ParentOperationRef c) = pre_UID p \<and> oreq_ServerName r = []
     | (None, None, Some d) \<Rightarrow> (\<exists>s. din_RetainedWorld d = Some s \<and> pre_Kind p = ''retained'' \<and>
         ref_UID (sel_DecommissionOperationRef s) = pre_UID p \<and> sel_SnapshotDigest s = pre_SnapshotDigest p \<and> oreq_ServerName r = [])
     | (None, None, None) \<Rightarrow> pre_Kind p = ''absent'')"

lemma payload_count_present: "payloadCount r = length (filter id (payloads_present r))"
  by (simp add: payloadCount_def payloads_present_def)

lemma ValidateRequest_None:
  assumes "ValidateRequest env action r = None"
  obtains p where "ParsePrecondition (oreq_Precondition r) = Some p" "\<not> targetInvalid env p r" "\<not> actionInvalid env action p r"
    "oreq_Image r \<noteq> None \<longrightarrow> action = OperationServerCreate \<or> action = OperationServerUpdate"
  using assms by (auto simp: ValidateRequest_def guard_simps split: option.splits)

lemma accepted_payloads:
  assumes "\<not> actionInvalid env action p r"
  shows "payloads_present r = payloads_of action"
  using assms
  by (cases action)
    (auto simp: actionInvalid_def previewInvalid_def commandInvalid_def payloadCount_def payloads_present_def payloads_of_def
      split: if_splits option.splits)

lemma accepted_bound:
  assumes "\<not> targetInvalid env p r" "\<not> actionInvalid env action p r"
  shows "bound_precondition r p"
proof (cases "oreq_Target r")
  case (Some t)
  with assms(1) show ?thesis by (cases "gref_Local t") (auto simp: targetInvalid_def bound_precondition_def validReference_def)
next
  case None
  from accepted_payloads [OF assms(2)] None assms(2) show ?thesis
    by (cases action)
      (auto simp: actionInvalid_def previewInvalid_def commandInvalid_def bound_precondition_def payloads_present_def payloads_of_def
        split: option.splits)
qed

lemma accepted_commands: "\<not> actionInvalid env action p r \<Longrightarrow> oreq_DestroyCommand r = None \<or> oreq_Target r = None"
  by (cases action) (auto simp: actionInvalid_def previewInvalid_def commandInvalid_def payloadCount_def split: option.splits if_splits)

lemma accepted_absent:
  assumes "\<not> targetInvalid env p r" "\<not> actionInvalid env action p r"
  shows "pre_Kind p = ''absent'' \<longleftrightarrow> action = OperationServerCreate"
proof
  assume absent: "pre_Kind p = ''absent''"
  have "oreq_Target r = None" using assms(1) absent by (auto simp: targetInvalid_def split: option.splits)
  with absent assms(2) show "action = OperationServerCreate"
    by (cases action) (auto simp: actionInvalid_def previewInvalid_def commandInvalid_def split: option.splits)
next
  assume "action = OperationServerCreate"
  with assms(2) show "pre_Kind p = ''absent''" by (simp add: actionInvalid_def)
qed

lemma text_determines: "precondition_wf p \<Longrightarrow> precondition_wf q \<Longrightarrow> precondition_text p = precondition_text q \<Longrightarrow> p = q"
  using precondition_roundtrip by (metis option.inject)

text \<open>A live server for the examples, and Kubernetes' name checks as the patterns they document.\<close>

definition exOperations :: OperationsEnv where
  "exOperations = \<lparr> ov_IsDNS1123Label = dns_label, ov_IsDNS1123Subdomain = dns_label,
     ov_MarshalRequest = (\<lambda>action r. Some (oreq_Precondition r)), ov_MarshalIntent = (\<lambda>i. Some (int_SettingsJSON i)) \<rparr>"

definition exStart :: "DesiredState \<Rightarrow> OperationRequest" where
  "exStart state = \<lparr> oreq_Precondition = [CHR 0x22] @ ''server:u1:7'' @ [CHR 0x22], oreq_ServerName = ''world'',
     oreq_Target = Some \<lparr> gref_Local = \<lparr> ref_Namespace = None, ref_Name = ''world'', ref_UID = ''u1'' \<rparr>, gref_Generation = 7, gref_DesiredState = state \<rparr>,
     oreq_Create = None, oreq_Configure = None, oreq_Image = None, oreq_Backup = None, oreq_Restore = None, oreq_Destroy = None, oreq_DestroyCommand = None \<rparr>"

lemma exStart_parse:
  "ParsePrecondition (oreq_Precondition (exStart state)) =
    Some \<lparr> pre_Kind = ''server'', pre_UID = ''u1'', pre_SnapshotDigest = [], pre_Generation = 7 \<rparr>"
proof -
  have "identityPattern ''u1''" by (simp add: identityPattern_def word_char_def char_class_defs)
  moreover have "Itoa 7 = ''7''" by (simp add: Itoa_def nat_decimal_def digits_rev.simps digit_char_def char_of_def bit_simps)
  ultimately show ?thesis using parse_live [of "''server''" "''u1''" 7] by (simp add: exStart_def)
qed

lemma exStart_accepted:
  assumes "state = DesiredStateRunning \<or> state = DesiredStateStopped"
  shows "ValidateRequest exOperations OperationServerStart (exStart state) = None"
proof -
  have fields: "validReference exOperations \<lparr> ref_Namespace = None, ref_Name = ''world'', ref_UID = ''u1'' \<rparr>" "dns_label ''world''"
    by (simp_all add: validReference_def exOperations_def identityPattern_def word_char_def dns_label_def char_class_defs)
  show ?thesis unfolding ValidateRequest_def exStart_parse
    using fields assms by (auto simp: exStart_def targetInvalid_def actionInvalid_def payloadCount_def exOperations_def guard_simps)
qed

text \<open>
  C33. A request that \<^verbatim>\<open>ValidateRequest\<close> accepts carries exactly the payload of its action, an image only for a create
  or an update, and a precondition whose text is the entity tag of the object it acts on: for a live target its UID,
  generation and name; for a confirmation or cancellation the UID of the parent operation; for a retained world the
  UID and the snapshot digest; and \<^verbatim>\<open>absent\<close> only for a create.
\<close>
theorem request_bound_to_precondition:
  assumes "ValidateRequest env action r = None"
  shows "payloads_present r = payloads_of action \<and>
    (oreq_Image r \<noteq> None \<longrightarrow> action = OperationServerCreate \<or> action = OperationServerUpdate) \<and>
    (\<exists>p. precondition_wf p \<and> oreq_Precondition r = precondition_text p \<and> bound_precondition r p \<and>
       (pre_Kind p = ''absent'' \<longleftrightarrow> action = OperationServerCreate))"
proof -
  obtain p where p: "ParsePrecondition (oreq_Precondition r) = Some p" "\<not> targetInvalid env p r" "\<not> actionInvalid env action p r"
    and image: "oreq_Image r \<noteq> None \<longrightarrow> action = OperationServerCreate \<or> action = OperationServerUpdate"
    using ValidateRequest_None [OF assms] .
  have "precondition_wf p \<and> oreq_Precondition r = precondition_text p" using p(1) precondition_roundtrip by blast
  then show ?thesis
    using accepted_payloads [OF p(3)] accepted_bound [OF p(2,3)] accepted_absent [OF p(2,3)] image by blast
qed

theorem request_bound_to_precondition_witness:
  "bound_precondition (exStart DesiredStateStopped) \<lparr> pre_Kind = ''server'', pre_UID = ''u1'', pre_SnapshotDigest = [], pre_Generation = 7 \<rparr>"
proof -
  obtain p where p: "precondition_wf p" "oreq_Precondition (exStart DesiredStateStopped) = precondition_text p" "bound_precondition (exStart DesiredStateStopped) p"
    using request_bound_to_precondition [OF exStart_accepted [of DesiredStateStopped]] by blast
  have "ParsePrecondition (oreq_Precondition (exStart DesiredStateStopped)) = Some p" using p precondition_roundtrip by blast
  with p(3) show ?thesis unfolding exStart_parse by simp
qed

text \<open>What the server fills in after admission and may differ between two readings of the same instruction.\<close>

definition instruction :: "OperationRequest \<Rightarrow> OperationRequest" where
  "instruction r = r\<lparr>
     oreq_Target := map_option (\<lambda>t. t\<lparr> gref_DesiredState := DesiredStateStopped \<rparr>) (oreq_Target r),
     oreq_Image := map_option (\<lambda>i. i\<lparr> img_Resolution := emptyResolution \<rparr>) (oreq_Image r) \<rparr>"

lemma unresolved_fields:
  assumes "unresolvedRequest r = unresolvedRequest r'"
  shows "oreq_Precondition r = oreq_Precondition r'" "oreq_ServerName r = oreq_ServerName r'" "oreq_Create r = oreq_Create r'"
    "oreq_Configure r = oreq_Configure r'" "oreq_Backup r = oreq_Backup r'" "oreq_Restore r = oreq_Restore r'" "oreq_Destroy r = oreq_Destroy r'"
    "map_option (\<lambda>i. i\<lparr> img_Resolution := emptyResolution \<rparr>) (oreq_Image r) = map_option (\<lambda>i. i\<lparr> img_Resolution := emptyResolution \<rparr>) (oreq_Image r')"
    "map_option (\<lambda>c. c\<lparr> dcmd_ParentOperationRef := (dcmd_ParentOperationRef c)\<lparr> ref_UID := [] \<rparr> \<rparr>) (oreq_DestroyCommand r) =
     map_option (\<lambda>c. c\<lparr> dcmd_ParentOperationRef := (dcmd_ParentOperationRef c)\<lparr> ref_UID := [] \<rparr> \<rparr>) (oreq_DestroyCommand r')"
  using assms by (cases r; cases r'; simp add: unresolvedRequest_def)+

lemma same_target:
  assumes "bound_precondition r p" "bound_precondition r' p" "oreq_ServerName r = oreq_ServerName r'"
  shows "map_option (\<lambda>t. t\<lparr> gref_DesiredState := DesiredStateStopped \<rparr>) (oreq_Target r) =
    map_option (\<lambda>t. t\<lparr> gref_DesiredState := DesiredStateStopped \<rparr>) (oreq_Target r')"
  using assms
  by (cases "oreq_Target r"; cases "oreq_Target r'") (auto simp: bound_precondition_def intro!: ExactGameServerReference.equality split: option.splits)

lemma same_command:
  assumes "bound_precondition r p" "bound_precondition r' p" "oreq_Target r = None" "oreq_Target r' = None"
    and "map_option (\<lambda>c. c\<lparr> dcmd_ParentOperationRef := (dcmd_ParentOperationRef c)\<lparr> ref_UID := [] \<rparr> \<rparr>) (oreq_DestroyCommand r) =
     map_option (\<lambda>c. c\<lparr> dcmd_ParentOperationRef := (dcmd_ParentOperationRef c)\<lparr> ref_UID := [] \<rparr> \<rparr>) (oreq_DestroyCommand r')"
  shows "oreq_DestroyCommand r = oreq_DestroyCommand r'"
proof (cases "oreq_DestroyCommand r")
  case None
  with assms(5) show ?thesis by simp
next
  case (Some c)
  then obtain c' where c': "oreq_DestroyCommand r' = Some c'" using assms(5) by (cases "oreq_DestroyCommand r'") auto
  have "ref_UID (dcmd_ParentOperationRef c) = ref_UID (dcmd_ParentOperationRef c')"
    using assms(1-4) Some c' by (simp add: bound_precondition_def)
  with assms(5) show ?thesis unfolding Some c'
    by (cases c; cases c'; cases "dcmd_ParentOperationRef c"; cases "dcmd_ParentOperationRef c'") simp
qed

text \<open>
  The request digest leaves out the live target and the parent UID of a destroy command, which are filled in after
  admission. Two accepted requests of one action that agree on what the digest covers are nevertheless the same
  instruction: the same target by name, UID and generation, and the same parent operation. Only the server's image
  resolution and the observed desired state of the target may differ.
\<close>
theorem request_digest_binds_target:
  assumes "ValidateRequest env action r = None" "ValidateRequest env action r' = None"
    and "unresolvedRequest r = unresolvedRequest r'"
  shows "instruction r = instruction r'"
proof -
  note fields = unresolved_fields [OF assms(3)]
  obtain p where p: "ParsePrecondition (oreq_Precondition r) = Some p" "\<not> targetInvalid env p r" "\<not> actionInvalid env action p r"
    using ValidateRequest_None [OF assms(1)] by blast
  obtain q where q: "ParsePrecondition (oreq_Precondition r') = Some q" "\<not> targetInvalid env q r'" "\<not> actionInvalid env action q r'"
    using ValidateRequest_None [OF assms(2)] by blast
  have "q = p" using p(1) q(1) fields(1) by simp
  then have bound: "bound_precondition r p" "bound_precondition r' p"
    using accepted_bound [OF p(2,3)] accepted_bound [OF q(2,3)] by simp_all
  have target: "map_option (\<lambda>t. t\<lparr> gref_DesiredState := DesiredStateStopped \<rparr>) (oreq_Target r) =
      map_option (\<lambda>t. t\<lparr> gref_DesiredState := DesiredStateStopped \<rparr>) (oreq_Target r')"
    using same_target [OF bound fields(2)] .
  have command: "oreq_DestroyCommand r = oreq_DestroyCommand r'"
    using same_command [OF bound _ _ fields(9)] accepted_commands [OF p(3)] accepted_commands [OF q(3)] fields(9) by force
  show ?thesis
    using fields target command unfolding instruction_def by (intro OperationRequest.equality) simp_all
qed

theorem request_digest_binds_target_witness:
  "instruction (exStart DesiredStateRunning) = instruction (exStart DesiredStateStopped) \<and> exStart DesiredStateRunning \<noteq> exStart DesiredStateStopped"
  using request_digest_binds_target [OF exStart_accepted [of DesiredStateRunning] exStart_accepted [of DesiredStateStopped]]
  by (simp add: exStart_def unresolvedRequest_def)

section \<open>Names\<close>

definition child_encoding :: "string \<Rightarrow> UID \<Rightarrow> bytes" where
  "child_encoding kind uid = ''arcadectl/child/v1'' @ CHR 0x00 # uid @ CHR 0x00 # kind"

interpretation child: digest_identity "child_encoding kind" "\<lambda>uid. uid \<noteq> [] \<and> childPrefix kind \<noteq> []" "childPrefix kind @ ''-''" 20 "\<lambda>uid. ChildName uid kind"
  for kind
proof unfold_locales
  show "uid = uid'" if "child_encoding kind uid = child_encoding kind uid'" for uid uid'
    using that unfolding child_encoding_def same_append_eq append_same_eq list.inject by blast
  show "ChildName uid kind = (childPrefix kind @ ''-'') @ hex (take 20 (sha256 (child_encoding kind uid)))" if "uid \<noteq> [] \<and> childPrefix kind \<noteq> []" for uid
    using that unfolding ChildName_def child_encoding_def append_assoc by argo
qed simp_all

lemma child_kinds:
  assumes "childPrefix kind \<noteq> []" "childPrefix kind' \<noteq> []" "childPrefix kind @ CHR ''-'' # s = childPrefix kind' @ CHR ''-'' # s'"
  shows "kind = kind'"
proof -
  have no_dash: "CHR ''-'' \<notin> set (childPrefix k)" for k by (simp add: childPrefix_def)
  have "childPrefix kind = childPrefix kind'" using append_sep_eq [OF no_dash no_dash assms(3)] by blast
  with assms(1,2) show ?thesis by (auto simp: childPrefix_def split: if_splits)
qed

lemma ReceiptName_eq:
  "ReceiptName n p q = (if receipt_valid (n, p, q) then Some (receipt_label (sha256 (receipt_encoding (n, p, q)))) else None)"
  by (simp add: ReceiptName_def KeyDigest_def NameForKeyDigest_def KeyDigest_eq NameForKeyDigest_string)

lemma receipt_name_inj:
  assumes "ReceiptName n p q = Some name" "ReceiptName n' p' q' = Some name"
  shows "(n', p', q') = (n, p, q) \<or> sha256_collision 32 (receipt_encoding (n, p, q)) (receipt_encoding (n', p', q'))"
proof -
  have valid: "receipt_valid (n, p, q)" "receipt_valid (n', p', q')"
    and names: "receipt_label (sha256 (receipt_encoding (n, p, q))) = receipt_label (sha256 (receipt_encoding (n', p', q')))"
    using assms by (auto simp: ReceiptName_eq split: if_splits)
  then have "keyDigestOf (n, p, q) = keyDigestOf (n', p', q')"
    using receipt_label_inj [OF _ _ names] by (simp add: keyDigestOf_eq sha256_string_def)
  then show ?thesis using key_digest.ident_inj [OF valid] by blast
qed

lemma child_prefix_label:
  assumes "childPrefix kind \<noteq> []"
  shows "is_alnum (hd (childPrefix kind @ ''-''))" "list_all (\<lambda>c. is_alnum c \<or> c = CHR ''-'') (childPrefix kind @ ''-'')" "length (childPrefix kind) \<le> 7"
  using assms by (auto simp: childPrefix_def char_class_defs split: if_splits)

lemma child_name_inj:
  assumes "uid \<noteq> []" "childPrefix kind \<noteq> []" "ChildName uid' kind' = ChildName uid kind"
  shows "kind' = kind \<and> (uid' = uid \<or> sha256_collision 20 (child_encoding kind uid) (child_encoding kind uid'))"
proof -
  have here: "ChildName uid kind = childPrefix kind @ CHR ''-'' # hex (take 20 (sha256 (child_encoding kind uid)))"
    using child.ident_eq [of uid kind] assms(1,2) by simp
  then have "ChildName uid' kind' \<noteq> []" unfolding assms(3) by simp
  then have valid: "uid' \<noteq> []" "childPrefix kind' \<noteq> []" unfolding ChildName_def by presburger+
  have there: "ChildName uid' kind' = childPrefix kind' @ CHR ''-'' # hex (take 20 (sha256 (child_encoding kind' uid')))"
    using child.ident_eq [of uid' kind'] valid by simp
  have "kind' = kind" by (rule child_kinds [OF valid(2) assms(2) assms(3) [unfolded here there]])
  with child.ident_inj [of uid kind uid'] assms valid show ?thesis by auto
qed

text \<open>
  A receipt's name is a DNS label of 55 bytes, and two admissions with the same receipt name have the same namespace,
  principal and idempotency key, unless their two encodings collide under SHA-256. The name of a child object is a
  DNS label too, it tells the child's kind, and two receipts share it only on a collision of the first 20 bytes.
\<close>
theorem receipt_identity:
  assumes "ReceiptName n p q = Some name" "uid \<noteq> []" "childPrefix kind \<noteq> []"
  shows "dns_label name \<and> length name = 55 \<and> dns_label (ChildName uid kind) \<and>
    (\<forall>n' p' q'. ReceiptName n' p' q' = Some name \<longrightarrow>
       (n', p', q') = (n, p, q) \<or> sha256_collision 32 (receipt_encoding (n, p, q)) (receipt_encoding (n', p', q'))) \<and>
    (\<forall>uid' kind'. ChildName uid' kind' = ChildName uid kind \<longrightarrow>
       kind' = kind \<and> (uid' = uid \<or> sha256_collision 20 (child_encoding kind uid) (child_encoding kind uid')))"
proof -
  have name: "dns_label name" "length name = 55"
    using assms(1) receipt_label_dns length_receipt_label by (auto simp: ReceiptName_eq split: if_splits)
  have child: "dns_label (ChildName uid kind)"
    by (rule child.ident_dns_label) (use child_prefix_label [OF assms(3)] assms(2,3) in simp_all)
  show ?thesis
    using name child receipt_name_inj [OF assms(1)] child_name_inj [OF assms(2,3)] by blast
qed

theorem receipt_identity_witness: "\<exists>name. ReceiptName ''arcade'' ''alice'' ''key-1'' = Some name \<and> dns_label name \<and> dns_label (ChildName ''u1'' ''GameBackup'')"
proof -
  have "receipt_valid (''arcade'', ''alice'', ''key-1'')"
    by (simp add: receipt_valid_def receiptid_namespacePattern_def principalPattern_def keyPattern_def dns_label_def word_char_def char_class_defs)
  then obtain name where "ReceiptName ''arcade'' ''alice'' ''key-1'' = Some name" by (simp add: ReceiptName_eq)
  with receipt_identity [of "''arcade''" "''alice''" "''key-1''" name "''u1''" "''GameBackup''"] show ?thesis by (simp add: childPrefix_def)
qed

end
