(* ===== verification/CanonicalNumber.thy ===== *)
theory CanonicalNumber
  imports CanonicalJson Complex_Main
begin

text \<open>
  The canonical spelling of a number is exact: it has the same value, and two literals get the same
  spelling exactly if they have the same value. Values are rational numbers, read off a literal as in
  the JSON standard.
\<close>

section \<open>The value of a literal\<close>

definition exponent_value :: "string \<Rightarrow> int" where
  "exponent_value t =
     (if HasPrefix t ''-'' then - int (digits_value 0 (drop 1 t))
      else if HasPrefix t ''+'' then int (digits_value 0 (drop 1 t)) else int (digits_value 0 t))"

definition number_value :: "string \<Rightarrow> rat" where
  "number_value s =
     (let negative = HasPrefix s ''-'';
          (mantissa, exponentText, _) = Cut (ToLower (if negative then drop 1 s else s)) (CHR ''e'');
          (whole, fraction, _) = Cut mantissa (CHR ''.'') in
      (if negative then -1 else 1) *
      (of_nat (digits_value 0 whole) + of_nat (digits_value 0 fraction) / 10 ^ length fraction) * 10 powi exponent_value exponentText)"

section \<open>The parts of a literal\<close>

definition exponent_part :: "string \<Rightarrow> bool" where
  "exponent_part e \<longleftrightarrow> e = [] \<or> (\<exists>c sign d. e = c # sign @ d \<and> (c = CHR ''e'' \<or> c = CHR ''E'') \<and>
     sign \<in> set [[], ''+'', ''-''] \<and> d \<noteq> [] \<and> list_all is_digit d)"

definition fraction_part :: "string \<Rightarrow> bool" where
  "fraction_part f \<longleftrightarrow> f = [] \<or> (\<exists>d. f = CHR ''.'' # d \<and> d \<noteq> [] \<and> list_all is_digit d)"

definition whole_part :: "string \<Rightarrow> bool" where
  "whole_part w \<longleftrightarrow> w = ''0'' \<or> (w \<noteq> [] \<and> list_all is_digit w \<and> hd w \<noteq> CHR ''0'')"

lemma prepend_Some: "prepend b x = Some (s, r) \<longleftrightarrow> (\<exists>t. x = Some (t, r) \<and> s = b @ t)"
  by (auto simp: prepend_def)

lemma read_digits_Some: "read_digits s = Some (d, r) \<Longrightarrow> s = d @ r \<and> d \<noteq> [] \<and> list_all is_digit d"
  by (auto simp: read_digits_def Let_def list_all_iff dest: set_takeWhileD split: if_splits)

lemma read_whole_Some: "read_whole s = Some (w, r) \<Longrightarrow> s = w @ r \<and> whole_part w"
proof (cases "s \<noteq> [] \<and> hd s = CHR ''0''")
  case True
  moreover assume "read_whole s = Some (w, r)"
  ultimately show ?thesis by (cases s) (auto simp: read_whole_def whole_part_def)
next
  case False
  moreover assume "read_whole s = Some (w, r)"
  ultimately have "read_digits s = Some (w, r)" by (auto simp: read_whole_def split: list.splits char.splits bool.splits)
  from read_digits_Some [OF this] False show ?thesis by (cases w) (auto simp: whole_part_def)
qed

lemma read_fraction_Some: "read_fraction s = Some (f, r) \<Longrightarrow> s = f @ r \<and> fraction_part f"
proof (cases "s \<noteq> [] \<and> hd s = CHR ''.''")
  case True
  moreover assume "read_fraction s = Some (f, r)"
  ultimately show ?thesis by (cases s) (auto simp: read_fraction_def fraction_part_def prepend_Some dest: read_digits_Some)
next
  case False
  moreover assume "read_fraction s = Some (f, r)"
  ultimately have "(f, r) = ([], s)" by (auto simp: read_fraction_def split: list.splits char.splits bool.splits)
  then show ?thesis by (simp add: fraction_part_def)
qed

lemma exponent_partI:
  "c = CHR ''e'' \<or> c = CHR ''E'' \<Longrightarrow> sign \<in> set [[], ''+'', ''-''] \<Longrightarrow> d \<noteq> [] \<Longrightarrow> list_all is_digit d \<Longrightarrow> exponent_part (c # sign @ d)"
  unfolding exponent_part_def by blast

lemma read_exponent_Some:
  assumes "read_exponent s = Some (e, r)"
  shows "s = e @ r \<and> exponent_part e"
proof (cases "s \<noteq> [] \<and> (hd s = CHR ''e'' \<or> hd s = CHR ''E'')")
  case False
  then have "e = []" "r = s" using assms by (auto simp: read_exponent_def split: list.splits if_splits)
  then show ?thesis by (simp add: exponent_part_def)
next
  case True
  then obtain c q where c: "s = c # q" "c = CHR ''e'' \<or> c = CHR ''E''" by (cases s) auto
  with assms obtain x q' where q: "q = x # q'" by (cases q) (auto simp: read_exponent_def)
  show ?thesis
  proof (cases "x = CHR ''+'' \<or> x = CHR ''-''")
    case True
    with assms c q obtain d where d: "read_digits q' = Some (d, r)" "e = c # [x] @ d"
      by (auto simp: read_exponent_def prepend_Some)
    from read_digits_Some [OF d(1)] show ?thesis using c q d(2) exponent_partI [OF c(2), of "[x]" d] True by auto
  next
    case False
    with assms c q obtain d where d: "read_digits q = Some (d, r)" "e = c # [] @ d"
      by (auto simp: read_exponent_def prepend_Some)
    from read_digits_Some [OF d(1)] show ?thesis using c d(2) exponent_partI [OF c(2), of "[]" d] by auto
  qed
qed

lemma read_number_parts:
  assumes "read_number s = Some (n, q)"
  obtains sign w f e where "s = n @ q" "n = sign @ w @ f @ e" "sign = [] \<or> sign = ''-''" "whole_part w" "fraction_part f" "exponent_part e"
proof -
  obtain sign r where sr: "(sign, r) = (if HasPrefix s ''-'' then (''-'', drop 1 s) else ([], s))" by (metis surj_pair)
  then have sign: "s = sign @ r" "sign = [] \<or> sign = ''-''"
    by (auto simp: HasPrefix_iff split: if_splits)
  have "prepend sign (case read_whole r of None \<Rightarrow> None | Some (w, r1) \<Rightarrow>
        (case read_fraction r1 of None \<Rightarrow> None | Some (f, r2) \<Rightarrow>
          (case read_exponent r2 of None \<Rightarrow> None | Some (e, r3) \<Rightarrow> Some (w @ f @ e, r3)))) = Some (n, q)"
    using assms unfolding read_number_def sr [symmetric] by simp
  then obtain w r1 f r2 e where "read_whole r = Some (w, r1)" "read_fraction r1 = Some (f, r2)" "read_exponent r2 = Some (e, q)" "n = sign @ w @ f @ e"
    by (auto simp: prepend_Some split: option.splits)
  moreover from this have "r = w @ f @ e @ q" "whole_part w" "fraction_part f" "exponent_part e"
    using read_whole_Some read_fraction_Some read_exponent_Some by fastforce+
  ultimately show thesis using sign by (intro that [of sign w f e]) auto
qed

lemma json_number_parts:
  assumes "json_number s"
  obtains sign w f e where "s = sign @ w @ f @ e" "sign = [] \<or> sign = ''-''" "whole_part w" "fraction_part f" "exponent_part e"
  using assms unfolding json_number_def by (elim read_number_parts) blast

section \<open>Digits\<close>

lemma digits_value_acc: "digits_value acc s = acc * 10 ^ length s + digits_value 0 s"
proof (induction s arbitrary: acc)
  case (Cons c s)
  show ?case using Cons [of "10 * acc + (of_char c - 48)"] Cons [of "of_char c - 48"] by (simp add: algebra_simps)
qed simp

lemma digits_value_split: "digits_value 0 (s @ t) = digits_value 0 s * 10 ^ length t + digits_value 0 t"
  using digits_value_append [of 0 s t] digits_value_acc [of "digits_value 0 s" t] by simp

lemma digits_value_zeros: "digits_value 0 (replicate n (CHR ''0'')) = 0"
  by (induction n) simp_all

lemma zeros_replicate: "\<forall>c\<in>set s. c = CHR ''0'' \<Longrightarrow> s = replicate (length s) (CHR ''0'')"
  by (induction s) auto

lemma digits_value_TrimLeft: "digits_value 0 (TrimLeftZeros s) = digits_value 0 s"
  unfolding TrimLeftZeros_def by (induction s) simp_all

lemma TrimRight_split: "s = TrimRightZeros s @ replicate (length s - length (TrimRightZeros s)) (CHR ''0'')"
proof -
  let ?z = "takeWhile (\<lambda>c. c = CHR ''0'') (rev s)"
  have s: "s = TrimRightZeros s @ rev ?z"
    unfolding TrimRightZeros_def by (metis rev_append rev_rev_ident takeWhile_dropWhile_id)
  have "rev ?z = replicate (length (rev ?z)) (CHR ''0'')" by (rule zeros_replicate) (auto dest: set_takeWhileD)
  moreover have "length s - length (TrimRightZeros s) = length (rev ?z)" using arg_cong [OF s, of length] by simp
  ultimately show ?thesis using s by metis
qed

lemma digits_value_TrimRight:
  "digits_value 0 s = digits_value 0 (TrimRightZeros s) * 10 ^ (length s - length (TrimRightZeros s))"
  using digits_value_split [of "TrimRightZeros s" "replicate (length s - length (TrimRightZeros s)) (CHR ''0'')"]
  by (simp add: TrimRight_split [symmetric] digits_value_zeros)

text \<open>A coefficient neither starts nor ends with a zero.\<close>

definition coefficient :: "string \<Rightarrow> bool" where
  "coefficient c \<longleftrightarrow> c \<noteq> [] \<and> list_all is_digit c \<and> hd c \<noteq> CHR ''0'' \<and> last c \<noteq> CHR ''0''"

lemma digit_value_pos: "is_digit c \<Longrightarrow> c \<noteq> CHR ''0'' \<Longrightarrow> 0 < (of_char c :: nat) - 48"
proof -
  assume *: "is_digit c" "c \<noteq> CHR ''0''"
  have "(of_char c :: nat) \<noteq> of_char (CHR ''0'')" using *(2) by (simp only: of_char_eq_iff not_False_eq_True)
  with *(1) show ?thesis by (simp add: is_digit_def)
qed

lemma coefficient_pos: "coefficient c \<Longrightarrow> 0 < digits_value 0 c"
proof (cases c)
  case (Cons a s)
  moreover assume "coefficient c"
  ultimately have "0 < (of_char a :: nat) - 48" by (intro digit_value_pos) (auto simp: coefficient_def)
  with Cons show ?thesis using digits_value_acc [of "of_char a - 48" s] by simp
qed (simp add: coefficient_def)

lemma coefficient_not_dvd: "coefficient c \<Longrightarrow> \<not> 10 dvd digits_value 0 c"
proof -
  assume c: "coefficient c"
  then have d: "is_digit (last c)" "last c \<noteq> CHR ''0''" by (auto simp: coefficient_def list_all_iff)
  have "0 < (of_char (last c) :: nat) - 48" using d by (rule digit_value_pos)
  moreover have "(of_char (last c) :: nat) - 48 < 10" using d(1) by (auto simp: is_digit_def)
  moreover have "digits_value 0 c = digits_value 0 (butlast c) * 10 + ((of_char (last c) :: nat) - 48)"
    using digits_value_split [of "butlast c" "[last c]"] c by (simp add: coefficient_def)
  ultimately show ?thesis by presburger
qed

text \<open>Digits without a leading zero are the decimal representation of their value.\<close>

lemma nat_decimal_snoc: "0 < n \<Longrightarrow> d < 10 \<Longrightarrow> nat_decimal (10 * n + d) = nat_decimal n @ [digit_char d]"
  unfolding nat_decimal_def by (subst digits_rev.simps) simp

lemma digit_char_digit: "is_digit c \<Longrightarrow> digit_char ((of_char c :: nat) - 48) = c"
  by (simp add: digit_char_def is_digit_def)

lemma nat_decimal_digits_value:
  "c \<noteq> [] \<Longrightarrow> list_all is_digit c \<Longrightarrow> hd c \<noteq> CHR ''0'' \<Longrightarrow> nat_decimal (digits_value 0 c) = c \<and> 0 < digits_value 0 c"
proof (induction c rule: rev_induct)
  case (snoc x c)
  have x: "is_digit x" "(of_char x :: nat) - 48 < 10" using snoc.prems by (auto simp: is_digit_def)
  show ?case
  proof (cases "c = []")
    case True
    have "0 < (of_char x :: nat) - 48" using snoc.prems True by (intro digit_value_pos) auto
    with True x show ?thesis by (simp add: nat_decimal_def digits_rev.simps digit_char_digit)
  next
    case False
    with snoc have c: "nat_decimal (digits_value 0 c) = c" "0 < digits_value 0 c" by auto
    have v: "digits_value 0 (c @ [x]) = 10 * digits_value 0 c + ((of_char x :: nat) - 48)"
      using digits_value_split [of c "[x]"] by simp
    show ?thesis unfolding v using nat_decimal_snoc [OF c(2) x(2)] c digit_char_digit [OF x(1)] by simp
  qed
qed simp

section \<open>The canonical form\<close>

definition render :: "bool \<Rightarrow> string \<Rightarrow> int \<Rightarrow> string" where
  "render negative c x = (if negative then ''-'' else []) @ c @
     (if 0 < x then replicate (nat x) (CHR ''0'') else if x < 0 then ''e'' @ Itoa x else [])"

definition signed_value :: "bool \<Rightarrow> string \<Rightarrow> int \<Rightarrow> rat" where
  "signed_value negative c x = (if negative then -1 else 1) * of_nat (digits_value 0 c) * 10 powi x"

lemma is_digit_not: "is_digit c \<Longrightarrow> \<not> is_upper c \<and> c \<noteq> CHR ''e'' \<and> c \<noteq> CHR ''E'' \<and> c \<noteq> CHR ''.'' \<and> c \<noteq> CHR ''-'' \<and> c \<noteq> CHR ''+''"
  by (auto simp: char_class_defs)

lemma ToLower_append [simp]: "ToLower (s @ t) = ToLower s @ ToLower t"
  by (simp add: ToLower_def)

lemma ToLower_digits: "list_all is_digit d \<Longrightarrow> ToLower d = d"
  unfolding ToLower_def by (rule map_idI) (auto simp: list_all_iff dest: is_digit_not)

lemma ToLower_marks [simp]: "ToLower [] = []" "ToLower (CHR ''.'' # s) = CHR ''.'' # ToLower s"
  "ToLower (CHR ''e'' # s) = CHR ''e'' # ToLower s" "ToLower (CHR ''E'' # s) = CHR ''e'' # ToLower s"
  "ToLower (CHR ''+'' # s) = CHR ''+'' # ToLower s" "ToLower (CHR ''-'' # s) = CHR ''-'' # ToLower s"
  by (simp_all add: ToLower_def is_upper_def char_of_def bit_simps)

lemma digits_no_mark: "list_all is_digit d \<Longrightarrow> CHR ''e'' \<notin> set d \<and> CHR ''.'' \<notin> set d"
  by (auto simp: list_all_iff dest: is_digit_not)

lemma whole_digits: "whole_part w \<Longrightarrow> w \<noteq> [] \<and> list_all is_digit w"
  by (auto simp: whole_part_def is_digit_def)

lemma fraction_digits: "fraction_part f \<Longrightarrow> list_all is_digit (drop 1 f) \<and> (f = [] \<or> f = CHR ''.'' # drop 1 f)"
  by (auto simp: fraction_part_def)

lemma exponent_lower:
  assumes "exponent_part e"
  shows "e = [] \<or> ToLower e = CHR ''e'' # drop 1 e"
  using assms by (auto simp: exponent_part_def ToLower_digits)

lemma Cut_parts:
  assumes "whole_part w" "fraction_part f" "exponent_part e"
  shows "Cut (ToLower (w @ f @ e)) (CHR ''e'') = (w @ f, drop 1 e, e \<noteq> [])" "Cut (w @ f) (CHR ''.'') = (w, drop 1 f, f \<noteq> [])"
proof -
  note w = whole_digits [OF assms(1)] and f = fraction_digits [OF assms(2)]
  have "ToLower f = f" using f ToLower_digits [of "drop 1 f"] by (metis ToLower_marks(1,2))
  moreover have "CHR ''e'' \<notin> set (w @ f)" 
  proof -
    have "CHR ''e'' \<notin> set f" using f digits_no_mark [of "drop 1 f"] by (cases f) auto
    with w digits_no_mark [of w] show ?thesis by simp
  qed
  ultimately show "Cut (ToLower (w @ f @ e)) (CHR ''e'') = (w @ f, drop 1 e, e \<noteq> [])"
    using exponent_lower [OF assms(3)] Cut_no_sep [of "CHR ''e''" "w @ f"] Cut_append_sep [of "CHR ''e''" "w @ f" "drop 1 e"] w
    by (auto simp: ToLower_digits)
  show "Cut (w @ f) (CHR ''.'') = (w, drop 1 f, f \<noteq> [])"
    using f w digits_no_mark [of w] Cut_no_sep [of "CHR ''.''" w] Cut_append_sep [of "CHR ''.''" w "drop 1 f"] by auto
qed

lemma sign_parts: "sign = [] \<or> sign = ''-'' \<Longrightarrow> whole_part w \<Longrightarrow> HasPrefix (sign @ w @ r) ''-'' \<longleftrightarrow> sign = ''-''"
  using whole_digits [of w] by (cases w) (auto simp: HasPrefix_iff dest: is_digit_not)

lemma number_value_parts:
  assumes "sign = [] \<or> sign = ''-''" "whole_part w" "fraction_part f" "exponent_part e"
  shows "number_value (sign @ w @ f @ e) =
    signed_value (sign = ''-'') (w @ drop 1 f) (exponent_value (drop 1 e) - int (length (drop 1 f)))"
proof -
  have u: "(if HasPrefix (sign @ w @ f @ e) ''-'' then drop 1 (sign @ w @ f @ e) else sign @ w @ f @ e) = w @ f @ e"
    using assms(1) sign_parts [OF assms(1,2), of "f @ e"] by auto
  have "(of_nat a + of_nat b / 10 ^ n) * 10 powi x = (of_nat (a * 10 ^ n + b) :: rat) * 10 powi (x - int n)" for a b n x
    by (simp add: power_int_diff field_simps)
  then show ?thesis
    unfolding number_value_def u Let_def Cut_parts [OF assms(2-4)] prod.case
    using sign_parts [OF assms(1,2), of "f @ e"]
    by (simp add: signed_value_def digits_value_split mult.assoc)
qed

text \<open>A literal ends where neither a digit nor a mark follows.\<close>

definition number_ends :: "string \<Rightarrow> bool" where
  "number_ends r \<longleftrightarrow> r = [] \<or> \<not> is_digit (hd r) \<and> hd r \<notin> set ''.eE''"

lemma read_digits_append: "d \<noteq> [] \<Longrightarrow> list_all is_digit d \<Longrightarrow> r = [] \<or> \<not> is_digit (hd r) \<Longrightarrow> read_digits (d @ r) = Some (d, r)"
  by (cases r) (simp_all add: read_digits_def list_all_iff takeWhile_append2 dropWhile_append2 takeWhile_eq_all_conv [THEN iffD2])

lemma read_whole_append:
  assumes "whole_part w" "r = [] \<or> \<not> is_digit (hd r)"
  shows "read_whole (w @ r) = Some (w, r)"
proof (cases "w = ''0''")
  case False
  then have "w \<noteq> []" "list_all is_digit w" "hd w \<noteq> CHR ''0''" using assms(1) by (auto simp: whole_part_def)
  then show ?thesis
    using read_digits_append [of w r] assms(2) by (cases w) (auto simp: read_whole_def split: char.splits bool.splits)
qed (simp add: read_whole_def)

lemma read_fraction_none: "r = [] \<or> hd r \<noteq> CHR ''.'' \<Longrightarrow> read_fraction r = Some ([], r)"
  by (cases r) (auto simp: read_fraction_def split: char.splits bool.splits)

lemma read_fraction_append:
  assumes "fraction_part f" "r = [] \<or> \<not> is_digit (hd r) \<and> hd r \<noteq> CHR ''.''"
  shows "read_fraction (f @ r) = Some (f, r)"
proof (cases "f = []")
  case True
  then show ?thesis using assms(2) read_fraction_none by auto
next
  case False
  then obtain d where "f = CHR ''.'' # d" "d \<noteq> []" "list_all is_digit d" using assms(1) by (auto simp: fraction_part_def)
  then show ?thesis using assms(2) read_digits_append [of d r] by (auto simp: read_fraction_def prepend_def)
qed

lemma read_exponent_append:
  assumes "exponent_part e" "number_ends r"
  shows "read_exponent (e @ r) = Some (e, r)"
proof (cases "e = []")
  case True
  then show ?thesis using assms(2) by (cases r) (auto simp: read_exponent_def number_ends_def)
next
  case False
  then obtain c sign d where e: "e = c # sign @ d" "c = CHR ''e'' \<or> c = CHR ''E''" "sign \<in> set [[], ''+'', ''-'']" "d \<noteq> []" "list_all is_digit d"
    using assms(1) unfolding exponent_part_def by blast
  have d: "read_digits (d @ r) = Some (d, r)" using e(4,5) assms(2) by (intro read_digits_append) (auto simp: number_ends_def)
  have "is_digit (hd d)" using e(4,5) by (cases d) auto
  then have "hd d \<noteq> CHR ''+''" "hd d \<noteq> CHR ''-''" using is_digit_not by blast+
  then show ?thesis using e d by (cases d) (auto simp: read_exponent_def prepend_def)
qed

lemma read_number_append:
  assumes "sign = [] \<or> sign = ''-''" "whole_part w" "fraction_part f" "exponent_part e" "number_ends r"
  shows "read_number ((sign @ w @ f @ e) @ r) = Some (sign @ w @ f @ e, r)"
proof -
  have er: "e @ r = [] \<or> \<not> is_digit (hd (e @ r)) \<and> hd (e @ r) \<noteq> CHR ''.''"
    using assms(4,5) by (auto simp: exponent_part_def number_ends_def is_digit_def)
  have fr: "f @ e @ r = [] \<or> \<not> is_digit (hd (f @ e @ r))"
    using er fraction_digits [OF assms(3)] by (cases f) (auto simp: is_digit_def)
  have "read_whole (w @ f @ e @ r) = Some (w, f @ e @ r)" "read_fraction (f @ e @ r) = Some (f, e @ r)"
    using read_whole_append [OF assms(2) fr] read_fraction_append [OF assms(3) er] by auto
  moreover have "(if HasPrefix ((sign @ w @ f @ e) @ r) ''-'' then (''-'', drop 1 ((sign @ w @ f @ e) @ r)) else ([], (sign @ w @ f @ e) @ r)) = (sign, w @ f @ e @ r)"
    using assms(1) sign_parts [OF assms(1,2), of "f @ e @ r"] by auto
  ultimately show ?thesis
    unfolding read_number_def using read_exponent_append [OF assms(4,5)] by (simp add: prepend_def)
qed

lemma json_number_append: "json_number n \<Longrightarrow> number_ends r \<Longrightarrow> read_number (n @ r) = Some (n, r)"
  by (erule json_number_parts) (use read_number_append in blast)

lemma render_parts:
  assumes "coefficient c"
  obtains w e where "render negative c x = (if negative then ''-'' else []) @ w @ e" "whole_part w" "exponent_part e"
    "signed_value negative w (exponent_value (drop 1 e)) = signed_value negative c x" "e = [] \<longleftrightarrow> 0 \<le> x"
proof (cases "x < 0")
  case True
  have "exponent_part (CHR ''e'' # ''-'' @ nat_decimal (nat \<bar>x\<bar>))"
    by (rule exponent_partI) (simp_all add: nat_decimal_digits)
  moreover have "whole_part c" using assms by (simp add: whole_part_def coefficient_def)
  moreover have "exponent_value (drop 1 (CHR ''e'' # ''-'' @ nat_decimal (nat \<bar>x\<bar>))) = x"
    using True by (simp add: exponent_value_def HasPrefix_iff)
  ultimately show thesis using True that [of c "CHR ''e'' # ''-'' @ nat_decimal (nat \<bar>x\<bar>)"] by (simp add: render_def Itoa_def)
next
  case False
  let ?w = "c @ replicate (nat x) (CHR ''0'')"
  have "whole_part ?w" using assms by (auto simp: whole_part_def coefficient_def list_all_iff is_digit_def)
  moreover have "exponent_part []" by (simp add: exponent_part_def)
  moreover have "signed_value negative ?w (exponent_value []) = signed_value negative c x"
    using False by (simp add: signed_value_def digits_value_split digits_value_zeros exponent_value_def power_int_def)
  ultimately show thesis using False that [of ?w "[]"] by (simp add: render_def)
qed

lemma render_number: "coefficient c \<Longrightarrow> number_ends r \<Longrightarrow> read_number (render negative c x @ r) = Some (render negative c x, r)"
  by (erule render_parts [of c negative x])
    (use read_number_append [of "if negative then ''-'' else []" _ "[]"] in \<open>auto simp: fraction_part_def\<close>)

lemma render_value: "coefficient c \<Longrightarrow> number_value (render negative c x) = signed_value negative c x"
proof (erule render_parts [of c negative x])
  fix w e
  assume "render negative c x = (if negative then ''-'' else []) @ w @ e" "whole_part w" "exponent_part e"
    "signed_value negative w (exponent_value (drop 1 e)) = signed_value negative c x"
  then show ?thesis using number_value_parts [of "if negative then ''-'' else []" w "[]" e]
    by (cases negative) (simp_all add: fraction_part_def)
qed

lemma Atoi_value: "Atoi t = Some n \<Longrightarrow> n = exponent_value t"
  by (auto simp: Atoi_def exponent_value_def Let_def split: if_splits)

lemma exponentOf_value: "exponentOf t b = Some n \<Longrightarrow> b \<or> t = [] \<Longrightarrow> n = exponent_value t"
  by (auto simp: exponentOf_def exponent_value_def HasPrefix_iff dest: Atoi_value split: if_splits option.splits)

lemma coefficient_trimmed:
  assumes "list_all is_digit d" "TrimLeftZeros d \<noteq> []"
  shows "coefficient (TrimRightZeros (TrimLeftZeros d))"
proof -
  let ?l = "TrimLeftZeros d" and ?r = "TrimRightZeros (TrimLeftZeros d)"
  have hd: "hd ?l \<noteq> CHR ''0''" using assms(2) hd_dropWhile [of "\<lambda>c. c = CHR ''0''" d] by (simp add: TrimLeftZeros_def)
  have split: "?l = ?r @ replicate (length ?l - length ?r) (CHR ''0'')" by (rule TrimRight_split)
  have "?r \<noteq> []"
  proof
    assume "?r = []"
    then have "?l = replicate (length ?l) (CHR ''0'')" using split by simp
    then have "hd ?l = CHR ''0''" using assms(2) by (metis hd_replicate length_0_conv)
    with hd show False by simp
  qed
  moreover from this have "hd ?r = hd ?l" using split by (metis hd_append2)
  moreover have "last ?r \<noteq> CHR ''0''"
    using \<open>?r \<noteq> []\<close> hd_dropWhile [of "\<lambda>c. c = CHR ''0''" "rev ?l"] unfolding TrimRightZeros_def by (simp add: last_rev)
  moreover have "set ?r \<subseteq> set d" unfolding TrimRightZeros_def TrimLeftZeros_def by (auto dest!: set_dropWhileD)
  ultimately show ?thesis using assms(1) hd by (auto simp: coefficient_def list_all_iff)
qed

lemma signed_value_trimmed:
  "signed_value negative d x =
   signed_value negative (TrimRightZeros (TrimLeftZeros d)) (x + int (length (TrimLeftZeros d) - length (TrimRightZeros (TrimLeftZeros d))))"
  using digits_value_TrimLeft [of d] arg_cong [OF digits_value_TrimRight [of "TrimLeftZeros d"], of "of_nat :: nat \<Rightarrow> rat"]
  by (simp add: signed_value_def power_int_add)

lemma canonicalNumber_parts:
  assumes "sign = [] \<or> sign = ''-''" "whole_part w" "fraction_part f" "exponent_part e"
  shows "canonicalNumber (sign @ w @ f @ e) =
    (if 128 < length (sign @ w @ f @ e) then None
     else case exponentOf (drop 1 e) (e \<noteq> []) of
       None \<Rightarrow> None
     | Some parsed \<Rightarrow>
         if TrimLeftZeros (w @ drop 1 f) = [] then Some ''0''
         else Some (render (sign = ''-'') (TrimRightZeros (TrimLeftZeros (w @ drop 1 f)))
           (parsed - int (length (drop 1 f)) +
            int (length (TrimLeftZeros (w @ drop 1 f)) - length (TrimRightZeros (TrimLeftZeros (w @ drop 1 f)))))))"
proof -
  have u: "HasPrefix (sign @ w @ f @ e) ''-'' \<longleftrightarrow> sign = ''-''"
    "(if sign = ''-'' then drop 1 (sign @ w @ f @ e) else sign @ w @ f @ e) = w @ f @ e"
    using assms(1) sign_parts [OF assms(1,2), of "f @ e"] by auto
  show ?thesis
    unfolding canonicalNumber_def Let_def u Cut_parts [OF assms(2-4)] prod.case
    by (auto simp: render_def split: option.splits)
qed

lemma canonical_form:
  assumes "json_number s" "canonicalNumber s = Some t"
  obtains (zero) "t = ''0''" "number_value s = 0"
  | (form) negative c x where "coefficient c" "t = render negative c x" "number_value s = signed_value negative c x"
proof -
  obtain sign w f e where p: "s = sign @ w @ f @ e" "sign = [] \<or> sign = ''-''" "whole_part w" "fraction_part f" "exponent_part e"
    by (rule json_number_parts [OF assms(1)])
  let ?d = "w @ drop 1 f" and ?y = "exponent_value (drop 1 e) - int (length (drop 1 f))"
  have val: "number_value s = signed_value (sign = ''-'') ?d ?y" unfolding p(1) by (rule number_value_parts [OF p(2-5)])
  note canonical = assms(2) [unfolded p(1) canonicalNumber_parts [OF p(2-5)]]
  obtain parsed where parsed: "exponentOf (drop 1 e) (e \<noteq> []) = Some parsed"
    using canonical by (auto split: if_splits option.splits)
  have exponent: "parsed = exponent_value (drop 1 e)" using exponentOf_value [OF parsed] by auto
  show thesis
  proof (cases "TrimLeftZeros ?d = []")
    case True
    then have "t = ''0''" using canonical parsed by (auto split: if_splits)
    moreover have "digits_value 0 ?d = 0" using digits_value_TrimLeft [of ?d] True by simp
    ultimately show thesis using val zero by (simp add: signed_value_def)
  next
    case False
    let ?c = "TrimRightZeros (TrimLeftZeros ?d)"
    let ?x = "?y + int (length (TrimLeftZeros ?d) - length ?c)"
    have "list_all is_digit ?d" using whole_digits [OF p(3)] fraction_digits [OF p(4)] by simp
    from coefficient_trimmed [OF this False] have "coefficient ?c" .
    moreover have "t = render (sign = ''-'') ?c ?x" using canonical parsed exponent False by (auto split: if_splits)
    moreover have "number_value s = signed_value (sign = ''-'') ?c ?x" unfolding val by (rule signed_value_trimmed)
    ultimately show thesis by (rule form)
  qed
qed

section \<open>Exactness\<close>

lemma shifted_dvd:
  assumes "of_nat m * 10 powi x = (of_nat n * 10 powi y :: rat)" "x < y"
  shows "10 dvd m"
proof -
  have "(of_nat m :: rat) = of_nat (n * 10 ^ nat (y - x))"
    using assms by (simp add: field_simps power_int_diff flip: power_int_of_nat)
  then have "m = n * 10 ^ nat (y - x)" by (simp only: of_nat_eq_iff)
  moreover have "(10 :: nat) dvd 10 ^ nat (y - x)" using assms(2) by (intro dvd_power) simp
  ultimately show ?thesis by (simp add: dvd_mult)
qed

lemma signed_value_inj:
  assumes "coefficient c" "coefficient c'" "signed_value negative c x = signed_value negative' c' x'"
  shows "negative = negative' \<and> c = c' \<and> x = x'"
proof -
  have pos: "0 < (of_nat (digits_value 0 c) * 10 powi x :: rat)" "0 < (of_nat (digits_value 0 c') * 10 powi x' :: rat)"
    using coefficient_pos [OF assms(1)] coefficient_pos [OF assms(2)] by (simp_all add: zero_less_power_int)
  then have sign: "negative = negative'" and eq: "of_nat (digits_value 0 c) * 10 powi x = (of_nat (digits_value 0 c') * 10 powi x' :: rat)"
    using assms(3) by (auto simp: signed_value_def split: if_splits)
  have "x = x'"
    using shifted_dvd [OF eq] shifted_dvd [OF eq [symmetric]] coefficient_not_dvd [OF assms(1)] coefficient_not_dvd [OF assms(2)]
    by (cases x x' rule: linorder_cases) auto
  with eq have "digits_value 0 c = digits_value 0 c'" by simp
  moreover have "nat_decimal (digits_value 0 c) = c" "nat_decimal (digits_value 0 c') = c'"
    using assms(1,2) nat_decimal_digits_value by (auto simp: coefficient_def)
  ultimately have "c = c'" by metis
  with sign \<open>x = x'\<close> show ?thesis by simp
qed

lemma signed_value_integer:
  assumes "coefficient c"
  shows "signed_value negative c x \<in> \<int> \<longleftrightarrow> 0 \<le> x"
proof
  assume "0 \<le> x"
  then show "signed_value negative c x \<in> \<int>" by (auto simp: signed_value_def power_int_def intro!: Ints_mult)
next
  assume int: "signed_value negative c x \<in> \<int>"
  show "0 \<le> x"
  proof (rule ccontr)
    assume x: "\<not> 0 \<le> x"
    have "of_nat (digits_value 0 c) * 10 powi x \<in> (\<int> :: rat set)"
      using int by (auto simp: signed_value_def dest: Ints_minus split: if_splits)
    moreover have "0 \<le> (of_nat (digits_value 0 c) * 10 powi x :: rat)" by (simp add: zero_le_power_int)
    ultimately obtain n where "of_nat (digits_value 0 c) * 10 powi x = (of_nat n :: rat)"
      by (metis Ints_cases nonneg_int_cases of_int_0_le_iff of_int_of_nat_eq)
    then have "of_nat (digits_value 0 c) * 10 powi x = (of_nat n * 10 powi 0 :: rat)" by simp
    from shifted_dvd [OF this] x coefficient_not_dvd [OF assms] show False by simp
  qed
qed

lemma signed_value_nonzero: "coefficient c \<Longrightarrow> signed_value negative c x \<noteq> 0"
  using coefficient_pos [of c] by (auto simp: signed_value_def)

lemma number_value_0: "number_value ''0'' = 0"
  using number_value_parts [of "[]" "''0''" "[]" "[]"] by (simp add: whole_part_def fraction_part_def exponent_part_def signed_value_def)

lemma json_number_0: "number_ends r \<Longrightarrow> read_number (''0'' @ r) = Some (''0'', r)"
  using read_number_append [of "[]" "''0''" "[]" "[]" r] by (simp add: whole_part_def fraction_part_def exponent_part_def)

lemma render_e: "coefficient c \<Longrightarrow> CHR ''e'' \<in> set (render negative c x) \<longleftrightarrow> x < 0"
  using digits_no_mark [of c] by (auto simp: render_def coefficient_def)

lemma canonical_number_value:
  assumes "json_number s" "canonicalNumber s = Some t"
  shows "json_number t \<and> number_value t = number_value s \<and> (CHR ''e'' \<in> set t \<longleftrightarrow> number_value s \<notin> \<int>)"
  using assms
proof (cases rule: canonical_form)
  case zero
  then show ?thesis using json_number_0 [of "[]"] by (simp add: json_number_def number_value_0 number_ends_def)
next
  case (form negative c x)
  then show ?thesis
    using render_number [of c "[]" negative x] render_value [of c negative x] render_e [of c negative x] signed_value_integer [of c negative x]
    by (auto simp: json_number_def number_ends_def)
qed

lemma canonical_number_eq:
  assumes "json_number s" "canonicalNumber s = Some t" "json_number s'" "canonicalNumber s' = Some t'"
  shows "t = t' \<longleftrightarrow> number_value s = number_value s'"
proof
  assume same: "number_value s = number_value s'"
  from assms(1,2) show "t = t'"
  proof (cases rule: canonical_form)
    case zero
    from assms(3,4) show ?thesis
      by (cases rule: canonical_form) (use zero same signed_value_nonzero in auto)
  next
    case f: (form negative c x)
    from assms(3,4) show ?thesis
    proof (cases rule: canonical_form)
      case (form negative' c' x')
      then have "negative = negative' \<and> c = c' \<and> x = x'" using f same by (intro signed_value_inj) auto
      with f form show ?thesis by simp
    qed (use f same signed_value_nonzero in auto)
  qed
next
  assume "t = t'"
  then show "number_value s = number_value s'"
    using canonical_number_value [OF assms(1,2)] canonical_number_value [OF assms(3,4)] by metis
qed

text \<open>
  Canonical numbers are exact. The canonical spelling of a JSON number literal is again a number literal with
  the same rational value, without rounding; it has an exponent only if the value is not an integer; and two
  literals get the same spelling exactly if they have the same value, however they were written.
\<close>
theorem canonical_number_exact:
  assumes "json_number s" "canonicalNumber s = Some t" "json_number s'" "canonicalNumber s' = Some t'"
  shows "json_number t \<and> number_value t = number_value s \<and> (CHR ''e'' \<in> set t \<longleftrightarrow> number_value s \<notin> \<int>) \<and>
    (t = t' \<longleftrightarrow> number_value s = number_value s')"
  using canonical_number_value [OF assms(1,2)] canonical_number_eq [OF assms] by blast

theorem canonical_number_exact_witness: "number_value ''20'' = number_value ''2.0E+1'' \<and> number_value ''20'' \<in> \<int> \<and> number_value ''-15e-4'' \<notin> \<int>"
proof -
  have n: "json_number ''20''" "json_number ''2.0E+1''" "json_number ''-15e-4''" by code_simp+
  have c: "canonicalNumber ''20'' = Some ''20''" "canonicalNumber ''2.0E+1'' = Some ''20''" "canonicalNumber ''-15e-4'' = Some ''-15e-4''"
    by code_simp+
  show ?thesis
    using canonical_number_exact [OF n(1) c(1) n(2) c(2)] canonical_number_exact [OF n(3) c(3) n(3) c(3)] by auto
qed

text \<open>
  A canonical spelling can be too long to be read again: the code refuses literals of more than 128 bytes, but
  spells a large power of ten out.
\<close>

lemma canonical_number_refused: "\<exists>t. canonicalNumber ''1e200'' = Some t \<and> canonicalNumber t = None"
proof -
  have "canonicalNumber ''1e200'' = Some (''1'' @ replicate 200 (CHR ''0''))" by code_simp
  then show ?thesis by (simp add: canonicalNumber_def)
qed

end
