(* ===== verification/CanonicalJsonBudget.thy ===== *)
theory CanonicalJsonBudget
  imports CanonicalNumber "HOL-Library.Multiset"
begin

text \<open>
  The decoding loops end, and the budget is charged exactly: what a successful decoding spends is the
  length of the canonical output, so that a document is refused while it is read exactly if its output
  would be too long.
\<close>

section \<open>Every token is read from the input\<close>

lemma read_string_shorter: "read_string s = Some (b, r) \<Longrightarrow> length r < length s"
proof (induction s arbitrary: b rule: read_string.induct)
  case (1 s)
  then obtain c q where s: "s = c # q" by (cases s) (auto simp: read_string.simps)
  show ?case
  proof (cases "c = CHR 0x22")
    case True
    with 1(4) s show ?thesis by (simp add: read_string.simps)
  next
    case quote: False
    show ?thesis
    proof (cases "c = CHR 0x5C")
      case True
      with 1(4) s quote obtain b1 q1 b2 where e: "read_escape q = Some (b1, q1)" "read_string q1 = Some (b2, r)"
        by (subst (asm) read_string.simps) (auto simp: prepend_Some split: option.splits)
      from 1(1) [OF s quote True e(1)] e(2) read_escape_shorter [OF e(1)] s show ?thesis by fastforce
    next
      case False
      with 1(4) s quote have small: "\<not> (of_char c :: nat) < 32"
        by (subst (asm) read_string.simps) (auto split: if_splits)
      show ?thesis
      proof (cases "utf8_size s = 0")
        case True
        with 1(4) s quote False small obtain b2 where e: "read_string q = Some (b2, r)"
          by (subst (asm) read_string.simps) (auto simp: prepend_Some)
        from 1(2) [OF s quote False small True e] s show ?thesis by simp
      next
        case size: False
        with 1(4) s quote False small obtain b2 where e: "read_string (drop (utf8_size s) s) = Some (b2, r)"
          by (subst (asm) read_string.simps) (auto simp: prepend_Some)
        from 1(3) [OF s quote False small size e] size s show ?thesis by simp
      qed
    qed
  qed
qed

lemma read_number_shorter: "read_number s = Some (n, r) \<Longrightarrow> length r < length s"
  by (auto simp: read_number_def prepend_Some HasPrefix_iff split: if_splits option.splits
      dest!: read_whole_Some read_fraction_Some read_exponent_Some whole_digits)

lemma read_scalar_shorter: "read_scalar s = Some (t, r) \<Longrightarrow> length r < length s"
  by (cases s) (auto simp: read_scalar_def HasPrefix_iff split: if_splits dest!: read_string_shorter read_number_shorter)

lemma Token_shorter: "Token d = Inr (t, d') \<Longrightarrow> length (dec_input d') < length (dec_input d)"
proof (induction d rule: Token.induct)
  case (1 d)
  then obtain c r where cr: "dropWhile json_space (dec_input d) = c # r" by (cases "dropWhile json_space (dec_input d)") (auto simp: Token.simps)
  have r: "length r < length (dec_input d)" "length (c # r) \<le> length (dec_input d)"
    using dropWhile_shorter [OF cr] length_dropWhile_le [of json_space "dec_input d"] cr by auto
  have opened: "length (dec_input d') < length (dec_input d)" if "openDelim d c r start = Inr (t, d')" for start
    using that r(1) by (auto simp: openDelim_def split: if_splits)
  have closed: "length (dec_input d') < length (dec_input d)" if "closeDelim d c r states = Inr (t, d')" for states
    using that r(1) by (auto simp: closeDelim_def split: if_splits list.splits)
  have key: "length (dec_input d') < length (dec_input d)" if "readKey d r = Inr (t, d')"
    using that r(1) by (auto simp: readKey_def split: option.splits dest!: read_string_shorter)
  have scalar: "length (dec_input d') < length (dec_input d)" if "readValue d (c # r) = Inr (t, d')"
    using that r(2) by (auto simp: readValue_def split: option.splits if_splits dest!: read_scalar_shorter)
  have skip: "length (dec_input d') < length (dec_input d)" if "length (dec_input d') < length r"
    using that r(1) by simp
  show ?case
    using 1(4) 1(1-3) [OF cr] skip opened closed key scalar
    by (subst (asm) Token.simps) (auto simp: cr split: if_splits)
qed

lemma closes_shorter: "closes d c = Some d' \<Longrightarrow> length (dec_input d') < length (dec_input d)"
  by (auto simp: closes_def split: sum.splits if_splits dest: Token_shorter)

lemma bind_Some: "Option.bind x f = Some y \<longleftrightarrow> (\<exists>z. x = Some z \<and> f z = Some y)"
  by (cases x) auto

text \<open>The ways in which a value, a member and an element are decoded.\<close>

lemma decodeValue_Some:
  assumes "decodeValue d depth b = Some (v, d', b')"
  obtains (scalar) t where "depth \<le> 32" "Token d = Inr (t, d')" "decodeScalar t b = Some (v, b')" "t \<noteq> Delim (CHR ''{'')" "t \<noteq> Delim (CHR ''['')"
  | (object) d1 fs d2 b1 where "depth \<le> 32" "Token d = Inr (Delim (CHR ''{''), d1)" "spend b 2 = Some b1"
      "decodeMembers (length (dec_input d1)) [] d1 depth b1 = Some (fs, d2, b')" "closes d2 (CHR ''}'') = Some d'" "v = JObject fs"
  | (array) d1 vs d2 b1 where "depth \<le> 32" "Token d = Inr (Delim (CHR ''[''), d1)" "spend b 2 = Some b1"
      "decodeElements (length (dec_input d1)) [] d1 depth b1 = Some (vs, d2, b')" "closes d2 (CHR '']'') = Some d'" "v = JArray vs"
proof -
  obtain t d1 where t: "depth \<le> 32" "Token d = Inr (t, d1)"
    using assms by (subst (asm) decodeValue.simps) (auto split: if_splits sum.splits)
  consider "t = Delim (CHR ''{'')" | "t = Delim (CHR ''['')" | "t \<noteq> Delim (CHR ''{'')" "t \<noteq> Delim (CHR ''['')" by blast
  then show thesis
  proof cases
    case 1
    with assms t object show thesis by (subst (asm) decodeValue.simps) (auto simp: bind_Some)
  next
    case 2
    with assms t array show thesis by (subst (asm) decodeValue.simps) (auto simp: bind_Some)
  next
    case 3
    with assms t scalar show thesis by (subst (asm) decodeValue.simps) (auto simp: bind_Some)
  qed
qed

lemma decodeMembers_Some:
  assumes "decodeMembers n object d depth b = Some (object', d', b')"
  obtains (finish) "\<not> More d" "object' = object" "d' = d" "b' = b"
  | (more) m name d1 b1 child d2 b2 where "More d" "n = Suc m" "Token d = Inr (TokenString name, d1)" "name \<notin> fst ` set object"
      "spendKey b name object = Some b1" "decodeValue d1 (Suc depth) b1 = Some (child, d2, b2)"
      "decodeMembers m (object @ [(name, child)]) d2 depth b2 = Some (object', d', b')"
proof (cases "More d")
  case False
  with assms [unfolded decodeMembers.simps [of n object d depth b]] have "object' = object \<and> d' = d \<and> b' = b" by simp
  with False show thesis by (intro finish) auto
next
  case True
  then have True': "\<not> \<not> More d" by simp
  from True assms [unfolded decodeMembers.simps [of n object d depth b]] obtain m where n: "n = Suc m" by (cases n) simp_all
  note step = assms [unfolded n decodeMembers.simps [of "Suc m" object d depth b] nat.case if_not_P [OF True']]
  from step obtain name d1 where t: "Token d = Inr (TokenString name, d1)"
    by (simp split: sum.splits prod.splits token.splits)
  from step have new: "name \<notin> fst ` set object" unfolding t sum.case prod.case token.case by (simp split: if_splits)
  from step obtain b1 child d2 b2 where "spendKey b name object = Some b1" "decodeValue d1 (Suc depth) b1 = Some (child, d2, b2)"
      "decodeMembers m (object @ [(name, child)]) d2 depth b2 = Some (object', d', b')"
    unfolding t sum.case prod.case token.case if_not_P [OF new] by (auto simp: bind_Some)
  with True n t new show thesis by (rule more)
qed

lemma decodeElements_Some:
  assumes "decodeElements n vs d depth b = Some (vs', d', b')"
  obtains (finish) "\<not> More d" "vs' = vs" "d' = d" "b' = b"
  | (more) m b1 child d2 b2 where "More d" "n = Suc m" "(if vs \<noteq> [] then spend b 1 else Some b) = Some b1"
      "decodeValue d (Suc depth) b1 = Some (child, d2, b2)" "decodeElements m (vs @ [child]) d2 depth b2 = Some (vs', d', b')"
proof (cases "More d")
  case False
  with assms [unfolded decodeElements.simps [of n vs d depth b]] have "vs' = vs \<and> d' = d \<and> b' = b" by simp
  with False show thesis by (intro finish) auto
next
  case True
  then have True': "\<not> \<not> More d" by simp
  from True assms [unfolded decodeElements.simps [of n vs d depth b]] obtain m where n: "n = Suc m" by (cases n) simp_all
  from assms obtain b1 child d2 b2 where "(if vs \<noteq> [] then spend b 1 else Some b) = Some b1"
      "decodeValue d (Suc depth) b1 = Some (child, d2, b2)" "decodeElements m (vs @ [child]) d2 depth b2 = Some (vs', d', b')"
    unfolding n decodeElements.simps [of "Suc m" vs d depth b] nat.case if_not_P [OF True'] by (auto simp: bind_Some)
  with True n show thesis by (rule more)
qed

section \<open>Runs of the decoder\<close>

text \<open>
  A successful decoding as a derivation, without a bound on the rounds of the loops: \<open>value_run d depth b v d' b'\<close>
  says that from the decoder \<open>d\<close> the value \<open>v\<close> is read, leaving the decoder \<open>d'\<close> and the budget \<open>b'\<close>.
\<close>

inductive value_run :: "Decoder \<Rightarrow> nat \<Rightarrow> nat \<Rightarrow> json \<Rightarrow> Decoder \<Rightarrow> nat \<Rightarrow> bool"
  and members_run :: "(string \<times> json) list \<Rightarrow> Decoder \<Rightarrow> nat \<Rightarrow> nat \<Rightarrow> (string \<times> json) list \<Rightarrow> Decoder \<Rightarrow> nat \<Rightarrow> bool"
  and elements_run :: "json list \<Rightarrow> Decoder \<Rightarrow> nat \<Rightarrow> nat \<Rightarrow> json list \<Rightarrow> Decoder \<Rightarrow> nat \<Rightarrow> bool" where
  scalar: "depth \<le> 32 \<Longrightarrow> Token d = Inr (t, d') \<Longrightarrow> decodeScalar t b = Some (v, b') \<Longrightarrow> value_run d depth b v d' b'"
| object: "depth \<le> 32 \<Longrightarrow> Token d = Inr (Delim (CHR ''{''), d1) \<Longrightarrow> spend b 2 = Some b1 \<Longrightarrow>
    members_run [] d1 depth b1 fs d2 b' \<Longrightarrow> closes d2 (CHR ''}'') = Some d' \<Longrightarrow> value_run d depth b (JObject fs) d' b'"
| array: "depth \<le> 32 \<Longrightarrow> Token d = Inr (Delim (CHR ''[''), d1) \<Longrightarrow> spend b 2 = Some b1 \<Longrightarrow>
    elements_run [] d1 depth b1 vs d2 b' \<Longrightarrow> closes d2 (CHR '']'') = Some d' \<Longrightarrow> value_run d depth b (JArray vs) d' b'"
| members_end: "\<not> More d \<Longrightarrow> members_run fs d depth b fs d b"
| member: "More d \<Longrightarrow> Token d = Inr (TokenString name, d1) \<Longrightarrow> name \<notin> fst ` set fs \<Longrightarrow> spendKey b name fs = Some b1 \<Longrightarrow>
    value_run d1 (Suc depth) b1 child d2 b2 \<Longrightarrow> members_run (fs @ [(name, child)]) d2 depth b2 fs' d' b' \<Longrightarrow>
    members_run fs d depth b fs' d' b'"
| elements_end: "\<not> More d \<Longrightarrow> elements_run vs d depth b vs d b"
| element: "More d \<Longrightarrow> (if vs \<noteq> [] then spend b 1 else Some b) = Some b1 \<Longrightarrow>
    value_run d (Suc depth) b1 child d2 b2 \<Longrightarrow> elements_run (vs @ [child]) d2 depth b2 vs' d' b' \<Longrightarrow>
    elements_run vs d depth b vs' d' b'"

lemmas run_induct = value_run_members_run_elements_run.inducts

lemma decode_run:
  "decodeValue d depth b = Some (v, d', b') \<Longrightarrow> value_run d depth b v d' b'"
  "decodeMembers n fs d depth b = Some (fs', d', b') \<Longrightarrow> members_run fs d depth b fs' d' b'"
  "decodeElements n vs d depth b = Some (vs', d', b') \<Longrightarrow> elements_run vs d depth b vs' d' b'"
proof (induction d depth b and n fs d depth b and n vs d depth b arbitrary: v d' b' and fs' d' b' and vs' d' b'
    rule: decodeValue_decodeMembers_decodeElements.induct)
  case (1 d depth b)
  from 1(3) show ?case
  proof (cases rule: decodeValue_Some)
    case (object d1 fs d2 b1)
    have "\<not> 32 < depth" using object(1) by simp
    from 1(1) [OF this object(2) refl refl object(3,4)] object show ?thesis by (simp add: value_run_members_run_elements_run.object)
  next
    case (array d1 vs d2 b1)
    have "\<not> 32 < depth" using array(1) by simp
    from 1(2) [OF this array(2) refl _ refl array(3,4)] array show ?thesis by (simp add: value_run_members_run_elements_run.array)
  qed (rule value_run_members_run_elements_run.scalar)
next
  case (2 n fs d depth b)
  from 2(3) show ?case
  proof (cases rule: decodeMembers_Some)
    case (more m name d1 b1 child d2 b2)
    have d: "\<not> \<not> More d" using more(1) by simp
    show ?thesis
      by (rule member [OF more(1,3-5) 2(1) [OF d more(2,3) refl refl more(4-6)] 2(2) [OF d more(2,3) refl refl more(4-6) refl refl more(7)]])
  qed (simp add: members_end)
next
  case (3 n vs d depth b)
  from 3(3) show ?case
  proof (cases rule: decodeElements_Some)
    case (more m b1 child d2 b2)
    have d: "\<not> \<not> More d" using more(1) by simp
    show ?thesis by (rule element [OF more(1,3) 3(1) [OF d more(2-4)] 3(2) [OF d more(2-4) refl refl more(5)]])
  qed (simp add: elements_end)
qed

lemma run_shorter:
  "value_run d depth b v d' b' \<Longrightarrow> length (dec_input d') < length (dec_input d)"
  "members_run fs d depth b fs' d' b' \<Longrightarrow> length (dec_input d') \<le> length (dec_input d)"
  "elements_run vs d depth b vs' d' b' \<Longrightarrow> length (dec_input d') \<le> length (dec_input d)"
  by (induction rule: run_induct) (auto dest!: Token_shorter closes_shorter)

lemma More_input: "More d \<Longrightarrow> dec_input d \<noteq> []"
  by (auto simp: More_def split: list.splits)

lemma rounds_Suc: "More d \<Longrightarrow> length (dec_input d) \<le> n \<Longrightarrow> \<exists>m. n = Suc m"
  using More_input by (cases n) auto

text \<open>The bound on the rounds is never reached: every run is found with it.\<close>

lemma run_decode:
  "value_run d depth b v d' b' \<Longrightarrow> decodeValue d depth b = Some (v, d', b')"
  "members_run fs d depth b fs' d' b' \<Longrightarrow> \<forall>n. length (dec_input d) \<le> n \<longrightarrow> decodeMembers n fs d depth b = Some (fs', d', b')"
  "elements_run vs d depth b vs' d' b' \<Longrightarrow> \<forall>n. length (dec_input d) \<le> n \<longrightarrow> decodeElements n vs d depth b = Some (vs', d', b')"
proof (induction rule: run_induct)
  case (scalar depth d t d' b v b')
  then show ?case by (subst decodeValue.simps) (auto simp: bind_Some decodeScalar_def split: token.splits)
next
  case (object depth d d1 b b1 fs d2 b' d')
  then show ?case by (subst decodeValue.simps) simp
next
  case (array depth d d1 b b1 vs d2 b' d')
  then show ?case by (subst decodeValue.simps) simp
next
  case (members_end d fs depth b)
  then show ?case by (subst decodeMembers.simps) simp
next
  case (member d name d1 fs b b1 depth child d2 b2 fs' d' b')
  have "decodeMembers (Suc m) fs d depth b = Some (fs', d', b')" if "length (dec_input d) \<le> Suc m" for m
    using member that Token_shorter [OF member(2)] run_shorter(1) [OF member(5)] by (subst decodeMembers.simps) simp
  then show ?case using rounds_Suc [OF member(1)] by blast
next
  case (elements_end d vs depth b)
  then show ?case by (subst decodeElements.simps) simp
next
  case (element d vs b b1 depth child d2 b2 vs' d' b')
  have "decodeElements (Suc m) vs d depth b = Some (vs', d', b')" if "length (dec_input d) \<le> Suc m" for m
    using element that run_shorter(1) [OF element(3)] by (subst decodeElements.simps) simp
  then show ?case using rounds_Suc [OF element(1)] by blast
qed

lemma decodeValue_iff: "decodeValue d depth b = Some (v, d', b') \<longleftrightarrow> value_run d depth b v d' b'"
  using decode_run(1) run_decode(1) by blast

section \<open>The price of a value\<close>

definition members_size :: "(string \<times> json) list \<Rightarrow> nat" where
  "members_size fs = length (comma_separated (map field_text (map (\<lambda>(k, v). (k, encode v)) fs)))"

definition elements_size :: "json list \<Rightarrow> nat" where
  "elements_size vs = length (comma_separated (map encode vs))"

lemma length_comma_separated: "length (comma_separated xs) = sum_list (map length xs) + (length xs - 1)"
  by (induction xs rule: comma_separated.induct) simp_all

lemma members_size_Nil [simp]: "members_size [] = 0"
  by (simp add: members_size_def)

lemma elements_size_Nil [simp]: "elements_size [] = 0"
  by (simp add: elements_size_def)

lemma members_size_snoc:
  "members_size (fs @ [(k, v)]) = members_size fs + length (json_quote k) + 1 + (if fs = [] then 0 else 1) + length (encode v)"
  by (cases fs) (simp_all add: members_size_def length_comma_separated field_text_def)

lemma elements_size_snoc: "elements_size (vs @ [v]) = elements_size vs + (if vs = [] then 0 else 1) + length (encode v)"
  by (cases vs) (simp_all add: elements_size_def length_comma_separated)

lemma length_encode_object: "length (encode (JObject fs)) = members_size fs + 2"
proof -
  let ?xs = "map (\<lambda>(k, v). (k, encode v)) fs"
  have "mset (map length (map field_text (sort_key fst ?xs))) = mset (map length (map field_text ?xs))"
    by (simp only: mset_map mset_sort)
  then have "sum_list (map length (map field_text (sort_key fst ?xs))) = sum_list (map length (map field_text ?xs))"
    by (metis sum_mset_sum_list)
  then show ?thesis by (simp add: members_size_def length_comma_separated)
qed

lemma length_encode_array: "length (encode (JArray vs)) = elements_size vs + 2"
  by (simp add: elements_size_def)

lemma spend_Some: "spend b n = Some b' \<longleftrightarrow> b = b' + n"
  by (auto simp: spend_def)

lemma spendKey_Some: "spendKey b name fs = Some b' \<longleftrightarrow> b = b' + (length (json_quote name) + 1 + (if fs = [] then 0 else 1))"
  by (auto simp: spendKey_def spendString_def bind_Some spend_Some)

lemma decodeScalar_Some: "decodeScalar t b = Some (v, b') \<longleftrightarrow> b = b' + length (encode v) \<and> (\<forall>c. decodeScalar t (c + length (encode v)) = Some (v, c))"
  by (cases t) (auto simp: decodeScalar_def spendString_def bind_Some spend_Some)

definition pays :: "nat \<Rightarrow> nat \<Rightarrow> nat \<Rightarrow> (nat \<Rightarrow> nat \<Rightarrow> bool) \<Rightarrow> bool" where
  "pays price b b' run \<longleftrightarrow> b = b' + price \<and> (\<forall>c. run (c + price) c)"

lemma run_pays:
  "value_run d depth b v d' b' \<Longrightarrow> pays (length (encode v)) b b' (\<lambda>b b'. value_run d depth b v d' b')"
  "members_run fs d depth b fs' d' b' \<Longrightarrow>
     members_size fs \<le> members_size fs' \<and> pays (members_size fs' - members_size fs) b b' (\<lambda>b b'. members_run fs d depth b fs' d' b')"
  "elements_run vs d depth b vs' d' b' \<Longrightarrow>
     elements_size vs \<le> elements_size vs' \<and> pays (elements_size vs' - elements_size vs) b b' (\<lambda>b b'. elements_run vs d depth b vs' d' b')"
proof (induction rule: run_induct)
  case (scalar depth d t d' b v b')
  then show ?case
    using decodeScalar_Some [THEN iffD1, OF scalar(3)] value_run_members_run_elements_run.scalar [OF scalar(1,2)]
    unfolding pays_def by blast
next
  case (object depth d d1 b b1 fs d2 b' d')
  have "value_run d depth (c + (members_size fs + 2)) (JObject fs) d' c" for c
    by (rule value_run_members_run_elements_run.object [OF object(1,2), of _ "c + members_size fs"])
      (use object in \<open>auto simp: spend_Some pays_def\<close>)
  then show ?case using object(3,6) unfolding length_encode_object pays_def by (simp add: spend_Some)
next
  case (array depth d d1 b b1 vs d2 b' d')
  have "value_run d depth (c + (elements_size vs + 2)) (JArray vs) d' c" for c
    by (rule value_run_members_run_elements_run.array [OF array(1,2), of _ "c + elements_size vs"])
      (use array in \<open>auto simp: spend_Some pays_def\<close>)
  then show ?case using array(3,6) unfolding length_encode_array pays_def by (simp add: spend_Some)
next
  case (member d name d1 fs b b1 depth child d2 b2 fs' d' b')
  define key where "key = length (json_quote name) + 1 + (if fs = [] then 0 else 1)"
  define rest where "rest = members_size fs' - members_size (fs @ [(name, child)])"
  have size: "members_size fs' - members_size fs = rest + length (encode child) + key" "members_size fs \<le> members_size fs'"
    using member(8) members_size_snoc [of fs name child] by (auto simp: key_def rest_def)
  have spend: "spendKey b name fs = Some b1 \<longleftrightarrow> b = b1 + key" for b b1 by (simp add: spendKey_Some key_def)
  note child = member(7) [unfolded pays_def] and others = member(8) [folded rest_def, unfolded pays_def]
  have "members_run fs d depth (c + rest + length (encode child) + key) fs' d' c" for c
    by (rule value_run_members_run_elements_run.member [OF member(1-3), of _ "c + rest + length (encode child)" _ child d2 "c + rest"])
      (simp_all add: spend child others)
  then show ?case using member(4) child others unfolding size(1) pays_def by (simp add: size(2) spend add.assoc)
next
  case (element d vs b b1 depth child d2 b2 vs' d' b')
  define comma where "comma = (if vs = [] then 0 else 1 :: nat)"
  define rest where "rest = elements_size vs' - elements_size (vs @ [child])"
  have size: "elements_size vs' - elements_size vs = rest + length (encode child) + comma" "elements_size vs \<le> elements_size vs'"
    using element(6) elements_size_snoc [of vs child] by (auto simp: comma_def rest_def)
  have spend: "(if vs \<noteq> [] then spend b 1 else Some b) = Some b1 \<longleftrightarrow> b = b1 + comma" for b b1
    by (auto simp: spend_Some comma_def)
  note child = element(5) [unfolded pays_def] and others = element(6) [folded rest_def, unfolded pays_def]
  have "elements_run vs d depth (c + rest + length (encode child) + comma) vs' d' c" for c
    by (rule value_run_members_run_elements_run.element [OF element(1), of _ _ "c + rest + length (encode child)" _ child d2 "c + rest"])
      (simp_all only: spend child others)
  then show ?case using element(2) child others unfolding spend size(1) pays_def by (simp add: size(2) add.assoc)
qed (simp_all add: pays_def members_end elements_end)

lemma canonicalBounded_Some:
  assumes "canonicalBounded x limit = Some y"
  obtains v d b where "x \<noteq> []" "length x \<le> limit" "utf8_Valid x" "decodeValue (NewDecoder x) 0 limit = Some (v, d, b)"
    "Token d = Inl EOF" "numbers_valid v" "y = encode v" "length y \<le> limit"
  using assms by (auto simp: canonicalBounded_def json_Marshal_def split: if_splits option.splits)

lemma canonicalBounded_I:
  "x \<noteq> [] \<Longrightarrow> length x \<le> limit \<Longrightarrow> utf8_Valid x \<Longrightarrow> decodeValue (NewDecoder x) 0 limit = Some (v, d, b) \<Longrightarrow> Token d = Inl EOF \<Longrightarrow>
   numbers_valid v \<Longrightarrow> length (encode v) \<le> limit \<Longrightarrow> canonicalBounded x limit = Some (encode v)"
  by (simp add: canonicalBounded_def json_Marshal_def)

text \<open>A limit that leaves room for the document and its canonical form accepts it.\<close>

lemma canonicalBounded_other:
  assumes "canonicalBounded x limit = Some y" "length x \<le> other" "length y \<le> other"
  shows "canonicalBounded x other = Some y"
proof -
  obtain v d b where v: "x \<noteq> []" "length x \<le> limit" "utf8_Valid x" "decodeValue (NewDecoder x) 0 limit = Some (v, d, b)"
    "Token d = Inl EOF" "numbers_valid v" "y = encode v" "length y \<le> limit"
    using assms(1) by (rule canonicalBounded_Some)
  note paid = run_pays(1) [OF decode_run(1) [OF v(4)], unfolded pays_def decodeValue_iff [symmetric]]
  then have "decodeValue (NewDecoder x) 0 other = Some (v, d, other - length y)"
    using v(7) assms(3) by (metis le_add_diff_inverse2)
  then show ?thesis using v assms canonicalBounded_I by auto
qed

text \<open>
  C39. The output budget is exact. Whatever limit is set, a document that fits into the limit and has a canonical
  form is accepted, with the same bytes, exactly if that form fits into the limit; so refusing a document while it
  is being decoded never loses a document whose output would have been short enough.
\<close>
theorem canonical_budget_exact:
  assumes "canonicalBounded x limit = Some y" "length x \<le> other"
  shows "length y \<le> limit \<and> canonicalBounded x other = (if length y \<le> other then Some y else None)"
proof -
  obtain v d b where v: "x \<noteq> []" "length x \<le> limit" "utf8_Valid x" "decodeValue (NewDecoder x) 0 limit = Some (v, d, b)"
    "Token d = Inl EOF" "numbers_valid v" "y = encode v" "length y \<le> limit"
    using assms(1) by (rule canonicalBounded_Some)
  show ?thesis
  proof (cases "length y \<le> other")
    case True
    then show ?thesis using canonicalBounded_other [OF assms] v(8) by simp
  next
    case False
    have "canonicalBounded x other = None"
    proof (rule ccontr)
      assume "canonicalBounded x other \<noteq> None"
      then obtain y' where "canonicalBounded x other = Some y'" by blast
      then obtain v' d' b' where v': "decodeValue (NewDecoder x) 0 other = Some (v', d', b')" "y' = encode v'" "length y' \<le> other"
        by (rule canonicalBounded_Some)
      note paid' = run_pays(1) [OF decode_run(1) [OF v'(1)], unfolded pays_def decodeValue_iff [symmetric]]
      have "decodeValue (NewDecoder x) 0 (limit - length y' + length y') = Some (v', d', limit - length y')" using paid' v'(2) by blast
      then have "y' = y" using v(4,7,8) v'(2,3) False by simp
      with v'(3) False show False by simp
    qed
    with False v(8) show ?thesis by simp
  qed
qed

theorem canonical_budget_exact_witness: "canonicalBounded ''[1e3]'' 6 = Some ''[1000]'' \<and> canonicalBounded ''[1e3]'' 5 = None"
proof -
  have "canonicalBounded ''[1e3]'' 100 = Some ''[1000]''" by code_simp
  from canonical_budget_exact [OF this, of 6] canonical_budget_exact [OF this, of 5] show ?thesis by simp
qed

end
