(* ===== verification/TranslatorExample.thy ===== *)
theory TranslatorExample
  imports TranslatorGates GameServerExample OperationProps CanonicalJsonBudget
begin

text \<open>
  Receipts for the Factorio server of the GameServer example: one that stops it, at the moments when the step is
  recorded, applied and observed; one that decommissions it; one that confirms the destruction of its world; and one
  that is finished and gives up its fence.
\<close>

section \<open>The server\<close>

definition zOps :: OperationsEnv where
  "zOps = \<lparr> ov_IsDNS1123Label = dns_label, ov_IsDNS1123Subdomain = dns_label, ov_MarshalRequest = (\<lambda>_ _. None),
     ov_MarshalIntent = (\<lambda>i. Some (desiredStateName (int_DesiredState i))) \<rparr>"

definition zData :: RetainedDataReference where
  "zData = \<lparr> rdata_Identity = yIdentity, rdata_Claims = [\<lparr> rclaim_Path = ''world'',
     rclaim_ClaimRef = \<lparr> ref_Namespace = None, ref_Name = ''factory-factorio-world'', ref_UID = ''u-claim'' \<rparr> \<rparr>] \<rparr>"

definition zMarked :: "string \<Rightarrow> GameServer" where
  "zMarked step = (yServer DesiredStateStopped)\<lparr>
     gs_Meta := yMeta\<lparr> meta_Generation := 2, meta_ResourceVersion := ''8'', meta_Labels := [operationReceiptUIDLabel \<mapsto> ''u-receipt''],
       meta_Annotations := map_of [(operationReceiptNameAnnotation, ''receipt''), (operationStepAnnotation, step), (operationSpecDigestAnnotation, hashBytes ''Stopped'')] \<rparr>,
     gs_Status := (gs_Status (yServer DesiredStateStopped))\<lparr> gst_ObservedGeneration := 2, gst_Phase := PhaseStopped, gst_ObservedData := Some zData \<rparr> \<rparr>"

lemma z_identity [simp]: "yIdentity \<noteq> []"
  by (simp add: yIdentity_def DataIdentity_def)

lemma z_same [simp]: "sameDataSelection (Some zData) (Some zData)"
  by (simp add: sameDataSelection_def zData_def)

lemma z_canonical: "operations_CanonicalJSON ''{}'' = Some ''{}''"
proof -
  have "canonicalBounded ''{}'' 100 = Some ''{}''" by code_simp
  then show ?thesis unfolding operations_CanonicalJSON_def CanonicalJSON_def
    by (rule canonicalBounded_other) (simp_all add: MaxBytes_def)
qed

lemma z_digest: "SpecDigest zOps (gs_Spec (yServer desired)) = Some (hashBytes (desiredStateName desired))"
  by (simp add: SpecDigest_def ServerIntent_def z_canonical zOps_def)

lemma z_marked [simp]: "gs_Spec (zMarked step) = gs_Spec (yServer DesiredStateStopped)" "serverName (zMarked step) = ''factory''" "serverNamespace (zMarked step) = ''games''"
  "serverUID (zMarked step) = ''u-server''" "meta_ResourceVersion (gs_Meta (zMarked step)) = ''8''" "meta_DeletionTimestamp (gs_Meta (zMarked step)) = None"
  "meta_Generation (gs_Meta (zMarked step)) = 2" "gst_ActiveData (gs_Status (zMarked step)) = None"
  by (simp_all add: zMarked_def)

text \<open>The plan of the stopped server binds the claim that was observed.\<close>

definition zClaim :: DataClaimPlan where
  "zClaim = (yClaim DesiredStateStopped)\<lparr> dcp_RequiredUID := ''u-claim'' \<rparr>"

lemma z_label: "dns_label yIdentity"
  unfolding yIdentity_def DataIdentity_def
  by (simp, rule dns_label_prefix_hex [of "''data-''", simplified]) (simp_all add: char_class_defs length_sha256 flip: length_greater_0_conv)

lemma z_planned: "\<exists>plan. Build yLibrary (zMarked step) yDefinition = Inr plan \<and> plan_DataClaims plan = [zClaim] \<and> plan_DataIdentity plan = yIdentity"
proof -
  have "validateIntent yLibrary (zMarked step) yDefinition = validateIntent yLibrary (yServer DesiredStateStopped) yDefinition"
    by (simp add: validateIntent_def zMarked_def)
  then have "validateIntent yLibrary (zMarked step) yDefinition = None" using y_intent by simp
  moreover have "selectedData (zMarked step) = Some zData" by (simp add: selectedData_def zMarked_def)
  moreover have "buildDataClaim (zMarked step) yDefinition p name identity = buildDataClaim (yServer DesiredStateStopped) yDefinition p name identity" for p name identity
    by (simp add: buildDataClaim_def zMarked_def)
  ultimately show ?thesis
    using z_label
    by (simp add: Build_def retainedDataSelection_def y_files Let_def guard_simps)
      (simp add: zData_def selectedClaimError_def guard_simps externallySelected_def zClaim_def yClaim_def y_files Let_def)
qed

lemma z_claim: "mget (meta_Labels (pvc_Meta (dcp_Desired (yClaim desired)))) LabelDataPath = ''world''"
  "meta_Name (pvc_Meta yBound) = ''factory-factorio-world''" "meta_UID (pvc_Meta yBound) = ''u-claim''"
  "meta_Namespace (pvc_Meta (dcp_Desired (yClaim desired))) = ''games''" "meta_Name (pvc_Meta (dcp_Desired (yClaim desired))) = ''factory-factorio-world''"
  by (simp_all add: yClaim_def yBound_def buildDataClaim_def freshMeta_def mget_def LabelDataPath_def LabelDataIdentity_def)

lemma z_valid: "validateExistingDataClaim yLibrary yBound zClaim = None"
  by (simp add: validateExistingDataClaim_def validateExistingDataClaimBase_def guard_simps yBound_def zClaim_def yClaim_def buildDataClaim_def freshMeta_def
      storageClassCompatible_def Let_def mget_def yServer_def)

lemma z_reference:
  assumes "aor_Library r = yLibrary"
  shows "serverClaimReference r (yClaim desired) yBound = Inr (hd (rdata_Claims zData))" "serverClaimReference r zClaim yBound = Inr (hd (rdata_Claims zData))"
  using assms y_valid(1) [of desired] z_valid by (simp_all add: serverClaimReference_def z_claim y_valid zData_def) (simp_all add: zClaim_def z_claim)

section \<open>Receipts\<close>

definition zTarget :: ExactGameServerReference where
  "zTarget = \<lparr> gref_Local = \<lparr> ref_Namespace = None, ref_Name = ''factory'', ref_UID = ''u-server'' \<rparr>, gref_Generation = 1, gref_DesiredState = DesiredStateRunning \<rparr>"

definition zRequest :: OperationRequest where
  "zRequest = \<lparr> oreq_Precondition = [CHR 0x22] @ ''server:u-server:1'' @ [CHR 0x22], oreq_ServerName = ''factory'', oreq_Target = Some zTarget,
     oreq_Create = None, oreq_Configure = None, oreq_Image = None, oreq_Backup = None, oreq_Restore = None, oreq_Destroy = None, oreq_DestroyCommand = None \<rparr>"

definition zPlan :: OperationPlan where
  "zPlan = emptyPlan\<lparr> opl_Server := Some zTarget, opl_ServerIntent := ServerIntent (gs_Spec (yServer DesiredStateStopped)), opl_Data := Some zData \<rparr>"

definition zStep :: "string \<Rightarrow> OperationServerTransition" where
  "zStep step = \<lparr> otr_Step = step, otr_FromGeneration = 1, otr_ToGeneration = 2, otr_DesiredState = DesiredStateStopped, otr_SpecDigest = hashBytes ''Stopped'', otr_RequestedAt = 4 \<rparr>"

definition zWorld :: OperationRetainedWorld where
  "zWorld = \<lparr> orw_Target = \<lparr> dt_GameServer = gref_Local zTarget, dt_Game = ''factorio'', dt_Data = zData \<rparr>, orw_SnapshotDigest = hashBytes ''world'' \<rparr>"

definition zReceipt :: "ArcadeOperationAction \<Rightarrow> OperationRequest \<Rightarrow> ArcadeOperationPhase \<Rightarrow> OperationPlan \<Rightarrow> OperationServerTransition list \<Rightarrow> ArcadeOperation" where
  "zReceipt action q phase plan steps = \<lparr>
     ao_Meta = yMeta\<lparr> meta_Name := ''receipt'', meta_UID := ''u-receipt'', meta_Finalizers := [operationFinalizer] \<rparr>,
     ao_Spec = \<lparr> aos_Version = ''v1'', aos_Action = action,
       aos_Admission = \<lparr> adm_PrincipalID = ''p'', adm_CredentialID = ''c'', adm_RequestID = ''r'', adm_AdmittedAt = 1, adm_CredentialExpiresAt = 9 \<rparr>,
       aos_KeyDigest = hashBytes ''key'', aos_RequestDigest = hashBytes ''request'', aos_Request = q \<rparr>,
     ao_Status = \<lparr> aost_ObservedGeneration = 1, aost_Phase = phase, aost_StartedAt = Some 3, aost_CompletedAt = None, aost_Plan = Some plan, aost_Child = None,
       aost_Transitions = steps, aost_RetainedWorld = Some zWorld, aost_DestroyPreview = None, aost_Failure = None, aost_Conditions = [] \<rparr> \<rparr>"

abbreviation zOperation :: "ArcadeOperationAction \<Rightarrow> ArcadeOperationPhase \<Rightarrow> OperationServerTransition list \<Rightarrow> ArcadeOperation" where
  "zOperation action phase steps \<equiv> zReceipt action zRequest phase zPlan steps"

lemma z_receipt [simp]: "operationName (zReceipt a q p l st) = ''receipt''" "operationUID (zReceipt a q p l st) = ''u-receipt''" "operationNamespace (zReceipt a q p l st) = ''games''"
  "meta_DeletionTimestamp (ao_Meta (zReceipt a q p l st)) = None" "actionOf (zReceipt a q p l st) = a" "requestOf (zReceipt a q p l st) = q" "aos_Version (ao_Spec (zReceipt a q p l st)) = ''v1''"
  "aost_Phase (ao_Status (zReceipt a q p l st)) = p" "aost_Plan (ao_Status (zReceipt a q p l st)) = Some l" "aost_Transitions (ao_Status (zReceipt a q p l st)) = st"
  "aost_RetainedWorld (ao_Status (zReceipt a q p l st)) = Some zWorld" "aost_Child (ao_Status (zReceipt a q p l st)) = None" "containsOperationFinalizer (zReceipt a q p l st)"
  "aost_StartedAt (ao_Status (zReceipt a q p l st)) = Some 3" "aost_Failure (ao_Status (zReceipt a q p l st)) = None"
  by (simp_all add: zReceipt_def containsOperationFinalizer_def)

lemma z_request [simp]: "oreq_DestroyCommand zRequest = None" "oreq_ServerName zRequest = ''factory''"
  by (simp_all add: zRequest_def)

lemma z_plan [simp]: "opl_Server zPlan = Some zTarget" "opl_Data zPlan = Some zData" "opl_ServerIntent zPlan = ServerIntent (gs_Spec (yServer DesiredStateStopped))"
  "ref_Name (gref_Local zTarget) = ''factory''" "ref_UID (gref_Local zTarget) = ''u-server''" "ref_Namespace (gref_Local zTarget) = None" "gref_Generation zTarget = 1"
  "gref_DesiredState zTarget = DesiredStateRunning" "rdata_Identity zData = yIdentity"
  by (simp_all add: zPlan_def zTarget_def zData_def)

lemma z_frozen: "\<exists>frozen. ServerIntent (gs_Spec (yServer desired)) = Some frozen \<and> ServerSpec frozen = Some (gs_Spec (yServer desired))"
  by (simp add: ServerIntent_def ServerSpec_def z_canonical)

lemma z_parse: "ParsePrecondition (oreq_Precondition zRequest) = Some \<lparr> pre_Kind = ''server'', pre_UID = ''u-server'', pre_SnapshotDigest = [], pre_Generation = 1 \<rparr>"
proof -
  have "identityPattern ''u-server''" by (simp add: identityPattern_def word_char_def char_class_defs)
  moreover have "Itoa 1 = ''1''" by (simp add: Itoa_def nat_decimal_def digits_rev.simps digit_char_def char_of_def bit_simps)
  ultimately show ?thesis using parse_live [of "''server''" "''u-server''" 1] by (simp add: zRequest_def)
qed

lemma z_accepted:
  assumes "action = OperationServerStop \<or> action = OperationServerDecommission"
  shows "ValidateRequest zOps action zRequest = None"
proof -
  have fields: "validReference zOps \<lparr> ref_Namespace = None, ref_Name = ''factory'', ref_UID = ''u-server'' \<rparr>" "dns_label ''factory''"
    by (simp_all add: validReference_def zOps_def identityPattern_def word_char_def dns_label_def char_class_defs)
  show ?thesis unfolding ValidateRequest_def z_parse
    using fields assms by (auto simp: zRequest_def zTarget_def targetInvalid_def actionInvalid_def payloadCount_def zOps_def guard_simps)
qed

section \<open>The cluster\<close>

definition zLease :: Lease where
  "zLease = operationLease (zOperation OperationServerStop OperationPhaseRunning []) ''factory'' yIdentity 4"

text \<open>The lease that a receipt creates is recognised as its own.\<close>

lemma own_lease: "identity \<noteq> [] \<Longrightarrow> operationLeaseMatches (operationLease o' name identity t) o' name identity"
  by (simp add: operationLeaseMatches_def operationLease_def freshMeta_def mget_def kube_names operationReceiptUIDLabel_def operationReceiptNameAnnotation_def)

lemma z_held [simp]: "operationLeaseMatches zLease (zReceipt a q p l st) ''factory'' yIdentity"
proof -
  have lease: "zLease = operationLease (zReceipt a q p l st) ''factory'' yIdentity 4" by (simp add: zLease_def operationLease_def)
  show ?thesis unfolding lease by (rule own_lease) simp
qed

definition zView :: "ArcadeOperation \<Rightarrow> GameServer \<Rightarrow> ArcadeOperation \<Rightarrow> GameDestroy \<Rightarrow> OperationView" where
  "zView o' server parent destroy = \<lparr>
     vw_GameServer = (\<lambda>_ _ name. if name = ''factory'' then Inr server else Inl NotFound), vw_Operation = (\<lambda>_ _ name. if name = ''receipt'' then Inr o' else Inr parent), vw_Lease = (\<lambda>_ _ _. Inr zLease),
     vw_Claim = (\<lambda>_ _ _. Inr yBound), vw_Claims = (\<lambda>_ _ _. Inr yNothing), vw_ConfigMap = (\<lambda>_ _ _. Inl NotFound), vw_Deployment = (\<lambda>_ _ _. Inl NotFound),
     vw_Service = (\<lambda>_ _ _. Inl NotFound), vw_ReplicaSets = (\<lambda>_ _. Inr yNothing), vw_Pods = (\<lambda>_ _. Inr yNothing), vw_Backup = (\<lambda>_ _ _. Inl NotFound),
     vw_Restore = (\<lambda>_ _ _. Inl NotFound), vw_Destroy = (\<lambda>_ _ _. Inr destroy), vw_Secret = (\<lambda>_ _ _. Inl NotFound) \<rparr>"

definition zReconciler :: "ArcadeOperation \<Rightarrow> GameServer \<Rightarrow> ArcadeOperation \<Rightarrow> GameDestroy \<Rightarrow> ArcadeOperationReconciler" where
  "zReconciler o' server parent destroy = \<lparr> aor_Client = zView o' server parent destroy, aor_APIReader = None, aor_Catalog = Some (\<lambda>_. Inr yDefinition),
     aor_Now = (\<lambda>_. 5), aor_Library = yLibrary, aor_Operations = zOps, aor_MarshalPatch = (\<lambda>_. Some ''patch''), aor_Respond = (\<lambda>_ _. None),
     aor_RespondServer = (\<lambda>_ _ _. Inr (zMarked ''Apply'')) \<rparr>"

lemma z_reconciler [simp]: "operation_reader (zReconciler o' s p d) = zView o' s p d" "aor_Catalog (zReconciler o' s p d) = Some (\<lambda>_. Inr yDefinition)"
  "aor_Now (zReconciler o' s p d) n = 5" "aor_Library (zReconciler o' s p d) = yLibrary" "aor_Operations (zReconciler o' s p d) = zOps"
  "aor_MarshalPatch (zReconciler o' s p d) ps = Some ''patch''" "aor_Respond (zReconciler o' s p d) n q = None" "aor_RespondServer (zReconciler o' s p d) n t ps = Inr (zMarked ''Apply'')"
  by (simp_all add: zReconciler_def operation_reader_def)

lemma z_view [simp]: "vw_GameServer (zView o' s p d) n ns ''factory'' = Inr s" "vw_Operation (zView o' s p d) n ns ''receipt'' = Inr o'" "vw_Operation (zView o' s p d) n ns ''preview'' = Inr p"
  "vw_Lease (zView o' s p d) n ns name = Inr zLease" "vw_Claim (zView o' s p d) n ns name = Inr yBound" "vw_Destroy (zView o' s p d) n ns name = Inr d"
  by (simp_all add: zView_def)

section \<open>Stages\<close>

lemma z_data:
  assumes "server = yServer DesiredStateRunning \<or> server = zMarked step"
  shows "wp (operationServerData (zReconciler o' s p d) server) Q t = Q (Inr zData) (t\<lparr> ses_calls := Suc (ses_calls t) \<rparr>)"
proof -
  obtain plan claim where plan: "Build yLibrary server yDefinition = Inr plan" "plan_DataClaims plan = [claim]" "plan_DataIdentity plan = yIdentity"
      "claim = yClaim DesiredStateRunning \<or> claim = zClaim" "gst_ActiveData (gs_Status server) = None"
    using assms y_build [of DesiredStateRunning] z_planned [of step] by auto
  have "serverClaimReference (zReconciler o' s p d) claim yBound = Inr (hd (rdata_Claims zData))"
    using plan(4) z_reference(1) [of "zReconciler o' s p d" DesiredStateRunning] z_reference(2) [of "zReconciler o' s p d"] by auto
  then show ?thesis
    using plan by (simp add: operationServerData_def operationReference_def wp_simps) (simp add: zData_def)
qed

lemmas z_datas = z_data [OF disjI1 [OF refl]] z_data [OF disjI2 [OF refl]]

lemma z_acquire: "wp (acquireOperationLease (zReconciler o' s p d) (zReceipt a q ph l st) ''factory'' yIdentity) Q t = Q None (t\<lparr> ses_calls := Suc (ses_calls t) \<rparr>)"
  by (simp add: acquireOperationLease_def wp_simps)

lemma z_due: "dueStep (zReceipt OperationServerStop q p l st) spec = (''Apply'', spec)"
  "dueStep (zReceipt OperationServerDecommission q p l st) spec = (''Stop'', spec\<lparr> gss_DesiredState := DesiredStateStopped \<rparr>)"
  by (simp_all add: dueStep_def)

lemma z_transition [simp]: "operationTransition (zReceipt a q p l [zStep step]) step = Some (zStep step)" "operationTransition (zReceipt a q p l []) step = None"
  by (simp_all add: operationTransition_def zStep_def)

lemma z_applied:
  "operationTransitionApplied zOps (zReceipt a q p l st) (zMarked step) (zStep step) (gs_Spec (yServer DesiredStateStopped))"
  "\<not> operationTransitionApplied zOps (zReceipt a q p l st) (yServer DesiredStateRunning) (zStep step) intent"
proof -
  show "operationTransitionApplied zOps (zReceipt a q p l st) (zMarked step) (zStep step) (gs_Spec (yServer DesiredStateStopped))"
    by (simp add: operationTransitionApplied_def operationSpecsEqual_def z_digest desiredStateName_def zStep_def)
      (simp add: zMarked_def mget_def operationReceiptNameAnnotation_def operationStepAnnotation_def operationSpecDigestAnnotation_def)
  show "\<not> operationTransitionApplied zOps (zReceipt a q p l st) (yServer DesiredStateRunning) (zStep step) intent"
    by (simp add: operationTransitionApplied_def z_digest zStep_def)
qed

lemma z_observed: "operationRuntimeObserved (zMarked step) DesiredStateStopped (Some zData)"
proof -
  have "gst_ObservedData (gs_Status (zMarked step)) = Some zData" "gst_Phase (gs_Status (zMarked step)) = PhaseStopped" "gst_ObservedGeneration (gs_Status (zMarked step)) = 2"
    by (simp_all add: zMarked_def)
  then show ?thesis by (simp add: operationRuntimeObserved_def)
qed

lemma z_stopped_spec: "(gs_Spec (yServer DesiredStateStopped))\<lparr> gss_DesiredState := DesiredStateStopped \<rparr> = gs_Spec (yServer DesiredStateStopped)"
  by (simp add: yServer_def)

section \<open>Runs\<close>

definition operation_sends :: "ArcadeOperationReconciler \<Rightarrow> string \<Rightarrow> string \<Rightarrow> nat \<Rightarrow> OperationMessage \<Rightarrow> bool" where
  "operation_sends r namespace name n q \<longleftrightarrow>
     (n, q) \<in> set (ses_log (snd (run_state (ReconcileArcadeOperation r namespace name) \<lparr> ses_calls = 0, ses_log = [] \<rparr>)))"

lemma wp_operation_sends:
  assumes "wp (ReconcileArcadeOperation r namespace name) (\<lambda>_ t. Q (set (ses_log t))) \<lparr> ses_calls = 0, ses_log = [] \<rparr>"
  shows "Q {(n, q). operation_sends r namespace name n q}"
  using assms by (simp add: wp_def operation_sends_def case_prod_beta)

lemmas z_run = ReconcileArcadeOperation_def reconcileOperation_def operationTerminal_def z_accepted operationServerAction_def reconcileOperationServer_def
  reconcilePlannedServer_def reconcileLiveServer_def z_datas z_acquire changeServer_def z_due wp_simps

lemmas z_status = operationStatus_def operation_now_def operation_send_def operationTerminal_def

definition zStopping :: "OperationServerTransition list \<Rightarrow> GameServer \<Rightarrow> ArcadeOperationReconciler" where
  "zStopping steps server = zReconciler (zOperation OperationServerStop OperationPhaseRunning steps) server undefined undefined"

text \<open>The step is recorded before anything is asked of the server.\<close>

lemma z_journals: "\<exists>n s. operation_sends (zStopping [] (yServer DesiredStateRunning)) ''games'' ''receipt'' n (StatusOperation s) \<and> length (aost_Transitions (ao_Status s)) = 1"
proof -
  obtain frozen where frozen: "ServerIntent (gs_Spec (yServer DesiredStateStopped)) = Some frozen" "ServerSpec frozen = Some (gs_Spec (yServer DesiredStateStopped))"
    using z_frozen by blast
  have "wp (ReconcileArcadeOperation (zStopping [] (yServer DesiredStateRunning)) ''games'' ''receipt'')
      (\<lambda>_ t. \<exists>n s. (n, StatusOperation s) \<in> set (ses_log t) \<and> length (aost_Transitions (ao_Status s)) = 1) \<lparr> ses_calls = 0, ses_log = [] \<rparr>"
    unfolding zStopping_def
    by (simp add: z_run frozen operationExactServer_def)
      (simp add: journalOperationTransition_def z_digest z_status wp_simps Let_def yMeta_def)
  then show ?thesis using wp_operation_sends [of _ _ _ "\<lambda>X. \<exists>n s. (n, StatusOperation s) \<in> X \<and> length (aost_Transitions (ao_Status s)) = 1"] by simp
qed

text \<open>A recorded step is asked for; the answer already shows it.\<close>

lemma z_patches: "\<exists>n patches. operation_sends (zStopping [zStep ''Apply''] (yServer DesiredStateRunning)) ''games'' ''receipt'' n (PatchServer (yServer DesiredStateRunning) patches ''patch'')"
proof -
  obtain frozen where frozen: "ServerIntent (gs_Spec (yServer DesiredStateStopped)) = Some frozen" "ServerSpec frozen = Some (gs_Spec (yServer DesiredStateStopped))"
    using z_frozen by blast
  have step: "otr_SpecDigest (zStep ''Apply'') = hashBytes ''Stopped''" "otr_DesiredState (zStep ''Apply'') = DesiredStateStopped" "otr_FromGeneration (zStep ''Apply'') = 1" "otr_Step (zStep ''Apply'') = ''Apply''"
    by (simp_all add: zStep_def)
  have free: "\<not> transitionBlocked r o' plan zTarget (yServer DesiredStateRunning) (zStep ''Apply'') intent" for r o' plan intent
    by (simp add: transitionBlocked_def step yMeta_def)
  have "wp (ReconcileArcadeOperation (zStopping [zStep ''Apply''] (yServer DesiredStateRunning)) ''games'' ''receipt'')
      (\<lambda>_ t. \<exists>n patches. (n, PatchServer (yServer DesiredStateRunning) patches ''patch'') \<in> set (ses_log t)) \<lparr> ses_calls = 0, ses_log = [] \<rparr>"
    unfolding zStopping_def
    by (simp add: z_run frozen applyOperationTransition_def z_digest step desiredStateName_def z_applied free patchOperationServer_def)
      (simp add: settleTransition_def z_applied z_observed z_status yMeta_def wp_simps Let_def)
  then show ?thesis using wp_operation_sends [of _ _ _ "\<lambda>X. \<exists>n patches. (n, PatchServer (yServer DesiredStateRunning) patches ''patch'') \<in> X"] by simp
qed

lemma z_meta [simp]: "meta_Generation yMeta = 1"
  by (simp add: yMeta_def)

lemma z_succeeds: "\<exists>n s. operation_sends (zStopping [zStep ''Apply''] (zMarked ''Apply'')) ''games'' ''receipt'' n (StatusOperation s) \<and> aost_Phase (ao_Status s) = OperationPhaseSucceeded"
proof -
  obtain frozen where frozen: "ServerIntent (gs_Spec (yServer DesiredStateStopped)) = Some frozen" "ServerSpec frozen = Some (gs_Spec (yServer DesiredStateStopped))"
    using z_frozen by blast
  have step: "otr_SpecDigest (zStep ''Apply'') = hashBytes ''Stopped''" "otr_DesiredState (zStep ''Apply'') = DesiredStateStopped"
    by (simp_all add: zStep_def)
  have "wp (ReconcileArcadeOperation (zStopping [zStep ''Apply''] (zMarked ''Apply'')) ''games'' ''receipt'')
      (\<lambda>_ t. \<exists>n s. (n, StatusOperation s) \<in> set (ses_log t) \<and> aost_Phase (ao_Status s) = OperationPhaseSucceeded) \<lparr> ses_calls = 0, ses_log = [] \<rparr>"
    unfolding zStopping_def
    by (simp add: z_run frozen applyOperationTransition_def z_digest step desiredStateName_def z_applied settleTransition_def z_observed z_status Let_def)
  then show ?thesis using wp_operation_sends [of _ _ _ "\<lambda>X. \<exists>n s. (n, StatusOperation s) \<in> X \<and> aost_Phase (ao_Status s) = OperationPhaseSucceeded"] by simp
qed

text \<open>A decommissioned server is deleted once it is seen to be stopped.\<close>

definition zDecommission :: ArcadeOperationReconciler where
  "zDecommission = zReconciler (zOperation OperationServerDecommission OperationPhaseRunning [zStep ''Stop'']) (zMarked ''Stop'') undefined undefined"

lemma z_deletes: "\<exists>n. operation_sends zDecommission ''games'' ''receipt'' n (DeleteServer ''games'' ''factory'' ''u-server'' ''8'')"
proof -
  obtain frozen where frozen: "ServerIntent (gs_Spec (yServer DesiredStateStopped)) = Some frozen" "ServerSpec frozen = Some (gs_Spec (yServer DesiredStateStopped))"
    using z_frozen by blast
  have step: "otr_SpecDigest (zStep ''Stop'') = hashBytes ''Stopped''" "otr_DesiredState (zStep ''Stop'') = DesiredStateStopped"
    by (simp_all add: zStep_def)
  have "wp (ReconcileArcadeOperation zDecommission ''games'' ''receipt'')
      (\<lambda>_ t. \<exists>n. (n, DeleteServer ''games'' ''factory'' ''u-server'' ''8'') \<in> set (ses_log t)) \<lparr> ses_calls = 0, ses_log = [] \<rparr>"
    unfolding zDecommission_def
    by (simp add: z_run frozen z_stopped_spec applyOperationTransition_def z_digest step desiredStateName_def z_applied settleTransition_def z_observed operation_send_def)
  then show ?thesis using wp_operation_sends [of _ _ _ "\<lambda>X. \<exists>n. (n, DeleteServer ''games'' ''factory'' ''u-server'' ''8'') \<in> X"] by simp
qed

text \<open>A finished receipt gives up its fence.\<close>

definition zFinished :: ArcadeOperationReconciler where
  "zFinished = zReconciler (zOperation OperationServerStop OperationPhaseSucceeded []) (zMarked ''Apply'') undefined undefined"

lemma z_releases: "\<exists>n. operation_sends zFinished ''games'' ''receipt'' n (DeleteFence ''games'' (DataOperationLeaseName yIdentity) [] [])"
proof -
  have lease: "meta_Namespace (lease_Meta zLease) = ''games''" "meta_Name (lease_Meta zLease) = DataOperationLeaseName yIdentity" "meta_UID (lease_Meta zLease) = []"
    "meta_ResourceVersion (lease_Meta zLease) = []"
    by (simp_all add: zLease_def operationLease_def freshMeta_def)
  have coordinates: "operationLeaseCoordinates (zOperation OperationServerStop OperationPhaseSucceeded []) = Some (''factory'', yIdentity)"
    by (simp add: operationLeaseCoordinates_def operationServerAction_def Let_def)
  have "wp (ReconcileArcadeOperation zFinished ''games'' ''receipt'')
      (\<lambda>_ t. \<exists>n. (n, DeleteFence ''games'' (DataOperationLeaseName yIdentity) [] []) \<in> set (ses_log t)) \<lparr> ses_calls = 0, ses_log = [] \<rparr>"
    unfolding zFinished_def
    by (simp add: ReconcileArcadeOperation_def reconcileOperation_def operationTerminal_def releaseOperation_def releaseOperationLease_def coordinates lease
        removeOperationFinalizer_def operation_send_def wp_simps)
  then show ?thesis using wp_operation_sends [of _ _ _ "\<lambda>X. \<exists>n. (n, DeleteFence ''games'' (DataOperationLeaseName yIdentity) [] []) \<in> X"] by simp
qed

text \<open>The destruction of a retained world, previewed by one receipt and confirmed by another.\<close>

definition zCommand :: OperationDestroyCommand where
  "zCommand = \<lparr> dcmd_ParentOperationRef = \<lparr> ref_Namespace = None, ref_Name = ''preview'', ref_UID = ''u-preview'' \<rparr>,
     dcmd_DestroyRef = \<lparr> ref_Namespace = None, ref_Name = ''destroy'', ref_UID = ''u-destroy'' \<rparr>, dcmd_Challenge = ''abcdefghijklmnop'' \<rparr>"

definition zConfirmRequest :: OperationRequest where
  "zConfirmRequest = \<lparr> oreq_Precondition = [CHR 0x22] @ ''operation:u-preview:1'' @ [CHR 0x22], oreq_ServerName = [], oreq_Target = None,
     oreq_Create = None, oreq_Configure = None, oreq_Image = None, oreq_Backup = None, oreq_Restore = None, oreq_Destroy = None, oreq_DestroyCommand = Some zCommand \<rparr>"

definition zChild :: OperationChildReference where
  "zChild = \<lparr> och_Kind = ''GameDestroy'', och_Local = dcmd_DestroyRef zCommand, och_Generation = 1 \<rparr>"

definition zConfirm :: ArcadeOperation where
  "zConfirm = (zReceipt OperationWorldDestroyConfirm zConfirmRequest OperationPhaseRunning (emptyPlan\<lparr> opl_DestroyRef := Some (dcmd_DestroyRef zCommand) \<rparr>) [])\<lparr>
     ao_Status := (ao_Status (zReceipt OperationWorldDestroyConfirm zConfirmRequest OperationPhaseRunning (emptyPlan\<lparr> opl_DestroyRef := Some (dcmd_DestroyRef zCommand) \<rparr>) []))\<lparr>
       aost_Child := Some zChild \<rparr> \<rparr>"

definition zPreview :: ArcadeOperation where
  "zPreview = \<lparr> ao_Meta = yMeta\<lparr> meta_Name := ''preview'', meta_UID := ''u-preview'' \<rparr>,
     ao_Spec = (ao_Spec zConfirm)\<lparr> aos_Action := OperationWorldDestroyPreview \<rparr>,
     ao_Status = (ao_Status zConfirm)\<lparr> aost_Phase := OperationPhaseAwaitingConfirmation, aost_Plan := Some emptyPlan \<rparr> \<rparr>"

definition zDestroy :: GameDestroy where
  "zDestroy = \<lparr> gd_Meta = yMeta\<lparr> meta_Name := ''destroy'', meta_UID := ''u-destroy'', meta_Labels := [operationReceiptUIDLabel \<mapsto> ''u-preview''],
       meta_Annotations := [operationReceiptNameAnnotation \<mapsto> ''preview''] \<rparr>,
     gd_Spec = \<lparr> ds_Target = orw_Target zWorld, ds_Mode = DestroyModeVerifiedBackup, ds_BackupRef = None, ds_RepositorySecretRef = None, ds_UnsafeReason = [],
       ds_ConfirmationChallenge = [], ds_CancelRequested = False \<rparr>,
     gd_Status = emptyDestroyStatus\<lparr> dst_ObservedGeneration := 1, dst_Phase := DestroyPhasePreview,
       dst_Preview := Some \<lparr> pv_Challenge = ''abcdefghijklmnop'', pv_ExpiresAt = 9, pv_RestoreGuidance = [] \<rparr> \<rparr> \<rparr>"

definition zConfirming :: ArcadeOperationReconciler where
  "zConfirming = zReconciler zConfirm undefined zPreview zDestroy"

lemma z_confirm_parse: "ParsePrecondition (oreq_Precondition zConfirmRequest) = Some \<lparr> pre_Kind = ''operation'', pre_UID = ''u-preview'', pre_SnapshotDigest = [], pre_Generation = 1 \<rparr>"
proof -
  have "identityPattern ''u-preview''" by (simp add: identityPattern_def word_char_def char_class_defs)
  moreover have "Itoa 1 = ''1''" by (simp add: Itoa_def nat_decimal_def digits_rev.simps digit_char_def char_of_def bit_simps)
  ultimately show ?thesis using parse_live [of "''operation''" "''u-preview''" 1] by (simp add: zConfirmRequest_def)
qed

lemma z_confirm_accepted: "ValidateRequest zOps OperationWorldDestroyConfirm zConfirmRequest = None"
proof -
  have fields: "validReference zOps (dcmd_ParentOperationRef zCommand)" "validReference zOps (dcmd_DestroyRef zCommand)" "challengePattern (dcmd_Challenge zCommand)"
    by (simp_all add: validReference_def zOps_def zCommand_def identityPattern_def word_char_def dns_label_def char_class_defs challengePattern_def)
  then have "\<not> actionInvalid zOps OperationWorldDestroyConfirm \<lparr> pre_Kind = ''operation'', pre_UID = ''u-preview'', pre_SnapshotDigest = [], pre_Generation = 1 \<rparr> zConfirmRequest"
    by (simp add: actionInvalid_def commandInvalid_def zConfirmRequest_def payloadCount_def) (simp add: zCommand_def)
  then show ?thesis unfolding ValidateRequest_def z_confirm_parse
    by (simp add: guard_simps) (simp add: zConfirmRequest_def targetInvalid_def)
qed

lemma z_command [simp]: "ref_Namespace (dcmd_ParentOperationRef zCommand) = None" "ref_Name (dcmd_ParentOperationRef zCommand) = ''preview''" "ref_UID (dcmd_ParentOperationRef zCommand) = ''u-preview''"
  "ref_Namespace (dcmd_DestroyRef zCommand) = None" "ref_Name (dcmd_DestroyRef zCommand) = ''destroy''" "ref_UID (dcmd_DestroyRef zCommand) = ''u-destroy''"
  "oreq_DestroyCommand zConfirmRequest = Some zCommand" "dcmd_Challenge zCommand = ''abcdefghijklmnop''"
  by (simp_all add: zCommand_def zConfirmRequest_def)

lemma z_confirm [simp]: "ao_Meta zConfirm = ao_Meta (zReceipt OperationWorldDestroyConfirm zConfirmRequest OperationPhaseRunning emptyPlan [])"
  "ao_Spec zConfirm = ao_Spec (zReceipt OperationWorldDestroyConfirm zConfirmRequest OperationPhaseRunning emptyPlan [])"
  "aost_Phase (ao_Status zConfirm) = OperationPhaseRunning" "aost_Plan (ao_Status zConfirm) = Some (emptyPlan\<lparr> opl_DestroyRef := Some (dcmd_DestroyRef zCommand) \<rparr>)"
  "aost_Child (ao_Status zConfirm) = Some zChild"
  by (simp_all add: zConfirm_def) (simp_all add: zReceipt_def)

lemma z_objects: "\<not> commandParentChanged zPreview zCommand \<lparr> pre_Kind = ''operation'', pre_UID = ''u-preview'', pre_SnapshotDigest = [], pre_Generation = 1 \<rparr>"
  "\<not> commandDestroyChanged zPreview zCommand zDestroy"
  by (simp_all add: commandParentChanged_def commandDestroyChanged_def zPreview_def zChild_def zDestroy_def mget_def emptyPlan_def)
    (simp_all add: zConfirm_def mget_def)

lemma z_confirms: "\<exists>n. operation_sends zConfirming ''games'' ''receipt'' n (PatchDestroy zDestroy (exactPatches (gd_Meta zDestroy)
    (commandPatches zDestroy operationConfirmAnnotation ''u-receipt'' ''/spec/confirmationChallenge'' (PatchText ''abcdefghijklmnop''))) ''patch'')"
proof -
  let ?q = "PatchDestroy zDestroy (exactPatches (gd_Meta zDestroy)
    (commandPatches zDestroy operationConfirmAnnotation ''u-receipt'' ''/spec/confirmationChallenge'' (PatchText ''abcdefghijklmnop''))) ''patch''"
  have destroy: "gd_Meta zDestroy = yMeta\<lparr> meta_Name := ''destroy'', meta_UID := ''u-destroy'', meta_Labels := [operationReceiptUIDLabel \<mapsto> ''u-preview''],
      meta_Annotations := [operationReceiptNameAnnotation \<mapsto> ''preview''] \<rparr>" "dst_ObservedGeneration (gd_Status zDestroy) = 1" "dst_Phase (gd_Status zDestroy) = DestroyPhasePreview"
    "dst_Preview (gd_Status zDestroy) = Some \<lparr> pv_Challenge = ''abcdefghijklmnop'', pv_ExpiresAt = 9, pv_RestoreGuidance = [] \<rparr>" "dst_DeletionJournal (gd_Status zDestroy) = []"
    "ds_ConfirmationChallenge (gd_Spec zDestroy) = []" "\<not> ds_CancelRequested (gd_Spec zDestroy)"
    by (simp_all add: zDestroy_def emptyDestroyStatus_def)
  have confirm: "wp (destroyConfirm zConfirming zConfirm zCommand zDestroy) Q s = Q None (s\<lparr> ses_calls := Suc (Suc (ses_calls s)), ses_log := ses_log s @ [(Suc (ses_calls s), ?q)] \<rparr>)" for Q s
    by (simp add: destroyConfirm_def destroy destroyTerminal_def operation_now_def zConfirming_def patchOperationDestroy_def operation_send_def wp_simps Let_def)
  have command: "wp (destroyCommand zConfirming zConfirm zCommand zDestroy) Q s = wp (destroyConfirm zConfirming zConfirm zCommand zDestroy) Q s" for Q s
    by (simp add: destroyCommand_def) (simp add: zChild_def destroy)
  have objects: "wp (operationDestroyCommandObjects zConfirming zConfirm) Q s = Q (Inr (zPreview, zDestroy)) (s\<lparr> ses_calls := Suc (Suc (ses_calls s)) \<rparr>)" for Q s
    by (simp add: operationDestroyCommandObjects_def z_confirm_parse z_objects operationReference_def zConfirming_def wp_simps)
  have "wp (ReconcileArcadeOperation zConfirming ''games'' ''receipt'') (\<lambda>_ t. \<exists>n. (n, ?q) \<in> set (ses_log t)) \<lparr> ses_calls = 0, ses_log = [] \<rparr>"
    by (simp add: ReconcileArcadeOperation_def zConfirming_def reconcileOperation_def operationTerminal_def operationServerAction_def reconcileOperationData_def reconcileDestroyCommand_def
        confirm [unfolded zConfirming_def] objects [unfolded zConfirming_def] command [unfolded zConfirming_def] z_confirm_accepted wp_simps)
  then show ?thesis using wp_operation_sends [of _ _ _ "\<lambda>X. \<exists>n. (n, ?q) \<in> X"] by simp
qed

end
