(* ===== verification/TranslatorProps.thy ===== *)
theory TranslatorProps
  imports TranslatorExample
begin

text \<open>
  What a reconciliation of a receipt may do to the cluster, read off the permissions that theory \<open>TranslatorGates\<close>
  establishes for every request of a run, and how the translator and the GameServer controller meet at a server.
\<close>

section \<open>Runs\<close>

lemma operation_request_ok:
  assumes "vw_Operation (operation_reader r) 0 namespace name = Inr o'" "operation_sends r namespace name n q"
  shows "operation_ok r o' 1 n q"
proof -
  let ?run = "run_state (ReconcileArcadeOperation r namespace name) \<lparr> ses_calls = 0, ses_log = [] \<rparr>"
  have "\<exists>o''. vw_Operation (operation_reader r) 0 namespace name = Inr o'' \<and> operation_ok r o'' 1 n q"
    using operation_permitted [of r namespace name "fst ?run" "snd ?run"] assms(2) unfolding operation_sends_def by simp
  with assms(1) show ?thesis by simp
qed

lemma found_step: "operationTransition o' step = Some t \<Longrightarrow> otr_Step t = step"
  unfolding operationTransition_def by (auto simp: find_Some_iff)

lemma operation_transition_mem: "operationTransition o' step = Some t \<Longrightarrow> t \<in> set (aost_Transitions (ao_Status o'))"
  unfolding operationTransition_def by (auto simp: find_Some_iff)

lemma due_intent: "snd (dueStep o' spec) = spec\<lparr> gss_DesiredState := gss_DesiredState (snd (dueStep o' spec)) \<rparr>"
  by (simp add: dueStep_def)

section \<open>Changing a server\<close>

lemma patched_step:
  assumes "vw_Operation (operation_reader r) 0 namespace name = Inr o'" "operation_sends r namespace name n (PatchServer server patches encoded)"
  obtains c t frozen where "change_ok r o' c 1 n" "ch_server c = server" "step_due r o' c t" "meta_Generation (gs_Meta server) = otr_FromGeneration t"
    "otr_Step t \<noteq> ''Start'' \<longrightarrow> otr_FromGeneration t = gref_Generation (ch_planned c)" "ch_intent o' c = (ch_spec c)\<lparr> gss_DesiredState := otr_DesiredState t \<rparr>"
    "opl_ServerIntent (ch_plan c) = Some frozen" "ServerSpec frozen = Some (ch_spec c)"
    "patches = exactPatches (gs_Meta server) (transitionPatches o' server t (ch_intent o' c))"
proof -
  from operation_request_ok [OF assms] obtain c t where patch: "change_ok r o' c 1 n" "ch_server c = server" "step_due r o' c t" "meta_Generation (gs_Meta server) = otr_FromGeneration t"
      "\<not> transitionBlocked r o' (ch_plan c) (ch_planned c) server t (ch_intent o' c)"
      "patches = exactPatches (gs_Meta server) (transitionPatches o' server t (ch_intent o' c))"
    by (auto simp: operation_ok_def patch_ok_def)
  moreover have "ch_intent o' c = (ch_spec c)\<lparr> gss_DesiredState := otr_DesiredState t \<rparr>"
    using patch(3) due_intent [of o' "ch_spec c"] by (simp add: step_due_def)
  moreover have "otr_Step t \<noteq> ''Start'' \<longrightarrow> otr_FromGeneration t = gref_Generation (ch_planned c)"
    using patch(4,5) by (auto simp: transitionBlocked_def)
  moreover obtain frozen where "opl_ServerIntent (ch_plan c) = Some frozen" "ServerSpec frozen = Some (ch_spec c)"
    using patch(1) by (auto simp: change_ok_def)
  ultimately show thesis using that by blast
qed

text \<open>
  C10. A server is changed only by a journaled step. The step is in the status with which the run began, under the digest
  and the desired state of the plan's intent and at the generation of the server as the run read it, which is the
  planned server by UID; the claims of that server were read and are the planned world; and the receipt holds the fence of
  the world. The request itself tests UID and resource version, and names the receipt, the step and the digest together
  with the new specification.
\<close>

theorem server_change_journaled:
  assumes "vw_Operation (operation_reader r) 0 namespace name = Inr o'" "operation_sends r namespace name n (PatchServer server patches encoded)"
  shows "\<exists>plan planned data frozen spec t. aost_Plan (ao_Status o') = Some plan \<and> opl_Server plan = Some planned \<and> opl_Data plan = Some data \<and>
    opl_ServerIntent plan = Some frozen \<and> ServerSpec frozen = Some spec \<and>
    t \<in> set (aost_Transitions (ao_Status o')) \<and> meta_Generation (gs_Meta server) = otr_FromGeneration t \<and>
    SpecDigest (aor_Operations r) (spec\<lparr> gss_DesiredState := otr_DesiredState t \<rparr>) = Some (otr_SpecDigest t) \<and>
    (otr_Step t \<noteq> ''Start'' \<longrightarrow> otr_FromGeneration t = gref_Generation planned) \<and>
    serverUID server = ref_UID (gref_Local planned) \<and> \<not> terminating (gs_Meta server) \<and> seen 1 n (read_server r o' (ref_Name (gref_Local planned)) (Inr server)) \<and>
    (\<exists>current. world_read r server current 1 n \<and> sameDataSelection (Some current) (Some data)) \<and>
    fence_held r o' (serverName server) (rdata_Identity data) 1 n \<and>
    patches = exactPatches (gs_Meta server) (transitionPatches o' server t (spec\<lparr> gss_DesiredState := otr_DesiredState t \<rparr>))"
proof -
  from patched_step [OF assms] obtain c t frozen where change: "change_ok r o' c 1 n" "ch_server c = server" and step: "step_due r o' c t"
      and open': "meta_Generation (gs_Meta server) = otr_FromGeneration t" "otr_Step t \<noteq> ''Start'' \<longrightarrow> otr_FromGeneration t = gref_Generation (ch_planned c)"
      and intent: "ch_intent o' c = (ch_spec c)\<lparr> gss_DesiredState := otr_DesiredState t \<rparr>"
      and frozen: "opl_ServerIntent (ch_plan c) = Some frozen" "ServerSpec frozen = Some (ch_spec c)"
      and patches: "patches = exactPatches (gs_Meta server) (transitionPatches o' server t (ch_intent o' c))" .
  have "t \<in> set (aost_Transitions (ao_Status o'))"
    using step operation_transition_mem [of o' "ch_step o' c" t] by (simp add: step_due_def)
  moreover have "SpecDigest (aor_Operations r) ((ch_spec c)\<lparr> gss_DesiredState := otr_DesiredState t \<rparr>) = Some (otr_SpecDigest t)"
    using step by (simp add: step_due_def intent)
  ultimately show ?thesis using change open' frozen patches unfolding change_ok_def server_known_def intent
    by (intro exI [of _ "ch_plan c"] exI [of _ "ch_planned c"] exI [of _ "ch_data c"] exI [of _ frozen] exI [of _ "ch_spec c"] exI [of _ t]) simp
qed

theorem server_change_journaled_witness:
  "\<exists>n patches t. operation_sends (zStopping [zStep ''Apply''] (yServer DesiredStateRunning)) ''games'' ''receipt'' n (PatchServer (yServer DesiredStateRunning) patches ''patch'') \<and>
     t \<in> {zStep ''Apply''} \<and> fence_held (zStopping [zStep ''Apply''] (yServer DesiredStateRunning)) (zOperation OperationServerStop OperationPhaseRunning [zStep ''Apply'']) ''factory'' yIdentity 1 n \<and>
     patches = exactPatches (gs_Meta (yServer DesiredStateRunning)) (transitionPatches (zOperation OperationServerStop OperationPhaseRunning [zStep ''Apply'']) (yServer DesiredStateRunning) t
       (gs_Spec (yServer DesiredStateStopped)))"
proof -
  obtain n patches where sent: "operation_sends (zStopping [zStep ''Apply''] (yServer DesiredStateRunning)) ''games'' ''receipt'' n (PatchServer (yServer DesiredStateRunning) patches ''patch'')"
    using z_patches by blast
  obtain frozen where frozen: "ServerIntent (gs_Spec (yServer DesiredStateStopped)) = Some frozen" "ServerSpec frozen = Some (gs_Spec (yServer DesiredStateStopped))"
    using z_frozen by blast
  have "vw_Operation (operation_reader (zStopping [zStep ''Apply''] (yServer DesiredStateRunning))) 0 ''games'' ''receipt'' = Inr (zOperation OperationServerStop OperationPhaseRunning [zStep ''Apply''])"
    by (simp add: zStopping_def)
  from server_change_journaled [OF this sent] show ?thesis
    using sent frozen z_stopped_spec by (auto simp: zStep_def)
qed

section \<open>Meeting at the server\<close>

text \<open>A server that shows what a patch sets: the fields of the paths that the translator writes.\<close>

definition shows_patch :: "GameServer \<Rightarrow> operationJSONPatch \<Rightarrow> bool" where
  "shows_patch server p \<longleftrightarrow>
     (ojp_Path p = ''/metadata/labels'' \<longrightarrow> ojp_Value p = PatchMap (meta_Labels (gs_Meta server))) \<and>
     (ojp_Path p = ''/metadata/annotations'' \<longrightarrow> ojp_Value p = PatchMap (meta_Annotations (gs_Meta server))) \<and>
     (ojp_Path p = ''/spec'' \<longrightarrow> ojp_Value p = PatchSpec (gs_Spec server))"

lemma shown_patches:
  assumes "\<forall>p\<in>set (exactPatches m (transitionPatches o' server t intent)). shows_patch after p"
  shows "gs_Spec after = intent" "server_label after operationReceiptUIDLabel = operationUID o'" "server_annotation after operationReceiptNameAnnotation = operationName o'"
    "server_annotation after operationStepAnnotation = otr_Step t" "server_annotation after operationSpecDigestAnnotation = otr_SpecDigest t"
proof -
  have shown: "gs_Spec after = intent" "meta_Labels (gs_Meta after) = (meta_Labels (gs_Meta server))(operationReceiptUIDLabel \<mapsto> operationUID o')"
    "meta_Annotations (gs_Meta after) = (meta_Annotations (gs_Meta server))
        (operationReceiptNameAnnotation \<mapsto> operationName o', operationStepAnnotation \<mapsto> otr_Step t, operationSpecDigestAnnotation \<mapsto> otr_SpecDigest t)"
    using assms by (simp_all add: exactPatches_def transitionPatches_def shows_patch_def testPatch_def addPatch_def)
  show "gs_Spec after = intent" by (rule shown)
  show "server_label after operationReceiptUIDLabel = operationUID o'" by (simp add: shown mget_def)
  show "server_annotation after operationReceiptNameAnnotation = operationName o'" "server_annotation after operationStepAnnotation = otr_Step t"
    "server_annotation after operationSpecDigestAnnotation = otr_SpecDigest t"
    by (simp_all add: shown mget_def operationReceiptNameAnnotation_def operationStepAnnotation_def operationSpecDigestAnnotation_def)
qed

lemma unlocked_by_receipt:
  assumes "operationLeaseMatches lease o' (serverName server) identity" "operationUID o' \<noteq> []" "receiptAllows (gsr_Operations g) o' server lease"
    "\<And>k. vw_Lease (runtimeReader g) k (serverNamespace server) (DataOperationLeaseName identity) = Inr lease"
    "\<And>k. vw_Operation (runtimeReader g) k (serverNamespace server) (operationName o') = Inr o'"
  shows "fst (run_state (dataOperationLocked g server identity) s) = Inr False"
proof -
  from assms(1) have lease: "lease_HolderIdentity lease = Some (operationUID o')" "lease_label lease LabelManagedBy = ManagerName" "lease_label lease LabelDataIdentity = identity"
    "lease_label lease operationReceiptUIDLabel = operationUID o'" "lease_annotation lease operationReceiptNameAnnotation = operationName o'"
    by (simp_all add: operationLeaseMatches_def)
  have "wp (dataOperationLocked g server identity) (\<lambda>x _. x = Inr False) s"
    using assms(2-5) by (simp add: dataOperationLocked_def receiptRuntimeAllowed_def lease wp_simps)
  then show ?thesis by (simp add: wp_def case_prod_beta)
qed

text \<open>
  C15. The GameServer controller carries out what the translator asked for. Once the API server has applied a patch of
  the translator and counted the generation as the journal foresaw, the step is recognised as applied by the translator,
  and the GameServer controller, which reads the receipt's lease on the world and then the receipt, does not find the
  world locked.
\<close>

theorem patched_server_runs:
  assumes "vw_Operation (operation_reader r) 0 namespace name = Inr o'" "operation_sends r namespace name n (PatchServer server patches encoded)"
    and named: "\<And>k nm s. vw_GameServer (operation_reader r) k (operationNamespace o') nm = Inr s \<Longrightarrow> serverName s = nm"
    and applied: "\<forall>p\<in>set patches. shows_patch after p" "serverUID after = serverUID server" "serverName after = serverName server"
      "\<forall>t\<in>set (aost_Transitions (ao_Status o')). otr_FromGeneration t = meta_Generation (gs_Meta server) \<longrightarrow> otr_ToGeneration t = meta_Generation (gs_Meta after)"
    and lease: "operationLeaseMatches lease o' (serverName server) identity" "\<forall>plan data. aost_Plan (ao_Status o') = Some plan \<and> opl_Data plan = Some data \<longrightarrow> identity = rdata_Identity data"
    and reads: "gsr_Operations g = aor_Operations r" "\<And>k. vw_Lease (runtimeReader g) k (serverNamespace after) (DataOperationLeaseName identity) = Inr lease"
      "\<And>k. vw_Operation (runtimeReader g) k (serverNamespace after) (operationName o') = Inr o'"
  shows "(\<exists>t\<in>set (aost_Transitions (ao_Status o')). operationTransitionApplied (aor_Operations r) o' after t (gs_Spec after)) \<and>
    fst (run_state (dataOperationLocked g after identity) s) = Inr False"
proof -
  from patched_step [OF assms(1,2)] obtain c t frozen where change: "change_ok r o' c 1 n" "ch_server c = server" and step: "step_due r o' c t"
      and from': "meta_Generation (gs_Meta server) = otr_FromGeneration t" and intent: "ch_intent o' c = (ch_spec c)\<lparr> gss_DesiredState := otr_DesiredState t \<rparr>"
      and frozen: "opl_ServerIntent (ch_plan c) = Some frozen" "ServerSpec frozen = Some (ch_spec c)"
      and patches: "patches = exactPatches (gs_Meta server) (transitionPatches o' server t (ch_intent o' c))" .
  have t: "t \<in> set (aost_Transitions (ao_Status o'))" "operationTransition o' (otr_Step t) = Some t"
    using step found_step [of o' "ch_step o' c" t] operation_transition_mem [of o' "ch_step o' c" t] by (simp_all add: step_due_def)
  note shown = shown_patches [OF applied(1) [unfolded patches]]
  have digest: "SpecDigest (aor_Operations r) (ch_intent o' c) = Some (otr_SpecDigest t)" "otr_DesiredState t = gss_DesiredState (ch_intent o' c)"
    using step by (simp_all add: step_due_def)
  have marked: "operationTransitionApplied (aor_Operations r) o' after t (ch_intent o' c)"
    using applied(4) t(1) from' digest by (simp add: operationTransitionApplied_def operationSpecsEqual_def shown)
  have world: "working r o'" "aost_Plan (ao_Status o') = Some (ch_plan c)" "operationServerAction (actionOf o')" "actionOf o' \<noteq> OperationServerCreate"
    "opl_Server (ch_plan c) = Some (ch_planned c)" "opl_Data (ch_plan c) = Some (ch_data c)" "serverUID server = ref_UID (gref_Local (ch_planned c))"
    "serverName server = ref_Name (gref_Local (ch_planned c))"
    using change named by (auto simp: change_ok_def server_known_def seen_def)
  then have "transitionAllowed (aor_Operations r) o' after (ch_plan c) identity (ch_spec c)"
    using marked applied lease(2) t(2) by (simp add: transitionAllowed_def shown intent)
  then have "receiptAllows (gsr_Operations g) o' after lease"
    using world frozen lease(1) by (simp add: receiptAllows_def reads(1) applied operationLeaseMatches_def working_def released_def)
  from unlocked_by_receipt [OF _ _ this reads(2,3)] lease(1) world(1) applied have "fst (run_state (dataOperationLocked g after identity) s) = Inr False"
    by (simp add: working_def)
  with marked t(1) shown(1) show ?thesis by auto
qed

definition zGame :: GameServerReconciler where
  "zGame = (yReconciler DesiredStateStopped False False)\<lparr>
     gsr_Client := (yView DesiredStateStopped False False)\<lparr> vw_Lease := \<lambda>_ _ _. Inr zLease,
       vw_Operation := \<lambda>_ _ _. Inr (zOperation OperationServerStop OperationPhaseRunning [zStep ''Apply'']) \<rparr>,
     gsr_Operations := zOps \<rparr>"

lemma z_shown: "\<forall>p\<in>set (exactPatches m (transitionPatches (zOperation OperationServerStop OperationPhaseRunning [zStep ''Apply'']) (yServer DesiredStateRunning) (zStep ''Apply'')
    (gs_Spec (yServer DesiredStateStopped)))). shows_patch (zMarked ''Apply'') p"
proof -
  have "meta_Labels (gs_Meta (zMarked ''Apply'')) = [operationReceiptUIDLabel \<mapsto> ''u-receipt'']"
    "meta_Annotations (gs_Meta (zMarked ''Apply'')) = [operationReceiptNameAnnotation \<mapsto> ''receipt'', operationStepAnnotation \<mapsto> ''Apply'', operationSpecDigestAnnotation \<mapsto> hashBytes ''Stopped'']"
    by (simp_all add: zMarked_def fun_eq_iff operationReceiptNameAnnotation_def operationStepAnnotation_def operationSpecDigestAnnotation_def)
  then show ?thesis
    by (simp add: exactPatches_def transitionPatches_def shows_patch_def testPatch_def addPatch_def zStep_def yMeta_def)
qed

theorem patched_server_runs_witness: "fst (run_state (dataOperationLocked zGame (zMarked ''Apply'') yIdentity) \<lparr> ses_calls = 0, ses_log = [] \<rparr>) = Inr False"
proof -
  let ?o = "zOperation OperationServerStop OperationPhaseRunning [zStep ''Apply'']" and ?r = "zStopping [zStep ''Apply''] (yServer DesiredStateRunning)"
  obtain n patches where sent: "operation_sends ?r ''games'' ''receipt'' n (PatchServer (yServer DesiredStateRunning) patches ''patch'')"
    using z_patches by blast
  have receipt: "vw_Operation (operation_reader ?r) 0 ''games'' ''receipt'' = Inr ?o" by (simp add: zStopping_def)
  obtain frozen where frozen: "ServerIntent (gs_Spec (yServer DesiredStateStopped)) = Some frozen" "ServerSpec frozen = Some (gs_Spec (yServer DesiredStateStopped))"
    using z_frozen by blast
  from patched_step [OF receipt sent] obtain c t frozen' where step: "change_ok ?r ?o c 1 n" "ch_server c = yServer DesiredStateRunning" "step_due ?r ?o c t"
      "meta_Generation (gs_Meta (yServer DesiredStateRunning)) = otr_FromGeneration t" "otr_Step t \<noteq> ''Start'' \<longrightarrow> otr_FromGeneration t = gref_Generation (ch_planned c)"
      "ch_intent ?o c = (ch_spec c)\<lparr> gss_DesiredState := otr_DesiredState t \<rparr>" "opl_ServerIntent (ch_plan c) = Some frozen'" "ServerSpec frozen' = Some (ch_spec c)"
      "patches = exactPatches (gs_Meta (yServer DesiredStateRunning)) (transitionPatches ?o (yServer DesiredStateRunning) t (ch_intent ?o c))" .
  have "ch_plan c = zPlan" using step(1) by (simp add: change_ok_def)
  then have "ch_spec c = gs_Spec (yServer DesiredStateStopped)" using step(7,8) frozen by simp
  moreover have "t = zStep ''Apply''" using step(3) by (simp add: step_due_def z_due)
  ultimately have patches: "\<forall>p\<in>set patches. shows_patch (zMarked ''Apply'') p" using z_shown unfolding step(9) by (simp add: z_due)
  show ?thesis
    by (rule conjunct2 [OF patched_server_runs [where lease = zLease and g = zGame and s = "\<lparr> ses_calls = 0, ses_log = [] \<rparr>", OF receipt sent _ patches]])
      (simp_all add: zStopping_def zGame_def runtimeReader_def zView_def zStep_def yReconciler_def split: if_splits, auto simp: yMeta_def)
qed

section \<open>The record of a receipt\<close>

text \<open>The rules for changes of a status, and the markers of its fields: journal, child and failure.\<close>

definition operationStatusAdmitted :: "ArcadeOperationStatus \<Rightarrow> ArcadeOperationStatus \<Rightarrow> bool" where
  "operationStatusAdmitted old new \<longleftrightarrow>
     (aost_Plan old \<noteq> None \<longrightarrow> aost_Plan new = aost_Plan old) \<and>
     (aost_Child old \<noteq> None \<longrightarrow> aost_Child new = aost_Child old) \<and>
     (aost_RetainedWorld old \<noteq> None \<longrightarrow> aost_RetainedWorld new = aost_RetainedWorld old) \<and>
     set (aost_Transitions old) \<subseteq> set (aost_Transitions new) \<and>
     (operationTerminal (aost_Phase old) \<longrightarrow> new = old)"

definition operationStatusValid :: "ArcadeOperationStatus \<Rightarrow> bool" where
  "operationStatusValid s \<longleftrightarrow>
     length (aost_Transitions s) \<le> 3 \<and> distinct (map otr_Step (aost_Transitions s)) \<and>
     (\<forall>t\<in>set (aost_Transitions s). otr_Step t \<in> set transitionSteps \<and> sha256_pattern (otr_SpecDigest t)) \<and>
     (case aost_Child s of None \<Rightarrow> True | Some child \<Rightarrow> och_Kind child \<in> set childKinds) \<and>
     (case aost_Failure s of None \<Rightarrow> True | Some failure \<Rightarrow> failureValid failure)"

text \<open>A world is only retained together with a plan.\<close>

definition retainedPlanned :: "ArcadeOperationStatus \<Rightarrow> bool" where
  "retainedPlanned s \<longleftrightarrow> (aost_RetainedWorld s \<noteq> None \<longrightarrow> aost_Plan s \<noteq> None)"

lemma digest_pattern: "sha256_pattern (hashBytes b)"
  unfolding hashBytes_def by (rule sha256_pattern_append) (simp_all add: hex_alphabet length_sha256)

lemma spec_digest_pattern: "SpecDigest env spec = Some d \<Longrightarrow> sha256_pattern d"
  by (auto simp: SpecDigest_def digest_pattern split: option.splits)

lemma steps_length:
  assumes "distinct (map otr_Step ts)" "\<forall>t\<in>set ts. otr_Step t \<in> set transitionSteps"
  shows "length ts \<le> 3"
proof -
  have "length ts = card (set (map otr_Step ts))" using distinct_card [OF assms(1)] by simp
  also have "\<dots> \<le> card (set transitionSteps)" by (rule card_mono) (use assms(2) in auto)
  also have "\<dots> \<le> 3" by (simp add: transitionSteps_def)
  finally show ?thesis .
qed

lemma status_step_admitted:
  assumes "status_step r o' m n s" "\<not> operationTerminal (aost_Phase (ao_Status o'))" "retainedPlanned (ao_Status o')"
  shows "operationStatusAdmitted (ao_Status o') s \<and> retainedPlanned s"
proof -
  let ?old = "ao_Status o'"
  have "aost_Plan s = aost_Plan ?old \<or> aost_Plan ?old = None" "aost_RetainedWorld s = aost_RetainedWorld ?old \<or> aost_Plan ?old = None \<and> aost_Plan s \<noteq> None"
    "aost_Child s = aost_Child ?old \<or> aost_Child ?old = None" "aost_Transitions s = aost_Transitions ?old \<or> (\<exists>t. aost_Transitions s = aost_Transitions ?old @ [t])"
    using assms(1) unfolding status_step_def by meson+
  then show ?thesis using assms(2,3) unfolding operationStatusAdmitted_def retainedPlanned_def by auto
qed

lemma status_step_valid:
  assumes "status_step r o' m n s" "operationStatusValid (ao_Status o')"
  shows "operationStatusValid s"
proof -
  let ?old = "aost_Transitions (ao_Status o')"
  from assms(2) have old: "distinct (map otr_Step ?old)" "\<forall>t\<in>set ?old. otr_Step t \<in> set transitionSteps \<and> sha256_pattern (otr_SpecDigest t)"
    by (simp_all add: operationStatusValid_def)
  have kept: "aost_Child s = aost_Child (ao_Status o') \<or> (\<forall>c. aost_Child s = Some c \<longrightarrow> och_Kind c \<in> set childKinds)"
    "\<forall>f. aost_Failure s = Some f \<longrightarrow> aost_Failure (ao_Status o') = Some f \<or> failureValid f"
    using assms(1) unfolding status_step_def by meson+
  have new: "distinct (map otr_Step (aost_Transitions s)) \<and> (\<forall>t\<in>set (aost_Transitions s). otr_Step t \<in> set transitionSteps \<and> sha256_pattern (otr_SpecDigest t))"
  proof (cases "aost_Transitions s = ?old")
    case False
    with assms(1) obtain t where t: "aost_Transitions s = ?old @ [t]" "transition_ok r o' t m n" unfolding status_step_def by blast
    then have "otr_Step t \<notin> otr_Step ` set ?old" "otr_Step t \<in> set transitionSteps" "sha256_pattern (otr_SpecDigest t)"
      by (auto simp: transition_ok_def operationTransition_def find_None_iff dest: spec_digest_pattern)
    with t old show ?thesis by auto
  qed (use old in simp)
  then have "length (aost_Transitions s) \<le> 3" using steps_length by blast
  moreover have "case aost_Child s of None \<Rightarrow> True | Some child \<Rightarrow> och_Kind child \<in> set childKinds"
    using kept(1) assms(2) by (auto simp: operationStatusValid_def split: option.splits)
  moreover have "case aost_Failure s of None \<Rightarrow> True | Some failure \<Rightarrow> failureValid failure"
    using kept(2) assms(2) by (auto simp: operationStatusValid_def split: option.splits)
  ultimately show ?thesis using new by (simp add: operationStatusValid_def)
qed

text \<open>
  C16. The record of a receipt only grows, and what is written is admitted. Every status that a run writes keeps metadata and
  specification, satisfies the immutability rules of the resource (plan, child, retained world and journal entries are never
  cleared or changed, a terminal status is never rewritten), and, if the status that was read had valid fields, has
  valid fields again: at most three journal entries with distinct steps of the enumeration and a digest, a child of a
  known kind, and a failure with a code of the enumeration and texts within their bounds. Minima of generations, the digest
  pattern of the snapshot and the list markers of the conditions are not among the fields considered.
\<close>

theorem receipt_status_admitted:
  assumes "vw_Operation (operation_reader r) 0 namespace name = Inr o'" "operation_sends r namespace name n (StatusOperation stored)"
    and "operationStatusValid (ao_Status o')" "retainedPlanned (ao_Status o')"
  shows "ao_Meta stored = ao_Meta o' \<and> ao_Spec stored = ao_Spec o' \<and> operationStatusAdmitted (ao_Status o') (ao_Status stored) \<and>
    operationStatusValid (ao_Status stored) \<and> retainedPlanned (ao_Status stored)"
proof -
  from operation_request_ok [OF assms(1,2)] have "\<not> released o'" "ao_Meta stored = ao_Meta o'" "ao_Spec stored = ao_Spec o'" "status_step r o' 1 n (ao_Status stored)"
    by (simp_all add: operation_ok_def)
  then show ?thesis using status_step_admitted status_step_valid assms(3,4) unfolding released_def by blast
qed

theorem receipt_status_admitted_witness:
  "\<exists>n s. operation_sends (zStopping [] (yServer DesiredStateRunning)) ''games'' ''receipt'' n (StatusOperation s) \<and> length (aost_Transitions (ao_Status s)) = 1 \<and> operationStatusValid (ao_Status s)"
proof -
  obtain n s where sent: "operation_sends (zStopping [] (yServer DesiredStateRunning)) ''games'' ''receipt'' n (StatusOperation s)" "length (aost_Transitions (ao_Status s)) = 1"
    using z_journals by blast
  let ?o = "zOperation OperationServerStop OperationPhaseRunning []"
  have "vw_Operation (operation_reader (zStopping [] (yServer DesiredStateRunning))) 0 ''games'' ''receipt'' = Inr ?o" "operationStatusValid (ao_Status ?o)" "retainedPlanned (ao_Status ?o)"
    by (simp_all add: zStopping_def operationStatusValid_def retainedPlanned_def)
  from receipt_status_admitted [OF this(1) sent(1) this(2,3)] sent show ?thesis by blast
qed

section \<open>Removing a server\<close>

text \<open>
  C11. A server is deleted only to be decommissioned, cold and with its world on record. The receipt has recorded the world
  that stays behind and its stop step; the server, known under the planned UID, carries the marks of exactly that step,
  and has reported itself stopped at the generation of the step while observing the planned world; the receipt
  holds the fence of that world; and the deletion names the UID and the resource version of the server so known.
\<close>

theorem decommission_keeps_world:
  assumes "vw_Operation (operation_reader r) 0 namespace name = Inr o'" "operation_sends r namespace name n (DeleteServer ns nm uid version)"
  shows "actionOf o' = OperationServerDecommission \<and> aost_RetainedWorld (ao_Status o') \<noteq> None \<and>
    (\<exists>plan planned data server current t. aost_Plan (ao_Status o') = Some plan \<and> opl_Server plan = Some planned \<and> opl_Data plan = Some data \<and>
       server_known r o' planned server current 1 n \<and> fence_held r o' (serverName server) (rdata_Identity data) 1 n \<and>
       operationTransition o' ''Stop'' = Some t \<and> otr_DesiredState t = DesiredStateStopped \<and> meta_Generation (gs_Meta current) = otr_ToGeneration t \<and>
       server_label current operationReceiptUIDLabel = operationUID o' \<and> server_annotation current operationStepAnnotation = ''Stop'' \<and>
       gst_Phase (gs_Status current) = PhaseStopped \<and> gst_ObservedGeneration (gs_Status current) = otr_ToGeneration t \<and>
       sameDataSelection (Some data) (gst_ObservedData (gs_Status current)) \<and>
       ns = serverNamespace current \<and> nm = serverName current \<and> uid = serverUID current \<and> version = meta_ResourceVersion (gs_Meta current))"
proof -
  from operation_request_ok [OF assms] obtain c t current where world: "actionOf o' = OperationServerDecommission" "aost_RetainedWorld (ao_Status o') \<noteq> None"
      and settled: "step_settled r o' c t current 1 n" "otr_Step t = ''Stop''"
      and named: "ns = serverNamespace current" "nm = serverName current" "uid = serverUID current" "version = meta_ResourceVersion (gs_Meta current)"
    unfolding operation_ok_def delete_server_ok_def by auto
  from settled(1) have step: "change_ok r o' c 1 n" "step_due r o' c t" "server_known r o' (ch_planned c) (ch_server c) current 1 n"
    "operationTransitionApplied (aor_Operations r) o' current t (ch_intent o' c)" "operationRuntimeObserved current (gss_DesiredState (ch_intent o' c)) (Some (ch_data c))"
    by (simp_all add: step_settled_def)
  have due: "dueStep o' (ch_spec c) = (''Stop'', (ch_spec c)\<lparr> gss_DesiredState := DesiredStateStopped \<rparr>)" using world(1) by (simp add: dueStep_def)
  have marks: "meta_Generation (gs_Meta current) = otr_ToGeneration t" "server_label current operationReceiptUIDLabel = operationUID o'" "server_annotation current operationStepAnnotation = ''Stop''"
    using step(4) settled(2) by (auto simp: operationTransitionApplied_def split: option.splits)
  have "otr_DesiredState t = DesiredStateStopped" "operationTransition o' ''Stop'' = Some t" using step(2) by (simp_all add: step_due_def due)
  moreover have "gst_Phase (gs_Status current) = PhaseStopped" "gst_ObservedGeneration (gs_Status current) = otr_ToGeneration t" "sameDataSelection (Some (ch_data c)) (gst_ObservedData (gs_Status current))"
    using step(5) marks(1) by (simp_all add: operationRuntimeObserved_def due)
  moreover have "aost_Plan (ao_Status o') = Some (ch_plan c)" "opl_Server (ch_plan c) = Some (ch_planned c)" "opl_Data (ch_plan c) = Some (ch_data c)"
    "fence_held r o' (serverName (ch_server c)) (rdata_Identity (ch_data c)) 1 n"
    using step(1) by (simp_all add: change_ok_def)
  ultimately show ?thesis using world marks step(3) named by blast
qed

theorem decommission_keeps_world_witness:
  "\<exists>n t. operation_sends zDecommission ''games'' ''receipt'' n (DeleteServer ''games'' ''factory'' ''u-server'' ''8'') \<and>
     operationTransition (zOperation OperationServerDecommission OperationPhaseRunning [zStep ''Stop'']) ''Stop'' = Some t \<and> otr_DesiredState t = DesiredStateStopped"
proof -
  obtain n where sent: "operation_sends zDecommission ''games'' ''receipt'' n (DeleteServer ''games'' ''factory'' ''u-server'' ''8'')" using z_deletes by blast
  have "vw_Operation (operation_reader zDecommission) 0 ''games'' ''receipt'' = Inr (zOperation OperationServerDecommission OperationPhaseRunning [zStep ''Stop''])"
    by (simp add: zDecommission_def)
  from decommission_keeps_world [OF this sent] sent show ?thesis by blast
qed

section \<open>Commands and children\<close>

text \<open>
  C12. A destruction is confirmed or cancelled only as it was previewed. The receipt carries the command; the preview receipt
  was read and is unchanged since the precondition was formed; the destruction was read, belongs to that receipt, has
  observed its own generation and is the one that the plan names. It is confirmed only in the phase Preview, with the very
  challenge that it shows, before that expires, and with nothing journaled for deletion, confirmed or cancelled; it
  is cancelled only while nothing is being deleted. The request tests UID and resource version and names the receipt.
\<close>

theorem destroy_command_exact:
  assumes "vw_Operation (operation_reader r) 0 namespace name = Inr o'" "operation_sends r namespace name n (PatchDestroy destroy patches encoded)"
  shows "\<exists>command. command_read r o' command destroy 1 n \<and> dst_DeletionJournal (gd_Status destroy) = [] \<and> \<not> ds_CancelRequested (gd_Spec destroy) \<and>
    (actionOf o' = OperationWorldDestroyConfirm \<and> dst_Phase (gd_Status destroy) = DestroyPhasePreview \<and> ds_ConfirmationChallenge (gd_Spec destroy) = [] \<and>
       (\<exists>pv. dst_Preview (gd_Status destroy) = Some pv \<and> dcmd_Challenge command = pv_Challenge pv \<and> seen 1 n (\<lambda>k. aor_Now r k < pv_ExpiresAt pv)) \<and>
       patches = exactPatches (gd_Meta destroy) (commandPatches destroy operationConfirmAnnotation (operationUID o') ''/spec/confirmationChallenge'' (PatchText (dcmd_Challenge command))) \<or>
     actionOf o' = OperationWorldDestroyCancel \<and> dst_Phase (gd_Status destroy) \<noteq> DestroyPhaseDeleting \<and> \<not> destroyTerminal (dst_Phase (gd_Status destroy)) \<and>
       patches = exactPatches (gd_Meta destroy) (commandPatches destroy operationCancelAnnotation (operationUID o') ''/spec/cancelRequested'' (PatchBool True)))"
proof -
  from operation_request_ok [OF assms] obtain command where read: "command_read r o' command destroy 1 n"
      and change: "if actionOf o' = OperationWorldDestroyCancel then cancel_ok o' destroy \<and> patches = exactPatches (gd_Meta destroy)
          (commandPatches destroy operationCancelAnnotation (operationUID o') ''/spec/cancelRequested'' (PatchBool True))
        else actionOf o' = OperationWorldDestroyConfirm \<and> confirm_ok r command destroy 1 n \<and> patches = exactPatches (gd_Meta destroy)
          (commandPatches destroy operationConfirmAnnotation (operationUID o') ''/spec/confirmationChallenge'' (PatchText (dcmd_Challenge command)))"
    by (auto simp: operation_ok_def patch_destroy_ok_def)
  show ?thesis by (rule exI [of _ command]) (use read change in \<open>simp add: cancel_ok_def confirm_ok_def split: if_splits\<close>)
qed

theorem destroy_command_exact_witness:
  "\<exists>n. operation_sends zConfirming ''games'' ''receipt'' n (PatchDestroy zDestroy (exactPatches (gd_Meta zDestroy)
      (commandPatches zDestroy operationConfirmAnnotation ''u-receipt'' ''/spec/confirmationChallenge'' (PatchText ''abcdefghijklmnop''))) ''patch'') \<and>
     command_read zConfirming zConfirm zCommand zDestroy 1 n"
proof -
  obtain n where sent: "operation_sends zConfirming ''games'' ''receipt'' n (PatchDestroy zDestroy (exactPatches (gd_Meta zDestroy)
      (commandPatches zDestroy operationConfirmAnnotation ''u-receipt'' ''/spec/confirmationChallenge'' (PatchText ''abcdefghijklmnop''))) ''patch'')"
    using z_confirms by blast
  have "vw_Operation (operation_reader zConfirming) 0 ''games'' ''receipt'' = Inr zConfirm" by (simp add: zConfirming_def)
  from destroy_command_exact [OF this sent] obtain command where "command_read zConfirming zConfirm command zDestroy 1 n" by blast
  moreover from this have "command = zCommand" by (simp add: command_read_def)
  ultimately show ?thesis using sent by blast
qed

section \<open>Success\<close>

text \<open>
  C19. Succeeded is reported only for what was observed. The receipt was still at work on an accepted request, there is no
  failure beside the success, and the run itself has seen the outcome: for a change of a server, that its due step (the
  start, when it is restarted) is journaled and applied and the server reports the state asked for with the planned
  world; for a new server, that it is the recorded child with the planned intent and world and in the state asked for;
  for a decommissioned one, that it is gone; for a command, that the destruction has taken it; and for a data operation, that
  the child of the plan, unchanged and the recorded one, has succeeded at its own generation.
\<close>

theorem succeeded_means_achieved:
  assumes "vw_Operation (operation_reader r) 0 namespace name = Inr o'" "operation_sends r namespace name n (StatusOperation stored)"
    and "aost_Phase (ao_Status stored) = OperationPhaseSucceeded"
  shows "aost_CompletedAt (ao_Status stored) \<noteq> None \<and> aost_Failure (ao_Status stored) = None \<and> ValidateRequest (aor_Operations r) (actionOf o') (requestOf o') = None \<and>
    \<not> operationTerminal (aost_Phase (ao_Status o')) \<and> achieved r o' 1 n"
  using operation_request_ok [OF assms(1,2)] assms(3)
  by (simp add: operation_ok_def status_step_def operationTerminal_def working_def released_def)

theorem succeeded_means_achieved_witness:
  "\<exists>n s. operation_sends (zStopping [zStep ''Apply''] (zMarked ''Apply'')) ''games'' ''receipt'' n (StatusOperation s) \<and>
     achieved (zStopping [zStep ''Apply''] (zMarked ''Apply'')) (zOperation OperationServerStop OperationPhaseRunning [zStep ''Apply'']) 1 n"
proof -
  obtain n s where sent: "operation_sends (zStopping [zStep ''Apply''] (zMarked ''Apply'')) ''games'' ''receipt'' n (StatusOperation s)" "aost_Phase (ao_Status s) = OperationPhaseSucceeded"
    using z_succeeds by blast
  have "vw_Operation (operation_reader (zStopping [zStep ''Apply''] (zMarked ''Apply''))) 0 ''games'' ''receipt'' = Inr (zOperation OperationServerStop OperationPhaseRunning [zStep ''Apply''])"
    by (simp add: zStopping_def)
  from succeeded_means_achieved [OF this sent] sent show ?thesis by blast
qed

section \<open>The fence\<close>

text \<open>
  C20. A fence is given up exactly once its receipt is finished. A lease is deleted only for a receipt that is terminal or being
  deleted, by the UID and resource version under which the run read it, and only if it is the receipt's own lease on
  the world of its plan; and the finalizer leaves the receipt only after the run has seen that no lease of the receipt
  is left: absent, held by another, or deleted.
\<close>

theorem fence_release_exact:
  assumes "vw_Operation (operation_reader r) 0 namespace name = Inr o'" "operation_sends r namespace name n q"
  shows "(\<forall>ns nm uid version. q = DeleteFence ns nm uid version \<longrightarrow>
      (terminating (ao_Meta o') \<or> operationTerminal (aost_Phase (ao_Status o'))) \<and>
      (\<exists>server identity lease. operationLeaseCoordinates o' = Some (server, identity) \<and> seen 1 n (read_fence r o' identity (Inr lease)) \<and>
         operationLeaseMatches lease o' server identity \<and> ns = operationNamespace o' \<and> nm = DataOperationLeaseName identity \<and>
         uid = meta_UID (lease_Meta lease) \<and> version = meta_ResourceVersion (lease_Meta lease))) \<and>
    (\<forall>u. q = UpdateOperation u \<and> containsOperationFinalizer o' \<and> \<not> containsOperationFinalizer u \<longrightarrow> released o' \<and> fence_released r o' 1 n)"
proof (intro conjI allI impI)
  note ok = operation_request_ok [OF assms]
  fix ns nm uid version
  assume "q = DeleteFence ns nm uid version"
  with ok have delete: "delete_fence_ok r o' ns nm uid version 1 n" by (simp add: operation_ok_def)
  then show "terminating (ao_Meta o') \<or> operationTerminal (aost_Phase (ao_Status o'))" by (simp add: delete_fence_ok_def released_def)
  from delete show "\<exists>server identity lease. operationLeaseCoordinates o' = Some (server, identity) \<and> seen 1 n (read_fence r o' identity (Inr lease)) \<and>
      operationLeaseMatches lease o' server identity \<and> ns = operationNamespace o' \<and> nm = DataOperationLeaseName identity \<and>
      uid = meta_UID (lease_Meta lease) \<and> version = meta_ResourceVersion (lease_Meta lease)"
    unfolding delete_fence_ok_def operationLeaseMatches_def by fastforce
next
  fix u
  assume u: "q = UpdateOperation u \<and> containsOperationFinalizer o' \<and> \<not> containsOperationFinalizer u"
  with operation_request_ok [OF assms] have "update_ok r o' u 1 n" by (simp add: operation_ok_def)
  with u show "released o'" "fence_released r o' 1 n"
    by (cases "released o'"; force simp: update_ok_def containsOperationFinalizer_def list_ex_iff)+
qed

theorem fence_release_exact_witness:
  "\<exists>n lease. operation_sends zFinished ''games'' ''receipt'' n (DeleteFence ''games'' (DataOperationLeaseName yIdentity) [] []) \<and>
     operationLeaseMatches lease (zOperation OperationServerStop OperationPhaseSucceeded []) ''factory'' yIdentity \<and> meta_UID (lease_Meta lease) = []"
proof -
  obtain n where sent: "operation_sends zFinished ''games'' ''receipt'' n (DeleteFence ''games'' (DataOperationLeaseName yIdentity) [] [])" using z_releases by blast
  have receipt: "vw_Operation (operation_reader zFinished) 0 ''games'' ''receipt'' = Inr (zOperation OperationServerStop OperationPhaseSucceeded [])" by (simp add: zFinished_def)
  have "operationLeaseCoordinates (zOperation OperationServerStop OperationPhaseSucceeded []) = Some (''factory'', yIdentity)"
    by (simp add: operationLeaseCoordinates_def operationServerAction_def Let_def)
  with fence_release_exact [OF receipt sent] sent show ?thesis by fastforce
qed

section \<open>Returning\<close>

text \<open>
  C34. A reconciliation of a receipt returns: whatever the cluster answers, and whatever receipt is read, no nil pointer
  is followed and every error is turned into a result of the reconciliation.
\<close>

theorem translator_returns: "fst (run_state (ReconcileArcadeOperation r namespace name) \<lparr> ses_calls = 0, ses_log = [] \<rparr>) \<noteq> None"
  using operation_permitted [of r namespace name] by (metis prod.collapse)

end
