(* ===== verification/KubeBackup.thy ===== *)
theory KubeBackup
  imports KubeDestroy ServerFence
begin

text \<open>
  \<^verbatim>\<open>internal/platform/kube/backup.go\<close>: the resources of the worker that backs a world up. The worker reads the claims of
  the source; the Lease that fences the world is matched in \<open>ServerFence\<close>. The encoding of the worker's input,
  \<^verbatim>\<open>json.Marshal\<close>, and the Kubernetes check of namespaces are parameters.
\<close>

definition AnnotationBackupPodAuthorized :: string where "AnnotationBackupPodAuthorized = ''arcade.gobha.me/backup-pod-authorized''"
definition AnnotationWorkerPodUID :: string where "AnnotationWorkerPodUID = ''arcade.gobha.me/worker-pod-uid''"
definition BackupSchedulingGate :: string where "BackupSchedulingGate = ''arcade.gobha.me/backup-authorized''"
definition backupInputKey :: string where "backupInputKey = ''input.json''"

record BackupResources =
  br_Input :: ConfigMap
  br_ServiceAccount :: ServiceAccount
  br_Role :: Role
  br_RoleBinding :: RoleBinding
  br_Job :: Job

definition BackupResourceName :: "UID \<Rightarrow> string" where
  "BackupResourceName uid = ''backup-'' @ hex (take 16 (sha256 (''arcadectl/backup-job/'' @ uid)))"

section \<open>Parts\<close>

definition backupIdentityError :: "(string \<Rightarrow> bool) \<Rightarrow> GameBackup \<Rightarrow> string \<Rightarrow> RuntimeIdentity \<Rightarrow> error option" where
  "backupIdentityError isDNS1123Label backup workerImage identity = (let m = gb_Meta backup in first_error
     [guard (meta_Name m = [] \<or> meta_Namespace m = [] \<or> meta_UID m = []) ''exact GameBackup identity is required'',
      guard (\<not> isDNS1123Label (meta_Namespace m)) ''GameBackup namespace is invalid'',
      guard (\<not> pinnedWorkerImagePattern workerImage) ''backup worker image must be pinned by sha256 digest'',
      guard (sint (rid_UserID identity) \<le> 0 \<or> sint (rid_GroupID identity) \<le> 0 \<or> sint (rid_FSGroup identity) \<le> 0)
        ''backup source identity must be non-root''])"

definition backupWorkerInput :: "GameBackup \<Rightarrow> DataSourceSnapshot \<Rightarrow> string \<Rightarrow> string \<Rightarrow> BackupWorkerInput" where
  "backupWorkerInput backup source artifactID workerLeaseName = \<lparr>
     bwi_Version = WorkerInputVersion, bwi_ArtifactID = artifactID,
     bwi_OperationRef = \<lparr> ref_Namespace = None, ref_Name = meta_Name (gb_Meta backup), ref_UID = meta_UID (gb_Meta backup) \<rparr>,
     bwi_WorkerLeaseName = workerLeaseName, bwi_RepositorySecretRef = req_RepositorySecretRef (bspec_Request (gb_Spec backup)), bwi_Source = source \<rparr>"

definition backupOwner :: "GameBackup \<Rightarrow> OwnerReference" where
  "backupOwner backup = \<lparr>
     owner_APIVersion = ''arcade.gobha.me/v1alpha1'', owner_Kind = ''GameBackup'', owner_Name = meta_Name (gb_Meta backup),
     owner_UID = meta_UID (gb_Meta backup), owner_Controller = Some True, owner_BlockOwnerDeletion = Some True \<rparr>"

definition backupLabels :: "GameBackup \<Rightarrow> (string \<rightharpoonup> string)" where
  "backupLabels backup = map_of
     [(LabelManagedBy, ManagerName), (LabelName, ''backup-worker''), (LabelBackupUID, meta_UID (gb_Meta backup)), (LabelDataOperation, ''backup'')]"

definition backupRules :: "GameBackup \<Rightarrow> DataSourceSnapshot \<Rightarrow> string \<Rightarrow> PolicyRule list" where
  "backupRules backup source workerLeaseName =
     [\<lparr> rule_APIGroups = [[]], rule_Resources = [''secrets''],
        rule_ResourceNames = [ref_Name (sref_Local (req_RepositorySecretRef (bspec_Request (gb_Spec backup))))], rule_Verbs = [''get''] \<rparr>,
      \<lparr> rule_APIGroups = [[]], rule_Resources = [''persistentvolumeclaims''],
        rule_ResourceNames = sort (map (\<lambda>p. ref_Name (dp_ClaimRef p)) (src_Paths source)), rule_Verbs = [''get''] \<rparr>,
      \<lparr> rule_APIGroups = [''coordination.k8s.io''], rule_Resources = [''leases''],
        rule_ResourceNames = [workerLeaseName], rule_Verbs = [''get'', ''update''] \<rparr>]"

text \<open>The volumes and mounts that every worker has; \<open>medium\<close> is that of the credentials.\<close>

definition workerVolumes :: "string \<Rightarrow> string \<Rightarrow> Volume list" where
  "workerVolumes medium inputName =
     [\<lparr> volume_Name = ''input'', volume_Source = ConfigMapVolume inputName 292 \<rparr>,
      \<lparr> volume_Name = ''credentials'', volume_Source = EmptyDirVolume medium (Some ''2Mi'') \<rparr>,
      \<lparr> volume_Name = ''work'', volume_Source = EmptyDirVolume [] (Some ''512Mi'') \<rparr>,
      \<lparr> volume_Name = ''authority'', volume_Source = ProjectedVolume 292
          [TokenProjection ''token'' 600, ConfigMapProjection ''kube-root-ca.crt'' [(''ca.crt'', ''ca.crt'')]] \<rparr>]"

definition workerMounts :: "VolumeMount list" where
  "workerMounts =
     [\<lparr> vm_Name = ''input'', vm_MountPath = ''/arcadectl/input'', vm_ReadOnly = True \<rparr>,
      \<lparr> vm_Name = ''credentials'', vm_MountPath = ''/arcadectl/credentials'', vm_ReadOnly = True \<rparr>,
      \<lparr> vm_Name = ''work'', vm_MountPath = ''/arcadectl/work'', vm_ReadOnly = False \<rparr>]"

definition authorizerMounts :: "VolumeMount list" where
  "authorizerMounts =
     [\<lparr> vm_Name = ''input'', vm_MountPath = ''/arcadectl/input'', vm_ReadOnly = True \<rparr>,
      \<lparr> vm_Name = ''credentials'', vm_MountPath = ''/arcadectl/authorized-credentials'', vm_ReadOnly = False \<rparr>,
      \<lparr> vm_Name = ''authority'', vm_MountPath = ''/var/run/secrets/kubernetes.io/serviceaccount'', vm_ReadOnly = True \<rparr>]"

definition indexedName :: "string \<Rightarrow> nat \<Rightarrow> string" where
  "indexedName stem k = stem @ Itoa (int k)"

definition sourceVolume :: "nat \<times> DataPathIdentity \<Rightarrow> Volume" where
  "sourceVolume kp = (case kp of (k, p) \<Rightarrow> \<lparr> volume_Name = indexedName ''source-'' k, volume_Source = ClaimVolume (ref_Name (dp_ClaimRef p)) True \<rparr>)"

definition sourceMount :: "nat \<times> DataPathIdentity \<Rightarrow> VolumeMount" where
  "sourceMount kp = (case kp of (k, p) \<Rightarrow> \<lparr> vm_Name = indexedName ''source-'' k, vm_MountPath = ''/arcadectl/source/'' @ dp_Name p, vm_ReadOnly = True \<rparr>)"

definition authorizerContainer :: "string \<Rightarrow> string \<Rightarrow> string \<Rightarrow> Container" where
  "authorizerContainer name command workerImage = \<lparr>
     ctr_Name = name, ctr_Image = workerImage, ctr_ImagePullPolicy = ''IfNotPresent'', ctr_Command = [command],
     ctr_Env = [fieldEnv ''POD_NAMESPACE'' ''metadata.namespace'', fieldEnv ''POD_UID'' ''metadata.uid''],
     ctr_Requests = [(''cpu'', ''25m''), (''memory'', ''32Mi''), (''ephemeral-storage'', ''8Mi'')],
     ctr_Limits = [(''cpu'', ''100m''), (''memory'', ''64Mi''), (''ephemeral-storage'', ''16Mi'')],
     ctr_Security = restrictedContainer, ctr_VolumeMounts = authorizerMounts,
     ctr_TerminationMessagePath = [], ctr_TerminationMessagePolicy = [] \<rparr>"

definition workerContainer :: "string \<Rightarrow> string \<Rightarrow> string \<Rightarrow> VolumeMount list \<Rightarrow> string \<Rightarrow> Container" where
  "workerContainer name command workerImage mounts terminationPath = \<lparr>
     ctr_Name = name, ctr_Image = workerImage, ctr_ImagePullPolicy = ''IfNotPresent'', ctr_Command = [command], ctr_Env = [],
     ctr_Requests = [(''cpu'', ''100m''), (''memory'', ''128Mi''), (''ephemeral-storage'', ''64Mi'')],
     ctr_Limits = [(''cpu'', ''500m''), (''memory'', ''512Mi''), (''ephemeral-storage'', ''768Mi'')],
     ctr_Security = restrictedContainer, ctr_VolumeMounts = mounts,
     ctr_TerminationMessagePath = terminationPath, ctr_TerminationMessagePolicy = ''File'' \<rparr>"

definition backupPodSpec :: "string \<Rightarrow> DataSourceSnapshot \<Rightarrow> string \<Rightarrow> RuntimeIdentity \<Rightarrow> PodSpec" where
  "backupPodSpec name source workerImage identity = \<lparr>
     ps_Hostname = name, ps_ServiceAccountName = name @ ''-authority'', ps_DeprecatedServiceAccount = [],
     ps_AutomountServiceAccountToken = Some False, ps_RestartPolicy = ''Never'', ps_DNSPolicy = [], ps_TerminationGracePeriodSeconds = None,
     ps_SchedulerName = [], ps_EnableServiceLinks = None, ps_Priority = None, ps_PreemptionPolicy = None, ps_Tolerations = [], ps_NodeName = [],
     ps_SchedulingGates = [BackupSchedulingGate],
     ps_Security = \<lparr> psec_RunAsNonRoot = Some True, psec_RunAsUser = Some (rid_UserID identity), psec_RunAsGroup = Some (rid_GroupID identity),
       psec_SupplementalGroups = [rid_FSGroup identity], psec_FSGroup = None, psec_FSGroupChangePolicy = None, psec_SeccompProfile = Some ''RuntimeDefault'' \<rparr>,
     ps_InitContainers = [authorizerContainer ''backup-authorizer'' ''/arcadectl-backup-authorizer'' workerImage],
     ps_Containers = [workerContainer ''backup-worker'' ''/arcadectl-backup-worker'' workerImage (workerMounts @ map sourceMount (enumerate 0 (src_Paths source))) []],
     ps_Volumes = workerVolumes [] (name @ ''-input'') @ map sourceVolume (enumerate 0 (src_Paths source)) \<rparr>"

text \<open>The Job of a worker: one Pod, never retried, suspended until it is released.\<close>

definition workerJob :: "ObjectMeta \<Rightarrow> PodSpec \<Rightarrow> Job" where
  "workerJob m pod = \<lparr>
     job_Meta = m,
     job_Spec = \<lparr> js_BackoffLimit = Some 0, js_ActiveDeadlineSeconds = Some 3600, js_Parallelism = Some 1, js_Completions = Some 1,
       js_Suspend = Some True, js_ManualSelector = None, js_Selector = None, js_CompletionMode = None, js_PodReplacementPolicy = None,
       js_TemplateLabels = meta_Labels m, js_TemplateAnnotations = meta_Annotations m, js_TemplateSpec = pod \<rparr>,
     job_Conditions = [] \<rparr>"

section \<open>Building\<close>

definition backupResources :: "GameBackup \<Rightarrow> DataSourceSnapshot \<Rightarrow> string \<Rightarrow> bytes \<Rightarrow> string \<Rightarrow> string \<Rightarrow> RuntimeIdentity \<Rightarrow> BackupResources" where
  "backupResources backup source artifactID contents workerImage workerLeaseName identity =
     (let name = BackupResourceName (meta_UID (gb_Meta backup)); authorityName = name @ ''-authority''; namespace = meta_Namespace (gb_Meta backup);
          authority = freshMeta authorityName namespace (backupLabels backup) Map.empty [backupOwner backup] in \<lparr>
     br_Input = \<lparr> cm_Meta = freshMeta (name @ ''-input'') namespace (backupLabels backup) Map.empty [backupOwner backup],
       cm_Data = [backupInputKey \<mapsto> contents], cm_Immutable = Some True \<rparr>,
     br_ServiceAccount = \<lparr> sa_Meta = authority, sa_AutomountServiceAccountToken = Some False \<rparr>,
     br_Role = \<lparr> role_Meta = authority, role_Rules = backupRules backup source workerLeaseName \<rparr>,
     br_RoleBinding = \<lparr> rb_Meta = authority,
       rb_Subjects = [\<lparr> subj_Kind = ''ServiceAccount'', subj_Name = authorityName, subj_Namespace = namespace \<rparr>],
       rb_RoleRef = \<lparr> rr_APIGroup = ''rbac.authorization.k8s.io'', rr_Kind = ''Role'', rr_Name = authorityName \<rparr> \<rparr>,
     br_Job = workerJob (freshMeta name namespace (backupLabels backup) [AnnotationArtifactID \<mapsto> artifactID] [backupOwner backup])
       (backupPodSpec name source workerImage identity) \<rparr>)"

definition BuildBackupResources ::
  "(string \<Rightarrow> bool) \<Rightarrow> (BackupWorkerInput \<Rightarrow> bytes option) \<Rightarrow> GameBackup \<Rightarrow> DataSourceSnapshot \<Rightarrow> string \<Rightarrow> string \<Rightarrow> string \<Rightarrow> RuntimeIdentity \<Rightarrow> error + BackupResources" where
  "BuildBackupResources isDNS1123Label marshalInput backup source artifactID workerImage workerLeaseName identity =
     (let input = backupWorkerInput backup source artifactID workerLeaseName in
      case first_error [backupIdentityError isDNS1123Label backup workerImage identity, ValidateBackupWorkerInput input] of
        Some e \<Rightarrow> Inl e
      | None \<Rightarrow> (case marshalInput input of
          None \<Rightarrow> Inl ''encode backup worker input''
        | Some contents \<Rightarrow> Inr (backupResources backup source artifactID (contents @ [CHR 0x0A]) workerImage workerLeaseName identity)))"

end
