(* ===== verification/KubeRestore.thy ===== *)
theory KubeRestore
  imports KubeBackup
begin

text \<open>
  \<^verbatim>\<open>internal/platform/kube/restore.go\<close>: the resources of the worker that restores a world, in its two stages. The
  preflight has no claim; the populate stage has the candidate claims and no other. The encoding of the worker's
  input, \<^verbatim>\<open>json.Marshal\<close>, is a parameter.
\<close>

definition LabelRestoreStage :: string where "LabelRestoreStage = ''arcade.gobha.me/restore-stage''"
definition AnnotationRestorePodAuthorized :: string where "AnnotationRestorePodAuthorized = ''arcade.gobha.me/restore-pod-authorized''"
definition RestoreSchedulingGate :: string where "RestoreSchedulingGate = ''arcade.gobha.me/restore-authorized''"
definition restoreInputKey :: string where "restoreInputKey = ''input.json''"

record RestoreResources =
  rres_Input :: ConfigMap
  rres_ServiceAccount :: ServiceAccount
  rres_Role :: Role
  rres_RoleBinding :: RoleBinding
  rres_Job :: Job

definition stageText :: "Stage \<Rightarrow> string" where
  "stageText stage = (case stage of StagePreflight \<Rightarrow> ''Preflight'' | StagePopulate \<Rightarrow> ''Populate'' | StageOther s \<Rightarrow> s)"

definition RestoreResourceName :: "UID \<Rightarrow> Stage \<Rightarrow> string" where
  "RestoreResourceName uid stage =
     (if uid = [] then []
      else (case stage of
          StagePreflight \<Rightarrow> ''restore-'' @ hex (take 16 (sha256 (''arcadectl/restore-job/'' @ uid @ ''/'' @ ''preflight''))) @ ''-'' @ ''preflight''
        | StagePopulate \<Rightarrow> ''restore-'' @ hex (take 16 (sha256 (''arcadectl/restore-job/'' @ uid @ ''/'' @ ''populate''))) @ ''-'' @ ''populate''
        | StageOther _ \<Rightarrow> []))"

section \<open>Parts\<close>

definition restoreIdentityError :: "WorkerEnv \<Rightarrow> GameRestore \<Rightarrow> Input \<Rightarrow> string \<Rightarrow> RuntimeIdentity \<Rightarrow> error option" where
  "restoreIdentityError we restore i workerImage identity = (let m = gr_Meta restore; sp = gr_Spec restore in first_error
     [guard (meta_Name m = [] \<or> meta_Namespace m = [] \<or> meta_UID m = [] \<or> \<not> we_IsDNS1123Label we (meta_Namespace m))
        ''exact namespaced GameRestore identity is required'',
      guard (\<not> pinnedWorkerImagePattern workerImage) ''restore worker image must be pinned by sha256 digest'',
      guard (sint (rid_UserID identity) \<le> 0 \<or> sint (rid_GroupID identity) \<le> 0 \<or> sint (rid_FSGroup identity) \<le> 0)
        ''restore worker identity must be non-root'',
      guard (ValidateInput we i \<noteq> None \<or>
             \<not> sameLocal (in_OperationRef i) \<lparr> ref_Namespace = None, ref_Name = meta_Name m, ref_UID = meta_UID m \<rparr> \<or>
             \<not> sameLocal (in_BackupRef i) (rspec_BackupRef sp) \<or> \<not> sameServerReference (in_Target i) (rspec_Target sp) \<or>
             \<not> sameSecret (in_RepositorySecretRef i) (req_RepositorySecretRef (rspec_Request sp)))
        ''restore worker input does not match the exact operation'',
      (case RestoreDataIdentity (meta_UID m) of
         Inl _ \<Rightarrow> Some ''restore worker leases do not identify distinct exact data sets''
       | Inr candidate \<Rightarrow> guard (in_WorkerLeaseName i \<noteq> DataOperationLeaseName candidate \<or> in_Stage i = StagePopulate \<and> in_PreviousDataIdentity i = candidate)
           ''restore worker leases do not identify distinct exact data sets'')])"

definition sortedInput :: "Input \<Rightarrow> Input" where
  "sortedInput i = i\<lparr> in_TargetPaths := sort_key pc_Name (in_TargetPaths i), in_CandidatePaths := sort_key dp_Name (in_CandidatePaths i) \<rparr>"

definition restoreOwner :: "GameRestore \<Rightarrow> OwnerReference" where
  "restoreOwner restore = \<lparr>
     owner_APIVersion = ''arcade.gobha.me/v1alpha1'', owner_Kind = ''GameRestore'', owner_Name = meta_Name (gr_Meta restore),
     owner_UID = meta_UID (gr_Meta restore), owner_Controller = Some True, owner_BlockOwnerDeletion = Some True \<rparr>"

definition restoreLabels :: "GameRestore \<Rightarrow> Input \<Rightarrow> (string \<rightharpoonup> string)" where
  "restoreLabels restore i = map_of
     [(LabelManagedBy, ManagerName), (LabelName, ''restore-worker''), (LabelRestoreUID, meta_UID (gr_Meta restore)),
      (LabelRestoreStage, stageText (in_Stage i)), (LabelDataOperation, ''restore''), (LabelInstance, ref_Name (gref_Local (rspec_Target (gr_Spec restore))))]"

definition restoreAnnotations :: "GameRestore \<Rightarrow> Input \<Rightarrow> (string \<rightharpoonup> string)" where
  "restoreAnnotations restore i = map_of [(AnnotationArtifactID, art_ID (in_Artifact i)), (AnnotationRestoreName, meta_Name (gr_Meta restore))]"

definition populateRules :: "Input \<Rightarrow> PolicyRule list" where
  "populateRules i =
     [\<lparr> rule_APIGroups = [''coordination.k8s.io''], rule_Resources = [''leases''],
        rule_ResourceNames = [DataOperationLeaseName (in_PreviousDataIdentity i)], rule_Verbs = [''get''] \<rparr>,
      \<lparr> rule_APIGroups = [''arcade.gobha.me''], rule_Resources = [''gameservers''], rule_ResourceNames = [ref_Name (gref_Local (in_Target i))], rule_Verbs = [''get''] \<rparr>,
      \<lparr> rule_APIGroups = [[]], rule_Resources = [''persistentvolumeclaims''],
        rule_ResourceNames = sort (map (\<lambda>p. ref_Name (dp_ClaimRef p)) (in_CandidatePaths i @ in_PreviousData i)), rule_Verbs = [''get''] \<rparr>]"

definition restoreRules :: "Input \<Rightarrow> PolicyRule list" where
  "restoreRules i =
     [\<lparr> rule_APIGroups = [[]], rule_Resources = [''secrets''], rule_ResourceNames = [ref_Name (sref_Local (in_RepositorySecretRef i))], rule_Verbs = [''get''] \<rparr>,
      \<lparr> rule_APIGroups = [''coordination.k8s.io''], rule_Resources = [''leases''], rule_ResourceNames = [in_WorkerLeaseName i], rule_Verbs = [''get'', ''update''] \<rparr>] @
     (if in_Stage i = StagePopulate then populateRules i else [])"

definition candidateVolume :: "nat \<times> DataPathIdentity \<Rightarrow> Volume" where
  "candidateVolume kp = (case kp of (k, p) \<Rightarrow> \<lparr> volume_Name = indexedName ''candidate-'' k, volume_Source = ClaimVolume (ref_Name (dp_ClaimRef p)) False \<rparr>)"

definition candidateMount :: "nat \<times> DataPathIdentity \<Rightarrow> VolumeMount" where
  "candidateMount kp = (case kp of (k, p) \<Rightarrow>
     \<lparr> vm_Name = indexedName ''candidate-'' k, vm_MountPath = DefaultCandidateRoot @ ''/'' @ dp_Name p, vm_ReadOnly = False \<rparr>)"

definition populated :: "Input \<Rightarrow> (nat \<times> DataPathIdentity) list" where
  "populated i = (if in_Stage i = StagePopulate then enumerate 0 (in_CandidatePaths i) else [])"

definition restorePodSecurity :: "Input \<Rightarrow> RuntimeIdentity \<Rightarrow> PodSecurity" where
  "restorePodSecurity i identity = \<lparr>
     psec_RunAsNonRoot = Some True, psec_RunAsUser = Some (rid_UserID identity), psec_RunAsGroup = Some (rid_GroupID identity),
     psec_SupplementalGroups = (if in_Stage i = StagePopulate then [] else [rid_FSGroup identity]),
     psec_FSGroup = (if in_Stage i = StagePopulate then Some (rid_FSGroup identity) else None),
     psec_FSGroupChangePolicy = (if in_Stage i = StagePopulate then Some ''OnRootMismatch'' else None),
     psec_SeccompProfile = Some ''RuntimeDefault'' \<rparr>"

definition restorePodSpec :: "string \<Rightarrow> Input \<Rightarrow> string \<Rightarrow> RuntimeIdentity \<Rightarrow> PodSpec" where
  "restorePodSpec name i workerImage identity = \<lparr>
     ps_Hostname = name, ps_ServiceAccountName = name @ ''-authority'', ps_DeprecatedServiceAccount = [],
     ps_AutomountServiceAccountToken = Some False, ps_RestartPolicy = ''Never'', ps_DNSPolicy = [], ps_TerminationGracePeriodSeconds = None,
     ps_SchedulerName = [], ps_EnableServiceLinks = None, ps_Priority = None, ps_PreemptionPolicy = None, ps_Tolerations = [], ps_NodeName = [],
     ps_SchedulingGates = [RestoreSchedulingGate], ps_Security = restorePodSecurity i identity,
     ps_InitContainers = [authorizerContainer ''restore-authorizer'' ''/arcadectl-restore-authorizer'' workerImage],
     ps_Containers = [workerContainer ''restore-worker'' ''/arcadectl-restore-worker'' workerImage (workerMounts @ map candidateMount (populated i)) DefaultTerminationPath],
     ps_Volumes = workerVolumes ''Memory'' (name @ ''-input'') @ map candidateVolume (populated i) \<rparr>"

section \<open>Building\<close>

definition restoreResources :: "GameRestore \<Rightarrow> Input \<Rightarrow> string \<Rightarrow> bytes \<Rightarrow> string \<Rightarrow> RuntimeIdentity \<Rightarrow> RestoreResources" where
  "restoreResources restore i name contents workerImage identity =
     (let authorityName = name @ ''-authority''; namespace = meta_Namespace (gr_Meta restore); labels = restoreLabels restore i;
          authority = freshMeta authorityName namespace labels Map.empty [restoreOwner restore] in \<lparr>
     rres_Input = \<lparr> cm_Meta = freshMeta (name @ ''-input'') namespace labels Map.empty [restoreOwner restore],
       cm_Data = [restoreInputKey \<mapsto> contents], cm_Immutable = Some True \<rparr>,
     rres_ServiceAccount = \<lparr> sa_Meta = authority, sa_AutomountServiceAccountToken = Some False \<rparr>,
     rres_Role = \<lparr> role_Meta = authority, role_Rules = restoreRules i \<rparr>,
     rres_RoleBinding = \<lparr> rb_Meta = authority,
       rb_Subjects = [\<lparr> subj_Kind = ''ServiceAccount'', subj_Name = authorityName, subj_Namespace = namespace \<rparr>],
       rb_RoleRef = \<lparr> rr_APIGroup = ''rbac.authorization.k8s.io'', rr_Kind = ''Role'', rr_Name = authorityName \<rparr> \<rparr>,
     rres_Job = workerJob (freshMeta name namespace labels (restoreAnnotations restore i) [restoreOwner restore]) (restorePodSpec name i workerImage identity) \<rparr>)"

definition BuildRestoreResources ::
  "WorkerEnv \<Rightarrow> (Input \<Rightarrow> bytes option) \<Rightarrow> GameRestore \<Rightarrow> Input \<Rightarrow> string \<Rightarrow> RuntimeIdentity \<Rightarrow> error + RestoreResources" where
  "BuildRestoreResources we marshalInput restore i workerImage identity =
     (case restoreIdentityError we restore i workerImage identity of
        Some e \<Rightarrow> Inl e
      | None \<Rightarrow> (let i = sortedInput i in
          case marshalInput i of
            None \<Rightarrow> Inl ''encode restore worker input''
          | Some contents \<Rightarrow>
              (let name = RestoreResourceName (meta_UID (gr_Meta restore)) (in_Stage i) in
               if name = [] then Inl ''restore worker stage is invalid''
               else Inr (restoreResources restore i name (contents @ [CHR 0x0A]) workerImage identity))))"

end
