(* ===== verification/BackupWorker.thy ===== *)
theory BackupWorker
  imports RestoreWorker
begin

text \<open>
  The package \<^verbatim>\<open>internal/backupworker\<close>: one bounded, cold, repository-verified backup. \<^verbatim>\<open>Run\<close> builds the manifest
  of the mounted source, makes a snapshot unless the repository already has one of the artifact, reads
  manifest, inventory and every file back, and rebuilds the manifest before it reports success.

  The world is the \<open>WorkerEnv\<close> of the restore worker, with the writing of a file and the strict JSON
  decoders into this package's structs added. The command runner is the same in both packages.
\<close>

section \<open>Types\<close>

definition backup_DefaultInputPath :: string where "backup_DefaultInputPath = ''/arcadectl/input/input.json''"
definition backup_DefaultCredentialsPath :: string where "backup_DefaultCredentialsPath = ''/arcadectl/credentials''"
definition backup_DefaultSourceRoot :: string where "backup_DefaultSourceRoot = ''/arcadectl/source''"
definition backup_DefaultWorkPath :: string where "backup_DefaultWorkPath = ''/arcadectl/work''"
definition manifestName :: string where "manifestName = ''manifest.json''"
definition maxControlOutput :: nat where "maxControlOutput = 2 ^ 20"
definition maxInventoryOutput :: nat where "maxInventoryOutput = 8 * 2 ^ 20"

text \<open>Both types are strings in the code; the last constructor stands for every other string.\<close>

datatype BackupFailureKind =
  BackupFailureInput | BackupFailureCredentials | BackupFailureRepository | BackupFailureVerification | BackupFailureOther string

datatype verificationCheckpoint =
    checkpointSnapshotSelection | checkpointRepositoryCheck | checkpointManifest | checkpointInventory
  | checkpointFile | checkpointSourceRecheck | checkpointStats | checkpointOther string

text \<open>The checkpoint is empty outside verification.\<close>

record BackupFailure =
  bf_Kind :: BackupFailureKind
  bf_checkpoint :: verificationCheckpoint

record BackupConfig =
  bcfg_InputPath :: string
  bcfg_CredentialsPath :: string
  bcfg_SourceRoot :: string
  bcfg_WorkPath :: string

record repositoryCredentials =
  rc_repository :: string
  rc_password :: string
  rc_accessKeyID :: string
  rc_secretAccessKey :: string
  rc_sessionToken :: string
  rc_caCertificate :: string

record resticSnapshot =
  rsn_ID :: string
  rsn_Time :: Time
  rsn_Tags :: "string list"

record resticStats =
  rst_TotalSize :: int64

record BackupEnv =
  be_World :: WorkerEnv
  be_decodeInput :: "bytes \<Rightarrow> BackupWorkerInput option"
  be_decodeSnapshots :: "bytes \<Rightarrow> resticSnapshot list option"
  be_decodeStats :: "bytes \<Rightarrow> resticStats option"
  be_WriteFile :: "nat \<Rightarrow> string \<Rightarrow> bytes \<Rightarrow> bool"

text \<open>The injectable runner, its path and the clock of \<^verbatim>\<open>Config\<close> are part of the world.\<close>

definition backup_withDefaults :: "BackupConfig \<Rightarrow> BackupConfig" where
  "backup_withDefaults c = \<lparr>
     bcfg_InputPath = (if bcfg_InputPath c = [] then backup_DefaultInputPath else bcfg_InputPath c),
     bcfg_CredentialsPath = (if bcfg_CredentialsPath c = [] then backup_DefaultCredentialsPath else bcfg_CredentialsPath c),
     bcfg_SourceRoot = (if bcfg_SourceRoot c = [] then backup_DefaultSourceRoot else bcfg_SourceRoot c),
     bcfg_WorkPath = (if bcfg_WorkPath c = [] then backup_DefaultWorkPath else bcfg_WorkPath c) \<rparr>"

section \<open>Commands\<close>

definition boundedBuffer_Write :: "nat \<Rightarrow> bytes \<Rightarrow> bytes \<Rightarrow> bytes option" where
  "boundedBuffer_Write maximum buffer contents =
     (if length buffer + length contents > maximum then None else Some (buffer @ contents))"

definition backup_Control :: "BackupEnv \<Rightarrow> environment \<Rightarrow> string list \<Rightarrow> (error + bytes) worker" where
  "backup_Control be environment args = run_command (be_World be) environment (boundedBuffer_Write maxControlOutput) [] args"

definition backup_Stream :: "BackupEnv \<Rightarrow> environment \<Rightarrow> ('w \<Rightarrow> bytes \<Rightarrow> 'w option) \<Rightarrow> 'w \<Rightarrow> string list \<Rightarrow> (error + 'w) worker" where
  "backup_Stream be environment write destination args = run_command (be_World be) environment write destination args"

text \<open>The counting writer over a hash, which accepts every chunk: the count and the hashed bytes.\<close>

definition backup_countingWriter_Write :: "countingWriter \<Rightarrow> bytes \<Rightarrow> countingWriter option" where
  "backup_countingWriter_Write w contents =
     Some \<lparr> cw_bytes = cw_bytes w + word_of_nat (length contents), cw_written = cw_written w @ contents \<rparr>"

definition findSnapshots :: "BackupEnv \<Rightarrow> environment \<Rightarrow> string \<Rightarrow> (error + resticSnapshot list) worker" where
  "findSnapshots be environment tag = attempt
     (backup_Control be environment [''snapshots'', ''--json'', ''--no-cache'', ''--tag'', tag]) (\<lambda>contents.
       State_Monad.return (case be_decodeSnapshots be contents of
           None \<Rightarrow> Inl ''repository snapshot response is invalid''
         | Some snapshots \<Rightarrow> Inr snapshots))"

definition backup_dump :: "BackupEnv \<Rightarrow> environment \<Rightarrow> string \<Rightarrow> string \<Rightarrow> (error + countingWriter) worker" where
  "backup_dump be environment snapshotID repositoryPath =
     backup_Stream be environment backup_countingWriter_Write \<lparr> cw_bytes = 0, cw_written = [] \<rparr>
       [''dump'', ''--no-cache'', snapshotID, repositoryPath]"

definition verifyDump :: "BackupEnv \<Rightarrow> environment \<Rightarrow> string \<Rightarrow> string \<Rightarrow> bytes \<Rightarrow> error option worker" where
  "verifyDump be environment snapshotID repositoryPath expected = do {
     r \<leftarrow> backup_dump be environment snapshotID repositoryPath;
     State_Monad.return (case r of
         Inl e \<Rightarrow> Some e
       | Inr counting \<Rightarrow> guard (cw_bytes counting \<noteq> word_of_nat (length expected) \<or> sha256 (cw_written counting) \<noteq> sha256 expected)
           ''repository manifest does not match'') }"

definition verifyFile :: "BackupEnv \<Rightarrow> environment \<Rightarrow> string \<Rightarrow> string \<Rightarrow> BackupFileChecksum \<Rightarrow> error option worker" where
  "verifyFile be environment snapshotID repositoryPath expected = do {
     r \<leftarrow> backup_dump be environment snapshotID repositoryPath;
     State_Monad.return (case r of
         Inl e \<Rightarrow> Some e
       | Inr counting \<Rightarrow> guard (cw_bytes counting \<noteq> bfc_Size expected \<or> ''sha256:'' @ hex (sha256 (cw_written counting)) \<noteq> bfc_SHA256 expected)
           ''repository file verification failed'') }"

definition readStats :: "BackupEnv \<Rightarrow> environment \<Rightarrow> string \<Rightarrow> (error + resticStats) worker" where
  "readStats be environment snapshotID = attempt
     (backup_Control be environment [''stats'', ''--json'', ''--no-cache'', ''--mode'', ''restore-size'', snapshotID]) (\<lambda>contents.
       State_Monad.return (case be_decodeStats be contents of
           None \<Rightarrow> Inl ''repository statistics are invalid''
         | Some stats \<Rightarrow> Inr stats))"

section \<open>inventory.go\<close>

definition safeInventoryRelative :: "string \<Rightarrow> bool" where
  "safeInventoryRelative path \<longleftrightarrow> path \<noteq> [] \<and> path \<noteq> ''.'' \<and> \<not> IsAbs path \<and> path_Clean path = path \<and>
     path \<noteq> ''..'' \<and> \<not> HasPrefix path ''../'' \<and> utf8_Valid path \<and> \<not> Contains path RuneError"

text \<open>
  The loop over the parents of \<open>path\<close>, from \<open>parent\<close> upwards. A clean absolute path has at most as many
  parents as bytes, so \<open>length path\<close> rounds suffice.
\<close>

fun addAncestors :: "nat \<Rightarrow> string \<Rightarrow> string \<Rightarrow> expected \<Rightarrow> error + expected" where
  "addAncestors 0 path parent expected = Inr expected"
| "addAncestors (Suc n) path parent expected =
     (if parent = path then Inr expected
      else (case map_of expected parent of
              Some prior \<Rightarrow>
                if node_kind prior \<noteq> ''dir'' then Inl ''expected repository paths overlap''
                else if parent = ''/'' then Inr expected else addAncestors n path (path_Dir parent) expected
            | None \<Rightarrow>
                let expected' = (parent, \<lparr> node_kind = ''dir'', node_size = 0, node_required = False \<rparr>) # expected in
                if parent = ''/'' then Inr expected' else addAncestors n path (path_Dir parent) expected'))"

text \<open>The closure \<^verbatim>\<open>add\<close> of \<^verbatim>\<open>verifyInventory\<close>.\<close>

definition inventory_add :: "string \<Rightarrow> inventoryNode \<Rightarrow> expected \<Rightarrow> error + expected" where
  "inventory_add path entry expected =
     (if \<not> IsAbs path \<or> path_Clean path \<noteq> path then Inl ''expected repository path is invalid''
      else (case map_of expected path of
              Some prior \<Rightarrow>
                if node_kind prior \<noteq> node_kind entry \<or> (node_kind prior = ''file'' \<and> node_size prior \<noteq> node_size entry)
                then Inl ''expected repository paths overlap''
                else addAncestors (length path) path (path_Dir path)
                  ((path, entry\<lparr> node_required := node_required entry \<or> node_required prior \<rparr>) # expected)
            | None \<Rightarrow> addAncestors (length path) path (path_Dir path) ((path, entry) # expected)))"

text \<open>
  The calls of \<^verbatim>\<open>add\<close> in the order of the loops, each with the check the code makes before it: every path
  root, its directories, its files, and the manifest.
\<close>

record inventoryCall =
  call_check :: "error option"
  call_path :: string
  call_kind :: string
  call_size :: int64

definition inventoryCalls :: "string \<Rightarrow> string \<Rightarrow> int64 \<Rightarrow> BackupManifest \<Rightarrow> inventoryCall list" where
  "inventoryCalls sourceRoot manifestPath manifestSize m =
     concat (map (\<lambda>p. let root = path_Join sourceRoot (bmp_Name p) in
        \<lparr> call_check = None, call_path = root, call_kind = ''dir'', call_size = 0 \<rparr>
        # map (\<lambda>relative. \<lparr> call_check = guard (\<not> safeInventoryRelative relative) ''manifest directory path is unsafe'',
              call_path = path_Join root relative, call_kind = ''dir'', call_size = 0 \<rparr>)
            (case bmp_Directories p of None \<Rightarrow> [] | Some ds \<Rightarrow> ds)
        @ map (\<lambda>file. \<lparr> call_check = guard (\<not> safeInventoryRelative (bfc_Path file) \<or> sint (bfc_Size file) < 0) ''manifest file path is unsafe'',
              call_path = path_Join root (bfc_Path file), call_kind = ''file'', call_size = bfc_Size file \<rparr>)
            (case bmp_Files p of None \<Rightarrow> [] | Some fs \<Rightarrow> fs))
       (bm_Paths m))
     @ [\<lparr> call_check = None, call_path = manifestPath, call_kind = ''file'', call_size = manifestSize \<rparr>]"

fun inventory_addAll :: "inventoryCall list \<Rightarrow> expected \<Rightarrow> error + expected" where
  "inventory_addAll [] expected = Inr expected"
| "inventory_addAll (c # cs) expected =
     (case call_check c of
        Some e \<Rightarrow> Inl e
      | None \<Rightarrow>
          (case inventory_add (call_path c) \<lparr> node_kind = call_kind c, node_size = call_size c, node_required = True \<rparr> expected of
             Inl e \<Rightarrow> Inl e
           | Inr expected' \<Rightarrow> inventory_addAll cs expected'))"

text \<open>The loop over the decoded records; \<open>seen\<close> are the names met so far.\<close>

fun inventory_scan :: "string \<Rightarrow> expected \<Rightarrow> bool \<Rightarrow> string list \<Rightarrow> resticInventoryRecord list \<Rightarrow> error + bool \<times> string list" where
  "inventory_scan snapshotID expected seenSnapshot seen [] = Inr (seenSnapshot, seen)"
| "inventory_scan snapshotID expected seenSnapshot seen (r # rs) =
     (if inv_StructType r = ''snapshot'' then
        (if seenSnapshot \<or> seen \<noteq> [] \<or> inv_ID r \<noteq> snapshotID then Inl ''repository snapshot identity is inconsistent''
         else inventory_scan snapshotID expected True seen rs)
      else if inv_StructType r = ''node'' then
        (if \<not> seenSnapshot \<or> \<not> IsAbs (inv_Path r) \<or> path_Clean (inv_Path r) \<noteq> inv_Path r \<or>
            \<not> utf8_Valid (inv_Path r) \<or> Contains (inv_Path r) RuneError
         then Inl ''repository inventory path is unsafe''
         else (case map_of expected (inv_Path r) of
                 None \<Rightarrow> Inl ''repository inventory differs from manifest''
               | Some want \<Rightarrow>
                   if inv_Type r \<noteq> node_kind want \<or> (node_kind want = ''file'' \<and> sint (node_size want) \<ge> 0 \<and> inv_Size r \<noteq> node_size want)
                   then Inl ''repository inventory differs from manifest''
                   else if inv_Path r \<in> set seen then Inl ''repository inventory contains duplicate paths''
                   else inventory_scan snapshotID expected seenSnapshot (inv_Path r # seen) rs))
      else Inl ''unsupported repository inventory record type'')"

definition backup_verifyInventory ::
  "BackupEnv \<Rightarrow> environment \<Rightarrow> string \<Rightarrow> string \<Rightarrow> string \<Rightarrow> int64 \<Rightarrow> BackupManifest \<Rightarrow> error option worker" where
  "backup_verifyInventory be environment snapshotID sourceRoot manifestPath manifestSize m =
     (case inventory_addAll (inventoryCalls sourceRoot manifestPath manifestSize m) [] of
        Inl e \<Rightarrow> State_Monad.return (Some e)
      | Inr expected \<Rightarrow> do {
          r \<leftarrow> backup_Stream be environment (boundedBuffer_Write maxInventoryOutput) [] [''ls'', ''--json'', ''--no-cache'', snapshotID];
          case r of
            Inl e \<Rightarrow> State_Monad.return (Some e)
          | Inr contents \<Rightarrow>
              (case we_decodeInventory (be_World be) contents of (records, ended) \<Rightarrow>
                (case inventory_scan snapshotID expected False [] records of
                   Inl e \<Rightarrow> State_Monad.return (Some e)
                 | Inr (seenSnapshot, seen) \<Rightarrow>
                     State_Monad.return (first_error
                       [guard (\<not> ended) ''repository inventory is invalid'',
                        guard (\<not> seenSnapshot) ''repository inventory is missing snapshot identity'',
                        guard (incomplete expected seen) ''repository inventory is incomplete'']))) })"

section \<open>Reading the mounted input and credentials\<close>

definition backup_readInput :: "BackupEnv \<Rightarrow> string \<Rightarrow> (error + BackupWorkerInput) worker" where
  "backup_readInput be name = do {
     n \<leftarrow> tick;
     State_Monad.return (case we_ReadFile (be_World be) n name of
         None \<Rightarrow> Inl ''worker input is unavailable''
       | Some contents \<Rightarrow>
           if length contents > maxControlOutput then Inl ''worker input is unavailable''
           else (case be_decodeInput be contents of
                   None \<Rightarrow> Inl ''worker input is invalid''
                 | Some input \<Rightarrow> (case ValidateBackupWorkerInput input of Some e \<Rightarrow> Inl e | None \<Rightarrow> Inr input))) }"

fun readCredentialFiles :: "BackupEnv \<Rightarrow> string \<Rightarrow> (string \<times> bool) list \<Rightarrow> (error + (string \<times> bytes) list) worker" where
  "readCredentialFiles be directory [] = State_Monad.return (Inr [])"
| "readCredentialFiles be directory ((name, regular) # rest) =
     (if HasPrefix name ''..'' then readCredentialFiles be directory rest
      else do {
        n \<leftarrow> tick;
        case we_ReadFile (be_World be) n (path_Join directory name) of
          None \<Rightarrow> State_Monad.return (Inl ''repository credentials are unavailable'')
        | Some contents \<Rightarrow> attempt (readCredentialFiles be directory rest) (\<lambda>data. State_Monad.return (Inr ((name, contents) # data))) })"

definition credentialsOf :: "string \<Rightarrow> (string \<times> bytes) list \<Rightarrow> repositoryCredentials" where
  "credentialsOf directory data = \<lparr>
     rc_repository = mget (map_of data) RepositoryKeyRepository, rc_password = mget (map_of data) RepositoryKeyPassword,
     rc_accessKeyID = mget (map_of data) RepositoryKeyAccessKeyID, rc_secretAccessKey = mget (map_of data) RepositoryKeySecretAccessKey,
     rc_sessionToken = mget (map_of data) RepositoryKeySessionToken,
     rc_caCertificate = (if mget (map_of data) RepositoryKeyCACertificate \<noteq> [] then path_Join directory RepositoryKeyCACertificate else []) \<rparr>"

definition backup_readCredentials :: "BackupEnv \<Rightarrow> string \<Rightarrow> (error + repositoryCredentials) worker" where
  "backup_readCredentials be directory = do {
     n \<leftarrow> tick;
     case we_ReadDir (be_World be) n directory of
       None \<Rightarrow> State_Monad.return (Inl ''repository credentials are unavailable'')
     | Some entries \<Rightarrow> attempt (readCredentialFiles be directory entries) (\<lambda>data.
         State_Monad.return (case ValidateRepositorySecretData (we_parseURL (be_World be)) data of
             Some e \<Rightarrow> Inl e
           | None \<Rightarrow> Inr (credentialsOf directory data))) }"

definition credentials_environment :: "repositoryCredentials \<Rightarrow> environment" where
  "credentials_environment credentials =
     [(''RESTIC_REPOSITORY'', rc_repository credentials), (''RESTIC_PASSWORD'', rc_password credentials),
      (''AWS_ACCESS_KEY_ID'', rc_accessKeyID credentials), (''AWS_SECRET_ACCESS_KEY'', rc_secretAccessKey credentials),
      (''HOME'', ''/arcadectl/work''), (''RESTIC_CACHE_DIR'', ''/arcadectl/work/cache''), (''TMPDIR'', ''/arcadectl/work/tmp'')]
     @ (if rc_sessionToken credentials \<noteq> [] then [(''AWS_SESSION_TOKEN'', rc_sessionToken credentials)] else [])
     @ (if rc_caCertificate credentials \<noteq> [] then [(''RESTIC_CACERT'', rc_caCertificate credentials)] else [])"

section \<open>Run\<close>

definition inputFailure :: BackupFailure where
  "inputFailure = \<lparr> bf_Kind = BackupFailureInput, bf_checkpoint = checkpointOther [] \<rparr>"

definition credentialsFailure :: BackupFailure where
  "credentialsFailure = \<lparr> bf_Kind = BackupFailureCredentials, bf_checkpoint = checkpointOther [] \<rparr>"

definition repositoryFailure :: BackupFailure where
  "repositoryFailure = \<lparr> bf_Kind = BackupFailureRepository, bf_checkpoint = checkpointOther [] \<rparr>"

definition verificationFailure :: "verificationCheckpoint \<Rightarrow> BackupFailure" where
  "verificationFailure checkpoint = \<lparr> bf_Kind = BackupFailureVerification, bf_checkpoint = checkpoint \<rparr>"

text \<open>The manifest of the source as it is mounted now.\<close>

definition sourceManifest :: "BackupEnv \<Rightarrow> BackupConfig \<Rightarrow> BackupWorkerInput \<Rightarrow> (error + BackupManifest \<times> bytes) worker" where
  "sourceManifest be config input = do {
     n \<leftarrow> tick;
     State_Monad.return (BuildBackupManifest (we_Tree (be_World be) n) input (bcfg_SourceRoot config)) }"

definition makeWorkDirectory :: "BackupEnv \<Rightarrow> string \<Rightarrow> error option worker" where
  "makeWorkDirectory be name = do {
     n \<leftarrow> tick;
     State_Monad.return (guard (\<not> we_MkdirAll (be_World be) n name) ''mkdir failed'') }"

definition writeManifest :: "BackupEnv \<Rightarrow> string \<Rightarrow> bytes \<Rightarrow> error option worker" where
  "writeManifest be name contents = do {
     n \<leftarrow> tick;
     State_Monad.return (guard (\<not> be_WriteFile be n name contents) ''write failed'') }"

text \<open>The source after the verification, the statistics and the result.\<close>

definition backup_finish ::
  "BackupEnv \<Rightarrow> BackupConfig \<Rightarrow> BackupWorkerInput \<Rightarrow> environment \<Rightarrow> resticSnapshot \<Rightarrow> BackupManifest \<Rightarrow> bytes \<Rightarrow>
   (BackupFailure + BackupWorkerResult) worker" where
  "backup_finish be config input environment snapshot m contents =
     failing (sourceManifest be config input) (verificationFailure checkpointSourceRecheck) (\<lambda>(_, after).
     if after \<noteq> contents then State_Monad.return (Inl (verificationFailure checkpointSourceRecheck))
     else failing (readStats be environment (rsn_ID snapshot)) (verificationFailure checkpointStats) (\<lambda>stats.
     if sint (rst_TotalSize stats) < 0 then State_Monad.return (Inl (verificationFailure checkpointStats))
     else do {
       n \<leftarrow> tick;
       State_Monad.return (Inr \<lparr> bwr_Version = BackupFormatVersion, bwr_ArtifactID = bwi_ArtifactID input,
         bwr_ManifestDigest = ManifestDigest contents, bwr_SizeBytes = rst_TotalSize stats, bwr_PathCount = int32_of_len (bm_Paths m),
         bwr_CreatedAt = rsn_Time snapshot, bwr_VerifiedAt = we_Now (be_World be) n \<rparr>) }))"

definition backup_verifyFiles :: "BackupEnv \<Rightarrow> BackupConfig \<Rightarrow> environment \<Rightarrow> string \<Rightarrow> BackupManifest \<Rightarrow> error option worker" where
  "backup_verifyFiles be config environment snapshotID m =
     each (\<lambda>p. each (\<lambda>file. verifyFile be environment snapshotID (path_Join (path_Join (bcfg_SourceRoot config) (bmp_Name p)) (bfc_Path file)) file)
                    (case bmp_Files p of None \<Rightarrow> [] | Some fs \<Rightarrow> fs)) (bm_Paths m)"

text \<open>The selected snapshot against the manifest.\<close>

definition backup_verify ::
  "BackupEnv \<Rightarrow> BackupConfig \<Rightarrow> BackupWorkerInput \<Rightarrow> environment \<Rightarrow> resticSnapshot \<Rightarrow> BackupManifest \<Rightarrow> bytes \<Rightarrow> string \<Rightarrow>
   (BackupFailure + BackupWorkerResult) worker" where
  "backup_verify be config input environment snapshot m contents manifestPath =
     failing (backup_Control be environment [''check'', ''--no-cache'', ''--read-data-subset=100%''])
       (verificationFailure checkpointRepositoryCheck) (\<lambda>_.
     rejecting (verifyDump be environment (rsn_ID snapshot) manifestPath contents) (verificationFailure checkpointManifest) (
     rejecting (backup_verifyInventory be environment (rsn_ID snapshot) (bcfg_SourceRoot config) manifestPath (word_of_nat (length contents)) m)
       (verificationFailure checkpointInventory) (
     rejecting (backup_verifyFiles be config environment (rsn_ID snapshot) m) (verificationFailure checkpointFile) (
     backup_finish be config input environment snapshot m contents))))"

definition artifactTag :: "BackupWorkerInput \<Rightarrow> string" where
  "artifactTag input = ''arcadectl-artifact='' @ bwi_ArtifactID input"

definition manifestTag :: "bytes \<Rightarrow> string" where
  "manifestTag contents = ''arcadectl-manifest='' @ TrimPrefix (ManifestDigest contents) ''sha256:''"

definition backup_select ::
  "BackupEnv \<Rightarrow> BackupConfig \<Rightarrow> BackupWorkerInput \<Rightarrow> environment \<Rightarrow> BackupManifest \<Rightarrow> bytes \<Rightarrow> string \<Rightarrow> resticSnapshot list \<Rightarrow>
   (BackupFailure + BackupWorkerResult) worker" where
  "backup_select be config input environment m contents manifestPath snapshots =
     (case snapshots of
        [snapshot] \<Rightarrow>
          if manifestTag contents \<notin> set (rsn_Tags snapshot) then State_Monad.return (Inl (verificationFailure checkpointSnapshotSelection))
          else if rsn_ID snapshot = [] then State_Monad.return (Inl (verificationFailure checkpointSnapshotSelection))
          else backup_verify be config input environment snapshot m contents manifestPath
      | _ \<Rightarrow> State_Monad.return (Inl (verificationFailure checkpointSnapshotSelection)))"

definition backupArguments :: "BackupConfig \<Rightarrow> string \<Rightarrow> string \<Rightarrow> string \<Rightarrow> BackupManifest \<Rightarrow> string list" where
  "backupArguments config artifact digest manifestPath m =
     [''backup'', ''--quiet'', ''--json'', ''--no-cache'', ''--host'', ''arcadectl'', ''--tag'', artifact, ''--tag'', digest]
     @ map (\<lambda>p. path_Join (bcfg_SourceRoot config) (bmp_Name p)) (bm_Paths m) @ [manifestPath]"

text \<open>The snapshot of the artifact: an earlier run's, or a new one.\<close>

definition backup_repository ::
  "BackupEnv \<Rightarrow> BackupConfig \<Rightarrow> BackupWorkerInput \<Rightarrow> environment \<Rightarrow> BackupManifest \<Rightarrow> bytes \<Rightarrow> string \<Rightarrow>
   (BackupFailure + BackupWorkerResult) worker" where
  "backup_repository be config input environment m contents manifestPath =
     failing (backup_Control be environment [''unlock'', ''--no-cache'']) repositoryFailure (\<lambda>_.
     failing (findSnapshots be environment (artifactTag input)) repositoryFailure (\<lambda>snapshots.
     if snapshots = [] then
       failing (backup_Control be environment (backupArguments config (artifactTag input) (manifestTag contents) manifestPath m)) repositoryFailure (\<lambda>_.
       failing (findSnapshots be environment (artifactTag input)) repositoryFailure
         (backup_select be config input environment m contents manifestPath))
     else backup_select be config input environment m contents manifestPath snapshots))"

definition backup_Run :: "BackupEnv \<Rightarrow> BackupConfig \<Rightarrow> (BackupFailure + BackupWorkerResult) worker" where
  "backup_Run be config0 = (let config = backup_withDefaults config0; manifestPath = path_Join (bcfg_WorkPath config) manifestName in
     failing (backup_readInput be (bcfg_InputPath config)) inputFailure (\<lambda>input.
     failing (backup_readCredentials be (bcfg_CredentialsPath config)) credentialsFailure (\<lambda>credentials.
     failing (sourceManifest be config input) inputFailure (\<lambda>(m, contents).
     rejecting (makeWorkDirectory be (bcfg_WorkPath config)) inputFailure (
     rejecting (makeWorkDirectory be (path_Join (bcfg_WorkPath config) ''tmp'')) inputFailure (
     rejecting (writeManifest be manifestPath contents) inputFailure (
     backup_repository be config input (credentials_environment credentials) m contents manifestPath)))))))"

section \<open>The process contract\<close>

definition boundedFailureKind :: "BackupFailureKind \<Rightarrow> BackupFailureKind" where
  "boundedFailureKind kind = (case kind of BackupFailureOther s \<Rightarrow> BackupFailureRepository | _ \<Rightarrow> kind)"

definition BackupFailureKind_string :: "BackupFailureKind \<Rightarrow> string" where
  "BackupFailureKind_string kind =
     (case kind of
        BackupFailureInput \<Rightarrow> ''InputInvalid''
      | BackupFailureCredentials \<Rightarrow> ''CredentialsInvalid''
      | BackupFailureRepository \<Rightarrow> ''WorkerFailed''
      | BackupFailureVerification \<Rightarrow> ''VerificationFailed''
      | BackupFailureOther s \<Rightarrow> s)"

definition checkpoint_string :: "verificationCheckpoint \<Rightarrow> string" where
  "checkpoint_string checkpoint =
     (case checkpoint of
        checkpointSnapshotSelection \<Rightarrow> ''snapshot-selection''
      | checkpointRepositoryCheck \<Rightarrow> ''repository-check''
      | checkpointManifest \<Rightarrow> ''manifest''
      | checkpointInventory \<Rightarrow> ''inventory''
      | checkpointFile \<Rightarrow> ''file''
      | checkpointSourceRecheck \<Rightarrow> ''source-recheck''
      | checkpointStats \<Rightarrow> ''stats''
      | checkpointOther s \<Rightarrow> s)"

text \<open>\<open>None\<close> is the nil receiver.\<close>

definition BackupFailure_Error :: "BackupFailure option \<Rightarrow> string" where
  "BackupFailure_Error failure =
     ''backup worker failed: '' @ BackupFailureKind_string
       (case failure of None \<Rightarrow> BackupFailureRepository | Some f \<Rightarrow> boundedFailureKind (bf_Kind f))"

text \<open>\<open>None\<close> is an error that is not a \<^verbatim>\<open>Failure\<close>.\<close>

definition backup_ExitCode :: "BackupFailure option \<Rightarrow> nat" where
  "backup_ExitCode failure =
     (case failure of
        None \<Rightarrow> 20
      | Some f \<Rightarrow>
          (case bf_Kind f of
             BackupFailureInput \<Rightarrow> 10
           | BackupFailureCredentials \<Rightarrow> 11
           | BackupFailureVerification \<Rightarrow> 30
           | _ \<Rightarrow> 20))"

definition backup_FailureMessage :: "BackupFailure option \<Rightarrow> bytes" where
  "backup_FailureMessage failure =
     (let kind = (case failure of None \<Rightarrow> BackupFailureRepository | Some f \<Rightarrow> boundedFailureKind (bf_Kind f));
          checkpoint = (case failure of
              None \<Rightarrow> []
            | Some f \<Rightarrow>
                if kind = BackupFailureVerification
                then (case bf_checkpoint f of checkpointOther s \<Rightarrow> [] | c \<Rightarrow> checkpoint_string c) else []) in
      json_object
        ([json_field ''version'' (json_quote WorkerInputVersion), json_field ''failure'' (json_quote (BackupFailureKind_string kind))]
         @ (if checkpoint = [] then [] else [json_field ''checkpoint'' (json_quote checkpoint)])) @ [CHR 0x0A])"

text \<open>The encoding of a time, \<^verbatim>\<open>Time.MarshalJSON\<close>, is a parameter; it fails for years it cannot write.\<close>

definition backup_SuccessMessage :: "(Time \<Rightarrow> string option) \<Rightarrow> BackupWorkerResult \<Rightarrow> error + bytes" where
  "backup_SuccessMessage marshalTime result =
     (case (marshalTime (bwr_CreatedAt result), marshalTime (bwr_VerifiedAt result)) of
        (Some created, Some verified) \<Rightarrow>
          let contents = json_object
            [json_field ''version'' (json_quote (bwr_Version result)), json_field ''artifactID'' (json_quote (bwr_ArtifactID result)),
             json_field ''manifestDigest'' (json_quote (bwr_ManifestDigest result)), json_field ''sizeBytes'' (json_int64 (bwr_SizeBytes result)),
             json_field ''pathCount'' (json_int64 (scast (bwr_PathCount result))), json_field ''createdAt'' created,
             json_field ''verifiedAt'' verified]
          in if length contents > 4095 then Inl ''worker result exceeds termination-log limit'' else Inr (contents @ [CHR 0x0A])
      | _ \<Rightarrow> Inl ''encode worker result'')"

end
