(* ===== verification/InventoryProps.thy ===== *)
theory InventoryProps
  imports BackupWorker PathProps
begin

text \<open>
  What a verified inventory says about a snapshot. Both workers collect the paths a manifest demands and
  compare them with the listing of the repository; the locale \<open>inventory\<close> states what the two versions of
  these loops have in common, and its theorem that a listing without error holds exactly the demanded
  paths and directories above them.
\<close>

text \<open>A directory above a path, reached with \<^verbatim>\<open>filepath.Dir\<close>.\<close>

definition ancestor :: "string \<Rightarrow> string \<Rightarrow> bool" where
  "ancestor q p \<longleftrightarrow> (\<exists>k. (path_Dir ^^ Suc k) p = q)"

lemma ancestor_Dir: "ancestor (path_Dir p) p"
  unfolding ancestor_def by (rule exI [of _ 0]) simp

lemma ancestor_step: "ancestor q p \<Longrightarrow> ancestor (path_Dir q) p"
  unfolding ancestor_def by (metis comp_apply funpow.simps(2))

text \<open>A demand is a path with its kind and size. \<open>grows\<close> is the effect of one call of \<^verbatim>\<open>add\<close>.\<close>

type_synonym demand = "string \<times> string \<times> int64"

definition meets_demand :: "inventoryNode \<Rightarrow> string \<Rightarrow> int64 \<Rightarrow> bool" where
  "meets_demand node kind sz \<longleftrightarrow> node_kind node = kind \<and> (kind = ''file'' \<longrightarrow> node_size node = sz)"

definition new_parent :: "expected \<Rightarrow> string \<Rightarrow> expected \<Rightarrow> string \<Rightarrow> bool" where
  "new_parent e p e' q \<longleftrightarrow> map_of e q = None \<and> ancestor q p \<and> (\<exists>node. map_of e' q = Some node \<and> node_kind node = ''dir'')"

definition grows :: "expected \<Rightarrow> demand \<Rightarrow> expected \<Rightarrow> bool" where
  "grows e d e' \<longleftrightarrow> (case d of (p, kind, sz) \<Rightarrow>
     (\<forall>prior. map_of e p = Some prior \<longrightarrow> meets_demand prior kind sz) \<and>
     (\<exists>node. map_of e' p = Some node \<and> meets_demand node kind sz \<and> node_required node) \<and>
     (\<forall>q. q \<noteq> p \<longrightarrow> map_of e' q = map_of e q \<or> new_parent e p e' q))"

text \<open>What the loop over the parents of a path adds: directories above it that had no entry.\<close>

abbreviation parent_node :: inventoryNode where
  "parent_node \<equiv> \<lparr> node_kind = ''dir'', node_size = 0, node_required = False \<rparr>"

definition parents_added :: "string \<Rightarrow> expected \<Rightarrow> expected \<Rightarrow> bool" where
  "parents_added p e e' \<longleftrightarrow> (\<forall>q. map_of e' q = map_of e q \<or> (map_of e q = None \<and> ancestor q p \<and> map_of e' q = Some parent_node))"

lemma parents_added_refl [simp]: "parents_added p e e"
  by (simp add: parents_added_def)

lemma parents_added_Cons:
  "map_of e q = None \<Longrightarrow> ancestor q p \<Longrightarrow> parents_added p ((q, parent_node) # e) e' \<Longrightarrow> parents_added p e e'"
  unfolding parents_added_def by (metis map_of_Cons_code(2) option.distinct(1))

lemma extends_parents:
  assumes "\<And>prior. map_of e p = Some prior \<Longrightarrow> meets_demand prior kind sz"
    and "parents_added p ((p, \<lparr> node_kind = kind, node_size = sz, node_required = True \<rparr>) # e) e'"
  shows "grows e (p, kind, sz) e'"
proof -
  note ext = assms(2) [unfolded parents_added_def, rule_format]
  have "map_of e' p = Some \<lparr> node_kind = kind, node_size = sz, node_required = True \<rparr>" using ext [of p] by simp
  moreover have "map_of e' q = map_of e q \<or> new_parent e p e' q" if "q \<noteq> p" for q
    using ext [of q] that by (auto simp: new_parent_def)
  ultimately show ?thesis using assms(1) by (simp add: grows_def meets_demand_def)
qed

text \<open>Every demand has its required entry; every entry is a demand or a directory above one.\<close>

definition demanded :: "expected \<Rightarrow> demand \<Rightarrow> bool" where
  "demanded e d \<longleftrightarrow> (case d of (p, kind, sz) \<Rightarrow> \<exists>node. map_of e p = Some node \<and> meets_demand node kind sz \<and> node_required node)"

definition warranted :: "demand set \<Rightarrow> string \<Rightarrow> inventoryNode \<Rightarrow> bool" where
  "warranted D q node \<longleftrightarrow> (\<exists>(p, kind, sz)\<in>D. (q = p \<and> meets_demand node kind sz) \<or> (ancestor q p \<and> node_kind node = ''dir''))"

lemma demanded_extends:
  assumes "grows e d e'" "demanded e d0"
  shows "demanded e' d0"
proof -
  obtain p kind sz p0 kind0 sz0 where d: "d = (p, kind, sz)" "d0 = (p0, kind0, sz0)" by (cases d, cases d0)
  obtain node where node: "map_of e p0 = Some node" "meets_demand node kind0 sz0" "node_required node"
    using assms(2) d by (auto simp: demanded_def)
  show ?thesis
  proof (cases "p0 = p")
    case True
    then have "meets_demand node kind sz" using assms(1) node(1) d by (auto simp: grows_def)
    moreover obtain node' where "map_of e' p = Some node'" "meets_demand node' kind sz" "node_required node'"
      using assms(1) d by (auto simp: grows_def)
    ultimately show ?thesis using node(2) True d by (auto simp: demanded_def meets_demand_def)
  next
    case False
    then have "map_of e' p0 = map_of e p0" using assms(1) node(1) d by (auto simp: grows_def new_parent_def)
    with node d show ?thesis by (auto simp: demanded_def)
  qed
qed

lemma demanded_new: "grows e d e' \<Longrightarrow> demanded e' d"
  by (auto simp: grows_def demanded_def)

lemma warranted_mono: "warranted D q node \<Longrightarrow> D \<subseteq> D' \<Longrightarrow> warranted D' q node"
  unfolding warranted_def by blast

lemma warranted_extends:
  assumes "grows e d e'" "\<And>q node. map_of e q = Some node \<Longrightarrow> warranted D q node" "map_of e' q = Some node"
  shows "warranted (insert d D) q node"
proof -
  obtain p kind sz where d: "d = (p, kind, sz)" by (cases d)
  consider "q = p" | "q \<noteq> p" "map_of e' q = map_of e q" | "q \<noteq> p" "new_parent e p e' q"
    using assms(1) unfolding d grows_def by auto
  then show ?thesis
  proof cases
    case 1
    then show ?thesis using assms(1,3) unfolding d grows_def by (auto simp: warranted_def)
  next
    case 2
    then have "warranted D q node" using assms(2,3) by simp
    then show ?thesis by (rule warranted_mono) blast
  next
    case 3
    then show ?thesis using assms(3) unfolding d by (auto simp: warranted_def new_parent_def)
  qed
qed

text \<open>The listing of a snapshot: its identity first, then nodes with distinct paths.\<close>

definition exact_listing :: "string \<Rightarrow> demand set \<Rightarrow> resticInventoryRecord list \<Rightarrow> bool" where
  "exact_listing snapshotID D records \<longleftrightarrow> (\<exists>header nodes. records = header # nodes \<and>
     inv_StructType header = ''snapshot'' \<and> inv_ID header = snapshotID \<and> distinct (map inv_Path nodes) \<and>
     (\<forall>r\<in>set nodes. inv_StructType r = ''node'') \<and>
     (\<forall>(p, kind, sz)\<in>D. \<exists>r\<in>set nodes. inv_Path r = p \<and> inv_Type r = kind \<and> (kind = ''file'' \<and> 0 \<le> sint sz \<longrightarrow> inv_Size r = sz)) \<and>
     (\<forall>r\<in>set nodes. \<exists>(p, kind, sz)\<in>D. (inv_Path r = p \<and> inv_Type r = kind) \<or> (ancestor (inv_Path r) p \<and> inv_Type r = ''dir'')))"

definition meets_entry :: "expected \<Rightarrow> resticInventoryRecord \<Rightarrow> bool" where
  "meets_entry e r \<longleftrightarrow> (\<exists>want. map_of e (inv_Path r) = Some want \<and> inv_Type r = node_kind want \<and>
     (node_kind want = ''file'' \<and> 0 \<le> sint (node_size want) \<longrightarrow> inv_Size r = node_size want))"

locale inventory =
  fixes addEach :: "'q list \<Rightarrow> expected \<Rightarrow> error + expected"
    and demand_of :: "'q \<Rightarrow> demand"
    and scan :: "string \<Rightarrow> expected \<Rightarrow> bool \<Rightarrow> string list \<Rightarrow> resticInventoryRecord list \<Rightarrow> error + bool \<times> string list"
  assumes addEach_Nil: "addEach [] e = Inr e' \<Longrightarrow> e' = e"
    and addEach_Cons: "addEach (c # cs) e = Inr e' \<Longrightarrow> \<exists>e1. grows e (demand_of c) e1 \<and> addEach cs e1 = Inr e'"
    and scan_Nil: "scan snapshotID e b seen [] = Inr x \<Longrightarrow> x = (b, seen)"
    and scan_Cons: "scan snapshotID e b seen (r # rs) = Inr x \<Longrightarrow>
      (inv_StructType r = ''snapshot'' \<and> \<not> b \<and> inv_ID r = snapshotID \<and> scan snapshotID e True seen rs = Inr x) \<or>
      (inv_StructType r = ''node'' \<and> b \<and> meets_entry e r \<and> inv_Path r \<notin> set seen \<and> scan snapshotID e b (inv_Path r # seen) rs = Inr x)"
begin

lemma addEach_justified:
  assumes "addEach cs e = Inr e'" "\<And>q node. map_of e q = Some node \<Longrightarrow> warranted D q node" "\<And>d. d \<in> D \<Longrightarrow> demanded e d"
  shows "(\<forall>d \<in> demand_of ` set cs \<union> D. demanded e' d) \<and>
    (\<forall>q node. map_of e' q = Some node \<longrightarrow> warranted (demand_of ` set cs \<union> D) q node)"
  using assms
proof (induction cs arbitrary: e D)
  case Nil
  then have "e' = e" using addEach_Nil by blast
  with Nil show ?case by simp
next
  case (Cons c cs)
  from addEach_Cons [OF Cons.prems(1)] obtain e1 where e1: "grows e (demand_of c) e1" "addEach cs e1 = Inr e'" by blast
  have "(\<forall>d \<in> demand_of ` set cs \<union> insert (demand_of c) D. demanded e' d) \<and>
    (\<forall>q node. map_of e' q = Some node \<longrightarrow> warranted (demand_of ` set cs \<union> insert (demand_of c) D) q node)"
  proof (rule Cons.IH [OF e1(2)])
    show "warranted (insert (demand_of c) D) q node" if "map_of e1 q = Some node" for q node
      by (rule warranted_extends [OF e1(1) _ that]) (rule Cons.prems(2))
    show "demanded e1 d" if "d \<in> insert (demand_of c) D" for d
      using that demanded_new [OF e1(1)] demanded_extends [OF e1(1)] Cons.prems(3) by blast
  qed
  then show ?case by simp
qed

lemma scan_nodes:
  assumes "scan snapshotID e True seen rs = Inr (b, seen')"
  shows "b \<and> (\<forall>r\<in>set rs. inv_StructType r = ''node'' \<and> meets_entry e r) \<and> distinct (map inv_Path rs) \<and>
    inv_Path ` set rs \<inter> set seen = {} \<and> set seen' = inv_Path ` set rs \<union> set seen"
  using assms
proof (induction rs arbitrary: seen)
  case Nil
  then show ?case using scan_Nil by fastforce
next
  case (Cons r rs)
  from scan_Cons [OF Cons.prems] have r: "inv_StructType r = ''node''" "meets_entry e r" "inv_Path r \<notin> set seen"
      "scan snapshotID e True (inv_Path r # seen) rs = Inr (b, seen')"
    by auto
  from Cons.IH [OF r(4)] r(1-3) show ?case by auto
qed

lemma scan_header:
  assumes "scan snapshotID e False [] rs = Inr (True, seen)"
  shows "\<exists>header nodes. rs = header # nodes \<and> inv_StructType header = ''snapshot'' \<and> inv_ID header = snapshotID \<and>
    scan snapshotID e True [] nodes = Inr (True, seen)"
proof (cases rs)
  case Nil
  then show ?thesis using assms scan_Nil by blast
next
  case (Cons r nodes)
  then show ?thesis using scan_Cons [OF assms [unfolded Cons]] by simp
qed

theorem listed_exactly:
  assumes "addEach cs [] = Inr e" "scan snapshotID e False [] records = Inr (True, seen)" "\<not> incomplete e seen"
  shows "exact_listing snapshotID (demand_of ` set cs) records"
proof -
  have just: "\<forall>d \<in> demand_of ` set cs. demanded e d"
      "\<forall>q node. map_of e q = Some node \<longrightarrow> warranted (demand_of ` set cs) q node"
    using addEach_justified [OF assms(1), of "{}"] by auto
  obtain header nodes where rs: "records = header # nodes" "inv_StructType header = ''snapshot''" "inv_ID header = snapshotID"
      "scan snapshotID e True [] nodes = Inr (True, seen)"
    using scan_header [OF assms(2)] by blast
  have ns: "\<forall>r\<in>set nodes. inv_StructType r = ''node'' \<and> meets_entry e r" "distinct (map inv_Path nodes)" "set seen = inv_Path ` set nodes"
    using scan_nodes [OF rs(4)] by auto
  have here: "\<exists>r\<in>set nodes. inv_Path r = p \<and> inv_Type r = kind \<and> (kind = ''file'' \<and> 0 \<le> sint sz \<longrightarrow> inv_Size r = sz)"
    if d: "(p, kind, sz) \<in> demand_of ` set cs" for p kind sz
  proof -
    obtain node where node: "map_of e p = Some node" "meets_demand node kind sz" "node_required node"
      using just(1) d by (auto simp: demanded_def)
    have "p \<in> set seen"
      using assms(3) node map_of_SomeD [OF node(1)] unfolding incomplete_def list_ex_iff by fastforce
    then obtain r where r: "r \<in> set nodes" "inv_Path r = p" using ns(3) by auto
    moreover have "meets_entry e r" using ns(1) r(1) by blast
    ultimately show ?thesis using node by (intro bexI [of _ r]) (auto simp: meets_entry_def meets_demand_def)
  qed
  have only: "\<exists>(p, kind, sz)\<in>demand_of ` set cs. (inv_Path r = p \<and> inv_Type r = kind) \<or> (ancestor (inv_Path r) p \<and> inv_Type r = ''dir'')"
    if "r \<in> set nodes" for r
  proof -
    have "meets_entry e r" using ns(1) that by blast
    then obtain want where want: "map_of e (inv_Path r) = Some want" "inv_Type r = node_kind want" by (auto simp: meets_entry_def)
    have "warranted (demand_of ` set cs) (inv_Path r) want" using just(2) want(1) by blast
    then show ?thesis unfolding warranted_def want(2) by (elim bexE, intro bexI) (auto simp: meets_demand_def)
  qed
  show ?thesis
    unfolding exact_listing_def
    by (rule exI [of _ header], rule exI [of _ nodes]) (intro conjI rs(1-3) ns(2), use ns(1) in blast, use here in blast, use only in blast)
qed

end

section \<open>The backup worker\<close>

definition call_demand :: "inventoryCall \<Rightarrow> demand" where
  "call_demand c = (call_path c, call_kind c, call_size c)"

lemma addAncestors_parents: "addAncestors n path parent e = Inr e' \<Longrightarrow> ancestor parent path \<Longrightarrow> parents_added path e e'"
  by (induction n arbitrary: parent e) (auto simp: Let_def split: if_splits option.splits intro: ancestor_step parents_added_Cons)

lemma inventory_add_extends:
  assumes "inventory_add p \<lparr> node_kind = kind, node_size = sz, node_required = True \<rparr> e = Inr e'"
  shows "grows e (p, kind, sz) e'"
proof (rule extends_parents)
  show "meets_demand prior kind sz" if "map_of e p = Some prior" for prior
    using assms that by (auto simp: inventory_add_def meets_demand_def split: if_splits)
  show "parents_added p ((p, \<lparr> node_kind = kind, node_size = sz, node_required = True \<rparr>) # e) e'"
    using assms by (auto simp: inventory_add_def split: if_splits option.splits intro: addAncestors_parents ancestor_Dir)
qed

text \<open>The bound on the rounds is enough: more rounds give the same result.\<close>

lemma path_Dir_abs:
  assumes "plains es" "plain e"
  shows "path_Dir (abs_path (es @ [e])) = abs_path es"
proof -
  have e: "CHR ''/'' \<notin> set e" using assms(2) by (simp add: plain_def)
  have "path_Dir (abs_path (es @ [e])) = path_Clean (abs_path es @ (if es = [] then [] else [CHR ''/'']))"
  proof (cases "es = []")
    case True
    then show ?thesis using dropWhile_last_elem [OF e, of "[]"] by (simp add: path_Dir_def abs_path_def)
  next
    case False
    then show ?thesis
      using dropWhile_last_elem [OF e, of "CHR ''/'' # join_slash es"] by (simp add: path_Dir_def abs_path_def join_slash_snoc)
  qed
  also have "\<dots> = abs_path es"
  proof (cases "es = []")
    case False
    have "Split (CHR ''/'' # join_slash es @ [CHR ''/'']) (CHR ''/'') = [] # es @ [[]]"
      using assms False by (simp add: Split_append Split_join)
    then have "path_elements (abs_path es @ [CHR ''/'']) = es"
      using assms by (simp add: path_elements_def abs_path_def IsAbs_def clean_parts_append)
    moreover have "IsAbs (abs_path es @ [CHR ''/''])" by (simp add: IsAbs_def abs_path_def)
    ultimately show ?thesis using False by (simp add: path_Clean_def) (simp add: abs_path_def)
  qed simp
  finally show ?thesis .
qed

lemma plains_length: "plains es \<Longrightarrow> length es \<le> length (join_slash es)"
proof (induction es rule: join_slash.induct)
  case (3 p q ps)
  then show ?case by (cases p) (simp_all add: plain_def)
qed (auto simp: plain_def Suc_leI)

lemma addAncestors_rounds:
  "plains es \<Longrightarrow> addAncestors (Suc (length es) + k) path (abs_path es) e = addAncestors (Suc (length es)) path (abs_path es) e"
proof (induction es arbitrary: e rule: rev_induct)
  case Nil
  then show ?case by (simp add: abs_path_def Let_def split: option.splits)
next
  case (snoc x es)
  then have "path_Dir (abs_path (es @ [x])) = abs_path es" by (intro path_Dir_abs) simp_all
  with snoc show ?case by (simp add: Let_def split: option.splits)
qed

lemma addAncestors_enough:
  assumes "IsAbs path" "path_Clean path = path"
  shows "addAncestors (length path + k) path (path_Dir path) e = addAncestors (length path) path (path_Dir path) e"
proof -
  obtain es where es: "plains es" "path = abs_path es" using clean_abs_path [OF assms] by blast
  show ?thesis
  proof (cases es rule: rev_cases)
    case Nil
    then have "path_Dir path = path" using es(2) by (simp add: abs_path_def path_Dir_def path_Clean_def path_elements_def IsAbs_def)
    then show ?thesis using es(2) by (cases k) (simp_all add: abs_path_def)
  next
    case (snoc xs x)
    have dir: "path_Dir path = abs_path xs" using es snoc by (simp add: path_Dir_abs)
    have "length path \<ge> Suc (length xs)" using es snoc plains_length [of es] by (simp add: abs_path_def)
    then obtain j where j: "length path = Suc (length xs) + j" using le_Suc_ex by blast
    show ?thesis
      unfolding dir j using addAncestors_rounds [of xs j path e] addAncestors_rounds [of xs "j + k" path e] es snoc by (simp add: add.assoc)
  qed
qed

interpretation backup_inventory: inventory inventory_addAll call_demand inventory_scan
proof unfold_locales
  show "inventory_addAll (c # cs) e = Inr e' \<Longrightarrow> \<exists>e1. grows e (call_demand c) e1 \<and> inventory_addAll cs e1 = Inr e'" for c cs e e'
    by (auto simp: call_demand_def split: option.splits sum.splits intro: inventory_add_extends)
  show "inventory_scan snapshotID e b seen (r # rs) = Inr x \<Longrightarrow>
      (inv_StructType r = ''snapshot'' \<and> \<not> b \<and> inv_ID r = snapshotID \<and> inventory_scan snapshotID e True seen rs = Inr x) \<or>
      (inv_StructType r = ''node'' \<and> b \<and> meets_entry e r \<and> inv_Path r \<notin> set seen \<and> inventory_scan snapshotID e b (inv_Path r # seen) rs = Inr x)"
    for snapshotID e b seen r rs x
    by (auto simp: meets_entry_def split: if_splits option.splits)
qed simp_all

section \<open>The restore worker\<close>

lemma addParents_parents: "addParents n name e = Inr e' \<Longrightarrow> name = path \<or> ancestor name path \<Longrightarrow> parents_added path e e'"
proof (induction n arbitrary: name e)
  case (Suc n)
  then have "ancestor (path_Dir name) path" using ancestor_Dir ancestor_step by blast
  with Suc show ?case by (auto simp: Let_def split: if_splits option.splits intro: parents_added_Cons)
qed simp

lemma addExpected_extends:
  assumes "addExpected p kind sz True e = Inr e'"
  shows "grows e (p, kind, sz) e'"
proof (rule extends_parents)
  show "meets_demand prior kind sz" if "map_of e p = Some prior" for prior
    using assms that by (auto simp: addExpected_def meets_demand_def split: if_splits)
  show "parents_added p ((p, \<lparr> node_kind = kind, node_size = sz, node_required = True \<rparr>) # e) e'"
    using assms by (auto simp: addExpected_def split: if_splits option.splits intro: addParents_parents)
qed

interpretation restore_inventory: inventory addAll "\<lambda>d. d" scanRecords
proof unfold_locales
  show "addAll (c # cs) e = Inr e' \<Longrightarrow> \<exists>e1. grows e c e1 \<and> addAll cs e1 = Inr e'" for c cs e e'
    by (cases c) (auto split: sum.splits intro: addExpected_extends)
  show "scanRecords snapshotID e b seen (r # rs) = Inr x \<Longrightarrow>
      (inv_StructType r = ''snapshot'' \<and> \<not> b \<and> inv_ID r = snapshotID \<and> scanRecords snapshotID e True seen rs = Inr x) \<or>
      (inv_StructType r = ''node'' \<and> b \<and> meets_entry e r \<and> inv_Path r \<notin> set seen \<and> scanRecords snapshotID e b (inv_Path r # seen) rs = Inr x)"
    for snapshotID e b seen r rs x
    by (auto simp: meets_entry_def split: if_splits option.splits)
qed simp_all

end
