(* ===== verification/RestoreWorkerProps.thy ===== *)
theory RestoreWorkerProps
  imports InventoryProps BackupProps
begin

text \<open>
  The restore worker against the backup it verifies: manifests that were built are accepted, a run
  that succeeds has read every file of the repository back with its recorded digest, and a populated
  candidate holds the same tree as the backup.
\<close>

section \<open>Built manifests are accepted\<close>

lemma string_gt_Nil: "(s :: string) \<noteq> [] \<Longrightarrow> \<not> s \<le> []"
  by (cases s) auto

lemma errors_along_strict:
  assumes "sorted_wrt (<) (map key xs)" "\<And>x. x \<in> set xs \<Longrightarrow> key x \<noteq> ([] :: string)"
    and body: "\<And>before x. x \<in> set xs \<Longrightarrow> \<not> key x \<le> (if before = [] then [] else key (last before)) \<Longrightarrow> f before x = None"
  shows "errors_along f [] xs = None"
  unfolding errors_along_None
proof (intro allI impI)
  fix i
  assume i: "i < length xs"
  have "\<not> key (xs ! i) \<le> (if take i xs = [] then [] else key (last (take i xs)))"
  proof (cases i)
    case 0
    then show ?thesis using assms(2) [of "xs ! 0"] i by (simp add: string_gt_Nil)
  next
    case (Suc j)
    then have "key (xs ! j) < key (xs ! i)" using assms(1) i by (simp add: sorted_wrt_iff_nth_less)
    moreover have "last (take i xs) = xs ! j" using Suc i by (simp add: take_Suc_conv_app_nth)
    ultimately show ?thesis using Suc i by auto
  qed
  then show "f ([] @ take i xs) (xs ! i) = None" using body [of "xs ! i"] i by simp
qed

lemma safeRelative_join:
  assumes "plains es" "es \<noteq> []" "list_all (\<lambda>e. CHR 0x00 \<notin> set e) es" "good_name (join_slash es)"
  shows "safeRelative (join_slash es)"
proof -
  have NUL: "CHR 0x00 \<notin> set (join_slash es)" using assms(2,3) by (induction es) (auto simp: join_slash_Cons)
  have dots: "join_slash es \<noteq> ''.''" "join_slash es \<noteq> ''..''"
    using assms(1,2) Split_join [of es] by (auto simp: plain_def)
  have "\<not> HasPrefix (join_slash es) ''../''"
  proof
    assume "HasPrefix (join_slash es) ''../''"
    then obtain t where "join_slash es = ''..'' @ CHR ''/'' # t" by (auto simp: HasPrefix_iff)
    then have "es = Split (''..'' @ CHR ''/'' # t) (CHR ''/'')" using Split_join [OF assms(2,1)] by simp
    then have "es = ''..'' # Split t (CHR ''/'')" by (subst (asm) Split_append_sep) simp_all
    with assms(1) show False by (simp add: plain_def)
  qed
  then show ?thesis
    using assms NUL dots join_slash_not_abs [OF assms(2,1)] by (simp add: safeRelative_def good_name_def)
qed

lemma missing_parent_closed:
  assumes "plains es" "\<And>ps. strict_prefix ps es \<Longrightarrow> ps \<noteq> [] \<Longrightarrow> join_slash ps \<in> set dirs"
  shows "es \<noteq> [] \<Longrightarrow> \<not> missing_parent dirs n (join_slash es)"
  using assms
proof (induction n arbitrary: es)
  case (Suc n)
  then obtain ps e where es: "es = ps @ [e]" by (metis rev_exhaust)
  then have dir: "path_Dir (join_slash es) = (if ps = [] then ''.'' else join_slash ps)"
    using Suc.prems(2) path_Dir_join by simp
  have "join_slash ps \<in> set dirs" if "ps \<noteq> []" using Suc.prems(3) [of ps] that es by (simp add: strict_prefix_def)
  moreover have "\<not> missing_parent dirs n (join_slash ps)" if "ps \<noteq> []"
  proof (rule Suc.IH)
    fix qs
    assume "strict_prefix qs ps" "qs \<noteq> []"
    moreover from this have "strict_prefix qs es" using es by (auto simp: strict_prefix_def prefix_def)
    ultimately show "join_slash qs \<in> set dirs" using Suc.prems(3) by blast
  qed (use that Suc.prems es in auto)
  ultimately show ?case by (auto simp: dir Let_def)
qed simp

lemma validDigest_ManifestDigest: "validDigest (ManifestDigest bs)"
  by (simp add: validDigest_def ManifestDigest_def HasPrefix_def TrimPrefix_def)

lemma built_path_accepted:
  assumes "hashPath fs (abs_path as) = Inr (files, dirs)" "plains as" "wf_fs fs"
  shows "errors_along manifestDirError [] dirs = None" "errors_along (manifestFileError dirs) [] files = None"
    "first_error_in (\<lambda>dir. guard (missing_parent dirs (length dir) dir) e) dirs = None"
proof -
  obtain ts where ts: "wf_forest ts" "distinct (map fst ts)"
      "files = sort_key bfc_Path (map checksum_of (forest_files [] ts))" "dirs = sort (map join_slash (forest_dirs [] ts))"
      "\<forall>tf \<in> set (forest_files [] ts). good_name (join_slash (fst tf))" "\<forall>es \<in> set (forest_dirs [] ts). good_name (join_slash es)"
    using hashPath_tree [OF assms] by blast
  have shape: "plains es \<and> es \<noteq> [] \<and> list_all (\<lambda>e. CHR 0x00 \<notin> set e) es"
    if "es \<in> fst ` set (forest_files [] ts) \<union> set (forest_dirs [] ts)" for es
  proof -
    have "(\<exists>c. prefix ([] @ [c]) es) \<and> plains es" using that tree_prefix(2) [OF ts(1), of "[]"] by auto
    moreover have "list_all (\<lambda>e. CHR 0x00 \<notin> set e) es" using that tree_no_NUL(2) [OF ts(1), of "[]"] by auto
    ultimately show ?thesis by auto
  qed
  have inj: "inj_on join_slash (fst ` set (forest_files [] ts) \<union> set (forest_dirs [] ts))"
  proof (rule inj_onI)
    fix x y
    assume "x \<in> fst ` set (forest_files [] ts) \<union> set (forest_dirs [] ts)" "y \<in> fst ` set (forest_files [] ts) \<union> set (forest_dirs [] ts)"
      and "join_slash x = join_slash y"
    with shape [of x] shape [of y] show "x = y" by (blast intro: join_slash_inj)
  qed
  have dist: "distinct (map fst (forest_files [] ts) @ forest_dirs [] ts)"
    using tree_distinct(2) [OF ts(1) _ ts(2), of "[]"] by simp
  have parents: "\<not> missing_parent dirs n (join_slash es)"
    if "es \<in> fst ` set (forest_files [] ts) \<union> set (forest_dirs [] ts)" for es n
    using shape [OF that] forest_parents_closed [OF ts(1) that] ts(4) by (intro missing_parent_closed) auto
  have "distinct (map join_slash (forest_dirs [] ts))"
    using dist inj by (auto simp: distinct_map intro: inj_on_subset)
  then have sorted: "sorted_wrt (<) dirs" by (simp add: ts(4) strict_sorted_iff)
  show "errors_along manifestDirError [] dirs = None"
  proof (rule errors_along_strict [where key = "\<lambda>d. d"])
    show "d \<noteq> []" if "d \<in> set dirs" for d using that ts(4) shape join_slash_not_abs by fastforce
    show "manifestDirError before d = None" if "d \<in> set dirs" "\<not> d \<le> (if before = [] then [] else last before)" for before d
      using that ts(4,6) shape safeRelative_join by (auto simp: manifestDirError_def)
  qed (use sorted in simp)
  have "distinct (map (join_slash \<circ> fst) (forest_files [] ts))"
    using dist inj by (auto simp: distinct_map inj_on_def)
  then have "distinct (map bfc_Path (map checksum_of (forest_files [] ts)))" by (simp add: comp_def)
  then have sortedf: "sorted_wrt (<) (map bfc_Path files)"
    unfolding ts(3) strict_sorted_iff by (metis distinct_map distinct_sort set_sort sorted_sort_key)
  show "errors_along (manifestFileError dirs) [] files = None"
  proof (rule errors_along_strict [where key = bfc_Path])
    fix f assume f: "f \<in> set files"
    then obtain tf where tf: "tf \<in> set (forest_files [] ts)" "f = checksum_of tf" using ts(3) by auto
    show "bfc_Path f \<noteq> []" using tf shape [of "fst tf"] join_slash_not_abs by auto
    fix before :: "BackupFileChecksum list"
    assume "\<not> bfc_Path f \<le> (if before = [] then [] else bfc_Path (last before))"
    moreover have "safeRelative (bfc_Path f)" using tf ts(5) shape [of "fst tf"] safeRelative_join by auto
    moreover have "0 \<le> sint (bfc_Size f)" using tf tree_prefix(2) [OF ts(1), of "[]"] by auto
    moreover have "join_slash (fst tf) \<notin> set dirs"
      using tf dist inj ts(4) by (auto simp: inj_on_def)
    moreover have "\<not> missing_parent dirs (length (bfc_Path f)) (bfc_Path f)" using tf parents by auto
    ultimately show "manifestFileError dirs before f = None"
      using tf by (simp add: manifestFileError_def guard_simps validDigest_ManifestDigest)
  qed (use sortedf in simp)
  show "first_error_in (\<lambda>dir. guard (missing_parent dirs (length dir) dir) e) dirs = None"
    using parents ts(4) by (auto simp: guard_simps)
qed

lemma built_manifest_accepted:
  assumes "BuildBackupManifest fs (backupInput i) root = Inr (m, contents)" "wf_fs fs"
    and "list_all (\<lambda>p. plain (dp_Name p)) (src_Paths (in_Source i))"
  shows "validateManifest i m = None"
proof -
  let ?sps = "src_Paths (in_Source i)"
  obtain rs where rs: "plains rs" "root = abs_path rs"
    using clean_abs_path BuildBackupManifest_cases(2,3) [OF assms(1)] by blast
  obtain ps where ps: "list_all2 (entry_of fs root) ?sps ps" "bm_Paths m = sort_key bmp_Name ps"
    using BuildBackupManifest_cases(5) [OF assms(1)] by (auto simp: backupInput_def)
  note input = worker_paths_distinct [OF BuildBackupManifest_cases(1) [OF assms(1)]]
  have dist: "distinct (map dp_Name ?sps)" using input(1) by (simp add: backupInput_def)
  have names: "map bmp_Name ps = map dp_Name ?sps"
    using ps(1) by (induction rule: list_all2_induct) (auto simp: entry_of_def)
  then have "distinct (map bmp_Name ps)" using dist by simp
  then have sorted: "sorted_wrt (<) (map bmp_Name (bm_Paths m))"
    unfolding ps(2) strict_sorted_iff by (metis distinct_map distinct_sort set_sort sorted_sort_key)
  have origin: "\<exists>sp\<in>set ?sps. entry_of fs root sp p" if "p \<in> set (bm_Paths m)" for p
    using that ps by (metis in_set_conv_nth list_all2_conv_all_nth set_sort)
  have "errors_along (manifestPathError ?sps) [] (bm_Paths m) = None"
  proof (rule errors_along_strict [where key = bmp_Name])
    fix p assume "p \<in> set (bm_Paths m)"
    then obtain sp where sp: "sp \<in> set ?sps" "entry_of fs root sp p" using origin by blast
    then show "bmp_Name p \<noteq> []" using input(3) by (auto simp: entry_of_def backupInput_def)
    fix before :: "BackupManifestPath list"
    assume above: "\<not> bmp_Name p \<le> (if before = [] then [] else bmp_Name (last before))"
    have plain: "plain (dp_Name sp)" using sp(1) assms(3) by (simp add: list_all_iff)
    obtain files dirs where fd: "hashPath fs (abs_path (rs @ [dp_Name sp])) = Inr (files, dirs)"
        "bmp_Directories p = Some dirs" "bmp_Files p = Some files"
      using sp(2) rs plain by (auto simp: entry_of_def path_Join_elem)
    have "plains (rs @ [dp_Name sp])" using rs plain by simp
    note ok = built_path_accepted [OF fd(1) this assms(2)]
    have "map_of (rev (map (\<lambda>s. (dp_Name s, s)) ?sps)) (dp_Name sp) = Some sp"
      using dist sp(1) by (subst map_of_eq_Some_iff) (auto simp: rev_map [symmetric] comp_def)
    then show "manifestPathError ?sps before p = None"
      using sp(2) above fd ok by (auto simp: manifestPathError_def entry_of_def guard_simps Let_def)
  qed (use sorted in simp)
  moreover have "length (bm_Paths m) = length ?sps" using ps list_all2_lengthD by fastforce
  ultimately show ?thesis
    using BuildBackupManifest_cases(6) [OF assms(1)] by (simp add: validateManifest_def guard_simps backupInput_def)
qed

section \<open>What commands returned\<close>

definition env_strings :: "environment \<Rightarrow> string list" where
  "env_strings environment = map (\<lambda>(k, v). k @ ''='' @ v) (sort_key fst environment)"

lemma wp_tick [wp_simps]: "wp tick Q n = Q n (Suc n)"
  by (simp add: tick_def wp_simps)

lemma wp_failing [wp_simps]:
  "wp (failing m kind f) Q s = wp m (\<lambda>r. case r of Inl e \<Rightarrow> Q (Inl kind) | Inr v \<Rightarrow> wp (f v) Q) s"
  unfolding failing_def wp_simps by (rule arg_cong [where f = "\<lambda>q. wp m q s"]) (auto simp: fun_eq_iff wp_simps split: sum.splits)

lemma wp_rejecting [wp_simps]:
  "wp (rejecting m kind k) Q s = wp m (\<lambda>r. case r of Some e \<Rightarrow> Q (Inl kind) | None \<Rightarrow> wp k Q) s"
  unfolding rejecting_def wp_simps by (rule arg_cong [where f = "\<lambda>q. wp m q s"]) (auto simp: fun_eq_iff wp_simps split: option.splits)

lemma wp_run_command:
  "wp (run_command we environment write w args) (\<lambda>r n'. \<forall>w'. r = Inr w' \<longrightarrow>
     (\<exists>chunks. we_Command we n (env_strings environment) args = (chunks, True) \<and>
        (let dw = fold (DrainingWriter_Write write) chunks \<lparr> dw_destination = w, dw_failed = False \<rparr>
         in \<not> dw_failed dw \<and> dw_destination dw = w'))) n"
  by (auto simp: run_command_def wp_simps env_strings_def Let_def split: prod.splits)

lemma draining_failed: "dw_failed dw \<Longrightarrow> dw_failed (fold (DrainingWriter_Write write) chunks dw)"
  by (induction chunks arbitrary: dw) (auto simp: DrainingWriter_Write_def)

text \<open>A writer that appends what it accepts holds, at the end of a command, all that was printed.\<close>

lemma draining_appends:
  assumes "\<And>w c w'. write w c = Some w' \<Longrightarrow> out w' = out w @ c"
  shows "\<not> dw_failed (fold (DrainingWriter_Write write) chunks dw) \<Longrightarrow>
    out (dw_destination (fold (DrainingWriter_Write write) chunks dw)) = out (dw_destination dw) @ concat chunks"
proof (induction chunks arbitrary: dw)
  case (Cons c chunks)
  let ?dw = "DrainingWriter_Write write c dw"
  have ok: "\<not> dw_failed ?dw" using Cons.prems draining_failed by fastforce
  then have "out (dw_destination ?dw) = out (dw_destination dw) @ c"
    using assms by (auto simp: DrainingWriter_Write_def split: if_splits option.splits)
  with Cons show ?case by simp
qed simp

text \<open>A command of the run succeeded and printed \<open>out\<close>; the repository returned a file with its digest.\<close>

definition printed :: "WorkerEnv \<Rightarrow> environment \<Rightarrow> string list \<Rightarrow> bytes \<Rightarrow> bool" where
  "printed we environment args out \<longleftrightarrow>
     (\<exists>k chunks. we_Command we k (env_strings environment) args = (chunks, True) \<and> out = concat chunks)"

definition stored :: "WorkerEnv \<Rightarrow> environment \<Rightarrow> string \<Rightarrow> string \<Rightarrow> BackupFileChecksum \<Rightarrow> bool" where
  "stored we environment snapshotID pathName file \<longleftrightarrow>
     (\<exists>out. printed we environment (dumpArgs snapshotID pathName file) out \<and> ManifestDigest out = bfc_SHA256 file)"

lemma wp_run_printed:
  assumes "\<And>w c w'. write w c = Some w' \<Longrightarrow> out w' = out w @ c" "out w = []"
  shows "wp (run_command we environment write w args) (\<lambda>r n'. \<forall>w'. r = Inr w' \<longrightarrow> printed we environment args (out w')) n"
proof (rule wp_mono [OF wp_run_command], intro allI impI)
  fix r n' w'
  assume "\<forall>w'. r = Inr w' \<longrightarrow> (\<exists>chunks. we_Command we n (env_strings environment) args = (chunks, True) \<and>
      (let dw = fold (DrainingWriter_Write write) chunks \<lparr> dw_destination = w, dw_failed = False \<rparr> in \<not> dw_failed dw \<and> dw_destination dw = w'))"
    and "r = Inr w'"
  then obtain chunks where c: "we_Command we n (env_strings environment) args = (chunks, True)" "out w' = concat chunks"
    using draining_appends [of "write" out, OF assms(1)] assms(2) by (fastforce simp: Let_def)
  then show "printed we environment args (out w')" unfolding printed_def by blast
qed

lemma wp_limitedStream:
  "wp (limitedStream we environment mx args) (\<lambda>r n'. \<forall>out. r = Inr out \<longrightarrow> printed we environment args out) n"
  unfolding limitedStream_def
  by (rule wp_run_printed [of _ "\<lambda>w. w"]) (auto simp: limitedWriter_Write_def split: if_splits)

lemma fileMatches_digest: "fileMatches file count \<Longrightarrow> ManifestDigest (cw_written count) = bfc_SHA256 file"
  by (simp add: fileMatches_def ManifestDigest_def)

lemma wp_streamFile:
  "wp (streamFile we environment accepts snapshotID pathName file)
     (\<lambda>r n'. \<forall>count. r = Inr count \<and> fileMatches file count \<longrightarrow> stored we environment snapshotID pathName file) n"
  unfolding streamFile_def
  by (rule wp_mono [OF wp_run_printed [of _ cw_written]])
     (auto simp: countingWriter_Write_def stored_def dest: fileMatches_digest split: if_splits)

lemma wp_verifyRepositoryFile:
  "wp (verifyRepositoryFile we environment snapshotID pathName file)
     (\<lambda>r n'. True \<and> (r = None \<longrightarrow> stored we environment snapshotID pathName file)) n"
  unfolding verifyRepositoryFile_def wp_simps
  by (rule wp_mono [OF wp_streamFile]) (auto simp: wp_simps split: sum.splits)

definition files_of :: "BackupManifestPath \<Rightarrow> BackupFileChecksum list" where
  "files_of p = (case bmp_Files p of None \<Rightarrow> [] | Some fs \<Rightarrow> fs)"

lemma wp_verifyFiles:
  "wp (verifyFiles we environment snapshotID m) (\<lambda>r n'. True \<and> (r = None \<longrightarrow>
     (\<forall>p\<in>set (bm_Paths m). \<forall>f\<in>set (files_of p). stored we environment snapshotID (bmp_Name p) f))) n"
  unfolding verifyFiles_def files_of_def [symmetric]
  by (rule wp_each [where I = "\<lambda>_. True"]) (simp, rule wp_each [where I = "\<lambda>_. True"], simp, rule wp_verifyRepositoryFile)

text \<open>The repository listed the snapshot exactly as demanded.\<close>

definition listed :: "WorkerEnv \<Rightarrow> environment \<Rightarrow> string \<Rightarrow> demand set \<Rightarrow> bool" where
  "listed we environment snapshotID D \<longleftrightarrow> (\<exists>out records. printed we environment [''ls'', ''--json'', ''--no-cache'', snapshotID] out \<and>
     we_decodeInventory we out = (records, True) \<and> exact_listing snapshotID D records)"

lemma wp_verifyInventory:
  "wp (verifyInventory we environment snapshotID m manifestSize)
     (\<lambda>r n'. r = None \<longrightarrow> listed we environment snapshotID (set (inventoryRequests m manifestSize))) n"
proof (cases "addAll (inventoryRequests m manifestSize) []")
  case (Inr e)
  have "listed we environment snapshotID (set (inventoryRequests m manifestSize))"
    if "printed we environment [''ls'', ''--json'', ''--no-cache'', snapshotID] out" "we_decodeInventory we out = (records, True)"
      "scanRecords snapshotID e False [] records = Inr (True, seen)" "\<not> incomplete e seen" for out records seen
    using that restore_inventory.listed_exactly [OF Inr that(3,4)] unfolding listed_def by auto
  with Inr show ?thesis
    unfolding verifyInventory_def
    by (simp add: wp_simps, intro wp_mono [OF wp_limitedStream])
       (auto simp: wp_simps guard_simps split: sum.splits prod.splits if_splits)
qed (simp add: verifyInventory_def wp_simps)

lemma wp_readInput: "wp (readInput we name) (\<lambda>r n'. \<forall>i. r = Inr i \<longrightarrow> ValidateInput we i = None) n"
  by (simp add: readInput_def wp_simps split: option.splits)

lemma wp_populate:
  "wp (populate we root i m original snapshotID environment) (\<lambda>r n'. r = None \<longrightarrow>
     (\<exists>k m'. BuildBackupManifest (we_Tree we k) (backupInput i) root = Inr (m', original))) n"
  unfolding populate_def wp_simps
  by (auto simp: wp_simps split: option.splits sum.splits prod.splits intro!: wp_trivial) blast

section \<open>A successful run\<close>

definition verified_snapshot :: "WorkerEnv \<Rightarrow> Config \<Rightarrow> Input \<Rightarrow> environment \<Rightarrow> string \<Rightarrow> Result \<Rightarrow> bool" where
  "verified_snapshot we config i environment snapshotID result \<longleftrightarrow>
     res_Stage result = in_Stage i \<and> res_ArtifactID result = art_ID (in_Artifact i) \<and>
     res_ManifestDigest result = art_ManifestDigest (in_Artifact i) \<and>
     (\<exists>m. printed we environment [''dump'', ''--no-cache'', snapshotID, DefaultManifestPath] (marshalManifest m @ [CHR 0x0A]) \<and>
        ManifestDigest (marshalManifest m @ [CHR 0x0A]) = art_ManifestDigest (in_Artifact i) \<and> validateManifest i m = None \<and>
        (\<forall>p\<in>set (bm_Paths m). \<forall>f\<in>set (files_of p). stored we environment snapshotID (bmp_Name p) f) \<and>
        listed we environment snapshotID (set (inventoryRequests m (word_of_nat (length (marshalManifest m @ [CHR 0x0A]))))) \<and>
        (in_Stage i = StagePopulate \<longrightarrow>
           (\<exists>k m'. BuildBackupManifest (we_Tree we k) (backupInput i) (cfgw_CandidateRoot config) =
              Inr (m', marshalManifest m @ [CHR 0x0A]))))"

lemma wp_finish:
  "wp (finish we i m) (\<lambda>r n'. \<forall>result. r = Inr result \<longrightarrow>
     res_Stage result = in_Stage i \<and> res_ArtifactID result = art_ID (in_Artifact i) \<and> res_ManifestDigest result = art_ManifestDigest (in_Artifact i)) n"
  by (simp add: finish_def wp_simps)

lemma wp_runStage:
  "wp (runStage we config i environment snapshotID contents m) (\<lambda>r n'. \<forall>result. r = Inr result \<longrightarrow>
     res_Stage result = in_Stage i \<and> res_ArtifactID result = art_ID (in_Artifact i) \<and> res_ManifestDigest result = art_ManifestDigest (in_Artifact i) \<and>
     (in_Stage i = StagePopulate \<longrightarrow>
        (\<exists>k m'. BuildBackupManifest (we_Tree we k) (backupInput i) (cfgw_CandidateRoot config) = Inr (m', contents)))) n"
proof (cases "in_Stage i = StagePopulate")
  case True
  then show ?thesis
    unfolding runStage_def wp_simps
    by simp (rule wp_mono [OF wp_populate], auto simp: wp_simps split: option.splits intro: wp_mono [OF wp_finish])
next
  case False
  then show ?thesis unfolding runStage_def by simp (rule wp_mono [OF wp_finish], simp)
qed

lemma wp_runSnapshot:
  "wp (runSnapshot we config i environment snapshotID)
     (\<lambda>r n'. \<forall>result. r = Inr result \<longrightarrow> verified_snapshot we config i environment snapshotID result) n"
proof -
  let ?Q = "\<lambda>r n'. \<forall>result. r = Inr result \<longrightarrow> verified_snapshot we config i environment snapshotID result"
  let ?args = "[''dump'', ''--no-cache'', snapshotID, DefaultManifestPath]"
  have files: "wp (rejecting (verifyFiles we environment snapshotID m) FailureVerification (runStage we config i environment snapshotID contents m)) ?Q k"
    if "printed we environment ?args contents" "ManifestDigest contents = art_ManifestDigest (in_Artifact i)"
      "parseManifest we contents = Inr m" "validateManifest i m = None"
      "listed we environment snapshotID (set (inventoryRequests m (word_of_nat (length contents))))" for contents m k
    unfolding wp_rejecting
  proof (rule wp_mono [OF wp_verifyFiles], clarsimp split: option.split)
    fix t
    assume files: "\<forall>p\<in>set (bm_Paths m). \<forall>f\<in>set (files_of p). stored we environment snapshotID (bmp_Name p) f"
    have contents: "contents = marshalManifest m @ [CHR 0x0A]"
      using that(3) by (auto simp: parseManifest_def split: option.splits if_splits)
    show "wp (runStage we config i environment snapshotID contents m) ?Q t"
      by (rule wp_mono [OF wp_runStage]) (use that files contents in \<open>simp add: verified_snapshot_def, blast\<close>)
  qed
  have inventory: "wp (rejecting (verifyInventory we environment snapshotID m (word_of_nat (length contents))) FailureVerification (failing b FailureVerification (\<lambda>_.
      rejecting (verifyFiles we environment snapshotID m) FailureVerification (runStage we config i environment snapshotID contents m)))) ?Q k"
    if "printed we environment ?args contents" "ManifestDigest contents = art_ManifestDigest (in_Artifact i)"
      "parseManifest we contents = Inr m" "validateManifest i m = None" for b :: "(error + bytes) worker" and contents m k
    unfolding wp_rejecting [of "verifyInventory a c d e f" for a c d e f]
    by (rule wp_mono [OF wp_verifyInventory])
       (auto simp: wp_failing split: option.splits sum.splits intro!: wp_trivial files [OF that])
  show ?thesis
    unfolding runSnapshot_def wp_failing
    by (rule wp_mono [OF wp_limitedStream])
       (auto simp: wp_if wp_case_sum wp_return split: sum.splits intro!: inventory)
qed

lemma wp_Run:
  "wp (Run we config) (\<lambda>r n'. \<forall>result. r = Inr result \<longrightarrow>
     (\<exists>i environment snapshotID. ValidateInput we i = None \<and> verified_snapshot we (defaults config) i environment snapshotID result)) n"
  unfolding Run_def Let_def wp_simps
  by (auto simp: wp_simps split: sum.splits option.splits
      intro!: wp_trivial wp_mono [OF wp_readInput] wp_mono [OF wp_runSnapshot]) blast

section \<open>From the cold backup to the repository\<close>

lemma digest_eq: "ManifestDigest a = ManifestDigest b \<Longrightarrow> a = b \<or> sha256_collision 32 a b"
  by (auto simp: ManifestDigest_def sha256_collision_def)

lemma Run_verified:
  assumes "run_state (Run we config) n = (Inr result, n')"
  shows "\<exists>i environment snapshotID. ValidateInput we i = None \<and> verified_snapshot we (defaults config) i environment snapshotID result"
  using wp_run [OF assms wp_Run] by blast

text \<open>The entry of a source path in a built manifest.\<close>

lemma built_entry:
  assumes "BuildBackupManifest fs input root = Inr (m, contents)" "wf_fs fs" "sp \<in> set (src_Paths (bwi_Source input))" "plain (dp_Name sp)"
  shows "\<exists>p ts. p \<in> set (bm_Paths m) \<and> bmp_Name p = dp_Name sp \<and> fs (path_Join root (dp_Name sp)) = Some (Directory (Some ts)) \<and>
    wf_forest ts \<and> files_of p = sort_key bfc_Path (map checksum_of (forest_files [] ts)) \<and>
    bmp_Directories p = Some (sort (map join_slash (forest_dirs [] ts)))"
proof -
  obtain rs where rs: "plains rs" "root = abs_path rs"
    using clean_abs_path BuildBackupManifest_cases(2,3) [OF assms(1)] by blast
  obtain ps where ps: "list_all2 (entry_of fs root) (src_Paths (bwi_Source input)) ps" "bm_Paths m = sort_key bmp_Name ps"
    using BuildBackupManifest_cases(5) [OF assms(1)] by blast
  obtain p where p: "p \<in> set ps" "entry_of fs root sp p"
    using assms(3) ps(1) by (metis in_set_conv_nth list_all2_conv_all_nth)
  then obtain files dirs where fd: "hashPath fs (abs_path (rs @ [dp_Name sp])) = Inr (files, dirs)" "bmp_Directories p = Some dirs"
      "bmp_Files p = Some files" "bmp_Name p = dp_Name sp"
    using rs assms(4) by (auto simp: entry_of_def path_Join_elem)
  have "plains (rs @ [dp_Name sp])" using rs assms(4) by simp
  from hashPath_tree [OF fd(1) this assms(2)] p fd ps(2) rs assms(4) show ?thesis
    by (auto simp: files_of_def path_Join_elem)
qed

text \<open>Conversely, an entry with a plain name comes from a source path of that name.\<close>

lemma built_entry_name:
  assumes "BuildBackupManifest fs input root = Inr (m, contents)" "p \<in> set (bm_Paths m)"
  shows "\<exists>sp\<in>set (src_Paths (bwi_Source input)). dp_Name sp = bmp_Name p \<and> entry_of fs root sp p"
proof -
  obtain ps where ps: "list_all2 (entry_of fs root) (src_Paths (bwi_Source input)) ps" "bm_Paths m = sort_key bmp_Name ps"
    using BuildBackupManifest_cases(5) [OF assms(1)] by blast
  then obtain sp where "sp \<in> set (src_Paths (bwi_Source input))" "entry_of fs root sp p"
    using assms(2) by (metis in_set_conv_nth list_all2_conv_all_nth set_sort)
  then show ?thesis by (auto simp: entry_of_def)
qed

lemma digest_same_manifest:
  assumes "BuildBackupManifest fs input root = Inr (m0, contents)" "wf_fs fs" "input_utf8 input"
    and "ManifestDigest (marshalManifest m @ [CHR 0x0A]) = ManifestDigest contents"
  shows "m = m0 \<or> sha256_collision 32 (marshalManifest m @ [CHR 0x0A]) contents"
proof -
  have "contents = marshalManifest m0 @ [CHR 0x0A]" by (rule BuildBackupManifest_cases(4) [OF assms(1)])
  then show ?thesis
    using digest_eq [OF assms(4)] marshalManifest_inj [OF BuildBackupManifest_utf8 [OF assms(1-3)], of m] by (metis append_same_eq)
qed

text \<open>
  C23. If a backup worker recorded the mounted files in a manifest and a later run of the restore
  worker succeeds with that manifest's digest, then the repository returned every file of the
  original trees byte for byte: for each file, a command of the run that dumps its path succeeded and
  printed exactly the original contents. Its listing of the snapshot held exactly the paths of the
  manifest, with their kinds and sizes, and directories above them. The only escape is a collision
  of SHA-256 between bytes the
  run really read and the bytes that were backed up: for the manifest, or for that file.
\<close>

theorem preflight_reads_back_backup:
  assumes "BuildBackupManifest fs input root = Inr (m0, contents)" "wf_fs fs" "input_utf8 input"
    and "run_state (Run we config) n = (Inr result, n')" "res_ManifestDigest result = ManifestDigest contents"
  shows "\<exists>environment snapshotID manifest.
    printed we environment [''dump'', ''--no-cache'', snapshotID, DefaultManifestPath] manifest \<and>
    (sha256_collision 32 manifest contents \<or>
     listed we environment snapshotID (set (inventoryRequests m0 (word_of_nat (length contents)))) \<and>
     (\<forall>sp\<in>set (src_Paths (bwi_Source input)). \<exists>ts. fs (path_Join root (dp_Name sp)) = Some (Directory (Some ts)) \<and>
        (\<forall>tf\<in>set (forest_files [] ts). \<exists>out.
           printed we environment (dumpArgs snapshotID (dp_Name sp) (checksum_of tf)) out \<and>
           (out = snd (snd tf) \<or> sha256_collision 32 out (snd (snd tf))))))"
proof -
  obtain i environment snapshotID m where v: "ManifestDigest (marshalManifest m @ [CHR 0x0A]) = ManifestDigest contents"
      "printed we environment [''dump'', ''--no-cache'', snapshotID, DefaultManifestPath] (marshalManifest m @ [CHR 0x0A])"
      "\<forall>p\<in>set (bm_Paths m). \<forall>f\<in>set (files_of p). stored we environment snapshotID (bmp_Name p) f"
      "listed we environment snapshotID (set (inventoryRequests m (word_of_nat (length (marshalManifest m @ [CHR 0x0A])))))"
    using Run_verified [OF assms(4)] assms(5) unfolding verified_snapshot_def by auto
  have each: "\<exists>ts. fs (path_Join root (dp_Name sp)) = Some (Directory (Some ts)) \<and>
        (\<forall>tf\<in>set (forest_files [] ts). \<exists>out.
           printed we environment (dumpArgs snapshotID (dp_Name sp) (checksum_of tf)) out \<and>
           (out = snd (snd tf) \<or> sha256_collision 32 out (snd (snd tf))))"
    if m: "m = m0" and sp: "sp \<in> set (src_Paths (bwi_Source input))" for sp
  proof -
    have "plain (dp_Name sp)" using assms(3) sp by (auto simp: input_utf8_def list_all_iff)
    from built_entry [OF assms(1,2) sp this] obtain p ts where p: "p \<in> set (bm_Paths m)" "bmp_Name p = dp_Name sp"
        "fs (path_Join root (dp_Name sp)) = Some (Directory (Some ts))"
        "files_of p = sort_key bfc_Path (map checksum_of (forest_files [] ts))"
      using m by blast
    have "\<exists>out. printed we environment (dumpArgs snapshotID (dp_Name sp) (checksum_of tf)) out \<and>
           (out = snd (snd tf) \<or> sha256_collision 32 out (snd (snd tf)))" if "tf \<in> set (forest_files [] ts)" for tf
    proof -
      have "stored we environment snapshotID (dp_Name sp) (checksum_of tf)" using v(3) p that by force
      then show ?thesis unfolding stored_def by (auto dest: digest_eq)
    qed
    with p(3) show ?thesis by blast
  qed
  have "m = m0 \<or> sha256_collision 32 (marshalManifest m @ [CHR 0x0A]) contents"
    by (rule digest_same_manifest [OF assms(1-3) v(1)])
  moreover have "contents = marshalManifest m @ [CHR 0x0A]" if "m = m0"
    using BuildBackupManifest_cases(4) [OF assms(1)] that by simp
  ultimately show ?thesis using v(2,4) each by metis
qed

section \<open>From the repository to the candidate\<close>

text \<open>Two trees hold the same directories and files, up to collisions of the digest of a file.\<close>

definition covers :: "(string \<times> fs_entry) list \<Rightarrow> (string \<times> fs_entry) list \<Rightarrow> bool" where
  "covers ts ts' \<longleftrightarrow> (\<forall>tf\<in>set (forest_files [] ts). \<exists>tf'\<in>set (forest_files [] ts'). fst tf' = fst tf \<and> fst (snd tf') = fst (snd tf) \<and>
     (snd (snd tf') = snd (snd tf) \<or> sha256_collision 32 (snd (snd tf')) (snd (snd tf))))"

definition same_tree :: "(string \<times> fs_entry) list \<Rightarrow> (string \<times> fs_entry) list \<Rightarrow> bool" where
  "same_tree ts ts' \<longleftrightarrow> set (forest_dirs [] ts) = set (forest_dirs [] ts') \<and> covers ts ts' \<and> covers ts' ts"

lemma covers_checksums:
  assumes "wf_forest ts" "wf_forest ts'" "checksum_of ` set (forest_files [] ts) \<subseteq> checksum_of ` set (forest_files [] ts')"
  shows "covers ts ts'"
  unfolding covers_def
proof
  fix tf assume tf: "tf \<in> set (forest_files [] ts)"
  then obtain tf' where tf': "tf' \<in> set (forest_files [] ts')" "checksum_of tf = checksum_of tf'" using assms(3) by blast
  then have eq: "join_slash (fst tf) = join_slash (fst tf')" "fst (snd tf) = fst (snd tf')"
      "ManifestDigest (snd (snd tf')) = ManifestDigest (snd (snd tf))"
    by (metis checksum_of_simps)+
  have "plains (fst tf)" "plains (fst tf')"
    using tf tf'(1) tree_prefix(2) [OF assms(1), of "[]"] tree_prefix(2) [OF assms(2), of "[]"] by auto
  then have "fst tf' = fst tf" using eq(1) by (metis join_slash_inj)
  with tf' eq(2) digest_eq [OF eq(3)] show "\<exists>tf'\<in>set (forest_files [] ts'). fst tf' = fst tf \<and> fst (snd tf') = fst (snd tf) \<and>
     (snd (snd tf') = snd (snd tf) \<or> sha256_collision 32 (snd (snd tf')) (snd (snd tf)))"
    by metis
qed

lemma same_entry_same_tree:
  assumes "wf_forest ts" "wf_forest ts'"
    and "sort_key bfc_Path (map checksum_of (forest_files [] ts)) = sort_key bfc_Path (map checksum_of (forest_files [] ts'))"
    and "sort (map join_slash (forest_dirs [] ts)) = sort (map join_slash (forest_dirs [] ts'))"
  shows "same_tree ts ts'"
proof -
  have files: "checksum_of ` set (forest_files [] ts) = checksum_of ` set (forest_files [] ts')"
    using arg_cong [OF assms(3), of set] by simp
  have dirs: "join_slash ` set (forest_dirs [] ts) = join_slash ` set (forest_dirs [] ts')"
    using arg_cong [OF assms(4), of set] by simp
  have plain: "\<forall>es \<in> set (forest_dirs [] ts) \<union> set (forest_dirs [] ts'). plains es"
    using tree_prefix(2) [OF assms(1), of "[]"] tree_prefix(2) [OF assms(2), of "[]"] by auto
  have "set (forest_dirs [] ts) = set (forest_dirs [] ts')"
    using inj_on_image_eq_iff [of join_slash "set (forest_dirs [] ts) \<union> set (forest_dirs [] ts')"] dirs plain
    by (metis Un_upper1 Un_upper2 inj_onI join_slash_inj)
  with files covers_checksums [OF assms(1,2)] covers_checksums [OF assms(2,1)] show ?thesis by (simp add: same_tree_def)
qed

lemma same_manifest_same_tree:
  assumes "BuildBackupManifest fs input root = Inr (m, contents)" "wf_fs fs" "sp \<in> set (src_Paths (bwi_Source input))" "plain (dp_Name sp)"
    and "BuildBackupManifest fs' input' root' = Inr (m, contents')" "wf_fs fs'"
  shows "\<exists>ts ts'. fs (path_Join root (dp_Name sp)) = Some (Directory (Some ts)) \<and>
    fs' (path_Join root' (dp_Name sp)) = Some (Directory (Some ts')) \<and> same_tree ts ts'"
proof -
  obtain p ts where p: "p \<in> set (bm_Paths m)" "bmp_Name p = dp_Name sp" "fs (path_Join root (dp_Name sp)) = Some (Directory (Some ts))"
      "wf_forest ts" "files_of p = sort_key bfc_Path (map checksum_of (forest_files [] ts))"
      "bmp_Directories p = Some (sort (map join_slash (forest_dirs [] ts)))"
    using built_entry [OF assms(1-4)] by blast
  obtain sp' where sp': "sp' \<in> set (src_Paths (bwi_Source input'))" "dp_Name sp' = dp_Name sp"
    using built_entry_name [OF assms(5) p(1)] p(2) by auto
  then obtain p' ts' where p': "p' \<in> set (bm_Paths m)" "bmp_Name p' = dp_Name sp" "fs' (path_Join root' (dp_Name sp)) = Some (Directory (Some ts'))"
      "wf_forest ts'" "files_of p' = sort_key bfc_Path (map checksum_of (forest_files [] ts'))"
      "bmp_Directories p' = Some (sort (map join_slash (forest_dirs [] ts')))"
    using built_entry [OF assms(5,6) sp'(1)] assms(4) by auto
  have "distinct (map bmp_Name (bm_Paths m))"
  proof -
    obtain ps where ps: "list_all2 (entry_of fs root) (src_Paths (bwi_Source input)) ps" "bm_Paths m = sort_key bmp_Name ps"
      using BuildBackupManifest_cases(5) [OF assms(1)] by blast
    have "map bmp_Name ps = map dp_Name (src_Paths (bwi_Source input))"
      using ps(1) by (induction rule: list_all2_induct) (auto simp: entry_of_def)
    with worker_paths_distinct(1) [OF BuildBackupManifest_cases(1) [OF assms(1)]] have "distinct (map bmp_Name ps)" by simp
    then show ?thesis unfolding ps(2) by (metis distinct_map distinct_sort set_sort)
  qed
  then have "p = p'" using p(1,2) p'(1,2) by (metis distinct_map inj_onD)
  with p p' same_entry_same_tree [OF p(4) p'(4)] show ?thesis by auto
qed

text \<open>
  If a run in the populate stage succeeds with the digest of a backup's manifest, the candidate
  mounts, as the run last read them, hold the same tree as the backed-up mounts: for every persistent
  path the same directories and the same files with the same sizes and contents. Again the only
  escape is a collision of SHA-256 between bytes the run read and bytes that were backed up.
\<close>

theorem populate_restores_backup:
  assumes "BuildBackupManifest fs input root = Inr (m0, contents)" "wf_fs fs" "input_utf8 input"
    and "run_state (Run we config) n = (Inr result, n')" "res_ManifestDigest result = ManifestDigest contents"
    and "res_Stage result = StagePopulate" "\<forall>k. wf_fs (we_Tree we k)"
  shows "\<exists>environment snapshotID manifest k.
    printed we environment [''dump'', ''--no-cache'', snapshotID, DefaultManifestPath] manifest \<and>
    (sha256_collision 32 manifest contents \<or>
     (\<forall>sp\<in>set (src_Paths (bwi_Source input)). \<exists>ts ts'. fs (path_Join root (dp_Name sp)) = Some (Directory (Some ts)) \<and>
        we_Tree we k (path_Join (cfgw_CandidateRoot (defaults config)) (dp_Name sp)) = Some (Directory (Some ts')) \<and> same_tree ts ts'))"
proof -
  obtain i environment snapshotID m k m' where v: "ManifestDigest (marshalManifest m @ [CHR 0x0A]) = ManifestDigest contents"
      "printed we environment [''dump'', ''--no-cache'', snapshotID, DefaultManifestPath] (marshalManifest m @ [CHR 0x0A])"
      "BuildBackupManifest (we_Tree we k) (backupInput i) (cfgw_CandidateRoot (defaults config)) = Inr (m', marshalManifest m @ [CHR 0x0A])"
    using Run_verified [OF assms(4)] assms(5,6) unfolding verified_snapshot_def by auto
  have each: "\<exists>ts ts'. fs (path_Join root (dp_Name sp)) = Some (Directory (Some ts)) \<and>
        we_Tree we k (path_Join (cfgw_CandidateRoot (defaults config)) (dp_Name sp)) = Some (Directory (Some ts')) \<and> same_tree ts ts'"
    if m: "m = m0" and sp: "sp \<in> set (src_Paths (bwi_Source input))" for sp
  proof -
    have plain: "plain (dp_Name sp)" using assms(3) sp by (auto simp: input_utf8_def list_all_iff)
    have "marshalManifest m0 = marshalManifest m'" using BuildBackupManifest_cases(4) [OF v(3)] m by simp
    then have "m' = m0" using marshalManifest_inj [OF BuildBackupManifest_utf8 [OF assms(1-3)]] by metis
    with v(3) same_manifest_same_tree [OF assms(1,2) sp plain, of "we_Tree we k"] assms(7) show ?thesis by blast
  qed
  have "m = m0 \<or> sha256_collision 32 (marshalManifest m @ [CHR 0x0A]) contents"
    by (rule digest_same_manifest [OF assms(1-3) v(1)])
  with v(2) each show ?thesis by blast
qed

text \<open>
  The restore worker accepts the manifest of every backup made from the source it was given:
  whatever the mounted trees hold, a manifest that \<^verbatim>\<open>BuildBackupManifest\<close> returns for the rebuilt
  worker input passes \<^verbatim>\<open>validateManifest\<close>, and its canonical bytes parse to the manifest wherever the
  decoder returns it.
\<close>

theorem BuildBackupManifest_accepted:
  assumes "BuildBackupManifest fs (backupInput i) root = Inr (m, contents)" "wf_fs fs"
    and "list_all (\<lambda>p. plain (dp_Name p)) (src_Paths (in_Source i))" "we_decodeManifest we contents = Some m"
  shows "parseManifest we contents = Inr m \<and> validateManifest i m = None"
  using built_manifest_accepted [OF assms(1-3)] BuildBackupManifest_cases(4) [OF assms(1)] assms(4)
  by (simp add: parseManifest_def)

end
