(* ===== verification/RestoreWorkerExample.thy ===== *)
theory RestoreWorkerExample
  imports RestoreWorkerProps
begin

text \<open>
  A concrete backup of one file, and a world in which the restore worker verifies it and populates a
  candidate: the instance at which the properties of the workers are applied.
\<close>

definition exTree :: fs_entry where
  "exTree = Directory (Some [(''level.dat'', Regular 3 (Content ''abc''))])"

definition exFs :: "string \<Rightarrow> fs_entry option" where
  "exFs p = (if p = ''/arcadectl/source/world'' \<or> p = ''/arcadectl/candidate/world'' then Some exTree else None)"

definition exSource :: DataSourceSnapshot where
  "exSource = \<lparr>
     src_GameServer = \<lparr> gref_Local = \<lparr> ref_Namespace = None, ref_Name = ''factory'', ref_UID = ''u-server'' \<rparr>,
       gref_Generation = 4, gref_DesiredState = DesiredStateStopped \<rparr>,
     src_Game = ''factorio'', src_ImageDigest = ''sha256:img'', src_SettingsDigest = ''sha256:set'',
     src_Paths = [\<lparr> dp_Name = ''world'', dp_MountPath = ''/factorio'',
       dp_ClaimRef = \<lparr> ref_Namespace = None, ref_Name = ''claim-a'', ref_UID = ''u-claim-a'' \<rparr> \<rparr>] \<rparr>"

definition exArtifactID :: string where
  "exArtifactID = (case ArtifactID ''u-backup'' of Inl _ \<Rightarrow> [] | Inr s \<Rightarrow> s)"

definition exCandidate :: string where
  "exCandidate = (case RestoreCandidateID ''u-restore'' ''world'' of Inl _ \<Rightarrow> [] | Inr s \<Rightarrow> s)"

definition exManifest :: BackupManifest where
  "exManifest = \<lparr>
     bm_FormatVersion = BackupFormatVersion, bm_ArtifactID = exArtifactID, bm_ServerUID = ''u-server'',
     bm_Game = ''factorio'', bm_ImageDigest = ''sha256:img'', bm_SettingsDigest = ''sha256:set'',
     bm_Paths = [\<lparr> bmp_Name = ''world'', bmp_MountPath = ''/factorio'', bmp_ClaimName = ''claim-a'', bmp_ClaimUID = ''u-claim-a'',
       bmp_Directories = Some [],
       bmp_Files = Some [\<lparr> bfc_Path = ''level.dat'', bfc_Size = 3, bfc_SHA256 = ManifestDigest ''abc'' \<rparr>] \<rparr>] \<rparr>"

definition exContents :: bytes where
  "exContents = marshalManifest exManifest @ [CHR 0x0A]"

definition exSecret :: ExactSecretReference where
  "exSecret = \<lparr> sref_Local = \<lparr> ref_Namespace = None, ref_Name = ''repository'', ref_UID = ''u-secret'' \<rparr>, sref_ResourceVersion = ''17'' \<rparr>"

definition exBackupRef :: ExactLocalReference where
  "exBackupRef = \<lparr> ref_Namespace = None, ref_Name = ''nightly'', ref_UID = ''u-backup'' \<rparr>"

definition exInput :: Input where
  "exInput = \<lparr>
     in_Version = InputVersion, in_Stage = StagePopulate,
     in_OperationRef = \<lparr> ref_Namespace = None, ref_Name = ''restore-1'', ref_UID = ''u-restore'' \<rparr>, in_BackupRef = exBackupRef,
     in_Target = \<lparr> gref_Local = \<lparr> ref_Namespace = None, ref_Name = ''factory'', ref_UID = ''u-server'' \<rparr>,
       gref_Generation = 4, gref_DesiredState = DesiredStateStopped \<rparr>,
     in_WorkerLeaseName = ''restore-worker'', in_RepositorySecretRef = exSecret,
     in_Artifact = \<lparr> art_Provenance = \<lparr> prov_BackupRef = exBackupRef, prov_RepositorySecretRef = exSecret \<rparr>,
       art_ID = exArtifactID, art_FormatVersion = BackupFormatVersion, art_ManifestDigest = ManifestDigest exContents,
       art_SizeBytes = 3, art_PathCount = 1, art_CreatedAt = 1,
       art_Verification = \<lparr> ver_Result = VerificationVerified, ver_VerifiedAt = Some 2 \<rparr> \<rparr>,
     in_Source = exSource, in_TargetGame = ''factorio'', in_TargetImageDigest = ''sha256:img'', in_TargetSettingsDigest = ''sha256:set'',
     in_TargetPaths = [\<lparr> pc_Name = ''world'', pc_MountPath = ''/factorio'' \<rparr>],
     in_PreviousDataIdentity = ''retained-1'',
     in_PreviousData = [\<lparr> dp_Name = ''world'', dp_MountPath = ''/factorio'',
       dp_ClaimRef = \<lparr> ref_Namespace = None, ref_Name = ''claim-a'', ref_UID = ''u-claim-a'' \<rparr> \<rparr>],
     in_CandidatePaths = [\<lparr> dp_Name = ''world'', dp_MountPath = ''/factorio'',
       dp_ClaimRef = \<lparr> ref_Namespace = None, ref_Name = exCandidate, ref_UID = ''u-claim-b'' \<rparr> \<rparr>] \<rparr>"

definition exSnapshotID :: string where "exSnapshotID = replicate 64 (CHR ''a'')"

definition exCommand :: "string list \<Rightarrow> bytes list \<times> bool" where
  "exCommand args =
     (if args = [''dump'', ''--no-cache'', exSnapshotID, DefaultManifestPath] then ([exContents], True)
      else if take 1 args = [''dump''] then ([''a'', ''bc''], True)
      else ([], True))"

definition exNode :: "string \<Rightarrow> string \<Rightarrow> int64 \<Rightarrow> resticInventoryRecord" where
  "exNode path kind sz = \<lparr> inv_StructType = ''node'', inv_ID = [], inv_Path = path, inv_Type = kind, inv_Size = sz \<rparr>"

definition exEnv :: WorkerEnv where
  "exEnv = \<lparr>
     we_IsDNS1123Label = dns_label, we_IsDNS1123Subdomain = dns_label,
     we_decodeInput = (\<lambda>_. Some exInput),
     we_decodeSnapshots = (\<lambda>_. Some [\<lparr> snap_ID = exSnapshotID,
       snap_Tags = [''arcadectl-artifact='' @ art_ID (in_Artifact exInput),
         ''arcadectl-manifest='' @ TrimPrefix (ManifestDigest exContents) ''sha256:''] \<rparr>]),
     we_decodeManifest = (\<lambda>_. Some exManifest),
     we_decodeInventory = (\<lambda>_. ([\<lparr> inv_StructType = ''snapshot'', inv_ID = exSnapshotID, inv_Path = [], inv_Type = [], inv_Size = 0 \<rparr>,
       exNode ''/arcadectl/source/world'' ''dir'' 0, exNode ''/arcadectl/source/world/level.dat'' ''file'' 3,
       exNode DefaultManifestPath ''file'' (word_of_nat (length exContents))], True)),
     we_parseURL = (\<lambda>_. Some \<lparr> url_Host = ''s3.example'', url_User = False, url_RawQuery = [], url_Fragment = [],
       url_Path = ''/bucket'', url_EscapedPath = ''/bucket'' \<rparr>),
     we_ReadFile = (\<lambda>_ _. Some ''s3:https://s3.example/bucket''),
     we_ReadDir = (\<lambda>_ _. Some [(RepositoryKeyRepository, True), (RepositoryKeyPassword, True), (RepositoryKeyAccessKeyID, True), (RepositoryKeySecretAccessKey, True)]),
     we_MkdirAll = (\<lambda>_ _. True),
     we_Command = (\<lambda>_ _ args. exCommand args),
     we_Lstat = (\<lambda>_ name. if name = ''/arcadectl/candidate'' \<or> name = ''/arcadectl/candidate/world'' then LstatDirectory else LstatMissing),
     we_Tree = (\<lambda>_. exFs),
     we_Mkdir = (\<lambda>_ _. MkdirDone), we_OpenFile = (\<lambda>_ _. True), we_Write = (\<lambda>_ _ _ _. True), we_Sync = (\<lambda>_ _. True), we_Close = (\<lambda>_ _. True), we_Now = (\<lambda>_. 9) \<rparr>"

definition exConfig :: Config where
  "exConfig = \<lparr> cfgw_InputPath = [], cfgw_CredentialsPath = [], cfgw_CandidateRoot = [], cfgw_WorkPath = [] \<rparr>"

lemmas path_eval = path_Clean_def path_Join_def path_elements_def IsAbs_def HasPrefix_def path_Dir_def path_Rel_def

lemma ex_ids [simp]: "ArtifactID ''u-backup'' = Inr exArtifactID" "RestoreCandidateID ''u-restore'' ''world'' = Inr exCandidate"
  by (simp_all add: exArtifactID_def exCandidate_def ArtifactID_def RestoreCandidateID_def restoreLabel_def deterministicID_def)

lemma ex_names [simp]: "exArtifactID \<noteq> []" "exCandidate \<noteq> ''claim-a''" "''claim-a'' \<noteq> exCandidate"
  by (simp_all add: exArtifactID_def exCandidate_def ArtifactID_def RestoreCandidateID_def restoreLabel_def deterministicID_def)

lemma ex_digest [simp]: "HasPrefix (ManifestDigest bs) ''sha256:''" "length (ManifestDigest bs) = 71"
  by (simp_all add: ManifestDigest_def HasPrefix_def)

lemma ex_wf: "wf_fs exFs"
  by (auto simp: wf_fs_def exFs_def exTree_def plain_def)

lemma exCommand_simps [simp]:
  "exCommand [''dump'', ''--no-cache'', exSnapshotID, DefaultManifestPath] = ([exContents], True)"
  "exCommand [''dump'', ''--no-cache'', exSnapshotID, ''/arcadectl/source/world/level.dat''] = ([''a'', ''bc''], True)"
  "exCommand (''snapshots'' # args) = ([], True)" "exCommand (''ls'' # args) = ([], True)" "exCommand (''check'' # args) = ([], True)"
  by (simp_all add: exCommand_def DefaultManifestPath_def)

text \<open>The fields of the input and of the world, so that neither record is unfolded below.\<close>

lemma ex_input_fields [simp]:
  "in_Stage exInput = StagePopulate" "in_TargetPaths exInput = [\<lparr> pc_Name = ''world'', pc_MountPath = ''/factorio'' \<rparr>]"
  "in_Source exInput = exSource" "ref_UID (in_OperationRef exInput) = ''u-restore''" "in_WorkerLeaseName exInput = ''restore-worker''"
  "in_PreviousDataIdentity exInput = ''retained-1''"
  "in_PreviousData exInput = [\<lparr> dp_Name = ''world'', dp_MountPath = ''/factorio'',
     dp_ClaimRef = \<lparr> ref_Namespace = None, ref_Name = ''claim-a'', ref_UID = ''u-claim-a'' \<rparr> \<rparr>]"
  "in_CandidatePaths exInput = [\<lparr> dp_Name = ''world'', dp_MountPath = ''/factorio'',
     dp_ClaimRef = \<lparr> ref_Namespace = None, ref_Name = exCandidate, ref_UID = ''u-claim-b'' \<rparr> \<rparr>]"
  "art_ID (in_Artifact exInput) = exArtifactID" "art_ManifestDigest (in_Artifact exInput) = ManifestDigest exContents"
  by (simp_all add: exInput_def)

lemma ex_source_fields [simp]:
  "src_Paths exSource = [\<lparr> dp_Name = ''world'', dp_MountPath = ''/factorio'',
     dp_ClaimRef = \<lparr> ref_Namespace = None, ref_Name = ''claim-a'', ref_UID = ''u-claim-a'' \<rparr> \<rparr>]"
  "ref_UID (gref_Local (src_GameServer exSource)) = ''u-server''" "src_Game exSource = ''factorio''"
  "src_ImageDigest exSource = ''sha256:img''" "src_SettingsDigest exSource = ''sha256:set''"
  by (simp_all add: exSource_def)

lemma ex_env_fields [simp]:
  "we_IsDNS1123Label exEnv = dns_label" "we_IsDNS1123Subdomain exEnv = dns_label" "we_decodeInput exEnv bs = Some exInput"
  "we_decodeManifest exEnv bs = Some exManifest" "we_ReadFile exEnv n p = Some ''s3:https://s3.example/bucket''"
  "we_MkdirAll exEnv n p" "we_Command exEnv n env args = exCommand args" "we_Tree exEnv n = exFs" "we_Mkdir exEnv n p = MkdirDone"
  "we_OpenFile exEnv n p" "we_Write exEnv n p b c" "we_Sync exEnv n p" "we_Close exEnv n p"
  by (simp_all add: exEnv_def)

lemma ex_backup_input: "ValidateBackupWorkerInput (backupInput exInput) = None"
  by (simp add: ValidateBackupWorkerInput_def Let_def guard_simps backupInput_def exInput_def exBackupRef_def exSecret_def
      workerPathError_def HasPrefix_def)

lemma ex_contract: "\<not> contractInvalid exInput" "\<not> artifactIncompatible exInput"
  by (simp_all add: contractInvalid_def artifactIncompatible_def exInput_def exBackupRef_def exSecret_def
      sameLocal_def sameSecret_def InputVersion_def int32_of_len_def)

lemma ex_mounts [simp]:
  "safeMountPath ''/factorio''" "mountOf [\<lparr> pc_Name = ''world'', pc_MountPath = ''/factorio'' \<rparr>] ''world'' = ''/factorio''" "mountOf [] name = []"
  by (simp_all add: safeMountPath_def path_eval mountOf_def mget_def)

lemma ex_labels [simp]: "dns_label ''world''" "dns_label ''retained-1''" "dns_label ''restore-worker''"
  by (simp_all add: dns_label_def char_class_defs)

lemma ex_input_valid: "ValidateInput exEnv exInput = None"
  using ex_contract ex_backup_input
  by (simp add: ValidateInput_def guard_simps targetPathError_def sourcePathDiffers_def previousPathError_def candidatePathError_def
      candidateAliases_def safePathName_def)

section \<open>The backup\<close>

lemma ex_paths [simp]:
  "path_Join ''/arcadectl/source'' ''world'' = ''/arcadectl/source/world''"
  "path_Join ''/arcadectl/candidate'' ''world'' = ''/arcadectl/candidate/world''"
  "path_Join ''/arcadectl/source/world'' ''level.dat'' = ''/arcadectl/source/world/level.dat''"
  "path_Join ''/arcadectl/candidate/world'' ''level.dat'' = ''/arcadectl/candidate/world/level.dat''"
  "path_Dir ''/arcadectl/candidate/world/level.dat'' = ''/arcadectl/candidate/world''"
  "path_Rel ''/arcadectl/source/world'' ''/arcadectl/source/world/level.dat'' = Some ''level.dat''"
  "path_Rel ''/arcadectl/candidate/world'' ''/arcadectl/candidate/world/level.dat'' = Some ''level.dat''"
  "path_Clean ''/arcadectl/source'' = ''/arcadectl/source''" "path_Clean ''/arcadectl/candidate'' = ''/arcadectl/candidate''"
  "path_Clean ''/arcadectl/work'' = ''/arcadectl/work''"
  "IsAbs ''/arcadectl/source''" "IsAbs ''/arcadectl/candidate''" "IsAbs ''/arcadectl/work''"
  by (simp_all add: path_eval)

lemma ex_level_dat [simp]: "utf8_Valid ''level.dat''" "\<not> Contains ''level.dat'' RuneError" "safeRelative ''level.dat''"
  by (simp_all add: safeRelative_def path_eval utf8_Valid.simps utf8_size.simps RuneError_def)

lemma ex_built:
  "BuildBackupManifest exFs (backupInput exInput) ''/arcadectl/source'' = Inr (exManifest, exContents)"
  "BuildBackupManifest exFs (backupInput exInput) ''/arcadectl/candidate'' = Inr (exManifest, exContents)"
  using ex_backup_input
  by (simp_all add: BuildBackupManifest_def hashPath_def exFs_def exTree_def relativeName_def hashFile_def exContents_def backupInput_def
      exManifest_def ManifestDigest_def HasPrefix_def IsAbs_def RuneError_def Let_def)

lemma ex_accepted: "validateManifest exInput exManifest = None"
  by (rule built_manifest_accepted [OF ex_built(1) ex_wf]) (simp add: plain_def)

lemma ex_utf8: "input_utf8 (backupInput exInput)"
proof -
  have "list_all (\<lambda>c. (of_char c :: nat) < 128) (hex m)" for m
    using hex_alphabet [of m] by (auto simp: list_all_iff is_lower_hex_def is_digit_def)
  then have "utf8_Valid exArtifactID"
    by (intro utf8_ascii) (simp add: exArtifactID_def ArtifactID_def deterministicID_def)
  then show ?thesis by (simp add: input_utf8_def backupInput_def plain_def utf8_ascii)
qed

lemma json_escape_length: "length (json_escape s) \<le> 6 * length s"
proof (induction s rule: json_escape.induct)
  case (1 s)
  have byte: "length (json_escape_byte c) \<le> 6" for c by (simp add: json_escape_byte_def Let_def)
  consider "s = []" | "s \<noteq> []" "utf8_size s = 0" | "s \<noteq> []" "utf8_size s = 1" | "s \<noteq> []" "utf8_size s \<ge> 2" by linarith
  then show ?case
  proof cases
    case 2
    then show ?thesis using 1 by (subst json_escape.simps) (cases s; auto)
  next
    case 3
    then show ?thesis using 1 byte [of "hd s"] by (subst json_escape.simps) (cases s; auto)
  next
    case 4
    moreover from 4 have "length (json_escape (drop (utf8_size s) s)) \<le> 6 * (length s - utf8_size s)" using 1 by fastforce
    ultimately show ?thesis using utf8_size_le [of s] by (subst json_escape.simps) (auto simp: Let_def min_def)
  qed (simp add: json_escape.simps)
qed

lemma ex_contents_length: "length exContents \<le> 4096"
proof -
  have quote: "length (json_quote s) \<le> 2 + 6 * length s" for s
    using json_escape_length [of s] by (simp add: json_quote_def)
  have "length exArtifactID = 71" by (simp add: exArtifactID_def ArtifactID_def deterministicID_def)
  then show ?thesis
    using quote [of exArtifactID] quote [of "ManifestDigest ''abc''"] quote [of BackupFormatVersion] quote [of "''u-server''"]
      quote [of "''factorio''"] quote [of "''sha256:img''"] quote [of "''sha256:set''"] quote [of "''world''"] quote [of "''/factorio''"]
      quote [of "''claim-a''"] quote [of "''u-claim-a''"] quote [of "''level.dat''"]
    by (simp add: exContents_def exManifest_def marshalManifest_def marshalPath_def marshalChecksum_def json_object_def json_field_def
        json_array_def json_int64_def nat_decimal_def digits_rev.simps BackupFormatVersion_def)
qed

section \<open>The run\<close>

lemma ex_secret_valid:
  "ValidateRepositorySecretData (we_parseURL exEnv) (map (\<lambda>k. (k, ''s3:https://s3.example/bucket''))
     [RepositoryKeyRepository, RepositoryKeyPassword, RepositoryKeyAccessKeyID, RepositoryKeySecretAccessKey]) = None"
  by (simp add: ValidateRepositorySecretData_def guard_simps secretKeyError_def repositorySecretLimits_def validS3Repository_def
      RepositoryKeyRepository_def RepositoryKeyPassword_def RepositoryKeyAccessKeyID_def RepositoryKeySecretAccessKey_def
      RepositoryKeySessionToken_def RepositoryKeyCACertificate_def ContainsAny_def mget_def HasPrefix_def TrimPrefix_def exEnv_def trim_slashes_def)

lemma ex_credentials: "wp (readCredentials exEnv d w) (\<lambda>r t. \<exists>environment. r = Inr environment) n"
  using ex_secret_valid
  by (simp add: readCredentials_def wp_simps exEnv_def [THEN arg_cong, of we_ReadDir] RepositoryKeyRepository_def RepositoryKeyPassword_def
      RepositoryKeyAccessKeyID_def RepositoryKeySecretAccessKey_def HasPrefix_def)

lemma ex_decodeInventory:
  "we_decodeInventory exEnv bs = ([\<lparr> inv_StructType = ''snapshot'', inv_ID = exSnapshotID, inv_Path = [], inv_Type = [], inv_Size = 0 \<rparr>,
     exNode ''/arcadectl/source/world'' ''dir'' 0, exNode ''/arcadectl/source/world/level.dat'' ''file'' 3,
     exNode DefaultManifestPath ''file'' (word_of_nat (length exContents))], True)"
  by (simp add: exEnv_def)

lemma ex_node:
  "p \<in> {''/arcadectl/work/manifest.json'', ''/arcadectl/source/world/level.dat'', ''/arcadectl/source/world''} \<Longrightarrow>
   IsAbs p \<and> path_Clean p = p \<and> utf8_Valid p \<and> \<not> Contains p RuneError"
  by (auto simp: path_eval utf8_ascii RuneError_def)

lemmas ex_nodes = ex_node [of "''/arcadectl/work/manifest.json''"] ex_node [of "''/arcadectl/source/world/level.dat''"]
  ex_node [of "''/arcadectl/source/world''"]

lemma ex_inventory: "wp (verifyInventory exEnv environment exSnapshotID exManifest (word_of_nat (length exContents))) (\<lambda>r t. r = None) n"
proof -
  have manifest: "inventoryRequests exManifest sz = [(''/arcadectl/source/world'', ''dir'', 0),
      (''/arcadectl/source/world/level.dat'', ''file'', 3), (''/arcadectl/work/manifest.json'', ''file'', sz)]" for sz
    by (simp add: inventoryRequests_def exManifest_def DefaultSourceRoot_def DefaultManifestPath_def)
  obtain e where e: "addAll (inventoryRequests exManifest (word_of_nat (length exContents))) [] = Inr e"
    "map_of e ''/arcadectl/source/world'' = Some \<lparr> node_kind = ''dir'', node_size = 0, node_required = True \<rparr>"
    "map_of e ''/arcadectl/source/world/level.dat'' = Some \<lparr> node_kind = ''file'', node_size = 3, node_required = True \<rparr>"
    "map_of e ''/arcadectl/work/manifest.json'' = Some \<lparr> node_kind = ''file'', node_size = word_of_nat (length exContents), node_required = True \<rparr>"
    "\<not> incomplete e [''/arcadectl/work/manifest.json'', ''/arcadectl/source/world/level.dat'', ''/arcadectl/source/world'']"
    by (simp add: manifest addExpected_def path_eval Let_def incomplete_def)
  have "scanRecords exSnapshotID e False [] (fst (we_decodeInventory exEnv bs)) =
      Inr (True, [''/arcadectl/work/manifest.json'', ''/arcadectl/source/world/level.dat'', ''/arcadectl/source/world''])" for bs
    using e(2-4) ex_nodes by (simp add: ex_decodeInventory exNode_def DefaultManifestPath_def del: Contains.simps)
  then show ?thesis
    using e(5) by (simp add: verifyInventory_def e(1) wp_simps limitedStream_def run_command_def Let_def ex_decodeInventory guard_simps del: scanRecords.simps)
qed

lemma ex_stream:
  "(\<And>b c. accepts b c) \<Longrightarrow> wp (streamFile exEnv environment accepts exSnapshotID ''world'' \<lparr> bfc_Path = ''level.dat'', bfc_Size = 3, bfc_SHA256 = d \<rparr>)
     (\<lambda>r t. r = Inr \<lparr> cw_bytes = 3, cw_written = ''abc'' \<rparr>) n"
  by (simp add: streamFile_def dumpArgs_def run_command_def wp_simps Let_def DrainingWriter_Write_def countingWriter_Write_def DefaultSourceRoot_def)

lemma ex_matches: "fileMatches \<lparr> bfc_Path = ''level.dat'', bfc_Size = 3, bfc_SHA256 = ManifestDigest ''abc'' \<rparr> \<lparr> cw_bytes = 3, cw_written = ''abc'' \<rparr>"
  by (simp add: fileMatches_def ManifestDigest_def)

lemma ex_paths_of_manifest: "bm_Paths exManifest = [\<lparr> bmp_Name = ''world'', bmp_MountPath = ''/factorio'', bmp_ClaimName = ''claim-a'',
   bmp_ClaimUID = ''u-claim-a'', bmp_Directories = Some [],
   bmp_Files = Some [\<lparr> bfc_Path = ''level.dat'', bfc_Size = 3, bfc_SHA256 = ManifestDigest ''abc'' \<rparr>] \<rparr>]"
  by (simp add: exManifest_def)

lemma ex_files: "wp (verifyFiles exEnv environment exSnapshotID exManifest) (\<lambda>r t. r = None) n"
  unfolding verifyFiles_def ex_paths_of_manifest
  by (simp add: verifyRepositoryFile_def wp_simps) (rule wp_mono [OF ex_stream], simp_all add: hashWriter_def ex_matches guard_simps wp_simps)

lemma ex_lstat: "we_Lstat exEnv n ''/arcadectl/candidate'' = LstatDirectory" "we_Lstat exEnv n ''/arcadectl/candidate/world'' = LstatDirectory"
  "we_Lstat exEnv n ''/arcadectl/candidate/world/level.dat'' = LstatMissing"
  by (simp_all add: exEnv_def)

lemma ex_populate: "wp (populate exEnv ''/arcadectl/candidate'' exInput exManifest exContents exSnapshotID environment) (\<lambda>r t. r = None) n"
proof -
  have scan: "scanEntry p ''/arcadectl/candidate/world'' ''/arcadectl/candidate/world'' exTree = None"
    if "p \<in> set (bm_Paths exManifest)" for p
    using that by (simp add: ex_paths_of_manifest exTree_def scanVisit_def guard_simps)
  have stored: "wp (writeCandidateFile exEnv environment exSnapshotID ''world''
      \<lparr> bfc_Path = ''level.dat'', bfc_Size = 3, bfc_SHA256 = ManifestDigest ''abc'' \<rparr> ''/arcadectl/candidate/world/level.dat'') (\<lambda>r t. r = None) t" for t
    by (simp add: writeCandidateFile_def requireDirectory_def wp_simps ex_lstat guard_simps Let_def)
       (rule wp_mono [OF ex_stream], simp_all add: wp_simps ex_matches guard_simps)
  have path: "wp (populatePath exEnv environment exSnapshotID ''/arcadectl/candidate'' p) (\<lambda>r t. r = None) t" if "p \<in> set (bm_Paths exManifest)" for p t
    using that
    by (simp add: ex_paths_of_manifest populatePath_def Let_def wp_simps)
       (rule wp_mono [OF stored], simp add: wp_simps syncDirectory_def guard_simps)
  show ?thesis
    using scan path
    by (simp add: populate_def wp_simps requireDirectory_def scanCandidate_def ex_lstat guard_simps ex_paths_of_manifest Let_def exFs_def [of "''/arcadectl/candidate/world''"])
       (rule wp_mono [OF path], simp_all add: ex_paths_of_manifest wp_simps ex_built guard_simps)
qed

lemma ex_run_stage:
  "wp (runStage exEnv (defaults exConfig) exInput environment exSnapshotID exContents exManifest)
     (\<lambda>r t. \<exists>result. r = Inr result \<and> res_ManifestDigest result = ManifestDigest exContents \<and> res_Stage result = StagePopulate) n"
  by (simp add: runStage_def wp_simps defaults_def exConfig_def DefaultCandidateRoot_def)
     (rule wp_mono [OF ex_populate], simp add: finish_def wp_simps)

lemma ex_limited: "maximum \<ge> 4096 \<Longrightarrow> wp (limitedStream exEnv environment maximum [''dump'', ''--no-cache'', exSnapshotID, DefaultManifestPath]) (\<lambda>r t. r = Inr exContents) n"
  using ex_contents_length
  by (simp add: limitedStream_def run_command_def wp_simps Let_def DrainingWriter_Write_def limitedWriter_Write_def)

lemma ex_control: "wp (Control exEnv environment (''check'' # args)) (\<lambda>r t. \<exists>out. r = Inr out) n"
  "wp (Control exEnv environment (''snapshots'' # args)) (\<lambda>r t. r = Inr []) n"
  by (simp_all add: Control_def run_command_def wp_simps Let_def)

lemma ex_run_snapshot:
  "wp (runSnapshot exEnv (defaults exConfig) exInput environment exSnapshotID)
     (\<lambda>r t. \<exists>result. r = Inr result \<and> res_ManifestDigest result = ManifestDigest exContents \<and> res_Stage result = StagePopulate) n"
proof -
  have parse: "parseManifest exEnv exContents = Inr exManifest" by (simp add: parseManifest_def exContents_def)
  show ?thesis
    unfolding runSnapshot_def wp_failing
  proof (rule wp_mono [OF ex_limited], simp add: maxManifestBytes_def, simp add: parse ex_accepted wp_rejecting,
      rule wp_mono [OF ex_inventory], simp add: wp_failing, rule wp_mono [OF ex_control(1)], clarsimp simp: wp_rejecting)
    show "wp (verifyFiles exEnv environment exSnapshotID exManifest) (\<lambda>r. case r of None \<Rightarrow>
        wp (runStage exEnv (defaults exConfig) exInput environment exSnapshotID exContents exManifest) (\<lambda>r t. \<exists>result. r = Inr result \<and>
          res_ManifestDigest result = ManifestDigest exContents \<and> res_Stage result = StagePopulate) | Some e \<Rightarrow> \<lambda>t. False) t" for t
      by (rule wp_mono [OF ex_files]) (simp add: ex_run_stage)
  qed
qed

lemma ex_select: "selectSnapshot exEnv exInput output = Some exSnapshotID"
  by (simp add: selectSnapshot_def exEnv_def snapshotIDPattern_def exSnapshotID_def list_all_iff is_lower_hex_def)

lemma ex_run: "\<exists>result n'. run_state (Run exEnv exConfig) 0 = (Inr result, n') \<and> res_ManifestDigest result = ManifestDigest exContents \<and>
    res_Stage result = StagePopulate"
proof -
  have config: "defaults exConfig = \<lparr> cfgw_InputPath = DefaultInputPath, cfgw_CredentialsPath = DefaultCredentialsPath,
      cfgw_CandidateRoot = ''/arcadectl/candidate'', cfgw_WorkPath = ''/arcadectl/work'' \<rparr>"
    by (simp add: defaults_def exConfig_def DefaultCandidateRoot_def DefaultWorkPath_def)
  have apart: "\<not> workPathsOverlap ''/arcadectl/work'' ''/arcadectl/candidate''"
    by (simp add: workPathsOverlap_def below_def path_eval)
  have snapshots: "wp (failing (Control exEnv environment (''snapshots'' # args)) FailureRepository (\<lambda>output.
      if length output > maxControlBytes then State_Monad.return (Inl FailureVerification)
      else (case selectSnapshot exEnv exInput output of None \<Rightarrow> State_Monad.return (Inl FailureVerification)
        | Some snapshotID \<Rightarrow> runSnapshot exEnv (defaults exConfig) exInput environment snapshotID)))
    (\<lambda>r t. \<exists>result. r = Inr result \<and> res_ManifestDigest result = ManifestDigest exContents \<and> res_Stage result = StagePopulate) n" for environment args n
    unfolding wp_failing by (rule wp_mono [OF ex_control(2)]) (simp add: ex_select ex_run_snapshot)
  have "wp (Run exEnv exConfig) (\<lambda>r t. \<exists>result. r = Inr result \<and> res_ManifestDigest result = ManifestDigest exContents \<and>
      res_Stage result = StagePopulate) 0"
    using apart
    by (simp add: Run_def config [THEN arg_cong, of cfgw_WorkPath] config [THEN arg_cong, of cfgw_CandidateRoot] Let_def
        wp_failing [of "readInput a b" for a b] wp_failing [of "readCredentials a b c" for a b c] readInput_def wp_simps ex_input_valid maxInputBytes_def)
      (rule wp_mono [OF ex_credentials], auto intro!: snapshots)
  then show ?thesis by (cases "run_state (Run exEnv exConfig) 0") (simp add: wp_def)
qed

section \<open>Witnesses\<close>

lemma ex_worlds: "\<forall>k. wf_fs (we_Tree exEnv k)"
  by (simp add: ex_wf)

theorem preflight_reads_back_backup_witness:
  "\<exists>environment snapshotID manifest.
    printed exEnv environment [''dump'', ''--no-cache'', snapshotID, DefaultManifestPath] manifest \<and>
    (sha256_collision 32 manifest exContents \<or>
     listed exEnv environment snapshotID (set (inventoryRequests exManifest (word_of_nat (length exContents)))) \<and>
     (\<forall>sp\<in>set (src_Paths (bwi_Source (backupInput exInput))). \<exists>ts. exFs (path_Join ''/arcadectl/source'' (dp_Name sp)) = Some (Directory (Some ts)) \<and>
        (\<forall>tf\<in>set (forest_files [] ts). \<exists>out. printed exEnv environment (dumpArgs snapshotID (dp_Name sp) (checksum_of tf)) out \<and>
           (out = snd (snd tf) \<or> sha256_collision 32 out (snd (snd tf))))))"
  using ex_run preflight_reads_back_backup [OF ex_built(1) ex_wf ex_utf8] by blast

theorem BuildBackupManifest_accepted_witness:
  "parseManifest exEnv exContents = Inr exManifest \<and> validateManifest exInput exManifest = None"
  by (rule BuildBackupManifest_accepted [OF ex_built(1) ex_wf]) (simp_all add: plain_def)

end
