(* ===== verification/KubeDestroyProps.thy ===== *)
theory KubeDestroyProps
  imports KubeDestroy WorkerPods Interfaces RestoreWorkerExample
begin

text \<open>
  The names of Leases and worker resources, the authority and the Pod that \<^verbatim>\<open>BuildDestroyResources\<close>
  gives its worker, and the comparison of a Job with what was requested.
\<close>

section \<open>Names\<close>

abbreviation data_lease_encoding :: "string \<Rightarrow> bytes" where
  "data_lease_encoding k \<equiv> ''arcadectl/data-operation/'' @ k"

abbreviation worker_lease_encoding :: "string \<Rightarrow> bytes" where
  "worker_lease_encoding uid \<equiv> ''arcadectl/destroy-worker/'' @ uid"

abbreviation worker_job_encoding :: "string \<Rightarrow> bytes" where
  "worker_job_encoding uid \<equiv> ''arcadectl/destroy-job/'' @ uid"

text \<open>The name of the Job without its suffix.\<close>

definition jobPrefix :: "UID \<Rightarrow> string" where
  "jobPrefix uid = ''destroy-'' @ hex (take 16 (sha256 (worker_job_encoding uid)))"

lemma DestroyResourceName_prefix: "uid \<noteq> [] \<Longrightarrow> DestroyResourceName uid = jobPrefix uid @ ''-preflight''"
  by (simp add: DestroyResourceName_def jobPrefix_def)

interpretation data_lease: digest_identity data_lease_encoding "\<lambda>_. True" "''data-operation-''" 16 DataOperationLeaseName
  by unfold_locales (simp_all add: DataOperationLeaseName_def)

interpretation worker_lease: digest_identity worker_lease_encoding "\<lambda>uid. uid \<noteq> []" "''destroy-worker-''" 16 DestroyWorkerLeaseName
  by unfold_locales (simp_all add: DestroyWorkerLeaseName_def)

interpretation worker_job: digest_identity worker_job_encoding "\<lambda>uid. uid \<noteq> []" "''destroy-''" 16 jobPrefix
  by unfold_locales (simp_all add: jobPrefix_def)

lemma dns_label_append: "dns_label s \<Longrightarrow> length (s @ x) \<le> 63 \<Longrightarrow> x \<noteq> [] \<Longrightarrow> is_alnum (last x) \<Longrightarrow> list_all (\<lambda>c. is_alnum c \<or> c = CHR ''-'') x \<Longrightarrow> dns_label (s @ x)"
  by (auto simp: dns_label_def)

lemma lease_prefixes: "uid \<noteq> [] \<Longrightarrow> DataOperationLeaseName k \<noteq> DestroyWorkerLeaseName uid"
  by (simp add: DataOperationLeaseName_def DestroyWorkerLeaseName_def)

text \<open>
  For every world identity and operation UID, the data lease, the worker lease, the Job and its authority have
  names that are DNS labels of at most 63 bytes; a data lease never has the name of a worker lease; and two worlds
  that get the same data lease, or two operations that get the same worker lease or Job, are the same unless the
  two encodings named here collide under SHA-256 truncated to 16 bytes.
\<close>
theorem destroy_names_identity:
  assumes "uid \<noteq> []" "uid' \<noteq> []"
  shows "dns_label (DataOperationLeaseName k) \<and> dns_label (DestroyWorkerLeaseName uid) \<and> dns_label (DestroyResourceName uid) \<and>
    dns_label (DestroyResourceName uid @ ''-authority'') \<and> dns_label (DestroyResourceName uid @ ''-input'') \<and>
    DataOperationLeaseName k \<noteq> DestroyWorkerLeaseName uid \<and>
    (DataOperationLeaseName k = DataOperationLeaseName k' \<longrightarrow> k = k' \<or> sha256_collision 16 (data_lease_encoding k) (data_lease_encoding k')) \<and>
    (DestroyWorkerLeaseName uid = DestroyWorkerLeaseName uid' \<longrightarrow> uid = uid' \<or> sha256_collision 16 (worker_lease_encoding uid) (worker_lease_encoding uid')) \<and>
    (DestroyResourceName uid = DestroyResourceName uid' \<longrightarrow> uid = uid' \<or> sha256_collision 16 (worker_job_encoding uid) (worker_job_encoding uid'))"
proof -
  have prefix: "dns_label (jobPrefix uid)" "length (jobPrefix uid) = 40"
    using worker_job.ident_dns_label [OF assms(1)] worker_job.ident_length [OF assms(1)] by (simp_all add: char_class_defs)
  have job: "dns_label (DestroyResourceName uid)" "dns_label (DestroyResourceName uid @ ''-authority'')" "dns_label (DestroyResourceName uid @ ''-input'')"
    unfolding DestroyResourceName_prefix [OF assms(1)] append_assoc
    by (rule dns_label_append [OF prefix(1)]; simp add: prefix(2) char_class_defs)+
  have leases: "dns_label (DataOperationLeaseName k)" "dns_label (DestroyWorkerLeaseName uid)"
    using data_lease.ident_dns_label worker_lease.ident_dns_label [OF assms(1)] by (simp_all add: char_class_defs)
  have same_job: "uid = uid' \<or> sha256_collision 16 (worker_job_encoding uid) (worker_job_encoding uid')" if "DestroyResourceName uid = DestroyResourceName uid'"
    using worker_job.ident_inj [OF assms] that by (simp add: DestroyResourceName_prefix assms)
  show ?thesis
    using job leases lease_prefixes [OF assms(1)] data_lease.ident_inj [of k k'] worker_lease.ident_inj [OF assms] same_job by blast
qed

theorem destroy_names_identity_witness: "dns_label (DestroyResourceName ''u-1'') \<and> DataOperationLeaseName ''w'' \<noteq> DestroyWorkerLeaseName ''u-1''"
  using destroy_names_identity [of "''u-1''" "''u-2''" "''w''" "''w''"] by simp

section \<open>The worker's authority\<close>

text \<open>What a list of rules lets a service account do to an object of a resource.\<close>

definition grants :: "PolicyRule list \<Rightarrow> string \<Rightarrow> string \<Rightarrow> string \<Rightarrow> bool" where
  "grants rules verb resource name \<longleftrightarrow>
     list_ex (\<lambda>rule. verb \<in> set (rule_Verbs rule) \<and> resource \<in> set (rule_Resources rule) \<and>
       (rule_ResourceNames rule = [] \<or> name \<in> set (rule_ResourceNames rule))) rules"

definition claim_volume :: "Volume \<Rightarrow> bool" where
  "claim_volume v \<longleftrightarrow> (case volume_Source v of ClaimVolume _ _ \<Rightarrow> True | _ \<Rightarrow> False)"

lemma BuildDestroyResources_Inr:
  assumes "BuildDestroyResources we enc d i workerImage identity = Inr res"
  shows "\<exists>contents. res = destroyResources d (i\<lparr> in_TargetPaths := sort_key pc_Name (in_TargetPaths i) \<rparr>) contents workerImage identity"
    "destroyIdentityError we d i workerImage identity = None"
  using assms by (auto simp: BuildDestroyResources_def Let_def guard_simps split: option.splits)

text \<open>
  C32. The worker that \<^verbatim>\<open>BuildDestroyResources\<close> builds cannot touch the world. Its Job starts suspended and its Pod
  gated; every container runs the pinned image as a user other than root; no volume is a claim. Its role can read
  only the one destroy object, the one backup, Pods, the one repository Secret and the two leases, and can change
  nothing but its own worker lease: in particular not the data lease, and no right on claims at all.
\<close>
theorem destroy_worker_inert:
  assumes "BuildDestroyResources we enc d i workerImage identity = Inr res"
  shows "js_Suspend (job_Spec (dr_Job res)) = Some True \<and>
    ps_SchedulingGates (js_TemplateSpec (job_Spec (dr_Job res))) = [DestroySchedulingGate] \<and>
    pinnedWorkerImagePattern workerImage \<and>
    (\<forall>c\<in>set (ps_InitContainers (js_TemplateSpec (job_Spec (dr_Job res))) @ ps_Containers (js_TemplateSpec (job_Spec (dr_Job res)))). ctr_Image c = workerImage) \<and>
    (\<exists>u. psec_RunAsUser (ps_Security (js_TemplateSpec (job_Spec (dr_Job res)))) = Some u \<and> 0 < sint u) \<and>
    (\<forall>v\<in>set (ps_Volumes (js_TemplateSpec (job_Spec (dr_Job res)))). \<not> claim_volume v) \<and>
    (\<forall>verb resource name. grants (role_Rules (dr_Role res)) verb resource name \<longrightarrow>
       resource \<noteq> ''persistentvolumeclaims'' \<and>
       (resource = ''secrets'' \<longrightarrow> name = ref_Name (sref_Local (the (ds_RepositorySecretRef (gd_Spec d))))) \<and>
       (verb = ''get'' \<or> verb = ''update'' \<and> resource = ''leases'' \<and> name = DestroyWorkerLeaseName (meta_UID (gd_Meta d)) \<and>
          name \<noteq> DataOperationLeaseName (rdata_Identity (dt_Data (targetOf d)))))"
proof -
  obtain contents where res: "res = destroyResources d (i\<lparr> in_TargetPaths := sort_key pc_Name (in_TargetPaths i) \<rparr>) contents workerImage identity"
    using BuildDestroyResources_Inr(1) [OF assms] by blast
  have ok: "meta_UID (gd_Meta d) \<noteq> []" "pinnedWorkerImagePattern workerImage" "0 < sint (rid_UserID identity)"
    "in_WorkerLeaseName i = DestroyWorkerLeaseName (meta_UID (gd_Meta d))"
    "sameSecret (in_RepositorySecretRef i) (the (ds_RepositorySecretRef (gd_Spec d)))"
    using BuildDestroyResources_Inr(2) [OF assms] by (simp_all add: destroyIdentityError_def guard_simps)
  have secret: "ref_Name (sref_Local (in_RepositorySecretRef i)) = ref_Name (sref_Local (the (ds_RepositorySecretRef (gd_Spec d))))"
    using ok(5) by (simp add: sameSecret_def sameLocal_def)
  have grants: "resource \<noteq> ''persistentvolumeclaims'' \<and>
       (resource = ''secrets'' \<longrightarrow> name = ref_Name (sref_Local (the (ds_RepositorySecretRef (gd_Spec d))))) \<and>
       (verb = ''get'' \<or> verb = ''update'' \<and> resource = ''leases'' \<and> name = DestroyWorkerLeaseName (meta_UID (gd_Meta d)) \<and>
          name \<noteq> DataOperationLeaseName (rdata_Identity (dt_Data (targetOf d))))"
    if "grants (role_Rules (dr_Role res)) verb resource name" for verb resource name
    using that ok(4) secret lease_prefixes [OF ok(1), of "rdata_Identity (dt_Data (targetOf d))"]
    by (auto simp: res destroyResources_def Let_def destroyRules_def grants_def)
  have pod: "js_TemplateSpec (job_Spec (dr_Job res)) = destroyPodSpec (DestroyResourceName (meta_UID (gd_Meta d))) workerImage identity"
    "js_Suspend (job_Spec (dr_Job res)) = Some True"
    by (simp_all add: res destroyResources_def destroyJob_def Let_def)
  show ?thesis
    unfolding pod
    using ok grants by (auto simp: destroyPodSpec_def destroyAuthorizer_def destroyWorker_def destroyVolumes_def claim_volume_def)
qed

end
