(* ===== verification/KubeDataProps.thy ===== *)
theory KubeDataProps
  imports KubeRestore KubeDestroyProps
begin

text \<open>
  What the workers of backups and restores can touch: the claims that their Pods mount, and what their service
  accounts may do.
\<close>

section \<open>Pods\<close>

text \<open>The claims of a Pod, in the order of its volumes, and the mounts of a container that lead into a claim.\<close>

definition volume_claims :: "Volume \<Rightarrow> (string \<times> bool) list" where
  "volume_claims v = (case volume_Source v of ClaimVolume claim readOnly \<Rightarrow> [(claim, readOnly)] | _ \<Rightarrow> [])"

definition pod_claims :: "PodSpec \<Rightarrow> (string \<times> bool) list" where
  "pod_claims pod = concat (map volume_claims (ps_Volumes pod))"

definition claim_mounts :: "PodSpec \<Rightarrow> Container \<Rightarrow> VolumeMount list" where
  "claim_mounts pod c = filter (\<lambda>mount. list_ex (\<lambda>v. volume_Name v = vm_Name mount \<and> claim_volume v) (ps_Volumes pod)) (ctr_VolumeMounts c)"

abbreviation template :: "Job \<Rightarrow> PodSpec" where "template job \<equiv> js_TemplateSpec (job_Spec job)"

text \<open>A worker that does nothing until it is released: suspended, gated, unprivileged, from a pinned image.\<close>

definition worker_inert :: "Job \<Rightarrow> string \<Rightarrow> string \<Rightarrow> bool" where
  "worker_inert job gate workerImage \<longleftrightarrow> js_Suspend (job_Spec job) = Some True \<and> ps_SchedulingGates (template job) = [gate] \<and>
     ps_AutomountServiceAccountToken (template job) = Some False \<and> pinnedWorkerImagePattern workerImage \<and>
     list_all (\<lambda>c. ctr_Image c = workerImage \<and> ctr_Security c = restrictedContainer) (ps_InitContainers (template job) @ ps_Containers (template job)) \<and>
     (case psec_RunAsUser (ps_Security (template job)) of None \<Rightarrow> False | Some u \<Rightarrow> 0 < sint u)"

lemma source_claims [simp]: "concat (map (volume_claims \<circ> sourceVolume) (enumerate k ps)) = map (\<lambda>p. (ref_Name (dp_ClaimRef p), True)) ps"
  by (induction ps arbitrary: k) (simp_all add: sourceVolume_def volume_claims_def)

lemma candidate_claims [simp]: "concat (map (volume_claims \<circ> candidateVolume) (enumerate k ps)) = map (\<lambda>p. (ref_Name (dp_ClaimRef p), False)) ps"
  by (induction ps arbitrary: k) (simp_all add: candidateVolume_def volume_claims_def)

lemma fixed_volumes [simp]: "concat (map volume_claims (workerVolumes medium name)) = []"
  by (simp add: workerVolumes_def volume_claims_def)

lemma fixed_no_claim: "v \<in> set (workerVolumes medium name) \<Longrightarrow> \<not> claim_volume v"
  by (auto simp: workerVolumes_def claim_volume_def)

text \<open>The mounts that every worker and its authorizer have lead into no claim, whatever indexed volumes are added.\<close>

lemma fixed_mounts:
  assumes "mount \<in> set (workerMounts @ authorizerMounts)" "\<And>v. v \<in> set vs \<Longrightarrow> \<exists>k. volume_Name v = indexedName stem k" "stem \<in> {''source-'', ''candidate-''}"
  shows "\<not> list_ex (\<lambda>v. volume_Name v = vm_Name mount \<and> claim_volume v) (workerVolumes medium name @ vs)"
proof -
  have "volume_Name v \<noteq> vm_Name mount" if "v \<in> set vs" for v
    using assms(1,3) assms(2) [OF that] by (auto simp: workerMounts_def authorizerMounts_def indexedName_def)
  then show ?thesis using fixed_no_claim by (auto simp: list_ex_iff)
qed

lemma indexed_claim_mounts:
  assumes "ps_Volumes pod = workerVolumes medium inputName @ vs" "\<And>v. v \<in> set vs \<Longrightarrow> \<exists>k. volume_Name v = indexedName stem k" "stem \<in> {''source-'', ''candidate-''}"
    and "set (ctr_VolumeMounts c) \<subseteq> set (workerMounts @ authorizerMounts) \<union> X" "mount \<in> set (claim_mounts pod c)"
  shows "mount \<in> X"
  using fixed_mounts [of mount vs stem medium inputName, OF _ assms(2,3)] assms(1,4,5) by (auto simp: claim_mounts_def)

lemma sort_key_Nil [simp]: "sort_key f xs = [] \<longleftrightarrow> xs = []"
  by (metis length_0_conv length_sort)

section \<open>The backup worker\<close>

lemma BuildBackupResources_Inr:
  assumes "BuildBackupResources isL enc backup source artifactID workerImage workerLeaseName identity = Inr res"
  obtains contents where "res = backupResources backup source artifactID contents workerImage workerLeaseName identity"
    "pinnedWorkerImagePattern workerImage" "0 < sint (rid_UserID identity)" "ValidateBackupWorkerInput (backupWorkerInput backup source artifactID workerLeaseName) = None"
  using assms by (auto simp: BuildBackupResources_def backupIdentityError_def Let_def guard_simps split: option.splits)

lemma backup_source_mounts:
  assumes "pod = backupPodSpec name source workerImage identity" "c \<in> set (ps_InitContainers pod @ ps_Containers pod)" "mount \<in> set (claim_mounts pod c)"
  shows "vm_ReadOnly mount \<and> (\<exists>p\<in>set (src_Paths source). vm_MountPath mount = ''/arcadectl/source/'' @ dp_Name p)"
proof -
  have "mount \<in> set (map sourceMount (enumerate 0 (src_Paths source)))"
  proof (rule indexed_claim_mounts [OF _ _ _ _ assms(3)])
    show "ps_Volumes pod = workerVolumes [] (name @ ''-input'') @ map sourceVolume (enumerate 0 (src_Paths source))" by (simp add: assms(1) backupPodSpec_def)
    show "\<exists>k. volume_Name v = indexedName ''source-'' k" if "v \<in> set (map sourceVolume (enumerate 0 (src_Paths source)))" for v
      using that by (auto simp: sourceVolume_def)
    show "set (ctr_VolumeMounts c) \<subseteq> set (workerMounts @ authorizerMounts) \<union> set (map sourceMount (enumerate 0 (src_Paths source)))"
      using assms(1,2) by (auto simp: backupPodSpec_def authorizerContainer_def workerContainer_def)
  qed simp
  then show ?thesis by (auto simp: sourceMount_def in_set_enumerate_eq)
qed

text \<open>
  C18. A backup only reads the world. The worker that \<^verbatim>\<open>BuildBackupResources\<close> builds is inert until it is released; its Pod has
  exactly the claims of the source, each as a read-only volume, and every mount into a claim is read-only and below the
  path from which the manifest is built; the kubelet is not asked to change ownership of a volume. Its service account
  reads the one repository Secret and the source claims and can change nothing but its worker lease.
\<close>

theorem backup_worker_reads_only:
  assumes "BuildBackupResources isL enc backup source artifactID workerImage workerLeaseName identity = Inr res"
  shows "worker_inert (br_Job res) BackupSchedulingGate workerImage \<and>
    pod_claims (template (br_Job res)) = map (\<lambda>p. (ref_Name (dp_ClaimRef p), True)) (src_Paths source) \<and>
    distinct (map fst (pod_claims (template (br_Job res)))) \<and>
    (\<forall>c\<in>set (ps_InitContainers (template (br_Job res)) @ ps_Containers (template (br_Job res))). \<forall>mount\<in>set (claim_mounts (template (br_Job res)) c).
       vm_ReadOnly mount \<and> (\<exists>p\<in>set (src_Paths source). vm_MountPath mount = ''/arcadectl/source/'' @ dp_Name p)) \<and>
    psec_FSGroup (ps_Security (template (br_Job res))) = None \<and>
    (\<forall>verb resource name. grants (role_Rules (br_Role res)) verb resource name \<longrightarrow>
       (resource = ''secrets'' \<longrightarrow> name = ref_Name (sref_Local (req_RepositorySecretRef (bspec_Request (gb_Spec backup))))) \<and>
       (resource = ''persistentvolumeclaims'' \<longrightarrow> name \<in> (\<lambda>p. ref_Name (dp_ClaimRef p)) ` set (src_Paths source)) \<and>
       (verb = ''get'' \<or> verb = ''update'' \<and> resource = ''leases'' \<and> name = workerLeaseName))"
proof -
  from BuildBackupResources_Inr [OF assms] obtain contents where res: "res = backupResources backup source artifactID contents workerImage workerLeaseName identity"
      and ok: "pinnedWorkerImagePattern workerImage" "0 < sint (rid_UserID identity)" "ValidateBackupWorkerInput (backupWorkerInput backup source artifactID workerLeaseName) = None" .
  let ?pod = "backupPodSpec (BackupResourceName (meta_UID (gb_Meta backup))) source workerImage identity"
  have pod: "template (br_Job res) = ?pod" "js_Suspend (job_Spec (br_Job res)) = Some True"
    by (simp_all add: res backupResources_def workerJob_def Let_def)
  have claims: "pod_claims ?pod = map (\<lambda>p. (ref_Name (dp_ClaimRef p), True)) (src_Paths source)"
    by (simp add: pod_claims_def backupPodSpec_def)
  have "worker_inert (br_Job res) BackupSchedulingGate workerImage"
    using ok pod(2) by (simp add: worker_inert_def pod) (simp add: backupPodSpec_def authorizerContainer_def workerContainer_def)
  moreover have "distinct (map fst (pod_claims ?pod))"
    using worker_paths_distinct(2) [OF ok(3)] by (simp add: claims comp_def backupWorkerInput_def)
  moreover have "psec_FSGroup (ps_Security ?pod) = None" by (simp add: backupPodSpec_def)
  moreover have "(resource = ''secrets'' \<longrightarrow> name = ref_Name (sref_Local (req_RepositorySecretRef (bspec_Request (gb_Spec backup))))) \<and>
       (resource = ''persistentvolumeclaims'' \<longrightarrow> name \<in> (\<lambda>p. ref_Name (dp_ClaimRef p)) ` set (src_Paths source)) \<and>
       (verb = ''get'' \<or> verb = ''update'' \<and> resource = ''leases'' \<and> name = workerLeaseName)" if "grants (role_Rules (br_Role res)) verb resource name" for verb resource name
  proof (cases "src_Paths source = []")
    case False
    then show ?thesis using that by (auto simp: res backupResources_def Let_def backupRules_def grants_def)
  qed (use ok(3) in \<open>simp add: ValidateBackupWorkerInput_def backupWorkerInput_def guard_simps Let_def\<close>)
  ultimately show ?thesis using claims backup_source_mounts [OF refl] unfolding pod by blast
qed

text \<open>A backup of the example source.\<close>

definition kImage :: string where "kImage = ''registry/worker@sha256:'' @ replicate 64 (CHR ''a'')"
definition kIdentity :: RuntimeIdentity where "kIdentity = \<lparr> rid_UserID = 1000, rid_GroupID = 1000, rid_FSGroup = 1000 \<rparr>"

definition kMeta :: "string \<Rightarrow> UID \<Rightarrow> ObjectMeta" where
  "kMeta name uid = (freshMeta name ''games'' Map.empty Map.empty [])\<lparr> meta_UID := uid, meta_Generation := 1 \<rparr>"

definition kBackup :: GameBackup where
  "kBackup = \<lparr> gb_Meta = kMeta ''nightly'' ''u-backup'',
     gb_Spec = \<lparr> bspec_Request = \<lparr> req_InlineCredentials = None, req_RepositorySecretRef = exSecret, req_RestartPolicy = RestartLeaveStopped, req_CancelRequested = False \<rparr>,
       bspec_Source = src_GameServer exSource, bspec_SourceData = None, bspec_RetentionPolicy = ArtifactRetentionRetain \<rparr>,
     gb_Status = undefined \<rparr>"

lemma k_parts: "pinnedWorkerImagePattern kImage" "dns_label ''games''" "0 < sint (rid_UserID kIdentity)" "0 < sint (rid_GroupID kIdentity)" "0 < sint (rid_FSGroup kIdentity)"
  by (simp_all add: pinnedWorkerImagePattern_def kImage_def sha256_pattern_def HasPrefix_def char_class_defs list_all_iff Let_def dns_label_def kIdentity_def)

lemma k_meta [simp]: "meta_Name (kMeta n u) = n" "meta_Namespace (kMeta n u) = ''games''" "meta_UID (kMeta n u) = u"
  by (simp_all add: kMeta_def freshMeta_def)

lemma k_backup: "\<exists>res. BuildBackupResources dns_label (\<lambda>_. Some []) kBackup exSource exArtifactID kImage ''lease'' kIdentity = Inr res"
proof -
  have "ValidateBackupWorkerInput (backupWorkerInput kBackup exSource exArtifactID ''lease'') = None"
    by (simp add: ValidateBackupWorkerInput_def backupWorkerInput_def kBackup_def exSecret_def guard_simps Let_def workerPathError_def HasPrefix_def)
  moreover have "backupIdentityError dns_label kBackup kImage kIdentity = None"
    using k_parts by (simp add: backupIdentityError_def kBackup_def guard_simps Let_def not_le)
  ultimately show ?thesis by (simp add: BuildBackupResources_def guard_simps Let_def)
qed

theorem backup_worker_reads_only_witness:
  "\<exists>res. BuildBackupResources dns_label (\<lambda>_. Some []) kBackup exSource exArtifactID kImage ''lease'' kIdentity = Inr res \<and>
     pod_claims (template (br_Job res)) = [(''claim-a'', True)] \<and> \<not> grants (role_Rules (br_Role res)) ''delete'' ''persistentvolumeclaims'' ''claim-a''"
proof -
  obtain res where built: "BuildBackupResources dns_label (\<lambda>_. Some []) kBackup exSource exArtifactID kImage ''lease'' kIdentity = Inr res" using k_backup by blast
  note worker = backup_worker_reads_only [OF built]
  have "pod_claims (template (br_Job res)) = [(''claim-a'', True)]" using worker [THEN conjunct2, THEN conjunct1] by simp
  moreover have "\<not> grants (role_Rules (br_Role res)) ''delete'' ''persistentvolumeclaims'' ''claim-a''"
  proof
    assume "grants (role_Rules (br_Role res)) ''delete'' ''persistentvolumeclaims'' ''claim-a''"
    with worker have "''delete'' = ''get'' \<or> ''delete'' = ''update''" by blast
    then show False by simp
  qed
  ultimately show ?thesis using built by blast
qed

section \<open>The restore worker\<close>

lemma BuildRestoreResources_Inr:
  assumes "BuildRestoreResources we enc restore i workerImage identity = Inr res"
  obtains contents candidate where "res = restoreResources restore (sortedInput i) (RestoreResourceName (meta_UID (gr_Meta restore)) (in_Stage i)) contents workerImage identity"
    "pinnedWorkerImagePattern workerImage" "0 < sint (rid_UserID identity)" "ValidateInput we i = None" "RestoreDataIdentity (meta_UID (gr_Meta restore)) = Inr candidate"
    "in_WorkerLeaseName i = DataOperationLeaseName candidate" "in_Stage i = StagePopulate \<longrightarrow> in_PreviousDataIdentity i \<noteq> candidate"
    "ref_Name (sref_Local (in_RepositorySecretRef i)) = ref_Name (sref_Local (req_RepositorySecretRef (rspec_Request (gr_Spec restore))))"
  using assms
  by (auto simp: BuildRestoreResources_def restoreIdentityError_def Let_def guard_simps sortedInput_def sameSecret_def sameLocal_def split: option.splits sum.splits if_splits)

lemma valid_stages:
  assumes "ValidateInput we i = None"
  shows "in_Stage i = StagePreflight \<and> in_CandidatePaths i = [] \<or>
    in_Stage i = StagePopulate \<and> (\<forall>p\<in>set (src_Paths (in_Source i) @ in_PreviousData i). ref_Name (dp_ClaimRef p) \<notin> (\<lambda>c. ref_Name (dp_ClaimRef c)) ` set (in_CandidatePaths i))"
proof -
  have "in_Stage i = StagePreflight \<or> in_Stage i = StagePopulate"
    using assms by (auto simp: ValidateInput_def contractInvalid_def guard_simps)
  moreover have "ref_Name (dp_ClaimRef p) \<notin> (\<lambda>c. ref_Name (dp_ClaimRef c)) ` set (in_CandidatePaths i)"
    if "in_Stage i = StagePopulate" "p \<in> set (src_Paths (in_Source i) @ in_PreviousData i)" for p
    using assms that by (auto simp: ValidateInput_def guard_simps first_error_in_None candidateAliases_def)
  moreover have "in_CandidatePaths i = []" if "in_Stage i = StagePreflight"
    using assms that by (simp add: ValidateInput_def guard_simps)
  ultimately show ?thesis by blast
qed

lemma restore_candidate_mounts:
  assumes "pod = restorePodSpec name i workerImage identity" "c \<in> set (ps_InitContainers pod @ ps_Containers pod)" "mount \<in> set (claim_mounts pod c)"
  shows "c \<in> set (ps_Containers pod) \<and> in_Stage i = StagePopulate \<and> (\<exists>p\<in>set (in_CandidatePaths i). vm_MountPath mount = DefaultCandidateRoot @ ''/'' @ dp_Name p)"
proof -
  let ?X = "if c \<in> set (ps_Containers pod) then set (map candidateMount (populated i)) else {}"
  have "mount \<in> ?X"
  proof (rule indexed_claim_mounts [OF _ _ _ _ assms(3)])
    show "ps_Volumes pod = workerVolumes ''Memory'' (name @ ''-input'') @ map candidateVolume (populated i)" by (simp add: assms(1) restorePodSpec_def)
    show "\<exists>k. volume_Name v = indexedName ''candidate-'' k" if "v \<in> set (map candidateVolume (populated i))" for v
      using that by (auto simp: candidateVolume_def)
    have "ctr_VolumeMounts c = (if c \<in> set (ps_Containers pod) then workerMounts @ map candidateMount (populated i) else authorizerMounts)"
    proof (cases "c \<in> set (ps_Containers pod)")
      case True
      then show ?thesis by (simp add: assms(1) restorePodSpec_def workerContainer_def)
    next
      case False
      then have "c \<in> set (ps_InitContainers pod)" using assms(2) by simp
      then show ?thesis using False by (simp add: assms(1) restorePodSpec_def authorizerContainer_def)
    qed
    then show "set (ctr_VolumeMounts c) \<subseteq> set (workerMounts @ authorizerMounts) \<union> ?X" by auto
  qed simp
  then show ?thesis by (auto simp: candidateMount_def populated_def enumerate_eq_zip split: if_splits dest: set_zip_rightD)
qed

text \<open>
  C17. A restore writes only to its candidates. The worker that \<^verbatim>\<open>BuildRestoreResources\<close> builds is inert until it is released. In the
  preflight its Pod has no claim; in the populate stage it has exactly the candidate claims, none of which is a claim of the
  backed-up source or of the data in use, and mounts them only in the worker, where the worker expects its candidates.
  Its service account reads, and can change nothing but the lease on the candidate data, which is not the lease on the data
  in use unless the two names collide under SHA-256.
\<close>

theorem restore_worker_writes_candidates:
  assumes "BuildRestoreResources we enc restore i workerImage identity = Inr res"
  shows "worker_inert (rres_Job res) RestoreSchedulingGate workerImage \<and>
    map fst (pod_claims (template (rres_Job res))) =
      (if in_Stage i = StagePopulate then map (\<lambda>p. ref_Name (dp_ClaimRef p)) (sort_key dp_Name (in_CandidatePaths i)) else []) \<and>
    (\<forall>p\<in>set (src_Paths (in_Source i) @ in_PreviousData i). ref_Name (dp_ClaimRef p) \<notin> fst ` set (pod_claims (template (rres_Job res)))) \<and>
    (\<forall>c\<in>set (ps_InitContainers (template (rres_Job res)) @ ps_Containers (template (rres_Job res))). \<forall>mount\<in>set (claim_mounts (template (rres_Job res)) c).
       c \<in> set (ps_Containers (template (rres_Job res))) \<and> (\<exists>p\<in>set (in_CandidatePaths i). vm_MountPath mount = DefaultCandidateRoot @ ''/'' @ dp_Name p)) \<and>
    (\<exists>candidate. RestoreDataIdentity (meta_UID (gr_Meta restore)) = Inr candidate \<and>
       (\<forall>verb resource name. grants (role_Rules (rres_Role res)) verb resource name \<longrightarrow>
          (resource = ''secrets'' \<longrightarrow> name = ref_Name (sref_Local (req_RepositorySecretRef (rspec_Request (gr_Spec restore))))) \<and>
          (verb = ''get'' \<or> verb = ''update'' \<and> resource = ''leases'' \<and> name = DataOperationLeaseName candidate)) \<and>
       (in_Stage i = StagePopulate \<longrightarrow> DataOperationLeaseName candidate = DataOperationLeaseName (in_PreviousDataIdentity i) \<longrightarrow>
          sha256_collision 16 (data_lease_encoding candidate) (data_lease_encoding (in_PreviousDataIdentity i))))"
proof -
  from BuildRestoreResources_Inr [OF assms] obtain contents candidate
    where res: "res = restoreResources restore (sortedInput i) (RestoreResourceName (meta_UID (gr_Meta restore)) (in_Stage i)) contents workerImage identity"
      and ok: "pinnedWorkerImagePattern workerImage" "0 < sint (rid_UserID identity)" "ValidateInput we i = None"
      and candidate: "RestoreDataIdentity (meta_UID (gr_Meta restore)) = Inr candidate" "in_WorkerLeaseName i = DataOperationLeaseName candidate"
        "in_Stage i = StagePopulate \<longrightarrow> in_PreviousDataIdentity i \<noteq> candidate"
      and secret: "ref_Name (sref_Local (in_RepositorySecretRef i)) = ref_Name (sref_Local (req_RepositorySecretRef (rspec_Request (gr_Spec restore))))" .
  let ?pod = "restorePodSpec (RestoreResourceName (meta_UID (gr_Meta restore)) (in_Stage i)) (sortedInput i) workerImage identity"
  have pod: "template (rres_Job res) = ?pod" "js_Suspend (job_Spec (rres_Job res)) = Some True"
    by (simp_all add: res restoreResources_def workerJob_def Let_def)
  have input: "in_Stage (sortedInput i) = in_Stage i" "in_CandidatePaths (sortedInput i) = sort_key dp_Name (in_CandidatePaths i)" by (simp_all add: sortedInput_def)
  have claims: "map fst (pod_claims ?pod) = (if in_Stage i = StagePopulate then map (\<lambda>p. ref_Name (dp_ClaimRef p)) (sort_key dp_Name (in_CandidatePaths i)) else [])"
    by (simp add: pod_claims_def restorePodSpec_def populated_def input comp_def [of fst])
  have "worker_inert (rres_Job res) RestoreSchedulingGate workerImage"
    using ok pod(2) by (simp add: worker_inert_def pod) (simp add: restorePodSpec_def authorizerContainer_def workerContainer_def restorePodSecurity_def)
  moreover have "fst ` set (pod_claims ?pod) = (if in_Stage i = StagePopulate then (\<lambda>p. ref_Name (dp_ClaimRef p)) ` set (in_CandidatePaths i) else {})"
    using arg_cong [OF claims, of set] by (simp split: if_splits)
  then have "\<forall>p\<in>set (src_Paths (in_Source i) @ in_PreviousData i). ref_Name (dp_ClaimRef p) \<notin> fst ` set (pod_claims ?pod)"
    using valid_stages [OF ok(3)] by auto
  moreover have "c \<in> set (ps_Containers ?pod) \<and> (\<exists>p\<in>set (in_CandidatePaths i). vm_MountPath mount = DefaultCandidateRoot @ ''/'' @ dp_Name p)"
    if "c \<in> set (ps_InitContainers ?pod @ ps_Containers ?pod)" "mount \<in> set (claim_mounts ?pod c)" for c mount
    using restore_candidate_mounts [OF refl that] unfolding input set_sort by blast
  moreover have "(resource = ''secrets'' \<longrightarrow> name = ref_Name (sref_Local (req_RepositorySecretRef (rspec_Request (gr_Spec restore))))) \<and>
      (verb = ''get'' \<or> verb = ''update'' \<and> resource = ''leases'' \<and> name = DataOperationLeaseName candidate)" if "grants (role_Rules (rres_Role res)) verb resource name" for verb resource name
    using that secret candidate(2)
    by (auto simp: res restoreResources_def Let_def restoreRules_def populateRules_def grants_def sortedInput_def split: if_splits)
  moreover have "in_Stage i = StagePopulate \<longrightarrow> DataOperationLeaseName candidate = DataOperationLeaseName (in_PreviousDataIdentity i) \<longrightarrow>
      sha256_collision 16 (data_lease_encoding candidate) (data_lease_encoding (in_PreviousDataIdentity i))"
    using candidate(3) data_lease.ident_inj [of candidate "in_PreviousDataIdentity i"] by auto
  ultimately show ?thesis using claims candidate(1) unfolding pod by blast
qed

text \<open>A restore of the example backup.\<close>

definition kCandidate :: string where "kCandidate = (case RestoreDataIdentity ''u-restore'' of Inl _ \<Rightarrow> [] | Inr s \<Rightarrow> s)"

definition kInput :: Input where "kInput = exInput\<lparr> in_WorkerLeaseName := DataOperationLeaseName kCandidate \<rparr>"

definition kRestore :: GameRestore where
  "kRestore = \<lparr> gr_Meta = kMeta ''restore-1'' ''u-restore'',
     gr_Spec = \<lparr> rspec_Request = \<lparr> req_InlineCredentials = None, req_RepositorySecretRef = exSecret, req_RestartPolicy = RestartLeaveStopped, req_CancelRequested = False \<rparr>,
       rspec_BackupRef = exBackupRef, rspec_Target = in_Target exInput, rspec_TargetData = None \<rparr>,
     gr_Status = undefined \<rparr>"

lemma k_input [simp]: "in_Stage kInput = StagePopulate" "in_TargetPaths kInput = in_TargetPaths exInput" "in_Source kInput = exSource"
  "in_PreviousData kInput = in_PreviousData exInput" "in_CandidatePaths kInput = in_CandidatePaths exInput" "in_PreviousDataIdentity kInput = ''retained-1''"
  "in_WorkerLeaseName kInput = DataOperationLeaseName kCandidate"
  by (simp_all add: kInput_def)

lemma k_candidate: "RestoreDataIdentity ''u-restore'' = Inr kCandidate" "kCandidate \<noteq> ''retained-1''"
  by (simp_all add: kCandidate_def RestoreDataIdentity_def restoreLabel_def deterministicID_def)

lemma k_lease: "dns_label (DataOperationLeaseName k)" "DataOperationLeaseName k \<noteq> []" "length (DataOperationLeaseName k) = 47" "\<not> Contains (DataOperationLeaseName k) ''/''"
proof -
  show label: "dns_label (DataOperationLeaseName k)" using data_lease.ident_dns_label [of k] by (simp add: char_class_defs)
  show "DataOperationLeaseName k \<noteq> []" by (simp add: DataOperationLeaseName_def)
  show "length (DataOperationLeaseName k) = 47" using data_lease.ident_length [of k] by simp
  show "\<not> Contains (DataOperationLeaseName k) ''/''" using label by (auto simp: Contains_char dns_label_def list_all_iff char_class_defs)
qed

lemma k_input_valid: "ValidateInput exEnv kInput = None"
proof -
  have fields: "contractInvalid kInput \<longleftrightarrow> contractInvalid exInput" "artifactIncompatible kInput \<longleftrightarrow> artifactIncompatible exInput"
    using k_lease by (simp_all add: contractInvalid_def artifactIncompatible_def kInput_def)
  have "backupInput kInput = (backupInput exInput)\<lparr> bwi_WorkerLeaseName := DataOperationLeaseName kCandidate \<rparr>" by (simp add: backupInput_def kInput_def)
  then have "ValidateBackupWorkerInput (backupInput kInput) = None"
    using ex_backup_input k_lease by (simp add: ValidateBackupWorkerInput_def Let_def guard_simps)
  with ex_contract k_lease(1) show ?thesis
    by (simp add: ValidateInput_def guard_simps targetPathError_def sourcePathDiffers_def previousPathError_def candidatePathError_def candidateAliases_def safePathName_def fields)
      (simp add: kInput_def)
qed

lemma k_restore: "\<exists>res. BuildRestoreResources exEnv (\<lambda>_. Some []) kRestore kInput kImage kIdentity = Inr res"
proof -
  have "restoreIdentityError exEnv kRestore kInput kImage kIdentity = None"
    using k_parts k_candidate by (simp add: restoreIdentityError_def guard_simps Let_def k_input_valid kRestore_def not_le)
      (simp add: kInput_def exInput_def exBackupRef_def exSecret_def sameLocal_def sameSecret_def sameServerReference_def)
  then show ?thesis
    by (simp add: BuildRestoreResources_def Let_def) (simp add: sortedInput_def RestoreResourceName_def kRestore_def)
qed

theorem restore_worker_writes_candidates_witness:
  "\<exists>res. BuildRestoreResources exEnv (\<lambda>_. Some []) kRestore kInput kImage kIdentity = Inr res \<and> map fst (pod_claims (template (rres_Job res))) = [exCandidate]"
proof -
  obtain res where built: "BuildRestoreResources exEnv (\<lambda>_. Some []) kRestore kInput kImage kIdentity = Inr res" using k_restore by blast
  from restore_worker_writes_candidates [OF this, THEN conjunct2, THEN conjunct1] have "map fst (pod_claims (template (rres_Job res))) = [exCandidate]" by simp
  with built show ?thesis by (intro exI [of _ res] conjI)
qed

section \<open>Names\<close>

text \<open>The Jobs of backups, and of the two stages of restores without their ending, are named by digests.\<close>

abbreviation backup_job_encoding :: "string \<Rightarrow> bytes" where "backup_job_encoding uid \<equiv> ''arcadectl/backup-job/'' @ uid"
abbreviation restore_job_encoding :: "string \<Rightarrow> string \<Rightarrow> bytes" where "restore_job_encoding ending uid \<equiv> ''arcadectl/restore-job/'' @ uid @ ''/'' @ ending"

definition restorePrefix :: "string \<Rightarrow> UID \<Rightarrow> string" where
  "restorePrefix ending uid = ''restore-'' @ hex (take 16 (sha256 (restore_job_encoding ending uid)))"

interpretation backup_job: digest_identity backup_job_encoding "\<lambda>_. True" "''backup-''" 16 BackupResourceName
  by unfold_locales (simp_all add: BackupResourceName_def)

interpretation restore_job: digest_identity "restore_job_encoding ending" "\<lambda>uid. uid \<noteq> []" "''restore-''" 16 "restorePrefix ending" for ending
  by unfold_locales (simp_all add: restorePrefix_def)

lemma RestoreResourceName_prefix: "uid \<noteq> [] \<Longrightarrow> RestoreResourceName uid StagePreflight = restorePrefix ''preflight'' uid @ ''-preflight''"
  "uid \<noteq> [] \<Longrightarrow> RestoreResourceName uid StagePopulate = restorePrefix ''populate'' uid @ ''-populate''"
  by (simp_all add: RestoreResourceName_def restorePrefix_def)

text \<open>The two stages of a restore, a backup and a destroy never share a Job, and two restores do only on a collision.\<close>

lemma worker_jobs_distinct:
  assumes "uid \<noteq> []" "uid' \<noteq> []"
  shows "RestoreResourceName uid StagePreflight \<noteq> RestoreResourceName uid' StagePopulate" "BackupResourceName uid \<noteq> RestoreResourceName uid' stage"
    "BackupResourceName uid \<noteq> DestroyResourceName uid'" "RestoreResourceName uid stage \<noteq> DestroyResourceName uid'"
    "RestoreResourceName uid StagePopulate = RestoreResourceName uid' StagePopulate \<Longrightarrow> uid = uid' \<or> sha256_collision 16 (restore_job_encoding ''populate'' uid) (restore_job_encoding ''populate'' uid')"
proof -
  show "RestoreResourceName uid StagePreflight \<noteq> RestoreResourceName uid' StagePopulate"
  proof
    assume "RestoreResourceName uid StagePreflight = RestoreResourceName uid' StagePopulate"
    then have "last (butlast (RestoreResourceName uid StagePreflight)) = last (butlast (RestoreResourceName uid' StagePopulate))" by simp
    then show False by (simp add: RestoreResourceName_prefix assms butlast_append)
  qed
  show "BackupResourceName uid \<noteq> RestoreResourceName uid' stage" "RestoreResourceName uid stage \<noteq> DestroyResourceName uid'"
    using assms by (cases stage; simp add: BackupResourceName_def RestoreResourceName_def DestroyResourceName_def)+
  show "BackupResourceName uid \<noteq> DestroyResourceName uid'"
    using assms by (simp add: BackupResourceName_def DestroyResourceName_def)
  show "uid = uid' \<or> sha256_collision 16 (restore_job_encoding ''populate'' uid) (restore_job_encoding ''populate'' uid')"
    if "RestoreResourceName uid StagePopulate = RestoreResourceName uid' StagePopulate"
    using restore_job.ident_inj [OF assms, of "''populate''"] that by (simp add: RestoreResourceName_prefix assms)
qed

end
