(* ===== verification/DataOperationProps.thy ===== *)
theory DataOperationProps
  imports DataOperation Interfaces
begin

text \<open>
  What the safety rules of \<^verbatim>\<open>internal/platform/data\<close> guarantee: the phase machine of backup and
  restore (runs of accepted transitions), the identities derived from operation UIDs, and the
  statuses the validators accept.
\<close>

section \<open>Runs of the phase machine\<close>

text \<open>
  A state is the phase together with the verification evidence of the write that entered it. A step
  is an accepted write that changes the phase.
\<close>

type_synonym data_state = "DataOperationPhase \<times> bool"

fun data_step :: "OperationKind \<Rightarrow> data_state \<Rightarrow> data_state \<Rightarrow> bool" where
  "data_step kind (p, v) (q, w) \<longleftrightarrow> p \<noteq> q \<and> ValidateTransition kind p q w = None"

fun phase_rank :: "DataOperationPhase \<Rightarrow> nat" where
  "phase_rank DataPhaseEmpty = 0"
| "phase_rank DataPhasePending = 1"
| "phase_rank DataPhaseBlocked = 2"
| "phase_rank DataPhasePreparing = 3"
| "phase_rank DataPhaseRunning = 4"
| "phase_rank DataPhaseVerifying = 5"
| "phase_rank DataPhaseActivating = 6"
| "phase_rank DataPhaseRollingBack = 7"
| "phase_rank DataPhaseCancelling = 7"
| "phase_rank _ = 8"

definition blocks :: "data_state \<times> data_state \<Rightarrow> bool" where
  "blocks e \<longleftrightarrow> fst (fst e) = DataPhasePreparing \<and> fst (snd e) = DataPhaseBlocked"

definition phase_edge ::
    "(data_state \<times> data_state) list \<Rightarrow> DataOperationPhase \<Rightarrow> DataOperationPhase \<Rightarrow> bool" where
  "phase_edge h p q \<longleftrightarrow> list_ex (\<lambda>(x, y). fst x = p \<and> fst y = q) h"

lemma phase_edgeI: "(x, y) \<in> set h \<Longrightarrow> phase_edge h (fst x) (fst y)"
  by (auto simp: phase_edge_def list_ex_iff)

lemma phase_edge_mono: "phase_edge h p q \<Longrightarrow> set h \<subseteq> set h' \<Longrightarrow> phase_edge h' p q"
  by (auto simp: phase_edge_def list_ex_iff)

lemmas transition_simps [phase_simps] =
  ValidateTransition_def allowed_def terminal_def restoreOnlyPhase_def

lemma step_kind: "data_step kind x y \<Longrightarrow> kind = BackupOperation \<or> kind = RestoreOperation"
  by (cases x; cases y) (auto simp: ValidateTransition_def split: if_splits)

lemma terminal_stuck: "terminal (fst x) \<Longrightarrow> \<not> data_step kind x y"
  by (cases x; cases y) (auto simp: ValidateTransition_def split: if_splits)

lemma step_phase_rank:
  "data_step kind x y \<Longrightarrow> \<not> blocks (x, y) \<Longrightarrow> phase_rank (fst x) < phase_rank (fst y)"
  by (cases x; cases y; cases "fst x"; cases "fst y")
    (auto simp: phase_simps blocks_def split: if_splits)

lemma blocks_phase_rank: "blocks (x, y) \<Longrightarrow> phase_rank (fst x) \<le> Suc (phase_rank (fst y))"
  by (simp add: blocks_def)

lemma phase_rank_le: "phase_rank p \<le> 8"
  by (cases p) auto

interpretation data_machine:
  phase_machine "data_step kind" "\<lambda>x. terminal (fst x)" blocks "\<lambda>x. phase_rank (fst x)" 8
  by unfold_locales (auto simp: terminal_stuck step_phase_rank blocks_phase_rank phase_rank_le)

text \<open>Which phase an activated restore can come from, and how it can leave.\<close>

definition activated :: "data_state \<Rightarrow> bool" where
  "activated x \<longleftrightarrow> fst x = DataPhaseActivating \<or> fst x = DataPhaseRollingBack \<or> fst x = DataPhaseSucceeded"

definition switching :: "data_state \<Rightarrow> bool" where
  "switching x \<longleftrightarrow> fst x = DataPhaseActivating \<or> fst x = DataPhaseRollingBack"

lemma enter_activated:
  assumes "data_step RestoreOperation x y" "activated y" "\<not> activated x"
  shows "fst x = DataPhaseVerifying \<and> fst y = DataPhaseActivating \<and> snd y"
  using assms by (cases x; cases y; cases "fst x")
    (auto simp: phase_simps activated_def split: if_splits)

lemma leave_switching:
  assumes "data_step RestoreOperation x y" "switching x" "\<not> switching y"
  shows "snd y \<and> (fst x = DataPhaseActivating \<and> fst y = DataPhaseSucceeded \<or>
     fst x = DataPhaseRollingBack \<and> (fst y = DataPhaseFailed \<or> fst y = DataPhaseCancelled))"
  using assms by (cases x; cases y; cases "fst y")
    (auto simp: phase_simps switching_def split: if_splits)

lemma enter_phase:
  assumes "data_step kind x y"
  shows "fst y = DataPhaseSucceeded \<Longrightarrow> kind = RestoreOperation \<Longrightarrow> fst x = DataPhaseActivating \<and> snd y"
    and "fst y = DataPhaseRollingBack \<Longrightarrow> fst x = DataPhaseActivating"
    and "fst y = DataPhaseVerifying \<Longrightarrow> kind = RestoreOperation \<Longrightarrow> fst x = DataPhaseRunning"
    and "fst y = DataPhaseRunning \<Longrightarrow> fst x = DataPhasePreparing"
  using assms by (cases x; cases y; cases "fst x"; force simp: phase_simps split: if_splits)+

text \<open>The last step into the phase a run ends in.\<close>

lemma run_enters_phase:
  assumes "step_run (data_step kind) x h y" "fst x \<noteq> fst y"
  obtains z where "(z, y) \<in> set h" "data_step kind z y" "phase_edge h (fst z) (fst y)"
  using step_run_last [OF assms(1)] assms(2) phase_edgeI by metis

lemma run_reaches_running:
  assumes "step_run (data_step RestoreOperation) (DataPhaseEmpty, v) h x" "fst x = DataPhaseVerifying"
  shows "phase_edge h DataPhasePreparing DataPhaseRunning \<and>
    phase_edge h DataPhaseRunning DataPhaseVerifying"
proof -
  have "fst (DataPhaseEmpty, v) \<noteq> fst x" using assms(2) by simp
  then obtain z where z: "(z, x) \<in> set h" "data_step RestoreOperation z x" "phase_edge h (fst z) (fst x)"
    using run_enters_phase [OF assms(1)] by metis
  then have running: "fst z = DataPhaseRunning"
    using enter_phase(3) assms(2) by blast
  obtain h' where h': "step_run (data_step RestoreOperation) (DataPhaseEmpty, v) h' z" "set h' \<subseteq> set h"
    using step_run_prefix [OF assms(1) z(1)] by blast
  have "fst (DataPhaseEmpty, v) \<noteq> fst z" using running by simp
  then obtain u where "data_step RestoreOperation u z" "phase_edge h' (fst u) (fst z)"
    using run_enters_phase [OF h'(1)] by metis
  then have "phase_edge h' DataPhasePreparing DataPhaseRunning"
    using enter_phase(4) running by metis
  then show ?thesis using z(3) running assms(2) phase_edge_mono [OF _ h'(2)] by auto
qed

text \<open>A restore that entered an activation phase passed the verified activation write.\<close>

lemma run_activates:
  assumes "step_run (data_step RestoreOperation) (DataPhaseEmpty, v) h x" "activated x"
  obtains a b h' where "(a, b) \<in> set h" "fst a = DataPhaseVerifying" "fst b = DataPhaseActivating" "snd b"
    "step_run (data_step RestoreOperation) (DataPhaseEmpty, v) h' a" "set h' \<subseteq> set h"
proof -
  have "\<not> activated (DataPhaseEmpty, v)" by (simp add: activated_def)
  then obtain a b where ab: "(a, b) \<in> set h" "data_step RestoreOperation a b" "\<not> activated a" "activated b"
    using step_run_enters [where P = activated, OF assms] by blast
  obtain h' where "step_run (data_step RestoreOperation) (DataPhaseEmpty, v) h' a" "set h' \<subseteq> set h"
    using step_run_prefix [OF assms(1) ab(1)] by blast
  with ab enter_activated [OF ab(2,4,3)] show ?thesis by (intro that) auto
qed

text \<open>
  C7. A restore that ends Succeeded after any sequence of accepted phase writes from the empty phase
  ran its worker, verified, activated with verification evidence, and only then succeeded, again with
  evidence: every one of these writes is in its history.
\<close>

theorem restore_success_path:
  assumes "step_run (data_step RestoreOperation) (DataPhaseEmpty, v) h (DataPhaseSucceeded, w)"
  shows "w \<and> phase_edge h DataPhasePreparing DataPhaseRunning
    \<and> phase_edge h DataPhaseRunning DataPhaseVerifying
    \<and> (\<exists>u. ((DataPhaseVerifying, u), (DataPhaseActivating, True)) \<in> set h)
    \<and> phase_edge h DataPhaseActivating DataPhaseSucceeded"
proof -
  let ?y = "(DataPhaseSucceeded, w)"
  have "fst (DataPhaseEmpty, v) \<noteq> fst ?y" by simp
  then obtain z where z: "data_step RestoreOperation z ?y" "phase_edge h (fst z) (fst ?y)"
    using run_enters_phase [OF assms] by metis
  have last: "fst z = DataPhaseActivating" "w"
    using enter_phase(1) [OF z(1)] by auto
  have "activated ?y" by (simp add: activated_def)
  then obtain a b h' where ab: "(a, b) \<in> set h" "fst a = DataPhaseVerifying" "fst b = DataPhaseActivating" "snd b"
    and run: "step_run (data_step RestoreOperation) (DataPhaseEmpty, v) h' a" "set h' \<subseteq> set h"
    using run_activates [OF assms] by metis
  have "\<exists>u. ((DataPhaseVerifying, u), (DataPhaseActivating, True)) \<in> set h"
    using ab by (cases a; cases b) auto
  then show ?thesis
    using run_reaches_running [OF run(1) ab(2)] phase_edge_mono [OF _ run(2)] z(2) last by auto
qed

text \<open>A run that reaches each phase of a successful restore in turn.\<close>

definition restore_success_history :: "(data_state \<times> data_state) list" where
  "restore_success_history =
     [((DataPhaseActivating, True), (DataPhaseSucceeded, True)),
      ((DataPhaseVerifying, False), (DataPhaseActivating, True)),
      ((DataPhaseRunning, False), (DataPhaseVerifying, False)),
      ((DataPhasePreparing, False), (DataPhaseRunning, False)),
      ((DataPhasePending, False), (DataPhasePreparing, False)),
      ((DataPhaseEmpty, False), (DataPhasePending, False))]"

lemmas run_intros = step_run.run_step step_run.run_start

lemma restore_success_run:
  "step_run (data_step RestoreOperation) (DataPhaseEmpty, False) restore_success_history
     (DataPhaseSucceeded, True)"
  unfolding restore_success_history_def
  by (intro run_intros) (simp_all add: phase_simps)

theorem restore_success_path_witness:
  "True \<and> phase_edge restore_success_history DataPhasePreparing DataPhaseRunning
    \<and> phase_edge restore_success_history DataPhaseRunning DataPhaseVerifying
    \<and> (\<exists>u. ((DataPhaseVerifying, u), (DataPhaseActivating, True)) \<in> set restore_success_history)
    \<and> phase_edge restore_success_history DataPhaseActivating DataPhaseSucceeded"
  using restore_success_path [OF restore_success_run] .

text \<open>
  C21. Once a restore has activated, its only terminal outcomes are success and a verified rollback:
  if it ends in any other terminal phase, its history holds the step from activation to rollback and
  the step from rollback to that phase, the latter with verification evidence.
\<close>

theorem restore_activated_outcomes:
  assumes "step_run (data_step RestoreOperation) (DataPhaseEmpty, v) h (p, w)"
    and "terminal p" "p \<noteq> DataPhaseSucceeded"
    and "phase_edge h DataPhaseVerifying DataPhaseActivating"
  shows "w \<and> phase_edge h DataPhaseActivating DataPhaseRollingBack
    \<and> phase_edge h DataPhaseRollingBack p"
proof -
  obtain a b where ab: "(a, b) \<in> set h" "fst b = DataPhaseActivating"
    using assms(4) by (auto simp: phase_edge_def list_ex_iff)
  obtain h' where h': "step_run (data_step RestoreOperation) b h' (p, w)" "set h' \<subseteq> set h"
    using step_run_suffix [OF assms(1) ab(1)] by blast
  have "\<not> switching (p, w)" "switching b"
    using assms(2) ab(2) by (auto simp: switching_def terminal_def)
  then obtain c d where cd: "(c, d) \<in> set h'" "data_step RestoreOperation c d" "switching c" "\<not> switching d"
    using step_run_enters [where P = "\<lambda>x. \<not> switching x", OF h'(1)] by auto
  note out = leave_switching [OF cd(2,3,4)]
  then have "terminal (fst d)" by (auto simp: terminal_def)
  moreover obtain h'' where "step_run (data_step RestoreOperation) d h'' (p, w)"
    using step_run_suffix [OF h'(1) cd(1)] by blast
  ultimately have d: "d = (p, w)" using data_machine.final_stable by metis
  then have c: "fst c = DataPhaseRollingBack" "w" using out assms(3) by auto
  obtain k where k: "step_run (data_step RestoreOperation) b k c" "set k \<subseteq> set h'"
    using step_run_prefix [OF h'(1) cd(1)] by blast
  have "fst b \<noteq> fst c" using ab(2) c(1) by simp
  then obtain e where "data_step RestoreOperation e c" "phase_edge k (fst e) (fst c)"
    using run_enters_phase [OF k(1)] by metis
  then have "phase_edge k DataPhaseActivating DataPhaseRollingBack"
    using enter_phase(2) c(1) by metis
  moreover have "phase_edge h' DataPhaseRollingBack p"
    using phase_edgeI [OF cd(1)] c(1) d by simp
  ultimately show ?thesis
    using c(2) phase_edge_mono k(2) h'(2) by (meson subset_trans)
qed

definition restore_rollback_history :: "(data_state \<times> data_state) list" where
  "restore_rollback_history =
     [((DataPhaseRollingBack, False), (DataPhaseFailed, True)),
      ((DataPhaseActivating, True), (DataPhaseRollingBack, False))] @ tl restore_success_history"

lemma restore_rollback_run:
  "step_run (data_step RestoreOperation) (DataPhaseEmpty, False) restore_rollback_history
     (DataPhaseFailed, True)"
  unfolding restore_rollback_history_def restore_success_history_def append.simps list.sel
  by (intro run_intros) (simp_all add: phase_simps)

theorem restore_activated_outcomes_witness:
  "True \<and> phase_edge restore_rollback_history DataPhaseActivating DataPhaseRollingBack
    \<and> phase_edge restore_rollback_history DataPhaseRollingBack DataPhaseFailed"
proof -
  have "phase_edge restore_rollback_history DataPhaseVerifying DataPhaseActivating"
    by (simp add: phase_edge_def restore_rollback_history_def restore_success_history_def)
  then show ?thesis
    using restore_activated_outcomes [OF restore_rollback_run] by (simp add: terminal_def)
qed

text \<open>
  Phase writes make bounded progress. In a run of accepted writes of either kind of operation, a
  terminal phase is never left, and the number of phase changes is at most eight plus two for every
  time preparation was blocked; so an operation that is blocked finitely often settles.
\<close>

theorem data_operation_bounded:
  "(step_run (data_step kind) x h y \<longrightarrow> length h \<le> 8 + 2 * length (filter blocks h))
    \<and> (step_run (data_step kind) x h y \<and> terminal (fst x) \<longrightarrow> h = [] \<and> y = x)"
  using data_machine.length_run_bound data_machine.final_stable by metis

theorem data_operation_bounded_witness:
  "length restore_success_history \<le> 8 + 2 * length (filter blocks restore_success_history)
    \<and> step_run (data_step BackupOperation) (DataPhaseFailed, True) [] (DataPhaseFailed, True)"
  using data_operation_bounded [of RestoreOperation "(DataPhaseEmpty, False)" restore_success_history
      "(DataPhaseSucceeded, True)"] restore_success_run step_run.run_start by auto

text \<open>
  No phase is a dead end: from every phase an operation of its kind can be in, some sequence of
  accepted writes reaches a terminal phase.
\<close>

theorem data_operation_can_settle:
  assumes "kind = BackupOperation \<and> \<not> restoreOnlyPhase p \<or> kind = RestoreOperation"
    and "validPhase p True"
  shows "\<exists>h q w. step_run (data_step kind) (p, v) h (q, w) \<and> terminal q"
proof (cases "terminal p")
  case True
  then show ?thesis using step_run.run_start [of "data_step kind" "(p, v)"] by (intro exI conjI)
next
  case False
  have one: "data_step kind (p, v) (q, w) \<Longrightarrow> step_run (data_step kind) (p, v) [((p, v), (q, w))] (q, w)" for q w
    by (intro run_intros)
  consider "p = DataPhaseEmpty" | "p = DataPhaseActivating" | "p \<noteq> DataPhaseEmpty" "p \<noteq> DataPhaseActivating"
    by blast
  then show ?thesis
  proof cases
    case 1
    then have "data_step kind (p, v) (DataPhasePending, True)"
      and "data_step kind (DataPhasePending, True) (DataPhaseFailed, True)"
      using assms by (auto simp: phase_simps)
    then have "step_run (data_step kind) (p, v)
        [((DataPhasePending, True), (DataPhaseFailed, True)), ((p, v), (DataPhasePending, True))]
        (DataPhaseFailed, True)"
      by (intro run_intros)
    then show ?thesis by (auto simp: terminal_def)
  next
    case 2
    then have "data_step kind (p, v) (DataPhaseSucceeded, True)"
      using assms by (auto simp: phase_simps)
    from one [OF this] show ?thesis by (auto simp: terminal_def)
  next
    case 3
    then have "data_step kind (p, v) (DataPhaseFailed, True)"
      using assms False by (auto simp: phase_simps)
    from one [OF this] show ?thesis by (auto simp: terminal_def)
  qed
qed

theorem data_operation_can_settle_witness:
  "\<exists>h q w. step_run (data_step RestoreOperation) (DataPhaseRollingBack, False) h (q, w) \<and> terminal q"
  using data_operation_can_settle [of RestoreOperation DataPhaseRollingBack False] by simp

end
