(* ===== verification/DataExamples.thy ===== *)
theory DataExamples
  imports DataOperation
begin

text \<open>
  Concrete objects at which the properties of the data operations are instantiated: a restore that
  succeeded, one that was rolled back, and the backup they restore from. Names derived from a digest
  stay symbolic.
\<close>

section \<open>A concrete restore\<close>

text \<open>
  A restore \<open>r-1\<close> of backup \<open>b-1\<close> of a one-path world, requested while the server was running with
  restart: it fenced generation 8, started the candidate as generation 9 and, in its failed variant,
  stopped it again (generation 10) and restarted the previous world (generation 11).
\<close>

definition ex_local :: "string \<Rightarrow> string \<Rightarrow> ExactLocalReference" where
  "ex_local n u = \<lparr>ref_Namespace = None, ref_Name = n, ref_UID = u\<rparr>"

definition ex_server :: "int64 \<Rightarrow> DesiredState \<Rightarrow> ExactGameServerReference" where
  "ex_server g d = \<lparr>gref_Local = ex_local ''factory'' ''s-1'', gref_Generation = g, gref_DesiredState = d\<rparr>"

definition ex_secret :: ExactSecretReference where
  "ex_secret = \<lparr>sref_Local = ex_local ''repo'' ''k-1'', sref_ResourceVersion = ''42''\<rparr>"

definition ex_path :: "string \<Rightarrow> string \<Rightarrow> DataPathIdentity" where
  "ex_path n u = \<lparr>dp_Name = ''world'', dp_MountPath = ''/factorio'', dp_ClaimRef = ex_local n u\<rparr>"

definition ex_candidate :: DataPathIdentity where
  "ex_candidate = ex_path (projr (RestoreCandidateID ''r-1'' ''world'')) ''pvc-2''"

definition ex_previous :: DataPathIdentity where
  "ex_previous = ex_path ''factory-world'' ''pvc-1''"

definition ex_source :: DataSourceSnapshot where
  "ex_source = \<lparr>src_GameServer = ex_server 3 DesiredStateStopped, src_Game = ''factorio'',
     src_ImageDigest = ''sha256:i'', src_SettingsDigest = ''sha256:s'', src_Paths = [ex_previous]\<rparr>"

definition ex_artifact :: BackupArtifact where
  "ex_artifact = \<lparr>
     art_Provenance = \<lparr>prov_BackupRef = ex_local ''nightly'' ''b-1'', prov_RepositorySecretRef = ex_secret\<rparr>,
     art_ID = projr (ArtifactID ''b-1''), art_FormatVersion = ''arcadectl.backup/v2'',
     art_ManifestDigest = ''sha256:m'', art_SizeBytes = 512, art_PathCount = 1, art_CreatedAt = 10,
     art_Verification = \<lparr>ver_Result = VerificationVerified, ver_VerifiedAt = Some 11\<rparr>\<rparr>"

definition ex_meta :: "string \<Rightarrow> UID \<Rightarrow> ObjectMeta" where
  "ex_meta n u = \<lparr>meta_Name = n, meta_Namespace = ''arcade'', meta_UID = u, meta_ResourceVersion = ''7'',
     meta_Generation = 1, meta_DeletionTimestamp = None, meta_Labels = Map.empty,
     meta_Annotations = Map.empty, meta_OwnerReferences = [], meta_Finalizers = []\<rparr>"

definition ex_failure :: Condition where
  "ex_failure = \<lparr>cond_Type = ''Complete'', cond_Status = ConditionFalse, cond_ObservedGeneration = 1,
     cond_LastTransitionTime = 30, cond_Reason = ReasonWorkerFailed, cond_Message = ''worker failed''\<rparr>"

definition ex_restore :: "DataOperationPhase \<Rightarrow> RestoreRuntimeJournal \<Rightarrow> int64 \<Rightarrow> DataPathIdentity \<Rightarrow> GameRestore" where
  "ex_restore phase journal final active = \<lparr>
     gr_Meta = ex_meta ''undo'' ''r-1'',
     gr_Spec = \<lparr>rspec_Request = \<lparr>req_InlineCredentials = None, req_RepositorySecretRef = ex_secret,
         req_RestartPolicy = RestartRestorePreviousState, req_CancelRequested = False\<rparr>,
       rspec_BackupRef = ex_local ''nightly'' ''b-1'', rspec_Target = ex_server 7 DesiredStateRunning,
       rspec_TargetData = None\<rparr>,
     gr_Status = \<lparr>
       rst_Data = \<lparr>st_ObservedGeneration = 1, st_Phase = phase, st_Attempts = 1, st_StartedAt = Some 20,
         st_CompletedAt = Some 40, st_Conditions = [ex_failure], st_Source = Some ex_source,
         st_Fence = Some \<lparr>fence_GameServer = ex_server 8 DesiredStateStopped, fence_EstablishedAt = 21\<rparr>,
         st_Artifact = Some ex_artifact,
         st_Runtime = Some \<lparr>rt_GameServer = ex_server final DesiredStateRunning, rt_Phase = PhaseReady,
           rt_CompletedAt = 40\<rparr>\<rparr>,
       rst_PopulateAttempts = 1, rst_PopulateRetryPending = False, rst_PopulateJobUID = ''j-1'',
       rst_PreviousDataIdentity = ''data-1'', rst_PreflightVerifiedAt = Some 20,
       rst_RuntimeJournal = Some journal, rst_ActivationStartedAt = Some 30,
       rst_CandidateVerification = Some \<lparr>cver_Result = VerificationVerified,
         cver_ManifestDigest = ''sha256:m'', cver_PathCount = 1, cver_VerifiedAt = 25\<rparr>,
       rst_CandidateData = [ex_candidate], rst_ActiveData = [active], rst_PreviousData = [ex_previous]\<rparr>\<rparr>"

definition ex_restore_succeeded :: GameRestore where
  "ex_restore_succeeded = ex_restore DataPhaseSucceeded
     \<lparr>jr_PreviousRecoveryGeneration = 0, jr_CandidateStartGeneration = 9, jr_RollbackStopGeneration = 0,
       jr_RollbackRestartGeneration = 0\<rparr> 9 ex_candidate"

definition ex_restore_failed :: GameRestore where
  "ex_restore_failed = ex_restore DataPhaseFailed
     \<lparr>jr_PreviousRecoveryGeneration = 0, jr_CandidateStartGeneration = 9, jr_RollbackStopGeneration = 10,
       jr_RollbackRestartGeneration = 11\<rparr> 11 ex_previous"

lemmas ex_defs = ex_local_def ex_server_def ex_secret_def ex_path_def ex_previous_def ex_source_def
  ex_artifact_def ex_meta_def ex_restore_def

lemma ex_candidate_id:
  "RestoreCandidateID ''r-1'' ''world'' = Inr (ref_Name (dp_ClaimRef ex_candidate))"
  "dp_Name ex_candidate = ''world''" "dp_MountPath ex_candidate = ''/factorio''"
  "ref_UID (dp_ClaimRef ex_candidate) = ''pvc-2''"
  by (simp_all add: ex_candidate_def ex_path_def ex_local_def RestoreCandidateID_def restoreLabel_def)

lemma ex_candidate_name: "\<exists>h. ref_Name (dp_ClaimRef ex_candidate) = CHR ''r'' # h"
  by (simp add: ex_candidate_def ex_path_def ex_local_def RestoreCandidateID_def restoreLabel_def)

lemma ex_candidate_fresh:
  "ref_Name (dp_ClaimRef ex_candidate) \<noteq> ''factory-world''" "ref_Name (dp_ClaimRef ex_candidate) \<noteq> []"
  using ex_candidate_name by auto

lemma ex_artifact_id: "(ArtifactID ''b-1'' = Inr (projr (ArtifactID ''b-1''))) = True"
  by (simp add: ArtifactID_def deterministicID_def)

lemma ex_message: "TrimSpace ''worker failed'' \<noteq> []"
  by code_simp

lemma ex_actionable: "hasActionableCondition [ex_failure] 1"
  by (simp add: hasActionableCondition_def ex_failure_def ex_message)

lemmas validate_defs = ValidateRestoreStatus_def validateCommonStatus_def validateRestoreRuntimeStatus_def
  runtimeJournalError_def wantRuntimeGeneration_def activationError_def activationPhase_def
  fenceError_def fenceGeneration_def verifiedArtifact_def terminal_def restoreOnlyPhase_def

lemmas path_defs = completePathSet_def sourcePathError_def distinctClaims_def claimsAlias_def sameClaim_def
  rollbackError_def switchedError_def sameLocal_def sameSecret_def int32_of_len_def

lemmas ex_rules = validate_defs path_defs guard_simps ex_defs ex_candidate_id ex_candidate_fresh
  ex_actionable ex_artifact_id Let_def

lemma ex_restore_succeeded_valid: "ValidateRestoreStatus (Some ex_restore_succeeded) = None"
  by (simp add: ex_restore_succeeded_def ex_rules)

lemma ex_restore_failed_valid: "ValidateRestoreStatus (Some ex_restore_failed) = None"
  by (simp add: ex_restore_failed_def ex_rules)

section \<open>A concrete backup\<close>

text \<open>Backup \<open>b-1\<close> of the server at generation 3, running, with restart: fence 4, runtime 5.\<close>

definition ex_backup :: GameBackup where
  "ex_backup = \<lparr>
     gb_Meta = ex_meta ''nightly'' ''b-1'',
     gb_Spec = \<lparr>bspec_Request = \<lparr>req_InlineCredentials = None, req_RepositorySecretRef = ex_secret,
         req_RestartPolicy = RestartRestorePreviousState, req_CancelRequested = False\<rparr>,
       bspec_Source = ex_server 3 DesiredStateRunning, bspec_SourceData = None,
       bspec_RetentionPolicy = ArtifactRetentionRetain\<rparr>,
     gb_Status = \<lparr>st_ObservedGeneration = 1, st_Phase = DataPhaseSucceeded, st_Attempts = 1,
       st_StartedAt = Some 1, st_CompletedAt = Some 12, st_Conditions = [],
       st_Source = Some (ex_source\<lparr>src_GameServer := ex_server 3 DesiredStateRunning\<rparr>),
       st_Fence = Some \<lparr>fence_GameServer = ex_server 4 DesiredStateStopped, fence_EstablishedAt = 5\<rparr>,
       st_Artifact = Some ex_artifact,
       st_Runtime = Some \<lparr>rt_GameServer = ex_server 5 DesiredStateRunning, rt_Phase = PhaseReady,
         rt_CompletedAt = 12\<rparr>\<rparr>\<rparr>"

lemma ex_backup_valid: "ValidateBackupStatus (Some ex_backup) = None"
  by (simp add: ex_backup_def ValidateBackupStatus_def validateRuntimeDisposition_def sameGameServer_def ex_rules)

end
