(* ===== verification/DataStatusProps.thy ===== *)
theory DataStatusProps
  imports DataExamples Interfaces
begin

text \<open>
  The identities derived from operation UIDs, and what the status validators of
  \<^verbatim>\<open>internal/platform/data/operation.go\<close> guarantee of the statuses they accept.
\<close>

section \<open>Derived identities\<close>

definition candidate_encoding :: "UID \<times> string \<Rightarrow> bytes" where
  "candidate_encoding k = ''arcadectl/restore/'' @ fst k @ ''/'' @ ''claim/'' @ snd k"

definition candidate_key :: "UID \<times> string \<Rightarrow> bool" where
  "candidate_key k \<longleftrightarrow> fst k \<noteq> [] \<and> CHR ''/'' \<notin> set (fst k) \<and> snd k \<noteq> []"

definition artifact_encoding :: "UID \<Rightarrow> bytes" where
  "artifact_encoding uid = ''arcadectl/backup/'' @ uid @ ''/''"

lemma RestoreCandidateID_eq:
  "candidate_key (uid, path) \<Longrightarrow> RestoreCandidateID uid path =
     Inr (''restore-'' @ hex (take 24 (sha256 (candidate_encoding (uid, path)))))"
  by (simp add: RestoreCandidateID_def restoreLabel_def candidate_key_def candidate_encoding_def)

lemma ArtifactID_eq:
  "uid \<noteq> [] \<Longrightarrow> ArtifactID uid = Inr (''backup-'' @ hex (take 32 (sha256 (artifact_encoding uid))))"
  by (simp add: ArtifactID_def deterministicID_def artifact_encoding_def)

interpretation candidate: digest_identity candidate_encoding candidate_key "''restore-''" 24
  "\<lambda>k. projr (RestoreCandidateID (fst k) (snd k))"
proof unfold_locales
  show "k = k'" if "candidate_key k" "candidate_key k'" "candidate_encoding k = candidate_encoding k'" for k k'
  proof -
    have "fst k @ CHR ''/'' # ''claim/'' @ snd k = fst k' @ CHR ''/'' # ''claim/'' @ snd k'"
      using that(3) by (simp add: candidate_encoding_def)
    then have "fst k = fst k' \<and> ''claim/'' @ snd k = ''claim/'' @ snd k'"
      using that(1,2) by (intro append_sep_eq) (simp_all add: candidate_key_def)
    then show ?thesis by (simp add: prod_eq_iff)
  qed
qed (simp_all add: RestoreCandidateID_eq)

interpretation artifact: digest_identity artifact_encoding "\<lambda>uid. uid \<noteq> []" "''backup-''" 32
  "\<lambda>uid. projr (ArtifactID uid)"
  by unfold_locales (simp_all add: ArtifactID_eq, simp add: artifact_encoding_def)

text \<open>
  A candidate claim name is a valid DNS label of 56 bytes. Two restores, or two paths of one
  restore, never share a candidate name unless SHA-256 collides on its first 24 bytes; the UIDs
  Kubernetes issues contain no slash, which is what keeps the hashed text unambiguous.
\<close>

theorem RestoreCandidateID_identity:
  assumes "uid \<noteq> []" "CHR ''/'' \<notin> set uid" "path \<noteq> []"
  shows "\<exists>name. RestoreCandidateID uid path = Inr name \<and> dns_label name \<and> length name = 56 \<and>
    (\<forall>uid' path'. uid' \<noteq> [] \<and> CHR ''/'' \<notin> set uid' \<and> RestoreCandidateID uid' path' = Inr name \<longrightarrow>
       (uid', path') = (uid, path) \<or>
       sha256_collision 24 (candidate_encoding (uid', path')) (candidate_encoding (uid, path)))"
proof -
  let ?k = "(uid, path)"
  have k: "candidate_key ?k" using assms by (simp add: candidate_key_def)
  let ?name = "projr (RestoreCandidateID uid path)"
  have name: "RestoreCandidateID uid path = Inr ?name" by (simp add: RestoreCandidateID_eq [OF k])
  have label: "dns_label ?name" "length ?name = 56"
    using candidate.ident_dns_label [OF k] candidate.ident_length [OF k]
    by (simp_all add: char_class_defs)
  have "(uid', path') = ?k \<or> sha256_collision 24 (candidate_encoding (uid', path')) (candidate_encoding ?k)"
    if "uid' \<noteq> []" "CHR ''/'' \<notin> set uid'" "RestoreCandidateID uid' path' = Inr ?name" for uid' path'
  proof -
    have "candidate_key (uid', path')"
      using that by (auto simp: candidate_key_def RestoreCandidateID_def split: if_splits)
    then show ?thesis using candidate.ident_inj [of "(uid', path')" ?k] k that(3) by simp
  qed
  with name label show ?thesis by blast
qed

theorem RestoreCandidateID_identity_witness:
  "\<exists>name. RestoreCandidateID ''5f0c-77'' ''world'' = Inr name \<and> dns_label name \<and> length name = 56 \<and>
    (\<forall>uid' path'. uid' \<noteq> [] \<and> CHR ''/'' \<notin> set uid' \<and> RestoreCandidateID uid' path' = Inr name \<longrightarrow>
       (uid', path') = (''5f0c-77'', ''world'') \<or>
       sha256_collision 24 (candidate_encoding (uid', path')) (candidate_encoding (''5f0c-77'', ''world'')))"
  by (rule RestoreCandidateID_identity) simp_all

section \<open>Complete path sets\<close>

lemma pathByName_Some: "pathByName ps n = Some p \<Longrightarrow> p \<in> set ps \<and> dp_Name p = n"
  by (induction ps) (auto split: if_splits)

lemma pathByName_distinct:
  "distinct (map dp_Name ps) \<Longrightarrow> p \<in> set ps \<Longrightarrow> pathByName ps (dp_Name p) = Some p"
  by (induction ps) force+

lemma aliasError_None:
  "aliasError label ps = None \<longleftrightarrow> sorted_wrt (\<lambda>p q. \<not> claimsAlias p q) ps"
  by (induction ps) (auto simp: guard_simps)

text \<open>What \<open>completePathSet\<close> accepts, in terms of sets.\<close>

definition covers :: "DataPathIdentity list \<Rightarrow> DataPathIdentity list \<Rightarrow> bool" where
  "covers source observed \<longleftrightarrow> source \<noteq> [] \<and> length observed = length source \<and>
     (\<forall>s\<in>set source. \<exists>p\<in>set observed. dp_Name p = dp_Name s \<and> dp_MountPath p = dp_MountPath s \<and>
        ref_Name (dp_ClaimRef p) \<noteq> [] \<and> ref_UID (dp_ClaimRef p) \<noteq> []) \<and>
     distinct (map (\<lambda>p. ref_Name (dp_ClaimRef p)) observed) \<and>
     distinct (map (\<lambda>p. ref_UID (dp_ClaimRef p)) observed)"

lemma sorted_wrt_no_alias:
  "sorted_wrt (\<lambda>p q. \<not> claimsAlias p q) ps \<longleftrightarrow>
     distinct (map (\<lambda>p. ref_Name (dp_ClaimRef p)) ps) \<and> distinct (map (\<lambda>p. ref_UID (dp_ClaimRef p)) ps)"
  by (induction ps) (auto simp: claimsAlias_def)

lemma sourcePathError_None:
  "sourcePathError observed label s = None \<Longrightarrow> \<exists>p\<in>set observed. dp_Name p = dp_Name s \<and>
     dp_MountPath p = dp_MountPath s \<and> ref_Name (dp_ClaimRef p) \<noteq> [] \<and> ref_UID (dp_ClaimRef p) \<noteq> []"
  by (auto simp: sourcePathError_def split: option.splits dest!: pathByName_Some)

lemma completePathSet_covers:
  "completePathSet source observed label = None \<Longrightarrow> covers source observed"
  by (auto simp: completePathSet_def covers_def guard_simps aliasError_None sorted_wrt_no_alias
      dest: sourcePathError_None)

text \<open>With distinct source names a complete path set has exactly the source's names.\<close>

lemma covers_names:
  assumes "covers source observed" "distinct (map dp_Name source)"
  shows "set (map dp_Name observed) = set (map dp_Name source)" "distinct (map dp_Name observed)"
proof -
  have sub: "set (map dp_Name source) \<subseteq> set (map dp_Name observed)"
    using assms(1) unfolding covers_def by (metis (no_types, lifting) image_subset_iff imageI list.set_map)
  have len: "length (map dp_Name observed) = length (map dp_Name source)"
    using assms(1) by (simp add: covers_def)
  have "card (set (map dp_Name source)) = length (map dp_Name source)"
    using assms(2) by (rule distinct_card)
  then have card: "length (map dp_Name observed) \<le> card (set (map dp_Name observed))"
    using sub len by (metis card_mono List.finite_set)
  then have card_eq: "card (set (map dp_Name observed)) = length (map dp_Name observed)"
    using card_length [of "map dp_Name observed"] by simp
  then show "distinct (map dp_Name observed)" by (rule card_distinct)
  show "set (map dp_Name observed) = set (map dp_Name source)"
    using card_subset_eq [OF List.finite_set sub] card_eq len assms(2)
    by (metis distinct_card)
qed

lemma distinctClaims_None:
  "distinctClaims candidate previous = None \<longleftrightarrow>
     (\<forall>c\<in>set candidate. \<forall>p\<in>set previous. \<not> claimsAlias c p)"
  by (auto simp: distinctClaims_def guard_simps)

section \<open>What an accepted restore status guarantees\<close>

lemma restore_status_parts:
  assumes "ValidateRestoreStatus (Some op) = None"
  shows "validateCommonStatus RestoreOperation (rspec_Request (gr_Spec op)) (rspec_Target (gr_Spec op))
           (rst_Data (gr_Status op)) (meta_Generation (gr_Meta op)) = None"
    and "validateRestoreRuntimeStatus op = None"
    and "rst_PreflightVerifiedAt (gr_Status op) \<noteq> None \<Longrightarrow>
           st_Source (rst_Data (gr_Status op)) \<noteq> None \<and> verifiedArtifact (st_Artifact (rst_Data (gr_Status op)))"
    and "activationPhase (st_Phase (rst_Data (gr_Status op))) \<Longrightarrow> rst_ActivationStartedAt (gr_Status op) \<noteq> None"
  using assms by (simp_all add: ValidateRestoreStatus_def Let_def guard_simps)

lemma restore_activation_checked:
  assumes "ValidateRestoreStatus (Some op) = None" "rst_ActivationStartedAt (gr_Status op) \<noteq> None"
  shows "\<exists>source. st_Source (rst_Data (gr_Status op)) = Some source \<and> activationError op source = None"
  using assms by (simp add: ValidateRestoreStatus_def Let_def guard_simps split: option.splits)

lemma activation_parts:
  assumes "activationError op source = None"
  shows "covers (src_Paths source) (rst_CandidateData (gr_Status op))"
    and "covers (src_Paths source) (rst_PreviousData (gr_Status op))"
    and "\<forall>c\<in>set (rst_CandidateData (gr_Status op)). \<forall>p\<in>set (rst_PreviousData (gr_Status op)). \<not> claimsAlias c p"
    and "\<forall>c\<in>set (rst_CandidateData (gr_Status op)).
           RestoreCandidateID (meta_UID (gr_Meta op)) (dp_Name c) = Inr (ref_Name (dp_ClaimRef c))"
  using assms
  by (auto simp: activationError_def Let_def guard_simps distinctClaims_None dest!: completePathSet_covers)

lemma activation_verified:
  assumes "activationError op source = None"
  obtains cv artifact where "rst_CandidateVerification (gr_Status op) = Some cv"
    "st_Artifact (rst_Data (gr_Status op)) = Some artifact" "cver_Result cv = VerificationVerified"
    "cver_ManifestDigest cv = art_ManifestDigest artifact" "cver_PathCount cv = int32_of_len (src_Paths source)"
  using assms by (auto simp: activationError_def Let_def guard_simps split: option.splits)

lemma activation_outcome:
  assumes "activationError op source = None"
  shows "st_Phase (rst_Data (gr_Status op)) = DataPhaseSucceeded \<Longrightarrow> switchedError source (gr_Status op) = None"
    and "st_Phase (rst_Data (gr_Status op)) \<in> {DataPhaseFailed, DataPhaseCancelled} \<Longrightarrow>
      rollbackError source (gr_Status op) = None"
  using assms by (auto simp: activationError_def Let_def guard_simps)

text \<open>
  When the active set covers the source and every member of the chosen set is found in it by name,
  the two sets agree claim by claim.
\<close>

definition selects :: "DataPathIdentity list \<Rightarrow> DataPathIdentity list \<Rightarrow> bool" where
  "selects active chosen \<longleftrightarrow> length active = length chosen \<and>
     (\<forall>a\<in>set active. \<exists>c\<in>set chosen. dp_Name c = dp_Name a \<and> dp_MountPath c = dp_MountPath a \<and>
        ref_Name (dp_ClaimRef c) = ref_Name (dp_ClaimRef a) \<and> ref_UID (dp_ClaimRef c) = ref_UID (dp_ClaimRef a))"

lemma covers_mount:
  assumes "covers source observed" "distinct (map dp_Name source)" "p \<in> set observed" "s \<in> set source"
    and "dp_Name p = dp_Name s"
  shows "dp_MountPath p = dp_MountPath s"
proof -
  obtain q where q: "q \<in> set observed" "dp_Name q = dp_Name s" "dp_MountPath q = dp_MountPath s"
    using assms(1,4) by (auto simp: covers_def)
  have "distinct (map dp_Name observed)" by (rule covers_names(2) [OF assms(1,2)])
  then have "q = p" using q(1,2) assms(3,5) by (metis option.inject pathByName_distinct)
  with q(3) show ?thesis by simp
qed

lemma selects_by_name:
  assumes "covers source active" "covers source chosen" "distinct (map dp_Name source)"
    and "\<forall>c\<in>set chosen. \<exists>a. pathByName active (dp_Name c) = Some a \<and> sameClaim a c"
  shows "selects active chosen"
proof -
  have names: "set (map dp_Name active) = set (map dp_Name chosen)" and da: "distinct (map dp_Name active)"
    using covers_names [OF assms(1,3)] covers_names(1) [OF assms(2,3)] by simp_all
  have "\<exists>c\<in>set chosen. dp_Name c = dp_Name a \<and> dp_MountPath c = dp_MountPath a \<and>
      ref_Name (dp_ClaimRef c) = ref_Name (dp_ClaimRef a) \<and> ref_UID (dp_ClaimRef c) = ref_UID (dp_ClaimRef a)"
    if a: "a \<in> set active" for a
  proof -
    have "dp_Name a \<in> set (map dp_Name chosen)" using a names by force
    then obtain c where c: "c \<in> set chosen" "dp_Name c = dp_Name a" by auto
    have "dp_Name a \<in> set (map dp_Name source)"
      using a covers_names(1) [OF assms(1,3)] by force
    then obtain s where s: "s \<in> set source" "dp_Name s = dp_Name a" by auto
    have "dp_MountPath c = dp_MountPath s" "dp_MountPath a = dp_MountPath s"
      using covers_mount [OF assms(2,3) c(1) s(1)] covers_mount [OF assms(1,3) a s(1)] c(2) s(2) by auto
    moreover have "sameClaim a c"
      using assms(4) c pathByName_distinct [OF da a] by auto
    ultimately show ?thesis using c unfolding sameClaim_def by (intro bexI [of _ c]) simp_all
  qed
  moreover have "length active = length chosen" using assms(1,2) by (simp add: covers_def)
  ultimately show ?thesis by (simp add: selects_def)
qed

lemma switched_selects:
  assumes "switchedError source status = None" "covers (src_Paths source) (rst_CandidateData status)"
    and "distinct (map dp_Name (src_Paths source))"
  shows "covers (src_Paths source) (rst_ActiveData status)"
    and "selects (rst_ActiveData status) (rst_CandidateData status)"
proof -
  show cov: "covers (src_Paths source) (rst_ActiveData status)"
    using assms(1) by (auto simp: switchedError_def guard_simps dest: completePathSet_covers)
  have "\<forall>c\<in>set (rst_CandidateData status).
      \<exists>a. pathByName (rst_ActiveData status) (dp_Name c) = Some a \<and> sameClaim a c"
    using assms(1) by (auto simp: switchedError_def guard_simps split: option.splits)
  then show "selects (rst_ActiveData status) (rst_CandidateData status)"
    by (rule selects_by_name [OF cov assms(2,3)])
qed

lemma rollback_selects:
  assumes "rollbackError source status = None" "covers (src_Paths source) (rst_PreviousData status)"
    and "distinct (map dp_Name (src_Paths source))"
  shows "covers (src_Paths source) (rst_ActiveData status)"
    and "selects (rst_ActiveData status) (rst_PreviousData status)"
proof -
  show cov: "covers (src_Paths source) (rst_ActiveData status)"
    using assms(1) by (auto simp: rollbackError_def split: option.splits dest: completePathSet_covers)
  have "\<forall>c\<in>set (rst_PreviousData status).
      \<exists>a. pathByName (rst_ActiveData status) (dp_Name c) = Some a \<and> sameClaim a c"
    using assms(1) by (fastforce simp: rollbackError_def guard_simps split: option.splits)
  then show "selects (rst_ActiveData status) (rst_PreviousData status)"
    by (rule selects_by_name [OF cov assms(2,3)])
qed

text \<open>
  C22. A restore status that is accepted as Succeeded serves exactly its verified candidates, given that the
  journaled source lists each path once: the active claims are the candidate claims path by path, each has
  the name derived from this restore's UID and the path, none shares a name or a UID with a claim of the
  previous world, and the previous world is still complete for rollback. The artifact was verified, and so
  were the candidates: their recorded verification has the result Verified, for the manifest digest of that
  artifact and for as many paths as are served.
\<close>

theorem restore_succeeded_serves_candidates:
  assumes "ValidateRestoreStatus (Some op) = None"
    and "st_Phase (rst_Data (gr_Status op)) = DataPhaseSucceeded"
    and "st_Source (rst_Data (gr_Status op)) = Some source" "distinct (map dp_Name (src_Paths source))"
  shows "selects (rst_ActiveData (gr_Status op)) (rst_CandidateData (gr_Status op))
    \<and> (\<forall>a\<in>set (rst_ActiveData (gr_Status op)).
         RestoreCandidateID (meta_UID (gr_Meta op)) (dp_Name a) = Inr (ref_Name (dp_ClaimRef a)) \<and>
         (\<forall>p\<in>set (rst_PreviousData (gr_Status op)). \<not> claimsAlias a p))
    \<and> covers (src_Paths source) (rst_PreviousData (gr_Status op))
    \<and> verifiedArtifact (st_Artifact (rst_Data (gr_Status op)))
    \<and> (\<exists>cv artifact. rst_CandidateVerification (gr_Status op) = Some cv \<and> st_Artifact (rst_Data (gr_Status op)) = Some artifact \<and>
         cver_Result cv = VerificationVerified \<and> cver_ManifestDigest cv = art_ManifestDigest artifact \<and>
         cver_PathCount cv = int32_of_len (rst_ActiveData (gr_Status op)))"
proof -
  have act: "rst_ActivationStartedAt (gr_Status op) \<noteq> None"
    using restore_status_parts(4) [OF assms(1)] assms(2) by (simp add: activationPhase_def)
  then have err: "activationError op source = None"
    using restore_activation_checked [OF assms(1)] assms(3) by auto
  note parts = activation_parts [OF err]
  have sel: "selects (rst_ActiveData (gr_Status op)) (rst_CandidateData (gr_Status op))"
    using switched_selects(2) activation_outcome(1) [OF err assms(2)] parts(1) assms(4) by blast
  have "RestoreCandidateID (meta_UID (gr_Meta op)) (dp_Name a) = Inr (ref_Name (dp_ClaimRef a)) \<and>
      (\<forall>p\<in>set (rst_PreviousData (gr_Status op)). \<not> claimsAlias a p)"
    if a: "a \<in> set (rst_ActiveData (gr_Status op))" for a
  proof -
    obtain c where c: "c \<in> set (rst_CandidateData (gr_Status op))" "dp_Name c = dp_Name a"
      "ref_Name (dp_ClaimRef c) = ref_Name (dp_ClaimRef a)" "ref_UID (dp_ClaimRef c) = ref_UID (dp_ClaimRef a)"
      using sel a unfolding selects_def by blast
    then have "claimsAlias a p = claimsAlias c p" for p by (simp add: claimsAlias_def)
    with c parts(3,4) show ?thesis by auto
  qed
  moreover have "verifiedArtifact (st_Artifact (rst_Data (gr_Status op)))"
    using restore_status_parts(1) [OF assms(1)] assms(2)
    by (simp add: validateCommonStatus_def Let_def guard_simps)
  moreover have "int32_of_len (rst_ActiveData (gr_Status op)) = int32_of_len (src_Paths source)"
    using sel parts(1) by (simp add: int32_of_len_def selects_def covers_def)
  ultimately show ?thesis using sel parts(2) by (auto intro: activation_verified [OF err])
qed

theorem restore_succeeded_serves_candidates_witness:
  "selects (rst_ActiveData (gr_Status ex_restore_succeeded)) (rst_CandidateData (gr_Status ex_restore_succeeded))
    \<and> RestoreCandidateID ''r-1'' (dp_Name ex_candidate) = Inr (ref_Name (dp_ClaimRef ex_candidate))
    \<and> \<not> claimsAlias ex_candidate ex_previous
    \<and> covers [ex_previous] (rst_PreviousData (gr_Status ex_restore_succeeded))
    \<and> (\<exists>cv. rst_CandidateVerification (gr_Status ex_restore_succeeded) = Some cv \<and> cver_Result cv = VerificationVerified)"
  using restore_succeeded_serves_candidates [OF ex_restore_succeeded_valid, of ex_source]
  by (simp add: ex_restore_succeeded_def ex_defs)

text \<open>
  A restore status that is accepted as Failed or Cancelled after activation started has rolled
  back: the active claims are the previous claims path by path, and they share neither a name nor a
  UID with any candidate claim.
\<close>

theorem restore_undone_serves_previous:
  assumes "ValidateRestoreStatus (Some op) = None"
    and "st_Phase (rst_Data (gr_Status op)) \<in> {DataPhaseFailed, DataPhaseCancelled}"
    and "rst_ActivationStartedAt (gr_Status op) \<noteq> None"
    and "st_Source (rst_Data (gr_Status op)) = Some source" "distinct (map dp_Name (src_Paths source))"
  shows "selects (rst_ActiveData (gr_Status op)) (rst_PreviousData (gr_Status op))
    \<and> (\<forall>a\<in>set (rst_ActiveData (gr_Status op)). \<forall>c\<in>set (rst_CandidateData (gr_Status op)). \<not> claimsAlias a c)"
proof -
  have err: "activationError op source = None"
    using restore_activation_checked [OF assms(1,3)] assms(4) by auto
  note parts = activation_parts [OF err]
  have sel: "selects (rst_ActiveData (gr_Status op)) (rst_PreviousData (gr_Status op))"
    using rollback_selects(2) activation_outcome(2) [OF err assms(2)] parts(2) assms(5) by blast
  have "\<not> claimsAlias a c" if a: "a \<in> set (rst_ActiveData (gr_Status op))"
    and c: "c \<in> set (rst_CandidateData (gr_Status op))" for a c
  proof -
    obtain p where p: "p \<in> set (rst_PreviousData (gr_Status op))"
      "ref_Name (dp_ClaimRef p) = ref_Name (dp_ClaimRef a)" "ref_UID (dp_ClaimRef p) = ref_UID (dp_ClaimRef a)"
      using sel a unfolding selects_def by blast
    then have "claimsAlias a c = claimsAlias c p" by (auto simp: claimsAlias_def)
    then show ?thesis using parts(3) c p(1) by blast
  qed
  with sel show ?thesis by blast
qed

theorem restore_undone_serves_previous_witness:
  "selects (rst_ActiveData (gr_Status ex_restore_failed)) (rst_PreviousData (gr_Status ex_restore_failed))
    \<and> \<not> claimsAlias ex_previous ex_candidate"
  using restore_undone_serves_previous [OF ex_restore_failed_valid, of ex_source]
  by (simp add: ex_restore_failed_def ex_defs)

end
