(* ===== verification/Admission.thy ===== *)
theory Admission
  imports ApiTypes
begin

text \<open>
  The validation rules that \<^verbatim>\<open>api/v1alpha1\<close> attaches to its resources as CEL expressions
  (\<^verbatim>\<open>+kubebuilder:validation:XValidation\<close>), which the API server evaluates on every write: one
  predicate per rule group, in the order of the source. \<^verbatim>\<open>has(self.f)\<close> of an omitempty field is
  its being non-empty; CEL integers are unbounded here, so 32- and 64-bit fields are read by \<open>sint\<close>.
  Rules that mention \<^verbatim>\<open>oldSelf\<close> relate the stored object to its replacement.
\<close>

definition same_ref :: "ExactLocalReference \<Rightarrow> ExactLocalReference \<Rightarrow> bool" where
  "same_ref a b \<longleftrightarrow> ref_Name a = ref_Name b \<and> ref_UID a = ref_UID b"

definition same_secret_ref :: "ExactSecretReference \<Rightarrow> ExactSecretReference \<Rightarrow> bool" where
  "same_secret_ref a b \<longleftrightarrow> same_ref (sref_Local a) (sref_Local b) \<and>
     sref_ResourceVersion a = sref_ResourceVersion b"

definition phase_in :: "DataOperationPhase \<Rightarrow> DataOperationPhase list \<Rightarrow> bool" where
  "phase_in p ps \<longleftrightarrow> p \<in> set ps"

section \<open>DataOperationStatus\<close>

definition rule_actionable :: "DataOperationStatus \<Rightarrow> bool" where
  "rule_actionable s \<longleftrightarrow> (phase_in (st_Phase s) [DataPhaseBlocked, DataPhaseFailed] \<longrightarrow>
     list_ex (\<lambda>c. cond_Status c \<noteq> ConditionTrue \<and> cond_Message c \<noteq> []) (st_Conditions s))"

definition rule_fenced_work :: "DataOperationStatus \<Rightarrow> bool" where
  "rule_fenced_work s \<longleftrightarrow>
     (phase_in (st_Phase s) [DataPhaseRunning, DataPhaseVerifying, DataPhaseActivating,
        DataPhaseRollingBack, DataPhaseSucceeded] \<longrightarrow> st_Fence s \<noteq> None)"

definition rule_succeeded_artifact :: "DataOperationStatus \<Rightarrow> bool" where
  "rule_succeeded_artifact s \<longleftrightarrow> (st_Phase s = DataPhaseSucceeded \<longrightarrow>
     (case (st_Source s, st_Artifact s) of
        (Some source, Some artifact) \<Rightarrow>
          ver_Result (art_Verification artifact) = VerificationVerified \<and>
          ver_VerifiedAt (art_Verification artifact) \<noteq> None \<and>
          sint (art_PathCount artifact) = int (length (src_Paths source))
      | _ \<Rightarrow> False))"

definition rule_terminal_runtime :: "DataOperationStatus \<Rightarrow> bool" where
  "rule_terminal_runtime s \<longleftrightarrow>
     (phase_in (st_Phase s) [DataPhaseCancelled, DataPhaseSucceeded, DataPhaseFailed] \<and>
        st_Fence s \<noteq> None \<longrightarrow> st_Runtime s \<noteq> None)"

definition status_rules :: "DataOperationStatus \<Rightarrow> bool" where
  "status_rules s \<longleftrightarrow> rule_actionable s \<and> rule_fenced_work s \<and> rule_succeeded_artifact s \<and>
     rule_terminal_runtime s"

text \<open>The rules that compare with the stored status.\<close>

definition status_update_rules :: "DataOperationStatus \<Rightarrow> DataOperationStatus \<Rightarrow> bool" where
  "status_update_rules old s \<longleftrightarrow>
     (st_Source old \<noteq> None \<longrightarrow> st_Source s \<noteq> None) \<and>
     (st_Fence old \<noteq> None \<longrightarrow> st_Fence s \<noteq> None) \<and>
     (st_Artifact old \<noteq> None \<longrightarrow> st_Artifact s \<noteq> None) \<and>
     (st_Runtime old \<noteq> None \<longrightarrow> st_Runtime s \<noteq> None) \<and>
     (phase_in (st_Phase old) [DataPhaseCancelled, DataPhaseSucceeded, DataPhaseFailed] \<longrightarrow>
        st_Phase s = st_Phase old)"

section \<open>GameBackup and GameRestore\<close>

definition rule_fence_generation ::
    "ExactGameServerReference \<Rightarrow> ColdDataFence option \<Rightarrow> bool" where
  "rule_fence_generation subject fence = (case fence of
       None \<Rightarrow> True
     | Some f \<Rightarrow> (let fenced = fence_GameServer f in
         same_ref (gref_Local fenced) (gref_Local subject) \<and>
         gref_DesiredState fenced = DesiredStateStopped \<and>
         (gref_DesiredState subject = DesiredStateRunning \<and>
            sint (gref_Generation fenced) = sint (gref_Generation subject) + 1 \<or>
          gref_DesiredState subject = DesiredStateStopped \<and>
            gref_Generation fenced = gref_Generation subject)))"

definition rule_backup_runtime :: "GameBackup \<Rightarrow> bool" where
  "rule_backup_runtime b =
     (let source = bspec_Source (gb_Spec b); policy = req_RestartPolicy (bspec_Request (gb_Spec b)) in
      case st_Runtime (gb_Status b) of
        None \<Rightarrow> True
      | Some rt \<Rightarrow> (case st_Fence (gb_Status b) of
          None \<Rightarrow> False
        | Some f \<Rightarrow> (let observed = rt_GameServer rt; fenced = fence_GameServer f in
            same_ref (gref_Local observed) (gref_Local source) \<and>
            (policy = RestartRestorePreviousState \<and> gref_DesiredState source = DesiredStateRunning \<and>
               gref_DesiredState observed = DesiredStateRunning \<and>
               sint (gref_Generation observed) = sint (gref_Generation fenced) + 1 \<or>
             (policy \<noteq> RestartRestorePreviousState \<or> gref_DesiredState source = DesiredStateStopped) \<and>
               gref_DesiredState observed = DesiredStateStopped \<and>
               gref_Generation observed = gref_Generation fenced))))"

definition rule_backup_provenance :: "GameBackup \<Rightarrow> bool" where
  "rule_backup_provenance b = (case st_Artifact (gb_Status b) of
       None \<Rightarrow> True
     | Some a \<Rightarrow> ref_Name (prov_BackupRef (art_Provenance a)) = meta_Name (gb_Meta b) \<and>
         same_secret_ref (prov_RepositorySecretRef (art_Provenance a))
           (req_RepositorySecretRef (bspec_Request (gb_Spec b))))"

definition backup_rules :: "GameBackup \<Rightarrow> bool" where
  "backup_rules b \<longleftrightarrow> status_rules (gb_Status b) \<and>
     rule_fence_generation (bspec_Source (gb_Spec b)) (st_Fence (gb_Status b)) \<and>
     rule_backup_runtime b \<and> rule_backup_provenance b"

definition unique_claims :: "DataPathIdentity list \<Rightarrow> bool" where
  "unique_claims ps = list_all (\<lambda>p.
       length (filter (\<lambda>o'. ref_Name (dp_ClaimRef o') = ref_Name (dp_ClaimRef p)) ps) = 1 \<and>
       length (filter (\<lambda>o'. ref_UID (dp_ClaimRef o') = ref_UID (dp_ClaimRef p)) ps) = 1) ps"

definition same_path :: "DataPathIdentity \<Rightarrow> DataPathIdentity \<Rightarrow> bool" where
  "same_path a b \<longleftrightarrow> dp_Name a = dp_Name b \<and> dp_MountPath a = dp_MountPath b"

definition rule_activation_verified :: "GameRestoreStatus \<Rightarrow> bool" where
  "rule_activation_verified r =
     (case (st_Source (rst_Data r), st_Artifact (rst_Data r), rst_CandidateVerification r) of
        (Some source, Some artifact, Some cv) \<Rightarrow>
          ver_Result (art_Verification artifact) = VerificationVerified \<and>
          sint (art_PathCount artifact) = int (length (src_Paths source)) \<and>
          cver_Result cv = VerificationVerified \<and>
          cver_ManifestDigest cv = art_ManifestDigest artifact \<and>
          sint (cver_PathCount cv) = int (length (src_Paths source))
      | _ \<Rightarrow> False)"

definition rule_activation_candidates :: "GameRestoreStatus \<Rightarrow> bool" where
  "rule_activation_candidates r = (case st_Source (rst_Data r) of
       None \<Rightarrow> False
     | Some source \<Rightarrow> rst_CandidateData r \<noteq> [] \<and>
         length (rst_CandidateData r) = length (src_Paths source) \<and>
         list_all (\<lambda>s. list_ex (same_path s) (rst_CandidateData r)) (src_Paths source))"

definition rule_activation_previous :: "GameRestoreStatus \<Rightarrow> bool" where
  "rule_activation_previous r = (case st_Source (rst_Data r) of
       None \<Rightarrow> False
     | Some source \<Rightarrow> rst_CandidateData r \<noteq> [] \<and> rst_PreviousData r \<noteq> [] \<and>
         length (rst_PreviousData r) = length (src_Paths source) \<and>
         list_all (\<lambda>s. list_ex (same_path s) (rst_PreviousData r)) (src_Paths source) \<and>
         list_all (\<lambda>p. list_all (\<lambda>c. ref_Name (dp_ClaimRef c) \<noteq> ref_Name (dp_ClaimRef p) \<and>
             ref_UID (dp_ClaimRef c) \<noteq> ref_UID (dp_ClaimRef p)) (rst_CandidateData r))
           (rst_PreviousData r))"

definition active_equals :: "DataPathIdentity list \<Rightarrow> GameRestoreStatus \<Rightarrow> bool" where
  "active_equals chosen r = (case st_Source (rst_Data r) of
       None \<Rightarrow> False
     | Some source \<Rightarrow> chosen \<noteq> [] \<and> rst_ActiveData r \<noteq> [] \<and>
         length (rst_ActiveData r) = length (src_Paths source) \<and>
         list_all (\<lambda>a. list_ex (\<lambda>c. same_path c a \<and> same_ref (dp_ClaimRef c) (dp_ClaimRef a)) chosen)
           (rst_ActiveData r))"

definition rule_preflight_verified :: "GameRestoreStatus \<Rightarrow> bool" where
  "rule_preflight_verified r \<longleftrightarrow> (rst_PreflightVerifiedAt r \<noteq> None \<longrightarrow> st_Source (rst_Data r) \<noteq> None \<and>
     (case st_Artifact (rst_Data r) of None \<Rightarrow> False | Some a \<Rightarrow> ver_Result (art_Verification a) = VerificationVerified))"

definition rule_populate_retry :: "GameRestoreStatus \<Rightarrow> bool" where
  "rule_populate_retry r \<longleftrightarrow> (rst_PopulateRetryPending r \<longrightarrow> 0 < sint (rst_PopulateAttempts r) \<and> st_Phase (rst_Data r) = DataPhaseRunning)"

text \<open>The rules of GameRestoreStatus that look at one status; those on \<^verbatim>\<open>oldSelf\<close> are not among them.\<close>

definition restore_status_rules :: "GameRestoreStatus \<Rightarrow> bool" where
  "restore_status_rules r \<longleftrightarrow>
     (rst_ActivationStartedAt r \<noteq> None \<longrightarrow> rule_activation_verified r) \<and>
     (rst_ActivationStartedAt r \<noteq> None \<longrightarrow> rule_activation_candidates r) \<and>
     unique_claims (rst_CandidateData r) \<and> unique_claims (rst_PreviousData r) \<and>
     unique_claims (rst_ActiveData r) \<and>
     (rst_ActivationStartedAt r \<noteq> None \<longrightarrow> rule_activation_previous r) \<and>
     (phase_in (st_Phase (rst_Data r)) [DataPhaseActivating, DataPhaseRollingBack, DataPhaseSucceeded] \<longrightarrow>
        rst_ActivationStartedAt r \<noteq> None) \<and>
     (rst_ActivationStartedAt r \<noteq> None \<and>
        phase_in (st_Phase (rst_Data r)) [DataPhaseFailed, DataPhaseCancelled] \<longrightarrow>
        active_equals (rst_PreviousData r) r) \<and>
     (st_Phase (rst_Data r) = DataPhaseSucceeded \<longrightarrow> active_equals (rst_CandidateData r) r) \<and>
     rule_preflight_verified r \<and> rule_populate_retry r"

text \<open>The rule of RuntimeDisposition, and the rules of the GameRestore object.\<close>

definition rule_runtime_disposition :: "RuntimeDisposition option \<Rightarrow> bool" where
  "rule_runtime_disposition runtime = (case runtime of
       None \<Rightarrow> True
     | Some rt \<Rightarrow> gref_DesiredState (rt_GameServer rt) = DesiredStateRunning \<and> rt_Phase rt = PhaseReady \<or>
         gref_DesiredState (rt_GameServer rt) = DesiredStateStopped \<and> rt_Phase rt = PhaseStopped)"

definition rule_restore_generation :: "GameRestoreStatus \<Rightarrow> int64 \<Rightarrow> bool" where
  "rule_restore_generation r generation = (case rst_RuntimeJournal r of
       None \<Rightarrow> False
     | Some j \<Rightarrow> (let phase = st_Phase (rst_Data r) in
         phase = DataPhaseSucceeded \<and> jr_CandidateStartGeneration j \<noteq> 0 \<and> generation = jr_CandidateStartGeneration j \<or>
         phase_in phase [DataPhaseFailed, DataPhaseCancelled] \<and> rst_ActivationStartedAt r \<noteq> None \<and>
           jr_RollbackRestartGeneration j \<noteq> 0 \<and> generation = jr_RollbackRestartGeneration j \<or>
         phase_in phase [DataPhaseFailed, DataPhaseCancelled] \<and> rst_ActivationStartedAt r = None \<and>
           jr_PreviousRecoveryGeneration j \<noteq> 0 \<and> generation = jr_PreviousRecoveryGeneration j))"

definition rule_restore_runtime :: "GameRestore \<Rightarrow> bool" where
  "rule_restore_runtime op =
     (let target = rspec_Target (gr_Spec op); policy = req_RestartPolicy (rspec_Request (gr_Spec op)); data = rst_Data (gr_Status op) in
      case st_Runtime data of
        None \<Rightarrow> True
      | Some rt \<Rightarrow> (case st_Fence data of
          None \<Rightarrow> False
        | Some f \<Rightarrow> (let observed = rt_GameServer rt in
            same_ref (gref_Local observed) (gref_Local target) \<and>
            ((policy \<noteq> RestartRestorePreviousState \<or> gref_DesiredState target = DesiredStateStopped) \<and>
               gref_DesiredState observed = DesiredStateStopped \<and> gref_Generation observed = gref_Generation (fence_GameServer f) \<or>
             policy = RestartRestorePreviousState \<and> gref_DesiredState target = DesiredStateRunning \<and>
               gref_DesiredState observed = DesiredStateRunning \<and> rule_restore_generation (gr_Status op) (gref_Generation observed)))))"

definition rule_restore_provenance :: "GameRestore \<Rightarrow> bool" where
  "rule_restore_provenance op = (case st_Artifact (rst_Data (gr_Status op)) of
       None \<Rightarrow> True
     | Some a \<Rightarrow> same_ref (prov_BackupRef (art_Provenance a)) (rspec_BackupRef (gr_Spec op)) \<and>
         same_secret_ref (prov_RepositorySecretRef (art_Provenance a)) (req_RepositorySecretRef (rspec_Request (gr_Spec op))))"

definition restore_rules :: "GameRestore \<Rightarrow> bool" where
  "restore_rules op \<longleftrightarrow> status_rules (rst_Data (gr_Status op)) \<and> restore_status_rules (gr_Status op) \<and>
     rule_fence_generation (rspec_Target (gr_Spec op)) (st_Fence (rst_Data (gr_Status op))) \<and>
     rule_runtime_disposition (st_Runtime (rst_Data (gr_Status op))) \<and> rule_restore_runtime op \<and> rule_restore_provenance op"

section \<open>GameDestroy\<close>

text \<open>
  The CEL rules that \<^verbatim>\<open>api/v1alpha1/destroy_types.go\<close> declares on its types and fields, read as
  above, and the keys of the lists of claims and journal entries: what the API server checks between
  fields on every write of a GameDestroy. A rule that compares an optional field with its old value is
  evaluated only when both are present; elements of a list with map keys are compared by key. The schema of
  single fields, of nested references and of conditions is in \<open>GameDestroyAdmitted\<close>.
\<close>

subsection \<open>GameDestroyTarget and GameDestroySpec\<close>

definition destroy_target_rule :: "GameDestroyTarget \<Rightarrow> bool" where
  "destroy_target_rule t \<longleftrightarrow> (let claims = rdata_Claims (dt_Data t) in
     list_all (\<lambda>c. length (filter (\<lambda>c'. ref_Name (rclaim_ClaimRef c') = ref_Name (rclaim_ClaimRef c)) claims) = 1 \<and>
       length (filter (\<lambda>c'. ref_UID (rclaim_ClaimRef c') = ref_UID (rclaim_ClaimRef c)) claims) = 1) claims)"

text \<open>The list of claims is keyed by path: the API server refuses a second claim for a path.\<close>

definition claims_keyed :: "GameDestroyTarget \<Rightarrow> bool" where
  "claims_keyed t \<longleftrightarrow> distinct (map rclaim_Path (rdata_Claims (dt_Data t))) \<and> rdata_Claims (dt_Data t) \<noteq> [] \<and> length (rdata_Claims (dt_Data t)) \<le> 16"

definition destroy_spec_rule :: "GameDestroySpec \<Rightarrow> bool" where
  "destroy_spec_rule s \<longleftrightarrow>
     (if ds_Mode s = DestroyModeVerifiedBackup
      then ds_BackupRef s \<noteq> None \<and> ds_RepositorySecretRef s \<noteq> None \<and> ds_UnsafeReason s = []
      else ds_BackupRef s = None \<and> ds_RepositorySecretRef s = None \<and> ds_UnsafeReason s \<noteq> [])"

definition destroy_spec_update :: "GameDestroySpec \<Rightarrow> GameDestroySpec \<Rightarrow> bool" where
  "destroy_spec_update old s \<longleftrightarrow>
     (ds_ConfirmationChallenge old \<noteq> [] \<longrightarrow> ds_ConfirmationChallenge s = ds_ConfirmationChallenge old) \<and>
     ds_Target s = ds_Target old \<and> ds_Mode s = ds_Mode old \<and>
     (ds_BackupRef old \<noteq> None \<and> ds_BackupRef s \<noteq> None \<longrightarrow> ds_BackupRef s = ds_BackupRef old) \<and>
     (ds_RepositorySecretRef old \<noteq> None \<and> ds_RepositorySecretRef s \<noteq> None \<longrightarrow> ds_RepositorySecretRef s = ds_RepositorySecretRef old) \<and>
     (ds_UnsafeReason old \<noteq> [] \<and> ds_UnsafeReason s \<noteq> [] \<longrightarrow> ds_UnsafeReason s = ds_UnsafeReason old) \<and>
     (ds_CancelRequested old \<longrightarrow> ds_CancelRequested s)"

subsection \<open>GameDestroyStatus\<close>

definition journal_entry_update :: "GameDestroyClaimDeletion list \<Rightarrow> GameDestroyClaimDeletion list \<Rightarrow> bool" where
  "journal_entry_update old new \<longleftrightarrow>
     list_all (\<lambda>e. list_all (\<lambda>e'. cd_Path e = cd_Path e' \<longrightarrow> cd_ObservedDeletedAt e \<noteq> None \<longrightarrow>
       cd_ObservedDeletedAt e' = cd_ObservedDeletedAt e) new) old"

definition terminal_destroy :: "GameDestroyPhase \<Rightarrow> bool" where
  "terminal_destroy p \<longleftrightarrow> p \<in> set [DestroyPhaseSucceeded, DestroyPhaseFailed, DestroyPhaseCancelled]"

definition destroy_status_update :: "GameDestroyStatus \<Rightarrow> GameDestroyStatus \<Rightarrow> bool" where
  "destroy_status_update old s \<longleftrightarrow>
     (dst_Preview old \<noteq> None \<longrightarrow> dst_Preview s = dst_Preview old) \<and>
     (dst_Verification old \<noteq> None \<longrightarrow> dst_Verification s = dst_Verification old) \<and>
     list_all (\<lambda>e. list_ex (\<lambda>c. cd_Path c = cd_Path e \<and> cd_ClaimRef c = cd_ClaimRef e \<and> cd_RequestedAt c = cd_RequestedAt e)
       (dst_DeletionJournal s)) (dst_DeletionJournal old) \<and>
     (terminal_destroy (dst_Phase old) \<longrightarrow> dst_Phase s = dst_Phase old) \<and>
     journal_entry_update (dst_DeletionJournal old) (dst_DeletionJournal s)"

definition destroy_status_rules :: "GameDestroyStatus \<Rightarrow> bool" where
  "destroy_status_rules s \<longleftrightarrow>
     (dst_Phase s = DestroyPhaseSucceeded \<longrightarrow> dst_DeletionJournal s \<noteq> [] \<and>
        list_all (\<lambda>e. cd_ObservedDeletedAt e \<noteq> None) (dst_DeletionJournal s)) \<and>
     (dst_Phase s = DestroyPhaseCancelled \<longrightarrow> dst_DeletionJournal s = []) \<and>
     (dst_Phase s = DestroyPhaseFailed \<longrightarrow> dst_DeletionJournal s = [])"

text \<open>The journal is a list keyed by path, of at most sixteen entries.\<close>

definition journal_keyed :: "GameDestroyStatus \<Rightarrow> bool" where
  "journal_keyed s \<longleftrightarrow> distinct (map cd_Path (dst_DeletionJournal s)) \<and> length (dst_DeletionJournal s) \<le> 16"

subsection \<open>GameDestroy\<close>

definition confirmation_rule :: "GameDestroy \<Rightarrow> bool" where
  "confirmation_rule d \<longleftrightarrow> (ds_ConfirmationChallenge (gd_Spec d) \<noteq> [] \<longrightarrow>
     (case dst_Preview (gd_Status d) of None \<Rightarrow> False | Some p \<Rightarrow> ds_ConfirmationChallenge (gd_Spec d) = pv_Challenge p))"

definition deleting_phase :: "GameDestroyPhase \<Rightarrow> bool" where
  "deleting_phase p \<longleftrightarrow> p \<in> set [DestroyPhaseDeleting, DestroyPhaseSucceeded]"

definition deletion_confirmed_rule :: "GameDestroy \<Rightarrow> bool" where
  "deletion_confirmed_rule d \<longleftrightarrow> (deleting_phase (dst_Phase (gd_Status d)) \<longrightarrow>
     (case dst_Preview (gd_Status d) of
        None \<Rightarrow> False
      | Some p \<Rightarrow> ds_ConfirmationChallenge (gd_Spec d) \<noteq> [] \<and> ds_ConfirmationChallenge (gd_Spec d) = pv_Challenge p))"

definition deletion_verified_rule :: "GameDestroy \<Rightarrow> bool" where
  "deletion_verified_rule d \<longleftrightarrow> (deleting_phase (dst_Phase (gd_Status d)) \<longrightarrow> ds_Mode (gd_Spec d) = DestroyModeVerifiedBackup \<longrightarrow>
     (case (dst_Verification (gd_Status d), ds_BackupRef (gd_Spec d), ds_RepositorySecretRef (gd_Spec d)) of
        (Some v, Some b, Some s) \<Rightarrow> same_ref (dv_BackupRef v) b \<and> same_secret_ref (dv_RepositorySecretRef v) s \<and>
          sint (dv_PathCount v) = int (length (rdata_Claims (dt_Data (ds_Target (gd_Spec d)))))
      | _ \<Rightarrow> False))"

definition journal_target_rule :: "GameDestroy \<Rightarrow> bool" where
  "journal_target_rule d \<longleftrightarrow>
     list_all (\<lambda>e. list_ex (\<lambda>c. rclaim_Path c = cd_Path e \<and> same_ref (rclaim_ClaimRef c) (cd_ClaimRef e))
       (rdata_Claims (dt_Data (ds_Target (gd_Spec d))))) (dst_DeletionJournal (gd_Status d))"

definition destroy_object_rules :: "GameDestroy \<Rightarrow> bool" where
  "destroy_object_rules d \<longleftrightarrow>
     confirmation_rule d \<and> deletion_confirmed_rule d \<and> deletion_verified_rule d \<and> journal_target_rule d \<and>
     (dst_Phase (gd_Status d) = DestroyPhaseSucceeded \<longrightarrow> dst_DeletionJournal (gd_Status d) \<noteq> [] \<and>
        length (dst_DeletionJournal (gd_Status d)) = length (rdata_Claims (dt_Data (ds_Target (gd_Spec d))))) \<and>
     (dst_Phase (gd_Status d) = DestroyPhaseVerifying \<longrightarrow> ds_Mode (gd_Spec d) = DestroyModeVerifiedBackup)"

definition destroy_object_update :: "GameDestroy \<Rightarrow> GameDestroy \<Rightarrow> bool" where
  "destroy_object_update old d \<longleftrightarrow>
     (terminal_destroy (dst_Phase (gd_Status old)) \<longrightarrow> ds_CancelRequested (gd_Spec d) = ds_CancelRequested (gd_Spec old)) \<and>
     (dst_DeletionJournal (gd_Status old) \<noteq> [] \<longrightarrow> ds_CancelRequested (gd_Spec d) = ds_CancelRequested (gd_Spec old))"

text \<open>A stored object, and a write that the API server accepts.\<close>

definition destroy_valid :: "GameDestroy \<Rightarrow> bool" where
  "destroy_valid d \<longleftrightarrow> destroy_target_rule (ds_Target (gd_Spec d)) \<and> claims_keyed (ds_Target (gd_Spec d)) \<and> destroy_spec_rule (gd_Spec d) \<and>
     destroy_status_rules (gd_Status d) \<and> journal_keyed (gd_Status d) \<and> destroy_object_rules d"

definition destroy_admits :: "GameDestroy \<Rightarrow> GameDestroy \<Rightarrow> bool" where
  "destroy_admits old d \<longleftrightarrow> destroy_valid d \<and> destroy_spec_update (gd_Spec old) (gd_Spec d) \<and>
     destroy_status_update (gd_Status old) (gd_Status d) \<and> destroy_object_update old d"

end
