(* ===== verification/DataAdmissionProps.thy ===== *)
theory DataAdmissionProps
  imports DataStatusProps Admission
begin

text \<open>
  Terminal statuses of backup and restore: the runtime generations their validators enforce, and that
  every accepted status satisfies the admission rules the CRDs declare (\<^verbatim>\<open>Admission\<close>), so the
  controller's own check refines the API server's.
\<close>

section \<open>Consequences of the common checks\<close>

lemma actionable_message:
  assumes "hasActionableCondition cs g"
  shows "list_ex (\<lambda>c. cond_Status c \<noteq> ConditionTrue \<and> cond_Message c \<noteq> []) cs"
proof -
  obtain c where "c \<in> set cs" "cond_Status c \<noteq> ConditionTrue" "TrimSpace (cond_Message c) \<noteq> []"
    using assms unfolding hasActionableCondition_def list_ex_iff by blast
  moreover from this have "cond_Message c \<noteq> []" by auto
  ultimately show ?thesis by (auto simp: list_ex_iff)
qed

lemma common_status_parts:
  assumes "validateCommonStatus kind request subject s gen = None"
  shows "phase_in (st_Phase s) [DataPhaseBlocked, DataPhaseFailed] \<Longrightarrow>
      hasActionableCondition (st_Conditions s) (st_ObservedGeneration s)"
    and "fenceError subject (st_Fence s) = None"
    and "rule_fenced_work s"
    and "st_Source s = Some source \<Longrightarrow> st_Artifact s = Some artifact \<Longrightarrow>
      art_PathCount artifact = int32_of_len (src_Paths source)"
    and "st_Phase s = DataPhaseSucceeded \<Longrightarrow> st_Source s \<noteq> None \<and> verifiedArtifact (st_Artifact s)"
  using assms
  by (auto simp: validateCommonStatus_def Let_def guard_simps phase_in_def rule_fenced_work_def)

lemma common_status_rules:
  assumes "validateCommonStatus kind request subject s gen = None"
    and "\<forall>source. st_Source s = Some source \<longrightarrow> length (src_Paths source) < 2 ^ 31"
    and "terminal (st_Phase s) \<Longrightarrow> st_Fence s \<noteq> None \<Longrightarrow> st_Runtime s \<noteq> None"
  shows "status_rules s"
proof -
  note parts = common_status_parts [OF assms(1)]
  have "rule_actionable s"
    using parts(1) actionable_message by (auto simp: rule_actionable_def)
  moreover have "rule_succeeded_artifact s"
    using parts(4,5) assms(2)
    by (auto simp: rule_succeeded_artifact_def verifiedArtifact_def sint_int32_of_len split: option.splits)
  moreover have "rule_terminal_runtime s"
    using assms(3) by (auto simp: rule_terminal_runtime_def phase_in_def terminal_def)
  ultimately show ?thesis using parts(3) by (simp add: status_rules_def)
qed

lemma fence_rule:
  assumes "fenceError subject fence = None" "sint (gref_Generation subject) < 2 ^ 63 - 1"
    and "gref_DesiredState subject \<in> {DesiredStateRunning, DesiredStateStopped}"
  shows "rule_fence_generation subject fence"
  using assms
  by (auto simp: fenceError_def fenceGeneration_def rule_fence_generation_def same_ref_def Let_def
      sint_add_one guard_simps split: option.splits)

lemma runtimeDisposition_present:
  "validateRuntimeDisposition policy subject fence rt = None \<Longrightarrow> rt \<noteq> None"
  by (cases rt) (auto simp: validateRuntimeDisposition_def)

lemma backup_runtime_checked:
  assumes "ValidateBackupStatus (Some op) = None" "terminal (st_Phase (gb_Status op))"
    and "st_Fence (gb_Status op) = Some fence"
  shows "validateRuntimeDisposition (req_RestartPolicy (bspec_Request (gb_Spec op)))
    (bspec_Source (gb_Spec op)) fence (st_Runtime (gb_Status op)) = None"
  using assms by (simp add: ValidateBackupStatus_def validateCommonStatus_def Let_def guard_simps)

lemma backup_common:
  assumes "ValidateBackupStatus (Some op) = None"
  shows "validateCommonStatus BackupOperation (bspec_Request (gb_Spec op)) (bspec_Source (gb_Spec op))
    (gb_Status op) (meta_Generation (gb_Meta op)) = None"
  using assms by (simp add: ValidateBackupStatus_def Let_def guard_simps)

lemma fenceError_Some:
  assumes "fenceError subject (Some f) = None"
  shows "gref_Generation (fence_GameServer f) = fenceGeneration subject"
    "gref_DesiredState (fence_GameServer f) = DesiredStateStopped"
  using assms by (auto simp: fenceError_def Let_def)

text \<open>
  A backup status that is accepted in a terminal phase after the cold fence has returned the server to
  the state its restart policy asked for, at the exact generation: one generation for stopping a
  running server, one more for starting it again, none if it was stopped all along.
\<close>

theorem backup_terminal_runtime:
  assumes "ValidateBackupStatus (Some op) = None" "terminal (st_Phase (gb_Status op))"
    and "st_Fence (gb_Status op) \<noteq> None"
    and "restarts = (req_RestartPolicy (bspec_Request (gb_Spec op)) = RestartRestorePreviousState \<and>
      gref_DesiredState (bspec_Source (gb_Spec op)) = DesiredStateRunning)"
  shows "\<exists>rt. st_Runtime (gb_Status op) = Some rt
    \<and> same_ref (gref_Local (rt_GameServer rt)) (gref_Local (bspec_Source (gb_Spec op)))
    \<and> gref_Generation (rt_GameServer rt) = gref_Generation (bspec_Source (gb_Spec op)) +
        (if gref_DesiredState (bspec_Source (gb_Spec op)) \<noteq> DesiredStateRunning then 0
         else if restarts then 2 else 1)
    \<and> rt_Phase rt = (if restarts then PhaseReady else PhaseStopped)"
proof -
  obtain fence where f: "st_Fence (gb_Status op) = Some fence" using assms(3) by auto
  have "gref_Generation (fence_GameServer fence) = fenceGeneration (bspec_Source (gb_Spec op))"
    using common_status_parts(2) [OF backup_common [OF assms(1)]] f fenceError_Some(1) by simp
  with backup_runtime_checked [OF assms(1,2) f] assms(4) show ?thesis
    by (auto simp: validateRuntimeDisposition_def fenceGeneration_def same_ref_def Let_def
        split: option.splits if_splits)
qed

theorem backup_terminal_runtime_witness:
  "\<exists>rt. st_Runtime (gb_Status ex_backup) = Some rt
    \<and> same_ref (gref_Local (rt_GameServer rt)) (gref_Local (bspec_Source (gb_Spec ex_backup)))
    \<and> gref_Generation (rt_GameServer rt) = gref_Generation (bspec_Source (gb_Spec ex_backup)) + 2
    \<and> rt_Phase rt = PhaseReady"
  using backup_terminal_runtime [OF ex_backup_valid, of True]
  by (simp add: ex_backup_def ex_defs terminal_def)

text \<open>
  A restore that had to bring a running server back ends, in every accepted terminal status after the cold
  fence, with the server Ready at a generation its journal announced: two above the requested one when
  the candidate was started, or the previous world was recovered or restarted without the candidate
  having been stopped, and four above it when a started candidate was stopped and rolled back.
\<close>

theorem restore_terminal_generation:
  assumes "ValidateRestoreStatus (Some op) = None" "terminal (st_Phase (rst_Data (gr_Status op)))"
    and "st_Fence (rst_Data (gr_Status op)) \<noteq> None"
    and "req_RestartPolicy (rspec_Request (gr_Spec op)) = RestartRestorePreviousState"
    and "gref_DesiredState (rspec_Target (gr_Spec op)) = DesiredStateRunning"
  shows "\<exists>rt journal. st_Runtime (rst_Data (gr_Status op)) = Some rt
    \<and> rst_RuntimeJournal (gr_Status op) = Some journal
    \<and> same_ref (gref_Local (rt_GameServer rt)) (gref_Local (rspec_Target (gr_Spec op)))
    \<and> rt_Phase rt = PhaseReady
    \<and> gref_Generation (rt_GameServer rt) = gref_Generation (rspec_Target (gr_Spec op)) +
        (if st_Phase (rst_Data (gr_Status op)) \<noteq> DataPhaseSucceeded \<and> jr_RollbackStopGeneration journal \<noteq> 0
         then 4 else 2)"
proof -
  let ?s = "gr_Status op" and ?t = "rspec_Target (gr_Spec op)"
  obtain fence where f: "st_Fence (rst_Data ?s) = Some fence" using assms(3) by auto
  have g: "gref_Generation (fence_GameServer fence) = gref_Generation ?t + 1"
    using common_status_parts(2) [OF restore_status_parts(1) [OF assms(1)]] f fenceError_Some(1) assms(5)
    by (simp add: fenceGeneration_def)
  note run = restore_status_parts(2) [OF assms(1)]
  obtain rt where rt: "st_Runtime (rst_Data ?s) = Some rt" "wantRuntimeGeneration ?s \<noteq> 0"
    "gref_Generation (rt_GameServer rt) = wantRuntimeGeneration ?s" "rt_Phase rt = PhaseReady"
    "same_ref (gref_Local (rt_GameServer rt)) (gref_Local ?t)"
    using run assms(2,4,5) f
    by (auto simp: validateRestoreRuntimeStatus_def Let_def guard_simps same_ref_def split: option.splits)
  then obtain journal where j: "rst_RuntimeJournal ?s = Some journal"
    by (auto simp: wantRuntimeGeneration_def split: option.splits)
  have jerr: "runtimeJournalError journal (Some fence) (rst_ActivationStartedAt ?s) = None"
    using run j f by (simp add: validateRestoreRuntimeStatus_def Let_def guard_simps)
  have "wantRuntimeGeneration ?s = gref_Generation ?t +
      (if st_Phase (rst_Data ?s) \<noteq> DataPhaseSucceeded \<and> jr_RollbackStopGeneration journal \<noteq> 0 then 4 else 2)"
    using jerr rt(2) j g
    by (auto simp: wantRuntimeGeneration_def runtimeJournalError_def Let_def guard_simps split: if_splits)
  with rt j show ?thesis by simp
qed

theorem restore_terminal_generation_witness:
  "\<exists>rt journal. st_Runtime (rst_Data (gr_Status ex_restore_failed)) = Some rt
    \<and> rst_RuntimeJournal (gr_Status ex_restore_failed) = Some journal
    \<and> same_ref (gref_Local (rt_GameServer rt)) (gref_Local (rspec_Target (gr_Spec ex_restore_failed)))
    \<and> rt_Phase rt = PhaseReady
    \<and> gref_Generation (rt_GameServer rt) = gref_Generation (rspec_Target (gr_Spec ex_restore_failed)) + 4"
  using restore_terminal_generation [OF ex_restore_failed_valid]
  by (simp add: ex_restore_failed_def ex_defs terminal_def)

section \<open>Accepted statuses satisfy the CRD's admission rules\<close>

lemma unique_claims_distinct:
  assumes "distinct (map (\<lambda>p. ref_Name (dp_ClaimRef p)) ps)" "distinct (map (\<lambda>p. ref_UID (dp_ClaimRef p)) ps)"
  shows "unique_claims ps"
proof -
  have one: "distinct (map f xs) \<Longrightarrow> x \<in> set xs \<Longrightarrow> length (filter (\<lambda>y. f y = f x) xs) = 1" for f :: "DataPathIdentity \<Rightarrow> string" and x xs
  proof (induction xs)
    case (Cons a xs)
    show ?case
    proof (cases "x = a")
      case True
      with Cons.prems have "filter (\<lambda>y. f y = f a) xs = []" by (simp add: filter_empty_conv) (metis imageI)
      with True show ?thesis by simp
    next
      case False
      with Cons show ?thesis by (metis (mono_tags, lifting) distinct.simps(2) filter.simps(2) image_eqI list.set_map list.simps(9) set_ConsD)
    qed
  qed simp
  show ?thesis
    using one [OF assms(1)] one [OF assms(2)] by (simp add: unique_claims_def list_all_iff)
qed

text \<open>
  Whatever backup status the controller's validator accepts in a terminal phase, the API server
  admits: all rules of DataOperationStatus and the rules of GameBackup on the fence, the runtime
  disposition and the provenance hold. The premises are schema bounds of the same objects: at most
  sixteen source paths, a two-valued desired state, and a generation below the 64-bit limit.
\<close>

theorem backup_settled_admitted:
  assumes "ValidateBackupStatus (Some op) = None" "terminal (st_Phase (gb_Status op))"
    and "st_Runtime (gb_Status op) \<noteq> None \<longrightarrow> st_Fence (gb_Status op) \<noteq> None"
    and "\<forall>source. st_Source (gb_Status op) = Some source \<longrightarrow> length (src_Paths source) \<le> 16"
    and "gref_DesiredState (bspec_Source (gb_Spec op)) \<in> {DesiredStateRunning, DesiredStateStopped}"
    and "sint (gref_Generation (bspec_Source (gb_Spec op))) < 2 ^ 62"
  shows "backup_rules op"
proof -
  let ?s = "gb_Status op" and ?src = "bspec_Source (gb_Spec op)"
  note common = backup_common [OF assms(1)]
  have rt: "st_Fence ?s = Some f \<Longrightarrow> validateRuntimeDisposition (req_RestartPolicy (bspec_Request (gb_Spec op))) ?src f
      (st_Runtime ?s) = None" for f
    by (rule backup_runtime_checked [OF assms(1,2)])
  have "st_Runtime ?s \<noteq> None" if "st_Fence ?s \<noteq> None"
    using that rt runtimeDisposition_present by blast
  then have "status_rules ?s"
    using assms(4) by (intro common_status_rules [OF common]) (force dest: spec)+
  moreover have fence: "rule_fence_generation ?src (st_Fence ?s)"
    using common_status_parts(2) [OF common] assms(5,6) by (intro fence_rule) auto
  moreover have "rule_backup_runtime op"
  proof (cases "st_Fence ?s")
    case None
    with assms(3) show ?thesis by (auto simp: rule_backup_runtime_def)
  next
    case (Some f)
    have "sint (gref_Generation (fence_GameServer f)) \<le> sint (gref_Generation ?src) + 1"
      using fence Some by (auto simp: rule_fence_generation_def Let_def)
    then have "sint (gref_Generation (fence_GameServer f) + 1) = sint (gref_Generation (fence_GameServer f)) + 1"
      using assms(6) by (intro sint_add_one) simp
    with rt [OF Some] Some assms(5) show ?thesis
      by (auto simp: rule_backup_runtime_def validateRuntimeDisposition_def same_ref_def Let_def
          split: option.splits if_splits)
  qed
  moreover have "rule_backup_provenance op"
    using assms(1) by (auto simp: rule_backup_provenance_def ValidateBackupStatus_def Let_def guard_simps
        same_secret_ref_def same_ref_def sameSecret_def sameLocal_def split: option.splits)
  ultimately show ?thesis by (simp add: backup_rules_def)
qed
theorem backup_settled_admitted_witness: "backup_rules ex_backup"
  by (rule backup_settled_admitted [OF ex_backup_valid]) (simp_all add: ex_backup_def ex_defs terminal_def)

lemma covers_rules:
  assumes "covers source observed"
  shows "list_all (\<lambda>s. list_ex (same_path s) observed) source" "unique_claims observed"
    "observed \<noteq> []" "length observed = length source"
proof -
  show "list_all (\<lambda>s. list_ex (same_path s) observed) source"
    using assms unfolding covers_def list_all_iff list_ex_iff same_path_def by metis
qed (use assms in \<open>auto simp: covers_def unique_claims_distinct\<close>)

lemma selects_active_equals:
  assumes "covers (src_Paths source) (rst_ActiveData r)" "selects (rst_ActiveData r) chosen"
    and "st_Source (rst_Data r) = Some source" "chosen \<noteq> []"
  shows "active_equals chosen r"
  using assms covers_rules(3,4) [OF assms(1)]
  by (simp add: active_equals_def selects_def list_all_iff list_ex_iff same_path_def same_ref_def)

lemma restore_runtime_present:
  assumes "ValidateRestoreStatus (Some op) = None" "terminal (st_Phase (rst_Data (gr_Status op)))"
    and "st_Fence (rst_Data (gr_Status op)) \<noteq> None"
  shows "st_Runtime (rst_Data (gr_Status op)) \<noteq> None"
  using restore_status_parts(2) [OF assms(1)] assms(2,3)
  by (auto simp: validateRestoreRuntimeStatus_def Let_def guard_simps
      split: if_splits option.splits dest: runtimeDisposition_present)

lemma restore_runtime_rules:
  assumes "ValidateRestoreStatus (Some op) = None" "terminal (st_Phase (rst_Data (gr_Status op)))"
    and "st_Runtime (rst_Data (gr_Status op)) \<noteq> None \<longrightarrow> st_Fence (rst_Data (gr_Status op)) \<noteq> None"
    and "gref_DesiredState (rspec_Target (gr_Spec op)) \<in> {DesiredStateRunning, DesiredStateStopped}"
  shows "rule_restore_runtime op" "rule_runtime_disposition (st_Runtime (rst_Data (gr_Status op)))"
proof -
  let ?s = "gr_Status op" and ?t = "rspec_Target (gr_Spec op)" and ?p = "req_RestartPolicy (rspec_Request (gr_Spec op))"
  have "rule_restore_runtime op \<and> rule_runtime_disposition (st_Runtime (rst_Data ?s))"
  proof (cases "st_Fence (rst_Data ?s)")
    case None
    then show ?thesis using assms(3) by (simp add: rule_restore_runtime_def rule_runtime_disposition_def Let_def)
  next
    case (Some f)
    note run = restore_status_parts(2) [OF assms(1)]
    show ?thesis
    proof (cases "?p = RestartRestorePreviousState \<and> gref_DesiredState ?t = DesiredStateRunning")
      case True
      then obtain rt where rt: "st_Runtime (rst_Data ?s) = Some rt" "wantRuntimeGeneration ?s \<noteq> 0" "gref_Generation (rt_GameServer rt) = wantRuntimeGeneration ?s"
        "same_ref (gref_Local (rt_GameServer rt)) (gref_Local ?t)" "gref_DesiredState (rt_GameServer rt) = DesiredStateRunning" "rt_Phase rt = PhaseReady"
        using run assms(2) Some by (auto simp: validateRestoreRuntimeStatus_def Let_def guard_simps same_ref_def split: option.splits)
      have "rule_restore_generation ?s (gref_Generation (rt_GameServer rt))"
        using rt(2,3)
        by (auto simp: wantRuntimeGeneration_def rule_restore_generation_def phase_in_def Let_def split: option.splits if_splits)
      then show ?thesis using rt True Some by (simp add: rule_restore_runtime_def rule_runtime_disposition_def Let_def)
    next
      case False
      then have "validateRuntimeDisposition ?p ?t f (st_Runtime (rst_Data ?s)) = None"
        using run assms(2) Some by (auto simp: validateRestoreRuntimeStatus_def Let_def guard_simps split: if_splits)
      then show ?thesis
        using False assms(4) Some
        by (auto simp: validateRuntimeDisposition_def rule_restore_runtime_def rule_runtime_disposition_def same_ref_def Let_def
            split: option.splits if_splits)
    qed
  qed
  then show "rule_restore_runtime op" "rule_runtime_disposition (st_Runtime (rst_Data ?s))" by blast+
qed

lemma restore_retry_rule: "ValidateRestoreStatus (Some op) = None \<Longrightarrow> rule_populate_retry (gr_Status op)"
proof -
  assume "ValidateRestoreStatus (Some op) = None"
  then have "0 \<le> sint (rst_PopulateAttempts (gr_Status op))"
    "rst_PopulateRetryPending (gr_Status op) \<Longrightarrow> rst_PopulateAttempts (gr_Status op) \<noteq> 0 \<and> st_Phase (rst_Data (gr_Status op)) = DataPhaseRunning"
    by (simp_all add: ValidateRestoreStatus_def Let_def guard_simps)
  then show ?thesis by (auto simp: rule_populate_retry_def order_less_le signed_eq_0_iff)
qed

lemma restore_provenance_rule: "ValidateRestoreStatus (Some op) = None \<Longrightarrow> rule_restore_provenance op"
  by (auto simp: ValidateRestoreStatus_def rule_restore_provenance_def Let_def guard_simps same_ref_def same_secret_ref_def sameSecret_def sameLocal_def
      split: option.splits)

text \<open>
  C40. Whatever status the controller's validator accepts for a restore that settled after its repository
  preflight and its activation were recorded, the API server's rules between fields admit: the rules of
  DataOperationStatus, GameRestoreStatus, ColdDataFence, RuntimeDisposition and GameRestore that look at one
  object hold, among them that active data equals the candidates on success and the previous data otherwise, and
  that the runtime has the generation its journal announced. The premises beyond acceptance: both records are
  present, for without the preflight an unverified artifact is accepted that the API server refuses; a runtime is
  recorded only with a fence; and the schema of the object, with at most sixteen source paths keyed by name, a
  two-valued desired state and a generation below the 64-bit limit. Rules that compare with the stored object and
  markers on single fields are not part of it.
\<close>

theorem restore_settled_admitted:
  assumes "ValidateRestoreStatus (Some op) = None" "terminal (st_Phase (rst_Data (gr_Status op)))"
    and "rst_ActivationStartedAt (gr_Status op) \<noteq> None" "rst_PreflightVerifiedAt (gr_Status op) \<noteq> None"
    and "st_Source (rst_Data (gr_Status op)) = Some source"
    and "distinct (map dp_Name (src_Paths source))" "length (src_Paths source) \<le> 16"
    and "st_Runtime (rst_Data (gr_Status op)) \<noteq> None \<longrightarrow> st_Fence (rst_Data (gr_Status op)) \<noteq> None"
    and "gref_DesiredState (rspec_Target (gr_Spec op)) \<in> {DesiredStateRunning, DesiredStateStopped}"
    and "sint (gref_Generation (rspec_Target (gr_Spec op))) < 2 ^ 63 - 1"
  shows "restore_rules op"
proof -
  let ?r = "gr_Status op"
  note common = restore_status_parts(1) [OF assms(1)]
  have status: "status_rules (rst_Data ?r)"
    using restore_runtime_present [OF assms(1,2)] assms(5,7)
    by (intro common_status_rules [OF common]) auto
  have err: "activationError op source = None"
    using restore_activation_checked [OF assms(1,3)] assms(5) by auto
  note parts = activation_parts [OF err]
  note cand = covers_rules [OF parts(1)] and prev = covers_rules [OF parts(2)]
  have verified: "rule_activation_verified ?r"
  proof -
    obtain cv artifact where "rst_CandidateVerification ?r = Some cv" "st_Artifact (rst_Data ?r) = Some artifact"
      "cver_Result cv = VerificationVerified" "cver_ManifestDigest cv = art_ManifestDigest artifact"
      "cver_PathCount cv = int32_of_len (src_Paths source)"
      by (rule activation_verified [OF err])
    moreover have "art_PathCount artifact = int32_of_len (src_Paths source)"
      using common_status_parts(4) [OF common assms(5) calculation(2)] .
    ultimately show ?thesis
      using restore_status_parts(3) [OF assms(1,4)] assms(5,7)
      by (simp add: rule_activation_verified_def verifiedArtifact_def sint_int32_of_len)
  qed
  have candidates: "rule_activation_candidates ?r"
    using cand assms(5) by (simp add: rule_activation_candidates_def)
  have previous: "rule_activation_previous ?r"
    using cand(3) prev assms(5) parts(3)
    by (simp add: rule_activation_previous_def list_all_iff claimsAlias_def)
  have outcome: "covers (src_Paths source) (rst_ActiveData ?r)
    \<and> (st_Phase (rst_Data ?r) = DataPhaseSucceeded \<longrightarrow> selects (rst_ActiveData ?r) (rst_CandidateData ?r))
    \<and> (st_Phase (rst_Data ?r) \<in> {DataPhaseFailed, DataPhaseCancelled} \<longrightarrow> selects (rst_ActiveData ?r) (rst_PreviousData ?r))"
    using activation_outcome [OF err] switched_selects [OF _ parts(1) assms(6)]
      rollback_selects [OF _ parts(2) assms(6)] assms(2) by (auto simp: terminal_def)
  then have "unique_claims (rst_ActiveData ?r)" using covers_rules(2) by blast
  moreover have "st_Phase (rst_Data ?r) = DataPhaseSucceeded \<Longrightarrow> active_equals (rst_CandidateData ?r) ?r"
    and "phase_in (st_Phase (rst_Data ?r)) [DataPhaseFailed, DataPhaseCancelled] \<Longrightarrow> active_equals (rst_PreviousData ?r) ?r"
    using selects_active_equals [OF _ _ assms(5)] outcome cand(3) prev(3) by (simp_all add: phase_in_def)
  moreover have "rule_preflight_verified ?r"
    using restore_status_parts(3) [OF assms(1,4)] by (auto simp: rule_preflight_verified_def verifiedArtifact_def split: option.splits)
  ultimately have "restore_status_rules ?r"
    using verified candidates previous cand(2) prev(2) assms(3) restore_retry_rule [OF assms(1)] unfolding restore_status_rules_def by blast
  moreover have "rule_fence_generation (rspec_Target (gr_Spec op)) (st_Fence (rst_Data ?r))"
    using common_status_parts(2) [OF common] assms(9,10) by (intro fence_rule) auto
  ultimately show ?thesis
    using status restore_runtime_rules [OF assms(1,2,8,9)] restore_provenance_rule [OF assms(1)] by (simp add: restore_rules_def)
qed

theorem restore_settled_admitted_witness:
  "restore_rules ex_restore_failed"
  by (rule restore_settled_admitted [OF ex_restore_failed_valid, where source = ex_source])
    (simp_all add: ex_restore_failed_def ex_defs terminal_def)

end
