(* ===== verification/RestoreWorkerErrors.thy ===== *)
theory RestoreWorkerErrors
  imports RestoreWorkerExample
begin

text \<open>
  The failures of the restore worker: which step of \<^verbatim>\<open>Run\<close> stops it, and which kind it then reports.
\<close>

section \<open>Failures while the candidate is written\<close>


definition breaks :: "(FailureKind \<Rightarrow> bool) \<Rightarrow> populate_error option worker \<Rightarrow> bool" where
  "breaks Q m \<longleftrightarrow> (\<forall>s. wp m (\<lambda>x _. \<forall>k. x = Some (FailureError k) \<longrightarrow> Q k) s)"

lemma breaks_return: "breaks Q (State_Monad.return x) \<longleftrightarrow> (\<forall>k. x = Some (FailureError k) \<longrightarrow> Q k)"
  by (simp add: breaks_def wp_simps)

lemma breaks_plain [simp]: "breaks Q (State_Monad.return None)" "breaks Q (State_Monad.return (Some (PlainError e)))"
  "breaks Q (State_Monad.return (guard c (PlainError e)))"
  by (simp_all add: breaks_return guard_def)








section \<open>The steps of a run\<close>




























end
