(* ===== verification/BackupWorkerProps.thy ===== *)
theory BackupWorkerProps
  imports RestoreWorkerProps
begin

text \<open>
  What a successful run of the backup worker means: the repository returned the manifest and every file
  of the mounted source, its listing of the snapshot is exact, and the source was the same afterwards.
  Composed with the restore worker: what was mounted when the backup ran is what a later populate run
  leaves in the candidate.
\<close>

section \<open>Time passes\<close>

text \<open>The counter of calls never goes back, so a later reading is a later reading.\<close>

definition advances :: "'a worker \<Rightarrow> bool" where
  "advances m \<longleftrightarrow> (\<forall>s. wp m (\<lambda>_ t. s \<le> t) s)"

named_theorems advances \<open>programs that keep or advance the counter of calls\<close>

lemma advances_return [advances]: "advances (State_Monad.return x)"
  by (simp add: advances_def wp_simps)

lemma advances_bind [advances]:
  assumes "advances m" "\<And>x. advances (f x)"
  shows "advances (State_Monad.bind m f)"
  unfolding advances_def wp_bind
proof
  fix s
  have "wp m (\<lambda>_ t. s \<le> t) s" using assms(1) by (simp add: advances_def)
  then show "wp m (\<lambda>x. wp (f x) (\<lambda>_ t. s \<le> t)) s"
  proof (rule wp_mono)
    fix x t assume "s \<le> t"
    have later: "wp (f x) (\<lambda>_ u. t \<le> u) t" using assms(2) by (simp add: advances_def)
    show "wp (f x) (\<lambda>_ u. s \<le> u) t" by (rule wp_mono [OF later]) (use \<open>s \<le> t\<close> in simp)
  qed
qed

lemma advances_tick [advances]: "advances tick"
  by (simp add: advances_def wp_tick)

lemma advances_check [advances]: "advances m \<Longrightarrow> advances k \<Longrightarrow> advances (check m k)"
  unfolding check_def by (rule advances_bind) (auto intro: advances split: option.split)

lemma advances_each [advances]: "(\<And>x. advances (f x)) \<Longrightarrow> advances (each f xs)"
  by (induction xs) (simp_all add: advances)

lemma advances_attempt [advances]: "advances m \<Longrightarrow> (\<And>x. advances (f x)) \<Longrightarrow> advances (attempt m f)"
  unfolding attempt_def by (rule advances_bind) (auto intro: advances split: sum.split)

lemma advances_run_command [advances]: "advances (run_command we environment wr w args)"
  unfolding run_command_def Let_def by (rule advances_bind) (auto intro: advances split: prod.split)

lemma advances_backup [advances]:
  "advances (backup_Control be environment args)" "advances (backup_Stream be environment wr d args)"
  by (simp_all add: backup_Control_def backup_Stream_def advances)

lemma advances_steps [advances]:
  "advances (findSnapshots be environment tag)" "advances (verifyDump be environment snapshotID path expected)"
  "advances (verifyFile be environment snapshotID path file)" "advances (backup_verifyFiles be config environment snapshotID m)"
  "advances (makeWorkDirectory be name)" "advances (writeManifest be name contents)"
  by (simp_all add: findSnapshots_def verifyDump_def verifyFile_def backup_dump_def backup_verifyFiles_def makeWorkDirectory_def
      writeManifest_def advances)

lemma advances_inventory [advances]: "advances (backup_verifyInventory be environment snapshotID root path sz m)"
  unfolding backup_verifyInventory_def
  by (auto intro!: advances split: sum.split prod.split)

lemma wp_advances: "advances m \<Longrightarrow> wp m Q s \<Longrightarrow> wp m (\<lambda>x t. Q x t \<and> s \<le> t) s"
  by (rule wp_conj) (simp_all add: advances_def)

lemma wp_later: "advances m \<Longrightarrow> (\<And>x t. s \<le> t \<Longrightarrow> Q x t) \<Longrightarrow> wp m Q s"
  unfolding advances_def by (blast intro: wp_mono)

section \<open>What commands returned\<close>

lemma wp_backup_buffer:
  "wp (backup_Stream be environment (boundedBuffer_Write mx) [] args) (\<lambda>r n'. \<forall>out. r = Inr out \<longrightarrow> printed (be_World be) environment args out) n"
  unfolding backup_Stream_def
  by (rule wp_run_printed [of _ "\<lambda>w. w"]) (auto simp: boundedBuffer_Write_def split: if_splits)

lemma wp_backup_Control:
  "wp (backup_Control be environment args) (\<lambda>r n'. \<forall>out. r = Inr out \<longrightarrow> printed (be_World be) environment args out) n"
  unfolding backup_Control_def using wp_backup_buffer unfolding backup_Stream_def .

text \<open>The repository returned bytes with a digest for a path of the snapshot.\<close>

definition read_back :: "WorkerEnv \<Rightarrow> environment \<Rightarrow> string \<Rightarrow> string \<Rightarrow> string \<Rightarrow> bool" where
  "read_back we environment snapshotID path digest \<longleftrightarrow>
     (\<exists>out. printed we environment [''dump'', ''--no-cache'', snapshotID, path] out \<and> ManifestDigest out = digest)"

lemma wp_backup_dump:
  "wp (backup_dump be environment snapshotID path) (\<lambda>r n'. \<forall>w. r = Inr w \<longrightarrow>
     printed (be_World be) environment [''dump'', ''--no-cache'', snapshotID, path] (cw_written w)) n"
  unfolding backup_dump_def backup_Stream_def
  by (rule wp_run_printed [of _ cw_written]) (auto simp: backup_countingWriter_Write_def)

lemma wp_verifyDump:
  "wp (verifyDump be environment snapshotID path expected)
     (\<lambda>r n'. r = None \<longrightarrow> read_back (be_World be) environment snapshotID path (ManifestDigest expected)) n"
  unfolding verifyDump_def wp_simps
  by (rule wp_mono [OF wp_backup_dump]) (auto simp: read_back_def ManifestDigest_def split: sum.splits)

lemma wp_verifyFile:
  "wp (verifyFile be environment snapshotID path file)
     (\<lambda>r n'. True \<and> (r = None \<longrightarrow> read_back (be_World be) environment snapshotID path (bfc_SHA256 file))) n"
  unfolding verifyFile_def wp_simps
  by (rule wp_mono [OF wp_backup_dump]) (auto simp: read_back_def ManifestDigest_def split: sum.splits)

lemma wp_backup_verifyFiles:
  "wp (backup_verifyFiles be config environment snapshotID m) (\<lambda>r n'. True \<and> (r = None \<longrightarrow>
     (\<forall>p\<in>set (bm_Paths m). \<forall>f\<in>set (files_of p).
        read_back (be_World be) environment snapshotID (path_Join (path_Join (bcfg_SourceRoot config) (bmp_Name p)) (bfc_Path f)) (bfc_SHA256 f)))) n"
  unfolding backup_verifyFiles_def files_of_def [symmetric]
  by (rule wp_each [where I = "\<lambda>_. True"]) (simp, rule wp_each [where I = "\<lambda>_. True"], simp, rule wp_verifyFile)

lemma wp_backup_verifyInventory:
  "wp (backup_verifyInventory be environment snapshotID root path sz m) (\<lambda>r n'. r = None \<longrightarrow>
     listed (be_World be) environment snapshotID (call_demand ` set (inventoryCalls root path sz m))) n"
proof (cases "inventory_addAll (inventoryCalls root path sz m) []")
  case (Inr e)
  have "listed (be_World be) environment snapshotID (call_demand ` set (inventoryCalls root path sz m))"
    if "printed (be_World be) environment [''ls'', ''--json'', ''--no-cache'', snapshotID] out" "we_decodeInventory (be_World be) out = (records, True)"
      "inventory_scan snapshotID e False [] records = Inr (True, seen)" "\<not> incomplete e seen" for out records seen
    using that backup_inventory.listed_exactly [OF Inr that(3,4)] unfolding listed_def by auto
  with Inr show ?thesis
    unfolding backup_verifyInventory_def
    by (simp add: wp_simps, intro wp_mono [OF wp_backup_buffer])
       (auto simp: wp_simps guard_simps split: sum.splits prod.splits if_splits)
qed (simp add: backup_verifyInventory_def wp_simps)

definition found :: "BackupEnv \<Rightarrow> environment \<Rightarrow> string \<Rightarrow> resticSnapshot list \<Rightarrow> bool" where
  "found be environment tag snapshots \<longleftrightarrow>
     (\<exists>out. printed (be_World be) environment [''snapshots'', ''--json'', ''--no-cache'', ''--tag'', tag] out \<and> be_decodeSnapshots be out = Some snapshots)"

lemma wp_findSnapshots: "wp (findSnapshots be environment tag) (\<lambda>r n'. \<forall>ss. r = Inr ss \<longrightarrow> found be environment tag ss) n"
  unfolding findSnapshots_def wp_attempt
  by (rule wp_mono [OF wp_backup_Control]) (auto simp: wp_simps found_def split: sum.splits option.splits)

section \<open>A successful run\<close>

definition describes :: "BackupWorkerResult \<Rightarrow> BackupWorkerInput \<Rightarrow> resticSnapshot \<Rightarrow> BackupManifest \<Rightarrow> bytes \<Rightarrow> bool" where
  "describes result input snapshot m contents \<longleftrightarrow>
     bwr_Version result = BackupFormatVersion \<and> bwr_ArtifactID result = bwi_ArtifactID input \<and> bwr_ManifestDigest result = ManifestDigest contents \<and>
     0 \<le> sint (bwr_SizeBytes result) \<and> bwr_PathCount result = int32_of_len (bm_Paths m) \<and> bwr_CreatedAt result = rsn_Time snapshot"

definition snapshot_kept :: "BackupEnv \<Rightarrow> BackupConfig \<Rightarrow> environment \<Rightarrow> string \<Rightarrow> BackupManifest \<Rightarrow> bytes \<Rightarrow> bool" where
  "snapshot_kept be config environment snapshotID m contents \<longleftrightarrow> (let path = path_Join (bcfg_WorkPath config) manifestName in
     read_back (be_World be) environment snapshotID path (ManifestDigest contents) \<and>
     listed (be_World be) environment snapshotID (call_demand ` set (inventoryCalls (bcfg_SourceRoot config) path (word_of_nat (length contents)) m)) \<and>
     (\<forall>p\<in>set (bm_Paths m). \<forall>f\<in>set (files_of p).
        read_back (be_World be) environment snapshotID (path_Join (path_Join (bcfg_SourceRoot config) (bmp_Name p)) (bfc_Path f)) (bfc_SHA256 f)))"

lemma keptI:
  assumes "read_back (be_World be) environment snapshotID (path_Join (bcfg_WorkPath config) manifestName) (ManifestDigest contents)"
    and "listed (be_World be) environment snapshotID
      (call_demand ` set (inventoryCalls (bcfg_SourceRoot config) (path_Join (bcfg_WorkPath config) manifestName) (word_of_nat (length contents)) m))"
    and "\<forall>p\<in>set (bm_Paths m). \<forall>f\<in>set (files_of p).
      read_back (be_World be) environment snapshotID (path_Join (path_Join (bcfg_SourceRoot config) (bmp_Name p)) (bfc_Path f)) (bfc_SHA256 f)"
  shows "snapshot_kept be config environment snapshotID m contents"
  unfolding snapshot_kept_def Let_def using assms by blast

text \<open>The source gives the same bytes at some instant from \<open>n\<close> on.\<close>

definition unchanged :: "BackupEnv \<Rightarrow> BackupConfig \<Rightarrow> BackupWorkerInput \<Rightarrow> bytes \<Rightarrow> nat \<Rightarrow> bool" where
  "unchanged be config input contents n \<longleftrightarrow>
     (\<exists>k m. n \<le> k \<and> BuildBackupManifest (we_Tree (be_World be) k) input (bcfg_SourceRoot config) = Inr (m, contents))"

lemma unchanged_earlier: "unchanged be config input contents t \<Longrightarrow> n \<le> t \<Longrightarrow> unchanged be config input contents n"
  unfolding unchanged_def by (meson order_trans)

lemma wp_backup_finish:
  "wp (backup_finish be config input environment snapshot m contents) (\<lambda>r n'. \<forall>result. r = Inr result \<longrightarrow>
     describes result input snapshot m contents \<and> unchanged be config input contents n) n"
proof -
  have stats: "wp (failing (readStats be environment (rsn_ID snapshot)) (verificationFailure checkpointStats) (\<lambda>stats.
      if sint (rst_TotalSize stats) < 0 then State_Monad.return (Inl (verificationFailure checkpointStats))
      else do {
        n \<leftarrow> tick;
        State_Monad.return (Inr \<lparr> bwr_Version = BackupFormatVersion, bwr_ArtifactID = bwi_ArtifactID input,
          bwr_ManifestDigest = ManifestDigest contents, bwr_SizeBytes = rst_TotalSize stats, bwr_PathCount = int32_of_len (bm_Paths m),
          bwr_CreatedAt = rsn_Time snapshot, bwr_VerifiedAt = we_Now (be_World be) n \<rparr>) }))
      (\<lambda>r n'. \<forall>result. r = Inr result \<longrightarrow> describes result input snapshot m contents \<and> unchanged be config input contents n) t"
    if "unchanged be config input contents n" for t
    unfolding wp_failing using that by (intro wp_trivial) (auto simp: wp_simps describes_def split: sum.splits)
  have same: "unchanged be config input contents n"
    if "BuildBackupManifest (we_Tree (be_World be) n) input (bcfg_SourceRoot config) = Inr (m', contents)" for m'
    using that unfolding unchanged_def by blast
  show ?thesis
    unfolding backup_finish_def wp_failing [of "sourceManifest a b c" for a b c]
    unfolding sourceManifest_def wp_bind wp_tick wp_return
    by (auto simp: wp_if wp_return split: sum.splits prod.splits intro!: stats intro: same)
qed

lemma wp_backup_verify:
  "wp (backup_verify be config input environment snapshot m contents (path_Join (bcfg_WorkPath config) manifestName))
     (\<lambda>r n'. \<forall>result. r = Inr result \<longrightarrow> describes result input snapshot m contents \<and>
        snapshot_kept be config environment (rsn_ID snapshot) m contents \<and> unchanged be config input contents n) n"
proof -
  let ?path = "path_Join (bcfg_WorkPath config) manifestName"
  let ?Q = "\<lambda>r n'. \<forall>result. r = Inr result \<longrightarrow> describes result input snapshot m contents \<and>
        snapshot_kept be config environment (rsn_ID snapshot) m contents \<and> unchanged be config input contents n"
  let ?files = "rejecting (backup_verifyFiles be config environment (rsn_ID snapshot) m) (verificationFailure checkpointFile)
      (backup_finish be config input environment snapshot m contents)"
  let ?inventory = "rejecting (backup_verifyInventory be environment (rsn_ID snapshot) (bcfg_SourceRoot config) ?path (word_of_nat (length contents)) m)
      (verificationFailure checkpointInventory) ?files"
  have finish: "wp (backup_finish be config input environment snapshot m contents) ?Q t"
    if "n \<le> t" "snapshot_kept be config environment (rsn_ID snapshot) m contents" for t
    by (rule wp_mono [OF wp_backup_finish]) (use that unchanged_earlier in blast)
  have files: "wp ?files ?Q t"
    if "n \<le> t" "read_back (be_World be) environment (rsn_ID snapshot) ?path (ManifestDigest contents)"
      "listed (be_World be) environment (rsn_ID snapshot) (call_demand ` set (inventoryCalls (bcfg_SourceRoot config) ?path (word_of_nat (length contents)) m))" for t
    unfolding wp_rejecting
    by (rule wp_mono [OF wp_advances [OF advances_steps(4) wp_backup_verifyFiles]])
       (use that in \<open>auto split: option.splits intro!: finish keptI\<close>)
  have inventory: "wp ?inventory ?Q t"
    if "n \<le> t" "read_back (be_World be) environment (rsn_ID snapshot) ?path (ManifestDigest contents)" for t
    unfolding wp_rejecting [of "backup_verifyInventory a b c d e f g" for a b c d e f g]
    by (rule wp_mono [OF wp_advances [OF advances_inventory wp_backup_verifyInventory]])
       (use that in \<open>auto split: option.splits intro!: files\<close>)
  have dump: "wp (rejecting (verifyDump be environment (rsn_ID snapshot) ?path contents) (verificationFailure checkpointManifest) ?inventory) ?Q t"
    if "n \<le> t" for t
    unfolding wp_rejecting [of "verifyDump a b c d e" for a b c d e]
    by (rule wp_mono [OF wp_advances [OF advances_steps(2) wp_verifyDump]])
       (use that in \<open>auto split: option.splits intro!: inventory\<close>)
  show ?thesis
    unfolding backup_verify_def wp_failing [of "backup_Control a b c" for a b c]
    by (rule wp_later [OF advances_backup(1)]) (auto split: sum.splits intro!: dump)
qed

text \<open>The snapshot the run chose: the only one with the artifact's tag, and it carries the manifest's.\<close>

definition chosen :: "BackupEnv \<Rightarrow> environment \<Rightarrow> BackupWorkerInput \<Rightarrow> bytes \<Rightarrow> resticSnapshot \<Rightarrow> bool" where
  "chosen be environment input contents snapshot \<longleftrightarrow>
     found be environment (artifactTag input) [snapshot] \<and> rsn_ID snapshot \<noteq> [] \<and>
     manifestTag contents \<in> set (rsn_Tags snapshot)"

definition taken :: "BackupEnv \<Rightarrow> BackupConfig \<Rightarrow> BackupWorkerInput \<Rightarrow> BackupManifest \<Rightarrow> bytes \<Rightarrow> BackupWorkerResult \<Rightarrow> nat \<Rightarrow> bool" where
  "taken be config input m contents result n \<longleftrightarrow> (\<exists>environment snapshot. chosen be environment input contents snapshot \<and>
     describes result input snapshot m contents \<and> snapshot_kept be config environment (rsn_ID snapshot) m contents \<and> unchanged be config input contents n)"

lemma wp_backup_select:
  assumes "found be environment (artifactTag input) snapshots" "n \<le> t"
  shows "wp (backup_select be config input environment m contents (path_Join (bcfg_WorkPath config) manifestName) snapshots)
     (\<lambda>r n'. \<forall>result. r = Inr result \<longrightarrow> taken be config input m contents result n) t"
proof (cases "\<exists>snapshot. snapshots = [snapshot] \<and> rsn_ID snapshot \<noteq> [] \<and>
    manifestTag contents \<in> set (rsn_Tags snapshot)")
  case True
  then obtain snapshot where ss: "snapshots = [snapshot]" "rsn_ID snapshot \<noteq> []"
      "manifestTag contents \<in> set (rsn_Tags snapshot)"
    by blast
  then have "chosen be environment input contents snapshot" using assms(1) by (simp add: chosen_def)
  with assms(2) have "taken be config input m contents result n"
    if "describes result input snapshot m contents \<and> snapshot_kept be config environment (rsn_ID snapshot) m contents \<and> unchanged be config input contents t" for result
    unfolding taken_def using that unchanged_earlier by blast
  then show ?thesis unfolding backup_select_def using ss by (auto intro: wp_mono [OF wp_backup_verify])
next
  case False
  then show ?thesis by (auto simp: backup_select_def wp_simps split: list.splits)
qed

lemma wp_backup_repository:
  "wp (backup_repository be config input environment m contents (path_Join (bcfg_WorkPath config) manifestName))
     (\<lambda>r n'. \<forall>result. r = Inr result \<longrightarrow> taken be config input m contents result n) n"
proof -
  let ?tag = "artifactTag input"
  let ?path = "path_Join (bcfg_WorkPath config) manifestName"
  let ?select = "backup_select be config input environment m contents ?path"
  let ?Q = "\<lambda>r n'. \<forall>result. r = Inr result \<longrightarrow> taken be config input m contents result n"
  have again: "wp (failing (findSnapshots be environment ?tag) repositoryFailure ?select) ?Q t" if "n \<le> t" for t
    unfolding wp_failing
    by (rule wp_mono [OF wp_advances [OF advances_steps(1) wp_findSnapshots]])
       (use that in \<open>auto split: sum.splits intro!: wp_backup_select\<close>)
  have backup: "wp (failing (backup_Control be environment args) repositoryFailure (\<lambda>_. failing (findSnapshots be environment ?tag) repositoryFailure ?select)) ?Q t"
    if "n \<le> t" for t args
    unfolding wp_failing [of "backup_Control a b c" for a b c]
    by (rule wp_later [OF advances_backup(1)]) (use that in \<open>auto split: sum.splits intro!: again\<close>)
  have first: "wp (failing (findSnapshots be environment ?tag) repositoryFailure (\<lambda>snapshots.
      if snapshots = [] then failing (backup_Control be environment args) repositoryFailure (\<lambda>_. failing (findSnapshots be environment ?tag) repositoryFailure ?select)
      else ?select snapshots)) ?Q t" if "n \<le> t" for t args
    unfolding wp_failing [of "findSnapshots a b c" "d" "\<lambda>snapshots. if snapshots = [] then f else g snapshots" for a b c d f g]
    by (rule wp_mono [OF wp_advances [OF advances_steps(1) wp_findSnapshots]])
       (use that in \<open>auto simp: wp_if split: sum.splits intro!: wp_backup_select backup\<close>)
  show ?thesis
    unfolding backup_repository_def Let_def wp_failing [of "backup_Control be environment [''unlock'', ''--no-cache'']"]
    by (rule wp_later [OF advances_backup(1)]) (auto split: sum.splits intro!: first)
qed

lemma wp_backup_readInput:
  "wp (backup_readInput be name) (\<lambda>r n'. \<forall>input. r = Inr input \<longrightarrow> (\<exists>bs. be_decodeInput be bs = Some input) \<and> ValidateBackupWorkerInput input = None) n"
  unfolding backup_readInput_def by (auto simp: wp_simps split: option.splits if_splits)

definition backed_up :: "BackupEnv \<Rightarrow> BackupConfig \<Rightarrow> BackupWorkerResult \<Rightarrow> bool" where
  "backed_up be config result \<longleftrightarrow> (\<exists>input m contents n. (\<exists>bs. be_decodeInput be bs = Some input) \<and> ValidateBackupWorkerInput input = None \<and>
     BuildBackupManifest (we_Tree (be_World be) n) input (bcfg_SourceRoot config) = Inr (m, contents) \<and>
     taken be config input m contents result (Suc n))"

lemma wp_backup_Run:
  "wp (backup_Run be config) (\<lambda>r n'. \<forall>result. r = Inr result \<longrightarrow> backed_up be (backup_withDefaults config) result) n"
proof -
  let ?c = "backup_withDefaults config"
  let ?path = "path_Join (bcfg_WorkPath ?c) manifestName"
  let ?Q = "\<lambda>r n'. \<forall>result. r = Inr result \<longrightarrow> backed_up be ?c result"
  have rejecting: "wp (rejecting a k b) ?Q t" if "advances a" "\<And>u. n \<le> u \<Longrightarrow> wp b ?Q u" "n \<le> t" for a k b n t
    unfolding wp_rejecting by (rule wp_later [OF that(1)]) (use that in \<open>auto split: option.splits\<close>)
  have store: "wp (backup_repository be ?c input environment m contents ?path) ?Q t"
    if "\<exists>bs. be_decodeInput be bs = Some input" "ValidateBackupWorkerInput input = None" "Suc n \<le> t"
      "BuildBackupManifest (we_Tree (be_World be) n) input (bcfg_SourceRoot ?c) = Inr (m, contents)" for input environment m contents n t
  proof (rule wp_mono [OF wp_backup_repository], intro allI impI)
    fix r n' result assume "\<forall>result. r = Inr result \<longrightarrow> taken be ?c input m contents result t" "r = Inr result"
    then have "taken be ?c input m contents result (Suc n)" using that(3) unchanged_earlier unfolding taken_def by blast
    with that show "backed_up be ?c result" unfolding backed_up_def by blast
  qed
  have source: "wp (failing (sourceManifest be ?c input) inputFailure (\<lambda>(m, contents).
      rejecting (makeWorkDirectory be (bcfg_WorkPath ?c)) inputFailure (
      rejecting (makeWorkDirectory be (path_Join (bcfg_WorkPath ?c) ''tmp'')) inputFailure (
      rejecting (writeManifest be ?path contents) inputFailure (
      backup_repository be ?c input environment m contents ?path))))) ?Q n"
    if "\<exists>bs. be_decodeInput be bs = Some input" "ValidateBackupWorkerInput input = None" for input environment n
    unfolding wp_failing sourceManifest_def wp_bind wp_tick wp_return
    by (auto split: sum.splits intro!: rejecting [of _ "Suc n"] advances store [OF that])
  have credentials: "wp (failing (backup_readCredentials be d) credentialsFailure f) ?Q n" if "\<And>v t. wp (f v) ?Q t" for d f n
    unfolding wp_failing by (rule wp_trivial) (auto split: sum.splits intro: that)
  show ?thesis
    unfolding backup_Run_def Let_def wp_failing [of "backup_readInput a b" for a b]
    by (rule wp_mono [OF wp_backup_readInput]) (auto split: sum.splits intro!: credentials source)
qed

lemma backup_Run_backed_up:
  "run_state (backup_Run be config) n = (Inr result, n') \<Longrightarrow> backed_up be (backup_withDefaults config) result"
  using wp_run [OF _ wp_backup_Run] by blast

text \<open>The files of one source path, read back from the repository.\<close>

lemma source_read_back:
  assumes "BuildBackupManifest fs input root = Inr (m, contents)" "wf_fs fs" "sp \<in> set (src_Paths (bwi_Source input))" "plain (dp_Name sp)"
    and "fs (path_Join root (dp_Name sp)) = Some (Directory (Some ts))"
    and "\<forall>p\<in>set (bm_Paths m). \<forall>f\<in>set (files_of p).
      read_back we environment snapshotID (path_Join (path_Join root (bmp_Name p)) (bfc_Path f)) (bfc_SHA256 f)"
  shows "\<forall>tf\<in>set (forest_files [] ts). \<exists>out.
    printed we environment [''dump'', ''--no-cache'', snapshotID, path_Join (path_Join root (dp_Name sp)) (join_slash (fst tf))] out \<and>
    (out = snd (snd tf) \<or> sha256_collision 32 out (snd (snd tf)))"
proof
  fix tf assume tf: "tf \<in> set (forest_files [] ts)"
  obtain p where p: "p \<in> set (bm_Paths m)" "bmp_Name p = dp_Name sp" "files_of p = sort_key bfc_Path (map checksum_of (forest_files [] ts))"
    using built_entry [OF assms(1-4)] assms(5) by auto
  then have "checksum_of tf \<in> set (files_of p)" using tf by simp
  with assms(6) p(1,2) have "read_back we environment snapshotID (path_Join (path_Join root (dp_Name sp)) (join_slash (fst tf))) (ManifestDigest (snd (snd tf)))"
    by (metis checksum_of_simps)
  then show "\<exists>out. printed we environment [''dump'', ''--no-cache'', snapshotID, path_Join (path_Join root (dp_Name sp)) (join_slash (fst tf))] out \<and>
    (out = snd (snd tf) \<or> sha256_collision 32 out (snd (snd tf)))"
    unfolding read_back_def by (auto dest: digest_eq)
qed

text \<open>
  C6. A successful run of the backup worker has made or found a verified snapshot of the mounted source.
  There is an input it decoded and an instant at which the manifest was built from the mounted trees;
  the result carries that manifest's digest and the artifact of the input. The repository returned
  exactly one snapshot with the tag of the artifact, which carries the tag of the manifest; its listing
  holds exactly the roots, directories and files of the manifest and the manifest itself, with their
  sizes, and directories above them. At a strictly later instant every source path held the same tree
  as before, and for each of its files the repository dumped exactly the original contents. The only
  escape is a collision of SHA-256 between the two contents of that file. Inputs are assumed to be
  decoded into UTF-8 with path names that are single path elements.
\<close>

theorem backup_success_verified:
  assumes "run_state (backup_Run be config) n = (Inr result, n')"
    and "\<forall>k. wf_fs (we_Tree (be_World be) k)" "\<forall>bs input. be_decodeInput be bs = Some input \<longrightarrow> input_utf8 input"
  shows "\<exists>input environment snapshot m contents k k'.
    BuildBackupManifest (we_Tree (be_World be) k) input (bcfg_SourceRoot (backup_withDefaults config)) = Inr (m, contents) \<and>
    bwr_ManifestDigest result = ManifestDigest contents \<and> bwr_ArtifactID result = bwi_ArtifactID input \<and>
    chosen be environment input contents snapshot \<and>
    listed (be_World be) environment (rsn_ID snapshot) (call_demand ` set (inventoryCalls (bcfg_SourceRoot (backup_withDefaults config))
      (path_Join (bcfg_WorkPath (backup_withDefaults config)) manifestName) (word_of_nat (length contents)) m)) \<and>
    k < k' \<and>
    (\<forall>sp\<in>set (src_Paths (bwi_Source input)). \<exists>ts ts'.
       we_Tree (be_World be) k (path_Join (bcfg_SourceRoot (backup_withDefaults config)) (dp_Name sp)) = Some (Directory (Some ts)) \<and>
       we_Tree (be_World be) k' (path_Join (bcfg_SourceRoot (backup_withDefaults config)) (dp_Name sp)) = Some (Directory (Some ts')) \<and>
       same_tree ts ts' \<and>
       (\<forall>tf\<in>set (forest_files [] ts). \<exists>out.
          printed (be_World be) environment [''dump'', ''--no-cache'', rsn_ID snapshot,
            path_Join (path_Join (bcfg_SourceRoot (backup_withDefaults config)) (dp_Name sp)) (join_slash (fst tf))] out \<and>
          (out = snd (snd tf) \<or> sha256_collision 32 out (snd (snd tf)))))"
proof -
  let ?root = "bcfg_SourceRoot (backup_withDefaults config)"
  obtain input m contents k environment snapshot where run: "input_utf8 input" "chosen be environment input contents snapshot"
      "BuildBackupManifest (we_Tree (be_World be) k) input ?root = Inr (m, contents)" "describes result input snapshot m contents"
      "snapshot_kept be (backup_withDefaults config) environment (rsn_ID snapshot) m contents"
      "unchanged be (backup_withDefaults config) input contents (Suc k)"
    using backup_Run_backed_up [OF assms(1)] assms(3) unfolding backed_up_def taken_def by blast
  obtain k' m' where later: "k < k'" "BuildBackupManifest (we_Tree (be_World be) k') input ?root = Inr (m', contents)"
    using run(6) by (auto simp: unchanged_def Suc_le_eq)
  have "marshalManifest m = marshalManifest m'" using BuildBackupManifest_cases(4) [OF run(3)] BuildBackupManifest_cases(4) [OF later(2)] by simp
  then have same: "m' = m"
    using marshalManifest_inj [OF BuildBackupManifest_utf8 [OF run(3) _ run(1)]] assms(2) by metis
  have path: "\<exists>ts ts'. we_Tree (be_World be) k (path_Join ?root (dp_Name sp)) = Some (Directory (Some ts)) \<and>
       we_Tree (be_World be) k' (path_Join ?root (dp_Name sp)) = Some (Directory (Some ts')) \<and> same_tree ts ts' \<and>
       (\<forall>tf\<in>set (forest_files [] ts). \<exists>out.
          printed (be_World be) environment [''dump'', ''--no-cache'', rsn_ID snapshot, path_Join (path_Join ?root (dp_Name sp)) (join_slash (fst tf))] out \<and>
          (out = snd (snd tf) \<or> sha256_collision 32 out (snd (snd tf))))"
    if sp: "sp \<in> set (src_Paths (bwi_Source input))" for sp
  proof -
    have plain: "plain (dp_Name sp)" using run(1) sp by (auto simp: input_utf8_def list_all_iff)
    obtain ts ts' where ts: "we_Tree (be_World be) k (path_Join ?root (dp_Name sp)) = Some (Directory (Some ts))"
        "we_Tree (be_World be) k' (path_Join ?root (dp_Name sp)) = Some (Directory (Some ts'))" "same_tree ts ts'"
      using same_manifest_same_tree [OF run(3) _ sp plain later(2) [unfolded same]] assms(2) by blast
    have "\<forall>p\<in>set (bm_Paths m). \<forall>f\<in>set (files_of p). read_back (be_World be) environment (rsn_ID snapshot) (path_Join (path_Join ?root (bmp_Name p)) (bfc_Path f)) (bfc_SHA256 f)"
      using run(5) by (simp add: snapshot_kept_def Let_def)
    from source_read_back [OF run(3) _ sp plain ts(1) this] ts assms(2) show ?thesis by blast
  qed
  show ?thesis
    using run(2-5) later(1) path unfolding describes_def snapshot_kept_def Let_def by blast
qed

text \<open>
  C5. What was mounted when a backup ran is what a restore leaves. If a backup run succeeded and a run of
  the restore worker in the populate stage succeeds with the digest the backup reported, then, for every
  source path of the backup's input, the candidate mount as the restore last read it holds the same
  directories and the same files with the same sizes and contents as the source mount when the backup
  built its manifest. The only escape is a collision of SHA-256, between the manifest the restore read
  and the one the backup built, or between two contents of a file.
\<close>

theorem backup_restore_roundtrip:
  assumes "run_state (backup_Run be config) n = (Inr result, n')"
    and "\<forall>k. wf_fs (we_Tree (be_World be) k)" "\<forall>bs input. be_decodeInput be bs = Some input \<longrightarrow> input_utf8 input"
    and "run_state (Run we rconfig) r = (Inr restored, r')" "res_ManifestDigest restored = bwr_ManifestDigest result"
    and "res_Stage restored = StagePopulate" "\<forall>k. wf_fs (we_Tree we k)"
  shows "\<exists>input m contents k environment snapshotID manifest k'.
    BuildBackupManifest (we_Tree (be_World be) k) input (bcfg_SourceRoot (backup_withDefaults config)) = Inr (m, contents) \<and>
    bwr_ArtifactID result = bwi_ArtifactID input \<and>
    printed we environment [''dump'', ''--no-cache'', snapshotID, DefaultManifestPath] manifest \<and>
    (sha256_collision 32 manifest contents \<or>
     (\<forall>sp\<in>set (src_Paths (bwi_Source input)). \<exists>ts ts'.
        we_Tree (be_World be) k (path_Join (bcfg_SourceRoot (backup_withDefaults config)) (dp_Name sp)) = Some (Directory (Some ts)) \<and>
        we_Tree we k' (path_Join (cfgw_CandidateRoot (defaults rconfig)) (dp_Name sp)) = Some (Directory (Some ts')) \<and> same_tree ts ts'))"
proof -
  obtain input m contents k where run: "input_utf8 input" "bwr_ManifestDigest result = ManifestDigest contents" "bwr_ArtifactID result = bwi_ArtifactID input"
      "BuildBackupManifest (we_Tree (be_World be) k) input (bcfg_SourceRoot (backup_withDefaults config)) = Inr (m, contents)"
    using backup_Run_backed_up [OF assms(1)] assms(3) unfolding backed_up_def taken_def describes_def by blast
  with populate_restores_backup [OF run(4) _ run(1) assms(4) _ assms(6,7)] assms(2,5) show ?thesis by metis
qed

end
