(* ===== verification/BackupWorkerExample.thy ===== *)
theory BackupWorkerExample
  imports RestoreWorkerExample BackupWorkerProps
begin

text \<open>
  A world in which the backup worker verifies the snapshot of the example, the one the restore worker
  populates a candidate from: the instance at which the properties of both workers are applied.
\<close>

definition exSnapshot :: resticSnapshot where
  "exSnapshot = \<lparr> rsn_ID = exSnapshotID, rsn_Time = 1, rsn_Tags = [manifestTag exContents] \<rparr>"

definition exBackup :: BackupEnv where
  "exBackup = \<lparr> be_World = exEnv, be_decodeInput = (\<lambda>_. Some (backupInput exInput)), be_decodeSnapshots = (\<lambda>_. Some [exSnapshot]),
     be_decodeStats = (\<lambda>_. Some \<lparr> rst_TotalSize = 3 \<rparr>), be_WriteFile = (\<lambda>_ _ _. True) \<rparr>"

definition exBackupConfig :: BackupConfig where
  "exBackupConfig = \<lparr> bcfg_InputPath = [], bcfg_CredentialsPath = [], bcfg_SourceRoot = [], bcfg_WorkPath = [] \<rparr>"

lemma exBackup_fields [simp]:
  "be_World exBackup = exEnv" "be_decodeInput exBackup bs = Some (backupInput exInput)" "be_decodeSnapshots exBackup bs = Some [exSnapshot]"
  "be_decodeStats exBackup bs = Some \<lparr> rst_TotalSize = 3 \<rparr>" "be_WriteFile exBackup n p bs"
  by (simp_all add: exBackup_def)

lemma exSnapshot_fields [simp]: "rsn_ID exSnapshot = exSnapshotID" "rsn_Tags exSnapshot = [manifestTag exContents]" "exSnapshotID \<noteq> []"
  by (simp_all add: exSnapshot_def exSnapshotID_def)

lemma exBackupConfig_fields [simp]:
  "bcfg_SourceRoot (backup_withDefaults exBackupConfig) = ''/arcadectl/source''" "bcfg_WorkPath (backup_withDefaults exBackupConfig) = ''/arcadectl/work''"
  "path_Join ''/arcadectl/work'' manifestName = ''/arcadectl/work/manifest.json''"
  by (simp_all add: backup_withDefaults_def exBackupConfig_def backup_DefaultSourceRoot_def backup_DefaultWorkPath_def manifestName_def path_eval)

lemma exBackup_commands:
  "wp (backup_Control exBackup environment (''unlock'' # args)) (\<lambda>r t. r = Inr []) n"
  "wp (backup_Control exBackup environment (''check'' # args)) (\<lambda>r t. r = Inr []) n"
  "wp (findSnapshots exBackup environment tag) (\<lambda>r t. r = Inr [exSnapshot]) n"
  "wp (readStats exBackup environment snapshotID) (\<lambda>r t. r = Inr \<lparr> rst_TotalSize = 3 \<rparr>) n"
  by (simp_all add: findSnapshots_def readStats_def backup_Control_def run_command_def wp_simps Let_def exCommand_def)

lemma exBackup_dump: "wp (verifyDump exBackup environment exSnapshotID ''/arcadectl/work/manifest.json'' exContents) (\<lambda>r t. r = None) n"
  by (simp add: verifyDump_def backup_dump_def backup_Stream_def run_command_def wp_simps Let_def DrainingWriter_Write_def
      backup_countingWriter_Write_def exCommand_def DefaultManifestPath_def)

lemma exBackup_files: "wp (backup_verifyFiles exBackup (backup_withDefaults exBackupConfig) environment exSnapshotID exManifest) (\<lambda>r t. r = None) n"
  unfolding backup_verifyFiles_def ex_paths_of_manifest
  by (simp add: wp_simps verifyFile_def backup_dump_def backup_Stream_def run_command_def Let_def DrainingWriter_Write_def
      backup_countingWriter_Write_def ManifestDigest_def)

lemma exBackup_inventory:
  "wp (backup_verifyInventory exBackup environment exSnapshotID ''/arcadectl/source'' ''/arcadectl/work/manifest.json''
     (word_of_nat (length exContents)) exManifest) (\<lambda>r t. r = None) n"
proof -
  have calls: "inventoryCalls ''/arcadectl/source'' ''/arcadectl/work/manifest.json'' sz exManifest =
     [\<lparr> call_check = None, call_path = ''/arcadectl/source/world'', call_kind = ''dir'', call_size = 0 \<rparr>,
      \<lparr> call_check = None, call_path = ''/arcadectl/source/world/level.dat'', call_kind = ''file'', call_size = 3 \<rparr>,
      \<lparr> call_check = None, call_path = ''/arcadectl/work/manifest.json'', call_kind = ''file'', call_size = sz \<rparr>]" for sz
    by (simp add: inventoryCalls_def ex_paths_of_manifest safeInventoryRelative_def guard_simps path_eval RuneError_def utf8_ascii)
  obtain e where e: "inventory_addAll (inventoryCalls ''/arcadectl/source'' ''/arcadectl/work/manifest.json'' (word_of_nat (length exContents)) exManifest) [] = Inr e"
    "map_of e ''/arcadectl/source/world'' = Some \<lparr> node_kind = ''dir'', node_size = 0, node_required = True \<rparr>"
    "map_of e ''/arcadectl/source/world/level.dat'' = Some \<lparr> node_kind = ''file'', node_size = 3, node_required = True \<rparr>"
    "map_of e ''/arcadectl/work/manifest.json'' = Some \<lparr> node_kind = ''file'', node_size = word_of_nat (length exContents), node_required = True \<rparr>"
    "\<not> incomplete e [''/arcadectl/work/manifest.json'', ''/arcadectl/source/world/level.dat'', ''/arcadectl/source/world'']"
    by (simp add: calls inventory_add_def path_eval Let_def incomplete_def)
  have "inventory_scan exSnapshotID e False [] (fst (we_decodeInventory exEnv bs)) =
      Inr (True, [''/arcadectl/work/manifest.json'', ''/arcadectl/source/world/level.dat'', ''/arcadectl/source/world''])" for bs
    using e(2-4) ex_nodes by (simp add: ex_decodeInventory exNode_def DefaultManifestPath_def del: Contains.simps)
  then show ?thesis
    using e(5) by (simp add: backup_verifyInventory_def e(1) wp_simps backup_Stream_def run_command_def Let_def ex_decodeInventory guard_simps del: inventory_scan.simps)
qed

lemma exBackup_verify:
  "wp (backup_verify exBackup (backup_withDefaults exBackupConfig) (backupInput exInput) environment exSnapshot exManifest exContents ''/arcadectl/work/manifest.json'')
     (\<lambda>r t. \<exists>result. r = Inr result \<and> bwr_ManifestDigest result = ManifestDigest exContents) n"
proof -
  let ?Q = "\<lambda>r t. \<exists>result. r = Inr result \<and> bwr_ManifestDigest result = ManifestDigest exContents"
  have finish: "wp (backup_finish exBackup (backup_withDefaults exBackupConfig) (backupInput exInput) environment exSnapshot exManifest exContents) ?Q t" for t
    by (simp add: backup_finish_def wp_failing sourceManifest_def wp_simps ex_built(1))
       (rule wp_mono [OF exBackup_commands(4)], simp add: wp_simps)
  have files: "wp (rejecting (backup_verifyFiles exBackup (backup_withDefaults exBackupConfig) environment exSnapshotID exManifest) k
      (backup_finish exBackup (backup_withDefaults exBackupConfig) (backupInput exInput) environment exSnapshot exManifest exContents)) ?Q t" for k t
    unfolding wp_rejecting by (rule wp_mono [OF exBackup_files]) (simp add: finish)
  have rejecting: "wp (rejecting a k b) ?Q t" if "\<And>u. wp a (\<lambda>r t. r = None) u" "\<And>u. wp b ?Q u" for a k b t
    unfolding wp_rejecting by (rule wp_mono [OF that(1)]) (simp add: that(2))
  show ?thesis
    unfolding backup_verify_def wp_failing exSnapshot_fields exBackupConfig_fields
    by (rule wp_mono [OF exBackup_commands(2)]) (auto intro!: rejecting exBackup_dump exBackup_inventory files)
qed

lemma exBackup_credentials: "wp (backup_readCredentials exBackup d) (\<lambda>r t. \<exists>credentials. r = Inr credentials) n"
  using ex_secret_valid
  by (simp add: backup_readCredentials_def wp_simps exEnv_def [THEN arg_cong, of we_ReadDir] RepositoryKeyRepository_def RepositoryKeyPassword_def
      RepositoryKeyAccessKeyID_def RepositoryKeySecretAccessKey_def HasPrefix_def)

lemma exBackup_repository:
  "wp (backup_repository exBackup (backup_withDefaults exBackupConfig) (backupInput exInput) environment exManifest exContents ''/arcadectl/work/manifest.json'')
     (\<lambda>r t. \<exists>result. r = Inr result \<and> bwr_ManifestDigest result = ManifestDigest exContents) n"
proof -
  have select: "backup_select exBackup c i environment exManifest exContents p [exSnapshot] = backup_verify exBackup c i environment exSnapshot exManifest exContents p"
    for c i p
    by (simp add: backup_select_def)
  show ?thesis
    unfolding backup_repository_def wp_failing [of "backup_Control be environment [''unlock'', ''--no-cache'']" for be environment]
    by (rule wp_mono [OF exBackup_commands(1)], simp add: wp_failing [of "findSnapshots a b c" for a b c])
       (rule wp_mono [OF exBackup_commands(3)], simp add: select exBackup_verify)
qed

lemma exBackup_run: "\<exists>result n'. run_state (backup_Run exBackup exBackupConfig) 0 = (Inr result, n') \<and> bwr_ManifestDigest result = ManifestDigest exContents"
proof -
  have "wp (backup_Run exBackup exBackupConfig) (\<lambda>r t. \<exists>result. r = Inr result \<and> bwr_ManifestDigest result = ManifestDigest exContents) 0"
    by (simp add: backup_Run_def Let_def wp_failing [of "backup_readInput a b" for a b] backup_readInput_def wp_simps maxControlOutput_def ex_backup_input
        wp_failing [of "backup_readCredentials a b" for a b])
       (rule wp_mono [OF exBackup_credentials], auto simp: wp_failing [of "sourceManifest a b c" for a b c] sourceManifest_def makeWorkDirectory_def
        writeManifest_def wp_simps ex_built(1) guard_simps exBackup_repository)
  then show ?thesis by (cases "run_state (backup_Run exBackup exBackupConfig) 0") (simp add: wp_def)
qed

section \<open>Witnesses\<close>

lemma exBackup_utf8: "\<forall>bs input. be_decodeInput exBackup bs = Some input \<longrightarrow> input_utf8 input"
  using ex_utf8 by simp

lemma exBackup_worlds: "\<forall>k. wf_fs (we_Tree (be_World exBackup) k)"
  by (simp add: ex_wf)

theorem backup_success_verified_witness:
  "\<exists>input environment snapshot m contents k k'.
    BuildBackupManifest (we_Tree (be_World exBackup) k) input (bcfg_SourceRoot (backup_withDefaults exBackupConfig)) = Inr (m, contents) \<and>
    ManifestDigest exContents = ManifestDigest contents \<and>
    chosen exBackup environment input contents snapshot \<and>
    listed (be_World exBackup) environment (rsn_ID snapshot) (call_demand ` set (inventoryCalls (bcfg_SourceRoot (backup_withDefaults exBackupConfig))
      (path_Join (bcfg_WorkPath (backup_withDefaults exBackupConfig)) manifestName) (word_of_nat (length contents)) m)) \<and>
    k < k' \<and>
    (\<forall>sp\<in>set (src_Paths (bwi_Source input)). \<exists>ts ts'.
       we_Tree (be_World exBackup) k (path_Join (bcfg_SourceRoot (backup_withDefaults exBackupConfig)) (dp_Name sp)) = Some (Directory (Some ts)) \<and>
       we_Tree (be_World exBackup) k' (path_Join (bcfg_SourceRoot (backup_withDefaults exBackupConfig)) (dp_Name sp)) = Some (Directory (Some ts')) \<and>
       same_tree ts ts' \<and>
       (\<forall>tf\<in>set (forest_files [] ts). \<exists>out.
          printed (be_World exBackup) environment [''dump'', ''--no-cache'', rsn_ID snapshot,
            path_Join (path_Join (bcfg_SourceRoot (backup_withDefaults exBackupConfig)) (dp_Name sp)) (join_slash (fst tf))] out \<and>
          (out = snd (snd tf) \<or> sha256_collision 32 out (snd (snd tf)))))"
proof -
  obtain result n' where run: "run_state (backup_Run exBackup exBackupConfig) 0 = (Inr result, n')" "bwr_ManifestDigest result = ManifestDigest exContents"
    using exBackup_run by blast
  from backup_success_verified [OF run(1) exBackup_worlds exBackup_utf8] show ?thesis
    unfolding run(2) by (elim exE conjE) (intro exI conjI)
qed

theorem backup_restore_roundtrip_witness:
  "\<exists>input m contents k environment snapshotID manifest k'.
    BuildBackupManifest (we_Tree (be_World exBackup) k) input (bcfg_SourceRoot (backup_withDefaults exBackupConfig)) = Inr (m, contents) \<and>
    printed exEnv environment [''dump'', ''--no-cache'', snapshotID, DefaultManifestPath] manifest \<and>
    (sha256_collision 32 manifest contents \<or>
     (\<forall>sp\<in>set (src_Paths (bwi_Source input)). \<exists>ts ts'.
        we_Tree (be_World exBackup) k (path_Join (bcfg_SourceRoot (backup_withDefaults exBackupConfig)) (dp_Name sp)) = Some (Directory (Some ts)) \<and>
        we_Tree exEnv k' (path_Join (cfgw_CandidateRoot (defaults exConfig)) (dp_Name sp)) = Some (Directory (Some ts')) \<and> same_tree ts ts'))"
proof -
  obtain result n' where run: "run_state (backup_Run exBackup exBackupConfig) 0 = (Inr result, n')" "bwr_ManifestDigest result = ManifestDigest exContents"
    using exBackup_run by blast
  obtain restored r' where restored: "run_state (Run exEnv exConfig) 0 = (Inr restored, r')" "res_ManifestDigest restored = bwr_ManifestDigest result"
      "res_Stage restored = StagePopulate"
    using ex_run run(2) by auto
  from backup_restore_roundtrip [OF run(1) exBackup_worlds exBackup_utf8 restored ex_worlds] show ?thesis by (elim exE conjE) (intro exI conjI)
qed

end
