(* ===== verification/GameDestroySpec.thy ===== *)
theory GameDestroySpec
  imports GameDestroyReads
begin

text \<open>
  The abstract specification of a destroy operation. \<open>destroy_step\<close> lists the changes of status that the
  controller may write, each with the evidence that the same run must have observed between its call
  \<open>m\<close> and the write, call \<open>n\<close>. \<open>permitted\<close> extends it to the other requests; the deletion of a claim
  is the one that destroys data.
\<close>

section \<open>Steps\<close>

text \<open>Preview, verification and journal are as before.\<close>

definition kept :: "GameDestroyStatus \<Rightarrow> GameDestroyStatus \<Rightarrow> bool" where
  "kept st st' \<longleftrightarrow> dst_Preview st' = dst_Preview st \<and> dst_Verification st' = dst_Verification st \<and> dst_DeletionJournal st' = dst_DeletionJournal st"

definition proof_for :: "GameDestroy \<Rightarrow> GameBackup \<Rightarrow> GameDestroyVerification \<Rightarrow> bool" where
  "proof_for d b v \<longleftrightarrow>
     dv_BackupRef v = the (ds_BackupRef (gd_Spec d)) \<and> dv_RepositorySecretRef v = the (ds_RepositorySecretRef (gd_Spec d)) \<and>
     dv_ArtifactID v = art_ID (the (st_Artifact (gb_Status b))) \<and> dv_ManifestDigest v = art_ManifestDigest (the (st_Artifact (gb_Status b))) \<and>
     dv_PathCount v = int32_of_len (claimsOf d)"

definition absent_at :: "GameDestroyReconciler \<Rightarrow> GameDestroy \<Rightarrow> RetainedDataClaimReference \<Rightarrow> nat \<Rightarrow> bool" where
  "absent_at r d c k \<longleftrightarrow> cl_Claim r k (namespaceOf d) (ref_Name (rclaim_ClaimRef c)) = Inl NotFound"

definition entry_for :: "GameDestroy \<Rightarrow> RetainedDataClaimReference \<Rightarrow> GameDestroyClaimDeletion \<Rightarrow> bool" where
  "entry_for d c e \<longleftrightarrow> journalEntry d (rclaim_Path c) = Some e \<and> sameLocal (cd_ClaimRef e) (rclaim_ClaimRef c)"

text \<open>The lease was found held, or the request to create it was accepted.\<close>

definition lease_taken :: "GameDestroyReconciler \<Rightarrow> GameDestroy \<Rightarrow> nat \<Rightarrow> bool" where
  "lease_taken r d k \<longleftrightarrow> lease_held r d k \<or>
     (\<exists>l. lease_HolderIdentity l = Some (uidOf d) \<and> meta_Name (lease_Meta l) = dataLeaseName d \<and> cl_Respond r k (CreateLease l) = None)"

text \<open>The gate in front of every deletion: lease, cold world, and the verified repository where one is required.\<close>

definition gate :: "GameDestroyReconciler \<Rightarrow> GameDestroy \<Rightarrow> nat \<Rightarrow> nat \<Rightarrow> bool" where
  "gate r d m n \<longleftrightarrow>
     phaseOf d = DestroyPhaseDeleting \<and> (journalOf d = [] \<longrightarrow> seen m n (confirmed_at r d)) \<and>
     (modeOf d = DestroyModeVerifiedBackup \<longrightarrow> dst_Verification (gd_Status d) \<noteq> None) \<and>
     seen m n (lease_held r d) \<and> (\<exists>s. cold r d True m n s)"

inductive destroy_step :: "GameDestroyReconciler \<Rightarrow> nat \<Rightarrow> nat \<Rightarrow> GameDestroy \<Rightarrow> GameDestroyStatus \<Rightarrow> bool" for r m n d where
  held: "\<not> destroyTerminal (phaseOf d) \<Longrightarrow> kept (gd_Status d) st' \<Longrightarrow> dst_Phase st' = phaseOf d \<Longrightarrow> destroy_step r m n d st'"
| accepted: "phaseOf d = DestroyPhaseEmpty \<Longrightarrow> kept (gd_Status d) st' \<Longrightarrow> dst_Phase st' = DestroyPhasePending \<Longrightarrow> destroy_step r m n d st'"
| previewed: "phaseOf d = DestroyPhasePending \<Longrightarrow> cold r d False m n s \<Longrightarrow> seen m n (\<lambda>k. cl_Random r k = Some c) \<Longrightarrow>
    dst_Phase st' = DestroyPhasePreview \<Longrightarrow> dst_Preview st' = Some p \<Longrightarrow> pv_Challenge p = RawURLEncode c \<Longrightarrow>
    dst_Verification st' = dst_Verification (gd_Status d) \<Longrightarrow> dst_DeletionJournal st' = journalOf d \<Longrightarrow> destroy_step r m n d st'"
| rejected: "\<not> destroyTerminal (phaseOf d) \<Longrightarrow> journalOf d = [] \<Longrightarrow> kept (gd_Status d) st' \<Longrightarrow> dst_Phase st' = DestroyPhaseFailed \<Longrightarrow>
    destroy_step r m n d st'"
| cancelled: "\<not> destroyTerminal (phaseOf d) \<Longrightarrow> journalOf d = [] \<Longrightarrow> ds_CancelRequested (gd_Spec d) \<Longrightarrow> kept (gd_Status d) st' \<Longrightarrow>
    dst_Phase st' = DestroyPhaseCancelled \<Longrightarrow> destroy_step r m n d st'"
| fenced: "phaseOf d = DestroyPhasePreview \<Longrightarrow> seen m n (confirmed_at r d) \<Longrightarrow> cold r d False m n s \<Longrightarrow> seen m n (lease_taken r d) \<Longrightarrow>
    kept (gd_Status d) st' \<Longrightarrow> dst_Phase st' = (if modeOf d = DestroyModeUnsafeNoBackup then DestroyPhaseDeleting else DestroyPhaseVerifying) \<Longrightarrow> destroy_step r m n d st'"
| verified: "phaseOf d = DestroyPhaseVerifying \<Longrightarrow> dst_Verification (gd_Status d) = None \<Longrightarrow> seen m n (confirmed_at r d) \<Longrightarrow>
    seen m n (lease_held r d) \<Longrightarrow> cold r d False m n s \<Longrightarrow> dsub_backup s = Some b \<Longrightarrow> dst_Phase st' = DestroyPhaseVerifying \<Longrightarrow>
    dst_Preview st' = dst_Preview (gd_Status d) \<Longrightarrow> dst_Verification st' = Some v \<Longrightarrow> proof_for d b v \<Longrightarrow>
    dst_DeletionJournal st' = journalOf d \<Longrightarrow> destroy_step r m n d st'"
| cleared: "phaseOf d = DestroyPhaseVerifying \<Longrightarrow> dst_Verification (gd_Status d) \<noteq> None \<Longrightarrow> seen m n (lease_held r d) \<Longrightarrow>
    cold r d False m n s \<Longrightarrow> kept (gd_Status d) st' \<Longrightarrow> dst_Phase st' = DestroyPhaseDeleting \<Longrightarrow> destroy_step r m n d st'"
| announced: "gate r d m n \<Longrightarrow> c \<in> set (claimsOf d) \<Longrightarrow> journalEntry d (rclaim_Path c) = None \<Longrightarrow> dst_Phase st' = DestroyPhaseDeleting \<Longrightarrow>
    dst_Preview st' = dst_Preview (gd_Status d) \<Longrightarrow> dst_Verification st' = dst_Verification (gd_Status d) \<Longrightarrow>
    dst_DeletionJournal st' = journalOf d @ [\<lparr> cd_Path = rclaim_Path c, cd_ClaimRef = rclaim_ClaimRef c, cd_RequestedAt = t, cd_ObservedDeletedAt = None \<rparr>] \<Longrightarrow>
    destroy_step r m n d st'"
| observed: "gate r d m n \<Longrightarrow> c \<in> set (claimsOf d) \<Longrightarrow> entry_for d c e \<Longrightarrow> cd_ObservedDeletedAt e = None \<Longrightarrow> seen m n (absent_at r d c) \<Longrightarrow>
    dst_Phase st' = DestroyPhaseDeleting \<Longrightarrow> dst_Preview st' = dst_Preview (gd_Status d) \<Longrightarrow>
    dst_Verification st' = dst_Verification (gd_Status d) \<Longrightarrow> dst_DeletionJournal st' = markDeleted (rclaim_Path c) t (journalOf d) \<Longrightarrow>
    destroy_step r m n d st'"
| succeeded: "gate r d m n \<Longrightarrow>
    (\<forall>c\<in>set (claimsOf d). seen m n (absent_at r d c) \<and> (\<exists>e. entry_for d c e \<and> cd_ObservedDeletedAt e \<noteq> None)) \<Longrightarrow>
    kept (gd_Status d) st' \<Longrightarrow> dst_Phase st' = DestroyPhaseSucceeded \<Longrightarrow> destroy_step r m n d st'"

text \<open>When a claim may be deleted: announced in the journal, not yet observed absent, and seen with its exact UID.\<close>

definition deletable :: "GameDestroyReconciler \<Rightarrow> GameDestroy \<Rightarrow> nat \<Rightarrow> nat \<Rightarrow> string \<Rightarrow> string \<Rightarrow> UID \<Rightarrow> bool" where
  "deletable r d m n namespace name uid \<longleftrightarrow>
     gate r d m n \<and>
     (\<exists>c\<in>set (claimsOf d). \<exists>e k claim. entry_for d c e \<and> cd_ObservedDeletedAt e = None \<and> m \<le> k \<and> k < n \<and>
        cl_Claim r k (namespaceOf d) (ref_Name (rclaim_ClaimRef c)) = Inr claim \<and> meta_UID (pvc_Meta claim) = ref_UID (rclaim_ClaimRef c) \<and>
        \<not> terminating (pvc_Meta claim) \<and>
        namespace = meta_Namespace (pvc_Meta claim) \<and> name = meta_Name (pvc_Meta claim) \<and> uid = ref_UID (rclaim_ClaimRef c) \<and>
        seen k n (lease_held r d) \<and> (\<exists>s. cold r d True k n s))"

definition permitted :: "GameDestroyReconciler \<Rightarrow> GameDestroy \<Rightarrow> nat \<Rightarrow> nat \<Rightarrow> Request \<Rightarrow> bool" where
  "permitted r d m n q \<longleftrightarrow>
     (case q of
        StatusDestroy d' \<Rightarrow> (\<exists>st'. d' = d\<lparr> gd_Status := st' \<rparr> \<and> destroy_step r m n d st')
      | Delete KindClaim namespace name uid _ \<Rightarrow> deletable r d m n namespace name uid
      | UpdateDestroy d' \<Rightarrow> (\<exists>fs. d' = d\<lparr> gd_Meta := (gd_Meta d)\<lparr> meta_Finalizers := fs \<rparr> \<rparr> \<and>
          (DestroyFinalizer \<in> set fs \<or> (terminating (gd_Meta d) \<and> (journalOf d = [] \<or> destroyTerminal (phaseOf d)))))
      | _ \<Rightarrow> True)"

lemma gate_wider: "gate r d m n \<Longrightarrow> m' \<le> m \<Longrightarrow> n \<le> n' \<Longrightarrow> gate r d m' n'"
  unfolding gate_def using seen_wider cold_wider by meson

end
