(* ===== verification/GameDestroyRefine.thy ===== *)
theory GameDestroyRefine
  imports GameDestroySpec
begin

text \<open>
  The controller refines its specification: every request that a reconciliation sends is \<open>permitted\<close>.
\<close>

section \<open>Runs that send only permitted requests\<close>

definition runs :: "(nat \<Rightarrow> Request \<Rightarrow> bool) \<Rightarrow> 'a program \<Rightarrow> session \<Rightarrow> bool" where
  "runs P m s \<longleftrightarrow> wp m (\<lambda>_ t. extends P s t) s"

lemma runs_return [simp]: "runs P (State_Monad.return x) s"
  by (simp add: runs_def wp_simps)

lemma runs_mono: "runs P m s \<Longrightarrow> (\<And>n q. ses_calls s \<le> n \<Longrightarrow> P n q \<Longrightarrow> P' n q) \<Longrightarrow> runs P' m s"
  unfolding runs_def by (erule wp_mono) (rule extends_mono)

lemma runs_bind:
  assumes "wp m (\<lambda>x t. extends P s t \<and> R x t) s" "\<And>x t. ses_calls s \<le> ses_calls t \<Longrightarrow> R x t \<Longrightarrow> runs P (f x) t"
  shows "runs P (State_Monad.bind m f) s"
  unfolding runs_def wp_bind
proof (rule wp_mono [OF assms(1)], elim conjE)
  fix x t
  assume t: "extends P s t" "R x t"
  have "wp (f x) (\<lambda>_ u. extends P t u) t" using assms(2) [of t x] t extends_calls unfolding runs_def by blast
  then show "wp (f x) (\<lambda>_ u. extends P s u) t" by (rule wp_mono) (rule extends_trans [OF t(1)])
qed

lemma runs_seq: "runs P m s \<Longrightarrow> (\<And>x t. ses_calls s \<le> ses_calls t \<Longrightarrow> runs P (f x) t) \<Longrightarrow> runs P (State_Monad.bind m f) s"
  by (rule runs_bind [where R = "\<lambda>_ _. True"]) (simp_all add: runs_def)

lemma runs_reads:
  assumes "wp m (\<lambda>x t. reads s t \<and> R x t) s" "\<And>x t. ses_calls s \<le> ses_calls t \<Longrightarrow> R x t \<Longrightarrow> runs P (f x) t"
  shows "runs P (State_Monad.bind m f) s"
  by (rule runs_bind [OF wp_mono [OF assms(1)] assms(2)]) (auto intro: reads_extends)

lemma runs_observes_none:
  assumes "observes_none m A" "\<And>e t. ses_calls s \<le> ses_calls t \<Longrightarrow> runs P (f (Some e)) t"
    and "\<And>t. ses_calls s \<le> ses_calls t \<Longrightarrow> A (ses_calls s) (ses_calls t) \<Longrightarrow> runs P (f None) t"
  shows "runs P (State_Monad.bind m f) s"
  by (rule runs_reads [OF observes_noneD [OF assms(1)]]) (metis assms(2,3) option.exhaust)

lemma runs_observes:
  assumes "observes m A" "\<And>e t. ses_calls s \<le> ses_calls t \<Longrightarrow> runs P (f (Inl e)) t"
    and "\<And>v t. ses_calls s \<le> ses_calls t \<Longrightarrow> A v (ses_calls s) (ses_calls t) \<Longrightarrow> runs P (f (Inr v)) t"
  shows "runs P (State_Monad.bind m f) s"
  by (rule runs_reads [OF observesD [OF assms(1)]]) (metis assms(2,3) sum.exhaust)

lemma runs_ask: "(\<And>t. t = s\<lparr> ses_calls := Suc (ses_calls s) \<rparr> \<Longrightarrow> runs P (f (g (ses_calls s))) t) \<Longrightarrow> runs P (State_Monad.bind (ask g) f) s"
  unfolding runs_def wp_simps by (auto intro: wp_mono extends_trans [OF extends_ask])

lemma runs_send: "P (ses_calls s) q \<Longrightarrow> (\<And>x t. ses_calls s \<le> ses_calls t \<Longrightarrow> runs P (f x) t) \<Longrightarrow> runs P (State_Monad.bind (send r q) f) s"
  by (rule runs_seq) (simp_all add: runs_def wp_simps extends_send)

lemma runs_if: "(b \<Longrightarrow> runs P x s) \<Longrightarrow> (\<not> b \<Longrightarrow> runs P y s) \<Longrightarrow> runs P (if b then x else y) s"
  by simp

lemma runs_case_option:
  "(v = None \<Longrightarrow> runs P x s) \<Longrightarrow> (\<And>e. v = Some e \<Longrightarrow> runs P (f e) s) \<Longrightarrow> runs P (case v of None \<Rightarrow> x | Some e \<Rightarrow> f e) s"
  by (cases v) simp_all

lemma runs_case_sum:
  "(\<And>e. v = Inl e \<Longrightarrow> runs P (f e) s) \<Longrightarrow> (\<And>x. v = Inr x \<Longrightarrow> runs P (g x) s) \<Longrightarrow> runs P (case v of Inl e \<Rightarrow> f e | Inr x \<Rightarrow> g x) s"
  by (cases v) simp_all

lemma runs_send_only: "P (ses_calls s) q \<Longrightarrow> runs P (send r q) s"
  by (simp add: runs_def wp_simps extends_send)

section \<open>Status writes\<close>

lemma runs_update_status:
  "(\<And>n. ses_calls s \<le> n \<Longrightarrow> destroy_step r m n d (f (gd_Status d))) \<Longrightarrow> runs (permitted r d m) (update_status r d f) s"
  unfolding update_status_def by (rule runs_send) (auto simp: permitted_def)

lemma runs_now: "(\<And>t. ses_calls s \<le> ses_calls t \<Longrightarrow> runs P (f (cl_Now r (ses_calls s))) t) \<Longrightarrow> runs P (State_Monad.bind (now r) f) s"
  unfolding now_def by (rule runs_ask) simp

lemma runs_status:
  assumes "\<And>n st'. ses_calls s \<le> n \<Longrightarrow> kept (gd_Status d) st' \<Longrightarrow> dst_Phase st' = phase \<Longrightarrow> destroy_step r m n d st'"
  shows "runs (permitted r d m) (status r d phase reason message) s"
proof -
  let ?P = "permitted r d m"
  have now: "runs ?P (now r) t" for t by (simp add: runs_def wp_simps)
  show ?thesis
    unfolding status_def Let_def
    by (rule runs_seq, simp add: now split: option.split)
       (rule runs_seq, force intro: runs_seq now, rule runs_seq [OF now], rule runs_seq, force intro: runs_seq now,
        rule runs_update_status, rule assms, auto simp: kept_def)
qed

lemma runs_hold: "\<not> destroyTerminal (phaseOf d) \<Longrightarrow> runs (permitted r d m) (hold r d reason message) s"
  unfolding hold_def
  by (rule runs_now) (auto intro!: runs_seq runs_update_status destroy_step.held simp: kept_def)

lemma runs_finish_status:
  "(\<And>n st'. ses_calls s \<le> n \<Longrightarrow> kept (gd_Status d) st' \<Longrightarrow> dst_Phase st' = phase \<Longrightarrow> destroy_step r m n d st') \<Longrightarrow>
   runs (permitted r d m) (finish_status r d phase reason message) s"
  unfolding finish_status_def by (rule runs_seq, rule runs_status) auto

lemma runs_fail: "\<not> destroyTerminal (phaseOf d) \<Longrightarrow> runs (permitted r d m) (fail r d reason message) s"
  unfolding fail_def by (auto intro!: runs_hold runs_seq runs_status destroy_step.rejected)

section \<open>Cleaning up\<close>

text \<open>Requests that touch neither the status nor a claim.\<close>

definition harmless :: "Request \<Rightarrow> bool" where
  "harmless q \<longleftrightarrow> (case q of StatusDestroy _ \<Rightarrow> False | UpdateDestroy _ \<Rightarrow> False | Delete k _ _ _ _ \<Rightarrow> k \<noteq> KindClaim | _ \<Rightarrow> True)"

lemma harmless_simps [simp]:
  "harmless (CreateLease l)" "harmless (UpdateLease l)" "harmless (CreateConfigMap c)" "harmless (CreateServiceAccount sa)" "harmless (CreateRole ro)"
  "harmless (CreateRoleBinding rb)" "harmless (CreateJob j)" "harmless (UpdateJob j)" "harmless (UpdatePod p)"
  "harmless (Delete k ns name uid v) \<longleftrightarrow> k \<noteq> KindClaim" "\<not> harmless (StatusDestroy d)" "\<not> harmless (UpdateDestroy d)"
  by (simp_all add: harmless_def)

abbreviation tidy :: "nat \<Rightarrow> Request \<Rightarrow> bool" where
  "tidy \<equiv> \<lambda>_ q. harmless q"

lemma harmless_permitted: "harmless q \<Longrightarrow> permitted r d m n q"
  by (cases q) (auto simp: permitted_def harmless_def split: Kind.split)

lemma tidy_permitted: "runs tidy p s \<Longrightarrow> runs (permitted r d m) p s"
  by (erule runs_mono) (rule harmless_permitted)

lemma runs_ask_only [simp]: "runs P (ask g) s"
  by (simp add: runs_def wp_simps)

lemma tidy_cleanupObject: "k \<noteq> KindClaim \<Longrightarrow> runs tidy (cleanupObject r d k get) s"
  unfolding cleanupObject_def delete_object_def
  by (rule runs_ask) (auto intro!: runs_send split: sum.split ApiError.split)

lemma tidy_cleanupAll: "(\<And>p t. p \<in> set ps \<Longrightarrow> runs tidy p t) \<Longrightarrow> runs tidy (cleanupAll ps) s"
proof (induction ps arbitrary: s)
  case (Cons p ps)
  then show ?case by (auto intro!: runs_seq split: option.split)
qed simp

lemma tidy_cleanupAuthority: "runs tidy (cleanupAuthority r d) s"
  unfolding cleanupAuthority_def Let_def by (rule tidy_cleanupAll) (auto intro: tidy_cleanupObject)

lemma tidy_workerPods: "runs tidy (workerPods r d) s"
  unfolding workerPods_def by (rule runs_ask) simp

lemma tidy_cleanupWorker: "runs tidy (cleanupWorker r d) s"
  unfolding cleanupWorker_def
  by (rule runs_ask) (auto intro!: runs_send runs_seq [OF tidy_workerPods] tidy_cleanupAuthority split: sum.split ApiError.split list.split)

lemma runs_after_cleanup:
  assumes "\<And>t. ses_calls s \<le> ses_calls t \<Longrightarrow> runs (permitted r d m) k t"
  shows "runs (permitted r d m) (after_cleanup r d k) s"
  unfolding after_cleanup_def
  by (rule runs_seq [OF tidy_permitted [OF tidy_cleanupWorker]]) (auto intro: assms split: sum.split)

lemma tidy_releaseDataLease: "runs tidy (releaseDataLease r d) s"
  unfolding releaseDataLease_def getDataLease_def delete_object_def
  by (rule runs_ask) (auto intro!: runs_send split: sum.split ApiError.split)

lemma runs_after_release:
  assumes "\<And>t. ses_calls s \<le> ses_calls t \<Longrightarrow> runs (permitted r d m) k t"
  shows "runs (permitted r d m) (after_release r d k) s"
  unfolding after_release_def
  by (rule runs_after_cleanup, rule runs_seq [OF tidy_permitted [OF tidy_releaseDataLease]])
     (auto intro!: assms split: option.split)

section \<open>preview, confirm and verify\<close>

lemmas widen = seen_wider cold_wider

lemma runs_preview:
  assumes "phaseOf d = DestroyPhasePending" "m \<le> ses_calls s"
  shows "runs (permitted r d m) (preview r d) s"
  unfolding preview_def
proof (rule runs_observes [OF observes_resolve], goal_cases)
  case (1 e t)
  then show ?case using assms(1) by (simp add: runs_fail destroyTerminal_def)
next
  case (2 v t)
  have step: "destroy_step r m n d (gd_Status d\<lparr> dst_Phase := DestroyPhasePreview, dst_ObservedGeneration := g, dst_Preview := Some p \<rparr>)"
    if "cl_Random r (ses_calls t) = Some c" "pv_Challenge p = RawURLEncode c" "Suc (ses_calls t) \<le> n" for n g p c
  proof (rule destroy_step.previewed)
    show "cold r d False m n v" using 2 assms(2) that(3) by (auto elim!: cold_wider)
    show "seen m n (\<lambda>k. cl_Random r k = Some c)" using 2 assms(2) that by (auto intro!: seenI [of _ "ses_calls t"])
  qed (use that assms(1) in auto)
  show ?case
    unfolding sum.case
    by (rule runs_ask) (auto split: option.split intro!: runs_now runs_seq runs_update_status step)
qed

lemma lease_created:
  "cl_Respond r k (CreateLease \<lparr> lease_Meta = freshMeta (dataLeaseName d) ns ls as os, lease_HolderIdentity = Some (uidOf d), lease_AcquireTime = t \<rparr>) = None \<Longrightarrow>
   lease_taken r d k"
  by (force simp: lease_taken_def freshMeta_def)

lemma lease_found: "cl_Lease r k (namespaceOf d) (dataLeaseName d) = Inr lease \<Longrightarrow> dataLeaseMatches d lease \<Longrightarrow> lease_taken r d k"
  by (simp add: lease_taken_def lease_held_def)

lemma wp_acquireDataLease:
  assumes "\<And>q n. harmless q \<Longrightarrow> P n q"
  shows "wp (acquireDataLease r d) (\<lambda>x t. extends P s t \<and> (x = None \<longrightarrow> seen (ses_calls s) (ses_calls t) (lease_taken r d))) s"
  unfolding acquireDataLease_def getDataLease_def
  by (auto simp: wp_simps assms extends_def guard_simps dest: lease_created lease_found split: sum.split ApiError.split)

lemma runs_confirm:
  assumes "phaseOf d = DestroyPhasePreview" "m \<le> ses_calls s"
  shows "runs (permitted r d m) (confirm r d) s"
proof -
  have fail: "runs (permitted r d m) (fail r d reason message) t" for reason message t
    using assms(1) by (simp add: runs_fail destroyTerminal_def)
  have fenced: "runs (permitted r d m) (finish_status r d (if modeOf d = DestroyModeUnsafeNoBackup then DestroyPhaseDeleting else DestroyPhaseVerifying) reason message) u"
    if "seen (ses_calls s) (ses_calls t) (confirmed_at r d)" "cold r d False (ses_calls t) (ses_calls t') v"
      "seen (ses_calls t') (ses_calls u) (lease_taken r d)" "ses_calls s \<le> ses_calls t" "ses_calls t \<le> ses_calls t'" "ses_calls t' \<le> ses_calls u"
    for t t' u v reason message
    by (rule runs_finish_status, rule destroy_step.fenced [where s = v]) (use that assms in \<open>auto elim!: seen_wider cold_wider\<close>)
  show ?thesis
    unfolding confirm_def
    apply (rule runs_if, simp)
    apply (rule runs_reads [OF wp_confirmed])
    apply (rule runs_if, rule fail)
    apply (rule runs_observes [OF observes_resolve], simp only: sum.case, rule fail)
    apply (simp only: sum.case)
    apply (rule runs_bind [OF wp_acquireDataLease], erule harmless_permitted)
    apply (rule runs_case_option, rule fenced, auto intro: fail)
    done
qed

text \<open>What the verification has established before it looks at the worker.\<close>

definition verifying :: "GameDestroyReconciler \<Rightarrow> GameDestroy \<Rightarrow> nat \<Rightarrow> nat \<Rightarrow> destroySubject \<Rightarrow> bool" where
  "verifying r d m n v \<longleftrightarrow> phaseOf d = DestroyPhaseVerifying \<and> dst_Verification (gd_Status d) = None \<and>
     seen m n (confirmed_at r d) \<and> seen m n (lease_held r d) \<and> cold r d False m n v"

lemma verifying_wider: "verifying r d m n v \<Longrightarrow> n \<le> n' \<Longrightarrow> verifying r d m n' v"
  unfolding verifying_def by (auto elim: seen_wider cold_wider)

lemma verifying_fail: "verifying r d m n v \<Longrightarrow> runs (permitted r d m) (fail r d reason message) t"
  by (simp add: verifying_def runs_fail destroyTerminal_def)

lemma verifying_proof:
  assumes "verifying r d m n v" "dsub_backup v = Some b" "\<not> resultMismatch d (dsub_input v) result"
    and "st' = gd_Status d\<lparr> dst_Verification := Some \<lparr>
      dv_BackupRef = the (ds_BackupRef (gd_Spec d)), dv_RepositorySecretRef = the (ds_RepositorySecretRef (gd_Spec d)),
      dv_ArtifactID = res_ArtifactID result, dv_ManifestDigest = res_ManifestDigest result, dv_PathCount = res_PathCount result,
      dv_VerifiedAt = res_VerifiedAt result, dv_ColdAt = t \<rparr> \<rparr>"
  shows "destroy_step r m n d st'"
proof (rule destroy_step.verified [where s = v and b = b])
  have "dsub_input v = preflightInput d b" using assms(1,2) by (auto simp: verifying_def cold_def)
  then show "proof_for d b (the (dst_Verification st'))"
    using assms(3,4) by (simp add: proof_for_def resultMismatch_def preflightInput_def Let_def)
qed (use assms in \<open>simp_all add: verifying_def\<close>)

lemma runs_verifyResult:
  assumes "verifying r d m (ses_calls s) v" "dsub_backup v = Some b"
  shows "runs (permitted r d m) (verifyResult r d (dsub_input v) pod) s"
proof -
  let ?P = "permitted r d m"
  let ?st = "\<lambda>result t. gd_Status d\<lparr> dst_Verification := Some \<lparr>
      dv_BackupRef = the (ds_BackupRef (gd_Spec d)), dv_RepositorySecretRef = the (ds_RepositorySecretRef (gd_Spec d)),
      dv_ArtifactID = res_ArtifactID result, dv_ManifestDigest = res_ManifestDigest result, dv_PathCount = res_PathCount result,
      dv_VerifiedAt = res_VerifiedAt result, dv_ColdAt = t \<rparr> \<rparr>"
  have late: "wp (if resultMismatch d (dsub_input v) result then State_Monad.return True
      else do { t \<leftarrow> now r; State_Monad.return (res_VerifiedAt result > t + minute) })
      (\<lambda>x t. reads s t \<and> (\<not> x \<longrightarrow> \<not> resultMismatch d (dsub_input v) result)) s" for result
    by (auto simp: wp_simps)
  have step: "destroy_step r m n d (?st result t)" if "\<not> resultMismatch d (dsub_input v) result" "ses_calls s \<le> n" for n result t
    using verifying_proof [OF verifying_wider [OF assms(1)] assms(2) that(1) refl] that(2) .
  note fail = verifying_fail [OF assms(1)]
  show ?thesis
    unfolding verifyResult_def
    apply (rule runs_case_sum, rule fail)
    apply (rule runs_reads [OF late])
    apply (rule runs_if, rule fail)
    apply (intro runs_now runs_seq runs_update_status runs_return step, simp_all)
    done
qed

lemma tidy_authorizeWorkerPod: "runs tidy (authorizeWorkerPod r d job) s"
  unfolding authorizeWorkerPod_def
  by (rule runs_seq [OF tidy_workerPods]) (auto intro!: runs_send split: sum.split list.split)

lemma runs_verifyArmed:
  assumes "verifying r d m (ses_calls s) v" "dsub_backup v = Some b"
  shows "runs (permitted r d m) (verifyArmed r d (dsub_input v) job) s"
  unfolding verifyArmed_def
  apply (rule runs_if, rule verifying_fail [OF assms(1)])
  apply (rule runs_if, rule runs_send, rule harmless_permitted, simp, simp)
  apply (rule runs_seq [OF tidy_permitted [OF tidy_authorizeWorkerPod]])
  apply (auto intro!: runs_case_sum verifying_fail [OF assms(1)] runs_verifyResult [OF verifying_wider [OF assms(1)] assms(2)])
  done

lemma tidy_destroyJobArmed: "runs tidy (destroyJobArmed r d job) s"
  unfolding destroyJobArmed_def getWorkerLease_def by (rule runs_ask) simp

lemma tidy_armDestroyJob: "runs tidy (armDestroyJob r d job) s"
  unfolding armDestroyJob_def getWorkerLease_def by (rule runs_ask) (auto intro!: runs_send split: sum.split)

lemma runs_verifyJob:
  assumes "verifying r d m (ses_calls s) v" "dsub_backup v = Some b"
  shows "runs (permitted r d m) (verifyJob r d (dsub_input v) job) s"
  unfolding verifyJob_def
  apply (rule runs_ask, rule runs_case_sum, simp)
  apply (rule runs_if, simp)
  apply (rule runs_seq [OF tidy_permitted [OF tidy_destroyJobArmed]])
  apply (auto split: sum.split bool.split intro!: runs_verifyArmed [OF verifying_wider [OF assms(1)] assms(2)] verifying_fail [OF assms(1)]
      runs_seq [OF tidy_permitted [OF tidy_armDestroyJob]])
  done

lemma tidy_workerLease: "runs tidy (workerLease r d) s"
  unfolding workerLease_def getWorkerLease_def by (rule runs_ask) (auto intro!: runs_send split: sum.split ApiError.split)

lemma tidy_ensureObject: "harmless create \<Longrightarrow> runs tidy (ensureObject r get metaOf desired changed create) s"
  unfolding ensureObject_def by (rule runs_ask) (auto intro!: runs_send split: sum.split ApiError.split)

lemma tidy_ensureJob: "runs tidy (ensureJob r d desired) s"
  unfolding ensureJob_def Let_def by (rule runs_ask) (auto intro!: runs_send split: sum.split ApiError.split)

lemma tidy_ensureAll: "(\<And>p t. p \<in> set ps \<Longrightarrow> runs tidy p t) \<Longrightarrow> (\<And>t. runs tidy final t) \<Longrightarrow> runs tidy (ensureAll ps final) s"
proof (induction ps arbitrary: s)
  case (Cons p ps)
  then show ?case by (auto intro!: runs_seq split: option.split)
qed simp

lemma tidy_ensureWorkerResources: "runs tidy (ensureWorkerResources r d res) s"
  unfolding ensureWorkerResources_def Let_def
  by (rule tidy_ensureAll) (auto intro: tidy_ensureObject tidy_ensureJob)

lemma BuildDestroyResources_mode: "BuildDestroyResources we enc d i img identity = Inr res \<Longrightarrow> modeOf d = DestroyModeVerifiedBackup"
  by (auto simp: BuildDestroyResources_def destroyIdentityError_def guard_simps Let_def split: option.splits)

lemma cold_verified_backup: "cold r d permit m n v \<Longrightarrow> modeOf d = DestroyModeVerifiedBackup \<Longrightarrow> \<exists>b. dsub_backup v = Some b"
  by (cases "dsub_backup v") (auto simp: cold_def)

lemma runs_verifyWorker:
  assumes "verifying r d m (ses_calls s) v"
  shows "runs (permitted r d m) (verifyWorker r d v) s"
  unfolding verifyWorker_def
  apply (rule runs_seq [OF tidy_permitted [OF tidy_workerLease]])
  apply (rule runs_case_option)
   apply (rule runs_case_sum, rule verifying_fail [OF assms(1)])
   subgoal for x t res
     using cold_verified_backup [of r d False m "ses_calls s" v] BuildDestroyResources_mode assms
     by (fastforce simp: verifying_def intro!: runs_seq [OF tidy_permitted [OF tidy_ensureWorkerResources]] runs_case_option runs_if
         intro: runs_verifyJob verifying_wider)
  apply simp
  done

lemma runs_verifyDone:
  assumes "phaseOf d = DestroyPhaseVerifying" "dst_Verification (gd_Status d) \<noteq> None" "m \<le> ses_calls s"
  shows "runs (permitted r d m) (verifyDone r d) s"
proof -
  have fail: "runs (permitted r d m) (fail r d reason message) t" for reason message t
    using assms(1) by (simp add: runs_fail destroyTerminal_def)
  have cleared: "runs (permitted r d m) (finish_status r d DestroyPhaseDeleting reason message) t'"
    if "seen (ses_calls s) (ses_calls t) (lease_held r d)" "cold r d False (ses_calls t) (ses_calls u) v"
      "ses_calls s \<le> ses_calls t" "ses_calls t \<le> ses_calls u" "ses_calls u \<le> ses_calls t'" for t t' u v reason message
    by (rule runs_finish_status, rule destroy_step.cleared [where s = v]) (use that assms in \<open>auto elim!: seen_wider cold_wider\<close>)
  show ?thesis
    unfolding verifyDone_def
    apply (rule runs_observes_none [OF observes_requireDataLease], simp only: option.case, rule fail, simp only: option.case)
    apply (rule runs_observes [OF observes_resolve], simp only: sum.case, rule fail, simp only: sum.case)
    apply (rule runs_after_cleanup, rule cleared, assumption+)
    done
qed

lemma runs_verify:
  assumes "phaseOf d = DestroyPhaseVerifying" "m \<le> ses_calls s"
  shows "runs (permitted r d m) (verify r d) s"
proof -
  have fail: "runs (permitted r d m) (fail r d reason message) t" for reason message t
    using assms(1) by (simp add: runs_fail destroyTerminal_def)
  have worker: "runs (permitted r d m) (verifyWorker r d v) u"
    if "dst_Verification (gd_Status d) = None" "seen (ses_calls s) (ses_calls t) (confirmed_at r d)"
      "seen (ses_calls t) (ses_calls t') (lease_held r d)" "cold r d False (ses_calls t') (ses_calls u) v"
      "ses_calls s \<le> ses_calls t" "ses_calls t \<le> ses_calls t'" "ses_calls t' \<le> ses_calls u" for t t' u v
    by (rule runs_verifyWorker) (use that assms in \<open>auto simp: verifying_def elim!: seen_wider cold_wider\<close>)
  show ?thesis
    unfolding verify_def
    apply (rule runs_if, rule runs_verifyDone [OF assms(1) _ assms(2)], assumption)
    apply (rule runs_reads [OF wp_confirmed])
    apply (rule runs_if, rule fail)
    apply (rule runs_observes_none [OF observes_requireDataLease], simp only: option.case, rule fail, simp only: option.case)
    apply (rule runs_observes [OF observes_resolve], simp only: sum.case, rule fail, simp only: sum.case)
    apply (rule worker, auto)
    done
qed

section \<open>Deleting the claims\<close>

text \<open>A claim that the loop has read and found to be the announced one.\<close>

definition doomed :: "GameDestroyReconciler \<Rightarrow> GameDestroy \<Rightarrow> nat \<Rightarrow> nat \<Rightarrow> PersistentVolumeClaim \<Rightarrow> bool" where
  "doomed r d m k claim \<longleftrightarrow> (\<exists>c\<in>set (claimsOf d). \<exists>e. entry_for d c e \<and> cd_ObservedDeletedAt e = None \<and> m \<le> k \<and>
     cl_Claim r k (namespaceOf d) (ref_Name (rclaim_ClaimRef c)) = Inr claim \<and> meta_UID (pvc_Meta claim) = ref_UID (rclaim_ClaimRef c) \<and>
     \<not> terminating (pvc_Meta claim))"

lemma doomed_deletable:
  assumes "doomed r d m k claim" "gate r d m n" "k < n" "seen k n (lease_held r d)" "cold r d True k n v"
  shows "deletable r d m n (meta_Namespace (pvc_Meta claim)) (meta_Name (pvc_Meta claim)) (meta_UID (pvc_Meta claim))"
proof -
  obtain c e where ce: "c \<in> set (claimsOf d)" "entry_for d c e" "cd_ObservedDeletedAt e = None" "m \<le> k"
    "cl_Claim r k (namespaceOf d) (ref_Name (rclaim_ClaimRef c)) = Inr claim" "meta_UID (pvc_Meta claim) = ref_UID (rclaim_ClaimRef c)"
    "\<not> terminating (pvc_Meta claim)"
    using assms(1) unfolding doomed_def by blast
  then show ?thesis
    unfolding deletable_def using assms(2-5) by blast
qed

lemma gate_hold: "gate r d m n \<Longrightarrow> runs (permitted r d m) (hold r d reason message) t"
  by (rule runs_hold) (simp add: gate_def destroyTerminal_def)

lemma runs_deleteClaim:
  assumes "gate r d m (ses_calls s)" "doomed r d m k claim" "k < ses_calls s"
  shows "runs (permitted r d m) (deleteClaim r d claim) s"
proof -
  have del: "permitted r d m (ses_calls u) (Delete KindClaim (meta_Namespace (pvc_Meta claim)) (meta_Name (pvc_Meta claim)) (meta_UID (pvc_Meta claim)) None)"
    if "seen (ses_calls s) (ses_calls t) (lease_held r d)" "cold r d True (ses_calls t) (ses_calls u) v" "ses_calls s \<le> ses_calls t" "ses_calls t \<le> ses_calls u" for t u v
  proof -
    have le: "k \<le> ses_calls s" "k \<le> ses_calls t" "k < ses_calls u" "ses_calls s \<le> ses_calls u" using assms(3) that(3,4) by linarith+
    have "deletable r d m (ses_calls u) (meta_Namespace (pvc_Meta claim)) (meta_Name (pvc_Meta claim)) (meta_UID (pvc_Meta claim))"
      by (rule doomed_deletable [OF assms(2) gate_wider [OF assms(1) le_refl le(4)] le(3) seen_wider [OF that(1) le(1) that(4)] cold_wider [OF that(2) le(2) le_refl]])
    then show ?thesis by (simp add: permitted_def)
  qed
  note hold = gate_hold [OF assms(1)]
  show ?thesis
    unfolding deleteClaim_def delete_object_def
    apply (rule runs_observes_none [OF observes_requireDataLease], simp only: option.case, rule hold, simp only: option.case)
    apply (rule runs_observes [OF observes_resolve], simp only: sum.case, rule hold, simp only: sum.case)
    apply (rule runs_send, rule del, assumption+, simp)
    done
qed

text \<open>The loop: what it has established when it ends without a result.\<close>

definition gone :: "GameDestroyReconciler \<Rightarrow> GameDestroy \<Rightarrow> nat \<Rightarrow> nat \<Rightarrow> RetainedDataClaimReference \<Rightarrow> bool" where
  "gone r d m n c \<longleftrightarrow> seen m n (absent_at r d c) \<and> (\<exists>e. entry_for d c e \<and> cd_ObservedDeletedAt e \<noteq> None)"

lemma gone_wider: "gone r d m n c \<Longrightarrow> m' \<le> m \<Longrightarrow> n \<le> n' \<Longrightarrow> gone r d m' n' c"
  unfolding gone_def by (auto elim: seen_wider)

text \<open>A run with only permitted requests that ends with \<open>None\<close> or a result.\<close>

definition loops :: "(nat \<Rightarrow> Request \<Rightarrow> bool) \<Rightarrow> (nat \<Rightarrow> nat \<Rightarrow> bool) \<Rightarrow> 'a option program \<Rightarrow> session \<Rightarrow> bool" where
  "loops P A m s \<longleftrightarrow> wp m (\<lambda>x t. extends P s t \<and> (x = None \<longrightarrow> A (ses_calls s) (ses_calls t))) s"

lemma loops_result: "runs P m s \<Longrightarrow> loops P A (do { x \<leftarrow> m; State_Monad.return (Some (f x)) }) s"
  unfolding runs_def loops_def wp_simps by (erule wp_mono) simp

lemma loops_return: "loops P A (State_Monad.return (Some x)) s"
  by (simp add: loops_def wp_simps)

lemma loops_now: "(\<And>t. t = s\<lparr> ses_calls := Suc (ses_calls s) \<rparr> \<Longrightarrow> runs P (f (cl_Now r (ses_calls s))) t) \<Longrightarrow>
    loops P A (do { t \<leftarrow> now r; x \<leftarrow> f t; State_Monad.return (Some (g x)) }) s"
  unfolding runs_def loops_def wp_simps by (auto elim!: wp_mono intro: extends_trans [OF extends_ask])

lemma loops_ask:
  assumes "loops P B (f (g (ses_calls s))) (s\<lparr> ses_calls := Suc (ses_calls s) \<rparr>)" "\<And>n. Suc (ses_calls s) \<le> n \<Longrightarrow> B (Suc (ses_calls s)) n \<Longrightarrow> A (ses_calls s) n"
  shows "loops P A (State_Monad.bind (ask g) f) s"
  unfolding loops_def wp_simps
proof (rule wp_mono [OF assms(1) [unfolded loops_def]], intro conjI impI; elim conjE)
  fix x t
  assume t: "extends P (s\<lparr> ses_calls := Suc (ses_calls s) \<rparr>) t"
  then show "extends P s t" by (rule extends_trans [OF extends_ask])
  assume "x = None" "x = None \<longrightarrow> B (ses_calls (s\<lparr> ses_calls := Suc (ses_calls s) \<rparr>)) (ses_calls t)"
  then show "A (ses_calls s) (ses_calls t)" using assms(2) [of "ses_calls t"] extends_calls [OF t] by simp
qed

lemma entry_forI: "journalEntry d (rclaim_Path c) = Some e \<Longrightarrow> sameLocal (cd_ClaimRef e) (rclaim_ClaimRef c) \<Longrightarrow> entry_for d c e"
  by (simp add: entry_for_def)

lemma loops_deleteLoop:
  assumes "gate r d m (ses_calls s)" "set cs \<subseteq> set (claimsOf d)" "m \<le> ses_calls s"
  shows "loops (permitted r d m) (\<lambda>a b. \<forall>c\<in>set cs. gone r d a b c) (deleteLoop r d cs) s"
  using assms
proof (induction cs arbitrary: s)
  case Nil
  then show ?case by (simp add: loops_def wp_simps)
next
  case (Cons c cs)
  have c: "c \<in> set (claimsOf d)" and phase: "phaseOf d = DestroyPhaseDeleting" using Cons.prems by (auto simp: gate_def)
  note hold = gate_hold [OF Cons.prems(1)]
  have later: "gate r d m n" if "ses_calls s \<le> n" for n using gate_wider [OF Cons.prems(1) _ that] by simp
  show ?case
  proof (cases "journalEntry d (rclaim_Path c)")
    case None
    show ?thesis
      by (simp only: deleteLoop.simps None option.case, rule loops_now, rule runs_update_status, rule destroy_step.announced [OF later c None])
         (simp_all add: phase)
  next
    case (Some e)
    show ?thesis
    proof (cases "sameLocal (cd_ClaimRef e) (rclaim_ClaimRef c)")
      case False
      then show ?thesis by (simp add: Some loops_result hold)
    next
      case True
      note entry = entry_forI [OF Some True]
      let ?t = "s\<lparr> ses_calls := Suc (ses_calls s) \<rparr>" and ?got = "cl_Claim r (ses_calls s) (namespaceOf d) (ref_Name (rclaim_ClaimRef c))"
      let ?A = "\<lambda>a b. ?got = Inl NotFound \<and> cd_ObservedDeletedAt e \<noteq> None \<and> (\<forall>c\<in>set cs. gone r d a b c)"
      have absent: "loops (permitted r d m) ?A
          (if cd_ObservedDeletedAt e = None then do {
             t \<leftarrow> now r;
             e \<leftarrow> update_status r d (\<lambda>st. st\<lparr> dst_DeletionJournal := markDeleted (rclaim_Path c) t (dst_DeletionJournal st) \<rparr>);
             State_Monad.return (Some (requeue e)) }
           else deleteLoop r d cs) ?t" if "?got = Inl NotFound"
      proof (cases "cd_ObservedDeletedAt e = None")
        case True
        have "seen m n (absent_at r d c)" if "Suc (ses_calls s) \<le> n" for n
          using that \<open>?got = Inl NotFound\<close> Cons.prems(3) by (auto simp: absent_at_def intro!: seenI [of _ "ses_calls s"])
        note seen = this
        show ?thesis
          by (subst if_P [OF True], intro loops_now runs_update_status destroy_step.observed [OF later c entry True] seen) (simp_all add: phase)
      next
        case False
        have "loops (permitted r d m) (\<lambda>a b. \<forall>c\<in>set cs. gone r d a b c) (deleteLoop r d cs) ?t"
          using Cons.prems by (intro Cons.IH) (auto elim: gate_wider)
        then show ?thesis using that False by (auto simp: loops_def elim!: wp_mono)
      qed
      have present: "runs (permitted r d m) (deleteClaim r d claim) ?t"
        if "?got = Inr claim" "meta_UID (pvc_Meta claim) = ref_UID (rclaim_ClaimRef c)" "cd_ObservedDeletedAt e = None" "\<not> terminating (pvc_Meta claim)" for claim
      proof (rule runs_deleteClaim)
        show "doomed r d m (ses_calls s) claim" using that c entry Cons.prems(3) unfolding doomed_def by blast
      qed (simp_all add: later)
      show ?thesis
      proof (simp only: deleteLoop.simps Some option.case True not_True_eq_False if_False, rule loops_ask [where B = ?A], goal_cases)
        case 1
        then show ?case
          using absent present by (auto intro!: loops_return loops_result [where f = "\<lambda>x. x"] hold split: sum.split ApiError.split)
      next
        case (2 n)
        then have "gone r d (ses_calls s) n c"
          using entry by (auto simp: gone_def absent_at_def intro!: seenI [of _ "ses_calls s"])
        moreover have "gone r d (ses_calls s) n c'" if "c' \<in> set cs" for c'
          by (rule gone_wider [where m = "Suc (ses_calls s)" and n = n]) (use 2 that in auto)
        ultimately show ?case by simp
      qed
    qed
  qed
qed

lemma runs_loops:
  assumes "loops P A m s" "\<And>x t. ses_calls s \<le> ses_calls t \<Longrightarrow> runs P (f (Some x)) t"
    and "\<And>t. ses_calls s \<le> ses_calls t \<Longrightarrow> A (ses_calls s) (ses_calls t) \<Longrightarrow> runs P (f None) t"
  shows "runs P (State_Monad.bind m f) s"
  by (rule runs_bind [OF assms(1) [unfolded loops_def]]) (metis assms(2,3) option.exhaust)

text \<open>What holds when the deletion phase begins its checks.\<close>

definition entered :: "GameDestroyReconciler \<Rightarrow> GameDestroy \<Rightarrow> nat \<Rightarrow> nat \<Rightarrow> bool" where
  "entered r d m n \<longleftrightarrow> phaseOf d = DestroyPhaseDeleting \<and> (journalOf d = [] \<longrightarrow> seen m n (confirmed_at r d)) \<and>
     (modeOf d = DestroyModeVerifiedBackup \<longrightarrow> dst_Verification (gd_Status d) \<noteq> None)"

lemma entered_gate:
  assumes "entered r d m a" "seen a b (lease_held r d)" "cold r d True b n v" "m \<le> a" "a \<le> b" "b \<le> n"
  shows "gate r d m n"
proof -
  have le: "a \<le> n" "m \<le> b" using assms(4-6) by linarith+
  show ?thesis
    unfolding gate_def
  proof (intro conjI exI)
    show "seen m n (lease_held r d)" using seen_wider [OF assms(2,4,6)] .
    show "cold r d True m n v" using cold_wider [OF assms(3) le(2) le_refl] .
  qed (use assms(1) seen_wider [OF _ le_refl le(1)] in \<open>auto simp: entered_def\<close>)
qed

lemma runs_deleteTargets:
  assumes "entered r d m (ses_calls s)" "m \<le> ses_calls s"
  shows "runs (permitted r d m) (deleteTargets r d) s"
proof -
  have hold: "runs (permitted r d m) (hold r d reason message) t" for reason message t
    using assms(1) by (intro runs_hold) (simp add: entered_def destroyTerminal_def)
  have gate: "gate r d m (ses_calls u)"
    if "seen (ses_calls s) (ses_calls t) (lease_held r d)" "cold r d True (ses_calls t) (ses_calls u) v" "ses_calls s \<le> ses_calls t" "ses_calls t \<le> ses_calls u" for t u v
    using entered_gate [OF assms(1) that(1,2) assms(2) that(3,4)] .
  have succeeded: "runs (permitted r d m) (finish_status r d DestroyPhaseSucceeded reason message) u"
    if "gate r d m (ses_calls t)" "\<forall>c\<in>set (claimsOf d). gone r d (ses_calls t) (ses_calls t') c" "m \<le> ses_calls t"
      "ses_calls t \<le> ses_calls t'" "ses_calls t' \<le> ses_calls u" for t t' u reason message
  proof (rule runs_finish_status, rule destroy_step.succeeded)
    fix n :: nat and st'
    assume n: "ses_calls u \<le> n"
    show "gate r d m n" using gate_wider [OF that(1) le_refl] that(4,5) n by simp
    have "gone r d m n c" if "c \<in> set (claimsOf d)" for c
      using gone_wider [of r d "ses_calls t" "ses_calls t'" c m n] \<open>\<forall>c\<in>set (claimsOf d). gone r d (ses_calls t) (ses_calls t') c\<close>
        \<open>m \<le> ses_calls t\<close> \<open>ses_calls t' \<le> ses_calls u\<close> n that by simp
    then show "\<forall>c\<in>set (claimsOf d). seen m n (absent_at r d c) \<and> (\<exists>e. entry_for d c e \<and> cd_ObservedDeletedAt e \<noteq> None)"
      by (simp add: gone_def)
  qed
  show ?thesis
    unfolding deleteTargets_def
  proof (rule runs_observes_none [OF observes_requireDataLease], goal_cases)
    case (2 t)
    note t = 2
    show ?case
      unfolding option.case
    proof (rule runs_observes [OF observes_resolve], goal_cases)
      case (2 v u)
      have g: "gate r d m (ses_calls u)" using gate [OF t(2) 2(2) t(1) 2(1)] .
      have le: "m \<le> ses_calls u" using assms(2) t(1) 2(1) by linarith
      show ?case
        unfolding sum.case
        apply (rule runs_loops [OF loops_deleteLoop [OF g subset_refl le]], simp)
        apply (simp only: option.case)
        apply (rule runs_observes [OF observes_resolve], simp only: sum.case, rule hold, simp only: sum.case)
        apply (rule succeeded [OF g _ le], assumption+)
        done
    qed (simp add: hold)
  qed (simp add: hold)
qed

lemma runs_deleteClaims:
  assumes "phaseOf d = DestroyPhaseDeleting" "m \<le> ses_calls s"
  shows "runs (permitted r d m) (deleteClaims r d) s"
proof -
  have fail: "runs (permitted r d m) (fail r d reason message) t" for reason message t
    using assms(1) by (simp add: runs_fail destroyTerminal_def)
  have check: "wp (if journalOf d = [] then confirmed r d else State_Monad.return True)
      (\<lambda>x t. reads s t \<and> (x \<longrightarrow> (journalOf d = [] \<longrightarrow> seen (ses_calls s) (ses_calls t) (confirmed_at r d)))) s"
    by (auto simp: wp_simps intro: wp_mono [OF wp_confirmed])
  have targets: "runs (permitted r d m) (deleteTargets r d) u"
    if "journalOf d = [] \<longrightarrow> seen (ses_calls s) (ses_calls t) (confirmed_at r d)" "ses_calls s \<le> ses_calls t" "ses_calls t \<le> ses_calls u"
      "modeOf d = DestroyModeVerifiedBackup \<longrightarrow> dst_Verification (gd_Status d) \<noteq> None" for t u
  proof (rule runs_deleteTargets)
    show "m \<le> ses_calls u" using assms(2) that by linarith
    show "entered r d m (ses_calls u)"
      unfolding entered_def using assms that(1,4) seen_wider [OF _ assms(2) that(3)] by blast
  qed
  show ?thesis
    unfolding deleteClaims_def
    apply (rule runs_reads [OF check])
    apply (rule runs_if, rule fail)
    apply (rule runs_if, rule fail)
    apply (rule runs_if, rule runs_after_cleanup)
     apply (rule targets, simp, assumption, assumption, simp)
    apply (rule targets, simp, assumption, simp, simp)
    done
qed

section \<open>Reconcile\<close>

lemma runs_addFinalizer: "runs (permitted r d m) (addFinalizer r d) s"
  unfolding addFinalizer_def by (rule runs_send) (auto simp: permitted_def intro!: exI)

lemma runs_removeFinalizer:
  "terminating (gd_Meta d) \<Longrightarrow> journalOf d = [] \<or> destroyTerminal (phaseOf d) \<Longrightarrow> runs (permitted r d m) (removeFinalizer r d) s"
  unfolding removeFinalizer_def by (rule runs_send) (auto simp: permitted_def intro!: exI)

lemma runs_reconcilePhase:
  assumes "m \<le> ses_calls s"
  shows "runs (permitted r d m) (reconcilePhase r d) s"
proof -
  have "runs (permitted r d m) (finish_status r d DestroyPhasePending reason message) s" if "phaseOf d = DestroyPhaseEmpty" for reason message
    by (rule runs_finish_status, rule destroy_step.accepted [OF that])
  then show ?thesis
    unfolding reconcilePhase_def using assms
    by (auto intro: runs_preview runs_confirm runs_verify runs_deleteClaims split: GameDestroyPhase.split)
qed

theorem runs_reconcileDestroy:
  assumes "m \<le> ses_calls s"
  shows "runs (permitted r d m) (reconcileDestroy r d) s"
proof -
  have cancelled: "runs (permitted r d m) (finish_status r d DestroyPhaseCancelled reason message) t"
    if "\<not> destroyTerminal (phaseOf d)" "ds_CancelRequested (gd_Spec d)" "journalOf d = []" for reason message t
    by (rule runs_finish_status, rule destroy_step.cancelled [OF that(1,3,2)])
  show ?thesis
    unfolding reconcileDestroy_def finalize_def
    apply (intro runs_if runs_addFinalizer runs_after_release runs_removeFinalizer runs_reconcilePhase [OF assms] runs_return)
    apply (auto intro: cancelled)
    done
qed

text \<open>The same for a whole reconciliation, on the object that its first call returned.\<close>

theorem runs_Reconcile:
  "runs (\<lambda>n q. \<exists>d. cl_GameDestroy r (ses_calls s) namespace name = Inr d \<and> permitted r d (Suc (ses_calls s)) n q) (Reconcile r namespace name) s"
  unfolding Reconcile_def
  by (rule runs_ask) (auto intro!: runs_mono [OF runs_reconcileDestroy [where m = "Suc (ses_calls s)"]] split: sum.split ApiError.split)

end
