(* ===== verification/GameDestroyLife.thy ===== *)
theory GameDestroyLife
  imports GameDestroyRefine Admission
begin

text \<open>
  The life of a GameDestroy object: created without status, edited by users within the rules of the API
  server, and written by the controller. Every state of it satisfies \<open>destroy_ok\<close>, and every status that the
  controller writes satisfies the rules of \<open>Admission\<close>.
\<close>

section \<open>The invariant\<close>

text \<open>The recorded verification is the proof of the requested backup.\<close>

definition proof_matches :: "GameDestroy \<Rightarrow> bool" where
  "proof_matches d \<longleftrightarrow> (case dst_Verification (gd_Status d) of
     None \<Rightarrow> True
   | Some v \<Rightarrow> dv_BackupRef v = the (ds_BackupRef (gd_Spec d)) \<and> dv_RepositorySecretRef v = the (ds_RepositorySecretRef (gd_Spec d)) \<and>
       dv_PathCount v = int32_of_len (claimsOf d))"

definition destroy_shape :: "GameDestroy \<Rightarrow> bool" where
  "destroy_shape d \<longleftrightarrow>
     (case phaseOf d of
        DestroyPhaseEmpty \<Rightarrow> dst_Preview (gd_Status d) = None \<and> dst_Verification (gd_Status d) = None \<and> journalOf d = []
      | DestroyPhasePending \<Rightarrow> dst_Preview (gd_Status d) = None \<and> dst_Verification (gd_Status d) = None \<and> journalOf d = []
      | DestroyPhasePreview \<Rightarrow> dst_Preview (gd_Status d) \<noteq> None \<and> dst_Verification (gd_Status d) = None \<and> journalOf d = []
      | DestroyPhaseVerifying \<Rightarrow> echoed d \<and> journalOf d = []
      | DestroyPhaseDeleting \<Rightarrow> echoed d
      | DestroyPhaseSucceeded \<Rightarrow> echoed d
      | DestroyPhaseFailed \<Rightarrow> True
      | DestroyPhaseCancelled \<Rightarrow> True
      | DestroyPhaseOther _ \<Rightarrow> False)"

definition destroy_ok :: "GameDestroy \<Rightarrow> bool" where
  "destroy_ok d \<longleftrightarrow> destroy_valid d \<and> destroy_shape d \<and> proof_matches d"

text \<open>The controller wrote the status of \<open>d'\<close> in a reconciliation of \<open>d\<close>.\<close>

definition wrote :: "GameDestroyReconciler \<Rightarrow> nat \<Rightarrow> GameDestroy \<Rightarrow> GameDestroy \<Rightarrow> bool" where
  "wrote r n d d' \<longleftrightarrow> (\<exists>k. (k, StatusDestroy d') \<in> set (ses_log (snd (run_state (reconcileDestroy r d) \<lparr> ses_calls = n, ses_log = [] \<rparr>))))"

inductive lifecycle :: "GameDestroy \<Rightarrow> bool" where
  created: "destroy_valid d \<Longrightarrow> phaseOf d = DestroyPhaseEmpty \<Longrightarrow> dst_Preview (gd_Status d) = None \<Longrightarrow> dst_Verification (gd_Status d) = None \<Longrightarrow>
    journalOf d = [] \<Longrightarrow> lifecycle d"
| edited: "lifecycle d \<Longrightarrow> destroy_admits d d' \<Longrightarrow> gd_Status d' = gd_Status d \<Longrightarrow> lifecycle d'"
| written: "lifecycle d \<Longrightarrow> wrote r n d d' \<Longrightarrow> lifecycle d'"

lemma runs_permitted_log:
  assumes "runs P p s" "ses_log s = []" "(k, q) \<in> set (ses_log (snd (run_state p s)))"
  shows "ses_calls s \<le> k \<and> P k q"
  using assms unfolding runs_def wp_def extends_def by (auto split: prod.splits)

lemma wrote_step:
  assumes "wrote r n d d'"
  shows "\<exists>k st'. d' = d\<lparr> gd_Status := st' \<rparr> \<and> destroy_step r n k d st'"
  using assms runs_permitted_log [OF runs_reconcileDestroy [of n "\<lparr> ses_calls = n, ses_log = [] \<rparr>" r d]]
  by (fastforce simp: wrote_def permitted_def)

section \<open>The journal\<close>

lemma journalEntry_Some: "journalEntry d p = Some e \<Longrightarrow> e \<in> set (journalOf d) \<and> cd_Path e = p"
  by (auto simp: journalEntry_def find_Some_iff)

lemma journalEntry_None: "journalEntry d p = None \<longleftrightarrow> p \<notin> cd_Path ` set (journalOf d)"
  by (auto simp: journalEntry_def find_None_iff)

lemma same_path_entry: "distinct (map cd_Path j) \<Longrightarrow> e \<in> set j \<Longrightarrow> e' \<in> set j \<Longrightarrow> cd_Path e = cd_Path e' \<Longrightarrow> e = e'"
  by (auto simp: distinct_map dest: inj_onD)

lemma markDeleted_paths [simp]: "map cd_Path (markDeleted p t j) = map cd_Path j"
  by (simp add: markDeleted_def)

lemma journal_target_paths: "journal_target_rule d \<Longrightarrow> set (map cd_Path (journalOf d)) \<subseteq> set (map rclaim_Path (claimsOf d))"
  by (auto simp: journal_target_rule_def list_all_iff list_ex_iff) (metis image_eqI)

text \<open>The journal names target claims only, each at most once: it is no longer than the list of claims.\<close>

lemma journal_length:
  assumes "distinct (map cd_Path j)" "set (map cd_Path j) \<subseteq> set (map rclaim_Path cs)"
  shows "length j \<le> length cs"
proof -
  have "length j = card (set (map cd_Path j))" using distinct_card [OF assms(1)] by simp
  also have "\<dots> \<le> card (set (map rclaim_Path cs))" using assms(2) by (intro card_mono) auto
  also have "\<dots> \<le> length cs" using card_length [of "map rclaim_Path cs"] by simp
  finally show ?thesis .
qed

lemma journal_complete:
  assumes "destroy_valid d" "\<forall>c\<in>set (claimsOf d). \<exists>e. entry_for d c e \<and> cd_ObservedDeletedAt e \<noteq> None"
  shows "length (journalOf d) = length (claimsOf d)" "\<forall>e\<in>set (journalOf d). cd_ObservedDeletedAt e \<noteq> None" "journalOf d \<noteq> []"
proof -
  have keyed: "distinct (map cd_Path (journalOf d))" "distinct (map rclaim_Path (claimsOf d))" "claimsOf d \<noteq> []"
    using assms(1) by (auto simp: destroy_valid_def journal_keyed_def claims_keyed_def)
  have sub: "set (map cd_Path (journalOf d)) \<subseteq> set (map rclaim_Path (claimsOf d))"
    using assms(1) by (intro journal_target_paths) (simp add: destroy_valid_def destroy_object_rules_def)
  have sup: "set (map rclaim_Path (claimsOf d)) \<subseteq> set (map cd_Path (journalOf d))"
    using assms(2) journalEntry_Some by (auto simp: entry_for_def) (metis image_eqI)
  show len: "length (journalOf d) = length (claimsOf d)"
    using distinct_card [OF keyed(1)] distinct_card [OF keyed(2)] subset_antisym [OF sub sup] by simp
  then show "journalOf d \<noteq> []" using keyed(3) by auto
  show "\<forall>e\<in>set (journalOf d). cd_ObservedDeletedAt e \<noteq> None"
  proof
    fix e
    assume e: "e \<in> set (journalOf d)"
    then have "cd_Path e \<in> set (map rclaim_Path (claimsOf d))" using sub by (simp add: subset_iff)
    then obtain c where c: "c \<in> set (claimsOf d)" "rclaim_Path c = cd_Path e" by auto
    then obtain e' where e': "entry_for d c e'" "cd_ObservedDeletedAt e' \<noteq> None" using assms(2) by blast
    then have "e' \<in> set (journalOf d) \<and> cd_Path e' = rclaim_Path c" unfolding entry_for_def by (intro journalEntry_Some) simp
    then have "e = e'" using same_path_entry [OF keyed(1) e] c(2) by metis
    then show "cd_ObservedDeletedAt e \<noteq> None" using e'(2) by blast
  qed
qed

section \<open>Steps preserve the invariant\<close>

lemma kept_update:
  "kept st st' \<Longrightarrow> \<not> terminal_destroy (dst_Phase st) \<Longrightarrow> distinct (map cd_Path (dst_DeletionJournal st)) \<Longrightarrow> destroy_status_update st st'"
  by (auto simp: kept_def destroy_status_update_def journal_entry_update_def list_all_iff list_ex_iff dest: same_path_entry)

lemma terminal_destroy_iff: "terminal_destroy p \<longleftrightarrow> destroyTerminal p"
  by (simp add: terminal_destroy_def destroyTerminal_def)

text \<open>A write of the status alone is accepted when its status rules and object rules hold.\<close>

lemma status_write_admitted:
  assumes "destroy_ok d" "destroy_ok (d\<lparr> gd_Status := st' \<rparr>)" "destroy_status_update (gd_Status d) st'"
  shows "destroy_admits d (d\<lparr> gd_Status := st' \<rparr>)"
  using assms by (simp add: destroy_admits_def destroy_ok_def destroy_spec_update_def destroy_object_update_def)

text \<open>For a step that keeps the evidence, the rules of the new phase remain to be shown.\<close>

definition phase_rules :: "GameDestroy \<Rightarrow> GameDestroyPhase \<Rightarrow> bool" where
  "phase_rules d p \<longleftrightarrow>
     (case p of
        DestroyPhaseEmpty \<Rightarrow> dst_Preview (gd_Status d) = None \<and> dst_Verification (gd_Status d) = None \<and> journalOf d = []
      | DestroyPhasePending \<Rightarrow> dst_Preview (gd_Status d) = None \<and> dst_Verification (gd_Status d) = None \<and> journalOf d = []
      | DestroyPhasePreview \<Rightarrow> dst_Preview (gd_Status d) \<noteq> None \<and> dst_Verification (gd_Status d) = None \<and> journalOf d = []
      | DestroyPhaseVerifying \<Rightarrow> echoed d \<and> journalOf d = [] \<and> modeOf d = DestroyModeVerifiedBackup
      | DestroyPhaseDeleting \<Rightarrow> echoed d \<and> (modeOf d = DestroyModeVerifiedBackup \<longrightarrow> dst_Verification (gd_Status d) \<noteq> None)
      | DestroyPhaseSucceeded \<Rightarrow> echoed d \<and> (modeOf d = DestroyModeVerifiedBackup \<longrightarrow> dst_Verification (gd_Status d) \<noteq> None) \<and>
          length (journalOf d) = length (claimsOf d) \<and> (\<forall>e\<in>set (journalOf d). cd_ObservedDeletedAt e \<noteq> None)
      | DestroyPhaseFailed \<Rightarrow> journalOf d = []
      | DestroyPhaseCancelled \<Rightarrow> journalOf d = []
      | DestroyPhaseOther _ \<Rightarrow> False)"

lemma verified_rule_iff:
  assumes "destroy_spec_rule (gd_Spec d)" "claims_keyed (targetOf d)" "proof_matches d" "dst_Verification (gd_Status d) \<noteq> None"
  shows "deletion_verified_rule d"
  using assms sint_int32_of_len [of "claimsOf d"]
  by (auto simp: deletion_verified_rule_def destroy_spec_rule_def claims_keyed_def proof_matches_def same_ref_def same_secret_ref_def
      split: option.splits if_splits)

lemma destroy_ok_phase: "destroy_ok d \<Longrightarrow> phase_rules d (phaseOf d)"
  by (cases "phaseOf d")
     (auto simp: destroy_ok_def destroy_valid_def destroy_shape_def phase_rules_def destroy_object_rules_def destroy_status_rules_def
       deletion_verified_rule_def deleting_phase_def list_all_iff split: option.splits)

lemma destroy_ok_journal: "destroy_ok d \<Longrightarrow> distinct (map cd_Path (journalOf d))"
  by (simp add: destroy_ok_def destroy_valid_def journal_keyed_def)

text \<open>What only depends on the preview and the spec.\<close>

lemma same_preview:
  assumes "dst_Preview st' = dst_Preview (gd_Status d)"
  shows "confirmation_rule (d\<lparr> gd_Status := st' \<rparr>) \<longleftrightarrow> confirmation_rule d" "echoed (d\<lparr> gd_Status := st' \<rparr>) \<longleftrightarrow> echoed d"
  using assms by (simp_all add: confirmation_rule_def echoed_def split: option.splits)

text \<open>The parts of the invariant that a change of phase does not touch.\<close>

lemma kept_ok:
  assumes ok: "destroy_ok d" and kept: "kept (gd_Status d) st'" and rules: "phase_rules d (dst_Phase st')"
  shows "destroy_ok (d\<lparr> gd_Status := st' \<rparr>)"
proof -
  let ?d = "d\<lparr> gd_Status := st' \<rparr>"
  have same: "dst_Preview st' = dst_Preview (gd_Status d)" "dst_Verification st' = dst_Verification (gd_Status d)" "dst_DeletionJournal st' = journalOf d"
    using kept by (auto simp: kept_def)
  have valid: "destroy_target_rule (targetOf d)" "claims_keyed (targetOf d)" "destroy_spec_rule (gd_Spec d)" "journal_keyed (gd_Status d)"
    "confirmation_rule d" "journal_target_rule d" "proof_matches d"
    using ok by (auto simp: destroy_ok_def destroy_valid_def destroy_object_rules_def)
  have moved: "journal_keyed st'" "confirmation_rule ?d" "journal_target_rule ?d" "proof_matches ?d" "echoed ?d \<longleftrightarrow> echoed d"
    using valid same
    by (simp_all add: journal_keyed_def confirmation_rule_def journal_target_rule_def proof_matches_def echoed_def split: option.splits)
  have shape: "destroy_shape ?d" and status: "destroy_status_rules st'"
    using rules valid(2) moved(5) same
    by (auto simp: phase_rules_def destroy_shape_def destroy_status_rules_def claims_keyed_def list_all_iff split: GameDestroyPhase.splits)
  have confirmed: "deletion_confirmed_rule ?d"
    using rules same
    by (auto simp: phase_rules_def deletion_confirmed_rule_def deleting_phase_def echoed_def split: GameDestroyPhase.splits option.splits)
  have verified: "deletion_verified_rule ?d"
  proof (cases "dst_Verification st' = None")
    case True
    then show ?thesis
      using rules same by (auto simp: phase_rules_def deletion_verified_rule_def deleting_phase_def split: GameDestroyPhase.splits)
  next
    case False
    then show ?thesis using verified_rule_iff [of ?d] valid(2,3) moved(4) by simp
  qed
  have "destroy_object_rules ?d"
    using rules moved confirmed verified valid(2) same
    by (auto simp: phase_rules_def destroy_object_rules_def claims_keyed_def split: GameDestroyPhase.splits)
  then show ?thesis
    using valid moved shape status by (simp add: destroy_ok_def destroy_valid_def)
qed

text \<open>The steps that write evidence.\<close>

lemma previewed_ok:
  assumes ok: "destroy_ok d" and "phaseOf d = DestroyPhasePending" "dst_Phase st' = DestroyPhasePreview" "dst_Preview st' = Some p"
    "dst_Verification st' = dst_Verification (gd_Status d)" "dst_DeletionJournal st' = journalOf d"
  shows "destroy_ok (d\<lparr> gd_Status := st' \<rparr>)" "destroy_status_update (gd_Status d) st'"
proof -
  have none: "dst_Preview (gd_Status d) = None" "dst_Verification (gd_Status d) = None" "journalOf d = []"
    using destroy_ok_phase [OF ok] assms(2) by (auto simp: phase_rules_def)
  show "destroy_ok (d\<lparr> gd_Status := st' \<rparr>)"
    using ok assms none
    by (simp add: destroy_ok_def destroy_valid_def destroy_object_rules_def destroy_status_rules_def journal_keyed_def confirmation_rule_def
        deletion_confirmed_rule_def deletion_verified_rule_def deleting_phase_def journal_target_rule_def destroy_shape_def proof_matches_def)
  show "destroy_status_update (gd_Status d) st'"
    using assms none by (simp add: destroy_status_update_def terminal_destroy_def journal_entry_update_def)
qed

lemma verified_ok:
  assumes ok: "destroy_ok d" and "phaseOf d = DestroyPhaseVerifying" "dst_Verification (gd_Status d) = None" "proof_for d b v"
    "dst_Phase st' = DestroyPhaseVerifying" "dst_Preview st' = dst_Preview (gd_Status d)" "dst_Verification st' = Some v"
    "dst_DeletionJournal st' = journalOf d"
  shows "destroy_ok (d\<lparr> gd_Status := st' \<rparr>)" "destroy_status_update (gd_Status d) st'"
proof -
  have rules: "echoed d" "journalOf d = []" "modeOf d = DestroyModeVerifiedBackup"
    using destroy_ok_phase [OF ok] assms(2) by (auto simp: phase_rules_def)
  have valid: "destroy_target_rule (targetOf d)" "claims_keyed (targetOf d)" "destroy_spec_rule (gd_Spec d)" "confirmation_rule d"
    using ok by (auto simp: destroy_ok_def destroy_valid_def destroy_object_rules_def)
  have "proof_matches (d\<lparr> gd_Status := st' \<rparr>)" using assms(4,7) by (simp add: proof_matches_def proof_for_def)
  then show "destroy_ok (d\<lparr> gd_Status := st' \<rparr>)"
    using valid same_preview [OF assms(6)] assms(5,8) rules
    by (simp add: destroy_ok_def destroy_valid_def destroy_object_rules_def destroy_status_rules_def journal_keyed_def
        deletion_confirmed_rule_def deletion_verified_rule_def deleting_phase_def journal_target_rule_def destroy_shape_def)
  show "destroy_status_update (gd_Status d) st'"
    using assms rules by (simp add: destroy_status_update_def terminal_destroy_def journal_entry_update_def)
qed

text \<open>A change of the journal alone, in the deletion phase.\<close>

lemma journal_ok:
  assumes ok: "destroy_ok d" and "phaseOf d = DestroyPhaseDeleting" "dst_Phase st' = DestroyPhaseDeleting"
    "dst_Preview st' = dst_Preview (gd_Status d)" "dst_Verification st' = dst_Verification (gd_Status d)"
    and keyed: "distinct (map cd_Path (dst_DeletionJournal st'))" and target: "journal_target_rule (d\<lparr> gd_Status := st' \<rparr>)"
  shows "destroy_ok (d\<lparr> gd_Status := st' \<rparr>)"
proof -
  let ?d = "d\<lparr> gd_Status := st' \<rparr>"
  have valid: "destroy_target_rule (targetOf d)" "claims_keyed (targetOf d)" "destroy_spec_rule (gd_Spec d)"
    "confirmation_rule d" "deletion_confirmed_rule d" "deletion_verified_rule d" "proof_matches d" "destroy_shape d"
    using ok by (auto simp: destroy_ok_def destroy_valid_def destroy_object_rules_def)
  have "length (dst_DeletionJournal st') \<le> 16"
    using journal_length [OF keyed, of "claimsOf d"] journal_target_paths [OF target] valid(2) by (simp add: claims_keyed_def)
  moreover have "confirmation_rule ?d" "deletion_confirmed_rule ?d" "deletion_verified_rule ?d" "proof_matches ?d" "destroy_shape ?d"
    using valid assms(2-5)
    by (simp_all add: confirmation_rule_def deletion_confirmed_rule_def deletion_verified_rule_def proof_matches_def destroy_shape_def echoed_def
        split: option.splits)
  ultimately show ?thesis
    using valid(1-3) assms(3) keyed target
    by (simp add: destroy_ok_def destroy_valid_def destroy_object_rules_def destroy_status_rules_def journal_keyed_def)
qed

lemma announced_ok:
  assumes ok: "destroy_ok d" and phase: "phaseOf d = DestroyPhaseDeleting" "dst_Phase st' = DestroyPhaseDeleting"
    and evidence: "dst_Preview st' = dst_Preview (gd_Status d)" "dst_Verification st' = dst_Verification (gd_Status d)"
    and c: "c \<in> set (claimsOf d)" "journalEntry d (rclaim_Path c) = None"
    and j: "dst_DeletionJournal st' = journalOf d @ [\<lparr> cd_Path = rclaim_Path c, cd_ClaimRef = rclaim_ClaimRef c, cd_RequestedAt = t, cd_ObservedDeletedAt = None \<rparr>]"
  shows "destroy_ok (d\<lparr> gd_Status := st' \<rparr>)" "destroy_status_update (gd_Status d) st'"
proof -
  have keyed: "distinct (map cd_Path (journalOf d))" "journal_target_rule d"
    using ok by (auto simp: destroy_ok_def destroy_valid_def journal_keyed_def destroy_object_rules_def)
  have fresh: "rclaim_Path c \<notin> cd_Path ` set (journalOf d)" using c(2) by (simp add: journalEntry_None)
  then have other: "cd_Path e \<noteq> rclaim_Path c" if "e \<in> set (journalOf d)" for e using that by force
  show "destroy_ok (d\<lparr> gd_Status := st' \<rparr>)"
  proof (rule journal_ok [OF ok phase evidence])
    show "distinct (map cd_Path (dst_DeletionJournal st'))" using keyed(1) fresh j by simp
    show "journal_target_rule (d\<lparr> gd_Status := st' \<rparr>)"
      using keyed(2) j c(1) by (auto simp: journal_target_rule_def list_ex_iff same_ref_def)
  qed
  show "destroy_status_update (gd_Status d) st'"
    using evidence phase j other keyed(1)
    by (auto simp: destroy_status_update_def terminal_destroy_def journal_entry_update_def list_all_iff list_ex_iff dest: same_path_entry)
qed

lemma observed_ok:
  assumes ok: "destroy_ok d" and phase: "phaseOf d = DestroyPhaseDeleting" "dst_Phase st' = DestroyPhaseDeleting"
    and evidence: "dst_Preview st' = dst_Preview (gd_Status d)" "dst_Verification st' = dst_Verification (gd_Status d)"
    and e: "entry_for d c e" "cd_ObservedDeletedAt e = None"
    and j: "dst_DeletionJournal st' = markDeleted (rclaim_Path c) t (journalOf d)"
  shows "destroy_ok (d\<lparr> gd_Status := st' \<rparr>)" "destroy_status_update (gd_Status d) st'"
proof -
  have keyed: "distinct (map cd_Path (journalOf d))" "journal_target_rule d"
    using ok by (auto simp: destroy_ok_def destroy_valid_def journal_keyed_def destroy_object_rules_def)
  have entry: "e \<in> set (journalOf d)" "cd_Path e = rclaim_Path c" using e(1) journalEntry_Some by (auto simp: entry_for_def)
  show "destroy_ok (d\<lparr> gd_Status := st' \<rparr>)"
  proof (rule journal_ok [OF ok phase evidence])
    show "distinct (map cd_Path (dst_DeletionJournal st'))" using keyed(1) j by simp
    show "journal_target_rule (d\<lparr> gd_Status := st' \<rparr>)"
      using keyed(2) j by (auto simp: journal_target_rule_def list_all_iff markDeleted_def)
  qed
  have "journal_entry_update (journalOf d) (dst_DeletionJournal st')"
    unfolding journal_entry_update_def list_all_iff
  proof (intro ballI impI)
    fix a b
    assume ab: "a \<in> set (journalOf d)" "b \<in> set (dst_DeletionJournal st')" "cd_Path a = cd_Path b" "cd_ObservedDeletedAt a \<noteq> None"
    then have a: "cd_Path a \<noteq> rclaim_Path c" using same_path_entry [OF keyed(1) ab(1) entry(1)] entry(2) e(2) by auto
    obtain b' where b': "b' \<in> set (journalOf d)" "b = (if cd_Path b' = rclaim_Path c then b'\<lparr> cd_ObservedDeletedAt := Some t \<rparr> else b')"
      using ab(2) j by (auto simp: markDeleted_def)
    then have "b = b'" using a ab(3) by (auto split: if_splits)
    then show "cd_ObservedDeletedAt b = cd_ObservedDeletedAt a" using same_path_entry [OF keyed(1) ab(1) b'(1)] ab(3) by simp
  qed
  moreover have "\<exists>b\<in>set (dst_DeletionJournal st'). cd_Path b = cd_Path a \<and> cd_ClaimRef b = cd_ClaimRef a \<and> cd_RequestedAt b = cd_RequestedAt a"
    if "a \<in> set (journalOf d)" for a
    using that j by (intro bexI [of _ "if cd_Path a = rclaim_Path c then a\<lparr> cd_ObservedDeletedAt := Some t \<rparr> else a"]) (auto simp: markDeleted_def)
  ultimately show "destroy_status_update (gd_Status d) st'"
    using evidence phase by (simp add: destroy_status_update_def terminal_destroy_def list_all_iff list_ex_iff)
qed

text \<open>Every step of the specification keeps the invariant and is accepted.\<close>

lemma gate_deleting: "gate r d m n \<Longrightarrow> phaseOf d = DestroyPhaseDeleting"
  by (simp add: gate_def)

lemma destroy_step_ok:
  assumes ok: "destroy_ok d" and step: "destroy_step r m n d st'"
  shows "destroy_ok (d\<lparr> gd_Status := st' \<rparr>) \<and> destroy_status_update (gd_Status d) st'"
proof -
  note rules = destroy_ok_phase [OF ok] and keyed = destroy_ok_journal [OF ok]
  have keep: ?thesis if "kept (gd_Status d) st'" "\<not> destroyTerminal (phaseOf d)" "phase_rules d (dst_Phase st')"
    using kept_ok [OF ok that(1,3)] kept_update [OF that(1) _ keyed] that(2) by (simp add: terminal_destroy_iff)
  show ?thesis
    using step
  proof cases
    case held
    then show ?thesis using rules by (intro keep) simp_all
  next
    case accepted
    then show ?thesis using rules by (intro keep) (simp_all add: phase_rules_def destroyTerminal_def)
  next
    case (previewed s c p)
    then show ?thesis using previewed_ok [OF ok] by blast
  next
    case rejected
    then show ?thesis by (intro keep) (simp_all add: phase_rules_def)
  next
    case cancelled
    then show ?thesis by (intro keep) (simp_all add: phase_rules_def)
  next
    case (fenced s)
    then have "modeOf d \<noteq> DestroyModeUnsafeNoBackup \<longrightarrow> modeOf d = DestroyModeVerifiedBackup"
      by (auto simp: cold_def split: option.splits)
    then show ?thesis
      using fenced rules seen_confirmed_echoed by (intro keep) (auto simp: phase_rules_def destroyTerminal_def)
  next
    case (verified s b v)
    then show ?thesis using verified_ok [OF ok] by blast
  next
    case (cleared s)
    then show ?thesis using rules by (intro keep) (simp_all add: phase_rules_def destroyTerminal_def)
  next
    case (announced c t)
    then show ?thesis using announced_ok [OF ok gate_deleting] by blast
  next
    case (observed c e t)
    then show ?thesis using observed_ok [OF ok gate_deleting] by blast
  next
    case succeeded
    have valid: "destroy_valid d" using ok by (simp add: destroy_ok_def)
    have all: "\<forall>c\<in>set (claimsOf d). \<exists>e. entry_for d c e \<and> cd_ObservedDeletedAt e \<noteq> None" using succeeded(2) by blast
    show ?thesis
      using succeeded(3,4) rules gate_deleting [OF succeeded(1)] journal_complete [OF valid all]
      by (intro keep) (simp_all add: phase_rules_def destroyTerminal_def)
  qed
qed

lemma created_ok:
  "destroy_valid d \<Longrightarrow> phaseOf d = DestroyPhaseEmpty \<Longrightarrow> dst_Preview (gd_Status d) = None \<Longrightarrow> dst_Verification (gd_Status d) = None \<Longrightarrow>
   journalOf d = [] \<Longrightarrow> destroy_ok d"
  by (simp add: destroy_ok_def destroy_shape_def proof_matches_def)

text \<open>An accepted edit keeps the echo of the challenge and the proof of the backup.\<close>

lemma edited_ok:
  assumes ok: "destroy_ok d" and admits: "destroy_admits d d'" and same: "gd_Status d' = gd_Status d"
  shows "destroy_ok d'"
proof -
  have spec: "destroy_spec_update (gd_Spec d) (gd_Spec d')" "destroy_spec_rule (gd_Spec d)" "destroy_spec_rule (gd_Spec d')" "destroy_valid d'"
    using ok admits by (auto simp: destroy_admits_def destroy_ok_def destroy_valid_def)
  have refs: "ds_BackupRef (gd_Spec d') = ds_BackupRef (gd_Spec d)" "ds_RepositorySecretRef (gd_Spec d') = ds_RepositorySecretRef (gd_Spec d)"
    "ds_Target (gd_Spec d') = ds_Target (gd_Spec d)"
    using spec(1-3) by (auto simp: destroy_spec_update_def destroy_spec_rule_def split: if_splits)
  have "echoed d \<longrightarrow> echoed d'"
    using spec(1) same by (auto simp: echoed_def destroy_spec_update_def split: option.splits)
  then have "destroy_shape d'" "proof_matches d'"
    using ok same refs by (auto simp: destroy_ok_def destroy_shape_def proof_matches_def split: GameDestroyPhase.splits option.splits)
  then show ?thesis using spec(4) by (simp add: destroy_ok_def)
qed

lemma lifecycle_ok: "lifecycle d \<Longrightarrow> destroy_ok d"
proof (induction rule: lifecycle.induct)
  case (created d)
  then show ?case by (rule created_ok)
next
  case (edited d d')
  then show ?case using edited_ok by blast
next
  case (written d r n d')
  then show ?case using wrote_step destroy_step_ok by blast
qed

end
