(* ===== verification/GameDestroyProps.thy ===== *)
theory GameDestroyProps
  imports GameDestroyLife Interfaces
begin

text \<open>
  The properties of the destroy controller: what a reconciliation may send, what every reachable object
  satisfies, how often the phase can change, and how much a single reconciliation does.
\<close>

section \<open>Requests of a reconciliation\<close>

text \<open>The requests that one reconciliation sends, each with the number of its call; \<open>n\<close> is its first call.\<close>

definition sent :: "GameDestroyReconciler \<Rightarrow> nat \<Rightarrow> string \<Rightarrow> string \<Rightarrow> (nat \<times> Request) list" where
  "sent r n namespace name = ses_log (snd (run_state (Reconcile r namespace name) \<lparr> ses_calls = n, ses_log = [] \<rparr>))"

lemma sent_permitted:
  assumes "(k, q) \<in> set (sent r n namespace name)" "cl_GameDestroy r n namespace name = Inr d"
  shows "permitted r d (Suc n) k q"
  using runs_permitted_log [OF runs_Reconcile [of r "\<lparr> ses_calls = n, ses_log = [] \<rparr>"]] assms unfolding sent_def by fastforce

lemma sent_wrote:
  assumes "(k, StatusDestroy d') \<in> set (sent r n namespace name)" "cl_GameDestroy r n namespace name = Inr d"
  shows "wrote r (Suc n) d d'"
  using assms by (auto simp: sent_def wrote_def Reconcile_def ask_def run_state_bind) 

text \<open>
  C2. The controller asks for the deletion of a claim only if the claim is one of the exact target claims,
  announced in the deletion journal and not yet observed absent; the same reconciliation has read it with the
  announced UID, and after that read has seen the data lease held by this operation and has found the whole
  world cold: server stopped or gone, no other server on this data, no Pod mounting a target claim, no target
  volume attached, and in verified mode the backup that proves it. The user has echoed the challenge of the
  preview and, in verified mode, the repository verification of exactly the requested backup is recorded.
\<close>
theorem claim_delete_gated:
  assumes "lifecycle d" "cl_GameDestroy r n namespace name = Inr d"
    and "(k, Delete KindClaim ns claim uid version) \<in> set (sent r n namespace name)"
  shows "deletable r d (Suc n) k ns claim uid \<and> echoed d \<and>
    (modeOf d = DestroyModeVerifiedBackup \<longrightarrow> dst_Verification (gd_Status d) \<noteq> None \<and> proof_matches d)"
proof -
  have del: "deletable r d (Suc n) k ns claim uid" using sent_permitted [OF assms(3,2)] by (simp add: permitted_def)
  then have gate: "gate r d (Suc n) k" by (simp add: deletable_def)
  have ok: "destroy_ok d" using assms(1) by (rule lifecycle_ok)
  have "echoed d" using destroy_ok_phase [OF ok] gate_deleting [OF gate] by (simp add: phase_rules_def)
  moreover have "proof_matches d" using ok by (simp add: destroy_ok_def)
  ultimately show ?thesis using del gate by (simp add: gate_def)
qed

text \<open>
  C4. Every status that a reconciliation writes is a step of the abstract specification: the new status differs
  from the one that was read exactly as one of the listed steps allows, and the evidence that the step needs was
  observed by this reconciliation, between its read of the object and the write.
\<close>
theorem status_writes_refine:
  assumes "cl_GameDestroy r n namespace name = Inr d" "(k, StatusDestroy d') \<in> set (sent r n namespace name)"
  shows "\<exists>st'. d' = d\<lparr> gd_Status := st' \<rparr> \<and> destroy_step r (Suc n) k d st'"
  using sent_permitted [OF assms(2,1)] by (simp add: permitted_def)

text \<open>
  C8. Every object in the life of a destroy operation, from its creation through any accepted edits and any
  reconciliations, satisfies the invariant: the rules of the API server hold; a preview exists exactly after
  the pending phase; verification and deletion happen only with the challenge echoed; a recorded verification
  names the requested backup, repository and number of claims; a failed or cancelled operation has deleted
  nothing; and a succeeded one has observed the deletion of every target claim.
\<close>
theorem destroy_lifecycle_invariant:
  assumes "lifecycle d"
  shows "destroy_valid d \<and> destroy_shape d \<and> proof_matches d"
  using lifecycle_ok [OF assms] by (simp add: destroy_ok_def)

section \<open>Phases\<close>

definition destroy_phase_step :: "GameDestroyPhase \<Rightarrow> GameDestroyPhase \<Rightarrow> bool" where
  "destroy_phase_step p q \<longleftrightarrow> \<not> destroyTerminal p \<and>
     (q \<in> {DestroyPhaseFailed, DestroyPhaseCancelled} \<or>
      (p, q) \<in> {(DestroyPhaseEmpty, DestroyPhasePending), (DestroyPhasePending, DestroyPhasePreview), (DestroyPhasePreview, DestroyPhaseVerifying),
        (DestroyPhasePreview, DestroyPhaseDeleting), (DestroyPhaseVerifying, DestroyPhaseDeleting), (DestroyPhaseDeleting, DestroyPhaseSucceeded)})"

fun destroy_rank :: "GameDestroyPhase \<Rightarrow> nat" where
  "destroy_rank DestroyPhasePending = 1"
| "destroy_rank DestroyPhasePreview = 2"
| "destroy_rank DestroyPhaseVerifying = 3"
| "destroy_rank DestroyPhaseDeleting = 4"
| "destroy_rank DestroyPhaseSucceeded = 5"
| "destroy_rank DestroyPhaseFailed = 5"
| "destroy_rank DestroyPhaseCancelled = 5"
| "destroy_rank _ = 0"

interpretation destroy_machine: phase_machine destroy_phase_step destroyTerminal "\<lambda>_. False" destroy_rank 5
proof unfold_locales
  fix p q :: GameDestroyPhase
  show "destroyTerminal p \<Longrightarrow> \<not> destroy_phase_step p q" by (simp add: destroy_phase_step_def)
  show "destroy_phase_step p q \<Longrightarrow> \<not> False \<Longrightarrow> destroy_rank p < destroy_rank q"
    by (cases p) (auto simp: destroy_phase_step_def destroyTerminal_def)
  show "destroy_rank p \<le> 5" by (cases p) simp_all
qed simp

lemma destroy_step_phase:
  assumes "destroy_step r m n d st'" "dst_Phase st' \<noteq> phaseOf d"
  shows "destroy_phase_step (phaseOf d) (dst_Phase st')"
  using assms by cases (auto simp: destroy_phase_step_def destroyTerminal_def gate_def)

text \<open>A life as a sequence of edits and writes, with the changes of phase that it made, newest first.\<close>

inductive life_run :: "GameDestroy \<Rightarrow> (GameDestroyPhase \<times> GameDestroyPhase) list \<Rightarrow> GameDestroy \<Rightarrow> bool" where
  life_start: "life_run d [] d"
| life_edit: "life_run d h d' \<Longrightarrow> gd_Status d'' = gd_Status d' \<Longrightarrow> life_run d h d''"
| life_write: "life_run d h d' \<Longrightarrow> wrote r n d' d'' \<Longrightarrow>
    life_run d (if phaseOf d'' = phaseOf d' then h else (phaseOf d', phaseOf d'') # h) d''"

lemma life_run_steps: "life_run d h d' \<Longrightarrow> step_run destroy_phase_step (phaseOf d) h (phaseOf d')"
proof (induction rule: life_run.induct)
  case (life_write d h d' r n d'')
  obtain k st' where "d'' = d'\<lparr> gd_Status := st' \<rparr>" "destroy_step r n k d' st'" using wrote_step [OF life_write(2)] by blast
  then show ?case using life_write.IH destroy_step_phase [of r n k d' st'] by (auto intro: step_run.run_step)
qed (auto intro: step_run.run_start)

text \<open>
  C35. Whatever edits and reconciliations happen, in any number and order, the phase of a destroy operation
  changes at most five times, never returns to an earlier phase, and never leaves success, failure or
  cancellation.
\<close>
theorem destroy_phases_bounded:
  assumes "life_run d h d'"
  shows "length h \<le> 5 \<and> (h \<noteq> [] \<longrightarrow> phaseOf d \<noteq> phaseOf d') \<and> (destroyTerminal (phaseOf d) \<longrightarrow> phaseOf d' = phaseOf d)"
proof -
  have run: "step_run destroy_phase_step (phaseOf d) h (phaseOf d')" using assms by (rule life_run_steps)
  have "length h \<le> 5" using destroy_machine.length_run_bound [OF run] by simp
  moreover have "h \<noteq> [] \<longrightarrow> phaseOf d \<noteq> phaseOf d'" using destroy_machine.run_forward [OF run] by simp
  ultimately show ?thesis using destroy_machine.final_stable [OF run] by blast
qed

end
