(* ===== verification/GameDestroyBounds.thy ===== *)
theory GameDestroyBounds
  imports GameDestroyProps
begin

text \<open>
  How much a single reconciliation does: programs are counted by the requests that touch the object itself or
  a claim; everything else is \<open>harmless\<close>.
\<close>

declare One_nat_def [simp del]

section \<open>Counting\<close>

definition spent :: "session \<Rightarrow> nat" where
  "spent s = length (filter (\<lambda>(k, q). \<not> harmless q) (ses_log s))"

definition costs :: "nat \<Rightarrow> 'a program \<Rightarrow> bool" where
  "costs b m \<longleftrightarrow> (\<forall>s. wp m (\<lambda>_ t. spent t \<le> spent s + b) s)"

lemma costsD: "costs b m \<Longrightarrow> wp m (\<lambda>_ t. spent t \<le> spent s + b) s"
  by (simp add: costs_def)

lemma costs_mono: "costs a m \<Longrightarrow> a \<le> b \<Longrightarrow> costs b m"
  unfolding costs_def by (force elim: wp_mono)

lemma costs_return [simp]: "costs b (State_Monad.return x)"
  by (simp add: costs_def wp_simps)

lemma costs_bind:
  assumes "costs a m" "\<And>x. costs b (f x)"
  shows "costs (a + b) (State_Monad.bind m f)"
  unfolding costs_def wp_bind
proof
  fix s
  show "wp m (\<lambda>x. wp (f x) (\<lambda>_ t. spent t \<le> spent s + (a + b))) s"
    by (rule wp_mono [OF costsD [OF assms(1)]], rule wp_mono [OF costsD [OF assms(2)]]) simp
qed

lemmas costs_free = costs_bind [where a = 0, simplified]
  and costs_last = costs_bind [where b = 0, simplified]

lemma costs_if: "(c \<Longrightarrow> costs b x) \<Longrightarrow> (\<not> c \<Longrightarrow> costs b y) \<Longrightarrow> costs b (if c then x else y)"
  by simp

lemma costs_option: "costs b x \<Longrightarrow> (\<And>v. costs b (f v)) \<Longrightarrow> costs b (case o' of None \<Rightarrow> x | Some v \<Rightarrow> f v)"
  by (cases o') simp_all

lemma costs_sum: "(\<And>v. costs b (f v)) \<Longrightarrow> (\<And>v. costs b (g v)) \<Longrightarrow> costs b (case x of Inl v \<Rightarrow> f v | Inr v \<Rightarrow> g v)"
  by (cases x) simp_all

lemma extends_tidy_spent: "extends tidy s t \<Longrightarrow> spent t = spent s"
proof -
  assume "extends tidy s t"
  then obtain l where "ses_log t = ses_log s @ l" "\<forall>(k, q)\<in>set l. harmless q" unfolding extends_def by fast
  then show ?thesis by (auto simp: spent_def filter_empty_conv)
qed

lemma tidy_costs: "(\<And>s. runs tidy m s) \<Longrightarrow> costs b m"
  unfolding costs_def runs_def by (rule allI, rule wp_mono, assumption) (simp add: extends_tidy_spent)

lemma ask_costs [simp]: "costs b (ask g)"
  by (rule tidy_costs) simp

lemma now_costs [simp]: "costs b (now r)"
  by (simp add: now_def)

lemma observes_costs: "observes m A \<Longrightarrow> costs b m"
  by (rule tidy_costs) (auto simp: runs_def elim!: wp_mono [OF observesD] intro: reads_extends)

lemma observes_none_costs: "observes_none m A \<Longrightarrow> costs b m"
  by (rule tidy_costs) (auto simp: runs_def elim!: wp_mono [OF observes_noneD] intro: reads_extends)

lemma resolve_costs [simp]: "costs b (resolve r d permit)"
  by (rule observes_costs [OF observes_resolve])

lemma requireDataLease_costs [simp]: "costs b (requireDataLease r d)"
  by (rule observes_none_costs [OF observes_requireDataLease])

lemma confirmed_costs [simp]: "costs b (confirmed r d)"
  by (rule tidy_costs) (auto simp: runs_def intro: wp_mono [OF wp_confirmed] reads_extends)

lemma acquireDataLease_costs [simp]: "costs b (acquireDataLease r d)"
  by (rule tidy_costs) (auto simp: runs_def intro: wp_mono [OF wp_acquireDataLease])

lemma tidy_programs_cost [simp]:
  "costs b (cleanupWorker r d)" "costs b (releaseDataLease r d)" "costs b (workerLease r d)" "costs b (ensureWorkerResources r d res)"
  "costs b (destroyJobArmed r d job)" "costs b (armDestroyJob r d job)" "costs b (authorizeWorkerPod r d job)"
  by (rule tidy_costs, rule tidy_cleanupWorker tidy_releaseDataLease tidy_workerLease tidy_ensureWorkerResources
      tidy_destroyJobArmed tidy_armDestroyJob tidy_authorizeWorkerPod)+

lemma send_costs: "costs 1 (send r q)"
  by (simp add: costs_def wp_simps spent_def)

lemma send_harmless_costs: "harmless q \<Longrightarrow> costs b (send r q)"
  by (simp add: costs_def wp_simps spent_def)

section \<open>The controller\<close>

lemmas cost_rules = costs_if costs_option costs_sum costs_return

lemma update_status_costs: "costs 1 (update_status r d f)"
  unfolding update_status_def by (rule costs_last [OF send_costs]) simp

lemma hold_costs: "costs 1 (hold r d reason message)"
  unfolding hold_def by (rule costs_free [OF now_costs], rule costs_last [OF update_status_costs]) simp

lemma status_costs: "costs 1 (status r d phase reason message)"
  unfolding status_def Let_def
  by (rule costs_free, rule costs_option, simp, simp, rule costs_free, rule costs_if, rule costs_free [OF now_costs], simp, simp,
      rule costs_free [OF now_costs], rule costs_free, rule costs_if, rule costs_free [OF now_costs], simp, simp, rule update_status_costs)

lemma finish_status_costs: "costs 1 (finish_status r d phase reason message)"
  unfolding finish_status_def by (rule costs_last [OF status_costs]) simp

lemma fail_costs: "costs 1 (fail r d reason message)"
  unfolding fail_def by (auto intro: hold_costs costs_last [OF status_costs])

lemmas write_costs = update_status_costs hold_costs status_costs finish_status_costs fail_costs

lemma preview_costs: "costs 1 (preview r d)"
  unfolding preview_def
  by (rule costs_free [OF resolve_costs], rule costs_sum, rule fail_costs, rule costs_free [OF ask_costs], rule costs_option, simp,
      rule costs_free [OF now_costs], rule costs_last [OF update_status_costs], simp)

lemma confirm_costs: "costs 1 (confirm r d)"
  unfolding confirm_def
  by (rule costs_if, simp, rule costs_free [OF confirmed_costs], rule costs_if, rule fail_costs, rule costs_free [OF resolve_costs],
      rule costs_sum, rule fail_costs, rule costs_free [OF acquireDataLease_costs], rule costs_option, rule finish_status_costs, rule fail_costs)

lemma after_cleanup_costs: "costs b k \<Longrightarrow> costs b (after_cleanup r d k)"
  unfolding after_cleanup_def by (rule costs_free [OF tidy_programs_cost(1)]) (simp add: cost_rules)

lemma after_release_costs: "costs b k \<Longrightarrow> costs b (after_release r d k)"
  unfolding after_release_def
  by (rule after_cleanup_costs, rule costs_free [OF tidy_programs_cost(2)]) (simp add: cost_rules)

lemma verifyResult_costs: "costs 1 (verifyResult r d i pod)"
  unfolding verifyResult_def
  by (rule costs_sum, rule fail_costs, rule costs_free, rule costs_if, simp, rule costs_free [OF now_costs], simp, rule costs_if, rule fail_costs,
      rule costs_free [OF now_costs], rule costs_last [OF update_status_costs], simp)

lemma verifyArmed_costs: "costs 1 (verifyArmed r d i job)"
  unfolding verifyArmed_def
  by (rule costs_if, rule fail_costs, rule costs_if, rule costs_last [OF send_costs], simp, rule costs_free [OF tidy_programs_cost(7)])
     (auto intro!: costs_sum costs_if fail_costs verifyResult_costs split: prod.split)

lemma verifyJob_costs: "costs 1 (verifyJob r d i job)"
  unfolding verifyJob_def
  by (rule costs_free [OF ask_costs], rule costs_sum, simp, rule costs_if, simp, rule costs_free [OF tidy_programs_cost(5)])
     (auto split: sum.split bool.split intro!: verifyArmed_costs fail_costs costs_free [OF tidy_programs_cost(6)])

lemma verifyWorker_costs: "costs 1 (verifyWorker r d s)"
  unfolding verifyWorker_def
  by (rule costs_free [OF tidy_programs_cost(3)], rule costs_option, rule costs_sum, rule fail_costs, rule costs_free [OF tidy_programs_cost(4)])
     (auto intro!: costs_option costs_if verifyJob_costs split: prod.split)

lemma verify_costs: "costs 1 (verify r d)"
  unfolding verify_def verifyDone_def
  by (intro costs_if costs_free [OF requireDataLease_costs] costs_free [OF resolve_costs] costs_free [OF confirmed_costs] costs_option costs_sum
      fail_costs after_cleanup_costs finish_status_costs verifyWorker_costs)

lemma deleteClaim_costs: "costs 1 (deleteClaim r d claim)"
  unfolding deleteClaim_def delete_object_def
  by (intro costs_free [OF requireDataLease_costs] costs_option hold_costs costs_free [OF resolve_costs] costs_sum costs_last [OF send_costs] costs_return)

text \<open>The loop has spent nothing when it ends without a result.\<close>

definition costs_result :: "'a option program \<Rightarrow> bool" where
  "costs_result m \<longleftrightarrow> (\<forall>s. wp m (\<lambda>x t. spent t \<le> spent s + (if x = None then 0 else 1)) s)"

lemma costs_resultI: "costs 1 m \<Longrightarrow> costs_result (do { x \<leftarrow> m; State_Monad.return (Some (f x)) })"
  unfolding costs_result_def costs_def wp_simps by simp

lemma costs_result_free: "costs 0 m \<Longrightarrow> (\<And>x. costs_result (f x)) \<Longrightarrow> costs_result (State_Monad.bind m f)"
  unfolding costs_result_def costs_def wp_bind by (fastforce elim!: wp_mono)

lemma costs_result_return [simp]: "costs_result (State_Monad.return x)"
  by (simp add: costs_result_def wp_simps)

lemma costs_result_bind:
  fixes m :: "'a option program"
  assumes "costs_result m" "costs 1 (f None)" "\<And>x. costs 0 (f (Some x))"
  shows "costs 1 (State_Monad.bind m f)"
  unfolding costs_def wp_bind
proof
  fix s
  have "wp m (\<lambda>x t. spent t \<le> spent s + (if x = None then 0 else 1)) s" using assms(1) by (simp add: costs_result_def)
  then show "wp m (\<lambda>x. wp (f x) (\<lambda>_ t. spent t \<le> spent s + 1)) s"
  proof (rule wp_mono)
    fix x :: "'a option" and t
    assume "spent t \<le> spent s + (if x = None then 0 else 1)"
    then show "wp (f x) (\<lambda>_ u. spent u \<le> spent s + 1) t"
      using costsD [OF assms(2), of t] costsD [OF assms(3), of _ t] by (cases x) (force elim!: wp_mono)+
  qed
qed

lemma deleteLoop_costs: "costs_result (deleteLoop r d cs)"
proof (induction cs)
  case (Cons c cs)
  have "costs_result (do { x \<leftarrow> hold r d reason message; State_Monad.return (Some x) })" for reason message
    by (rule costs_resultI [OF hold_costs])
  moreover have "costs_result (do { t \<leftarrow> now r; e \<leftarrow> update_status r d (f t); State_Monad.return (Some (requeue e)) })" for f
    by (rule costs_result_free [OF now_costs], rule costs_resultI [OF update_status_costs])
  moreover have "costs_result (do { x \<leftarrow> deleteClaim r d claim; State_Monad.return (Some x) })" for claim
    by (rule costs_resultI [OF deleteClaim_costs])
  ultimately show ?case
    using Cons by (auto simp del: bind_assoc intro!: costs_result_free [OF ask_costs] split: option.split sum.split ApiError.split)
qed simp

lemma deleteTargets_costs: "costs 1 (deleteTargets r d)"
  unfolding deleteTargets_def
  by (rule costs_free [OF requireDataLease_costs], rule costs_option, rule costs_free [OF resolve_costs], rule costs_sum, rule hold_costs,
      rule costs_result_bind [OF deleteLoop_costs])
     (auto intro!: costs_free [OF resolve_costs] costs_sum hold_costs finish_status_costs)

lemma deleteClaims_costs: "costs 1 (deleteClaims r d)"
  unfolding deleteClaims_def
  by (rule costs_free, simp, intro costs_if fail_costs after_cleanup_costs deleteTargets_costs)

lemma reconcilePhase_costs: "costs 1 (reconcilePhase r d)"
  unfolding reconcilePhase_def
  by (auto intro: finish_status_costs preview_costs confirm_costs verify_costs deleteClaims_costs split: GameDestroyPhase.split)

lemma Reconcile_costs: "costs 1 (Reconcile r namespace name)"
  unfolding Reconcile_def reconcileDestroy_def finalize_def removeFinalizer_def addFinalizer_def
  by (rule costs_free [OF ask_costs])
     (auto intro!: after_release_costs finish_status_costs reconcilePhase_costs costs_last [OF send_costs] split: sum.split ApiError.split)

text \<open>
  C30. One reconciliation sends at most one request that touches the object or a claim: it writes one status, or
  changes the finalizer once, or deletes one claim, so that every durable step of a destroy operation is taken on
  its own and re-read before the next.
\<close>
theorem one_decisive_request:
  "length (filter (\<lambda>(k, q). \<not> harmless q) (sent r n namespace name)) \<le> 1"
  using costsD [OF Reconcile_costs, of r namespace name "\<lparr> ses_calls = n, ses_log = [] \<rparr>"]
  by (auto simp: sent_def wp_def spent_def split: prod.splits)

end
