(* ===== verification/GameDestroyExample.thy ===== *)
theory GameDestroyExample
  imports GameDestroyBounds DataSelectionProps KubeDestroyProps CatalogProps
begin

text \<open>
  One destroy operation from its creation to the deletion of its claim, in a cluster where the world stays cold:
  the instance at which the properties of the destroy controller are applied.
\<close>

section \<open>The cluster\<close>

definition xClaims :: "RetainedDataClaimReference list" where
  "xClaims = [\<lparr> rclaim_Path = ''world'', rclaim_ClaimRef = \<lparr> ref_Namespace = None, ref_Name = ''claim-a'', ref_UID = ''u-claim-a'' \<rparr> \<rparr>]"

definition xData :: RetainedDataReference where
  "xData = \<lparr> rdata_Identity = ''retained-1'', rdata_Claims = xClaims \<rparr>"

definition xTarget :: GameDestroyTarget where
  "xTarget = \<lparr> dt_GameServer = \<lparr> ref_Namespace = None, ref_Name = ''factory'', ref_UID = ''u-server'' \<rparr>, dt_Game = ''factorio'', dt_Data = xData \<rparr>"

definition xMeta :: "string \<Rightarrow> UID \<Rightarrow> ObjectMeta" where
  "xMeta name uid = \<lparr>
     meta_Name = name, meta_Namespace = ''games'', meta_UID = uid, meta_ResourceVersion = ''1'', meta_Generation = 1,
     meta_DeletionTimestamp = None, meta_Labels = Map.empty, meta_Annotations = Map.empty, meta_OwnerReferences = [], meta_Finalizers = [] \<rparr>"

definition xServer :: GameServer where
  "xServer = \<lparr> gs_Meta = xMeta ''factory'' ''u-server'',
     gs_Spec = \<lparr> gss_Game = ''factorio'', gss_ImageDigest = ''sha256:img'', gss_DesiredState = DesiredStateStopped,
       gss_Compute = \<lparr> comp_CPURequest = ''1'', comp_CPULimit = ''1'', comp_MemoryRequest = ''1Gi'', comp_MemoryLimit = ''1Gi'' \<rparr>,
       gss_Storage = \<lparr> stor_Size = ''1Gi'', stor_StorageClassName = None, stor_Reattach = None \<rparr>, gss_Settings = [] \<rparr>,
     gs_Status = \<lparr> gst_ObservedGeneration = 1, gst_ActiveData = None, gst_ObservedData = Some xData, gst_Phase = PhaseStopped,
       gst_Conditions = [], gst_Endpoints = [] \<rparr> \<rparr>"

definition xClaim :: PersistentVolumeClaim where
  "xClaim = \<lparr> pvc_Meta = (xMeta ''claim-a'' ''u-claim-a'')\<lparr> meta_Labels := map_of
       [(LabelManagedBy, ManagerName), (LabelName, ''game-data''), (LabelDataPolicy, ''retain''), (LabelInstance, ''factory''), (LabelGame, ''factorio''),
        (LabelDataIdentity, ''retained-1''), (LabelDataPath, ''world'')] \<rparr>,
     pvc_VolumeName = ''pv-1'', pvc_Phase = ClaimBound \<rparr>"

definition xVolume :: PersistentVolume where
  "xVolume = \<lparr> vol_Meta = xMeta ''pv-1'' ''u-pv'',
     vol_ClaimRef = Some \<lparr> objref_Namespace = ''games'', objref_Name = ''claim-a'', objref_UID = ''u-claim-a'' \<rparr> \<rparr>"

definition xLease :: Lease where
  "xLease = \<lparr> lease_Meta = (xMeta (DataOperationLeaseName ''retained-1'') ''u-lease'')\<lparr>
       meta_Labels := map_of [(LabelManagedBy, ManagerName), (LabelInstance, ''factory''), (LabelDataIdentity, ''retained-1''), (LabelDestroyUID, ''u-destroy'')],
       meta_Annotations := [AnnotationDestroyName \<mapsto> ''destroy-1''] \<rparr>,
     lease_HolderIdentity = Some ''u-destroy'', lease_AcquireTime = Some 4 \<rparr>"

definition xDefinition :: Definition where
  "xDefinition = factorio_Definition (\<lambda>_. Inl ''no settings'')"

text \<open>\<^verbatim>\<open>meta.SetStatusCondition\<close> as documented: the transition time changes with the status.\<close>

fun setCondition :: "Condition list \<Rightarrow> Condition \<Rightarrow> Condition list" where
  "setCondition [] c = [c]"
| "setCondition (x # xs) c =
     (if cond_Type x = cond_Type c
      then c\<lparr> cond_LastTransitionTime := (if cond_Status x = cond_Status c then cond_LastTransitionTime x else cond_LastTransitionTime c) \<rparr> # xs
      else x # setCondition xs c)"

definition xCluster :: "GameDestroy \<Rightarrow> bool \<Rightarrow> GameDestroyReconciler" where
  "xCluster d leased = \<lparr>
     cl_GameDestroy = (\<lambda>_ _ _. Inr d), cl_GameBackup = (\<lambda>_ _ _. Inl NotFound), cl_GameServer = (\<lambda>_ _ _. Inr xServer),
     cl_GameServers = (\<lambda>_ _. Inr [xServer]), cl_SecretMeta = (\<lambda>_ _ _. Inl NotFound), cl_Claim = (\<lambda>_ _ _. Inr xClaim),
     cl_Volume = (\<lambda>_ _. Inr xVolume), cl_Pods = (\<lambda>_ _. Inr []), cl_Attachments = (\<lambda>_. Inr []),
     cl_Lease = (\<lambda>_ _ _. if leased then Inr xLease else Inl NotFound), cl_ConfigMap = (\<lambda>_ _ _. Inl NotFound),
     cl_ServiceAccount = (\<lambda>_ _ _. Inl NotFound), cl_Role = (\<lambda>_ _ _. Inl NotFound), cl_RoleBinding = (\<lambda>_ _ _. Inl NotFound),
     cl_Job = (\<lambda>_ _ _. Inl NotFound), cl_Respond = (\<lambda>_ _. None), cl_Now = (\<lambda>_. 5), cl_Random = (\<lambda>_. Some (replicate 24 (CHR ''x''))),
     gdr_Catalog = catalogGet exampleLibrary [xDefinition], gdr_WorkerImage = [], gdr_Worker = exEnv,
     gdr_SetStatusCondition = setCondition, gdr_marshalInput = (\<lambda>_. None), gdr_decodeResult = (\<lambda>_. None) \<rparr>"

lemma x_fields [simp]:
  "cl_GameDestroy (xCluster d l) n ns name = Inr d" "cl_GameServer (xCluster d l) n ns name = Inr xServer" "cl_GameServers (xCluster d l) n ns = Inr [xServer]"
  "cl_Claim (xCluster d l) n ns name = Inr xClaim" "cl_Volume (xCluster d l) n name = Inr xVolume" "cl_Pods (xCluster d l) n ns = Inr []"
  "cl_Attachments (xCluster d l) n = Inr []" "cl_Lease (xCluster d l) n ns name = (if l then Inr xLease else Inl NotFound)"
  "cl_Respond (xCluster d l) n q = None" "cl_Now (xCluster d l) n = 5" "cl_Random (xCluster d l) n = Some (replicate 24 (CHR ''x''))"
  "gdr_Catalog (xCluster d l) = catalogGet exampleLibrary [xDefinition]" "gdr_SetStatusCondition (xCluster d l) = setCondition"
  by (simp_all add: xCluster_def)

lemma x_catalog [simp]: "catalogGet exampleLibrary [xDefinition] ''factorio'' = Inr xDefinition"
  by (simp add: catalogGet_def xDefinition_def example_New Get_def)

lemma x_definition [simp]:
  "def_PersistentPaths xDefinition = [\<lparr> pp_Name = ''world'', pp_MountPath = ''/factorio'' \<rparr>]"
  "cap_ColdBackup (def_Capabilities xDefinition)" "cap_Restore (def_Capabilities xDefinition)"
  by (simp_all add: xDefinition_def factorio_Definition_def)

section \<open>The object\<close>

definition xSpec :: "string \<Rightarrow> GameDestroySpec" where
  "xSpec challenge = \<lparr> ds_Target = xTarget, ds_Mode = DestroyModeUnsafeNoBackup, ds_BackupRef = None, ds_RepositorySecretRef = None,
     ds_UnsafeReason = ''retired world'', ds_ConfirmationChallenge = challenge, ds_CancelRequested = False \<rparr>"

definition xDestroy :: "string \<Rightarrow> GameDestroyStatus \<Rightarrow> GameDestroy" where
  "xDestroy challenge st = \<lparr> gd_Meta = (xMeta ''destroy-1'' ''u-destroy'')\<lparr> meta_Finalizers := [DestroyFinalizer] \<rparr>, gd_Spec = xSpec challenge, gd_Status = st \<rparr>"

definition xEmpty :: GameDestroyStatus where
  "xEmpty = \<lparr> dst_ObservedGeneration = 0, dst_Phase = DestroyPhaseEmpty, dst_StartedAt = None, dst_CompletedAt = None, dst_Conditions = [],
     dst_Preview = None, dst_Verification = None, dst_DeletionJournal = [] \<rparr>"

definition xCondition :: "string \<Rightarrow> string \<Rightarrow> Condition" where
  "xCondition reason message = \<lparr> cond_Type = ConditionOperationComplete, cond_Status = ConditionUnknown, cond_ObservedGeneration = 1,
     cond_LastTransitionTime = 5, cond_Reason = reason, cond_Message = message \<rparr>"

definition xPending :: GameDestroyStatus where
  "xPending = xEmpty\<lparr> dst_Phase := DestroyPhasePending, dst_ObservedGeneration := 1, dst_StartedAt := Some 5,
     dst_Conditions := [xCondition ''Accepted'' ''exact destroy request accepted; no data has been deleted''] \<rparr>"

definition xChallenge :: string where
  "xChallenge = RawURLEncode (replicate 24 (CHR ''x''))"

definition xPreview :: GameDestroyStatus where
  "xPreview = xPending\<lparr> dst_Phase := DestroyPhasePreview,
     dst_Preview := Some \<lparr> pv_Challenge = xChallenge, pv_ExpiresAt = 5 + 20 * minute, pv_RestoreGuidance = unsafeGuidance \<rparr> \<rparr>"

definition xDeleting :: GameDestroyStatus where
  "xDeleting = xPreview\<lparr> dst_Phase := DestroyPhaseDeleting,
     dst_Conditions := [xCondition ''Confirmed'' ''exact target confirmed; retained world is fenced cold''] \<rparr>"

definition xEntry :: GameDestroyClaimDeletion where
  "xEntry = \<lparr> cd_Path = ''world'', cd_ClaimRef = \<lparr> ref_Namespace = None, ref_Name = ''claim-a'', ref_UID = ''u-claim-a'' \<rparr>,
     cd_RequestedAt = 5, cd_ObservedDeletedAt = None \<rparr>"

definition xJournaled :: GameDestroyStatus where
  "xJournaled = xDeleting\<lparr> dst_DeletionJournal := [xEntry] \<rparr>"

lemma RawURLEncode_nonempty: "bs \<noteq> [] \<Longrightarrow> RawURLEncode bs \<noteq> []"
  by (cases bs rule: RawURLEncode.cases) (simp_all add: Let_def)

lemma xChallenge_nonempty: "xChallenge \<noteq> []"
  by (simp add: xChallenge_def RawURLEncode_nonempty)

lemma x_object [simp]:
  "gd_Meta (xDestroy c st) = (xMeta ''destroy-1'' ''u-destroy'')\<lparr> meta_Finalizers := [DestroyFinalizer] \<rparr>" "gd_Spec (xDestroy c st) = xSpec c"
  "gd_Status (xDestroy c st) = st" "ds_Target (xSpec c) = xTarget" "ds_Mode (xSpec c) = DestroyModeUnsafeNoBackup" "ds_BackupRef (xSpec c) = None"
  "ds_RepositorySecretRef (xSpec c) = None" "ds_UnsafeReason (xSpec c) = ''retired world''" "ds_ConfirmationChallenge (xSpec c) = c"
  "\<not> ds_CancelRequested (xSpec c)" "(xDestroy c st)\<lparr> gd_Status := st' \<rparr> = xDestroy c st'"
  by (simp_all add: xDestroy_def xSpec_def)

lemma x_target [simp]: "rdata_Claims xData = xClaims" "dt_Game xTarget = ''factorio''" "rdata_Identity xData = ''retained-1''"
  "dt_GameServer xTarget = \<lparr> ref_Namespace = None, ref_Name = ''factory'', ref_UID = ''u-server'' \<rparr>" "dt_Data xTarget = xData"
  by (simp_all add: xTarget_def xData_def)

lemma x_same [simp]: "sameDataSelection (Some xData) (Some xData)" "\<not> sameDataSelection None x"
  by (simp_all add: sameDataSelection_def xData_def xClaims_def split: option.split)

text \<open>The world is cold in this cluster, whatever the journal says.\<close>

lemma x_resolve:
  "wp (resolve (xCluster d l) (xDestroy c st) permit) Q s =
   Q (Inr \<lparr> dsub_backup = None, dsub_definition = xDefinition, dsub_input = zeroInput \<rparr>) (s\<lparr> ses_calls := ses_calls s + 6 \<rparr>)"
proof -
  have start: "\<not> targetIncomplete (xDestroy c st)" "\<not> uncertified xDefinition (xDestroy c st)"
    "targetClaimError xDefinition [] \<lparr> rclaim_Path = ''world'', rclaim_ClaimRef = \<lparr> ref_Namespace = None, ref_Name = ''claim-a'', ref_UID = ''u-claim-a'' \<rparr> \<rparr> = None"
    by (simp_all add: targetIncomplete_def uncertified_def xClaims_def targetClaimError_def guard_simps adapterPath_def mget_def)
  have server: "\<not> serverNotStopped (xDestroy c st) xServer" "\<not> serverChanged None xServer" "\<not> selectsTarget (xDestroy c st) xServer"
    by (simp_all add: serverNotStopped_def serverChanged_def selectsTarget_def xServer_def xMeta_def Let_def)
  have claim: "claimError (xDestroy c st) permit None \<lparr> rclaim_Path = ''world'', rclaim_ClaimRef = \<lparr> ref_Namespace = None, ref_Name = ''claim-a'', ref_UID = ''u-claim-a'' \<rparr> \<rparr> xClaim = None"
    "volumeBound xClaim xVolume" "pvc_Phase xClaim = ClaimBound" "meta_DeletionTimestamp (pvc_Meta xClaim) = None" "pvc_VolumeName xClaim = ''pv-1''"
    by (simp_all add: claimError_def claimChanged_def guard_simps xClaim_def xMeta_def mget_def kube_names volumeBound_def xVolume_def Let_def)
  show ?thesis
    by (simp add: resolve_def start resolveBackup_def resolveServer_def resolveSelectors_def resolveUsers_def resolveSubject_def wp_simps server
        guard_simps xClaims_def resolveClaim_def claim eval_nat_numeral)
qed

lemma x_wrote:
  assumes "wp (reconcileDestroy r d) (\<lambda>_ t. \<exists>k. (k, StatusDestroy d') \<in> set (ses_log t)) \<lparr> ses_calls = n, ses_log = [] \<rparr>"
  shows "wrote r n d d'"
  using assms by (auto simp: wrote_def wp_def split: prod.splits)

lemma x_meta [simp]: "meta_DeletionTimestamp (xMeta name uid) = None" "meta_Generation (xMeta name uid) = 1" "meta_Name (xMeta name uid) = name"
  "meta_UID (xMeta name uid) = uid" "meta_Namespace (xMeta name uid) = ''games''" "meta_OwnerReferences (xMeta name uid) = []"
  by (simp_all add: xMeta_def)

lemmas x_status = xEmpty_def xPending_def xPreview_def xDeleting_def xJournaled_def

lemma x_accepted: "wrote (xCluster d l) n (xDestroy [] xEmpty) (xDestroy [] xPending)"
  by (rule x_wrote)
     (simp add: reconcileDestroy_def reconcilePhase_def x_status destroyTerminal_def finish_status_def status_def update_status_def wp_simps
       completeCondition_def xCondition_def Let_def)

lemma x_previewed: "wrote (xCluster d l) n (xDestroy [] xPending) (xDestroy [] xPreview)"
  by (rule x_wrote)
     (simp add: reconcileDestroy_def reconcilePhase_def destroyTerminal_def x_status preview_def x_resolve update_status_def wp_simps xChallenge_def)

lemma x_confirmed: "wrote (xCluster d False) n (xDestroy xChallenge xPreview) (xDestroy xChallenge xDeleting)"
  by (rule x_wrote)
     (simp add: reconcileDestroy_def reconcilePhase_def destroyTerminal_def x_status confirm_def confirmed_def xChallenge_nonempty x_resolve acquireDataLease_def
       getDataLease_def finish_status_def status_def update_status_def wp_simps completeCondition_def xCondition_def Let_def minute_def second_def)

lemma x_lease: "dataLeaseMatches (xDestroy c st) xLease"
  by (simp add: dataLeaseMatches_def DestroyOperationLeaseMatches_def destroyRef_def xLease_def mget_def kube_names)

lemma x_announced: "wrote (xCluster d True) n (xDestroy xChallenge xDeleting) (xDestroy xChallenge xJournaled)"
  by (rule x_wrote)
     (simp add: reconcileDestroy_def reconcilePhase_def destroyTerminal_def x_status deleteClaims_def confirmed_def xChallenge_nonempty deleteTargets_def
       requireDataLease_def getDataLease_def x_lease guard_simps x_resolve xClaims_def journalEntry_def xEntry_def update_status_def wp_simps
       minute_def second_def)

text \<open>With the entry in the journal the claim is deleted: the request is the only one of the reconciliation.\<close>

lemma x_deleted:
  "sent (xCluster (xDestroy xChallenge xJournaled) True) n namespace name =
   [(n + 16, Delete KindClaim ''games'' ''claim-a'' ''u-claim-a'' None)]"
proof -
  have claim: "meta_UID (pvc_Meta xClaim) = ''u-claim-a''" "meta_DeletionTimestamp (pvc_Meta xClaim) = None" "meta_Name (pvc_Meta xClaim) = ''claim-a''"
    "meta_Namespace (pvc_Meta xClaim) = ''games''"
    by (simp_all add: xClaim_def)
  have "wp (Reconcile (xCluster (xDestroy xChallenge xJournaled) True) namespace name)
      (\<lambda>_ t. ses_log t = [(n + 16, Delete KindClaim ''games'' ''claim-a'' ''u-claim-a'' None)]) \<lparr> ses_calls = n, ses_log = [] \<rparr>"
    by (simp add: Reconcile_def reconcileDestroy_def reconcilePhase_def destroyTerminal_def x_status deleteClaims_def deleteTargets_def
       requireDataLease_def getDataLease_def x_lease guard_simps x_resolve xClaims_def journalEntry_def xEntry_def sameLocal_def claim deleteClaim_def
       delete_object_def wp_simps)
  then show ?thesis by (auto simp: sent_def wp_def split: prod.splits)
qed

section \<open>The life of the object\<close>

lemma x_valid_parts: "destroy_target_rule xTarget" "claims_keyed xTarget" "destroy_spec_rule (xSpec c)"
  by (simp_all add: destroy_target_rule_def claims_keyed_def destroy_spec_rule_def xClaims_def Let_def)

lemma x_created: "lifecycle (xDestroy [] xEmpty)"
  by (rule lifecycle.created)
     (simp_all add: destroy_valid_def x_valid_parts destroy_status_rules_def journal_keyed_def destroy_object_rules_def confirmation_rule_def
       deletion_confirmed_rule_def deletion_verified_rule_def deleting_phase_def journal_target_rule_def xEmpty_def)

lemma x_preview_life: "lifecycle (xDestroy [] xPreview)"
  by (rule lifecycle.written [OF lifecycle.written [OF x_created x_accepted] x_previewed])

text \<open>The user echoes the challenge.\<close>

lemma x_echo: "destroy_admits (xDestroy [] xPreview) (xDestroy xChallenge xPreview)"
  by (simp add: destroy_admits_def destroy_valid_def x_valid_parts destroy_status_rules_def journal_keyed_def destroy_object_rules_def
      confirmation_rule_def deletion_confirmed_rule_def deletion_verified_rule_def deleting_phase_def journal_target_rule_def destroy_spec_update_def
      destroy_status_update_def destroy_object_update_def terminal_destroy_def journal_entry_update_def x_status)

lemma x_echoed_life: "lifecycle (xDestroy xChallenge xPreview)"
  by (rule lifecycle.edited [OF x_preview_life x_echo]) simp

lemma x_journaled_life: "lifecycle (xDestroy xChallenge xJournaled)"
  by (rule lifecycle.written [OF lifecycle.written [OF x_echoed_life x_confirmed] x_announced])

section \<open>The properties at this instance\<close>

theorem claim_delete_gated_witness:
  "let d = xDestroy xChallenge xJournaled; r = xCluster d True in
   (16, Delete KindClaim ''games'' ''claim-a'' ''u-claim-a'' None) \<in> set (sent r 0 ''games'' ''destroy-1'') \<and>
   deletable r d 1 16 ''games'' ''claim-a'' ''u-claim-a'' \<and> echoed d"
proof -
  let ?d = "xDestroy xChallenge xJournaled" and ?r = "xCluster (xDestroy xChallenge xJournaled) True"
  have sent: "(16, Delete KindClaim ''games'' ''claim-a'' ''u-claim-a'' None) \<in> set (sent ?r 0 ''games'' ''destroy-1'')" by (simp add: x_deleted)
  then show ?thesis using claim_delete_gated [OF x_journaled_life _ sent] by (simp add: Let_def)
qed

text \<open>The first write of the example, read off the requests of the reconciliation.\<close>

lemma x_sent_accepted: "\<exists>k. (k, StatusDestroy (xDestroy [] xPending)) \<in> set (sent (xCluster (xDestroy [] xEmpty) False) 0 ''games'' ''destroy-1'')"
proof -
  have "wp (Reconcile (xCluster (xDestroy [] xEmpty) False) ''games'' ''destroy-1'')
      (\<lambda>_ t. \<exists>k. (k, StatusDestroy (xDestroy [] xPending)) \<in> set (ses_log t)) \<lparr> ses_calls = 0, ses_log = [] \<rparr>"
    by (simp add: Reconcile_def reconcileDestroy_def reconcilePhase_def x_status destroyTerminal_def finish_status_def status_def update_status_def
        wp_simps completeCondition_def xCondition_def Let_def)
  then show ?thesis by (auto simp: sent_def wp_def split: prod.splits)
qed

theorem status_writes_refine_witness:
  "\<exists>k st'. xDestroy [] xPending = (xDestroy [] xEmpty)\<lparr> gd_Status := st' \<rparr> \<and>
     destroy_step (xCluster (xDestroy [] xEmpty) False) (Suc 0) k (xDestroy [] xEmpty) st'"
  using x_sent_accepted status_writes_refine [of "xCluster (xDestroy [] xEmpty) False" 0 "''games''" "''destroy-1''" "xDestroy [] xEmpty"]
  by (meson x_fields(1))

theorem destroy_lifecycle_invariant_witness:
  "lifecycle (xDestroy xChallenge xJournaled) \<and> destroy_valid (xDestroy xChallenge xJournaled)"
  using destroy_lifecycle_invariant [OF x_journaled_life] x_journaled_life by simp

theorem destroy_phases_bounded_witness:
  "\<exists>h. life_run (xDestroy [] xEmpty) h (xDestroy [] xPending) \<and> h = [(DestroyPhaseEmpty, DestroyPhasePending)] \<and> length h \<le> 5"
proof -
  have "life_run (xDestroy [] xEmpty) [(DestroyPhaseEmpty, DestroyPhasePending)] (xDestroy [] xPending)"
    using life_run.life_write [OF life_run.life_start x_accepted] by (simp add: x_status)
  then show ?thesis using destroy_phases_bounded by blast
qed

theorem resolve_whole_world_witness:
  "set (map rclaim_Path xClaims) = {''world''} \<and> distinct (map rclaim_Path xClaims)"
proof -
  let ?d = "xDestroy [] xPending"
  obtain t where "run_state (resolve (xCluster ?d False) ?d False) \<lparr> ses_calls = 0, ses_log = [] \<rparr> =
      (Inr \<lparr> dsub_backup = None, dsub_definition = xDefinition, dsub_input = zeroInput \<rparr>, t)"
    using x_resolve [of ?d False "[]" xPending False "\<lambda>x t. x = Inr \<lparr> dsub_backup = None, dsub_definition = xDefinition, dsub_input = zeroInput \<rparr>"
        "\<lparr> ses_calls = 0, ses_log = [] \<rparr>"]
    by (auto simp: wp_def split: prod.splits)
  then show ?thesis using resolve_whole_world [OF x_fields(12)] by fastforce
qed

section \<open>A verified operation\<close>

definition vDestroy :: GameDestroy where
  "vDestroy = \<lparr> gd_Meta = xMeta ''destroy-1'' ''u-destroy'',
     gd_Spec = (xSpec [])\<lparr> ds_Mode := DestroyModeVerifiedBackup, ds_BackupRef := Some exBackupRef, ds_RepositorySecretRef := Some exSecret, ds_UnsafeReason := [] \<rparr>,
     gd_Status = xEmpty \<rparr>"

definition vInput :: Input where
  "vInput = exInput\<lparr> in_Stage := StagePreflight, in_OperationRef := destroyRef vDestroy, in_WorkerLeaseName := DestroyWorkerLeaseName ''u-destroy'',
     in_PreviousDataIdentity := [], in_PreviousData := [], in_CandidatePaths := [] \<rparr>"

lemma v_object [simp]:
  "gd_Meta vDestroy = xMeta ''destroy-1'' ''u-destroy''" "ds_Mode (gd_Spec vDestroy) = DestroyModeVerifiedBackup" "ds_BackupRef (gd_Spec vDestroy) = Some exBackupRef"
  "ds_RepositorySecretRef (gd_Spec vDestroy) = Some exSecret" "ds_Target (gd_Spec vDestroy) = xTarget"
  by (simp_all add: vDestroy_def)

lemma v_lease [simp]:
  "DestroyWorkerLeaseName ''u-destroy'' \<noteq> []" "length (DestroyWorkerLeaseName ''u-destroy'') = 47"
  "CHR ''/'' \<notin> set (DestroyWorkerLeaseName ''u-destroy'')" "dns_label (DestroyWorkerLeaseName ''u-destroy'')"
proof -
  show label: "dns_label (DestroyWorkerLeaseName ''u-destroy'')" using worker_lease.ident_dns_label [of "''u-destroy''"] by (simp add: char_class_defs)
  show "length (DestroyWorkerLeaseName ''u-destroy'') = 47" using worker_lease.ident_length [of "''u-destroy''"] by simp
  then show "DestroyWorkerLeaseName ''u-destroy'' \<noteq> []" by auto
  show "CHR ''/'' \<notin> set (DestroyWorkerLeaseName ''u-destroy'')" using dns_label_no_slash [OF label] .
qed

lemma v_contract: "\<not> contractInvalid vInput" "\<not> artifactIncompatible vInput" "ValidateBackupWorkerInput (backupInput vInput) = None"
  by (simp_all add: contractInvalid_def artifactIncompatible_def vInput_def exInput_def exBackupRef_def exSecret_def destroyRef_def
      sameLocal_def sameSecret_def InputVersion_def int32_of_len_def ValidateBackupWorkerInput_def Let_def guard_simps backupInput_def
      workerPathError_def Contains_char)

lemma v_input_valid: "ValidateInput exEnv vInput = None"
  using v_contract
  by (simp add: ValidateInput_def guard_simps targetPathError_def sourcePathDiffers_def safePathName_def vInput_def)

definition vImage :: string where
  "vImage = ''registry/worker@sha256:'' @ replicate 64 (CHR ''a'')"

lemma v_image: "pinnedWorkerImagePattern vImage"
  by (simp add: pinnedWorkerImagePattern_def vImage_def sha256_pattern_def HasPrefix_def char_class_defs list_all_iff Let_def)

lemma v_built: "\<exists>res. BuildDestroyResources exEnv (\<lambda>_. Some []) vDestroy vInput vImage (def_RuntimeIdentity xDefinition) = Inr res"
proof -
  have "destroyIdentityError exEnv vDestroy vInput vImage (def_RuntimeIdentity xDefinition) = None"
    by (simp add: destroyIdentityError_def guard_simps v_input_valid v_image xDefinition_def factorio_Definition_def dns_label_def char_class_defs)
       (simp add: vInput_def exInput_def exBackupRef_def exSecret_def exSource_def sameLocal_def sameSecret_def sameServerReference_def destroyRef_def xClaims_def)
  then show ?thesis
    by (simp add: BuildDestroyResources_def guard_simps destroyClaimError_def xClaims_def vInput_def Let_def)
qed

theorem destroy_worker_inert_witness:
  "\<exists>res. BuildDestroyResources exEnv (\<lambda>_. Some []) vDestroy vInput vImage (def_RuntimeIdentity xDefinition) = Inr res \<and>
     js_Suspend (job_Spec (dr_Job res)) = Some True \<and> \<not> grants (role_Rules (dr_Role res)) ''delete'' ''persistentvolumeclaims'' ''claim-a''"
proof -
  obtain res where "BuildDestroyResources exEnv (\<lambda>_. Some []) vDestroy vInput vImage (def_RuntimeIdentity xDefinition) = Inr res" using v_built by blast
  then show ?thesis using destroy_worker_inert by blast
qed

end
