(* ===== verification/WorkerPodProps.thy ===== *)
theory WorkerPodProps
  imports GameDestroyExample
begin

text \<open>
  What the comparison of Jobs and Pods with their requests guarantees: a stored Job is the requested Job up to
  the defaults that the API server fills in, and a released Pod does the work of the Job's template.
\<close>

section \<open>The work of a Pod\<close>

text \<open>A container without the defaulted termination message and API version fields.\<close>

definition container_work where
  "container_work c =
     ((ctr_Name c, ctr_Image c, ctr_ImagePullPolicy c, ctr_Command c, ctr_Requests c, ctr_Limits c),
      ctr_Security c, ctr_VolumeMounts c, map (\<lambda>e. (env_Name e, env_Value e, map_option fst (env_FieldRef e))) (ctr_Env c))"

definition pod_work where
  "pod_work p =
     ((ps_Hostname p, ps_ServiceAccountName p, ps_AutomountServiceAccountToken p, ps_RestartPolicy p, ps_NodeName p, ps_SchedulingGates p),
      ps_Security p, ps_Volumes p, map container_work (ps_InitContainers p), map container_work (ps_Containers p))"

lemma container_work_normalized [simp]: "container_work (normalizeBackupContainerDefaults c) = container_work c"
  by (auto simp: container_work_def normalizeBackupContainerDefaults_def option.map_comp comp_def split: prod.split intro!: option.map_cong)

lemma pod_work_shared [simp]: "pod_work (normalizeSharedDefaults p) = pod_work p"
  by (simp add: pod_work_def normalizeSharedDefaults_def comp_def)

lemma pod_work_normalized [simp]: "pod_work (normalizeBackupPodDefaults p) = pod_work p"
proof -
  have "pod_work (normalizeBackupPodDefaults p) = pod_work (normalizeSharedDefaults p)"
    by (simp add: pod_work_def normalizeBackupPodDefaults_def)
  then show ?thesis by simp
qed

section \<open>A Job as the API server reads it\<close>

text \<open>
  The whole specification of a Job with every default of the API server filled in where the field is empty.
  A field that is set, to the default or to anything else, is left as it is; no field is dropped.
\<close>

definition default_string :: "string \<Rightarrow> string \<Rightarrow> string" where
  "default_string v field = (if field = [] then v else field)"

definition default_option :: "'a \<Rightarrow> 'a option \<Rightarrow> 'a option" where
  "default_option v field = (if field = None then Some v else field)"

lemma default_clear [simp]:
  "default_string v (clear_string v x) = default_string v x" "default_option v' (clear_default v' y) = default_option v' y"
  by (auto simp: default_string_def clear_string_def default_option_def clear_default_def)

definition container_defaults :: "Container \<Rightarrow> Container" where
  "container_defaults c = c\<lparr>
     ctr_TerminationMessagePath := default_string ''/dev/termination-log'' (ctr_TerminationMessagePath c),
     ctr_TerminationMessagePolicy := default_string ''File'' (ctr_TerminationMessagePolicy c),
     ctr_Env := map (\<lambda>e. e\<lparr> env_FieldRef := map_option (\<lambda>(path, version). (path, default_string ''v1'' version)) (env_FieldRef e) \<rparr>) (ctr_Env c) \<rparr>"

definition pod_defaults :: "PodSpec \<Rightarrow> PodSpec" where
  "pod_defaults p = p\<lparr>
     ps_DeprecatedServiceAccount := default_string (ps_ServiceAccountName p) (ps_DeprecatedServiceAccount p),
     ps_DNSPolicy := default_string ''ClusterFirst'' (ps_DNSPolicy p),
     ps_TerminationGracePeriodSeconds := default_option 30 (ps_TerminationGracePeriodSeconds p),
     ps_SchedulerName := default_string ''default-scheduler'' (ps_SchedulerName p),
     ps_InitContainers := map container_defaults (ps_InitContainers p),
     ps_Containers := map container_defaults (ps_Containers p) \<rparr>"

definition job_defaults :: "JobSpec \<Rightarrow> JobSpec" where
  "job_defaults s = s\<lparr>
     js_ManualSelector := default_option False (js_ManualSelector s),
     js_CompletionMode := default_option ''NonIndexed'' (js_CompletionMode s),
     js_Suspend := default_option False (js_Suspend s),
     js_PodReplacementPolicy := default_option ''TerminatingOrFailed'' (js_PodReplacementPolicy s),
     js_TemplateSpec := pod_defaults (js_TemplateSpec s) \<rparr>"

lemma container_defaults_normalized: "container_defaults (normalizeBackupContainerDefaults c) = container_defaults c"
  by (simp add: container_defaults_def normalizeBackupContainerDefaults_def option.map_comp comp_def case_prod_unfold)

lemma pod_defaults_normalized: "pod_defaults (normalizeSharedDefaults p) = pod_defaults p"
  by (simp add: pod_defaults_def normalizeSharedDefaults_def container_defaults_normalized comp_def)

text \<open>
  The selector that the Job controller generates from the Job's own UID, with its labels on the template. A Job
  without a selector has none of it.
\<close>

definition own_selector :: "Job \<Rightarrow> bool" where
  "own_selector job \<longleftrightarrow> (case js_Selector (job_Spec job) of
     None \<Rightarrow> True
   | Some selector \<Rightarrow> meta_UID (job_Meta job) \<noteq> [] \<and>
       selector = \<lparr> sel_MatchLabels = [(''batch.kubernetes.io/controller-uid'', meta_UID (job_Meta job))], sel_MatchExpressions = [] \<rparr> \<and>
       list_all (\<lambda>(label, value). mget (js_TemplateLabels (job_Spec job)) label = value) (generatedLabels job))"

definition without_selector :: "Job \<Rightarrow> JobSpec" where
  "without_selector job = (let s = job_Spec job in
     if js_Selector s = None then s
     else s\<lparr> js_Selector := None, js_TemplateLabels := fold (\<lambda>(label, _). map_delete label) (generatedLabels job) (js_TemplateLabels s) \<rparr>)"

lemma normalizeSelector_own: "normalizeSelector job = (if own_selector job then Some (without_selector job) else None)"
proof (cases "js_Selector (job_Spec job)")
  case (Some selector)
  then show ?thesis
    by (cases selector) (auto simp: normalizeSelector_def own_selector_def without_selector_def Let_def list_ex_iff list_all_iff)
qed (simp add: normalizeSelector_def own_selector_def without_selector_def Let_def)

lemma normalizedBackupJobSpec_own:
  "normalizedBackupJobSpec job =
     (if js_ManualSelector (job_Spec job) = Some True \<or> \<not> own_selector job then None
      else let spec = without_selector job in Some (spec\<lparr>
        js_ManualSelector := None,
        js_CompletionMode := clear_default ''NonIndexed'' (js_CompletionMode spec),
        js_Suspend := clear_default False (js_Suspend spec),
        js_PodReplacementPolicy := clear_default ''TerminatingOrFailed'' (js_PodReplacementPolicy spec),
        js_TemplateSpec := normalizeSharedDefaults (js_TemplateSpec spec) \<rparr>))"
  by (simp add: normalizedBackupJobSpec_def normalizeSelector_own Let_def)

lemma job_defaults_cleared:
  "js_ManualSelector s \<noteq> Some True \<Longrightarrow> job_defaults (s\<lparr>
     js_ManualSelector := None,
     js_CompletionMode := clear_default ''NonIndexed'' (js_CompletionMode s),
     js_Suspend := clear_default False (js_Suspend s),
     js_PodReplacementPolicy := clear_default ''TerminatingOrFailed'' (js_PodReplacementPolicy s),
     js_TemplateSpec := normalizeSharedDefaults (js_TemplateSpec s) \<rparr>) = job_defaults s"
proof -
  assume "js_ManualSelector s \<noteq> Some True"
  then have "default_option False (js_ManualSelector s) = Some False" by (cases "js_ManualSelector s") (simp_all add: default_option_def)
  moreover have "default_option False None = Some False" by (simp add: default_option_def)
  ultimately show ?thesis by (simp add: job_defaults_def pod_defaults_normalized)
qed

lemma normalized_defaults:
  assumes "normalizedBackupJobSpec job = Some s"
  shows "own_selector job" "job_defaults s = job_defaults (without_selector job)"
proof -
  have "js_ManualSelector (without_selector job) = js_ManualSelector (job_Spec job)" by (simp add: without_selector_def Let_def)
  then show "own_selector job" "job_defaults s = job_defaults (without_selector job)"
    using assms job_defaults_cleared [of "without_selector job"]
    unfolding normalizedBackupJobSpec_own Let_def by (simp_all only: option.inject split: if_splits) blast+
qed

text \<open>
  C37. A Job that \<^verbatim>\<open>backupJobSpecMatches\<close> accepts is the requested Job: either the two specifications are equal
  as they stand, or each has no selector but the one that the Job controller generates from its own UID, and
  without that selector and its labels the two are equal in every field once the defaults of the API server are
  filled in. A field that the request sets, such as the path and policy of the termination message, the DNS
  policy or the scheduler, has the requested value; tolerations, priority, preemption policy, service links,
  labels and annotations have no default here and are equal as they stand.
\<close>
theorem accepted_job_same_work:
  assumes "backupJobSpecMatches desired existing"
  shows "job_Spec existing = job_Spec desired \<or>
    own_selector desired \<and> own_selector existing \<and> job_defaults (without_selector existing) = job_defaults (without_selector desired)"
proof (cases "job_Spec existing = job_Spec desired")
  case False
  then obtain s where s: "normalizedBackupJobSpec desired = Some s" "normalizedBackupJobSpec existing = Some s"
    using assms by (auto simp: backupJobSpecMatches_def split: option.splits)
  show ?thesis using normalized_defaults [OF s(1)] normalized_defaults [OF s(2)] by simp
qed simp

definition xJob :: Job where
  "xJob = destroyJob vDestroy vInput vImage (def_RuntimeIdentity xDefinition)"

text \<open>The Job as the API server stores it: a UID, the generated selector with its labels, and defaults filled in.\<close>

definition xStoredJob :: Job where
  "xStoredJob = (let s = job_Spec xJob; stored = (job_Meta xJob)\<lparr> meta_UID := ''u-job'' \<rparr> in
     xJob\<lparr> job_Meta := stored,
       job_Spec := s\<lparr> js_CompletionMode := Some ''NonIndexed'', js_ManualSelector := Some False,
         js_Selector := Some \<lparr> sel_MatchLabels = [(''batch.kubernetes.io/controller-uid'', ''u-job'')], sel_MatchExpressions = [] \<rparr>,
         js_TemplateLabels := js_TemplateLabels s ++ map_of (generatedLabels (xJob\<lparr> job_Meta := stored \<rparr>)),
         js_TemplateSpec := (js_TemplateSpec s)\<lparr> ps_DNSPolicy := ''ClusterFirst'', ps_TerminationGracePeriodSeconds := Some 30 \<rparr> \<rparr> \<rparr>)"

lemma xStoredJob_matches: "backupJobSpecMatches xJob xStoredJob"
proof -
  let ?job = "xJob\<lparr> job_Meta := (job_Meta xJob)\<lparr> meta_UID := ''u-job'' \<rparr> \<rparr>"
  define labels where "labels = js_TemplateLabels (job_Spec xJob)"
  have none: "label \<notin> dom labels" if "label \<in> set (map fst (generatedLabels ?job))" for label
    using that by (auto simp: labels_def xJob_def destroyJob_def destroyLabels_def generatedLabels_def Let_def kube_names)
  then have removed: "fold (\<lambda>(label, _). map_delete label) (generatedLabels ?job) (labels ++ map_of (generatedLabels ?job)) = labels"
    by (auto simp: generatedLabels_def map_delete_def fun_eq_iff map_add_def dom_def split: option.split)
  have present: "mget (labels ++ map_of (generatedLabels ?job)) label = v" if "(label, v) \<in> set (generatedLabels ?job)" for label v
    using that by (auto simp: generatedLabels_def mget_def map_add_def)
  have same: "generatedLabels xStoredJob = generatedLabels ?job" by (simp add: generatedLabels_def xStoredJob_def Let_def)
  have labels: "js_TemplateLabels (job_Spec xStoredJob) = labels ++ map_of (generatedLabels ?job)" by (simp add: xStoredJob_def labels_def Let_def)
  have own: "own_selector xStoredJob"
    unfolding own_selector_def labels same using present by (auto simp: xStoredJob_def Let_def list_all_iff)
  have "without_selector xStoredJob = (job_Spec xJob)\<lparr> js_CompletionMode := Some ''NonIndexed'', js_ManualSelector := Some False,
      js_TemplateSpec := (js_TemplateSpec (job_Spec xJob))\<lparr> ps_DNSPolicy := ''ClusterFirst'', ps_TerminationGracePeriodSeconds := Some 30 \<rparr> \<rparr>"
    unfolding without_selector_def same Let_def labels removed by (simp add: xStoredJob_def labels_def Let_def xJob_def destroyJob_def)
  moreover have "js_ManualSelector (job_Spec xStoredJob) = Some False" by (simp add: xStoredJob_def Let_def)
  ultimately have "normalizedBackupJobSpec xStoredJob = normalizedBackupJobSpec xJob"
    using own
    by (simp add: normalizedBackupJobSpec_own own_selector_def without_selector_def xJob_def destroyJob_def
        destroyPodSpec_def normalizeSharedDefaults_def clear_default_def clear_string_def Let_def)
  moreover have "normalizedBackupJobSpec xJob \<noteq> None"
    by (simp add: normalizedBackupJobSpec_def normalizeSelector_def xJob_def destroyJob_def Let_def)
  ultimately show ?thesis by (auto simp: backupJobSpecMatches_def)
qed

theorem accepted_job_same_work_witness:
  "job_Spec xStoredJob \<noteq> job_Spec xJob \<and> own_selector xStoredJob \<and> js_Selector (job_Spec xStoredJob) \<noteq> None \<and>
   job_defaults (without_selector xStoredJob) = job_defaults (without_selector xJob)"
proof -
  have "js_Selector (job_Spec xStoredJob) \<noteq> None" "js_Selector (job_Spec xJob) = None"
    by (simp_all add: xStoredJob_def xJob_def destroyJob_def Let_def)
  then show ?thesis using accepted_job_same_work [OF xStoredJob_matches] by auto
qed

section \<open>Authorizing a Pod\<close>

text \<open>The requests of one authorization.\<close>

definition authorization :: "GameDestroyReconciler \<Rightarrow> GameDestroy \<Rightarrow> Job \<Rightarrow> nat \<Rightarrow> (nat \<times> Request) list" where
  "authorization r d job n = ses_log (snd (run_state (authorizeWorkerPod r d job) \<lparr> ses_calls = n, ses_log = [] \<rparr>))"

text \<open>
  C29. The destroy controller releases a worker Pod only if it is the only Pod of the operation, is owned by the
  Job it belongs to, has not been scheduled or started, still carries exactly the scheduling gate, and does exactly
  the work of the Job's template. The only changes it makes are the removal of the gate and the annotation that
  pins the Pod's UID.
\<close>
theorem released_pod_runs_template:
  assumes "(k, UpdatePod pod') \<in> set (authorization r d job n)"
  shows "\<exists>pods pod. cl_Pods r n (namespaceOf d) = Inr pods \<and>
    filter (\<lambda>p. meta_Labels (pod_Meta p) LabelDestroyUID = Some (uidOf d)) pods = [pod] \<and>
    controlledBy (meta_OwnerReferences (pod_Meta pod)) ''Job'' (meta_Name (job_Meta job)) (meta_UID (job_Meta job)) \<and>
    meta_UID (pod_Meta pod) \<noteq> [] \<and> ps_NodeName (pod_Spec pod) = [] \<and> pod_ContainerStatuses pod = [] \<and> pod_InitContainerStatuses pod = [] \<and>
    ps_SchedulingGates (pod_Spec pod) = [DestroySchedulingGate] \<and>
    pod_work (pod_Spec pod) = pod_work (js_TemplateSpec (job_Spec job)) \<and>
    pod' = pod\<lparr> pod_Meta := (pod_Meta pod)\<lparr> meta_Annotations := (meta_Annotations (pod_Meta pod))(AnnotationDestroyPodAuthorized \<mapsto> meta_UID (pod_Meta pod)) \<rparr>,
      pod_Spec := (pod_Spec pod)\<lparr> ps_SchedulingGates := [] \<rparr> \<rparr>"
proof -
  define R where "R pods pod \<longleftrightarrow> cl_Pods r n (namespaceOf d) = Inr pods \<and>
    filter (\<lambda>p. meta_Labels (pod_Meta p) LabelDestroyUID = Some (uidOf d)) pods = [pod] \<and>
    controlledBy (meta_OwnerReferences (pod_Meta pod)) ''Job'' (meta_Name (job_Meta job)) (meta_UID (job_Meta job)) \<and>
    meta_UID (pod_Meta pod) \<noteq> [] \<and> \<not> podUngated pod \<and>
    normalizeBackupPodDefaults (js_TemplateSpec (job_Spec job)) = normalizeBackupPodDefaults (pod_Spec pod)" for pods pod
  define W where "W pod = UpdatePod (pod\<lparr> pod_Meta := (pod_Meta pod)\<lparr> meta_Annotations := (meta_Annotations (pod_Meta pod))(AnnotationDestroyPodAuthorized \<mapsto> meta_UID (pod_Meta pod)) \<rparr>,
      pod_Spec := (pod_Spec pod)\<lparr> ps_SchedulingGates := [] \<rparr> \<rparr>)" for pod
  have "wp (authorizeWorkerPod r d job) (\<lambda>_ t. \<forall>q\<in>snd ` set (ses_log t). \<exists>pods pod. R pods pod \<and> q = W pod) \<lparr> ses_calls = n, ses_log = [] \<rparr>"
    unfolding authorizeWorkerPod_def workerPods_def W_def [symmetric]
    by (auto simp: wp_simps R_def split: sum.split list.split)
  then have "\<forall>q\<in>snd ` set (authorization r d job n). \<exists>pods pod. R pods pod \<and> q = W pod"
    by (simp add: authorization_def wp_def split: prod.splits)
  then obtain pods pod where pod: "R pods pod" "UpdatePod pod' = W pod" using assms by force
  moreover have "pod_work (pod_Spec pod) = pod_work (js_TemplateSpec (job_Spec job))"
    using pod(1) pod_work_normalized unfolding R_def by metis
  ultimately show ?thesis by (intro exI [of _ pods] exI [of _ pod]) (simp add: R_def W_def podUngated_def)
qed

definition xPod :: Pod where
  "xPod = \<lparr> pod_Meta = (xMeta ''worker'' ''u-pod'')\<lparr>
       meta_Labels := js_TemplateLabels (job_Spec xJob), meta_Annotations := js_TemplateAnnotations (job_Spec xJob),
       meta_OwnerReferences := [\<lparr> owner_APIVersion = ''batch/v1'', owner_Kind = ''Job'', owner_Name = meta_Name (job_Meta xJob), owner_UID = ''u-job'',
         owner_Controller = Some True, owner_BlockOwnerDeletion = Some True \<rparr>] \<rparr>,
     pod_Spec = js_TemplateSpec (job_Spec xJob), pod_Phase = ''Pending'', pod_InitContainerStatuses = [], pod_ContainerStatuses = [] \<rparr>"

definition xRunningJob :: Job where
  "xRunningJob = xJob\<lparr> job_Meta := (job_Meta xJob)\<lparr> meta_UID := ''u-job'' \<rparr> \<rparr>"

theorem released_pod_runs_template_witness:
  "let r = (xCluster vDestroy True)\<lparr> cl_Pods := (\<lambda>_ _. Inr [xPod]) \<rparr> in
   \<exists>k pod'. (k, UpdatePod pod') \<in> set (authorization r vDestroy xRunningJob 0) \<and> ps_SchedulingGates (pod_Spec pod') = []"
proof -
  let ?r = "(xCluster vDestroy True)\<lparr> cl_Pods := (\<lambda>_ _. Inr [xPod]) \<rparr>"
  have labels: "js_TemplateLabels (job_Spec xJob) LabelDestroyUID = Some ''u-destroy''" "mget (js_TemplateAnnotations (job_Spec xJob)) AnnotationDestroyPodAuthorized = []"
    "map_delete AnnotationDestroyPodAuthorized (js_TemplateAnnotations (job_Spec xJob)) = js_TemplateAnnotations (job_Spec xJob)"
    "ps_SchedulingGates (js_TemplateSpec (job_Spec xJob)) = [DestroySchedulingGate]" "ps_NodeName (js_TemplateSpec (job_Spec xJob)) = []"
    "js_TemplateAnnotations (job_Spec xJob) \<noteq> Map.empty"
    by (auto simp: xJob_def destroyJob_def destroyLabels_def destroyAnnotations_def destroyPodSpec_def Let_def kube_names mget_def map_delete_def fun_eq_iff)
  have "wp (authorizeWorkerPod ?r vDestroy xRunningJob) (\<lambda>_ t. \<exists>k pod'. (k, UpdatePod pod') \<in> set (ses_log t)) \<lparr> ses_calls = 0, ses_log = [] \<rparr>"
    using labels
    by (simp add: authorizeWorkerPod_def workerPods_def wp_simps xPod_def xRunningJob_def controlledBy_def workerPodAnnotationsMatch_def podUngated_def Let_def)
  then obtain k pod' where sent: "(k, UpdatePod pod') \<in> set (authorization ?r vDestroy xRunningJob 0)"
    by (auto simp: authorization_def wp_def split: prod.splits)
  have "ps_SchedulingGates (pod_Spec pod') = []" using released_pod_runs_template [OF sent] by auto
  then show ?thesis using sent unfolding Let_def by blast
qed

end
