(* ===== verification/ChallengeProps.thy ===== *)
theory ChallengeProps
  imports GameDestroyExample
begin

text \<open>
  The confirmation challenge: the URL-safe Base64 text of the random bytes can be decoded again, and has the
  length and alphabet that the API server demands of it.
\<close>

section \<open>Decoding\<close>

definition base64_value :: "char \<Rightarrow> nat" where
  "base64_value c = length (takeWhile (\<lambda>d. d \<noteq> c) base64_url_alphabet)"

lemma alphabet: "length base64_url_alphabet = 64" "distinct base64_url_alphabet"
  by (simp_all add: base64_url_alphabet_def)

lemma takeWhile_nth: "distinct xs \<Longrightarrow> i < length xs \<Longrightarrow> length (takeWhile (\<lambda>d. d \<noteq> xs ! i) xs) = i"
proof (induction xs arbitrary: i)
  case (Cons x xs)
  then show ?case by (cases i) auto
qed simp

lemma base64_value_char [simp]: "base64_value (base64_char n) = n mod 64"
  unfolding base64_value_def base64_char_def by (rule takeWhile_nth) (simp_all add: alphabet)

fun RawURLDecode :: "string \<Rightarrow> bytes" where
  "RawURLDecode (p # q # u # v # rest) =
     (let x = base64_value p * 262144 + base64_value q * 4096 + base64_value u * 64 + base64_value v in
      [char_of (x div 65536), char_of (x div 256 mod 256), char_of (x mod 256)] @ RawURLDecode rest)"
| "RawURLDecode [p, q, u] = (let x = (base64_value p * 4096 + base64_value q * 64 + base64_value u) div 4 in [char_of (x div 256), char_of (x mod 256)])"
| "RawURLDecode [p, q] = [char_of ((base64_value p * 64 + base64_value q) div 16)]"
| "RawURLDecode _ = []"

text \<open>The digits of a number in base 64, and its bytes.\<close>

lemma digit_step: "(x :: nat) div n mod 64 * n + x mod n = x mod (64 * n)"
  by (simp add: mod_mult2_eq mult.commute)

lemma digits64: "(x :: nat) < 4096 \<Longrightarrow> x div 64 mod 64 * 64 + x mod 64 = x"
  "x < 262144 \<Longrightarrow> x div 4096 mod 64 * 4096 + (x div 64 mod 64 * 64 + x mod 64) = x"
  "x < 16777216 \<Longrightarrow> x div 262144 mod 64 * 262144 + (x div 4096 mod 64 * 4096 + (x div 64 mod 64 * 64 + x mod 64)) = x"
  using digit_step [of x 64] digit_step [of x 4096] digit_step [of x 262144] by simp_all

lemma digits_shifted: "(x :: nat) < 256 \<Longrightarrow> (x div 4 mod 64 * 64 + x * 16 mod 64) div 16 = x"
  "x < 65536 \<Longrightarrow> (x div 1024 mod 64 * 4096 + (x div 16 mod 64 * 64 + x * 4 mod 64)) div 4 = x"
  using digits64(1) [of "x * 16"] digits64(2) [of "x * 4"]
    div_mult_mult2 [of 16 x 4] div_mult_mult2 [of 4 x 1024] div_mult_mult2 [of 4 x 16] by simp_all

lemma byte_bound: "(of_char c :: nat) < 256"
  by (rule nat_of_char_less_256)

lemma base_256: "b < 256 \<Longrightarrow> (a * 256 + b) div 256 = a" "b < 256 \<Longrightarrow> (a * 256 + b) mod 256 = (b :: nat)"
  by simp_all

lemma two_bytes: "b < 256 \<Longrightarrow> c < 256 \<Longrightarrow> (a * 65536 + (b * 256 + c)) div 65536 = (a :: nat)"
  by (rule div_nat_eqI) simp_all

lemma RawURLDecode_Encode: "RawURLDecode (RawURLEncode bs) = bs"
proof (induction bs rule: RawURLEncode.induct)
  case (2 a)
  show ?case
    by (simp only: RawURLEncode.simps Let_def RawURLDecode.simps base64_value_char digits_shifted(1) [OF byte_bound] char_of_char)
next
  case (3 a b)
  let ?x = "of_char a * 256 + of_char b :: nat"
  have "?x < 65536" using byte_bound [of a] byte_bound [of b] by linarith
  from digits_shifted(2) [OF this] show ?case
    using base_256 [OF byte_bound [of b], of "of_char a"]
    by (simp only: RawURLEncode.simps Let_def RawURLDecode.simps base64_value_char add.assoc char_of_char)
next
  case (4 a b c rest)
  let ?y = "of_char a * 256 + of_char b :: nat"
  let ?x = "of_char a * 65536 + of_char b * 256 + of_char c :: nat"
  note bound = byte_bound [of a] byte_bound [of b] byte_bound [of c]
  have x: "?x < 16777216" using bound by linarith
  have y: "?x = ?y * 256 + of_char c" by simp
  have d: "?x div 65536 = of_char a" using two_bytes [OF bound(2,3)] by (simp add: add.assoc)
  have m: "?x div 256 mod 256 = of_char b" "?x mod 256 = of_char c"
    unfolding y using base_256 [OF bound(3), of ?y] base_256(2) [OF bound(2)] by simp_all
  show ?case
    unfolding RawURLEncode.simps Let_def append_Cons append_Nil RawURLDecode.simps base64_value_char
    using digits64(3) [OF x] 4 d m by (simp only: add.assoc Let_def append_Cons append_Nil char_of_char)
qed simp

lemma length_RawURLEncode: "length (RawURLEncode bs) = (4 * length bs + 2) div 3"
  by (induction bs rule: RawURLEncode.induct) (simp_all add: Let_def)

lemma RawURLEncode_alphabet: "set (RawURLEncode bs) \<subseteq> set base64_url_alphabet"
proof -
  have "base64_char n \<in> set base64_url_alphabet" for n
    unfolding base64_char_def by (rule nth_mem) (simp add: alphabet)
  then show ?thesis by (induction bs rule: RawURLEncode.induct) (simp_all add: Let_def)
qed

text \<open>The pattern \<^verbatim>\<open>^[A-Za-z0-9_-]+$\<close> of the field, between 16 and 128 bytes.\<close>

definition challenge_pattern :: "string \<Rightarrow> bool" where
  "challenge_pattern s \<longleftrightarrow> 16 \<le> length s \<and> length s \<le> 128 \<and>
     list_all (\<lambda>c. is_upper c \<or> is_lower c \<or> is_digit c \<or> c = CHR ''_'' \<or> c = CHR ''-'') s"

lemma alphabet_pattern: "c \<in> set base64_url_alphabet \<Longrightarrow> is_upper c \<or> is_lower c \<or> is_digit c \<or> c = CHR ''_'' \<or> c = CHR ''-''"
proof -
  have "\<forall>c\<in>set base64_url_alphabet. is_upper c \<or> is_lower c \<or> is_digit c \<or> c = CHR ''_'' \<or> c = CHR ''-''"
    by (simp add: base64_url_alphabet_def char_class_defs)
  then show "c \<in> set base64_url_alphabet \<Longrightarrow> ?thesis" by blast
qed

lemma destroy_step_preview:
  assumes "destroy_step r m n d st'" "phaseOf d = DestroyPhasePending" "dst_Phase st' = DestroyPhasePreview"
  shows "\<exists>c p. seen m n (\<lambda>k. cl_Random r k = Some c) \<and> dst_Preview st' = Some p \<and> pv_Challenge p = RawURLEncode c"
  using assms by cases (auto simp: gate_def)

text \<open>
  Given a random source that fills the 24 bytes it is asked for, the challenge of a preview is text of 32
  characters within the length and alphabet that the resource admits, and decodes to the bytes that the same
  reconciliation drew: two previews with the same challenge drew the same random bytes.
\<close>
theorem preview_challenge_random:
  assumes "\<And>k b. cl_Random r k = Some b \<Longrightarrow> length b = 24"
    and "cl_GameDestroy r n namespace name = Inr d" "phaseOf d = DestroyPhasePending"
    and "(k, StatusDestroy d') \<in> set (sent r n namespace name)" "phaseOf d' = DestroyPhasePreview"
  shows "\<exists>p j b. dst_Preview (gd_Status d') = Some p \<and> n < j \<and> j < k \<and> cl_Random r j = Some b \<and>
    length (pv_Challenge p) = 32 \<and> challenge_pattern (pv_Challenge p) \<and> RawURLDecode (pv_Challenge p) = b"
proof -
  obtain st' where st': "d' = d\<lparr> gd_Status := st' \<rparr>" "destroy_step r (Suc n) k d st'"
    using sent_permitted [OF assms(4,2)] by (auto simp: permitted_def)
  obtain b p where b: "seen (Suc n) k (\<lambda>k. cl_Random r k = Some b)" "dst_Preview st' = Some p" "pv_Challenge p = RawURLEncode b"
    using destroy_step_preview [OF st'(2) assms(3)] st'(1) assms(5) by auto
  then obtain j where j: "Suc n \<le> j" "j < k" "cl_Random r j = Some b" unfolding seen_def by blast
  have len: "length (pv_Challenge p) = 32" using assms(1) [OF j(3)] b(3) by (simp add: length_RawURLEncode)
  moreover have "challenge_pattern (pv_Challenge p)"
    using len b(3) RawURLEncode_alphabet [of b] alphabet_pattern unfolding challenge_pattern_def list_all_iff by auto
  ultimately show ?thesis using b j st'(1) RawURLDecode_Encode [of b] by (auto intro!: exI [of _ p] exI [of _ j])
qed

lemma x_sent_preview: "\<exists>k. (k, StatusDestroy (xDestroy [] xPreview)) \<in> set (sent (xCluster (xDestroy [] xPending) False) 0 ''games'' ''destroy-1'')"
proof -
  let ?r = "xCluster (xDestroy [] xPending) False"
  have "wp (Reconcile ?r ''games'' ''destroy-1'') (\<lambda>_ t. \<exists>k. (k, StatusDestroy (xDestroy [] xPreview)) \<in> set (ses_log t)) \<lparr> ses_calls = 0, ses_log = [] \<rparr>"
    by (simp add: Reconcile_def reconcileDestroy_def reconcilePhase_def destroyTerminal_def x_status preview_def x_resolve update_status_def wp_simps xChallenge_def)
  then show ?thesis by (auto simp: sent_def wp_def split: prod.splits)
qed

theorem preview_challenge_random_witness:
  "challenge_pattern xChallenge \<and> RawURLDecode xChallenge = replicate 24 (CHR ''x'')"
proof -
  let ?d = "xDestroy [] xPending" and ?r = "xCluster (xDestroy [] xPending) False"
  obtain k where "(k, StatusDestroy (xDestroy [] xPreview)) \<in> set (sent ?r 0 ''games'' ''destroy-1'')" using x_sent_preview by blast
  then show ?thesis
    using preview_challenge_random [of ?r 0 "''games''" "''destroy-1''" ?d k "xDestroy [] xPreview"] by (auto simp: x_status)
qed

end
