(* ===== verification/GameDestroyAdmitted.thy ===== *)
theory GameDestroyAdmitted
  imports ChallengeProps
begin

text \<open>
  The API server accepts every status that the destroy controller writes: the rules that compare fields hold by
  the lifecycle of the object, and the structural schema by what the controller puts into each field. The second
  part follows the texts: every reason and message that a reconciliation writes is a bounded constant.
\<close>

chapter \<open>The structural schema\<close>

text \<open>
  The structural schema of a GameDestroy: the markers on the fields of \<^verbatim>\<open>api/v1alpha1/destroy_types.go\<close>, on the
  references of \<^verbatim>\<open>operation_types.go\<close> and \<^verbatim>\<open>gameserver_types.go\<close> that it nests, and on the conditions of its
  status as \<^verbatim>\<open>config/crd/bases/arcade.gobha.me_gamedestroys.yaml\<close> has them. The rules that compare fields, and the
  keys of the claims and of the journal, are those of \<open>Admission\<close>.

  An optional string is absent when it is empty, an optional phase when it is \<open>DestroyPhaseEmpty\<close>. A length
  counts characters, that is the bytes of the UTF-8 text that do not continue a character.
\<close>

section \<open>Texts\<close>

definition chars :: "string \<Rightarrow> nat" where
  "chars s = length (filter (\<lambda>c. (of_char c :: nat) div 64 \<noteq> 2) s)"

lemma chars_le: "chars s \<le> length s"
  by (simp add: chars_def)

lemma chars_pos: "s \<noteq> [] \<Longrightarrow> (of_char (hd s) :: nat) div 64 \<noteq> 2 \<Longrightarrow> 1 \<le> chars s"
  by (cases s) (simp_all add: chars_def)

text \<open>\<^verbatim>\<open>^[a-z0-9](?:[-a-z0-9.]*[a-z0-9])?$\<close>\<close>

definition name_pattern :: "string \<Rightarrow> bool" where
  "name_pattern s \<longleftrightarrow> s \<noteq> [] \<and> is_alnum (hd s) \<and> is_alnum (last s) \<and> list_all (\<lambda>c. is_alnum c \<or> c = CHR ''-'' \<or> c = CHR ''.'') s"

abbreviation is_letter :: "char \<Rightarrow> bool" where
  "is_letter c \<equiv> is_upper c \<or> is_lower c"

text \<open>\<^verbatim>\<open>^[A-Za-z]([A-Za-z0-9_,:]*[A-Za-z0-9_])?$\<close>\<close>

definition reason_pattern :: "string \<Rightarrow> bool" where
  "reason_pattern s \<longleftrightarrow> s \<noteq> [] \<and> is_letter (hd s) \<and> (is_letter (last s) \<or> is_digit (last s) \<or> last s = CHR ''_'') \<and>
     list_all (\<lambda>c. is_letter c \<or> is_digit c \<or> c = CHR ''_'' \<or> c = CHR '','' \<or> c = CHR '':'') s"

text \<open>The pattern of a condition's type, without the optional prefix of a domain.\<close>

definition type_pattern :: "string \<Rightarrow> bool" where
  "type_pattern s \<longleftrightarrow> s \<noteq> [] \<and> (is_letter (hd s) \<or> is_digit (hd s)) \<and> (is_letter (last s) \<or> is_digit (last s)) \<and>
     list_all (\<lambda>c. is_letter c \<or> is_digit c \<or> c = CHR ''-'' \<or> c = CHR ''_'' \<or> c = CHR ''.'') s"

section \<open>References\<close>

definition local_ref_schema :: "ExactLocalReference \<Rightarrow> bool" where
  "local_ref_schema ref \<longleftrightarrow> ref_Namespace ref = None \<and> name_pattern (ref_Name ref) \<and> chars (ref_Name ref) \<le> 253 \<and>
     1 \<le> chars (ref_UID ref) \<and> chars (ref_UID ref) \<le> 128"

definition secret_ref_schema :: "ExactSecretReference \<Rightarrow> bool" where
  "secret_ref_schema ref \<longleftrightarrow> local_ref_schema (sref_Local ref) \<and>
     1 \<le> chars (sref_ResourceVersion ref) \<and> chars (sref_ResourceVersion ref) \<le> 256"

section \<open>The request\<close>

definition claim_ref_schema :: "RetainedDataClaimReference \<Rightarrow> bool" where
  "claim_ref_schema c \<longleftrightarrow> dns_label (rclaim_Path c) \<and> local_ref_schema (rclaim_ClaimRef c)"

definition destroy_target_schema :: "GameDestroyTarget \<Rightarrow> bool" where
  "destroy_target_schema t \<longleftrightarrow> local_ref_schema (dt_GameServer t) \<and> dns_label (dt_Game t) \<and> dns_label (rdata_Identity (dt_Data t)) \<and>
     list_all claim_ref_schema (rdata_Claims (dt_Data t))"

definition destroy_spec_schema :: "GameDestroySpec \<Rightarrow> bool" where
  "destroy_spec_schema s \<longleftrightarrow> destroy_target_schema (ds_Target s) \<and>
     ds_Mode s \<in> set [DestroyModeVerifiedBackup, DestroyModeUnsafeNoBackup] \<and>
     (case ds_BackupRef s of None \<Rightarrow> True | Some ref \<Rightarrow> local_ref_schema ref) \<and>
     (case ds_RepositorySecretRef s of None \<Rightarrow> True | Some ref \<Rightarrow> secret_ref_schema ref) \<and>
     (ds_UnsafeReason s \<noteq> [] \<longrightarrow> 8 \<le> chars (ds_UnsafeReason s) \<and> chars (ds_UnsafeReason s) \<le> 256) \<and>
     (ds_ConfirmationChallenge s \<noteq> [] \<longrightarrow> challenge_pattern (ds_ConfirmationChallenge s))"

section \<open>The status\<close>

definition destroy_preview_schema :: "GameDestroyPreview \<Rightarrow> bool" where
  "destroy_preview_schema p \<longleftrightarrow> challenge_pattern (pv_Challenge p) \<and> 1 \<le> chars (pv_RestoreGuidance p) \<and> chars (pv_RestoreGuidance p) \<le> 1024"

definition destroy_verification_schema :: "GameDestroyVerification \<Rightarrow> bool" where
  "destroy_verification_schema v \<longleftrightarrow> local_ref_schema (dv_BackupRef v) \<and> secret_ref_schema (dv_RepositorySecretRef v) \<and>
     1 \<le> chars (dv_ArtifactID v) \<and> chars (dv_ArtifactID v) \<le> 128 \<and> sha256_pattern (dv_ManifestDigest v) \<and>
     1 \<le> sint (dv_PathCount v) \<and> sint (dv_PathCount v) \<le> 16"

definition journal_entry_schema :: "GameDestroyClaimDeletion \<Rightarrow> bool" where
  "journal_entry_schema e \<longleftrightarrow> dns_label (cd_Path e) \<and> local_ref_schema (cd_ClaimRef e)"

definition condition_schema :: "Condition \<Rightarrow> bool" where
  "condition_schema c \<longleftrightarrow> type_pattern (cond_Type c) \<and> chars (cond_Type c) \<le> 316 \<and> 0 \<le> sint (cond_ObservedGeneration c) \<and>
     reason_pattern (cond_Reason c) \<and> chars (cond_Reason c) \<le> 1024 \<and> chars (cond_Message c) \<le> 32768"

definition conditions_schema :: "Condition list \<Rightarrow> bool" where
  "conditions_schema cs \<longleftrightarrow> distinct (map cond_Type cs) \<and> length cs \<le> 16 \<and> list_all condition_schema cs"

definition destroy_status_schema :: "GameDestroyStatus \<Rightarrow> bool" where
  "destroy_status_schema s \<longleftrightarrow> (case dst_Phase s of DestroyPhaseOther _ \<Rightarrow> False | _ \<Rightarrow> True) \<and> conditions_schema (dst_Conditions s) \<and>
     (case dst_Preview s of None \<Rightarrow> True | Some p \<Rightarrow> destroy_preview_schema p) \<and>
     (case dst_Verification s of None \<Rightarrow> True | Some v \<Rightarrow> destroy_verification_schema v) \<and>
     list_all journal_entry_schema (dst_DeletionJournal s)"

definition destroy_schema :: "GameDestroy \<Rightarrow> bool" where
  "destroy_schema d \<longleftrightarrow> destroy_spec_schema (gd_Spec d) \<and> destroy_status_schema (gd_Status d)"

section \<open>meta.SetStatusCondition\<close>

text \<open>
  The documented behaviour of the function that stores a condition: it replaces the condition of the same type,
  or appends one. The time of the last transition is its own.
\<close>

definition sets_condition :: "(Condition list \<Rightarrow> Condition \<Rightarrow> Condition list) \<Rightarrow> bool" where
  "sets_condition f \<longleftrightarrow> (\<forall>cs c.
     map cond_Type (f cs c) = (if cond_Type c \<in> set (map cond_Type cs) then map cond_Type cs else map cond_Type cs @ [cond_Type c]) \<and>
     (\<forall>x\<in>set (f cs c). x \<in> set cs \<or> (\<exists>t. x = c\<lparr> cond_LastTransitionTime := t \<rparr>)))"

text \<open>The conditions that the controller itself maintains: at most the one that says whether the operation is complete.\<close>

definition own_conditions :: "GameDestroy \<Rightarrow> bool" where
  "own_conditions d \<longleftrightarrow> set (map cond_Type (dst_Conditions (gd_Status d))) \<subseteq> {ConditionOperationComplete}"

definition conditions_ok :: "Condition list \<Rightarrow> bool" where
  "conditions_ok cs \<longleftrightarrow> conditions_schema cs \<and> set (map cond_Type cs) \<subseteq> {ConditionOperationComplete}"

lemma distinct_single_le: "distinct xs \<Longrightarrow> set xs \<subseteq> {a} \<Longrightarrow> length xs \<le> 1"
  using card_mono [of "{a}" "set xs"] by (simp add: distinct_card)

lemma set_condition_ok:
  assumes "sets_condition f" "conditions_ok cs" "condition_schema c" "cond_Type c = ConditionOperationComplete"
  shows "conditions_ok (f cs c)"
proof -
  have types: "map cond_Type (f cs c) = (if cond_Type c \<in> set (map cond_Type cs) then map cond_Type cs else map cond_Type cs @ [cond_Type c])"
    and members: "\<forall>x\<in>set (f cs c). x \<in> set cs \<or> (\<exists>t. x = c\<lparr> cond_LastTransitionTime := t \<rparr>)"
    using assms(1) unfolding sets_condition_def by blast+
  have keyed: "distinct (map cond_Type (f cs c))" "set (map cond_Type (f cs c)) \<subseteq> {ConditionOperationComplete}"
    unfolding types using assms(2,4) by (auto simp: conditions_ok_def conditions_schema_def)
  moreover have "length (f cs c) \<le> 1" using distinct_single_le [OF keyed] by simp
  moreover have "condition_schema x" if "x \<in> set (f cs c)" for x
    using members that assms(2,3) by (auto simp: conditions_ok_def conditions_schema_def list_all_iff condition_schema_def)
  ultimately show ?thesis by (simp add: conditions_ok_def conditions_schema_def list_all_iff)
qed

chapter \<open>What the controller writes\<close>

section \<open>Messages\<close>

text \<open>Errors of at most 1024 bytes.\<close>

definition brief :: "(error + 'a) program \<Rightarrow> bool" where
  "brief m \<longleftrightarrow> (\<forall>s. wp m (\<lambda>x _. \<forall>e. x = Inl e \<longrightarrow> length e \<le> 1024) s)"

definition brief_none :: "error option program \<Rightarrow> bool" where
  "brief_none m \<longleftrightarrow> (\<forall>s. wp m (\<lambda>x _. \<forall>e. x = Some e \<longrightarrow> length e \<le> 1024) s)"

lemma brief_return: "brief (State_Monad.return x) \<longleftrightarrow> (\<forall>e. x = Inl e \<longrightarrow> length e \<le> 1024)"
  "brief_none (State_Monad.return y) \<longleftrightarrow> (\<forall>e. y = Some e \<longrightarrow> length e \<le> 1024)"
  by (simp_all add: brief_def brief_none_def wp_simps)

lemma brief_bind: "(\<And>x. brief (f x)) \<Longrightarrow> brief (State_Monad.bind m f)"
  "(\<And>x. brief_none (g x)) \<Longrightarrow> brief_none (State_Monad.bind m g)"
  unfolding brief_def brief_none_def wp_bind by (auto intro: wp_trivial)

lemma brief_attempt: "brief m \<Longrightarrow> (\<And>v. brief (f v)) \<Longrightarrow> brief (attempt m f)"
  unfolding brief_def wp_attempt by (intro allI, rule wp_mono, erule spec) (auto split: sum.split)

lemma brief_ensure: "brief_none m \<Longrightarrow> brief k \<Longrightarrow> brief (ensure m k)"
  unfolding brief_def brief_none_def ensure_def wp_bind
  by (intro allI, rule wp_mono, erule spec) (auto simp: wp_simps split: option.split)

lemma first_error_in_Some: "first_error_in f xs = Some e \<Longrightarrow> \<exists>x\<in>set xs. f x = Some e"
  by (induction xs) (auto split: option.splits)

lemma errors_along_Some: "errors_along f before xs = Some e \<Longrightarrow> \<exists>b x. f b x = Some e"
  by (induction xs arbitrary: before) (auto split: option.splits)

lemma Some_guard: "Some e' = guard c e \<longleftrightarrow> c \<and> e' = e"
  by (auto simp: guard_def)

lemma brief_errors:
  "targetClaimError definition before c = Some e \<Longrightarrow> length e \<le> 1024" "backupPathError definition d p = Some e \<Longrightarrow> length e \<le> 1024"
  "claimError d permit backup c claim = Some e \<Longrightarrow> length e \<le> 1024"
  by (auto simp: targetClaimError_def backupPathError_def claimError_def Some_guard dest!: first_error_mem)

lemma brief_backup_error:
  "first_error [guard a ''exact succeeded backup and stopped runtime evidence are unavailable'', guard b ''backup does not prove the exact original world stayed cold'',
     first_error_in (backupPathError adapter d) ps] = Some e \<Longrightarrow> length e \<le> 1024"
  using brief_errors(2) first_error_in_Some [of "backupPathError adapter d" ps e] by (fastforce simp: Some_guard dest!: first_error_mem)

lemma brief_resolveBackup: "brief (resolveBackup r d adapter)"
proof -
  have secret: "brief (do { secret \<leftarrow> ask f;
      State_Monad.return (case secret of Inl e \<Rightarrow> Inl ''exact repository Secret revision is unavailable''
        | Inr m \<Rightarrow> if P m then Inl ''exact repository Secret revision is unavailable'' else Inr (Some b)) })" for f :: "nat \<Rightarrow> 'x + 'y" and P b
    by (rule brief_bind) (simp add: brief_return split: sum.split)
  show ?thesis
    unfolding resolveBackup_def
    by (auto simp: brief_return intro!: brief_bind(1) [where m = "ask f" for f] secret dest: brief_backup_error split: option.split sum.split)
qed

lemma brief_resolveServer: "brief_none (resolveServer r d backup)"
  unfolding resolveServer_def
  by (rule brief_bind) (auto simp: brief_return Some_guard dest!: first_error_mem split: sum.splits ApiError.splits)

lemma brief_resolveSelectors: "brief_none (resolveSelectors r d)"
  unfolding resolveSelectors_def by (rule brief_bind) (auto simp: brief_return Some_guard split: sum.splits)

lemma brief_resolveClaims: "brief (resolveClaims r d permit backup cs)"
proof (induction cs)
  case (Cons c cs)
  have "brief (resolveClaim r d permit backup c)"
    unfolding resolveClaim_def
    by (auto simp: brief_return intro!: brief_bind intro: brief_errors(3) split: option.splits sum.splits if_splits)
  then show ?case using Cons by (auto simp: brief_return intro!: brief_attempt)
qed (simp add: brief_return)

lemma brief_resolveUsers: "brief_none (resolveUsers r d names)"
  unfolding resolveUsers_def by (auto simp: brief_return Some_guard intro!: brief_bind split: sum.splits)

lemma brief_resolve: "brief (resolve r d permit)"
proof -
  have subject: "brief (State_Monad.return (resolveSubject r d adapter backup))" for adapter backup
    by (simp add: brief_return resolveSubject_def split: option.split)
  show ?thesis
    unfolding resolve_def
    by (auto simp: brief_return intro!: brief_attempt brief_ensure brief_resolveBackup brief_resolveServer brief_resolveSelectors
        brief_resolveClaims brief_resolveUsers subject dest!: errors_along_Some intro: brief_errors(1) split: sum.split option.split)
qed

lemma brief_requireDataLease: "brief_none (requireDataLease r d)"
  unfolding requireDataLease_def by (rule brief_bind) (auto simp: brief_return Some_guard split: sum.splits)

section \<open>Conditions and guidance\<close>

text \<open>What the schema needs to know of the object and of \<^verbatim>\<open>SetStatusCondition\<close>.\<close>

definition orderly :: "GameDestroyReconciler \<Rightarrow> GameDestroy \<Rightarrow> bool" where
  "orderly r d \<longleftrightarrow> sets_condition (gdr_SetStatusCondition r) \<and> 0 \<le> sint (meta_Generation (gd_Meta d)) \<and> conditions_ok (dst_Conditions (gd_Status d))"

text \<open>The fields of a written status that the specification of steps leaves open.\<close>

definition authored :: "GameDestroy \<Rightarrow> GameDestroyStatus \<Rightarrow> bool" where
  "authored d st \<longleftrightarrow> conditions_ok (dst_Conditions st) \<and>
     (\<forall>p. dst_Preview st = Some p \<longrightarrow> dst_Preview (gd_Status d) = Some p \<or> pv_RestoreGuidance p \<in> {verifiedGuidance, unsafeGuidance})"

definition writes :: "GameDestroy \<Rightarrow> 'a program \<Rightarrow> bool" where
  "writes d m \<longleftrightarrow> (\<forall>s. runs (\<lambda>_ q. \<forall>d'. q = StatusDestroy d' \<longrightarrow> authored d (gd_Status d')) m s)"

lemma writes_return [simp]: "writes d (State_Monad.return x)"
  by (simp add: writes_def)

lemma writes_bind: "writes d m \<Longrightarrow> (\<And>x. writes d (f x)) \<Longrightarrow> writes d (State_Monad.bind m f)"
  unfolding writes_def by (auto intro: runs_seq)

lemma writes_tidy: "(\<And>s. runs tidy m s) \<Longrightarrow> writes d m"
  unfolding writes_def by (rule allI, rule runs_mono [where P = tidy]) auto

lemma writes_ask [simp]: "writes d (ask g)"
  by (rule writes_tidy) simp

lemma writes_now [simp]: "writes d (now r)"
  by (simp add: now_def)

lemma writes_sent: "(\<And>d'. q \<noteq> StatusDestroy d') \<Longrightarrow> writes d (send r q)"
  unfolding writes_def by (auto intro: runs_send_only)

text \<open>The continuation may rely on what the first part returned.\<close>

lemma writes_result:
  assumes "writes d m" "\<And>s. wp m (\<lambda>x _. R x) s" "\<And>x. R x \<Longrightarrow> writes d (f x)"
  shows "writes d (State_Monad.bind m f)"
  unfolding writes_def
proof (intro allI)
  fix s
  let ?P = "\<lambda>_ q. \<forall>d'. q = StatusDestroy d' \<longrightarrow> authored d (gd_Status d')"
  have "wp m (\<lambda>x t. extends ?P s t \<and> R x) s"
    using assms(1) assms(2) [of s] by (auto simp: writes_def runs_def wp_def split: prod.splits)
  then show "runs ?P (State_Monad.bind m f) s"
    by (rule runs_bind) (use assms(3) in \<open>auto simp: writes_def\<close>)
qed

lemma observes_tidy: "observes m A \<Longrightarrow> runs tidy m s"
  by (auto simp: runs_def elim!: wp_mono [OF observesD] intro: reads_extends)

lemma observes_none_tidy: "observes_none m A \<Longrightarrow> runs tidy m s"
  by (auto simp: runs_def elim!: wp_mono [OF observes_noneD] intro: reads_extends)

lemma writes_resolve:
  assumes "\<And>e. length e \<le> 1024 \<Longrightarrow> writes d (f (Inl e))" "\<And>v. writes d (f (Inr v))"
  shows "writes d (State_Monad.bind (resolve r d' permit) f)"
proof (rule writes_result [where R = "\<lambda>x. \<forall>e. x = Inl e \<longrightarrow> length e \<le> 1024"])
  show "writes d (resolve r d' permit)" by (rule writes_tidy, rule observes_tidy [OF observes_resolve])
  show "wp (resolve r d' permit) (\<lambda>x _. \<forall>e. x = Inl e \<longrightarrow> length e \<le> 1024) s" for s using brief_resolve unfolding brief_def by blast
  show "writes d (f x)" if "\<forall>e. x = Inl e \<longrightarrow> length e \<le> 1024" for x using assms that by (cases x) auto
qed

lemma writes_lease:
  assumes "\<And>e. length e \<le> 1024 \<Longrightarrow> writes d (f (Some e))" "writes d (f None)"
  shows "writes d (State_Monad.bind (requireDataLease r d') f)"
proof (rule writes_result [where R = "\<lambda>x. \<forall>e. x = Some e \<longrightarrow> length e \<le> 1024"])
  show "writes d (requireDataLease r d')" by (rule writes_tidy, rule observes_none_tidy [OF observes_requireDataLease])
  show "wp (requireDataLease r d') (\<lambda>x _. \<forall>e. x = Some e \<longrightarrow> length e \<le> 1024) s" for s
    using brief_requireDataLease unfolding brief_none_def by blast
  show "writes d (f x)" if "\<forall>e. x = Some e \<longrightarrow> length e \<le> 1024" for x using assms that by (cases x) auto
qed

lemma writes_confirmed: "(\<And>x. writes d (f x)) \<Longrightarrow> writes d (State_Monad.bind (confirmed r d') f)"
  by (rule writes_bind, rule writes_tidy) (auto simp: runs_def intro: wp_mono [OF wp_confirmed] reads_extends)

lemma writes_tidy_programs:
  "writes d' (cleanupWorker r d)" "writes d' (releaseDataLease r d)" "writes d' (workerLease r d)" "writes d' (ensureWorkerResources r d res)"
  "writes d' (destroyJobArmed r d job)" "writes d' (armDestroyJob r d job)" "writes d' (authorizeWorkerPod r d job)" "writes d' (acquireDataLease r d)"
  by (rule writes_tidy, rule tidy_cleanupWorker tidy_releaseDataLease tidy_workerLease tidy_ensureWorkerResources
      tidy_destroyJobArmed tidy_armDestroyJob tidy_authorizeWorkerPod)+
     (rule writes_tidy, auto simp: runs_def intro: wp_mono [OF wp_acquireDataLease])

section \<open>The controller's texts\<close>

definition destroyReasons :: "string list" where
  "destroyReasons = [''Accepted'', ''Confirmed'', ''RepositoryVerified'', ''Destroyed'', ''Cancelled'', ''PreflightRejected'', ''ConfirmationExpired'',
     ''OperationConflict'', ''ColdContinuityLost'', ''WorkerResultInvalid'', ''RepositoryVerificationFailed'', ''WorkerIdentityChanged'',
     ''WorkerActivatedEarly'', ''WorkerInvalid'', ''IdentityMismatch'', ''JournalMismatch'', ''NameReused'', ''FinalAbsenceFailed'', ''VerificationMissing'']"

lemma destroyReasons_patterns: "list_all (\<lambda>s. reason_pattern s \<and> length s \<le> 1024) destroyReasons"
  by (simp add: destroyReasons_def reason_pattern_def char_class_defs)

lemma complete_type: "type_pattern ConditionOperationComplete" "length ConditionOperationComplete \<le> 316"
  by (simp_all add: ConditionOperationComplete_def type_pattern_def char_class_defs)

lemma guidance_texts: "1 \<le> chars verifiedGuidance" "chars verifiedGuidance \<le> 1024" "1 \<le> chars unsafeGuidance" "chars unsafeGuidance \<le> 1024"
proof -
  show "1 \<le> chars verifiedGuidance" "1 \<le> chars unsafeGuidance" by (rule chars_pos; simp add: verifiedGuidance_def unsafeGuidance_def)+
  have "length verifiedGuidance \<le> 1024" "length unsafeGuidance \<le> 1024" by (simp_all add: verifiedGuidance_def unsafeGuidance_def)
  then show "chars verifiedGuidance \<le> 1024" "chars unsafeGuidance \<le> 1024" using chars_le le_trans by blast+
qed

lemma completeCondition_schema:
  assumes "reason \<in> set destroyReasons" "length message \<le> 1024" "0 \<le> sint (meta_Generation (gd_Meta d))"
  shows "condition_schema (completeCondition d state reason message t)" "cond_Type (completeCondition d state reason message t) = ConditionOperationComplete"
proof -
  have "reason_pattern reason" "length reason \<le> 1024" using assms(1) destroyReasons_patterns unfolding list_all_iff by blast+
  then show "condition_schema (completeCondition d state reason message t)"
    using assms(2,3) complete_type chars_le [of reason] chars_le [of message] chars_le [of ConditionOperationComplete]
    by (simp add: condition_schema_def completeCondition_def)
qed (simp add: completeCondition_def)

section \<open>The controller\<close>

lemma writes_update_status: "authored d (f (gd_Status d)) \<Longrightarrow> writes d (update_status r d f)"
  unfolding update_status_def writes_def by (auto intro!: runs_send)

lemma stored_condition:
  assumes "orderly r d" "reason \<in> set destroyReasons" "length message \<le> 1024" "conditions_ok cs"
  shows "conditions_ok (gdr_SetStatusCondition r cs (completeCondition d state reason message t))"
proof -
  have o: "sets_condition (gdr_SetStatusCondition r)" "0 \<le> sint (meta_Generation (gd_Meta d))" using assms(1) by (simp_all add: orderly_def)
  show ?thesis by (rule set_condition_ok [OF o(1) assms(4) completeCondition_schema [OF assms(2,3) o(2)]])
qed

lemma writes_hold:
  assumes "orderly r d" "reason \<in> set destroyReasons" "length message \<le> 1024"
  shows "writes d (hold r d reason message)"
proof -
  have "conditions_ok (dst_Conditions (gd_Status d))" using assms(1) by (simp add: orderly_def)
  then show ?thesis
    unfolding hold_def
    by (intro writes_bind writes_now writes_update_status writes_return) (simp add: authored_def stored_condition [OF assms])
qed

lemma writes_status:
  assumes "orderly r d" "reason \<in> set destroyReasons" "length message \<le> 1024"
  shows "writes d (status r d phase reason message)"
proof -
  have old: "conditions_ok (dst_Conditions (gd_Status d))" using assms(1) by (simp add: orderly_def)
  have final: "writes d (update_status r d (\<lambda>st. st\<lparr> dst_Phase := phase, dst_ObservedGeneration := g, dst_StartedAt := a, dst_CompletedAt := b, dst_Conditions := cs \<rparr>))"
    if "conditions_ok cs" for a b g cs
    using that by (intro writes_update_status) (simp add: authored_def)
  have conditions: "writes d (do { cs \<leftarrow> (if c then do { t \<leftarrow> now r; State_Monad.return (gdr_SetStatusCondition r cs (completeCondition d state reason message t)) }
        else State_Monad.return cs);
      update_status r d (\<lambda>st. st\<lparr> dst_Phase := phase, dst_ObservedGeneration := g, dst_StartedAt := a, dst_CompletedAt := b, dst_Conditions := cs \<rparr>) })"
    if "conditions_ok cs" for c cs state a b g
  proof (rule writes_result [where R = conditions_ok])
    show "writes d (if c then do { t \<leftarrow> now r; State_Monad.return (gdr_SetStatusCondition r cs (completeCondition d state reason message t)) } else State_Monad.return cs)"
      by (simp add: writes_bind)
    show "wp (if c then do { t \<leftarrow> now r; State_Monad.return (gdr_SetStatusCondition r cs (completeCondition d state reason message t)) } else State_Monad.return cs)
        (\<lambda>x _. conditions_ok x) s" for s
      using that stored_condition [OF assms] by (simp add: wp_simps)
  qed (rule final)
  show ?thesis
    unfolding status_def Let_def
    by (rule writes_bind, simp split: option.split, rule writes_bind, simp add: writes_bind, rule writes_bind [OF writes_now],
        rule conditions [OF stored_condition [OF assms old]])
qed

lemma writes_finish_status:
  "orderly r d \<Longrightarrow> reason \<in> set destroyReasons \<Longrightarrow> length message \<le> 1024 \<Longrightarrow> writes d (finish_status r d phase reason message)"
  unfolding finish_status_def by (intro writes_bind writes_status writes_return)

lemma writes_fail:
  "orderly r d \<Longrightarrow> reason \<in> set destroyReasons \<Longrightarrow> length message \<le> 1024 \<Longrightarrow> writes d (fail r d reason message)"
  unfolding fail_def by (auto intro: writes_hold writes_bind writes_status)

text \<open>The reasons that occur, one by one.\<close>

lemma reasons [simp]:
  "''Accepted'' \<in> set destroyReasons" "''Confirmed'' \<in> set destroyReasons" "''RepositoryVerified'' \<in> set destroyReasons" "''Destroyed'' \<in> set destroyReasons"
  "''Cancelled'' \<in> set destroyReasons" "''PreflightRejected'' \<in> set destroyReasons" "''ConfirmationExpired'' \<in> set destroyReasons"
  "''OperationConflict'' \<in> set destroyReasons" "''ColdContinuityLost'' \<in> set destroyReasons" "''WorkerResultInvalid'' \<in> set destroyReasons"
  "''RepositoryVerificationFailed'' \<in> set destroyReasons" "''WorkerIdentityChanged'' \<in> set destroyReasons" "''WorkerActivatedEarly'' \<in> set destroyReasons"
  "''WorkerInvalid'' \<in> set destroyReasons" "''IdentityMismatch'' \<in> set destroyReasons" "''JournalMismatch'' \<in> set destroyReasons"
  "''NameReused'' \<in> set destroyReasons" "''FinalAbsenceFailed'' \<in> set destroyReasons" "''VerificationMissing'' \<in> set destroyReasons"
  by (simp_all add: destroyReasons_def)

lemma writes_preview:
  assumes "orderly r d"
  shows "writes d (preview r d)"
proof -
  have "conditions_ok (dst_Conditions (gd_Status d))" using assms by (simp add: orderly_def)
  then show ?thesis
    unfolding preview_def using assms
    by (intro writes_resolve) (auto simp: authored_def intro!: writes_fail writes_bind writes_update_status split: option.split)
qed

lemma writes_confirm: "orderly r d \<Longrightarrow> writes d (confirm r d)"
  unfolding confirm_def
  by (auto intro!: writes_confirmed writes_resolve writes_fail writes_finish_status writes_bind [OF writes_tidy_programs(8)] split: option.split)

lemma writes_after_cleanup: "writes d k \<Longrightarrow> writes d (after_cleanup r d k)"
  unfolding after_cleanup_def by (rule writes_bind [OF writes_tidy_programs(1)]) (simp split: sum.split)

lemma writes_after_release: "writes d k \<Longrightarrow> writes d (after_release r d k)"
  unfolding after_release_def by (rule writes_after_cleanup, rule writes_bind [OF writes_tidy_programs(2)]) (simp split: option.split)

lemma writes_verifyResult:
  assumes "orderly r d"
  shows "writes d (verifyResult r d i pod)"
proof -
  have old: "conditions_ok (dst_Conditions (gd_Status d))" using assms by (simp add: orderly_def)
  have proof_written: "writes d (do { t \<leftarrow> now r; e \<leftarrow> update_status r d (\<lambda>st. st\<lparr> dst_Verification := f t \<rparr>); State_Monad.return (finished e) })" for f
    using old by (intro writes_bind writes_update_status) (simp_all add: authored_def)
  show ?thesis
    unfolding verifyResult_def
    by (auto intro!: writes_bind proof_written writes_fail [OF assms] split: sum.split)
qed

lemma writes_verifyArmed: "orderly r d \<Longrightarrow> writes d (verifyArmed r d i job)"
  unfolding verifyArmed_def
  by (auto intro!: writes_fail writes_verifyResult writes_bind [OF writes_tidy_programs(7)] writes_bind [OF writes_sent] split: sum.split prod.split)

lemma writes_verifyJob: "orderly r d \<Longrightarrow> writes d (verifyJob r d i job)"
  unfolding verifyJob_def
  by (rule writes_bind [OF writes_ask])
     (auto intro!: writes_fail writes_verifyArmed writes_bind [OF writes_tidy_programs(5)] writes_bind [OF writes_tidy_programs(6)] split: sum.split bool.split)

lemma writes_verifyWorker: "orderly r d \<Longrightarrow> writes d (verifyWorker r d s)"
  unfolding verifyWorker_def
  by (rule writes_bind [OF writes_tidy_programs(3)])
     (auto intro!: writes_fail writes_verifyJob writes_bind [OF writes_tidy_programs(4)] split: sum.split prod.split option.split)

lemma writes_verify: "orderly r d \<Longrightarrow> writes d (verify r d)"
  unfolding verify_def verifyDone_def
  by (auto intro!: writes_lease writes_resolve writes_confirmed writes_fail writes_after_cleanup writes_finish_status writes_verifyWorker)

lemma writes_deleteClaim: "orderly r d \<Longrightarrow> writes d (deleteClaim r d claim)"
  unfolding deleteClaim_def delete_object_def
  by (auto intro!: writes_lease writes_resolve writes_hold writes_bind [OF writes_sent])

lemma writes_deleteLoop:
  assumes "orderly r d"
  shows "writes d (deleteLoop r d cs)"
proof (induction cs)
  case (Cons c cs)
  have old: "conditions_ok (dst_Conditions (gd_Status d))" using assms by (simp add: orderly_def)
  have journal: "writes d (do { t \<leftarrow> now r; e \<leftarrow> update_status r d (\<lambda>st. st\<lparr> dst_DeletionJournal := f t st \<rparr>); State_Monad.return (Some (requeue e)) })" for f
    using old by (intro writes_bind writes_update_status) (simp_all add: authored_def)
  show ?case
    unfolding deleteLoop.simps
    by (auto simp del: bind_assoc intro!: journal Cons writes_bind [OF writes_ask] writes_bind [OF writes_hold [OF assms]]
        writes_bind [OF writes_deleteClaim [OF assms]] split: option.split sum.split ApiError.split)
qed simp

lemma writes_deleteClaims: "orderly r d \<Longrightarrow> writes d (deleteClaims r d)"
  unfolding deleteClaims_def deleteTargets_def
  by (auto intro!: writes_confirmed writes_lease writes_resolve writes_hold writes_fail writes_after_cleanup writes_finish_status
      writes_bind [OF writes_deleteLoop] split: option.split)

lemma writes_reconcileDestroy:
  assumes "orderly r d"
  shows "writes d (reconcileDestroy r d)"
proof -
  have "writes d (reconcilePhase r d)"
    unfolding reconcilePhase_def using assms
    by (auto intro!: writes_finish_status writes_preview writes_confirm writes_verify writes_deleteClaims split: GameDestroyPhase.split)
  then show ?thesis
    unfolding reconcileDestroy_def finalize_def removeFinalizer_def addFinalizer_def using assms
    by (auto intro!: writes_after_release writes_finish_status writes_bind [OF writes_sent])
qed

lemma sent_authored:
  assumes "orderly r d" "cl_GameDestroy r n namespace name = Inr d" "(k, StatusDestroy d') \<in> set (sent r n namespace name)"
  shows "authored d (gd_Status d')"
proof -
  let ?P = "\<lambda>_ q. \<forall>d'. q = StatusDestroy d' \<longrightarrow> authored d (gd_Status d')" and ?s = "\<lparr> ses_calls = n, ses_log = [] \<rparr>"
  have "runs ?P (Reconcile r namespace name) ?s"
    unfolding Reconcile_def
    by (rule runs_ask) (use writes_reconcileDestroy [OF assms(1)] assms(2) in \<open>simp add: writes_def\<close>)
  then show ?thesis using runs_permitted_log [of ?P _ ?s] assms(3) unfolding sent_def by fastforce
qed

section \<open>The schema of a written status\<close>

text \<open>Every backup that the API server returns has passed the schema of its own artifact.\<close>

definition backups_admitted :: "GameDestroyReconciler \<Rightarrow> bool" where
  "backups_admitted r \<longleftrightarrow> (\<forall>k namespace name b artifact. cl_GameBackup r k namespace name = Inr b \<longrightarrow> st_Artifact (gb_Status b) = Some artifact \<longrightarrow>
     1 \<le> chars (art_ID artifact) \<and> chars (art_ID artifact) \<le> 128 \<and> sha256_pattern (art_ManifestDigest artifact))"

text \<open>The random source fills the 24 bytes it is asked for.\<close>

definition random_filled :: "GameDestroyReconciler \<Rightarrow> bool" where
  "random_filled r \<longleftrightarrow> (\<forall>k b. cl_Random r k = Some b \<longrightarrow> length b = 24)"

lemma challenge_schema: "length b = 24 \<Longrightarrow> challenge_pattern (RawURLEncode b)"
  using RawURLEncode_alphabet [of b] alphabet_pattern by (auto simp: challenge_pattern_def length_RawURLEncode list_all_iff)

lemma verification_schema:
  assumes "backups_admitted r" "destroy_spec_schema (gd_Spec d)" "claims_keyed (targetOf d)" "cold r d permit m n s" "dsub_backup s = Some b" "proof_for d b v"
  shows "destroy_verification_schema v"
proof -
  have b: "backup_proves r d (dsub_definition s) b"
    "seen m n (\<lambda>k. cl_GameBackup r k (namespaceOf d) (ref_Name (the (ds_BackupRef (gd_Spec d)))) = Inr b)"
    using assms(4,5) by (auto simp: cold_def)
  then obtain artifact where artifact: "st_Artifact (gb_Status b) = Some artifact" by (auto simp: backup_proves_def backupUnavailable_def)
  then have stored: "1 \<le> chars (art_ID artifact)" "chars (art_ID artifact) \<le> 128" "sha256_pattern (art_ManifestDigest artifact)"
    using assms(1) b(2) unfolding backups_admitted_def seen_def by blast+
  have refs: "local_ref_schema (the (ds_BackupRef (gd_Spec d)))" "secret_ref_schema (the (ds_RepositorySecretRef (gd_Spec d)))"
    using assms(2) b(1) by (auto simp: backup_proves_def destroy_spec_schema_def)
  have "sint (int32_of_len (claimsOf d)) = int (length (claimsOf d))" "1 \<le> length (claimsOf d)" "length (claimsOf d) \<le> 16"
    using assms(3) by (auto simp: claims_keyed_def Suc_le_eq intro: sint_int32_of_len)
  then show ?thesis using assms(6) artifact stored refs by (simp add: destroy_verification_schema_def proof_for_def)
qed

lemma marked_schema: "list_all journal_entry_schema j \<Longrightarrow> list_all journal_entry_schema (markDeleted path t j)"
  by (induction j) (auto simp: markDeleted_def journal_entry_schema_def)

text \<open>What a step may write in preview, verification and journal.\<close>

lemma destroy_step_schema:
  assumes "destroy_step r m n d st'" "destroy_schema d" "claims_keyed (targetOf d)" "authored d st'" "backups_admitted r" "random_filled r"
  shows "destroy_status_schema st'"
proof -
  have old: "destroy_spec_schema (gd_Spec d)" "destroy_status_schema (gd_Status d)" using assms(2) by (simp_all add: destroy_schema_def)
  have conditions: "conditions_schema (dst_Conditions st')" using assms(4) by (simp add: authored_def conditions_ok_def)
  have claims: "claim_ref_schema c" if "c \<in> set (claimsOf d)" for c
    using old(1) that by (simp add: destroy_spec_schema_def destroy_target_schema_def list_all_iff)
  have guidance: "1 \<le> chars (pv_RestoreGuidance p) \<and> chars (pv_RestoreGuidance p) \<le> 1024" if "dst_Preview st' = Some p" for p
    using assms(4) that old(2) guidance_texts by (auto simp: authored_def destroy_status_schema_def destroy_preview_schema_def)
  note parts = old(2) [unfolded destroy_status_schema_def]
  show ?thesis
    using assms(1)
  proof cases
    case (previewed s c p)
    have "challenge_pattern (pv_Challenge p)"
      using previewed(3,6) assms(6) challenge_schema by (auto simp: seen_def random_filled_def)
    then show ?thesis using previewed parts conditions guidance [OF previewed(5)] by (simp add: destroy_status_schema_def destroy_preview_schema_def)
  next
    case (verified s b v)
    have "destroy_verification_schema v" by (rule verification_schema [OF assms(5) old(1) assms(3) verified(5,6,10)])
    then show ?thesis using verified parts conditions by (simp add: destroy_status_schema_def)
  next
    case (announced c t)
    then show ?thesis using parts conditions claims [OF announced(2)] by (simp add: destroy_status_schema_def journal_entry_schema_def claim_ref_schema_def)
  next
    case (observed c e t)
    then show ?thesis using parts conditions by (simp add: destroy_status_schema_def marked_schema)
  qed (use parts conditions in \<open>simp_all add: destroy_status_schema_def kept_def\<close>)
qed

text \<open>
  C9. The API server accepts every status that the controller writes, so the controller cannot block itself. The
  write violates no rule that compares fields or their old values, and the written object passes the whole
  schema: the pattern and length of every name, UID, path, digest, challenge, guidance, reason and message, the
  absence of a namespace in every nested reference, the bounds of the path count, the key and size of every
  list. This holds for a stored object that passes the same schema and has at most the controller's own
  condition, which the written object again has; for the documented behaviour of \<^verbatim>\<open>meta.SetStatusCondition\<close>, of the
  random source and of the API server's own validation of backups; and for a nonnegative generation.
\<close>
theorem status_writes_admitted:
  assumes "lifecycle d" "cl_GameDestroy r n namespace name = Inr d" "(k, StatusDestroy d') \<in> set (sent r n namespace name)"
    and "destroy_schema d" "own_conditions d" "0 \<le> sint (meta_Generation (gd_Meta d))"
    and "sets_condition (gdr_SetStatusCondition r)" "backups_admitted r" "random_filled r"
  shows "destroy_admits d d' \<and> destroy_schema d' \<and> own_conditions d'"
proof -
  have ok: "destroy_ok d" using assms(1) by (rule lifecycle_ok)
  then have claims: "claims_keyed (targetOf d)" by (simp add: destroy_ok_def destroy_valid_def)
  have "conditions_ok (dst_Conditions (gd_Status d))"
    using assms(4,5) by (simp add: conditions_ok_def own_conditions_def destroy_schema_def destroy_status_schema_def)
  then have orderly: "orderly r d" using assms(6,7) by (simp add: orderly_def)
  obtain st' where st': "d' = d\<lparr> gd_Status := st' \<rparr>" "destroy_step r (Suc n) k d st'"
    using sent_permitted [OF assms(3,2)] by (auto simp: permitted_def)
  have authored: "authored d st'" using sent_authored [OF orderly assms(2,3)] st'(1) by simp
  then have "own_conditions d'" by (simp add: st'(1) own_conditions_def authored_def conditions_ok_def)
  moreover have "destroy_schema d'"
    using destroy_step_schema [OF st'(2) assms(4) claims authored assms(8,9)] assms(4) by (simp add: st'(1) destroy_schema_def)
  moreover have "destroy_admits d d'" using status_write_admitted [OF ok] destroy_step_ok [OF ok st'(2)] st'(1) by simp
  ultimately show ?thesis by simp
qed

section \<open>The preview of the example\<close>

lemma sets_setCondition: "sets_condition setCondition"
proof -
  have "map cond_Type (setCondition cs c) = (if cond_Type c \<in> set (map cond_Type cs) then map cond_Type cs else map cond_Type cs @ [cond_Type c])" for cs c
    by (induction cs) auto
  moreover have "\<exists>t. x = c\<lparr> cond_LastTransitionTime := t \<rparr>" if "x \<in> set (setCondition cs c)" "x \<notin> set cs" for x cs c
  proof -
    have same: "\<exists>t. c = c\<lparr> cond_LastTransitionTime := t \<rparr>" by (rule exI [of _ "cond_LastTransitionTime c"]) simp
    show ?thesis using that by (induction cs) (auto simp: same split: if_splits)
  qed
  ultimately show ?thesis unfolding sets_condition_def by blast
qed

lemma x_schema: "destroy_schema (xDestroy [] xPending)"
  by (simp add: destroy_schema_def destroy_spec_schema_def destroy_target_schema_def claim_ref_schema_def local_ref_schema_def destroy_status_schema_def
      conditions_schema_def condition_schema_def name_pattern_def reason_pattern_def type_pattern_def chars_def dns_label_def char_class_defs
      xTarget_def xData_def xClaims_def xPending_def xEmpty_def xCondition_def ConditionOperationComplete_def)

theorem status_writes_admitted_witness:
  "destroy_admits (xDestroy [] xPending) (xDestroy [] xPreview) \<and> destroy_schema (xDestroy [] xPreview)"
proof -
  let ?d = "xDestroy [] xPending" and ?r = "xCluster (xDestroy [] xPending) False"
  obtain k where sent: "(k, StatusDestroy (xDestroy [] xPreview)) \<in> set (sent ?r 0 ''games'' ''destroy-1'')" using x_sent_preview by blast
  have life: "lifecycle ?d" by (rule lifecycle.written [OF x_created x_accepted])
  have "own_conditions ?d" by (simp add: own_conditions_def xPending_def xCondition_def)
  moreover have "0 \<le> sint (meta_Generation (gd_Meta ?d))" by (simp add: xDestroy_def xMeta_def)
  moreover have "backups_admitted ?r" "random_filled ?r" by (simp_all add: backups_admitted_def random_filled_def xCluster_def)
  ultimately show ?thesis using status_writes_admitted [OF life _ sent x_schema] sets_setCondition by simp
qed

end
