(* ===== verification/JsonStrings.thy ===== *)
theory JsonStrings
  imports CanonicalJsonBudget
begin

text \<open>
  Reading inverts quoting: a quoted string is read back as it was, and what is read from valid UTF-8 is
  valid UTF-8.
\<close>

section \<open>Valid texts\<close>

lemma utf8_size_append: "utf8_size s \<noteq> 0 \<Longrightarrow> utf8_size (s @ r) = utf8_size s"
  by (metis append.assoc append_take_drop_id utf8_size_take)

lemma utf8_Valid_append: "utf8_Valid s \<Longrightarrow> utf8_Valid (s @ r) = utf8_Valid r"
proof (induction s rule: utf8_Valid.induct)
  case (1 s)
  show ?case
  proof (cases "s = []")
    case False
    note step = utf8_Valid_step [OF 1(2) False]
    have "utf8_Valid (s @ r) = utf8_Valid (drop (utf8_size s) (s @ r))"
      using False step(1) utf8_size_append [OF step(1), of r] by (subst utf8_Valid.simps) simp
    also have "drop (utf8_size s) (s @ r) = drop (utf8_size s) s @ r" using utf8_size_le [of s] by simp
    also have "utf8_Valid \<dots> = utf8_Valid r" using 1 False step by simp
    finally show ?thesis .
  qed simp
qed

lemma utf8_Valid_Nil [simp]: "utf8_Valid []"
  by (simp add: utf8_Valid.simps)

lemma utf8_Valid_take: "utf8_size s \<noteq> 0 \<Longrightarrow> utf8_Valid (take (utf8_size s) s)"
proof -
  assume s: "utf8_size s \<noteq> 0"
  then have "utf8_size (take (utf8_size s) s) = utf8_size s" using utf8_size_take [of s "[]"] by simp
  then show ?thesis by (subst utf8_Valid.simps) (simp add: s)
qed

lemma utf8_Valid_ascii: "(of_char c :: nat) < 128 \<Longrightarrow> utf8_Valid (c # s) = utf8_Valid s"
  using utf8_size_1 [of "c # s"] by (subst utf8_Valid.simps) simp

lemma utf8_Valid_ascii_list: "\<forall>c\<in>set a. (of_char c :: nat) < 128 \<Longrightarrow> utf8_Valid (a @ s) = utf8_Valid s"
  by (induction a) (simp_all add: utf8_Valid_ascii)

lemma size_two: "(x :: nat) < 256 \<Longrightarrow> (y :: nat) < 256 \<Longrightarrow> 194 \<le> x \<Longrightarrow> x \<le> 223 \<Longrightarrow> 128 \<le> y \<Longrightarrow> y \<le> 191 \<Longrightarrow> utf8_size [char_of x, char_of y] = 2"
  by (simp add: utf8_size.simps utf8_tail_def)

lemma EncodeRune_Valid: "utf8_Valid (EncodeRune r)"
proof -
  have mod: "n mod 64 \<le> 63" for n :: nat using mod_less_divisor [of 64 n] by simp
  note tail = mod [of r] mod [of "r div 64"] mod [of "r div 4096"]
  consider "r < 128" | "128 \<le> r" "r < 2048" | "55296 \<le> r \<and> r < 57344 \<or> 1114112 \<le> r"
    | "2048 \<le> r" "r < 65536" "\<not> (55296 \<le> r \<and> r < 57344)" | "65536 \<le> r" "r < 1114112" by linarith
  then have "utf8_size (EncodeRune r) = length (EncodeRune r)"
  proof cases
    case 1
    then show ?thesis by (simp add: EncodeRune_def utf8_size.simps)
  next
    case 2
    then have "192 + r div 64 < 256" "194 \<le> 192 + r div 64" "192 + r div 64 \<le> 223" by auto
    then show ?thesis using 2 tail(1) size_two [of "192 + r div 64" "128 + r mod 64"] by (simp add: EncodeRune_def)
  next
    case 3
    then show ?thesis by (auto simp: EncodeRune_def RuneError_def utf8_size.simps utf8_tail_def)
  next
    case 4
    have "224 + r div 4096 \<le> 239" using 4 by auto
    moreover have "r div 4096 = 0 \<Longrightarrow> 32 \<le> r div 64 mod 64" using 4 by auto
    moreover have "r div 4096 = 13 \<Longrightarrow> r div 64 mod 64 \<le> 31"
    proof -
      assume "r div 4096 = 13"
      then have "r div 64 div 64 = 13" by (simp add: div_mult2_eq [symmetric])
      moreover have "r div 64 < 864" using 4(3) \<open>r div 4096 = 13\<close> by auto
      ultimately show ?thesis using div_mult_mod_eq [of "r div 64" 64] by simp
    qed
    ultimately show ?thesis using 4 tail by (auto simp: EncodeRune_def utf8_size.simps utf8_tail_def Let_def)
  next
    case 5
    have "240 + r div 262144 \<le> 244" using 5 by auto
    moreover have "r div 262144 = 0 \<Longrightarrow> 16 \<le> r div 4096 mod 64" using 5 by auto
    moreover have "r div 262144 = 4 \<Longrightarrow> r div 4096 mod 64 \<le> 15"
    proof -
      assume "r div 262144 = 4"
      then have "r div 4096 div 64 = 4" by (simp add: div_mult2_eq [symmetric])
      moreover have "r div 4096 < 272" using 5 by auto
      ultimately show ?thesis using div_mult_mod_eq [of "r div 4096" 64] by simp
    qed
    ultimately show ?thesis using 5 tail by (auto simp: EncodeRune_def utf8_size.simps utf8_tail_def Let_def)
  qed
  then show ?thesis by (subst utf8_Valid.simps) (cases "EncodeRune r", auto)
qed

section \<open>What is read is valid\<close>

lemma hex_value_ascii: "hex_value c = Some n \<Longrightarrow> (of_char c :: nat) < 128"
  by (auto simp: hex_value_def is_digit_def Let_def split: if_splits)

lemma getu4_Valid: "getu4 s = Some r \<Longrightarrow> utf8_Valid s = utf8_Valid (drop 4 s)"
  by (auto simp: getu4_def utf8_Valid_ascii dest!: hex_value_ascii split: list.splits option.splits)

lemma RuneError_Valid: "utf8_Valid RuneError"
  using EncodeRune_Valid [of 55296] by (simp add: EncodeRune_def)

lemma read_unicode_Valid: "read_unicode s = Some (b, r) \<Longrightarrow> utf8_Valid s \<Longrightarrow> utf8_Valid b \<and> utf8_Valid r"
proof -
  assume *: "read_unicode s = Some (b, r)" "utf8_Valid s"
  then obtain x where x: "getu4 s = Some x" by (auto simp: read_unicode_def split: option.splits)
  then have 4: "utf8_Valid (drop 4 s)" using getu4_Valid *(2) by blast
  have 10: "utf8_Valid (drop 10 s)" if pre: "HasPrefix (drop 4 s) [CHR 0x5C, CHR ''u'']" and low: "getu4 (drop 6 s) = Some low" for low
  proof -
    obtain q where q: "drop 4 s = [CHR 0x5C, CHR ''u''] @ q" using HasPrefix_iff [THEN iffD1, OF pre] by blast
    then have "drop 2 (drop 4 s) = q" by simp
    then have "drop 6 s = q" by simp
    moreover have "drop 4 (drop 6 s) = drop 10 s" by simp
    ultimately show ?thesis using getu4_Valid [OF low] 4 q by (simp add: utf8_Valid_ascii)
  qed
  show ?thesis using *(1) x 4 10 RuneError_Valid EncodeRune_Valid
    by (auto simp: read_unicode_def split: option.splits if_splits)
qed

lemma read_escape_Valid: "read_escape s = Some (b, r) \<Longrightarrow> utf8_Valid s \<Longrightarrow> utf8_Valid b \<and> utf8_Valid r"
  by (auto simp: read_escape_def utf8_Valid_ascii dest: read_unicode_Valid split: list.splits if_splits)

lemma read_string_Valid: "read_string s = Some (b, r) \<Longrightarrow> utf8_Valid s \<Longrightarrow> utf8_Valid b \<and> utf8_Valid r"
proof (induction s arbitrary: b rule: read_string.induct)
  case (1 s)
  then obtain c q where s: "s = c # q" by (cases s) (auto simp: read_string.simps)
  show ?case
  proof (cases "c = CHR 0x22 \<or> c = CHR 0x5C")
    case True
    then have q: "utf8_Valid q" using 1(5) s by (auto simp: utf8_Valid_ascii)
    show ?thesis
    proof (cases "c = CHR 0x22")
      case True
      with 1(4) s q show ?thesis by (simp add: read_string.simps)
    next
      case quote: False
      with True have slash: "c = CHR 0x5C" by simp
      with 1(4) s quote obtain b1 q1 b2 where e: "read_escape q = Some (b1, q1)" "read_string q1 = Some (b2, r)" "b = b1 @ b2"
        by (subst (asm) read_string.simps) (auto simp: prepend_Some split: option.splits)
      from read_escape_Valid [OF e(1) q] have v: "utf8_Valid b1" "utf8_Valid q1" by auto
      with 1(1) [OF s quote slash e(1) _ e(2)] e(3) show ?thesis by (auto simp: utf8_Valid_append)
    qed
  next
    case False
    with 1(4) s have small: "\<not> (of_char c :: nat) < 32"
      by (subst (asm) read_string.simps) (auto split: if_splits)
    have size: "utf8_size s \<noteq> 0" "utf8_Valid (drop (utf8_size s) s)" using utf8_Valid_step [OF 1(5)] s by auto
    with 1(4) s False small obtain b2 where e: "read_string (drop (utf8_size s) s) = Some (b2, r)" "b = take (utf8_size s) s @ b2"
      by (subst (asm) read_string.simps) (auto simp: prepend_Some)
    have "utf8_Valid b2 \<and> utf8_Valid r" using 1(3) [OF s _ _ small size(1) e(1) size(2)] False by simp
    with e(2) utf8_Valid_take [OF size(1)] show ?thesis by (simp add: utf8_Valid_append)
  qed
qed

section \<open>Quoted strings are read back\<close>

lemma hex_value_lower: "n < 16 \<Longrightarrow> hex_value (lower_hex_digit n) = Some n"
  by (auto simp: hex_value_def lower_hex_digit_def is_digit_def Let_def)

lemma getu4_byte:
  "getu4 (CHR ''0'' # CHR ''0'' # lower_hex_digit ((of_char c :: nat) div 16) # lower_hex_digit (of_char c mod 16) # r) = Some (of_char c)"
proof -
  have "(of_char c :: nat) div 16 < 16" by (rule less_mult_imp_div_less) (simp add: nat_of_char_less_256 [simplified])
  moreover have "hex_value (CHR ''0'') = Some 0" by (simp add: hex_value_def is_digit_def)
  ultimately show ?thesis by (simp add: getu4_def hex_value_lower)
qed

lemma read_escape_byte:
  assumes "escape_special c"
  obtains q where "json_escape_byte c = CHR 0x5C # q" "\<And>r. (of_char c :: nat) < 128 \<Longrightarrow> read_escape (q @ r) = Some ([c], r)"
  using assms
proof (cases c rule: escape_byte_cases)
  case pair
  then show thesis using that [of "[escape_letter c]"] by (auto simp: read_escape_def escape_letter_def)
next
  case unicode
  let ?q = "[CHR ''u'', CHR ''0'', CHR ''0'', lower_hex_digit (of_char c div 16), lower_hex_digit (of_char c mod 16)]"
  have "read_escape (?q @ r) = Some ([c], r)" if "(of_char c :: nat) < 128" for r
    using that getu4_byte [of c r] by (simp add: read_escape_def read_unicode_def surrogate_def EncodeRune_def)
  with unicode show thesis using that [of ?q] by simp
qed

lemma read_string_tok:
  assumes "utf8_size s \<noteq> 0"
  shows "read_string (tok s @ r) = prepend (take (utf8_size s) s) (read_string r)"
proof -
  consider "utf8_size s = 1" | "2 \<le> utf8_size s" using assms by linarith
  then show ?thesis
  proof cases
    case 1
    then obtain c q where s: "s = c # q" "(of_char c :: nat) < 128" using utf8_size_1 [of s] by (cases s) auto
    show ?thesis
    proof (cases "escape_special c")
      case True
      then obtain q' where q': "json_escape_byte c = CHR 0x5C # q'" "read_escape (q' @ r) = Some ([c], r)"
        using s(2) by (metis read_escape_byte)
      then have "tok s = CHR 0x5C # q'" using tok_one [OF 1] s(1) by simp
      then show ?thesis using 1 s(1) q'(2) by (subst read_string.simps) simp
    next
      case False
      then have c: "json_escape_byte c = [c]" "c \<noteq> CHR 0x22" "c \<noteq> CHR 0x5C" using escape_plain by auto
      then have "\<not> (of_char c :: nat) < 32" by (auto simp: json_escape_byte_def Let_def split: if_splits)
      moreover have "tok s = [c]" "utf8_size (c # r) = 1" using tok_one [OF 1] utf8_size_1 [of "c # r"] s c by auto
      ultimately show ?thesis using 1 s(1) c by (subst read_string.simps) simp
    qed
  next
    case 2
    then show ?thesis
    proof (cases rule: tok_many)
      case raw
      have "utf8_size (tok s @ r) = utf8_size s" using utf8_size_take [OF assms, of r] raw(1) by simp
      moreover obtain c q where cq: "tok s = c # q" "194 \<le> (of_char c :: nat)" using raw(2,3) by (cases "tok s") auto
      moreover have "length (tok s) = utf8_size s" using raw(1) utf8_size_le [of s] by simp
      then have "take (utf8_size s) (tok s @ r) = tok s" "drop (utf8_size s) (tok s @ r) = r" by simp_all
      ultimately show ?thesis using raw(1) assms by (subst read_string.simps) auto
    next
      case sep1
      then show ?thesis by (subst read_string.simps) (simp add: read_escape_def read_unicode_def getu4_def hex_value_def is_digit_def surrogate_def EncodeRune_def char_of_def bit_simps)
    next
      case sep2
      then show ?thesis by (subst read_string.simps) (simp add: read_escape_def read_unicode_def getu4_def hex_value_def is_digit_def surrogate_def EncodeRune_def char_of_def bit_simps)
    qed
  qed
qed

lemma read_string_escape: "utf8_Valid s \<Longrightarrow> read_string (json_escape s @ CHR 0x22 # r) = Some (s, r)"
proof (induction s rule: utf8_Valid.induct)
  case (1 s)
  show ?case
  proof (cases "s = []")
    case True
    then show ?thesis by (simp add: json_escape.simps read_string.simps)
  next
    case False
    note step = utf8_Valid_step [OF 1(2) False]
    have "json_escape s = tok s @ json_escape (drop (utf8_size s) s)"
      using json_escape_tok [OF False] step(1) by (simp add: max_def)
    then show ?thesis using read_string_tok [OF step(1)] 1(1) [OF False step] by (simp add: prepend_def)
  qed
qed

end
