(* ===== verification/CanonicalJsonStable.thy ===== *)
theory CanonicalJsonStable
  imports JsonStrings
begin

text \<open>
  Canonical JSON is a fixed point: reading the canonical bytes gives the same value, with the keys of
  its objects in order, and the same bytes again.
\<close>

section \<open>Well-formed values\<close>

definition canonical_literal :: "string \<Rightarrow> bool" where
  "canonical_literal n \<longleftrightarrow> (\<exists>s. json_number s \<and> canonicalNumber s = Some n)"

fun wf_json :: "nat \<Rightarrow> json \<Rightarrow> bool" where
  "wf_json depth (JNumber n) \<longleftrightarrow> depth \<le> 32 \<and> canonical_literal n"
| "wf_json depth (JString s) \<longleftrightarrow> depth \<le> 32 \<and> utf8_Valid s"
| "wf_json depth (JArray vs) \<longleftrightarrow> depth \<le> 32 \<and> (\<forall>v\<in>set vs. wf_json (Suc depth) v)"
| "wf_json depth (JObject fs) \<longleftrightarrow> depth \<le> 32 \<and> distinct (map fst fs) \<and> (\<forall>(k, v)\<in>set fs. utf8_Valid k \<and> wf_json (Suc depth) v)"
| "wf_json depth _ \<longleftrightarrow> depth \<le> 32"

lemma number_ascii: "json_number n \<Longrightarrow> \<forall>c\<in>set n. (of_char c :: nat) < 128"
proof (elim json_number_parts)
  fix sign w f e
  assume n: "n = sign @ w @ f @ e" "sign = [] \<or> sign = ''-''" "whole_part w" "fraction_part f" "exponent_part e"
  have digit: "(of_char c :: nat) < 128" if "is_digit c" for c using that by (simp add: is_digit_def)
  have "\<forall>c\<in>set w. (of_char c :: nat) < 128" using whole_digits [OF n(3)] digit by (auto simp: list_all_iff)
  moreover have "\<forall>c\<in>set f. (of_char c :: nat) < 128" using n(4) digit by (auto simp: fraction_part_def list_all_iff)
  moreover have "\<forall>c\<in>set e. (of_char c :: nat) < 128" using n(5) digit by (auto simp: exponent_part_def list_all_iff)
  ultimately show ?thesis using n(1,2) by auto
qed

lemma read_number_json: "read_number s = Some (n, r) \<Longrightarrow> json_number n \<and> s = n @ r"
proof (elim read_number_parts)
  fix sign w f e
  assume n: "s = n @ r" "n = sign @ w @ f @ e" "sign = [] \<or> sign = ''-''" "whole_part w" "fraction_part f" "exponent_part e"
  have "number_ends []" by (simp add: number_ends_def)
  from read_number_append [OF n(3-6) this] n(1,2) show ?thesis by (simp add: json_number_def)
qed

section \<open>What is decoded is well-formed\<close>

definition token_ok :: "token \<Rightarrow> bool" where
  "token_ok t = (case t of TokenString s \<Rightarrow> utf8_Valid s | TokenNumber n \<Rightarrow> json_number n | _ \<Rightarrow> True)"

lemma HasPrefix_Valid: "HasPrefix s p \<Longrightarrow> \<forall>c\<in>set p. (of_char c :: nat) < 128 \<Longrightarrow> utf8_Valid (drop (length p) s) = utf8_Valid s"
  using utf8_Valid_ascii_list [of p] by (auto simp: HasPrefix_iff)

lemma read_scalar_Valid:
  assumes "read_scalar s = Some (t, r)" "utf8_Valid s"
  shows "utf8_Valid r \<and> token_ok t"
proof -
  consider (quote) q where "s = CHR 0x22 # q" | (true) "HasPrefix s ''true''" | (false) "HasPrefix s ''false''" | (null) "HasPrefix s ''null''"
    | (number) "\<not> (s \<noteq> [] \<and> hd s = CHR 0x22)" "\<not> HasPrefix s ''true''" "\<not> HasPrefix s ''false''" "\<not> HasPrefix s ''null''"
    by (cases s) auto
  then show ?thesis
  proof cases
    case quote
    with assms obtain b where b: "t = TokenString b" "read_string q = Some (b, r)" "utf8_Valid q"
      by (auto simp: read_scalar_def utf8_Valid_ascii)
    then show ?thesis using read_string_Valid by (simp add: token_ok_def)
  next
    case number
    with assms(1) obtain n where n: "t = TokenNumber n" "read_number s = Some (n, r)" by (auto simp: read_scalar_def)
    then show ?thesis using read_number_json [OF n(2)] assms(2) utf8_Valid_ascii_list [OF number_ascii [of n]] by (simp add: token_ok_def)
  qed (use assms HasPrefix_Valid [of s "''true''"] HasPrefix_Valid [of s "''false''"] HasPrefix_Valid [of s "''null''"] in
      \<open>auto simp: read_scalar_def token_ok_def HasPrefix_iff\<close>)
qed

lemma dropWhile_Valid: "utf8_Valid s \<Longrightarrow> utf8_Valid (dropWhile json_space s)"
proof -
  assume "utf8_Valid s"
  moreover have "\<forall>c\<in>set (takeWhile json_space s). (of_char c :: nat) < 128"
    by (auto simp: json_space_def dest!: set_takeWhileD)
  ultimately show ?thesis using utf8_Valid_ascii_list [of "takeWhile json_space s" "dropWhile json_space s"] by simp
qed

lemma Token_Valid: "Token d = Inr (t, d') \<Longrightarrow> utf8_Valid (dec_input d) \<Longrightarrow> utf8_Valid (dec_input d') \<and> token_ok t"
proof (induction d rule: Token.induct)
  case (1 d)
  obtain c r where cr: "dropWhile json_space (dec_input d) = c # r"
    using 1(4) by (cases "dropWhile json_space (dec_input d)") (simp_all add: Token.simps [of d])
  have v: "utf8_Valid (c # r)" using dropWhile_Valid [OF 1(5)] cr by simp
  have scalar: "utf8_Valid (dec_input d') \<and> token_ok t" if "readValue d (c # r) = Inr (t, d')"
    using that read_scalar_Valid [OF _ v] by (auto simp: readValue_def split: option.splits if_splits)
  show ?case
  proof (cases "c \<in> set ''[]{}:,'' \<or> c = CHR 0x22")
    case False
    then have "Token d = readValue d (c # r)" by (subst Token.simps) (simp add: cr)
    with 1(4) scalar show ?thesis by simp
  next
    case True
    then have r: "utf8_Valid r" using v utf8_Valid_ascii [of c r] by auto
    have opened: "utf8_Valid (dec_input d') \<and> token_ok t" if "openDelim d c r start = Inr (t, d')" for start
      using that r by (auto simp: openDelim_def token_ok_def split: if_splits)
    have closed: "utf8_Valid (dec_input d') \<and> token_ok t" if "closeDelim d c r states = Inr (t, d')" for states
      using that r by (auto simp: closeDelim_def token_ok_def split: if_splits list.splits)
    have key: "utf8_Valid (dec_input d') \<and> token_ok t" if "readKey d r = Inr (t, d')"
      using that r by (auto simp: readKey_def token_ok_def split: option.splits dest!: read_string_Valid)
    have tok: "Token d = Inr (t, d')" by (rule 1(4))
    consider "c = CHR ''[''" | "c = CHR '']''" | "c = CHR ''{''" | "c = CHR ''}''" | "c = CHR '':''" | "c = CHR '',''" | "c = CHR 0x22"
      using True by auto
    then show ?thesis
    proof cases
      case 5
      then show ?thesis using tok r 1(1) [OF cr] unfolding Token.simps [of d] cr list.case by (simp split: if_splits)
    next
      case 6
      then consider "dec_state d = tokenArrayComma" "Token (d\<lparr> dec_input := r, dec_state := tokenArrayValue \<rparr>) = Inr (t, d')"
        | "dec_state d = tokenObjectComma" "Token (d\<lparr> dec_input := r, dec_state := tokenObjectKey \<rparr>) = Inr (t, d')"
        using tok unfolding Token.simps [of d] cr list.case by (simp split: if_splits)
      then show ?thesis
      proof cases
        case a: 1
        show ?thesis by (rule 1(2) [OF cr]) (use 6 a r in simp_all)
      next
        case o: 2
        show ?thesis by (rule 1(3) [OF cr]) (use 6 o r in simp_all)
      qed
    next
      case 7
      then show ?thesis using tok key scalar unfolding Token.simps [of d] cr list.case by (simp split: if_splits)
    qed (use tok opened closed in \<open>simp add: Token.simps [of d] cr\<close>)+
  qed
qed

lemma closes_Valid: "closes d c = Some d' \<Longrightarrow> utf8_Valid (dec_input d) \<Longrightarrow> utf8_Valid (dec_input d')"
  by (auto simp: closes_def split: sum.splits if_splits dest!: Token_Valid)

definition members_ok :: "nat \<Rightarrow> (string \<times> json) list \<Rightarrow> bool" where
  "members_ok depth fs \<longleftrightarrow> distinct (map fst fs) \<and> (\<forall>(k, v)\<in>set fs. utf8_Valid k \<and> wf_json depth v)"

lemma run_wf:
  "value_run d depth b v d' b' \<Longrightarrow> utf8_Valid (dec_input d) \<longrightarrow> utf8_Valid (dec_input d') \<and> wf_json depth v"
  "members_run fs d depth b fs' d' b' \<Longrightarrow> utf8_Valid (dec_input d) \<and> members_ok (Suc depth) fs \<longrightarrow>
     utf8_Valid (dec_input d') \<and> members_ok (Suc depth) fs'"
  "elements_run vs d depth b vs' d' b' \<Longrightarrow> utf8_Valid (dec_input d) \<and> (\<forall>v\<in>set vs. wf_json (Suc depth) v) \<longrightarrow>
     utf8_Valid (dec_input d') \<and> (\<forall>v\<in>set vs'. wf_json (Suc depth) v)"
proof (induction rule: run_induct)
  case (scalar depth d t d' b v b')
  then show ?case
    using Token_Valid [OF scalar(2)]
    by (cases t) (auto simp: decodeScalar_def bind_Some token_ok_def canonical_literal_def)
next
  case (object depth d d1 b b1 fs d2 b' d')
  then show ?case using Token_Valid [OF object(2)] closes_Valid [OF object(5)] by (auto simp: members_ok_def)
next
  case (array depth d d1 b b1 vs d2 b' d')
  then show ?case using Token_Valid [OF array(2)] closes_Valid [OF array(5)] by auto
next
  case (member d name d1 fs b b1 depth child d2 b2 fs' d' b')
  show ?case
  proof
    assume *: "utf8_Valid (dec_input d) \<and> members_ok (Suc depth) fs"
    then have "utf8_Valid (dec_input d1)" "utf8_Valid name" using Token_Valid [OF member(2)] by (auto simp: token_ok_def)
    then have "utf8_Valid (dec_input d2)" "members_ok (Suc depth) (fs @ [(name, child)])"
      using * member(3,7) by (auto simp: members_ok_def)
    then show "utf8_Valid (dec_input d') \<and> members_ok (Suc depth) fs'" using member(8) by simp
  qed
next
  case (element d vs b b1 depth child d2 b2 vs' d' b')
  show ?case
  proof
    assume *: "utf8_Valid (dec_input d) \<and> (\<forall>v\<in>set vs. wf_json (Suc depth) v)"
    with element(5) have "utf8_Valid (dec_input d2)" "wf_json (Suc depth) child" by blast+
    with * element(6) show "utf8_Valid (dec_input d') \<and> (\<forall>v\<in>set vs'. wf_json (Suc depth) v)" by auto
  qed
qed simp_all

section \<open>Values with sorted keys\<close>

fun canon :: "json \<Rightarrow> json" where
  "canon (JArray vs) = JArray (map canon vs)"
| "canon (JObject fs) = JObject (sort_key fst (map (\<lambda>(k, v). (k, canon v)) fs))"
| "canon v = v"

lemma insort_key_map: "insort_key fst (k, f v) (map (\<lambda>(k, v). (k, f v)) xs) = map (\<lambda>(k, v). (k, f v)) (insort_key fst (k, v) xs)"
  by (induction xs) auto

lemma sort_key_map: "sort_key fst (map (\<lambda>(k, v). (k, f v)) xs) = map (\<lambda>(k, v). (k, f v)) (sort_key fst xs)"
  by (induction xs) (auto simp: insort_key_map)

lemma sort_key_sorted: "sorted (map fst xs) \<Longrightarrow> sort_key fst xs = xs"
  by (induction xs) (auto simp: insort_is_Cons)

lemma encode_canon: "encode (canon v) = encode v"
proof (induction v rule: encode.induct)
  case (5 vs)
  then show ?case by (simp add: comp_def cong: map_cong)
next
  case (6 fs)
  have "map (\<lambda>(k, v). (k, encode v)) (map (\<lambda>(k, v). (k, canon v)) fs) = map (\<lambda>(k, v). (k, encode v)) fs"
    using 6 by auto
  moreover have "sort_key fst (sort_key fst xs) = sort_key fst xs" for xs :: "(string \<times> string) list"
    by (rule sort_key_sorted) simp
  ultimately show ?case by (simp only: canon.simps encode.simps sort_key_map flip: sort_key_map)
qed simp_all

text \<open>Values that are read back: numbers that the canonicalizer accepts again, keys sorted and distinct.\<close>

fun rereadable :: "json \<Rightarrow> bool" where
  "rereadable (JNumber n) \<longleftrightarrow> canonicalNumber n \<noteq> None"
| "rereadable (JArray vs) \<longleftrightarrow> (\<forall>v\<in>set vs. rereadable v)"
| "rereadable (JObject fs) \<longleftrightarrow> (\<forall>(k, v)\<in>set fs. rereadable v)"
| "rereadable _ \<longleftrightarrow> True"

fun sorted_keys :: "json \<Rightarrow> bool" where
  "sorted_keys (JArray vs) \<longleftrightarrow> (\<forall>v\<in>set vs. sorted_keys v)"
| "sorted_keys (JObject fs) \<longleftrightarrow> sorted (map fst fs) \<and> (\<forall>(k, v)\<in>set fs. sorted_keys v)"
| "sorted_keys _ \<longleftrightarrow> True"

lemma map_fst_canon: "map fst (map (\<lambda>(k, v). (k, canon v)) fs) = map fst fs"
  by auto

lemma canon_sorted: "sorted_keys (canon v)"
proof (induction v rule: canon.induct)
  case (2 fs)
  then show ?case by auto
qed auto

lemma canon_wf: "wf_json depth v \<Longrightarrow> wf_json depth (canon v)"
proof (induction v arbitrary: depth rule: canon.induct)
  case (2 fs)
  have "distinct (map fst (sort_key fst (map (\<lambda>(k, v). (k, canon v)) fs)))"
    using 2(2) map_fst_canon [of fs] distinct_map [of fst fs]
    by (metis distinct_map distinct_sort mset_eq_imp_distinct_iff mset_map mset_sort wf_json.simps(4))
  then show ?case using 2 by fastforce
qed auto

lemma canon_rereadable: "rereadable v \<Longrightarrow> rereadable (canon v)"
  by (induction v rule: canon.induct) fastforce+

lemma canonical_literal_again: "canonical_literal n \<Longrightarrow> canonicalNumber n \<noteq> None \<Longrightarrow> json_number n \<and> canonicalNumber n = Some n"
proof -
  assume "canonical_literal n" and again: "canonicalNumber n \<noteq> None"
  then obtain s where s: "json_number s" "canonicalNumber s = Some n" by (auto simp: canonical_literal_def)
  then have n: "json_number n" "number_value n = number_value s" using canonical_number_value by blast+
  from again obtain m where m: "canonicalNumber n = Some m" by blast
  from canonical_number_eq [OF s n(1) m] n m show ?thesis by simp
qed

section \<open>Reading back\<close>

abbreviation dec :: "string \<Rightarrow> tokenState \<Rightarrow> tokenState list \<Rightarrow> Decoder" where
  "dec s st stack \<equiv> \<lparr> dec_input = s, dec_state = st, dec_stack = stack \<rparr>"

text \<open>What can follow a value: the end, a comma or a closing bracket.\<close>

definition ends :: "string \<Rightarrow> bool" where
  "ends r \<longleftrightarrow> r = [] \<or> hd r \<in> set '',]}''"

lemma ends_number: "ends r \<Longrightarrow> number_ends r"
  by (auto simp: ends_def number_ends_def is_digit_def)

lemma ends_simps [simp]: "ends []" "ends (CHR '','' # r)" "ends (CHR '']'' # r)" "ends (CHR ''}'' # r)"
  by (simp_all add: ends_def)

definition starts :: "string \<Rightarrow> bool" where
  "starts s \<longleftrightarrow> s \<noteq> [] \<and> \<not> json_space (hd s) \<and> hd s \<notin> set '']}:,''"

lemma Token_separators:
  "Token (dec (CHR '','' # r) tokenArrayComma stack) = Token (dec r tokenArrayValue stack)"
  "Token (dec (CHR '','' # r) tokenObjectComma stack) = Token (dec r tokenObjectKey stack)"
  "Token (dec (CHR '':'' # r) tokenObjectColon stack) = Token (dec r tokenObjectValue stack)"
  by (subst Token.simps, simp add: json_space_def)+

lemma Token_open:
  assumes "tokenValueAllowed st"
  shows "Token (dec (CHR ''['' # r) st stack) = Inr (Delim (CHR ''[''), dec r tokenArrayStart (st # stack))"
    and "Token (dec (CHR ''{'' # r) st stack) = Inr (Delim (CHR ''{''), dec r tokenObjectStart (st # stack))"
  using assms by (subst Token.simps, simp add: json_space_def openDelim_def)+

lemma closes_brackets:
  "st \<in> set [tokenArrayStart, tokenArrayComma] \<Longrightarrow> closes (dec (CHR '']'' # r) st (outer # stack)) (CHR '']'') = Some (dec r (tokenValueEnd outer) stack)"
  "st \<in> set [tokenObjectStart, tokenObjectComma] \<Longrightarrow> closes (dec (CHR ''}'' # r) st (outer # stack)) (CHR ''}'') = Some (dec r (tokenValueEnd outer) stack)"
  unfolding closes_def by (subst Token.simps, simp add: json_space_def closeDelim_def)+

lemma Token_scalar:
  assumes "tokenValueAllowed st" "starts s" "hd s \<notin> set ''[{''" "read_scalar (s @ r) = Some (t, r)"
  shows "Token (dec (s @ r) st stack) = Inr (t, dec r (tokenValueEnd st) stack)"
proof -
  obtain c q where s: "s = c # q" using assms(2) by (cases s) (auto simp: starts_def)
  have "st \<noteq> tokenObjectStart" "st \<noteq> tokenObjectKey" using assms(1) by (auto simp: tokenValueAllowed_def)
  then show ?thesis using assms s by (subst Token.simps) (simp add: starts_def readValue_def)
qed

lemma read_scalar_quote: "utf8_Valid s \<Longrightarrow> read_scalar (json_quote s @ r) = Some (TokenString s, r)"
  using read_string_escape [of s r] by (simp add: read_scalar_def json_quote_def)

lemma Token_key:
  assumes "st = tokenObjectStart \<or> st = tokenObjectKey" "utf8_Valid k"
  shows "Token (dec (json_quote k @ r) st stack) = Inr (TokenString k, dec r tokenObjectColon stack)"
  using assms read_string_escape [of k r] by (subst Token.simps) (auto simp: json_quote_def json_space_def readKey_def)

lemma value_run_Token: "Token d = Token e \<Longrightarrow> value_run d depth b v d' b' \<Longrightarrow> value_run e depth b v d' b'"
  using decodeValue.simps [of d depth b] decodeValue.simps [of e depth b] by (simp only: flip: decodeValue_iff)

lemma number_head:
  assumes "json_number n"
  shows "starts n" "hd n \<notin> set ''[{''" "\<not> HasPrefix (n @ r) ''true''" "\<not> HasPrefix (n @ r) ''false''" "\<not> HasPrefix (n @ r) ''null''" "hd n \<noteq> CHR 0x22"
proof -
  obtain c q where n: "n = c # q" "is_digit c \<or> c = CHR ''-''"
    using assms by (elim json_number_parts) (auto dest!: whole_digits simp: neq_Nil_conv)
  then show "starts n" "hd n \<notin> set ''[{''" "\<not> HasPrefix (n @ r) ''true''" "\<not> HasPrefix (n @ r) ''false''" "\<not> HasPrefix (n @ r) ''null''" "hd n \<noteq> CHR 0x22"
    by (auto simp: starts_def json_space_def is_digit_def HasPrefix_iff)
qed

lemma read_scalar_number: "json_number n \<Longrightarrow> ends r \<Longrightarrow> read_scalar (n @ r) = Some (TokenNumber n, r)"
  using json_number_append [of n r] ends_number [of r] number_head(1,2,6) [of n] number_head(3-5) [of n r] by (simp add: read_scalar_def starts_def)

lemma read_scalar_words:
  "read_scalar (''null'' @ r) = Some (TokenNull, r)" "read_scalar (''true'' @ r) = Some (TokenBool True, r)"
  "read_scalar (''false'' @ r) = Some (TokenBool False, r)"
  by (simp_all add: read_scalar_def HasPrefix_def)

lemma encode_starts: "wf_json depth v \<Longrightarrow> rereadable v \<Longrightarrow> starts (encode v)"
  by (cases v) (auto simp: starts_def json_space_def json_quote_def dest!: canonical_literal_again number_head(1))

text \<open>A value that can be read in every context, as \<open>Suc depth\<close> is nested in a list or an object.\<close>

definition reads_at :: "nat \<Rightarrow> json \<Rightarrow> bool" where
  "reads_at depth v \<longleftrightarrow> (\<forall>st stack r c. tokenValueAllowed st \<longrightarrow> ends r \<longrightarrow>
     value_run (dec (encode v @ r) st stack) depth (c + length (encode v)) v (dec r (tokenValueEnd st) stack) c)"

lemma reads_atD:
  "reads_at depth v \<Longrightarrow> tokenValueAllowed st \<Longrightarrow> ends r \<Longrightarrow>
   value_run (dec (encode v @ r) st stack) depth (c + length (encode v)) v (dec r (tokenValueEnd st) stack) c"
  by (simp add: reads_at_def)

lemma allowed_states [simp]: "tokenValueAllowed tokenArrayStart" "tokenValueAllowed tokenArrayValue" "tokenValueAllowed tokenObjectValue" "tokenValueAllowed tokenTopValue"
  by (simp_all add: tokenValueAllowed_def)

lemma end_states [simp]: "tokenValueEnd tokenArrayStart = tokenArrayComma" "tokenValueEnd tokenArrayValue = tokenArrayComma"
  "tokenValueEnd tokenObjectValue = tokenObjectComma" "tokenValueEnd tokenTopValue = tokenTopValue"
  by (simp_all add: tokenValueEnd_def)

lemma scalar_reads:
  assumes "depth \<le> 32" "starts (encode v)" "hd (encode v) \<notin> set ''[{''" "\<And>r. ends r \<Longrightarrow> read_scalar (encode v @ r) = Some (t, r)"
    "\<And>c. decodeScalar t (c + length (encode v)) = Some (v, c)"
  shows "reads_at depth v"
  unfolding reads_at_def using assms Token_scalar [OF _ assms(2,3)] by (auto intro!: scalar [OF assms(1)])

section \<open>Lists and objects\<close>

definition tail_text :: "string list \<Rightarrow> string" where
  "tail_text xs = concat (map (\<lambda>x. CHR '','' # x) xs)"

lemma comma_separated_tail: "comma_separated (x # xs) = x @ tail_text xs"
  by (induction xs arbitrary: x) (simp_all add: tail_text_def)

lemma tail_text_ends: "c \<in> set '']}'' \<Longrightarrow> ends (tail_text xs @ c # r)"
  by (cases xs) (auto simp: tail_text_def ends_def)

lemma More_simps: "More (dec (CHR '','' # r) st stack)" "\<not> More (dec (CHR '']'' # r) st stack)" "\<not> More (dec (CHR ''}'' # r) st stack)"
  by (simp_all add: More_def json_space_def)

lemma More_starts: "starts s \<Longrightarrow> More (dec (s @ r) st stack)"
  by (cases s) (auto simp: starts_def More_def)

lemma elements_tail:
  assumes "\<forall>v\<in>set ws. reads_at (Suc depth) v" "vs \<noteq> []"
  shows "elements_run vs (dec (tail_text (map encode ws) @ CHR '']'' # r) tokenArrayComma stack) depth
    (c + length (tail_text (map encode ws))) (vs @ ws) (dec (CHR '']'' # r) tokenArrayComma stack) c"
  using assms
proof (induction ws arbitrary: vs)
  case Nil
  then show ?case by (simp add: tail_text_def elements_end More_simps)
next
  case (Cons w ws)
  let ?rest = "tail_text (map encode ws) @ CHR '']'' # r"
  have whole: "tail_text (map encode (w # ws)) @ CHR '']'' # r = CHR '','' # encode w @ ?rest" by (simp add: tail_text_def)
  have size: "c + length (tail_text (map encode (w # ws))) = (c + length (tail_text (map encode ws)) + length (encode w)) + 1"
    by (simp add: tail_text_def)
  have "value_run (dec (encode w @ ?rest) tokenArrayValue stack) (Suc depth) (c + length (tail_text (map encode ws)) + length (encode w)) w
      (dec ?rest tokenArrayComma stack) (c + length (tail_text (map encode ws)))"
    using reads_atD [of "Suc depth" w tokenArrayValue ?rest] Cons.prems(1) tail_text_ends by simp
  then have "value_run (dec (CHR '','' # encode w @ ?rest) tokenArrayComma stack) (Suc depth) (c + length (tail_text (map encode ws)) + length (encode w)) w
      (dec ?rest tokenArrayComma stack) (c + length (tail_text (map encode ws)))"
    by (rule value_run_Token [rotated]) (simp add: Token_separators)
  moreover have "elements_run (vs @ [w]) (dec ?rest tokenArrayComma stack) depth (c + length (tail_text (map encode ws))) ((vs @ [w]) @ ws)
      (dec (CHR '']'' # r) tokenArrayComma stack) c"
    using Cons.IH [of "vs @ [w]"] Cons.prems by simp
  ultimately show ?case unfolding whole size using Cons.prems(2)
    by (auto intro!: element [OF More_simps(1)] simp: spend_def)
qed

lemma array_reads:
  assumes "depth \<le> 32" "\<forall>v\<in>set vs. reads_at (Suc depth) v \<and> starts (encode v)"
  shows "reads_at depth (JArray vs)"
  unfolding reads_at_def
proof (intro allI impI)
  fix st stack r c
  assume st: "tokenValueAllowed st"
  let ?text = "comma_separated (map encode vs)"
  have "\<exists>s'. s' \<in> set [tokenArrayStart, tokenArrayComma] \<and>
    elements_run [] (dec (?text @ CHR '']'' # r) tokenArrayStart (st # stack)) depth (c + length ?text) vs (dec (CHR '']'' # r) s' (st # stack)) c"
  proof (cases vs)
    case Nil
    then show ?thesis by (auto simp: elements_end More_simps)
  next
    case (Cons w ws)
    let ?tail = "tail_text (map encode ws)"
    have v: "value_run (dec (encode w @ ?tail @ CHR '']'' # r) tokenArrayStart (st # stack)) (Suc depth) (c + length ?tail + length (encode w)) w
        (dec (?tail @ CHR '']'' # r) tokenArrayComma (st # stack)) (c + length ?tail)"
      using reads_atD [of "Suc depth" w tokenArrayStart "?tail @ CHR '']'' # r"] assms(2) Cons tail_text_ends by simp
    have t: "elements_run [w] (dec (?tail @ CHR '']'' # r) tokenArrayComma (st # stack)) depth (c + length ?tail) ([w] @ ws)
        (dec (CHR '']'' # r) tokenArrayComma (st # stack)) c"
      using assms(2) Cons by (intro elements_tail) auto
    have m: "More (dec (encode w @ ?tail @ CHR '']'' # r) tokenArrayStart (st # stack))"
      using assms(2) Cons More_starts by simp
    have "elements_run [] (dec (encode w @ ?tail @ CHR '']'' # r) tokenArrayStart (st # stack)) depth (c + length ?tail + length (encode w)) ([w] @ ws)
        (dec (CHR '']'' # r) tokenArrayComma (st # stack)) c"
      by (rule element [OF m _ v]) (use t in simp_all)
    then show ?thesis unfolding Cons
      by (intro exI [of _ tokenArrayComma]) (simp add: comma_separated_tail add.commute add.left_commute)
  qed
  then obtain s' where s': "s' \<in> set [tokenArrayStart, tokenArrayComma]"
    "elements_run [] (dec (?text @ CHR '']'' # r) tokenArrayStart (st # stack)) depth (c + length ?text) vs (dec (CHR '']'' # r) s' (st # stack)) c"
    by blast
  show "value_run (dec (encode (JArray vs) @ r) st stack) depth (c + length (encode (JArray vs))) (JArray vs) (dec r (tokenValueEnd st) stack) c"
    by (rule array [OF assms(1) _ _ s'(2) closes_brackets(1) [OF s'(1)]]) (simp_all add: Token_open [OF st] spend_def)
qed

lemma members_tail:
  assumes "\<forall>(k, v)\<in>set gs. utf8_Valid k \<and> reads_at (Suc depth) v" "fs \<noteq> []" "distinct (map fst (fs @ gs))"
  shows "members_run fs (dec (tail_text (map (\<lambda>(k, v). field_text (k, encode v)) gs) @ CHR ''}'' # r) tokenObjectComma stack) depth
    (c + length (tail_text (map (\<lambda>(k, v). field_text (k, encode v)) gs))) (fs @ gs) (dec (CHR ''}'' # r) tokenObjectComma stack) c"
  using assms
proof (induction gs arbitrary: fs)
  case Nil
  then show ?case by (simp add: tail_text_def members_end More_simps)
next
  case (Cons g gs)
  obtain k w where g: "g = (k, w)" by fastforce
  let ?tail = "tail_text (map (\<lambda>(k, v). field_text (k, encode v)) gs)"
  let ?rest = "?tail @ CHR ''}'' # r"
  have whole: "tail_text (map (\<lambda>(k, v). field_text (k, encode v)) (g # gs)) @ CHR ''}'' # r = CHR '','' # json_quote k @ CHR '':'' # encode w @ ?rest"
    by (simp add: tail_text_def field_text_def g)
  have size: "c + length (tail_text (map (\<lambda>(k, v). field_text (k, encode v)) (g # gs))) =
      (c + length ?tail + length (encode w)) + (length (json_quote k) + 1 + (if fs = [] then 0 else 1))"
    using Cons.prems(2) by (simp add: tail_text_def field_text_def g)
  have key: "Token (dec (CHR '','' # json_quote k @ CHR '':'' # encode w @ ?rest) tokenObjectComma stack) = Inr (TokenString k, dec (CHR '':'' # encode w @ ?rest) tokenObjectColon stack)"
    using Cons.prems(1) g by (simp add: Token_separators Token_key)
  have "value_run (dec (encode w @ ?rest) tokenObjectValue stack) (Suc depth) (c + length ?tail + length (encode w)) w
      (dec ?rest tokenObjectComma stack) (c + length ?tail)"
    using reads_atD [of "Suc depth" w tokenObjectValue ?rest] Cons.prems(1) g tail_text_ends by simp
  then have v: "value_run (dec (CHR '':'' # encode w @ ?rest) tokenObjectColon stack) (Suc depth) (c + length ?tail + length (encode w)) w
      (dec ?rest tokenObjectComma stack) (c + length ?tail)"
    by (rule value_run_Token [rotated]) (simp add: Token_separators)
  have t: "members_run (fs @ [(k, w)]) (dec ?rest tokenObjectComma stack) depth (c + length ?tail) ((fs @ [(k, w)]) @ gs) (dec (CHR ''}'' # r) tokenObjectComma stack) c"
    using Cons.prems g by (intro Cons.IH) auto
  show ?case unfolding whole size
    by (rule member [OF More_simps(1) key _ _ v]) (use t g Cons.prems(3) in \<open>auto simp: spendKey_Some\<close>)
qed

lemma object_reads:
  assumes "depth \<le> 32" "\<forall>(k, v)\<in>set fs. utf8_Valid k \<and> reads_at (Suc depth) v" "distinct (map fst fs)" "sorted (map fst fs)"
  shows "reads_at depth (JObject fs)"
  unfolding reads_at_def
proof (intro allI impI)
  fix st stack r c
  assume st: "tokenValueAllowed st"
  let ?text = "comma_separated (map (\<lambda>(k, v). field_text (k, encode v)) fs)"
  have "sort_key fst (map (\<lambda>(k, v). (k, encode v)) fs) = map (\<lambda>(k, v). (k, encode v)) fs"
    using assms(4) by (simp add: sort_key_map sort_key_sorted)
  then have enc: "encode (JObject fs) = ''{'' @ ?text @ ''}''" by (simp add: comp_def case_prod_unfold)
  have "\<exists>s'. s' \<in> set [tokenObjectStart, tokenObjectComma] \<and>
    members_run [] (dec (?text @ CHR ''}'' # r) tokenObjectStart (st # stack)) depth (c + length ?text) fs (dec (CHR ''}'' # r) s' (st # stack)) c"
  proof (cases fs)
    case Nil
    then show ?thesis by (auto simp: members_end More_simps)
  next
    case (Cons g gs)
    obtain k w where g: "g = (k, w)" by fastforce
    let ?tail = "tail_text (map (\<lambda>(k, v). field_text (k, encode v)) gs)"
    let ?rest = "?tail @ CHR ''}'' # r"
    have key: "Token (dec (json_quote k @ CHR '':'' # encode w @ ?rest) tokenObjectStart (st # stack)) = Inr (TokenString k, dec (CHR '':'' # encode w @ ?rest) tokenObjectColon (st # stack))"
      using assms(2) Cons g by (intro Token_key) auto
    have "value_run (dec (encode w @ ?rest) tokenObjectValue (st # stack)) (Suc depth) (c + length ?tail + length (encode w)) w
        (dec ?rest tokenObjectComma (st # stack)) (c + length ?tail)"
      using reads_atD [of "Suc depth" w tokenObjectValue ?rest] assms(2) Cons g tail_text_ends by simp
    then have v: "value_run (dec (CHR '':'' # encode w @ ?rest) tokenObjectColon (st # stack)) (Suc depth) (c + length ?tail + length (encode w)) w
        (dec ?rest tokenObjectComma (st # stack)) (c + length ?tail)"
      by (rule value_run_Token [rotated]) (simp add: Token_separators)
    have t: "members_run [(k, w)] (dec ?rest tokenObjectComma (st # stack)) depth (c + length ?tail) ([(k, w)] @ gs) (dec (CHR ''}'' # r) tokenObjectComma (st # stack)) c"
      using assms(2,3) Cons g by (intro members_tail) auto
    have m: "More (dec (json_quote k @ CHR '':'' # encode w @ ?rest) tokenObjectStart (st # stack))"
      by (rule More_starts) (simp add: starts_def json_quote_def json_space_def)
    have "members_run [] (dec (json_quote k @ CHR '':'' # encode w @ ?rest) tokenObjectStart (st # stack)) depth
        (c + length ?tail + length (encode w) + (length (json_quote k) + 1)) ([(k, w)] @ gs) (dec (CHR ''}'' # r) tokenObjectComma (st # stack)) c"
      by (rule member [OF m key _ _ v]) (use t in \<open>auto simp: spendKey_Some\<close>)
    then show ?thesis unfolding Cons g
      by (intro exI [of _ tokenObjectComma]) (simp add: comma_separated_tail field_text_def add.commute add.left_commute)
  qed
  then obtain s' where s': "s' \<in> set [tokenObjectStart, tokenObjectComma]"
    "members_run [] (dec (?text @ CHR ''}'' # r) tokenObjectStart (st # stack)) depth (c + length ?text) fs (dec (CHR ''}'' # r) s' (st # stack)) c"
    by blast
  show "value_run (dec (encode (JObject fs) @ r) st stack) depth (c + length (encode (JObject fs))) (JObject fs) (dec r (tokenValueEnd st) stack) c"
    unfolding enc by (rule object [OF assms(1) _ _ s'(2) closes_brackets(2) [OF s'(1)]]) (simp_all add: Token_open [OF st] spend_def)
qed

lemma encode_reads: "wf_json depth v \<Longrightarrow> rereadable v \<Longrightarrow> sorted_keys v \<Longrightarrow> reads_at depth v"
proof (induction v arbitrary: depth rule: encode.induct)
  case 1
  then show ?case
    by (intro scalar_reads [where t = TokenNull]) (simp_all add: starts_def json_space_def read_scalar_words [simplified] decodeScalar_def spend_def)
next
  case (2 b)
  then show ?case
    by (intro scalar_reads [where t = "TokenBool b"]; cases b)
      (simp_all add: starts_def json_space_def read_scalar_words [simplified] decodeScalar_def spend_def)
next
  case (3 n)
  then have n: "json_number n" "canonicalNumber n = Some n" "depth \<le> 32" using canonical_literal_again by auto
  then show ?case using number_head(1,2) [of n]
    by (intro scalar_reads [where t = "TokenNumber n"]) (simp_all add: read_scalar_number decodeScalar_def spend_def)
next
  case (4 s)
  then show ?case
    by (intro scalar_reads [where t = "TokenString s"])
      (simp_all add: starts_def json_space_def json_quote_def [of s, THEN arg_cong, of hd] read_scalar_quote decodeScalar_def spendString_def spend_def, simp_all add: json_quote_def json_space_def)
next
  case (5 vs)
  then show ?case using encode_starts by (intro array_reads) auto
next
  case (6 fs)
  have "\<forall>(k, v)\<in>set fs. utf8_Valid k \<and> reads_at (Suc depth) v" using 6 by fastforce
  then show ?case using 6(2-4) by (intro object_reads) auto
qed

section \<open>Canonical bytes are valid UTF-8\<close>

lemma escape_byte_ascii: "(of_char c :: nat) < 128 \<Longrightarrow> d \<in> set (json_escape_byte c) \<Longrightarrow> (of_char d :: nat) < 128"
  by (auto simp: json_escape_byte_def lower_hex_digit_def Let_def split: if_splits)

lemma tok_Valid: "utf8_size s \<noteq> 0 \<Longrightarrow> utf8_Valid (tok s @ r) = utf8_Valid r"
proof -
  assume s: "utf8_size s \<noteq> 0"
  then consider "utf8_size s = 1" | "2 \<le> utf8_size s" by linarith
  then show ?thesis
  proof cases
    case 1
    then show ?thesis using utf8_size_1 [of s] escape_byte_ascii [of "hd s"] by (simp add: tok_one utf8_Valid_ascii_list)
  next
    case 2
    then show ?thesis
    proof (cases rule: tok_many)
      case raw
      then show ?thesis using utf8_Valid_append [OF utf8_Valid_take [OF s]] by simp
    qed (simp_all add: utf8_Valid_ascii)
  qed
qed

lemma json_escape_Valid: "utf8_Valid s \<Longrightarrow> utf8_Valid (json_escape s @ r) = utf8_Valid r"
proof (induction s rule: utf8_Valid.induct)
  case (1 s)
  show ?case
  proof (cases "s = []")
    case False
    note step = utf8_Valid_step [OF 1(2) False]
    then show ?thesis using json_escape_tok [OF False] tok_Valid [OF step(1)] 1(1) [OF False step] by (simp add: max_def)
  qed (simp add: json_escape.simps)
qed

lemma json_quote_Valid: "utf8_Valid s \<Longrightarrow> utf8_Valid (json_quote s @ r) = utf8_Valid r"
  using json_escape_Valid [of s] by (simp add: json_quote_def utf8_Valid_ascii)

lemma comma_separated_Valid: "\<forall>x\<in>set xs. \<forall>r. utf8_Valid (x @ r) = utf8_Valid r \<Longrightarrow> utf8_Valid (comma_separated xs @ r) = utf8_Valid r"
  by (induction xs rule: comma_separated.induct) (simp_all add: utf8_Valid_ascii)

lemma encode_Valid: "wf_json depth v \<Longrightarrow> utf8_Valid (encode v @ r) = utf8_Valid r"
proof (induction v arbitrary: depth r rule: encode.induct)
  case (3 n)
  then obtain s where "json_number s" "canonicalNumber s = Some n" by (auto simp: canonical_literal_def)
  then have "json_number n" using canonical_number_value by blast
  from utf8_Valid_ascii_list [OF number_ascii [OF this]] show ?case by simp
next
  case (5 vs)
  then have "utf8_Valid (comma_separated (map encode vs) @ q) = utf8_Valid q" for q by (intro comma_separated_Valid) auto
  then show ?case by (simp add: utf8_Valid_ascii)
next
  case (6 fs)
  have "utf8_Valid (x @ q) = utf8_Valid q" if "x \<in> set (map field_text (sort_key fst (map (\<lambda>(k, v). (k, encode v)) fs)))" for x q
  proof -
    from that obtain k v where kv: "(k, v) \<in> set fs" "x = json_quote k @ '':'' @ encode v" by (auto simp: field_text_def)
    then have "utf8_Valid k" "wf_json (Suc depth) v" using 6(2) by auto
    with kv show ?thesis using 6(1) [OF kv(1) refl] by (simp add: json_quote_Valid utf8_Valid_ascii)
  qed
  then have "utf8_Valid (comma_separated (map field_text (sort_key fst (map (\<lambda>(k, v). (k, encode v)) fs))) @ q) = utf8_Valid q" for q
    by (intro comma_separated_Valid) blast
  then show ?case by (simp add: utf8_Valid_ascii)
qed (auto simp: utf8_Valid_ascii json_quote_Valid)

lemma wf_numbers_valid: "wf_json depth v \<Longrightarrow> numbers_valid v"
proof (induction v arbitrary: depth rule: numbers_valid.induct)
  case (1 n)
  then show ?case using canonical_number_value by (auto simp: canonical_literal_def)
qed (fastforce simp: list_all_iff)+

section \<open>Canonical documents\<close>

definition json_value :: "bytes \<Rightarrow> nat \<Rightarrow> json option" where
  "json_value x limit = map_option fst (decodeValue (NewDecoder x) 0 limit)"

lemma canonical_again:
  assumes "canonicalBounded x limit = Some y" "json_value x limit = Some v" "rereadable v"
  shows "y = encode v \<and> canonicalBounded y limit = Some y \<and> json_value y limit = Some (canon v)"
proof -
  obtain d b where v: "utf8_Valid x" "decodeValue (NewDecoder x) 0 limit = Some (v, d, b)" "y = encode v" "length y \<le> limit"
    using assms(1,2) by (elim canonicalBounded_Some) (auto simp: json_value_def)
  have wf: "wf_json 0 v" using run_wf(1) [OF decode_run(1) [OF v(2)]] v(1) by (simp add: NewDecoder_def)
  note c = canon_wf [OF wf] canon_rereadable [OF assms(3)] canon_sorted [of v]
  have y: "y = encode (canon v)" using v(3) by (simp add: encode_canon)
  have "value_run (NewDecoder y) 0 (limit - length y + length y) (canon v) (NewDecoder []) (limit - length y)"
    using reads_atD [OF encode_reads [OF c], of tokenTopValue "[]"] y by (simp add: NewDecoder_def)
  then have d: "decodeValue (NewDecoder y) 0 limit = Some (canon v, NewDecoder [], limit - length y)"
    using v(4) by (simp add: decodeValue_iff)
  have "canonicalBounded y limit = Some (encode (canon v))"
    using encode_starts [OF c(1,2)] encode_Valid [OF c(1), of "[]"] y v(4) d wf_numbers_valid [OF c(1)]
    by (intro canonicalBounded_I) (auto simp: starts_def NewDecoder_def Token.simps)
  with v(3) y d show ?thesis by (simp add: json_value_def)
qed

text \<open>
  C38. Canonical JSON is a fixed point and identifies values. When the canonical numbers of a document are short
  enough to be read again, its canonical bytes are accepted again and unchanged, and read as the same value with the
  keys of every object in order; and two such documents have the same canonical bytes exactly if they have the same
  value up to the order of keys. Values are compared with every number in its canonical spelling.
\<close>
theorem canonical_json_identity:
  assumes "canonicalBounded x limit = Some y" "json_value x limit = Some v" "rereadable v"
    and "canonicalBounded x' limit = Some y'" "json_value x' limit = Some v'" "rereadable v'"
  shows "canonicalBounded y limit = Some y \<and> json_value y limit = Some (canon v) \<and> (y = y' \<longleftrightarrow> canon v = canon v')"
proof -
  note again = canonical_again [OF assms(1-3)] and again' = canonical_again [OF assms(4-6)]
  have "canon v = canon v'" if "y = y'" using again again' that by (metis option.inject)
  moreover have "y = y'" if "canon v = canon v'" using again again' that encode_canon by metis
  ultimately show ?thesis using again by blast
qed

theorem canonical_json_identity_witness:
  "canonicalBounded ''[20,true]'' 100 = Some ''[20,true]'' \<and> json_value ''[20,true]'' 100 = Some (JArray [JNumber ''20'', JBool True])"
proof -
  have x: "canonicalBounded ''[2e1, true]'' 100 = Some ''[20,true]''" by code_simp
  have v: "json_value ''[2e1, true]'' 100 = Some (JArray [JNumber ''20'', JBool True])" by code_simp
  have r: "rereadable (JArray [JNumber ''20'', JBool True])" by code_simp
  from canonical_json_identity [OF x v r x v r] show ?thesis by simp
qed

end
