(* ===== verification/GameServerProps.thy ===== *)
theory GameServerProps
  imports GameServerExample
begin

text \<open>
  What a reconciliation of a GameServer may do to the cluster: the properties of the controller, each read off the
  permissions that theory \<open>GameServerGates\<close> establishes for every request of a run.
\<close>

section \<open>Runs\<close>

definition server_sends :: "GameServerReconciler \<Rightarrow> string \<Rightarrow> string \<Rightarrow> nat \<Rightarrow> ServerRequest \<Rightarrow> bool" where
  "server_sends r namespace name n q \<longleftrightarrow> (n, q) \<in> set (ses_log (snd (run_state (ReconcileGameServer r namespace name) \<lparr> ses_calls = 0, ses_log = [] \<rparr>)))"

lemma server_request_ok:
  assumes "vw_GameServer (gsr_Client r) 0 namespace name = Inr server" "server_sends r namespace name n q"
  shows "server_ok r server 1 n q"
  using reconcile_permitted [of r namespace name _ _ n q] assms unfolding server_sends_def by (metis Inr_inject prod.collapse)

lemma planned_unselected:
  assumes "planned r server plan" "claim \<in> set (plan_DataClaims plan)" "dcp_RequiredUID claim = []"
  shows "selectedData server = None"
proof (cases "selectedData server")
  case (Some selection)
  from assms(1) obtain d where "Build (gsr_Library r) server d = Inr plan" unfolding planned_def by blast
  from planned_selected [OF this Some assms(2)] assms(3) show ?thesis by simp
qed

lemma controlled_owner:
  assumes "requireControlledBy meta (serverOwner server) = None"
  shows "\<exists>owner. GetControllerOf meta = Some owner \<and> owner_Kind owner = ''GameServer'' \<and> owner_Name owner = serverName server \<and> owner_UID owner = serverUID server"
  using assms by (auto simp: requireControlledBy_def serverOwner_def guard_simps split: option.splits)

text \<open>From an evaluated run to a request it sent.\<close>

lemma wp_sends:
  assumes "wp (ReconcileGameServer r namespace name) (\<lambda>_ t. Q (set (ses_log t))) \<lparr> ses_calls = 0, ses_log = [] \<rparr>"
  shows "Q {(n, q). server_sends r namespace name n q}"
  using assms by (simp add: wp_def server_sends_def case_prod_beta)

section \<open>Plans\<close>

text \<open>
  C25. The plan of a server binds its selected world. There is one claim per persistent path of the adapter, in the order
  of the paths, each a retained claim in the server's namespace that no object owns and that carries the planned data
  identity. Where data is selected, the planned claims are exactly the selected ones by path, name and UID, under the
  selected identity; where none is, no claim is pinned to a UID and the identity is derived from the server's UID.
\<close>

theorem plan_binds_world:
  assumes "Build lib server d = Inr plan"
  shows "map claim_path (plan_DataClaims plan) = map pp_Name (def_PersistentPaths d) \<and>
    (\<forall>claim\<in>set (plan_DataClaims plan). meta_Namespace (pvc_Meta (dcp_Desired claim)) = meta_Namespace (gs_Meta server) \<and>
       meta_OwnerReferences (pvc_Meta (dcp_Desired claim)) = [] \<and> mget (meta_Labels (pvc_Meta (dcp_Desired claim))) LabelDataPolicy = ''retain'' \<and>
       mget (meta_Labels (pvc_Meta (dcp_Desired claim))) LabelDataIdentity = plan_DataIdentity plan) \<and>
    (case selectedData server of
       None \<Rightarrow> DataIdentity (meta_UID (gs_Meta server)) = Some (plan_DataIdentity plan) \<and> (\<forall>claim\<in>set (plan_DataClaims plan). dcp_RequiredUID claim = [])
     | Some selection \<Rightarrow> plan_DataIdentity plan = rdata_Identity selection \<and>
         (\<lambda>claim. (claim_path claim, meta_Name (pvc_Meta (dcp_Desired claim)), dcp_RequiredUID claim)) ` set (plan_DataClaims plan) =
         (\<lambda>c. (rclaim_Path c, ref_Name (rclaim_ClaimRef c), ref_UID (rclaim_ClaimRef c))) ` set (rdata_Claims selection) \<and>
         (\<forall>claim\<in>set (plan_DataClaims plan). dcp_RequiredUID claim \<noteq> []))"
proof (rule Build_claims [OF assms], intro conjI, goal_cases)
  case (1 references)
  show ?case by (rule planned_paths [OF 1(2)])
next
  case (2 references)
  then show ?case by (auto dest!: planned_each [OF 2(2)] simp: claim_planned_def)
next
  case (3 references)
  show ?case
  proof (cases "selectedData server")
    case None
    then show ?thesis using unselected_claims(1) [OF 3(1) None] planned_fresh [OF assms None] by simp
  next
    case (Some selection)
    then show ?thesis
      using selected_claims(1) [OF 3(1) Some] planned_selected [OF assms Some] selected_planned [OF assms Some] by (auto simp: image_iff) metis+
  qed
qed

theorem plan_binds_world_witness:
  "Build yLibrary (yServer DesiredStateRunning) yDefinition = Inr (yPlan DesiredStateRunning) \<and>
   map claim_path (plan_DataClaims (yPlan DesiredStateRunning)) = [''world''] \<and>
   DataIdentity ''u-server'' = Some (plan_DataIdentity (yPlan DesiredStateRunning))"
proof -
  have build: "Build yLibrary (yServer DesiredStateRunning) yDefinition = Inr (yPlan DesiredStateRunning)" by (rule y_build) simp
  have "selectedData (yServer DesiredStateRunning) = None" by (simp add: selectedData_def)
  with plan_binds_world [OF build] build show ?thesis by simp
qed

text \<open>
  C26. The workload of a plan mounts the world and nothing else that persists: its volumes are the planned claims, in
  order, and the configuration; the one game container mounts the claims writable, each at the adapter's mount path. It is
  one replica that is recreated, never rolled, it is owned by the server, and there is one only for a server that should
  run.
\<close>

theorem workload_mounts_world:
  assumes "Build lib server d = Inr plan" "plan_Workload plan = Some w"
  shows "wps_Volumes (dep_TemplateSpec w) =
      map (\<lambda>claim. \<lparr> wv_Name = claim_path claim, wv_Source = WorkloadClaim (meta_Name (pvc_Meta (dcp_Desired claim))) False \<rparr>) (plan_DataClaims plan) @
      [\<lparr> wv_Name = configurationVolumeName, wv_Source = WorkloadConfigMap (meta_Name (gs_Meta server) @ ''-configuration'') \<rparr>] \<and>
    map wc_VolumeMounts (wps_Containers (dep_TemplateSpec w)) =
      [map (\<lambda>p. \<lparr> vm_Name = pp_Name p, vm_MountPath = pp_MountPath p, vm_ReadOnly = False \<rparr>) (def_PersistentPaths d)] \<and>
    dep_Replicas w = Some 1 \<and> dep_Strategy w = ''Recreate'' \<and> meta_OwnerReferences (dep_Meta w) = [controllerReference server] \<and>
    gss_DesiredState (gs_Spec server) = DesiredStateRunning"
proof (rule Build_workload [OF assms], rule Build_claims [OF assms(1)], goal_cases)
  case (1 resolved files references)
  then show ?case
    using workloadVolumes_planned [OF planned_paths [OF 1(6)] Build_paths_distinct [OF assms(1)]]
    by (simp add: 1(1)) (simp add: buildWorkload_def gameContainer_def persistentMounts_def freshMeta_def)
qed

theorem workload_mounts_world_witness:
  "Build yLibrary (yServer DesiredStateRunning) yDefinition = Inr (yPlan DesiredStateRunning) \<and> plan_Workload (yPlan DesiredStateRunning) = Some yWorkload \<and>
   map wc_VolumeMounts (wps_Containers (dep_TemplateSpec yWorkload)) = [[\<lparr> vm_Name = ''world'', vm_MountPath = ''/factorio'', vm_ReadOnly = False \<rparr>]]"
proof -
  have build: "Build yLibrary (yServer DesiredStateRunning) yDefinition = Inr (yPlan DesiredStateRunning)" by (rule y_build) simp
  have workload: "plan_Workload (yPlan DesiredStateRunning) = Some yWorkload" by (simp add: yPlan_def Let_def)
  from workload_mounts_world [OF build workload] build workload show ?thesis by simp
qed

section \<open>Requests\<close>

text \<open>
  C1. A reconciliation never loses a world. It creates a claim only where no data was ever selected for the server; it
  changes an existing claim only after that claim was validated as the planned one, and then only by raising its storage
  request or by removing the evidence of an earlier cold backup; and whenever it touches a claim it has seen, in this run,
  that no data operation holds the world, that every planned claim is the selected one or absent where none is selected,
  and that no other claim carries the identity.
\<close>

theorem world_never_lost:
  assumes "vw_GameServer (gsr_Client r) 0 namespace name = Inr server" "server_sends r namespace name n q"
  shows "(\<forall>c. q = CreateClaim c \<longrightarrow> selectedData server = None \<and>
      (\<exists>plan. world_clear r server plan 1 n \<and> c \<in> dcp_Desired ` set (plan_DataClaims plan))) \<and>
    (\<forall>c. q = UpdateClaim c \<longrightarrow> (\<exists>plan claim existing size. world_clear r server plan 1 n \<and> claim \<in> set (plan_DataClaims plan) \<and>
      validateExistingDataClaim (gsr_Library r) existing claim = None \<and> sl_Cmp (gsr_Library r) (storageRequest existing) size < 0 \<and>
      c = existing\<lparr> scl_Requests := (scl_Requests existing)(ResourceStorage \<mapsto> size) \<rparr>)) \<and>
    (\<forall>old new. q = PatchClaim old new \<longrightarrow> (\<exists>plan claim. world_clear r server plan 1 n \<and> claim \<in> set (plan_DataClaims plan) \<and>
      validateExistingDataClaim (gsr_Library r) old claim = None \<and> new = unmarkedClaim old))"
proof -
  note ok = server_request_ok [OF assms, unfolded server_ok_def]
  have "selectedData server = None \<and> (\<exists>plan. world_clear r server plan 1 n \<and> c \<in> dcp_Desired ` set (plan_DataClaims plan))" if "q = CreateClaim c" for c
    using ok planned_unselected unfolding that ServerRequest.case world_clear_def by blast
  moreover have "\<exists>plan claim existing size. world_clear r server plan 1 n \<and> claim \<in> set (plan_DataClaims plan) \<and>
      validateExistingDataClaim (gsr_Library r) existing claim = None \<and> sl_Cmp (gsr_Library r) (storageRequest existing) size < 0 \<and>
      c = existing\<lparr> scl_Requests := (scl_Requests existing)(ResourceStorage \<mapsto> size) \<rparr>" if "q = UpdateClaim c" for c
    using ok unfolding that ServerRequest.case expandedClaim_def by blast
  moreover have "\<exists>plan claim. world_clear r server plan 1 n \<and> claim \<in> set (plan_DataClaims plan) \<and>
      validateExistingDataClaim (gsr_Library r) old claim = None \<and> new = unmarkedClaim old" if "q = PatchClaim old new" for old new
    using ok unfolding that ServerRequest.case by blast
  ultimately show ?thesis by blast
qed

theorem world_never_lost_witness:
  "server_sends (yReconciler DesiredStateRunning False False) ''games'' ''factory'' 8 (CreateClaim (dcp_Desired (yClaim DesiredStateRunning))) \<and>
   (\<exists>plan. world_clear (yReconciler DesiredStateRunning False False) (yServer DesiredStateRunning) plan 1 8)"
proof -
  have "server_sends (yReconciler DesiredStateRunning False False) ''games'' ''factory'' 8 (CreateClaim (dcp_Desired (yClaim DesiredStateRunning)))"
    using wp_sends [OF y_ready] by blast
  with world_never_lost [OF _ this, of "yServer DesiredStateRunning"] show ?thesis by auto
qed

text \<open>
  C3. Nothing of a runtime is created or applied unless this run has seen that the server may run: it should not be
  stopped, its plan was built, no data operation holds the world, every claim is usable, and the cold-backup evidence of
  every claim is gone. A Deployment is only created where none was seen and after every Pod and ReplicaSet that might
  still write to the world was seen to be gone; it is only applied over a Deployment that the server controls and that is
  not terminating.
\<close>

theorem runtime_start_gated:
  assumes "vw_GameServer (gsr_Client r) 0 namespace name = Inr server" "server_sends r namespace name n q"
  shows "case q of
      CreateServerConfigMap c \<Rightarrow> \<exists>plan. may_run r server plan 1 n \<and> plan_Configuration plan = Some c
    | UpdateServerConfigMap c \<Rightarrow> \<exists>plan. may_run r server plan 1 n
    | CreateDeployment d \<Rightarrow> \<exists>plan. may_run r server plan 1 n \<and> plan_Workload plan = Some d \<and>
        drained r server (wps_Volumes (dep_TemplateSpec d)) 1 n \<and>
        seen 1 n (\<lambda>k. vw_Deployment (runtimeReader r) k (meta_Namespace (dep_Meta d)) (meta_Name (dep_Meta d)) = Inl NotFound)
    | ApplyDeployment d \<Rightarrow> \<exists>plan workload existing. may_run r server plan 1 n \<and> plan_Workload plan = Some workload \<and>
        d = appliedDeployment workload existing \<and> seen 1 n (deployment_read r workload existing) \<and> controlled workload existing
    | CreateService s \<Rightarrow> \<exists>plan. may_run r server plan 1 n \<and> plan_PlayerService plan = Some s
    | ApplyService s \<Rightarrow> \<exists>plan. may_run r server plan 1 n \<and> plan_PlayerService plan = Some s
    | _ \<Rightarrow> True"
  using server_request_ok [OF assms] unfolding server_ok_def by (cases q) (simp_all, blast)

theorem runtime_start_gated_witness:
  "\<exists>n plan. server_sends (yReconciler DesiredStateRunning False False) ''games'' ''factory'' n (CreateDeployment yWorkload) \<and>
     may_run (yReconciler DesiredStateRunning False False) (yServer DesiredStateRunning) plan 1 n"
proof -
  obtain n where "server_sends (yReconciler DesiredStateRunning False False) ''games'' ''factory'' n (CreateDeployment yWorkload)"
    using wp_sends [OF y_ready] by blast
  with runtime_start_gated [OF _ this, of "yServer DesiredStateRunning"] show ?thesis by auto
qed

text \<open>
  C13. A server that is reported ready is serving: this run has seen that it may run, every planned claim bound at its
  capacity, the current workload, answered by its creation after a drain or applied and read back, with its one replica available
  and no terminal failure, and a Service whose load balancer published a certified endpoint for every player port. No other phase publishes endpoints
  or a true Ready condition.
\<close>

theorem ready_means_serving:
  assumes "vw_GameServer (gsr_Client r) 0 namespace name = Inr server" "server_sends r namespace name n (StatusServer s)"
  shows "(gst_Phase (gs_Status s) = PhaseReady \<longrightarrow> (\<exists>endpoints data. gst_Endpoints (gs_Status s) = canonicalEndpoints endpoints \<and> serving r server endpoints data 1 n)) \<and>
    (gst_Phase (gs_Status s) \<noteq> PhaseReady \<longrightarrow> gst_Endpoints (gs_Status s) = [] \<and>
       (\<forall>c\<in>set (gst_Conditions (gs_Status s)). cond_Type c = ''Ready'' \<longrightarrow> cond_Status c \<noteq> ConditionTrue))"
proof -
  from server_request_ok [OF assms] obtain phase progress endpoints data t where
    s: "s = server\<lparr> gs_Status := updatedStatus server phase progress endpoints data t \<rparr>" and ok: "status_ok r server 1 n phase progress endpoints data"
    unfolding server_ok_def ServerRequest.case by blast
  have ready: "cond_Status (canonicalCondition server progress t ''Ready'') = ConditionTrue \<longrightarrow> ready_reported progress"
    by (auto simp: canonicalCondition_def ready_reported_def Let_def split: option.splits)
  have conditions: "c = canonicalCondition server progress t ''Ready''" if "c \<in> set (canonicalConditions server progress t)" "cond_Type c = ''Ready''" for c
    using that unfolding canonicalConditions_def canonicalCondition_def Let_def by auto
  have fields: "gst_Phase (gs_Status s) = phase" "gst_Endpoints (gs_Status s) = canonicalEndpoints endpoints"
    "gst_Conditions (gs_Status s) = canonicalConditions server progress t" by (simp_all add: s updatedStatus_def Let_def)
  have "\<exists>endpoints' data'. canonicalEndpoints endpoints = canonicalEndpoints endpoints' \<and> serving r server endpoints' data' 1 n" if "phase = PhaseReady"
    using ok that unfolding status_ok_def by blast
  moreover have "canonicalEndpoints endpoints = [] \<and> (\<forall>c\<in>set (canonicalConditions server progress t). cond_Type c = ''Ready'' \<longrightarrow> cond_Status c \<noteq> ConditionTrue)" if "phase \<noteq> PhaseReady"
  proof
    have "endpoints = []" "\<not> ready_reported progress" using ok that unfolding status_ok_def by blast+
    then show "canonicalEndpoints endpoints = []" "\<forall>c\<in>set (canonicalConditions server progress t). cond_Type c = ''Ready'' \<longrightarrow> cond_Status c \<noteq> ConditionTrue"
      using ready conditions by (simp add: canonicalEndpoints_def, blast)
  qed
  ultimately show ?thesis unfolding fields by blast
qed

theorem ready_means_serving_witness:
  "\<exists>n s endpoints data. server_sends (yReconciler DesiredStateRunning False False) ''games'' ''factory'' n (StatusServer s) \<and>
     gst_Phase (gs_Status s) = PhaseReady \<and> serving (yReconciler DesiredStateRunning False False) (yServer DesiredStateRunning) endpoints data 1 n"
proof -
  obtain n progress endpoints where sent: "server_sends (yReconciler DesiredStateRunning False False) ''games'' ''factory'' n
      (StatusServer ((yServer DesiredStateRunning)\<lparr> gs_Status := updatedStatus (yServer DesiredStateRunning) PhaseReady progress endpoints (Some yData) 5 \<rparr>))"
    using wp_sends [OF y_ready] by blast
  let ?s = "(yServer DesiredStateRunning)\<lparr> gs_Status := updatedStatus (yServer DesiredStateRunning) PhaseReady progress endpoints (Some yData) 5 \<rparr>"
  have phase: "gst_Phase (gs_Status ?s) = PhaseReady" by (simp add: updatedStatus_def Let_def)
  have "vw_GameServer (gsr_Client (yReconciler DesiredStateRunning False False)) 0 ''games'' ''factory'' = Inr (yServer DesiredStateRunning)" by simp
  with ready_means_serving [OF this sent] phase sent show ?thesis by blast
qed

text \<open>
  C14. A server that is reported stopped is cold: it was asked to stop, its Deployment, configuration and Service were
  seen to be absent, and complete listings of claims, ReplicaSets and Pods showed that nothing may write to its world.
\<close>

theorem stopped_means_cold:
  assumes "vw_GameServer (gsr_Client r) 0 namespace name = Inr server" "server_sends r namespace name n (StatusServer s)"
    and "gst_Phase (gs_Status s) = PhaseStopped"
  shows "gss_DesiredState (gs_Spec server) = DesiredStateStopped \<and> runtime_absent r server 1 n"
  using server_request_ok [OF assms(1,2)] assms(3) unfolding server_ok_def status_ok_def
  by (auto simp: updatedStatus_def Let_def)

theorem stopped_means_cold_witness:
  "\<exists>n s. server_sends (yReconciler DesiredStateStopped True False) ''games'' ''factory'' n (StatusServer s) \<and> gst_Phase (gs_Status s) = PhaseStopped \<and>
     runtime_absent (yReconciler DesiredStateStopped True False) (yServer DesiredStateStopped) 1 n"
proof -
  obtain n s where sent: "server_sends (yReconciler DesiredStateStopped True False) ''games'' ''factory'' n (StatusServer s)" "gst_Phase (gs_Status s) = PhaseStopped"
    using wp_sends [OF y_stopped] by blast
  from stopped_means_cold [OF _ this, of "yServer DesiredStateStopped"] sent show ?thesis by auto
qed

text \<open>
  C24. A deletion is exact: it names one of the server's own three runtime objects, carries the UID and the resource
  version under which this run saw that object, and the object was controlled by this very server; a Deployment is
  deleted in the foreground, so that it is gone only after its Pods.
\<close>

theorem runtime_delete_exact:
  assumes "vw_GameServer (gsr_Client r) 0 namespace name = Inr server" "server_sends r namespace name n (DeleteRuntime kind ns name' uid version foreground)"
  shows "ns = serverNamespace server \<and> name' = runtimeName server kind \<and> foreground = (kind = RuntimeDeployment) \<and>
    (\<exists>meta volumes owner. seen 1 n (\<lambda>k. runtimeGet (runtimeReader r) k server kind = Inr (meta, volumes)) \<and> uid = meta_UID meta \<and>
       version = meta_ResourceVersion meta \<and> GetControllerOf meta = Some owner \<and> owner_Kind owner = ''GameServer'' \<and>
       owner_Name owner = serverName server \<and> owner_UID owner = serverUID server)"
  using server_request_ok [OF assms] controlled_owner unfolding server_ok_def ServerRequest.case by blast

theorem runtime_delete_exact_witness:
  "\<exists>n owner. server_sends (yReconciler DesiredStateStopped False True) ''games'' ''factory'' n
       (DeleteRuntime RuntimeDeployment ''games'' ''factory'' ''u-deployment'' ''9'' True) \<and> owner_UID owner = ''u-server'' \<and>
     (\<exists>meta. GetControllerOf meta = Some owner \<and> meta_UID meta = ''u-deployment'')"
proof -
  obtain n where sent: "server_sends (yReconciler DesiredStateStopped False True) ''games'' ''factory'' n
      (DeleteRuntime RuntimeDeployment ''games'' ''factory'' ''u-deployment'' ''9'' True)"
    using wp_sends [OF y_deleted] by blast
  have "vw_GameServer (gsr_Client (yReconciler DesiredStateStopped False True)) 0 ''games'' ''factory'' = Inr (yServer DesiredStateStopped)" by simp
  from runtime_delete_exact [OF this sent] have "\<exists>meta owner. GetControllerOf meta = Some owner \<and> meta_UID meta = ''u-deployment'' \<and> owner_UID owner = ''u-server''"
    unfolding y_server y_meta by metis
  with sent show ?thesis by blast
qed

end
