(* ===== verification/Spec2Isabelle.thy ===== *)
theory Spec2Isabelle
  imports TranslatorProps KubeDataProps DataOperationProps DataAdmissionProps CatalogProps RestoreWorkerErrors BackupWorkerExample WorkerPodProps GameDestroyAdmitted CanonicalJsonStable OperationProps
  GameServerProps
begin

text \<open>
  \<^bold>\<open>arcadectl\<close> runs game servers on Kubernetes and looks after their worlds: it backs a world up, restores it
  into fresh claims, and destroys it only with proof that it can be restored. This development models the
  parts of the program that decide about data and proves what makes those decisions safe.

  \<^bold>\<open>The program.\<close> Administrators send requests to an API (\<^verbatim>\<open>internal/apiserver\<close>), which records them as receipts;
  a translator turns receipts into the resources GameServer, GameBackup, GameRestore and GameDestroy
  (\<^verbatim>\<open>api/v1alpha1\<close>). Each resource has a controller (\<^verbatim>\<open>internal/controller\<close>) that is called again and again,
  reads the cluster, takes one step and records it in the status. Games are described by adapters
  (\<^verbatim>\<open>internal/games\<close>) in a catalog (\<^verbatim>\<open>internal/catalog\<close>), whose definitions \<^verbatim>\<open>internal/platform/game\<close>
  validates. Data moves only in worker Pods (\<^verbatim>\<open>internal/restoreworker\<close>, \<^verbatim>\<open>internal/backupworker\<close>), which the
  controllers build with \<^verbatim>\<open>internal/platform/kube\<close>, admit through scheduling gates and leases, and whose
  results they check. The rules that all data operations share are in \<^verbatim>\<open>internal/platform/data\<close>; the API
  server enforces the CEL rules of the resource types on every write. Everything that is hashed or compared
  across these parts goes through canonical encodings, among them \<^verbatim>\<open>internal/canonicaljson\<close>.

  \<^bold>\<open>Shared theories.\<close> \<open>Prelude\<close> holds machine integers (64-bit and 32-bit integers are words), Go's string
  functions, and chains of early returns (\<open>guard\<close>, \<open>first_error\<close>); \<open>GoLib\<close> the rest of the standard library that
  the code calls (paths, UTF-8, decimal numbers, JSON quoting, Base64); \<open>Sha256\<close> the hash function, with
  collisions stated for the two texts concerned; \<open>JsonDecoder\<close> the token stream of \<^verbatim>\<open>encoding/json\<close>;
  \<open>Effects\<close> the state monad with weakest preconditions in which stateful code is written; \<open>Sessions\<close> runs against
  an API server: the \<open>n\<close>-th call is answered from the \<open>n\<close>-th snapshot of a cluster that may change arbitrarily
  between any two calls, and every request is logged with its position; \<open>Guarded\<close> a Hoare logic for such runs, in
  which a request is permitted by what the run has seen before it; \<open>Interfaces\<close> the locales. An error of the code is a value: \<open>Inl\<close> of a sum, \<open>None\<close>, or \<open>Some\<close> error.

  \<^bold>\<open>Interfaces.\<close> \<open>phase_machine\<close> is what every phase machine promises (a rank that grows with each step and final
  phases that stay): interpreted for backups, restores (\<open>DataOperationProps\<close>) and destroys
  (\<open>GameDestroyProps\<close>). \<open>digest_identity\<close> is what a name derived from a digest promises (length, DNS syntax,
  equality only of equal subjects up to a collision): interpreted for candidate claims and artifacts (\<open>DataStatusProps\<close>), rendered
  settings (\<open>GameProps\<close>), leases and worker Jobs (\<open>KubeDestroyProps\<close>). \<open>definition_catalog\<close> is what a catalog promises
  its clients: interpreted for \<^verbatim>\<open>internal/catalog\<close> in \<open>Catalog\<close>.

  \<^bold>\<open>Data operations\<close> (\<^verbatim>\<open>platform/data/operation.go\<close>). \<open>ApiTypes\<close> has the resource types as records and datatypes,
  \<open>DataOperation\<close> every function of the file. \<open>DataOperationProps\<close>: whatever phases are written, a restore
  succeeds only after running, verifying and activating, an activated restore ends in success or in a
  rollback, progress is bounded, and every phase can settle. \<open>DataStatusProps\<close>: an accepted status of a finished
  restore serves exactly the candidate claims, or exactly the previous ones. \<open>Admission\<close> and \<open>DataAdmissionProps\<close>:
  the CEL rules between fields, and that they admit every settled status that the validators accept, for a restore
  with its preflight and activation on record.

  \<^bold>\<open>Games\<close> (\<^verbatim>\<open>platform/game\<close>, \<^verbatim>\<open>games\<close>, \<^verbatim>\<open>catalog\<close>). \<open>GameDefinition\<close> and \<open>Catalog\<close> model validation, settings and
  versions; \<open>GameProps\<close> and \<open>CatalogProps\<close> show that mounts are disjoint, that rendered files are exactly the
  declared ones, that digests and image references identify what they name, and that the production catalog
  serves exactly its adapters.

  \<^bold>\<open>Backup and restore of files\<close> (\<^verbatim>\<open>platform/data/backup_manifest.go\<close>, \<^verbatim>\<open>backupworker\<close>,
  \<^verbatim>\<open>restoreworker\<close>). \<open>BackupManifest\<close> walks a file tree into a manifest; \<open>BackupWorker\<close> is the worker that stores the
  tree and verifies what it stored, \<open>RestoreWorker\<close> the one with its input, the inventory of the repository, the
  reading and the writing of files, as programs over a world that may answer anything. \<open>JsonQuote\<close>,
  \<open>ManifestCodec\<close> and \<open>PathProps\<close> show that the manifest encoding is injective; the locale of \<open>InventoryProps\<close>, interpreted
  on both workers, that a verified listing holds exactly the demanded paths; \<open>RestoreWorkerProps\<close> that a
  successful run has read back, and in the populate stage written, exactly the trees that were backed up;
  \<open>BackupWorkerProps\<close> that a successful backup has read every file back from a source that stayed the same, and
  that the two workers together bring the backed-up trees into the candidate; \<open>RestoreWorkerErrors\<close> which step of a
  restore run stops it and that the reported kind of failure is the one of that step.

  \<^bold>\<open>Workers of backups and restores\<close> (\<^verbatim>\<open>platform/kube/backup.go\<close>, \<^verbatim>\<open>platform/kube/restore.go\<close>). \<open>KubeBackup\<close> and
  \<open>KubeRestore\<close> build the Jobs of the workers with their authority; \<open>KubeDataProps\<close> shows that a backup mounts the
  world read-only, that a restore mounts nothing but its fresh candidates, and that neither may change more than its lease.

  \<^bold>\<open>Destroying a world\<close> (\<^verbatim>\<open>gamedestroy_controller.go\<close>, \<^verbatim>\<open>platform/kube/destroy.go\<close>). \<open>KubeTypes\<close>, \<open>WorkerPods\<close> and
  \<open>KubeDestroy\<close> model the worker and its resources, \<open>KubeClient\<close> the calls to the API server, and
  \<open>GameDestroyController\<close> the whole reconciler.
  \<open>GameDestroySpec\<close> is the abstract specification: the steps that a destroy may take and the observations each
  needs. \<open>GameDestroyReads\<close> and \<open>GameDestroyRefine\<close> prove the refinement, \<open>Admission\<close> and
  \<open>GameDestroyLife\<close> the invariant of its life under arbitrary accepted edits, and \<open>GameDestroyProps\<close>,
  \<open>GameDestroyBounds\<close>, \<open>DataSelectionProps\<close>, \<open>KubeDestroyProps\<close>, \<open>WorkerPodProps\<close> and \<open>ChallengeProps\<close> the
  properties: a claim is deleted only by exact identity, journaled, under the lease and with the world proved
  cold in the same reconciliation; a stored worker Job is the requested one up to the API server's defaults.
  \<open>GameDestroyAdmitted\<close> has the markers on the fields of the resource and shows that the API server accepts every
  status that the controller writes. \<open>GameDestroyExample\<close> runs the model on concrete clusters.

  \<^bold>\<open>Running a server\<close> (\<^verbatim>\<open>gameserver_controller.go\<close>, \<^verbatim>\<open>gameserver_runtime_drain.go\<close>, \<^verbatim>\<open>status.go\<close>,
  \<^verbatim>\<open>cold_backup_marker.go\<close>, \<^verbatim>\<open>platform/kube/plan.go\<close>). \<open>ServerTypes\<close> has the Kubernetes objects, \<open>ServerPlan\<close> the
  planner, \<open>GameServerRuntime\<close> conditions, status writes and the drain, \<open>ServerFence\<close> the leases and receipts that
  keep a server from its world, \<open>ServerStorage\<close> the retained claims, and \<open>GameServerController\<close> the reconciler;
  \<^verbatim>\<open>Reconcile\<close> is cut into the stages between its early returns. \<open>GameServerSpec\<close> states what must have been seen
  before a request may be sent, \<open>GameServerGates\<close> proves it for every operation and composes the proofs along the
  control flow, and \<open>ServerPlanProps\<close> and \<open>GameServerProps\<close> draw the conclusions: a world is never recreated or
  replaced, a runtime starts only on a free, complete and drained world, \<^verbatim>\<open>Ready\<close> means serving, \<^verbatim>\<open>Stopped\<close> means
  cold, deletions are exact, and the plan mounts exactly the selected world. \<open>GameServerExample\<close> runs a Factorio
  server from an empty cluster to players.

  \<^bold>\<open>Requests\<close> (\<^verbatim>\<open>internal/receiptid\<close>, \<^verbatim>\<open>internal/operations/contract.go\<close>). \<open>Receipts\<close> and \<open>Operations\<close> model the names of
  receipts, the validation of requests and their digests; \<open>ReceiptProps\<close> and \<open>OperationProps\<close> show that a request
  is bound to the object it names and that names and digests identify it.

  \<^bold>\<open>Carrying requests out\<close> (\<^verbatim>\<open>arcadeoperation_controller.go\<close>, \<^verbatim>\<open>arcadeoperation_server.go\<close>, \<^verbatim>\<open>arcadeoperation_data.go\<close>).
  The translator reads a receipt, plans it once, and then follows the plan. \<open>TranslatorPlan\<close> has the status writes and
  the plan of every action, \<open>TranslatorServer\<close> fences, journaled steps and the creation of servers, \<open>TranslatorData\<close>
  children, commands and \<^verbatim>\<open>Reconcile\<close>. \<open>TranslatorSpec\<close> states what a request rests on, \<open>TranslatorGates\<close> proves it for every
  request of a run, and \<open>TranslatorProps\<close> concludes: a server is changed only by a journaled step on the planned world
  under its fence, deleted only cold and with its world on record, a destruction confirmed only as previewed, the
  record of a receipt only grows, success is observed, a fence is given up exactly, and the GameServer controller carries
  out what the translator asked for. \<open>TranslatorExample\<close> runs receipts for the Factorio server.

  \<^bold>\<open>Canonical JSON\<close> (\<^verbatim>\<open>canonicaljson/json.go\<close>). \<open>CanonicalJson\<close> models the package; \<open>CanonicalNumber\<close> shows that
  numbers keep their exact value, \<open>CanonicalJsonBudget\<close> that the output budget is exact, \<open>JsonStrings\<close> and
  \<open>CanonicalJsonStable\<close> that canonical bytes are a fixed point and identify values.

  \<^bold>\<open>Bounds.\<close> All recursion is structural or has a termination proof. Three loops count rounds: the search for a
  missing parent in the restore worker and the addition of parents in both workers, bounded by the length of the
  path (\<open>addAncestors_enough\<close>),
  and trimming of spaces, bounded by the length of the text; the decoding loops of canonical JSON are bounded by
  the rest of the input, and \<open>run_decode\<close> shows that the bound is never reached.

  \<^bold>\<open>Parameters.\<close> Code outside the repository is a parameter: the file system and restic (\<open>WorkerEnv\<close>, \<open>BackupEnv\<close>), the API
  server and the clock (fields of \<open>GameDestroyReconciler\<close>, \<open>GameServerReconciler\<close> and \<open>ArcadeOperationReconciler\<close>), Kubernetes name validation and
  quantities (\<open>ServerLibrary\<close>), the decoders and encoders of typed JSON documents (\<open>OperationsEnv\<close>), \<^verbatim>\<open>url.Parse\<close> and
  compiled regular expressions (\<open>GameLibrary\<close>). What a property needs of them is
  among its assumptions.

  \<^bold>\<open>Not modelled.\<close> The reconcilers of GameBackup and GameRestore, of which only the parts shared with the
  other controllers are here; the authorizers of the workers; the HTTP API, its credentials and client; image
  resolution; the command line; the installer, which is most of the tree and independent of the data
  plane; generated code. Concurrency within one process is not modelled: controllers are called one at a time
  for an object, and other actors appear as the arbitrary changes of the cluster.
\<close>

end
